(* ===== verification/Js_Prelude.thy ===== *)
theory Js_Prelude
  imports Main "HOL-Library.Char_ord" "HOL-Library.Sublist"
begin

text \<open>
  Shared vocabulary of the development: the JavaScript \<open>String\<close> and number
  operations the bundle \<^verbatim>\<open>remark.js\<close> calls, over strings as lists of
  characters, and the lemmas about them that the components share.

  A JavaScript string is a sequence of UTF-16 code units. The development works with
  the code units 0 to 255 (Isabelle's type \<^typ>\<open>char\<close>, i.e. Latin-1), so that
  \<open>length\<close>, indices and substrings count exactly what JavaScript counts on such
  strings. An index that JavaScript reports as \<open>-1\<close> is \<open>None\<close>.

  Collections of facts: \<open>js_simps\<close> holds the unfolding rules for the string
  operations, \<open>rx_simps\<close> those of the regular expression matcher.
\<close>

named_theorems js_simps
named_theorems rx_simps

subsection \<open>Characters\<close>

abbreviation code :: "char \<Rightarrow> nat" where
  "code c \<equiv> (of_char c :: nat)"

abbreviation BSL :: char where
  "BSL \<equiv> CHR 0x5C"

abbreviation NL :: char where
  "NL \<equiv> CHR 0x0A"

abbreviation CR :: char where
  "CR \<equiv> CHR 0x0D"

definition in_range :: "char \<Rightarrow> char \<Rightarrow> char \<Rightarrow> bool" where
  "in_range a b c \<longleftrightarrow> code a \<le> code c \<and> code c \<le> code b"

text \<open>\<open>WhiteSpace\<close> and \<open>LineTerminator\<close> of the language, restricted to Latin-1:
  tab, line feed, vertical tab, form feed, carriage return, space, no-break space.\<close>

definition is_space :: "char \<Rightarrow> bool" where
  "is_space c \<longleftrightarrow> c \<in> {CHR 0x09, CHR 0x0A, CHR 0x0B, CHR 0x0C, CHR 0x0D, CHR '' '', CHR 0xA0}"

definition is_digit :: "char \<Rightarrow> bool" where
  "is_digit c \<longleftrightarrow> in_range (CHR ''0'') (CHR ''9'') c"

definition is_word :: "char \<Rightarrow> bool" where
  "is_word c \<longleftrightarrow> in_range (CHR ''a'') (CHR ''z'') c \<or> in_range (CHR ''A'') (CHR ''Z'') c \<or>
     is_digit c \<or> c = CHR ''_''"

definition is_upper :: "char \<Rightarrow> bool" where
  "is_upper c \<longleftrightarrow> in_range (CHR ''A'') (CHR ''Z'') c \<or>
     (in_range (CHR 0xC0) (CHR 0xDE) c \<and> c \<noteq> CHR 0xD7)"

definition is_lower :: "char \<Rightarrow> bool" where
  "is_lower c \<longleftrightarrow> in_range (CHR ''a'') (CHR ''z'') c \<or>
     (in_range (CHR 0xE0) (CHR 0xFE) c \<and> c \<noteq> CHR 0xF7)"

definition char_lower :: "char \<Rightarrow> char" where
  "char_lower c = (if is_upper c then char_of (code c + 32) else c)"

definition char_upper :: "char \<Rightarrow> char" where
  "char_upper c = (if is_lower c then char_of (code c - 32) else c)"

subsection \<open>String methods\<close>

definition toLowerCase :: "string \<Rightarrow> string" where
  "toLowerCase s = map char_lower s"

definition trim_left :: "string \<Rightarrow> string" where
  "trim_left s = dropWhile is_space s"

definition trim :: "string \<Rightarrow> string" where
  "trim s = rev (dropWhile is_space (rev (dropWhile is_space s)))"

text \<open>\<open>indexOf\<close>: the first position at which the pattern occurs.\<close>

fun indexOf :: "string \<Rightarrow> string \<Rightarrow> nat option" where
  "indexOf [] pat = (if pat = [] then Some 0 else None)"
| "indexOf (c # cs) pat =
     (if prefix pat (c # cs) then Some 0 else map_option Suc (indexOf cs pat))"

text \<open>\<open>split\<close> by a single character separator: a non-empty list of the pieces between
  separators.\<close>

fun split_char :: "char \<Rightarrow> string \<Rightarrow> string list" where
  "split_char d [] = [[]]"
| "split_char d (c # cs) =
     (if c = d then [] # split_char d cs
      else (case split_char d cs of [] \<Rightarrow> [[c]] | w # ws \<Rightarrow> (c # w) # ws))"

text \<open>\<open>join\<close> of an array of strings.\<close>

fun join :: "string \<Rightarrow> string list \<Rightarrow> string" where
  "join sep [] = []"
| "join sep [w] = w"
| "join sep (w # v # ws) = w @ sep @ join sep (v # ws)"

text \<open>\<open>replace\<close> with a string pattern: only the first occurrence changes.\<close>

definition replace_first :: "string \<Rightarrow> string \<Rightarrow> string \<Rightarrow> string" where
  "replace_first pat new s =
     (case indexOf s pat of
        None \<Rightarrow> s
      | Some i \<Rightarrow> take i s @ new @ drop (i + length pat) s)"

text \<open>\<open>replace\<close> with a regular expression of one literal character and the flag
  \<open>g\<close>: every occurrence changes.\<close>

definition replace_all :: "char \<Rightarrow> string \<Rightarrow> string \<Rightarrow> string" where
  "replace_all c new s = concat (map (\<lambda>d. if d = c then new else [d]) s)"

subsection \<open>Numbers as strings\<close>

definition digit_char :: "nat \<Rightarrow> char" where
  "digit_char d = char_of (48 + d)"

definition digit_val :: "char \<Rightarrow> nat" where
  "digit_val c = code c - 48"

fun nat_str :: "nat \<Rightarrow> string" where
  "nat_str n = (if n < 10 then [digit_char n] else nat_str (n div 10) @ [digit_char (n mod 10)])"

declare nat_str.simps [simp del]

definition int_str :: "int \<Rightarrow> string" where
  "int_str i = (if i < 0 then ''-'' @ nat_str (nat (- i)) else nat_str (nat i))"

fun digits_val :: "nat \<Rightarrow> string \<Rightarrow> nat" where
  "digits_val acc [] = acc"
| "digits_val acc (c # cs) = digits_val (10 * acc + digit_val c) cs"

text \<open>\<open>parseInt(s, 10)\<close>: skips leading white space, reads an optional sign and the
  longest run of digits; \<open>None\<close> is \<open>NaN\<close>.\<close>

definition parse_digits :: "string \<Rightarrow> nat option" where
  "parse_digits s =
     (let ds = takeWhile is_digit s in if ds = [] then None else Some (digits_val 0 ds))"

definition parseInt :: "string \<Rightarrow> int option" where
  "parseInt s =
     (case trim_left s of
        [] \<Rightarrow> None
      | c # cs \<Rightarrow>
          if c = CHR ''-'' then map_option (\<lambda>n. - int n) (parse_digits cs)
          else if c = CHR ''+'' then map_option int (parse_digits cs)
          else map_option int (parse_digits (c # cs)))"

subsection \<open>Lemmas on strings\<close>

lemma split_char_not_Nil [simp]: "split_char d s \<noteq> []"
  by (cases s) (auto split: list.splits)

lemma join_Cons: "ws \<noteq> [] \<Longrightarrow> join sep (w # ws) = w @ sep @ join sep ws"
  by (cases ws) auto

lemma join_split_char [simp]: "join [d] (split_char d s) = s"
proof (induction s)
  case (Cons c s)
  then show ?case
    by (cases "split_char d s"; cases "tl (split_char d s)") (auto simp: join_Cons)
qed simp

lemma split_char_append:
  "d \<notin> set w \<Longrightarrow> split_char d (w @ d # s) = w # split_char d s"
  by (induction w) auto

lemma split_char_single: "d \<notin> set w \<Longrightarrow> split_char d w = [w]"
  by (induction w) auto

lemma split_char_join:
  "ws \<noteq> [] \<Longrightarrow> (\<And>w. w \<in> set ws \<Longrightarrow> d \<notin> set w) \<Longrightarrow> split_char d (join [d] ws) = ws"
  by (induction "[d]" ws rule: join.induct) (auto simp: split_char_single split_char_append)

lemma split_char_pieces: "w \<in> set (split_char d s) \<Longrightarrow> d \<notin> set w"
  by (induction s arbitrary: w) (auto split: if_splits list.splits)

lemma join_append:
  "xs \<noteq> [] \<Longrightarrow> ys \<noteq> [] \<Longrightarrow> join sep (xs @ ys) = join sep xs @ sep @ join sep ys"
  by (induction sep xs rule: join.induct) (auto simp: join_Cons)

lemma indexOf_Some:
  "indexOf s pat = Some i \<Longrightarrow> s = take i s @ pat @ drop (i + length pat) s \<and> i + length pat \<le> length s"
proof (induction s arbitrary: i)
  case (Cons c s)
  show ?case
  proof (cases "prefix pat (c # s)")
    case True
    then show ?thesis
      using Cons.prems prefix_length_le [of pat "c # s"] by (auto simp: prefix_def)
  next
    case False
    then obtain j where "i = Suc j" "indexOf s pat = Some j"
      using Cons.prems by auto
    with Cons.IH show ?thesis by force
  qed
qed (auto split: if_splits)

lemma indexOf_None: "indexOf s pat = None \<Longrightarrow> \<not> sublist pat s"
  by (induction s) (auto simp: sublist_Cons_right split: if_splits)

lemma replace_all_append [simp]: "replace_all c new (s @ t) = replace_all c new s @ replace_all c new t"
  by (simp add: replace_all_def)

lemma replace_all_Nil [simp]: "replace_all c new [] = []"
  by (simp add: replace_all_def)

lemma replace_all_Cons: "replace_all c new (d # s) = (if d = c then new else [d]) @ replace_all c new s"
  by (simp add: replace_all_def)

lemma replace_all_id: "c \<notin> set s \<Longrightarrow> replace_all c new s = s"
  by (induction s) (auto simp: replace_all_Cons)

lemma replace_all_gone: "c \<notin> set new \<Longrightarrow> c \<notin> set (replace_all c new s)"
  by (induction s) (auto simp: replace_all_Cons)

lemma trim_no_space: "(\<And>c. c \<in> set s \<Longrightarrow> \<not> is_space c) \<Longrightarrow> trim s = s"
proof -
  assume *: "\<And>c. c \<in> set s \<Longrightarrow> \<not> is_space c"
  have "dropWhile is_space t = t" if "set t = set s" for t
    using * that by (cases t) auto
  then show ?thesis by (simp add: trim_def)
qed

subsection \<open>Lemmas on numbers\<close>

lemma code_digit_char: "d < 10 \<Longrightarrow> code (digit_char d) = 48 + d"
  by (simp add: digit_char_def)

lemma digit_char_digit: "d < 10 \<Longrightarrow> is_digit (digit_char d)"
  by (simp add: is_digit_def in_range_def code_digit_char)

lemma digit_val_digit_char: "d < 10 \<Longrightarrow> digit_val (digit_char d) = d"
  by (simp add: digit_val_def code_digit_char)

lemma digit_not_special:
  "is_digit c \<Longrightarrow> \<not> is_space c \<and> c \<noteq> CHR ''-'' \<and> c \<noteq> CHR ''+''"
  by (auto simp: is_digit_def in_range_def is_space_def)

lemma digits_val_append: "digits_val acc (xs @ [c]) = 10 * digits_val acc xs + digit_val c"
  by (induction xs arbitrary: acc) auto

lemma nat_str_digits: "c \<in> set (nat_str n) \<Longrightarrow> is_digit c"
proof (induction n rule: nat_str.induct)
  case (1 n)
  then show ?case
    by (subst (asm) (2) nat_str.simps) (auto simp: digit_char_digit split: if_splits)
qed

lemma nat_str_not_Nil [simp]: "nat_str n \<noteq> []"
  by (subst nat_str.simps) simp

lemma digits_val_nat_str: "digits_val 0 (nat_str n) = n"
proof (induction n rule: nat_str.induct)
  case (1 n)
  then show ?case
    by (subst nat_str.simps) (auto simp: digits_val_append digit_val_digit_char)
qed

lemma parse_digits_nat_str [simp]: "parse_digits (nat_str n) = Some n"
proof -
  have "takeWhile is_digit (nat_str n) = nat_str n"
    by (simp add: takeWhile_eq_all_conv nat_str_digits)
  then show ?thesis
    by (simp only: parse_digits_def Let_def digits_val_nat_str nat_str_not_Nil if_False)
qed

lemma hd_nat_str: "nat_str n = c # cs \<Longrightarrow> is_digit c"
  using nat_str_digits [of c n] by simp

text \<open>\<open>parseInt\<close> undoes the conversion of an integer to a string.\<close>

theorem parseInt_int_str: "parseInt (int_str i) = Some i"
proof (cases "i < 0")
  case True
  then show ?thesis
    by (simp add: parseInt_def int_str_def trim_left_def is_space_def)
next
  case False
  obtain c cs where c: "nat_str (nat i) = c # cs"
    by (cases "nat_str (nat i)") auto
  then have "is_digit c" by (rule hd_nat_str)
  then have "\<not> is_space c" "c \<noteq> CHR ''-''" "c \<noteq> CHR ''+''"
    using digit_not_special by auto
  then show ?thesis
    using False c parse_digits_nat_str [of "nat i"]
    by (simp add: parseInt_def int_str_def trim_left_def)
qed

lemma int_str_inj: "int_str i = int_str j \<Longrightarrow> i = j"
  by (metis option.inject parseInt_int_str)

end
