(* ===== verification/Js_Regex.thy ===== *)
theory Js_Regex
  imports Js_Prelude
begin

text \<open>
  JavaScript regular expressions, as much of them as the bundle uses: the syntax tree of a
  pattern, the backtracking matcher of the language standard (a matcher takes a
  continuation and a state, the first success in priority order wins), \<open>RegExp.exec\<close>
  as a search over start positions, and the string methods built on it
  (\<open>replace\<close>, \<open>split\<close>, \<open>match\<close>, \<open>test\<close>).

  The loop of a quantifier is bounded by fuel; \<open>rx_m_Rep\<close> shows that the fuel
  chosen by the matcher is always enough, so that the matcher satisfies the standard's own
  fuel-free equation. \<open>rx_m_alts\<close> relates the matcher to a reference definition, the
  list of all matches in priority order.
\<close>

subsection \<open>Patterns\<close>

datatype cls_item =
    CChar char
  | CRange char char
  | CDigit bool
  | CWord bool
  | CSpace bool
  | CNever

text \<open>
  The boolean of \<open>CDigit\<close>, \<open>CWord\<close>, \<open>CSpace\<close> is false for the complement
  (\<^verbatim>\<open>\D\<close>, \<^verbatim>\<open>\W\<close>, \<^verbatim>\<open>\S\<close>); \<open>CNever\<close> stands for an escape that
  denotes a code unit above 255. \<open>Cls neg items\<close> is a character class, negated if
  \<open>neg\<close>; \<open>Rep lo hi greedy r\<close> a quantifier; \<open>Look pos r\<close> a lookahead.
\<close>

datatype rx =
    Eps
  | Cls bool "cls_item list"
  | Seq rx rx
  | Alt rx rx
  | Rep nat "nat option" bool rx
  | Group nat rx
  | BackRef nat
  | Bol
  | Eol
  | WordB bool
  | Look bool rx

primrec item_ok :: "cls_item \<Rightarrow> char \<Rightarrow> bool" where
  "item_ok (CChar a) c \<longleftrightarrow> c = a"
| "item_ok (CRange a b) c \<longleftrightarrow> in_range a b c"
| "item_ok (CDigit p) c \<longleftrightarrow> is_digit c = p"
| "item_ok (CWord p) c \<longleftrightarrow> is_word c = p"
| "item_ok (CSpace p) c \<longleftrightarrow> is_space c = p"
| "item_ok CNever c \<longleftrightarrow> False"

text \<open>With the flag \<open>i\<close> a class contains a character if it contains either case.\<close>

definition cls_ok :: "bool \<Rightarrow> bool \<Rightarrow> cls_item list \<Rightarrow> char \<Rightarrow> bool" where
  "cls_ok ic neg items c \<longleftrightarrow>
     (list_ex (\<lambda>it. item_ok it c \<or> (ic \<and> (item_ok it (char_lower c) \<or> item_ok it (char_upper c)))) items) \<noteq> neg"

text \<open>The capture groups of a pattern, in order of their opening parenthesis.\<close>

primrec rx_groups :: "rx \<Rightarrow> nat list" where
  "rx_groups Eps = []"
| "rx_groups (Cls neg items) = []"
| "rx_groups (Seq a b) = rx_groups a @ rx_groups b"
| "rx_groups (Alt a b) = rx_groups a @ rx_groups b"
| "rx_groups (Rep lo hi g r) = rx_groups r"
| "rx_groups (Group n r) = n # rx_groups r"
| "rx_groups (BackRef n) = []"
| "rx_groups Bol = []"
| "rx_groups Eol = []"
| "rx_groups (WordB p) = []"
| "rx_groups (Look p r) = rx_groups r"

subsection \<open>Matching\<close>

text \<open>
  A state is the input already passed (reversed), the input to come, and the captures
  (\<open>None\<close> is \<open>undefined\<close>). Flags are \<open>i\<close> and \<open>m\<close>; \<open>g\<close> concerns
  only the callers of the matcher.
\<close>

type_synonym caps = "string option list"

record rx_state =
  pre :: string
  rest :: string
  rcaps :: caps

record rx_flags =
  ignoreCase :: bool
  multiline :: bool

abbreviation no_flags :: rx_flags where
  "no_flags \<equiv> \<lparr>ignoreCase = False, multiline = False\<rparr>"

type_synonym rx_cont = "rx_state \<Rightarrow> rx_state option"

definition at_bol :: "rx_flags \<Rightarrow> rx_state \<Rightarrow> bool" where
  "at_bol f s \<longleftrightarrow> (case pre s of [] \<Rightarrow> True | c # _ \<Rightarrow> multiline f \<and> (c = NL \<or> c = CR))"

definition at_eol :: "rx_flags \<Rightarrow> rx_state \<Rightarrow> bool" where
  "at_eol f s \<longleftrightarrow> (case rest s of [] \<Rightarrow> True | c # _ \<Rightarrow> multiline f \<and> (c = NL \<or> c = CR))"

definition hd_word :: "string \<Rightarrow> bool" where
  "hd_word xs \<longleftrightarrow> (case xs of [] \<Rightarrow> False | c # _ \<Rightarrow> is_word c)"

definition at_word_boundary :: "rx_state \<Rightarrow> bool" where
  "at_word_boundary s \<longleftrightarrow> hd_word (pre s) \<noteq> hd_word (rest s)"

definition get_cap :: "caps \<Rightarrow> nat \<Rightarrow> string option" where
  "get_cap cs n = (if n < length cs then cs ! n else None)"

definition reset_caps :: "nat list \<Rightarrow> caps \<Rightarrow> caps" where
  "reset_caps gs cs = fold (\<lambda>g cs. cs[g := None]) gs cs"

text \<open>Comparison of a captured string with the input, modulo case under the flag \<open>i\<close>.\<close>

fun strip_prefix_ci :: "bool \<Rightarrow> string \<Rightarrow> string \<Rightarrow> string \<Rightarrow> (string \<times> string) option" where
  "strip_prefix_ci ic p [] xs = Some (p, xs)"
| "strip_prefix_ci ic p (w # ws) [] = None"
| "strip_prefix_ci ic p (w # ws) (x # xs) =
     (if w = x \<or> (ic \<and> char_upper w = char_upper x) then strip_prefix_ci ic (x # p) ws xs else None)"

text \<open>The continuation that records a group, and the one that ends an iteration of a
  quantifier: an iteration beyond the minimum that consumed nothing fails.\<close>

definition set_group :: "nat \<Rightarrow> string \<Rightarrow> rx_state \<Rightarrow> rx_state" where
  "set_group n xs t = t\<lparr>rcaps := (rcaps t)[n := Some (take (length xs - length (rest t)) xs)]\<rparr>"

definition group_k :: "nat \<Rightarrow> string \<Rightarrow> rx_cont \<Rightarrow> rx_cont" where
  "group_k n xs k t = k (set_group n xs t)"

definition again_k :: "nat \<Rightarrow> string \<Rightarrow> rx_cont \<Rightarrow> rx_cont" where
  "again_k lo xs k y = (if lo = 0 \<and> length (rest y) = length xs then None else k y)"

definition pred_opt :: "nat option \<Rightarrow> nat option" where
  "pred_opt hi = map_option (\<lambda>h. h - 1) hi"

text \<open>The standard's \<open>RepeatMatcher\<close>, with fuel for its recursion.\<close>

fun rep_m :: "(rx_cont \<Rightarrow> rx_cont) \<Rightarrow> nat list \<Rightarrow> bool \<Rightarrow> nat \<Rightarrow> nat \<Rightarrow> nat option \<Rightarrow> rx_cont \<Rightarrow> rx_cont" where
  "rep_m mt gs g 0 lo hi k s = None"
| "rep_m mt gs g (Suc n) lo hi k s =
     (if hi = Some 0 then k s
      else
        let again = again_k lo (rest s) (rep_m mt gs g n (lo - 1) (pred_opt hi) k);
            s' = s\<lparr>rcaps := reset_caps gs (rcaps s)\<rparr>
        in if lo \<noteq> 0 then mt again s'
           else if g then (case mt again s' of None \<Rightarrow> k s | Some z \<Rightarrow> Some z)
           else (case k s of None \<Rightarrow> mt again s' | Some z \<Rightarrow> Some z))"

text \<open>The matcher of a pattern.\<close>

primrec rx_m :: "rx_flags \<Rightarrow> rx \<Rightarrow> rx_cont \<Rightarrow> rx_cont" where
  "rx_m f Eps k s = k s"
| "rx_m f (Cls neg items) k s =
     (case rest s of
        [] \<Rightarrow> None
      | c # cs \<Rightarrow> if cls_ok (ignoreCase f) neg items c then k (s\<lparr>pre := c # pre s, rest := cs\<rparr>) else None)"
| "rx_m f (Seq a b) k s = rx_m f a (rx_m f b k) s"
| "rx_m f (Alt a b) k s = (case rx_m f a k s of None \<Rightarrow> rx_m f b k s | Some z \<Rightarrow> Some z)"
| "rx_m f (Rep lo hi g r) k s =
     rep_m (rx_m f r) (rx_groups r) g (Suc (lo + length (rest s))) lo hi k s"
| "rx_m f (Group n r) k s =
     rx_m f r (group_k n (rest s) k) s"
| "rx_m f (BackRef n) k s =
     (case get_cap (rcaps s) n of
        None \<Rightarrow> k s
      | Some w \<Rightarrow>
          (case strip_prefix_ci (ignoreCase f) (pre s) w (rest s) of
             None \<Rightarrow> None
           | Some (p, xs) \<Rightarrow> k (s\<lparr>pre := p, rest := xs\<rparr>)))"
| "rx_m f Bol k s = (if at_bol f s then k s else None)"
| "rx_m f Eol k s = (if at_eol f s then k s else None)"
| "rx_m f (WordB p) k s = (if at_word_boundary s = p then k s else None)"
| "rx_m f (Look p r) k s =
     (case rx_m f r Some s of
        None \<Rightarrow> if p then None else k s
      | Some t \<Rightarrow> if p then k (s\<lparr>rcaps := rcaps t\<rparr>) else None)"

subsection \<open>RegExp.exec\<close>

text \<open>
  A compiled expression: the pattern, its number of groups, its flags. A match gives the
  index, and the captures with the whole match at index 0.
\<close>

record regexp =
  pat :: rx
  ngroups :: nat
  flags :: rx_flags

record rx_match =
  m_index :: nat
  m_caps :: caps

definition init_caps :: "nat \<Rightarrow> caps" where
  "init_caps n = replicate (Suc n) None"

definition match_here :: "regexp \<Rightarrow> string \<Rightarrow> string \<Rightarrow> rx_match option" where
  "match_here re p xs =
     map_option (\<lambda>t. \<lparr>m_index = length p,
                      m_caps = (rcaps t)[0 := Some (take (length xs - length (rest t)) xs)]\<rparr>)
       (rx_m (flags re) (pat re) Some \<lparr>pre = p, rest = xs, rcaps = init_caps (ngroups re)\<rparr>)"

fun search_from :: "regexp \<Rightarrow> string \<Rightarrow> string \<Rightarrow> rx_match option" where
  "search_from re p [] = match_here re p []"
| "search_from re p (x # xs) =
     (case match_here re p (x # xs) of
        None \<Rightarrow> search_from re (x # p) xs
      | Some m \<Rightarrow> Some m)"

definition exec :: "regexp \<Rightarrow> string \<Rightarrow> rx_match option" where
  "exec re s = search_from re [] s"

text \<open>With the flag \<open>g\<close> the search starts at \<open>lastIndex\<close>.\<close>

definition exec_at :: "regexp \<Rightarrow> string \<Rightarrow> nat \<Rightarrow> rx_match option" where
  "exec_at re s i = (if length s < i then None else search_from re (rev (take i s)) (drop i s))"

definition cap :: "rx_match \<Rightarrow> nat \<Rightarrow> string option" where
  "cap m n = get_cap (m_caps m) n"

definition cap0 :: "rx_match \<Rightarrow> string" where
  "cap0 m = (case cap m 0 of None \<Rightarrow> [] | Some w \<Rightarrow> w)"

text \<open>JavaScript truth of a capture: defined and not empty.\<close>

definition truthy :: "string option \<Rightarrow> bool" where
  "truthy c \<longleftrightarrow> (case c of None \<Rightarrow> False | Some w \<Rightarrow> w \<noteq> [])"

definition cap_str :: "rx_match \<Rightarrow> nat \<Rightarrow> string" where
  "cap_str m n = (case cap m n of None \<Rightarrow> [] | Some w \<Rightarrow> w)"

definition test :: "regexp \<Rightarrow> string \<Rightarrow> bool" where
  "test re s \<longleftrightarrow> exec re s \<noteq> None"

subsection \<open>Reference definition: all matches in priority order\<close>

fun first_some :: "('a \<Rightarrow> 'b option) \<Rightarrow> 'a list \<Rightarrow> 'b option" where
  "first_some k [] = None"
| "first_some k (x # xs) = (case k x of None \<Rightarrow> first_some k xs | Some z \<Rightarrow> Some z)"

lemma first_some_append [simp]:
  "first_some k (xs @ ys) = (case first_some k xs of None \<Rightarrow> first_some k ys | Some z \<Rightarrow> Some z)"
  by (induction xs) (auto split: option.splits)

lemma first_some_single [simp]: "first_some k [x] = k x"
  by (simp split: option.split)

lemma first_some_concat_map:
  "first_some k (concat (map g xs)) = first_some (\<lambda>x. first_some k (g x)) xs"
  by (induction xs) (auto split: option.splits)

lemma first_some_map: "first_some k (map g xs) = first_some (\<lambda>x. k (g x)) xs"
  by (induction xs) (auto split: option.splits)

lemma first_some_Some: "first_some Some xs = (case xs of [] \<Rightarrow> None | x # _ \<Rightarrow> Some x)"
  by (cases xs) auto

lemma first_some_SomeD: "first_some k xs = Some z \<Longrightarrow> \<exists>x \<in> set xs. k x = Some z"
  by (induction xs) (auto split: option.splits)

lemma first_some_None_iff: "first_some k xs = None \<longleftrightarrow> (\<forall>x \<in> set xs. k x = None)"
  by (induction xs) (auto split: option.splits)

lemma first_some_cong:
  "(\<And>x. x \<in> set xs \<Longrightarrow> k x = k' x) \<Longrightarrow> first_some k xs = first_some k' xs"
  by (induction xs) (auto split: option.splits)

fun rep_l :: "(rx_state \<Rightarrow> rx_state list) \<Rightarrow> nat list \<Rightarrow> bool \<Rightarrow> nat \<Rightarrow> nat \<Rightarrow> nat option \<Rightarrow> rx_state \<Rightarrow> rx_state list" where
  "rep_l ml gs g 0 lo hi s = []"
| "rep_l ml gs g (Suc n) lo hi s =
     (if hi = Some 0 then [s]
      else
        let more = concat (map (\<lambda>y. if lo = 0 \<and> length (rest y) = length (rest s) then []
                                    else rep_l ml gs g n (lo - 1) (pred_opt hi) y)
                            (ml (s\<lparr>rcaps := reset_caps gs (rcaps s)\<rparr>)))
        in if lo \<noteq> 0 then more else if g then more @ [s] else s # more)"

primrec rx_l :: "rx_flags \<Rightarrow> rx \<Rightarrow> rx_state \<Rightarrow> rx_state list" where
  "rx_l f Eps s = [s]"
| "rx_l f (Cls neg items) s =
     (case rest s of
        [] \<Rightarrow> []
      | c # cs \<Rightarrow> if cls_ok (ignoreCase f) neg items c then [s\<lparr>pre := c # pre s, rest := cs\<rparr>] else [])"
| "rx_l f (Seq a b) s = concat (map (rx_l f b) (rx_l f a s))"
| "rx_l f (Alt a b) s = rx_l f a s @ rx_l f b s"
| "rx_l f (Rep lo hi g r) s = rep_l (rx_l f r) (rx_groups r) g (Suc (lo + length (rest s))) lo hi s"
| "rx_l f (Group n r) s =
     map (set_group n (rest s)) (rx_l f r s)"
| "rx_l f (BackRef n) s =
     (case get_cap (rcaps s) n of
        None \<Rightarrow> [s]
      | Some w \<Rightarrow>
          (case strip_prefix_ci (ignoreCase f) (pre s) w (rest s) of
             None \<Rightarrow> []
           | Some (p, xs) \<Rightarrow> [s\<lparr>pre := p, rest := xs\<rparr>]))"
| "rx_l f Bol s = (if at_bol f s then [s] else [])"
| "rx_l f Eol s = (if at_eol f s then [s] else [])"
| "rx_l f (WordB p) s = (if at_word_boundary s = p then [s] else [])"
| "rx_l f (Look p r) s =
     (case rx_l f r s of
        [] \<Rightarrow> if p then [] else [s]
      | t # _ \<Rightarrow> if p then [s\<lparr>rcaps := rcaps t\<rparr>] else [])"

lemma rep_m_alts:
  assumes "\<And>k s. mt k s = first_some k (ml s)"
  shows "rep_m mt gs g n lo hi k s = first_some k (rep_l ml gs g n lo hi s)"
proof (induction n arbitrary: lo hi s)
  case 0
  show ?case by simp
next
  case (Suc n)
  let ?again = "again_k lo (rest s) (rep_m mt gs g n (lo - 1) (pred_opt hi) k)"
  have more: "mt ?again s' =
        first_some k (concat (map (\<lambda>y. if lo = 0 \<and> length (rest y) = length (rest s) then []
                 else rep_l ml gs g n (lo - 1) (pred_opt hi) y) (ml s')))" for s'
    unfolding first_some_concat_map assms [of ?again s']
    by (rule first_some_cong) (auto simp only: again_k_def Suc.IH first_some.simps split: if_split)
  show ?case
    unfolding rep_m.simps rep_l.simps Let_def more by (simp split: option.split)
qed

text \<open>The backtracking matcher finds the first of all matches that its continuation accepts.\<close>

theorem rx_m_alts: "rx_m f r k s = first_some k (rx_l f r s)"
proof (induction r arbitrary: k s)
  case (Seq a b)
  have "rx_m f (Seq a b) k s = first_some (rx_m f b k) (rx_l f a s)"
    by (simp add: Seq.IH(1))
  also have "\<dots> = first_some (\<lambda>t. first_some k (rx_l f b t)) (rx_l f a s)"
    by (rule first_some_cong) (rule Seq.IH(2))
  finally show ?case
    by (simp add: first_some_concat_map)
next
  case (Alt a b)
  then show ?case by (simp split: option.split)
next
  case (Rep lo hi g r)
  show ?case
    by (simp only: rx_m.simps rx_l.simps) (rule rep_m_alts, rule Rep.IH)
next
  case (Group n r)
  then show ?case by (simp add: first_some_map group_k_def [abs_def])
next
  case (Look p r)
  then show ?case
    by (cases "rx_l f r s") (simp_all add: first_some_Some split: option.split)
qed (auto split: list.splits option.splits)

subsection \<open>What a match consumes\<close>

text \<open>\<open>advances s t\<close>: the state \<open>t\<close> has moved some characters of \<open>s\<close> from the
  input to come to the input passed.\<close>

definition advances :: "nat \<Rightarrow> rx_state \<Rightarrow> rx_state \<Rightarrow> bool" where
  "advances n s t \<longleftrightarrow>
     (\<exists>w. rest s = w @ rest t \<and> pre t = rev w @ pre s \<and> n \<le> length w) \<and>
     length (rcaps t) = length (rcaps s)"

lemma advances_refl [simp]: "advances 0 s s"
  by (simp add: advances_def)

lemma advances_trans:
  assumes "advances m s t" "advances n t u"
  shows "advances (m + n) s u"
proof -
  obtain v w where "rest s = v @ rest t" "pre t = rev v @ pre s" "m \<le> length v"
      "rest t = w @ rest u" "pre u = rev w @ pre t" "n \<le> length w"
    using assms by (auto simp: advances_def)
  then have "rest s = (v @ w) @ rest u \<and> pre u = rev (v @ w) @ pre s \<and> m + n \<le> length (v @ w)"
    by simp
  then show ?thesis
    using assms unfolding advances_def by auto
qed

lemma advances_mono: "advances m s t \<Longrightarrow> n \<le> m \<Longrightarrow> advances n s t"
  by (fastforce simp: advances_def)

lemma advances_length: "advances n s t \<Longrightarrow> length (rest t) + n \<le> length (rest s)"
  by (auto simp: advances_def)

lemma advances_caps [simp]:
  "advances n s (t\<lparr>rcaps := (rcaps t)[i := v]\<rparr>) = advances n s t"
  by (simp add: advances_def)

lemma advances_set_group [simp]: "advances n s (set_group i xs t) = advances n s t"
  by (simp add: set_group_def)

lemma length_reset_caps [simp]: "length (reset_caps gs cs) = length cs"
proof -
  have "length (fold (\<lambda>g cs. cs[g := None]) gs cs) = length cs"
    by (induction gs arbitrary: cs) auto
  then show ?thesis by (simp add: reset_caps_def)
qed

lemma advances_reset [simp]:
  "advances n (s\<lparr>rcaps := reset_caps gs (rcaps s)\<rparr>) t = advances n s t"
  by (simp add: advances_def)

lemma strip_prefix_ci_advances:
  "strip_prefix_ci ic p w xs = Some (q, ys) \<Longrightarrow> \<exists>v. xs = v @ ys \<and> q = rev v @ p"
proof (induction ic p w xs rule: strip_prefix_ci.induct)
  case (3 ic p w ws x xs)
  then have "strip_prefix_ci ic (x # p) ws xs = Some (q, ys)"
    by (auto split: if_splits)
  with 3 obtain v where "xs = v @ ys" "q = rev v @ x # p"
    by (auto split: if_splits)
  then have "x # xs = (x # v) @ ys \<and> q = rev (x # v) @ p"
    by simp
  then show ?case by blast
qed auto

text \<open>A lower bound for the length of a match.\<close>

primrec rx_min :: "rx \<Rightarrow> nat" where
  "rx_min Eps = 0"
| "rx_min (Cls neg items) = 1"
| "rx_min (Seq a b) = rx_min a + rx_min b"
| "rx_min (Alt a b) = min (rx_min a) (rx_min b)"
| "rx_min (Rep lo hi g r) = (case hi of None \<Rightarrow> lo | Some h \<Rightarrow> min lo h) * rx_min r"
| "rx_min (Group n r) = rx_min r"
| "rx_min (BackRef n) = 0"
| "rx_min Bol = 0"
| "rx_min Eol = 0"
| "rx_min (WordB p) = 0"
| "rx_min (Look p r) = 0"

lemma rep_l_advances:
  assumes ml: "\<And>s t. t \<in> set (ml s) \<Longrightarrow> advances d s t"
  shows "t \<in> set (rep_l ml gs g n lo hi s) \<Longrightarrow> advances ((case hi of None \<Rightarrow> lo | Some h \<Rightarrow> min lo h) * d) s t"
proof (induction n arbitrary: lo hi s)
  case 0
  then show ?case by simp
next
  case (Suc n)
  let ?hi = "pred_opt hi"
  consider "t = s" "lo = 0 \<or> hi = Some 0"
    | y where "advances d s y" "t \<in> set (rep_l ml gs g n (lo - 1) ?hi y)"
    using Suc.prems ml by (fastforce simp: Let_def split: if_splits)
  then show ?case
  proof cases
    case 1
    then show ?thesis by (cases hi) auto
  next
    case 2
    have "advances (d + (case ?hi of None \<Rightarrow> lo - 1 | Some h \<Rightarrow> min (lo - 1) h) * d) s t"
      by (rule advances_trans [OF 2(1) Suc.IH [OF 2(2)]])
    then show ?thesis
      by (rule advances_mono) (cases lo; cases hi; cases "the hi"; auto simp: pred_opt_def)
  qed
qed

theorem rx_l_advances: "t \<in> set (rx_l f r s) \<Longrightarrow> advances (rx_min r) s t"
proof (induction r arbitrary: s t)
  case (Seq a b)
  then obtain u where "u \<in> set (rx_l f a s)" "t \<in> set (rx_l f b u)"
    by auto
  then show ?case
    using advances_trans [OF Seq.IH] by simp
next
  case (Alt a b)
  then show ?case
    by (auto intro: advances_mono [OF _ min.cobounded1] advances_mono [OF _ min.cobounded2])
next
  case (Rep lo hi g r)
  show ?case
    unfolding rx_min.simps
    by (rule rep_l_advances [OF Rep.IH]) (use Rep.prems in \<open>simp_all only: rx_l.simps\<close>)
next
  case (Group n r)
  then show ?case by auto
next
  case (BackRef n)
  then show ?case
    by (auto simp: advances_def split: option.splits dest: strip_prefix_ci_advances [OF sym])
next
  case (Look p r)
  then show ?case
    by (fastforce simp: advances_def split: list.splits if_splits)
qed (auto simp: advances_def split: list.splits if_splits)

subsection \<open>The fuel of a quantifier is enough\<close>

lemma map_guard_cong:
  "(\<And>y. y \<in> set ys \<Longrightarrow> \<not> P y \<Longrightarrow> A y = B y) \<Longrightarrow>
   map (\<lambda>y. if P y then [] else A y) ys = map (\<lambda>y. if P y then [] else B y) ys"
  by (induction ys) auto

lemma rep_l_fuel:
  assumes ml: "\<And>s t. t \<in> set (ml s) \<Longrightarrow> advances 0 s t"
  shows "lo + length (rest s) < n \<Longrightarrow> rep_l ml gs g (Suc n) lo hi s = rep_l ml gs g n lo hi s"
proof (induction n arbitrary: lo hi s)
  case 0
  then show ?case by simp
next
  case (Suc n)
  let ?s = "s\<lparr>rcaps := reset_caps gs (rcaps s)\<rparr>" and ?hi = "pred_opt hi"
  have "rep_l ml gs g (Suc n) (lo - 1) ?hi y = rep_l ml gs g n (lo - 1) ?hi y"
    if "y \<in> set (ml ?s)" "\<not> (lo = 0 \<and> length (rest y) = length (rest s))" for y
  proof (rule Suc.IH)
    have "advances 0 ?s y" by (rule ml [OF that(1)])
    then have "length (rest y) \<le> length (rest s)"
      by (auto dest: advances_length)
    then show "lo - 1 + length (rest y) < n"
      using Suc.prems that(2) by (cases lo) auto
  qed
  then have "map (\<lambda>y. if lo = 0 \<and> length (rest y) = length (rest s) then []
                 else rep_l ml gs g (Suc n) (lo - 1) ?hi y) (ml ?s) =
             map (\<lambda>y. if lo = 0 \<and> length (rest y) = length (rest s) then []
                 else rep_l ml gs g n (lo - 1) ?hi y) (ml ?s)"
    by (rule map_guard_cong)
  then show ?case
    unfolding rep_l.simps(2) [of _ _ _ "Suc n"] rep_l.simps(2) [of _ _ _ n] Let_def by (simp only:)
qed

lemma rep_l_fuel_eq:
  assumes "\<And>s t. t \<in> set (ml s) \<Longrightarrow> advances 0 s t"
    and "lo + length (rest s) < n" "n \<le> m"
  shows "rep_l ml gs g m lo hi s = rep_l ml gs g n lo hi s"
  using assms(3)
proof (induction m rule: dec_induct)
  case (step m)
  then show ?case
    using rep_l_fuel [where lo = lo and s = s and n = m, OF assms(1)] assms(2) by simp
qed simp

lemma rx_l_Rep:
  "rx_l f (Rep lo hi g r) s =
     (if hi = Some 0 then [s]
      else
        let more = concat (map (\<lambda>y. if lo = 0 \<and> length (rest y) = length (rest s) then []
                                    else rx_l f (Rep (lo - 1) (pred_opt hi) g r) y)
                            (rx_l f r (s\<lparr>rcaps := reset_caps (rx_groups r) (rcaps s)\<rparr>)))
        in if lo \<noteq> 0 then more else if g then more @ [s] else s # more)"
proof -
  let ?s = "s\<lparr>rcaps := reset_caps (rx_groups r) (rcaps s)\<rparr>"
    and ?hi = "pred_opt hi"
  have adv: "advances 0 s t" if "t \<in> set (rx_l f r s)" for s t
    by (rule advances_mono [OF rx_l_advances [OF that]]) simp
  have "rep_l (rx_l f r) (rx_groups r) g (lo + length (rest s)) (lo - 1) ?hi y =
        rx_l f (Rep (lo - 1) ?hi g r) y"
    if "y \<in> set (rx_l f r ?s)" "\<not> (lo = 0 \<and> length (rest y) = length (rest s))" for y
  proof -
    have "length (rest y) \<le> length (rest s)"
      using advances_length [OF adv [OF that(1)]] by simp
    then have "Suc (lo - 1 + length (rest y)) \<le> lo + length (rest s)"
      using that(2) by (cases lo) auto
    then show ?thesis
      unfolding rx_l.simps by (intro rep_l_fuel_eq adv) simp_all
  qed
  then have "map (\<lambda>y. if lo = 0 \<and> length (rest y) = length (rest s) then []
               else rep_l (rx_l f r) (rx_groups r) g (lo + length (rest s)) (lo - 1) ?hi y) (rx_l f r ?s) =
             map (\<lambda>y. if lo = 0 \<and> length (rest y) = length (rest s) then []
               else rx_l f (Rep (lo - 1) ?hi g r) y) (rx_l f r ?s)"
    by (rule map_guard_cong)
  then show ?thesis
    unfolding rx_l.simps(5) [of f lo hi g r s] rep_l.simps(2) Let_def by (simp only:)
qed

text \<open>The standard's equation for \<open>RepeatMatcher\<close>, without fuel.\<close>

theorem rx_m_Rep:
  "rx_m f (Rep lo hi g r) k s =
     (if hi = Some 0 then k s
      else
        let again = again_k lo (rest s) (rx_m f (Rep (lo - 1) (pred_opt hi) g r) k);
            s' = s\<lparr>rcaps := reset_caps (rx_groups r) (rcaps s)\<rparr>
        in if lo \<noteq> 0 then rx_m f r again s'
           else if g then (case rx_m f r again s' of None \<Rightarrow> k s | Some z \<Rightarrow> Some z)
           else (case k s of None \<Rightarrow> rx_m f r again s' | Some z \<Rightarrow> Some z))"
proof -
  let ?s = "s\<lparr>rcaps := reset_caps (rx_groups r) (rcaps s)\<rparr>"
    and ?next = "Rep (lo - 1) (pred_opt hi) g r"
  have again: "first_some (again_k lo (rest s) (rx_m f ?next k)) (rx_l f r ?s) =
        first_some k (concat (map (\<lambda>y. if lo = 0 \<and> length (rest y) = length (rest s) then []
                                       else rx_l f ?next y) (rx_l f r ?s)))"
    unfolding first_some_concat_map
    by (rule first_some_cong) (simp add: again_k_def rx_m_alts del: rx_l.simps rx_m.simps)
  show ?thesis
    unfolding rx_m_alts [of f "Rep lo hi g r"] rx_l_Rep [of f lo hi g r s] Let_def
      rx_m_alts [of f r] again
    by (simp split: option.split)
qed

subsection \<open>Specification of a match\<close>

lemma match_here_Some:
  assumes "match_here re p xs = Some m"
  shows "\<exists>w ys. xs = w @ ys \<and> m_index m = length p \<and> cap m 0 = Some w \<and>
           rx_min (pat re) \<le> length w \<and> length (m_caps m) = Suc (ngroups re)"
proof -
  let ?s = "\<lparr>pre = p, rest = xs, rcaps = init_caps (ngroups re)\<rparr>"
  obtain t where t: "rx_m (flags re) (pat re) Some ?s = Some t"
    and m: "m = \<lparr>m_index = length p, m_caps = (rcaps t)[0 := Some (take (length xs - length (rest t)) xs)]\<rparr>"
    using assms by (auto simp: match_here_def)
  from t have "t \<in> set (rx_l (flags re) (pat re) ?s)"
    by (auto simp: rx_m_alts dest: first_some_SomeD)
  then have "advances (rx_min (pat re)) ?s t"
    by (rule rx_l_advances)
  then obtain w where "xs = w @ rest t" "rx_min (pat re) \<le> length w" "length (rcaps t) = Suc (ngroups re)"
    by (auto simp: advances_def init_caps_def)
  then show ?thesis
    using m by (auto simp: cap_def get_cap_def)
qed

text \<open>
  A match splits the input into the text before it, the matched text, which is capture 0,
  and the text after it.
\<close>

definition match_splits :: "regexp \<Rightarrow> string \<Rightarrow> rx_match \<Rightarrow> bool" where
  "match_splits re s m \<longleftrightarrow>
     s = take (m_index m) s @ cap0 m @ drop (m_index m + length (cap0 m)) s \<and>
     m_index m + length (cap0 m) \<le> length s \<and>
     rx_min (pat re) \<le> length (cap0 m) \<and>
     cap m 0 = Some (cap0 m) \<and> length (m_caps m) = Suc (ngroups re)"

lemma search_from_Some:
  "search_from re p xs = Some m \<Longrightarrow> match_splits re (rev p @ xs) m \<and> length p \<le> m_index m"
proof (induction re p xs rule: search_from.induct)
  case (1 re p)
  then show ?case
    by (fastforce simp: match_splits_def cap0_def dest: match_here_Some)
next
  case (2 re p x xs)
  show ?case
  proof (cases "match_here re p (x # xs)")
    case None
    with 2 show ?thesis by simp
  next
    case (Some m')
    then have "m' = m" using "2.prems" by simp
    with match_here_Some [OF Some] obtain w ys
      where *: "x # xs = w @ ys" "m_index m = length p" "cap m 0 = Some w"
        "rx_min (pat re) \<le> length w" "length (m_caps m) = Suc (ngroups re)"
      by blast
    have "rev p @ x # xs = rev p @ w @ ys" using *(1) by simp
    with * show ?thesis
      by (simp add: match_splits_def cap0_def)
  qed
qed

theorem exec_splits: "exec re s = Some m \<Longrightarrow> match_splits re s m"
  using search_from_Some [of re "[]" s m] by (simp add: exec_def)

theorem exec_at_splits: "exec_at re s i = Some m \<Longrightarrow> match_splits re s m \<and> i \<le> m_index m"
  using search_from_Some [of re "rev (take i s)" "drop i s" m]
  by (auto simp: exec_at_def min_def split: if_splits)

text \<open>The match found is the leftmost one: the pattern matches at no earlier position.\<close>

lemma search_from_leftmost:
  "search_from re p (u @ v) = Some m \<Longrightarrow> m_index m > length p + length u \<Longrightarrow> match_here re (rev u @ p) v = None"
proof (induction u arbitrary: p)
  case Nil
  then show ?case
    by (cases v) (auto split: option.splits dest: match_here_Some)
next
  case (Cons x u)
  then show ?case
    by (auto split: option.splits dest: match_here_Some)
qed

subsection \<open>String methods that take a regular expression\<close>

text \<open>
  The matches found by repeated \<open>exec\<close> under the flag \<open>g\<close>; after an empty match
  \<open>lastIndex\<close> moves on by one.
\<close>

definition next_index :: "rx_match \<Rightarrow> nat" where
  "next_index m = (let e = m_index m + length (cap0 m) in if cap0 m = [] then Suc e else e)"

function exec_all_from :: "regexp \<Rightarrow> string \<Rightarrow> nat \<Rightarrow> rx_match list" where
  "exec_all_from re s i =
     (case exec_at re s i of
        None \<Rightarrow> []
      | Some m \<Rightarrow> m # exec_all_from re s (next_index m))"
  by pat_completeness auto

lemma next_index_progress:
  assumes "exec_at re s i = Some m"
  shows "i < next_index m" "i \<le> length s"
  using exec_at_splits [OF assms]
  by (cases "cap0 m"; auto simp: next_index_def match_splits_def Let_def)+

termination exec_all_from
proof (relation "measure (\<lambda>(re, s, i). Suc (length s) - i)")
  fix re s i m
  assume "exec_at re s i = Some m"
  from next_index_progress [OF this]
  show "((re, s, next_index m), re, s, i) \<in> measure (\<lambda>(re, s, i). Suc (length s) - i)"
    by simp
qed simp

declare exec_all_from.simps [simp del]

definition exec_all :: "regexp \<Rightarrow> string \<Rightarrow> rx_match list" where
  "exec_all re s = exec_all_from re s 0"

text \<open>\<open>s.match(re)\<close> with the flag \<open>g\<close>: the matched texts, \<open>None\<close> for \<open>null\<close>.\<close>

definition match_all :: "regexp \<Rightarrow> string \<Rightarrow> string list option" where
  "match_all re s = (case exec_all re s of [] \<Rightarrow> None | ms \<Rightarrow> Some (map cap0 ms))"

fun splice :: "string \<Rightarrow> nat \<Rightarrow> (rx_match \<Rightarrow> string) \<Rightarrow> rx_match list \<Rightarrow> string" where
  "splice s i new [] = drop i s"
| "splice s i new (m # ms) =
     take (m_index m - i) (drop i s) @ new m @ splice s (m_index m + length (cap0 m)) new ms"

text \<open>\<open>s.replace(re, new)\<close> with the flag \<open>g\<close>, and without it.\<close>

definition re_replace :: "regexp \<Rightarrow> (rx_match \<Rightarrow> string) \<Rightarrow> string \<Rightarrow> string" where
  "re_replace re new s = splice s 0 new (exec_all re s)"

definition re_replace1 :: "regexp \<Rightarrow> (rx_match \<Rightarrow> string) \<Rightarrow> string \<Rightarrow> string" where
  "re_replace1 re new s = splice s 0 new (case exec re s of None \<Rightarrow> [] | Some m \<Rightarrow> [m])"

text \<open>\<open>s.split(re)\<close> for an expression without groups: the separator is tried at every
  position; \<open>acc\<close> is the piece read so far, reversed.\<close>

function split_go :: "regexp \<Rightarrow> string \<Rightarrow> string \<Rightarrow> string \<Rightarrow> string list" where
  "split_go re acc p [] = [rev acc]"
| "split_go re acc p (x # xs) =
     (case match_here re p (x # xs) of
        None \<Rightarrow> split_go re (x # acc) (x # p) xs
      | Some m \<Rightarrow>
          if cap0 m = [] then
            (if acc = [] then split_go re [x] (x # p) xs
             else rev acc # split_go re [] p (x # xs))
          else rev acc # split_go re [] (rev (cap0 m) @ p) (drop (length (cap0 m)) (x # xs)))"
  by pat_completeness auto
termination split_go
proof (relation "measure (\<lambda>(re, acc, p, xs). 2 * length xs + (if acc = [] then 0 else 1))", goal_cases)
  case (5 re acc p x xs m)
  then show ?case by (cases "cap0 m") auto
qed auto

definition re_split :: "regexp \<Rightarrow> string \<Rightarrow> string list" where
  "re_split re s =
     (if s = [] then (if match_here re [] [] = None then [[]] else [])
      else split_go re [] [] s)"

text \<open>Every match of a global search lies after the previous one.\<close>

fun matches_from :: "regexp \<Rightarrow> string \<Rightarrow> nat \<Rightarrow> rx_match list \<Rightarrow> bool" where
  "matches_from re s i [] = True"
| "matches_from re s i (m # ms) =
     (match_splits re s m \<and> i \<le> m_index m \<and> matches_from re s (m_index m + length (cap0 m)) ms)"

lemma matches_from_mono: "matches_from re s j ms \<Longrightarrow> i \<le> j \<Longrightarrow> matches_from re s i ms"
  by (cases ms) auto

lemma exec_all_from_matches: "matches_from re s i (exec_all_from re s i)"
proof (induction re s i rule: exec_all_from.induct)
  case (1 re s i)
  show ?case
  proof (cases "exec_at re s i")
    case None
    then show ?thesis by (simp add: exec_all_from.simps [of re s i])
  next
    case (Some m)
    have "matches_from re s (m_index m + length (cap0 m)) (exec_all_from re s (next_index m))"
      by (rule matches_from_mono [OF "1.IH" [OF Some]]) (simp add: next_index_def Let_def)
    with Some exec_at_splits [OF Some] show ?thesis
      by (simp add: exec_all_from.simps [of re s i])
  qed
qed

lemma exec_all_matches: "matches_from re s 0 (exec_all re s)"
  by (simp add: exec_all_def exec_all_from_matches)

text \<open>Replacing every match by itself changes nothing: the pieces around the matches are
  exactly the text that was not matched.\<close>

lemma splice_id: "matches_from re s i ms \<Longrightarrow> splice s i cap0 ms = drop i s"
proof (induction ms arbitrary: i)
  case (Cons m ms)
  let ?e = "m_index m + length (cap0 m)"
  have "cap0 m @ drop ?e s = drop (m_index m) s"
    using Cons.prems by (auto simp: match_splits_def) (metis append_eq_conv_conj drop_drop append_take_drop_id)
  moreover have "take (m_index m - i) (drop i s) @ drop (m_index m) s = drop i s"
    using Cons.prems by (metis append_take_drop_id drop_drop le_add_diff_inverse2 matches_from.simps(2))
  ultimately show ?case
    using Cons by simp
qed simp

theorem re_replace_id: "re_replace re cap0 s = s"
  using splice_id [OF exec_all_matches] by (simp add: re_replace_def)

lemma re_replace_no_match: "exec re s = None \<Longrightarrow> re_replace re new s = s"
  by (simp add: re_replace_def exec_all_def exec_all_from.simps exec_at_def exec_def)

lemma re_replace1_no_match: "exec re s = None \<Longrightarrow> re_replace1 re new s = s"
  by (simp add: re_replace1_def)

text \<open>\<open>split\<close> returns at least one piece for a non-empty text.\<close>

lemma split_go_not_Nil: "split_go re acc p xs \<noteq> []"
  by (induction re acc p xs rule: split_go.induct) (auto split: option.splits)


subsection \<open>Characters a match must contain\<close>

text \<open>\<open>needs c r\<close>: every match of \<open>r\<close> contains the character \<open>c\<close>. A text without
  that character has no match.\<close>

fun needs :: "char \<Rightarrow> rx \<Rightarrow> bool" where
  "needs c (Cls neg items) \<longleftrightarrow> \<not> neg \<and> items = [CChar c]"
| "needs c (Seq a b) \<longleftrightarrow> needs c a \<or> needs c b"
| "needs c (Alt a b) \<longleftrightarrow> needs c a \<and> needs c b"
| "needs c (Rep lo hi g r) \<longleftrightarrow> lo \<noteq> 0 \<and> hi \<noteq> Some 0 \<and> needs c r"
| "needs c (Group n r) \<longleftrightarrow> needs c r"
| "needs c r \<longleftrightarrow> False"

lemma rx_l_needs:
  assumes "\<not> ignoreCase f"
  shows "needs c r \<Longrightarrow> t \<in> set (rx_l f r s) \<Longrightarrow> c \<in> set (rest s)"
proof (induction c r arbitrary: s t rule: needs.induct)
  case (1 c neg items)
  then show ?case
    using assms by (cases "rest s") (auto simp: cls_ok_def split: if_splits)
next
  case (2 c a b)
  then obtain u where u: "u \<in> set (rx_l f a s)" "t \<in> set (rx_l f b u)" by auto
  from rx_l_advances [OF u(1)] obtain w where w: "rest s = w @ rest u"
    by (auto simp: advances_def)
  from "2.prems"(1) consider "needs c a" | "needs c b" by auto
  then show ?case
  proof cases
    case 1
    from "2.IH"(1) [OF this u(1)] show ?thesis .
  next
    case 2
    from "2.IH"(2) [OF this u(2)] w show ?thesis by simp
  qed
next
  case (4 c lo hi g r)
  from "4.prems" obtain u where "u \<in> set (rx_l f r (s\<lparr>rcaps := reset_caps (rx_groups r) (rcaps s)\<rparr>))"
    unfolding rx_l_Rep [of f lo] by (auto simp: Let_def)
  from "4.IH" [OF _ this] "4.prems"(1) show ?case by simp
qed auto

lemma match_here_needs:
  assumes "\<not> ignoreCase (flags re)" "needs c (pat re)" "c \<notin> set xs"
  shows "match_here re p xs = None"
proof (rule ccontr)
  assume "match_here re p xs \<noteq> None"
  then obtain t where
    "rx_m (flags re) (pat re) Some \<lparr>pre = p, rest = xs, rcaps = init_caps (ngroups re)\<rparr> = Some t"
    by (auto simp: match_here_def)
  then have "t \<in> set (rx_l (flags re) (pat re) \<lparr>pre = p, rest = xs, rcaps = init_caps (ngroups re)\<rparr>)"
    by (auto simp: rx_m_alts dest: first_some_SomeD)
  from rx_l_needs [OF assms(1,2) this] assms(3) show False by simp
qed

lemma exec_needs:
  assumes "\<not> ignoreCase (flags re)" "needs c (pat re)" "c \<notin> set s"
  shows "exec re s = None"
proof -
  have "search_from re p xs = None" if "c \<notin> set xs" for p xs
    using that match_here_needs [OF assms(1,2)]
    by (induction re p xs rule: search_from.induct) auto
  then show ?thesis using assms(3) by (simp add: exec_def)
qed

end
