(* ===== verification/Js_RegExp_Syntax.thy ===== *)
theory Js_RegExp_Syntax
  imports Js_Regex
begin

text \<open>
  The constructor \<open>new RegExp(source, flags)\<close>: a pattern is a string, as in the
  bundle, which builds several of its expressions by editing their sources. The source is
  cut into tokens and the tokens are assembled by a machine with a stack of open groups.
  \<open>None\<close> is JavaScript's \<open>SyntaxError\<close>.

  Isabelle string literals cannot hold a backslash: in the literals of this development a
  percent sign stands for the backslash (no pattern of the modelled code has a percent
  sign), and \<open>bs\<close> replaces it.
\<close>

definition bs :: "string \<Rightarrow> string" where
  "bs s = map (\<lambda>c. if c = CHR ''%'' then BSL else c) s"

subsection \<open>Tokens\<close>

datatype gkind = GCap nat | GNonCap | GLook bool

datatype rtok =
    TAtom rx
  | TOpen gkind
  | TClose
  | TBar
  | TQuant nat "nat option" bool

datatype cls_raw = RChar char | RDash | RSet cls_item

definition hex_val :: "char \<Rightarrow> nat option" where
  "hex_val c =
     (if is_digit c then Some (code c - 48)
      else if in_range (CHR ''a'') (CHR ''f'') c then Some (code c - 87)
      else if in_range (CHR ''A'') (CHR ''F'') c then Some (code c - 55)
      else None)"

definition hex_item :: "char list \<Rightarrow> cls_item option" where
  "hex_item cs =
     (if list_all (\<lambda>c. hex_val c \<noteq> None) cs
      then let n = fold (\<lambda>c acc. 16 * acc + the (hex_val c)) cs 0
           in Some (if n < 256 then CChar (char_of n) else CNever)
      else None)"

text \<open>The escapes that stand for one character or a class, after the backslash.\<close>

definition simple_escape :: "char \<Rightarrow> cls_item" where
  "simple_escape c =
     (if c = CHR ''d'' then CDigit True else if c = CHR ''D'' then CDigit False
      else if c = CHR ''w'' then CWord True else if c = CHR ''W'' then CWord False
      else if c = CHR ''s'' then CSpace True else if c = CHR ''S'' then CSpace False
      else if c = CHR ''n'' then CChar NL else if c = CHR ''r'' then CChar CR
      else if c = CHR ''t'' then CChar (CHR 0x09) else if c = CHR ''v'' then CChar (CHR 0x0B)
      else if c = CHR ''f'' then CChar (CHR 0x0C) else if c = CHR ''0'' then CChar (CHR 0x00)
      else CChar c)"

fun raw_of :: "cls_item \<Rightarrow> cls_raw" where
  "raw_of (CChar c) = RChar c"
| "raw_of it = RSet it"

text \<open>One member after a backslash, with the number of characters read.\<close>

definition escape_member :: "string \<Rightarrow> (cls_raw \<times> nat) option" where
  "escape_member cs =
     (case cs of
        [] \<Rightarrow> None
      | d # ds \<Rightarrow>
          if d = CHR ''b'' then Some (RChar (CHR 0x08), 1)
          else if d = CHR ''x'' \<and> 2 \<le> length ds \<and> hex_item (take 2 ds) \<noteq> None
            then Some (raw_of (the (hex_item (take 2 ds))), 3)
          else if d = CHR ''u'' \<and> 4 \<le> length ds \<and> hex_item (take 4 ds) \<noteq> None
            then Some (raw_of (the (hex_item (take 4 ds))), 5)
          else Some (raw_of (simple_escape d), 1))"

definition next_member :: "char \<Rightarrow> string \<Rightarrow> (cls_raw \<times> nat) option" where
  "next_member c cs =
     (if c = CHR ''-'' then Some (RDash, 0)
      else if c = BSL then escape_member cs
      else Some (RChar c, 0))"

text \<open>The members of a class up to its closing bracket, and the number of characters
  read, the bracket included.\<close>

function cls_members :: "string \<Rightarrow> (cls_raw list \<times> nat) option" where
  "cls_members [] = None"
| "cls_members (c # cs) =
     (if c = CHR '']'' then Some ([], 1)
      else case next_member c cs of
          None \<Rightarrow> None
        | Some (m, i) \<Rightarrow> map_option (\<lambda>(ms, j). (m # ms, Suc i + j)) (cls_members (drop i cs)))"
  by pat_completeness auto
termination
  by (relation "measure length") auto

fun raw_char :: "cls_raw \<Rightarrow> char option" where
  "raw_char (RChar c) = Some c"
| "raw_char RDash = Some (CHR ''-'')"
| "raw_char (RSet it) = None"

fun raw_item :: "cls_raw \<Rightarrow> cls_item" where
  "raw_item (RChar c) = CChar c"
| "raw_item RDash = CChar (CHR ''-'')"
| "raw_item (RSet it) = it"

text \<open>Ranges: a dash between two characters.\<close>

fun cls_ranges :: "cls_raw list \<Rightarrow> cls_item list" where
  "cls_ranges (a # RDash # b # ms) =
     (case (raw_char a, raw_char b) of
        (Some x, Some y) \<Rightarrow> CRange x y # cls_ranges ms
      | _ \<Rightarrow> raw_item a # CChar (CHR ''-'') # cls_ranges (b # ms))"
| "cls_ranges (a # ms) = raw_item a # cls_ranges ms"
| "cls_ranges [] = []"

text \<open>The number of capture groups: opening parentheses that are not followed by a
  question mark, outside classes and escapes.\<close>

fun count_groups :: "bool \<Rightarrow> string \<Rightarrow> nat" where
  "count_groups incls [] = 0"
| "count_groups incls (c # cs) =
     (if c = BSL then (case cs of [] \<Rightarrow> 0 | d # ds \<Rightarrow> count_groups incls ds)
      else if incls then count_groups (c \<noteq> CHR '']'') cs
      else if c = CHR ''['' then count_groups True cs
      else if c = CHR ''('' \<and> (case cs of [] \<Rightarrow> True | d # _ \<Rightarrow> d \<noteq> CHR ''?'') then Suc (count_groups False cs)
      else count_groups False cs)"

text \<open>\<open>{n}\<close>, \<open>{n,}\<close>, \<open>{n,m}\<close> after the opening brace, with the number of
  characters read; \<open>None\<close> when the text is not a quantifier, and the brace is then an
  ordinary character.\<close>

definition quant_braces :: "string \<Rightarrow> (nat \<times> nat option \<times> nat) option" where
  "quant_braces s =
     (let ds = takeWhile is_digit s; r = dropWhile is_digit s
      in if ds = [] then None
         else case r of
             [] \<Rightarrow> None
           | c # cs \<Rightarrow>
               if c = CHR ''}'' then Some (digits_val 0 ds, Some (digits_val 0 ds), Suc (length ds))
               else if c = CHR '','' then
                 (let es = takeWhile is_digit cs
                  in case dropWhile is_digit cs of
                       d # ds' \<Rightarrow>
                         if d = CHR ''}''
                         then Some (digits_val 0 ds, if es = [] then None else Some (digits_val 0 es),
                                    length ds + length es + 2)
                         else None
                     | [] \<Rightarrow> None)
               else None)"

text \<open>A quantifier may be followed by a question mark that makes it lazy: the number of
  characters read, 0 when it is greedy.\<close>

definition lazy_mark :: "string \<Rightarrow> nat" where
  "lazy_mark s = (case s of c # cs \<Rightarrow> if c = CHR ''?'' then 1 else 0 | [] \<Rightarrow> 0)"

definition quant_tok :: "nat \<Rightarrow> nat option \<Rightarrow> string \<Rightarrow> rtok" where
  "quant_tok lo hi s = TQuant lo hi (lazy_mark s = 0)"

definition char_tok :: "char \<Rightarrow> rtok" where
  "char_tok c = TAtom (Cls False [CChar c])"

text \<open>
  The next token of a pattern with \<open>ng\<close> groups in all, \<open>n\<close> of which have been opened
  already: the token, the number of characters read after the first one, and the number of
  groups opened.
\<close>

type_synonym tok_step = "(rtok \<times> nat \<times> nat) option"

definition open_tok :: "nat \<Rightarrow> string \<Rightarrow> tok_step" where
  "open_tok n cs =
     (case cs of
        a # b # _ \<Rightarrow>
          if a = CHR ''?'' then
            (if b = CHR '':'' then Some (TOpen GNonCap, 2, n)
             else if b = CHR ''='' then Some (TOpen (GLook True), 2, n)
             else if b = CHR ''!'' then Some (TOpen (GLook False), 2, n)
             else None)
          else Some (TOpen (GCap (Suc n)), 0, Suc n)
      | _ \<Rightarrow> Some (TOpen (GCap (Suc n)), 0, Suc n))"

definition brace_tok :: "nat \<Rightarrow> string \<Rightarrow> tok_step" where
  "brace_tok n cs =
     (case quant_braces cs of
        None \<Rightarrow> Some (char_tok (CHR ''{''), 0, n)
      | Some (lo, hi, i) \<Rightarrow> Some (quant_tok lo hi (drop i cs), i + lazy_mark (drop i cs), n))"

definition class_tok :: "nat \<Rightarrow> string \<Rightarrow> tok_step" where
  "class_tok n cs =
     (case cs of
        [] \<Rightarrow> None
      | d # ds \<Rightarrow>
          if d = CHR ''^''
          then map_option (\<lambda>(ms, j). (TAtom (Cls True (cls_ranges ms)), Suc j, n)) (cls_members ds)
          else map_option (\<lambda>(ms, j). (TAtom (Cls False (cls_ranges ms)), j, n)) (cls_members cs))"

definition backref_tok :: "nat \<Rightarrow> nat \<Rightarrow> char \<Rightarrow> string \<Rightarrow> tok_step" where
  "backref_tok ng n d ds =
     (let i = length (takeWhile is_digit ds); k = digits_val 0 (d # take i ds)
      in if k \<le> ng then Some (TAtom (BackRef k), Suc i, n) else None)"

definition escape_tok :: "nat \<Rightarrow> nat \<Rightarrow> string \<Rightarrow> tok_step" where
  "escape_tok ng n cs =
     (case cs of
        [] \<Rightarrow> None
      | d # ds \<Rightarrow>
          if d = CHR ''b'' then Some (TAtom (WordB True), 1, n)
          else if d = CHR ''B'' then Some (TAtom (WordB False), 1, n)
          else if in_range (CHR ''1'') (CHR ''9'') d then backref_tok ng n d ds
          else if d = CHR ''x'' \<and> 2 \<le> length ds \<and> hex_item (take 2 ds) \<noteq> None
            then Some (TAtom (Cls False [the (hex_item (take 2 ds))]), 3, n)
          else if d = CHR ''u'' \<and> 4 \<le> length ds \<and> hex_item (take 4 ds) \<noteq> None
            then Some (TAtom (Cls False [the (hex_item (take 4 ds))]), 5, n)
          else Some (TAtom (Cls False [simple_escape d]), 1, n))"

datatype special =
    SBar | SClose | SOpen | SBol | SEol | SDot | SStar | SPlus | SOpt | SBrace | SClass | SEscape | SPlain

definition special_of :: "char \<Rightarrow> special" where
  "special_of c =
     (if c = CHR ''|'' then SBar else if c = CHR '')'' then SClose
      else if c = CHR ''('' then SOpen else if c = CHR ''^'' then SBol
      else if c = CHR ''$'' then SEol else if c = CHR ''.'' then SDot
      else if c = CHR ''*'' then SStar else if c = CHR ''+'' then SPlus
      else if c = CHR ''?'' then SOpt else if c = CHR ''{'' then SBrace
      else if c = CHR ''['' then SClass else if c = BSL then SEscape else SPlain)"

definition next_tok :: "nat \<Rightarrow> nat \<Rightarrow> char \<Rightarrow> string \<Rightarrow> tok_step" where
  "next_tok ng n c cs =
     (case special_of c of
        SBar \<Rightarrow> Some (TBar, 0, n)
      | SClose \<Rightarrow> Some (TClose, 0, n)
      | SOpen \<Rightarrow> open_tok n cs
      | SBol \<Rightarrow> Some (TAtom Bol, 0, n)
      | SEol \<Rightarrow> Some (TAtom Eol, 0, n)
      | SDot \<Rightarrow> Some (TAtom (Cls True [CChar NL, CChar CR]), 0, n)
      | SStar \<Rightarrow> Some (quant_tok 0 None cs, lazy_mark cs, n)
      | SPlus \<Rightarrow> Some (quant_tok 1 None cs, lazy_mark cs, n)
      | SOpt \<Rightarrow> Some (quant_tok 0 (Some 1) cs, lazy_mark cs, n)
      | SBrace \<Rightarrow> brace_tok n cs
      | SClass \<Rightarrow> class_tok n cs
      | SEscape \<Rightarrow> escape_tok ng n cs
      | SPlain \<Rightarrow> Some (char_tok c, 0, n))"

function rx_toks :: "nat \<Rightarrow> nat \<Rightarrow> string \<Rightarrow> rtok list option" where
  "rx_toks ng n [] = Some []"
| "rx_toks ng n (c # cs) =
     (case next_tok ng n c cs of
        None \<Rightarrow> None
      | Some (t, i, n') \<Rightarrow> map_option ((#) t) (rx_toks ng n' (drop i cs)))"
  by pat_completeness auto
termination
  by (relation "measure (\<lambda>(ng, n, s). length s)") auto

subsection \<open>Assembling the pattern\<close>

text \<open>
  A frame is an open group with the alternatives finished so far and the terms of the
  current alternative, both in reverse; the outermost frame has kind \<open>None\<close>.
\<close>

type_synonym frame = "gkind option \<times> rx list \<times> rx list"

definition seq_of :: "rx list \<Rightarrow> rx" where
  "seq_of ts = (case ts of [] \<Rightarrow> Eps | t # ts' \<Rightarrow> foldl (\<lambda>acc a. Seq a acc) t ts')"

definition alt_of :: "rx list \<Rightarrow> rx list \<Rightarrow> rx" where
  "alt_of alts cur = foldl (\<lambda>acc a. Alt a acc) (seq_of cur) alts"

fun close_group :: "gkind \<Rightarrow> rx \<Rightarrow> rx" where
  "close_group (GCap n) r = Group n r"
| "close_group GNonCap r = r"
| "close_group (GLook p) r = Look p r"

fun quantifiable :: "rx \<Rightarrow> bool" where
  "quantifiable Bol = False"
| "quantifiable Eol = False"
| "quantifiable (WordB p) = False"
| "quantifiable r = True"

fun assemble :: "frame list \<Rightarrow> rtok list \<Rightarrow> rx option" where
  "assemble [(None, alts, cur)] [] = Some (alt_of alts cur)"
| "assemble fs [] = None"
| "assemble [] (t # ts) = None"
| "assemble ((k, alts, cur) # fs) (TAtom a # ts) = assemble ((k, alts, a # cur) # fs) ts"
| "assemble ((k, alts, cur) # fs) (TBar # ts) = assemble ((k, seq_of cur # alts, []) # fs) ts"
| "assemble fs (TOpen g # ts) = assemble ((Some g, [], []) # fs) ts"
| "assemble ((Some g, alts, cur) # (k, alts', cur') # fs) (TClose # ts) =
     assemble ((k, alts', close_group g (alt_of alts cur) # cur') # fs) ts"
| "assemble fs (TClose # ts) = None"
| "assemble ((k, alts, cur) # fs) (TQuant lo hi g # ts) =
     (case cur of
        a # cur' \<Rightarrow> if quantifiable a then assemble ((k, alts, Rep lo hi g a # cur') # fs) ts else None
      | [] \<Rightarrow> None)"

definition RegExp :: "string \<Rightarrow> rx_flags \<Rightarrow> regexp option" where
  "RegExp src f =
     (let ng = count_groups False src
      in case rx_toks ng 0 src of
           None \<Rightarrow> None
         | Some ts \<Rightarrow> map_option (\<lambda>r. \<lparr>pat = r, ngroups = ng, flags = f\<rparr>) (assemble [(None, [], [])] ts))"

text \<open>
  A regular expression literal of the source. A literal that did not parse would be a
  \<open>SyntaxError\<close> of the whole script; every use is accompanied by a lemma
  that it parses. The value then used for totality matches nothing.
\<close>

definition re_fail :: regexp where
  "re_fail = \<lparr>pat = Cls False [], ngroups = 0, flags = no_flags\<rparr>"

definition re :: "rx_flags \<Rightarrow> string \<Rightarrow> regexp" where
  "re f src = (case RegExp src f of None \<Rightarrow> re_fail | Some r \<Rightarrow> r)"

definition parses :: "string \<Rightarrow> bool" where
  "parses src \<longleftrightarrow> RegExp src no_flags \<noteq> None"

end
