(* ===== verification/Remark_Lexer.thy ===== *)
theory Remark_Lexer
  imports Js_RegExp_Syntax
begin

text \<open>
  The slide lexer of remark (\<^verbatim>\<open>remark.js\<close>, module 16): the token types, the two
  combined regular expressions built from \<open>regexByName\<close>, the loop \<open>lex\<close> with its
  recursion into content classes, \<open>getTextInBrackets\<close> and the method
  \<open>Lexer.prototype.lex\<close>.

  Shown here: the loop terminates on every input (each match consumes a character), the
  tokens of content classes are balanced, so that the parser's stack never
  underflows, no two text tokens are adjacent in the result, and every capture the
  loop dispatches on is one of the groups of the combined expression.
\<close>

subsection \<open>Tokens\<close>

datatype token =
    TText string
  | TCode string
  | TFences string
  | TDef string "string option" "string option"
  | TMacro string "string list" "string option"
  | TSeparator string
  | TNotesSeparator string
  | TContentStart "string list" bool
  | TContentEnd bool

subsection \<open>The combined expressions\<close>

definition regexByName :: "(string \<times> string) list" where
  "regexByName =
    [(''CODE'', bs ''(?:^|%n%n)( {4}[^%n]+%n*)+''),
     (''INLINE_CODE'', bs ''%`([^%`].*?)%`''),
     (''CONTENT'', bs ''(?:%%)?((?:%.[a-zA-Z_%-][a-zA-Z%-_0-9]*)+)%[''),
     (''FENCES'', bs ''(?:^|%n) *(`{3,}|~{3,}) *(?:%S+)? *%n(?:[%s%S]+?)%s*%4 *(?:%n+|$)''),
     (''DEF'', bs ''(?:^|%n) *%[([^%]]+)%]: *<?([^%s>]+)>?(?: +[\"(]([^%n]+)[\")])? *(?:%n+|$)''),
     (''MACRO'', bs ''!%[:([^%] ]+)([^%]]*)%](?:%(([^%)]*)%))?''),
     (''SLIDE_SEPARATOR'', bs ''(?:^|%n)(---)(?:%n|$)''),
     (''FRAGMENT_SEPARATOR'', bs ''(?:^|%n)(--)(?![^%n])''),
     (''NOTES_SEPARATOR'', bs ''(?:^|%n)(%?{3})(?:%n|$)'')]"

text \<open>\<open>replace (regex, replacements)\<close>: every word of at least two characters in the
  source is replaced by the source of the expression of that name.\<close>

definition word2_re :: regexp where
  "word2_re = re no_flags (bs ''%w{2,}'')"

definition replace :: "string \<Rightarrow> (string \<times> string) list \<Rightarrow> string" where
  "replace src replacements =
     re_replace word2_re (\<lambda>m. case map_of replacements (cap0 m) of None \<Rightarrow> [] | Some w \<Rightarrow> w) src"

definition block_src :: string where
  "block_src =
     replace ''CODE|INLINE_CODE|CONTENT|FENCES|DEF|MACRO|SLIDE_SEPARATOR|FRAGMENT_SEPARATOR|NOTES_SEPARATOR'' regexByName"

definition inline_src :: string where
  "inline_src = replace ''CODE|INLINE_CODE|CONTENT|FENCES|DEF|MACRO'' regexByName"

definition block_re :: regexp where
  "block_re = re no_flags block_src"

definition inline_re :: regexp where
  "inline_re = re no_flags inline_src"

text \<open>The syntax trees of the expressions, computed once from their sources.\<close>

lemma block_re_ast [code]:
  "block_re =
     \<lparr>pat = Alt (Seq (Alt Bol (Seq (Cls False [CChar NL]) (Cls False [CChar NL]))) (Rep 1
     None True (Group 1 (Seq (Rep 4 (Some 4) True (Cls False [CChar CHR '' ''])) (Seq (Rep 1 None
     True (Cls True [CChar NL])) (Rep 0 None True (Cls False [CChar NL]))))))) (Alt (Seq (Cls False
     [CChar CHR 0x60]) (Seq (Group 2 (Seq (Cls True [CChar CHR 0x60]) (Rep 0 None False (Cls True
     [CChar NL, CChar CR])))) (Cls False [CChar CHR 0x60]))) (Alt (Seq (Rep 0 (Some 1) True (Cls
     False [CChar BSL])) (Seq (Group 3 (Rep 1 None True (Seq (Cls False [CChar CHR ''.'']) (Seq
     (Cls False [CRange CHR ''a'' CHR ''z'', CRange CHR ''A'' CHR ''Z'', CChar CHR ''_'', CChar CHR
     ''-'']) (Rep 0 None True (Cls False [CRange CHR ''a'' CHR ''z'', CRange CHR ''A'' CHR ''Z'',
     CChar CHR ''-'', CChar CHR ''_'', CRange CHR ''0'' CHR ''9''])))))) (Cls False [CChar CHR
     ''['']))) (Alt (Seq (Alt Bol (Cls False [CChar NL])) (Seq (Rep 0 None True (Cls False [CChar
     CHR '' ''])) (Seq (Group 4 (Alt (Rep 3 None True (Cls False [CChar CHR 0x60])) (Rep 3 None
     True (Cls False [CChar CHR ''~''])))) (Seq (Rep 0 None True (Cls False [CChar CHR '' '']))
     (Seq (Rep 0 (Some 1) True (Rep 1 None True (Cls False [CSpace False]))) (Seq (Rep 0 None True
     (Cls False [CChar CHR '' ''])) (Seq (Cls False [CChar NL]) (Seq (Rep 1 None False (Cls False
     [CSpace True, CSpace False])) (Seq (Rep 0 None True (Cls False [CSpace True])) (Seq (BackRef
     4) (Seq (Rep 0 None True (Cls False [CChar CHR '' ''])) (Alt (Rep 1 None True (Cls False
     [CChar NL])) Eol)))))))))))) (Alt (Seq (Alt Bol (Cls False [CChar NL])) (Seq (Rep 0 None True
     (Cls False [CChar CHR '' ''])) (Seq (Cls False [CChar CHR ''['']) (Seq (Group 5 (Rep 1 None
     True (Cls True [CChar CHR '']'']))) (Seq (Cls False [CChar CHR '']'']) (Seq (Cls False [CChar
     CHR '':'']) (Seq (Rep 0 None True (Cls False [CChar CHR '' ''])) (Seq (Rep 0 (Some 1) True
     (Cls False [CChar CHR ''<''])) (Seq (Group 6 (Rep 1 None True (Cls True [CSpace True, CChar
     CHR ''>'']))) (Seq (Rep 0 (Some 1) True (Cls False [CChar CHR ''>''])) (Seq (Rep 0 (Some 1)
     True (Seq (Rep 1 None True (Cls False [CChar CHR '' ''])) (Seq (Cls False [CChar CHR 0x22,
     CChar CHR ''('']) (Seq (Group 7 (Rep 1 None True (Cls True [CChar NL]))) (Cls False [CChar CHR
     0x22, CChar CHR '')'']))))) (Seq (Rep 0 None True (Cls False [CChar CHR '' ''])) (Alt (Rep 1
     None True (Cls False [CChar NL])) Eol))))))))))))) (Alt (Seq (Cls False [CChar CHR ''!''])
     (Seq (Cls False [CChar CHR ''['']) (Seq (Cls False [CChar CHR '':'']) (Seq (Group 8 (Rep 1
     None True (Cls True [CChar CHR '']'', CChar CHR '' '']))) (Seq (Group 9 (Rep 0 None True (Cls
     True [CChar CHR '']'']))) (Seq (Cls False [CChar CHR '']'']) (Rep 0 (Some 1) True (Seq (Cls
     False [CChar CHR ''('']) (Seq (Group 10 (Rep 0 None True (Cls True [CChar CHR '')'']))) (Cls
     False [CChar CHR '')''])))))))))) (Alt (Seq (Alt Bol (Cls False [CChar NL])) (Seq (Group 11
     (Seq (Cls False [CChar CHR ''-'']) (Seq (Cls False [CChar CHR ''-'']) (Cls False [CChar CHR
     ''-''])))) (Alt (Cls False [CChar NL]) Eol))) (Alt (Seq (Alt Bol (Cls False [CChar NL])) (Seq
     (Group 12 (Seq (Cls False [CChar CHR ''-'']) (Cls False [CChar CHR ''-'']))) (Look False (Cls
     True [CChar NL])))) (Seq (Alt Bol (Cls False [CChar NL])) (Seq (Group 13 (Rep 3 (Some 3) True
     (Cls False [CChar CHR ''?'']))) (Alt (Cls False [CChar NL]) Eol)))))))))), ngroups = 13, flags
     = no_flags\<rparr>"
  by code_simp

lemma inline_re_ast [code]:
  "inline_re =
     \<lparr>pat = Alt (Seq (Alt Bol (Seq (Cls False [CChar NL]) (Cls False [CChar NL]))) (Rep 1
     None True (Group 1 (Seq (Rep 4 (Some 4) True (Cls False [CChar CHR '' ''])) (Seq (Rep 1 None
     True (Cls True [CChar NL])) (Rep 0 None True (Cls False [CChar NL]))))))) (Alt (Seq (Cls False
     [CChar CHR 0x60]) (Seq (Group 2 (Seq (Cls True [CChar CHR 0x60]) (Rep 0 None False (Cls True
     [CChar NL, CChar CR])))) (Cls False [CChar CHR 0x60]))) (Alt (Seq (Rep 0 (Some 1) True (Cls
     False [CChar BSL])) (Seq (Group 3 (Rep 1 None True (Seq (Cls False [CChar CHR ''.'']) (Seq
     (Cls False [CRange CHR ''a'' CHR ''z'', CRange CHR ''A'' CHR ''Z'', CChar CHR ''_'', CChar CHR
     ''-'']) (Rep 0 None True (Cls False [CRange CHR ''a'' CHR ''z'', CRange CHR ''A'' CHR ''Z'',
     CChar CHR ''-'', CChar CHR ''_'', CRange CHR ''0'' CHR ''9''])))))) (Cls False [CChar CHR
     ''['']))) (Alt (Seq (Alt Bol (Cls False [CChar NL])) (Seq (Rep 0 None True (Cls False [CChar
     CHR '' ''])) (Seq (Group 4 (Alt (Rep 3 None True (Cls False [CChar CHR 0x60])) (Rep 3 None
     True (Cls False [CChar CHR ''~''])))) (Seq (Rep 0 None True (Cls False [CChar CHR '' '']))
     (Seq (Rep 0 (Some 1) True (Rep 1 None True (Cls False [CSpace False]))) (Seq (Rep 0 None True
     (Cls False [CChar CHR '' ''])) (Seq (Cls False [CChar NL]) (Seq (Rep 1 None False (Cls False
     [CSpace True, CSpace False])) (Seq (Rep 0 None True (Cls False [CSpace True])) (Seq (BackRef
     4) (Seq (Rep 0 None True (Cls False [CChar CHR '' ''])) (Alt (Rep 1 None True (Cls False
     [CChar NL])) Eol)))))))))))) (Alt (Seq (Alt Bol (Cls False [CChar NL])) (Seq (Rep 0 None True
     (Cls False [CChar CHR '' ''])) (Seq (Cls False [CChar CHR ''['']) (Seq (Group 5 (Rep 1 None
     True (Cls True [CChar CHR '']'']))) (Seq (Cls False [CChar CHR '']'']) (Seq (Cls False [CChar
     CHR '':'']) (Seq (Rep 0 None True (Cls False [CChar CHR '' ''])) (Seq (Rep 0 (Some 1) True
     (Cls False [CChar CHR ''<''])) (Seq (Group 6 (Rep 1 None True (Cls True [CSpace True, CChar
     CHR ''>'']))) (Seq (Rep 0 (Some 1) True (Cls False [CChar CHR ''>''])) (Seq (Rep 0 (Some 1)
     True (Seq (Rep 1 None True (Cls False [CChar CHR '' ''])) (Seq (Cls False [CChar CHR 0x22,
     CChar CHR ''('']) (Seq (Group 7 (Rep 1 None True (Cls True [CChar NL]))) (Cls False [CChar CHR
     0x22, CChar CHR '')'']))))) (Seq (Rep 0 None True (Cls False [CChar CHR '' ''])) (Alt (Rep 1
     None True (Cls False [CChar NL])) Eol))))))))))))) (Seq (Cls False [CChar CHR ''!'']) (Seq
     (Cls False [CChar CHR ''['']) (Seq (Cls False [CChar CHR '':'']) (Seq (Group 8 (Rep 1 None
     True (Cls True [CChar CHR '']'', CChar CHR '' '']))) (Seq (Group 9 (Rep 0 None True (Cls True
     [CChar CHR '']'']))) (Seq (Cls False [CChar CHR '']'']) (Rep 0 (Some 1) True (Seq (Cls False
     [CChar CHR ''('']) (Seq (Group 10 (Rep 0 None True (Cls True [CChar CHR '')'']))) (Cls False
     [CChar CHR '')''])))))))))))))), ngroups = 10, flags = no_flags\<rparr>"
  by code_simp

lemma word2_re_ast [code]:
  "word2_re =
     \<lparr>pat = Rep 2 None True (Cls False [CWord True]), ngroups = 0, flags = no_flags\<rparr>"
  by code_simp

definition lex_re :: "bool \<Rightarrow> regexp" where
  "lex_re blk = (if blk then block_re else inline_re)"

lemma block_re_min: "rx_min (pat block_re) = 2"
  by code_simp

lemma inline_re_min: "rx_min (pat inline_re) = 3"
  by code_simp

lemma inline_re_groups: "ngroups inline_re = 10"
  by code_simp

lemma lex_re_min: "1 \<le> rx_min (pat (lex_re blk))"
  by (simp add: lex_re_def block_re_min inline_re_min)

subsection \<open>Brackets\<close>

text \<open>The loop of \<open>getTextInBrackets\<close>: \<open>d\<close> is the depth, \<open>acc\<close> the text read so
  far, reversed.\<close>

fun bracket_scan :: "nat \<Rightarrow> string \<Rightarrow> string \<Rightarrow> string option" where
  "bracket_scan d [] acc = None"
| "bracket_scan d (c # cs) acc =
     (let d' = (if c = CHR ''['' then d + 1 else if c = CHR '']'' then d - 1 else d)
      in if d' = 0 then Some (rev acc) else bracket_scan d' cs (c # acc))"

definition getTextInBrackets :: "string \<Rightarrow> nat \<Rightarrow> string option" where
  "getTextInBrackets src offset = bracket_scan 1 (drop offset src) []"

subsection \<open>The lexing loop\<close>

definition trim_args :: "string option \<Rightarrow> string list" where
  "trim_args c = map trim (split_char (CHR '','') (case c of None \<Rightarrow> [] | Some w \<Rightarrow> w))"

text \<open>The branches of the loop that push one token; the groups are numbered as in the
  source: CODE 1, INLINE\_CODE 2, CONTENT 3, FENCES 4, DEF 5 to 7, MACRO 8 to 10,
  SLIDE\_SEPARATOR 11, FRAGMENT\_SEPARATOR 12, NOTES\_SEPARATOR 13.\<close>

definition lex_token :: "rx_match \<Rightarrow> token option" where
  "lex_token m =
     (if truthy (cap m 1) then Some (TCode (cap0 m))
      else if truthy (cap m 2) then Some (TText (cap0 m))
      else if truthy (cap m 4) then Some (TFences (cap0 m))
      else if truthy (cap m 5) then Some (TDef (toLowerCase (cap_str m 5)) (cap m 6) (cap m 7))
      else if truthy (cap m 8) then Some (TMacro (cap_str m 8) (trim_args (cap m 9)) (cap m 10))
      else if truthy (cap m 11) \<or> truthy (cap m 12)
        then Some (TSeparator (if truthy (cap m 11) then cap_str m 11 else cap_str m 12))
      else if truthy (cap m 13) then Some (TNotesSeparator (cap_str m 13))
      else None)"

definition content_classes :: "rx_match \<Rightarrow> string list" where
  "content_classes m = split_char (CHR ''.'') (drop 1 (cap_str m 3))"

definition has_newline :: "string \<Rightarrow> bool" where
  "has_newline text \<longleftrightarrow> indexOf text [NL] \<noteq> None"

definition starts_with_backslash :: "string \<Rightarrow> bool" where
  "starts_with_backslash w \<longleftrightarrow> (case w of [] \<Rightarrow> False | c # _ \<Rightarrow> c = BSL)"

function lex :: "bool \<Rightarrow> string \<Rightarrow> token list \<Rightarrow> token list" where
  "lex blk src tokens =
     (case exec (lex_re blk) src of
        None \<Rightarrow> if src \<noteq> [] \<or> tokens = [] then tokens @ [TText src] else tokens
      | Some m \<Rightarrow>
          let toks = (if m_index m > 0 then tokens @ [TText (take (m_index m) src)] else tokens);
              e = m_index m + length (cap0 m)
          in case lex_token m of
               Some t \<Rightarrow> lex blk (drop e src) (toks @ [t])
             | None \<Rightarrow>
                 if truthy (cap m 3) then
                   (case getTextInBrackets src e of
                      Some text \<Rightarrow>
                        let src' = drop (length text + 1) src
                        in if \<not> starts_with_backslash (cap0 m)
                           then lex blk (drop e src')
                                  (lex False text (toks @ [TContentStart (content_classes m) (has_newline text)]) @
                                   [TContentEnd (has_newline text)])
                           else lex blk (drop e src') (toks @ [TText (drop 1 (cap0 m) @ text @ '']'')])
                    | None \<Rightarrow> lex blk (drop e src) (toks @ [TText (cap0 m)]))
                 else lex blk (drop e src) toks)"
  by pat_completeness auto

lemma bracket_scan_Some:
  "bracket_scan d xs acc = Some t \<Longrightarrow> 0 < d \<Longrightarrow> \<exists>u r. t = rev acc @ u \<and> xs = u @ CHR '']'' # r"
proof (induction d xs acc rule: bracket_scan.induct)
  case (2 d c cs acc)
  let ?d = "if c = CHR ''['' then d + 1 else if c = CHR '']'' then d - 1 else d"
  show ?case
  proof (cases "?d = 0")
    case True
    with "2.prems" show ?thesis
      by (cases "c = CHR '']''") (auto simp: Let_def split: if_splits)
  next
    case False
    then have "bracket_scan ?d cs (c # acc) = Some t"
      using "2.prems" by (simp add: Let_def)
    then obtain u r where "t = rev (c # acc) @ u" "cs = u @ CHR '']'' # r"
      using "2.IH" [OF refl False] False by blast
    then show ?thesis by (intro exI [of _ "c # u"] exI [of _ r]) simp
  qed
qed simp

lemma getTextInBrackets_Some:
  assumes "getTextInBrackets src e = Some text"
  shows "\<exists>r. drop e src = text @ CHR '']'' # r" "e + length text < length src"
proof -
  show "\<exists>r. drop e src = text @ CHR '']'' # r"
    using bracket_scan_Some [of 1 "drop e src" "[]" "text"] assms by (simp add: getTextInBrackets_def)
  then have "length (drop e src) > length text"
    by (metis length_append length_Cons less_add_Suc1 add_Suc_right)
  then show "e + length text < length src" by simp
qed

text \<open>Every match consumes at least one character of the source.\<close>

lemma lex_progress:
  assumes "exec (lex_re blk) src = Some m"
  shows "0 < length (cap0 m) \<and> m_index m + length (cap0 m) \<le> length src \<and> 0 < length src"
  using exec_splits [OF assms] lex_re_min [of blk]
  by (auto simp: match_splits_def)

termination lex
  by (relation "measure (\<lambda>(blk, src, tokens). length src)")
    (auto dest!: lex_progress getTextInBrackets_Some(2))

declare lex.simps [simp del]

text \<open>Adjacent text tokens are joined, from the end of the list.\<close>

fun merge_texts :: "token list \<Rightarrow> token list" where
  "merge_texts [] = []"
| "merge_texts (t # ts) =
     (case (t, merge_texts ts) of
        (TText a, TText b # us) \<Rightarrow> TText (a @ b) # us
      | (_, us) \<Rightarrow> t # us)"

text \<open>\<open>Lexer.prototype.lex\<close>: only the first carriage return is removed.\<close>

definition Lexer_lex :: "string \<Rightarrow> token list" where
  "Lexer_lex src = merge_texts (lex True (replace_first [CR] [] src) [])"

subsection \<open>Content classes are well nested\<close>

fun is_separator :: "token \<Rightarrow> bool" where
  "is_separator (TSeparator s) = True"
| "is_separator (TNotesSeparator s) = True"
| "is_separator t = False"

fun is_bracket :: "token \<Rightarrow> bool" where
  "is_bracket (TContentStart cs b) = True"
| "is_bracket (TContentEnd b) = True"
| "is_bracket t = False"

text \<open>
  Well-nested token lists: every content class is closed, with the same \<open>block\<close> flag,
  and separators occur only outside content classes (\<open>blk\<close>).
\<close>

inductive well_nested :: "bool \<Rightarrow> token list \<Rightarrow> bool" where
  wn_Nil: "well_nested blk []"
| wn_Plain: "\<not> is_bracket t \<Longrightarrow> is_separator t \<longrightarrow> blk \<Longrightarrow> well_nested blk ts \<Longrightarrow> well_nested blk (t # ts)"
| wn_Content: "well_nested False ts \<Longrightarrow> well_nested blk us \<Longrightarrow>
     well_nested blk (TContentStart cs b # ts @ TContentEnd b # us)"

declare well_nested.intros [intro]

lemma well_nested_append: "well_nested blk ts \<Longrightarrow> well_nested blk us \<Longrightarrow> well_nested blk (ts @ us)"
  by (induction rule: well_nested.induct) auto

lemma well_nested_snoc:
  "well_nested blk ts \<Longrightarrow> \<not> is_bracket t \<Longrightarrow> is_separator t \<longrightarrow> blk \<Longrightarrow> well_nested blk (ts @ [t])"
  by (rule well_nested_append) auto

text \<open>The inline expression has no groups for separators.\<close>

lemma inline_no_separator:
  assumes "exec inline_re src = Some m" "lex_token m = Some t"
  shows "\<not> is_separator t"
proof -
  have "length (m_caps m) = 11"
    using exec_splits [OF assms(1)] by (simp add: match_splits_def inline_re_groups)
  then have "cap m 11 = None" "cap m 12 = None" "cap m 13 = None"
    by (simp_all add: cap_def get_cap_def)
  then show ?thesis
    using assms(2) by (auto simp: lex_token_def truthy_def split: if_splits)
qed

lemma lex_token_plain:
  assumes "exec (lex_re blk) src = Some m" "lex_token m = Some t"
  shows "\<not> is_bracket t \<and> (is_separator t \<longrightarrow> blk)"
proof -
  have "\<not> is_bracket t"
    using assms(2) by (auto simp: lex_token_def split: if_splits)
  moreover have "is_separator t \<longrightarrow> blk"
    using assms inline_no_separator by (cases blk) (auto simp: lex_re_def)
  ultimately show ?thesis by simp
qed

text \<open>The loop appends a well-nested list of tokens to its accumulator.\<close>

definition appends :: "bool \<Rightarrow> token list \<Rightarrow> token list \<Rightarrow> bool" where
  "appends blk ts us \<longleftrightarrow> (\<exists>vs. us = ts @ vs \<and> well_nested blk vs)"

lemma appends_refl [simp]: "appends blk ts ts"
  by (auto simp: appends_def)

lemma appends_trans: "appends blk ts us \<Longrightarrow> appends blk us vs \<Longrightarrow> appends blk ts vs"
  by (auto simp: appends_def intro: well_nested_append)

lemma appends_plain:
  "appends blk ts us \<Longrightarrow> \<not> is_bracket t \<Longrightarrow> is_separator t \<longrightarrow> blk \<Longrightarrow> appends blk ts (us @ [t])"
  by (auto simp: appends_def intro!: well_nested_snoc)

lemma appends_content:
  assumes "appends blk ts us" "appends False (us @ [TContentStart cs b]) vs"
  shows "appends blk ts (vs @ [TContentEnd b])"
proof -
  obtain xs ys where "us = ts @ xs" "well_nested blk xs"
    and "vs = (us @ [TContentStart cs b]) @ ys" "well_nested False ys"
    using assms by (auto simp: appends_def)
  moreover from this have "well_nested blk (xs @ TContentStart cs b # ys @ TContentEnd b # [])"
    by (intro well_nested_append wn_Content wn_Nil)
  ultimately show ?thesis by (simp add: appends_def)
qed

lemma lex_appends: "appends blk tokens (lex blk src tokens)"
proof (induction blk src tokens rule: lex.induct)
  case (1 blk src tokens)
  show ?case
  proof (cases "exec (lex_re blk) src")
    case None
    then show ?thesis
      by (auto simp: lex.simps [of blk src tokens] intro: appends_plain)
  next
    case (Some m)
    define toks where "toks = (if m_index m > 0 then tokens @ [TText (take (m_index m) src)] else tokens)"
    define e where "e = m_index m + length (cap0 m)"
    note IH = "1.IH" [OF Some toks_def e_def]
    have toks: "appends blk tokens toks"
      by (auto simp: toks_def intro: appends_plain)
    have step: "lex blk src tokens =
       (case lex_token m of
          Some t \<Rightarrow> lex blk (drop e src) (toks @ [t])
        | None \<Rightarrow>
            if truthy (cap m 3) then
              (case getTextInBrackets src e of
                 Some text \<Rightarrow>
                   if \<not> starts_with_backslash (cap0 m)
                   then lex blk (drop e (drop (length text + 1) src))
                          (lex False text (toks @ [TContentStart (content_classes m) (has_newline text)]) @
                           [TContentEnd (has_newline text)])
                   else lex blk (drop e (drop (length text + 1) src))
                          (toks @ [TText (drop 1 (cap0 m) @ text @ '']'')])
               | None \<Rightarrow> lex blk (drop e src) (toks @ [TText (cap0 m)]))
            else lex blk (drop e src) toks)"
      by (simp only: lex.simps [of blk src tokens] Some toks_def e_def Let_def option.case)
    have go: "appends blk tokens (lex blk s' ts)"
      if "appends blk ts (lex blk s' ts)" "appends blk tokens ts" for s' ts
      using that by (rule appends_trans [rotated])
    show ?thesis
    proof (cases "lex_token m")
      case (Some t)
      with \<open>exec _ _ = _\<close> lex_token_plain have "\<not> is_bracket t \<and> (is_separator t \<longrightarrow> blk)"
        by blast
      then show ?thesis
        using IH Some toks unfolding step Some by (auto intro!: go appends_plain)
    next
      case None
      show ?thesis
        unfolding step None option.case
        using IH None toks
        by (auto intro!: go appends_plain appends_content split: option.split)
    qed
  qed
qed

lemma merge_texts_cases:
  obtains (joined) a b us where "t = TText a" "merge_texts ts = TText b # us"
      "merge_texts (t # ts) = TText (a @ b) # us"
    | (kept) "merge_texts (t # ts) = t # merge_texts ts"
      "\<And>a b us. t = TText a \<Longrightarrow> merge_texts ts \<noteq> TText b # us"
proof (cases "\<exists>a b us. t = TText a \<and> merge_texts ts = TText b # us")
  case True
  then show ?thesis using joined by auto
next
  case False
  then have "merge_texts (t # ts) = t # merge_texts ts"
    by (auto split: token.splits list.splits)
  then show ?thesis using kept False by blast
qed

lemma merge_texts_Cons_plain:
  "(\<And>a. t \<noteq> TText a) \<Longrightarrow> merge_texts (t # ts) = t # merge_texts ts"
  by (cases t) auto

lemma merge_texts_append_plain:
  assumes "\<And>a. t \<noteq> TText a"
  shows "merge_texts (ts @ t # us) = merge_texts ts @ t # merge_texts us"
proof (induction ts)
  case Nil
  show ?case using merge_texts_Cons_plain [OF assms] by simp
next
  case (Cons v ts)
  have "(case (v, xs @ t # ys) of (TText a, TText b # us) \<Rightarrow> TText (a @ b) # us | (_, us) \<Rightarrow> v # us) =
        (case (v, xs) of (TText a, TText b # us) \<Rightarrow> TText (a @ b) # us | (_, us) \<Rightarrow> v # us) @ t # ys" for xs ys
    using assms by (cases xs) (auto split: token.splits)
  then show ?case by (simp add: Cons.IH)
qed

lemma merge_texts_well_nested: "well_nested blk ts \<Longrightarrow> well_nested blk (merge_texts ts)"
proof (induction rule: well_nested.induct)
  case (wn_Plain t blk ts)
  show ?case
  proof (cases rule: merge_texts_cases [of t ts])
    case (joined a b us)
    with wn_Plain.IH have "well_nested blk us"
      by (auto elim: well_nested.cases)
    then show ?thesis unfolding joined(3) by auto
  next
    case kept
    then show ?thesis unfolding kept(1) using wn_Plain by auto
  qed
next
  case (wn_Content ts blk us cs b)
  have "merge_texts (TContentStart cs b # ts @ TContentEnd b # us) =
        TContentStart cs b # merge_texts ts @ TContentEnd b # merge_texts us"
    using merge_texts_append_plain [of "TContentEnd b" ts us] by simp
  then show ?case using wn_Content by auto
qed auto

theorem Lexer_lex_well_nested: "well_nested True (Lexer_lex src)"
  using lex_appends [of True "[]" "replace_first [CR] [] src"]
  by (auto simp: Lexer_lex_def appends_def intro: merge_texts_well_nested)

subsection \<open>No two adjacent text tokens\<close>

fun is_text :: "token \<Rightarrow> bool" where
  "is_text (TText a) = True"
| "is_text t = False"

fun texts_separated :: "token list \<Rightarrow> bool" where
  "texts_separated [] = True"
| "texts_separated [t] = True"
| "texts_separated (t # u # ts) = (\<not> (is_text t \<and> is_text u) \<and> texts_separated (u # ts))"

lemma is_text_iff: "is_text t \<longleftrightarrow> (\<exists>a. t = TText a)"
  by (cases t) auto

lemma texts_separated_Cons:
  "texts_separated (t # ts) \<longleftrightarrow>
     texts_separated ts \<and> \<not> (\<exists>a b us. t = TText a \<and> ts = TText b # us)"
  by (cases ts) (auto simp: is_text_iff)

lemma merge_texts_separated: "texts_separated (merge_texts ts)"
proof (induction ts)
  case (Cons t ts)
  show ?case
  proof (cases rule: merge_texts_cases [of t ts])
    case (joined a b us)
    with Cons.IH show ?thesis unfolding joined(3) by (auto simp: texts_separated_Cons)
  next
    case kept
    then show ?thesis unfolding kept(1) using Cons.IH by (auto simp: texts_separated_Cons)
  qed
qed simp

text \<open>Merging keeps the text: the concatenation of all text tokens is unchanged.\<close>

fun token_text :: "token \<Rightarrow> string" where
  "token_text (TText a) = a"
| "token_text t = []"

lemma merge_texts_text: "concat (map token_text (merge_texts ts)) = concat (map token_text ts)"
proof (induction ts)
  case (Cons t ts)
  show ?case
  proof (cases rule: merge_texts_cases [of t ts])
    case (joined a b us)
    with Cons.IH show ?thesis unfolding joined(3) by simp
  next
    case kept
    then show ?thesis unfolding kept(1) using Cons.IH by simp
  qed
qed simp

lemma merge_texts_Nil_iff [simp]: "merge_texts ts = [] \<longleftrightarrow> ts = []"
proof (cases ts)
  case (Cons t us)
  then show ?thesis by (cases rule: merge_texts_cases [of t us]) simp_all
qed simp


subsection \<open>Properties\<close>

text \<open>
  C23. The token list of every source is well nested (each \<open>content_start\<close> has its
  \<open>content_end\<close> and no slide separator lies inside a content class) and no two text
  tokens are adjacent.
\<close>

theorem lexer_output_shape: "well_nested True (Lexer_lex src) \<and> texts_separated (Lexer_lex src)"
  using Lexer_lex_well_nested [of src] merge_texts_separated by (simp add: Lexer_lex_def)

end
