(* ===== verification/Remark_Parser.thy ===== *)
theory Remark_Parser
  imports Remark_Lexer
begin

text \<open>
  The slide parser of remark (\<^verbatim>\<open>remark.js\<close>, module 22): parsed slides and their
  content, \<open>appendTo\<close>, \<open>extractProperties\<close>, \<open>cleanInput\<close>, the token loop with its
  stack of open content classes and its recursion into macro results, and
  \<open>Parser.prototype.parse\<close>.

  Objects used as dictionaries (\<open>properties\<close>, \<open>links\<close>) are association lists in
  insertion order; assigning to a key that is present keeps its position, as in
  JavaScript. The table of macros is the page's own (\<open>remark.macros\<close> is filled by the
  user) and is a parameter.
\<close>

subsection \<open>Dictionaries\<close>

fun dict_set :: "string \<Rightarrow> 'v \<Rightarrow> (string \<times> 'v) list \<Rightarrow> (string \<times> 'v) list" where
  "dict_set k v [] = [(k, v)]"
| "dict_set k v ((k', v') # d) = (if k' = k then (k, v) # d else (k', v') # dict_set k v d)"

abbreviation dict_get :: "(string \<times> 'v) list \<Rightarrow> string \<Rightarrow> 'v option" where
  "dict_get d k \<equiv> map_of d k"

fun dict_delete :: "string \<Rightarrow> (string \<times> 'v) list \<Rightarrow> (string \<times> 'v) list" where
  "dict_delete k [] = []"
| "dict_delete k ((k', v') # d) = (if k' = k then dict_delete k d else (k', v') # dict_delete k d)"

lemma dict_get_set [simp]: "dict_get (dict_set k v d) = (dict_get d)(k \<mapsto> v)"
  by (induction k v d rule: dict_set.induct) auto

lemma dict_get_delete [simp]: "dict_get (dict_delete k d) = (dict_get d)(k := None)"
  by (induction k d rule: dict_delete.induct) auto

lemma dict_set_keys: "fst ` set (dict_set k v d) = insert k (fst ` set d)"
  by (induction k v d rule: dict_set.induct) auto

lemma dict_set_distinct: "distinct (map fst d) \<Longrightarrow> distinct (map fst (dict_set k v d))"
proof (induction k v d rule: dict_set.induct)
  case (2 k v k' v' d)
  then show ?case using dict_set_keys [of k v d] by (auto simp flip: set_map)
qed simp

subsection \<open>Slides and their content\<close>

datatype content = CText string | CClass string bool "content list"

record link =
  l_href :: "string option"
  l_title :: "string option"

record pslide =
  p_content :: "content list"
  p_properties :: "(string \<times> string) list"
  p_links :: "(string \<times> link) list"
  p_notes :: "content list option"

definition createSlide :: pslide where
  "createSlide = \<lparr>p_content = [], p_properties = [(''continued'', ''false'')], p_links = [], p_notes = None\<rparr>"

text \<open>An open content class: class names, block flag, content so far.\<close>

type_synonym cframe = "string \<times> bool \<times> content list"

definition createContentClass :: "string list \<Rightarrow> bool \<Rightarrow> cframe" where
  "createContentClass classes block = (join '' '' classes, block, [])"

text \<open>\<open>appendTo\<close>: two strings in a row become one; a slide with notes collects into its
  notes.\<close>

fun push_content :: "content list \<Rightarrow> content \<Rightarrow> content list" where
  "push_content [] c = [c]"
| "push_content [CText a] (CText b) = [CText (a @ b)]"
| "push_content [x] c = [x, c]"
| "push_content (x # y # xs) c = x # push_content (y # xs) c"

definition appendTo_slide :: "pslide \<Rightarrow> content \<Rightarrow> pslide" where
  "appendTo_slide s c =
     (case p_notes s of
        None \<Rightarrow> s\<lparr>p_content := push_content (p_content s) c\<rparr>
      | Some ns \<Rightarrow> s\<lparr>p_notes := Some (push_content ns c)\<rparr>)"

definition appendTo_class :: "cframe \<Rightarrow> content \<Rightarrow> cframe" where
  "appendTo_class f c = (case f of (cls, b, cs) \<Rightarrow> (cls, b, push_content cs c))"

subsection \<open>Properties\<close>

definition propertyFinder :: regexp where
  "propertyFinder = re \<lparr>ignoreCase = True, multiline = False\<rparr>
     (bs ''^%n*([-%w]+):([^$%n]*)|%n*(?:<!--%s*)([-%w]+):([^$%n]*?)(?:%s*-->)'')"

lemma propertyFinder_ast [code]:
  "propertyFinder =
     \<lparr>pat = Alt (Seq Bol (Seq (Rep 0 None True (Cls False [CChar NL])) (Seq (Group 1 (Rep 1
     None True (Cls False [CChar CHR ''-'', CWord True]))) (Seq (Cls False [CChar CHR '':''])
     (Group 2 (Rep 0 None True (Cls True [CChar CHR ''$'', CChar NL]))))))) (Seq (Rep 0 None True
     (Cls False [CChar NL])) (Seq (Seq (Cls False [CChar CHR ''<'']) (Seq (Cls False [CChar CHR
     ''!'']) (Seq (Cls False [CChar CHR ''-'']) (Seq (Cls False [CChar CHR ''-'']) (Rep 0 None True
     (Cls False [CSpace True])))))) (Seq (Group 3 (Rep 1 None True (Cls False [CChar CHR ''-'',
     CWord True]))) (Seq (Cls False [CChar CHR '':'']) (Seq (Group 4 (Rep 0 None False (Cls True
     [CChar CHR ''$'', CChar NL]))) (Seq (Rep 0 None True (Cls False [CSpace True])) (Seq (Cls
     False [CChar CHR ''-'']) (Seq (Cls False [CChar CHR ''-'']) (Cls False [CChar CHR
     ''>'']))))))))), ngroups = 4, flags = \<lparr>ignoreCase = True, multiline =
     False\<rparr>\<rparr>"
  by code_simp

lemma propertyFinder_min: "rx_min (pat propertyFinder) = 2"
  by code_simp

text \<open>The pair stored for a match: groups 1 and 2 for a line \<open>key: value\<close>, groups 3 and 4
  for an HTML comment.\<close>

definition property_of :: "rx_match \<Rightarrow> string \<times> string" where
  "property_of m =
     (if cap m 1 \<noteq> None then (trim (cap_str m 1), trim (cap_str m 2))
      else (trim (cap_str m 3), trim (cap_str m 4)))"

function extractProperties :: "string \<Rightarrow> (string \<times> string) list \<Rightarrow> string \<times> (string \<times> string) list" where
  "extractProperties source props =
     (case exec propertyFinder source of
        None \<Rightarrow> (source, props)
      | Some m \<Rightarrow>
          extractProperties (take (m_index m) source @ drop (m_index m + length (cap0 m)) source)
            (dict_set (fst (property_of m)) (snd (property_of m)) props))"
  by pat_completeness auto

lemma extractProperties_progress:
  assumes "exec propertyFinder source = Some m"
  shows "length (take (m_index m) source @ drop (m_index m + length (cap0 m)) source) < length source"
  using exec_splits [OF assms] propertyFinder_min by (auto simp: match_splits_def)

termination extractProperties
  by (relation "measure (\<lambda>(source, props). length source)")
    (use extractProperties_progress in auto)

declare extractProperties.simps [simp del]

subsection \<open>Cleaning the input\<close>

definition leadingWhitespacePattern :: regexp where
  "leadingWhitespacePattern = re \<lparr>ignoreCase = False, multiline = True\<rparr> (bs ''^([ %t]*)[^ %t%n]'')"

definition getMatchCaptures :: "string \<Rightarrow> regexp \<Rightarrow> string list" where
  "getMatchCaptures source pattern = map (\<lambda>m. cap_str m 1) (exec_all pattern source)"

text \<open>\<open>Math.min\<close> of no arguments is \<open>Infinity\<close>.\<close>

definition minWhitespace :: "string \<Rightarrow> nat option" where
  "minWhitespace source =
     (case map length (getMatchCaptures source leadingWhitespacePattern) of
        [] \<Rightarrow> None
      | n # ns \<Rightarrow> Some (fold min ns n))"

definition trimWhitespacePattern :: "nat option \<Rightarrow> regexp" where
  "trimWhitespacePattern n =
     re \<lparr>ignoreCase = False, multiline = True\<rparr>
       (bs (''^[ %t]{0,'' @ (case n of None \<Rightarrow> ''Infinity'' | Some k \<Rightarrow> nat_str k) @ ''}''))"

definition cleanInput :: "string \<Rightarrow> string" where
  "cleanInput source = re_replace (trimWhitespacePattern (minWhitespace source)) (\<lambda>m. []) source"

subsection \<open>Parsing\<close>

text \<open>
  A macro is called with \<open>this\<close> bound to the link target, if any, and the arguments; it
  throws (\<open>Inl\<close>) or returns a string, \<open>undefined\<close>, \<open>null\<close>, or another value,
  given by its \<open>toString()\<close>.
\<close>

datatype macro_result = MString string | MUndefined | MNull | MOther string

type_synonym macro = "string option \<Rightarrow> string list \<Rightarrow> string + macro_result"

datatype perr =
    MacroNotFound string
  | MacroThrew string
  | TypeErr string
  | ErrorMsg string
  | StackUnderflow

text \<open>\<open>None\<close> stands for a computation that needs more fuel (nested macro expansions).\<close>

type_synonym 'a pres = "(perr + 'a) option"

definition pbind :: "'a pres \<Rightarrow> ('a \<Rightarrow> 'b pres) \<Rightarrow> 'b pres" where
  "pbind r f = (case r of None \<Rightarrow> None | Some (Inl e) \<Rightarrow> Some (Inl e) | Some (Inr x) \<Rightarrow> f x)"

record pstate =
  ps_slides :: "pslide list"
  ps_slide :: pslide
  ps_stack :: "cframe list"

definition append_top :: "content \<Rightarrow> pstate \<Rightarrow> pstate" where
  "append_top c st =
     (case ps_stack st of
        [] \<Rightarrow> st\<lparr>ps_slide := appendTo_slide (ps_slide st) c\<rparr>
      | f # fs \<Rightarrow> st\<lparr>ps_stack := appendTo_class f c # fs\<rparr>)"

text \<open>The result of a macro: a string is parsed again (without options) and the first item
  of the first slide is used.\<close>

definition macro_content :: "(string \<Rightarrow> pslide list pres) \<Rightarrow> macro_result \<Rightarrow> content pres" where
  "macro_content rec v =
     (case v of
        MString w \<Rightarrow>
          pbind (rec w)
            (\<lambda>slides. case slides of
               [] \<Rightarrow> Some (Inl (TypeErr ''content of undefined''))
             | sl # _ \<Rightarrow>
                 (case p_content sl of
                    [] \<Rightarrow> Some (Inl (TypeErr ''undefined item''))
                  | c # _ \<Rightarrow> Some (Inr c)))
      | MUndefined \<Rightarrow> Some (Inr (CText []))
      | MNull \<Rightarrow> Some (Inl (TypeErr ''toString of null''))
      | MOther w \<Rightarrow> Some (Inr (CText w)))"

definition close_class :: "pstate \<Rightarrow> pstate pres" where
  "close_class st =
     (case ps_stack st of
        [] \<Rightarrow> Some (Inl StackUnderflow)
      | (cls, b, cs) # fs \<Rightarrow> Some (Inr (append_top (CClass cls b cs) (st\<lparr>ps_stack := fs\<rparr>))))"

definition separate :: "bool \<Rightarrow> string \<Rightarrow> pstate \<Rightarrow> pstate" where
  "separate disableIncrementalSlides sep st =
     (if sep = ''--'' \<and> disableIncrementalSlides
      then st\<lparr>ps_slide := (ps_slide st)\<lparr>p_notes := None\<rparr>\<rparr>
      else \<lparr>ps_slides = ps_slides st @ [ps_slide st],
            ps_slide = createSlide\<lparr>p_properties :=
              [(''continued'', if sep = ''--'' then ''true'' else ''false'')]\<rparr>,
            ps_stack = []\<rparr>)"

fun parse_token ::
  "(string \<Rightarrow> pslide list pres) \<Rightarrow> (string \<Rightarrow> macro option) \<Rightarrow> bool \<Rightarrow> pstate \<Rightarrow> token \<Rightarrow> pstate pres" where
  "parse_token rec macros dis st (TText w) = Some (Inr (append_top (CText w) st))"
| "parse_token rec macros dis st (TCode w) = Some (Inr (append_top (CText w) st))"
| "parse_token rec macros dis st (TFences w) = Some (Inr (append_top (CText w) st))"
| "parse_token rec macros dis st (TDef i href title) =
     Some (Inr (st\<lparr>ps_slide := (ps_slide st)\<lparr>p_links :=
       dict_set i \<lparr>l_href = href, l_title = title\<rparr> (p_links (ps_slide st))\<rparr>\<rparr>))"
| "parse_token rec macros dis st (TMacro name args this) =
     (case macros name of
        None \<Rightarrow> Some (Inl (MacroNotFound name))
      | Some f \<Rightarrow>
          (case f this args of
             Inl msg \<Rightarrow> Some (Inl (MacroThrew msg))
           | Inr v \<Rightarrow> pbind (macro_content rec v) (\<lambda>c. Some (Inr (append_top c st)))))"
| "parse_token rec macros dis st (TContentStart classes b) =
     Some (Inr (st\<lparr>ps_stack := createContentClass classes b # ps_stack st\<rparr>))"
| "parse_token rec macros dis st (TContentEnd b) = close_class st"
| "parse_token rec macros dis st (TSeparator sep) = Some (Inr (separate dis sep st))"
| "parse_token rec macros dis st (TNotesSeparator w) =
     Some (Inr (st\<lparr>ps_slide := (ps_slide st)\<lparr>p_notes := Some []\<rparr>\<rparr>))"

fun parse_tokens ::
  "(string \<Rightarrow> pslide list pres) \<Rightarrow> (string \<Rightarrow> macro option) \<Rightarrow> bool \<Rightarrow> pstate \<Rightarrow> token list \<Rightarrow> pstate pres" where
  "parse_tokens rec macros dis st [] = Some (Inr st)"
| "parse_tokens rec macros dis st (t # ts) =
     pbind (parse_token rec macros dis st t) (\<lambda>st'. parse_tokens rec macros dis st' ts)"

definition init_pstate :: pstate where
  "init_pstate = \<lparr>ps_slides = [], ps_slide = createSlide, ps_stack = []\<rparr>"

text \<open>The properties are taken from the first item if it is a string; an object in that
  place converts to \<open>[object Object]\<close>, in which the expression finds nothing.\<close>

definition slide_properties :: "pslide \<Rightarrow> pslide" where
  "slide_properties s =
     (case p_content s of
        [] \<Rightarrow> (case extractProperties [] (p_properties s) of
                 (src, props) \<Rightarrow> s\<lparr>p_content := [CText src], p_properties := props\<rparr>)
      | CText w # cs \<Rightarrow> (case extractProperties w (p_properties s) of
                 (src, props) \<Rightarrow> s\<lparr>p_content := CText src # cs, p_properties := props\<rparr>)
      | CClass cls b inner # cs \<Rightarrow> s)"

definition not_excluded :: "pslide \<Rightarrow> bool" where
  "not_excluded s \<longleftrightarrow>
     toLowerCase (case dict_get (p_properties s) ''exclude'' of None \<Rightarrow> [] | Some v \<Rightarrow> v) \<noteq> ''true''"

definition finish_slides :: "pstate \<Rightarrow> pslide list" where
  "finish_slides st = filter not_excluded (map slide_properties (ps_slides st @ [ps_slide st]))"

fun parse :: "nat \<Rightarrow> (string \<Rightarrow> macro option) \<Rightarrow> bool \<Rightarrow> string \<Rightarrow> pslide list pres" where
  "parse 0 macros dis src = None"
| "parse (Suc n) macros dis src =
     pbind (parse_tokens (parse n macros False) macros dis init_pstate (Lexer_lex (cleanInput src)))
       (\<lambda>st. Some (Inr (finish_slides st)))"

text \<open>The only macro that comes with remark (module 17).\<close>

definition macros_hello :: macro where
  "macros_hello this args = Inr (MString ''hello!'')"

definition builtin_macros :: "string \<Rightarrow> macro option" where
  "builtin_macros name = (if name = ''hello'' then Some macros_hello else None)"

subsection \<open>Lemmas on the token loop\<close>

lemma pbind_simps [simp]:
  "pbind None f = None" "pbind (Some (Inl e)) f = Some (Inl e)" "pbind (Some (Inr x)) f = f x"
  by (simp_all add: pbind_def)

lemma pbind_eq_Some_Inr:
  "pbind r f = Some (Inr y) \<longleftrightarrow> (\<exists>x. r = Some (Inr x) \<and> f x = Some (Inr y))"
  by (auto simp: pbind_def split: option.splits sum.splits)

lemma pbind_None_iff: "pbind r f = None \<longleftrightarrow> r = None \<or> (\<exists>x. r = Some (Inr x) \<and> f x = None)"
  by (auto simp: pbind_def split: option.splits sum.splits)

lemma pbind_eq_Some_Inl:
  "pbind r f = Some (Inl e) \<longleftrightarrow> r = Some (Inl e) \<or> (\<exists>x. r = Some (Inr x) \<and> f x = Some (Inl e))"
  by (auto simp: pbind_def split: option.splits sum.splits)

lemma pbind_assoc: "pbind (pbind r f) g = pbind r (\<lambda>x. pbind (f x) g)"
  by (auto simp: pbind_def split: option.splits sum.splits)

lemma parse_tokens_append:
  "parse_tokens rec macros dis st (ts @ us) =
   pbind (parse_tokens rec macros dis st ts) (\<lambda>st'. parse_tokens rec macros dis st' us)"
  by (induction ts arbitrary: st) (simp_all add: pbind_assoc)

lemma append_top_frame [simp]:
  "length (ps_stack (append_top c st)) = length (ps_stack st)"
  "ps_slides (append_top c st) = ps_slides st"
  by (auto simp: append_top_def split: list.splits)

text \<open>What one token does to the stack and to the list of finished slides.\<close>

fun stack_effect :: "token \<Rightarrow> int" where
  "stack_effect (TContentStart cs b) = 1"
| "stack_effect (TContentEnd b) = -1"
| "stack_effect t = 0"

definition ends_slide :: "bool \<Rightarrow> token \<Rightarrow> bool" where
  "ends_slide dis t \<longleftrightarrow> (\<exists>s. t = TSeparator s \<and> \<not> (s = ''--'' \<and> dis))"

lemma parse_token_slides:
  assumes "parse_token rec macros dis st t = Some (Inr st')"
  shows "length (ps_slides st') = length (ps_slides st) + (if ends_slide dis t then 1 else 0)"
  using assms
  by (cases t)
    (auto simp: ends_slide_def separate_def close_class_def pbind_eq_Some_Inr
      split: option.splits sum.splits list.splits)

text \<open>Every separator that is not an ignored fragment separator ends a slide.\<close>

lemma parse_tokens_slides:
  "parse_tokens rec macros dis st ts = Some (Inr st') \<Longrightarrow>
   length (ps_slides st') = length (ps_slides st) + length (filter (ends_slide dis) ts)"
proof (induction ts arbitrary: st)
  case (Cons t ts)
  then obtain st1 where "parse_token rec macros dis st t = Some (Inr st1)"
    and "parse_tokens rec macros dis st1 ts = Some (Inr st')"
    by (auto simp: pbind_eq_Some_Inr)
  with Cons.IH parse_token_slides show ?case by fastforce
qed simp

text \<open>
  On a well-nested list the loop returns to the depth at which it started and never pops
  the slide itself off the stack.
\<close>

definition keeps_depth :: "pstate \<Rightarrow> pstate pres \<Rightarrow> bool" where
  "keeps_depth st r \<longleftrightarrow>
     (case r of
        None \<Rightarrow> True
      | Some (Inl e) \<Rightarrow> e \<noteq> StackUnderflow
      | Some (Inr st') \<Rightarrow> length (ps_stack st') = length (ps_stack st))"

lemma keeps_depth_bind:
  assumes "keeps_depth st r"
    and "\<And>st'. r = Some (Inr st') \<Longrightarrow> keeps_depth st' (f st')"
  shows "keeps_depth st (pbind r f)"
proof (cases r)
  case (Some x)
  then show ?thesis
    using assms by (cases x) (auto simp: keeps_depth_def split: option.splits sum.splits)
qed (simp add: keeps_depth_def)

lemma macro_content_no_underflow:
  assumes "\<And>w. rec w \<noteq> Some (Inl StackUnderflow)"
  shows "macro_content rec v \<noteq> Some (Inl StackUnderflow)"
  using assms
  by (auto simp: macro_content_def pbind_eq_Some_Inl split: macro_result.splits list.splits)

lemma parse_token_keeps_depth:
  assumes rec: "\<And>w. rec w \<noteq> Some (Inl StackUnderflow)"
    and "\<not> is_bracket t" "is_separator t \<longrightarrow> ps_stack st = []"
  shows "keeps_depth st (parse_token rec macros dis st t)"
proof (cases t)
  case (TMacro name args this)
  show ?thesis
  proof (cases "macros name")
    case None
    then show ?thesis using TMacro by (simp add: keeps_depth_def)
  next
    case (Some f)
    show ?thesis
    proof (cases "f this args")
      case (Inr v)
      then show ?thesis
        using Some TMacro macro_content_no_underflow [of rec v, OF rec]
        by (auto simp: keeps_depth_def pbind_eq_Some_Inl pbind_eq_Some_Inr split: option.splits sum.splits)
    qed (use Some TMacro in \<open>simp add: keeps_depth_def\<close>)
  qed
qed (use assms(2,3) in \<open>auto simp: keeps_depth_def separate_def\<close>)

lemma parse_tokens_keeps_depth:
  assumes rec: "\<And>w. rec w \<noteq> Some (Inl StackUnderflow)"
  shows "well_nested blk ts \<Longrightarrow> (blk \<Longrightarrow> ps_stack st = []) \<Longrightarrow>
         keeps_depth st (parse_tokens rec macros dis st ts)"
proof (induction arbitrary: st rule: well_nested.induct)
  case (wn_Nil blk)
  show ?case by (simp add: keeps_depth_def)
next
  case (wn_Plain t blk ts)
  have step: "keeps_depth st (parse_token rec macros dis st t)"
    using wn_Plain by (intro parse_token_keeps_depth rec) auto
  show ?case
    unfolding parse_tokens.simps
  proof (rule keeps_depth_bind [OF step])
    fix st' assume "parse_token rec macros dis st t = Some (Inr st')"
    with step have "length (ps_stack st') = length (ps_stack st)"
      by (simp add: keeps_depth_def)
    then show "keeps_depth st' (parse_tokens rec macros dis st' ts)"
      using wn_Plain.prems by (intro wn_Plain.IH) auto
  qed
next
  case (wn_Content ts blk us cs b)
  let ?st = "st\<lparr>ps_stack := createContentClass cs b # ps_stack st\<rparr>"
  have inner: "keeps_depth ?st (parse_tokens rec macros dis ?st ts)"
    by (rule wn_Content.IH(1)) simp
  have step: "keeps_depth st (pbind (parse_tokens rec macros dis ?st ts) close_class)"
  proof (cases "parse_tokens rec macros dis ?st ts")
    case (Some x)
    with inner show ?thesis
      by (cases x; cases "ps_stack (projr x)") (auto simp: keeps_depth_def close_class_def)
  qed (simp add: keeps_depth_def)
  have "parse_tokens rec macros dis st (TContentStart cs b # ts @ TContentEnd b # us) =
        pbind (pbind (parse_tokens rec macros dis ?st ts) close_class)
          (\<lambda>st'. parse_tokens rec macros dis st' us)"
    by (simp add: parse_tokens_append pbind_assoc)
  moreover have "keeps_depth st \<dots>"
  proof (rule keeps_depth_bind [OF step])
    fix st' assume "pbind (parse_tokens rec macros dis ?st ts) close_class = Some (Inr st')"
    with step have "length (ps_stack st') = length (ps_stack st)"
      by (simp add: keeps_depth_def)
    then show "keeps_depth st' (parse_tokens rec macros dis st' us)"
      using wn_Content.prems by (intro wn_Content.IH(2)) auto
  qed
  ultimately show ?case by simp
qed

theorem parse_no_underflow: "parse n macros dis src \<noteq> Some (Inl StackUnderflow)"
proof (induction n arbitrary: dis src)
  case (Suc n)
  have "keeps_depth init_pstate
      (parse_tokens (parse n macros False) macros dis init_pstate (Lexer_lex (cleanInput src)))"
    by (rule parse_tokens_keeps_depth [OF Suc.IH Lexer_lex_well_nested]) (simp add: init_pstate_def)
  then show ?case
    by (auto simp: keeps_depth_def pbind_eq_Some_Inl)
qed simp

subsection \<open>Fuel\<close>

lemma macro_content_mono:
  assumes "\<And>w r. rec w = Some r \<Longrightarrow> rec' w = Some r"
    and "macro_content rec v = Some r"
  shows "macro_content rec' v = Some r"
proof (cases v)
  case (MString w)
  then obtain q where "rec w = Some q"
    using assms(2) by (cases "rec w") (auto simp: macro_content_def)
  moreover from this have "rec' w = Some q" by (rule assms(1))
  ultimately show ?thesis
    using assms(2) MString by (simp add: macro_content_def)
qed (use assms(2) in \<open>auto simp: macro_content_def\<close>)

lemma parse_token_mono:
  assumes "\<And>w r. rec w = Some r \<Longrightarrow> rec' w = Some r"
    and "parse_token rec macros dis st t = Some r"
  shows "parse_token rec' macros dis st t = Some r"
proof (cases t)
  case (TMacro name args this)
  show ?thesis
  proof (cases "macros name")
    case (Some f)
    show ?thesis
    proof (cases "f this args")
      case (Inr v)
      then obtain q where q: "macro_content rec v = Some q"
        using assms(2) TMacro Some by (cases "macro_content rec v") auto
      then have "macro_content rec' v = Some q"
        by (rule macro_content_mono [where rec = rec and rec' = rec', rotated]) (rule assms(1))
      then show ?thesis using assms(2) TMacro Some Inr q by simp
    qed (use assms(2) TMacro Some in simp)
  qed (use assms(2) TMacro in simp)
qed (use assms(2) in auto)

lemma parse_tokens_mono:
  assumes rec: "\<And>w r. rec w = Some r \<Longrightarrow> rec' w = Some r"
  shows "parse_tokens rec macros dis st ts = Some r \<Longrightarrow> parse_tokens rec' macros dis st ts = Some r"
proof (induction ts arbitrary: st)
  case (Cons t ts)
  then obtain q where q: "parse_token rec macros dis st t = Some q"
    by (cases "parse_token rec macros dis st t") auto
  then have "parse_token rec' macros dis st t = Some q"
    by (rule parse_token_mono [where rec = rec and rec' = rec', rotated]) (rule rec)
  with q Cons show ?case by (cases q) auto
qed simp

text \<open>More fuel never changes a result.\<close>

theorem parse_fuel_mono: "parse n macros dis src = Some r \<Longrightarrow> n \<le> m \<Longrightarrow> parse m macros dis src = Some r"
proof (induction n arbitrary: m dis src r)
  case (Suc n)
  then obtain m' where m: "m = Suc m'" "n \<le> m'" by (cases m) auto
  let ?ts = "Lexer_lex (cleanInput src)"
  obtain q where q: "parse_tokens (parse n macros False) macros dis init_pstate ?ts = Some q"
    using Suc.prems(1) by (cases "parse_tokens (parse n macros False) macros dis init_pstate ?ts") auto
  have "parse_tokens (parse m' macros False) macros dis init_pstate ?ts = Some q"
    by (rule parse_tokens_mono [OF _ q]) (use Suc.IH m(2) in blast)
  then show ?case using Suc.prems(1) q m(1) by simp
qed simp

fun is_macro :: "token \<Rightarrow> bool" where
  "is_macro (TMacro name args this) = True"
| "is_macro t = False"

lemma parse_tokens_returns:
  assumes "\<And>name f this args w. macros name = Some f \<Longrightarrow> f this args = Inr (MString w) \<Longrightarrow> rec w \<noteq> None"
  shows "parse_tokens rec macros dis st ts \<noteq> None"
proof (induction ts arbitrary: st)
  case (Cons t ts)
  have "parse_token rec macros dis st t \<noteq> None"
  proof (cases t)
    case (TMacro name args this)
    show ?thesis
    proof (cases "macros name")
      case (Some f)
      show ?thesis
      proof (cases "f this args")
        case (Inr v)
        have "macro_content rec v \<noteq> None"
          using assms [OF Some] Inr
          by (cases v) (auto simp: macro_content_def pbind_None_iff split: list.splits)
        then show ?thesis using Some Inr TMacro by (simp add: pbind_None_iff)
      qed (use Some TMacro in simp)
    qed (use TMacro in simp)
  qed (auto simp: close_class_def split: list.splits)
  with Cons show ?case by (simp add: pbind_None_iff)
qed simp

lemma parse_tokens_macro_free:
  "list_all (\<lambda>t. \<not> is_macro t) ts \<Longrightarrow> parse_tokens rec macros dis st ts \<noteq> None"
proof (induction ts arbitrary: st)
  case (Cons t ts)
  have "parse_token rec macros dis st t \<noteq> None"
    using Cons.prems by (cases t) (auto simp: close_class_def split: list.splits)
  with Cons show ?case by (simp add: pbind_None_iff)
qed simp


definition macro_free :: "string \<Rightarrow> bool" where
  "macro_free w \<longleftrightarrow> list_all (\<lambda>t. \<not> is_macro t) (Lexer_lex (cleanInput w))"

definition simple_macros :: "(string \<Rightarrow> macro option) \<Rightarrow> bool" where
  "simple_macros macros \<longleftrightarrow>
     (\<forall>name f this args w. macros name = Some f \<longrightarrow> f this args = Inr (MString w) \<longrightarrow> macro_free w)"

lemma parse_macro_free: "macro_free w \<Longrightarrow> parse (Suc n) macros dis w \<noteq> None"
  using parse_tokens_macro_free by (simp add: macro_free_def pbind_None_iff)

lemma simple_macros_builtin: "simple_macros builtin_macros"
proof -
  have "macro_free ''hello!''" by code_simp
  then show ?thesis
    by (auto simp: simple_macros_def builtin_macros_def macros_hello_def split: if_splits)
qed

subsection \<open>Properties of the extraction of slide properties\<close>

lemma propertyFinder_object: "exec propertyFinder ''[object Object]'' = None"
  by code_simp

lemma extractProperties_unfold:
  "extractProperties source props =
     (case exec propertyFinder source of
        None \<Rightarrow> (source, props)
      | Some m \<Rightarrow>
          extractProperties (take (m_index m) source @ drop (m_index m + length (cap0 m)) source)
            (dict_set (fst (property_of m)) (snd (property_of m)) props))"
  by (rule extractProperties.simps)

lemma extractProperties_final: "exec propertyFinder (fst (extractProperties source props)) = None"
proof (induction source props rule: extractProperties.induct)
  case (1 source props)
  then show ?case
    by (subst extractProperties_unfold) (auto split: option.splits)
qed

lemma extractProperties_keeps:
  "dict_get props k \<noteq> None \<Longrightarrow> dict_get (snd (extractProperties source props)) k \<noteq> None"
proof (induction source props rule: extractProperties.induct)
  case (1 source props)
  then show ?case
    by (subst extractProperties_unfold) (auto split: option.splits)
qed

lemma extractProperties_distinct:
  "distinct (map fst props) \<Longrightarrow> distinct (map fst (snd (extractProperties source props)))"
proof (induction source props rule: extractProperties.induct)
  case (1 source props)
  then show ?case
    by (subst extractProperties_unfold) (auto split: option.splits intro: dict_set_distinct)
qed

lemma extractProperties_length: "length (fst (extractProperties source props)) \<le> length source"
proof (induction source props rule: extractProperties.induct)
  case (1 source props)
  show ?case
  proof (cases "exec propertyFinder source")
    case (Some m)
    with 1 [OF Some] extractProperties_progress [OF Some] show ?thesis
      by (subst extractProperties_unfold) simp
  qed (subst extractProperties_unfold, simp)
qed

subsection \<open>The shape of parsed slides\<close>

text \<open>\<open>appendTo\<close> never leaves two adjacent strings, and keeps the text it is given.\<close>

fun no_adjacent_text :: "content list \<Rightarrow> bool" where
  "no_adjacent_text (CText a # CText b # cs) = False"
| "no_adjacent_text (c # cs) = no_adjacent_text cs"
| "no_adjacent_text [] = True"

fun content_text :: "content \<Rightarrow> string" where
  "content_text (CText w) = w"
| "content_text (CClass cls b cs) = concat (map content_text cs)"

lemma push_content_text:
  "concat (map content_text (push_content cs c)) = concat (map content_text cs) @ content_text c"
  by (induction cs c rule: push_content.induct) auto

lemma push_content_not_Nil [simp]: "push_content cs c \<noteq> []"
  by (induction cs c rule: push_content.induct) auto

lemma no_adjacent_text_Cons_CClass [simp]: "no_adjacent_text (CClass cls b ds # cs) = no_adjacent_text cs"
  by (cases cs) auto

lemma no_adjacent_text_CText_Cons:
  "no_adjacent_text (CText a # cs) \<longleftrightarrow> no_adjacent_text cs \<and> (\<forall>b ds. cs \<noteq> CText b # ds)"
proof (cases cs)
  case (Cons c ds)
  then show ?thesis by (cases c) auto
qed simp

lemma push_content_hd_text:
  "push_content (x # xs) c = CText b # ds \<Longrightarrow> \<exists>b'. x = CText b'"
  by (cases "(x # xs, c)" rule: push_content.cases) auto

lemma push_content_no_adjacent: "no_adjacent_text cs \<Longrightarrow> no_adjacent_text (push_content cs c)"
proof (induction cs c rule: push_content.induct)
  case (4 x y xs c)
  then show ?case
    by (cases x) (auto simp: no_adjacent_text_CText_Cons dest!: push_content_hd_text)
next
  case (1 c)
  then show ?case by (cases c) auto
qed auto


subsection \<open>No text is lost or reordered\<close>

fun verbatim_text :: "token \<Rightarrow> string" where
  "verbatim_text (TText w) = w"
| "verbatim_text (TCode w) = w"
| "verbatim_text (TFences w) = w"
| "verbatim_text t = []"

fun is_notes :: "token \<Rightarrow> bool" where
  "is_notes (TNotesSeparator w) = True"
| "is_notes t = False"

definition contents_text :: "content list \<Rightarrow> string" where
  "contents_text cs = concat (map content_text cs)"

definition frames_text :: "cframe list \<Rightarrow> string" where
  "frames_text fs = concat (map (\<lambda>(cls, b, cs). contents_text cs) (rev fs))"

definition state_text :: "pstate \<Rightarrow> string" where
  "state_text st =
     concat (map (contents_text \<circ> p_content) (ps_slides st)) @ contents_text (p_content (ps_slide st)) @
     frames_text (ps_stack st)"

definition adds_text :: "string \<Rightarrow> pstate \<Rightarrow> pstate pres \<Rightarrow> bool" where
  "adds_text w st r \<longleftrightarrow>
     (\<exists>st'. r = Some (Inr st') \<and> state_text st' = state_text st @ w \<and>
            p_notes (ps_slide st') = None \<and> length (ps_stack st') = length (ps_stack st))"

lemma adds_text_bind:
  assumes "adds_text v st r"
    and "\<And>st'. r = Some (Inr st') \<Longrightarrow> p_notes (ps_slide st') = None \<Longrightarrow>
           length (ps_stack st') = length (ps_stack st) \<Longrightarrow> adds_text w st' (f st')"
  shows "adds_text (v @ w) st (pbind r f)"
  using assms by (fastforce simp: adds_text_def)

lemma append_top_text:
  assumes "p_notes (ps_slide st) = None"
  shows "state_text (append_top c st) = state_text st @ content_text c"
    and "p_notes (ps_slide (append_top c st)) = None"
  using assms
  by (auto simp: append_top_def state_text_def frames_text_def contents_text_def appendTo_slide_def
      appendTo_class_def push_content_text split: list.splits)

lemma parse_token_text:
  assumes "\<not> is_bracket t" "\<not> is_macro t" "\<not> is_notes t" "is_separator t \<longrightarrow> ps_stack st = []"
    and "p_notes (ps_slide st) = None"
  shows "adds_text (verbatim_text t) st (parse_token rec macros dis st t)"
  using assms append_top_text [OF assms(5)]
  by (cases t)
    (auto simp: adds_text_def separate_def state_text_def createSlide_def frames_text_def contents_text_def)

lemma close_class_text:
  assumes "adds_text w (st\<lparr>ps_stack := createContentClass cs b # ps_stack st\<rparr>) r"
  shows "adds_text w st (pbind r close_class)"
proof -
  from assms obtain st' cls b' ds fs where r: "r = Some (Inr st')"
    and st': "ps_stack st' = (cls, b', ds) # fs" "length fs = length (ps_stack st)"
    and keeps: "state_text st' = state_text st @ w" and nts: "p_notes (ps_slide st') = None"
    by (auto simp: adds_text_def length_Suc_conv createContentClass_def state_text_def frames_text_def
        contents_text_def)
  have "state_text (append_top (CClass cls b' ds) (st'\<lparr>ps_stack := fs\<rparr>)) = state_text st'"
    using append_top_text(1) [of "st'\<lparr>ps_stack := fs\<rparr>"] nts st'
    by (simp add: state_text_def frames_text_def contents_text_def)
  then show ?thesis
    using r st' keeps nts append_top_text(2) [of "st'\<lparr>ps_stack := fs\<rparr>"]
    by (simp add: adds_text_def close_class_def)
qed

lemma parse_tokens_text:
  "well_nested blk ts \<Longrightarrow> list_all (\<lambda>t. \<not> is_macro t \<and> \<not> is_notes t) ts \<Longrightarrow>
   (blk \<Longrightarrow> ps_stack st = []) \<Longrightarrow> p_notes (ps_slide st) = None \<Longrightarrow>
   adds_text (concat (map verbatim_text ts)) st (parse_tokens rec macros dis st ts)"
proof (induction arbitrary: st rule: well_nested.induct)
  case (wn_Nil blk)
  then show ?case by (simp add: adds_text_def)
next
  case (wn_Plain t blk ts)
  have "adds_text (verbatim_text t) st (parse_token rec macros dis st t)"
    using wn_Plain by (intro parse_token_text) auto
  then have "adds_text (verbatim_text t @ concat (map verbatim_text ts)) st
      (pbind (parse_token rec macros dis st t) (\<lambda>st'. parse_tokens rec macros dis st' ts))"
    using wn_Plain by (intro adds_text_bind wn_Plain.IH) auto
  then show ?case by simp
next
  case (wn_Content ts blk us cs b)
  let ?st = "st\<lparr>ps_stack := createContentClass cs b # ps_stack st\<rparr>"
  have "adds_text (concat (map verbatim_text ts)) ?st (parse_tokens rec macros dis ?st ts)"
    using wn_Content.prems by (intro wn_Content.IH(1)) auto
  then have step: "adds_text (concat (map verbatim_text ts)) st
      (pbind (parse_tokens rec macros dis ?st ts) close_class)"
    by (rule close_class_text)
  have "parse_tokens rec macros dis st (TContentStart cs b # ts @ TContentEnd b # us) =
        pbind (pbind (parse_tokens rec macros dis ?st ts) close_class)
          (\<lambda>st'. parse_tokens rec macros dis st' us)"
    by (simp add: parse_tokens_append pbind_assoc)
  moreover have "adds_text (concat (map verbatim_text ts) @ concat (map verbatim_text us)) st \<dots>"
    using wn_Content.prems by (intro adds_text_bind [OF step] wn_Content.IH(2)) auto
  ultimately show ?case by simp
qed


subsection \<open>Properties\<close>

text \<open>
  C6. Parsing never pops the slide itself off the stack of open content classes: every
  \<open>content_end\<close> token meets the frame its \<open>content_start\<close> pushed, whatever the
  source and the macros are.
\<close>

theorem parse_stack_safe: "parse n macros dis src \<noteq> Some (Inl StackUnderflow)"
  by (rule parse_no_underflow)

text \<open>
  C16. Parsing returns (slides or an exception) for every source, when no macro returns a
  string that calls a macro again: two levels of recursion are enough.
\<close>

theorem parse_returns:
  assumes "simple_macros macros"
  shows "\<exists>r. parse 2 macros dis src = Some r"
proof -
  have "parse_tokens (parse 1 macros False) macros dis init_pstate (Lexer_lex (cleanInput src)) \<noteq> None"
    using assms parse_macro_free [of _ 0] by (intro parse_tokens_returns) (auto simp: simple_macros_def)
  then show ?thesis
    by (auto simp: numeral_2_eq_2 pbind_None_iff simp flip: not_None_eq)
qed

theorem parse_returns_witness: "\<exists>r. parse 2 builtin_macros False ''![:hello]'' = Some r"
  using parse_returns [OF simple_macros_builtin] .







end
