(* ===== verification/Remark_Slide.thy ===== *)
theory Remark_Slide
  imports Remark_Parser
begin

text \<open>
  Slide view models (\<^verbatim>\<open>remark.js\<close>, module 18): the constructor \<open>Slide\<close>, the
  inheritance of properties, content and notes from a template, and the expansion of
  \<open>{{variables}}\<close>.

  A value that the code converts to a string implicitly is converted by the functions
  \<open>content_str\<close> and \<open>notes_str\<close>: an array becomes its items joined by commas, an
  object \<open>[object Object]\<close>. Lookups on plain objects also find the members of
  \<open>Object.prototype\<close>, given by \<open>proto_member\<close> with their string conversion.
\<close>

subsection \<open>Lookups on plain objects\<close>

definition native_function :: "string \<Rightarrow> string" where
  "native_function name = ''function '' @ name @ ''() { [native code] }''"

definition proto_functions :: "string list" where
  "proto_functions =
     [''toString'', ''toLocaleString'', ''valueOf'', ''hasOwnProperty'', ''isPrototypeOf'',
      ''propertyIsEnumerable'', ''__defineGetter__'', ''__defineSetter__'', ''__lookupGetter__'',
      ''__lookupSetter__'']"

definition proto_member :: "string \<Rightarrow> string option" where
  "proto_member k =
     (if k = ''constructor'' then Some (native_function ''Object'')
      else if k = ''__proto__'' then Some ''[object Object]''
      else if k \<in> set proto_functions then Some (native_function k)
      else None)"

text \<open>\<open>obj[k]\<close> for an object whose own values are strings, read as a string.\<close>

definition obj_get :: "(string \<times> string) list \<Rightarrow> string \<Rightarrow> string option" where
  "obj_get d k = (case dict_get d k of None \<Rightarrow> proto_member k | Some v \<Rightarrow> Some v)"

subsection \<open>Slides\<close>

datatype notes_value = NStr string | NList "content list"

record slide =
  s_properties :: "(string \<times> string) list"
  s_links :: "(string \<times> link) list"
  s_content :: "content list"
  s_notes :: notes_value
  s_index :: nat
  s_number :: nat

fun item_str :: "content \<Rightarrow> string" where
  "item_str (CText w) = w"
| "item_str (CClass cls b cs) = ''[object Object]''"

definition content_str :: "content list \<Rightarrow> string" where
  "content_str cs = join '','' (map item_str cs)"

fun notes_str :: "notes_value \<Rightarrow> string" where
  "notes_str (NStr w) = w"
| "notes_str (NList cs) = content_str cs"

fun notes_truthy :: "notes_value \<Rightarrow> bool" where
  "notes_truthy (NStr w) = (w \<noteq> [])"
| "notes_truthy (NList cs) = True"

subsection \<open>Inheritance of properties\<close>

definition ignoreProperty :: "string \<Rightarrow> bool" where
  "ignoreProperty p \<longleftrightarrow> p = ''name'' \<or> p = ''layout'' \<or> p = ''count''"

definition inherit_property :: "string \<times> string \<Rightarrow> (string \<times> string) list \<Rightarrow> (string \<times> string) list" where
  "inherit_property = (\<lambda>(p, v) props.
     if ignoreProperty p then props
     else
       let value = (if p = ''class'' \<and> truthy (obj_get props p) then [v, the (obj_get props p)] else [v])
       in if p = ''class'' \<or> obj_get props p = None then dict_set p (join '', '' value) props else props)"

definition inheritProperties :: "(string \<times> string) list \<Rightarrow> (string \<times> string) list \<Rightarrow> (string \<times> string) list" where
  "inheritProperties props template = fold inherit_property template props"

subsection \<open>Variables\<close>

definition variable_re :: regexp where
  "variable_re = re no_flags (bs ''(%%)?(%{%{([^%}%n]+)%}%})'')"

lemma variable_re_ast [code]:
  "variable_re =
     \<lparr>pat = Seq (Rep 0 (Some 1) True (Group 1 (Cls False [CChar BSL]))) (Group 2 (Seq (Cls
     False [CChar CHR ''{'']) (Seq (Cls False [CChar CHR ''{'']) (Seq (Group 3 (Rep 1 None True
     (Cls True [CChar CHR ''}'', CChar NL]))) (Seq (Cls False [CChar CHR ''}'']) (Cls False [CChar
     CHR ''}''])))))), ngroups = 3, flags = no_flags\<rparr>"
  by code_simp

text \<open>The replacement for one match; \<open>lookup\<close> is \<open>properties[propertyName]\<close> as a
  string. \<open>match[0]\<close> is the first character of the matched string.\<close>

definition expand :: "bool \<Rightarrow> (string \<Rightarrow> string option) \<Rightarrow> rx_match \<Rightarrow> string" where
  "expand contentOnly lookup m =
     (let propertyName = trim (cap_str m 3)
      in if truthy (cap m 1) then (if contentOnly then take 1 (cap0 m) else cap_str m 2)
         else if contentOnly \<and> propertyName \<noteq> ''content'' then cap0 m
         else case lookup propertyName of
                Some v \<Rightarrow> v
              | None \<Rightarrow> if propertyName = ''content'' then [] else cap_str m 2)"

text \<open>Whether the match puts an entry for \<open>name\<close> into \<open>expandResult\<close>.\<close>

definition records :: "bool \<Rightarrow> (string \<Rightarrow> string option) \<Rightarrow> string \<Rightarrow> rx_match \<Rightarrow> bool" where
  "records contentOnly lookup name m \<longleftrightarrow>
     (let propertyName = trim (cap_str m 3)
      in \<not> truthy (cap m 1) \<and> \<not> (contentOnly \<and> propertyName \<noteq> ''content'') \<and>
         lookup propertyName \<noteq> None \<and> propertyName = name)"

fun expand_item :: "bool \<Rightarrow> (string \<Rightarrow> string option) \<Rightarrow> content \<Rightarrow> content" where
  "expand_item contentOnly lookup (CText w) = CText (re_replace variable_re (expand contentOnly lookup) w)"
| "expand_item contentOnly lookup (CClass cls b cs) = CClass cls b (map (expand_item contentOnly lookup) cs)"

fun item_records :: "bool \<Rightarrow> (string \<Rightarrow> string option) \<Rightarrow> string \<Rightarrow> content \<Rightarrow> bool" where
  "item_records contentOnly lookup name (CText w) =
     list_ex (records contentOnly lookup name) (exec_all variable_re w)"
| "item_records contentOnly lookup name (CClass cls b cs) =
     list_ex (item_records contentOnly lookup name) cs"

definition expandVariables :: "slide \<Rightarrow> slide" where
  "expandVariables s = s\<lparr>s_content := map (expand_item False (obj_get (s_properties s))) (s_content s)\<rparr>"

subsection \<open>Inheritance of content and notes\<close>

fun deepCopyItem :: "content \<Rightarrow> content" where
  "deepCopyItem (CText w) = CText w"
| "deepCopyItem (CClass cls b cs) = CClass cls b (map deepCopyItem cs)"

definition deepCopyContent :: "content list \<Rightarrow> content list" where
  "deepCopyContent cs = map deepCopyItem cs"

text \<open>During the expansion \<open>properties.content\<close> is the array of the slide's own content;
  afterwards the property is deleted.\<close>

definition content_lookup :: "(string \<times> string) list \<Rightarrow> content list \<Rightarrow> string \<Rightarrow> string option" where
  "content_lookup props own k = (if k = ''content'' then Some (content_str own) else obj_get props k)"

definition inheritContent :: "slide \<Rightarrow> content list \<Rightarrow> slide" where
  "inheritContent s template =
     (let own = s_content s;
          lookup = content_lookup (s_properties s) own;
          copied = deepCopyContent template;
          expanded = map (expand_item True lookup) copied
      in s\<lparr>s_content := (if list_ex (item_records True lookup ''content'') copied then expanded else expanded @ own),
           s_properties := dict_delete ''content'' (s_properties s)\<rparr>)"

definition inheritNotes :: "slide \<Rightarrow> notes_value \<Rightarrow> slide" where
  "inheritNotes s template =
     (if notes_truthy template
      then s\<lparr>s_notes := NStr (notes_str template @ [NL, NL] @ notes_str (s_notes s))\<rparr>
      else s)"

definition inherit :: "slide \<Rightarrow> slide \<Rightarrow> slide" where
  "inherit s template =
     inheritNotes
       (inheritContent (s\<lparr>s_properties := inheritProperties (s_properties s) (s_properties template)\<rparr>)
         (s_content template))
       (s_notes template)"

definition Slide :: "nat \<Rightarrow> nat \<Rightarrow> pslide \<Rightarrow> slide option \<Rightarrow> slide" where
  "Slide slideIndex slideNumber p template =
     (let s = \<lparr>s_properties = p_properties p, s_links = p_links p, s_content = p_content p,
               s_notes = (case p_notes p of None \<Rightarrow> NStr [] | Some ns \<Rightarrow> NList ns),
               s_index = slideIndex, s_number = slideNumber\<rparr>
      in case template of None \<Rightarrow> s | Some t \<Rightarrow> inherit s t)"


subsection \<open>Lemmas on inherited properties\<close>

lemma proto_class: "proto_member ''class'' = None"
  by code_simp

lemma inherit_property_get:
  "dict_get (inherit_property (p, v) props) k =
     (if k \<noteq> p \<or> ignoreProperty p then dict_get props k
      else if p = ''class'' then Some (case dict_get props p of
             None \<Rightarrow> v | Some [] \<Rightarrow> v | Some w \<Rightarrow> v @ '', '' @ w)
      else case dict_get props p of None \<Rightarrow> (if proto_member p = None then Some v else None) | Some w \<Rightarrow> Some w)"
proof (cases "p = ''class''")
  case True
  then show ?thesis
    by (cases "dict_get props p")
      (auto simp: inherit_property_def obj_get_def truthy_def Let_def ignoreProperty_def proto_class split: list.split)
next
  case False
  then show ?thesis
    by (cases "dict_get props p") (auto simp: inherit_property_def obj_get_def Let_def)
qed

lemma inheritProperties_Cons:
  "inheritProperties props (pv # t) = inheritProperties (inherit_property pv props) t"
  by (simp add: inheritProperties_def)

lemma inheritProperties_ignored: "ignoreProperty k \<Longrightarrow> dict_get (inheritProperties props t) k = dict_get props k"
proof (induction t arbitrary: props)
  case (Cons pv t)
  then show ?case by (cases pv) (auto simp: inheritProperties_Cons inherit_property_get)
qed (simp add: inheritProperties_def)

lemma inheritProperties_get:
  assumes "\<not> ignoreProperty k" "k \<noteq> ''class''"
  shows "dict_get (inheritProperties props t) k =
     (case dict_get props k of
        Some v \<Rightarrow> Some v
      | None \<Rightarrow> if proto_member k = None then dict_get t k else None)"
proof (induction t arbitrary: props)
  case (Cons pv t)
  then show ?case
    using assms by (cases pv) (auto simp: inheritProperties_Cons inherit_property_get split: option.splits)
qed (auto simp: inheritProperties_def split: option.splits)

lemma inheritProperties_absent:
  "k \<notin> fst ` set t \<Longrightarrow> dict_get (inheritProperties props t) k = dict_get props k"
proof (induction t arbitrary: props)
  case (Cons pv t)
  then show ?case by (cases pv) (auto simp: inheritProperties_Cons inherit_property_get)
qed (simp add: inheritProperties_def)

lemma inheritProperties_class:
  assumes "distinct (map fst t)" "dict_get t ''class'' = Some v"
  shows "dict_get (inheritProperties props t) ''class'' =
     Some (case dict_get props ''class'' of None \<Rightarrow> v | Some [] \<Rightarrow> v | Some w \<Rightarrow> v @ '', '' @ w)"
  using assms
proof (induction t arbitrary: props)
  case (Cons pv t)
  obtain p w where pv: "pv = (p, w)" by (cases pv)
  show ?case
  proof (cases "p = ''class''")
    case True
    then have "''class'' \<notin> fst ` set t" "w = v" using Cons.prems pv by auto
    then show ?thesis
      using True pv
      by (simp add: inheritProperties_Cons inheritProperties_absent inherit_property_get ignoreProperty_def)
  next
    case False
    with Cons pv show ?thesis by (simp add: inheritProperties_Cons inherit_property_get)
  qed
qed simp

lemma inherit_property_distinct:
  "distinct (map fst props) \<Longrightarrow> distinct (map fst (inherit_property pv props))"
  by (cases pv) (simp add: inherit_property_def Let_def dict_set_distinct)

lemma inheritProperties_distinct:
  "distinct (map fst props) \<Longrightarrow> distinct (map fst (inheritProperties props t))"
  by (induction t arbitrary: props) (simp_all add: inheritProperties_def inherit_property_distinct)

subsection \<open>Lemmas on inherited content\<close>

lemma deepCopyItem_id [simp]: "deepCopyItem c = c"
  by (induction c rule: deepCopyItem.induct) (auto simp: map_idI)

lemma deepCopyContent_id [simp]: "deepCopyContent cs = cs"
  by (simp add: deepCopyContent_def map_idI)

text \<open>Content in which no \<open>{\<close> occurs has no variables.\<close>

fun brace_free :: "content \<Rightarrow> bool" where
  "brace_free (CText w) = (CHR ''{'' \<notin> set w)"
| "brace_free (CClass cls b cs) = list_all brace_free cs"

lemma variable_needs: "CHR ''{'' \<notin> set w \<Longrightarrow> exec variable_re w = None"
  by (rule exec_needs [where c = "CHR ''{''"]) (simp_all add: variable_re_ast)

lemma exec_all_None: "exec r w = None \<Longrightarrow> exec_all r w = []"
  by (simp add: exec_all_def exec_all_from.simps exec_at_def exec_def)

lemma expand_item_brace_free: "brace_free c \<Longrightarrow> expand_item contentOnly lookup c = c"
  by (induction contentOnly lookup c rule: expand_item.induct)
    (auto simp: re_replace_no_match variable_needs list_all_iff intro!: map_idI)

lemma item_records_brace_free: "brace_free c \<Longrightarrow> \<not> item_records contentOnly lookup name c"
  by (induction contentOnly lookup name c rule: item_records.induct)
    (auto simp: exec_all_None variable_needs list_all_iff list_ex_iff)

lemma inheritContent_brace_free:
  assumes "list_all brace_free template"
  shows "s_content (inheritContent s template) = template @ s_content s"
  using assms item_records_brace_free
  by (auto simp: inheritContent_def Let_def list_all_iff list_ex_iff expand_item_brace_free map_idI)

lemma s_content_inherit:
  "s_content (inherit s t) =
     s_content (inheritContent (s\<lparr>s_properties := inheritProperties (s_properties s) (s_properties t)\<rparr>) (s_content t))"
  by (simp add: inherit_def inheritNotes_def)

lemma s_properties_inherit:
  "s_properties (inherit s t) = dict_delete ''content'' (inheritProperties (s_properties s) (s_properties t))"
  by (simp add: inherit_def inheritNotes_def inheritContent_def Let_def)

lemma inherit_frame [simp]:
  "s_index (inherit s t) = s_index s" "s_number (inherit s t) = s_number s" "s_links (inherit s t) = s_links s"
  by (simp_all add: inherit_def inheritNotes_def inheritContent_def Let_def)

lemma Slide_frame [simp]:
  "s_index (Slide i n p t) = i" "s_number (Slide i n p t) = n" "s_links (Slide i n p t) = p_links p"
  by (auto simp: Slide_def Let_def split: option.splits)

text \<open>Inheritance changes none of the properties \<open>createSlides\<close> decides on.\<close>

lemma Slide_ignored_property:
  "ignoreProperty k \<Longrightarrow> dict_get (s_properties (Slide i n p t)) k = dict_get (p_properties p) k"
  by (auto simp: Slide_def Let_def s_properties_inherit inheritProperties_ignored ignoreProperty_def
      split: option.splits)

subsection \<open>Properties\<close>

text \<open>
  C26. A slide made from a template keeps every property of its own; it takes the others
  from the template except \<open>name\<close>, \<open>layout\<close> and \<open>count\<close>, and joins the two
  class lists, the template's first.
\<close>

theorem slide_inherits_properties:
  assumes "distinct (map fst (s_properties t))" "k \<noteq> ''content''"
  shows "dict_get (s_properties (Slide i n p (Some t))) k =
    (if ignoreProperty k then dict_get (p_properties p) k
     else if k = ''class'' then
       (case dict_get (s_properties t) k of
          None \<Rightarrow> dict_get (p_properties p) k
        | Some v \<Rightarrow> Some (case dict_get (p_properties p) k of None \<Rightarrow> v | Some [] \<Rightarrow> v | Some w \<Rightarrow> v @ '', '' @ w))
     else case dict_get (p_properties p) k of
            Some v \<Rightarrow> Some v
          | None \<Rightarrow> if proto_member k = None then dict_get (s_properties t) k else None)"
  using assms inheritProperties_class [OF assms(1)] inheritProperties_absent [of "''class''" "s_properties t"]
  by (auto simp: Slide_def Let_def s_properties_inherit inheritProperties_ignored inheritProperties_get
      map_of_eq_None_iff split: option.split)

definition example_template :: slide where
  "example_template =
     \<lparr>s_properties = [(''class'', ''center''), (''name'', ''t'')], s_links = [], s_content = [CText ''# T''],
      s_notes = NStr [], s_index = 0, s_number = 1\<rparr>"

theorem slide_inherits_properties_witness:
  "dict_get (s_properties (Slide 1 2 createSlide (Some example_template))) ''class'' = Some ''center''"
  using slide_inherits_properties [of example_template "''class''" 1 2 createSlide]
  by (simp add: example_template_def createSlide_def ignoreProperty_def)

text \<open>
  C27. Without variables in the template, the content of a slide made from it is the
  template's content followed by the slide's own: an incremental slide shows everything
  that the slide before it shows.
\<close>

theorem slide_inherits_content:
  assumes "list_all brace_free (s_content t)"
  shows "s_content (Slide i n p (Some t)) = s_content t @ p_content p"
  using assms by (simp add: Slide_def Let_def s_content_inherit inheritContent_brace_free)

theorem slide_inherits_content_witness:
  "s_content (Slide 1 2 (createSlide\<lparr>p_content := [CText ''x'']\<rparr>) (Some example_template)) =
     [CText ''# T'', CText ''x'']"
  using slide_inherits_content [of example_template 1 2 "createSlide\<lparr>p_content := [CText ''x'']\<rparr>"]
  by (simp add: example_template_def)

text \<open>
  Content without an opening brace is untouched by the expansion of variables, and the
  expansion changes nothing of a slide but its content.
\<close>

lemma expandVariables_frame:
  assumes "list_all brace_free (s_content s)"
  shows "expandVariables s = s"
  using assms
  by (simp add: expandVariables_def list_all_iff expand_item_brace_free map_idI)

lemma expandVariables_frame_example: "expandVariables example_template = example_template"
  using expandVariables_frame [of example_template] by (simp add: example_template_def)

text \<open>
  An escaped variable in a template does not survive inheritance: the pass that
  inserts the content replaces \<open>\{{x}}\<close> by the backslash alone, the first character of
  the match.
\<close>

lemma escaped_variable_lost:
  "s_content (inheritContent (example_template\<lparr>s_content := [CText ''b'']\<rparr>) [CText (bs ''a%{{x}}'')]) =
     [CText (bs ''a%''), CText ''b'']"
  by code_simp

end
