(* ===== verification/Remark_Slideshow.thy ===== *)
theory Remark_Slideshow
  imports Remark_Slide
begin

text \<open>
  The slide list of a slideshow (\<^verbatim>\<open>remark.js\<close>, module 19): \<open>createSlides\<close> with its
  choice of a template, its counters and its indexes by name and by number, the
  expansion of variables, the merged link definitions, and the getters.

  The code shares slide objects between the list of slides, the index by name and the index
  by number, and \<open>expandVariables\<close> changes them afterwards. The model keeps every view
  model in one list \<open>c_models\<close>, in the order of the parsed slides, and the other lists hold
  positions in it.
\<close>

subsection \<open>Options\<close>

record options =
  o_source :: "string option"
  o_sourceUrl :: "string option"
  o_countIncrementalSlides :: "bool option"
  o_excludedClasses :: "string list option"
  o_includePresenterNotes :: "bool option"
  o_disableIncrementalSlides :: "bool option"
  o_strings :: "(string \<times> string) list"

text \<open>\<open>getOrDefault\<close>, for the options whose values are strings.\<close>

definition getOrDefault :: "options \<Rightarrow> string \<Rightarrow> string \<Rightarrow> string" where
  "getOrDefault opts key defaultValue =
     (case dict_get (o_strings opts) key of None \<Rightarrow> defaultValue | Some v \<Rightarrow> v)"

definition getRatio :: "options \<Rightarrow> string" where
  "getRatio opts = getOrDefault opts ''ratio'' ''4:3''"

definition getHighlightStyle :: "options \<Rightarrow> string" where
  "getHighlightStyle opts = getOrDefault opts ''highlightStyle'' ''default''"

definition getHighlightLanguage :: "options \<Rightarrow> string" where
  "getHighlightLanguage opts = getOrDefault opts ''highlightLanguage'' []"

definition getSlideNumberFormat :: "options \<Rightarrow> string" where
  "getSlideNumberFormat opts = getOrDefault opts ''slideNumberFormat'' ''%current% / %total%''"

definition getCloneTarget :: "options \<Rightarrow> string" where
  "getCloneTarget opts = getOrDefault opts ''cloneTarget'' ''_blank''"

subsection \<open>Creating the slides\<close>

record cstate =
  c_models :: "slide list"
  c_slides :: "nat list"
  c_local :: "(string \<times> nat) list"
  c_byName :: "(string \<times> nat) list"
  c_byNumber :: "nat list list"
  c_number :: nat
  c_layout :: "nat option"

definition init_cstate :: cstate where
  "init_cstate = \<lparr>c_models = [], c_slides = [], c_local = [], c_byName = [], c_byNumber = [],
     c_number = 0, c_layout = None\<rparr>"

abbreviation pprop :: "pslide \<Rightarrow> string \<Rightarrow> string option" where
  "pprop p k \<equiv> dict_get (p_properties p) k"

text \<open>The key \<open>byName[slide.properties.template]\<close> is the string \<open>undefined\<close> when there
  is no such property. A key that is a member of \<open>Object.prototype\<close> yields a template
  without content, on which the constructor throws.\<close>

definition template_key :: "pslide \<Rightarrow> string" where
  "template_key p = (case pprop p ''template'' of None \<Rightarrow> ''undefined'' | Some v \<Rightarrow> v)"

definition choose_template :: "cstate \<Rightarrow> pslide \<Rightarrow> perr + nat option" where
  "choose_template st p =
     (if pprop p ''continued'' = Some ''true'' \<and> c_models st \<noteq> []
      then Inr (if c_slides st = [] then None else Some (last (c_slides st)))
      else case dict_get (c_local st) (template_key p) of
             Some r \<Rightarrow> Inr (Some r)
           | None \<Rightarrow>
               if proto_member (template_key p) \<noteq> None then Inl (TypeErr ''length of undefined'')
               else if pprop p ''layout'' = Some ''false'' then Inr None
               else if pprop p ''layout'' \<noteq> Some ''true'' then Inr (c_layout st)
               else Inr None)"

text \<open>The branch that forgets the layout slide.\<close>

definition resets_layout :: "cstate \<Rightarrow> pslide \<Rightarrow> bool" where
  "resets_layout st p \<longleftrightarrow>
     \<not> (pprop p ''continued'' = Some ''true'' \<and> c_models st \<noteq> []) \<and>
     dict_get (c_local st) (template_key p) = None \<and> pprop p ''layout'' = Some ''false''"

definition mark_count :: "options \<Rightarrow> pslide \<Rightarrow> pslide" where
  "mark_count opts p =
     (if pprop p ''continued'' = Some ''true'' \<and> o_countIncrementalSlides opts = Some False \<and> pprop p ''count'' = None
      then p\<lparr>p_properties := dict_set ''count'' ''false'' (p_properties p)\<rparr>
      else p)"

definition class_separator :: regexp where
  "class_separator = re no_flags '',| ''"

lemma class_separator_ast [code]:
  "class_separator =
     \<lparr>pat = Alt (Cls False [CChar CHR '','']) (Cls False [CChar CHR '' '']), ngroups = 0,
      flags = no_flags\<rparr>"
  by code_simp

definition slideIsIncluded :: "options \<Rightarrow> pslide \<Rightarrow> bool" where
  "slideIsIncluded opts p \<longleftrightarrow>
     (let slideClasses = re_split class_separator (case pprop p ''class'' of None \<Rightarrow> [] | Some v \<Rightarrow> v);
          excludedClasses = (case o_excludedClasses opts of None \<Rightarrow> [] | Some cs \<Rightarrow> cs)
      in filter (\<lambda>c. c \<in> set excludedClasses) slideClasses = [])"

definition is_layout :: "pslide \<Rightarrow> bool" where
  "is_layout p \<longleftrightarrow> pprop p ''layout'' = Some ''true''"

definition is_counted :: "options \<Rightarrow> pslide \<Rightarrow> bool" where
  "is_counted opts p \<longleftrightarrow> slideIsIncluded opts p \<and> \<not> is_layout p \<and> pprop p ''count'' \<noteq> Some ''false''"

definition drop_notes :: "options \<Rightarrow> pslide \<Rightarrow> pslide" where
  "drop_notes opts p = (if o_includePresenterNotes opts = Some False then p\<lparr>p_notes := None\<rparr> else p)"

definition set_name :: "pslide \<Rightarrow> nat \<Rightarrow> (string \<times> nat) list \<Rightarrow> (string \<times> nat) list" where
  "set_name p r d = (case pprop p ''name'' of Some (c # cs) \<Rightarrow> dict_set (c # cs) r d | _ \<Rightarrow> d)"

text \<open>\<open>byNumber[n]\<close> is item \<open>n - 1\<close> of \<open>c_byNumber\<close>.\<close>

definition push_number :: "nat \<Rightarrow> nat \<Rightarrow> nat list list \<Rightarrow> nat list list" where
  "push_number n r ls = (if 0 < n \<and> n \<le> length ls then ls[n - 1 := ls ! (n - 1) @ [r]] else ls)"

definition create_step :: "options \<Rightarrow> pslide \<Rightarrow> cstate \<Rightarrow> perr + cstate" where
  "create_step opts p0 st =
     (case choose_template st p0 of
        Inl e \<Rightarrow> Inl e
      | Inr template \<Rightarrow>
          let p = drop_notes opts (mark_count opts p0);
              incl = slideIsIncluded opts p;
              number = (if is_counted opts p then Suc (c_number st) else c_number st);
              byNumber = (if is_counted opts p then c_byNumber st @ [[]] else c_byNumber st);
              r = length (c_models st);
              model = Slide (length (c_slides st)) number p (map_option (\<lambda>t. c_models st ! t) template);
              shown = incl \<and> \<not> is_layout p
          in Inr \<lparr>c_models = c_models st @ [model],
                  c_slides = (if shown then c_slides st @ [r] else c_slides st),
                  c_local = set_name p r (c_local st),
                  c_byName = (if is_layout p then c_byName st else set_name p r (c_byName st)),
                  c_byNumber = (if shown then push_number number r byNumber else byNumber),
                  c_number = number,
                  c_layout = (if is_layout p then Some r
                              else if resets_layout st p0 then None else c_layout st)\<rparr>)"

fun create_all :: "options \<Rightarrow> pslide list \<Rightarrow> cstate \<Rightarrow> perr + cstate" where
  "create_all opts [] st = Inr st"
| "create_all opts (p # ps) st =
     (case create_step opts p st of Inl e \<Rightarrow> Inl e | Inr st' \<Rightarrow> create_all opts ps st')"

definition createSlides :: "nat \<Rightarrow> (string \<Rightarrow> macro option) \<Rightarrow> string \<Rightarrow> options \<Rightarrow> cstate pres" where
  "createSlides n macros slideshowSource opts =
     pbind (parse n macros (o_disableIncrementalSlides opts = Some True) slideshowSource)
       (\<lambda>parsed. Some (create_all opts parsed init_cstate))"

subsection \<open>Loading\<close>

record show_data =
  ss_models :: "slide list"
  ss_slides :: "nat list"
  ss_byName :: "(string \<times> nat) list"
  ss_byNumber :: "nat list list option"
  ss_links :: "(string \<times> link) list"

definition init_show :: show_data where
  "init_show = \<lparr>ss_models = [], ss_slides = [], ss_byName = [], ss_byNumber = None, ss_links = []\<rparr>"

definition expand_all :: "nat list \<Rightarrow> slide list \<Rightarrow> slide list" where
  "expand_all refs models = fold (\<lambda>r ms. ms[r := expandVariables (ms ! r)]) refs models"

definition merge_links :: "slide list \<Rightarrow> (string \<times> link) list" where
  "merge_links slides = fold (\<lambda>s ls. fold (\<lambda>(i, l) ls. dict_set i l ls) (s_links s) ls) slides []"

definition load_data :: "cstate \<Rightarrow> show_data" where
  "load_data c =
     (let models = expand_all (c_slides c) (c_models c)
      in \<lparr>ss_models = models, ss_slides = c_slides c, ss_byName = c_byName c,
          ss_byNumber = Some (c_byNumber c), ss_links = merge_links (map (\<lambda>r. models ! r) (c_slides c))\<rparr>)"

definition loadFromString :: "nat \<Rightarrow> (string \<Rightarrow> macro option) \<Rightarrow> options \<Rightarrow> string option \<Rightarrow> show_data pres" where
  "loadFromString n macros opts source =
     pbind (createSlides n macros (case source of None \<Rightarrow> [] | Some w \<Rightarrow> w) opts) (\<lambda>c. Some (Inr (load_data c)))"

text \<open>\<open>loadFromUrl\<close>: what \<open>xhr.onload\<close> loads, given the state and the status of the
  request and its text; an error status throws.\<close>

definition crlf :: regexp where
  "crlf = re \<lparr>ignoreCase = False, multiline = False\<rparr> (bs ''%r%n'')"

lemma crlf_ast [code]:
  "crlf = \<lparr>pat = Seq (Cls False [CChar CR]) (Cls False [CChar NL]), ngroups = 0, flags = no_flags\<rparr>"
  by code_simp

definition loadFromUrl_onload ::
  "nat \<Rightarrow> (string \<Rightarrow> macro option) \<Rightarrow> options \<Rightarrow> nat \<Rightarrow> nat \<Rightarrow> string \<Rightarrow> string \<Rightarrow> show_data \<Rightarrow> show_data pres" where
  "loadFromUrl_onload n macros opts readyState status statusText responseText sd =
     (if readyState = 4
      then if status = 200
           then loadFromString n macros opts (Some (re_replace crlf (\<lambda>m. [NL]) responseText))
           else Some (Inl (ErrorMsg statusText))
      else Some (Inr sd))"

definition getSlides :: "show_data \<Rightarrow> slide list" where
  "getSlides sd = map (\<lambda>r. ss_models sd ! r) (ss_slides sd)"

definition getSlideCount :: "show_data \<Rightarrow> nat" where
  "getSlideCount sd = length (ss_slides sd)"

definition getLinks :: "show_data \<Rightarrow> (string \<times> link) list" where
  "getLinks sd = ss_links sd"

text \<open>\<open>slides.byName[name]\<close>: a slide, a member of \<open>Object.prototype\<close>, or undefined.\<close>

datatype lookup_result = LSlide slide | LProto | LUndefined

definition getSlideByName :: "show_data \<Rightarrow> string \<Rightarrow> lookup_result" where
  "getSlideByName sd name =
     (case dict_get (ss_byName sd) name of
        Some r \<Rightarrow> LSlide (ss_models sd ! r)
      | None \<Rightarrow> if proto_member name = None then LUndefined else LProto)"

text \<open>\<open>slides.byNumber[number]\<close>; before the first load \<open>byNumber\<close> does not exist.\<close>

definition getSlidesByNumber :: "show_data \<Rightarrow> int \<Rightarrow> perr + slide list option" where
  "getSlidesByNumber sd number =
     (case ss_byNumber sd of
        None \<Rightarrow> Inl (TypeErr ''byNumber of undefined'')
      | Some ls \<Rightarrow>
          Inr (if 1 \<le> number \<and> number \<le> int (length ls)
               then Some (map (\<lambda>r. ss_models sd ! r) (ls ! nat (number - 1)))
               else None))"


subsection \<open>The invariant of \<open>createSlides\<close>\<close>

text \<open>
  Positions in the list of slides agree with \<open>getSlideIndex\<close>; slide numbers grow along
  the list; \<open>byNumber[n]\<close> holds exactly the slides numbered \<open>n\<close>, in order; the
  names stored are the names of the slides they point to.
\<close>

definition names_ok :: "slide list \<Rightarrow> (string \<times> nat) list \<Rightarrow> bool" where
  "names_ok models d \<longleftrightarrow>
     (\<forall>k r. dict_get d k = Some r \<longrightarrow> r < length models \<and> dict_get (s_properties (models ! r)) ''name'' = Some k)"

definition indexed :: "slide list \<Rightarrow> nat list \<Rightarrow> bool" where
  "indexed models refs \<longleftrightarrow>
     sorted_wrt (<) refs \<and> (\<forall>r \<in> set refs. r < length models) \<and>
     (\<forall>j < length refs. s_index (models ! (refs ! j)) = j)"

definition numbered :: "slide list \<Rightarrow> nat list \<Rightarrow> nat list list \<Rightarrow> nat \<Rightarrow> bool" where
  "numbered models refs byNumber n \<longleftrightarrow>
     length byNumber = n \<and>
     sorted (map (\<lambda>r. s_number (models ! r)) refs) \<and>
     (\<forall>r \<in> set refs. s_number (models ! r) \<le> n) \<and>
     (\<forall>k < n. byNumber ! k = filter (\<lambda>r. s_number (models ! r) = Suc k) refs)"

definition cstate_ok :: "cstate \<Rightarrow> bool" where
  "cstate_ok st \<longleftrightarrow>
     indexed (c_models st) (c_slides st) \<and>
     numbered (c_models st) (c_slides st) (c_byNumber st) (c_number st) \<and>
     names_ok (c_models st) (c_local st) \<and> names_ok (c_models st) (c_byName st) \<and>
     (\<forall>r. c_layout st = Some r \<longrightarrow> r < length (c_models st))"

lemma cstate_ok_init: "cstate_ok init_cstate"
  by (simp add: cstate_ok_def init_cstate_def indexed_def numbered_def names_ok_def)

lemma names_ok_extend: "names_ok ms d \<Longrightarrow> names_ok (ms @ [m]) d"
  by (fastforce simp: names_ok_def nth_append)

lemma names_ok_set_name:
  assumes "names_ok ms d" "dict_get (s_properties m) ''name'' = pprop p ''name''"
  shows "names_ok (ms @ [m]) (set_name p (length ms) d)"
  using names_ok_extend [OF assms(1), of m] assms(2)
  by (auto simp: names_ok_def set_name_def split: option.splits list.splits)

lemma indexed_extend: "indexed ms refs \<Longrightarrow> indexed (ms @ [m]) refs"
  by (auto simp: indexed_def nth_append)

lemma indexed_snoc:
  assumes "indexed ms refs" "s_index m = length refs"
  shows "indexed (ms @ [m]) (refs @ [length ms])"
  using assms by (auto simp: indexed_def nth_append sorted_wrt_append less_Suc_eq)

lemma map_number_extend:
  "(\<forall>r \<in> set refs. r < length ms) \<Longrightarrow>
   map (\<lambda>r. s_number ((ms @ [m]) ! r)) refs = map (\<lambda>r. s_number (ms ! r)) refs"
  by (auto simp: nth_append)

lemma filter_number_extend:
  "(\<forall>r \<in> set refs. r < length ms) \<Longrightarrow>
   filter (\<lambda>r. s_number ((ms @ [m]) ! r) = k) refs = filter (\<lambda>r. s_number (ms ! r) = k) refs"
  by (auto simp: nth_append intro: filter_cong)

lemma numbered_extend:
  assumes "numbered ms refs bn n" "\<forall>r \<in> set refs. r < length ms"
  shows "numbered (ms @ [m]) refs bn n"
proof -
  have "\<forall>r \<in> set refs. (ms @ [m]) ! r = ms ! r"
    using assms(2) by (simp add: nth_append)
  then show ?thesis
    using assms by (simp add: numbered_def map_number_extend filter_number_extend)
qed

lemma numbered_new:
  assumes "numbered ms refs bn n"
  shows "numbered ms refs (bn @ [[]]) (Suc n)"
proof -
  have "filter (\<lambda>r. s_number (ms ! r) = Suc n) refs = []"
    using assms by (auto simp: numbered_def filter_empty_conv)
  then show ?thesis
    using assms by (auto simp: numbered_def nth_append less_Suc_eq)
qed

lemma numbered_push:
  assumes "numbered ms refs bn n" "r \<notin> set refs" "s_number (ms ! r) = n"
  shows "numbered ms (refs @ [r]) (push_number n r bn) n"
  using assms by (auto simp: numbered_def push_number_def sorted_append nth_list_update)

lemma Slide_name: "dict_get (s_properties (Slide i n p t)) ''name'' = pprop p ''name''"
  by (rule Slide_ignored_property) (simp add: ignoreProperty_def)

lemma create_step_ok:
  assumes ok: "cstate_ok st" and step: "create_step opts p0 st = Inr st'"
  shows "cstate_ok st'"
proof -
  define p where "p = drop_notes opts (mark_count opts p0)"
  obtain template where t: "choose_template st p0 = Inr template"
    using step by (cases "choose_template st p0") (auto simp: create_step_def)
  define number where "number = (if is_counted opts p then Suc (c_number st) else c_number st)"
  define bn where "bn = (if is_counted opts p then c_byNumber st @ [[]] else c_byNumber st)"
  define m where "m = Slide (length (c_slides st)) number p (map_option (\<lambda>t. c_models st ! t) template)"
  have refs: "\<forall>r \<in> set (c_slides st). r < length (c_models st)"
    using ok by (simp add: cstate_ok_def indexed_def)
  have num: "numbered (c_models st @ [m]) (c_slides st) bn number"
    using ok numbered_new unfolding bn_def number_def
    by (auto simp: cstate_ok_def intro!: numbered_extend [OF _ refs])
  have num': "numbered (c_models st @ [m]) (c_slides st @ [length (c_models st)])
      (push_number number (length (c_models st)) bn) number"
    using refs by (intro numbered_push [OF num]) (auto simp: m_def)
  have names: "dict_get (s_properties m) ''name'' = pprop p ''name''"
    unfolding m_def by (rule Slide_name)
  have idx: "indexed (c_models st @ [m]) (c_slides st)"
    "indexed (c_models st @ [m]) (c_slides st @ [length (c_models st)])"
    using ok by (auto simp: cstate_ok_def m_def intro: indexed_extend indexed_snoc)
  have "st' = \<lparr>c_models = c_models st @ [m],
      c_slides = (if slideIsIncluded opts p \<and> \<not> is_layout p then c_slides st @ [length (c_models st)] else c_slides st),
      c_local = set_name p (length (c_models st)) (c_local st),
      c_byName = (if is_layout p then c_byName st else set_name p (length (c_models st)) (c_byName st)),
      c_byNumber = (if slideIsIncluded opts p \<and> \<not> is_layout p then push_number number (length (c_models st)) bn else bn),
      c_number = number,
      c_layout = (if is_layout p then Some (length (c_models st))
                  else if resets_layout st p0 then None else c_layout st)\<rparr>"
    using step [symmetric] by (simp add: create_step_def t Let_def p_def m_def number_def bn_def)
  then show ?thesis
    using ok num num' idx names names_ok_set_name [OF _ names] names_ok_extend
    by (auto simp: cstate_ok_def less_Suc_eq)
qed

lemma create_all_ok: "cstate_ok st \<Longrightarrow> create_all opts ps st = Inr st' \<Longrightarrow> cstate_ok st'"
  by (induction ps arbitrary: st) (auto split: sum.splits dest: create_step_ok)


subsection \<open>Loaded slides\<close>

text \<open>Expansion changes only the content of the slides.\<close>

definition same_frame :: "slide \<Rightarrow> slide \<Rightarrow> bool" where
  "same_frame s t \<longleftrightarrow> s_index s = s_index t \<and> s_number s = s_number t \<and> s_properties s = s_properties t \<and>
     s_links s = s_links t \<and> s_notes s = s_notes t"

lemma expand_all_frame:
  "length (expand_all refs ms) = length ms \<and>
   (\<forall>r < length ms. same_frame (expand_all refs ms ! r) (ms ! r))"
proof (induction refs arbitrary: ms)
  case (Cons q refs)
  have "length (ms[q := expandVariables (ms ! q)]) = length ms"
    "\<forall>r < length ms. same_frame (ms[q := expandVariables (ms ! q)] ! r) (ms ! r)"
    by (cases "q < length ms"; simp add: nth_list_update list_update_beyond same_frame_def expandVariables_def)+
  with Cons [of "ms[q := expandVariables (ms ! q)]"] show ?case
    by (simp add: expand_all_def same_frame_def)
qed (simp add: expand_all_def same_frame_def)

lemmas expand_all_length [simp] = expand_all_frame [THEN conjunct1]

lemma expand_all_nth:
  assumes "r < length ms"
  shows "s_index (expand_all refs ms ! r) = s_index (ms ! r)"
    and "s_number (expand_all refs ms ! r) = s_number (ms ! r)"
    and "s_properties (expand_all refs ms ! r) = s_properties (ms ! r)"
  using expand_all_frame assms by (auto simp: same_frame_def)

lemma indexed_expand: "indexed ms refs \<Longrightarrow> indexed (expand_all qs ms) refs"
  by (simp add: indexed_def expand_all_nth)

lemma names_ok_expand: "names_ok ms d \<Longrightarrow> names_ok (expand_all qs ms) d"
  by (simp add: names_ok_def expand_all_nth)

lemma numbered_expand:
  assumes "numbered ms refs bn n" "\<forall>r \<in> set refs. r < length ms"
  shows "numbered (expand_all qs ms) refs bn n"
proof -
  have "map (\<lambda>r. s_number (expand_all qs ms ! r)) refs = map (\<lambda>r. s_number (ms ! r)) refs"
    and "filter (\<lambda>r. s_number (expand_all qs ms ! r) = k) refs = filter (\<lambda>r. s_number (ms ! r) = k) refs" for k
    using assms(2) by (auto simp: expand_all_nth intro: filter_cong)
  note eqs = this
  from assms show ?thesis
    unfolding numbered_def eqs by (simp add: expand_all_nth)
qed

definition show_ok :: "show_data \<Rightarrow> bool" where
  "show_ok sd \<longleftrightarrow>
     indexed (ss_models sd) (ss_slides sd) \<and> names_ok (ss_models sd) (ss_byName sd) \<and>
     (\<forall>bn. ss_byNumber sd = Some bn \<longrightarrow> numbered (ss_models sd) (ss_slides sd) bn (length bn))"

lemma show_ok_init: "show_ok init_show"
  by (simp add: show_ok_def init_show_def indexed_def names_ok_def)

lemma load_data_ok: "cstate_ok c \<Longrightarrow> show_ok (load_data c)"
proof -
  assume ok: "cstate_ok c"
  then have "numbered (expand_all (c_slides c) (c_models c)) (c_slides c) (c_byNumber c) (c_number c)"
    by (intro numbered_expand) (auto simp: cstate_ok_def indexed_def)
  moreover from this have "c_number c = length (c_byNumber c)" by (simp add: numbered_def)
  ultimately show ?thesis
    using ok by (simp add: show_ok_def load_data_def Let_def cstate_ok_def indexed_expand names_ok_expand)
qed

lemma loadFromString_ok:
  assumes "loadFromString n macros opts source = Some (Inr sd)"
  shows "show_ok sd"
proof -
  from assms obtain c parsed where "create_all opts parsed init_cstate = Inr c" "sd = load_data c"
    by (auto simp: loadFromString_def createSlides_def pbind_eq_Some_Inr)
  then show ?thesis
    using create_all_ok [OF cstate_ok_init] by (auto intro: load_data_ok)
qed

lemma show_ok_index: "show_ok sd \<Longrightarrow> j < getSlideCount sd \<Longrightarrow> s_index (getSlides sd ! j) = j"
  by (simp add: show_ok_def indexed_def getSlideCount_def getSlides_def)

lemma show_ok_number:
  assumes "show_ok sd" "getSlidesByNumber sd k = Inr (Some ls)"
  shows "ls = filter (\<lambda>s. int (s_number s) = k) (getSlides sd)"
proof -
  from assms obtain bn where bn: "ss_byNumber sd = Some bn" "1 \<le> k" "k \<le> int (length bn)"
    "ls = map (\<lambda>r. ss_models sd ! r) (bn ! nat (k - 1))"
    by (auto simp: getSlidesByNumber_def split: option.splits if_splits)
  have "bn ! nat (k - 1) = filter (\<lambda>r. s_number (ss_models sd ! r) = Suc (nat (k - 1))) (ss_slides sd)"
    using assms(1) bn by (auto simp: show_ok_def numbered_def)
  moreover have "s_number s = Suc (nat (k - 1)) \<longleftrightarrow> int (s_number s) = k" for s :: slide
    using bn(2) by auto
  ultimately show ?thesis
    using bn(4) by (simp add: getSlides_def filter_map o_def)
qed

lemma create_step_count:
  assumes "create_step opts p0 st = Inr st'"
  shows "length (c_slides st') = length (c_slides st) +
           (if slideIsIncluded opts p0 \<and> \<not> is_layout p0 then 1 else 0)"
    and "c_number st' = c_number st + (if is_counted opts (mark_count opts p0) then 1 else 0)"
proof -
  have "pprop (drop_notes opts (mark_count opts p0)) k = pprop (mark_count opts p0) k" for k
    by (simp add: drop_notes_def)
  moreover have "k \<noteq> ''count'' \<Longrightarrow> pprop (mark_count opts p0) k = pprop p0 k" for k
    by (simp add: mark_count_def)
  ultimately have "slideIsIncluded opts (drop_notes opts (mark_count opts p0)) = slideIsIncluded opts p0"
    "is_layout (drop_notes opts (mark_count opts p0)) = is_layout p0"
    "is_counted opts (drop_notes opts (mark_count opts p0)) = is_counted opts (mark_count opts p0)"
    by (simp_all add: slideIsIncluded_def is_layout_def is_counted_def)
  then show "length (c_slides st') = length (c_slides st) +
           (if slideIsIncluded opts p0 \<and> \<not> is_layout p0 then 1 else 0)"
    "c_number st' = c_number st + (if is_counted opts (mark_count opts p0) then 1 else 0)"
    using assms by (auto simp: create_step_def Let_def split: sum.splits)
qed

lemma create_all_count:
  "create_all opts ps st = Inr st' \<Longrightarrow>
     length (c_slides st') = length (c_slides st) + length (filter (\<lambda>p. slideIsIncluded opts p \<and> \<not> is_layout p) ps) \<and>
     c_number st' = c_number st + length (filter (\<lambda>p. is_counted opts (mark_count opts p)) ps)"
proof (induction ps arbitrary: st)
  case (Cons p ps)
  then obtain st1 where "create_step opts p st = Inr st1" "create_all opts ps st1 = Inr st'"
    by (auto split: sum.splits)
  with Cons.IH [of st1] create_step_count [of opts p st st1] show ?case by simp
qed simp

subsection \<open>Properties\<close>

text \<open>
  C8. After loading, the slide at every position of the list reports that position as its
  index, and slide numbers never decrease along the list.
\<close>

theorem loaded_slides_indexed:
  assumes "loadFromString n macros opts source = Some (Inr sd)"
  shows "map s_index (getSlides sd) = [0 ..< getSlideCount sd] \<and> sorted (map s_number (getSlides sd))"
proof -
  have ok: "show_ok sd" by (rule loadFromString_ok [OF assms])
  obtain bn where "ss_byNumber sd = Some bn"
    using assms by (auto simp: loadFromString_def load_data_def Let_def pbind_eq_Some_Inr)
  with ok have "sorted (map s_number (getSlides sd))"
    by (auto simp: show_ok_def numbered_def getSlides_def o_def)
  moreover have "map s_index (getSlides sd) = [0 ..< getSlideCount sd]"
    using show_ok_index [OF ok] by (auto simp: getSlides_def getSlideCount_def intro: nth_equalityI)
  ultimately show ?thesis by simp
qed

definition no_options :: options where
  "no_options = \<lparr>o_source = None, o_sourceUrl = None, o_countIncrementalSlides = None,
     o_excludedClasses = None, o_includePresenterNotes = None, o_disableIncrementalSlides = None,
     o_strings = []\<rparr>"

definition example_source :: string where
  "example_source = ''a'' @ [NL] @ ''--'' @ [NL] @ ''b''"

definition example_show :: show_data where
  "example_show = (case loadFromString 1 builtin_macros no_options (Some example_source) of
     Some (Inr sd) \<Rightarrow> sd | _ \<Rightarrow> init_show)"

lemma example_load: "loadFromString 1 builtin_macros no_options (Some example_source) = Some (Inr example_show)"
  by code_simp

theorem loaded_slides_indexed_witness: "map s_index (getSlides example_show) = [0 ..< getSlideCount example_show]"
  using loaded_slides_indexed [OF example_load] by simp

text \<open>
  C24. The slides found under a number are exactly the slides of the list that carry this
  number, in order.
\<close>

theorem slides_by_number:
  assumes "loadFromString n macros opts source = Some (Inr sd)"
    and "getSlidesByNumber sd k = Inr (Some ls)"
  shows "ls = filter (\<lambda>s. int (s_number s) = k) (getSlides sd)"
  using show_ok_number [OF loadFromString_ok [OF assms(1)] assms(2)] .

theorem slides_by_number_witness:
  "[getSlides example_show ! 1] = filter (\<lambda>s. int (s_number s) = 2) (getSlides example_show)"
proof -
  have "getSlidesByNumber example_show 2 = Inr (Some [getSlides example_show ! 1])"
    by code_simp
  then show ?thesis by (rule slides_by_number [OF example_load])
qed



text \<open>
  A slide found by name has that name.
\<close>

lemma slide_by_name:
  assumes "loadFromString n macros opts source = Some (Inr sd)"
    and "getSlideByName sd name = LSlide s"
  shows "dict_get (s_properties s) ''name'' = Some name"
  using loadFromString_ok [OF assms(1)] assms(2)
  by (auto simp: show_ok_def names_ok_def getSlideByName_def split: option.splits if_splits)

lemma slide_by_name_example:
  "\<exists>sd s. loadFromString 1 builtin_macros no_options (Some ''name: x'') = Some (Inr sd) \<and>
     getSlideByName sd ''x'' = LSlide s \<and> dict_get (s_properties s) ''name'' = Some ''x''"
proof -
  define sd where "sd = projr (the (loadFromString 1 builtin_macros no_options (Some ''name: x'')))"
  define s where "s = ss_models sd ! 0"
  have a: "loadFromString 1 builtin_macros no_options (Some ''name: x'') = Some (Inr sd)"
    unfolding sd_def by code_simp
  have b: "getSlideByName sd ''x'' = LSlide s"
    unfolding s_def sd_def by code_simp
  from slide_by_name [OF a b] a b show ?thesis by blast
qed

lemma create_all_throws:
  "create_all opts ps st = Inl e \<Longrightarrow> e = TypeErr ''length of undefined'' \<and> (\<exists>p\<in>set ps. proto_member (template_key p) \<noteq> None)"
proof (induction ps arbitrary: st)
  case (Cons p ps)
  show ?case
  proof (cases "create_step opts p st")
    case (Inl e')
    then have "choose_template st p = Inl e'"
      by (cases "choose_template st p") (simp_all add: create_step_def Let_def)
    then have "e' = TypeErr ''length of undefined''" "proto_member (template_key p) \<noteq> None"
      by (auto simp: choose_template_def split: if_splits option.splits)
    with Cons.prems Inl show ?thesis by simp
  next
    case (Inr st')
    with Cons show ?thesis by auto
  qed
qed simp

lemma prototype_template_throws:
  "loadFromString 1 builtin_macros no_options (Some ''template: constructor'') =
     Some (Inl (TypeErr ''length of undefined''))"
  by code_simp



end
