(* ===== verification/Remark_Utils.thy ===== *)
theory Remark_Utils
  imports Js_Prelude
begin

text \<open>
  Class lists of DOM elements (\<^verbatim>\<open>remark.js\<close>, module 25). The operations work on the
  \<open>className\<close> string: they split it at spaces, change the list and join it again. The
  locale \<open>class_list\<close> states what the views rely on; it is interpreted on the operations
  of the module, for class names that are valid (not empty and without spaces) and for
  elements that hold a class at most once where \<open>toggleClass\<close> is concerned.
\<close>

subsection \<open>The operations\<close>

definition getClasses :: "string \<Rightarrow> string list" where
  "getClasses className = filter (\<lambda>s. s \<noteq> []) (split_char CHR '' '' className)"

definition addClass :: "string \<Rightarrow> string \<Rightarrow> string" where
  "addClass className c = join '' '' (getClasses className @ [c])"

definition removeClass :: "string \<Rightarrow> string \<Rightarrow> string" where
  "removeClass className c = join '' '' (filter (\<lambda>k. k \<noteq> c) (getClasses className))"

definition toggleClass :: "string \<Rightarrow> string \<Rightarrow> string" where
  "toggleClass className c =
     (let classes = getClasses className
      in join '' '' (if c \<in> set classes then remove1 c classes else classes @ [c]))"

definition hasClass :: "string \<Rightarrow> string \<Rightarrow> bool" where
  "hasClass className c \<longleftrightarrow> c \<in> set (getClasses className)"

text \<open>\<open>getPrefixedProperty\<close>: the first of three names under which the element has a
  (truthy) property; \<open>prop\<close> is the lookup on the element.\<close>

definition getPrefixedProperty :: "(string \<Rightarrow> 'v option) \<Rightarrow> string \<Rightarrow> 'v option" where
  "getPrefixedProperty prp propertyName =
     (let capitalized = (case propertyName of [] \<Rightarrow> [] | c # cs \<Rightarrow> char_upper c # cs)
      in case prp propertyName of
           Some v \<Rightarrow> Some v
         | None \<Rightarrow> (case prp (''moz'' @ capitalized) of
                     Some v \<Rightarrow> Some v
                   | None \<Rightarrow> prp (''webkit'' @ capitalized)))"

subsection \<open>Class lists as an interface\<close>

locale class_list =
  fixes has :: "'e \<Rightarrow> 'c \<Rightarrow> bool"
    and add :: "'e \<Rightarrow> 'c \<Rightarrow> 'e"
    and remove :: "'e \<Rightarrow> 'c \<Rightarrow> 'e"
    and toggle :: "'e \<Rightarrow> 'c \<Rightarrow> 'e"
    and valid :: "'c \<Rightarrow> bool"
    and single :: "'c \<Rightarrow> 'e \<Rightarrow> bool"
  assumes has_add: "valid c \<Longrightarrow> has (add e c) d \<longleftrightarrow> d = c \<or> has e d"
    and has_remove: "has (remove e c) d \<longleftrightarrow> d \<noteq> c \<and> has e d"
    and has_toggle: "valid c \<Longrightarrow> single c e \<Longrightarrow> has (toggle e c) d \<longleftrightarrow> (if d = c then \<not> has e c else has e d)"
    and single_toggle: "valid c \<Longrightarrow> single d e \<Longrightarrow> single d (toggle e c)"
    and single_remove: "single d e \<Longrightarrow> single d (remove e c)"
    and single_absent: "\<not> has e c \<Longrightarrow> single c e"
    and single_add: "valid c \<Longrightarrow> \<not> has e c \<or> d \<noteq> c \<Longrightarrow> single d e \<Longrightarrow> single d (add e c)"
begin

lemma has_remove_add: "valid c \<Longrightarrow> has (remove (add e c) c) d \<longleftrightarrow> d \<noteq> c \<and> has e d"
  by (auto simp: has_remove has_add)

lemma toggle_twice:
  "valid c \<Longrightarrow> single c e \<Longrightarrow> has (toggle (toggle e c) c) d \<longleftrightarrow> has e d"
  by (auto simp: has_toggle single_toggle)

lemma toggle_cases:
  "valid c \<Longrightarrow> single c e \<Longrightarrow>
     (if has e c then has (toggle e c) d \<longleftrightarrow> has (remove e c) d else has (toggle e c) d \<longleftrightarrow> has (add e c) d)"
  by (auto simp: has_toggle has_add has_remove)

text \<open>Modes that are switched independently: a sequence of toggles switches a mode exactly
  if it occurs an odd number of times.\<close>

lemma has_foldl_toggle:
  "(\<And>c. c \<in> set cs \<Longrightarrow> valid c) \<Longrightarrow> (\<And>c. c \<in> set cs \<Longrightarrow> single c e) \<Longrightarrow>
   has (foldl toggle e cs) d \<longleftrightarrow> (has e d \<noteq> odd (count_list cs d))"
proof (induction cs arbitrary: e)
  case (Cons c cs)
  have "has (foldl toggle (toggle e c) cs) d \<longleftrightarrow> (has (toggle e c) d \<noteq> odd (count_list cs d))"
    using Cons.prems by (intro Cons.IH) (auto simp: single_toggle)
  then show ?case using Cons.prems by (auto simp: has_toggle)
qed simp

end

subsection \<open>The operations satisfy the interface\<close>

definition valid_class :: "string \<Rightarrow> bool" where
  "valid_class c \<longleftrightarrow> c \<noteq> [] \<and> CHR '' '' \<notin> set c"

definition single_class :: "string \<Rightarrow> string \<Rightarrow> bool" where
  "single_class c className \<longleftrightarrow> count_list (getClasses className) c \<le> 1"

lemma getClasses_valid: "c \<in> set (getClasses className) \<Longrightarrow> valid_class c"
  by (auto simp: getClasses_def valid_class_def dest: split_char_pieces)

lemma getClasses_join:
  assumes "\<And>c. c \<in> set cs \<Longrightarrow> valid_class c"
  shows "getClasses (join '' '' cs) = cs"
proof (cases "cs = []")
  case True
  then show ?thesis by (simp add: getClasses_def)
next
  case False
  have "split_char CHR '' '' (join '' '' cs) = cs"
    using False assms by (intro split_char_join) (auto simp: valid_class_def)
  moreover have "filter (\<lambda>s. s \<noteq> []) cs = cs"
    using assms by (auto simp: filter_id_conv valid_class_def)
  ultimately show ?thesis by (simp add: getClasses_def)
qed

lemma getClasses_add: "valid_class c \<Longrightarrow> getClasses (addClass e c) = getClasses e @ [c]"
  unfolding addClass_def by (rule getClasses_join) (auto dest: getClasses_valid)

lemma getClasses_remove: "getClasses (removeClass e c) = filter (\<lambda>k. k \<noteq> c) (getClasses e)"
  unfolding removeClass_def by (rule getClasses_join) (auto dest: getClasses_valid)

lemma getClasses_toggle:
  "valid_class c \<Longrightarrow>
   getClasses (toggleClass e c) = (if c \<in> set (getClasses e) then remove1 c (getClasses e) else getClasses e @ [c])"
  unfolding toggleClass_def Let_def
  by (rule getClasses_join) (auto split: if_splits dest: getClasses_valid subsetD [OF set_remove1_subset])

lemma count_list_remove1: "count_list (remove1 c xs) d = count_list xs d - (if c = d then 1 else 0)"
proof (induction xs)
  case (Cons x xs)
  have "count_list xs c \<noteq> 0" if "c \<in> set xs"
    using that by (simp add: count_list_0_iff)
  with Cons show ?case
    by (cases "c \<in> set xs") (auto simp: remove1_idem count_list_0_iff)
qed simp

lemma count_list_filter_le: "count_list (filter P xs) d \<le> count_list xs d"
  by (induction xs) auto

lemma mem_remove1_single:
  "count_list xs c \<le> 1 \<Longrightarrow> d \<in> set (remove1 c xs) \<longleftrightarrow> d \<in> set xs \<and> d \<noteq> c"
  using count_list_remove1 [of c xs d] count_list_0_iff [of "remove1 c xs" d] count_list_0_iff [of xs d]
  by (cases "c = d") auto

interpretation classes: class_list hasClass addClass removeClass toggleClass valid_class single_class
proof unfold_locales
  show "hasClass (addClass e c) d \<longleftrightarrow> d = c \<or> hasClass e d" if "valid_class c" for c e d
    using that by (auto simp: hasClass_def getClasses_add)
  show "hasClass (removeClass e c) d \<longleftrightarrow> d \<noteq> c \<and> hasClass e d" for e c d
    by (auto simp: hasClass_def getClasses_remove)
  show "hasClass (toggleClass e c) d \<longleftrightarrow> (if d = c then \<not> hasClass e c else hasClass e d)"
    if "valid_class c" "single_class c e" for c e d
    using that by (auto simp: hasClass_def getClasses_toggle single_class_def mem_remove1_single)
  show "single_class d (toggleClass e c)" if "valid_class c" "single_class d e" for c d e
    using that by (auto simp: single_class_def getClasses_toggle count_list_remove1 count_list_0_iff)
  show "single_class d (removeClass e c)" if "single_class d e" for d e c
    using that count_list_filter_le [of "\<lambda>k. k \<noteq> c" "getClasses e" d]
    by (simp add: single_class_def getClasses_remove)
  show "single_class c e" if "\<not> hasClass e c" for e c
    using that by (simp add: single_class_def hasClass_def count_list_0_iff [THEN iffD2])
  show "single_class d (addClass e c)" if "valid_class c" "\<not> hasClass e c \<or> d \<noteq> c" "single_class d e" for c e d
    using that by (auto simp: single_class_def getClasses_add hasClass_def count_list_0_iff)
qed

text \<open>\<open>addClass\<close> appends even when the class is there: a second \<open>addClass\<close> followed by
  one \<open>toggleClass\<close> leaves the class on the element.\<close>

lemma add_twice_toggle:
  "valid_class c \<Longrightarrow> hasClass (toggleClass (addClass (addClass e c) c) c) c"
  by (simp add: hasClass_def getClasses_toggle getClasses_add remove1_append)

subsection \<open>Properties\<close>

text \<open>
  C33. Class lists behave as sets of modes: after any sequence of toggles of valid
  classes that the element holds at most once, a class is present exactly if it was
  present before and was toggled an even number of times, or the other way round.
\<close>

theorem toggles_by_parity:
  assumes "\<And>c. c \<in> set cs \<Longrightarrow> valid_class c" "\<And>c. c \<in> set cs \<Longrightarrow> single_class c e"
  shows "hasClass (foldl toggleClass e cs) d \<longleftrightarrow> (hasClass e d \<noteq> odd (count_list cs d))"
  using assms by (rule classes.has_foldl_toggle)

theorem toggles_by_parity_witness:
  "hasClass (foldl toggleClass ''remark-container'' [''a'', ''b'', ''a'']) ''b''"
proof -
  have "valid_class c \<and> single_class c ''remark-container''" if "c \<in> set [''a'', ''b'', ''a'']" for c
    using that by (auto simp: valid_class_def single_class_def getClasses_def)
  then have "hasClass (foldl toggleClass ''remark-container'' [''a'', ''b'', ''a'']) ''b'' \<longleftrightarrow>
      (hasClass ''remark-container'' ''b'' \<noteq> odd (count_list [''a'', ''b'', ''a''] ''b''))"
    by (intro toggles_by_parity) blast+
  then show ?thesis by (simp add: hasClass_def getClasses_def)
qed

end
