(* ===== verification/Remark_Timer.thy ===== *)
theory Remark_Timer
  imports Js_Prelude
begin

text \<open>
  The presentation timer (\<^verbatim>\<open>remark.js\<close>, \<open>components/timer\<close>): the chronometer that
  counts only while the timer runs, the three states and their transitions, and the default
  format of the elapsed time. Times are integers (milliseconds, below \<open>2 ^ 40\<close>, where the
  floating-point division and \<open>Math.floor\<close> of the code are exact); the clock may go
  backwards.
\<close>

subsection \<open>Chronometer and states\<close>

record chronos =
  currentTick :: int
  lastTick :: int
  elapsedTime :: int

definition Chronos :: "int \<Rightarrow> chronos" where
  "Chronos now = \<lparr>currentTick = now, lastTick = now, elapsedTime = 0\<rparr>"

definition chronos_tick :: "int \<Rightarrow> chronos \<Rightarrow> chronos" where
  "chronos_tick now c = c\<lparr>lastTick := currentTick c, currentTick := now\<rparr>"

definition addDelta :: "chronos \<Rightarrow> chronos" where
  "addDelta c = c\<lparr>elapsedTime := elapsedTime c + (currentTick c - lastTick c)\<rparr>"

datatype timer_state = INITIAL | RUNNING | PAUSED

text \<open>\<open>State.prototype.update\<close>: only the running state has an effect.\<close>

fun state_update :: "timer_state \<Rightarrow> chronos \<Rightarrow> chronos" where
  "state_update RUNNING c = addDelta c"
| "state_update INITIAL c = c"
| "state_update PAUSED c = c"

subsection \<open>Formatting\<close>

text \<open>The remainder operator takes the sign of the dividend.\<close>

definition js_rem :: "int \<Rightarrow> int \<Rightarrow> int" where
  "js_rem a b = sgn a * (\<bar>a\<bar> mod \<bar>b\<bar>)"

definition idiv :: "int \<Rightarrow> int \<Rightarrow> int" where
  "idiv n d = n div d"

definition padStart :: "string \<Rightarrow> nat \<Rightarrow> char \<Rightarrow> string" where
  "padStart s n c = replicate (n - length s) c @ s"

definition defaultFormatter :: "int \<Rightarrow> string" where
  "defaultFormatter elapsed =
     (let left1 = idiv elapsed 1000;
          seconds = js_rem left1 60;
          left2 = idiv left1 60;
          minutes = js_rem left2 60;
          hours = idiv left2 60
      in int_str hours @ '':'' @
         join '':'' (map (\<lambda>s. padStart s 2 CHR ''0'') (map int_str [minutes, seconds])))"

subsection \<open>The view model\<close>

record timer_options =
  to_enabled :: bool
  to_resetable :: bool
  to_startOnChange :: bool
  to_formatter :: "int \<Rightarrow> string"

definition default_timer_options :: timer_options where
  "default_timer_options = \<lparr>to_enabled = True, to_resetable = True, to_startOnChange = True,
     to_formatter = defaultFormatter\<rparr>"

record timer =
  t_options :: timer_options
  t_chronos :: chronos
  t_state :: timer_state
  t_hidden :: bool
  t_html :: string

text \<open>\<open>TimerView\<close> hides the element when the timer is not enabled.\<close>

definition timer_reset :: "int \<Rightarrow> timer \<Rightarrow> timer" where
  "timer_reset now t = t\<lparr>t_chronos := Chronos now, t_state := INITIAL,
     t_hidden := (if to_enabled (t_options t) then t_hidden t else True)\<rparr>"

definition TimerViewModel :: "int \<Rightarrow> timer_options \<Rightarrow> timer" where
  "TimerViewModel now opts =
     timer_reset now \<lparr>t_options = opts, t_chronos = Chronos now, t_state = INITIAL, t_hidden = False, t_html = []\<rparr>"

definition timer_start :: "timer \<Rightarrow> timer" where
  "timer_start t = t\<lparr>t_state := RUNNING\<rparr>"

definition timer_pause :: "timer \<Rightarrow> timer" where
  "timer_pause t = t\<lparr>t_state := PAUSED\<rparr>"

definition timer_toggle :: "timer \<Rightarrow> timer" where
  "timer_toggle t = (if t_state t = RUNNING then t\<lparr>t_state := PAUSED\<rparr> else t\<lparr>t_state := RUNNING\<rparr>)"

definition TimerView_update :: "timer_options \<Rightarrow> int \<Rightarrow> string" where
  "TimerView_update opts elapsed = (if to_enabled opts then to_formatter opts elapsed else [])"

definition timer_tick :: "int \<Rightarrow> timer \<Rightarrow> timer" where
  "timer_tick now t =
     (let c = state_update (t_state t) (chronos_tick now (t_chronos t))
      in t\<lparr>t_chronos := c, t_html := TimerView_update (t_options t) (elapsedTime c)\<rparr>)"

subsection \<open>Elapsed time is running time\<close>

datatype timer_op = OpStart | OpPause | OpToggle | OpReset int | OpTick int

fun timer_step :: "timer_op \<Rightarrow> timer \<Rightarrow> timer" where
  "timer_step OpStart t = timer_start t"
| "timer_step OpPause t = timer_pause t"
| "timer_step OpToggle t = timer_toggle t"
| "timer_step (OpReset now) t = timer_reset now t"
| "timer_step (OpTick now) t = timer_tick now t"

text \<open>Specification: the sum of the intervals between ticks that ended while the timer ran,
  since the last reset. \<open>spec\<close> carries state, last tick and total.\<close>

fun spec_step :: "timer_op \<Rightarrow> timer_state \<times> int \<times> int \<Rightarrow> timer_state \<times> int \<times> int" where
  "spec_step OpStart (st, l, e) = (RUNNING, l, e)"
| "spec_step OpPause (st, l, e) = (PAUSED, l, e)"
| "spec_step OpToggle (st, l, e) = (if st = RUNNING then PAUSED else RUNNING, l, e)"
| "spec_step (OpReset now) (st, l, e) = (INITIAL, now, 0)"
| "spec_step (OpTick now) (st, l, e) = (st, now, if st = RUNNING then e + (now - l) else e)"

definition abs_timer :: "timer \<Rightarrow> timer_state \<times> int \<times> int" where
  "abs_timer t = (t_state t, currentTick (t_chronos t), elapsedTime (t_chronos t))"

lemma timer_step_abs: "abs_timer (timer_step op t) = spec_step op (abs_timer t)"
proof (cases op)
  case (OpTick now)
  then show ?thesis
    by (cases "t_state t") (simp_all add: abs_timer_def timer_tick_def chronos_tick_def addDelta_def Let_def)
qed (auto simp: abs_timer_def timer_start_def timer_pause_def timer_toggle_def timer_reset_def Chronos_def)

lemma timer_run_abs: "abs_timer (fold timer_step ops t) = fold spec_step ops (abs_timer t)"
  by (induction ops arbitrary: t) (simp_all add: timer_step_abs)

lemma fold_ticks:
  "fold spec_step (map OpTick nows) (st, l, e) =
     (st, last (l # nows), if st = RUNNING then e + (last (l # nows) - l) else e)"
  by (induction nows arbitrary: l e) auto

lemma timer_step_options [simp]: "t_options (timer_step op t) = t_options t"
  by (cases op) (simp_all add: timer_start_def timer_pause_def timer_toggle_def timer_reset_def timer_tick_def Let_def)

subsection \<open>The displayed time\<close>

lemma js_rem_pos: "0 \<le> a \<Longrightarrow> 0 < b \<Longrightarrow> js_rem a b = a mod b"
  by (cases "a = 0") (simp_all add: js_rem_def)

lemma length_int_str_small:
  assumes "0 \<le> i" "i < 100"
  shows "length (int_str i) \<le> 2"
proof -
  have "length (nat_str n) \<le> 2" if "n < 100" for n
    using that by (cases "n < 10") (simp_all add: nat_str.simps [of n] nat_str.simps [of "n div 10"])
  then show ?thesis using assms by (simp add: int_str_def)
qed

lemma digits_val_zeros: "digits_val acc (replicate n CHR ''0'' @ s) = digits_val (acc * 10 ^ n) s"
  by (induction n arbitrary: acc) (simp_all add: digit_val_def algebra_simps)

lemma digits_val_padStart: "digits_val 0 (padStart s n CHR ''0'') = digits_val 0 s"
  using digits_val_zeros [of 0] by (simp add: padStart_def)

lemma digits_val_int_str: "0 \<le> i \<Longrightarrow> int (digits_val 0 (int_str i)) = i"
  by (simp add: int_str_def digits_val_nat_str)

lemma int_str_no_colon: "0 \<le> i \<Longrightarrow> CHR '':'' \<notin> set (int_str i)"
  using nat_str_digits [of "CHR '':''" "nat i"] by (auto simp: int_str_def is_digit_def in_range_def)

lemma padStart_no_colon: "0 \<le> i \<Longrightarrow> CHR '':'' \<notin> set (padStart (int_str i) n CHR ''0'')"
  using int_str_no_colon by (auto simp: padStart_def)

text \<open>Reading the display back: hours, minutes and seconds between colons.\<close>

definition read_display :: "string \<Rightarrow> int" where
  "read_display s =
     (case map (\<lambda>w. int (digits_val 0 w)) (split_char CHR '':'' s) of
        [h, m, sec] \<Rightarrow> 3600 * h + 60 * m + sec
      | _ \<Rightarrow> -1)"

lemma split_display:
  assumes "CHR '':'' \<notin> set a" "CHR '':'' \<notin> set b" "CHR '':'' \<notin> set c"
  shows "split_char CHR '':'' (a @ '':'' @ join '':'' [b, c]) = [a, b, c]"
proof -
  have "split_char CHR '':'' (join '':'' [a, b, c]) = [a, b, c]"
    by (rule split_char_join) (use assms in auto)
  then show ?thesis by simp
qed

subsection \<open>Properties\<close>

text \<open>
  C17. The timer refines the specification: after any sequence of starts, pauses, toggles,
  resets and ticks its elapsed time is the total of the tick intervals that ended while
  it was running since the last reset.
\<close>

theorem timer_refines_spec: "abs_timer (fold timer_step ops t) = fold spec_step ops (abs_timer t)"
  by (rule timer_run_abs)

text \<open>
  C18. The default format loses less than a second: for an elapsed time that is not negative
  it shows hours, and minutes and seconds below 60 with two digits each, and reading it
  back gives the whole seconds elapsed.
\<close>

theorem defaultFormatter_roundtrip:
  assumes "0 \<le> elapsed"
  shows "read_display (defaultFormatter elapsed) = elapsed div 1000 \<and>
    (\<exists>h m sec. defaultFormatter elapsed = h @ '':'' @ m @ '':'' @ sec \<and> length m = 2 \<and> length sec = 2)"
proof -
  define left where "left = elapsed div 1000"
  let ?s = "left mod 60" and ?m = "left div 60 mod 60" and ?h = "left div 60 div 60"
  have nonneg: "0 \<le> left" "0 \<le> ?s" "0 \<le> ?m" "0 \<le> ?h"
    using assms by (simp_all add: left_def pos_imp_zdiv_nonneg_iff)
  have fmt: "defaultFormatter elapsed = int_str ?h @ '':'' @
      join '':'' [padStart (int_str ?m) 2 CHR ''0'', padStart (int_str ?s) 2 CHR ''0'']"
    using nonneg by (simp add: defaultFormatter_def Let_def idiv_def js_rem_pos left_def [symmetric] pos_imp_zdiv_nonneg_iff)
  have "split_char CHR '':'' (defaultFormatter elapsed) =
      [int_str ?h, padStart (int_str ?m) 2 CHR ''0'', padStart (int_str ?s) 2 CHR ''0'']"
    unfolding fmt using nonneg by (intro split_display int_str_no_colon padStart_no_colon)
  then have "read_display (defaultFormatter elapsed) = 3600 * ?h + 60 * ?m + ?s"
    using nonneg by (simp add: read_display_def digits_val_padStart digits_val_int_str)
  also have "\<dots> = left" by presburger
  finally have "read_display (defaultFormatter elapsed) = elapsed div 1000"
    by (simp add: left_def)
  moreover have "length (padStart (int_str ?m) 2 CHR ''0'') = 2" "length (padStart (int_str ?s) 2 CHR ''0'') = 2"
    using length_int_str_small [of ?m] length_int_str_small [of ?s] nonneg by (simp_all add: padStart_def)
  moreover have "defaultFormatter elapsed = int_str ?h @ '':'' @ padStart (int_str ?m) 2 CHR ''0'' @ '':'' @
      padStart (int_str ?s) 2 CHR ''0''"
    by (simp add: fmt)
  ultimately show ?thesis by blast
qed

theorem defaultFormatter_roundtrip_witness: "read_display (defaultFormatter 3723004) = 3723004 div 1000"
  using defaultFormatter_roundtrip [of 3723004] by simp

end
