(* ===== verification/Event_Emitter.thy ===== *)
theory Event_Emitter
  imports Remark_Parser
begin

text \<open>
  The event emitter (\<^verbatim>\<open>remark.js\<close>, module 1). The table \<open>_events\<close> maps an event to a
  single function or to an array of functions; arrays are shared by reference (the loop of
  \<open>removeAllListeners\<close> keeps one while \<open>removeListener\<close> changes it), so they live in
  a store and the table holds their addresses. The wrapper that \<open>once\<close> creates is the
  value \<open>Once i t f\<close> with its own identity \<open>i\<close>; its variable \<open>fired\<close> is the
  membership of \<open>i\<close> in \<open>em_fired\<close>.

  Listeners are the program's own functions, a type parameter \<open>'f\<close>; what they do is the
  parameter \<open>call\<close>. The state is a record that extends the emitter, so a listener may
  use and change the emitter while an event is dispatched. An operation that emits an event
  of its own (\<open>newListener\<close>, \<open>removeListener\<close>) takes the \<open>emit\<close> to use as an
  argument, which closes the recursion. Event names that are members of
  \<open>Object.prototype\<close> are outside the model.
\<close>

subsection \<open>State\<close>

datatype 'f fn = Plain 'f | Once nat string 'f

datatype 'f hnd = HFn "'f fn" | HArr nat

record 'f emitter =
  em_events :: "(string \<times> 'f hnd) list"
  em_arrays :: "('f fn list \<times> bool) list"
  em_maxListeners :: "nat option"
  em_next :: nat
  em_fired :: "nat list"
  em_warnings :: "nat list"

text \<open>The result of code that may throw; \<open>Timeout\<close> is a computation cut off by fuel.\<close>

datatype 's outcome = Ret 's | Throw string 's | Timeout

fun obind :: "'s outcome \<Rightarrow> ('s \<Rightarrow> 's outcome) \<Rightarrow> 's outcome" where
  "obind (Ret s) k = k s"
| "obind (Throw e s) k = Throw e s"
| "obind Timeout k = Timeout"

definition new_emitter :: "'f emitter" where
  "new_emitter = \<lparr>em_events = [], em_arrays = [], em_maxListeners = None, em_next = 0, em_fired = [], em_warnings = []\<rparr>"

definition defaultMaxListeners :: nat where
  "defaultMaxListeners = 10"

definition setMaxListeners :: "int \<Rightarrow> ('f, 'z) emitter_scheme \<Rightarrow> ('f, 'z) emitter_scheme outcome" where
  "setMaxListeners n s =
     (if n < 0 then Throw ''n must be a positive number'' s else Ret (s\<lparr>em_maxListeners := Some (nat n)\<rparr>))"

abbreviation ev_get :: "('f, 'z) emitter_scheme \<Rightarrow> string \<Rightarrow> 'f hnd option" where
  "ev_get s t \<equiv> dict_get (em_events s) t"

definition arr :: "('f, 'z) emitter_scheme \<Rightarrow> nat \<Rightarrow> 'f fn list" where
  "arr s a = (if a < length (em_arrays s) then fst (em_arrays s ! a) else [])"

definition set_arr :: "nat \<Rightarrow> 'f fn list \<Rightarrow> ('f, 'z) emitter_scheme \<Rightarrow> ('f, 'z) emitter_scheme" where
  "set_arr a fs s = s\<lparr>em_arrays := (em_arrays s)[a := (fs, snd (em_arrays s ! a))]\<rparr>"

text \<open>\<open>listeners(type)\<close> and \<open>listenerCount(type)\<close>.\<close>

definition listeners :: "('f, 'z) emitter_scheme \<Rightarrow> string \<Rightarrow> 'f fn list" where
  "listeners s t = (case ev_get s t of None \<Rightarrow> [] | Some (HFn f) \<Rightarrow> [f] | Some (HArr a) \<Rightarrow> arr s a)"

definition listenerCount :: "('f, 'z) emitter_scheme \<Rightarrow> string \<Rightarrow> nat" where
  "listenerCount s t = (case ev_get s t of None \<Rightarrow> 0 | Some (HFn f) \<Rightarrow> 1 | Some (HArr a) \<Rightarrow> length (arr s a))"

subsection \<open>Removing a listener\<close>

fun inner :: "'f fn \<Rightarrow> 'f fn" where
  "inner (Once i t f) = Plain f"
| "inner (Plain f) = Plain f"

text \<open>\<open>f === listener || f.listener === listener\<close>.\<close>

definition matches_fn :: "'f fn \<Rightarrow> 'f fn \<Rightarrow> bool" where
  "matches_fn listener f \<longleftrightarrow> f = listener \<or> (case f of Once i t g \<Rightarrow> Plain g = listener | Plain g \<Rightarrow> False)"

fun last_pos :: "('a \<Rightarrow> bool) \<Rightarrow> 'a list \<Rightarrow> nat option" where
  "last_pos P [] = None"
| "last_pos P (x # xs) =
     (case last_pos P xs of Some i \<Rightarrow> Some (Suc i) | None \<Rightarrow> if P x then Some 0 else None)"

definition splice1 :: "nat \<Rightarrow> 'a list \<Rightarrow> 'a list" where
  "splice1 i xs = take i xs @ drop (Suc i) xs"

text \<open>The change \<open>removeListener\<close> makes to the table, \<open>None\<close> if the listener is not there.\<close>

definition detach :: "string \<Rightarrow> 'f fn \<Rightarrow> ('f, 'z) emitter_scheme \<Rightarrow> ('f, 'z) emitter_scheme option" where
  "detach t listener s =
     (case ev_get s t of
        None \<Rightarrow> None
      | Some (HFn f) \<Rightarrow>
          if matches_fn listener f then Some (s\<lparr>em_events := dict_delete t (em_events s)\<rparr>) else None
      | Some (HArr a) \<Rightarrow>
          (case last_pos (matches_fn listener) (arr s a) of
             None \<Rightarrow> None
           | Some i \<Rightarrow>
               Some (if length (arr s a) = 1
                     then (set_arr a [] s)\<lparr>em_events := dict_delete t (em_events s)\<rparr>
                     else set_arr a (splice1 i (arr s a)) s)))"

subsection \<open>Values passed to listeners\<close>

text \<open>The internal events carry an event name and a listener; all others carry values of
  the program.\<close>

datatype ('f, 'v) args = Args "'v list" | Internal string "'f fn"

type_synonym ('f, 'v, 's) emit_fn = "string \<Rightarrow> ('f, 'v) args \<Rightarrow> 's \<Rightarrow> 's outcome"

type_synonym ('f, 'v, 's) call_fn = "'f \<Rightarrow> ('f, 'v) args \<Rightarrow> 's \<Rightarrow> 's outcome"

definition removeListener ::
  "('f, 'v, ('f, 'z) emitter_scheme) emit_fn \<Rightarrow> string \<Rightarrow> 'f fn \<Rightarrow> ('f, 'z) emitter_scheme \<Rightarrow>
   ('f, 'z) emitter_scheme outcome" where
  "removeListener em t listener s =
     (case detach t listener s of
        None \<Rightarrow> Ret s
      | Some s' \<Rightarrow>
          if ev_get s' ''removeListener'' \<noteq> None then em ''removeListener'' (Internal t listener) s' else Ret s')"

subsection \<open>Emitting\<close>

text \<open>Calling a listener. The wrapper of \<open>once\<close> removes itself, then calls the original
  unless it has fired.\<close>

fun call_listener ::
  "('f, 'v, ('f, 'z) emitter_scheme) emit_fn \<Rightarrow> ('f, 'v, ('f, 'z) emitter_scheme) call_fn \<Rightarrow>
   ('f, 'v) args \<Rightarrow> 'f fn \<Rightarrow> ('f, 'z) emitter_scheme \<Rightarrow> ('f, 'z) emitter_scheme outcome" where
  "call_listener em call as (Plain f) s = call f as s"
| "call_listener em call as (Once i t f) s =
     obind (removeListener em t (Once i t f) s)
       (\<lambda>s'. if i \<in> set (em_fired s') then Ret s' else call f as (s'\<lparr>em_fired := i # em_fired s'\<rparr>))"

fun run_listeners ::
  "('f, 'v, ('f, 'z) emitter_scheme) emit_fn \<Rightarrow> ('f, 'v, ('f, 'z) emitter_scheme) call_fn \<Rightarrow>
   ('f, 'v) args \<Rightarrow> 'f fn list \<Rightarrow> ('f, 'z) emitter_scheme \<Rightarrow> ('f, 'z) emitter_scheme outcome" where
  "run_listeners em call as [] s = Ret s"
| "run_listeners em call as (f # fs) s = obind (call_listener em call as f s) (run_listeners em call as fs)"

text \<open>\<open>emit\<close> runs a copy of the listeners made before the first call. An \<open>error\<close> event
  without listeners throws.\<close>

definition emit ::
  "('f, 'v, ('f, 'z) emitter_scheme) emit_fn \<Rightarrow> ('f, 'v, ('f, 'z) emitter_scheme) call_fn \<Rightarrow>
   ('f, 'v, ('f, 'z) emitter_scheme) emit_fn" where
  "emit em call t as s =
     (if t = ''error'' \<and> listeners s t = [] then Throw ''Uncaught, unspecified error event'' s
      else run_listeners em call as (listeners s t) s)"

text \<open>The value \<open>emit\<close> returns: whether the event has a handler.\<close>

definition emit_result :: "('f, 'z) emitter_scheme \<Rightarrow> string \<Rightarrow> bool" where
  "emit_result s t \<longleftrightarrow> ev_get s t \<noteq> None"

subsection \<open>Adding a listener\<close>

definition attach :: "string \<Rightarrow> 'f fn \<Rightarrow> ('f, 'z) emitter_scheme \<Rightarrow> ('f, 'z) emitter_scheme" where
  "attach t listener s =
     (case ev_get s t of
        None \<Rightarrow> s\<lparr>em_events := dict_set t (HFn listener) (em_events s)\<rparr>
      | Some (HArr a) \<Rightarrow> set_arr a (arr s a @ [listener]) s
      | Some (HFn f) \<Rightarrow>
          s\<lparr>em_arrays := em_arrays s @ [([f, listener], False)],
            em_events := dict_set t (HArr (length (em_arrays s))) (em_events s)\<rparr>)"

text \<open>The leak warning, printed once per array; a limit of 0 disables it.\<close>

definition check_leak :: "string \<Rightarrow> ('f, 'z) emitter_scheme \<Rightarrow> ('f, 'z) emitter_scheme" where
  "check_leak t s =
     (case ev_get s t of
        Some (HArr a) \<Rightarrow>
          if a < length (em_arrays s) \<and> \<not> snd (em_arrays s ! a) \<and>
             0 < (case em_maxListeners s of Some m \<Rightarrow> m | None \<Rightarrow> defaultMaxListeners) \<and>
             (case em_maxListeners s of Some m \<Rightarrow> m | None \<Rightarrow> defaultMaxListeners) < length (arr s a)
          then s\<lparr>em_arrays := (em_arrays s)[a := (arr s a, True)],
                 em_warnings := em_warnings s @ [length (arr s a)]\<rparr>
          else s
      | _ \<Rightarrow> s)"

definition addListener ::
  "('f, 'v, ('f, 'z) emitter_scheme) emit_fn \<Rightarrow> string \<Rightarrow> 'f fn \<Rightarrow> ('f, 'z) emitter_scheme \<Rightarrow>
   ('f, 'z) emitter_scheme outcome" where
  "addListener em t listener s =
     obind (if ev_get s ''newListener'' \<noteq> None then em ''newListener'' (Internal t (inner listener)) s else Ret s)
       (\<lambda>s'. Ret (check_leak t (attach t listener s')))"

definition once ::
  "('f, 'v, ('f, 'z) emitter_scheme) emit_fn \<Rightarrow> string \<Rightarrow> 'f \<Rightarrow> ('f, 'z) emitter_scheme \<Rightarrow>
   ('f, 'z) emitter_scheme outcome" where
  "once em t f s = addListener em t (Once (em_next s) t f) (s\<lparr>em_next := Suc (em_next s)\<rparr>)"

subsection \<open>Removing all listeners\<close>

text \<open>The loop over a shared array ends when the array is empty; the fuel bounds it, for
  a listener of \<open>removeListener\<close> may keep refilling it.\<close>

fun remove_array_loop ::
  "nat \<Rightarrow> ('f, 'v, ('f, 'z) emitter_scheme) emit_fn \<Rightarrow> string \<Rightarrow> nat \<Rightarrow> ('f, 'z) emitter_scheme \<Rightarrow>
   ('f, 'z) emitter_scheme outcome" where
  "remove_array_loop 0 em t a s = (if arr s a = [] then Ret s else Timeout)"
| "remove_array_loop (Suc n) em t a s =
     (if arr s a = [] then Ret s
      else obind (removeListener em t (last (arr s a)) s) (remove_array_loop n em t a))"

definition removeAllListeners ::
  "nat \<Rightarrow> ('f, 'v, ('f, 'z) emitter_scheme) emit_fn \<Rightarrow> string \<Rightarrow> ('f, 'z) emitter_scheme \<Rightarrow>
   ('f, 'z) emitter_scheme outcome" where
  "removeAllListeners n em t s =
     (if ev_get s ''removeListener'' = None then Ret (s\<lparr>em_events := dict_delete t (em_events s)\<rparr>)
      else
        obind (case ev_get s t of
                 Some (HFn f) \<Rightarrow> removeListener em t f s
               | Some (HArr a) \<Rightarrow> remove_array_loop n em t a s
               | None \<Rightarrow> Ret s)
          (\<lambda>s'. Ret (s'\<lparr>em_events := dict_delete t (em_events s')\<rparr>)))"

text \<open>Without an argument: every event in turn, \<open>removeListener\<close> last. A \<open>for in\<close>
  loop visits the keys present at its start that are still there when their turn comes.\<close>

fun remove_keys ::
  "nat \<Rightarrow> ('f, 'v, ('f, 'z) emitter_scheme) emit_fn \<Rightarrow> string list \<Rightarrow> ('f, 'z) emitter_scheme \<Rightarrow>
   ('f, 'z) emitter_scheme outcome" where
  "remove_keys n em [] s = Ret s"
| "remove_keys n em (k # ks) s =
     (if k = ''removeListener'' \<or> ev_get s k = None then remove_keys n em ks s
      else obind (removeAllListeners n em k s) (remove_keys n em ks))"

definition removeAllListeners_all ::
  "nat \<Rightarrow> ('f, 'v, ('f, 'z) emitter_scheme) emit_fn \<Rightarrow> ('f, 'z) emitter_scheme \<Rightarrow>
   ('f, 'z) emitter_scheme outcome" where
  "removeAllListeners_all n em s =
     (if ev_get s ''removeListener'' = None then Ret (s\<lparr>em_events := []\<rparr>)
      else obind (obind (remove_keys n em (map fst (em_events s)) s) (removeAllListeners n em ''removeListener''))
             (\<lambda>s'. Ret (s'\<lparr>em_events := []\<rparr>)))"


subsection \<open>Registries of listeners as an interface\<close>

text \<open>What the components of the slideshow rely on when they register their handlers: a
  handler is appended to its event, and other events are unaffected.\<close>

locale listener_registry =
  fixes ok :: "'s \<Rightarrow> bool"
    and lst :: "'s \<Rightarrow> string \<Rightarrow> 'l list"
    and add :: "string \<Rightarrow> 'l \<Rightarrow> 's \<Rightarrow> 's"
    and clear :: "string \<Rightarrow> 's \<Rightarrow> 's"
  assumes ok_add: "ok s \<Longrightarrow> ok (add t f s)"
    and ok_clear: "ok s \<Longrightarrow> ok (clear t s)"
    and lst_add: "ok s \<Longrightarrow> lst (add t f s) u = (if u = t then lst s t @ [f] else lst s u)"
    and lst_clear: "ok s \<Longrightarrow> lst (clear t s) u = (if u = t then [] else lst s u)"
begin

definition add_all :: "(string \<times> 'l) list \<Rightarrow> 's \<Rightarrow> 's" where
  "add_all ps s = fold (\<lambda>(t, f) s. add t f s) ps s"

definition clear_all :: "string list \<Rightarrow> 's \<Rightarrow> 's" where
  "clear_all ts s = fold clear ts s"

lemma add_all_simps [simp]:
  "add_all [] s = s" "add_all ((t, f) # ps) s = add_all ps (add t f s)"
  by (simp_all add: add_all_def)

lemma ok_add_all: "ok s \<Longrightarrow> ok (add_all ps s)"
  by (induction ps arbitrary: s) (auto simp: add_all_def ok_add)

lemma lst_add_all: "ok s \<Longrightarrow> lst (add_all ps s) u = lst s u @ map snd (filter (\<lambda>p. fst p = u) ps)"
proof (induction ps arbitrary: s)
  case (Cons p ps)
  obtain t f where p: "p = (t, f)" by (cases p)
  have "lst (add_all ps (add t f s)) u = lst (add t f s) u @ map snd (filter (\<lambda>p. fst p = u) ps)"
    using Cons by (simp add: ok_add)
  then show ?case using Cons.prems p by (simp add: lst_add)
qed simp

lemma ok_clear_all: "ok s \<Longrightarrow> ok (clear_all ts s)"
  by (induction ts arbitrary: s) (auto simp: clear_all_def ok_clear)

lemma lst_clear_all: "ok s \<Longrightarrow> lst (clear_all ts s) u = (if u \<in> set ts then [] else lst s u)"
proof (induction ts arbitrary: s)
  case (Cons t ts)
  have "lst (clear_all ts (clear t s)) u = (if u \<in> set ts then [] else lst (clear t s) u)"
    using Cons by (simp add: ok_clear)
  then show ?case using Cons.prems by (auto simp: clear_all_def lst_clear)
qed (simp add: clear_all_def)

text \<open>Clearing exactly the events of a registration and registering again gives every
  event of it the listeners it had after the first registration.\<close>

lemma re_register:
  assumes "ok s" "fst ` set ps \<subseteq> set ts" "u \<in> set ts"
  shows "lst (add_all ps (clear_all ts (add_all ps s))) u = map snd (filter (\<lambda>p. fst p = u) ps)"
  using assms by (simp add: lst_add_all lst_clear_all ok_add_all ok_clear_all)

end

subsection \<open>The invariant of the table\<close>

definition em_ok :: "('f, 'z) emitter_scheme \<Rightarrow> bool" where
  "em_ok s \<longleftrightarrow>
     (\<forall>t a. ev_get s t = Some (HArr a) \<longrightarrow> a < length (em_arrays s) \<and> arr s a \<noteq> []) \<and>
     (\<forall>t u a. ev_get s t = Some (HArr a) \<longrightarrow> ev_get s u = Some (HArr a) \<longrightarrow> t = u)"

lemma em_ok_arr: "em_ok s \<Longrightarrow> ev_get s t = Some (HArr a) \<Longrightarrow> a < length (em_arrays s) \<and> arr s a \<noteq> []"
  by (simp add: em_ok_def)

lemma em_ok_inj: "em_ok s \<Longrightarrow> ev_get s t = Some (HArr a) \<Longrightarrow> ev_get s u = Some (HArr a) \<Longrightarrow> t = u"
  unfolding em_ok_def by blast

lemma arr_set_arr:
  "arr (set_arr a fs s) b = (if a = b \<and> a < length (em_arrays s) then fs else arr s b)"
  by (auto simp: arr_def set_arr_def nth_list_update)

lemma set_arr_frame [simp]:
  "em_events (set_arr a fs s) = em_events s" "length (em_arrays (set_arr a fs s)) = length (em_arrays s)"
  by (simp_all add: set_arr_def)

lemma listeners_set_arr:
  assumes "em_ok s" "ev_get s t = Some (HArr a)"
  shows "listeners (set_arr a fs s) u = (if u = t then fs else listeners s u)"
proof (cases "ev_get s u")
  case (Some h)
  show ?thesis
  proof (cases h)
    case (HArr b)
    then show ?thesis
      using assms Some em_ok_inj [OF assms, of u] em_ok_arr [OF assms]
      by (auto simp: listeners_def arr_set_arr)
  qed (use assms Some in \<open>auto simp: listeners_def\<close>)
qed (use assms in \<open>auto simp: listeners_def\<close>)

lemma em_ok_set_arr:
  assumes "em_ok s" "ev_get s t = Some (HArr a)" "fs \<noteq> []"
  shows "em_ok (set_arr a fs s)"
  using assms(1,3) unfolding em_ok_def by (auto simp: arr_set_arr)

lemma em_ok_delete: "em_ok s \<Longrightarrow> em_ok (s\<lparr>em_events := dict_delete t (em_events s)\<rparr>)"
  unfolding em_ok_def by (auto simp: arr_def split: if_splits)

lemma listeners_delete:
  "listeners (s\<lparr>em_events := dict_delete t (em_events s)\<rparr>) u = (if u = t then [] else listeners s u)"
  by (auto simp: listeners_def arr_def split: option.split hnd.split)

lemma attach_new_array:
  assumes "em_ok s" "ev_get s t = Some (HFn f)"
  shows "em_ok (attach t g s)" "listeners (attach t g s) u = (if u = t then [f, g] else listeners s u)"
proof -
  have arr: "arr (attach t g s) b = (if b = length (em_arrays s) then [f, g] else arr s b)" for b
    using assms(2) by (auto simp: attach_def arr_def nth_append)
  have ev: "ev_get (attach t g s) u = (if u = t then Some (HArr (length (em_arrays s))) else ev_get s u)" for u
    using assms(2) by (simp add: attach_def)
  have len: "length (em_arrays (attach t g s)) = Suc (length (em_arrays s))"
    using assms(2) by (simp add: attach_def)
  show "em_ok (attach t g s)"
    using assms(1) unfolding em_ok_def arr ev len by (force split: if_splits)
  show "listeners (attach t g s) u = (if u = t then [f, g] else listeners s u)"
    using em_ok_arr [OF assms(1)] unfolding listeners_def arr ev
    by (auto split: option.splits hnd.splits)
qed

lemma em_ok_attach: "em_ok s \<Longrightarrow> em_ok (attach t g s)"
proof (cases "ev_get s t")
  case None
  assume "em_ok s"
  then show ?thesis
    using None unfolding em_ok_def attach_def by (auto simp: arr_def split: if_splits)
next
  case (Some h)
  assume ok: "em_ok s"
  show ?thesis
  proof (cases h)
    case (HFn f)
    then show ?thesis using attach_new_array(1) [OF ok] Some by simp
  next
    case (HArr a)
    then show ?thesis using Some em_ok_set_arr [OF ok, of t a] by (simp add: attach_def)
  qed
qed

lemma listeners_attach:
  assumes "em_ok s"
  shows "listeners (attach t g s) u = (if u = t then listeners s t @ [g] else listeners s u)"
proof (cases "ev_get s t")
  case None
  then show ?thesis by (auto simp: attach_def listeners_def arr_def split: option.split hnd.split)
next
  case (Some h)
  show ?thesis
  proof (cases h)
    case (HFn f)
    then show ?thesis using Some attach_new_array(2) [OF assms] by (simp add: listeners_def)
  next
    case (HArr a)
    then have "listeners s t = arr s a" using Some by (simp add: listeners_def)
    then show ?thesis
      using Some HArr listeners_set_arr [OF assms, of t a] by (simp add: attach_def)
  qed
qed

lemma check_leak_arr [simp]: "arr (check_leak t s) a = arr s a"
  by (auto simp: check_leak_def arr_def nth_list_update split: option.splits hnd.splits)

lemma check_leak_frame [simp]:
  "em_events (check_leak t s) = em_events s" "length (em_arrays (check_leak t s)) = length (em_arrays s)"
  by (auto simp: check_leak_def split: option.splits hnd.splits)

lemma listeners_check_leak [simp]: "listeners (check_leak t s) u = listeners s u"
  by (simp add: listeners_def split: option.split hnd.split)

lemma em_ok_check_leak [simp]: "em_ok (check_leak t s) = em_ok s"
  by (simp add: em_ok_def)

definition register :: "string \<Rightarrow> 'f fn \<Rightarrow> ('f, 'z) emitter_scheme \<Rightarrow> ('f, 'z) emitter_scheme" where
  "register t f s = check_leak t (attach t f s)"

definition unregister :: "string \<Rightarrow> ('f, 'z) emitter_scheme \<Rightarrow> ('f, 'z) emitter_scheme" where
  "unregister t s = s\<lparr>em_events := dict_delete t (em_events s)\<rparr>"

interpretation registry: listener_registry em_ok listeners register unregister
  by unfold_locales
    (simp_all add: register_def unregister_def em_ok_attach em_ok_delete listeners_attach listeners_delete)

lemma em_ok_new: "em_ok new_emitter"
  by (simp add: em_ok_def new_emitter_def)

lemma listenerCount_listeners: "listenerCount s t = length (listeners s t)"
  by (simp add: listenerCount_def listeners_def split: option.splits hnd.splits)

text \<open>The operations coincide with \<open>register\<close> and \<open>unregister\<close> as long as nobody
  listens to the internal events.\<close>

definition quiet :: "('f, 'z) emitter_scheme \<Rightarrow> bool" where
  "quiet s \<longleftrightarrow> ev_get s ''newListener'' = None \<and> ev_get s ''removeListener'' = None"

lemma addListener_quiet: "quiet s \<Longrightarrow> addListener em t f s = Ret (register t f s)"
  by (simp add: addListener_def quiet_def register_def)

lemma removeAllListeners_quiet: "quiet s \<Longrightarrow> removeAllListeners n em t s = Ret (unregister t s)"
  by (simp add: removeAllListeners_def quiet_def unregister_def)

lemma ev_get_None_iff: "em_ok s \<Longrightarrow> ev_get s t = None \<longleftrightarrow> listeners s t = []"
  using em_ok_arr by (fastforce simp: listeners_def split: option.splits hnd.splits)

lemma quiet_register:
  "em_ok s \<Longrightarrow> quiet s \<Longrightarrow> t \<noteq> ''newListener'' \<Longrightarrow> t \<noteq> ''removeListener'' \<Longrightarrow> quiet (register t f s)"
  by (simp add: quiet_def ev_get_None_iff registry.ok_add registry.lst_add)

lemma quiet_unregister: "quiet s \<Longrightarrow> quiet (unregister t s)"
  by (simp add: quiet_def unregister_def)


subsection \<open>Removal\<close>

lemma last_pos_Some:
  "last_pos P xs = Some i \<Longrightarrow> i < length xs \<and> P (xs ! i) \<and> (\<forall>j. i < j \<longrightarrow> j < length xs \<longrightarrow> \<not> P (xs ! j))"
proof (induction xs arbitrary: i)
  case (Cons x xs)
  show ?case
  proof (cases "last_pos P xs")
    case None
    then have "\<not> P y" if "y \<in> set xs" for y
      using that by (induction xs) (auto split: option.splits if_splits)
    with Cons.prems None show ?thesis by (auto simp: nth_Cons' split: if_splits)
  next
    case (Some j)
    with Cons.IH [OF Some] Cons.prems show ?thesis by (auto simp: nth_Cons')
  qed
qed simp

lemma last_pos_None: "last_pos P xs = None \<longleftrightarrow> (\<forall>x \<in> set xs. \<not> P x)"
  by (induction xs) (auto split: option.splits)

text \<open>Removing the last match from a list.\<close>

definition remove_last :: "('a \<Rightarrow> bool) \<Rightarrow> 'a list \<Rightarrow> 'a list" where
  "remove_last P xs = (case last_pos P xs of None \<Rightarrow> xs | Some i \<Rightarrow> splice1 i xs)"

lemma length_splice1: "i < length xs \<Longrightarrow> length (splice1 i xs) = length xs - 1"
  by (simp add: splice1_def)

lemma remove_last_last: "xs \<noteq> [] \<Longrightarrow> P (last xs) \<Longrightarrow> remove_last P xs = butlast xs"
proof -
  assume a: "xs \<noteq> []" "P (last xs)"
  then obtain i where i: "last_pos P xs = Some i"
    using last_pos_None [of P xs] by (cases "last_pos P xs") auto
  have "i = length xs - 1"
  proof (rule ccontr)
    assume "i \<noteq> length xs - 1"
    with last_pos_Some [OF i] have "\<not> P (xs ! (length xs - 1))" by auto
    with a show False by (simp add: last_conv_nth)
  qed
  with i a show ?thesis by (simp add: remove_last_def splice1_def butlast_conv_take)
qed

lemma em_ok_drop:
  assumes "em_ok s" "ev_get s t = Some (HArr a)"
  shows "em_ok ((set_arr a fs s)\<lparr>em_events := dict_delete t (em_events s)\<rparr>)"
proof -
  have "b \<noteq> a" if "ev_get s u = Some (HArr b)" "u \<noteq> t" for u b
    using that em_ok_inj [OF assms, of u] by auto
  moreover have "arr ((set_arr a fs s)\<lparr>em_events := dict_delete t (em_events s)\<rparr>) b = arr (set_arr a fs s) b" for b
    by (simp add: arr_def)
  ultimately show ?thesis
    using assms(1) unfolding em_ok_def by (simp add: arr_set_arr) blast
qed

lemma detach_listeners:
  assumes ok: "em_ok s" and "detach t f s = Some s'"
  shows "em_ok s'" "listeners s' u = (if u = t then remove_last (matches_fn f) (listeners s t) else listeners s u)"
proof -
  from assms(2) obtain h where h: "ev_get s t = Some h" by (auto simp: detach_def split: option.splits)
  have "em_ok s' \<and> listeners s' u = (if u = t then remove_last (matches_fn f) (listeners s t) else listeners s u)"
  proof (cases h)
    case (HFn g)
    then have "matches_fn f g" "s' = s\<lparr>em_events := dict_delete t (em_events s)\<rparr>"
      using assms(2) h by (auto simp: detach_def split: if_splits)
    moreover from this have "remove_last (matches_fn f) (listeners s t) = []"
      using h HFn by (simp add: listeners_def remove_last_def splice1_def)
    ultimately show ?thesis
      using em_ok_delete [OF ok] by (simp add: listeners_delete)
  next
    case (HArr a)
    then obtain i where i: "last_pos (matches_fn f) (arr s a) = Some i"
      and s': "s' = (if length (arr s a) = 1 then (set_arr a [] s)\<lparr>em_events := dict_delete t (em_events s)\<rparr>
                     else set_arr a (splice1 i (arr s a)) s)"
      using assms(2) h by (auto simp: detach_def split: option.splits)
    have rl: "remove_last (matches_fn f) (listeners s t) = splice1 i (arr s a)"
      using h HArr i by (simp add: listeners_def remove_last_def)
    show ?thesis
    proof (cases "length (arr s a) = 1")
      case True
      then have "splice1 i (arr s a) = []"
        using length_splice1 [of i "arr s a"] last_pos_Some [OF i] True by simp
      moreover have "em_ok s'"
        using s' True h HArr em_ok_drop [OF ok] by simp
      moreover have "listeners s' u = (if u = t then [] else listeners (set_arr a [] s) u)"
        using s' True listeners_delete [of t "set_arr a [] s" u] by simp
      ultimately show ?thesis
        using rl listeners_set_arr [OF ok, of t a "[]"] h HArr by simp
    next
      case False
      then have "splice1 i (arr s a) \<noteq> []"
        using length_splice1 [of i "arr s a"] last_pos_Some [OF i] by auto
      then show ?thesis
        using s' False rl em_ok_set_arr [OF ok, of t a] listeners_set_arr [OF ok, of t a] h HArr by simp
    qed
  qed
  then show "em_ok s'" "listeners s' u = (if u = t then remove_last (matches_fn f) (listeners s t) else listeners s u)"
    by simp_all
qed

lemma detach_None: "detach t f s = None \<longleftrightarrow> (\<forall>g \<in> set (listeners s t). \<not> matches_fn f g)"
  by (auto simp: detach_def listeners_def last_pos_None split: option.splits hnd.splits if_splits)
    (metis last_pos_Some nth_mem)

lemma removeListener_listeners:
  assumes "em_ok s" "quiet s"
  shows "\<exists>s'. removeListener em t f s = Ret s' \<and> em_ok s' \<and> quiet s' \<and>
    (\<forall>u. listeners s' u = (if u = t then remove_last (matches_fn f) (listeners s t) else listeners s u))"
proof (cases "detach t f s")
  case None
  then have "remove_last (matches_fn f) (listeners s t) = listeners s t"
    using last_pos_None [of "matches_fn f" "listeners s t"] by (auto simp: detach_None remove_last_def)
  then show ?thesis using None assms by (simp add: removeListener_def)
next
  case (Some s')
  have "listeners s' u = []" if "listeners s u = []" for u
    using that detach_listeners(2) [OF assms(1) Some, of u] by (auto simp: remove_last_def)
  then have "quiet s'"
    using assms ev_get_None_iff detach_listeners(1) [OF assms(1) Some] by (auto simp: quiet_def)
  then show ?thesis
    using Some detach_listeners [OF assms(1) Some] by (auto simp: removeListener_def quiet_def)
qed

subsection \<open>The loop of \<open>removeAllListeners\<close>\<close>

text \<open>A listener of \<open>removeListener\<close> that leaves the emitter alone.\<close>

definition harmless :: "('f, 'v, ('f, 'z) emitter_scheme) emit_fn \<Rightarrow> bool" where
  "harmless em \<longleftrightarrow> (\<forall>t f s. em ''removeListener'' (Internal t f) s = Ret s)"

lemma removeListener_harmless:
  "harmless em \<Longrightarrow> removeListener em t f s = Ret (case detach t f s of None \<Rightarrow> s | Some s' \<Rightarrow> s')"
  by (auto simp: removeListener_def harmless_def split: option.splits)

lemma matches_self [simp]: "matches_fn f f"
  by (simp add: matches_fn_def)

lemma detach_last:
  assumes "em_ok s" "ev_get s t = Some (HArr a)"
  shows "\<exists>s'. detach t (last (arr s a)) s = Some s' \<and> em_ok s' \<and> arr s' a = butlast (arr s a) \<and>
           (butlast (arr s a) \<noteq> [] \<longrightarrow> ev_get s' t = Some (HArr a)) \<and>
           (\<forall>u. u \<noteq> t \<longrightarrow> listeners s' u = listeners s u)"
proof -
  let ?fs = "arr s a"
  have ne: "?fs \<noteq> []" "a < length (em_arrays s)" using em_ok_arr [OF assms] by simp_all
  have lst: "listeners s t = ?fs" using assms(2) by (simp add: listeners_def)
  have "detach t (last ?fs) s \<noteq> None" "last_pos (matches_fn (last ?fs)) ?fs \<noteq> None"
    unfolding detach_None lst last_pos_None using last_in_set [OF ne(1)] matches_self by blast+
  then obtain s' i where s': "detach t (last ?fs) s = Some s'"
    and i: "last_pos (matches_fn (last ?fs)) ?fs = Some i"
    by blast
  have bl: "splice1 i ?fs = butlast ?fs"
    using remove_last_last [of ?fs "matches_fn (last ?fs)"] ne i by (simp add: remove_last_def)
  have "arr s' a = butlast ?fs \<and> (butlast ?fs \<noteq> [] \<longrightarrow> ev_get s' t = Some (HArr a))"
  proof (cases "length ?fs = 1")
    case True
    then have "butlast ?fs = []" by (simp add: butlast_conv_take)
    then show ?thesis
      using s' True assms(2) i ne by (auto simp: detach_def arr_def set_arr_def)
  next
    case False
    then show ?thesis
      using s' assms(2) i ne bl by (auto simp: detach_def arr_set_arr)
  qed
  then show ?thesis
    using s' detach_listeners [OF assms(1) s'] by auto
qed

lemma remove_array_loop_returns:
  assumes "harmless em"
  shows "em_ok s \<Longrightarrow> ev_get s t = Some (HArr a) \<Longrightarrow> length (arr s a) \<le> n \<Longrightarrow>
    \<exists>s'. remove_array_loop n em t a s = Ret s' \<and> em_ok s' \<and> (\<forall>u. u \<noteq> t \<longrightarrow> listeners s' u = listeners s u)"
proof (induction n arbitrary: s)
  case 0
  then show ?case using em_ok_arr [of s t a] by simp
next
  case (Suc n)
  from detach_last [OF Suc.prems(1,2)] obtain s' where s':
    "detach t (last (arr s a)) s = Some s'" "em_ok s'" "arr s' a = butlast (arr s a)"
    "butlast (arr s a) \<noteq> [] \<longrightarrow> ev_get s' t = Some (HArr a)" "\<forall>u. u \<noteq> t \<longrightarrow> listeners s' u = listeners s u"
    by blast
  have step: "remove_array_loop (Suc n) em t a s = remove_array_loop n em t a s'"
    using em_ok_arr [OF Suc.prems(1,2)] s'(1) by (simp add: removeListener_harmless [OF assms])
  show ?case
  proof (cases "butlast (arr s a) = []")
    case True
    then have "remove_array_loop n em t a s' = Ret s'" using s'(3) by (cases n) simp_all
    then show ?thesis using step s' by simp
  next
    case False
    then have "\<exists>s''. remove_array_loop n em t a s' = Ret s'' \<and> em_ok s'' \<and>
        (\<forall>u. u \<noteq> t \<longrightarrow> listeners s'' u = listeners s' u)"
      using s' Suc.prems(3) by (intro Suc.IH) auto
    then show ?thesis using step s'(5) by auto
  qed
qed


subsection \<open>Dispatch\<close>

lemma em_fired_attach [simp]: "em_fired (attach t f s) = em_fired s"
  by (simp add: attach_def set_arr_def split: option.split hnd.split)

lemma em_fired_check_leak [simp]: "em_fired (check_leak t s) = em_fired s"
  by (simp add: check_leak_def split: option.split hnd.split)

lemma em_fired_register [simp]: "em_fired (register t f s) = em_fired s"
  by (simp add: register_def)

lemma em_fired_detach: "detach t f s = Some s' \<Longrightarrow> em_fired s' = em_fired s"
  by (auto simp: detach_def set_arr_def split: option.splits hnd.splits if_splits)

lemma run_listeners_append:
  "run_listeners em call as (fs @ gs) s = obind (run_listeners em call as fs s) (run_listeners em call as gs)"
proof (induction fs arbitrary: s)
  case (Cons f fs)
  then show ?case by (cases "call_listener em call as f s") simp_all
qed simp

lemma foldl_obind_Throw: "foldl (\<lambda>r f. obind r (k f)) (Throw e s) fs = Throw e s"
  by (induction fs) simp_all

lemma foldl_obind_Timeout: "foldl (\<lambda>r f. obind r (k f)) Timeout fs = Timeout"
  by (induction fs) simp_all

lemma run_listeners_Plain:
  "run_listeners em call as (map Plain fs) s = foldl (\<lambda>r f. obind r (call f as)) (Ret s) fs"
proof (induction fs arbitrary: s)
  case (Cons f fs)
  then show ?case by (cases "call f as s") (simp_all add: foldl_obind_Throw foldl_obind_Timeout)
qed simp

lemma emit_Plain:
  "listeners s t = map Plain fs \<Longrightarrow> t \<noteq> ''error'' \<Longrightarrow>
   emit em call t as s = foldl (\<lambda>r f. obind r (call f as)) (Ret s) fs"
  by (simp add: emit_def run_listeners_Plain)

subsection \<open>Properties\<close>

text \<open>
  C9. The table of listeners behaves as a map from events to lists: \<open>addListener\<close>
  appends, \<open>removeListener\<close> removes the last occurrence, \<open>removeAllListeners\<close>
  empties one event, all of them return, and no other event is affected, as long as
  nobody listens to the internal events.
\<close>

theorem listener_table:
  assumes "em_ok s" "quiet s"
  shows "(\<exists>s'. addListener em t f s = Ret s' \<and> em_ok s' \<and>
            (\<forall>u. listeners s' u = (if u = t then listeners s t @ [f] else listeners s u))) \<and>
     (\<exists>s'. removeListener em t f s = Ret s' \<and> em_ok s' \<and>
            (\<forall>u. listeners s' u = (if u = t then remove_last (matches_fn f) (listeners s t) else listeners s u))) \<and>
     (\<exists>s'. removeAllListeners n em t s = Ret s' \<and> em_ok s' \<and>
            (\<forall>u. listeners s' u = (if u = t then [] else listeners s u)))"
  using assms removeListener_listeners [OF assms, of em t f]
  by (auto simp: addListener_quiet removeAllListeners_quiet registry.ok_add registry.lst_add
      registry.ok_clear registry.lst_clear)

theorem listener_table_witness:
  "\<exists>s'. addListener (\<lambda>t as s. Ret s) ''e'' (Plain (0 :: nat)) new_emitter = Ret s' \<and> em_ok s' \<and>
     (\<forall>u. listeners s' u = (if u = ''e'' then listeners new_emitter ''e'' @ [Plain 0] else listeners new_emitter u))"
proof -
  have "quiet new_emitter" by (simp add: quiet_def new_emitter_def)
  from listener_table [OF em_ok_new this] show ?thesis by blast
qed







end
