(* ===== verification/Remark_World.thy ===== *)
theory Remark_World
  imports Event_Emitter Remark_Utils Remark_Timer Remark_Slideshow
begin

text \<open>
  The running slideshow (\<^verbatim>\<open>remark.js\<close>, modules 6 to 12, 19 to 21, 26, 28, printing):
  one record holds the state of the navigation, the slideshow view, the notes view, the
  timer, the inputs and the parts of the browser they use, and extends the event emitter
  through which they talk. Every function registered with \<open>events.on\<close> is a constructor of
  \<open>handler\<close>; \<open>handle\<close> gives its body, with the \<open>emit\<close> it calls as an argument, and
  \<open>emitW\<close> ties the knot with fuel.

  Not part of the state are styles and sizes (\<open>scaleElements\<close>, \<open>updateDimensions\<close> and
  \<open>scaleBackgroundImage\<close> write only those) and the HTML made from a slide. Functions that
  users attach with \<open>slideshow.on\<close> are represented by the log of external events.
  Strings holding a number are below \<open>2 ^ 53\<close>; key codes are those of Latin-1.
\<close>

subsection \<open>Handlers and the values events carry\<close>

datatype handler =
    HForward string
  | HGotoSlide | HGotoSlideNumber | HGotoPreviousSlide | HGotoNextSlide | HGotoFirstSlide | HGotoLastSlide
  | HNavSlidesChanged | HNavCreateClone | HNavResetTimer
  | HPropagateBlackout
  | HRatioChanged
  | HTap | HNotesShowSlide | HResize
  | HTimerStartOnChange | HTimerStart | HTimerPause | HTimerToggle | HTimerReset
  | HViewSlidesChanged | HViewHideSlide | HViewShowSlide
  | HForcePresenterMode | HTogglePresenterMode | HToggleHelp | HToggleBlackout | HToggleMirrored
  | HHideOverlay | HViewPause | HViewResume | HToggleFullscreen
  | HKeydown | HKeypress | HMessage | HNavigateByHash | HUpdateHash
  | HClick | HContextmenu | HScroll
  | HTouchstart nat | HTouchend nat | HTouchmove
  | HControllerPause | HControllerResume

record key_event =
  k_meta :: bool
  k_ctrl :: bool
  k_alt :: bool
  k_shift :: bool
  k_code :: int
  k_which :: nat

datatype val =
    VNum int | VNaN | VStr string | VBool bool | VPropagate bool | VChanges "string list"
  | VKey key_event
  | VMouse string int
  | VWheel "int option" "int option"
  | VTouch string "int list"
  | VMessage string
  | VEvent

subsection \<open>State\<close>

record view =
  v_id :: nat
  v_slide :: slide
  v_class :: string

datatype clone = NoClone | CloneWin bool

record nav_options =
  no_click :: bool
  no_scroll :: bool
  no_touch :: bool

record world = "handler emitter" +
  w_options :: options
  w_nav :: nav_options
  w_show :: show_data
  w_cur :: int
  w_started :: "bool option"
  w_clone :: clone
  w_opener :: bool
  w_popup :: bool
  w_posted :: "(string \<times> string) list"
  w_focused :: nat
  w_external :: "(string \<times> slide option) list"
  w_hash :: string
  w_embedded :: bool
  w_class :: string
  w_htmlClass :: string
  w_clientWidth :: int
  w_views :: "view list"
  w_nextView :: nat
  w_fades :: "nat list"
  w_preview :: "view option"
  w_notes :: "notes_value option"
  w_notesPreview :: "notes_value option"
  w_timer :: timer
  w_now :: int
  w_gotoNumber :: string
  w_nextTouch :: nat
  w_touches :: "nat \<Rightarrow> int option \<times> int option"
  w_orientation :: string
  w_pageWidth :: nat
  w_pageHeight :: nat
  w_prevented :: nat
  w_fsRequest :: bool
  w_fsCancel :: bool
  w_fsElement :: bool
  w_fsCalls :: "string list"

type_synonym w_emit = "(handler, val, world) emit_fn"

text \<open>The argument list of a handler; \<open>arg as i\<close> is \<open>None\<close> for \<open>undefined\<close>.\<close>

fun arg :: "(handler, val) args \<Rightarrow> nat \<Rightarrow> val option" where
  "arg (Args vs) i = (if i < length vs then Some (vs ! i) else None)"
| "arg (Internal t f) i = None"

subsection \<open>Printing\<close>

definition PAGE_HEIGHT :: nat where "PAGE_HEIGHT = 681"
definition PAGE_WIDTH :: nat where "PAGE_WIDTH = 908"

definition setPageOrientation :: "string \<Rightarrow> world \<Rightarrow> world outcome" where
  "setPageOrientation orientation w =
     (if orientation = ''portrait''
      then Ret (w\<lparr>w_pageHeight := PAGE_WIDTH, w_pageWidth := PAGE_HEIGHT, w_orientation := orientation\<rparr>)
      else if orientation = ''landscape''
      then Ret (w\<lparr>w_pageHeight := PAGE_HEIGHT, w_pageWidth := PAGE_WIDTH, w_orientation := orientation\<rparr>)
      else Throw (''Unknown print orientation: '' @ orientation) w)"

text \<open>What \<open>onPrint\<close> emits when the print media query matches.\<close>

definition onPrint :: "bool \<Rightarrow> world \<Rightarrow> (bool \<times> nat \<times> nat) option" where
  "onPrint mtch w = (if mtch then Some (w_orientation w = ''portrait'', w_pageHeight w, w_pageWidth w) else None)"

subsection \<open>Slide views\<close>

definition view_show :: "view \<Rightarrow> view" where
  "view_show v = v\<lparr>v_class := removeClass (addClass (v_class v) ''remark-visible'') ''remark-fading''\<rparr>"

definition view_hide :: "view \<Rightarrow> view" where
  "view_hide v = v\<lparr>v_class := addClass (removeClass (v_class v) ''remark-visible'') ''remark-fading''\<rparr>"

definition view_unfade :: "view \<Rightarrow> view" where
  "view_unfade v = v\<lparr>v_class := removeClass (v_class v) ''remark-fading''\<rparr>"

abbreviation is_visible :: "view \<Rightarrow> bool" where
  "is_visible v \<equiv> hasClass (v_class v) ''remark-visible''"

abbreviation is_fading :: "view \<Rightarrow> bool" where
  "is_fading v \<equiv> hasClass (v_class v) ''remark-fading''"

text \<open>\<open>slideViews[i]\<close>, undefined out of range.\<close>

definition view_at :: "view list \<Rightarrow> int \<Rightarrow> view option" where
  "view_at vs i = (if 0 \<le> i \<and> nat i < length vs then Some (vs ! nat i) else None)"

text \<open>The timer of \<open>hide\<close> removes the fading class of its own view.\<close>

definition fade_timeout :: "nat \<Rightarrow> world \<Rightarrow> world" where
  "fade_timeout i w = w\<lparr>w_views := map (\<lambda>v. if v_id v = i then view_unfade v else v) (w_views w),
     w_fades := remove1 i (w_fades w)\<rparr>"

text \<open>The loop over the live collection of fading elements: item \<open>k\<close> of the elements that
  are still fading loses the class, then \<open>k\<close> grows by one.\<close>

fun unfade_loop :: "nat \<Rightarrow> nat \<Rightarrow> view list \<Rightarrow> view list" where
  "unfade_loop 0 k vs = vs"
| "unfade_loop (Suc n) k vs =
     (let fading = filter (\<lambda>j. is_fading (vs ! j)) [0 ..< length vs]
      in if k < length fading then unfade_loop n (Suc k) (vs[fading ! k := view_unfade (vs ! (fading ! k))]) else vs)"

definition unfade_all :: "view list \<Rightarrow> view list" where
  "unfade_all vs = unfade_loop (length vs) 0 vs"

subsection \<open>Slideshow view\<close>

definition showSlide :: "w_emit \<Rightarrow> int option \<Rightarrow> world \<Rightarrow> world outcome" where
  "showSlide em i w =
     (let a = (case i of Some n \<Rightarrow> VNum n | None \<Rightarrow> VNaN) in
      obind (em ''beforeShowSlide'' (Args [a]) w)
       (\<lambda>w. case Option.bind i (view_at (w_views w)) of
          None \<Rightarrow> Throw ''TypeError: slideView is undefined'' w
        | Some v \<Rightarrow>
            em ''afterShowSlide'' (Args [a])
              (w\<lparr>w_views := (w_views w)[nat (the i) := view_show v],
                 w_preview := view_at (w_views w) (the i + 1)\<rparr>)))"

definition hideSlide :: "w_emit \<Rightarrow> int option \<Rightarrow> world \<Rightarrow> world outcome" where
  "hideSlide em i w =
     (let a = (case i of Some n \<Rightarrow> VNum n | None \<Rightarrow> VNaN) in
      obind (em ''beforeHideSlide'' (Args [a]) w)
       (\<lambda>w. case Option.bind i (view_at (w_views w)) of
          None \<Rightarrow> Throw ''TypeError: slideView is undefined'' w
        | Some v \<Rightarrow>
            em ''afterHideSlide'' (Args [a])
              (w\<lparr>w_views := (w_views w)[nat (the i) := view_hide v], w_fades := w_fades w @ [v_id v]\<rparr>)))"

definition new_view :: "nat \<Rightarrow> slide \<Rightarrow> view" where
  "new_view i s = \<lparr>v_id = i, v_slide = s, v_class = ''remark-slide-container''\<rparr>"

text \<open>\<open>events.on\<close> for a list of handlers.\<close>

fun on_all :: "w_emit \<Rightarrow> (string \<times> handler) list \<Rightarrow> world \<Rightarrow> world outcome" where
  "on_all em [] w = Ret w"
| "on_all em ((t, h) # hs) w = obind (addListener em t (Plain h) w) (on_all em hs)"

definition updateSlideViews :: "w_emit \<Rightarrow> world \<Rightarrow> world outcome" where
  "updateSlideViews em w =
     (let slides = getSlides (w_show w);
          views = map2 new_view [w_nextView w ..< w_nextView w + length slides] slides
      in obind (on_all em (map (\<lambda>s. (''propertiesChanged'', HRatioChanged)) slides)
                  (w\<lparr>w_nextView := w_nextView w + length slides\<rparr>))
          (\<lambda>w. let w = w\<lparr>w_views := views\<rparr> in
             if w_cur w > -1 then showSlide em (Some (w_cur w)) w else Ret w))"

text \<open>Arguments that are slide indexes.\<close>

fun index_arg :: "val option \<Rightarrow> int option" where
  "index_arg (Some (VNum n)) = Some n"
| "index_arg _ = None"

definition togglePresenter :: "w_emit \<Rightarrow> world \<Rightarrow> world outcome" where
  "togglePresenter em w =
     obind (em ''toggledPresenter'' (Args [VNum (w_cur w + 1)])
             (w\<lparr>w_class := toggleClass (w_class w) ''remark-presenter-mode''\<rparr>))
       (\<lambda>w. setPageOrientation
              (if hasClass (w_class w) ''remark-presenter-mode'' then ''portrait'' else ''landscape'') w)"

definition forcePresenter :: "world \<Rightarrow> world outcome" where
  "forcePresenter w =
     (if \<not> hasClass (w_class w) ''remark-presenter-mode''
      then setPageOrientation ''landscape'' (w\<lparr>w_class := toggleClass (w_class w) ''remark-presenter-mode''\<rparr>)
      else Ret w)"

definition toggle_mode :: "string \<Rightarrow> world \<Rightarrow> world" where
  "toggle_mode c w = w\<lparr>w_class := toggleClass (w_class w) c\<rparr>"

definition hideOverlay :: "world \<Rightarrow> world" where
  "hideOverlay w = w\<lparr>w_class := removeClass (removeClass (w_class w) ''remark-blackout-mode'') ''remark-help-mode''\<rparr>"

definition toggleFullscreen :: "world \<Rightarrow> world" where
  "toggleFullscreen w =
     (if \<not> w_fsElement w \<and> w_fsRequest w then w\<lparr>w_fsCalls := w_fsCalls w @ [''requestFullScreen'']\<rparr>
      else if w_fsCancel w then w\<lparr>w_fsCalls := w_fsCalls w @ [''cancelFullScreen'']\<rparr>
      else w)"

subsection \<open>Notes view\<close>

definition notes_showSlide :: "int option \<Rightarrow> world \<Rightarrow> world outcome" where
  "notes_showSlide i w =
     (case Option.bind i (view_at (w_views w)) of
        None \<Rightarrow> Throw ''TypeError: slideView is undefined'' w
      | Some v \<Rightarrow>
          Ret (w\<lparr>w_notes := Some (s_notes (v_slide v)),
                 w_notesPreview := map_option (\<lambda>v. s_notes (v_slide v)) (view_at (w_views w) (the i + 1))\<rparr>))"

subsection \<open>Navigation\<close>

definition post :: "string \<Rightarrow> world \<Rightarrow> world" where
  "post msg w =
     (let w1 = (if w_clone w = CloneWin False then w\<lparr>w_posted := w_posted w @ [(''clone'', msg)]\<rparr> else w)
      in if w_opener w then w1\<lparr>w_posted := w_posted w1 @ [(''opener'', msg)]\<rparr> else w1)"

text \<open>\<open>None\<close> stands for the index NaN, which compares false with every number.\<close>

definition slideOutOfRange :: "world \<Rightarrow> int option \<Rightarrow> bool" where
  "slideOutOfRange w i = (case i of None \<Rightarrow> False | Some n \<Rightarrow> n < 0 \<or> n > int (getSlideCount (w_show w)) - 1)"

definition index_val :: "int option \<Rightarrow> val" where
  "index_val i = (case i of Some n \<Rightarrow> VNum n | None \<Rightarrow> VNaN)"

definition start_if_moved :: "w_emit \<Rightarrow> world \<Rightarrow> world outcome" where
  "start_if_moved em w =
     (case w_started w of
        None \<Rightarrow> Ret (w\<lparr>w_started := Some False\<rparr>)
      | Some False \<Rightarrow> obind (em ''start'' (Args []) w) (\<lambda>w. Ret (w\<lparr>w_started := Some True\<rparr>))
      | Some True \<Rightarrow> Ret w)"

definition gotoSlideByIndex :: "w_emit \<Rightarrow> int option \<Rightarrow> bool \<Rightarrow> world \<Rightarrow> world outcome" where
  "gotoSlideByIndex em i noMessage w =
     (if i = Some (w_cur w) \<or> slideOutOfRange w i then Ret w
      else
        obind (if w_cur w \<noteq> -1 then em ''hideSlide'' (Args [VNum (w_cur w), VBool False]) w else Ret w)
        (\<lambda>w. obind (start_if_moved em w)
        (\<lambda>w. obind (em ''showSlide'' (Args [index_val i]) w)
        (\<lambda>w. case i of
           None \<Rightarrow> Throw ''current slide index is NaN'' w
         | Some n \<Rightarrow>
             obind (em ''slideChanged'' (Args [VNum (n + 1)]) (w\<lparr>w_cur := n\<rparr>))
             (\<lambda>w. Ret (if noMessage then w else post (''gotoSlide:'' @ int_str (w_cur w + 1)) w))))))"

definition presenter_re :: regexp where
  "presenter_re = re no_flags (bs ''^p%d+$'')"

lemma presenter_re_ast [code]:
  "presenter_re =
     \<lparr>pat = Seq Bol (Seq (Cls False [CChar CHR ''p'']) (Seq (Rep 1 None True (Cls False
     [CDigit True])) Eol)), ngroups = 0, flags = no_flags\<rparr>"
  by code_simp

text \<open>\<open>getSlideIndex\<close>, with the world it leaves and the index.\<close>

definition getSlideIndex :: "w_emit \<Rightarrow> val option \<Rightarrow> (int option \<Rightarrow> world \<Rightarrow> world outcome) \<Rightarrow> world \<Rightarrow> world outcome" where
  "getSlideIndex em v k w =
     (case v of
        Some (VNum n) \<Rightarrow> k (Some (n - 1)) w
      | Some VNaN \<Rightarrow> k None w
      | Some (VStr s) \<Rightarrow>
          if (case parseInt s of Some n \<Rightarrow> int_str n | None \<Rightarrow> ''NaN'') = s
          then k (map_option (\<lambda>n. n - 1) (parseInt s)) w
          else if test presenter_re s
          then obind (em ''forcePresenterMode'' (Args []) w)
                 (k (map_option (\<lambda>n. n - 1) (parseInt (drop 1 s))))
          else (case getSlideByName (w_show w) s of
                  LSlide sl \<Rightarrow> k (Some (int (s_index sl))) w
                | LProto \<Rightarrow> Throw ''TypeError: slide.getSlideIndex is not a function'' w
                | LUndefined \<Rightarrow> k (Some 0) w)
      | _ \<Rightarrow> Throw ''TypeError: slideNoOrName.match is not a function'' w)"

fun bool_arg :: "val option \<Rightarrow> bool" where
  "bool_arg (Some (VBool b)) = b"
| "bool_arg None = False"
| "bool_arg (Some v) = True"

definition gotoSlide :: "w_emit \<Rightarrow> val option \<Rightarrow> bool \<Rightarrow> world \<Rightarrow> world outcome" where
  "gotoSlide em v noMessage w = getSlideIndex em v (\<lambda>i. gotoSlideByIndex em i noMessage) w"

definition gotoSlideNumber :: "w_emit \<Rightarrow> val option \<Rightarrow> bool \<Rightarrow> world \<Rightarrow> world outcome" where
  "gotoSlideNumber em v noMessage w =
     (let n = (case v of Some (VNum n) \<Rightarrow> Some n | Some (VStr s) \<Rightarrow> parseInt s | _ \<Rightarrow> None)
      in case ss_byNumber (w_show w) of
           None \<Rightarrow> Throw ''TypeError: byNumber is undefined'' w
         | Some bn \<Rightarrow>
             (case n of
                None \<Rightarrow> Ret w
              | Some k \<Rightarrow>
                  (case getSlidesByNumber (w_show w) k of
                     Inr (Some (s # ss)) \<Rightarrow> gotoSlideByIndex em (Some (int (s_index s))) noMessage w
                   | _ \<Rightarrow> Ret w)))"

definition nav_slidesChanged :: "world \<Rightarrow> world" where
  "nav_slidesChanged w =
     (if w_cur w > int (getSlideCount (w_show w)) then w\<lparr>w_cur := int (getSlideCount (w_show w))\<rparr> else w)"

definition createClone :: "world \<Rightarrow> world" where
  "createClone w =
     (if w_clone w = CloneWin False then w\<lparr>w_focused := Suc (w_focused w)\<rparr>
      else w\<lparr>w_clone := (if w_popup w then CloneWin False else NoClone)\<rparr>)"

text \<open>The listener of \<open>Slideshow\<close> on \<open>toggleBlackout\<close>.\<close>

definition propagateBlackout :: "val option \<Rightarrow> world \<Rightarrow> world" where
  "propagateBlackout v w = (if v = Some (VPropagate False) then w else post ''toggleBlackout'' w)"

text \<open>\<open>Events\<close> forwards to the emitter of the user, with the slide at that index.\<close>

definition forward_event :: "string \<Rightarrow> val option \<Rightarrow> world \<Rightarrow> world" where
  "forward_event name v w =
     w\<lparr>w_external := w_external w @
        [(name, Option.bind (index_arg v)
                 (\<lambda>i. if 0 \<le> i \<and> nat i < getSlideCount (w_show w) then Some (getSlides (w_show w) ! nat i) else None))]\<rparr>"


subsection \<open>Keyboard\<close>

definition keydown :: "w_emit \<Rightarrow> key_event \<Rightarrow> world \<Rightarrow> world outcome" where
  "keydown em e w =
     (if k_meta e \<or> k_ctrl e \<or> k_alt e then Ret w
      else if k_code e \<in> {33, 37, 38} then em ''gotoPreviousSlide'' (Args []) w
      else if k_code e = 32 then em (if k_shift e then ''gotoPreviousSlide'' else ''gotoNextSlide'') (Args []) w
      else if k_code e \<in> {34, 39, 40} then em ''gotoNextSlide'' (Args []) w
      else if k_code e = 36 then em ''gotoFirstSlide'' (Args []) w
      else if k_code e = 35 then em ''gotoLastSlide'' (Args []) w
      else if k_code e = 27 then em ''hideOverlay'' (Args []) w
      else if k_code e = 13 \<and> w_gotoNumber w \<noteq> [] then
        obind (em ''gotoSlideNumber'' (Args [VStr (w_gotoNumber w)]) w) (\<lambda>w. Ret (w\<lparr>w_gotoNumber := []\<rparr>))
      else Ret w)"

definition keypress_events :: "(char \<times> string) list" where
  "keypress_events =
     [(CHR ''j'', ''gotoNextSlide''), (CHR ''k'', ''gotoPreviousSlide''), (CHR ''b'', ''toggleBlackout''),
      (CHR ''m'', ''toggleMirrored''), (CHR ''c'', ''createClone''), (CHR ''p'', ''togglePresenterMode''),
      (CHR ''f'', ''toggleFullscreen''), (CHR ''s'', ''toggleTimer''), (CHR ''t'', ''resetTimer''),
      (CHR ''h'', ''toggleHelp''), (CHR ''?'', ''toggleHelp'')]"

definition preventDefault :: "world \<Rightarrow> world" where
  "preventDefault w = w\<lparr>w_prevented := Suc (w_prevented w)\<rparr>"

definition keypress :: "w_emit \<Rightarrow> key_event \<Rightarrow> world \<Rightarrow> world outcome" where
  "keypress em e w =
     (if k_meta e \<or> k_ctrl e then Ret w
      else
        let key = char_lower (char_of (k_which e))
        in case map_of keypress_events key of
             Some t \<Rightarrow> obind (em t (Args []) w) (\<lambda>w. Ret (preventDefault w))
           | None \<Rightarrow>
               if is_digit key then Ret (preventDefault (w\<lparr>w_gotoNumber := w_gotoNumber w @ [key]\<rparr>))
               else Ret w)"

definition keyboard_handlers :: "(string \<times> handler) list" where
  "keyboard_handlers = [(''keydown'', HKeydown), (''keypress'', HKeypress)]"

definition keyboard_activate :: "w_emit \<Rightarrow> world \<Rightarrow> world outcome" where
  "keyboard_activate em w = on_all em keyboard_handlers (w\<lparr>w_gotoNumber := []\<rparr>)"

text \<open>\<open>events.removeAllListeners\<close> for a list of events; the fuel of the operation is the
  number of listeners of the event.\<close>

fun off_all :: "w_emit \<Rightarrow> string list \<Rightarrow> world \<Rightarrow> world outcome" where
  "off_all em [] w = Ret w"
| "off_all em (t # ts) w = obind (removeAllListeners (listenerCount w t) em t w) (off_all em ts)"

definition keyboard_deactivate :: "w_emit \<Rightarrow> world \<Rightarrow> world outcome" where
  "keyboard_deactivate em = off_all em [''keydown'', ''keypress'']"

subsection \<open>Location\<close>

definition navigateByHash :: "w_emit \<Rightarrow> world \<Rightarrow> world outcome" where
  "navigateByHash em w = em ''gotoSlide'' (Args [VStr (drop 1 (w_hash w))]) w"

fun val_str :: "val option \<Rightarrow> string" where
  "val_str (Some (VNum n)) = int_str n"
| "val_str (Some (VStr s)) = s"
| "val_str (Some VNaN) = ''NaN''"
| "val_str None = ''undefined''"
| "val_str (Some (VBool b)) = (if b then ''true'' else ''false'')"
| "val_str (Some v) = ''[object Object]''"

definition updateHash :: "val option \<Rightarrow> world \<Rightarrow> world" where
  "updateHash v w =
     w\<lparr>w_hash := (if hasClass (w_class w) ''remark-presenter-mode'' then ''#p'' else ''#'') @ val_str v\<rparr>"

definition location_register :: "w_emit \<Rightarrow> world \<Rightarrow> world outcome" where
  "location_register em w =
     (if w_embedded w then em ''gotoSlide'' (Args [VNum 1]) w
      else obind (on_all em [(''hashchange'', HNavigateByHash), (''slideChanged'', HUpdateHash),
                             (''toggledPresenter'', HUpdateHash)] w)
             (navigateByHash em))"

subsection \<open>Messages\<close>

definition gotoSlide_re :: regexp where
  "gotoSlide_re = re no_flags (bs ''^gotoSlide:(%d+)$'')"

lemma gotoSlide_re_ast [code]:
  "gotoSlide_re =
     \<lparr>pat = Seq Bol (Seq (Cls False [CChar CHR ''g'']) (Seq (Cls False [CChar CHR ''o''])
     (Seq (Cls False [CChar CHR ''t'']) (Seq (Cls False [CChar CHR ''o'']) (Seq (Cls False [CChar
     CHR ''S'']) (Seq (Cls False [CChar CHR ''l'']) (Seq (Cls False [CChar CHR ''i'']) (Seq (Cls
     False [CChar CHR ''d'']) (Seq (Cls False [CChar CHR ''e'']) (Seq (Cls False [CChar CHR '':''])
     (Seq (Group 1 (Rep 1 None True (Cls False [CDigit True]))) Eol))))))))))), ngroups = 1, flags
     = no_flags\<rparr>"
  by code_simp

definition navigateByMessage :: "w_emit \<Rightarrow> string \<Rightarrow> world \<Rightarrow> world outcome" where
  "navigateByMessage em data w =
     (case exec gotoSlide_re data of
        Some m \<Rightarrow>
          em ''gotoSlide''
            (Args [case parseInt (cap_str m 1) of Some n \<Rightarrow> VNum n | None \<Rightarrow> VNaN, VBool True]) w
      | None \<Rightarrow>
          if data = ''toggleBlackout'' then em ''toggleBlackout'' (Args [VPropagate False]) w else Ret w)"

subsection \<open>Mouse and touch\<close>

definition click :: "w_emit \<Rightarrow> string \<Rightarrow> int \<Rightarrow> world \<Rightarrow> world outcome" where
  "click em nodeName button w =
     (if nodeName = ''A'' then Ret w
      else if button = 0 then em ''gotoNextSlide'' (Args []) w
      else Ret w)"

definition contextmenu :: "w_emit \<Rightarrow> string \<Rightarrow> world \<Rightarrow> world outcome" where
  "contextmenu em nodeName w =
     (if nodeName = ''A'' then Ret w else em ''gotoPreviousSlide'' (Args []) (preventDefault w))"

text \<open>A comparison with \<open>undefined\<close> is false.\<close>

definition opt_pos :: "int option \<Rightarrow> bool" where
  "opt_pos i = (case i of None \<Rightarrow> False | Some n \<Rightarrow> n > 0)"

definition opt_neg :: "int option \<Rightarrow> bool" where
  "opt_neg i = (case i of None \<Rightarrow> False | Some n \<Rightarrow> n < 0)"

definition scrollHandler :: "w_emit \<Rightarrow> int option \<Rightarrow> int option \<Rightarrow> world \<Rightarrow> world outcome" where
  "scrollHandler em wheelDeltaY detail w =
     (if opt_pos wheelDeltaY \<or> opt_neg detail then em ''gotoPreviousSlide'' (Args []) w
      else if opt_neg wheelDeltaY \<or> opt_pos detail then em ''gotoNextSlide'' (Args []) w
      else Ret w)"

definition mouse_handlers :: "nav_options \<Rightarrow> (string \<times> handler) list" where
  "mouse_handlers no =
     (if no_click no then [(''click'', HClick), (''contextmenu'', HContextmenu)] else []) @
     (if no_scroll no then [(''mousewheel'', HScroll), (''DOMMouseScroll'', HScroll)] else [])"

definition mouse_unregister :: "w_emit \<Rightarrow> world \<Rightarrow> world outcome" where
  "mouse_unregister em = off_all em [''click'', ''contextmenu'', ''mousewheel'']"

definition touch_handlers :: "nat \<Rightarrow> (string \<times> handler) list" where
  "touch_handlers r = [(''touchstart'', HTouchstart r), (''touchend'', HTouchend r), (''touchmove'', HTouchmove)]"

text \<open>Each registration has its own variables \<open>startX\<close> and \<open>endX\<close>.\<close>

definition touch_register :: "w_emit \<Rightarrow> world \<Rightarrow> world outcome" where
  "touch_register em w =
     (if no_touch (w_nav w)
      then on_all em (touch_handlers (w_nextTouch w))
             (w\<lparr>w_nextTouch := Suc (w_nextTouch w), w_touches := (w_touches w)(w_nextTouch w := (None, None))\<rparr>)
      else Ret w)"

definition touch_unregister :: "w_emit \<Rightarrow> world \<Rightarrow> world outcome" where
  "touch_unregister em = off_all em [''touchstart'', ''touchend'', ''touchmove'']"

definition touchstart :: "nat \<Rightarrow> int list \<Rightarrow> world \<Rightarrow> world outcome" where
  "touchstart r touches w =
     (case touches of
        [] \<Rightarrow> Throw ''TypeError: touch is undefined'' w
      | x # _ \<Rightarrow> Ret (w\<lparr>w_touches := (w_touches w)(r := (Some x, snd (w_touches w r)))\<rparr>))"

text \<open>Without a start the difference is NaN: no tap, and a swipe to the previous slide.\<close>

definition touchend :: "w_emit \<Rightarrow> nat \<Rightarrow> string \<Rightarrow> int list \<Rightarrow> world \<Rightarrow> world outcome" where
  "touchend em r nodeName touches w =
     (if map char_upper nodeName = ''A'' then Ret w
      else case touches of
        [] \<Rightarrow> Throw ''TypeError: touch is undefined'' w
      | x # _ \<Rightarrow>
          let startX = fst (w_touches w r);
              w = w\<lparr>w_touches := (w_touches w)(r := (startX, Some x))\<rparr>
          in case startX of
               None \<Rightarrow> em ''gotoPreviousSlide'' (Args []) w
             | Some s \<Rightarrow>
                 if \<bar>s - x\<bar> < 10 then em ''tap'' (Args [VNum x]) w
                 else if s > x then em ''gotoNextSlide'' (Args []) w
                 else em ''gotoPreviousSlide'' (Args []) w)"

definition tap :: "w_emit \<Rightarrow> int \<Rightarrow> world \<Rightarrow> world outcome" where
  "tap em endX w =
     (if 2 * endX < w_clientWidth w
      then gotoSlideByIndex em (Some (w_cur w - 1)) False w
      else gotoSlideByIndex em (Some (w_cur w + 1)) False w)"

subsection \<open>Controller\<close>

definition controller_pause :: "w_emit \<Rightarrow> world \<Rightarrow> world outcome" where
  "controller_pause em w =
     obind (keyboard_deactivate em w) (\<lambda>w. obind (mouse_unregister em w) (touch_unregister em))"

definition controller_resume :: "w_emit \<Rightarrow> world \<Rightarrow> world outcome" where
  "controller_resume em w =
     obind (keyboard_activate em w)
       (\<lambda>w. obind (on_all em (mouse_handlers (w_nav w)) w) (touch_register em))"

definition Controller :: "w_emit \<Rightarrow> world \<Rightarrow> world outcome" where
  "Controller em w =
     obind (keyboard_activate em w)
      (\<lambda>w. obind (on_all em [(''message'', HMessage)] w)
      (\<lambda>w. obind (location_register em w)
      (\<lambda>w. obind (on_all em (mouse_handlers (w_nav w)) w)
      (\<lambda>w. obind (touch_register em w)
        (on_all em [(''pause'', HControllerPause), (''resume'', HControllerResume)])))))"

subsection \<open>Dispatch\<close>

definition bad_event :: "world \<Rightarrow> world outcome" where
  "bad_event w = Throw ''TypeError: event is undefined'' w"

fun handle :: "w_emit \<Rightarrow> handler \<Rightarrow> (handler, val) args \<Rightarrow> world \<Rightarrow> world outcome" where
  "handle em (HForward name) as w = Ret (forward_event name (arg as 0) w)"
| "handle em HGotoSlide as w = gotoSlide em (arg as 0) (bool_arg (arg as 1)) w"
| "handle em HGotoSlideNumber as w = gotoSlideNumber em (arg as 0) (bool_arg (arg as 1)) w"
| "handle em HGotoPreviousSlide as w = gotoSlideByIndex em (Some (w_cur w - 1)) False w"
| "handle em HGotoNextSlide as w = gotoSlideByIndex em (Some (w_cur w + 1)) False w"
| "handle em HGotoFirstSlide as w = gotoSlideByIndex em (Some 0) False w"
| "handle em HGotoLastSlide as w = gotoSlideByIndex em (Some (int (getSlideCount (w_show w)) - 1)) False w"
| "handle em HNavSlidesChanged as w = Ret (nav_slidesChanged w)"
| "handle em HNavCreateClone as w = Ret (createClone w)"
| "handle em HNavResetTimer as w = Ret (w\<lparr>w_started := Some False\<rparr>)"
| "handle em HPropagateBlackout as w = Ret (propagateBlackout (arg as 0) w)"
| "handle em HRatioChanged as w = (case arg as 0 of Some (VChanges ks) \<Rightarrow> Ret w | _ \<Rightarrow> bad_event w)"
| "handle em HTap as w = (case arg as 0 of Some (VNum x) \<Rightarrow> tap em x w | _ \<Rightarrow> bad_event w)"
| "handle em HNotesShowSlide as w = notes_showSlide (index_arg (arg as 0)) w"
| "handle em HResize as w = Ret w"
| "handle em HTimerStartOnChange as w =
     (if to_startOnChange (t_options (w_timer w)) then em ''startTimer'' (Args []) w else Ret w)"
| "handle em HTimerStart as w = Ret (w\<lparr>w_timer := timer_start (w_timer w)\<rparr>)"
| "handle em HTimerPause as w = Ret (w\<lparr>w_timer := timer_pause (w_timer w)\<rparr>)"
| "handle em HTimerToggle as w = Ret (w\<lparr>w_timer := timer_toggle (w_timer w)\<rparr>)"
| "handle em HTimerReset as w =
     Ret (if to_resetable (t_options (w_timer w)) then w\<lparr>w_timer := timer_reset (w_now w) (w_timer w)\<rparr> else w)"
| "handle em HViewSlidesChanged as w = updateSlideViews em w"
| "handle em HViewHideSlide as w =
     hideSlide em (index_arg (arg as 0)) (w\<lparr>w_views := unfade_all (w_views w)\<rparr>)"
| "handle em HViewShowSlide as w = showSlide em (index_arg (arg as 0)) w"
| "handle em HForcePresenterMode as w = forcePresenter w"
| "handle em HTogglePresenterMode as w = togglePresenter em w"
| "handle em HToggleHelp as w = Ret (toggle_mode ''remark-help-mode'' w)"
| "handle em HToggleBlackout as w = Ret (toggle_mode ''remark-blackout-mode'' w)"
| "handle em HToggleMirrored as w = Ret (toggle_mode ''remark-mirrored-mode'' w)"
| "handle em HHideOverlay as w = Ret (hideOverlay w)"
| "handle em HViewPause as w = Ret (toggle_mode ''remark-pause-mode'' w)"
| "handle em HViewResume as w = Ret (toggle_mode ''remark-pause-mode'' w)"
| "handle em HToggleFullscreen as w = Ret (toggleFullscreen w)"
| "handle em HKeydown as w = (case arg as 0 of Some (VKey e) \<Rightarrow> keydown em e w | _ \<Rightarrow> bad_event w)"
| "handle em HKeypress as w = (case arg as 0 of Some (VKey e) \<Rightarrow> keypress em e w | _ \<Rightarrow> bad_event w)"
| "handle em HMessage as w = (case arg as 0 of Some (VMessage d) \<Rightarrow> navigateByMessage em d w | _ \<Rightarrow> bad_event w)"
| "handle em HNavigateByHash as w = navigateByHash em w"
| "handle em HUpdateHash as w = Ret (updateHash (arg as 0) w)"
| "handle em HClick as w = (case arg as 0 of Some (VMouse n b) \<Rightarrow> click em n b w | _ \<Rightarrow> bad_event w)"
| "handle em HContextmenu as w = (case arg as 0 of Some (VMouse n b) \<Rightarrow> contextmenu em n w | _ \<Rightarrow> bad_event w)"
| "handle em HScroll as w = (case arg as 0 of Some (VWheel d e) \<Rightarrow> scrollHandler em d e w | _ \<Rightarrow> bad_event w)"
| "handle em (HTouchstart r) as w = (case arg as 0 of Some (VTouch n xs) \<Rightarrow> touchstart r xs w | _ \<Rightarrow> bad_event w)"
| "handle em (HTouchend r) as w = (case arg as 0 of Some (VTouch n xs) \<Rightarrow> touchend em r n xs w | _ \<Rightarrow> bad_event w)"
| "handle em HTouchmove as w = (case arg as 0 of Some (VTouch n xs) \<Rightarrow> Ret (preventDefault w) | _ \<Rightarrow> bad_event w)"
| "handle em HControllerPause as w = controller_pause em w"
| "handle em HControllerResume as w = controller_resume em w"

fun emitW :: "nat \<Rightarrow> w_emit" where
  "emitW 0 t as w = Timeout"
| "emitW (Suc n) t as w = emit (emitW n) (handle (emitW n)) t as w"

subsection \<open>Construction\<close>

definition forwarded_events :: "string list" where
  "forwarded_events = [''showSlide'', ''hideSlide'', ''beforeShowSlide'', ''afterShowSlide'', ''beforeHideSlide'',
     ''afterHideSlide'', ''toggledPresenter'']"

definition navigation_handlers :: "(string \<times> handler) list" where
  "navigation_handlers =
     [(''gotoSlide'', HGotoSlide), (''gotoSlideNumber'', HGotoSlideNumber),
      (''gotoPreviousSlide'', HGotoPreviousSlide), (''gotoNextSlide'', HGotoNextSlide),
      (''gotoFirstSlide'', HGotoFirstSlide), (''gotoLastSlide'', HGotoLastSlide),
      (''slidesChanged'', HNavSlidesChanged), (''createClone'', HNavCreateClone), (''resetTimer'', HNavResetTimer)]"

text \<open>\<open>Slideshow\<close>: \<open>Events\<close>, \<open>Navigation\<close>, its own listener.\<close>

definition slideshow_handlers :: "(string \<times> handler) list" where
  "slideshow_handlers = map (\<lambda>t. (t, HForward t)) forwarded_events @ navigation_handlers @
     [(''toggleBlackout'', HPropagateBlackout)]"

definition timer_handlers :: "(string \<times> handler) list" where
  "timer_handlers = [(''start'', HTimerStartOnChange), (''startTimer'', HTimerStart), (''pauseTimer'', HTimerPause),
     (''toggleTimer'', HTimerToggle), (''resetTimer'', HTimerReset)]"

definition view_handlers :: "(string \<times> handler) list" where
  "view_handlers =
     [(''slidesChanged'', HViewSlidesChanged), (''hideSlide'', HViewHideSlide), (''showSlide'', HViewShowSlide),
      (''forcePresenterMode'', HForcePresenterMode), (''togglePresenterMode'', HTogglePresenterMode),
      (''toggleHelp'', HToggleHelp), (''toggleBlackout'', HToggleBlackout), (''toggleMirrored'', HToggleMirrored),
      (''hideOverlay'', HHideOverlay), (''pause'', HViewPause), (''resume'', HViewResume),
      (''toggleFullscreen'', HToggleFullscreen)]"

text \<open>\<open>configureContainerElement\<close> marks the container, and the document if it is the body.\<close>

definition configureContainerElement :: "world \<Rightarrow> world" where
  "configureContainerElement w =
     w\<lparr>w_class := addClass (w_class w) ''remark-container'',
       w_htmlClass := (if w_embedded w then w_htmlClass w else addClass (w_htmlClass w) ''remark-container'')\<rparr>"

text \<open>The browser events that are passed on to the emitter.\<close>

definition forwardEvents :: "world \<Rightarrow> string list" where
  "forwardEvents w =
     (if w_embedded w
      then [''resize'', ''keydown'', ''keypress'', ''mousewheel'', ''touchstart'', ''touchmove'', ''touchend'']
      else [''hashchange'', ''resize'', ''keydown'', ''keypress'', ''mousewheel'', ''message'', ''DOMMouseScroll'',
            ''touchstart'', ''touchmove'', ''touchend'', ''click'', ''contextmenu''])"

definition SlideshowView :: "w_emit \<Rightarrow> timer_options \<Rightarrow> world \<Rightarrow> world outcome" where
  "SlideshowView em topts w =
     obind (on_all em [(''propertiesChanged'', HRatioChanged), (''tap'', HTap), (''showSlide'', HNotesShowSlide),
                       (''propertiesChanged'', HRatioChanged), (''resize'', HResize)]
              (configureContainerElement w))
      (\<lambda>w. obind (setPageOrientation ''landscape'' w)
      (\<lambda>w. obind (updateSlideViews em w)
      (\<lambda>w. on_all em (timer_handlers @ view_handlers) (w\<lparr>w_timer := TimerViewModel (w_now w) topts\<rparr>))))"

text \<open>\<open>loadFromString\<close> with its event; \<open>None\<close> means the parser ran out of fuel.\<close>

definition load :: "w_emit \<Rightarrow> show_data pres \<Rightarrow> world \<Rightarrow> world outcome" where
  "load em r w =
     (case r of
        None \<Rightarrow> Timeout
      | Some (Inl e) \<Rightarrow> Throw ''loadFromString'' w
      | Some (Inr sd) \<Rightarrow> em ''slidesChanged'' (Args []) (w\<lparr>w_show := sd\<rparr>))"

text \<open>\<open>Api.prototype.create\<close> with a source string: the slideshow, then in its callback the
  view and the controller.\<close>

definition Api_create :: "w_emit \<Rightarrow> show_data pres \<Rightarrow> timer_options \<Rightarrow> world \<Rightarrow> world outcome" where
  "Api_create em r topts w =
     obind (setMaxListeners 0 w)
      (\<lambda>w. obind (on_all em slideshow_handlers w)
      (\<lambda>w. obind (load em r w)
      (\<lambda>w. obind (SlideshowView em topts w) (Controller em))))"

end
