(* ===== verification/Remark_Invariants.thy ===== *)
theory Remark_Invariants
  imports Remark_World
begin

text \<open>
  The dispatch of every event ends, and every handler keeps the invariant \<open>world_ok\<close> of
  the running slideshow. Events are ranked so that a handler only emits events of a lower
  rank than the event it handles; the locale \<open>world_invariant\<close> turns what single handlers
  keep into what a whole dispatch keeps, and is interpreted on \<open>world_ok\<close>.
\<close>

subsection \<open>Ranks\<close>

definition rank :: "string \<Rightarrow> nat" where
  "rank t =
     (if t \<in> {''showSlide'', ''hideSlide'', ''start'', ''togglePresenterMode'', ''slidesChanged''} then 1
      else if t \<in> {''gotoSlide'', ''gotoSlideNumber'', ''gotoPreviousSlide'', ''gotoNextSlide'',
                   ''gotoFirstSlide'', ''gotoLastSlide'', ''tap''} then 2
      else if t \<in> {''keydown'', ''keypress'', ''message'', ''hashchange'', ''click'', ''contextmenu'',
                   ''mousewheel'', ''DOMMouseScroll'', ''touchstart'', ''touchend'', ''touchmove''} then 3
      else 0)"

fun hrank :: "handler \<Rightarrow> nat" where
  "hrank HGotoSlide = 2"
| "hrank HGotoSlideNumber = 2"
| "hrank HGotoPreviousSlide = 2"
| "hrank HGotoNextSlide = 2"
| "hrank HGotoFirstSlide = 2"
| "hrank HGotoLastSlide = 2"
| "hrank HTap = 2"
| "hrank HNavSlidesChanged = 1"
| "hrank HViewSlidesChanged = 1"
| "hrank HNotesShowSlide = 1"
| "hrank HViewHideSlide = 1"
| "hrank HViewShowSlide = 1"
| "hrank HTogglePresenterMode = 1"
| "hrank HTimerStartOnChange = 1"
| "hrank HKeydown = 3"
| "hrank HKeypress = 3"
| "hrank HMessage = 3"
| "hrank HNavigateByHash = 3"
| "hrank HClick = 3"
| "hrank HContextmenu = 3"
| "hrank HScroll = 3"
| "hrank (HTouchstart r) = 3"
| "hrank (HTouchend r) = 3"
| "hrank HTouchmove = 3"
| "hrank _ = 0"

lemma rank_le_3: "rank t \<le> 3"
  by (simp add: rank_def)

text \<open>What a dispatch may end in.\<close>

fun keeps :: "(world \<Rightarrow> bool) \<Rightarrow> world outcome \<Rightarrow> bool" where
  "keeps P (Ret w) = P w"
| "keeps P (Throw e w) = P w"
| "keeps P Timeout = False"

lemma keeps_bind: "keeps P r \<Longrightarrow> (\<And>w. P w \<Longrightarrow> keeps Q (k w)) \<Longrightarrow> (\<And>w. P w \<Longrightarrow> Q w) \<Longrightarrow> keeps Q (obind r k)"
  by (cases r) auto

lemma keeps_mono: "keeps P r \<Longrightarrow> (\<And>w. P w \<Longrightarrow> Q w) \<Longrightarrow> keeps Q r"
  by (cases r) auto

text \<open>No handler changes the slides; handlers of rank 0 leave the views and the current index
  alone.\<close>

definition frame0 :: "world \<Rightarrow> world \<Rightarrow> bool" where
  "frame0 w w' \<longleftrightarrow> w_views w' = w_views w \<and> w_cur w' = w_cur w"

lemma frame0_refl [simp]: "frame0 w w"
  by (simp add: frame0_def)

lemma frame0_trans: "frame0 u v \<Longrightarrow> frame0 v w \<Longrightarrow> frame0 u w"
  by (simp add: frame0_def)

definition post_of :: "(world \<Rightarrow> bool) \<Rightarrow> nat \<Rightarrow> world \<Rightarrow> world \<Rightarrow> bool" where
  "post_of P k w w' \<longleftrightarrow> P w' \<and> w_show w' = w_show w \<and> (k = 0 \<longrightarrow> frame0 w w')"

lemma post_of_self: "P w \<Longrightarrow> post_of P k w w"
  by (simp add: post_of_def)

lemma post_of_trans: "post_of P k u v \<Longrightarrow> post_of P k v w \<Longrightarrow> post_of P k u w"
  by (auto simp: post_of_def intro: frame0_trans)

lemma post_of_weaken: "post_of P k u v \<Longrightarrow> post_of P 1 u v"
  by (simp add: post_of_def)

lemma post_of_pos: "0 < k \<Longrightarrow> post_of P k = post_of P 1"
  by (intro ext) (simp add: post_of_def)

lemma post_of_inv: "post_of P k u v \<Longrightarrow> P v"
  by (simp add: post_of_def)

definition good_emit :: "(world \<Rightarrow> bool) \<Rightarrow> nat \<Rightarrow> w_emit \<Rightarrow> bool" where
  "good_emit P k em \<longleftrightarrow> (\<forall>t as w. rank t < k \<longrightarrow> P w \<longrightarrow> keeps (post_of P (rank t) w) (em t as w))"

lemma good_emitD: "good_emit P k em \<Longrightarrow> rank t < k \<Longrightarrow> P w \<Longrightarrow> keeps (post_of P (rank t) w) (em t as w)"
  by (simp add: good_emit_def)

lemma good_emit_keeps: "good_emit P k em \<Longrightarrow> rank t < k \<Longrightarrow> P w \<Longrightarrow> keeps (post_of P 1 w) (em t as w)"
  by (rule keeps_mono [OF good_emitD post_of_weaken])

lemma keeps_seq:
  "keeps (post_of P 1 w) r \<Longrightarrow> (\<And>w'. post_of P 1 w w' \<Longrightarrow> keeps (post_of P 1 w') (k w')) \<Longrightarrow>
   keeps (post_of P 1 w) (obind r k)"
  by (erule keeps_bind) (auto intro: keeps_mono post_of_trans)

lemma good_emit_mono: "good_emit P k em \<Longrightarrow> j \<le> k \<Longrightarrow> good_emit P j em"
  by (auto simp: good_emit_def)

subsection \<open>From handlers to dispatch\<close>

locale world_invariant =
  fixes P :: "world \<Rightarrow> bool"
  assumes registered: "P w \<Longrightarrow> f \<in> set (listeners w t) \<Longrightarrow> \<exists>h. f = Plain h \<and> hrank h \<le> rank t"
    and handled: "P w \<Longrightarrow> good_emit P (hrank h) em \<Longrightarrow> keeps (post_of P (hrank h) w) (handle em h as w)"
begin

lemma run_listeners_keeps:
  assumes "P w0" "good_emit P n em" "rank t \<le> n"
  shows "set fs \<subseteq> set (listeners w0 t) \<Longrightarrow> P w \<Longrightarrow>
    keeps (post_of P (rank t) w) (run_listeners em' (handle em) as fs w)"
proof (induction fs arbitrary: w)
  case (Cons f fs)
  from registered [OF assms(1), of f t] Cons.prems obtain h where h: "f = Plain h" "hrank h \<le> rank t" by auto
  have "keeps (post_of P (hrank h) w) (handle em h as w)"
    using Cons.prems h assms by (intro handled) (auto intro: good_emit_mono)
  then have "keeps (post_of P (rank t) w) (call_listener em' (handle em) as f w)"
    using h by (auto simp: post_of_def elim!: keeps_mono)
  then show ?case
    unfolding run_listeners.simps
  proof (rule keeps_bind)
    fix w' assume "post_of P (rank t) w w'"
    then show "keeps (post_of P (rank t) w) (run_listeners em' (handle em) as fs w')"
      using Cons.IH [of w'] Cons.prems
      by (auto dest: post_of_inv intro: post_of_trans keeps_mono)
  qed
qed (simp add: post_of_self)

theorem emitW_keeps: "rank t < n \<Longrightarrow> P w \<Longrightarrow> keeps (post_of P (rank t) w) (emitW n t as w)"
proof (induction n arbitrary: t as w)
  case (Suc n)
  have "good_emit P n (emitW n)"
    using Suc.IH by (auto simp: good_emit_def)
  then show ?case
    using run_listeners_keeps [OF Suc.prems(2) _ _ subset_refl Suc.prems(2), of n "emitW n" t] Suc.prems
    by (simp add: emit_def post_of_self)
qed simp

lemma good_emitW: "good_emit P n (emitW n)"
  using emitW_keeps by (auto simp: good_emit_def)

end


subsection \<open>The invariant\<close>

definition ranked :: "world \<Rightarrow> bool" where
  "ranked w \<longleftrightarrow> (\<forall>t. \<forall>f \<in> set (listeners w t). \<exists>h. f = Plain h \<and> hrank h \<le> rank t)"

definition table_ok :: "world \<Rightarrow> bool" where
  "table_ok w \<longleftrightarrow> em_ok w \<and> quiet w \<and> ranked w"

text \<open>At most one slide is fading out.\<close>

definition fading_ok :: "view list \<Rightarrow> bool" where
  "fading_ok vs \<longleftrightarrow> length (filter is_fading vs) \<le> 1"

definition mode_classes :: "string list" where
  "mode_classes = [''remark-presenter-mode'', ''remark-help-mode'', ''remark-blackout-mode'',
     ''remark-mirrored-mode'', ''remark-pause-mode'']"

definition modes_ok :: "string \<Rightarrow> bool" where
  "modes_ok c \<longleftrightarrow> (\<forall>m \<in> set mode_classes. single_class m c)"

definition cur_ok :: "world \<Rightarrow> bool" where
  "cur_ok w \<longleftrightarrow> -1 \<le> w_cur w \<and> w_cur w < int (getSlideCount (w_show w))"

definition page_ok :: "world \<Rightarrow> bool" where
  "page_ok w \<longleftrightarrow>
     (w_orientation w = ''landscape'' \<longrightarrow> w_pageWidth w = PAGE_WIDTH \<and> w_pageHeight w = PAGE_HEIGHT) \<and>
     (w_orientation w = ''portrait'' \<longrightarrow> w_pageWidth w = PAGE_HEIGHT \<and> w_pageHeight w = PAGE_WIDTH)"

definition world_ok :: "world \<Rightarrow> bool" where
  "world_ok w \<longleftrightarrow> table_ok w \<and> show_ok (w_show w) \<and> cur_ok w \<and> fading_ok (w_views w) \<and> modes_ok (w_class w) \<and> page_ok w"

lemma table_ok_cong:
  "em_events w' = em_events w \<Longrightarrow> em_arrays w' = em_arrays w \<Longrightarrow> table_ok w' = table_ok w"
proof -
  assume eqs: "em_events w' = em_events w" "em_arrays w' = em_arrays w"
  then have "arr w' = arr w" by (intro ext) (simp add: arr_def)
  with eqs have "listeners w' = listeners w" by (intro ext) (simp add: listeners_def split: option.split hnd.split)
  with eqs \<open>arr w' = arr w\<close> show ?thesis
    by (simp add: table_ok_def em_ok_def quiet_def ranked_def)
qed

lemma table_ok_update [simp]:
  "table_ok (w\<lparr>w_show := a\<rparr>) = table_ok w" "table_ok (w\<lparr>w_cur := b\<rparr>) = table_ok w"
  "table_ok (w\<lparr>w_started := c\<rparr>) = table_ok w" "table_ok (w\<lparr>w_clone := d\<rparr>) = table_ok w"
  "table_ok (w\<lparr>w_posted := e\<rparr>) = table_ok w" "table_ok (w\<lparr>w_focused := f\<rparr>) = table_ok w"
  "table_ok (w\<lparr>w_external := g\<rparr>) = table_ok w" "table_ok (w\<lparr>w_hash := h\<rparr>) = table_ok w"
  "table_ok (w\<lparr>w_class := i\<rparr>) = table_ok w" "table_ok (w\<lparr>w_views := j\<rparr>) = table_ok w"
  "table_ok (w\<lparr>w_nextView := k\<rparr>) = table_ok w" "table_ok (w\<lparr>w_fades := l\<rparr>) = table_ok w"
  "table_ok (w\<lparr>w_preview := m\<rparr>) = table_ok w" "table_ok (w\<lparr>w_notes := n\<rparr>) = table_ok w"
  "table_ok (w\<lparr>w_notesPreview := n\<rparr>) = table_ok w" "table_ok (w\<lparr>w_timer := q\<rparr>) = table_ok w"
  "table_ok (w\<lparr>w_gotoNumber := r\<rparr>) = table_ok w" "table_ok (w\<lparr>w_nextTouch := s\<rparr>) = table_ok w"
  "table_ok (w\<lparr>w_touches := t\<rparr>) = table_ok w" "table_ok (w\<lparr>w_orientation := u\<rparr>) = table_ok w"
  "table_ok (w\<lparr>w_pageWidth := v\<rparr>) = table_ok w" "table_ok (w\<lparr>w_pageHeight := v\<rparr>) = table_ok w"
  "table_ok (w\<lparr>w_prevented := v\<rparr>) = table_ok w" "table_ok (w\<lparr>w_fsCalls := x\<rparr>) = table_ok w"
  "table_ok (w\<lparr>w_htmlClass := y\<rparr>) = table_ok w" "table_ok (w\<lparr>w_now := z\<rparr>) = table_ok w"
  by (rule table_ok_cong; simp)+

lemmas world_simps = world_ok_def cur_ok_def page_ok_def frame0_def post_of_def

subsection \<open>Registration\<close>

text \<open>Registering changes nothing but the table.\<close>

definition same_app :: "world \<Rightarrow> world \<Rightarrow> bool" where
  "same_app w w' \<longleftrightarrow> (\<exists>e a x. w' = w\<lparr>em_events := e, em_arrays := a, em_warnings := x\<rparr>)"

lemma same_app_refl: "same_app w w"
  unfolding same_app_def by (rule exI [of _ "em_events w"], rule exI [of _ "em_arrays w"], rule exI [of _ "em_warnings w"]) simp

lemma same_app_trans: "same_app u v \<Longrightarrow> same_app v w \<Longrightarrow> same_app u w"
  unfolding same_app_def by (elim exE, hypsubst, intro exI) simp

lemma same_app_attach: "same_app w (attach t f w)"
proof (cases "ev_get w t")
  case None
  then have "attach t f w = w\<lparr>em_events := dict_set t (HFn f) (em_events w), em_arrays := em_arrays w,
      em_warnings := em_warnings w\<rparr>"
    by (simp add: attach_def)
  then show ?thesis unfolding same_app_def by blast
next
  case (Some h)
  have "\<exists>e a. attach t f w = w\<lparr>em_events := e, em_arrays := a, em_warnings := em_warnings w\<rparr>"
  proof (cases h)
    case (HFn g)
    with Some have "attach t f w = w\<lparr>em_events := dict_set t (HArr (length (em_arrays w))) (em_events w),
        em_arrays := em_arrays w @ [([g, f], False)], em_warnings := em_warnings w\<rparr>"
      by (simp add: attach_def)
    then show ?thesis by blast
  next
    case (HArr a)
    with Some have "attach t f w = w\<lparr>em_events := em_events w,
        em_arrays := (em_arrays w)[a := (arr w a @ [f], snd (em_arrays w ! a))], em_warnings := em_warnings w\<rparr>"
      by (simp add: attach_def set_arr_def)
    then show ?thesis by blast
  qed
  then show ?thesis unfolding same_app_def by blast
qed

lemma same_app_check_leak: "same_app w (check_leak t w)"
proof -
  have "check_leak t w = w \<or>
      (\<exists>a x. check_leak t w = w\<lparr>em_events := em_events w, em_arrays := a, em_warnings := x\<rparr>)"
    by (auto simp: check_leak_def split: option.split hnd.split)
  then show ?thesis
  proof
    assume "check_leak t w = w"
    then show ?thesis using same_app_refl [of w] by simp
  next
    assume "\<exists>a x. check_leak t w = w\<lparr>em_events := em_events w, em_arrays := a, em_warnings := x\<rparr>"
    then show ?thesis unfolding same_app_def by blast
  qed
qed

lemma same_app_register: "same_app w (register t f w)"
  unfolding register_def by (rule same_app_trans [OF same_app_attach same_app_check_leak])

lemma same_app_unregister: "same_app w (unregister t w)"
proof -
  have "unregister t w = w\<lparr>em_events := dict_delete t (em_events w), em_arrays := em_arrays w,
      em_warnings := em_warnings w\<rparr>"
    by (simp add: unregister_def)
  then show ?thesis unfolding same_app_def by blast
qed

lemma world_ok_same_app:
  "world_ok w \<Longrightarrow> same_app w w' \<Longrightarrow> table_ok w' \<Longrightarrow> world_ok w' \<and> w_show w' = w_show w \<and> frame0 w w'"
  unfolding same_app_def by (elim exE, hypsubst) (simp add: world_simps)

text \<open>Handlers that may be registered for an event.\<close>

definition admissible :: "(string \<times> handler) list \<Rightarrow> bool" where
  "admissible hs \<longleftrightarrow> (\<forall>(t, h) \<in> set hs. hrank h \<le> rank t \<and> t \<noteq> ''newListener'' \<and> t \<noteq> ''removeListener'')"

lemma table_ok_register:
  assumes "table_ok w" "hrank h \<le> rank t" "t \<noteq> ''newListener''" "t \<noteq> ''removeListener''"
  shows "table_ok (register t (Plain h) w)"
  using assms by (auto simp: table_ok_def registry.ok_add quiet_register ranked_def registry.lst_add)

lemma table_ok_unregister: "table_ok w \<Longrightarrow> table_ok (unregister t w)"
  by (auto simp: table_ok_def registry.ok_clear quiet_unregister ranked_def registry.lst_clear split: if_splits)

lemma on_all_register:
  "table_ok w \<Longrightarrow> admissible hs \<Longrightarrow>
   \<exists>w'. on_all em hs w = Ret w' \<and> table_ok w' \<and> same_app w w' \<and>
     w' = registry.add_all (map (\<lambda>(t, h). (t, Plain h)) hs) w"
proof (induction hs arbitrary: w)
  case Nil
  then show ?case using same_app_refl by simp
next
  case (Cons p hs)
  obtain t h where p: "p = (t, h)" by (cases p)
  have "table_ok (register t (Plain h) w)" "admissible hs"
    using Cons.prems p by (auto simp: admissible_def intro: table_ok_register)
  from Cons.IH [OF this] obtain w' where
    "on_all em hs (register t (Plain h) w) = Ret w'" "table_ok w'" "same_app (register t (Plain h) w) w'"
    "w' = registry.add_all (map (\<lambda>(t, h). (t, Plain h)) hs) (register t (Plain h) w)"
    by blast
  then show ?case
    using p Cons.prems(1) same_app_trans [OF same_app_register]
    by (auto simp: addListener_quiet table_ok_def)
qed

lemma off_all_unregister:
  "table_ok w \<Longrightarrow>
   \<exists>w'. off_all em ts w = Ret w' \<and> table_ok w' \<and> same_app w w' \<and> w' = registry.clear_all ts w"
proof (induction ts arbitrary: w)
  case Nil
  then show ?case using same_app_refl by (simp add: registry.clear_all_def)
next
  case (Cons t ts)
  from Cons.IH [OF table_ok_unregister [OF Cons.prems, of t]] obtain w' where
    "off_all em ts (unregister t w) = Ret w'" "table_ok w'" "same_app (unregister t w) w'"
    "w' = registry.clear_all ts (unregister t w)"
    by blast
  then show ?case
    using Cons.prems same_app_trans [OF same_app_unregister]
    by (auto simp: removeAllListeners_quiet table_ok_def registry.clear_all_def)
qed

lemma on_all_keeps:
  assumes "world_ok w" "admissible hs"
  shows "keeps (post_of world_ok 0 w) (on_all em hs w)"
proof -
  have "table_ok w" using assms(1) by (simp add: world_ok_def)
  from on_all_register [OF this assms(2)] obtain w' where
    "on_all em hs w = Ret w'" "table_ok w'" "same_app w w'" by blast
  then show ?thesis using world_ok_same_app [OF assms(1)] by (simp add: post_of_def)
qed

lemma off_all_keeps:
  assumes "world_ok w"
  shows "keeps (post_of world_ok 0 w) (off_all em ts w)"
proof -
  have "table_ok w" using assms(1) by (simp add: world_ok_def)
  from off_all_unregister [OF this] obtain w' where
    "off_all em ts w = Ret w'" "table_ok w'" "same_app w w'" by blast
  then show ?thesis using world_ok_same_app [OF assms(1)] by (simp add: post_of_def)
qed


subsection \<open>Ranks of the events of the program\<close>

lemma rank_simps [simp]:
  "rank ''beforeShowSlide'' = 0" "rank ''afterShowSlide'' = 0" "rank ''beforeHideSlide'' = 0"
  "rank ''afterHideSlide'' = 0" "rank ''toggledPresenter'' = 0" "rank ''slideChanged'' = 0"
  "rank ''startTimer'' = 0" "rank ''pauseTimer'' = 0" "rank ''toggleTimer'' = 0" "rank ''resetTimer'' = 0"
  "rank ''forcePresenterMode'' = 0" "rank ''toggleHelp'' = 0" "rank ''toggleBlackout'' = 0"
  "rank ''toggleMirrored'' = 0" "rank ''hideOverlay'' = 0" "rank ''toggleFullscreen'' = 0"
  "rank ''createClone'' = 0" "rank ''propertiesChanged'' = 0" "rank ''resize'' = 0"
  "rank ''pause'' = 0" "rank ''resume'' = 0"
  "rank ''showSlide'' = 1" "rank ''hideSlide'' = 1" "rank ''start'' = 1" "rank ''togglePresenterMode'' = 1"
  "rank ''slidesChanged'' = 1"
  "rank ''gotoSlide'' = 2" "rank ''gotoSlideNumber'' = 2" "rank ''gotoPreviousSlide'' = 2"
  "rank ''gotoNextSlide'' = 2" "rank ''gotoFirstSlide'' = 2" "rank ''gotoLastSlide'' = 2" "rank ''tap'' = 2"
  by code_simp+

subsection \<open>Views\<close>

lemma valid_classes [simp]:
  "valid_class ''remark-visible''" "valid_class ''remark-fading''" "valid_class ''remark-container''"
  by code_simp+

lemma view_show_class [simp]: "\<not> is_fading (view_show v)" "is_visible (view_show v)"
  by (simp_all add: view_show_def classes.has_add classes.has_remove)

lemma view_hide_class [simp]: "is_fading (view_hide v)" "\<not> is_visible (view_hide v)"
  by (simp_all add: view_hide_def classes.has_add classes.has_remove)

lemma view_unfade_class [simp]: "\<not> is_fading (view_unfade v)" "is_visible (view_unfade v) = is_visible v"
  by (simp_all add: view_unfade_def classes.has_remove)

lemma new_view_class [simp]: "\<not> is_fading (new_view i s)" "\<not> is_visible (new_view i s)"
  by (simp_all add: new_view_def hasClass_def getClasses_def)

lemma length_filter_update: "\<not> P x \<Longrightarrow> length (filter P (xs[i := x])) \<le> length (filter P xs)"
proof (induction xs arbitrary: i)
  case (Cons y ys)
  show ?case
  proof (cases i)
    case (Suc j)
    then show ?thesis using Cons.IH [OF Cons.prems, of j] by simp
  qed (use Cons.prems in simp)
qed simp

lemma length_filter_update_le: "length (filter P (xs[i := x])) \<le> Suc (length (filter P xs))"
proof (induction xs arbitrary: i)
  case (Cons y ys)
  show ?case
  proof (cases i)
    case (Suc j)
    then show ?thesis using Cons.IH [of j] by simp
  qed simp
qed simp

lemma fading_ok_show: "fading_ok vs \<Longrightarrow> fading_ok (vs[i := view_show v])"
  using length_filter_update [of is_fading "view_show v" vs i] by (simp add: fading_ok_def)

lemma fading_ok_hide: "filter is_fading vs = [] \<Longrightarrow> fading_ok (vs[i := view_hide v])"
  using length_filter_update_le [of is_fading vs i "view_hide v"] by (simp add: fading_ok_def)

lemma fading_index:
  "map (\<lambda>j. vs ! j) (filter (\<lambda>j. is_fading (vs ! j)) [0 ..< length vs]) = filter is_fading vs"
  using filter_map [of is_fading "\<lambda>j. vs ! j" "[0 ..< length vs]"] by (simp add: map_nth o_def)

text \<open>When at most one element is fading, the loop over the live collection reaches it.\<close>

lemma unfade_loop_none: "filter is_fading vs = [] \<Longrightarrow> unfade_loop n k vs = vs"
proof (cases n)
  case (Suc m)
  assume "filter is_fading vs = []"
  then have "filter (\<lambda>j. is_fading (vs ! j)) [0 ..< length vs] = []"
    using fading_index [of vs] by simp
  then show ?thesis using Suc by simp
qed simp

lemma unfade_all_none:
  assumes "fading_ok vs"
  shows "filter is_fading (unfade_all vs) = []"
proof (cases "filter is_fading vs")
  case Nil
  then show ?thesis by (simp add: unfade_all_def unfade_loop_none)
next
  case (Cons v rest)
  let ?js = "filter (\<lambda>j. is_fading (vs ! j)) [0 ..< length vs]"
  have len: "length ?js = length (filter is_fading vs)"
    using arg_cong [OF fading_index [of vs], of length] by simp
  with Cons assms obtain j where js: "?js = [j]"
    by (cases ?js) (auto simp: fading_ok_def)
  then have "j \<in> set ?js" by simp
  then have j: "j < length vs" "is_fading (vs ! j)" by auto
  have only: "\<not> is_fading (vs ! i)" if "i < length vs" "i \<noteq> j" for i
  proof
    assume "is_fading (vs ! i)"
    then have "i \<in> set ?js" using that by simp
    with js that show False by simp
  qed
  obtain m where m: "length vs = Suc m" using j by (cases "length vs") auto
  have none: "filter is_fading (vs[j := view_unfade (vs ! j)]) = []"
    using only j(1) by (auto simp: filter_empty_conv in_set_conv_nth nth_list_update split: if_splits)
      (metis view_unfade_class(1))
  have "unfade_all vs = vs[j := view_unfade (vs ! j)]"
    using js none unfade_loop_none [of "vs[j := view_unfade (vs ! j)]" m 1]
    by (simp add: unfade_all_def m del: upt_Suc)
  then show ?thesis using none by simp
qed

lemma unfade_loop_visible:
  "length (unfade_loop n k vs) = length vs \<and>
   (\<forall>j < length vs. is_visible (unfade_loop n k vs ! j) = is_visible (vs ! j) \<and>
     v_slide (unfade_loop n k vs ! j) = v_slide (vs ! j) \<and> v_id (unfade_loop n k vs ! j) = v_id (vs ! j))"
proof (induction n arbitrary: k vs)
  case (Suc n)
  show ?case
  proof (cases "k < length (filter (\<lambda>j. is_fading (vs ! j)) [0 ..< length vs])")
    case True
    let ?i = "filter (\<lambda>j. is_fading (vs ! j)) [0 ..< length vs] ! k"
    have "?i \<in> set (filter (\<lambda>j. is_fading (vs ! j)) [0 ..< length vs])" using True by (rule nth_mem)
    then have "?i < length vs" by simp
    then show ?thesis
      using True Suc.IH [of "Suc k" "vs[?i := view_unfade (vs ! ?i)]"]
      by (auto simp: nth_list_update Let_def view_unfade_def classes.has_remove simp del: upt_Suc)
  qed (simp add: Let_def del: upt_Suc)
qed simp

lemmas unfade_all_visible = unfade_loop_visible [of "length vs" 0 vs for vs, folded unfade_all_def]


subsection \<open>Every handler keeps the invariant\<close>

lemma modes_ok_toggle: "modes_ok c \<Longrightarrow> m \<in> set mode_classes \<Longrightarrow> modes_ok (toggleClass c m)"
proof -
  assume ok: "modes_ok c" and m: "m \<in> set mode_classes"
  have "valid_class m" using m by (auto simp: mode_classes_def valid_class_def)
  then show ?thesis using ok by (auto simp: modes_ok_def intro: classes.single_toggle)
qed

lemma modes_ok_remove: "modes_ok c \<Longrightarrow> modes_ok (removeClass c m)"
  by (auto simp: modes_ok_def intro: classes.single_remove)

lemma mode_class_members [simp]:
  "''remark-presenter-mode'' \<in> set mode_classes" "''remark-help-mode'' \<in> set mode_classes"
  "''remark-blackout-mode'' \<in> set mode_classes" "''remark-mirrored-mode'' \<in> set mode_classes"
  "''remark-pause-mode'' \<in> set mode_classes"
  by (simp_all add: mode_classes_def)

lemma setPageOrientation_keeps: "world_ok w \<Longrightarrow> keeps (post_of world_ok 0 w) (setPageOrientation d w)"
  by (simp add: setPageOrientation_def world_simps)

lemma world_ok_class: "world_ok w \<Longrightarrow> modes_ok c \<Longrightarrow> world_ok (w\<lparr>w_class := c\<rparr>)"
  by (simp add: world_simps)

lemma keeps_from: "keeps (post_of P 1 u) r \<Longrightarrow> w_show u = w_show w \<Longrightarrow> keeps (post_of P 1 w) r"
  by (erule keeps_mono) (simp add: post_of_def)

lemma showSlide_keeps:
  assumes "world_ok w" "good_emit world_ok 1 em"
  shows "keeps (post_of world_ok 1 w) (showSlide em i w)"
  unfolding showSlide_def Let_def
proof (rule keeps_seq)
  show "keeps (post_of world_ok 1 w) (em ''beforeShowSlide'' (Args [case i of None \<Rightarrow> VNaN | Some n \<Rightarrow> VNum n]) w)"
    using assms by (intro good_emit_keeps) auto
next
  fix w' assume "post_of world_ok 1 w w'"
  then have ok: "world_ok w'" by (rule post_of_inv)
  show "keeps (post_of world_ok 1 w')
     (case Option.bind i (view_at (w_views w')) of None \<Rightarrow> Throw ''TypeError: slideView is undefined'' w'
      | Some v \<Rightarrow> em ''afterShowSlide'' (Args [case i of None \<Rightarrow> VNaN | Some n \<Rightarrow> VNum n])
          (w'\<lparr>w_views := (w_views w')[nat (the i) := view_show v], w_preview := view_at (w_views w') (the i + 1)\<rparr>))"
  proof (cases "Option.bind i (view_at (w_views w'))")
    case None
    then show ?thesis using ok by (simp add: post_of_self)
  next
    case (Some v)
    let ?w = "w'\<lparr>w_views := (w_views w')[nat (the i) := view_show v], w_preview := view_at (w_views w') (the i + 1)\<rparr>"
    have "world_ok ?w" using ok by (simp add: world_simps fading_ok_show)
    then have "keeps (post_of world_ok 1 ?w) (em ''afterShowSlide'' (Args [case i of None \<Rightarrow> VNaN | Some n \<Rightarrow> VNum n]) ?w)"
      using assms by (intro good_emit_keeps) auto
    then show ?thesis using Some by (auto simp: post_of_def elim!: keeps_mono)
  qed
qed

lemma hideSlide_keeps:
  assumes "world_ok w" "filter is_fading (w_views w) = []" "good_emit world_ok 1 em"
  shows "keeps (post_of world_ok 1 w) (hideSlide em i w)"
  unfolding hideSlide_def Let_def
proof (rule keeps_bind)
  show "keeps (post_of world_ok 0 w) (em ''beforeHideSlide'' (Args [case i of None \<Rightarrow> VNaN | Some n \<Rightarrow> VNum n]) w)"
    using good_emitD [OF assms(3), of "''beforeHideSlide''"] assms(1) by simp
next
  fix w' assume post: "post_of world_ok 0 w w'"
  then have ok: "world_ok w'" and views: "w_views w' = w_views w" by (simp_all add: post_of_def frame0_def)
  show "keeps (post_of world_ok 1 w)
     (case Option.bind i (view_at (w_views w')) of None \<Rightarrow> Throw ''TypeError: slideView is undefined'' w'
      | Some v \<Rightarrow> em ''afterHideSlide'' (Args [case i of None \<Rightarrow> VNaN | Some n \<Rightarrow> VNum n])
          (w'\<lparr>w_views := (w_views w')[nat (the i) := view_hide v], w_fades := w_fades w' @ [v_id v]\<rparr>))"
  proof (cases "Option.bind i (view_at (w_views w'))")
    case None
    then show ?thesis using post by (simp add: post_of_def)
  next
    case (Some v)
    let ?w = "w'\<lparr>w_views := (w_views w')[nat (the i) := view_hide v], w_fades := w_fades w' @ [v_id v]\<rparr>"
    have "world_ok ?w" using ok assms(2) views by (simp add: world_simps fading_ok_hide)
    then have "keeps (post_of world_ok 1 ?w) (em ''afterHideSlide'' (Args [case i of None \<Rightarrow> VNaN | Some n \<Rightarrow> VNum n]) ?w)"
      using assms by (intro good_emit_keeps) auto
    then show ?thesis using Some post by (auto simp: post_of_def elim!: keeps_mono)
  qed
qed (rule post_of_weaken)

lemma map2_new_view_fading: "filter is_fading (map2 new_view is ss) = []"
  by (auto simp: filter_empty_conv)

lemma updateSlideViews_keeps:
  assumes "world_ok w" "good_emit world_ok 1 em"
  shows "keeps (post_of world_ok 1 w) (updateSlideViews em w)"
proof -
  let ?ss = "getSlides (w_show w)"
  let ?w = "w\<lparr>w_nextView := w_nextView w + length ?ss\<rparr>"
  let ?vs = "map2 new_view [w_nextView w ..< w_nextView w + length ?ss] ?ss"
  have ok: "world_ok ?w" using assms(1) by (simp add: world_simps)
  have "keeps (post_of world_ok 0 ?w) (on_all em (map (\<lambda>s. (''propertiesChanged'', HRatioChanged)) ?ss) ?w)"
    by (rule on_all_keeps [OF ok]) (auto simp: admissible_def)
  then have "keeps (post_of world_ok 1 w) (on_all em (map (\<lambda>s. (''propertiesChanged'', HRatioChanged)) ?ss) ?w)"
    by (auto simp: post_of_def elim!: keeps_mono)
  then show ?thesis
    unfolding updateSlideViews_def Let_def
  proof (rule keeps_seq)
    fix w' assume "post_of world_ok 1 w w'"
    then have ok': "world_ok (w'\<lparr>w_views := ?vs\<rparr>)"
      using map2_new_view_fading by (auto simp: world_simps fading_ok_def)
    then show "keeps (post_of world_ok 1 w')
       (if w_cur (w'\<lparr>w_views := ?vs\<rparr>) > -1
        then showSlide em (Some (w_cur (w'\<lparr>w_views := ?vs\<rparr>))) (w'\<lparr>w_views := ?vs\<rparr>) else Ret (w'\<lparr>w_views := ?vs\<rparr>))"
      using keeps_from [OF showSlide_keeps [OF ok' assms(2)], of w'] by (simp add: post_of_def)
  qed
qed


lemma world_ok_post: "world_ok w \<Longrightarrow> world_ok (post m w) \<and> w_show (post m w) = w_show w \<and> frame0 w (post m w)"
  by (simp add: post_def world_simps Let_def)

lemma start_if_moved_keeps:
  assumes "world_ok w" "good_emit world_ok 2 em"
  shows "keeps (post_of world_ok 1 w) (start_if_moved em w)"
proof -
  have started: "post_of world_ok 1 u (u\<lparr>w_started := b\<rparr>)" if "world_ok u" for u b
    using that by (simp add: world_simps)
  have "keeps (post_of world_ok 1 w) (obind (em ''start'' (Args []) w) (\<lambda>w. Ret (w\<lparr>w_started := Some True\<rparr>)))"
  proof (rule keeps_seq)
    show "keeps (post_of world_ok 1 w) (em ''start'' (Args []) w)"
      using assms by (intro good_emit_keeps) auto
    show "keeps (post_of world_ok 1 w') (Ret (w'\<lparr>w_started := Some True\<rparr>))" if "post_of world_ok 1 w w'" for w'
      using started [OF post_of_inv [OF that]] by simp
  qed
  moreover have "keeps (post_of world_ok 1 w) (Ret (w\<lparr>w_started := Some False\<rparr>))"
    using started [OF assms(1)] by simp
  moreover have "keeps (post_of world_ok 1 w) (Ret w)"
    using assms(1) by (simp add: post_of_self)
  ultimately show ?thesis
    unfolding start_if_moved_def by (simp split: option.split bool.split)
qed

lemma change_slide_keeps:
  assumes em: "good_emit world_ok 2 em" and w': "post_of world_ok 1 w w'" and i: "\<not> slideOutOfRange w i"
  shows "keeps (post_of world_ok 1 w)
     (case i of
        None \<Rightarrow> Throw ''current slide index is NaN'' w'
      | Some n \<Rightarrow>
          obind (em ''slideChanged'' (Args [VNum (n + 1)]) (w'\<lparr>w_cur := n\<rparr>))
            (\<lambda>w. Ret (if nm then w else post (''gotoSlide:'' @ int_str (w_cur w + 1)) w)))"
proof (cases i)
  case None
  then show ?thesis using w' by simp
next
  case (Some n)
  have ok: "world_ok (w'\<lparr>w_cur := n\<rparr>)"
    using w' i Some by (auto simp: world_simps slideOutOfRange_def)
  have "keeps (post_of world_ok 1 (w'\<lparr>w_cur := n\<rparr>))
      (obind (em ''slideChanged'' (Args [VNum (n + 1)]) (w'\<lparr>w_cur := n\<rparr>))
        (\<lambda>w. Ret (if nm then w else post (''gotoSlide:'' @ int_str (w_cur w + 1)) w)))"
  proof (rule keeps_seq)
    show "keeps (post_of world_ok 1 (w'\<lparr>w_cur := n\<rparr>)) (em ''slideChanged'' (Args [VNum (n + 1)]) (w'\<lparr>w_cur := n\<rparr>))"
      by (rule good_emit_keeps [OF em _ ok]) simp
    show "keeps (post_of world_ok 1 u) (Ret (if nm then u else post (''gotoSlide:'' @ int_str (w_cur u + 1)) u))"
      if "post_of world_ok 1 (w'\<lparr>w_cur := n\<rparr>) u" for u
      using world_ok_post [OF post_of_inv [OF that]] post_of_inv [OF that] by (simp add: post_of_def)
  qed
  then have "keeps (post_of world_ok 1 w)
      (obind (em ''slideChanged'' (Args [VNum (n + 1)]) (w'\<lparr>w_cur := n\<rparr>))
        (\<lambda>w. Ret (if nm then w else post (''gotoSlide:'' @ int_str (w_cur w + 1)) w)))"
    by (rule keeps_from) (use w' in \<open>simp add: post_of_def\<close>)
  then show ?thesis using Some by simp
qed

lemma gotoSlideByIndex_keeps:
  assumes "world_ok w" "good_emit world_ok 2 em"
  shows "keeps (post_of world_ok 1 w) (gotoSlideByIndex em i nm w)"
proof (cases "i = Some (w_cur w) \<or> slideOutOfRange w i")
  case True
  then show ?thesis using assms(1) by (simp add: gotoSlideByIndex_def post_of_self)
next
  case False
  have "keeps (post_of world_ok 1 w) (if w_cur w \<noteq> -1 then em ''hideSlide'' (Args [VNum (w_cur w), VBool False]) w else Ret w)"
    using assms good_emit_keeps [OF assms(2), of "''hideSlide''" w] by (simp add: post_of_self)
  then have "keeps (post_of world_ok 1 w)
     (obind (if w_cur w \<noteq> -1 then em ''hideSlide'' (Args [VNum (w_cur w), VBool False]) w else Ret w)
        (\<lambda>w. obind (start_if_moved em w)
        (\<lambda>w. obind (em ''showSlide'' (Args [index_val i]) w)
        (\<lambda>w. case i of
           None \<Rightarrow> Throw ''current slide index is NaN'' w
         | Some n \<Rightarrow>
             obind (em ''slideChanged'' (Args [VNum (n + 1)]) (w\<lparr>w_cur := n\<rparr>))
             (\<lambda>w. Ret (if nm then w else post (''gotoSlide:'' @ int_str (w_cur w + 1)) w))))))"
  proof (rule keeps_bind)
    fix w1 assume w1: "post_of world_ok 1 w w1"
    have "keeps (post_of world_ok 1 w1) (start_if_moved em w1)"
      using post_of_inv [OF w1] assms(2) by (rule start_if_moved_keeps)
    then have "keeps (post_of world_ok 1 w) (start_if_moved em w1)"
      using w1 by (auto simp: post_of_def elim!: keeps_mono)
    then show "keeps (post_of world_ok 1 w)
       (obind (start_if_moved em w1)
        (\<lambda>w. obind (em ''showSlide'' (Args [index_val i]) w)
        (\<lambda>w. case i of
           None \<Rightarrow> Throw ''current slide index is NaN'' w
         | Some n \<Rightarrow>
             obind (em ''slideChanged'' (Args [VNum (n + 1)]) (w\<lparr>w_cur := n\<rparr>))
             (\<lambda>w. Ret (if nm then w else post (''gotoSlide:'' @ int_str (w_cur w + 1)) w)))))"
    proof (rule keeps_bind)
      fix w2 assume w2: "post_of world_ok 1 w w2"
      have "keeps (post_of world_ok 1 w2) (em ''showSlide'' (Args [index_val i]) w2)"
        using post_of_inv [OF w2] assms(2) by (intro good_emit_keeps) auto
      then have "keeps (post_of world_ok 1 w) (em ''showSlide'' (Args [index_val i]) w2)"
        using w2 by (auto simp: post_of_def elim!: keeps_mono)
      then show "keeps (post_of world_ok 1 w)
         (obind (em ''showSlide'' (Args [index_val i]) w2)
          (\<lambda>w. case i of
             None \<Rightarrow> Throw ''current slide index is NaN'' w
           | Some n \<Rightarrow>
               obind (em ''slideChanged'' (Args [VNum (n + 1)]) (w\<lparr>w_cur := n\<rparr>))
               (\<lambda>w. Ret (if nm then w else post (''gotoSlide:'' @ int_str (w_cur w + 1)) w))))"
      proof (rule keeps_bind)
        fix w3 assume "post_of world_ok 1 w w3"
        from change_slide_keeps [OF assms(2) this] False
        show "keeps (post_of world_ok 1 w)
           (case i of
              None \<Rightarrow> Throw ''current slide index is NaN'' w3
            | Some n \<Rightarrow>
                obind (em ''slideChanged'' (Args [VNum (n + 1)]) (w3\<lparr>w_cur := n\<rparr>))
                (\<lambda>w. Ret (if nm then w else post (''gotoSlide:'' @ int_str (w_cur w + 1)) w)))"
          by blast
      qed
    qed
  qed
  then show ?thesis using False by (simp add: gotoSlideByIndex_def)
qed

lemma gotoSlide_keeps:
  assumes "world_ok w" "good_emit world_ok 2 em"
  shows "keeps (post_of world_ok 1 w) (gotoSlide em v nm w)"
proof -
  have *: "keeps (post_of world_ok 1 w') (gotoSlideByIndex em i nm w')" if "world_ok w'" for w' i
    using that assms(2) by (rule gotoSlideByIndex_keeps)
  have "keeps (post_of world_ok 1 w) (obind (em ''forcePresenterMode'' (Args []) w) (gotoSlideByIndex em i nm))" for i
    using assms by (intro keeps_seq good_emit_keeps *) (auto dest: post_of_inv)
  then show ?thesis
    using assms(1) * by (auto simp: gotoSlide_def getSlideIndex_def post_of_self split: option.split val.split lookup_result.split)
qed

lemma gotoSlideNumber_keeps:
  assumes "world_ok w" "good_emit world_ok 2 em"
  shows "keeps (post_of world_ok 1 w) (gotoSlideNumber em v nm w)"
  using assms(1) gotoSlideByIndex_keeps [OF assms]
  by (auto simp: gotoSlideNumber_def Let_def post_of_self split: option.split sum.split list.split)


subsection \<open>Handlers of rank 0\<close>

lemma keeps_Ret0: "world_ok w' \<Longrightarrow> w_show w' = w_show w \<Longrightarrow> frame0 w w' \<Longrightarrow> keeps (post_of world_ok 0 w) (Ret w')"
  by (simp add: post_of_def)

lemma keeps_seq0:
  "keeps (post_of P 0 w) r \<Longrightarrow> (\<And>w'. post_of P 0 w w' \<Longrightarrow> keeps (post_of P 0 w') (k w')) \<Longrightarrow>
   keeps (post_of P 0 w) (obind r k)"
  by (erule keeps_bind) (auto intro: keeps_mono post_of_trans)

lemma keeps_from0:
  "keeps (post_of P 0 u) r \<Longrightarrow> w_show u = w_show w \<Longrightarrow> frame0 w u \<Longrightarrow> keeps (post_of P 0 w) r"
  by (erule keeps_mono) (auto simp: post_of_def intro: frame0_trans)

lemma admissible_inputs:
  "admissible keyboard_handlers" "admissible (mouse_handlers no)" "admissible (touch_handlers r)"
  by (auto simp: admissible_def keyboard_handlers_def mouse_handlers_def touch_handlers_def rank_def)

lemma controller_pause_keeps: "world_ok w \<Longrightarrow> keeps (post_of world_ok 0 w) (controller_pause em w)"
  unfolding controller_pause_def keyboard_deactivate_def mouse_unregister_def touch_unregister_def
  by (intro keeps_seq0 off_all_keeps) (auto dest: post_of_inv)

lemma keyboard_activate_keeps:
  assumes "world_ok w"
  shows "keeps (post_of world_ok 0 w) (keyboard_activate em w)"
proof -
  let ?w = "w\<lparr>w_gotoNumber := []\<rparr>"
  have "world_ok ?w" using assms by (simp add: world_simps)
  from on_all_keeps [OF this admissible_inputs(1), of em] show ?thesis
    unfolding keyboard_activate_def by (rule keeps_from0) (simp_all add: frame0_def)
qed

lemma touch_register_keeps:
  assumes "world_ok w"
  shows "keeps (post_of world_ok 0 w) (touch_register em w)"
proof -
  let ?w = "w\<lparr>w_nextTouch := Suc (w_nextTouch w), w_touches := (w_touches w)(w_nextTouch w := (None, None))\<rparr>"
  have "world_ok ?w" using assms by (simp add: world_simps)
  from on_all_keeps [OF this admissible_inputs(3), of em] have
    "keeps (post_of world_ok 0 w) (on_all em (touch_handlers (w_nextTouch w)) ?w)"
    by (rule keeps_from0) (simp_all add: frame0_def)
  then show ?thesis
    using assms by (simp add: touch_register_def post_of_self)
qed

lemma controller_resume_keeps: "world_ok w \<Longrightarrow> keeps (post_of world_ok 0 w) (controller_resume em w)"
  unfolding controller_resume_def
  by (intro keeps_seq0 keyboard_activate_keeps on_all_keeps touch_register_keeps admissible_inputs)
    (auto dest: post_of_inv)

lemma forcePresenter_keeps:
  assumes "world_ok w"
  shows "keeps (post_of world_ok 0 w) (forcePresenter w)"
proof -
  let ?w = "w\<lparr>w_class := toggleClass (w_class w) ''remark-presenter-mode''\<rparr>"
  have "world_ok ?w"
    using assms by (intro world_ok_class modes_ok_toggle) (auto simp: world_ok_def)
  from setPageOrientation_keeps [OF this, of "''landscape''"] have
    "keeps (post_of world_ok 0 w) (setPageOrientation ''landscape'' ?w)"
    by (rule keeps_from0) (simp_all add: frame0_def)
  then show ?thesis using assms by (simp add: forcePresenter_def post_of_self)
qed

lemma toggle_mode_keeps:
  "world_ok w \<Longrightarrow> m \<in> set mode_classes \<Longrightarrow> keeps (post_of world_ok 0 w) (Ret (toggle_mode m w))"
  unfolding toggle_mode_def
  by (rule keeps_Ret0 [OF world_ok_class]) (auto simp: frame0_def world_ok_def modes_ok_toggle)

lemma world_ok_updateHash: "world_ok w \<Longrightarrow> world_ok (updateHash v w)"
  by (simp add: updateHash_def world_simps)

lemma world_ok_toggleFullscreen: "world_ok w \<Longrightarrow> world_ok (toggleFullscreen w)"
  by (simp add: toggleFullscreen_def world_simps)

lemma world_ok_createClone: "world_ok w \<Longrightarrow> world_ok (createClone w)"
  by (simp add: createClone_def world_simps)

lemma world_ok_forward: "world_ok w \<Longrightarrow> world_ok (forward_event n v w)"
  by (simp add: forward_event_def world_simps)

lemma world_ok_timer: "world_ok w \<Longrightarrow> world_ok (w\<lparr>w_timer := t\<rparr>)"
  by (simp add: world_simps)

lemma world_ok_started: "world_ok w \<Longrightarrow> world_ok (w\<lparr>w_started := b\<rparr>)"
  by (simp add: world_simps)

lemma world_ok_hideOverlay: "world_ok w \<Longrightarrow> world_ok (hideOverlay w)"
  unfolding hideOverlay_def by (intro world_ok_class modes_ok_remove) (auto simp: world_ok_def)

lemma handle_rank0:
  assumes "world_ok w" "hrank h = 0"
  shows "keeps (post_of world_ok 0 w) (handle em h as w)"
proof (cases h)
  case HPropagateBlackout
  then show ?thesis
    using assms(1) world_ok_post [OF assms(1)] by (simp add: propagateBlackout_def post_of_self) (simp add: post_of_def)
next
  case HRatioChanged
  then show ?thesis
    using assms(1) by (simp add: bad_event_def post_of_self split: option.split val.split)
next
  case HForcePresenterMode
  then show ?thesis using forcePresenter_keeps [OF assms(1)] by simp
next
  case HControllerPause
  then show ?thesis using controller_pause_keeps [OF assms(1)] by simp
next
  case HControllerResume
  then show ?thesis using controller_resume_keeps [OF assms(1)] by simp
next
  case (HForward n)
  then show ?thesis using world_ok_forward [OF assms(1)] by (simp add: post_of_def frame0_def forward_event_def)
next
  case HNavCreateClone
  then show ?thesis using world_ok_createClone [OF assms(1)] by (simp add: post_of_def frame0_def createClone_def)
next
  case HNavResetTimer
  then show ?thesis using world_ok_started [OF assms(1)] by (simp add: post_of_def frame0_def)
next
  case HResize
  then show ?thesis using assms(1) by (simp add: post_of_self)
next
  case HTimerReset
  then show ?thesis using assms(1) world_ok_timer [OF assms(1)] by (simp add: post_of_def frame0_def)
next
  case HHideOverlay
  then show ?thesis using world_ok_hideOverlay [OF assms(1)] by (simp add: post_of_def frame0_def hideOverlay_def)
next
  case HToggleFullscreen
  then show ?thesis using world_ok_toggleFullscreen [OF assms(1)] by (simp add: post_of_def frame0_def toggleFullscreen_def)
next
  case HUpdateHash
  then show ?thesis using world_ok_updateHash [OF assms(1)] by (simp add: post_of_def frame0_def updateHash_def)
qed (use assms toggle_mode_keeps [OF assms(1)] world_ok_timer [OF assms(1)] in
      \<open>simp_all only: hrank.simps handle.simps mode_class_members zero_neq_numeral One_nat_def nat.simps
         keeps.simps post_of_def frame0_def\<close>, simp_all)


subsection \<open>Handlers of higher rank\<close>

lemma em_keeps: "good_emit world_ok k em \<Longrightarrow> rank t < k \<Longrightarrow> world_ok w \<Longrightarrow> keeps (post_of world_ok 1 w) (em t as w)"
  by (rule good_emit_keeps)

lemma keydown_keeps:
  assumes "world_ok w" "good_emit world_ok 3 em"
  shows "keeps (post_of world_ok 1 w) (keydown em e w)"
proof -
  have go: "keeps (post_of world_ok 1 w) (em t as w)" if "rank t < 3" for t as
    using em_keeps [OF assms(2) that assms(1)] .
  have "keeps (post_of world_ok 1 w)
      (obind (em ''gotoSlideNumber'' (Args [VStr (w_gotoNumber w)]) w) (\<lambda>w. Ret (w\<lparr>w_gotoNumber := []\<rparr>)))"
  proof (rule keeps_seq [OF go])
    fix w' assume "post_of world_ok 1 w w'"
    then show "keeps (post_of world_ok 1 w') (Ret (w'\<lparr>w_gotoNumber := []\<rparr>))" by (auto simp: world_simps)
  qed simp
  moreover have "keeps (post_of world_ok 1 w) (Ret w)" using assms(1) by (simp add: post_of_self)
  ultimately show ?thesis
    unfolding keydown_def by (simp add: go del: One_nat_def)
qed

lemma keypress_rank: "map_of keypress_events c = Some t \<Longrightarrow> rank t < 3"
  by (drule map_of_SomeD) (auto simp: keypress_events_def)

lemma world_ok_prevent: "world_ok w \<Longrightarrow> post_of world_ok 1 w (preventDefault w)"
  by (simp add: preventDefault_def world_simps)

lemma keypress_keeps:
  assumes "world_ok w" "good_emit world_ok 3 em"
  shows "keeps (post_of world_ok 1 w) (keypress em e w)"
proof -
  let ?key = "char_lower (char_of (k_which e))"
  have "keeps (post_of world_ok 1 w) (obind (em t (Args []) w) (\<lambda>w. Ret (preventDefault w)))"
    if "map_of keypress_events ?key = Some t" for t
    using em_keeps [OF assms(2) keypress_rank [OF that] assms(1)]
    by (rule keeps_seq) (auto simp del: One_nat_def dest: post_of_inv intro: world_ok_prevent)
  moreover have "post_of world_ok 1 w (preventDefault (w\<lparr>w_gotoNumber := w_gotoNumber w @ [?key]\<rparr>))"
    using assms(1) by (simp add: preventDefault_def world_simps)
  ultimately show ?thesis
    using assms(1) by (auto simp: keypress_def Let_def post_of_self split: option.split)
qed

lemma touchend_keeps:
  assumes "world_ok w" "good_emit world_ok 3 em"
  shows "keeps (post_of world_ok 1 w) (touchend em r n xs w)"
proof -
  have "keeps (post_of world_ok 1 w) (em t as (w\<lparr>w_touches := f\<rparr>))" if "rank t < 3" for t as f
  proof -
    have "world_ok (w\<lparr>w_touches := f\<rparr>)" using assms(1) by (simp add: world_simps)
    from em_keeps [OF assms(2) that this] show ?thesis by (rule keeps_from) simp
  qed
  then show ?thesis
    using assms(1) by (auto simp: touchend_def Let_def post_of_self split: list.split option.split)
qed

lemma keeps_weaken: "keeps (post_of P k w) r \<Longrightarrow> keeps (post_of P 1 w) r"
  by (erule keeps_mono) (rule post_of_weaken)

lemma togglePresenter_keeps:
  assumes "world_ok w" "good_emit world_ok 1 em"
  shows "keeps (post_of world_ok 1 w) (togglePresenter em w)"
proof -
  let ?w = "w\<lparr>w_class := toggleClass (w_class w) ''remark-presenter-mode''\<rparr>"
  have "world_ok ?w"
    using assms by (intro world_ok_class modes_ok_toggle) (auto simp: world_ok_def)
  then have "keeps (post_of world_ok 1 ?w) (em ''toggledPresenter'' (Args [VNum (w_cur w + 1)]) ?w)"
    using assms(2) by (intro em_keeps) auto
  then have "keeps (post_of world_ok 1 w) (em ''toggledPresenter'' (Args [VNum (w_cur w + 1)]) ?w)"
    by (rule keeps_from) simp
  then show ?thesis
    unfolding togglePresenter_def
    by (rule keeps_seq) (rule keeps_weaken [OF setPageOrientation_keeps [OF post_of_inv]])
qed

lemma handle_rank1:
  assumes "world_ok w" "good_emit world_ok 1 em" "hrank h = 1"
  shows "keeps (post_of world_ok 1 w) (handle em h as w)"
proof (cases h)
  case HNavSlidesChanged
  then show ?thesis using assms(1) by (simp add: nav_slidesChanged_def world_simps)
next
  case HNotesShowSlide
  then show ?thesis using assms(1) by (simp add: notes_showSlide_def world_simps split: option.split)
next
  case HTimerStartOnChange
  then show ?thesis using assms em_keeps [OF assms(2) _ assms(1)] by (simp add: post_of_self)
next
  case HViewSlidesChanged
  then show ?thesis using updateSlideViews_keeps [OF assms(1,2)] by simp
next
  case HViewHideSlide
  let ?w = "w\<lparr>w_views := unfade_all (w_views w)\<rparr>"
  have none: "filter is_fading (w_views ?w) = []"
    using assms(1) by (simp add: unfade_all_none world_ok_def)
  have "world_ok ?w" using assms(1) unfade_all_none by (simp add: world_simps fading_ok_def)
  from keeps_from [OF hideSlide_keeps [OF this none assms(2)], of w] HViewHideSlide show ?thesis by simp
next
  case HViewShowSlide
  then show ?thesis using showSlide_keeps [OF assms(1,2)] by simp
next
  case HTogglePresenterMode
  then show ?thesis using togglePresenter_keeps [OF assms(1,2)] by simp
qed (use assms(3) in simp_all)

lemma handle_rank2:
  assumes "world_ok w" "good_emit world_ok 2 em" "hrank h = 2"
  shows "keeps (post_of world_ok 1 w) (handle em h as w)"
proof -
  note go = gotoSlideByIndex_keeps [OF assms(1,2)] gotoSlide_keeps [OF assms(1,2)]
    gotoSlideNumber_keeps [OF assms(1,2)]
  show ?thesis
  proof (cases h)
    case HTap
    then show ?thesis
      using go assms(1) by (simp add: tap_def bad_event_def post_of_self split: option.split val.split)
  qed (use assms(3) go in simp_all)
qed

lemma handle_rank3:
  assumes "world_ok w" "good_emit world_ok 3 em" "hrank h = 3"
  shows "keeps (post_of world_ok 1 w) (handle em h as w)"
proof -
  have go: "keeps (post_of world_ok 1 w) (em t as w)" if "rank t < 3" for t as
    using em_keeps [OF assms(2) that assms(1)] .
  have prev: "world_ok (preventDefault w)" "w_show (preventDefault w) = w_show w"
    using world_ok_prevent [OF assms(1)] by (simp_all add: post_of_def)
  have bad: "keeps (post_of world_ok 1 w) (bad_event w)" "keeps (post_of world_ok 1 w) (Ret w)"
    using assms(1) by (simp_all add: bad_event_def post_of_self)
  show ?thesis
  proof (cases h)
    case HKeydown
    then show ?thesis using keydown_keeps [OF assms(1,2)] bad by (simp split: option.split val.split)
  next
    case HKeypress
    then show ?thesis using keypress_keeps [OF assms(1,2)] bad by (simp split: option.split val.split)
  next
    case HMessage
    then show ?thesis using go bad by (simp add: navigateByMessage_def split: option.split val.split)
  next
    case HNavigateByHash
    then show ?thesis using go by (simp add: navigateByHash_def)
  next
    case HClick
    then show ?thesis using go bad by (simp add: click_def split: option.split val.split)
  next
    case HContextmenu
    have "keeps (post_of world_ok 1 w) (em ''gotoPreviousSlide'' (Args []) (preventDefault w))"
      by (rule keeps_from [OF em_keeps [OF assms(2) _ prev(1)]]) (simp_all add: prev)
    then show ?thesis using HContextmenu bad by (simp add: contextmenu_def split: option.split val.split)
  next
    case HScroll
    then show ?thesis using go bad by (simp add: scrollHandler_def split: option.split val.split)
  next
    case (HTouchstart r)
    have "post_of world_ok 1 w (w\<lparr>w_touches := f\<rparr>)" for f
      using assms(1) by (simp add: world_simps)
    then show ?thesis
      using HTouchstart bad assms(1) by (simp add: touchstart_def post_of_self split: option.split val.split list.split)
  next
    case (HTouchend r)
    then show ?thesis using touchend_keeps [OF assms(1,2)] bad by (simp split: option.split val.split)
  next
    case HTouchmove
    then show ?thesis using world_ok_prevent [OF assms(1)] bad by (simp split: option.split val.split)
  qed (use assms(3) in simp_all)
qed

lemma hrank_cases: "hrank h = 0 \<or> hrank h = 1 \<or> hrank h = 2 \<or> hrank h = 3"
  by (cases h) simp_all

interpretation world_inv: world_invariant world_ok
proof unfold_locales
  show "\<exists>h. f = Plain h \<and> hrank h \<le> rank t" if "world_ok w" "f \<in> set (listeners w t)" for w f t
    using that by (auto simp: world_ok_def table_ok_def ranked_def)
  show "keeps (post_of world_ok (hrank h) w) (handle em h as w)"
    if "world_ok w" "good_emit world_ok (hrank h) em" for w h em as
    using hrank_cases [of h] handle_rank0 [OF that(1)] handle_rank1 [OF that(1)] handle_rank2 [OF that(1)]
      handle_rank3 [OF that(1)] that(2) post_of_pos [of "hrank h" world_ok]
    by (elim disjE) (simp_all only: zero_less_one zero_less_numeral)
qed

end
