(* ===== verification/Remark_Reach.thy ===== *)
theory Remark_Reach
  imports Remark_Invariants
begin

text \<open>
  The worlds a slideshow can be in: the state after \<open>remark.create\<close>, and every state
  reached from it by events of the browser or of the API (also when a handler throws), by
  timeouts and timer ticks, by loading another source that is long enough for the current
  slide, and by what happens outside the page (the address changes, the clone window is
  closed, the clock advances).
\<close>

subsection \<open>Creation\<close>

text \<open>The state before \<open>create\<close>: a fresh emitter, no slides, nothing shown; options, the
  container and the browser are arbitrary.\<close>

definition initial :: "world \<Rightarrow> bool" where
  "initial w \<longleftrightarrow>
     em_events w = [] \<and> em_arrays w = [] \<and> w_show w = init_show \<and> w_cur w = -1 \<and> w_started w = None \<and>
     w_clone w = NoClone \<and> w_views w = [] \<and> w_fades w = [] \<and> w_orientation w = [] \<and>
     (\<forall>m \<in> set mode_classes. \<not> hasClass (w_class w) m)"

lemma table_ok_maxListeners [simp]: "table_ok (w\<lparr>em_maxListeners := m\<rparr>) = table_ok w"
  by (rule table_ok_cong) simp_all

lemma world_ok_initial: "initial w \<Longrightarrow> world_ok w"
  by (auto simp: initial_def world_simps table_ok_def em_ok_def quiet_def ranked_def listeners_def show_ok_init
      getSlideCount_def fading_ok_def modes_ok_def intro: classes.single_absent)

lemma admissible_constant:
  "admissible slideshow_handlers" "admissible timer_handlers" "admissible view_handlers"
  "admissible [(''message'', HMessage)]"
  "admissible [(''pause'', HControllerPause), (''resume'', HControllerResume)]"
  "admissible [(''hashchange'', HNavigateByHash), (''slideChanged'', HUpdateHash), (''toggledPresenter'', HUpdateHash)]"
  "admissible [(''propertiesChanged'', HRatioChanged), (''tap'', HTap), (''showSlide'', HNotesShowSlide),
     (''propertiesChanged'', HRatioChanged), (''resize'', HResize)]"
  by (auto simp: admissible_def slideshow_handlers_def forwarded_events_def navigation_handlers_def
      timer_handlers_def view_handlers_def) (simp_all add: rank_def)

lemma admissible_append: "admissible xs \<Longrightarrow> admissible ys \<Longrightarrow> admissible (xs @ ys)"
  by (auto simp: admissible_def)

lemma on_all_keeps1: "world_ok w \<Longrightarrow> admissible hs \<Longrightarrow> keeps (post_of world_ok 1 w) (on_all em hs w)"
  by (rule keeps_weaken [OF on_all_keeps])

lemma world_ok_configure: "world_ok w \<Longrightarrow> world_ok (configureContainerElement w)"
proof -
  assume ok: "world_ok w"
  have "''remark-container'' \<notin> set mode_classes" by (simp add: mode_classes_def)
  then have "modes_ok (addClass (w_class w) ''remark-container'')"
    using ok by (auto simp: world_ok_def modes_ok_def intro!: classes.single_add)
  then show ?thesis using ok by (simp add: configureContainerElement_def world_simps)
qed

lemma SlideshowView_keeps:
  assumes "world_ok w" "good_emit world_ok 1 em"
  shows "keeps (post_of world_ok 1 w) (SlideshowView em topts w)"
  unfolding SlideshowView_def
proof (rule keeps_seq)
  show "keeps (post_of world_ok 1 w)
     (on_all em [(''propertiesChanged'', HRatioChanged), (''tap'', HTap), (''showSlide'', HNotesShowSlide),
       (''propertiesChanged'', HRatioChanged), (''resize'', HResize)] (configureContainerElement w))"
    by (rule keeps_from [OF on_all_keeps1 [OF world_ok_configure [OF assms(1)] admissible_constant(7)]])
      (simp add: configureContainerElement_def)
next
  fix w1 assume w1: "post_of world_ok 1 w w1"
  show "keeps (post_of world_ok 1 w1)
     (obind (setPageOrientation ''landscape'' w1)
       (\<lambda>w. obind (updateSlideViews em w)
         (\<lambda>w. on_all em (timer_handlers @ view_handlers) (w\<lparr>w_timer := TimerViewModel (w_now w) topts\<rparr>))))"
  proof (rule keeps_seq [OF keeps_weaken [OF setPageOrientation_keeps [OF post_of_inv [OF w1]]]], rule keeps_seq)
    fix w2 assume "post_of world_ok 1 w1 w2"
    then show "keeps (post_of world_ok 1 w2) (updateSlideViews em w2)"
      by (intro updateSlideViews_keeps assms(2)) (rule post_of_inv)
  next
    fix w2 w3 assume "post_of world_ok 1 w2 w3"
    then have ok: "world_ok (w3\<lparr>w_timer := TimerViewModel (w_now w3) topts\<rparr>)"
      by (intro world_ok_timer) (rule post_of_inv)
    show "keeps (post_of world_ok 1 w3)
       (on_all em (timer_handlers @ view_handlers) (w3\<lparr>w_timer := TimerViewModel (w_now w3) topts\<rparr>))"
      by (rule keeps_from [OF on_all_keeps1 [OF ok admissible_append [OF admissible_constant(2,3)]]]) simp
  qed
qed

lemma location_register_keeps:
  assumes "world_ok w" "good_emit world_ok 3 em"
  shows "keeps (post_of world_ok 1 w) (location_register em w)"
proof -
  have "keeps (post_of world_ok 1 w) (em ''gotoSlide'' (Args [VNum 1]) w)"
    using assms by (intro em_keeps) auto
  moreover have "keeps (post_of world_ok 1 w)
     (obind (on_all em [(''hashchange'', HNavigateByHash), (''slideChanged'', HUpdateHash),
        (''toggledPresenter'', HUpdateHash)] w) (navigateByHash em))"
  proof (rule keeps_seq [OF on_all_keeps1 [OF assms(1) admissible_constant(6)]])
    fix w' assume "post_of world_ok 1 w w'"
    then show "keeps (post_of world_ok 1 w') (navigateByHash em w')"
      unfolding navigateByHash_def using assms(2) by (intro em_keeps) (auto dest: post_of_inv)
  qed
  ultimately show ?thesis by (simp add: location_register_def)
qed

lemma Controller_keeps:
  assumes "world_ok w" "good_emit world_ok 3 em"
  shows "keeps (post_of world_ok 1 w) (Controller em w)"
  unfolding Controller_def
  by (intro keeps_seq keeps_weaken [OF keyboard_activate_keeps] keeps_weaken [OF touch_register_keeps]
      location_register_keeps on_all_keeps1 admissible_inputs admissible_constant assms)
    (auto dest: post_of_inv)

theorem Api_create_keeps:
  assumes "initial w" "show_ok sd"
  shows "keeps world_ok (Api_create (emitW 4) (Some (Inr sd)) topts w)"
proof -
  let ?em = "emitW 4"
  have em: "good_emit world_ok k ?em" if "k \<le> 4" for k
    by (rule good_emit_mono [OF world_inv.good_emitW that])
  let ?w = "w\<lparr>em_maxListeners := Some 0\<rparr>"
  have ok: "world_ok ?w" using world_ok_initial [OF assms(1)] by (simp add: world_simps)
  have "keeps (\<lambda>w'. world_ok w' \<and> w_cur w' = -1) (on_all ?em slideshow_handlers ?w)"
    by (rule keeps_mono [OF on_all_keeps [OF ok admissible_constant(1)]])
      (use assms(1) in \<open>simp add: post_of_def frame0_def initial_def\<close>)
  then have "keeps world_ok
     (obind (on_all ?em slideshow_handlers ?w)
       (\<lambda>w. obind (load ?em (Some (Inr sd)) w) (\<lambda>w. obind (SlideshowView ?em topts w) (Controller ?em))))"
  proof (rule keeps_bind)
    fix w1 assume w1: "world_ok w1 \<and> w_cur w1 = -1"
    then have "world_ok (w1\<lparr>w_show := sd\<rparr>)" using assms(2) by (simp add: world_simps)
    then have "keeps (post_of world_ok 1 (w1\<lparr>w_show := sd\<rparr>)) (load ?em (Some (Inr sd)) w1)"
      using em_keeps [OF em, of 4 "''slidesChanged''"] by (simp add: load_def)
    then have "keeps (post_of world_ok 1 (w1\<lparr>w_show := sd\<rparr>))
       (obind (load ?em (Some (Inr sd)) w1) (\<lambda>w. obind (SlideshowView ?em topts w) (Controller ?em)))"
      by (intro keeps_seq SlideshowView_keeps Controller_keeps em) (auto dest: post_of_inv)
    then show "keeps world_ok
       (obind (load ?em (Some (Inr sd)) w1) (\<lambda>w. obind (SlideshowView ?em topts w) (Controller ?em)))"
      by (rule keeps_mono) (rule post_of_inv)
  qed simp
  then show ?thesis by (simp add: Api_create_def setMaxListeners_def)
qed


subsection \<open>Reachable worlds\<close>

text \<open>The world an operation leaves behind, whether it returns or throws.\<close>

fun left_by :: "world outcome \<Rightarrow> world \<Rightarrow> bool" where
  "left_by (Ret w) w' = (w' = w)"
| "left_by (Throw e w) w' = (w' = w)"
| "left_by Timeout w' = False"

lemma keeps_left_by: "keeps P r \<Longrightarrow> left_by r w \<Longrightarrow> P w"
  by (cases r) auto

definition timer_interval :: "world \<Rightarrow> world" where
  "timer_interval w = w\<lparr>w_timer := timer_tick (w_now w) (w_timer w)\<rparr>"

inductive reachable :: "world \<Rightarrow> bool" where
  created: "initial w \<Longrightarrow> show_ok sd \<Longrightarrow> left_by (Api_create (emitW 4) (Some (Inr sd)) topts w) w' \<Longrightarrow> reachable w'"
| event: "reachable w \<Longrightarrow> left_by (emitW 4 t as w) w' \<Longrightarrow> reachable w'"
| fade: "reachable w \<Longrightarrow> i \<in> set (w_fades w) \<Longrightarrow> reachable (fade_timeout i w)"
| interval: "reachable w \<Longrightarrow> reachable (timer_interval w)"
| clock: "reachable w \<Longrightarrow> reachable (w\<lparr>w_now := now\<rparr>)"
| address: "reachable w \<Longrightarrow> reachable (w\<lparr>w_hash := h\<rparr>)"
| clone_closed: "reachable w \<Longrightarrow> w_clone w = CloneWin False \<Longrightarrow> reachable (w\<lparr>w_clone := CloneWin True\<rparr>)"
| loaded: "reachable w \<Longrightarrow> show_ok sd \<Longrightarrow> w_cur w < int (getSlideCount sd) \<Longrightarrow>
    left_by (load (emitW 4) (Some (Inr sd)) w) w' \<Longrightarrow> reachable w'"

inductive_cases reachable_cases: "reachable w"

lemma fading_ok_fade_timeout:
  "fading_ok vs \<Longrightarrow> fading_ok (map (\<lambda>v. if v_id v = i then view_unfade v else v) vs)"
proof -
  have "length (filter is_fading (map (\<lambda>v. if v_id v = i then view_unfade v else v) vs)) \<le> length (filter is_fading vs)"
    by (induction vs) auto
  then show "fading_ok vs \<Longrightarrow> fading_ok (map (\<lambda>v. if v_id v = i then view_unfade v else v) vs)"
    by (simp add: fading_ok_def)
qed

lemma load_keeps:
  assumes "world_ok w" "show_ok sd" "w_cur w < int (getSlideCount sd)"
  shows "keeps world_ok (load (emitW 4) (Some (Inr sd)) w)"
proof -
  have "world_ok (w\<lparr>w_show := sd\<rparr>)" using assms by (simp add: world_simps)
  then have "keeps (post_of world_ok 1 (w\<lparr>w_show := sd\<rparr>)) (load (emitW 4) (Some (Inr sd)) w)"
    using em_keeps [OF world_inv.good_emitW, of "''slidesChanged''" 4] by (simp add: load_def)
  then show ?thesis by (rule keeps_mono) (rule post_of_inv)
qed

theorem reachable_ok: "reachable w \<Longrightarrow> world_ok w"
proof (induction rule: reachable.induct)
  case (created w sd topts w')
  then show ?case using keeps_left_by [OF Api_create_keeps] by blast
next
  case (event w t as w')
  have "rank t < 4" using rank_le_3 [of t] by simp
  from keeps_left_by [OF world_inv.emitW_keeps [OF this event.IH] event.hyps(2)] show ?case
    by (rule post_of_inv)
next
  case (fade w i)
  then show ?case by (simp add: fade_timeout_def world_simps fading_ok_fade_timeout)
next
  case (interval w)
  then show ?case unfolding timer_interval_def by (intro world_ok_timer)
next
  case (loaded w sd w')
  then show ?case using keeps_left_by [OF load_keeps] by blast
qed (simp_all add: world_simps)

end
