(* ===== verification/Remark_Navigation.thy ===== *)
theory Remark_Navigation
  imports Remark_Reach
begin

text \<open>
  What navigation does in a slideshow whose view and controller are connected
  (\<open>wired\<close>): the events of one slide change are executed one by one, and the result is
  stated over the visible slides, the notes, the preview and the address.
\<close>

subsection \<open>Updates that leave the listeners alone\<close>

lemma listeners_cong:
  assumes "em_events w' = em_events w" "em_arrays w' = em_arrays w"
  shows "listeners w' t = listeners w t"
proof -
  have "arr w' a = arr w a" for a using assms by (simp add: arr_def)
  then show ?thesis using assms by (simp add: listeners_def split: option.split hnd.split)
qed

lemma listeners_update [simp]:
  "listeners (w\<lparr>w_cur := a\<rparr>) t = listeners w t" "listeners (w\<lparr>w_started := b\<rparr>) t = listeners w t"
  "listeners (w\<lparr>w_views := c\<rparr>) t = listeners w t" "listeners (w\<lparr>w_fades := d\<rparr>) t = listeners w t"
  "listeners (w\<lparr>w_preview := e\<rparr>) t = listeners w t" "listeners (w\<lparr>w_notes := f\<rparr>) t = listeners w t"
  "listeners (w\<lparr>w_notesPreview := f\<rparr>) t = listeners w t" "listeners (w\<lparr>w_external := g\<rparr>) t = listeners w t"
  "listeners (w\<lparr>w_hash := h\<rparr>) t = listeners w t" "listeners (w\<lparr>w_timer := i\<rparr>) t = listeners w t"
  "listeners (w\<lparr>w_posted := j\<rparr>) t = listeners w t" "listeners (w\<lparr>w_show := k\<rparr>) t = listeners w t"
  by (rule listeners_cong; simp)+

subsection \<open>Connected worlds\<close>

definition wiring :: "(string \<times> handler list) list" where
  "wiring =
     [(''gotoSlide'', [HGotoSlide]),
      (''slidesChanged'', [HNavSlidesChanged, HViewSlidesChanged]),
      (''hideSlide'', [HForward ''hideSlide'', HViewHideSlide]),
      (''beforeHideSlide'', [HForward ''beforeHideSlide'']),
      (''afterHideSlide'', [HForward ''afterHideSlide'']),
      (''showSlide'', [HForward ''showSlide'', HNotesShowSlide, HViewShowSlide]),
      (''beforeShowSlide'', [HForward ''beforeShowSlide'']),
      (''afterShowSlide'', [HForward ''afterShowSlide'']),
      (''start'', [HTimerStartOnChange]),
      (''startTimer'', [HTimerStart]),
      (''slideChanged'', [HUpdateHash]),
      (''togglePresenterMode'', [HTogglePresenterMode]),
      (''toggledPresenter'', [HForward ''toggledPresenter'', HUpdateHash])]"

definition wired :: "world \<Rightarrow> bool" where
  "wired w \<longleftrightarrow> list_all (\<lambda>(t, hs). listeners w t = map Plain hs) wiring"

lemma wiredD: "wired w \<Longrightarrow> (t, hs) \<in> set wiring \<Longrightarrow> listeners w t = map Plain hs"
  by (auto simp: wired_def list_all_iff)

lemma wired_cong: "(\<And>t. listeners w' t = listeners w t) \<Longrightarrow> wired w' = wired w"
  by (simp add: wired_def)

lemma wired_update [simp]:
  "wired (w\<lparr>w_cur := a\<rparr>) = wired w" "wired (w\<lparr>w_started := b\<rparr>) = wired w"
  "wired (w\<lparr>w_views := c\<rparr>) = wired w" "wired (w\<lparr>w_fades := d\<rparr>) = wired w"
  "wired (w\<lparr>w_preview := e\<rparr>) = wired w" "wired (w\<lparr>w_notes := f\<rparr>) = wired w"
  "wired (w\<lparr>w_notesPreview := f\<rparr>) = wired w" "wired (w\<lparr>w_external := g\<rparr>) = wired w"
  "wired (w\<lparr>w_hash := h\<rparr>) = wired w" "wired (w\<lparr>w_timer := i\<rparr>) = wired w"
  "wired (w\<lparr>w_posted := j\<rparr>) = wired w"
  by (rule wired_cong; simp)+

lemma emitW_wired:
  assumes "wired w" "(t, hs) \<in> set wiring"
  shows "emitW (Suc n) t as w = foldl (\<lambda>r h. obind r (handle (emitW n) h as)) (Ret w) hs"
proof -
  have "t \<noteq> ''error''" using assms(2) by (auto simp: wiring_def)
  then show ?thesis using emit_Plain [OF wiredD [OF assms]] by simp
qed

lemma emitW_forward:
  assumes "wired w" "t \<in> {''beforeHideSlide'', ''afterHideSlide'', ''beforeShowSlide'', ''afterShowSlide''}"
  shows "emitW (Suc n) t as w = Ret (forward_event t (arg as 0) w)"
proof -
  have "(t, [HForward t]) \<in> set wiring" using assms(2) by (auto simp: wiring_def)
  from emitW_wired [OF assms(1) this] show ?thesis by simp
qed

lemma forward_frame [simp]:
  "w_views (forward_event t v w) = w_views w" "w_show (forward_event t v w) = w_show w"
  "w_cur (forward_event t v w) = w_cur w" "w_fades (forward_event t v w) = w_fades w"
  "w_notes (forward_event t v w) = w_notes w" "w_notesPreview (forward_event t v w) = w_notesPreview w"
  "w_preview (forward_event t v w) = w_preview w" "w_started (forward_event t v w) = w_started w"
  "w_class (forward_event t v w) = w_class w" "w_hash (forward_event t v w) = w_hash w"
  "wired (forward_event t v w) = wired w"
  by (simp_all add: forward_event_def)

subsection \<open>Hiding and showing\<close>

text \<open>The part of the world the theorems speak about.\<close>

definition shown :: "view list \<Rightarrow> int \<Rightarrow> bool" where
  "shown vs i \<longleftrightarrow> (\<forall>j < length vs. is_visible (vs ! j) \<longleftrightarrow> int j = i)"

definition same_slides :: "view list \<Rightarrow> view list \<Rightarrow> bool" where
  "same_slides vs vs' \<longleftrightarrow> map v_slide vs' = map v_slide vs"

lemma unfade_all_same: "same_slides vs (unfade_all vs)" "length (unfade_all vs) = length vs"
  using unfade_all_visible [of vs] by (auto simp: same_slides_def intro!: nth_equalityI)

lemma same_slides_update:
  "k < length vs \<Longrightarrow> v_slide x = v_slide (vs ! k) \<Longrightarrow> same_slides vs (vs[k := x])"
  by (auto simp: same_slides_def nth_list_update intro!: nth_equalityI)

lemma same_slides_trans: "same_slides us vs \<Longrightarrow> same_slides vs ws \<Longrightarrow> same_slides us ws"
  by (simp add: same_slides_def)

lemma hide_effect:
  assumes "wired w" "shown (w_views w) c" "0 \<le> c" "c < int (length (w_views w))"
  shows "\<exists>w'. emitW (Suc (Suc n)) ''hideSlide'' (Args [VNum c, b]) w = Ret w' \<and> wired w' \<and>
    shown (w_views w') (-1) \<and> same_slides (w_views w) (w_views w') \<and> w_show w' = w_show w \<and> w_cur w' = w_cur w \<and>
    w_started w' = w_started w \<and> w_class w' = w_class w"
proof -
  let ?vs = "unfade_all (w_views w)"
  let ?w1 = "(forward_event ''hideSlide'' (Some (VNum c)) w)\<lparr>w_views := ?vs\<rparr>"
  let ?w2 = "forward_event ''beforeHideSlide'' (Some (VNum c)) ?w1"
  let ?w3 = "?w2\<lparr>w_views := ?vs[nat c := view_hide (?vs ! nat c)], w_fades := w_fades w @ [v_id (?vs ! nat c)]\<rparr>"
  have len: "nat c < length ?vs" using assms(3,4) unfade_all_same(2) by simp
  have "(''hideSlide'', [HForward ''hideSlide'', HViewHideSlide]) \<in> set wiring" by (simp add: wiring_def)
  from emitW_wired [OF assms(1) this] have
    "emitW (Suc (Suc n)) ''hideSlide'' (Args [VNum c, b]) w = hideSlide (emitW (Suc n)) (Some c) ?w1"
    by simp
  also have "\<dots> = Ret (forward_event ''afterHideSlide'' (Some (VNum c)) ?w3)"
    using assms(1,3) len by (simp add: hideSlide_def emitW_forward view_at_def Let_def del: emitW.simps)
  finally have "emitW (Suc (Suc n)) ''hideSlide'' (Args [VNum c, b]) w = \<dots>" .
  moreover have "shown (w_views ?w3) (-1)"
    using assms(2,3) unfade_all_visible [of "w_views w"] len
    by (auto simp: shown_def nth_list_update)
  moreover have "same_slides (w_views w) (w_views ?w3)"
    using same_slides_trans [OF unfade_all_same(1) same_slides_update [OF len, of "view_hide (?vs ! nat c)"]]
    by (simp add: view_hide_def)
  ultimately show ?thesis using assms(1) by simp
qed


lemma show_effect:
  assumes "wired w" "shown (w_views w) (-1)" "0 \<le> i" "i < int (length (w_views w))"
  shows "\<exists>w'. emitW (Suc (Suc n)) ''showSlide'' (Args [VNum i]) w = Ret w' \<and> wired w' \<and>
    shown (w_views w') i \<and> same_slides (w_views w) (w_views w') \<and> w_show w' = w_show w \<and> w_cur w' = w_cur w \<and>
    w_class w' = w_class w \<and>
    w_notes w' = Some (s_notes (v_slide (w_views w ! nat i))) \<and>
    w_preview w' = view_at (w_views w) (i + 1)"
proof -
  let ?vs = "w_views w"
  let ?w1 = "(forward_event ''showSlide'' (Some (VNum i)) w)\<lparr>w_notes := Some (s_notes (v_slide (?vs ! nat i))),
      w_notesPreview := map_option (\<lambda>v. s_notes (v_slide v)) (view_at ?vs (i + 1))\<rparr>"
  let ?w2 = "(forward_event ''beforeShowSlide'' (Some (VNum i)) ?w1)\<lparr>w_views := ?vs[nat i := view_show (?vs ! nat i)],
      w_preview := view_at ?vs (i + 1)\<rparr>"
  have len: "nat i < length ?vs" using assms(3,4) by simp
  have "(''showSlide'', [HForward ''showSlide'', HNotesShowSlide, HViewShowSlide]) \<in> set wiring"
    by (simp add: wiring_def)
  from emitW_wired [OF assms(1) this] have
    "emitW (Suc (Suc n)) ''showSlide'' (Args [VNum i]) w = showSlide (emitW (Suc n)) (Some i) ?w1"
    using assms(3) len by (simp add: notes_showSlide_def view_at_def)
  also have "\<dots> = Ret (forward_event ''afterShowSlide'' (Some (VNum i)) ?w2)"
    using assms(1,3) len by (simp add: showSlide_def emitW_forward view_at_def Let_def del: emitW.simps)
  finally have "emitW (Suc (Suc n)) ''showSlide'' (Args [VNum i]) w = \<dots>" .
  moreover have "shown (w_views ?w2) i"
    using assms(2,3) len by (auto simp: shown_def nth_list_update)
  moreover have "same_slides ?vs (w_views ?w2)"
    using same_slides_update [OF len, of "view_show (?vs ! nat i)"] by (simp add: view_show_def)
  ultimately show ?thesis using assms(1) by simp
qed

lemma start_effect:
  assumes "wired w"
  shows "\<exists>w'. start_if_moved (emitW (Suc (Suc n))) w = Ret w' \<and> wired w' \<and> w_views w' = w_views w \<and>
    w_show w' = w_show w \<and> w_cur w' = w_cur w \<and> w_class w' = w_class w"
proof -
  have wiring: "(''start'', [HTimerStartOnChange]) \<in> set wiring" "(''startTimer'', [HTimerStart]) \<in> set wiring"
    by (simp_all add: wiring_def)
  have "emitW (Suc (Suc n)) ''start'' (Args []) w =
      Ret (if to_startOnChange (t_options (w_timer w)) then w\<lparr>w_timer := timer_start (w_timer w)\<rparr> else w)"
    using emitW_wired [OF assms wiring(1)] emitW_wired [OF assms wiring(2)] by (simp del: emitW.simps)
  then show ?thesis
    using assms unfolding start_if_moved_def by (auto split: option.split bool.split simp del: emitW.simps)
qed

lemma slideChanged_effect:
  assumes "wired w"
  shows "emitW (Suc n) ''slideChanged'' (Args [VNum k]) w = Ret (updateHash (Some (VNum k)) w)"
proof -
  have "(''slideChanged'', [HUpdateHash]) \<in> set wiring" by (simp add: wiring_def)
  from emitW_wired [OF assms this] show ?thesis by simp
qed

lemma post_frame [simp]:
  "w_views (post m w) = w_views w" "w_show (post m w) = w_show w" "w_cur (post m w) = w_cur w"
  "w_class (post m w) = w_class w" "w_hash (post m w) = w_hash w" "w_notes (post m w) = w_notes w"
  "w_preview (post m w) = w_preview w" "wired (post m w) = wired w"
  by (simp_all add: post_def Let_def)

lemma updateHash_frame [simp]:
  "w_views (updateHash v w) = w_views w" "w_show (updateHash v w) = w_show w" "w_cur (updateHash v w) = w_cur w"
  "w_class (updateHash v w) = w_class w" "w_notes (updateHash v w) = w_notes w"
  "w_preview (updateHash v w) = w_preview w" "wired (updateHash v w) = wired w"
  by (simp_all add: updateHash_def)

subsection \<open>Changing the slide\<close>

text \<open>The views show the slides of the slideshow, and exactly the current one is visible.\<close>

definition synced :: "world \<Rightarrow> bool" where
  "synced w \<longleftrightarrow> map v_slide (w_views w) = getSlides (w_show w) \<and> shown (w_views w) (w_cur w) \<and>
     -1 \<le> w_cur w \<and> w_cur w < int (getSlideCount (w_show w))"

lemma synced_length: "synced w \<Longrightarrow> length (w_views w) = getSlideCount (w_show w)"
  by (drule arg_cong [of "map v_slide (w_views w)" _ length, OF conjunct1 [OF iffD1 [OF synced_def]]])
    (simp add: getSlides_def getSlideCount_def)

definition hash_of :: "world \<Rightarrow> int \<Rightarrow> string" where
  "hash_of w k = (if hasClass (w_class w) ''remark-presenter-mode'' then ''#p'' else ''#'') @ int_str k"

lemma gotoSlideByIndex_effect:
  assumes "wired w" "synced w" "0 \<le> i" "i < int (getSlideCount (w_show w))" "i \<noteq> w_cur w"
  shows "\<exists>w'. gotoSlideByIndex (emitW (Suc (Suc n))) (Some i) nm w = Ret w' \<and> wired w' \<and> synced w' \<and>
    w_cur w' = i \<and> w_show w' = w_show w \<and> w_hash w' = hash_of w (i + 1) \<and>
    w_notes w' = Some (s_notes (getSlides (w_show w) ! nat i)) \<and>
    map_option v_slide (w_preview w') =
      (if i + 1 < int (getSlideCount (w_show w)) then Some (getSlides (w_show w) ! nat (i + 1)) else None)"
proof -
  let ?em = "emitW (Suc (Suc n))"
  have len: "length (w_views w) = getSlideCount (w_show w)" by (rule synced_length [OF assms(2)])
  have slides: "map v_slide (w_views w) = getSlides (w_show w)" and vis: "shown (w_views w) (w_cur w)"
    and cur: "-1 \<le> w_cur w" "w_cur w < int (getSlideCount (w_show w))"
    using assms(2) by (simp_all add: synced_def)
  obtain w1 where w1: "(if w_cur w \<noteq> -1 then ?em ''hideSlide'' (Args [VNum (w_cur w), VBool False]) w else Ret w) = Ret w1"
    "wired w1" "shown (w_views w1) (-1)" "same_slides (w_views w) (w_views w1)" "w_show w1 = w_show w"
    "w_cur w1 = w_cur w" "w_class w1 = w_class w"
    using hide_effect [OF assms(1) vis, of n "VBool False"] cur len assms(1) vis
    by (cases "w_cur w = -1") (auto simp: same_slides_def)
  obtain w2 where w2: "start_if_moved ?em w1 = Ret w2" "wired w2" "w_views w2 = w_views w1" "w_show w2 = w_show w1"
    "w_cur w2 = w_cur w1" "w_class w2 = w_class w1"
    using start_effect [OF w1(2), of n] by blast
  have len2: "length (w_views w2) = getSlideCount (w_show w)"
    using w1(4) w2(3) len arg_cong [of _ _ length] unfolding same_slides_def by (metis length_map)
  obtain w3 where w3: "?em ''showSlide'' (Args [VNum i]) w2 = Ret w3" "wired w3" "shown (w_views w3) i"
    "same_slides (w_views w2) (w_views w3)" "w_show w3 = w_show w2" "w_class w3 = w_class w2"
    "w_notes w3 = Some (s_notes (v_slide (w_views w2 ! nat i)))" "w_preview w3 = view_at (w_views w2) (i + 1)"
    using show_effect [OF w2(2), of i n] w1(3) w2(3) assms(3,4) len2 by auto
  let ?w4 = "updateHash (Some (VNum (i + 1))) (w3\<lparr>w_cur := i\<rparr>)"
  let ?w5 = "if nm then ?w4 else post (''gotoSlide:'' @ int_str (i + 1)) ?w4"
  have "gotoSlideByIndex ?em (Some i) nm w = Ret ?w5"
    using assms(3-5) w1(1) w2(1) w3(1,2)
    by (simp add: gotoSlideByIndex_def slideOutOfRange_def index_val_def slideChanged_effect del: emitW.simps)
  moreover have nth: "v_slide (w_views w2 ! j) = getSlides (w_show w) ! j" if "j < length (w_views w2)" for j
    using w1(4) w2(3) slides that unfolding same_slides_def by (metis nth_map)
  have "map v_slide (w_views w3) = getSlides (w_show w)"
    using w3(4) w2(3) w1(4) slides by (simp add: same_slides_def)
  then have "synced ?w5"
    using w3 w2 w1 assms(3,4) by (auto simp: synced_def)
  moreover have "w_notes ?w5 = Some (s_notes (getSlides (w_show w) ! nat i))"
    using w3(7) nth [of "nat i"] len2 assms(3,4) by auto
  moreover have "map_option v_slide (w_preview ?w5) =
      (if i + 1 < int (getSlideCount (w_show w)) then Some (getSlides (w_show w) ! nat (i + 1)) else None)"
    using w3(8) nth [of "nat (i + 1)"] len2 assms(3) by (auto simp: view_at_def)
  moreover have "w_hash ?w5 = hash_of w (i + 1)"
    using w3(6) w2(6) w1(7) by (simp add: updateHash_def hash_of_def)
  ultimately show ?thesis using w3 w2 w1 by (intro exI [of _ ?w5]) auto
qed


subsection \<open>Creation connects the components\<close>

text \<open>Registration with its effect on the listeners.\<close>

abbreviation handlers_for :: "string \<Rightarrow> (string \<times> handler) list \<Rightarrow> handler list" where
  "handlers_for t hs \<equiv> map snd (filter (\<lambda>p. fst p = t) hs)"

lemma on_all_listeners:
  assumes "table_ok w" "admissible hs"
  shows "\<exists>w'. on_all em hs w = Ret w' \<and> table_ok w' \<and> same_app w w' \<and>
    (\<forall>t. listeners w' t = listeners w t @ map Plain (handlers_for t hs))"
proof -
  from on_all_register [OF assms] obtain w' where w': "on_all em hs w = Ret w'" "table_ok w'" "same_app w w'"
    "w' = registry.add_all (map (\<lambda>(t, h). (t, Plain h)) hs) w"
    by blast
  have "listeners w' t = listeners w t @ map Plain (handlers_for t hs)" for t
    using assms(1) unfolding w'(4)
    by (subst registry.lst_add_all) (simp_all add: table_ok_def filter_map o_def case_prod_unfold)
  with w' show ?thesis by blast
qed

lemma same_app_frame:
  assumes "same_app w w'"
  shows "w_show w' = w_show w" "w_cur w' = w_cur w" "w_views w' = w_views w" "w_hash w' = w_hash w"
    "w_class w' = w_class w" "w_embedded w' = w_embedded w" "w_nav w' = w_nav w" "w_nextView w' = w_nextView w"
    "w_notes w' = w_notes w" "w_preview w' = w_preview w" "w_now w' = w_now w" "w_nextTouch w' = w_nextTouch w"
  using assms by (auto simp: same_app_def)

text \<open>All handlers that are registered before the first navigation.\<close>

definition startup_handlers :: "nat \<Rightarrow> (string \<times> handler) list" where
  "startup_handlers n =
     slideshow_handlers @
     [(''propertiesChanged'', HRatioChanged), (''tap'', HTap), (''showSlide'', HNotesShowSlide),
      (''propertiesChanged'', HRatioChanged), (''resize'', HResize)] @
     replicate n (''propertiesChanged'', HRatioChanged) @ (timer_handlers @ view_handlers) @ keyboard_handlers @
     [(''message'', HMessage)] @
     [(''hashchange'', HNavigateByHash), (''slideChanged'', HUpdateHash), (''toggledPresenter'', HUpdateHash)]"

lemma startup_wiring_0:
  "list_all (\<lambda>(t, hs). handlers_for t (startup_handlers 0) = hs \<and> t \<noteq> ''propertiesChanged'') wiring"
  by code_simp

lemma startup_wiring: "(t, hs) \<in> set wiring \<Longrightarrow> handlers_for t (startup_handlers n) = hs"
proof -
  assume "(t, hs) \<in> set wiring"
  with startup_wiring_0 have "handlers_for t (startup_handlers 0) = hs" "t \<noteq> ''propertiesChanged''"
    by (auto simp: list_all_iff)
  then have none: "filter (\<lambda>p. fst p = t) (replicate k (''propertiesChanged'', HRatioChanged)) = []" for k
    by (simp add: filter_empty_conv)
  have "filter (\<lambda>p. fst p = t) (startup_handlers n) = filter (\<lambda>p. fst p = t) (startup_handlers 0)"
    unfolding startup_handlers_def filter_append none ..
  with \<open>handlers_for t (startup_handlers 0) = hs\<close> show ?thesis by simp
qed

lemma wired_startup:
  assumes "\<And>t. listeners w t = map Plain (handlers_for t (startup_handlers n))"
  shows "wired w"
  unfolding wired_def list_all_iff
proof (clarify)
  fix t hs assume "(t, hs) \<in> set wiring"
  from startup_wiring [OF this, of n] show "listeners w t = map Plain hs" using assms [of t] by simp
qed

lemma load_effect:
  assumes "w_cur w = -1" "listeners w ''slidesChanged'' = [Plain HNavSlidesChanged]"
  shows "load (emitW (Suc n)) (Some (Inr sd)) w = Ret (w\<lparr>w_show := sd\<rparr>)"
proof -
  have "listeners (w\<lparr>w_show := sd\<rparr>) ''slidesChanged'' = map Plain [HNavSlidesChanged]"
    using assms(2) by simp
  from emit_Plain [OF this, of "emitW n" "handle (emitW n)" "Args []"] assms(1) show ?thesis
    by (simp add: load_def nav_slidesChanged_def)
qed

lemma updateSlideViews_effect:
  assumes "table_ok w" "w_cur w = -1"
  shows "\<exists>w'. updateSlideViews em w = Ret w' \<and> table_ok w' \<and> w_show w' = w_show w \<and> w_cur w' = -1 \<and>
    map v_slide (w_views w') = getSlides (w_show w) \<and> shown (w_views w') (-1) \<and> w_hash w' = w_hash w \<and>
    w_embedded w' = w_embedded w \<and>
    (\<forall>t. listeners w' t = listeners w t @
       map Plain (handlers_for t (replicate (length (getSlides (w_show w))) (''propertiesChanged'', HRatioChanged))))"
proof -
  let ?ss = "getSlides (w_show w)"
  let ?hs = "map (\<lambda>s. (''propertiesChanged'', HRatioChanged)) ?ss"
  let ?vs = "map2 new_view [w_nextView w ..< w_nextView w + length ?ss] ?ss"
  have hs: "?hs = replicate (length ?ss) (''propertiesChanged'', HRatioChanged)"
    by (simp add: map_replicate_const)
  have "table_ok (w\<lparr>w_nextView := w_nextView w + length ?ss\<rparr>)" using assms(1) by simp
  from on_all_listeners [OF this, of ?hs em] obtain w1 where w1: "on_all em ?hs (w\<lparr>w_nextView := w_nextView w + length ?ss\<rparr>) = Ret w1"
    "table_ok w1" "same_app (w\<lparr>w_nextView := w_nextView w + length ?ss\<rparr>) w1"
    "\<forall>t. listeners w1 t = listeners (w\<lparr>w_nextView := w_nextView w + length ?ss\<rparr>) t @ map Plain (handlers_for t ?hs)"
    by (auto simp: admissible_def)
  have l: "listeners (w\<lparr>w_nextView := k\<rparr>) t = listeners w t" for t k by (rule listeners_cong) simp_all
  have "map v_slide ?vs = ?ss"
    by (auto simp: new_view_def intro!: nth_equalityI)
  moreover have "shown ?vs (-1)" by (simp add: shown_def)
  moreover have "updateSlideViews em w = Ret (w1\<lparr>w_views := ?vs\<rparr>)"
    using w1(1) same_app_frame(2) [OF w1(3)] assms(2) by (simp add: updateSlideViews_def Let_def)
  ultimately show ?thesis
    using w1 same_app_frame [OF w1(3)] assms(2) l hs by (intro exI [of _ "w1\<lparr>w_views := ?vs\<rparr>"]) simp
qed


lemma setup_view:
  assumes "table_ok w" "w_cur w = -1"
    and "\<And>t. listeners w t = map Plain (handlers_for t slideshow_handlers)"
  shows "\<exists>w'. SlideshowView em topts w = Ret w' \<and> table_ok w' \<and> w_show w' = w_show w \<and> w_cur w' = -1 \<and>
    map v_slide (w_views w') = getSlides (w_show w) \<and> shown (w_views w') (-1) \<and> w_hash w' = w_hash w \<and>
    w_embedded w' = w_embedded w \<and>
    (\<forall>t. listeners w' t = map Plain (handlers_for t (slideshow_handlers @
       [(''propertiesChanged'', HRatioChanged), (''tap'', HTap), (''showSlide'', HNotesShowSlide),
        (''propertiesChanged'', HRatioChanged), (''resize'', HResize)] @
       replicate (length (getSlides (w_show w))) (''propertiesChanged'', HRatioChanged) @ timer_handlers @ view_handlers)))"
proof -
  let ?w0 = "configureContainerElement w"
  have 0: "table_ok ?w0" "listeners ?w0 t = listeners w t" "w_cur ?w0 = -1" "w_show ?w0 = w_show w" "w_hash ?w0 = w_hash w"
    "w_embedded ?w0 = w_embedded w" for t
    using assms(1,2) by (auto simp: configureContainerElement_def intro: listeners_cong)
  from on_all_listeners [OF 0(1) admissible_constant(7), of em] obtain w1 where
    1: "on_all em [(''propertiesChanged'', HRatioChanged), (''tap'', HTap), (''showSlide'', HNotesShowSlide),
        (''propertiesChanged'', HRatioChanged), (''resize'', HResize)] ?w0 = Ret w1" "table_ok w1" "same_app ?w0 w1"
    "\<forall>t. listeners w1 t = listeners ?w0 t @ map Plain (handlers_for t [(''propertiesChanged'', HRatioChanged),
        (''tap'', HTap), (''showSlide'', HNotesShowSlide), (''propertiesChanged'', HRatioChanged), (''resize'', HResize)])"
    by blast
  let ?w2 = "w1\<lparr>w_pageHeight := PAGE_HEIGHT, w_pageWidth := PAGE_WIDTH, w_orientation := ''landscape''\<rparr>"
  have 2: "setPageOrientation ''landscape'' w1 = Ret ?w2" "table_ok ?w2" "listeners ?w2 t = listeners w1 t" for t
    using 1(2) by (auto simp: setPageOrientation_def intro: listeners_cong)
  have "w_cur ?w2 = -1" using same_app_frame(2) [OF 1(3)] 0(3) by simp
  from updateSlideViews_effect [OF 2(2) this, of em] obtain w3 where
    3: "updateSlideViews em ?w2 = Ret w3" "table_ok w3" "w_show w3 = w_show ?w2" "w_cur w3 = -1"
    "map v_slide (w_views w3) = getSlides (w_show ?w2)" "shown (w_views w3) (-1)" "w_hash w3 = w_hash ?w2"
    "w_embedded w3 = w_embedded ?w2"
    "\<forall>t. listeners w3 t = listeners ?w2 t @ map Plain (handlers_for t
        (replicate (length (getSlides (w_show ?w2))) (''propertiesChanged'', HRatioChanged)))"
    by blast
  let ?w4 = "w3\<lparr>w_timer := TimerViewModel (w_now w3) topts\<rparr>"
  have "table_ok ?w4" using 3(2) by simp
  from on_all_listeners [OF this admissible_append [OF admissible_constant(2,3)], of em] obtain w5 where
    5: "on_all em (timer_handlers @ view_handlers) ?w4 = Ret w5" "table_ok w5" "same_app ?w4 w5"
    "\<forall>t. listeners w5 t = listeners ?w4 t @ map Plain (handlers_for t (timer_handlers @ view_handlers))"
    by blast
  have "w_show w1 = w_show w" "w_hash w1 = w_hash w" "w_embedded w1 = w_embedded w"
    using same_app_frame [OF 1(3)] 0 by simp_all
  moreover have "SlideshowView em topts w = Ret w5"
    using 1(1) 2(1) 3(1) 5(1) by (simp add: SlideshowView_def)
  ultimately show ?thesis
    using 5 3 2(3) 1(4) 0(2) assms(3) same_app_frame [OF 5(3)] by (intro exI [of _ w5]) simp
qed


lemma gotoSlide_effect:
  assumes "wired w" "synced w" "1 \<le> k" "k \<le> int (getSlideCount (w_show w))" "k - 1 \<noteq> w_cur w"
    and "v = VNum k \<or> v = VStr (int_str k)"
  shows "\<exists>w'. emitW 4 ''gotoSlide'' (Args [v]) w = Ret w' \<and> wired w' \<and> synced w' \<and>
    w_cur w' = k - 1 \<and> w_show w' = w_show w \<and> w_hash w' = hash_of w k \<and>
    w_notes w' = Some (s_notes (getSlides (w_show w) ! nat (k - 1))) \<and>
    map_option v_slide (w_preview w') =
      (if k < int (getSlideCount (w_show w)) then Some (getSlides (w_show w) ! nat k) else None)"
proof -
  have "(''gotoSlide'', [HGotoSlide]) \<in> set wiring" by (simp add: wiring_def)
  from emitW_wired [OF assms(1) this, of 3 "Args [v]"] have
    "emitW 4 ''gotoSlide'' (Args [v]) w = gotoSlide (emitW 3) (Some v) False w"
    by (simp add: numeral_eq_Suc del: emitW.simps)
  also have "\<dots> = gotoSlideByIndex (emitW 3) (Some (k - 1)) False w"
    using assms(6) by (auto simp: gotoSlide_def getSlideIndex_def parseInt_int_str)
  finally have eq: "emitW 4 ''gotoSlide'' (Args [v]) w = gotoSlideByIndex (emitW (Suc (Suc 1))) (Some (k - 1)) False w"
    by (simp add: numeral_eq_Suc)
  show ?thesis
    unfolding eq
    by (rule gotoSlideByIndex_effect [OF assms(1,2), of "k - 1" 1 False, unfolded diff_add_cancel])
      (use assms(3-5) in simp_all)
qed

lemma wired_register:
  assumes "wired w" "table_ok w" "admissible hs" "\<forall>p \<in> set hs. fst p \<notin> fst ` set wiring"
  shows "\<exists>w'. on_all em hs w = Ret w' \<and> table_ok w' \<and> same_app w w' \<and> wired w'"
proof -
  from on_all_listeners [OF assms(2,3), of em] obtain w' where w': "on_all em hs w = Ret w'" "table_ok w'" "same_app w w'"
    "\<forall>t. listeners w' t = listeners w t @ map Plain (handlers_for t hs)" by blast
  have "handlers_for t hs = []" if "(t, hs') \<in> set wiring" for t hs'
    using assms(4) that by (force simp: filter_empty_conv)
  then have "wired w'"
    using assms(1) w'(4) by (auto simp: wired_def list_all_iff)
  with w' show ?thesis by blast
qed

lemma synced_same_app: "same_app w w' \<Longrightarrow> synced w' = synced w"
  by (simp add: synced_def same_app_frame)

lemma inputs_not_wired:
  "\<forall>p \<in> set (mouse_handlers no). fst p \<notin> fst ` set wiring" "\<forall>p \<in> set (touch_handlers r). fst p \<notin> fst ` set wiring"
  "\<forall>p \<in> set [(''pause'', HControllerPause), (''resume'', HControllerResume)]. fst p \<notin> fst ` set wiring"
  by (auto simp: mouse_handlers_def touch_handlers_def wiring_def)

lemma touch_register_wired:
  assumes "wired w" "table_ok w"
  shows "\<exists>w'. touch_register em w = Ret w' \<and> wired w' \<and> table_ok w' \<and> synced w' = synced w \<and> w_cur w' = w_cur w \<and>
    w_show w' = w_show w \<and> w_hash w' = w_hash w"
proof (cases "no_touch (w_nav w)")
  case True
  let ?w = "w\<lparr>w_nextTouch := Suc (w_nextTouch w), w_touches := (w_touches w)(w_nextTouch w := (None, None))\<rparr>"
  have l: "listeners ?w t = listeners w t" for t by (rule listeners_cong) simp_all
  then have "wired ?w" using wired_cong [of ?w w] assms(1) by simp
  moreover have "table_ok ?w" using assms(2) by simp
  ultimately obtain w' where "on_all em (touch_handlers (w_nextTouch w)) ?w = Ret w'" "table_ok w'" "same_app ?w w'" "wired w'"
    using wired_register [OF _ _ admissible_inputs(3) inputs_not_wired(2)] by blast
  moreover have "synced ?w = synced w" by (simp add: synced_def)
  ultimately show ?thesis
    using True synced_same_app [of ?w w'] same_app_frame [of ?w w'] by (simp add: touch_register_def)
qed (use assms in \<open>simp add: touch_register_def\<close>)

lemma finish_controller:
  assumes "wired w" "table_ok w" "synced w"
  shows "\<exists>w'. obind (on_all em (mouse_handlers (w_nav w)) w)
      (\<lambda>w. obind (touch_register em w)
        (on_all em [(''pause'', HControllerPause), (''resume'', HControllerResume)])) = Ret w' \<and>
    wired w' \<and> synced w' \<and> w_cur w' = w_cur w \<and> w_show w' = w_show w \<and> w_hash w' = w_hash w"
proof -
  obtain w1 where 1: "on_all em (mouse_handlers (w_nav w)) w = Ret w1" "table_ok w1" "same_app w w1" "wired w1"
    using wired_register [OF assms(1,2) admissible_inputs(2) inputs_not_wired(1)] by blast
  obtain w2 where 2: "touch_register em w1 = Ret w2" "wired w2" "table_ok w2" "synced w2 = synced w1" "w_cur w2 = w_cur w1"
    "w_show w2 = w_show w1" "w_hash w2 = w_hash w1"
    using touch_register_wired [OF 1(4,2), of em] by blast
  obtain w3 where 3: "on_all em [(''pause'', HControllerPause), (''resume'', HControllerResume)] w2 = Ret w3"
    "table_ok w3" "same_app w2 w3" "wired w3"
    using wired_register [OF 2(2,3) admissible_constant(5) inputs_not_wired(3)] by blast
  show ?thesis
    using 1 2 3 assms(3) synced_same_app same_app_frame [OF 1(3)] same_app_frame [OF 3(3)]
    by (intro exI [of _ w3]) simp
qed


subsection \<open>Creation shows the slide of the address\<close>

lemma Controller_effect:
  assumes "table_ok w" "w_cur w = -1" "\<not> w_embedded w" "w_hash w = CHR ''#'' # int_str k"
    and "1 \<le> k" "k \<le> int (getSlideCount (w_show w))"
    and "map v_slide (w_views w) = getSlides (w_show w)" "shown (w_views w) (-1)"
    and "world_ok w"
    and lst: "\<And>t. listeners w t = map Plain (handlers_for t (slideshow_handlers @
       [(''propertiesChanged'', HRatioChanged), (''tap'', HTap), (''showSlide'', HNotesShowSlide),
        (''propertiesChanged'', HRatioChanged), (''resize'', HResize)] @
       replicate n (''propertiesChanged'', HRatioChanged) @ timer_handlers @ view_handlers))"
  shows "\<exists>w'. Controller (emitW 4) w = Ret w' \<and> wired w' \<and> synced w' \<and> w_cur w' = k - 1 \<and> w_show w' = w_show w"
proof -
  let ?em = "emitW 4"
  let ?w0 = "w\<lparr>w_gotoNumber := []\<rparr>"
  have l0: "listeners ?w0 t = listeners w t" for t by (rule listeners_cong) simp_all
  have "table_ok ?w0" using assms(1) by simp
  from on_all_listeners [OF this admissible_inputs(1), of ?em] obtain w1 where
    1: "on_all ?em keyboard_handlers ?w0 = Ret w1" "table_ok w1" "same_app ?w0 w1"
    "\<forall>t. listeners w1 t = listeners ?w0 t @ map Plain (handlers_for t keyboard_handlers)" by blast
  from on_all_listeners [OF 1(2) admissible_constant(4), of ?em] obtain w2 where
    2: "on_all ?em [(''message'', HMessage)] w1 = Ret w2" "table_ok w2" "same_app w1 w2"
    "\<forall>t. listeners w2 t = listeners w1 t @ map Plain (handlers_for t [(''message'', HMessage)])" by blast
  from on_all_listeners [OF 2(2) admissible_constant(6), of ?em] obtain w3 where
    3: "on_all ?em [(''hashchange'', HNavigateByHash), (''slideChanged'', HUpdateHash),
       (''toggledPresenter'', HUpdateHash)] w2 = Ret w3" "table_ok w3" "same_app w2 w3"
    "\<forall>t. listeners w3 t = listeners w2 t @ map Plain (handlers_for t [(''hashchange'', HNavigateByHash),
       (''slideChanged'', HUpdateHash), (''toggledPresenter'', HUpdateHash)])" by blast
  note frames = same_app_frame [OF 1(3)] same_app_frame [OF 2(3)] same_app_frame [OF 3(3)]
  have wired3: "wired w3"
  proof (rule wired_startup [where n = n])
    fix t
    have "listeners w3 t = listeners w t @ map Plain (handlers_for t keyboard_handlers) @
        map Plain (handlers_for t [(''message'', HMessage)]) @
        map Plain (handlers_for t [(''hashchange'', HNavigateByHash), (''slideChanged'', HUpdateHash),
          (''toggledPresenter'', HUpdateHash)])"
      using 3(4) 2(4) 1(4) l0 [of t] by (simp only: append_assoc)
    then show "listeners w3 t = map Plain (handlers_for t (startup_handlers n))"
      unfolding lst startup_handlers_def filter_append map_append append_assoc .
  qed
  have synced3: "synced w3"
    using frames assms(2,5-8) by (simp add: synced_def)
  have at3: "w_hash w3 = CHR ''#'' # int_str k" "w_cur w3 = -1" "w_show w3 = w_show w" "\<not> w_embedded w2"
    using frames assms(2-4) by simp_all
  obtain w4 where 4: "?em ''gotoSlide'' (Args [VStr (int_str k)]) w3 = Ret w4" "wired w4" "synced w4" "w_cur w4 = k - 1"
    "w_show w4 = w_show w3"
    using gotoSlide_effect [OF wired3 synced3, of k "VStr (int_str k)"] at3 assms(5,6) by auto
  have nav: "location_register ?em w2 = Ret w4"
    using 3(1) 4(1) at3 by (simp add: location_register_def navigateByHash_def del: emitW.simps)
  have "keeps (post_of world_ok 1 w2) (location_register ?em w2)"
  proof (rule location_register_keeps)
    have "world_ok ?w0" using assms(9) by (simp add: world_simps)
    from world_ok_same_app [OF this 1(3,2)] have "world_ok w1" by simp
    from world_ok_same_app [OF this 2(3,2)] show "world_ok w2" by simp
    show "good_emit world_ok 3 ?em" by (rule good_emit_mono [OF world_inv.good_emitW]) simp
  qed
  then have "table_ok w4" using nav by (simp add: post_of_def world_ok_def)
  from finish_controller [OF 4(2) this 4(3), of ?em] obtain w5 where
    5: "obind (on_all ?em (mouse_handlers (w_nav w4)) w4)
      (\<lambda>w. obind (touch_register ?em w)
        (on_all ?em [(''pause'', HControllerPause), (''resume'', HControllerResume)])) = Ret w5"
    "wired w5" "synced w5" "w_cur w5 = w_cur w4" "w_show w5 = w_show w4" by blast
  have "Controller ?em w = Ret w5"
    unfolding Controller_def keyboard_activate_def using 1(1) 2(1) nav 5(1) by (simp del: emitW.simps)
  then show ?thesis using 5 4 at3 by simp
qed


lemma Suc_3: "Suc 3 = 4" and Suc_2: "Suc 2 = 3"
  by simp_all

lemma create_effect:
  assumes "initial w" "\<not> w_embedded w" "show_ok sd" "w_hash w = CHR ''#'' # int_str k"
    and "1 \<le> k" "k \<le> int (getSlideCount sd)"
  shows "\<exists>w'. Api_create (emitW 4) (Some (Inr sd)) topts w = Ret w' \<and> wired w' \<and> synced w' \<and>
    w_cur w' = k - 1 \<and> w_show w' = sd"
proof -
  let ?em = "emitW 4" and ?w0 = "w\<lparr>em_maxListeners := Some 0\<rparr>"
  have ok0: "world_ok ?w0" using world_ok_initial [OF assms(1)] by (simp add: world_simps)
  have l0: "listeners ?w0 t = []" for t using assms(1) by (simp add: listeners_def initial_def)
  have "table_ok ?w0" using ok0 by (simp add: world_ok_def)
  from on_all_listeners [OF this admissible_constant(1), of ?em] obtain w1 where
    1: "on_all ?em slideshow_handlers ?w0 = Ret w1" "table_ok w1" "same_app ?w0 w1"
    "\<forall>t. listeners w1 t = listeners ?w0 t @ map Plain (handlers_for t slideshow_handlers)" by blast
  note f1 = same_app_frame [OF 1(3)]
  have cur1: "w_cur w1 = -1" using f1 assms(1) by (simp add: initial_def)
  have ok1: "world_ok w1" using world_ok_same_app [OF ok0 1(3,2)] by simp
  have "handlers_for ''slidesChanged'' slideshow_handlers = [HNavSlidesChanged]" by code_simp
  then have "listeners w1 ''slidesChanged'' = [Plain HNavSlidesChanged]"
    using 1(4) l0 by (simp del: map_map)
  then have "load (emitW (Suc 3)) (Some (Inr sd)) w1 = Ret (w1\<lparr>w_show := sd\<rparr>)"
    by (rule load_effect [OF cur1])
  then have ld: "load ?em (Some (Inr sd)) w1 = Ret (w1\<lparr>w_show := sd\<rparr>)" unfolding Suc_3 .
  let ?w2 = "w1\<lparr>w_show := sd\<rparr>"
  have ok2: "world_ok ?w2" using ok1 cur1 assms(3) by (simp add: world_simps)
  have "listeners ?w2 t = map Plain (handlers_for t slideshow_handlers)" for t using 1(4) l0 by simp
  from setup_view [OF _ _ this, of ?em topts] obtain w3 where
    3: "SlideshowView ?em topts ?w2 = Ret w3" "table_ok w3" "w_show w3 = sd" "w_cur w3 = -1"
    "map v_slide (w_views w3) = getSlides sd" "shown (w_views w3) (-1)" "w_hash w3 = w_hash w1"
    "w_embedded w3 = w_embedded w1"
    "\<forall>t. listeners w3 t = map Plain (handlers_for t (slideshow_handlers @
       [(''propertiesChanged'', HRatioChanged), (''tap'', HTap), (''showSlide'', HNotesShowSlide),
        (''propertiesChanged'', HRatioChanged), (''resize'', HResize)] @
       replicate (length (getSlides sd)) (''propertiesChanged'', HRatioChanged) @ timer_handlers @ view_handlers))"
    using 1(2) cur1 by auto
  have "keeps (post_of world_ok 1 ?w2) (SlideshowView ?em topts ?w2)"
    by (rule SlideshowView_keeps [OF ok2 good_emit_mono [OF world_inv.good_emitW]]) simp
  then have ok3: "world_ok w3" using 3(1) by (simp add: post_of_def)
  have "\<not> w_embedded w3" "w_hash w3 = CHR ''#'' # int_str k" "k \<le> int (getSlideCount (w_show w3))"
    using 3 f1 assms(2,4,6) by simp_all
  from Controller_effect [OF 3(2,4) this(1,2) assms(5) this(3), where n = "length (getSlides sd)"] 3 ok3
  obtain w4 where 4: "Controller ?em w3 = Ret w4" "wired w4" "synced w4" "w_cur w4 = k - 1" "w_show w4 = w_show w3"
    by auto
  have "Api_create ?em (Some (Inr sd)) topts w = Ret w4"
    using 1(1) ld 3(1) 4(1) by (simp add: Api_create_def setMaxListeners_def del: emitW.simps)
  then show ?thesis using 4 3(3) by auto
qed

lemma reload_effect:
  assumes "wired w" "table_ok w" "int (getSlideCount sd) \<le> w_cur w"
  shows "\<exists>w'. load (emitW 4) (Some (Inr sd)) w = Throw ''TypeError: slideView is undefined'' w' \<and>
    w_cur w' = int (getSlideCount sd)"
proof -
  let ?c = "int (getSlideCount sd)" and ?ss = "getSlides sd"
  let ?hs = "map (\<lambda>s. (''propertiesChanged'', HRatioChanged)) ?ss"
  have wiring: "(''slidesChanged'', [HNavSlidesChanged, HViewSlidesChanged]) \<in> set wiring"
    by (simp add: wiring_def)
  define w1 where "w1 = nav_slidesChanged (w\<lparr>w_show := sd\<rparr>)"
  have lst1: "listeners w1 t = listeners w t" for t
    by (simp add: w1_def nav_slidesChanged_def)
  have w1: "wired w1" "table_ok w1" "w_cur w1 = ?c" "w_show w1 = sd"
    using assms wired_cong [OF lst1] by (simp_all add: w1_def nav_slidesChanged_def)
  let ?w2 = "w1\<lparr>w_nextView := w_nextView w1 + length ?ss\<rparr>"
  have l2: "listeners ?w2 t = listeners w1 t" for t by (rule listeners_cong) simp_all
  have "wired ?w2" "table_ok ?w2" "admissible ?hs" "\<forall>p \<in> set ?hs. fst p \<notin> fst ` set wiring"
    using w1 wired_cong [of ?w2 w1] l2 by (auto simp: admissible_def wiring_def)
  from wired_register [OF this, of "emitW 3"] obtain w3 where
    3: "on_all (emitW 3) ?hs ?w2 = Ret w3" "same_app ?w2 w3" "wired w3" by blast
  let ?w4 = "w3\<lparr>w_views := map2 new_view [w_nextView w1 ..< w_nextView w1 + length ?ss] ?ss\<rparr>"
  have cur4: "w_cur ?w4 = ?c" using same_app_frame(2) [OF 3(2)] w1(3) by simp
  have "showSlide (emitW (Suc m)) (Some ?c) ?w4 = Throw ''TypeError: slideView is undefined''
      (forward_event ''beforeShowSlide'' (Some (VNum ?c)) ?w4)" for m
    using 3(3) by (simp add: showSlide_def emitW_forward view_at_def getSlides_def getSlideCount_def Let_def del: emitW.simps)
  from this [of 2] have upd: "updateSlideViews (emitW 3) w1 = Throw ''TypeError: slideView is undefined''
      (forward_event ''beforeShowSlide'' (Some (VNum ?c)) ?w4)"
    using 3(1) cur4 w1(4) by (simp add: updateSlideViews_def Let_def del: emitW.simps)
  have "load (emitW (Suc 3)) (Some (Inr sd)) w = updateSlideViews (emitW 3) w1"
    using emitW_wired [OF _ wiring, of "w\<lparr>w_show := sd\<rparr>" 3 "Args []"] assms(1) wired_cong [of "w\<lparr>w_show := sd\<rparr>" w]
    by (simp add: load_def w1_def del: emitW.simps)
  then have "load (emitW 4) (Some (Inr sd)) w = updateSlideViews (emitW 3) w1" unfolding Suc_3 .
  with upd cur4 show ?thesis by simp
qed


subsection \<open>Presenter mode, pause and resume\<close>

lemma valid_presenter [simp]: "valid_class ''remark-presenter-mode''"
  by code_simp

lemma togglePresenter_effect:
  assumes "wired w" "world_ok w"
  shows "\<exists>w'. emitW 4 ''togglePresenterMode'' (Args []) w = Ret w' \<and>
    hasClass (w_class w') ''remark-presenter-mode'' = (\<not> hasClass (w_class w) ''remark-presenter-mode'') \<and>
    w_orientation w' = (if hasClass (w_class w') ''remark-presenter-mode'' then ''portrait'' else ''landscape'') \<and>
    w_hash w' = hash_of w' (w_cur w + 1) \<and> w_cur w' = w_cur w \<and>
    w_external w' = w_external w @
      [(''toggledPresenter'',
        if 0 \<le> w_cur w + 1 \<and> nat (w_cur w + 1) < getSlideCount (w_show w)
        then Some (getSlides (w_show w) ! nat (w_cur w + 1)) else None)]"
proof -
  have wiring: "(''togglePresenterMode'', [HTogglePresenterMode]) \<in> set wiring"
    "(''toggledPresenter'', [HForward ''toggledPresenter'', HUpdateHash]) \<in> set wiring"
    by (simp_all add: wiring_def)
  let ?w1 = "w\<lparr>w_class := toggleClass (w_class w) ''remark-presenter-mode''\<rparr>"
  have "listeners ?w1 t = listeners w t" for t by (rule listeners_cong) simp_all
  then have w1: "wired ?w1" using wired_cong [of ?w1 w] assms(1) by simp
  let ?w2 = "updateHash (Some (VNum (w_cur w + 1))) (forward_event ''toggledPresenter'' (Some (VNum (w_cur w + 1))) ?w1)"
  have "emitW 4 ''togglePresenterMode'' (Args []) w = togglePresenter (emitW 3) w"
    using emitW_wired [OF assms(1) wiring(1), of 3 "Args []"] unfolding Suc_3 by (simp del: emitW.simps)
  moreover have "emitW 3 ''toggledPresenter'' (Args [VNum (w_cur w + 1)]) ?w1 = Ret ?w2"
    using emitW_wired [OF w1 wiring(2), of 2 "Args [VNum (w_cur w + 1)]"] unfolding Suc_2
    by (simp del: emitW.simps)
  ultimately have run: "emitW 4 ''togglePresenterMode'' (Args []) w =
      setPageOrientation (if hasClass (w_class ?w2) ''remark-presenter-mode'' then ''portrait'' else ''landscape'') ?w2"
    by (simp add: togglePresenter_def del: emitW.simps)
  have "single_class ''remark-presenter-mode'' (w_class w)"
    using assms(2) by (simp add: world_ok_def modes_ok_def)
  then have "hasClass (toggleClass (w_class w) ''remark-presenter-mode'') ''remark-presenter-mode'' =
      (\<not> hasClass (w_class w) ''remark-presenter-mode'')"
    by (simp add: classes.has_toggle)
  then show ?thesis
    unfolding run
    by (simp add: setPageOrientation_def updateHash_def forward_event_def hash_of_def)
qed

lemma touch_register_listeners:
  assumes "table_ok w"
  shows "\<exists>w'. touch_register em w = Ret w' \<and>
    (\<forall>t. t \<notin> {''touchstart'', ''touchend'', ''touchmove''} \<longrightarrow> listeners w' t = listeners w t)"
proof (cases "no_touch (w_nav w)")
  case True
  let ?w = "w\<lparr>w_nextTouch := Suc (w_nextTouch w), w_touches := (w_touches w)(w_nextTouch w := (None, None))\<rparr>"
  have l: "listeners ?w t = listeners w t" for t by (rule listeners_cong) simp_all
  have "table_ok ?w" using assms by simp
  from on_all_listeners [OF this admissible_inputs(3), of em "w_nextTouch w"] obtain w' where
    "on_all em (touch_handlers (w_nextTouch w)) ?w = Ret w'"
    "\<forall>t. listeners w' t = listeners ?w t @ map Plain (handlers_for t (touch_handlers (w_nextTouch w)))" by blast
  then show ?thesis using True l by (auto simp: touch_register_def touch_handlers_def)
qed (simp add: touch_register_def)

lemma pause_resume_effect:
  assumes "table_ok w"
  shows "\<exists>w1 w2. controller_pause em w = Ret w1 \<and> controller_resume em w1 = Ret w2 \<and>
    (\<forall>t \<in> {''keydown'', ''keypress'', ''click'', ''contextmenu'', ''mousewheel'', ''touchstart'', ''touchend'', ''touchmove''}.
       listeners w1 t = []) \<and>
    listeners w1 ''DOMMouseScroll'' = listeners w ''DOMMouseScroll'' \<and>
    listeners w2 ''keydown'' = [Plain HKeydown] \<and> listeners w2 ''keypress'' = [Plain HKeypress] \<and>
    listeners w2 ''mousewheel'' = (if no_scroll (w_nav w) then [Plain HScroll] else []) \<and>
    listeners w2 ''DOMMouseScroll'' =
      listeners w ''DOMMouseScroll'' @ (if no_scroll (w_nav w) then [Plain HScroll] else [])"
proof -
  let ?ts = "[''keydown'', ''keypress'', ''click'', ''contextmenu'', ''mousewheel'', ''touchstart'', ''touchend'', ''touchmove'']"
  obtain a where a: "off_all em [''keydown'', ''keypress''] w = Ret a" "table_ok a" "same_app w a"
    "a = registry.clear_all [''keydown'', ''keypress''] w"
    using off_all_unregister [OF assms] by blast
  obtain b where b: "off_all em [''click'', ''contextmenu'', ''mousewheel''] a = Ret b" "table_ok b" "same_app a b"
    "b = registry.clear_all [''click'', ''contextmenu'', ''mousewheel''] a"
    using off_all_unregister [OF a(2)] by blast
  obtain w1 where w1: "off_all em [''touchstart'', ''touchend'', ''touchmove''] b = Ret w1" "table_ok w1" "same_app b w1"
    "w1 = registry.clear_all [''touchstart'', ''touchend'', ''touchmove''] b"
    using off_all_unregister [OF b(2)] by blast
  have pause: "controller_pause em w = Ret w1"
    by (simp add: controller_pause_def keyboard_deactivate_def mouse_unregister_def touch_unregister_def a(1) b(1) w1(1) del: off_all.simps)
  have "w1 = registry.clear_all ?ts w"
    by (simp add: w1(4) b(4) a(4) registry.clear_all_def)
  then have l1: "listeners w1 t = (if t \<in> set ?ts then [] else listeners w t)" for t
    using registry.lst_clear_all assms by (metis table_ok_def)
  let ?w2 = "w1\<lparr>w_gotoNumber := []\<rparr>"
  have l2: "listeners ?w2 t = listeners w1 t" for t by (rule listeners_cong) simp_all
  have "table_ok ?w2" using w1(2) by simp
  from on_all_listeners [OF this admissible_inputs(1), of em] obtain w3 where
    3: "on_all em keyboard_handlers ?w2 = Ret w3" "table_ok w3" "same_app ?w2 w3"
    "\<forall>t. listeners w3 t = listeners ?w2 t @ map Plain (handlers_for t keyboard_handlers)" by blast
  from on_all_listeners [OF 3(2) admissible_inputs(2), of em "w_nav w3"] obtain w4 where
    4: "on_all em (mouse_handlers (w_nav w3)) w3 = Ret w4" "table_ok w4" "same_app w3 w4"
    "\<forall>t. listeners w4 t = listeners w3 t @ map Plain (handlers_for t (mouse_handlers (w_nav w3)))" by blast
  have nav: "w_nav w3 = w_nav w"
    using same_app_frame(7) [OF 3(3)] same_app_frame(7) [OF w1(3)] same_app_frame(7) [OF b(3)] same_app_frame(7) [OF a(3)]
    by simp
  obtain w5 where 5: "touch_register em w4 = Ret w5"
    "\<forall>t. t \<notin> {''touchstart'', ''touchend'', ''touchmove''} \<longrightarrow> listeners w5 t = listeners w4 t"
    using touch_register_listeners [OF 4(2), of em] by blast
  have resume: "controller_resume em w1 = Ret w5"
    using 3(1) 4(1) 5(1) by (simp add: controller_resume_def keyboard_activate_def)
  show ?thesis
  proof (intro exI conjI)
    show "controller_pause em w = Ret w1" by (rule pause)
    show "controller_resume em w1 = Ret w5" by (rule resume)
  qed (use l1 l2 3(4) 4(4) 5(2) nav in \<open>simp_all add: keyboard_handlers_def mouse_handlers_def\<close>)
qed

subsection \<open>Properties\<close>


definition blank_world :: world where
  "blank_world =
     \<lparr>em_events = [], em_arrays = [], em_maxListeners = None, em_next = 0, em_fired = [], em_warnings = [],
      w_options = no_options, w_nav = \<lparr>no_click = False, no_scroll = True, no_touch = True\<rparr>,
      w_show = init_show, w_cur = -1, w_started = None, w_clone = NoClone, w_opener = False, w_popup = True,
      w_posted = [], w_focused = 0, w_external = [], w_hash = ''#2'', w_embedded = False, w_class = [],
      w_htmlClass = [], w_clientWidth = 800, w_views = [], w_nextView = 0, w_fades = [], w_preview = None,
      w_notes = None, w_notesPreview = None, w_timer = TimerViewModel 0 default_timer_options, w_now = 0,
      w_gotoNumber = [], w_nextTouch = 0, w_touches = (\<lambda>r. (None, None)), w_orientation = [], w_pageWidth = 0,
      w_pageHeight = 0, w_prevented = 0, w_fsRequest = True, w_fsCancel = True, w_fsElement = False, w_fsCalls = []\<rparr>"

lemma blank_initial: "initial blank_world" "\<not> w_embedded blank_world" "w_hash blank_world = CHR ''#'' # int_str 2"
  by (simp_all add: initial_def blank_world_def mode_classes_def hasClass_def getClasses_def int_str_def)
    code_simp

lemma example_ok: "show_ok example_show"
  by (rule loadFromString_ok [OF example_load])

lemma example_count: "getSlideCount example_show = 2"
  by code_simp


text \<open>
  C2. Going to a slide: in a connected slideshow the event \<open>gotoSlide\<close> with the number of
  another slide (or its numeral as a string) returns; afterwards exactly that slide is
  visible and current, its notes are shown, the preview shows the slide after it or
  nothing, and the address is \<open>#k\<close>, or \<open>#pk\<close> in presenter mode.
\<close>

theorem goto_slide:
  assumes "wired w" "synced w" "1 \<le> k" "k \<le> int (getSlideCount (w_show w))" "k - 1 \<noteq> w_cur w"
    and "v = VNum k \<or> v = VStr (int_str k)"
  shows "\<exists>w'. emitW 4 ''gotoSlide'' (Args [v]) w = Ret w' \<and> wired w' \<and> synced w' \<and>
    w_cur w' = k - 1 \<and> w_show w' = w_show w \<and> w_hash w' = hash_of w k \<and>
    w_notes w' = Some (s_notes (getSlides (w_show w) ! nat (k - 1))) \<and>
    map_option v_slide (w_preview w') =
      (if k < int (getSlideCount (w_show w)) then Some (getSlides (w_show w) ! nat k) else None)"
  using assms by (rule gotoSlide_effect)

theorem goto_slide_witness:
  "\<exists>w w'. wired w \<and> synced w \<and> w_cur w = 1 \<and> emitW 4 ''gotoSlide'' (Args [VNum 1]) w = Ret w' \<and>
     synced w' \<and> w_cur w' = 0"
proof -
  from create_effect [OF blank_initial(1,2) example_ok blank_initial(3)] example_count obtain w where
    w: "wired w" "synced w" "w_cur w = 1" "w_show w = example_show" by auto
  from goto_slide [OF w(1,2), of 1 "VNum 1"] w example_count obtain w' where
    "emitW 4 ''gotoSlide'' (Args [VNum 1]) w = Ret w'" "synced w'" "w_cur w' = 0" by auto
  with w show ?thesis by blast
qed



text \<open>
  C30. Loading a source with too few slides fails: when the current index is at least the
  new number of slides, the handler of \<open>slidesChanged\<close> leaves the index one past the
  last slide, and the view throws when it shows that slide.
\<close>

theorem reload_too_short:
  assumes "wired w" "table_ok w" "int (getSlideCount sd) \<le> w_cur w"
  shows "\<exists>w'. load (emitW 4) (Some (Inr sd)) w = Throw ''TypeError: slideView is undefined'' w' \<and>
    w_cur w' = int (getSlideCount sd)"
  using assms by (rule reload_effect)

theorem reload_too_short_witness:
  "\<exists>w w'. reachable w \<and> load (emitW 4) (Some (Inr init_show)) w = Throw ''TypeError: slideView is undefined'' w'"
proof -
  from create_effect [OF blank_initial(1,2) example_ok blank_initial(3)] example_count obtain w where
    w: "Api_create (emitW 4) (Some (Inr example_show)) default_timer_options blank_world = Ret w" "wired w" "w_cur w = 1"
    by auto
  from w(1) have r: "reachable w"
    by (intro reachable.created [OF blank_initial(1) example_ok, where topts = default_timer_options]) simp
  then have "table_ok w" using reachable_ok by (simp add: world_ok_def)
  from reload_too_short [OF w(2) this, of init_show] w(3) r show ?thesis
    by (auto simp: getSlideCount_def init_show_def)
qed


text \<open>
  C3. Every event is dispatched to the end: in a world that satisfies the invariant, any
  event with any arguments makes the handlers return or throw within a nesting of four
  emissions, and the resulting world satisfies the invariant and has the same slides.
\<close>

theorem dispatch_terminates:
  assumes "world_ok w"
  shows "keeps (\<lambda>w'. world_ok w' \<and> w_show w' = w_show w) (emitW 4 t as w)"
proof -
  have "rank t < 4" using rank_le_3 [of t] by simp
  from world_inv.emitW_keeps [OF this assms] show ?thesis
    by (rule keeps_mono) (simp add: post_of_def)
qed

theorem dispatch_terminates_witness:
  "keeps (\<lambda>w'. world_ok w' \<and> w_show w' = w_show blank_world) (emitW 4 ''keydown'' (Args [VEvent]) blank_world)"
  by (rule dispatch_terminates [OF world_ok_initial [OF blank_initial(1)]])

text \<open>
  C28. Toggling presenter mode switches the mode class, sets the address to \<open>#p\<close> and the
  slide number in presenter mode and to \<open>#\<close> and the slide number otherwise, prints in
  portrait exactly in presenter mode, and keeps the current slide; users who listen to
  \<open>toggledPresenter\<close> get the slide after the current one.
\<close>

theorem presenter_mode:
  assumes "wired w" "world_ok w"
  shows "\<exists>w'. emitW 4 ''togglePresenterMode'' (Args []) w = Ret w' \<and>
    hasClass (w_class w') ''remark-presenter-mode'' = (\<not> hasClass (w_class w) ''remark-presenter-mode'') \<and>
    w_orientation w' = (if hasClass (w_class w') ''remark-presenter-mode'' then ''portrait'' else ''landscape'') \<and>
    w_hash w' = hash_of w' (w_cur w + 1) \<and> w_cur w' = w_cur w \<and>
    w_external w' = w_external w @
      [(''toggledPresenter'',
        if 0 \<le> w_cur w + 1 \<and> nat (w_cur w + 1) < getSlideCount (w_show w)
        then Some (getSlides (w_show w) ! nat (w_cur w + 1)) else None)]"
  using assms by (rule togglePresenter_effect)

theorem presenter_mode_witness:
  "\<exists>w w'. reachable w \<and> emitW 4 ''togglePresenterMode'' (Args []) w = Ret w' \<and> w_cur w' = 1"
proof -
  from create_effect [OF blank_initial(1,2) example_ok blank_initial(3)] example_count obtain w where
    w: "Api_create (emitW 4) (Some (Inr example_show)) default_timer_options blank_world = Ret w" "wired w" "w_cur w = 1"
    by auto
  from w(1) have r: "reachable w"
    by (intro reachable.created [OF blank_initial(1) example_ok, where topts = default_timer_options]) simp
  from presenter_mode [OF w(2) reachable_ok [OF r]] r w(3) show ?thesis by auto
qed



end
