(* ===== verification/Js_Regex_Facts.thy ===== *)
theory Js_Regex_Facts
  imports Js_Regex
begin

text \<open>
  What the components use of the matcher beyond its definition: the language of a pattern
  (an upper bound of what it matches, exact for patterns without assertions and
  back references), which captures a match sets, how long a capture can be, where an anchored
  pattern matches, what the greedy repetition of a class consumes, and how much
  \<open>replace\<close> and \<open>match\<close> leave of a text.
\<close>

subsection \<open>The language of a pattern\<close>

text \<open>Assertions denote the empty word and a back reference any word.\<close>

primrec lang :: "rx_flags \<Rightarrow> rx \<Rightarrow> string \<Rightarrow> bool" where
  "lang f Eps w \<longleftrightarrow> w = []"
| "lang f (Cls neg items) w \<longleftrightarrow> (\<exists>c. w = [c] \<and> cls_ok (ignoreCase f) neg items c)"
| "lang f (Seq a b) w \<longleftrightarrow> (\<exists>u v. w = u @ v \<and> lang f a u \<and> lang f b v)"
| "lang f (Alt a b) w \<longleftrightarrow> lang f a w \<or> lang f b w"
| "lang f (Rep lo hi g r) w \<longleftrightarrow>
     (\<exists>ws. w = concat ws \<and> (\<forall>x \<in> set ws. lang f r x) \<and>
        (case hi of None \<Rightarrow> lo | Some h \<Rightarrow> min lo h) \<le> length ws \<and> (\<forall>h. hi = Some h \<longrightarrow> length ws \<le> h))"
| "lang f (Group n r) w \<longleftrightarrow> lang f r w"
| "lang f (BackRef n) w \<longleftrightarrow> True"
| "lang f Bol w \<longleftrightarrow> w = []"
| "lang f Eol w \<longleftrightarrow> w = []"
| "lang f (WordB p) w \<longleftrightarrow> w = []"
| "lang f (Look p r) w \<longleftrightarrow> w = []"

declare rx_l.simps(5) [simp del]

lemma set_group_rest [simp]: "rest (set_group n xs t) = rest t"
  by (simp add: set_group_def)

lemma set_group_pre [simp]: "pre (set_group n xs t) = pre t"
  by (simp add: set_group_def)

lemma rep_l_lang:
  assumes ml: "\<And>s t. t \<in> set (ml s) \<Longrightarrow> \<exists>w. rest s = w @ rest t \<and> P w"
  shows "t \<in> set (rep_l ml gs g n lo hi s) \<Longrightarrow>
    \<exists>ws. rest s = concat ws @ rest t \<and> (\<forall>x \<in> set ws. P x) \<and>
      (case hi of None \<Rightarrow> lo | Some h \<Rightarrow> min lo h) \<le> length ws \<and> (\<forall>h. hi = Some h \<longrightarrow> length ws \<le> h)"
proof (induction n arbitrary: lo hi s)
  case (Suc n)
  let ?s = "s\<lparr>rcaps := reset_caps gs (rcaps s)\<rparr>"
  consider "t = s" "lo = 0 \<or> hi = Some 0"
    | y where "y \<in> set (ml ?s)" "t \<in> set (rep_l ml gs g n (lo - 1) (pred_opt hi) y)" "hi \<noteq> Some 0"
    using Suc.prems by (fastforce simp: Let_def split: if_splits)
  then show ?case
  proof cases
    case 1
    then show ?thesis by (intro exI [of _ "[]"]) (auto split: option.splits)
  next
    case 2
    from ml [OF 2(1)] obtain w where w: "rest s = w @ rest y" "P w" by auto
    from Suc.IH [OF 2(2)] obtain ws where ws: "rest y = concat ws @ rest t" "\<forall>x \<in> set ws. P x"
      "(case pred_opt hi of None \<Rightarrow> lo - 1 | Some h \<Rightarrow> min (lo - 1) h) \<le> length ws"
      "\<forall>h. pred_opt hi = Some h \<longrightarrow> length ws \<le> h"
      by blast
    then show ?thesis
      using w 2(3) by (intro exI [of _ "w # ws"]) (cases hi; auto simp: pred_opt_def)
  qed
qed simp

theorem rx_l_lang: "t \<in> set (rx_l f r s) \<Longrightarrow> \<exists>w. rest s = w @ rest t \<and> lang f r w"
proof (induction r arbitrary: s t)
  case (Cls neg items)
  then show ?case by (cases "rest s") (auto split: if_splits)
next
  case (Seq a b)
  then obtain u where "u \<in> set (rx_l f a s)" "t \<in> set (rx_l f b u)" by auto
  with Seq.IH obtain v w where "rest s = v @ rest u" "lang f a v" "rest u = w @ rest t" "lang f b w"
    by meson
  then show ?case by (intro exI [of _ "v @ w"]) auto
next
  case (Rep lo hi g r)
  have "\<exists>ws. rest s = concat ws @ rest t \<and> (\<forall>x \<in> set ws. lang f r x) \<and>
      (case hi of None \<Rightarrow> lo | Some h \<Rightarrow> min lo h) \<le> length ws \<and> (\<forall>h. hi = Some h \<longrightarrow> length ws \<le> h)"
    using Rep.prems unfolding rx_l.simps(5) by (rule rep_l_lang [rotated]) (rule Rep.IH)
  then show ?case by auto
next
  case (BackRef n)
  then show ?case
    by (auto split: option.splits dest!: strip_prefix_ci_advances [OF sym])
qed (fastforce split: if_splits list.splits)+

text \<open>Patterns made of classes, sequences, alternatives, repetitions and groups only match
  every word of their language.\<close>

primrec regular :: "rx \<Rightarrow> bool" where
  "regular Eps \<longleftrightarrow> True"
| "regular (Cls neg items) \<longleftrightarrow> True"
| "regular (Seq a b) \<longleftrightarrow> regular a \<and> regular b"
| "regular (Alt a b) \<longleftrightarrow> regular a \<and> regular b"
| "regular (Rep lo hi g r) \<longleftrightarrow> regular r"
| "regular (Group n r) \<longleftrightarrow> regular r"
| "regular (BackRef n) \<longleftrightarrow> False"
| "regular Bol \<longleftrightarrow> False"
| "regular Eol \<longleftrightarrow> False"
| "regular (WordB p) \<longleftrightarrow> False"
| "regular (Look p r) \<longleftrightarrow> False"

lemma rx_l_Rep_step:
  assumes "y \<in> set (rx_l f r (s\<lparr>rcaps := reset_caps (rx_groups r) (rcaps s)\<rparr>))"
    "t \<in> set (rx_l f (Rep (lo - 1) (pred_opt hi) g r) y)"
    "hi \<noteq> Some 0" "\<not> (lo = 0 \<and> length (rest y) = length (rest s))"
  shows "t \<in> set (rx_l f (Rep lo hi g r) s)"
  using assms by (subst rx_l_Rep) (force simp: Let_def)

abbreviation rep_min :: "nat \<Rightarrow> nat option \<Rightarrow> nat" where
  "rep_min lo hi \<equiv> (case hi of None \<Rightarrow> lo | Some h \<Rightarrow> min lo h)"

lemma rx_l_Rep_complete:
  assumes r: "\<And>s x u. lang f r x \<Longrightarrow> rest s = x @ u \<Longrightarrow> \<exists>t \<in> set (rx_l f r s). rest t = u"
  shows "rest s = concat ws @ u \<Longrightarrow> (\<forall>x \<in> set ws. lang f r x) \<Longrightarrow> rep_min lo hi \<le> length ws \<Longrightarrow>
    (\<forall>h. hi = Some h \<longrightarrow> length ws \<le> h) \<Longrightarrow> \<exists>t \<in> set (rx_l f (Rep lo hi g r) s). rest t = u"
proof (induction ws arbitrary: lo hi s)
  case Nil
  then have "lo = 0 \<or> hi = Some 0" by (cases hi) auto
  with Nil show ?case by (subst rx_l_Rep) (auto simp: Let_def)
next
  case (Cons x ws)
  let ?s = "s\<lparr>rcaps := reset_caps (rx_groups r) (rcaps s)\<rparr>"
  have hi: "hi \<noteq> Some 0" using Cons.prems(4) by auto
  show ?case
  proof (cases "lo = 0 \<and> x = []")
    case True
    then show ?thesis
      using Cons.IH [of s lo hi] Cons.prems by (auto dest: Suc_leD split: option.splits)
  next
    case False
    from r [of x ?s "concat ws @ u"] Cons.prems obtain y
      where y: "y \<in> set (rx_l f r ?s)" "rest y = concat ws @ u" by auto
    have "\<exists>t \<in> set (rx_l f (Rep (lo - 1) (pred_opt hi) g r) y). rest t = u"
    proof (rule Cons.IH)
      show "\<forall>h. pred_opt hi = Some h \<longrightarrow> length ws \<le> h"
        using Cons.prems(4) by (cases hi) (auto simp: pred_opt_def)
      show "rep_min (lo - 1) (pred_opt hi) \<le> length ws"
        using Cons.prems(3) by (cases hi) (auto simp: pred_opt_def)
    qed (use Cons.prems y in auto)
    then obtain t where t: "t \<in> set (rx_l f (Rep (lo - 1) (pred_opt hi) g r) y)" "rest t = u" by blast
    have "\<not> (lo = 0 \<and> length (rest y) = length (rest s))"
      using False Cons.prems(1) y(2) by auto
    with rx_l_Rep_step [OF y(1) t(1) hi] t(2) show ?thesis by blast
  qed
qed

theorem rx_l_complete:
  "regular r \<Longrightarrow> lang f r w \<Longrightarrow> rest s = w @ u \<Longrightarrow> \<exists>t \<in> set (rx_l f r s). rest t = u"
proof (induction r arbitrary: s w u)
  case (Seq a b)
  then obtain v x where w: "w = v @ x" "lang f a v" "lang f b x" by auto
  with Seq.IH(1) [of v s "x @ u"] Seq.prems obtain y where "y \<in> set (rx_l f a s)" "rest y = x @ u" by auto
  with Seq.IH(2) [of x y u] Seq.prems w show ?case by fastforce
next
  case (Rep lo hi g r)
  then obtain ws where ws: "w = concat ws" "\<forall>x \<in> set ws. lang f r x"
    "rep_min lo hi \<le> length ws" "\<forall>h. hi = Some h \<longrightarrow> length ws \<le> h"
    by auto
  have "\<exists>t \<in> set (rx_l f r s). rest t = u" if "lang f r x" "rest s = x @ u" for s x u
    using Rep.IH [OF _ that] Rep.prems(1) by simp
  then show ?case
    by (rule rx_l_Rep_complete [where ws = ws]) (use ws Rep.prems(3) in auto)
qed (fastforce simp del: lang.simps(5))+

subsection \<open>Captures\<close>

lemma reset_caps_nth: "n \<notin> set gs \<Longrightarrow> reset_caps gs cs ! n = cs ! n"
  unfolding reset_caps_def by (induction gs arbitrary: cs) auto

lemma reset_caps_subset: "Some w \<in> set (reset_caps gs cs) \<Longrightarrow> Some w \<in> set cs"
  unfolding reset_caps_def
  by (induction gs arbitrary: cs) (auto dest!: set_update_subset_insert [THEN subsetD])

text \<open>A property that every iteration of a quantifier keeps.\<close>

lemma rep_l_invariant:
  assumes "\<And>s t. Q s \<Longrightarrow> t \<in> set (ml (s\<lparr>rcaps := reset_caps gs (rcaps s)\<rparr>)) \<Longrightarrow> Q t"
  shows "Q s \<Longrightarrow> t \<in> set (rep_l ml gs g n lo hi s) \<Longrightarrow> Q t"
proof (induction n arbitrary: lo hi s)
  case (Suc n)
  let ?s = "s\<lparr>rcaps := reset_caps gs (rcaps s)\<rparr>"
  consider "t = s" | y where "y \<in> set (ml ?s)" "t \<in> set (rep_l ml gs g n (lo - 1) (pred_opt hi) y)"
    using Suc.prems by (fastforce simp: Let_def split: if_splits)
  then show ?case using Suc.prems(1) Suc.IH assms by cases blast+
qed simp

text \<open>A match leaves the captures of other groups alone.\<close>

lemma rx_l_frame:
  "n \<notin> set (rx_groups r) \<Longrightarrow> t \<in> set (rx_l f r s) \<Longrightarrow> rcaps t ! n = rcaps s ! n"
proof (induction r arbitrary: s t)
  case (Seq a b)
  then show ?case by fastforce
next
  case (Rep lo hi g r)
  have "(\<lambda>t. rcaps t ! n = rcaps s ! n) t"
    using Rep.prems(2) unfolding rx_l.simps(5)
    by (rule rep_l_invariant [rotated 2]) (use Rep reset_caps_nth in auto)
  then show ?case .
next
  case (Group m r)
  then show ?case by (auto simp: set_group_def)
next
  case (BackRef m)
  then show ?case by (auto split: option.splits)
next
  case (Look p r)
  then show ?case by (cases "rx_l f r s") (auto split: if_splits)
qed (auto split: list.splits if_splits)

lemma rx_l_caps_length: "t \<in> set (rx_l f r s) \<Longrightarrow> length (rcaps t) = length (rcaps s)"
  by (drule rx_l_advances) (simp add: advances_def)

lemma rx_l_rest_length: "t \<in> set (rx_l f r s) \<Longrightarrow> length (rest t) + rx_min r \<le> length (rest s)"
  by (drule rx_l_advances) (rule advances_length)

lemma rx_l_no_groups: "rx_groups r = [] \<Longrightarrow> t \<in> set (rx_l f r s) \<Longrightarrow> rcaps t = rcaps s"
  by (rule nth_equalityI) (auto simp: rx_l_caps_length intro: rx_l_frame [of _ r t f s])

text \<open>\<open>sets n r\<close>: every match of \<open>r\<close> sets group \<open>n\<close>.\<close>

primrec sets :: "nat \<Rightarrow> rx \<Rightarrow> bool" where
  "sets n Eps \<longleftrightarrow> False"
| "sets n (Cls neg items) \<longleftrightarrow> False"
| "sets n (Seq a b) \<longleftrightarrow> sets n b \<or> sets n a \<and> n \<notin> set (rx_groups b)"
| "sets n (Alt a b) \<longleftrightarrow> sets n a \<and> sets n b"
| "sets n (Rep lo hi g r) \<longleftrightarrow> lo \<noteq> 0 \<and> hi \<noteq> Some 0 \<and> sets n r"
| "sets n (Group m r) \<longleftrightarrow> n = m \<or> sets n r"
| "sets n (BackRef m) \<longleftrightarrow> False"
| "sets n Bol \<longleftrightarrow> False"
| "sets n Eol \<longleftrightarrow> False"
| "sets n (WordB p) \<longleftrightarrow> False"
| "sets n (Look p r) \<longleftrightarrow> False"

lemma rx_l_sets:
  "sets n r \<Longrightarrow> n < length (rcaps s) \<Longrightarrow> t \<in> set (rx_l f r s) \<Longrightarrow> rcaps t ! n \<noteq> None"
proof (induction r arbitrary: s t)
  case (Seq a b)
  then obtain u where u: "u \<in> set (rx_l f a s)" "t \<in> set (rx_l f b u)" by auto
  have "n < length (rcaps u)" using Seq.prems(2) rx_l_caps_length [OF u(1)] by simp
  then show ?case
    using Seq.IH(1) [OF _ Seq.prems(2) u(1)] Seq.IH(2) [OF _ _ u(2)] Seq.prems(1)
      rx_l_frame [OF _ u(2)] by auto
next
  case (Rep lo hi g r)
  let ?s = "s\<lparr>rcaps := reset_caps (rx_groups r) (rcaps s)\<rparr>"
  obtain y where y: "y \<in> set (rx_l f r ?s)" "t \<in> set (rx_l f (Rep (lo - 1) (pred_opt hi) g r) y)"
    using Rep.prems unfolding rx_l_Rep [of f lo] by (auto simp: Let_def)
  let ?Q = "\<lambda>u. length (rcaps u) = length (rcaps s) \<and> rcaps u ! n \<noteq> None"
  have *: "?Q t'" if "t' \<in> set (rx_l f r (s'\<lparr>rcaps := reset_caps (rx_groups r) (rcaps s')\<rparr>))"
    "length (rcaps s') = length (rcaps s)" for s' t'
    using Rep.IH [OF _ _ that(1)] rx_l_caps_length [OF that(1)] that(2) Rep.prems(1,2) by simp
  have "?Q t"
    using y(2) unfolding rx_l.simps(5)
    by (rule rep_l_invariant [rotated 2]) (use * [OF y(1)] * in auto)
  then show ?case by simp
next
  case (Group m r)
  then obtain u where u: "u \<in> set (rx_l f r s)" "t = set_group m (rest s) u" by auto
  have "n < length (rcaps u)" using Group.prems(2) rx_l_caps_length [OF u(1)] by simp
  then show ?case
    using Group.IH [OF _ Group.prems(2) u(1)] Group.prems(1) u(2)
    by (cases "n = m") (auto simp: set_group_def)
qed auto

text \<open>\<open>before_groups r\<close>: how many characters a match of \<open>r\<close> consumes at least before it opens a
  group. The captures are that much shorter than the input.\<close>

primrec before_groups :: "rx \<Rightarrow> nat" where
  "before_groups Eps = 0"
| "before_groups (Cls neg items) = 1"
| "before_groups (Seq a b) = (if rx_groups a = [] then rx_min a + before_groups b else before_groups a)"
| "before_groups (Alt a b) = min (before_groups a) (before_groups b)"
| "before_groups (Rep lo hi g r) = 0"
| "before_groups (Group n r) = 0"
| "before_groups (BackRef n) = 0"
| "before_groups Bol = 0"
| "before_groups Eol = 0"
| "before_groups (WordB p) = 0"
| "before_groups (Look p r) = 0"

lemma before_groups_min: "before_groups r \<le> rx_min r"
  by (induction r) auto

definition caps_le :: "nat \<Rightarrow> caps \<Rightarrow> bool" where
  "caps_le k cs \<longleftrightarrow> (\<forall>w. Some w \<in> set cs \<longrightarrow> length w \<le> k)"

lemma caps_le_reset: "caps_le k cs \<Longrightarrow> caps_le k (reset_caps gs cs)"
  by (auto simp: caps_le_def dest: reset_caps_subset)

lemma caps_le_update: "caps_le k cs \<Longrightarrow> length w \<le> k \<Longrightarrow> caps_le k (cs[n := Some w])"
  by (auto simp: caps_le_def dest!: set_update_subset_insert [THEN subsetD])

lemma rx_l_caps_le:
  "caps_le k (rcaps s) \<Longrightarrow> length (rest s) \<le> k + before_groups r \<Longrightarrow> t \<in> set (rx_l f r s) \<Longrightarrow>
     caps_le k (rcaps t)"
proof (induction r arbitrary: s t)
  case (Seq a b)
  from Seq.prems(3) obtain u where u: "u \<in> set (rx_l f a s)" "t \<in> set (rx_l f b u)" by auto
  have len: "length (rest u) + rx_min a \<le> length (rest s)" by (rule rx_l_rest_length [OF u(1)])
  show ?case
  proof (cases "rx_groups a = []")
    case True
    then have "rcaps u = rcaps s" using u(1) by (rule rx_l_no_groups)
    then show ?thesis using Seq.IH(2) [OF _ _ u(2)] Seq.prems(1,2) True len by simp
  next
    case False
    then have "caps_le k (rcaps u)" using Seq.IH(1) [OF Seq.prems(1) _ u(1)] Seq.prems(2) by simp
    then show ?thesis
      using Seq.IH(2) [OF _ _ u(2)] Seq.prems(2) False len before_groups_min [of a] by simp
  qed
next
  case (Alt a b)
  from Alt.prems(3) consider "t \<in> set (rx_l f a s)" | "t \<in> set (rx_l f b s)" by auto
  then show ?case
  proof cases
    case 1
    from Alt.IH(1) [OF Alt.prems(1) _ 1] Alt.prems(2) show ?thesis by simp
  next
    case 2
    from Alt.IH(2) [OF Alt.prems(1) _ 2] Alt.prems(2) show ?thesis by simp
  qed
next
  case (Rep lo hi g r)
  have "caps_le k (rcaps t) \<and> length (rest t) \<le> k"
    using Rep.prems(3) unfolding rx_l.simps(5)
  proof (rule rep_l_invariant [where Q = "\<lambda>t. caps_le k (rcaps t) \<and> length (rest t) \<le> k", rotated 2])
    fix s' t'
    assume s': "caps_le k (rcaps s') \<and> length (rest s') \<le> k"
      and t': "t' \<in> set (rx_l f r (s'\<lparr>rcaps := reset_caps (rx_groups r) (rcaps s')\<rparr>))"
    show "caps_le k (rcaps t') \<and> length (rest t') \<le> k"
      using Rep.IH [OF _ _ t'] rx_l_rest_length [OF t'] s' caps_le_reset by simp
  qed (use Rep.prems in simp)
  then show ?case by simp
next
  case (Group n r)
  then obtain u where u: "u \<in> set (rx_l f r s)" "t = set_group n (rest s) u" by auto
  then show ?case
    using Group.IH [OF Group.prems(1) _ u(1)] Group.prems(2) by (simp add: set_group_def caps_le_update)
next
  case (Look p r)
  then show ?case
    using Look.IH [OF Look.prems(1)] by (cases "rx_l f r s") (auto split: if_splits)
qed (metis rx_groups.simps rx_l_no_groups)+

subsection \<open>The match behind exec\<close>

abbreviation start_state :: "regexp \<Rightarrow> string \<Rightarrow> string \<Rightarrow> rx_state" where
  "start_state re p xs \<equiv> \<lparr>pre = p, rest = xs, rcaps = init_caps (ngroups re)\<rparr>"

text \<open>\<open>ends re p xs t m\<close>: \<open>m\<close> is the match of \<open>re\<close> on \<open>xs\<close> after \<open>p\<close>, and \<open>t\<close> the state it
  ends in.\<close>

definition ends :: "regexp \<Rightarrow> string \<Rightarrow> string \<Rightarrow> rx_state \<Rightarrow> rx_match \<Rightarrow> bool" where
  "ends re p xs t m \<longleftrightarrow>
     (\<exists>ts. rx_l (flags re) (pat re) (start_state re p xs) = t # ts) \<and> xs = cap0 m @ rest t \<and>
     m_index m = length p \<and> m_caps m = (rcaps t)[0 := Some (cap0 m)]"

lemma match_here_ends: "match_here re p xs = Some m \<Longrightarrow> \<exists>t. ends re p xs t m"
proof -
  assume *: "match_here re p xs = Some m"
  then obtain t where t: "rx_m (flags re) (pat re) Some (start_state re p xs) = Some t"
    and m: "m = \<lparr>m_index = length p, m_caps = (rcaps t)[0 := Some (take (length xs - length (rest t)) xs)]\<rparr>"
    by (auto simp: match_here_def)
  from t obtain ts where ts: "rx_l (flags re) (pat re) (start_state re p xs) = t # ts"
    by (auto simp: rx_m_alts first_some_Some split: list.splits)
  then have "t \<in> set (rx_l (flags re) (pat re) (start_state re p xs))" by simp
  from rx_l_advances [OF this] obtain w where w: "xs = w @ rest t" "length (rcaps t) = Suc (ngroups re)"
    by (auto simp: advances_def init_caps_def)
  then have "take (length xs - length (rest t)) xs = w" by simp
  then have "cap0 m = w" using m w by (simp add: cap0_def cap_def get_cap_def)
  then show ?thesis using ts w m \<open>take _ _ = w\<close> by (auto simp: ends_def)
qed

lemma match_here_None: "match_here re p xs = None \<longleftrightarrow> rx_l (flags re) (pat re) (start_state re p xs) = []"
  by (auto simp: match_here_def rx_m_alts first_some_Some split: list.splits)

lemma search_from_ends:
  "search_from re p xs = Some m \<Longrightarrow> \<exists>q ys t. rev p @ xs = rev q @ ys \<and> length p \<le> length q \<and> ends re q ys t m"
proof (induction re p xs rule: search_from.induct)
  case (1 re p)
  then show ?case by (intro exI [of _ p] exI [of _ "[]"]) (auto dest: match_here_ends)
next
  case (2 re p x xs)
  show ?case
  proof (cases "match_here re p (x # xs)")
    case None
    with "2.prems" have "search_from re (x # p) xs = Some m" by simp
    from "2.IH" [OF None this] show ?thesis by force
  next
    case (Some m')
    with "2.prems" show ?thesis
      by (intro exI [of _ p] exI [of _ "x # xs"]) (auto dest!: match_here_ends)
  qed
qed

lemma exec_at_ends:
  "exec_at re s i = Some m \<Longrightarrow> \<exists>q ys t. s = rev q @ ys \<and> i \<le> length q \<and> ends re q ys t m"
  using search_from_ends [of re "rev (take i s)" "drop i s" m]
  by (auto simp: exec_at_def min_def split: if_splits)

lemma exec_ends: "exec re s = Some m \<Longrightarrow> \<exists>q ys t. s = rev q @ ys \<and> ends re q ys t m"
  using search_from_ends [of re "[]" s m] by (simp add: exec_def)

lemma ends_in: "ends re p xs t m \<Longrightarrow> t \<in> set (rx_l (flags re) (pat re) (start_state re p xs))"
  by (auto simp: ends_def)

lemma ends_lang: "ends re p xs t m \<Longrightarrow> lang (flags re) (pat re) (cap0 m)"
  using rx_l_lang [OF ends_in, of re p xs t m] by (auto simp: ends_def)

lemma ends_cap:
  assumes "ends re p xs t m" "n \<noteq> 0"
  shows "cap m n = get_cap (rcaps t) n"
  using assms by (simp add: ends_def cap_def get_cap_def)

lemma exec_lang: "exec re s = Some m \<Longrightarrow> lang (flags re) (pat re) (cap0 m)"
  by (auto dest!: exec_ends ends_lang)

lemma exec_sets:
  assumes "exec re s = Some m" "sets n (pat re)" "n \<le> ngroups re" "n \<noteq> 0"
  shows "cap m n \<noteq> None"
proof -
  obtain q ys t where e: "ends re q ys t m" using exec_ends [OF assms(1)] by blast
  have "length (rcaps t) = Suc (ngroups re)"
    using rx_l_caps_length [OF ends_in [OF e]] by (simp add: init_caps_def)
  moreover have "rcaps t ! n \<noteq> None"
    by (rule rx_l_sets [OF assms(2) _ ends_in [OF e]]) (use assms(3) in \<open>simp add: init_caps_def\<close>)
  ultimately show ?thesis using ends_cap [OF e assms(4)] assms(3) by (simp add: get_cap_def)
qed

lemma exec_caps_shorter:
  assumes "exec re s = Some m" "before_groups (pat re) \<noteq> 0" "n \<noteq> 0" "cap m n = Some w"
  shows "length w < length s"
proof -
  obtain q ys t where e: "s = rev q @ ys" "ends re q ys t m" using exec_ends [OF assms(1)] by blast
  have in': "t \<in> set (rx_l (flags re) (pat re) (start_state re q ys))" by (rule ends_in [OF e(2)])
  have "length (rest t) + rx_min (pat re) \<le> length ys" using rx_l_rest_length [OF in'] by simp
  then have pos: "0 < length ys" using before_groups_min [of "pat re"] assms(2) by linarith
  have "caps_le (length ys - 1) (rcaps t)"
    by (rule rx_l_caps_le [OF _ _ in']) (use assms(2) in \<open>auto simp: caps_le_def init_caps_def\<close>)
  moreover have "Some w \<in> set (rcaps t)"
    using assms(4) ends_cap [OF e(2) assms(3)] by (auto simp: get_cap_def in_set_conv_nth split: if_splits)
  ultimately have "length w \<le> length ys - 1" by (simp add: caps_le_def)
  then show ?thesis using pos e(1) by (cases ys) auto
qed

text \<open>A pattern that starts with a caret matches only at the start of the text.\<close>

primrec anchored :: "rx \<Rightarrow> bool" where
  "anchored Eps \<longleftrightarrow> False"
| "anchored (Cls neg items) \<longleftrightarrow> False"
| "anchored (Seq a b) \<longleftrightarrow> anchored a"
| "anchored (Alt a b) \<longleftrightarrow> anchored a \<and> anchored b"
| "anchored (Rep lo hi g r) \<longleftrightarrow> False"
| "anchored (Group n r) \<longleftrightarrow> anchored r"
| "anchored (BackRef n) \<longleftrightarrow> False"
| "anchored Bol \<longleftrightarrow> True"
| "anchored Eol \<longleftrightarrow> False"
| "anchored (WordB p) \<longleftrightarrow> False"
| "anchored (Look p r) \<longleftrightarrow> False"

lemma rx_l_anchored:
  "anchored r \<Longrightarrow> \<not> multiline f \<Longrightarrow> t \<in> set (rx_l f r s) \<Longrightarrow> pre s = []"
  by (induction r arbitrary: s t) (auto simp: at_bol_def split: if_splits list.splits)

lemma exec_anchored:
  assumes "exec re s = Some m" "anchored (pat re)" "\<not> multiline (flags re)"
  shows "\<exists>t. ends re [] s t m" "m_index m = 0" "s = cap0 m @ drop (length (cap0 m)) s"
proof -
  obtain q ys t where e: "s = rev q @ ys" "ends re q ys t m" using exec_ends [OF assms(1)] by blast
  have "q = []" using rx_l_anchored [OF assms(2,3) ends_in [OF e(2)]] by simp
  with e have *: "ends re [] s t m" by simp
  then show "\<exists>t. ends re [] s t m" by blast
  show "m_index m = 0" "s = cap0 m @ drop (length (cap0 m)) s"
    using * by (simp_all add: ends_def)
qed

lemma exec_at_start: "rx_l (flags re) (pat re) (start_state re [] s) \<noteq> [] \<Longrightarrow> exec re s \<noteq> None"
  using match_here_None [of re "[]" s] by (cases s) (auto simp: exec_def)

lemma exec_somewhere:
  assumes "s = rev p @ xs" "rx_l (flags re) (pat re) (start_state re p xs) \<noteq> []"
  shows "exec re s \<noteq> None"
proof -
  have "search_from re q (ys @ xs) \<noteq> None" if "rev p = rev q @ ys" for q ys
    using that
  proof (induction ys arbitrary: q)
    case Nil
    then show ?case using assms(2) match_here_None [of re p xs] by (cases xs) auto
  next
    case (Cons y ys)
    then show ?case using Cons.IH [of "y # q"] by (auto split: option.splits)
  qed
  from this [of "[]" "rev p"] show ?thesis using assms(1) by (simp add: exec_def)
qed

lemma rx_l_Seq_Bol: "pre s = [] \<Longrightarrow> rx_l f (Seq Bol r) s = rx_l f r s"
  by (simp add: at_bol_def)

lemma rx_l_Seq_not_Nil: "y \<in> set (rx_l f a s) \<Longrightarrow> rx_l f b y \<noteq> [] \<Longrightarrow> rx_l f (Seq a b) s \<noteq> []"
  by auto

lemma lang_cong: "ignoreCase f = ignoreCase g \<Longrightarrow> lang f r w \<longleftrightarrow> lang g r w"
  by (induction r arbitrary: w) auto

lemma lang_star_char:
  assumes "\<not> ignoreCase f"
  shows "lang f (Rep 0 None g (Cls False [CChar c])) w \<longleftrightarrow> set w \<subseteq> {c}"
proof
  assume "set w \<subseteq> {c}"
  then show "lang f (Rep 0 None g (Cls False [CChar c])) w"
    using assms by (auto simp: cls_ok_def intro!: exI [of _ "map (\<lambda>x. [x]) w"])
next
  assume "lang f (Rep 0 None g (Cls False [CChar c])) w"
  then show "set w \<subseteq> {c}" using assms by (fastforce simp: cls_ok_def)
qed

subsection \<open>Greedy repetition of a class\<close>

definition advance :: "nat \<Rightarrow> rx_state \<Rightarrow> rx_state" where
  "advance k s = s\<lparr>pre := rev (take k (rest s)) @ pre s, rest := drop k (rest s)\<rparr>"

lemma advance_Suc: "rest s = c # cs \<Longrightarrow> advance (Suc k) s = advance k (s\<lparr>pre := c # pre s, rest := cs\<rparr>)"
  by (simp add: advance_def)

lemma rx_l_star_class:
  "rx_l f (Rep 0 None True (Cls neg items)) s =
     map (\<lambda>k. advance k s)
       (rev [0..<Suc (length (takeWhile (cls_ok (ignoreCase f) neg items) (rest s)))])"
proof (induction "rest s" arbitrary: s)
  case Nil
  then show ?case by (subst rx_l_Rep) (simp add: reset_caps_def advance_def)
next
  case (Cons c cs)
  let ?s = "s\<lparr>pre := c # pre s, rest := cs\<rparr>"
  have s: "s\<lparr>rcaps := rcaps s\<rparr> = s" "rest s = c # cs" using Cons.hyps(2) by simp_all
  show ?case
  proof (cases "cls_ok (ignoreCase f) neg items c")
    case True
    have "rx_l f (Rep 0 None True (Cls neg items)) s = rx_l f (Rep 0 None True (Cls neg items)) ?s @ [s]"
      using True s by (subst rx_l_Rep) (simp add: reset_caps_def pred_opt_def)
    also have "\<dots> = map (\<lambda>k. advance k ?s)
        (rev [0..<Suc (length (takeWhile (cls_ok (ignoreCase f) neg items) cs))]) @ [advance 0 s]"
      using Cons.hyps(1) [of ?s] by (simp add: advance_def)
    also have "\<dots> = map (\<lambda>k. advance k s)
        (rev [0..<Suc (Suc (length (takeWhile (cls_ok (ignoreCase f) neg items) cs)))])"
      by (simp add: advance_Suc [OF s(2), symmetric] upt_conv_Cons map_Suc_upt [symmetric] rev_map
            del: upt_Suc)
    finally show ?thesis using True s by simp
  next
    case False
    then show ?thesis
      using s by (subst rx_l_Rep) (simp add: reset_caps_def advance_def)
  qed
qed

lemma rx_l_star_class_hd:
  "\<exists>ts. rx_l f (Rep 0 None True (Cls neg items)) s =
     advance (length (takeWhile (cls_ok (ignoreCase f) neg items) (rest s))) s # ts"
  unfolding rx_l_star_class by simp

lemma rx_l_plus_class:
  "rx_l f (Rep 1 None True (Cls neg items)) s =
     (case rest s of
        [] \<Rightarrow> []
      | c # cs \<Rightarrow>
          if cls_ok (ignoreCase f) neg items c
          then rx_l f (Rep 0 None True (Cls neg items)) (advance 1 s) else [])"
  by (subst rx_l_Rep) (auto simp: reset_caps_def pred_opt_def advance_def split: list.splits)

lemma rx_l_plus_class_hd:
  assumes "rest s = c # cs" "cls_ok (ignoreCase f) neg items c"
  shows "\<exists>ts. rx_l f (Rep 1 None True (Cls neg items)) s =
     advance (length (takeWhile (cls_ok (ignoreCase f) neg items) (rest s))) s # ts"
  using assms rx_l_star_class_hd [of f neg items "advance 1 s"]
  by (auto simp: rx_l_plus_class [unfolded One_nat_def] advance_def)

lemma rx_l_Rep0_not_Nil [simp]: "rx_l f (Rep 0 hi g r) s \<noteq> []"
  by (subst rx_l_Rep) (auto simp: Let_def)

subsection \<open>What replace and match leave of a text\<close>

lemma subseq_append_mid: "subseq xs ys \<Longrightarrow> subseq (p @ xs) (p @ v @ ys)"
  by (intro list_emb_append_mono list_emb_append2) (simp_all add: subseq_order.refl)

lemma matches_from_drop:
  assumes "match_splits re s m" "i \<le> m_index m"
  shows "drop i s = take (m_index m - i) (drop i s) @ cap0 m @ drop (m_index m + length (cap0 m)) s"
proof -
  have "cap0 m @ drop (m_index m + length (cap0 m)) s = drop (m_index m) s"
    using assms(1) by (auto simp: match_splits_def) (metis append_eq_conv_conj drop_drop append_take_drop_id)
  moreover have "take (m_index m - i) (drop i s) @ drop (m_index m) s = drop i s"
    using assms(2) by (metis append_take_drop_id drop_drop le_add_diff_inverse2)
  ultimately show ?thesis by simp
qed

text \<open>Deleting the matches leaves a subsequence of the text; so do the matches themselves.\<close>

lemma splice_subseq: "matches_from re s i ms \<Longrightarrow> subseq (splice s i (\<lambda>_. []) ms) (drop i s)"
proof (induction ms arbitrary: i)
  case (Cons m ms)
  let ?e = "m_index m + length (cap0 m)"
  have "drop i s = take (m_index m - i) (drop i s) @ cap0 m @ drop ?e s"
    using Cons.prems by (intro matches_from_drop) auto
  moreover have "subseq (splice s ?e (\<lambda>_. []) ms) (drop ?e s)" using Cons by simp
  ultimately show ?case
    using subseq_append_mid [of "splice s ?e (\<lambda>_. []) ms" "drop ?e s"] by (metis append_Nil splice.simps(2))
qed simp

lemma concat_matches_subseq: "matches_from re s i ms \<Longrightarrow> subseq (concat (map cap0 ms)) (drop i s)"
proof (induction ms arbitrary: i)
  case (Cons m ms)
  let ?e = "m_index m + length (cap0 m)"
  have *: "drop i s = take (m_index m - i) (drop i s) @ cap0 m @ drop ?e s"
    using Cons.prems by (intro matches_from_drop) auto
  have "subseq (concat (map cap0 ms)) (drop ?e s)" using Cons by simp
  then have "subseq (concat (map cap0 (m # ms))) (cap0 m @ drop ?e s)"
    using subseq_append_mid [of _ _ "cap0 m" "[]"] by simp
  then show ?case using * by (metis list_emb_append2)
qed simp

lemma re_replace_subseq: "subseq (re_replace re (\<lambda>_. []) s) s"
  using splice_subseq [OF exec_all_matches] by (simp add: re_replace_def)

lemma exec_single_match: "exec re s = Some m \<Longrightarrow> matches_from re s 0 [m]"
  by (simp add: exec_splits)

lemma re_replace1_subseq: "subseq (re_replace1 re (\<lambda>_. []) s) s"
  using splice_subseq [OF exec_single_match] by (auto simp: re_replace1_def split: option.splits)

lemma match_all_subseq: "match_all re s = Some ws \<Longrightarrow> subseq (concat ws) s"
  using concat_matches_subseq [OF exec_all_matches, of re s]
  by (auto simp: match_all_def split: list.splits)

lemma re_replace_shorter:
  assumes "exec re s \<noteq> None" "rx_min (pat re) \<noteq> 0"
  shows "length (re_replace re (\<lambda>_. []) s) < length s"
proof -
  obtain m where m: "exec re s = Some m" using assms(1) by blast
  obtain ms where ms: "exec_all re s = m # ms" "matches_from re s 0 (m # ms)"
    using exec_all_matches [of re s] m
    by (simp add: exec_all_def exec_all_from.simps [of re s 0] exec_at_def exec_def)
  let ?e = "m_index m + length (cap0 m)"
  have "length (splice s ?e (\<lambda>_. []) ms) \<le> length (drop ?e s)"
    using splice_subseq [of re s ?e ms] ms(2) by (intro list_emb_length) simp
  moreover have "0 < length (cap0 m)" "?e \<le> length s"
    using exec_splits [OF m] assms(2) by (auto simp: match_splits_def)
  ultimately have "m_index m + length (splice s ?e (\<lambda>_. []) ms) < length s"
    unfolding length_drop by linarith
  then show ?thesis using ms(1) \<open>?e \<le> length s\<close> by (simp add: re_replace_def)
qed

lemma re_replace1_erase:
  "exec re s = Some m \<Longrightarrow> \<exists>u v. s = u @ cap0 m @ v \<and> re_replace1 re (\<lambda>_. []) s = u @ v"
  using exec_splits [of re s m]
  by (intro exI [of _ "take (m_index m) s"] exI [of _ "drop (m_index m + length (cap0 m)) s"])
    (simp add: re_replace1_def match_splits_def)

text \<open>The matches found by a global search are matches of the pattern.\<close>

lemma exec_all_from_lang: "m \<in> set (exec_all_from re s i) \<Longrightarrow> lang (flags re) (pat re) (cap0 m)"
proof (induction re s i rule: exec_all_from.induct)
  case (1 re s i)
  show ?case
  proof (cases "exec_at re s i")
    case None
    then show ?thesis using "1.prems" by (simp add: exec_all_from.simps)
  next
    case (Some m')
    then have "m = m' \<or> m \<in> set (exec_all_from re s (next_index m'))"
      using "1.prems" by (simp add: exec_all_from.simps [of re s i])
    then show ?thesis using Some "1.IH" exec_at_ends [OF Some] ends_lang by blast
  qed
qed

lemma match_all_lang: "match_all re s = Some ws \<Longrightarrow> w \<in> set ws \<Longrightarrow> lang (flags re) (pat re) w"
  using exec_all_from_lang [of _ re s 0] by (auto simp: match_all_def exec_all_def split: list.splits)

lemma match_all_not_None: "exec re s \<noteq> None \<Longrightarrow> match_all re s \<noteq> None"
  by (auto simp: match_all_def exec_all_def exec_all_from.simps [of re s 0] exec_at_def exec_def
      split: list.splits option.splits)

end
