(* ===== verification/Marked_Grammar.thy ===== *)
theory Marked_Grammar
  imports Js_RegExp_Syntax
begin

text \<open>
  The grammars of marked, the Markdown compiler in the bundle (\<^verbatim>\<open>remark.js\<close>,
  module 3): the sources of the block and inline expressions, the helper \<open>replace\<close>
  that composes them textually, and the rule tables \<open>normal\<close>, \<open>gfm\<close>,
  \<open>tables\<close>, \<open>pedantic\<close> and \<open>breaks\<close>.

  A rule is an expression or \<open>noop\<close>, whose \<open>exec\<close> returns \<open>undefined\<close>
  (\<open>None\<close> below). As everywhere in the development a percent sign in a literal stands
  for the backslash.
\<close>

subsection \<open>The helper replace\<close>

text \<open>
  \<open>replace(regex, opt)(name, val)\<dots>()\<close>: every call replaces \<open>name\<close>, a string
  (its first occurrence) or an expression with the flag \<open>g\<close> (every occurrence), by
  \<open>val\<close> without its carets, except those that open a negated class. No value
  substituted in the bundle has a dollar sign that \<open>String.replace\<close> would interpret.
\<close>

datatype name_pat = First string | Every string

definition caret_re :: regexp where
  "caret_re = re no_flags (bs ''(^|[^%[])%^'')"

definition strip_carets :: "string \<Rightarrow> string" where
  "strip_carets val = re_replace caret_re (\<lambda>m. cap_str m 1) val"

fun replace_name :: "name_pat \<times> string \<Rightarrow> string \<Rightarrow> string" where
  "replace_name (First name, val) regex = replace_first name (strip_carets val) regex"
| "replace_name (Every name, val) regex = re_replace (re no_flags name) (\<lambda>_. strip_carets val) regex"

definition replace_names :: "string \<Rightarrow> (name_pat \<times> string) list \<Rightarrow> string" where
  "replace_names regex calls = fold replace_name calls regex"

subsection \<open>Block grammar: sources\<close>

definition newline_src :: string where
  "newline_src = bs ''^%n+''"

definition code_src :: string where
  "code_src = bs ''^( {4}[^%n]+%n*)+''"

definition hr_src :: string where
  "hr_src = bs ''^( *[-*_]){3,} *(?:%n+|$)''"

definition heading_src :: string where
  "heading_src = bs ''^ *(#{1,6}) *([^%n]+?) *#* *(?:%n+|$)''"

definition lheading_src :: string where
  "lheading_src = bs ''^([^%n]+)%n *(=|-){2,} *(?:%n+|$)''"

definition blockquote_src :: string where
  "blockquote_src = bs ''^( *>[^%n]+(%n(?!def)[^%n]+)*%n*)+''"

definition def_src :: string where
  "def_src = bs ''^ *%[([^%]]+)%]: *<?([^%s>]+)>?(?: +[\"(]([^%n]+)[\")])? *(?:%n+|$)''"

definition text_src :: string where
  "text_src = bs ''^[^%n]+''"

definition bullet_src :: string where
  "bullet_src = bs ''(?:[*+-]|%d+%.)''"

definition item_src :: string where
  "item_src =
     replace_names (bs ''^( *)(bull) [^%n]*(?:%n(?!%1bull )[^%n]*)*'')
       [(Every ''bull'', bullet_src)]"

definition list_src :: string where
  "list_src =
     replace_names (bs ''^( *)(bull) [%s%S]+?(?:hr|def|%n{2,}(?! )(?!%1bull )%n*|%s*$)'')
       [(Every ''bull'', bullet_src),
        (First ''hr'', bs ''%n+(?=%1?(?:[-*_] *){3,}(?:%n+|$))''),
        (First ''def'', bs ''%n+(?='' @ def_src @ bs '')'')]"

definition tag_src :: string where
  "tag_src =
     bs (''(?!(?:''
       @ ''a|em|strong|small|s|cite|q|dfn|abbr|data|time|code''
       @ ''|var|samp|kbd|sub|sup|i|b|u|mark|ruby|rt|rp|bdi|bdo''
       @ ''|span|br|wbr|ins|del|img)%b)%w+(?!:/|[^%w%s@]*@)%b'')"

definition html_src :: string where
  "html_src =
     replace_names (bs ''^ *(?:comment *(?:%n|%s*$)|closed *(?:%n{2,}|%s*$)|closing *(?:%n{2,}|%s*$))'')
       [(First ''comment'', bs ''<!--[%s%S]*?-->''),
        (First ''closed'', bs ''<(tag)[%s%S]+?<%/%1>''),
        (First ''closing'', bs ''<tag(?:\"[^\"]*\"|'[^']*'|[^'\">])*?>''),
        (Every ''tag'', tag_src)]"

definition paragraph_src :: string where
  "paragraph_src =
     replace_names (bs ''^((?:[^%n]+%n?(?!hr|heading|lheading|blockquote|tag|def))+)%n*'')
       [(First ''hr'', hr_src),
        (First ''heading'', heading_src),
        (First ''lheading'', lheading_src),
        (First ''blockquote'', blockquote_src),
        (First ''tag'', ''<'' @ tag_src),
        (First ''def'', def_src)]"

definition gfm_fences_src :: string where
  "gfm_fences_src = bs ''^ *(`{3,}|~{3,})[ %.]*(%S+)? *%n([%s%S]*?)%s*%1 *(?:%n+|$)''"

definition gfm_heading_src :: string where
  "gfm_heading_src = bs ''^ *(#{1,6}) +([^%n]+?) *#* *(?:%n+|$)''"

definition gfm_paragraph_src :: string where
  "gfm_paragraph_src =
     replace_names paragraph_src
       [(First ''(?!'',
         ''(?!'' @ replace_first (bs ''%1'') (bs ''%2'') gfm_fences_src @ ''|''
           @ replace_first (bs ''%1'') (bs ''%3'') list_src @ ''|'')]"

definition nptable_src :: string where
  "nptable_src = bs ''^ *(%S.*%|.*)%n *([-:]+ *%|[-| :]*)%n((?:.*%|.*(?:%n|$))*)%n*''"

definition table_src :: string where
  "table_src = bs ''^ *%|(.+)%n *%|( *[-:]+[-| :]*)%n((?: *%|.*(?:%n|$))*)%n*''"

subsection \<open>Inline grammar: sources\<close>

definition i_escape_src :: string where
  "i_escape_src = bs ''^%%([%%`*{}%[%]()#+%-.!_>])''"

definition i_autolink_src :: string where
  "i_autolink_src = bs ''^<([^ >]+(@|:%/)[^ >]+)>''"

definition i_tag_src :: string where
  "i_tag_src = bs ''^<!--[%s%S]*?-->|^<%/?%w+(?:\"[^\"]*\"|'[^']*'|[^'\">])*?>''"

definition i_inside_src :: string where
  "i_inside_src = bs ''(?:%[[^%]]*%]|[^%[%]]|%](?=[^%[]*%]))*''"

definition i_href_src :: string where
  "i_href_src = bs ''%s*<?([%s%S]*?)>?(?:%s+['\"]([%s%S]*?)['\"])?%s*''"

definition i_link_src :: string where
  "i_link_src =
     replace_names (bs ''^!?%[(inside)%]%(href%)'')
       [(First ''inside'', i_inside_src), (First ''href'', i_href_src)]"

definition i_reflink_src :: string where
  "i_reflink_src =
     replace_names (bs ''^!?%[(inside)%]%s*%[([^%]]*)%]'') [(First ''inside'', i_inside_src)]"

definition i_nolink_src :: string where
  "i_nolink_src = bs ''^!?%[((?:%[[^%]]*%]|[^%[%]])*)%]''"

definition i_strong_src :: string where
  "i_strong_src = bs ''^__([%s%S]+?)__(?!_)|^%*%*([%s%S]+?)%*%*(?!%*)''"

definition i_em_src :: string where
  "i_em_src = bs ''^%b_((?:[^_]|__)+?)_%b|^%*((?:%*%*|[%s%S])+?)%*(?!%*)''"

definition i_code_src :: string where
  "i_code_src = bs ''^(`+)([%s%S]*?[^`])%1(?!`)''"

definition i_br_src :: string where
  "i_br_src = bs ''^ {2,}%n(?!%s*$)''"

definition i_text_src :: string where
  "i_text_src = bs ''^[%s%S]+?(?=[%%<!%[_*`]| {2,}%n|$)''"

definition pedantic_strong_src :: string where
  "pedantic_strong_src = bs ''^__(?=%S)([%s%S]*?%S)__(?!_)|^%*%*(?=%S)([%s%S]*?%S)%*%*(?!%*)''"

definition pedantic_em_src :: string where
  "pedantic_em_src = bs ''^_(?=%S)([%s%S]*?%S)_(?!_)|^%*(?=%S)([%s%S]*?%S)%*(?!%*)''"

definition gfm_escape_src :: string where
  "gfm_escape_src = replace_names i_escape_src [(First ''])'', ''~|])'')]"

definition gfm_url_src :: string where
  "gfm_url_src = bs ''^(https?:%/%/[^%s<]+[^<.,:;\"')%]%s])''"

definition gfm_del_src :: string where
  "gfm_del_src = bs ''^~~(?=%S)([%s%S]*?%S)~~''"

definition gfm_text_src :: string where
  "gfm_text_src = replace_names i_text_src [(First '']|'', ''~]|''), (First ''|'', ''|https?://|'')]"

definition breaks_br_src :: string where
  "breaks_br_src = replace_names i_br_src [(First ''{2,}'', ''*'')]"

definition breaks_text_src :: string where
  "breaks_text_src = replace_names gfm_text_src [(First ''{2,}'', ''*'')]"

subsection \<open>The compiled expressions\<close>

definition newline_re :: regexp where
  "newline_re = re no_flags newline_src"

definition code_re :: regexp where
  "code_re = re no_flags code_src"

definition hr_re :: regexp where
  "hr_re = re no_flags hr_src"

definition heading_re :: regexp where
  "heading_re = re no_flags heading_src"

definition lheading_re :: regexp where
  "lheading_re = re no_flags lheading_src"

definition blockquote_re :: regexp where
  "blockquote_re = re no_flags blockquote_src"

definition list_re :: regexp where
  "list_re = re no_flags list_src"

definition html_re :: regexp where
  "html_re = re no_flags html_src"

definition def_re :: regexp where
  "def_re = re no_flags def_src"

definition paragraph_re :: regexp where
  "paragraph_re = re no_flags paragraph_src"

definition text_re :: regexp where
  "text_re = re no_flags text_src"

definition bullet_re :: regexp where
  "bullet_re = re no_flags bullet_src"

definition gfm_fences_re :: regexp where
  "gfm_fences_re = re no_flags gfm_fences_src"

definition gfm_heading_re :: regexp where
  "gfm_heading_re = re no_flags gfm_heading_src"

definition gfm_paragraph_re :: regexp where
  "gfm_paragraph_re = re no_flags gfm_paragraph_src"

definition nptable_re :: regexp where
  "nptable_re = re no_flags nptable_src"

definition table_re :: regexp where
  "table_re = re no_flags table_src"

abbreviation gm_flags :: rx_flags where
  "gm_flags \<equiv> \<lparr>ignoreCase = False, multiline = True\<rparr>"

definition item_re :: regexp where
  "item_re = re gm_flags item_src"

definition i_escape_re :: regexp where
  "i_escape_re = re no_flags i_escape_src"

definition i_autolink_re :: regexp where
  "i_autolink_re = re no_flags i_autolink_src"

definition i_tag_re :: regexp where
  "i_tag_re = re no_flags i_tag_src"

definition i_link_re :: regexp where
  "i_link_re = re no_flags i_link_src"

definition i_reflink_re :: regexp where
  "i_reflink_re = re no_flags i_reflink_src"

definition i_nolink_re :: regexp where
  "i_nolink_re = re no_flags i_nolink_src"

definition i_strong_re :: regexp where
  "i_strong_re = re no_flags i_strong_src"

definition i_em_re :: regexp where
  "i_em_re = re no_flags i_em_src"

definition i_code_re :: regexp where
  "i_code_re = re no_flags i_code_src"

definition i_br_re :: regexp where
  "i_br_re = re no_flags i_br_src"

definition i_text_re :: regexp where
  "i_text_re = re no_flags i_text_src"

definition pedantic_strong_re :: regexp where
  "pedantic_strong_re = re no_flags pedantic_strong_src"

definition pedantic_em_re :: regexp where
  "pedantic_em_re = re no_flags pedantic_em_src"

definition gfm_escape_re :: regexp where
  "gfm_escape_re = re no_flags gfm_escape_src"

definition gfm_url_re :: regexp where
  "gfm_url_re = re no_flags gfm_url_src"

definition gfm_del_re :: regexp where
  "gfm_del_re = re no_flags gfm_del_src"

definition gfm_text_re :: regexp where
  "gfm_text_re = re no_flags gfm_text_src"

definition breaks_br_re :: regexp where
  "breaks_br_re = re no_flags breaks_br_src"

definition breaks_text_re :: regexp where
  "breaks_text_re = re no_flags breaks_text_src"

text \<open>The syntax trees of the expressions, computed once from their sources.\<close>

lemma newline_re_ast [code]:
  "newline_re =
     \<lparr>pat = Seq Bol (Rep 1 None True (Cls False [CChar NL])), ngroups = 0, flags =
     no_flags\<rparr>"
  by code_simp

lemma code_re_ast [code]:
  "code_re =
     \<lparr>pat = Seq Bol (Rep 1 None True (Group 1 (Seq (Rep 4 (Some 4) True (Cls False [CChar
     CHR '' ''])) (Seq (Rep 1 None True (Cls True [CChar NL])) (Rep 0 None True (Cls False [CChar
     NL])))))), ngroups = 1, flags = no_flags\<rparr>"
  by code_simp

lemma hr_re_ast [code]:
  "hr_re =
     \<lparr>pat = Seq Bol (Seq (Rep 3 None True (Group 1 (Seq (Rep 0 None True (Cls False [CChar
     CHR '' ''])) (Cls False [CChar CHR ''-'', CChar CHR ''*'', CChar CHR ''_''])))) (Seq (Rep 0
     None True (Cls False [CChar CHR '' ''])) (Alt (Rep 1 None True (Cls False [CChar NL])) Eol))),
     ngroups = 1, flags = no_flags\<rparr>"
  by code_simp

lemma heading_re_ast [code]:
  "heading_re =
     \<lparr>pat = Seq Bol (Seq (Rep 0 None True (Cls False [CChar CHR '' ''])) (Seq (Group 1 (Rep
     1 (Some 6) True (Cls False [CChar CHR ''#'']))) (Seq (Rep 0 None True (Cls False [CChar CHR
     '' ''])) (Seq (Group 2 (Rep 1 None False (Cls True [CChar NL]))) (Seq (Rep 0 None True (Cls
     False [CChar CHR '' ''])) (Seq (Rep 0 None True (Cls False [CChar CHR ''#''])) (Seq (Rep 0
     None True (Cls False [CChar CHR '' ''])) (Alt (Rep 1 None True (Cls False [CChar NL]))
     Eol)))))))), ngroups = 2, flags = no_flags\<rparr>"
  by code_simp

lemma lheading_re_ast [code]:
  "lheading_re =
     \<lparr>pat = Seq Bol (Seq (Group 1 (Rep 1 None True (Cls True [CChar NL]))) (Seq (Cls False
     [CChar NL]) (Seq (Rep 0 None True (Cls False [CChar CHR '' ''])) (Seq (Rep 2 None True (Group
     2 (Alt (Cls False [CChar CHR ''='']) (Cls False [CChar CHR ''-''])))) (Seq (Rep 0 None True
     (Cls False [CChar CHR '' ''])) (Alt (Rep 1 None True (Cls False [CChar NL])) Eol)))))),
     ngroups = 2, flags = no_flags\<rparr>"
  by code_simp

lemma blockquote_re_ast [code]:
  "blockquote_re =
     \<lparr>pat = Seq Bol (Rep 1 None True (Group 1 (Seq (Rep 0 None True (Cls False [CChar CHR
     '' ''])) (Seq (Cls False [CChar CHR ''>'']) (Seq (Rep 1 None True (Cls True [CChar NL])) (Seq
     (Rep 0 None True (Group 2 (Seq (Cls False [CChar NL]) (Seq (Look False (Seq (Cls False [CChar
     CHR ''d'']) (Seq (Cls False [CChar CHR ''e'']) (Cls False [CChar CHR ''f''])))) (Rep 1 None
     True (Cls True [CChar NL])))))) (Rep 0 None True (Cls False [CChar NL])))))))), ngroups = 2,
     flags = no_flags\<rparr>"
  by code_simp

lemma list_re_ast [code]:
  "list_re =
     \<lparr>pat = Seq Bol (Seq (Group 1 (Rep 0 None True (Cls False [CChar CHR '' '']))) (Seq
     (Group 2 (Alt (Cls False [CChar CHR ''*'', CChar CHR ''+'', CChar CHR ''-'']) (Seq (Rep 1 None
     True (Cls False [CDigit True])) (Cls False [CChar CHR ''.''])))) (Seq (Cls False [CChar CHR
     '' '']) (Seq (Rep 1 None False (Cls False [CSpace True, CSpace False])) (Alt (Seq (Rep 1 None
     True (Cls False [CChar NL])) (Look True (Seq (Rep 0 (Some 1) True (BackRef 1)) (Seq (Rep 3
     None True (Seq (Cls False [CChar CHR ''-'', CChar CHR ''*'', CChar CHR ''_'']) (Rep 0 None
     True (Cls False [CChar CHR '' ''])))) (Alt (Rep 1 None True (Cls False [CChar NL])) Eol)))))
     (Alt (Seq (Rep 1 None True (Cls False [CChar NL])) (Look True (Seq (Rep 0 None True (Cls False
     [CChar CHR '' ''])) (Seq (Cls False [CChar CHR ''['']) (Seq (Group 3 (Rep 1 None True (Cls
     True [CChar CHR '']'']))) (Seq (Cls False [CChar CHR '']'']) (Seq (Cls False [CChar CHR
     '':'']) (Seq (Rep 0 None True (Cls False [CChar CHR '' ''])) (Seq (Rep 0 (Some 1) True (Cls
     False [CChar CHR ''<''])) (Seq (Group 4 (Rep 1 None True (Cls True [CSpace True, CChar CHR
     ''>'']))) (Seq (Rep 0 (Some 1) True (Cls False [CChar CHR ''>''])) (Seq (Rep 0 (Some 1) True
     (Seq (Rep 1 None True (Cls False [CChar CHR '' ''])) (Seq (Cls False [CChar CHR 0x22, CChar
     CHR ''('']) (Seq (Group 5 (Rep 1 None True (Cls True [CChar NL]))) (Cls False [CChar CHR 0x22,
     CChar CHR '')'']))))) (Seq (Rep 0 None True (Cls False [CChar CHR '' ''])) (Alt (Rep 1 None
     True (Cls False [CChar NL])) Eol)))))))))))))) (Alt (Seq (Rep 2 None True (Cls False [CChar
     NL])) (Seq (Look False (Cls False [CChar CHR '' ''])) (Seq (Look False (Seq (BackRef 1) (Seq
     (Alt (Cls False [CChar CHR ''*'', CChar CHR ''+'', CChar CHR ''-'']) (Seq (Rep 1 None True
     (Cls False [CDigit True])) (Cls False [CChar CHR ''.'']))) (Cls False [CChar CHR '' '']))))
     (Rep 0 None True (Cls False [CChar NL]))))) (Seq (Rep 0 None True (Cls False [CSpace True]))
     Eol)))))))), ngroups = 5, flags = no_flags\<rparr>"
  by code_simp

lemma html_re_ast [code]:
  "html_re =
     \<lparr>pat = Seq Bol (Seq (Rep 0 None True (Cls False [CChar CHR '' ''])) (Alt (Seq (Cls
     False [CChar CHR ''<'']) (Seq (Cls False [CChar CHR ''!'']) (Seq (Cls False [CChar CHR ''-''])
     (Seq (Cls False [CChar CHR ''-'']) (Seq (Rep 0 None False (Cls False [CSpace True, CSpace
     False])) (Seq (Cls False [CChar CHR ''-'']) (Seq (Cls False [CChar CHR ''-'']) (Seq (Cls False
     [CChar CHR ''>'']) (Seq (Rep 0 None True (Cls False [CChar CHR '' ''])) (Alt (Cls False [CChar
     NL]) (Seq (Rep 0 None True (Cls False [CSpace True])) Eol))))))))))) (Alt (Seq (Cls False
     [CChar CHR ''<'']) (Seq (Group 1 (Seq (Look False (Seq (Alt (Cls False [CChar CHR ''a'']) (Alt
     (Seq (Cls False [CChar CHR ''e'']) (Cls False [CChar CHR ''m''])) (Alt (Seq (Cls False [CChar
     CHR ''s'']) (Seq (Cls False [CChar CHR ''t'']) (Seq (Cls False [CChar CHR ''r'']) (Seq (Cls
     False [CChar CHR ''o'']) (Seq (Cls False [CChar CHR ''n'']) (Cls False [CChar CHR ''g'']))))))
     (Alt (Seq (Cls False [CChar CHR ''s'']) (Seq (Cls False [CChar CHR ''m'']) (Seq (Cls False
     [CChar CHR ''a'']) (Seq (Cls False [CChar CHR ''l'']) (Cls False [CChar CHR ''l'']))))) (Alt
     (Cls False [CChar CHR ''s'']) (Alt (Seq (Cls False [CChar CHR ''c'']) (Seq (Cls False [CChar
     CHR ''i'']) (Seq (Cls False [CChar CHR ''t'']) (Cls False [CChar CHR ''e''])))) (Alt (Cls
     False [CChar CHR ''q'']) (Alt (Seq (Cls False [CChar CHR ''d'']) (Seq (Cls False [CChar CHR
     ''f'']) (Cls False [CChar CHR ''n'']))) (Alt (Seq (Cls False [CChar CHR ''a'']) (Seq (Cls
     False [CChar CHR ''b'']) (Seq (Cls False [CChar CHR ''b'']) (Cls False [CChar CHR ''r'']))))
     (Alt (Seq (Cls False [CChar CHR ''d'']) (Seq (Cls False [CChar CHR ''a'']) (Seq (Cls False
     [CChar CHR ''t'']) (Cls False [CChar CHR ''a''])))) (Alt (Seq (Cls False [CChar CHR ''t''])
     (Seq (Cls False [CChar CHR ''i'']) (Seq (Cls False [CChar CHR ''m'']) (Cls False [CChar CHR
     ''e''])))) (Alt (Seq (Cls False [CChar CHR ''c'']) (Seq (Cls False [CChar CHR ''o'']) (Seq
     (Cls False [CChar CHR ''d'']) (Cls False [CChar CHR ''e''])))) (Alt (Seq (Cls False [CChar CHR
     ''v'']) (Seq (Cls False [CChar CHR ''a'']) (Cls False [CChar CHR ''r'']))) (Alt (Seq (Cls
     False [CChar CHR ''s'']) (Seq (Cls False [CChar CHR ''a'']) (Seq (Cls False [CChar CHR ''m''])
     (Cls False [CChar CHR ''p''])))) (Alt (Seq (Cls False [CChar CHR ''k'']) (Seq (Cls False
     [CChar CHR ''b'']) (Cls False [CChar CHR ''d'']))) (Alt (Seq (Cls False [CChar CHR ''s''])
     (Seq (Cls False [CChar CHR ''u'']) (Cls False [CChar CHR ''b'']))) (Alt (Seq (Cls False [CChar
     CHR ''s'']) (Seq (Cls False [CChar CHR ''u'']) (Cls False [CChar CHR ''p'']))) (Alt (Cls False
     [CChar CHR ''i'']) (Alt (Cls False [CChar CHR ''b'']) (Alt (Cls False [CChar CHR ''u'']) (Alt
     (Seq (Cls False [CChar CHR ''m'']) (Seq (Cls False [CChar CHR ''a'']) (Seq (Cls False [CChar
     CHR ''r'']) (Cls False [CChar CHR ''k''])))) (Alt (Seq (Cls False [CChar CHR ''r'']) (Seq (Cls
     False [CChar CHR ''u'']) (Seq (Cls False [CChar CHR ''b'']) (Cls False [CChar CHR ''y'']))))
     (Alt (Seq (Cls False [CChar CHR ''r'']) (Cls False [CChar CHR ''t''])) (Alt (Seq (Cls False
     [CChar CHR ''r'']) (Cls False [CChar CHR ''p''])) (Alt (Seq (Cls False [CChar CHR ''b'']) (Seq
     (Cls False [CChar CHR ''d'']) (Cls False [CChar CHR ''i'']))) (Alt (Seq (Cls False [CChar CHR
     ''b'']) (Seq (Cls False [CChar CHR ''d'']) (Cls False [CChar CHR ''o'']))) (Alt (Seq (Cls
     False [CChar CHR ''s'']) (Seq (Cls False [CChar CHR ''p'']) (Seq (Cls False [CChar CHR ''a''])
     (Cls False [CChar CHR ''n''])))) (Alt (Seq (Cls False [CChar CHR ''b'']) (Cls False [CChar CHR
     ''r''])) (Alt (Seq (Cls False [CChar CHR ''w'']) (Seq (Cls False [CChar CHR ''b'']) (Cls False
     [CChar CHR ''r'']))) (Alt (Seq (Cls False [CChar CHR ''i'']) (Seq (Cls False [CChar CHR
     ''n'']) (Cls False [CChar CHR ''s'']))) (Alt (Seq (Cls False [CChar CHR ''d'']) (Seq (Cls
     False [CChar CHR ''e'']) (Cls False [CChar CHR ''l'']))) (Seq (Cls False [CChar CHR ''i''])
     (Seq (Cls False [CChar CHR ''m'']) (Cls False [CChar CHR
     ''g''])))))))))))))))))))))))))))))))))) (WordB True))) (Seq (Rep 1 None True (Cls False
     [CWord True])) (Seq (Look False (Alt (Seq (Cls False [CChar CHR '':'']) (Cls False [CChar CHR
     ''/''])) (Seq (Rep 0 None True (Cls True [CWord True, CSpace True, CChar CHR ''@''])) (Cls
     False [CChar CHR ''@''])))) (WordB True))))) (Seq (Rep 1 None False (Cls False [CSpace True,
     CSpace False])) (Seq (Cls False [CChar CHR ''<'']) (Seq (Cls False [CChar CHR ''/'']) (Seq
     (BackRef 1) (Seq (Cls False [CChar CHR ''>'']) (Seq (Rep 0 None True (Cls False [CChar CHR
     '' ''])) (Alt (Rep 2 None True (Cls False [CChar NL])) (Seq (Rep 0 None True (Cls False
     [CSpace True])) Eol)))))))))) (Seq (Cls False [CChar CHR ''<'']) (Seq (Look False (Seq (Alt
     (Cls False [CChar CHR ''a'']) (Alt (Seq (Cls False [CChar CHR ''e'']) (Cls False [CChar CHR
     ''m''])) (Alt (Seq (Cls False [CChar CHR ''s'']) (Seq (Cls False [CChar CHR ''t'']) (Seq (Cls
     False [CChar CHR ''r'']) (Seq (Cls False [CChar CHR ''o'']) (Seq (Cls False [CChar CHR ''n''])
     (Cls False [CChar CHR ''g''])))))) (Alt (Seq (Cls False [CChar CHR ''s'']) (Seq (Cls False
     [CChar CHR ''m'']) (Seq (Cls False [CChar CHR ''a'']) (Seq (Cls False [CChar CHR ''l'']) (Cls
     False [CChar CHR ''l'']))))) (Alt (Cls False [CChar CHR ''s'']) (Alt (Seq (Cls False [CChar
     CHR ''c'']) (Seq (Cls False [CChar CHR ''i'']) (Seq (Cls False [CChar CHR ''t'']) (Cls False
     [CChar CHR ''e''])))) (Alt (Cls False [CChar CHR ''q'']) (Alt (Seq (Cls False [CChar CHR
     ''d'']) (Seq (Cls False [CChar CHR ''f'']) (Cls False [CChar CHR ''n'']))) (Alt (Seq (Cls
     False [CChar CHR ''a'']) (Seq (Cls False [CChar CHR ''b'']) (Seq (Cls False [CChar CHR ''b''])
     (Cls False [CChar CHR ''r''])))) (Alt (Seq (Cls False [CChar CHR ''d'']) (Seq (Cls False
     [CChar CHR ''a'']) (Seq (Cls False [CChar CHR ''t'']) (Cls False [CChar CHR ''a''])))) (Alt
     (Seq (Cls False [CChar CHR ''t'']) (Seq (Cls False [CChar CHR ''i'']) (Seq (Cls False [CChar
     CHR ''m'']) (Cls False [CChar CHR ''e''])))) (Alt (Seq (Cls False [CChar CHR ''c'']) (Seq (Cls
     False [CChar CHR ''o'']) (Seq (Cls False [CChar CHR ''d'']) (Cls False [CChar CHR ''e'']))))
     (Alt (Seq (Cls False [CChar CHR ''v'']) (Seq (Cls False [CChar CHR ''a'']) (Cls False [CChar
     CHR ''r'']))) (Alt (Seq (Cls False [CChar CHR ''s'']) (Seq (Cls False [CChar CHR ''a'']) (Seq
     (Cls False [CChar CHR ''m'']) (Cls False [CChar CHR ''p''])))) (Alt (Seq (Cls False [CChar CHR
     ''k'']) (Seq (Cls False [CChar CHR ''b'']) (Cls False [CChar CHR ''d'']))) (Alt (Seq (Cls
     False [CChar CHR ''s'']) (Seq (Cls False [CChar CHR ''u'']) (Cls False [CChar CHR ''b''])))
     (Alt (Seq (Cls False [CChar CHR ''s'']) (Seq (Cls False [CChar CHR ''u'']) (Cls False [CChar
     CHR ''p'']))) (Alt (Cls False [CChar CHR ''i'']) (Alt (Cls False [CChar CHR ''b'']) (Alt (Cls
     False [CChar CHR ''u'']) (Alt (Seq (Cls False [CChar CHR ''m'']) (Seq (Cls False [CChar CHR
     ''a'']) (Seq (Cls False [CChar CHR ''r'']) (Cls False [CChar CHR ''k''])))) (Alt (Seq (Cls
     False [CChar CHR ''r'']) (Seq (Cls False [CChar CHR ''u'']) (Seq (Cls False [CChar CHR ''b''])
     (Cls False [CChar CHR ''y''])))) (Alt (Seq (Cls False [CChar CHR ''r'']) (Cls False [CChar CHR
     ''t''])) (Alt (Seq (Cls False [CChar CHR ''r'']) (Cls False [CChar CHR ''p''])) (Alt (Seq (Cls
     False [CChar CHR ''b'']) (Seq (Cls False [CChar CHR ''d'']) (Cls False [CChar CHR ''i''])))
     (Alt (Seq (Cls False [CChar CHR ''b'']) (Seq (Cls False [CChar CHR ''d'']) (Cls False [CChar
     CHR ''o'']))) (Alt (Seq (Cls False [CChar CHR ''s'']) (Seq (Cls False [CChar CHR ''p'']) (Seq
     (Cls False [CChar CHR ''a'']) (Cls False [CChar CHR ''n''])))) (Alt (Seq (Cls False [CChar CHR
     ''b'']) (Cls False [CChar CHR ''r''])) (Alt (Seq (Cls False [CChar CHR ''w'']) (Seq (Cls False
     [CChar CHR ''b'']) (Cls False [CChar CHR ''r'']))) (Alt (Seq (Cls False [CChar CHR ''i''])
     (Seq (Cls False [CChar CHR ''n'']) (Cls False [CChar CHR ''s'']))) (Alt (Seq (Cls False [CChar
     CHR ''d'']) (Seq (Cls False [CChar CHR ''e'']) (Cls False [CChar CHR ''l'']))) (Seq (Cls False
     [CChar CHR ''i'']) (Seq (Cls False [CChar CHR ''m'']) (Cls False [CChar CHR
     ''g''])))))))))))))))))))))))))))))))))) (WordB True))) (Seq (Rep 1 None True (Cls False
     [CWord True])) (Seq (Look False (Alt (Seq (Cls False [CChar CHR '':'']) (Cls False [CChar CHR
     ''/''])) (Seq (Rep 0 None True (Cls True [CWord True, CSpace True, CChar CHR ''@''])) (Cls
     False [CChar CHR ''@''])))) (Seq (WordB True) (Seq (Rep 0 None False (Alt (Seq (Cls False
     [CChar CHR 0x22]) (Seq (Rep 0 None True (Cls True [CChar CHR 0x22])) (Cls False [CChar CHR
     0x22]))) (Alt (Seq (Cls False [CChar CHR 0x27]) (Seq (Rep 0 None True (Cls True [CChar CHR
     0x27])) (Cls False [CChar CHR 0x27]))) (Cls True [CChar CHR 0x27, CChar CHR 0x22, CChar CHR
     ''>''])))) (Seq (Cls False [CChar CHR ''>'']) (Seq (Rep 0 None True (Cls False [CChar CHR
     '' ''])) (Alt (Rep 2 None True (Cls False [CChar NL])) (Seq (Rep 0 None True (Cls False
     [CSpace True])) Eol))))))))))))), ngroups = 1, flags = no_flags\<rparr>"
  by code_simp

lemma def_re_ast [code]:
  "def_re =
     \<lparr>pat = Seq Bol (Seq (Rep 0 None True (Cls False [CChar CHR '' ''])) (Seq (Cls False
     [CChar CHR ''['']) (Seq (Group 1 (Rep 1 None True (Cls True [CChar CHR '']'']))) (Seq (Cls
     False [CChar CHR '']'']) (Seq (Cls False [CChar CHR '':'']) (Seq (Rep 0 None True (Cls False
     [CChar CHR '' ''])) (Seq (Rep 0 (Some 1) True (Cls False [CChar CHR ''<''])) (Seq (Group 2
     (Rep 1 None True (Cls True [CSpace True, CChar CHR ''>'']))) (Seq (Rep 0 (Some 1) True (Cls
     False [CChar CHR ''>''])) (Seq (Rep 0 (Some 1) True (Seq (Rep 1 None True (Cls False [CChar
     CHR '' ''])) (Seq (Cls False [CChar CHR 0x22, CChar CHR ''('']) (Seq (Group 3 (Rep 1 None True
     (Cls True [CChar NL]))) (Cls False [CChar CHR 0x22, CChar CHR '')'']))))) (Seq (Rep 0 None
     True (Cls False [CChar CHR '' ''])) (Alt (Rep 1 None True (Cls False [CChar NL]))
     Eol)))))))))))), ngroups = 3, flags = no_flags\<rparr>"
  by code_simp

lemma paragraph_re_ast [code]:
  "paragraph_re =
     \<lparr>pat = Seq Bol (Seq (Group 1 (Rep 1 None True (Seq (Rep 1 None True (Cls True [CChar
     NL])) (Seq (Rep 0 (Some 1) True (Cls False [CChar NL])) (Look False (Alt (Seq (Rep 3 None True
     (Group 2 (Seq (Rep 0 None True (Cls False [CChar CHR '' ''])) (Cls False [CChar CHR ''-'',
     CChar CHR ''*'', CChar CHR ''_''])))) (Seq (Rep 0 None True (Cls False [CChar CHR '' '']))
     (Alt (Rep 1 None True (Cls False [CChar NL])) Eol))) (Alt (Seq (Rep 0 None True (Cls False
     [CChar CHR '' ''])) (Seq (Group 3 (Rep 1 (Some 6) True (Cls False [CChar CHR ''#'']))) (Seq
     (Rep 0 None True (Cls False [CChar CHR '' ''])) (Seq (Group 4 (Rep 1 None False (Cls True
     [CChar NL]))) (Seq (Rep 0 None True (Cls False [CChar CHR '' ''])) (Seq (Rep 0 None True (Cls
     False [CChar CHR ''#''])) (Seq (Rep 0 None True (Cls False [CChar CHR '' ''])) (Alt (Rep 1
     None True (Cls False [CChar NL])) Eol)))))))) (Alt (Seq (Group 5 (Rep 1 None True (Cls True
     [CChar NL]))) (Seq (Cls False [CChar NL]) (Seq (Rep 0 None True (Cls False [CChar CHR '' '']))
     (Seq (Rep 2 None True (Group 6 (Alt (Cls False [CChar CHR ''='']) (Cls False [CChar CHR
     ''-''])))) (Seq (Rep 0 None True (Cls False [CChar CHR '' ''])) (Alt (Rep 1 None True (Cls
     False [CChar NL])) Eol)))))) (Alt (Rep 1 None True (Group 7 (Seq (Rep 0 None True (Cls False
     [CChar CHR '' ''])) (Seq (Cls False [CChar CHR ''>'']) (Seq (Rep 1 None True (Cls True [CChar
     NL])) (Seq (Rep 0 None True (Group 8 (Seq (Cls False [CChar NL]) (Seq (Look False (Seq (Rep 0
     None True (Cls False [CChar CHR '' ''])) (Seq (Cls False [CChar CHR ''['']) (Seq (Group 9 (Rep
     1 None True (Cls True [CChar CHR '']'']))) (Seq (Cls False [CChar CHR '']'']) (Seq (Cls False
     [CChar CHR '':'']) (Seq (Rep 0 None True (Cls False [CChar CHR '' ''])) (Seq (Rep 0 (Some 1)
     True (Cls False [CChar CHR ''<''])) (Seq (Group 10 (Rep 1 None True (Cls True [CSpace True,
     CChar CHR ''>'']))) (Seq (Rep 0 (Some 1) True (Cls False [CChar CHR ''>''])) (Seq (Rep 0 (Some
     1) True (Seq (Rep 1 None True (Cls False [CChar CHR '' ''])) (Seq (Cls False [CChar CHR 0x22,
     CChar CHR ''('']) (Seq (Group 11 (Rep 1 None True (Cls True [CChar NL]))) (Cls False [CChar
     CHR 0x22, CChar CHR '')'']))))) (Seq (Rep 0 None True (Cls False [CChar CHR '' ''])) (Alt (Rep
     1 None True (Cls False [CChar NL])) Eol))))))))))))) (Rep 1 None True (Cls True [CChar
     NL])))))) (Rep 0 None True (Cls False [CChar NL])))))))) (Alt (Seq (Cls False [CChar CHR
     ''<'']) (Seq (Look False (Seq (Alt (Cls False [CChar CHR ''a'']) (Alt (Seq (Cls False [CChar
     CHR ''e'']) (Cls False [CChar CHR ''m''])) (Alt (Seq (Cls False [CChar CHR ''s'']) (Seq (Cls
     False [CChar CHR ''t'']) (Seq (Cls False [CChar CHR ''r'']) (Seq (Cls False [CChar CHR ''o''])
     (Seq (Cls False [CChar CHR ''n'']) (Cls False [CChar CHR ''g''])))))) (Alt (Seq (Cls False
     [CChar CHR ''s'']) (Seq (Cls False [CChar CHR ''m'']) (Seq (Cls False [CChar CHR ''a'']) (Seq
     (Cls False [CChar CHR ''l'']) (Cls False [CChar CHR ''l'']))))) (Alt (Cls False [CChar CHR
     ''s'']) (Alt (Seq (Cls False [CChar CHR ''c'']) (Seq (Cls False [CChar CHR ''i'']) (Seq (Cls
     False [CChar CHR ''t'']) (Cls False [CChar CHR ''e''])))) (Alt (Cls False [CChar CHR ''q''])
     (Alt (Seq (Cls False [CChar CHR ''d'']) (Seq (Cls False [CChar CHR ''f'']) (Cls False [CChar
     CHR ''n'']))) (Alt (Seq (Cls False [CChar CHR ''a'']) (Seq (Cls False [CChar CHR ''b'']) (Seq
     (Cls False [CChar CHR ''b'']) (Cls False [CChar CHR ''r''])))) (Alt (Seq (Cls False [CChar CHR
     ''d'']) (Seq (Cls False [CChar CHR ''a'']) (Seq (Cls False [CChar CHR ''t'']) (Cls False
     [CChar CHR ''a''])))) (Alt (Seq (Cls False [CChar CHR ''t'']) (Seq (Cls False [CChar CHR
     ''i'']) (Seq (Cls False [CChar CHR ''m'']) (Cls False [CChar CHR ''e''])))) (Alt (Seq (Cls
     False [CChar CHR ''c'']) (Seq (Cls False [CChar CHR ''o'']) (Seq (Cls False [CChar CHR ''d''])
     (Cls False [CChar CHR ''e''])))) (Alt (Seq (Cls False [CChar CHR ''v'']) (Seq (Cls False
     [CChar CHR ''a'']) (Cls False [CChar CHR ''r'']))) (Alt (Seq (Cls False [CChar CHR ''s''])
     (Seq (Cls False [CChar CHR ''a'']) (Seq (Cls False [CChar CHR ''m'']) (Cls False [CChar CHR
     ''p''])))) (Alt (Seq (Cls False [CChar CHR ''k'']) (Seq (Cls False [CChar CHR ''b'']) (Cls
     False [CChar CHR ''d'']))) (Alt (Seq (Cls False [CChar CHR ''s'']) (Seq (Cls False [CChar CHR
     ''u'']) (Cls False [CChar CHR ''b'']))) (Alt (Seq (Cls False [CChar CHR ''s'']) (Seq (Cls
     False [CChar CHR ''u'']) (Cls False [CChar CHR ''p'']))) (Alt (Cls False [CChar CHR ''i''])
     (Alt (Cls False [CChar CHR ''b'']) (Alt (Cls False [CChar CHR ''u'']) (Alt (Seq (Cls False
     [CChar CHR ''m'']) (Seq (Cls False [CChar CHR ''a'']) (Seq (Cls False [CChar CHR ''r'']) (Cls
     False [CChar CHR ''k''])))) (Alt (Seq (Cls False [CChar CHR ''r'']) (Seq (Cls False [CChar CHR
     ''u'']) (Seq (Cls False [CChar CHR ''b'']) (Cls False [CChar CHR ''y''])))) (Alt (Seq (Cls
     False [CChar CHR ''r'']) (Cls False [CChar CHR ''t''])) (Alt (Seq (Cls False [CChar CHR
     ''r'']) (Cls False [CChar CHR ''p''])) (Alt (Seq (Cls False [CChar CHR ''b'']) (Seq (Cls False
     [CChar CHR ''d'']) (Cls False [CChar CHR ''i'']))) (Alt (Seq (Cls False [CChar CHR ''b''])
     (Seq (Cls False [CChar CHR ''d'']) (Cls False [CChar CHR ''o'']))) (Alt (Seq (Cls False [CChar
     CHR ''s'']) (Seq (Cls False [CChar CHR ''p'']) (Seq (Cls False [CChar CHR ''a'']) (Cls False
     [CChar CHR ''n''])))) (Alt (Seq (Cls False [CChar CHR ''b'']) (Cls False [CChar CHR ''r'']))
     (Alt (Seq (Cls False [CChar CHR ''w'']) (Seq (Cls False [CChar CHR ''b'']) (Cls False [CChar
     CHR ''r'']))) (Alt (Seq (Cls False [CChar CHR ''i'']) (Seq (Cls False [CChar CHR ''n'']) (Cls
     False [CChar CHR ''s'']))) (Alt (Seq (Cls False [CChar CHR ''d'']) (Seq (Cls False [CChar CHR
     ''e'']) (Cls False [CChar CHR ''l'']))) (Seq (Cls False [CChar CHR ''i'']) (Seq (Cls False
     [CChar CHR ''m'']) (Cls False [CChar CHR ''g''])))))))))))))))))))))))))))))))))) (WordB
     True))) (Seq (Rep 1 None True (Cls False [CWord True])) (Seq (Look False (Alt (Seq (Cls False
     [CChar CHR '':'']) (Cls False [CChar CHR ''/''])) (Seq (Rep 0 None True (Cls True [CWord True,
     CSpace True, CChar CHR ''@''])) (Cls False [CChar CHR ''@''])))) (WordB True))))) (Seq (Cls
     False [CChar CHR ''d'']) (Seq (Cls False [CChar CHR ''e'']) (Cls False [CChar CHR
     ''f'']))))))))))))) (Rep 0 None True (Cls False [CChar NL]))), ngroups = 11, flags =
     no_flags\<rparr>"
  by code_simp

lemma text_re_ast [code]:
  "text_re =
     \<lparr>pat = Seq Bol (Rep 1 None True (Cls True [CChar NL])), ngroups = 0, flags =
     no_flags\<rparr>"
  by code_simp

lemma bullet_re_ast [code]:
  "bullet_re =
     \<lparr>pat = Alt (Cls False [CChar CHR ''*'', CChar CHR ''+'', CChar CHR ''-'']) (Seq (Rep 1
     None True (Cls False [CDigit True])) (Cls False [CChar CHR ''.''])), ngroups = 0, flags =
     no_flags\<rparr>"
  by code_simp

lemma gfm_fences_re_ast [code]:
  "gfm_fences_re =
     \<lparr>pat = Seq Bol (Seq (Rep 0 None True (Cls False [CChar CHR '' ''])) (Seq (Group 1 (Alt
     (Rep 3 None True (Cls False [CChar CHR 0x60])) (Rep 3 None True (Cls False [CChar CHR
     ''~''])))) (Seq (Rep 0 None True (Cls False [CChar CHR '' '', CChar CHR ''.''])) (Seq (Rep 0
     (Some 1) True (Group 2 (Rep 1 None True (Cls False [CSpace False])))) (Seq (Rep 0 None True
     (Cls False [CChar CHR '' ''])) (Seq (Cls False [CChar NL]) (Seq (Group 3 (Rep 0 None False
     (Cls False [CSpace True, CSpace False]))) (Seq (Rep 0 None True (Cls False [CSpace True]))
     (Seq (BackRef 1) (Seq (Rep 0 None True (Cls False [CChar CHR '' ''])) (Alt (Rep 1 None True
     (Cls False [CChar NL])) Eol))))))))))), ngroups = 3, flags = no_flags\<rparr>"
  by code_simp

lemma gfm_heading_re_ast [code]:
  "gfm_heading_re =
     \<lparr>pat = Seq Bol (Seq (Rep 0 None True (Cls False [CChar CHR '' ''])) (Seq (Group 1 (Rep
     1 (Some 6) True (Cls False [CChar CHR ''#'']))) (Seq (Rep 1 None True (Cls False [CChar CHR
     '' ''])) (Seq (Group 2 (Rep 1 None False (Cls True [CChar NL]))) (Seq (Rep 0 None True (Cls
     False [CChar CHR '' ''])) (Seq (Rep 0 None True (Cls False [CChar CHR ''#''])) (Seq (Rep 0
     None True (Cls False [CChar CHR '' ''])) (Alt (Rep 1 None True (Cls False [CChar NL]))
     Eol)))))))), ngroups = 2, flags = no_flags\<rparr>"
  by code_simp

lemma gfm_paragraph_re_ast [code]:
  "gfm_paragraph_re =
     \<lparr>pat = Seq Bol (Seq (Group 1 (Rep 1 None True (Seq (Rep 1 None True (Cls True [CChar
     NL])) (Seq (Rep 0 (Some 1) True (Cls False [CChar NL])) (Look False (Alt (Seq (Rep 0 None True
     (Cls False [CChar CHR '' ''])) (Seq (Group 2 (Alt (Rep 3 None True (Cls False [CChar CHR
     0x60])) (Rep 3 None True (Cls False [CChar CHR ''~''])))) (Seq (Rep 0 None True (Cls False
     [CChar CHR '' '', CChar CHR ''.''])) (Seq (Rep 0 (Some 1) True (Group 3 (Rep 1 None True (Cls
     False [CSpace False])))) (Seq (Rep 0 None True (Cls False [CChar CHR '' ''])) (Seq (Cls False
     [CChar NL]) (Seq (Group 4 (Rep 0 None False (Cls False [CSpace True, CSpace False]))) (Seq
     (Rep 0 None True (Cls False [CSpace True])) (Seq (BackRef 2) (Seq (Rep 0 None True (Cls False
     [CChar CHR '' ''])) (Alt (Rep 1 None True (Cls False [CChar NL])) Eol))))))))))) (Alt (Seq
     (Group 5 (Rep 0 None True (Cls False [CChar CHR '' '']))) (Seq (Group 6 (Alt (Cls False [CChar
     CHR ''*'', CChar CHR ''+'', CChar CHR ''-'']) (Seq (Rep 1 None True (Cls False [CDigit True]))
     (Cls False [CChar CHR ''.''])))) (Seq (Cls False [CChar CHR '' '']) (Seq (Rep 1 None False
     (Cls False [CSpace True, CSpace False])) (Alt (Seq (Rep 1 None True (Cls False [CChar NL]))
     (Look True (Seq (Rep 0 (Some 1) True (BackRef 3)) (Seq (Rep 3 None True (Seq (Cls False [CChar
     CHR ''-'', CChar CHR ''*'', CChar CHR ''_'']) (Rep 0 None True (Cls False [CChar CHR
     '' ''])))) (Alt (Rep 1 None True (Cls False [CChar NL])) Eol))))) (Alt (Seq (Rep 1 None True
     (Cls False [CChar NL])) (Look True (Seq (Rep 0 None True (Cls False [CChar CHR '' ''])) (Seq
     (Cls False [CChar CHR ''['']) (Seq (Group 7 (Rep 1 None True (Cls True [CChar CHR '']''])))
     (Seq (Cls False [CChar CHR '']'']) (Seq (Cls False [CChar CHR '':'']) (Seq (Rep 0 None True
     (Cls False [CChar CHR '' ''])) (Seq (Rep 0 (Some 1) True (Cls False [CChar CHR ''<''])) (Seq
     (Group 8 (Rep 1 None True (Cls True [CSpace True, CChar CHR ''>'']))) (Seq (Rep 0 (Some 1)
     True (Cls False [CChar CHR ''>''])) (Seq (Rep 0 (Some 1) True (Seq (Rep 1 None True (Cls False
     [CChar CHR '' ''])) (Seq (Cls False [CChar CHR 0x22, CChar CHR ''('']) (Seq (Group 9 (Rep 1
     None True (Cls True [CChar NL]))) (Cls False [CChar CHR 0x22, CChar CHR '')'']))))) (Seq (Rep
     0 None True (Cls False [CChar CHR '' ''])) (Alt (Rep 1 None True (Cls False [CChar NL]))
     Eol)))))))))))))) (Alt (Seq (Rep 2 None True (Cls False [CChar NL])) (Seq (Look False (Cls
     False [CChar CHR '' ''])) (Seq (Look False (Seq (BackRef 1) (Seq (Alt (Cls False [CChar CHR
     ''*'', CChar CHR ''+'', CChar CHR ''-'']) (Seq (Rep 1 None True (Cls False [CDigit True]))
     (Cls False [CChar CHR ''.'']))) (Cls False [CChar CHR '' ''])))) (Rep 0 None True (Cls False
     [CChar NL]))))) (Seq (Rep 0 None True (Cls False [CSpace True])) Eol)))))))) (Alt (Seq (Rep 3
     None True (Group 10 (Seq (Rep 0 None True (Cls False [CChar CHR '' ''])) (Cls False [CChar CHR
     ''-'', CChar CHR ''*'', CChar CHR ''_''])))) (Seq (Rep 0 None True (Cls False [CChar CHR
     '' ''])) (Alt (Rep 1 None True (Cls False [CChar NL])) Eol))) (Alt (Seq (Rep 0 None True (Cls
     False [CChar CHR '' ''])) (Seq (Group 11 (Rep 1 (Some 6) True (Cls False [CChar CHR ''#''])))
     (Seq (Rep 0 None True (Cls False [CChar CHR '' ''])) (Seq (Group 12 (Rep 1 None False (Cls
     True [CChar NL]))) (Seq (Rep 0 None True (Cls False [CChar CHR '' ''])) (Seq (Rep 0 None True
     (Cls False [CChar CHR ''#''])) (Seq (Rep 0 None True (Cls False [CChar CHR '' ''])) (Alt (Rep
     1 None True (Cls False [CChar NL])) Eol)))))))) (Alt (Seq (Group 13 (Rep 1 None True (Cls True
     [CChar NL]))) (Seq (Cls False [CChar NL]) (Seq (Rep 0 None True (Cls False [CChar CHR '' '']))
     (Seq (Rep 2 None True (Group 14 (Alt (Cls False [CChar CHR ''='']) (Cls False [CChar CHR
     ''-''])))) (Seq (Rep 0 None True (Cls False [CChar CHR '' ''])) (Alt (Rep 1 None True (Cls
     False [CChar NL])) Eol)))))) (Alt (Rep 1 None True (Group 15 (Seq (Rep 0 None True (Cls False
     [CChar CHR '' ''])) (Seq (Cls False [CChar CHR ''>'']) (Seq (Rep 1 None True (Cls True [CChar
     NL])) (Seq (Rep 0 None True (Group 16 (Seq (Cls False [CChar NL]) (Seq (Look False (Seq (Rep 0
     None True (Cls False [CChar CHR '' ''])) (Seq (Cls False [CChar CHR ''['']) (Seq (Group 17
     (Rep 1 None True (Cls True [CChar CHR '']'']))) (Seq (Cls False [CChar CHR '']'']) (Seq (Cls
     False [CChar CHR '':'']) (Seq (Rep 0 None True (Cls False [CChar CHR '' ''])) (Seq (Rep 0
     (Some 1) True (Cls False [CChar CHR ''<''])) (Seq (Group 18 (Rep 1 None True (Cls True [CSpace
     True, CChar CHR ''>'']))) (Seq (Rep 0 (Some 1) True (Cls False [CChar CHR ''>''])) (Seq (Rep 0
     (Some 1) True (Seq (Rep 1 None True (Cls False [CChar CHR '' ''])) (Seq (Cls False [CChar CHR
     0x22, CChar CHR ''('']) (Seq (Group 19 (Rep 1 None True (Cls True [CChar NL]))) (Cls False
     [CChar CHR 0x22, CChar CHR '')'']))))) (Seq (Rep 0 None True (Cls False [CChar CHR '' '']))
     (Alt (Rep 1 None True (Cls False [CChar NL])) Eol))))))))))))) (Rep 1 None True (Cls True
     [CChar NL])))))) (Rep 0 None True (Cls False [CChar NL])))))))) (Alt (Seq (Cls False [CChar
     CHR ''<'']) (Seq (Look False (Seq (Alt (Cls False [CChar CHR ''a'']) (Alt (Seq (Cls False
     [CChar CHR ''e'']) (Cls False [CChar CHR ''m''])) (Alt (Seq (Cls False [CChar CHR ''s'']) (Seq
     (Cls False [CChar CHR ''t'']) (Seq (Cls False [CChar CHR ''r'']) (Seq (Cls False [CChar CHR
     ''o'']) (Seq (Cls False [CChar CHR ''n'']) (Cls False [CChar CHR ''g''])))))) (Alt (Seq (Cls
     False [CChar CHR ''s'']) (Seq (Cls False [CChar CHR ''m'']) (Seq (Cls False [CChar CHR ''a''])
     (Seq (Cls False [CChar CHR ''l'']) (Cls False [CChar CHR ''l'']))))) (Alt (Cls False [CChar
     CHR ''s'']) (Alt (Seq (Cls False [CChar CHR ''c'']) (Seq (Cls False [CChar CHR ''i'']) (Seq
     (Cls False [CChar CHR ''t'']) (Cls False [CChar CHR ''e''])))) (Alt (Cls False [CChar CHR
     ''q'']) (Alt (Seq (Cls False [CChar CHR ''d'']) (Seq (Cls False [CChar CHR ''f'']) (Cls False
     [CChar CHR ''n'']))) (Alt (Seq (Cls False [CChar CHR ''a'']) (Seq (Cls False [CChar CHR
     ''b'']) (Seq (Cls False [CChar CHR ''b'']) (Cls False [CChar CHR ''r''])))) (Alt (Seq (Cls
     False [CChar CHR ''d'']) (Seq (Cls False [CChar CHR ''a'']) (Seq (Cls False [CChar CHR ''t''])
     (Cls False [CChar CHR ''a''])))) (Alt (Seq (Cls False [CChar CHR ''t'']) (Seq (Cls False
     [CChar CHR ''i'']) (Seq (Cls False [CChar CHR ''m'']) (Cls False [CChar CHR ''e''])))) (Alt
     (Seq (Cls False [CChar CHR ''c'']) (Seq (Cls False [CChar CHR ''o'']) (Seq (Cls False [CChar
     CHR ''d'']) (Cls False [CChar CHR ''e''])))) (Alt (Seq (Cls False [CChar CHR ''v'']) (Seq (Cls
     False [CChar CHR ''a'']) (Cls False [CChar CHR ''r'']))) (Alt (Seq (Cls False [CChar CHR
     ''s'']) (Seq (Cls False [CChar CHR ''a'']) (Seq (Cls False [CChar CHR ''m'']) (Cls False
     [CChar CHR ''p''])))) (Alt (Seq (Cls False [CChar CHR ''k'']) (Seq (Cls False [CChar CHR
     ''b'']) (Cls False [CChar CHR ''d'']))) (Alt (Seq (Cls False [CChar CHR ''s'']) (Seq (Cls
     False [CChar CHR ''u'']) (Cls False [CChar CHR ''b'']))) (Alt (Seq (Cls False [CChar CHR
     ''s'']) (Seq (Cls False [CChar CHR ''u'']) (Cls False [CChar CHR ''p'']))) (Alt (Cls False
     [CChar CHR ''i'']) (Alt (Cls False [CChar CHR ''b'']) (Alt (Cls False [CChar CHR ''u'']) (Alt
     (Seq (Cls False [CChar CHR ''m'']) (Seq (Cls False [CChar CHR ''a'']) (Seq (Cls False [CChar
     CHR ''r'']) (Cls False [CChar CHR ''k''])))) (Alt (Seq (Cls False [CChar CHR ''r'']) (Seq (Cls
     False [CChar CHR ''u'']) (Seq (Cls False [CChar CHR ''b'']) (Cls False [CChar CHR ''y'']))))
     (Alt (Seq (Cls False [CChar CHR ''r'']) (Cls False [CChar CHR ''t''])) (Alt (Seq (Cls False
     [CChar CHR ''r'']) (Cls False [CChar CHR ''p''])) (Alt (Seq (Cls False [CChar CHR ''b'']) (Seq
     (Cls False [CChar CHR ''d'']) (Cls False [CChar CHR ''i'']))) (Alt (Seq (Cls False [CChar CHR
     ''b'']) (Seq (Cls False [CChar CHR ''d'']) (Cls False [CChar CHR ''o'']))) (Alt (Seq (Cls
     False [CChar CHR ''s'']) (Seq (Cls False [CChar CHR ''p'']) (Seq (Cls False [CChar CHR ''a''])
     (Cls False [CChar CHR ''n''])))) (Alt (Seq (Cls False [CChar CHR ''b'']) (Cls False [CChar CHR
     ''r''])) (Alt (Seq (Cls False [CChar CHR ''w'']) (Seq (Cls False [CChar CHR ''b'']) (Cls False
     [CChar CHR ''r'']))) (Alt (Seq (Cls False [CChar CHR ''i'']) (Seq (Cls False [CChar CHR
     ''n'']) (Cls False [CChar CHR ''s'']))) (Alt (Seq (Cls False [CChar CHR ''d'']) (Seq (Cls
     False [CChar CHR ''e'']) (Cls False [CChar CHR ''l'']))) (Seq (Cls False [CChar CHR ''i''])
     (Seq (Cls False [CChar CHR ''m'']) (Cls False [CChar CHR
     ''g''])))))))))))))))))))))))))))))))))) (WordB True))) (Seq (Rep 1 None True (Cls False
     [CWord True])) (Seq (Look False (Alt (Seq (Cls False [CChar CHR '':'']) (Cls False [CChar CHR
     ''/''])) (Seq (Rep 0 None True (Cls True [CWord True, CSpace True, CChar CHR ''@''])) (Cls
     False [CChar CHR ''@''])))) (WordB True))))) (Seq (Cls False [CChar CHR ''d'']) (Seq (Cls
     False [CChar CHR ''e'']) (Cls False [CChar CHR ''f'']))))))))))))))) (Rep 0 None True (Cls
     False [CChar NL]))), ngroups = 19, flags = no_flags\<rparr>"
  by code_simp

lemma nptable_re_ast [code]:
  "nptable_re =
     \<lparr>pat = Seq Bol (Seq (Rep 0 None True (Cls False [CChar CHR '' ''])) (Seq (Group 1 (Seq
     (Cls False [CSpace False]) (Seq (Rep 0 None True (Cls True [CChar NL, CChar CR])) (Seq (Cls
     False [CChar CHR ''|'']) (Rep 0 None True (Cls True [CChar NL, CChar CR])))))) (Seq (Cls False
     [CChar NL]) (Seq (Rep 0 None True (Cls False [CChar CHR '' ''])) (Seq (Group 2 (Seq (Rep 1
     None True (Cls False [CChar CHR ''-'', CChar CHR '':''])) (Seq (Rep 0 None True (Cls False
     [CChar CHR '' ''])) (Seq (Cls False [CChar CHR ''|'']) (Rep 0 None True (Cls False [CChar CHR
     ''-'', CChar CHR ''|'', CChar CHR '' '', CChar CHR '':''])))))) (Seq (Cls False [CChar NL])
     (Seq (Group 3 (Rep 0 None True (Seq (Rep 0 None True (Cls True [CChar NL, CChar CR])) (Seq
     (Cls False [CChar CHR ''|'']) (Seq (Rep 0 None True (Cls True [CChar NL, CChar CR])) (Alt (Cls
     False [CChar NL]) Eol)))))) (Rep 0 None True (Cls False [CChar NL]))))))))), ngroups = 3,
     flags = no_flags\<rparr>"
  by code_simp

lemma table_re_ast [code]:
  "table_re =
     \<lparr>pat = Seq Bol (Seq (Rep 0 None True (Cls False [CChar CHR '' ''])) (Seq (Cls False
     [CChar CHR ''|'']) (Seq (Group 1 (Rep 1 None True (Cls True [CChar NL, CChar CR]))) (Seq (Cls
     False [CChar NL]) (Seq (Rep 0 None True (Cls False [CChar CHR '' ''])) (Seq (Cls False [CChar
     CHR ''|'']) (Seq (Group 2 (Seq (Rep 0 None True (Cls False [CChar CHR '' ''])) (Seq (Rep 1
     None True (Cls False [CChar CHR ''-'', CChar CHR '':''])) (Rep 0 None True (Cls False [CChar
     CHR ''-'', CChar CHR ''|'', CChar CHR '' '', CChar CHR '':'']))))) (Seq (Cls False [CChar NL])
     (Seq (Group 3 (Rep 0 None True (Seq (Rep 0 None True (Cls False [CChar CHR '' ''])) (Seq (Cls
     False [CChar CHR ''|'']) (Seq (Rep 0 None True (Cls True [CChar NL, CChar CR])) (Alt (Cls
     False [CChar NL]) Eol)))))) (Rep 0 None True (Cls False [CChar NL]))))))))))), ngroups = 3,
     flags = no_flags\<rparr>"
  by code_simp

lemma item_re_ast [code]:
  "item_re =
     \<lparr>pat = Seq Bol (Seq (Group 1 (Rep 0 None True (Cls False [CChar CHR '' '']))) (Seq
     (Group 2 (Alt (Cls False [CChar CHR ''*'', CChar CHR ''+'', CChar CHR ''-'']) (Seq (Rep 1 None
     True (Cls False [CDigit True])) (Cls False [CChar CHR ''.''])))) (Seq (Cls False [CChar CHR
     '' '']) (Seq (Rep 0 None True (Cls True [CChar NL])) (Rep 0 None True (Seq (Cls False [CChar
     NL]) (Seq (Look False (Seq (BackRef 1) (Seq (Alt (Cls False [CChar CHR ''*'', CChar CHR ''+'',
     CChar CHR ''-'']) (Seq (Rep 1 None True (Cls False [CDigit True])) (Cls False [CChar CHR
     ''.'']))) (Cls False [CChar CHR '' ''])))) (Rep 0 None True (Cls True [CChar NL]))))))))),
     ngroups = 2, flags = gm_flags\<rparr>"
  by code_simp

lemma caret_re_ast [code]:
  "caret_re =
     \<lparr>pat = Seq (Group 1 (Alt Bol (Cls True [CChar CHR ''['']))) (Cls False [CChar CHR
     ''^'']), ngroups = 1, flags = no_flags\<rparr>"
  by code_simp

lemma i_escape_re_ast [code]:
  "i_escape_re =
     \<lparr>pat = Seq Bol (Seq (Cls False [CChar BSL]) (Group 1 (Cls False [CChar BSL, CChar CHR
     0x60, CChar CHR ''*'', CChar CHR ''{'', CChar CHR ''}'', CChar CHR ''['', CChar CHR '']'',
     CChar CHR ''('', CChar CHR '')'', CChar CHR ''#'', CChar CHR ''+'', CChar CHR ''-'', CChar CHR
     ''.'', CChar CHR ''!'', CChar CHR ''_'', CChar CHR ''>'']))), ngroups = 1, flags =
     no_flags\<rparr>"
  by code_simp

lemma i_autolink_re_ast [code]:
  "i_autolink_re =
     \<lparr>pat = Seq Bol (Seq (Cls False [CChar CHR ''<'']) (Seq (Group 1 (Seq (Rep 1 None True
     (Cls True [CChar CHR '' '', CChar CHR ''>''])) (Seq (Group 2 (Alt (Cls False [CChar CHR
     ''@'']) (Seq (Cls False [CChar CHR '':'']) (Cls False [CChar CHR ''/''])))) (Rep 1 None True
     (Cls True [CChar CHR '' '', CChar CHR ''>'']))))) (Cls False [CChar CHR ''>'']))), ngroups =
     2, flags = no_flags\<rparr>"
  by code_simp

lemma i_tag_re_ast [code]:
  "i_tag_re =
     \<lparr>pat = Alt (Seq Bol (Seq (Cls False [CChar CHR ''<'']) (Seq (Cls False [CChar CHR
     ''!'']) (Seq (Cls False [CChar CHR ''-'']) (Seq (Cls False [CChar CHR ''-'']) (Seq (Rep 0 None
     False (Cls False [CSpace True, CSpace False])) (Seq (Cls False [CChar CHR ''-'']) (Seq (Cls
     False [CChar CHR ''-'']) (Cls False [CChar CHR ''>'']))))))))) (Seq Bol (Seq (Cls False [CChar
     CHR ''<'']) (Seq (Rep 0 (Some 1) True (Cls False [CChar CHR ''/''])) (Seq (Rep 1 None True
     (Cls False [CWord True])) (Seq (Rep 0 None False (Alt (Seq (Cls False [CChar CHR 0x22]) (Seq
     (Rep 0 None True (Cls True [CChar CHR 0x22])) (Cls False [CChar CHR 0x22]))) (Alt (Seq (Cls
     False [CChar CHR 0x27]) (Seq (Rep 0 None True (Cls True [CChar CHR 0x27])) (Cls False [CChar
     CHR 0x27]))) (Cls True [CChar CHR 0x27, CChar CHR 0x22, CChar CHR ''>''])))) (Cls False [CChar
     CHR ''>''])))))), ngroups = 0, flags = no_flags\<rparr>"
  by code_simp

lemma i_link_re_ast [code]:
  "i_link_re =
     \<lparr>pat = Seq Bol (Seq (Rep 0 (Some 1) True (Cls False [CChar CHR ''!''])) (Seq (Cls False
     [CChar CHR ''['']) (Seq (Group 1 (Rep 0 None True (Alt (Seq (Cls False [CChar CHR ''['']) (Seq
     (Rep 0 None True (Cls True [CChar CHR '']''])) (Cls False [CChar CHR '']'']))) (Alt (Cls True
     [CChar CHR ''['', CChar CHR '']'']) (Seq (Cls False [CChar CHR '']'']) (Look True (Seq (Rep 0
     None True (Cls True [CChar CHR ''[''])) (Cls False [CChar CHR '']''])))))))) (Seq (Cls False
     [CChar CHR '']'']) (Seq (Cls False [CChar CHR ''('']) (Seq (Rep 0 None True (Cls False [CSpace
     True])) (Seq (Rep 0 (Some 1) True (Cls False [CChar CHR ''<''])) (Seq (Group 2 (Rep 0 None
     False (Cls False [CSpace True, CSpace False]))) (Seq (Rep 0 (Some 1) True (Cls False [CChar
     CHR ''>''])) (Seq (Rep 0 (Some 1) True (Seq (Rep 1 None True (Cls False [CSpace True])) (Seq
     (Cls False [CChar CHR 0x27, CChar CHR 0x22]) (Seq (Group 3 (Rep 0 None False (Cls False
     [CSpace True, CSpace False]))) (Cls False [CChar CHR 0x27, CChar CHR 0x22]))))) (Seq (Rep 0
     None True (Cls False [CSpace True])) (Cls False [CChar CHR '')''])))))))))))), ngroups = 3,
     flags = no_flags\<rparr>"
  by code_simp

lemma i_reflink_re_ast [code]:
  "i_reflink_re =
     \<lparr>pat = Seq Bol (Seq (Rep 0 (Some 1) True (Cls False [CChar CHR ''!''])) (Seq (Cls False
     [CChar CHR ''['']) (Seq (Group 1 (Rep 0 None True (Alt (Seq (Cls False [CChar CHR ''['']) (Seq
     (Rep 0 None True (Cls True [CChar CHR '']''])) (Cls False [CChar CHR '']'']))) (Alt (Cls True
     [CChar CHR ''['', CChar CHR '']'']) (Seq (Cls False [CChar CHR '']'']) (Look True (Seq (Rep 0
     None True (Cls True [CChar CHR ''[''])) (Cls False [CChar CHR '']''])))))))) (Seq (Cls False
     [CChar CHR '']'']) (Seq (Rep 0 None True (Cls False [CSpace True])) (Seq (Cls False [CChar CHR
     ''['']) (Seq (Group 2 (Rep 0 None True (Cls True [CChar CHR '']'']))) (Cls False [CChar CHR
     '']''])))))))), ngroups = 2, flags = no_flags\<rparr>"
  by code_simp

lemma i_nolink_re_ast [code]:
  "i_nolink_re =
     \<lparr>pat = Seq Bol (Seq (Rep 0 (Some 1) True (Cls False [CChar CHR ''!''])) (Seq (Cls False
     [CChar CHR ''['']) (Seq (Group 1 (Rep 0 None True (Alt (Seq (Cls False [CChar CHR ''['']) (Seq
     (Rep 0 None True (Cls True [CChar CHR '']''])) (Cls False [CChar CHR '']'']))) (Cls True
     [CChar CHR ''['', CChar CHR '']''])))) (Cls False [CChar CHR '']''])))), ngroups = 1, flags =
     no_flags\<rparr>"
  by code_simp

lemma i_strong_re_ast [code]:
  "i_strong_re =
     \<lparr>pat = Alt (Seq Bol (Seq (Cls False [CChar CHR ''_'']) (Seq (Cls False [CChar CHR
     ''_'']) (Seq (Group 1 (Rep 1 None False (Cls False [CSpace True, CSpace False]))) (Seq (Cls
     False [CChar CHR ''_'']) (Seq (Cls False [CChar CHR ''_'']) (Look False (Cls False [CChar CHR
     ''_''])))))))) (Seq Bol (Seq (Cls False [CChar CHR ''*'']) (Seq (Cls False [CChar CHR ''*''])
     (Seq (Group 2 (Rep 1 None False (Cls False [CSpace True, CSpace False]))) (Seq (Cls False
     [CChar CHR ''*'']) (Seq (Cls False [CChar CHR ''*'']) (Look False (Cls False [CChar CHR
     ''*''])))))))), ngroups = 2, flags = no_flags\<rparr>"
  by code_simp

lemma i_em_re_ast [code]:
  "i_em_re =
     \<lparr>pat = Alt (Seq Bol (Seq (WordB True) (Seq (Cls False [CChar CHR ''_'']) (Seq (Group 1
     (Rep 1 None False (Alt (Cls True [CChar CHR ''_'']) (Seq (Cls False [CChar CHR ''_'']) (Cls
     False [CChar CHR ''_'']))))) (Seq (Cls False [CChar CHR ''_'']) (WordB True)))))) (Seq Bol
     (Seq (Cls False [CChar CHR ''*'']) (Seq (Group 2 (Rep 1 None False (Alt (Seq (Cls False [CChar
     CHR ''*'']) (Cls False [CChar CHR ''*''])) (Cls False [CSpace True, CSpace False])))) (Seq
     (Cls False [CChar CHR ''*'']) (Look False (Cls False [CChar CHR ''*''])))))), ngroups = 2,
     flags = no_flags\<rparr>"
  by code_simp

lemma i_code_re_ast [code]:
  "i_code_re =
     \<lparr>pat = Seq Bol (Seq (Group 1 (Rep 1 None True (Cls False [CChar CHR 0x60]))) (Seq
     (Group 2 (Seq (Rep 0 None False (Cls False [CSpace True, CSpace False])) (Cls True [CChar CHR
     0x60]))) (Seq (BackRef 1) (Look False (Cls False [CChar CHR 0x60]))))), ngroups = 2, flags =
     no_flags\<rparr>"
  by code_simp

lemma i_br_re_ast [code]:
  "i_br_re =
     \<lparr>pat = Seq Bol (Seq (Rep 2 None True (Cls False [CChar CHR '' ''])) (Seq (Cls False
     [CChar NL]) (Look False (Seq (Rep 0 None True (Cls False [CSpace True])) Eol)))), ngroups = 0,
     flags = no_flags\<rparr>"
  by code_simp

lemma i_text_re_ast [code]:
  "i_text_re =
     \<lparr>pat = Seq Bol (Seq (Rep 1 None False (Cls False [CSpace True, CSpace False])) (Look
     True (Alt (Cls False [CChar BSL, CChar CHR ''<'', CChar CHR ''!'', CChar CHR ''['', CChar CHR
     ''_'', CChar CHR ''*'', CChar CHR 0x60]) (Alt (Seq (Rep 2 None True (Cls False [CChar CHR
     '' ''])) (Cls False [CChar NL])) Eol)))), ngroups = 0, flags = no_flags\<rparr>"
  by code_simp

lemma pedantic_strong_re_ast [code]:
  "pedantic_strong_re =
     \<lparr>pat = Alt (Seq Bol (Seq (Cls False [CChar CHR ''_'']) (Seq (Cls False [CChar CHR
     ''_'']) (Seq (Look True (Cls False [CSpace False])) (Seq (Group 1 (Seq (Rep 0 None False (Cls
     False [CSpace True, CSpace False])) (Cls False [CSpace False]))) (Seq (Cls False [CChar CHR
     ''_'']) (Seq (Cls False [CChar CHR ''_'']) (Look False (Cls False [CChar CHR ''_''])))))))))
     (Seq Bol (Seq (Cls False [CChar CHR ''*'']) (Seq (Cls False [CChar CHR ''*'']) (Seq (Look True
     (Cls False [CSpace False])) (Seq (Group 2 (Seq (Rep 0 None False (Cls False [CSpace True,
     CSpace False])) (Cls False [CSpace False]))) (Seq (Cls False [CChar CHR ''*'']) (Seq (Cls
     False [CChar CHR ''*'']) (Look False (Cls False [CChar CHR ''*'']))))))))), ngroups = 2, flags
     = no_flags\<rparr>"
  by code_simp

lemma pedantic_em_re_ast [code]:
  "pedantic_em_re =
     \<lparr>pat = Alt (Seq Bol (Seq (Cls False [CChar CHR ''_'']) (Seq (Look True (Cls False
     [CSpace False])) (Seq (Group 1 (Seq (Rep 0 None False (Cls False [CSpace True, CSpace False]))
     (Cls False [CSpace False]))) (Seq (Cls False [CChar CHR ''_'']) (Look False (Cls False [CChar
     CHR ''_'']))))))) (Seq Bol (Seq (Cls False [CChar CHR ''*'']) (Seq (Look True (Cls False
     [CSpace False])) (Seq (Group 2 (Seq (Rep 0 None False (Cls False [CSpace True, CSpace False]))
     (Cls False [CSpace False]))) (Seq (Cls False [CChar CHR ''*'']) (Look False (Cls False [CChar
     CHR ''*'']))))))), ngroups = 2, flags = no_flags\<rparr>"
  by code_simp

lemma gfm_escape_re_ast [code]:
  "gfm_escape_re =
     \<lparr>pat = Seq Bol (Seq (Cls False [CChar BSL]) (Group 1 (Cls False [CChar BSL, CChar CHR
     0x60, CChar CHR ''*'', CChar CHR ''{'', CChar CHR ''}'', CChar CHR ''['', CChar CHR '']'',
     CChar CHR ''('', CChar CHR '')'', CChar CHR ''#'', CChar CHR ''+'', CChar CHR ''-'', CChar CHR
     ''.'', CChar CHR ''!'', CChar CHR ''_'', CChar CHR ''>'', CChar CHR ''~'', CChar CHR
     ''|'']))), ngroups = 1, flags = no_flags\<rparr>"
  by code_simp

lemma gfm_url_re_ast [code]:
  "gfm_url_re =
     \<lparr>pat = Seq Bol (Group 1 (Seq (Cls False [CChar CHR ''h'']) (Seq (Cls False [CChar CHR
     ''t'']) (Seq (Cls False [CChar CHR ''t'']) (Seq (Cls False [CChar CHR ''p'']) (Seq (Rep 0
     (Some 1) True (Cls False [CChar CHR ''s''])) (Seq (Cls False [CChar CHR '':'']) (Seq (Cls
     False [CChar CHR ''/'']) (Seq (Cls False [CChar CHR ''/'']) (Seq (Rep 1 None True (Cls True
     [CSpace True, CChar CHR ''<''])) (Cls True [CChar CHR ''<'', CChar CHR ''.'', CChar CHR '','',
     CChar CHR '':'', CChar CHR '';'', CChar CHR 0x22, CChar CHR 0x27, CChar CHR '')'', CChar CHR
     '']'', CSpace True]))))))))))), ngroups = 1, flags = no_flags\<rparr>"
  by code_simp

lemma gfm_del_re_ast [code]:
  "gfm_del_re =
     \<lparr>pat = Seq Bol (Seq (Cls False [CChar CHR ''~'']) (Seq (Cls False [CChar CHR ''~''])
     (Seq (Look True (Cls False [CSpace False])) (Seq (Group 1 (Seq (Rep 0 None False (Cls False
     [CSpace True, CSpace False])) (Cls False [CSpace False]))) (Seq (Cls False [CChar CHR ''~''])
     (Cls False [CChar CHR ''~''])))))), ngroups = 1, flags = no_flags\<rparr>"
  by code_simp

lemma gfm_text_re_ast [code]:
  "gfm_text_re =
     \<lparr>pat = Seq Bol (Seq (Rep 1 None False (Cls False [CSpace True, CSpace False])) (Look
     True (Alt (Cls False [CChar BSL, CChar CHR ''<'', CChar CHR ''!'', CChar CHR ''['', CChar CHR
     ''_'', CChar CHR ''*'', CChar CHR 0x60, CChar CHR ''~'']) (Alt (Seq (Cls False [CChar CHR
     ''h'']) (Seq (Cls False [CChar CHR ''t'']) (Seq (Cls False [CChar CHR ''t'']) (Seq (Cls False
     [CChar CHR ''p'']) (Seq (Rep 0 (Some 1) True (Cls False [CChar CHR ''s''])) (Seq (Cls False
     [CChar CHR '':'']) (Seq (Cls False [CChar CHR ''/'']) (Cls False [CChar CHR ''/'']))))))))
     (Alt (Seq (Rep 2 None True (Cls False [CChar CHR '' ''])) (Cls False [CChar NL])) Eol))))),
     ngroups = 0, flags = no_flags\<rparr>"
  by code_simp

lemma breaks_br_re_ast [code]:
  "breaks_br_re =
     \<lparr>pat = Seq Bol (Seq (Rep 0 None True (Cls False [CChar CHR '' ''])) (Seq (Cls False
     [CChar NL]) (Look False (Seq (Rep 0 None True (Cls False [CSpace True])) Eol)))), ngroups = 0,
     flags = no_flags\<rparr>"
  by code_simp

lemma breaks_text_re_ast [code]:
  "breaks_text_re =
     \<lparr>pat = Seq Bol (Seq (Rep 1 None False (Cls False [CSpace True, CSpace False])) (Look
     True (Alt (Cls False [CChar BSL, CChar CHR ''<'', CChar CHR ''!'', CChar CHR ''['', CChar CHR
     ''_'', CChar CHR ''*'', CChar CHR 0x60, CChar CHR ''~'']) (Alt (Seq (Cls False [CChar CHR
     ''h'']) (Seq (Cls False [CChar CHR ''t'']) (Seq (Cls False [CChar CHR ''t'']) (Seq (Cls False
     [CChar CHR ''p'']) (Seq (Rep 0 (Some 1) True (Cls False [CChar CHR ''s''])) (Seq (Cls False
     [CChar CHR '':'']) (Seq (Cls False [CChar CHR ''/'']) (Cls False [CChar CHR ''/'']))))))))
     (Alt (Seq (Rep 0 None True (Cls False [CChar CHR '' ''])) (Cls False [CChar NL])) Eol))))),
     ngroups = 0, flags = no_flags\<rparr>"
  by code_simp

subsection \<open>Rule tables\<close>

type_synonym rule = "regexp option"

definition exec_rule :: "rule \<Rightarrow> string \<Rightarrow> rx_match option" where
  "exec_rule r src = (case r of None \<Rightarrow> None | Some x \<Rightarrow> exec x src)"

record block_rules =
  r_newline :: rule
  r_code :: rule
  r_fences :: rule
  r_hr :: rule
  r_heading :: rule
  r_nptable :: rule
  r_lheading :: rule
  r_blockquote :: rule
  r_list :: rule
  r_html :: rule
  r_def :: rule
  r_table :: rule
  r_paragraph :: rule
  r_text :: rule

definition block_normal :: block_rules where
  "block_normal =
     \<lparr>r_newline = Some newline_re, r_code = Some code_re, r_fences = None, r_hr = Some hr_re,
      r_heading = Some heading_re, r_nptable = None, r_lheading = Some lheading_re,
      r_blockquote = Some blockquote_re, r_list = Some list_re, r_html = Some html_re,
      r_def = Some def_re, r_table = None, r_paragraph = Some paragraph_re, r_text = Some text_re\<rparr>"

definition block_gfm :: block_rules where
  "block_gfm = block_normal
     \<lparr>r_fences := Some gfm_fences_re, r_paragraph := Some gfm_paragraph_re,
      r_heading := Some gfm_heading_re\<rparr>"

definition block_tables :: block_rules where
  "block_tables = block_gfm \<lparr>r_nptable := Some nptable_re, r_table := Some table_re\<rparr>"

record inline_rules =
  r_escape :: rule
  r_autolink :: rule
  r_url :: rule
  r_tag :: rule
  r_link :: rule
  r_reflink :: rule
  r_nolink :: rule
  r_strong :: rule
  r_em :: rule
  r_codespan :: rule
  r_br :: rule
  r_del :: rule
  r_itext :: rule

definition inline_normal :: inline_rules where
  "inline_normal =
     \<lparr>r_escape = Some i_escape_re, r_autolink = Some i_autolink_re, r_url = None,
      r_tag = Some i_tag_re, r_link = Some i_link_re, r_reflink = Some i_reflink_re,
      r_nolink = Some i_nolink_re, r_strong = Some i_strong_re, r_em = Some i_em_re,
      r_codespan = Some i_code_re, r_br = Some i_br_re, r_del = None, r_itext = Some i_text_re\<rparr>"

definition inline_pedantic :: inline_rules where
  "inline_pedantic = inline_normal
     \<lparr>r_strong := Some pedantic_strong_re, r_em := Some pedantic_em_re\<rparr>"

definition inline_gfm :: inline_rules where
  "inline_gfm = inline_normal
     \<lparr>r_escape := Some gfm_escape_re, r_url := Some gfm_url_re, r_del := Some gfm_del_re,
      r_itext := Some gfm_text_re\<rparr>"

definition inline_breaks :: inline_rules where
  "inline_breaks = inline_gfm \<lparr>r_br := Some breaks_br_re, r_itext := Some breaks_text_re\<rparr>"

subsection \<open>Every rule consumes input\<close>

text \<open>The shortest text that a rule matches has at least one character.\<close>

definition rule_min :: "rule \<Rightarrow> nat" where
  "rule_min r = (case r of None \<Rightarrow> 1 | Some x \<Rightarrow> rx_min (pat x))"

definition block_consumes :: "block_rules \<Rightarrow> bool" where
  "block_consumes r \<longleftrightarrow> list_all (\<lambda>x. 1 \<le> rule_min x)
     [r_newline r, r_code r, r_fences r, r_hr r, r_heading r, r_nptable r, r_lheading r,
      r_blockquote r, r_list r, r_html r, r_def r, r_table r, r_paragraph r, r_text r]"

definition inline_consumes :: "inline_rules \<Rightarrow> bool" where
  "inline_consumes r \<longleftrightarrow> list_all (\<lambda>x. 1 \<le> rule_min x)
     [r_escape r, r_autolink r, r_url r, r_tag r, r_link r, r_reflink r, r_nolink r, r_strong r,
      r_em r, r_codespan r, r_br r, r_del r, r_itext r]"

lemma block_tables_consume:
  "block_consumes block_normal" "block_consumes block_gfm" "block_consumes block_tables"
  by code_simp+

lemma inline_tables_consume:
  "inline_consumes inline_normal" "inline_consumes inline_pedantic"
  "inline_consumes inline_gfm" "inline_consumes inline_breaks"
  by code_simp+

end
