(* ===== verification/Marked_Lexer.thy ===== *)
theory Marked_Lexer
  imports Marked_Grammar Js_Regex_Facts
begin

text \<open>
  The block lexer of marked (\<^verbatim>\<open>remark.js\<close>, module 3): the options, the tokens,
  one definition per rule of \<open>Lexer.prototype.token\<close> in the order in which the
  loop tries them, the loop with its recursion into block quotes and list items, and
  \<open>Lexer.prototype.lex\<close>.
\<close>

subsection \<open>Options and tokens\<close>

text \<open>
  The options of \<open>marked.defaults\<close> that select behaviour of the lexers, the parser and
  the renderer. The option \<open>renderer\<close> is the module's own \<open>Renderer\<close>;
  \<open>smartypants\<close> is off (its replacement texts are characters outside Latin-1).
  \<open>sanitizer\<close> and \<open>highlight\<close> are functions of the user.
\<close>

record moptions =
  gfm :: bool
  tables :: bool
  breaks :: bool
  pedantic :: bool
  sanitize :: bool
  sanitizer :: "(string \<Rightarrow> string) option"
  mangle_opt :: bool
  smartLists :: bool
  silent :: bool
  highlight :: "(string \<Rightarrow> string option \<Rightarrow> string option) option"
  langPrefix :: string
  headerPrefix :: string
  xhtml :: bool
  baseUrl :: "string option"

definition marked_defaults :: moptions where
  "marked_defaults =
     \<lparr>gfm = True, tables = True, breaks = False, pedantic = False, sanitize = False,
      sanitizer = None, mangle_opt = True, smartLists = False, silent = False, highlight = None,
      langPrefix = ''lang-'', headerPrefix = [], xhtml = False, baseUrl = None\<rparr>"

text \<open>The options after the call of \<open>marked.setOptions\<close> in the converter.\<close>

definition remark_options :: moptions where
  "remark_options = marked_defaults
     \<lparr>gfm := True, tables := True, breaks := False, pedantic := True, sanitize := False,
      smartLists := True, langPrefix := []\<rparr>"

datatype mtoken =
    MSpace
  | MCode (mcode_lang: "string option") (mcode_text: string) (mcode_escaped: bool)
  | MHeading nat string
  | MTable "string list" "string option list" "string list list"
  | MHr
  | MBlockquoteStart
  | MBlockquoteEnd
  | MListStart bool
  | MLooseItemStart
  | MListItemStart
  | MListItemEnd
  | MListEnd
  | MHtml bool string
  | MParagraph string
  | MText string

text \<open>A link definition: \<open>href\<close> and the optional title. The object
  \<open>tokens.links\<close> is a map.\<close>

type_synonym link_def = "string \<times> string option"

record lexst =
  toks :: "mtoken list"
  links :: "string \<Rightarrow> link_def option"

datatype merr =
    MTypeError
  | MInfiniteLoop nat
  | MOutOfFuel

definition push :: "mtoken list \<Rightarrow> lexst \<Rightarrow> lexst" where
  "push ts st = st\<lparr>toks := toks st @ ts\<rparr>"

definition block_rules_of :: "moptions \<Rightarrow> block_rules" where
  "block_rules_of opt =
     (if gfm opt then if tables opt then block_tables else block_gfm else block_normal)"

definition new_Lexer :: lexst where
  "new_Lexer = \<lparr>toks = [], links = (\<lambda>_. None)\<rparr>"

subsection \<open>Expressions used inside the rules\<close>

definition blank_lines_re :: regexp where
  "blank_lines_re = re gm_flags ''^ +$''"

definition indent4_re :: regexp where
  "indent4_re = re gm_flags ''^ {4}''"

definition trailing_newlines_re :: regexp where
  "trailing_newlines_re = re no_flags (bs ''%n+$'')"

definition header_trim_re :: regexp where
  "header_trim_re = re no_flags (bs ''^ *| *%| *$'')"

definition align_trim_re :: regexp where
  "align_trim_re = re no_flags (bs ''^ *|%| *$'')"

definition pipe_re :: regexp where
  "pipe_re = re no_flags (bs '' *%| *'')"

definition align_right_re :: regexp where
  "align_right_re = re no_flags ''^ *-+: *$''"

definition align_center_re :: regexp where
  "align_center_re = re no_flags ''^ *:-+: *$''"

definition align_left_re :: regexp where
  "align_left_re = re no_flags ''^ *:-+ *$''"

definition last_newline_re :: regexp where
  "last_newline_re = re no_flags (bs ''%n$'')"

definition table_end_re :: regexp where
  "table_end_re = re no_flags (bs ''(?: *%| *)?%n$'')"

definition row_trim_re :: regexp where
  "row_trim_re = re no_flags (bs ''^ *%| *| *%| *$'')"

definition quote_mark_re :: regexp where
  "quote_mark_re = re gm_flags ''^ *> ?''"

definition bullet_mark_re :: regexp where
  "bullet_mark_re = re no_flags (bs ''^ *([*+-]|%d+%.) +'')"

definition outdent_re :: "nat \<Rightarrow> regexp" where
  "outdent_re space = re gm_flags (''^ {1,'' @ nat_str space @ ''}'')"

definition outdent4_re :: regexp where
  "outdent4_re = re gm_flags ''^ {1,4}''"

definition loose_re :: regexp where
  "loose_re = re no_flags (bs ''%n%n(?!%s*$)'')"

definition crlf_re :: regexp where
  "crlf_re = re no_flags (bs ''%r%n|%r'')"

subsection \<open>The rules\<close>

text \<open>
  What a rule asks of the loop: to push a token, to record a link, or to recurse into a
  block quote or a list; always with the source that remains.
\<close>

datatype block_action =
    Emit mtoken string
  | DefLink string link_def string
  | Quote string string
  | MList string string string

definition after :: "rx_match \<Rightarrow> string \<Rightarrow> string" where
  "after m src = drop (length (cap0 m)) src"

abbreviation erase :: "rx_match \<Rightarrow> string" where
  "erase \<equiv> (\<lambda>_. [])"

definition newline_rule :: "block_rules \<Rightarrow> string \<Rightarrow> mtoken list \<times> string" where
  "newline_rule r src =
     (case exec_rule (r_newline r) src of
        None \<Rightarrow> ([], src)
      | Some m \<Rightarrow> (if 1 < length (cap0 m) then [MSpace] else [], after m src))"

definition code_rule :: "moptions \<Rightarrow> block_rules \<Rightarrow> string \<Rightarrow> block_action option" where
  "code_rule opt r src =
     map_option
       (\<lambda>m. let cap = re_replace indent4_re erase (cap0 m)
            in Emit (MCode None (if \<not> pedantic opt then re_replace1 trailing_newlines_re erase cap else cap) False)
                 (after m src))
       (exec_rule (r_code r) src)"

definition fences_rule :: "block_rules \<Rightarrow> string \<Rightarrow> block_action option" where
  "fences_rule r src =
     map_option (\<lambda>m. Emit (MCode (cap m 2) (cap_str m 3) False) (after m src))
       (exec_rule (r_fences r) src)"

definition heading_rule :: "block_rules \<Rightarrow> string \<Rightarrow> block_action option" where
  "heading_rule r src =
     map_option (\<lambda>m. Emit (MHeading (length (cap_str m 1)) (cap_str m 2)) (after m src))
       (exec_rule (r_heading r) src)"

definition align_of :: "string \<Rightarrow> string option" where
  "align_of a =
     (if test align_right_re a then Some ''right''
      else if test align_center_re a then Some ''center''
      else if test align_left_re a then Some ''left''
      else None)"

definition nptable_rule :: "block_rules \<Rightarrow> string \<Rightarrow> block_action option" where
  "nptable_rule r src =
     map_option
       (\<lambda>m. Emit
              (MTable (re_split pipe_re (re_replace header_trim_re erase (cap_str m 1)))
                 (map align_of (re_split pipe_re (re_replace align_trim_re erase (cap_str m 2))))
                 (map (re_split pipe_re) (split_char NL (re_replace1 last_newline_re erase (cap_str m 3)))))
              (after m src))
       (exec_rule (r_nptable r) src)"

definition lheading_rule :: "block_rules \<Rightarrow> string \<Rightarrow> block_action option" where
  "lheading_rule r src =
     map_option (\<lambda>m. Emit (MHeading (if cap m 2 = Some ''='' then 1 else 2) (cap_str m 1)) (after m src))
       (exec_rule (r_lheading r) src)"

definition hr_rule :: "block_rules \<Rightarrow> string \<Rightarrow> block_action option" where
  "hr_rule r src = map_option (\<lambda>m. Emit MHr (after m src)) (exec_rule (r_hr r) src)"

definition blockquote_rule :: "block_rules \<Rightarrow> string \<Rightarrow> block_action option" where
  "blockquote_rule r src =
     map_option (\<lambda>m. Quote (re_replace quote_mark_re erase (cap0 m)) (after m src))
       (exec_rule (r_blockquote r) src)"

definition list_rule :: "block_rules \<Rightarrow> string \<Rightarrow> block_action option" where
  "list_rule r src =
     map_option (\<lambda>m. MList (cap_str m 2) (cap0 m) (after m src)) (exec_rule (r_list r) src)"

definition html_rule :: "moptions \<Rightarrow> block_rules \<Rightarrow> string \<Rightarrow> block_action option" where
  "html_rule opt r src =
     map_option
       (\<lambda>m. Emit
              (if sanitize opt then MParagraph (cap0 m)
               else MHtml (Option.is_none (sanitizer opt) \<and> cap m 1 \<in> {Some ''pre'', Some ''script'', Some ''style''})
                      (cap0 m))
              (after m src))
       (exec_rule (r_html r) src)"

definition def_rule :: "block_rules \<Rightarrow> string \<Rightarrow> block_action option" where
  "def_rule r src =
     map_option (\<lambda>m. DefLink (toLowerCase (cap_str m 1)) (cap_str m 2, cap m 3) (after m src))
       (exec_rule (r_def r) src)"

definition table_rule :: "block_rules \<Rightarrow> string \<Rightarrow> block_action option" where
  "table_rule r src =
     map_option
       (\<lambda>m. Emit
              (MTable (re_split pipe_re (re_replace header_trim_re erase (cap_str m 1)))
                 (map align_of (re_split pipe_re (re_replace align_trim_re erase (cap_str m 2))))
                 (map (\<lambda>row. re_split pipe_re (re_replace row_trim_re erase row))
                    (split_char NL (re_replace1 table_end_re erase (cap_str m 3)))))
              (after m src))
       (exec_rule (r_table r) src)"

definition paragraph_rule :: "block_rules \<Rightarrow> string \<Rightarrow> block_action option" where
  "paragraph_rule r src =
     map_option
       (\<lambda>m. let cap = cap_str m 1
            in Emit (MParagraph (if cap \<noteq> [] \<and> last cap = NL then butlast cap else cap)) (after m src))
       (exec_rule (r_paragraph r) src)"

definition text_rule :: "block_rules \<Rightarrow> string \<Rightarrow> block_action option" where
  "text_rule r src = map_option (\<lambda>m. Emit (MText (cap0 m)) (after m src)) (exec_rule (r_text r) src)"

text \<open>The rules after \<open>newline\<close>, in the order of the loop.\<close>

definition block_rule_list :: "moptions \<Rightarrow> bool \<Rightarrow> bool \<Rightarrow> (string \<Rightarrow> block_action option) list" where
  "block_rule_list opt toplev bq =
     (let r = block_rules_of opt
      in [code_rule opt r, fences_rule r, heading_rule r,
          \<lambda>src. if toplev then nptable_rule r src else None,
          lheading_rule r, hr_rule r, blockquote_rule r, list_rule r, html_rule opt r,
          \<lambda>src. if \<not> bq \<and> toplev then def_rule r src else None,
          \<lambda>src. if toplev then table_rule r src else None,
          \<lambda>src. if toplev then paragraph_rule r src else None,
          text_rule r])"

definition block_rule :: "moptions \<Rightarrow> bool \<Rightarrow> bool \<Rightarrow> string \<Rightarrow> block_action option" where
  "block_rule opt toplev bq src = first_some (\<lambda>f. f src) (block_rule_list opt toplev bq)"

subsection \<open>List items\<close>

text \<open>The item without its bullet, and outdented by the width of the bullet.\<close>

definition strip_bullet :: "string \<Rightarrow> string" where
  "strip_bullet item = re_replace1 bullet_mark_re erase item"

definition outdent :: "moptions \<Rightarrow> string \<Rightarrow> string" where
  "outdent opt item =
     (let stripped = strip_bullet item; space = length item - length stripped
      in if indexOf stripped [NL, CHR '' ''] \<noteq> None
         then if \<not> pedantic opt then re_replace (outdent_re space) erase stripped
              else re_replace outdent4_re erase stripped
         else stripped)"

text \<open>
  With \<open>smartLists\<close>, whether the next item belongs to another list: \<open>None\<close> is the
  \<open>TypeError\<close> when the next item has no bullet.
\<close>

definition other_list :: "moptions \<Rightarrow> string \<Rightarrow> string list \<Rightarrow> bool option" where
  "other_list opt bull later =
     (if smartLists opt \<and> later \<noteq> []
      then map_option (\<lambda>m. let b = cap0 m in bull \<noteq> b \<and> \<not> (1 < length bull \<and> 1 < length b))
             (exec bullet_re (hd later))
      else Some False)"

definition ends_newline :: "string \<Rightarrow> bool" where
  "ends_newline s \<longleftrightarrow> s \<noteq> [] \<and> last s = NL"

subsection \<open>The loop\<close>

definition strip_blank_lines :: "string \<Rightarrow> string" where
  "strip_blank_lines src = re_replace blank_lines_re erase src"

text \<open>
  \<open>token_loop\<close> is the loop of \<open>Lexer.prototype.token\<close> after its first
  assignment, \<open>list_items\<close> the loop over the items of a list. The first argument
  bounds the iterations and the depth of the recursion together.
\<close>

fun token_loop :: "nat \<Rightarrow> moptions \<Rightarrow> string \<Rightarrow> bool \<Rightarrow> bool \<Rightarrow> lexst \<Rightarrow> merr + lexst"
and list_items ::
  "nat \<Rightarrow> moptions \<Rightarrow> bool \<Rightarrow> string \<Rightarrow> bool \<Rightarrow> string list \<Rightarrow> string \<Rightarrow> lexst \<Rightarrow> merr + string \<times> lexst"
where
  "token_loop 0 opt src toplev bq st = Inl MOutOfFuel"
| "token_loop (Suc n) opt src toplev bq st =
     (if src = [] then Inr st
      else
        let (sp, src1) = newline_rule (block_rules_of opt) src; st1 = push sp st
        in case block_rule opt toplev bq src1 of
             None \<Rightarrow>
               if src1 \<noteq> [] then Inl (MInfiniteLoop (code (hd src1)))
               else token_loop n opt src1 toplev bq st1
           | Some (Emit t src2) \<Rightarrow> token_loop n opt src2 toplev bq (push [t] st1)
           | Some (DefLink k d src2) \<Rightarrow>
               token_loop n opt src2 toplev bq (st1\<lparr>links := (links st1)(k := Some d)\<rparr>)
           | Some (Quote body src2) \<Rightarrow>
               (case token_loop n opt (strip_blank_lines body) toplev True (push [MBlockquoteStart] st1) of
                  Inl e \<Rightarrow> Inl e
                | Inr st2 \<Rightarrow> token_loop n opt src2 toplev bq (push [MBlockquoteEnd] st2))
           | Some (MList bull body src2) \<Rightarrow>
               (case match_all item_re body of
                  None \<Rightarrow> Inl MTypeError
                | Some items \<Rightarrow>
                    (case list_items n opt bq bull False items src2 (push [MListStart (1 < length bull)] st1) of
                       Inl e \<Rightarrow> Inl e
                     | Inr (src3, st2) \<Rightarrow> token_loop n opt src3 toplev bq (push [MListEnd] st2))))"
| "list_items n opt bq bull nxt [] src st = Inr (src, st)"
| "list_items n opt bq bull nxt (item # later) src st =
     (let item2 = outdent opt item
      in case other_list opt bull later of
           None \<Rightarrow> Inl MTypeError
         | Some other \<Rightarrow>
             let src2 = (if other then join [NL] later @ src else src);
                 later2 = (if other then [] else later);
                 loose1 = (nxt \<or> test loose_re item2);
                 nxt2 = (if later2 \<noteq> [] then ends_newline item2 else nxt);
                 loose = (loose1 \<or> (later2 \<noteq> [] \<and> nxt2))
             in case token_loop n opt (strip_blank_lines item2) False bq
                       (push [if loose then MLooseItemStart else MListItemStart] st) of
                  Inl e \<Rightarrow> Inl e
                | Inr st2 \<Rightarrow> list_items n opt bq bull nxt2 later2 src2 (push [MListItemEnd] st2))"

subsection \<open>Lexer.prototype.token and Lexer.prototype.lex\<close>

text \<open>A bound that is always enough, see \<open>token_loop_ok\<close>: the length of the source plus the
  square of the number of characters other than newlines.\<close>

definition ink :: "string \<Rightarrow> nat" where
  "ink s = length (filter (\<lambda>c. c \<noteq> NL) s)"

definition weight :: "string \<Rightarrow> nat" where
  "weight s = length s + ink s * ink s"

definition lexer_token :: "moptions \<Rightarrow> string \<Rightarrow> bool \<Rightarrow> bool \<Rightarrow> lexst \<Rightarrow> merr + lexst" where
  "lexer_token opt src toplev bq st =
     (let src = strip_blank_lines src in token_loop (Suc (weight src)) opt src toplev bq st)"

text \<open>The last replacement of \<open>lex\<close> concerns a character outside Latin-1.\<close>

definition normalize :: "string \<Rightarrow> string" where
  "normalize src =
     replace_all (CHR 0xA0) '' ''
       (replace_all (CHR 0x09) ''    '' (re_replace crlf_re (\<lambda>_. [NL]) src))"

definition marked_lex :: "moptions \<Rightarrow> string \<Rightarrow> merr + lexst" where
  "marked_lex opt src = lexer_token opt (normalize src) True False new_Lexer"

subsection \<open>Syntax trees of the expressions above\<close>

lemma blank_lines_re_ast [code]:
  "blank_lines_re =
     \<lparr>pat = Seq Bol (Seq (Rep 1 None True (Cls False [CChar CHR '' ''])) Eol), ngroups = 0,
     flags = gm_flags\<rparr>"
  by code_simp

lemma indent4_re_ast [code]:
  "indent4_re =
     \<lparr>pat = Seq Bol (Rep 4 (Some 4) True (Cls False [CChar CHR '' ''])), ngroups = 0, flags
     = gm_flags\<rparr>"
  by code_simp

lemma trailing_newlines_re_ast [code]:
  "trailing_newlines_re =
     \<lparr>pat = Seq (Rep 1 None True (Cls False [CChar NL])) Eol, ngroups = 0, flags =
     no_flags\<rparr>"
  by code_simp

lemma header_trim_re_ast [code]:
  "header_trim_re =
     \<lparr>pat = Alt (Seq Bol (Rep 0 None True (Cls False [CChar CHR '' '']))) (Seq (Rep 0 None
     True (Cls False [CChar CHR '' ''])) (Seq (Cls False [CChar CHR ''|'']) (Seq (Rep 0 None True
     (Cls False [CChar CHR '' ''])) Eol))), ngroups = 0, flags = no_flags\<rparr>"
  by code_simp

lemma align_trim_re_ast [code]:
  "align_trim_re =
     \<lparr>pat = Alt (Seq Bol (Rep 0 None True (Cls False [CChar CHR '' '']))) (Seq (Cls False
     [CChar CHR ''|'']) (Seq (Rep 0 None True (Cls False [CChar CHR '' ''])) Eol)), ngroups = 0,
     flags = no_flags\<rparr>"
  by code_simp

lemma pipe_re_ast [code]:
  "pipe_re =
     \<lparr>pat = Seq (Rep 0 None True (Cls False [CChar CHR '' ''])) (Seq (Cls False [CChar CHR
     ''|'']) (Rep 0 None True (Cls False [CChar CHR '' '']))), ngroups = 0, flags =
     no_flags\<rparr>"
  by code_simp

lemma align_right_re_ast [code]:
  "align_right_re =
     \<lparr>pat = Seq Bol (Seq (Rep 0 None True (Cls False [CChar CHR '' ''])) (Seq (Rep 1 None
     True (Cls False [CChar CHR ''-''])) (Seq (Cls False [CChar CHR '':'']) (Seq (Rep 0 None True
     (Cls False [CChar CHR '' ''])) Eol)))), ngroups = 0, flags = no_flags\<rparr>"
  by code_simp

lemma align_center_re_ast [code]:
  "align_center_re =
     \<lparr>pat = Seq Bol (Seq (Rep 0 None True (Cls False [CChar CHR '' ''])) (Seq (Cls False
     [CChar CHR '':'']) (Seq (Rep 1 None True (Cls False [CChar CHR ''-''])) (Seq (Cls False [CChar
     CHR '':'']) (Seq (Rep 0 None True (Cls False [CChar CHR '' ''])) Eol))))), ngroups = 0, flags
     = no_flags\<rparr>"
  by code_simp

lemma align_left_re_ast [code]:
  "align_left_re =
     \<lparr>pat = Seq Bol (Seq (Rep 0 None True (Cls False [CChar CHR '' ''])) (Seq (Cls False
     [CChar CHR '':'']) (Seq (Rep 1 None True (Cls False [CChar CHR ''-''])) (Seq (Rep 0 None True
     (Cls False [CChar CHR '' ''])) Eol)))), ngroups = 0, flags = no_flags\<rparr>"
  by code_simp

lemma last_newline_re_ast [code]:
  "last_newline_re =
     \<lparr>pat = Seq (Cls False [CChar NL]) Eol, ngroups = 0, flags = no_flags\<rparr>"
  by code_simp

lemma table_end_re_ast [code]:
  "table_end_re =
     \<lparr>pat = Seq (Rep 0 (Some 1) True (Seq (Rep 0 None True (Cls False [CChar CHR '' '']))
     (Seq (Cls False [CChar CHR ''|'']) (Rep 0 None True (Cls False [CChar CHR '' '']))))) (Seq
     (Cls False [CChar NL]) Eol), ngroups = 0, flags = no_flags\<rparr>"
  by code_simp

lemma row_trim_re_ast [code]:
  "row_trim_re =
     \<lparr>pat = Alt (Seq Bol (Seq (Rep 0 None True (Cls False [CChar CHR '' ''])) (Seq (Cls
     False [CChar CHR ''|'']) (Rep 0 None True (Cls False [CChar CHR '' '']))))) (Seq (Rep 0 None
     True (Cls False [CChar CHR '' ''])) (Seq (Cls False [CChar CHR ''|'']) (Seq (Rep 0 None True
     (Cls False [CChar CHR '' ''])) Eol))), ngroups = 0, flags = no_flags\<rparr>"
  by code_simp

lemma quote_mark_re_ast [code]:
  "quote_mark_re =
     \<lparr>pat = Seq Bol (Seq (Rep 0 None True (Cls False [CChar CHR '' ''])) (Seq (Cls False
     [CChar CHR ''>'']) (Rep 0 (Some 1) True (Cls False [CChar CHR '' ''])))), ngroups = 0, flags =
     gm_flags\<rparr>"
  by code_simp

lemma bullet_mark_re_ast [code]:
  "bullet_mark_re =
     \<lparr>pat = Seq Bol (Seq (Rep 0 None True (Cls False [CChar CHR '' ''])) (Seq (Group 1 (Alt
     (Cls False [CChar CHR ''*'', CChar CHR ''+'', CChar CHR ''-'']) (Seq (Rep 1 None True (Cls
     False [CDigit True])) (Cls False [CChar CHR ''.''])))) (Rep 1 None True (Cls False [CChar CHR
     '' ''])))), ngroups = 1, flags = no_flags\<rparr>"
  by code_simp

lemma outdent4_re_ast [code]:
  "outdent4_re =
     \<lparr>pat = Seq Bol (Rep 1 (Some 4) True (Cls False [CChar CHR '' ''])), ngroups = 0, flags
     = gm_flags\<rparr>"
  by code_simp

lemma loose_re_ast [code]:
  "loose_re =
     \<lparr>pat = Seq (Cls False [CChar NL]) (Seq (Cls False [CChar NL]) (Look False (Seq (Rep 0
     None True (Cls False [CSpace True])) Eol))), ngroups = 0, flags = no_flags\<rparr>"
  by code_simp

lemma crlf_re_ast [code]:
  "crlf_re =
     \<lparr>pat = Alt (Seq (Cls False [CChar CR]) (Cls False [CChar NL])) (Cls False [CChar CR]),
     ngroups = 0, flags = no_flags\<rparr>"
  by code_simp

end
