(* ===== verification/Marked_Lexer_Facts.thy ===== *)
theory Marked_Lexer_Facts
  imports Marked_Lexer
begin

text \<open>
  The block lexer returns on every source and with all options: its loop always makes
  progress, the item expression matches what the list rule found, every list item has a bullet,
  and the weight of the source bounds iterations and recursion together, also when
  \<open>smartLists\<close> puts items back into the source. The tokens it returns are the fringe of a
  forest of blocks, so that every start token has its end token.
\<close>

declare rx_l.simps(5) [simp del]

subsection \<open>Ink and weight\<close>

lemma ink_append [simp]: "ink (u @ v) = ink u + ink v"
  by (simp add: ink_def)

lemma ink_Nil [simp]: "ink [] = 0"
  by (simp add: ink_def)

lemma ink_Cons: "ink (c # s) = (if c = NL then 0 else 1) + ink s"
  by (simp add: ink_def)

lemma ink_pos: "c \<in> set s \<Longrightarrow> c \<noteq> NL \<Longrightarrow> 0 < ink s"
  by (auto simp: ink_def filter_empty_conv)

lemma ink_subseq: "subseq s t \<Longrightarrow> ink s \<le> ink t"
  unfolding ink_def by (rule list_emb_length) (rule subseq_filter)

lemma ink_drop: "ink (drop n s) \<le> ink s"
  by (metis append_take_drop_id ink_append le_add2)

lemma weight_mono: "length s \<le> length t \<Longrightarrow> ink s \<le> ink t \<Longrightarrow> weight s \<le> weight t"
  by (simp add: weight_def add_mono mult_le_mono)

lemma weight_less: "length s < length t \<Longrightarrow> ink s \<le> ink t \<Longrightarrow> weight s < weight t"
  by (simp add: weight_def add_less_le_mono mult_le_mono)

lemma weight_subseq: "subseq s t \<Longrightarrow> weight s \<le> weight t"
  by (intro weight_mono ink_subseq list_emb_length)

text \<open>Putting items onward: the new newlines are fewer than the ink of the items.\<close>

lemma weight_back:
  assumes "ink s < ink t" "length s \<le> length t + ink s"
  shows "weight s < weight t"
proof -
  have "ink s * ink s + ink s \<le> ink s * ink t"
    using assms(1) mult_le_mono2 [of "Suc (ink s)" "ink t" "ink s"] by simp
  also have "\<dots> < ink t * ink t" using assms(1) by simp
  finally show ?thesis using assms(2) by (simp add: weight_def)
qed

lemma strip_blank_lines_subseq: "subseq (strip_blank_lines s) s"
  by (simp add: strip_blank_lines_def re_replace_subseq)

subsection \<open>Bullets\<close>

abbreviation space_star :: rx where
  "space_star \<equiv> Rep 0 None True (Cls False [CChar CHR '' ''])"

definition is_bullet :: "string \<Rightarrow> bool" where
  "is_bullet b \<longleftrightarrow> lang no_flags (pat bullet_re) b"

text \<open>\<open>bulleted w\<close>: spaces, a bullet and a space start the text.\<close>

definition bulleted :: "string \<Rightarrow> bool" where
  "bulleted w \<longleftrightarrow> (\<exists>sp b u. w = sp @ b @ CHR '' '' # u \<and> set sp \<subseteq> {CHR '' ''} \<and> is_bullet b)"

lemma lang_space: "lang f (Cls False [CChar CHR '' '']) w \<Longrightarrow> \<not> ignoreCase f \<Longrightarrow> w = '' ''"
  by (auto simp: cls_ok_def)

lemma lang_plus_char:
  "lang f (Rep 1 None g (Cls False [CChar c])) w \<Longrightarrow> \<not> ignoreCase f \<Longrightarrow> c \<in> set w"
proof -
  assume "lang f (Rep 1 None g (Cls False [CChar c])) w" "\<not> ignoreCase f"
  then obtain ws where "w = concat ws" "\<forall>x \<in> set ws. x = [c]" "ws \<noteq> []"
    by (auto simp: cls_ok_def Suc_le_eq)
  then show ?thesis by (cases ws) auto
qed

lemma bex_not_Nil: "\<exists>t \<in> set xs. P t \<Longrightarrow> xs \<noteq> []"
  by auto

lemma rx_l_Seq_assoc: "rx_l f (Seq a (Seq b c)) s = rx_l f (Seq (Seq a b) c) s"
proof -
  have "concat (map (rx_l f (Seq b c)) xs) = concat (map (rx_l f c) (concat (map (rx_l f b) xs)))" for xs
    by (induction xs) auto
  then show ?thesis by simp
qed

lemma lang_Seq_suffix: "lang f (Seq a b) w \<Longrightarrow> \<exists>v. set v \<subseteq> set w \<and> lang f b v"
  by (auto simp del: lang.simps(2,4-11))

lemma bulleted_lang:
  assumes "lang f (Seq Bol (Seq (Group 1 space_star) (Seq (Group 2 (pat bullet_re))
             (Seq (Cls False [CChar CHR '' '']) r)))) w" "\<not> ignoreCase f"
  shows "bulleted w"
proof -
  obtain sp b c u where w: "w = sp @ b @ c @ u" "lang f space_star sp"
    "lang f (pat bullet_re) b" "lang f (Cls False [CChar CHR '' '']) c"
    using assms(1) by (auto simp del: lang.simps(2,5))
  have "set sp \<subseteq> {CHR '' ''}" using w(2) assms(2) lang_star_char by blast
  moreover have "c = '' ''" using w(4) assms(2) by (rule lang_space)
  moreover have "is_bullet b"
    using w(3) assms(2) lang_cong [of f no_flags] by (simp add: is_bullet_def)
  ultimately show ?thesis unfolding bulleted_def using w(1) by auto
qed

lemma list_bulleted: "exec list_re src = Some m \<Longrightarrow> bulleted (cap0 m)"
  by (drule exec_lang) (rule bulleted_lang, auto simp: list_re_ast bullet_re_ast simp del: lang.simps)

lemma item_bulleted: "match_all item_re s = Some ws \<Longrightarrow> w \<in> set ws \<Longrightarrow> bulleted w"
  by (drule (1) match_all_lang) (rule bulleted_lang, auto simp: item_re_ast bullet_re_ast simp del: lang.simps)

text \<open>The expressions that the lexer applies to bulleted texts match.\<close>

lemma bulleted_split:
  assumes "set sp \<subseteq> {CHR '' ''}" "is_bullet b" "rest s = sp @ b @ u" "\<not> ignoreCase f"
  shows "\<exists>t \<in> set (rx_l f (Seq (Group i space_star) (Group j (pat bullet_re))) s). rest t = u"
proof (rule rx_l_complete [where w = "sp @ b"])
  have "lang f space_star sp" using assms(1,4) lang_star_char by blast
  moreover have "lang f (pat bullet_re) b" using assms(2,4) lang_cong [of f no_flags] by (simp add: is_bullet_def)
  ultimately show "lang f (Seq (Group i space_star) (Group j (pat bullet_re))) (sp @ b)"
    unfolding lang.simps by blast
qed (use assms(3) in \<open>auto simp: bullet_re_ast\<close>)

lemma item_matches:
  assumes "bulleted w"
  shows "match_all item_re w \<noteq> None"
proof (intro match_all_not_None exec_at_start)
  obtain sp b u where w: "w = sp @ b @ CHR '' '' # u" "set sp \<subseteq> {CHR '' ''}" "is_bullet b"
    using assms by (auto simp: bulleted_def)
  obtain t where t: "t \<in> set (rx_l gm_flags (Seq (Group 1 space_star) (Group 2 (pat bullet_re)))
      (start_state item_re [] w))" "rest t = CHR '' '' # u"
    using bulleted_split [OF w(2,3), of "start_state item_re [] w" "CHR '' '' # u" gm_flags 1 2] w(1)
    by (auto simp del: rx_l.simps)
  let ?tail = "\<lambda>r. Seq (Cls False [CChar CHR '' '']) (Seq (Rep 0 None True (Cls True [CChar NL])) (Rep 0 None True r))"
  have tail: "rx_l gm_flags (?tail r) t \<noteq> []" for r
    using t(2) by (simp add: cls_ok_def ex_in_conv)
  have "rx_l gm_flags (Seq (Group 1 space_star) (Seq (Group 2 (pat bullet_re)) (?tail r)))
      (start_state item_re [] w) \<noteq> []" for r
    unfolding rx_l_Seq_assoc [of gm_flags "Group 1 space_star"] by (rule rx_l_Seq_not_Nil [OF t(1) tail])
  then have "rx_l gm_flags (Seq Bol (Seq (Group 1 space_star) (Seq (Group 2 (pat bullet_re)) (?tail r))))
      (start_state item_re [] w) \<noteq> []" for r
    by (subst rx_l_Seq_Bol) simp_all
  then show "rx_l (flags item_re) (pat item_re) (start_state item_re [] w) \<noteq> []"
    unfolding item_re_ast bullet_re_ast regexp.simps .
qed

lemma bullet_found:
  assumes "bulleted w"
  shows "exec bullet_re w \<noteq> None"
proof -
  obtain sp b u where w: "w = sp @ b @ CHR '' '' # u" "is_bullet b"
    using assms by (auto simp: bulleted_def)
  have "\<exists>t \<in> set (rx_l no_flags (pat bullet_re) (start_state bullet_re (rev sp) (b @ CHR '' '' # u))).
      rest t = CHR '' '' # u"
    by (rule rx_l_complete [where w = b]) (use w(2) in \<open>simp_all add: is_bullet_def bullet_re_ast\<close>)
  then have "rx_l (flags bullet_re) (pat bullet_re) (start_state bullet_re (rev sp) (b @ CHR '' '' # u)) \<noteq> []"
    unfolding bullet_re_ast regexp.simps by (rule bex_not_Nil)
  then show ?thesis by (rule exec_somewhere [rotated]) (simp add: w(1))
qed

lemma bullet_mark_found:
  assumes "bulleted w"
  shows "exec bullet_mark_re w \<noteq> None"
proof (rule exec_at_start)
  obtain sp b u where w: "w = sp @ b @ CHR '' '' # u" "set sp \<subseteq> {CHR '' ''}" "is_bullet b"
    using assms by (auto simp: bulleted_def)
  let ?r = "Seq space_star (Seq (Group 1 (pat bullet_re)) (Rep 1 None True (Cls False [CChar CHR '' ''])))"
  have "lang no_flags space_star sp" using w(2) by (subst lang_star_char) auto
  moreover have "lang no_flags (Rep 1 None True (Cls False [CChar CHR '' ''])) '' ''"
    by (auto intro!: exI [of _ "['' '']"] simp: cls_ok_def)
  ultimately have "lang no_flags ?r (sp @ b @ '' '')"
    using w(3) unfolding lang.simps is_bullet_def by blast
  then have "\<exists>t \<in> set (rx_l no_flags ?r (start_state bullet_mark_re [] w)). rest t = u"
    by (rule rx_l_complete [rotated]) (use w(1) in \<open>simp_all add: bullet_re_ast\<close>)
  then have "rx_l no_flags (Seq Bol ?r) (start_state bullet_mark_re [] w) \<noteq> []"
    by (subst rx_l_Seq_Bol) (simp, rule bex_not_Nil)
  then show "rx_l (flags bullet_mark_re) (pat bullet_mark_re) (start_state bullet_mark_re [] w) \<noteq> []"
    unfolding bullet_mark_re_ast bullet_re_ast regexp.simps .
qed

text \<open>Removing the bullet removes ink.\<close>

lemma strip_bullet_ink:
  assumes "bulleted w"
  shows "ink (strip_bullet w) < ink w" "subseq (strip_bullet w) w"
proof -
  obtain m where m: "exec bullet_mark_re w = Some m" using bullet_mark_found [OF assms] by blast
  from exec_lang [OF m] obtain x where x: "set x \<subseteq> set (cap0 m)"
    "lang no_flags (Rep 1 None True (Cls False [CChar CHR '' ''])) x"
    unfolding bullet_mark_re_ast regexp.simps by (meson lang_Seq_suffix subset_trans)
  have "CHR '' '' \<in> set (cap0 m)" using lang_plus_char [OF x(2)] x(1) by auto
  then have "0 < ink (cap0 m)" by (rule ink_pos) simp
  with re_replace1_erase [OF m] show "ink (strip_bullet w) < ink w" by (auto simp: strip_bullet_def)
  show "subseq (strip_bullet w) w" by (simp add: strip_bullet_def re_replace1_subseq)
qed

lemma outdent_subseq: "subseq (outdent opt item) (strip_bullet item)"
  by (simp add: outdent_def Let_def re_replace_subseq)

lemma outdent_weight: "bulleted w \<Longrightarrow> weight (strip_blank_lines (outdent opt w)) < weight w"
proof -
  assume w: "bulleted w"
  have sub: "subseq (strip_blank_lines (outdent opt w)) (strip_bullet w)"
    by (rule subseq_order.trans [OF strip_blank_lines_subseq outdent_subseq])
  then have "ink (strip_blank_lines (outdent opt w)) < ink w"
    using ink_subseq [OF sub] strip_bullet_ink(1) [OF w] by simp
  moreover have "length (strip_blank_lines (outdent opt w)) \<le> length w"
    using list_emb_length [OF subseq_order.trans [OF sub strip_bullet_ink(2) [OF w]]] .
  ultimately show ?thesis by (intro weight_back) auto
qed

lemma bulleted_ink: "bulleted w \<Longrightarrow> 0 < ink w"
  using strip_bullet_ink(1) [of w] by linarith

subsection \<open>Block quotes\<close>

lemma quote_mark_found:
  assumes "exec blockquote_re src = Some m"
  shows "exec quote_mark_re (cap0 m) \<noteq> None"
proof (rule exec_at_start)
  let ?r = "Seq space_star (Seq (Cls False [CChar CHR ''>'']) (Rep 0 (Some 1) True (Cls False [CChar CHR '' ''])))"
  let ?q = "\<lambda>r. Group 1 (Seq space_star (Seq (Cls False [CChar CHR ''>'']) r))"
  from exec_lang [OF assms] obtain ws r where ws: "cap0 m = concat ws" "1 \<le> length ws"
    "\<forall>w \<in> set ws. lang no_flags (?q r) w"
    unfolding blockquote_re_ast regexp.simps lang.simps(3) [of _ Bol] lang.simps(8) lang.simps(5) [of _ 1]
    by (simp del: lang.simps) blast
  from ws(2) obtain w ws' where w: "ws = w # ws'" by (cases ws) auto
  with ws(3) have "lang no_flags (?q r) w" by simp
  then obtain sp c u where sp: "w = sp @ c @ u" "lang no_flags space_star sp"
    "lang no_flags (Cls False [CChar CHR ''>'']) c"
    unfolding lang.simps(3,6) by blast
  have "c = ''>''" using sp(3) by (auto simp: cls_ok_def)
  then have "cap0 m = sp @ ''>'' @ u @ concat ws'" using w ws(1) sp(1) by simp
  then obtain u where sp: "cap0 m = sp @ ''>'' @ u" "lang no_flags space_star sp" using sp(2) by blast
  have "lang no_flags (Rep 0 (Some 1) True (Cls False [CChar CHR '' ''])) []"
    by (auto intro!: exI [of _ "[]"])
  moreover have "lang no_flags (Cls False [CChar CHR ''>'']) ''>''" by (simp add: cls_ok_def)
  ultimately have "lang no_flags ?r (sp @ ''>'' @ [])" using sp(2) unfolding lang.simps(3) by blast
  then have "lang gm_flags ?r (sp @ ''>'')" using lang_cong [of gm_flags no_flags] by simp
  then have "\<exists>t \<in> set (rx_l gm_flags ?r (start_state quote_mark_re [] (cap0 m))). rest t = u"
    by (rule rx_l_complete [rotated]) (use sp(1) in simp_all)
  then have "rx_l gm_flags (Seq Bol ?r) (start_state quote_mark_re [] (cap0 m)) \<noteq> []"
    by (subst rx_l_Seq_Bol) (simp, rule bex_not_Nil)
  then show "rx_l (flags quote_mark_re) (pat quote_mark_re) (start_state quote_mark_re [] (cap0 m)) \<noteq> []"
    unfolding quote_mark_re_ast regexp.simps .
qed

subsection \<open>Every rule consumes input\<close>

definition consumed :: "string \<Rightarrow> string \<Rightarrow> bool" where
  "consumed r src \<longleftrightarrow> length r < length src \<and> ink r \<le> ink src"

lemma consumed_weight: "consumed r src \<Longrightarrow> weight r < weight src"
  by (simp add: consumed_def weight_less)

fun is_leaf :: "mtoken \<Rightarrow> bool" where
  "is_leaf MBlockquoteStart = False"
| "is_leaf MBlockquoteEnd = False"
| "is_leaf (MListStart ordered) = False"
| "is_leaf MLooseItemStart = False"
| "is_leaf MListItemStart = False"
| "is_leaf MListItemEnd = False"
| "is_leaf MListEnd = False"
| "is_leaf t = True"

fun action_ok :: "string \<Rightarrow> block_action \<Rightarrow> bool" where
  "action_ok src (Emit t r) \<longleftrightarrow> is_leaf t \<and> consumed r src"
| "action_ok src (DefLink k d r) \<longleftrightarrow> consumed r src"
| "action_ok src (Quote body r) \<longleftrightarrow> consumed r src \<and> consumed body src"
| "action_ok src (MList bull body r) \<longleftrightarrow> consumed r src \<and> src = body @ r \<and> bulleted body"

lemma rules_consume: "block_consumes (block_rules_of opt)"
  by (simp add: block_rules_of_def block_tables_consume)

lemma exec_rule_consumed:
  assumes "exec_rule r src = Some m" "1 \<le> rule_min r"
  shows "consumed (after m src) src" "length (cap0 m) \<le> length src" "subseq (cap0 m) src"
proof -
  obtain x where x: "r = Some x" "exec x src = Some m"
    using assms(1) by (auto simp: exec_rule_def split: option.splits)
  have sp: "match_splits x src m" by (rule exec_splits [OF x(2)])
  then have "1 \<le> length (cap0 m)" "length (cap0 m) \<le> length src"
    using assms(2) x(1) by (auto simp: match_splits_def rule_min_def)
  then show "consumed (after m src) src" "length (cap0 m) \<le> length src"
    unfolding consumed_def after_def by (auto simp: ink_drop)
  show "subseq (cap0 m) src"
    using sp unfolding match_splits_def by (metis list_emb_append2 list_emb_prefix subseq_order.refl)
qed

lemma blockquote_rule_of: "r_blockquote (block_rules_of opt) = Some blockquote_re"
  by (simp add: block_rules_of_def block_tables_def block_gfm_def block_normal_def)

lemma list_rule_of: "r_list (block_rules_of opt) = Some list_re"
  by (simp add: block_rules_of_def block_tables_def block_gfm_def block_normal_def)

lemma text_rule_of: "r_text (block_rules_of opt) = Some text_re"
  by (simp add: block_rules_of_def block_tables_def block_gfm_def block_normal_def)

lemma newline_rule_of: "r_newline (block_rules_of opt) = Some newline_re"
  by (simp add: block_rules_of_def block_tables_def block_gfm_def block_normal_def)

lemma block_rule_ok:
  assumes "block_rule opt toplev bq src = Some a"
  shows "action_ok src a"
proof -
  let ?r = "block_rules_of opt"
  have min: "1 \<le> rule_min (r_code ?r)" "1 \<le> rule_min (r_fences ?r)" "1 \<le> rule_min (r_heading ?r)"
    "1 \<le> rule_min (r_nptable ?r)" "1 \<le> rule_min (r_lheading ?r)" "1 \<le> rule_min (r_hr ?r)"
    "1 \<le> rule_min (r_blockquote ?r)" "1 \<le> rule_min (r_list ?r)" "1 \<le> rule_min (r_html ?r)"
    "1 \<le> rule_min (r_def ?r)" "1 \<le> rule_min (r_table ?r)" "1 \<le> rule_min (r_paragraph ?r)"
    "1 \<le> rule_min (r_text ?r)"
    using rules_consume [of opt] by (simp_all add: block_consumes_def)
  obtain f where f: "f \<in> set (block_rule_list opt toplev bq)" "f src = Some a"
    using assms by (auto simp: block_rule_def dest: first_some_SomeD)
  have quote: "action_ok src a" if "blockquote_rule ?r src = Some a"
  proof -
    from that obtain m where m: "exec_rule (r_blockquote ?r) src = Some m"
      and a: "a = Quote (re_replace quote_mark_re erase (cap0 m)) (after m src)"
      unfolding blockquote_rule_def map_option_eq_Some by blast
    let ?body = "re_replace quote_mark_re erase (cap0 m)"
    have "exec blockquote_re src = Some m" using m by (simp add: exec_rule_def blockquote_rule_of)
    then have "length ?body < length (cap0 m)"
      by (intro re_replace_shorter quote_mark_found) (simp_all add: quote_mark_re_ast)
    moreover have "ink ?body \<le> ink src"
      by (rule ink_subseq [OF subseq_order.trans [OF re_replace_subseq exec_rule_consumed(3) [OF m min(7)]]])
    ultimately show ?thesis
      using a exec_rule_consumed [OF m min(7)] by (simp add: consumed_def)
  qed
  have list: "action_ok src a" if "list_rule ?r src = Some a"
  proof -
    from that obtain m where m: "exec_rule (r_list ?r) src = Some m"
      and a: "a = MList (cap_str m 2) (cap0 m) (after m src)"
      unfolding list_rule_def map_option_eq_Some by blast
    have x: "exec list_re src = Some m" using m by (simp add: exec_rule_def list_rule_of)
    have "src = cap0 m @ after m src"
      unfolding after_def by (rule exec_anchored(3) [OF x]) (simp_all add: list_re_ast)
    then show ?thesis
      using a exec_rule_consumed(1) [OF m min(8)] list_bulleted [OF x] by simp
  qed
  from f(1) consider "f = blockquote_rule ?r" | "f = list_rule ?r"
    | "f \<in> set [code_rule opt ?r, fences_rule ?r, heading_rule ?r, lheading_rule ?r, hr_rule ?r, html_rule opt ?r, text_rule ?r]"
    | "Some a \<in> set [None, nptable_rule ?r src, def_rule ?r src, table_rule ?r src, paragraph_rule ?r src]"
    using f(2) by (auto simp: block_rule_list_def Let_def split: if_splits)
  then show ?thesis
  proof cases
    case 1
    then show ?thesis using f(2) quote by simp
  next
    case 2
    then show ?thesis using f(2) list by simp
  next
    case 3
    then show ?thesis
      using f(2) min [THEN exec_rule_consumed(1) [rotated]]
      by (auto simp: code_rule_def fences_rule_def heading_rule_def lheading_rule_def hr_rule_def
          html_rule_def text_rule_def Let_def)
  next
    case 4
    then show ?thesis
      using min [THEN exec_rule_consumed(1) [rotated]]
      by (auto simp: nptable_rule_def def_rule_def table_rule_def paragraph_rule_def Let_def
          dest!: sym [of "Some a"])
  qed
qed

text \<open>The rule for newlines takes all of them, and the rule for text takes whatever is left.\<close>

lemma newline_rule_spec:
  assumes "newline_rule (block_rules_of opt) src = (sp, src1)"
  shows "src = takeWhile (\<lambda>c. c = NL) src @ src1" "set sp \<subseteq> {MSpace}" "src1 = dropWhile (\<lambda>c. c = NL) src"
proof -
  have eq: "cls_ok False False [CChar NL] = (\<lambda>c. c = NL)"
    by (auto simp: cls_ok_def)
  show 3: "src1 = dropWhile (\<lambda>c. c = NL) src"
  proof (cases "exec newline_re src")
    case None
    have "src = [] \<or> hd src \<noteq> NL"
    proof (rule ccontr)
      assume "\<not> (src = [] \<or> hd src \<noteq> NL)"
      then obtain cs where "src = NL # cs" by (cases src) auto
      then have "rx_l no_flags (Seq Bol (Rep 1 None True (Cls False [CChar NL]))) (start_state newline_re [] src) \<noteq> []"
        using rx_l_plus_class_hd [of "start_state newline_re [] src" NL cs no_flags False "[CChar NL]"]
        by (auto simp: rx_l_Seq_Bol cls_ok_def at_bol_def)
      then show False using exec_at_start [of newline_re src] None by (simp add: newline_re_ast)
    qed
    then show ?thesis using assms None by (cases src) (auto simp: newline_rule_def exec_rule_def newline_rule_of)
  next
    case (Some m)
    obtain t where t: "ends newline_re [] src t m"
      using exec_anchored(1) [OF Some] by (auto simp: newline_re_ast)
    then obtain ts where ts: "rx_l no_flags (Rep 1 None True (Cls False [CChar NL])) (start_state newline_re [] src) = t # ts"
      by (auto simp: ends_def newline_re_ast rx_l_Seq_Bol at_bol_def)
    then obtain c cs where c: "src = c # cs" "c = NL"
      by (auto simp: rx_l_plus_class [unfolded One_nat_def] cls_ok_def split: list.splits if_splits)
    then have "t = advance (length (takeWhile (\<lambda>c. c = NL) src)) (start_state newline_re [] src)"
      using rx_l_plus_class_hd [of "start_state newline_re [] src" NL cs no_flags False "[CChar NL]"] ts
      by (auto simp: eq)
    then have "rest t = dropWhile (\<lambda>c. c = NL) src"
      by (simp add: advance_def dropWhile_eq_drop)
    moreover have "src = cap0 m @ rest t" using t by (simp add: ends_def)
    ultimately show ?thesis
      using assms Some by (auto simp: newline_rule_def exec_rule_def newline_rule_of after_def)
  qed
  show "src = takeWhile (\<lambda>c. c = NL) src @ src1" using 3 by simp
  show "set sp \<subseteq> {MSpace}"
    using assms by (auto simp: newline_rule_def split: option.splits if_splits)
qed

lemma block_rule_total:
  assumes "src \<noteq> []" "hd src \<noteq> NL"
  shows "block_rule opt toplev bq src \<noteq> None"
proof -
  obtain c cs where c: "src = c # cs" "c \<noteq> NL" using assms by (cases src) auto
  have "rx_l no_flags (Seq Bol (Rep 1 None True (Cls True [CChar NL]))) (start_state text_re [] src) \<noteq> []"
    using rx_l_plus_class_hd [of "start_state text_re [] src" c cs no_flags True "[CChar NL]"] c
    by (auto simp: rx_l_Seq_Bol cls_ok_def at_bol_def)
  then have "exec text_re src \<noteq> None" using exec_at_start [of text_re src] by (simp add: text_re_ast)
  then have "text_rule (block_rules_of opt) src \<noteq> None"
    by (simp add: text_rule_def exec_rule_def text_rule_of)
  then show ?thesis
    unfolding block_rule_def first_some_None_iff by (auto simp: block_rule_list_def Let_def)
qed

subsection \<open>Blocks\<close>

text \<open>The document as a forest: leaves, block quotes, and lists of items, tight or loose. The token
  list of a forest is its fringe.\<close>

datatype block =
    BLeaf mtoken
  | BQuote "block list"
  | BList bool "item list"
and item = Item (is_loose: bool) "block list"

primrec fringe :: "block \<Rightarrow> mtoken list" and item_fringe :: "item \<Rightarrow> mtoken list" where
  "fringe (BLeaf t) = [t]"
| "fringe (BQuote bl) = MBlockquoteStart # concat (map fringe bl) @ [MBlockquoteEnd]"
| "fringe (BList ordered its) = MListStart ordered # concat (map item_fringe its) @ [MListEnd]"
| "item_fringe (Item loose bl) =
     (if loose then MLooseItemStart else MListItemStart) # concat (map fringe bl) @ [MListItemEnd]"

primrec block_ok :: "block \<Rightarrow> bool" and li_ok :: "item \<Rightarrow> bool" where
  "block_ok (BLeaf t) \<longleftrightarrow> is_leaf t"
| "block_ok (BQuote bl) \<longleftrightarrow> list_all block_ok bl"
| "block_ok (BList ordered its) \<longleftrightarrow> list_all li_ok its"
| "li_ok (Item loose bl) \<longleftrightarrow> list_all block_ok bl"

abbreviation fringes :: "block list \<Rightarrow> mtoken list" where
  "fringes bl \<equiv> concat (map fringe bl)"

definition adds_blocks :: "lexst \<Rightarrow> lexst \<Rightarrow> bool" where
  "adds_blocks st st' \<longleftrightarrow> (\<exists>bl. list_all block_ok bl \<and> toks st' = toks st @ fringes bl)"

definition adds_items :: "lexst \<Rightarrow> lexst \<Rightarrow> bool" where
  "adds_items st st' \<longleftrightarrow> (\<exists>its. list_all li_ok its \<and> toks st' = toks st @ concat (map item_fringe its))"

lemma adds_blocks_refl [simp]: "adds_blocks st st"
  unfolding adds_blocks_def by (rule exI [of _ "[]"]) simp

lemma adds_blocks_trans: "adds_blocks s t \<Longrightarrow> adds_blocks t u \<Longrightarrow> adds_blocks s u"
  unfolding adds_blocks_def by (metis append.assoc concat_append list_all_append map_append)

lemma adds_blocks_leaves: "list_all is_leaf ts \<Longrightarrow> adds_blocks st (push ts st)"
  unfolding adds_blocks_def push_def
  by (rule exI [of _ "map BLeaf ts"]) (simp add: list.pred_map comp_def)

lemma adds_blocks_links [simp]: "adds_blocks st (st'\<lparr>links := l\<rparr>) = adds_blocks st st'"
  by (simp add: adds_blocks_def)

lemma adds_blocks_quote:
  assumes "adds_blocks (push [MBlockquoteStart] st) st2"
  shows "adds_blocks st (push [MBlockquoteEnd] st2)"
proof -
  obtain bl where "list_all block_ok bl" "toks st2 = (toks st @ [MBlockquoteStart]) @ fringes bl"
    using assms by (auto simp: adds_blocks_def push_def)
  then show ?thesis
    unfolding adds_blocks_def push_def by (intro exI [of _ "[BQuote bl]"]) simp
qed

lemma adds_blocks_list:
  assumes "adds_items (push [MListStart ordered] st) st2"
  shows "adds_blocks st (push [MListEnd] st2)"
proof -
  obtain its where "list_all li_ok its" "toks st2 = (toks st @ [MListStart ordered]) @ concat (map item_fringe its)"
    using assms by (auto simp: adds_items_def push_def)
  then show ?thesis
    unfolding adds_blocks_def push_def by (intro exI [of _ "[BList ordered its]"]) simp
qed

lemma adds_items_refl [simp]: "adds_items st st"
  unfolding adds_items_def by (rule exI [of _ "[]"]) simp

lemma adds_items_Cons:
  assumes "adds_blocks (push [if loose then MLooseItemStart else MListItemStart] st) st2"
    "adds_items (push [MListItemEnd] st2) st3"
  shows "adds_items st st3"
proof -
  obtain bl its where "list_all block_ok bl"
      "toks st2 = (toks st @ [if loose then MLooseItemStart else MListItemStart]) @ fringes bl"
      "list_all li_ok its" "toks st3 = (toks st2 @ [MListItemEnd]) @ concat (map item_fringe its)"
    using assms by (auto simp: adds_items_def adds_blocks_def push_def)
  then show ?thesis
    unfolding adds_items_def by (intro exI [of _ "Item loose bl # its"]) simp
qed

subsection \<open>The loop returns\<close>

lemma subseq_concat: "w \<in> set ws \<Longrightarrow> subseq w (concat ws)"
  by (induction ws) (auto intro: list_emb_prefix list_emb_append2)

text \<open>What is left of the source after a list: the source itself, or the items after the first
  few put back in front of it.\<close>

definition put_back :: "string list \<Rightarrow> string \<Rightarrow> string \<Rightarrow> bool" where
  "put_back items src src' \<longleftrightarrow>
     src' = src \<or> (\<exists>k. 0 < k \<and> k < length items \<and> src' = join [NL] (drop k items) @ src)"

lemma put_back_Cons: "put_back later src src' \<Longrightarrow> put_back (item # later) src src'"
  unfolding put_back_def by (metis Suc_less_eq drop_Suc_Cons length_Cons zero_less_Suc)

lemma ink_join: "ink (join [NL] ws) = ink (concat ws)"
  by (induction "[NL]" ws rule: join.induct) (auto simp: ink_Cons)

lemma length_join: "length (join [NL] ws) \<le> length (concat ws) + length ws"
  by (induction "[NL]" ws rule: join.induct) auto

lemma bulleted_count: "\<forall>w \<in> set ws. bulleted w \<Longrightarrow> length ws \<le> ink (concat ws)"
proof (induction ws)
  case (Cons w ws)
  then show ?case using bulleted_ink [of w] by auto
qed simp

lemma put_back_weight:
  assumes "match_all item_re body = Some items" "put_back items r r'" "body \<noteq> []"
  shows "weight r' < weight (body @ r)"
proof -
  have bul: "\<forall>w \<in> set items. bulleted w" using assms(1) item_bulleted by blast
  have sub: "subseq (concat items) body" by (rule match_all_subseq [OF assms(1)])
  from assms(2) consider "r' = r" | k where "0 < k" "k < length items" "r' = join [NL] (drop k items) @ r"
    by (auto simp: put_back_def)
  then show ?thesis
  proof cases
    case 1
    then show ?thesis using assms(3) by (auto intro: weight_less)
  next
    case 2
    have sp: "concat items = concat (take k items) @ concat (drop k items)"
      by (metis append_take_drop_id concat_append)
    have first: "0 < ink (concat (take k items))"
      using 2 bul bulleted_ink [of "hd items"] by (cases items; cases k) auto
    have count: "length (drop k items) \<le> ink (concat (drop k items))"
      by (rule bulleted_count) (meson bul in_set_dropD)
    show ?thesis
    proof (rule weight_back)
      show "ink r' < ink (body @ r)"
        using ink_subseq [OF sub] first by (simp add: 2(3) ink_join sp)
      show "length r' \<le> length (body @ r) + ink r'"
        using list_emb_length [OF sub] length_join [of "drop k items"] count
        by (simp add: 2(3) ink_join sp del: length_drop)
    qed
  qed
qed

lemma list_items_ok:
  assumes IH: "\<And>src toplev bq st. weight src < n \<Longrightarrow>
      \<exists>st'. token_loop n opt src toplev bq st = Inr st' \<and> adds_blocks st st'"
  shows "\<forall>w \<in> set items. bulleted w \<and> weight w \<le> n \<Longrightarrow>
    \<exists>src' st'. list_items n opt bq bull nxt items src st = Inr (src', st') \<and> adds_items st st' \<and>
      put_back items src src'"
proof (induction items arbitrary: nxt src st)
  case Nil
  then show ?case by (simp add: put_back_def)
next
  case (Cons item later)
  let ?item = "outdent opt item"
  have "exec bullet_re (hd later) \<noteq> None" if "later \<noteq> []"
    using bullet_found [of "hd later"] Cons.prems that by simp
  then obtain other where other: "other_list opt bull later = Some other"
    by (cases "smartLists opt \<and> later \<noteq> []") (auto simp: other_list_def)
  let ?src = "if other then join [NL] later @ src else src" and ?later = "if other then [] else later"
  let ?nxt = "if ?later \<noteq> [] then ends_newline ?item else nxt"
  let ?loose = "nxt \<or> test loose_re ?item \<or> (?later \<noteq> [] \<and> ?nxt)"
  obtain st2 where st2: "token_loop n opt (strip_blank_lines ?item) False bq
      (push [if ?loose then MLooseItemStart else MListItemStart] st) = Inr st2"
      "adds_blocks (push [if ?loose then MLooseItemStart else MListItemStart] st) st2"
    using IH [of "strip_blank_lines ?item"] outdent_weight [of item opt] Cons.prems by fastforce
  obtain src' st' where rec: "list_items n opt bq bull ?nxt ?later ?src (push [MListItemEnd] st2) = Inr (src', st')"
      "adds_items (push [MListItemEnd] st2) st'" "put_back ?later ?src src'"
    using Cons.IH [of ?nxt ?src "push [MListItemEnd] st2"] Cons.prems
    by (cases other) (auto simp: put_back_def)
  have "later \<noteq> []" if other
    using other that by (auto simp: other_list_def)
  then have "put_back (item # later) src src'"
    using rec(3) put_back_Cons [of later src src'] by (cases other) (auto simp: put_back_def intro!: exI [of _ 1])
  moreover have "list_items n opt bq bull nxt (item # later) src st = Inr (src', st')"
    using other st2(1) rec(1) by (simp add: Let_def disj_assoc)
  ultimately show ?case using adds_items_Cons [OF st2(2) rec(2)] by blast
qed

theorem token_loop_ok:
  "weight src < n \<Longrightarrow> \<exists>st'. token_loop n opt src toplev bq st = Inr st' \<and> adds_blocks st st'"
proof (induction n arbitrary: src toplev bq st)
  case (Suc n)
  obtain sp src1 where nl: "newline_rule (block_rules_of opt) src = (sp, src1)" by fastforce
  note src1 = newline_rule_spec [OF nl]
  let ?st = "push sp st"
  have st1: "adds_blocks st ?st"
    using src1(2) by (intro adds_blocks_leaves) (auto simp: list_all_iff)
  have w1: "weight src1 \<le> weight src"
    by (subst src1(1)) (rule weight_mono, simp_all)
  have onward: "\<exists>st'. token_loop n opt src' toplev bq st2 = Inr st' \<and> adds_blocks st st'"
    if "weight src' < weight src1" "adds_blocks ?st st2" for src' st2
  proof -
    have "weight src' < n" using that(1) Suc.prems w1 by simp
    from Suc.IH [OF this, of toplev bq st2] show ?thesis
      using adds_blocks_trans [OF st1 that(2)] adds_blocks_trans by blast
  qed
  show ?case
  proof (cases "src = []")
    case False
    note step = token_loop.simps(2) [of n opt src toplev bq st] False nl
    show ?thesis
    proof (cases "block_rule opt toplev bq src1")
      case None
      then have "src1 = []"
        using block_rule_total [of src1 opt toplev bq] src1(3) hd_dropWhile [of "\<lambda>c. c = NL" src] by auto
      then have "weight src1 < n"
        using False Suc.prems by (cases src) (auto simp: weight_def)
      from Suc.IH [OF this, of toplev bq ?st] obtain st' where
        "token_loop n opt src1 toplev bq ?st = Inr st'" "adds_blocks ?st st'" by blast
      then show ?thesis using None \<open>src1 = []\<close> step adds_blocks_trans [OF st1] by simp
    next
      case (Some a)
      from block_rule_ok [OF Some] have ok: "action_ok src1 a" .
      show ?thesis
      proof (cases a)
        case (Emit t r)
        with ok onward [OF consumed_weight, of r "push [t] ?st"] show ?thesis
          using Some step adds_blocks_leaves [of "[t]" ?st] by (simp add: Let_def)
      next
        case (DefLink k d r)
        with ok onward [OF consumed_weight, of r "?st\<lparr>links := (links ?st)(k := Some d)\<rparr>"] show ?thesis
          using Some step by (simp add: Let_def)
      next
        case (Quote body r)
        have "weight (strip_blank_lines body) < n"
          using ok Quote consumed_weight [of body src1] weight_subseq [OF strip_blank_lines_subseq, of body]
            w1 Suc.prems by simp
        from Suc.IH [OF this, of toplev True "push [MBlockquoteStart] ?st"] obtain st2 where
          "token_loop n opt (strip_blank_lines body) toplev True (push [MBlockquoteStart] ?st) = Inr st2"
          "adds_blocks (push [MBlockquoteStart] ?st) st2" by blast
        then show ?thesis
          using onward [OF consumed_weight, of r "push [MBlockquoteEnd] st2"] adds_blocks_quote [of ?st st2]
            ok Quote Some step by (simp add: Let_def)
      next
        case (MList bull body r)
        then have body: "bulleted body" "src1 = body @ r" using ok by auto
        obtain items where items: "match_all item_re body = Some items" using item_matches [OF body(1)] by blast
        have "weight w \<le> n" if "w \<in> set items" for w
        proof -
          have "subseq w body"
            by (rule subseq_order.trans [OF subseq_concat [OF that] match_all_subseq [OF items]])
          then have "subseq w src1" unfolding body(2) by (rule list_emb_prefix)
          then show ?thesis using weight_subseq [of w src1] w1 Suc.prems by simp
        qed
        then have "\<forall>w \<in> set items. bulleted w \<and> weight w \<le> n" using item_bulleted [OF items] by blast
        from list_items_ok [OF Suc.IH this] obtain r' st2 where li:
          "list_items n opt bq bull False items r (push [MListStart (1 < length bull)] ?st) = Inr (r', st2)"
          "adds_items (push [MListStart (1 < length bull)] ?st) st2" "put_back items r r'" by blast
        have "body \<noteq> []" using body(1) by (auto simp: bulleted_def)
        from put_back_weight [OF items li(3) this] have "weight r' < weight src1" using body(2) by simp
        from onward [OF this adds_blocks_list [OF li(2)]] show ?thesis
          using MList Some step items li(1) by (simp add: Let_def)
      qed
    qed
  qed simp
qed simp

text \<open>The lexer never throws and never loops: the tokens it returns are the fringe of a forest.\<close>

theorem marked_lex_blocks:
  "\<exists>st bl. marked_lex opt src = Inr st \<and> toks st = fringes bl \<and> list_all block_ok bl"
proof -
  obtain st where "marked_lex opt src = Inr st" "adds_blocks new_Lexer st"
    using token_loop_ok [OF lessI] unfolding marked_lex_def lexer_token_def Let_def by blast
  then show ?thesis by (auto simp: adds_blocks_def new_Lexer_def)
qed

end
