(* ===== verification/Marked_Inline.thy ===== *)
theory Marked_Inline
  imports Marked_Lexer_Facts
begin

text \<open>
  The helpers of marked (\<open>escape\<close>, \<open>unescape\<close>, \<open>resolveUrl\<close>), its renderer and its
  inline lexer (\<^verbatim>\<open>remark.js\<close>, module 3): one definition per method of
  \<open>Renderer.prototype\<close> and one per rule of \<open>InlineLexer.prototype.output\<close>.

  \<open>Math.random\<close> is a sequence of choices \<open>random\<close>, read from left to right; the cache
  \<open>baseUrls\<close> is part of the state.
\<close>

subsection \<open>escape\<close>

definition bare_amp_re :: regexp where
  "bare_amp_re = re no_flags (bs ''&(?!#?%w+;)'')"

definition escape :: "string \<Rightarrow> bool \<Rightarrow> string" where
  "escape html encode =
     replace_all (CHR 0x27) ''&#39;''
       (replace_all (CHR 0x22) ''&quot;''
         (replace_all (CHR ''>'') ''&gt;''
           (replace_all (CHR ''<'') ''&lt;''
             (if \<not> encode then re_replace bare_amp_re (\<lambda>_. ''&amp;'') html
              else replace_all (CHR ''&'') ''&amp;'' html))))"

subsection \<open>unescape\<close>

text \<open>The result of \<open>unescape\<close> can hold code units above 255 (\<open>String.fromCharCode\<close>), so it
  is a list of numbers.\<close>

definition entity_re :: regexp where
  "entity_re = re \<lparr>ignoreCase = True, multiline = False\<rparr> (bs ''&(#(?:%d+)|(?:#x[0-9A-Fa-f]+)|(?:%w+));?'')"

text \<open>A numeral as a double: integers above \<open>2^53\<close> are rounded to 53 significant bits, to even
  in the middle.\<close>

fun shift_of :: "nat \<Rightarrow> nat" where
  "shift_of n = (if n < 2 ^ 53 then 0 else Suc (shift_of (n div 2)))"

declare shift_of.simps [simp del]

definition round_double :: "nat \<Rightarrow> nat" where
  "round_double n =
     (let k = shift_of n; q = n div 2 ^ k; r = n mod 2 ^ k
      in (if 2 * r < 2 ^ k \<or> (2 * r = 2 ^ k \<and> even q) then q else Suc q) * 2 ^ k)"

definition fromCharCode :: "nat \<Rightarrow> nat" where
  "fromCharCode n = round_double n mod 65536"

definition hex_number :: "string \<Rightarrow> nat" where
  "hex_number s = fold (\<lambda>c acc. 16 * acc + (case hex_val c of None \<Rightarrow> 0 | Some d \<Rightarrow> d)) s 0"

definition entity_value :: "string \<Rightarrow> nat list" where
  "entity_value name =
     (let n = toLowerCase name
      in if n = ''colon'' then [58]
         else if take 1 n = ''#'' then
           (if take 1 (drop 1 n) = ''x'' then [fromCharCode (hex_number (drop 2 n))]
            else [fromCharCode (digits_val 0 (drop 1 n))])
         else [])"

fun splice_units :: "string \<Rightarrow> nat \<Rightarrow> (rx_match \<Rightarrow> nat list) \<Rightarrow> rx_match list \<Rightarrow> nat list" where
  "splice_units s i new [] = map code (drop i s)"
| "splice_units s i new (m # ms) =
     map code (take (m_index m - i) (drop i s)) @ new m @ splice_units s (m_index m + length (cap0 m)) new ms"

definition unescape :: "string \<Rightarrow> nat list" where
  "unescape html = splice_units html 0 (\<lambda>m. entity_value (cap_str m 1)) (exec_all entity_re html)"

subsection \<open>decodeURIComponent\<close>

text \<open>The decoder of the language: a percent sign starts an escaped byte, bytes above 127 must
  form valid UTF-8, anything else is a \<open>URIError\<close> (\<open>None\<close>).\<close>

definition hex_unit :: "nat \<Rightarrow> nat option" where
  "hex_unit u = (if u < 128 then hex_val (char_of u) else None)"

fun pct_byte :: "nat list \<Rightarrow> (nat \<times> nat list) option" where
  "pct_byte (p # h # l # us) =
     (case (hex_unit h, hex_unit l) of
        (Some a, Some b) \<Rightarrow> if p = 37 then Some (16 * a + b, us) else None
      | _ \<Rightarrow> None)"
| "pct_byte _ = None"

fun continuation :: "nat \<Rightarrow> nat \<Rightarrow> nat list \<Rightarrow> (nat \<times> nat list) option" where
  "continuation 0 v us = Some (v, us)"
| "continuation (Suc k) v us =
     (case pct_byte us of
        Some (b, us') \<Rightarrow> if 128 \<le> b \<and> b < 192 then continuation k (64 * v + (b - 128)) us' else None
      | None \<Rightarrow> None)"

text \<open>The number of continuation bytes after a first byte, its payload, and the least code point
  that needs that many bytes.\<close>

definition utf8_head :: "nat \<Rightarrow> (nat \<times> nat \<times> nat) option" where
  "utf8_head b =
     (if b < 128 then Some (0, b, 0)
      else if 192 \<le> b \<and> b < 224 then Some (1, b - 192, 128)
      else if 224 \<le> b \<and> b < 240 then Some (2, b - 224, 2048)
      else if 240 \<le> b \<and> b < 248 then Some (3, b - 240, 65536)
      else None)"

definition utf16 :: "nat \<Rightarrow> nat list" where
  "utf16 cp =
     (if cp < 65536 then [cp]
      else [55296 + (cp - 65536) div 1024, 56320 + (cp - 65536) mod 1024])"

definition decode_char :: "nat list \<Rightarrow> (nat list \<times> nat list) option" where
  "decode_char us =
     (case pct_byte us of
        None \<Rightarrow> None
      | Some (b, us1) \<Rightarrow>
          (case utf8_head b of
             None \<Rightarrow> None
           | Some (k, v, least) \<Rightarrow>
               (case continuation k v us1 of
                  None \<Rightarrow> None
                | Some (cp, us2) \<Rightarrow>
                    if least \<le> cp \<and> cp < 1114112 \<and> \<not> (55296 \<le> cp \<and> cp < 57344)
                    then Some (utf16 cp, us2) else None)))"

lemma pct_byte_shorter: "pct_byte us = Some (b, us') \<Longrightarrow> length us' < length us"
  by (induction us rule: pct_byte.induct) (auto split: option.splits if_splits)

lemma continuation_shorter: "continuation k v us = Some (c, us') \<Longrightarrow> length us' \<le> length us"
proof (induction k v us rule: continuation.induct)
  case (2 k v us)
  then obtain b us1 where b: "pct_byte us = Some (b, us1)" "128 \<le> b \<and> b < 192"
      "continuation k (64 * v + (b - 128)) us1 = Some (c, us')"
    by (auto split: option.splits if_splits)
  from "2.IH" [OF b(1) refl b(2,3)] pct_byte_shorter [OF b(1)] show ?case by simp
qed simp

lemma decode_char_shorter: "decode_char us = Some (ws, us') \<Longrightarrow> length us' < length us"
  by (auto simp: decode_char_def split: option.splits if_splits
      dest!: pct_byte_shorter continuation_shorter)

function decodeURIComponent :: "nat list \<Rightarrow> nat list option" where
  "decodeURIComponent [] = Some []"
| "decodeURIComponent (u # us) =
     (if u = 37
      then (case decode_char (u # us) of
              None \<Rightarrow> None
            | Some (ws, us') \<Rightarrow> map_option (\<lambda>r. ws @ r) (decodeURIComponent us'))
      else map_option (\<lambda>r. u # r) (decodeURIComponent us))"
  by pat_completeness auto
termination decodeURIComponent
  by (relation "measure length") (auto dest: decode_char_shorter)

subsection \<open>resolveUrl\<close>

definition host_only_re :: regexp where
  "host_only_re = re no_flags (bs ''^[^:]+:%/*[^/]*$'')"

definition after_slash_re :: regexp where
  "after_slash_re = re no_flags ''[^/]*$''"

definition after_colon_re :: regexp where
  "after_colon_re = re no_flags '':[^]*''"

definition after_host_re :: regexp where
  "after_host_re = re no_flags (bs ''(:%/*[^/]*)[^]*'')"

definition originIndependentUrl :: regexp where
  "originIndependentUrl =
     re \<lparr>ignoreCase = True, multiline = False\<rparr> ''^$|^[a-z][a-z0-9+.-]*:|^[?#]''"

type_synonym url_cache = "string \<Rightarrow> string option"

definition base_of :: "string \<Rightarrow> string" where
  "base_of base =
     (if test host_only_re base then base @ ''/''
      else re_replace1 after_slash_re (\<lambda>_. []) base)"

definition resolveUrl :: "url_cache \<Rightarrow> string \<Rightarrow> string \<Rightarrow> string \<times> url_cache" where
  "resolveUrl cache base href =
     (let key = CHR '' '' # base;
          cache1 = (if truthy (cache key) then cache else cache(key := Some (base_of base)));
          base1 = (case cache1 key of None \<Rightarrow> [] | Some b \<Rightarrow> b)
      in (if take 2 href = ''//'' then re_replace1 after_colon_re (\<lambda>_. '':'') base1 @ href
          else if take 1 href = ''/'' then re_replace1 after_host_re (\<lambda>m. cap_str m 1) base1 @ href
          else base1 @ href,
          cache1))"

subsection \<open>Renderer\<close>

definition non_word_re :: regexp where
  "non_word_re = re no_flags (bs ''[^%w]+'')"

definition render_code :: "moptions \<Rightarrow> string \<Rightarrow> string option \<Rightarrow> bool \<Rightarrow> string" where
  "render_code opt cod lan escaped =
     (let (cod, escaped) =
            (case highlight opt of
               None \<Rightarrow> (cod, escaped)
             | Some h \<Rightarrow>
                 (case h cod lan of
                    None \<Rightarrow> (cod, escaped)
                  | Some out \<Rightarrow> if out \<noteq> cod then (out, True) else (cod, escaped)));
          body = (if escaped then cod else escape cod True)
      in if \<not> truthy lan then ''<pre><code>'' @ body @ [NL] @ ''</code></pre>''
         else ''<pre><code class=\"'' @ langPrefix opt @ escape (the lan) True @ ''\">'' @ body @
              [NL] @ ''</code></pre>'' @ [NL])"

definition render_blockquote :: "string \<Rightarrow> string" where
  "render_blockquote quote = ''<blockquote>'' @ [NL] @ quote @ ''</blockquote>'' @ [NL]"

definition render_html :: "string \<Rightarrow> string" where
  "render_html html = html"

definition render_heading :: "moptions \<Rightarrow> string \<Rightarrow> nat \<Rightarrow> string \<Rightarrow> string" where
  "render_heading opt body level raw =
     ''<h'' @ nat_str level @ '' id=\"'' @ headerPrefix opt @
     re_replace non_word_re (\<lambda>_. ''-'') (toLowerCase raw) @ ''\">'' @ body @ ''</h'' @ nat_str level @ ''>'' @ [NL]"

definition render_hr :: "moptions \<Rightarrow> string" where
  "render_hr opt = (if xhtml opt then ''<hr/>'' else ''<hr>'') @ [NL]"

definition render_list :: "string \<Rightarrow> bool \<Rightarrow> string" where
  "render_list body ordered =
     (let type = (if ordered then ''ol'' else ''ul'')
      in ''<'' @ type @ ''>'' @ [NL] @ body @ ''</'' @ type @ ''>'' @ [NL])"

definition render_listitem :: "string \<Rightarrow> string" where
  "render_listitem body = ''<li>'' @ body @ ''</li>'' @ [NL]"

definition render_paragraph :: "string \<Rightarrow> string" where
  "render_paragraph body = ''<p>'' @ body @ ''</p>'' @ [NL]"

definition render_table :: "string \<Rightarrow> string \<Rightarrow> string" where
  "render_table header body =
     ''<table>'' @ [NL] @ ''<thead>'' @ [NL] @ header @ ''</thead>'' @ [NL] @ ''<tbody>'' @ [NL] @ body @
     ''</tbody>'' @ [NL] @ ''</table>'' @ [NL]"

definition render_tablerow :: "string \<Rightarrow> string" where
  "render_tablerow content = ''<tr>'' @ [NL] @ content @ ''</tr>'' @ [NL]"

definition render_tablecell :: "string \<Rightarrow> bool \<Rightarrow> string option \<Rightarrow> string" where
  "render_tablecell content header align =
     (let type = (if header then ''th'' else ''td'');
          tag = (if truthy align then ''<'' @ type @ '' style=\"text-align:'' @ the align @ ''\">''
                 else ''<'' @ type @ ''>'')
      in tag @ content @ ''</'' @ type @ ''>'' @ [NL])"

definition render_strong :: "string \<Rightarrow> string" where
  "render_strong body = ''<strong>'' @ body @ ''</strong>''"

definition render_em :: "string \<Rightarrow> string" where
  "render_em body = ''<em>'' @ body @ ''</em>''"

definition render_codespan :: "string \<Rightarrow> string" where
  "render_codespan body = ''<code>'' @ body @ ''</code>''"

definition render_br :: "moptions \<Rightarrow> string" where
  "render_br opt = (if xhtml opt then ''<br/>'' else ''<br>'')"

definition render_del :: "string \<Rightarrow> string" where
  "render_del body = ''<del>'' @ body @ ''</del>''"

definition render_text :: "string \<Rightarrow> string" where
  "render_text body = body"

text \<open>
  \<open>prot\<close> of \<open>link\<close>: the decoded address reduced to word characters and colons, in lower case;
  code units above 127 are dropped by that reduction.
\<close>

definition word_or_colon :: "nat \<Rightarrow> bool" where
  "word_or_colon u \<longleftrightarrow> u < 128 \<and> (is_word (char_of u) \<or> u = 58)"

definition protocol :: "string \<Rightarrow> string option" where
  "protocol href =
     map_option (\<lambda>us. toLowerCase (map char_of (filter word_or_colon us)))
       (decodeURIComponent (unescape href))"

definition unsafe_protocol :: "string \<Rightarrow> bool" where
  "unsafe_protocol p \<longleftrightarrow> prefix ''javascript:'' p \<or> prefix ''vbscript:'' p \<or> prefix ''data:'' p"

definition based_url :: "moptions \<Rightarrow> url_cache \<Rightarrow> string \<Rightarrow> string \<times> url_cache" where
  "based_url opt cache href =
     (if truthy (baseUrl opt) \<and> \<not> test originIndependentUrl href
      then resolveUrl cache (the (baseUrl opt)) href else (href, cache))"

definition title_attr :: "string option \<Rightarrow> string" where
  "title_attr title = (if truthy title then '' title=\"'' @ the title @ ''\"'' else [])"

definition render_link :: "moptions \<Rightarrow> url_cache \<Rightarrow> string \<Rightarrow> string option \<Rightarrow> string \<Rightarrow> string \<times> url_cache" where
  "render_link opt cache href title body =
     (if sanitize opt \<and> (case protocol href of None \<Rightarrow> True | Some p \<Rightarrow> unsafe_protocol p) then ([], cache)
      else let (href, cache) = based_url opt cache href
           in (''<a href=\"'' @ href @ ''\"'' @ title_attr title @ ''>'' @ body @ ''</a>'', cache))"

definition render_image :: "moptions \<Rightarrow> url_cache \<Rightarrow> string \<Rightarrow> string option \<Rightarrow> string \<Rightarrow> string \<times> url_cache" where
  "render_image opt cache href title body =
     (let (href, cache) = based_url opt cache href
      in (''<img src=\"'' @ href @ ''\" alt=\"'' @ body @ ''\"'' @ title_attr title @
          (if xhtml opt then ''/>'' else ''>''), cache))"

subsection \<open>Syntax trees of the expressions above\<close>

lemma bare_amp_re_ast [code]:
  "bare_amp_re =
     \<lparr>pat = Seq (Cls False [CChar CHR ''&'']) (Look False (Seq (Rep 0 (Some 1) True (Cls
     False [CChar CHR ''#''])) (Seq (Rep 1 None True (Cls False [CWord True])) (Cls False [CChar
     CHR '';''])))), ngroups = 0, flags = no_flags\<rparr>"
  by code_simp

lemma entity_re_ast [code]:
  "entity_re =
     \<lparr>pat = Seq (Cls False [CChar CHR ''&'']) (Seq (Group 1 (Alt (Seq (Cls False [CChar CHR
     ''#'']) (Rep 1 None True (Cls False [CDigit True]))) (Alt (Seq (Cls False [CChar CHR ''#''])
     (Seq (Cls False [CChar CHR ''x'']) (Rep 1 None True (Cls False [CRange CHR ''0'' CHR ''9'',
     CRange CHR ''A'' CHR ''F'', CRange CHR ''a'' CHR ''f''])))) (Rep 1 None True (Cls False [CWord
     True]))))) (Rep 0 (Some 1) True (Cls False [CChar CHR '';'']))), ngroups = 1, flags =
     \<lparr>ignoreCase = True, multiline = False\<rparr>\<rparr>"
  by code_simp

lemma host_only_re_ast [code]:
  "host_only_re =
     \<lparr>pat = Seq Bol (Seq (Rep 1 None True (Cls True [CChar CHR '':''])) (Seq (Cls False
     [CChar CHR '':'']) (Seq (Rep 0 None True (Cls False [CChar CHR ''/''])) (Seq (Rep 0 None True
     (Cls True [CChar CHR ''/''])) Eol)))), ngroups = 0, flags = no_flags\<rparr>"
  by code_simp

lemma after_slash_re_ast [code]:
  "after_slash_re =
     \<lparr>pat = Seq (Rep 0 None True (Cls True [CChar CHR ''/''])) Eol, ngroups = 0, flags =
     no_flags\<rparr>"
  by code_simp

lemma after_colon_re_ast [code]:
  "after_colon_re =
     \<lparr>pat = Seq (Cls False [CChar CHR '':'']) (Rep 0 None True (Cls True [])), ngroups = 0,
     flags = no_flags\<rparr>"
  by code_simp

lemma after_host_re_ast [code]:
  "after_host_re =
     \<lparr>pat = Seq (Group 1 (Seq (Cls False [CChar CHR '':'']) (Seq (Rep 0 None True (Cls False
     [CChar CHR ''/''])) (Rep 0 None True (Cls True [CChar CHR ''/'']))))) (Rep 0 None True (Cls
     True [])), ngroups = 1, flags = no_flags\<rparr>"
  by code_simp

lemma originIndependentUrl_ast [code]:
  "originIndependentUrl =
     \<lparr>pat = Alt (Seq Bol Eol) (Alt (Seq Bol (Seq (Cls False [CRange CHR ''a'' CHR ''z''])
     (Seq (Rep 0 None True (Cls False [CRange CHR ''a'' CHR ''z'', CRange CHR ''0'' CHR ''9'',
     CChar CHR ''+'', CChar CHR ''.'', CChar CHR ''-''])) (Cls False [CChar CHR '':''])))) (Seq Bol
     (Cls False [CChar CHR ''?'', CChar CHR ''#'']))), ngroups = 0, flags = \<lparr>ignoreCase =
     True, multiline = False\<rparr>\<rparr>"
  by code_simp

lemma non_word_re_ast [code]:
  "non_word_re =
     \<lparr>pat = Rep 1 None True (Cls True [CWord True]), ngroups = 0, flags = no_flags\<rparr>"
  by code_simp

end
