(* ===== verification/Marked_InlineLexer.thy ===== *)
theory Marked_InlineLexer
  imports Marked_Inline
begin

text \<open>
  \<open>InlineLexer\<close> of marked (\<^verbatim>\<open>remark.js\<close>, module 3): the rules of
  \<open>output\<close> in the order in which the loop tries them, the loop with its recursion into links,
  emphasis and deletions, \<open>outputLink\<close> and \<open>mangle\<close>. The loop returns on every source:
  the text rule always matches and every nested text is shorter than the source.
\<close>

subsection \<open>State\<close>

text \<open>What does not change while a document is compiled, and what does: the flag
  \<open>inLink\<close>, the number of random choices made, and the cache of base addresses.\<close>

record menv =
  opts :: moptions
  random :: "nat \<Rightarrow> bool"
  elinks :: "string \<Rightarrow> link_def option"

record ist =
  inLink :: bool
  rnd :: nat
  baseUrls :: url_cache

definition new_InlineLexer :: "url_cache \<Rightarrow> nat \<Rightarrow> ist" where
  "new_InlineLexer cache i = \<lparr>inLink = False, rnd = i, baseUrls = cache\<rparr>"

definition inline_rules_of :: "moptions \<Rightarrow> inline_rules" where
  "inline_rules_of opt =
     (if gfm opt then if breaks opt then inline_breaks else inline_gfm
      else if pedantic opt then inline_pedantic else inline_normal)"

subsection \<open>mangle\<close>

definition hex_digit :: "nat \<Rightarrow> char" where
  "hex_digit d = (if d < 10 then digit_char d else char_of (87 + d))"

fun hex_str :: "nat \<Rightarrow> string" where
  "hex_str n = (if n < 16 then [hex_digit n] else hex_str (n div 16) @ [hex_digit (n mod 16)])"

declare hex_str.simps [simp del]

fun mangle_chars :: "(nat \<Rightarrow> bool) \<Rightarrow> nat \<Rightarrow> string \<Rightarrow> string" where
  "mangle_chars choice i [] = []"
| "mangle_chars choice i (c # cs) =
     ''&#'' @ (if choice i then ''x'' @ hex_str (code c) else nat_str (code c)) @ '';'' @
     mangle_chars choice (Suc i) cs"

definition mangle :: "menv \<Rightarrow> string \<Rightarrow> ist \<Rightarrow> string \<times> ist" where
  "mangle env s st =
     (if \<not> mangle_opt (opts env) then (s, st)
      else (mangle_chars (random env) (rnd st) s, st\<lparr>rnd := rnd st + length s\<rparr>))"

subsection \<open>The rules\<close>

text \<open>
  What a rule asks of the loop: to append a finished piece, to compile a link, or to wrap the
  compiled inner text; always with the source that remains.
\<close>

datatype inline_action =
    IOut string string ist
  | ILink rx_match link_def string
  | IWrap "string \<Rightarrow> string" string string

definition open_a_re :: regexp where
  "open_a_re = re \<lparr>ignoreCase = True, multiline = False\<rparr> ''^<a ''"

definition close_a_re :: regexp where
  "close_a_re = re \<lparr>ignoreCase = True, multiline = False\<rparr> (bs ''^<%/a>'')"

definition spaces_re :: regexp where
  "spaces_re = re no_flags (bs ''%s+'')"

definition put_link :: "menv \<Rightarrow> string \<Rightarrow> string option \<Rightarrow> string \<Rightarrow> ist \<Rightarrow> string \<times> ist" where
  "put_link env href title body st =
     (let (out, cache) = render_link (opts env) (baseUrls st) href title body
      in (out, st\<lparr>baseUrls := cache\<rparr>))"

definition escape_rule :: "menv \<Rightarrow> inline_rules \<Rightarrow> string \<Rightarrow> ist \<Rightarrow> inline_action option" where
  "escape_rule env r src st =
     map_option (\<lambda>m. IOut (cap_str m 1) (after m src) st) (exec_rule (r_escape r) src)"

definition autolink_rule :: "menv \<Rightarrow> inline_rules \<Rightarrow> string \<Rightarrow> ist \<Rightarrow> inline_action option" where
  "autolink_rule env r src st =
     map_option
       (\<lambda>m. let c = cap_str m 1;
                (body, href, st1) =
                  (if cap m 2 = Some ''@''
                   then let (t, st0) = mangle env (if take 1 (drop 6 c) = '':'' then drop 7 c else c) st;
                            body = escape t False;
                            (mailto, st1) = mangle env ''mailto:'' st0
                        in (body, mailto @ body, st1)
                   else (escape c False, escape c False, st));
                (out, st2) = put_link env href None body st1
            in IOut out (after m src) st2)
       (exec_rule (r_autolink r) src)"

definition url_rule :: "menv \<Rightarrow> inline_rules \<Rightarrow> string \<Rightarrow> ist \<Rightarrow> inline_action option" where
  "url_rule env r src st =
     (if inLink st then None
      else map_option
             (\<lambda>m. let body = escape (cap_str m 1) False; (out, st1) = put_link env body None body st
                  in IOut out (after m src) st1)
             (exec_rule (r_url r) src))"

definition tag_rule :: "menv \<Rightarrow> inline_rules \<Rightarrow> string \<Rightarrow> ist \<Rightarrow> inline_action option" where
  "tag_rule env r src st =
     map_option
       (\<lambda>m. let c = cap0 m;
                st1 = (if \<not> inLink st \<and> test open_a_re c then st\<lparr>inLink := True\<rparr>
                       else if inLink st \<and> test close_a_re c then st\<lparr>inLink := False\<rparr> else st);
                out = (if sanitize (opts env)
                       then (case sanitizer (opts env) of None \<Rightarrow> escape c False | Some f \<Rightarrow> f c)
                       else c)
            in IOut out (after m src) st1)
       (exec_rule (r_tag r) src)"

definition link_rule :: "menv \<Rightarrow> inline_rules \<Rightarrow> string \<Rightarrow> ist \<Rightarrow> inline_action option" where
  "link_rule env r src st =
     map_option (\<lambda>m. ILink m (cap_str m 2, cap m 3) (after m src)) (exec_rule (r_link r) src)"

definition ref_name :: "rx_match \<Rightarrow> string" where
  "ref_name m =
     toLowerCase (re_replace spaces_re (\<lambda>_. '' '') (if truthy (cap m 2) then cap_str m 2 else cap_str m 1))"

definition reflink_rule :: "menv \<Rightarrow> inline_rules \<Rightarrow> string \<Rightarrow> ist \<Rightarrow> inline_action option" where
  "reflink_rule env r src st =
     map_option
       (\<lambda>m. case elinks env (ref_name m) of
              Some (href, title) \<Rightarrow>
                if href \<noteq> [] then ILink m (href, title) (after m src)
                else IOut (take 1 (cap0 m)) (drop 1 (cap0 m) @ after m src) st
            | None \<Rightarrow> IOut (take 1 (cap0 m)) (drop 1 (cap0 m) @ after m src) st)
       (case exec_rule (r_reflink r) src of
          Some m \<Rightarrow> Some m
        | None \<Rightarrow> exec_rule (r_nolink r) src)"

definition inner_cap :: "rx_match \<Rightarrow> string" where
  "inner_cap m = (if truthy (cap m 2) then cap_str m 2 else cap_str m 1)"

definition strong_rule :: "menv \<Rightarrow> inline_rules \<Rightarrow> string \<Rightarrow> ist \<Rightarrow> inline_action option" where
  "strong_rule env r src st =
     map_option (\<lambda>m. IWrap render_strong (inner_cap m) (after m src)) (exec_rule (r_strong r) src)"

definition em_rule :: "menv \<Rightarrow> inline_rules \<Rightarrow> string \<Rightarrow> ist \<Rightarrow> inline_action option" where
  "em_rule env r src st =
     map_option (\<lambda>m. IWrap render_em (inner_cap m) (after m src)) (exec_rule (r_em r) src)"

definition codespan_rule :: "menv \<Rightarrow> inline_rules \<Rightarrow> string \<Rightarrow> ist \<Rightarrow> inline_action option" where
  "codespan_rule env r src st =
     map_option (\<lambda>m. IOut (render_codespan (escape (trim (cap_str m 2)) True)) (after m src) st)
       (exec_rule (r_codespan r) src)"

definition br_rule :: "menv \<Rightarrow> inline_rules \<Rightarrow> string \<Rightarrow> ist \<Rightarrow> inline_action option" where
  "br_rule env r src st =
     map_option (\<lambda>m. IOut (render_br (opts env)) (after m src) st) (exec_rule (r_br r) src)"

definition del_rule :: "menv \<Rightarrow> inline_rules \<Rightarrow> string \<Rightarrow> ist \<Rightarrow> inline_action option" where
  "del_rule env r src st =
     map_option (\<lambda>m. IWrap render_del (cap_str m 1) (after m src)) (exec_rule (r_del r) src)"

definition itext_rule :: "menv \<Rightarrow> inline_rules \<Rightarrow> string \<Rightarrow> ist \<Rightarrow> inline_action option" where
  "itext_rule env r src st =
     map_option (\<lambda>m. IOut (render_text (escape (cap0 m) False)) (after m src) st) (exec_rule (r_itext r) src)"

definition inline_rule_list :: "(menv \<Rightarrow> inline_rules \<Rightarrow> string \<Rightarrow> ist \<Rightarrow> inline_action option) list" where
  "inline_rule_list =
     [escape_rule, autolink_rule, url_rule, tag_rule, link_rule, reflink_rule, strong_rule, em_rule,
      codespan_rule, br_rule, del_rule, itext_rule]"

definition inline_rule :: "menv \<Rightarrow> string \<Rightarrow> ist \<Rightarrow> inline_action option" where
  "inline_rule env src st =
     first_some (\<lambda>f. f env (inline_rules_of (opts env)) src st) inline_rule_list"

subsection \<open>The loop\<close>

text \<open>
  \<open>output_loop\<close> is the loop of \<open>output\<close>; the accumulated text is put in front of what
  the rest of the loop appends. The first argument bounds iterations and recursion together.
\<close>

definition link_title :: "link_def \<Rightarrow> string option" where
  "link_title d = (if truthy (snd d) then Some (escape (the (snd d)) False) else None)"

fun output_loop :: "nat \<Rightarrow> menv \<Rightarrow> string \<Rightarrow> ist \<Rightarrow> merr + string \<times> ist" where
  "output_loop 0 env src st = Inl MOutOfFuel"
| "output_loop (Suc n) env src st =
     (if src = [] then Inr ([], st)
      else case inline_rule env src st of
          None \<Rightarrow> Inl (MInfiniteLoop (code (hd src)))
        | Some (IOut piece rst st1) \<Rightarrow>
            map_sum id (map_prod (\<lambda>out. piece @ out) id) (output_loop n env rst st1)
        | Some (IWrap wrap inner rst) \<Rightarrow>
            (case output_loop n env inner st of
               Inl e \<Rightarrow> Inl e
             | Inr (body, st1) \<Rightarrow>
                 map_sum id (map_prod (\<lambda>out. wrap body @ out) id) (output_loop n env rst st1))
        | Some (ILink m d rst) \<Rightarrow>
            let href = escape (fst d) False; title = link_title d
            in if take 1 (cap0 m) \<noteq> ''!''
               then (case output_loop n env (cap_str m 1) (st\<lparr>inLink := True\<rparr>) of
                       Inl e \<Rightarrow> Inl e
                     | Inr (body, st1) \<Rightarrow>
                         let (piece, st2) = put_link env href title body st1
                         in map_sum id (map_prod (\<lambda>out. piece @ out) id)
                              (output_loop n env rst (st2\<lparr>inLink := False\<rparr>)))
               else let (piece, cache) =
                          render_image (opts env) (baseUrls st) href title (escape (cap_str m 1) False)
                    in map_sum id (map_prod (\<lambda>out. piece @ out) id)
                         (output_loop n env rst (st\<lparr>baseUrls := cache, inLink := False\<rparr>)))"

definition inline_output :: "menv \<Rightarrow> string \<Rightarrow> ist \<Rightarrow> merr + string \<times> ist" where
  "inline_output env src st = output_loop (Suc (length src)) env src st"

subsection \<open>Syntax trees of the expressions above\<close>

lemma open_a_re_ast [code]:
  "open_a_re =
     \<lparr>pat = Seq Bol (Seq (Cls False [CChar CHR ''<'']) (Seq (Cls False [CChar CHR ''a''])
     (Cls False [CChar CHR '' '']))), ngroups = 0, flags = \<lparr>ignoreCase = True, multiline =
     False\<rparr>\<rparr>"
  by code_simp

lemma close_a_re_ast [code]:
  "close_a_re =
     \<lparr>pat = Seq Bol (Seq (Cls False [CChar CHR ''<'']) (Seq (Cls False [CChar CHR ''/''])
     (Seq (Cls False [CChar CHR ''a'']) (Cls False [CChar CHR ''>''])))), ngroups = 0, flags =
     \<lparr>ignoreCase = True, multiline = False\<rparr>\<rparr>"
  by code_simp

lemma spaces_re_ast [code]:
  "spaces_re =
     \<lparr>pat = Rep 1 None True (Cls False [CSpace True]), ngroups = 0, flags = no_flags\<rparr>"
  by code_simp

subsection \<open>The loop returns\<close>

declare rx_l.simps(5) [simp del]

text \<open>Facts about the rules of all four tables: the expressions of the rules with nested texts open a
  group only after a character, the reference rules are anchored, and they set their first
  group.\<close>

definition nested_shorter :: "rule \<Rightarrow> bool" where
  "nested_shorter r \<longleftrightarrow> (case r of None \<Rightarrow> True | Some x \<Rightarrow> before_groups (pat x) \<noteq> 0)"

definition rule_anchored :: "rule \<Rightarrow> bool" where
  "rule_anchored r \<longleftrightarrow> (case r of None \<Rightarrow> True | Some x \<Rightarrow> anchored (pat x) \<and> \<not> multiline (flags x))"

definition inline_nested_ok :: "inline_rules \<Rightarrow> bool" where
  "inline_nested_ok r \<longleftrightarrow>
     list_all nested_shorter [r_link r, r_reflink r, r_nolink r, r_strong r, r_em r, r_del r] \<and>
     list_all rule_anchored [r_reflink r, r_nolink r]"

lemma inline_tables_nested:
  "inline_nested_ok inline_normal" "inline_nested_ok inline_pedantic"
  "inline_nested_ok inline_gfm" "inline_nested_ok inline_breaks"
  by code_simp+

lemma inline_rules_consume: "inline_consumes (inline_rules_of opt)"
  by (simp add: inline_rules_of_def inline_tables_consume)

lemma inline_rules_nested: "inline_nested_ok (inline_rules_of opt)"
  by (simp add: inline_rules_of_def inline_tables_nested)

lemma nested_cap:
  assumes "exec_rule r src = Some m" "nested_shorter r" "n \<noteq> 0"
  shows "length (cap_str m n) < length src \<or> cap_str m n = []"
proof -
  obtain x where "r = Some x" "exec x src = Some m"
    using assms(1) by (auto simp: exec_rule_def split: option.splits)
  with exec_caps_shorter [of x src m n] assms(2,3) show ?thesis
    by (auto simp: cap_str_def nested_shorter_def split: option.splits)
qed

fun inline_action_ok :: "string \<Rightarrow> inline_action \<Rightarrow> bool" where
  "inline_action_ok src (IOut piece r st) \<longleftrightarrow> length r < length src"
| "inline_action_ok src (IWrap wrap inner r) \<longleftrightarrow>
     length r < length src \<and> (length inner < length src \<or> inner = [])"
| "inline_action_ok src (ILink m d r) \<longleftrightarrow>
     length r < length src \<and> (length (cap_str m 1) < length src \<or> cap_str m 1 = [])"

lemma exec_rule_shorter:
  assumes "exec_rule r src = Some m" "1 \<le> rule_min r"
  shows "length (after m src) < length src"
  using exec_rule_consumed(1) [OF assms] by (simp add: consumed_def)

lemma reflink_fallback:
  assumes "exec_rule r src = Some m" "1 \<le> rule_min r" "rule_anchored r"
  shows "length (drop 1 (cap0 m) @ after m src) < length src"
proof -
  obtain x where x: "r = Some x" "exec x src = Some m"
    using assms(1) by (auto simp: exec_rule_def split: option.splits)
  have src: "src = cap0 m @ after m src"
    unfolding after_def by (rule exec_anchored(3) [OF x(2)]) (use assms(3) x(1) in \<open>auto simp: rule_anchored_def\<close>)
  have "length (after m src) < length src" by (rule exec_rule_shorter [OF assms(1,2)])
  with src have "cap0 m \<noteq> []" by auto
  then show ?thesis using arg_cong [OF src, of length] by (cases "cap0 m") auto
qed

lemma reflink_rule_ok:
  assumes "reflink_rule env (inline_rules_of opt) src st = Some a"
  shows "inline_action_ok src a"
proof -
  let ?r = "inline_rules_of opt"
  obtain m r where m: "exec_rule r src = Some m" "r = r_reflink ?r \<or> r = r_nolink ?r"
    and a: "a = (case elinks env (ref_name m) of
              Some (href, title) \<Rightarrow>
                if href \<noteq> [] then ILink m (href, title) (after m src)
                else IOut (take 1 (cap0 m)) (drop 1 (cap0 m) @ after m src) st
            | None \<Rightarrow> IOut (take 1 (cap0 m)) (drop 1 (cap0 m) @ after m src) st)"
    using assms by (auto simp: reflink_rule_def split: option.splits)
  have r: "1 \<le> rule_min r" "rule_anchored r" "nested_shorter r"
    using m(2) inline_rules_consume [of opt] inline_rules_nested [of opt]
    by (auto simp: inline_consumes_def inline_nested_ok_def)
  show ?thesis
    using a exec_rule_shorter [OF m(1) r(1)] reflink_fallback [OF m(1) r(1,2)] nested_cap [OF m(1) r(3), of 1]
    by (auto split: option.splits prod.splits if_splits)
qed

lemma inline_rule_ok:
  assumes "inline_rule env src st = Some a"
  shows "inline_action_ok src a"
proof -
  let ?r = "inline_rules_of (opts env)"
  have min: "1 \<le> rule_min (r_escape ?r)" "1 \<le> rule_min (r_autolink ?r)" "1 \<le> rule_min (r_url ?r)"
    "1 \<le> rule_min (r_tag ?r)" "1 \<le> rule_min (r_link ?r)" "1 \<le> rule_min (r_strong ?r)"
    "1 \<le> rule_min (r_em ?r)" "1 \<le> rule_min (r_codespan ?r)" "1 \<le> rule_min (r_br ?r)"
    "1 \<le> rule_min (r_del ?r)" "1 \<le> rule_min (r_itext ?r)"
    using inline_rules_consume [of "opts env"] by (simp_all add: inline_consumes_def)
  note short = min [THEN exec_rule_shorter [rotated]]
  have nest: "nested_shorter (r_link ?r)" "nested_shorter (r_strong ?r)" "nested_shorter (r_em ?r)"
    "nested_shorter (r_del ?r)"
    using inline_rules_nested [of "opts env"] by (simp_all add: inline_nested_ok_def)
  obtain f where f: "f \<in> set inline_rule_list" "f env ?r src st = Some a"
    using assms by (auto simp: inline_rule_def dest: first_some_SomeD)
  from f(1) consider "f = reflink_rule"
    | "f \<in> set [link_rule, strong_rule, em_rule, del_rule]"
    | "f \<in> set [escape_rule, autolink_rule, url_rule, tag_rule, codespan_rule, br_rule, itext_rule]"
    by (auto simp: inline_rule_list_def)
  then show ?thesis
  proof cases
    case 1
    then show ?thesis using f(2) reflink_rule_ok by blast
  next
    case 2
    then show ?thesis
      using f(2) short nested_cap [OF _ nest(1)] nested_cap [OF _ nest(2)] nested_cap [OF _ nest(3)]
        nested_cap [OF _ nest(4)]
      by (auto simp: link_rule_def strong_rule_def em_rule_def del_rule_def inner_cap_def)
  next
    case 3
    then show ?thesis
      using f(2) short
      by (auto simp: escape_rule_def autolink_rule_def url_rule_def tag_rule_def codespan_rule_def
          br_rule_def itext_rule_def Let_def case_prod_beta split: if_splits)
  qed
qed

text \<open>The rule for text matches every source: at the latest it takes all of it.\<close>

lemma lazy_text_found:
  assumes re: "x = \<lparr>pat = Seq Bol (Seq (Rep 1 None False (Cls False [CSpace True, CSpace False])) (Look True r)),
      ngroups = 0, flags = no_flags\<rparr>"
    and src: "src \<noteq> []" and r: "rx_l no_flags r \<lparr>pre = rev src, rest = [], rcaps = [None]\<rparr> \<noteq> []"
  shows "exec x src \<noteq> None"
proof (rule exec_at_start)
  let ?s = "start_state x [] src"
  let ?any = "Rep 1 None False (Cls False [CSpace True, CSpace False])"
  have "lang no_flags ?any src"
    using src by (auto intro!: exI [of _ "map (\<lambda>c. [c]) src"] simp: cls_ok_def Suc_le_eq)
  then obtain t where t: "t \<in> set (rx_l no_flags ?any ?s)" "rest t = []"
    using rx_l_complete [of ?any no_flags src ?s "[]"] by auto
  have "pre t = rev src" using rx_l_advances [OF t(1)] t(2) by (auto simp: advances_def)
  moreover have "rcaps t = [None]" using rx_l_no_groups [OF _ t(1)] re by (simp add: init_caps_def)
  ultimately have "t = \<lparr>pre = rev src, rest = [], rcaps = [None]\<rparr>" using t(2) by (cases t) simp
  then have "rx_l no_flags (Look True r) t \<noteq> []" using r by (auto split: list.splits)
  then have "rx_l no_flags (Seq ?any (Look True r)) ?s \<noteq> []" by (rule rx_l_Seq_not_Nil [OF t(1)])
  then show "rx_l (flags x) (pat x) ?s \<noteq> []" using re by (simp only: regexp.simps) (subst rx_l_Seq_Bol, simp_all)
qed

lemma rx_l_Alt_not_Nil: "rx_l f b s \<noteq> [] \<Longrightarrow> rx_l f (Alt a b) s \<noteq> []"
  by simp

lemma rx_l_Eol_at_end: "rx_l f Eol \<lparr>pre = p, rest = [], rcaps = cs\<rparr> \<noteq> []"
  by (simp add: at_eol_def)

lemma itext_rule_found:
  assumes "src \<noteq> []"
  shows "exec_rule (r_itext (inline_rules_of opt)) src \<noteq> None"
proof -
  have "exec i_text_re src \<noteq> None"
    by (rule lazy_text_found [OF i_text_re_ast assms]) (intro rx_l_Alt_not_Nil rx_l_Eol_at_end)
  moreover have "exec gfm_text_re src \<noteq> None"
    by (rule lazy_text_found [OF gfm_text_re_ast assms]) (intro rx_l_Alt_not_Nil rx_l_Eol_at_end)
  moreover have "exec breaks_text_re src \<noteq> None"
    by (rule lazy_text_found [OF breaks_text_re_ast assms]) (intro rx_l_Alt_not_Nil rx_l_Eol_at_end)
  ultimately show ?thesis
    by (simp add: inline_rules_of_def inline_normal_def inline_pedantic_def inline_gfm_def
        inline_breaks_def exec_rule_def)
qed

lemma inline_rule_total: "src \<noteq> [] \<Longrightarrow> inline_rule env src st \<noteq> None"
  unfolding inline_rule_def first_some_None_iff
  using itext_rule_found [of src "opts env"] by (auto simp: inline_rule_list_def itext_rule_def)

theorem output_loop_ok: "length src < n \<Longrightarrow> \<exists>out st'. output_loop n env src st = Inr (out, st')"
proof (induction n arbitrary: src st)
  case (Suc n)
  have sub: "\<exists>out st'. output_loop n env s st1 = Inr (out, st')"
    if "length s < length src \<or> (s = [] \<and> src \<noteq> [])" for s st1
    using Suc.IH [of s st1] that Suc.prems by (cases src) auto
  show ?case
  proof (cases "src = []")
    case False
    then obtain a where a: "inline_rule env src st = Some a" using inline_rule_total by fastforce
    note step = False a
    from inline_rule_ok [OF a] have ok: "inline_action_ok src a" .
    show ?thesis
    proof (cases a)
      case (IOut piece r st1)
      then obtain out st' where "output_loop n env r st1 = Inr (out, st')" using sub [of r st1] ok by auto
      then show ?thesis using step IOut by simp
    next
      case (IWrap wrap inner r)
      then have "length inner < length src \<or> (inner = [] \<and> src \<noteq> [])" "length r < length src" using ok False by auto
      then obtain body st1 out st' where "output_loop n env inner st = Inr (body, st1)"
        "output_loop n env r st1 = Inr (out, st')" using sub by metis
      then show ?thesis using step IWrap by simp
    next
      case (ILink m d r)
      then have len: "length (cap_str m 1) < length src \<or> (cap_str m 1 = [] \<and> src \<noteq> [])" "length r < length src"
        using ok False by auto
      let ?href = "escape (fst d) False" and ?title = "link_title d"
      show ?thesis
      proof (cases "take 1 (cap0 m) = ''!''")
        case True
        obtain piece cache where piece:
          "render_image (opts env) (baseUrls st) ?href ?title (escape (cap_str m 1) False) = (piece, cache)"
          by fastforce
        obtain out st' where "output_loop n env r (st\<lparr>baseUrls := cache, inLink := False\<rparr>) = Inr (out, st')"
          using sub len(2) by blast
        with piece True show ?thesis using step ILink by simp
      next
        case image: False
        obtain body st1 where body: "output_loop n env (cap_str m 1) (st\<lparr>inLink := True\<rparr>) = Inr (body, st1)"
          using sub [OF len(1)] by blast
        obtain piece st2 where piece: "put_link env ?href ?title body st1 = (piece, st2)" by fastforce
        obtain out st' where "output_loop n env r (st2\<lparr>inLink := False\<rparr>) = Inr (out, st')"
          using sub len(2) by blast
        with body piece image show ?thesis using step ILink by simp
      qed
    qed
  qed simp
qed simp

theorem inline_output_ok: "\<exists>out st'. inline_output env src st = Inr (out, st')"
  unfolding inline_output_def by (rule output_loop_ok) simp

end
