(* ===== verification/Marked_Parser.thy ===== *)
theory Marked_Parser
  imports Marked_InlineLexer
begin

text \<open>
  \<open>Parser\<close> of marked and the function \<open>marked\<close> itself (\<^verbatim>\<open>remark.js\<close>,
  module 3). The parser walks over the token list with \<open>next\<close> and \<open>peek\<close>; the loops inside
  \<open>tok\<close> read up to an end token and throw a \<open>TypeError\<close> when the tokens run out.
\<close>

subsection \<open>Parser\<close>

text \<open>\<open>parseText\<close>: the texts of the tokens that follow as long as they are text tokens, and the
  remaining tokens.\<close>

fun gather_text :: "string \<Rightarrow> mtoken list \<Rightarrow> string \<times> mtoken list" where
  "gather_text body (MText s # ts) = gather_text (body @ [NL] @ s) ts"
| "gather_text body ts = (body, ts)"

type_synonym pres = "merr + string \<times> mtoken list \<times> ist"

definition parseText :: "menv \<Rightarrow> string \<Rightarrow> mtoken list \<Rightarrow> ist \<Rightarrow> pres" where
  "parseText env s ts st =
     (let (body, ts1) = gather_text s ts
      in map_sum id (\<lambda>(out, st1). (out, ts1, st1)) (inline_output env body st))"

text \<open>The cells of a row, from left to right; a missing alignment is \<open>undefined\<close>.\<close>

fun table_cells :: "menv \<Rightarrow> bool \<Rightarrow> string option list \<Rightarrow> string list \<Rightarrow> ist \<Rightarrow> merr + string \<times> ist" where
  "table_cells env header aligns [] st = Inr ([], st)"
| "table_cells env header aligns (c # cs) st =
     (case inline_output env c st of
        Inl e \<Rightarrow> Inl e
      | Inr (body, st1) \<Rightarrow>
          map_sum id
            (map_prod (\<lambda>out. render_tablecell body header (case aligns of [] \<Rightarrow> None | a # _ \<Rightarrow> a) @ out) id)
            (table_cells env header (tl aligns) cs st1))"

fun table_rows :: "menv \<Rightarrow> string option list \<Rightarrow> string list list \<Rightarrow> ist \<Rightarrow> merr + string \<times> ist" where
  "table_rows env aligns [] st = Inr ([], st)"
| "table_rows env aligns (row # rows) st =
     (case table_cells env False aligns row st of
        Inl e \<Rightarrow> Inl e
      | Inr (cell, st1) \<Rightarrow>
          map_sum id (map_prod (\<lambda>out. render_tablerow cell @ out) id) (table_rows env aligns rows st1))"

text \<open>The tokens that need no further token: \<open>space\<close>, \<open>hr\<close>, \<open>heading\<close>,
  \<open>code\<close>, \<open>table\<close>, \<open>html\<close> and \<open>paragraph\<close>. A token that the switch does not
  know yields \<open>undefined\<close>, which is appended as text.\<close>

fun leaf_tok :: "menv \<Rightarrow> mtoken \<Rightarrow> ist \<Rightarrow> merr + string \<times> ist" where
  "leaf_tok env MSpace st = Inr ([], st)"
| "leaf_tok env MHr st = Inr (render_hr (opts env), st)"
| "leaf_tok env (MHeading depth s) st =
     map_sum id (map_prod (\<lambda>out. render_heading (opts env) out depth s) id) (inline_output env s st)"
| "leaf_tok env (MCode lan s escaped) st = Inr (render_code (opts env) s lan escaped, st)"
| "leaf_tok env (MTable header aligns rows) st =
     (case table_cells env True aligns header st of
        Inl e \<Rightarrow> Inl e
      | Inr (cell, st1) \<Rightarrow>
          map_sum id (map_prod (\<lambda>body. render_table (render_tablerow cell) body) id)
            (table_rows env aligns rows st1))"
| "leaf_tok env (MHtml pr s) st =
     (if \<not> pr \<and> \<not> pedantic (opts env) then map_sum id (map_prod render_html id) (inline_output env s st)
      else Inr (render_html s, st))"
| "leaf_tok env (MParagraph s) st = map_sum id (map_prod render_paragraph id) (inline_output env s st)"
| "leaf_tok env t st = Inr (''undefined'', st)"

text \<open>
  \<open>tok\<close> with the current token as an argument, and \<open>tok_until\<close>, the loop
  \<open>while (this.next().type !== end)\<close>; in the items of a tight list it reads text tokens with
  \<open>parseText\<close>. The first argument bounds the calls.
\<close>

fun tok :: "nat \<Rightarrow> menv \<Rightarrow> mtoken \<Rightarrow> mtoken list \<Rightarrow> ist \<Rightarrow> pres"
and tok_until :: "nat \<Rightarrow> menv \<Rightarrow> mtoken \<Rightarrow> bool \<Rightarrow> mtoken list \<Rightarrow> ist \<Rightarrow> pres"
where
  "tok n env MBlockquoteStart ts st =
     map_sum id (map_prod render_blockquote id) (tok_until n env MBlockquoteEnd False ts st)"
| "tok n env (MListStart ordered) ts st =
     map_sum id (map_prod (\<lambda>body. render_list body ordered) id) (tok_until n env MListEnd False ts st)"
| "tok n env MListItemStart ts st =
     map_sum id (map_prod render_listitem id) (tok_until n env MListItemEnd True ts st)"
| "tok n env MLooseItemStart ts st =
     map_sum id (map_prod render_listitem id) (tok_until n env MListItemEnd False ts st)"
| "tok n env (MText s) ts st = map_sum id (map_prod render_paragraph id) (parseText env s ts st)"
| "tok n env t ts st = map_sum id (\<lambda>(out, st1). (out, ts, st1)) (leaf_tok env t st)"
| "tok_until 0 env e tight ts st = Inl MOutOfFuel"
| "tok_until (Suc n) env e tight [] st = Inl MTypeError"
| "tok_until (Suc n) env e tight (t # ts) st =
     (if t = e then Inr ([], ts, st)
      else case (case (tight, t) of (True, MText s) \<Rightarrow> parseText env s ts st | _ \<Rightarrow> tok n env t ts st) of
          Inl err \<Rightarrow> Inl err
        | Inr (out, ts1, st1) \<Rightarrow> map_sum id (map_prod (\<lambda>body. out @ body) id) (tok_until n env e tight ts1 st1))"

text \<open>The loop of \<open>parse\<close>.\<close>

fun parse_loop :: "nat \<Rightarrow> menv \<Rightarrow> mtoken list \<Rightarrow> ist \<Rightarrow> merr + string \<times> ist" where
  "parse_loop 0 env ts st = Inl MOutOfFuel"
| "parse_loop (Suc n) env [] st = Inr ([], st)"
| "parse_loop (Suc n) env (t # ts) st =
     (case tok n env t ts st of
        Inl err \<Rightarrow> Inl err
      | Inr (out, ts1, st1) \<Rightarrow> map_sum id (map_prod (\<lambda>body. out @ body) id) (parse_loop n env ts1 st1))"

definition Parser_parse :: "menv \<Rightarrow> mtoken list \<Rightarrow> url_cache \<Rightarrow> nat \<Rightarrow> merr + string \<times> ist" where
  "Parser_parse env ts cache i = parse_loop (Suc (length ts)) env ts (new_InlineLexer cache i)"

subsection \<open>marked\<close>

text \<open>The messages of the errors, for the option \<open>silent\<close>; the text of a \<open>TypeError\<close> is the
  engine's and hence an argument.\<close>

fun err_message :: "string \<Rightarrow> merr \<Rightarrow> string" where
  "err_message tmsg (MInfiniteLoop b) = ''Infinite loop on byte: '' @ nat_str b"
| "err_message tmsg MTypeError = tmsg"
| "err_message tmsg MOutOfFuel = []"

definition marked :: "string \<Rightarrow> moptions \<Rightarrow> (nat \<Rightarrow> bool) \<Rightarrow> url_cache \<Rightarrow> nat \<Rightarrow> string \<Rightarrow> merr + string \<times> url_cache \<times> nat" where
  "marked tmsg opt choice cache i src =
     (case (case marked_lex opt src of
              Inl e \<Rightarrow> Inl e
            | Inr lx \<Rightarrow> Parser_parse \<lparr>opts = opt, random = choice, elinks = links lx\<rparr> (toks lx) cache i) of
        Inr (out, st) \<Rightarrow> Inr (out, baseUrls st, rnd st)
      | Inl e \<Rightarrow>
          if silent opt
          then Inr (''<p>An error occured:</p><pre>''
                 @ escape (err_message tmsg e @ [NL] @ ''Please report this to https://github.com/chjj/marked.'') True
                 @ ''</pre>'', cache, i)
          else Inl e)"

end
