(* ===== verification/Marked_Parser_Facts.thy ===== *)
theory Marked_Parser_Facts
  imports Marked_Parser
begin

text \<open>
  The specification of marked's parser is a compositional rendering of a forest of blocks. The
  parser computes it on the fringe of every forest, and since the block lexer returns fringes,
  \<open>marked\<close> returns for every source.
\<close>

subsection \<open>The compiled document as a rendering of blocks\<close>

definition out_of :: "menv \<Rightarrow> string \<Rightarrow> ist \<Rightarrow> string \<times> ist" where
  "out_of env s st = (case inline_output env s st of Inl e \<Rightarrow> ([], st) | Inr r \<Rightarrow> r)"

definition leaf_of :: "menv \<Rightarrow> mtoken \<Rightarrow> ist \<Rightarrow> string \<times> ist" where
  "leaf_of env t st = (case leaf_tok env t st of Inl e \<Rightarrow> ([], st) | Inr r \<Rightarrow> r)"

fun gather_leaves :: "string \<Rightarrow> block list \<Rightarrow> string \<times> block list" where
  "gather_leaves body (BLeaf (MText s) # bl) = gather_leaves (body @ [NL] @ s) bl"
| "gather_leaves body bl = (body, bl)"

lemma gather_leaves_size: "size_list size (snd (gather_leaves body bl)) \<le> size_list size bl"
  by (induction body bl rule: gather_leaves.induct) auto

definition chain :: "(ist \<Rightarrow> string \<times> ist) \<Rightarrow> (ist \<Rightarrow> string \<times> ist) \<Rightarrow> ist \<Rightarrow> string \<times> ist" where
  "chain f g st = (let (a, st1) = f st; (b, st2) = g st1 in (a @ b, st2))"

lemma chain_cong [fundef_cong]: "f = f' \<Longrightarrow> g = g' \<Longrightarrow> chain f g = chain f' g'"
  by simp

fun text_of :: "block \<Rightarrow> string option" where
  "text_of (BLeaf (MText s)) = Some s"
| "text_of b = None"

function render :: "menv \<Rightarrow> block \<Rightarrow> ist \<Rightarrow> string \<times> ist"
and render_blocks :: "menv \<Rightarrow> bool \<Rightarrow> block list \<Rightarrow> ist \<Rightarrow> string \<times> ist"
and render_items :: "menv \<Rightarrow> item list \<Rightarrow> ist \<Rightarrow> string \<times> ist"
where
  "render env (BLeaf t) = leaf_of env t"
| "render env (BQuote bl) = map_prod render_blockquote id \<circ> render_blocks env False bl"
| "render env (BList ordered its) = map_prod (\<lambda>body. render_list body ordered) id \<circ> render_items env its"
| "render_blocks env tight [] = Pair []"
| "render_blocks env tight (b # bl) =
     (case text_of b of
        Some s \<Rightarrow>
          chain (map_prod (if tight then id else render_paragraph) id \<circ> out_of env (fst (gather_leaves s bl)))
            (render_blocks env tight (snd (gather_leaves s bl)))
      | None \<Rightarrow> chain (render env b) (render_blocks env tight bl))"
| "render_items env [] = Pair []"
| "render_items env (Item loose bl # its) =
     chain (map_prod render_listitem id \<circ> render_blocks env (\<not> loose) bl) (render_items env its)"
  by pat_completeness auto
termination render
  by (relation "measure (\<lambda>x. case x of
      Inl (env, b) \<Rightarrow> size b
    | Inr (Inl (env, tight, bl)) \<Rightarrow> size_list size bl
    | Inr (Inr (env, its)) \<Rightarrow> size_list size its)")
    (auto intro: le_imp_less_Suc [OF order_trans [OF gather_leaves_size]])

declare render_blocks.simps(2) [simp del]

subsection \<open>The parser computes the rendering\<close>

lemma inline_output_out_of: "inline_output env s st = Inr (out_of env s st)"
  using inline_output_ok [of env s st] by (auto simp: out_of_def)

lemma table_cells_total: "\<exists>r. table_cells env header aligns cs st = Inr r"
proof (induction env header aligns cs st rule: table_cells.induct)
  case (2 env header aligns c cs st)
  obtain body st1 where "inline_output env c st = Inr (body, st1)"
    using inline_output_ok by blast
  with 2 show ?case by fastforce
qed simp

lemma table_rows_total: "\<exists>r. table_rows env aligns rows st = Inr r"
proof (induction env aligns rows st rule: table_rows.induct)
  case (2 env aligns row rows st)
  obtain cell st1 where "table_cells env False aligns row st = Inr (cell, st1)"
    using table_cells_total [of env False aligns row st] by auto
  with 2 show ?case by fastforce
qed simp

lemma leaf_tok_leaf_of: "leaf_tok env t st = Inr (leaf_of env t st)"
proof -
  have "\<exists>r. leaf_tok env t st = Inr r"
  proof (cases t)
    case (MTable header aligns rows)
    obtain cell st1 where "table_cells env True aligns header st = Inr (cell, st1)"
      using table_cells_total [of env True aligns header st] by auto
    with MTable table_rows_total [of env aligns rows st1] show ?thesis by auto
  qed (auto simp: inline_output_out_of)
  then show ?thesis by (auto simp: leaf_of_def)
qed

text \<open>Token lists that the parser reads after a forest: they do not start with a text token.\<close>

definition no_text :: "mtoken list \<Rightarrow> bool" where
  "no_text ts \<longleftrightarrow> (\<forall>s ts'. ts \<noteq> MText s # ts')"

lemma no_text_simps [simp]:
  "no_text []" "no_text (MBlockquoteEnd # ts)" "no_text (MListItemEnd # ts)" "no_text (MListEnd # ts)"
  by (auto simp: no_text_def)

lemma no_text_Cons: "no_text (t # ts) \<longleftrightarrow> (\<forall>s. t \<noteq> MText s)"
  by (auto simp: no_text_def)

lemma fringe_not_Nil [simp]: "fringe b \<noteq> []"
  by (cases b) auto

lemma gather_text_other: "no_text ts \<Longrightarrow> gather_text body ts = (body, ts)"
  by (cases "(body, ts)" rule: gather_text.cases) (auto simp: no_text_def)

lemma gather_fringes:
  "no_text rst \<Longrightarrow> gather_text body (fringes bl @ rst) =
     (fst (gather_leaves body bl), fringes (snd (gather_leaves body bl)) @ rst)"
proof (induction body bl rule: gather_leaves.induct)
  case (1 body s bl)
  then show ?case by simp
qed (simp_all add: gather_text_other no_text_Cons)

lemma gather_leaves_ok: "list_all block_ok bl \<Longrightarrow> list_all block_ok (snd (gather_leaves body bl))"
  by (induction body bl rule: gather_leaves.induct) auto

lemma gather_leaves_length: "length (fringes (snd (gather_leaves body bl))) \<le> length (fringes bl)"
  by (induction body bl rule: gather_leaves.induct) auto

lemma parseText_fringes:
  "no_text rst \<Longrightarrow> parseText env s (fringes bl @ rst) st =
     (case out_of env (fst (gather_leaves s bl)) st of
        (out, st1) \<Rightarrow> Inr (out, fringes (snd (gather_leaves s bl)) @ rst, st1))"
  by (simp add: parseText_def gather_fringes inline_output_out_of split: prod.splits)

text \<open>One block: \<open>tok\<close> reads its fringe and returns its rendering.\<close>

definition reads :: "nat \<Rightarrow> menv \<Rightarrow> block \<Rightarrow> bool" where
  "reads n env b \<longleftrightarrow> (\<forall>rst st. tok n env (hd (fringe b)) (tl (fringe b) @ rst) st =
     (case render env b st of (out, st1) \<Rightarrow> Inr (out, rst, st1)))"

text \<open>A forest up to an end token.\<close>

definition reads_until :: "nat \<Rightarrow> menv \<Rightarrow> mtoken \<Rightarrow> bool \<Rightarrow> block list \<Rightarrow> bool" where
  "reads_until n env e tight bl \<longleftrightarrow> (\<forall>rst st. tok_until n env e tight (fringes bl @ e # rst) st =
     (case render_blocks env tight bl st of (out, st1) \<Rightarrow> Inr (out, rst, st1)))"

definition is_text_leaf :: "block \<Rightarrow> bool" where
  "is_text_leaf b \<longleftrightarrow> (\<exists>s. b = BLeaf (MText s))"

lemma not_text_leaf: "\<not> is_text_leaf b \<Longrightarrow> text_of b = None"
  by (cases b rule: text_of.cases) (auto simp: is_text_leaf_def)

fun is_end :: "mtoken \<Rightarrow> bool" where
  "is_end MBlockquoteEnd = True"
| "is_end MListItemEnd = True"
| "is_end MListEnd = True"
| "is_end t = False"

lemma no_text_end: "is_end e \<Longrightarrow> no_text (e # ts)"
  by (cases e) auto

lemma fringe_hd_end: "block_ok b \<Longrightarrow> is_end e \<Longrightarrow> hd (fringe b) \<noteq> e"
  by (cases b; cases e) (auto split: mtoken.splits)

lemma fringe_hd_text: "block_ok b \<Longrightarrow> \<not> is_text_leaf b \<Longrightarrow> hd (fringe b) \<noteq> MText s"
  by (cases b) (auto simp: is_text_leaf_def)

lemma reads_leaf: "is_leaf t \<Longrightarrow> \<forall>s. t \<noteq> MText s \<Longrightarrow> reads n env (BLeaf t)"
  by (cases t) (auto simp: reads_def leaf_tok_leaf_of split: prod.splits)

lemma render_blocks_other:
  "\<not> is_text_leaf b \<Longrightarrow> render_blocks env tight (b # bl) = chain (render env b) (render_blocks env tight bl)"
  by (simp add: render_blocks.simps(2) not_text_leaf)

lemma reads_until_Cons:
  assumes "reads n env b" "reads_until n env e tight bl" "block_ok b" "\<not> is_text_leaf b" "is_end e"
  shows "reads_until (Suc n) env e tight (b # bl)"
proof -
  obtain t ts where f: "fringe b = t # ts" by (cases "fringe b") auto
  have t: "t \<noteq> e" "\<And>s. t \<noteq> MText s"
    using fringe_hd_end [OF assms(3,5)] fringe_hd_text [OF assms(3,4)] f by auto
  then have "(case (tight, t) of (True, MText s) \<Rightarrow> parseText env s us st | _ \<Rightarrow> tok n env t us st) = tok n env t us st"
    for us st by (auto split: bool.splits mtoken.splits)
  then show ?thesis
    using assms(1,2) f t(1)
    by (simp add: reads_until_def reads_def render_blocks_other [OF assms(4)] chain_def split: prod.splits)
qed

lemma reads_until_text:
  assumes "reads_until n env e tight (snd (gather_leaves s bl))" "is_end e"
  shows "reads_until (Suc n) env e tight (BLeaf (MText s) # bl)"
proof -
  have "MText s \<noteq> e" using assms(2) by auto
  then show ?thesis
    using assms(1) no_text_end [OF assms(2)]
    by (cases tight) (auto simp: reads_until_def render_blocks.simps(2) chain_def parseText_fringes split: prod.splits)
qed

definition reads_items :: "nat \<Rightarrow> menv \<Rightarrow> item list \<Rightarrow> bool" where
  "reads_items n env its \<longleftrightarrow> (\<forall>rst st.
     tok_until n env MListEnd False (concat (map item_fringe its) @ MListEnd # rst) st =
       (case render_items env its st of (out, st1) \<Rightarrow> Inr (out, rst, st1)))"

lemma reads_items_Cons:
  assumes "reads_until n env MListItemEnd (\<not> loose) bl" "reads_items n env its"
  shows "reads_items (Suc n) env (Item loose bl # its)"
  using assms by (cases loose) (simp_all add: reads_items_def reads_until_def chain_def case_prod_beta)

lemma reads_all:
  "block_ok b \<Longrightarrow> \<not> is_text_leaf b \<Longrightarrow> length (fringe b) \<le> n \<Longrightarrow> reads n env b"
  "list_all block_ok bl \<Longrightarrow> is_end e \<Longrightarrow> length (fringes bl) < n \<Longrightarrow> reads_until n env e tight bl"
  "list_all li_ok its \<Longrightarrow> length (concat (map item_fringe its)) < n \<Longrightarrow> reads_items n env its"
proof (induction env b and env tight bl and env its arbitrary: n and e n and n
    rule: render_render_blocks_render_items.induct)
  case (1 env t)
  then show ?case using reads_leaf [of t] by (auto simp: is_text_leaf_def)
next
  case (2 env bl)
  then have "reads_until n env MBlockquoteEnd False bl" by simp
  then show ?case by (auto simp: reads_def reads_until_def split: prod.splits)
next
  case (3 env ordered its)
  then have "reads_items n env its" by simp
  then show ?case by (auto simp: reads_def reads_items_def split: prod.splits)
next
  case (4 env tight)
  then show ?case by (cases n) (auto simp: reads_until_def)
next
  case (5 env tight b bl)
  obtain k where n: "n = Suc k" using "5.prems"(3) by (cases n) auto
  show ?case
  proof (cases "is_text_leaf b")
    case True
    then obtain s where b: "b = BLeaf (MText s)" by (auto simp: is_text_leaf_def)
    have "list_all block_ok (snd (gather_leaves s bl))" using "5.prems"(1) gather_leaves_ok by simp
    moreover have "length (fringes (snd (gather_leaves s bl))) < k"
      using "5.prems"(3) gather_leaves_length [of s bl] b n by simp
    ultimately have "reads_until k env e tight (snd (gather_leaves s bl))"
      using "5.IH"(3) b "5.prems"(2) by simp
    from reads_until_text [OF this "5.prems"(2)] show ?thesis using b n by simp
  next
    case False
    have len: "0 < length (fringe b)" unfolding length_greater_0_conv by (rule fringe_not_Nil)
    have "length (fringe b) + length (fringes bl) < Suc k" using "5.prems"(3) n by simp
    with len have "length (fringe b) \<le> k" "length (fringes bl) < k" by linarith+
    moreover have "block_ok b" "list_all block_ok bl" using "5.prems"(1) by simp_all
    ultimately have "reads k env b" "reads_until k env e tight bl"
      using "5.IH"(1,2) [OF not_text_leaf [OF False]] False "5.prems"(2) by simp_all
    then show ?thesis
      using reads_until_Cons [of k env b e tight bl] "5.prems" False n by simp
  qed
next
  case (6 env)
  then show ?case by (cases n) (auto simp: reads_items_def)
next
  case (7 env loose bl its)
  then obtain k where n: "n = Suc k" by (cases n) auto
  have "reads_until k env MListItemEnd (\<not> loose) bl" "reads_items k env its"
    using "7.IH" "7.prems" n by simp_all
  from reads_items_Cons [OF this] show ?case using n by simp
qed

theorem parse_loop_fringes:
  "list_all block_ok bl \<Longrightarrow> length (fringes bl) < n \<Longrightarrow>
     parse_loop n env (fringes bl) st = Inr (render_blocks env False bl st)"
proof (induction n arbitrary: bl st)
  case (Suc n)
  show ?case
  proof (cases bl)
    case Nil
    then show ?thesis by simp
  next
    case (Cons b bl')
    show ?thesis
    proof (cases "is_text_leaf b")
      case True
      then obtain s where b: "b = BLeaf (MText s)" by (auto simp: is_text_leaf_def)
      have "list_all block_ok (snd (gather_leaves s bl'))" using Suc.prems(1) Cons gather_leaves_ok by simp
      moreover have "length (fringes (snd (gather_leaves s bl'))) < n"
        using Suc.prems(2) gather_leaves_length [of s bl'] b Cons by simp
      ultimately show ?thesis
        using Suc.IH Cons b parseText_fringes [of "[]" env s bl' st]
        by (simp add: render_blocks.simps(2) chain_def case_prod_beta prod_eq_iff)
    next
      case False
      obtain t ts where f: "fringe b = t # ts" by (cases "fringe b") auto
      have "length (fringe b) \<le> n" "length (fringes bl') < n" using Suc.prems(2) Cons f by simp_all
      moreover have "block_ok b" "list_all block_ok bl'" using Suc.prems(1) Cons by simp_all
      ultimately have "reads n env b" "parse_loop n env (fringes bl') st' = Inr (render_blocks env False bl' st')" for st'
        using reads_all(1) False Suc.IH by blast+
      then show ?thesis
        using Cons f by (simp add: reads_def render_blocks_other [OF False] chain_def case_prod_beta prod_eq_iff)
    qed
  qed
qed simp

theorem Parser_parse_fringes:
  "list_all block_ok bl \<Longrightarrow>
     Parser_parse env (fringes bl) cache i = Inr (render_blocks env False bl (new_InlineLexer cache i))"
  unfolding Parser_parse_def by (rule parse_loop_fringes) simp_all

end
