(* ===== verification/Marked_Properties.thy ===== *)
theory Marked_Properties
  imports Marked_Parser_Facts
begin

text \<open>
  What marked guarantees: it returns for every source and computes the rendering of
  the block structure, the text it puts into the document is free of markup characters, mangled
  addresses decode to themselves, and the cache of base addresses does not change results.
\<close>

declare rx_l.simps(5) [simp del]

subsection \<open>Returning\<close>

text \<open>
  C5. The compiler \<open>marked\<close> returns a document for every source, with all options (also with
  \<open>smartLists\<close>, which puts list items back into the source): neither lexer reports an
  infinite loop and the parser never runs out of tokens. The tokens of the block lexer are the
  fringe of a forest of blocks, and the document is the compositional rendering of that forest.
\<close>

theorem marked_renders_blocks:
  "\<exists>lx bl out st.
     marked_lex opt src = Inr lx \<and> toks lx = fringes bl \<and> list_all block_ok bl \<and>
     render_blocks \<lparr>opts = opt, random = choice, elinks = links lx\<rparr> False bl (new_InlineLexer cache i) = (out, st) \<and>
     marked tmsg opt choice cache i src = Inr (out, baseUrls st, rnd st)"
proof -
  obtain lx bl where lx: "marked_lex opt src = Inr lx" "toks lx = fringes bl" "list_all block_ok bl"
    using marked_lex_blocks by blast
  obtain out st where "render_blocks \<lparr>opts = opt, random = choice, elinks = links lx\<rparr> False bl
      (new_InlineLexer cache i) = (out, st)" by fastforce
  with lx show ?thesis by (auto simp: marked_def Parser_parse_fringes)
qed

text \<open>
  C20. The inline compiler returns for every source, in every state: the text rule always
  matches, and every text it recurses into is shorter than the source.
\<close>

theorem inline_output_returns: "\<exists>out st'. inline_output env src st = Inr (out, st')"
  by (rule inline_output_ok)

subsection \<open>Escaping\<close>

lemma replace_all_keeps: "d \<notin> set s \<Longrightarrow> d \<notin> set new \<Longrightarrow> d \<notin> set (replace_all c new s)"
  by (auto simp: replace_all_def split: if_splits)

text \<open>
  C35. Escaped text holds no character that could open a tag or end an attribute, whether
  existing entities are kept or not.
\<close>

theorem escape_no_markup:
  "CHR ''<'' \<notin> set (escape s encode) \<and> CHR ''>'' \<notin> set (escape s encode) \<and>
   CHR 0x22 \<notin> set (escape s encode) \<and> CHR 0x27 \<notin> set (escape s encode)"
  unfolding escape_def by (intro conjI) (simp_all add: replace_all_keeps replace_all_gone)

subsection \<open>Base addresses\<close>

definition cache_ok :: "url_cache \<Rightarrow> bool" where
  "cache_ok cache \<longleftrightarrow> (\<forall>key b. cache key = Some b \<longrightarrow> (\<exists>base. key = CHR '' '' # base \<and> b = base_of base))"

text \<open>
  C36. The cache of base addresses is transparent: with any cache that earlier calls can have
  left, \<open>resolveUrl\<close> returns what it returns with an empty cache, and leaves such a cache.
\<close>

theorem resolveUrl_cache_transparent:
  assumes "cache_ok cache"
  shows "fst (resolveUrl cache base href) = fst (resolveUrl (\<lambda>_. None) base href) \<and>
    cache_ok (snd (resolveUrl cache base href))"
proof
  have "cache (CHR '' '' # base) = Some b \<Longrightarrow> b = base_of base" for b
    using assms by (auto simp: cache_ok_def)
  then show "fst (resolveUrl cache base href) = fst (resolveUrl (\<lambda>_. None) base href)"
    by (cases "cache (CHR '' '' # base)") (auto simp: resolveUrl_def Let_def truthy_def)
  show "cache_ok (snd (resolveUrl cache base href))"
    using assms by (auto simp: resolveUrl_def Let_def cache_ok_def)
qed

theorem resolveUrl_cache_transparent_witness:
  "fst (resolveUrl [CHR '' '' # ''http://a/b'' \<mapsto> ''http://a/''] ''http://a/b'' ''c'') = ''http://a/c''"
proof -
  have b: "base_of ''http://a/b'' = ''http://a/''" by code_simp
  have "cache_ok [CHR '' '' # ''http://a/b'' \<mapsto> ''http://a/'']"
    by (auto simp: cache_ok_def b split: if_splits)
  from resolveUrl_cache_transparent [OF this, of "''http://a/b''" "''c''"] show ?thesis
    by (simp add: resolveUrl_def b truthy_def)
qed

subsection \<open>Mangled addresses\<close>

lemma rx_l_Seq_hd: "rx_l f a s = t # ts \<Longrightarrow> rx_l f b t = u # us \<Longrightarrow> \<exists>vs. rx_l f (Seq a b) s = u # vs"
  by simp

lemma rx_l_Alt_fst: "rx_l f a s = t # ts \<Longrightarrow> \<exists>vs. rx_l f (Alt a b) s = t # vs"
  by simp

lemma rx_l_Alt_snd: "rx_l f a s = [] \<Longrightarrow> rx_l f (Alt a b) s = rx_l f b s"
  by simp

lemma rx_l_opt_class_hd:
  "rest s = c # cs \<Longrightarrow> cls_ok (ignoreCase f) neg items c \<Longrightarrow>
     \<exists>ts. rx_l f (Rep 0 (Some 1) True (Cls neg items)) s = advance 1 s # ts"
  by (subst rx_l_Rep) (simp add: rx_l_Rep [of f 0 "Some 0"] reset_caps_def pred_opt_def advance_def)

lemma takeWhile_stop: "(\<And>c. c \<in> set ds \<Longrightarrow> P c) \<Longrightarrow> \<not> P d \<Longrightarrow> takeWhile P (ds @ d # rst) = ds"
  by (induction ds) auto

abbreviation digit_ok :: "char \<Rightarrow> bool" where
  "digit_ok \<equiv> cls_ok True False [CDigit True]"

abbreviation hex_items :: "cls_item list" where
  "hex_items \<equiv> [CRange CHR ''0'' CHR ''9'', CRange CHR ''A'' CHR ''F'', CRange CHR ''a'' CHR ''f'']"

definition ent :: "string \<Rightarrow> string" where
  "ent body = CHR ''&'' # CHR ''#'' # body @ '';''"

lemma entity_re_flags: "flags entity_re = \<lparr>ignoreCase = True, multiline = False\<rparr>" "ngroups entity_re = 1"
  by (simp_all add: entity_re_ast)

text \<open>The match of an entity with a decimal or a hexadecimal number.\<close>

lemma entity_match:
  assumes "ds \<noteq> []" "(\<forall>c \<in> set ds. digit_ok c) \<and> body = ds \<or>
      (\<forall>c \<in> set ds. cls_ok True False hex_items c) \<and> body = CHR ''x'' # ds"
  shows "match_here entity_re p (ent body @ rst) =
    Some \<lparr>m_index = length p, m_caps = [Some (ent body), Some (CHR ''#'' # body)]\<rparr>"
proof -
  let ?f = "\<lparr>ignoreCase = True, multiline = False\<rparr>"
  let ?s = "\<lparr>pre = p, rest = ent body @ rst, rcaps = [None, None]\<rparr>"
  let ?s1 = "advance 1 ?s" and ?s2 = "advance 2 ?s"
  let ?A = "Seq (Cls False [CChar CHR ''#'']) (Rep 1 None True (Cls False [CDigit True]))"
  let ?B = "Seq (Cls False [CChar CHR ''#'']) (Seq (Cls False [CChar CHR ''x'']) (Rep 1 None True (Cls False hex_items)))"
  let ?t = "advance (length body) ?s2"
  have amp: "rx_l ?f (Cls False [CChar CHR ''&'']) ?s = [?s1]"
    by (simp add: ent_def cls_ok_def advance_def)
  have hash: "rx_l ?f (Cls False [CChar CHR ''#'']) ?s1 = [?s2]"
    by (simp add: ent_def cls_ok_def advance_def numeral_2_eq_2)
  have r2: "rest ?s2 = body @ CHR '';'' # rst" by (simp add: ent_def advance_def)
  note plus = rx_l_plus_class_hd [where f = ?f, unfolded rx_flags.select_convs]
  have semi: "\<not> digit_ok CHR '';''" "\<not> cls_ok True False hex_items CHR '';''" "\<not> digit_ok CHR ''x''"
    by code_simp+
  have body: "\<exists>ts. rx_l ?f (Alt ?A (Alt ?B r)) ?s1 = ?t # ts" for r
    using assms(2)
  proof
    assume ds: "(\<forall>c \<in> set ds. digit_ok c) \<and> body = ds"
    obtain c cs where c: "rest ?s2 = c # cs" "digit_ok c" using r2 ds assms(1) by (cases ds) auto
    have "takeWhile digit_ok (rest ?s2) = body"
      unfolding r2 by (rule takeWhile_stop) (use ds semi in auto)
    with plus [OF c] have "\<exists>ts. rx_l ?f (Rep 1 None True (Cls False [CDigit True])) ?s2 = ?t # ts"
      by (simp only:)
    then have "\<exists>ts. rx_l ?f ?A ?s1 = ?t # ts" using rx_l_Seq_hd [OF hash] by blast
    then show ?thesis using rx_l_Alt_fst by blast
  next
    assume ds: "(\<forall>c \<in> set ds. cls_ok True False hex_items c) \<and> body = CHR ''x'' # ds"
    let ?s3 = "advance 1 ?s2"
    have x: "rx_l ?f (Cls False [CChar CHR ''x'']) ?s2 = [?s3]"
      using r2 ds by (simp add: cls_ok_def advance_def)
    have r3: "rest ?s3 = ds @ CHR '';'' # rst" using r2 ds by (simp add: advance_def)
    obtain c cs where c: "rest ?s3 = c # cs" "cls_ok True False hex_items c"
      using r3 ds assms(1) by (cases ds) auto
    have "takeWhile (cls_ok True False hex_items) (rest ?s3) = ds"
      unfolding r3 by (rule takeWhile_stop) (use ds semi in auto)
    with plus [OF c]
    have "\<exists>ts. rx_l ?f (Rep 1 None True (Cls False hex_items)) ?s3 = advance (length ds) ?s3 # ts"
      by (simp only:)
    moreover have "advance (length ds) ?s3 = ?t"
      using ds r2 by (simp add: advance_Suc advance_def)
    ultimately have "\<exists>ts. rx_l ?f ?B ?s1 = ?t # ts"
      using rx_l_Seq_hd [OF hash] rx_l_Seq_hd [OF x] by metis
    then obtain ts where B: "rx_l ?f ?B ?s1 = ?t # ts" by blast
    have "rx_l ?f (Rep 1 None True (Cls False [CDigit True])) ?s2 = []"
      using r2 ds semi(3) by (subst rx_l_plus_class) simp
    then have "rx_l ?f ?A ?s1 = []" unfolding rx_l.simps(3) hash by simp
    then show ?thesis using rx_l_Alt_fst [OF B] by (simp only: rx_l_Alt_snd)
  qed
  let ?u = "set_group 1 (rest ?s1) ?t"
  have rt: "rest ?u = CHR '';'' # rst" using r2 by (simp add: advance_def)
  have "cls_ok True False [CChar CHR '';''] CHR '';''" by code_simp
  with rx_l_opt_class_hd [of ?u "CHR '';''" rst ?f False "[CChar CHR '';'']"] rt
  have "\<exists>ts. rx_l ?f (Rep 0 (Some 1) True (Cls False [CChar CHR '';''])) ?u = advance 1 ?u # ts" by simp
  then obtain ts where *: "rx_l ?f (Rep 0 (Some 1) True (Cls False [CChar CHR '';''])) ?u = advance 1 ?u # ts" by blast
  have "\<exists>ts. rx_l ?f (pat entity_re) ?s = advance 1 ?u # ts"
  proof -
    obtain us where "rx_l ?f (Alt ?A (Alt ?B (Rep 1 None True (Cls False [CWord True])))) ?s1 = ?t # us" using body by blast
    then have "rx_l ?f (Group 1 (Alt ?A (Alt ?B (Rep 1 None True (Cls False [CWord True]))))) ?s1 = ?u # map (set_group 1 (rest ?s1)) us"
      unfolding rx_l.simps(6) by (simp only: list.map)
    from rx_l_Seq_hd [OF amp] rx_l_Seq_hd [OF this *] show ?thesis unfolding entity_re_ast regexp.simps by blast
  qed
  moreover have "rest (advance 1 ?u) = rst" "rcaps (advance 1 ?u) = [None, Some (CHR ''#'' # body)]"
    using rt by (simp_all add: advance_def set_group_def ent_def)
  ultimately obtain v vs where "rx_l ?f (pat entity_re) ?s = v # vs" "rest v = rst"
    "rcaps v = [None, Some (CHR ''#'' # body)]" by blast
  then show ?thesis
    by (simp add: match_here_def rx_m_alts first_some_Some init_caps_def numeral_2_eq_2
        entity_re_flags del: One_nat_def)
qed

lemma code_hex_digit: "d < 16 \<Longrightarrow> code (hex_digit d) = (if d < 10 then 48 + d else 87 + d)"
  by (simp add: hex_digit_def code_digit_char)

lemma hex_digit_ok: "d < 16 \<Longrightarrow> cls_ok True False hex_items (hex_digit d)"
  by (simp add: cls_ok_def in_range_def code_hex_digit)

lemma hex_digit_val: "d < 16 \<Longrightarrow> hex_val (char_lower (hex_digit d)) = Some d"
  by (simp add: hex_val_def char_lower_def is_upper_def is_digit_def in_range_def code_hex_digit)

lemma hex_str_ok: "c \<in> set (hex_str n) \<Longrightarrow> cls_ok True False hex_items c"
proof (induction n rule: hex_str.induct)
  case (1 n)
  then show ?case
    by (subst (asm) (2) hex_str.simps) (auto simp: hex_digit_ok split: if_splits)
qed

lemma hex_str_not_Nil [simp]: "hex_str n \<noteq> []"
  by (subst hex_str.simps) simp

lemma hex_number_snoc:
  "hex_val c = Some d \<Longrightarrow> hex_number (xs @ [c]) = 16 * hex_number xs + d"
  by (simp add: hex_number_def)

lemma hex_number_str: "hex_number (toLowerCase (hex_str n)) = n"
proof (induction n rule: hex_str.induct)
  case (1 n)
  show ?case
  proof (cases "n < 16")
    case True
    then show ?thesis
      using hex_digit_val [of n] by (subst hex_str.simps) (simp add: toLowerCase_def hex_number_def)
  next
    case False
    with 1 hex_digit_val [of "n mod 16"] show ?thesis
      by (subst hex_str.simps) (simp add: toLowerCase_def hex_number_snoc)
  qed
qed

lemma fromCharCode_small: "n < 256 \<Longrightarrow> fromCharCode n = n"
  by (simp add: fromCharCode_def round_double_def shift_of.simps)

lemma lower_digit: "is_digit c \<Longrightarrow> char_lower c = c"
  by (auto simp: char_lower_def is_upper_def is_digit_def in_range_def)

lemma lower_nat_str: "toLowerCase (nat_str n) = nat_str n"
  unfolding toLowerCase_def by (rule map_idI) (rule lower_digit [OF nat_str_digits])

definition ent_body :: "bool \<Rightarrow> nat \<Rightarrow> string" where
  "ent_body b n = (if b then CHR ''x'' # hex_str n else nat_str n)"

lemma entity_value_body:
  assumes "n < 256"
  shows "entity_value (CHR ''#'' # ent_body b n) = [n]"
proof -
  have l: "char_lower CHR ''#'' = CHR ''#''" "char_lower CHR ''x'' = CHR ''x''" by code_simp+
  show ?thesis
  proof (cases b)
    case True
    then show ?thesis
      using hex_number_str [of n] assms l
      by (simp add: entity_value_def ent_body_def toLowerCase_def fromCharCode_small numeral_2_eq_2)
  next
    case False
    obtain c cs where c: "nat_str n = c # cs" by (cases "nat_str n") auto
    then have "c \<noteq> CHR ''x''" using hd_nat_str [OF c] by (auto simp: is_digit_def in_range_def)
    then show ?thesis
      using False lower_nat_str [of n] assms l c digits_val_nat_str [of n]
      by (simp add: entity_value_def ent_body_def toLowerCase_def fromCharCode_small)
  qed
qed

lemma digit_ok_digit: "is_digit c \<Longrightarrow> digit_ok c"
  by (simp add: cls_ok_def)

lemma mangle_chars_ent:
  "mangle_chars choice i (c # cs) = ent (ent_body (choice i) (code c)) @ mangle_chars choice (Suc i) cs"
  by (simp add: ent_def ent_body_def)

lemma unescape_mangled:
  "splice_units (p @ mangle_chars choice i s) (length p) (\<lambda>m. entity_value (cap_str m 1))
     (exec_all_from entity_re (p @ mangle_chars choice i s) (length p)) = map code s"
proof (induction s arbitrary: p i)
  case Nil
  have "match_here entity_re (rev p) [] = None"
    by (simp add: match_here_def entity_re_ast)
  then show ?case by (simp add: exec_all_from.simps exec_at_def)
next
  case (Cons c s)
  let ?body = "ent_body (choice i) (code c)" and ?rst = "mangle_chars choice (Suc i) s"
  let ?src = "p @ ent ?body @ ?rst"
  let ?m = "\<lparr>m_index = length p, m_caps = [Some (ent ?body), Some (CHR ''#'' # ?body)]\<rparr>"
  have "match_here entity_re (rev p) (ent ?body @ ?rst) = Some ?m"
  proof (cases "choice i")
    case True
    then show ?thesis
      using entity_match [of "hex_str (code c)" ?body "rev p" ?rst] hex_str_ok by (auto simp: ent_body_def)
  next
    case False
    then show ?thesis
      using entity_match [of "nat_str (code c)" ?body "rev p" ?rst] nat_str_digits digit_ok_digit
      by (auto simp: ent_body_def)
  qed
  then have m: "exec_at entity_re ?src (length p) = Some ?m"
    by (auto simp: exec_at_def ent_def)
  have cap: "cap0 ?m = ent ?body" "cap_str ?m 1 = CHR ''#'' # ?body"
    by (simp_all add: cap0_def cap_def get_cap_def cap_str_def)
  have nxt: "next_index ?m = length (p @ ent ?body)"
    unfolding next_index_def cap by (simp add: ent_def)
  have "code c < 256" by (rule nat_of_char_less_256)
  then show ?case
    using m Cons.IH [of "p @ ent ?body" "Suc i"]
    by (simp add: exec_all_from.simps [of _ _ "length p"] mangle_chars_ent cap cap [unfolded One_nat_def] nxt entity_value_body
        del: mangle_chars.simps)
qed

text \<open>
  C19. Mangled addresses: whatever the random choices are, the entities that \<open>mangle\<close> writes
  are decoded by \<open>unescape\<close> to the text that was mangled.
\<close>

theorem mangle_roundtrip:
  "unescape (fst (mangle (env\<lparr>opts := (opts env)\<lparr>mangle_opt := True\<rparr>\<rparr>) s st)) = map code s"
  using unescape_mangled [of "[]" "random env" "rnd st" s]
  by (simp add: mangle_def unescape_def exec_all_def)

subsection \<open>Lines that start with def\<close>

abbreviation tokens_of :: "string \<Rightarrow> merr + mtoken list" where
  "tokens_of src \<equiv> map_sum id toks (marked_lex remark_options src)"

text \<open>
  The name \<open>def\<close> is left as a literal word in two composed expressions: a line that starts
  with the letters \<^verbatim>\<open>def\<close> ends a paragraph and is not a continuation line of a block
  quote, unlike any other line.
\<close>

lemma def_line_interrupts:
  "tokens_of (''foo'' @ [NL] @ ''def bar'') = Inr [MParagraph ''foo'', MParagraph ''def bar''] \<and>
   tokens_of (''foo'' @ [NL] @ ''dev bar'') = Inr [MParagraph (''foo'' @ [NL] @ ''dev bar'')] \<and>
   tokens_of (''> a'' @ [NL] @ ''def'') =
     Inr [MBlockquoteStart, MParagraph ''a'', MBlockquoteEnd, MParagraph ''def''] \<and>
   tokens_of (''> a'' @ [NL] @ ''dev'') = Inr [MBlockquoteStart, MParagraph (''a'' @ [NL] @ ''dev''), MBlockquoteEnd]"
  by code_simp

end
