(* ===== verification/Hljs_Streams.thy ===== *)
theory Hljs_Streams
  imports Js_RegExp_Syntax Js_Regex_Facts
begin

text \<open>
  Stream merging of highlight.js (\<^verbatim>\<open>remark.js\<close>, module 15: \<open>escape\<close>, \<open>tag\<close>,
  \<open>nodeStream\<close>, \<open>mergeStreams\<close>): the markup a code block already has and the markup the
  highlighter produces for its text are laid over one another.

  A DOM node is a text node, an element with its name, its attributes and its children, or
  any other node (a comment), which the code skips. \<open>nodeStream\<close> lists the tags of a tree with
  the text offsets at which they stand; \<open>mergeStreams\<close> reads two such lists.

  The lemmas end in \<open>merge_loop_overlay\<close>: in the merged markup every character of the text
  stands inside its elements of the original markup and, within them, inside its elements of the
  highlighted markup, and every tag is closed by its own end tag.
\<close>

subsection \<open>Nodes\<close>

datatype dnode =
    DText string
  | DElem string "(string \<times> string) list" "dnode list"
  | DOther

fun tag :: "dnode \<Rightarrow> string" where
  "tag (DElem n as cs) = toLowerCase n"
| "tag (DText s) = ''#text''"
| "tag DOther = ''#comment''"

fun attributes :: "dnode \<Rightarrow> (string \<times> string) list" where
  "attributes (DElem n as cs) = as"
| "attributes _ = []"

definition hl_escape :: "string \<Rightarrow> string" where
  "hl_escape value =
     replace_all (CHR ''>'') ''&gt;'' (replace_all (CHR ''<'') ''&lt;'' (replace_all (CHR ''&'') ''&amp;'' value))"

definition void_re :: regexp where
  "void_re = re no_flags ''br|hr|img|input''"

definition is_void :: "dnode \<Rightarrow> bool" where
  "is_void n \<longleftrightarrow> test void_re (tag n)"

subsection \<open>nodeStream\<close>

datatype tag_event = Start | Stop

record hevent =
  event :: tag_event
  offset :: nat
  node :: dnode

fun nodeStream_from :: "dnode list \<Rightarrow> nat \<Rightarrow> hevent list \<times> nat" where
  "nodeStream_from [] off = ([], off)"
| "nodeStream_from (DText s # sibs) off = nodeStream_from sibs (off + length s)"
| "nodeStream_from (DElem n as cs # sibs) off =
     (let (inner, off1) = nodeStream_from cs off;
          stop = (if is_void (DElem n as cs) then []
                  else [\<lparr>event = Stop, offset = off1, node = DElem n as cs\<rparr>]);
          (later, off2) = nodeStream_from sibs off1
      in (\<lparr>event = Start, offset = off, node = DElem n as cs\<rparr> # inner @ stop @ later, off2))"
| "nodeStream_from (DOther # sibs) off = nodeStream_from sibs off"

definition nodeStream :: "dnode list \<Rightarrow> hevent list" where
  "nodeStream children = fst (nodeStream_from children 0)"

subsection \<open>mergeStreams\<close>

datatype which_stream = Original | Highlighted

text \<open>The two arrays are different objects, so the comparison \<open>stream === original\<close> asks which of
  the two was selected.\<close>

definition selectStream :: "hevent list \<Rightarrow> hevent list \<Rightarrow> which_stream" where
  "selectStream original highlighted =
     (if original = [] \<or> highlighted = [] then (if original \<noteq> [] then Original else Highlighted)
      else if offset (hd original) \<noteq> offset (hd highlighted)
        then (if offset (hd original) < offset (hd highlighted) then Original else Highlighted)
      else if event (hd highlighted) = Start then Original else Highlighted)"

definition attr_str :: "string \<times> string \<Rightarrow> string" where
  "attr_str a = '' '' @ fst a @ ''='' @ [CHR 0x22] @ replace_first [CHR 0x22] ''&quot;'' (hl_escape (snd a)) @ [CHR 0x22]"

definition open_tag :: "dnode \<Rightarrow> string" where
  "open_tag n = ''<'' @ tag n @ concat (map attr_str (attributes n)) @ ''>''"

definition close_tag :: "dnode \<Rightarrow> string" where
  "close_tag n = ''</'' @ tag n @ ''>''"

definition render_event :: "hevent \<Rightarrow> string" where
  "render_event e = (if event e = Start then open_tag (node e) else close_tag (node e))"

text \<open>\<open>value.substring(i, j)\<close> swaps its arguments when the first is the greater one.\<close>

definition substring :: "string \<Rightarrow> nat \<Rightarrow> nat \<Rightarrow> string" where
  "substring s i j = take (max i j - min i j) (drop (min i j) s)"

text \<open>The \<open>do ... while\<close> loop over the original tags at one offset: the text it appends to
  \<open>result\<close>, and what is left of \<open>original\<close>.\<close>

fun render_originals :: "hevent list \<Rightarrow> hevent list \<Rightarrow> nat \<Rightarrow> string \<times> hevent list" where
  "render_originals [] highlighted processed = ([], [])"
| "render_originals (e # original) highlighted processed =
     (if selectStream original highlighted = Original \<and> original \<noteq> [] \<and> offset (hd original) = processed
      then (let (s, original') = render_originals original highlighted processed
            in (render_event e @ s, original'))
      else (render_event e, original))"

lemma render_originals_length: "length (snd (render_originals es hs p)) \<le> length es - 1"
  by (induction es hs p rule: render_originals.induct) (auto split: prod.splits)

function merge_loop :: "hevent list \<Rightarrow> hevent list \<Rightarrow> string \<Rightarrow> nat \<Rightarrow> dnode list \<Rightarrow> string" where
  "merge_loop original highlighted value processed nodeStack =
     (if original = [] \<and> highlighted = [] then hl_escape (drop processed value)
      else (case selectStream original highlighted of
          Original \<Rightarrow>
            (let at = offset (hd original);
                 stack1 = rev nodeStack;
                 (s, original') = render_originals original highlighted at;
                 stack2 = rev stack1
             in hl_escape (substring value processed at) @ concat (map close_tag stack1) @ s @
                concat (map open_tag stack2) @ merge_loop original' highlighted value at stack2)
        | Highlighted \<Rightarrow>
            (let e = hd highlighted;
                 stack1 = (if event e = Start then nodeStack @ [node e] else butlast nodeStack)
             in hl_escape (substring value processed (offset e)) @ render_event e @
                merge_loop original (tl highlighted) value (offset e) stack1)))"
  by pat_completeness auto
termination
proof (relation "measure (\<lambda>(original, highlighted, _). length original + length highlighted)",
    goal_cases)
  case (2 original highlighted val processed nodeStack at stack1 p s original' stack2)
  then have "original \<noteq> []"
    by (auto simp: selectStream_def split: if_splits)
  moreover have "original' = snd (render_originals original highlighted at)"
    using 2(5,6) by (metis snd_conv)
  ultimately show ?case
    using render_originals_length [of original highlighted at] by (cases original) (auto simp: less_eq_Suc_le)
next
  case (3 original highlighted val processed nodeStack e stack1)
  then have "highlighted \<noteq> []"
    by (auto simp: selectStream_def split: if_splits)
  then show ?case by simp
qed simp

declare merge_loop.simps [simp del]

definition mergeStreams :: "hevent list \<Rightarrow> hevent list \<Rightarrow> string \<Rightarrow> string" where
  "mergeStreams original highlighted value = merge_loop original highlighted value 0 []"

subsection \<open>What merging promises\<close>

text \<open>Markup as a list of pieces. \<open>spread\<close> reads it with the stack of open elements: each
  character with the elements around it, innermost first, and the elements left open; \<open>None\<close>
  when an end tag does not close the innermost open element.\<close>

datatype piece = Open dnode | Close dnode | Chars string

primrec piece_str :: "piece \<Rightarrow> string" where
  "piece_str (Open n) = open_tag n"
| "piece_str (Close n) = close_tag n"
| "piece_str (Chars s) = hl_escape s"

definition pieces_str :: "piece list \<Rightarrow> string" where
  "pieces_str ps = concat (map piece_str ps)"

definition inside :: "dnode list \<Rightarrow> string \<Rightarrow> (char \<times> dnode list) list" where
  "inside st s = map (\<lambda>c. (c, st)) s"

fun spread :: "dnode list \<Rightarrow> piece list \<Rightarrow> ((char \<times> dnode list) list \<times> dnode list) option" where
  "spread st [] = Some ([], st)"
| "spread st (Chars s # ps) = map_option (apfst ((@) (inside st s))) (spread st ps)"
| "spread st (Open n # ps) = spread (if is_void n then st else n # st) ps"
| "spread st (Close n # ps) = (if st \<noteq> [] \<and> hd st = n then spread (tl st) ps else None)"

text \<open>The same reading of a DOM tree.\<close>

fun placed :: "dnode list \<Rightarrow> dnode list \<Rightarrow> (char \<times> dnode list) list" where
  "placed st [] = []"
| "placed st (DText s # sibs) = inside st s @ placed st sibs"
| "placed st (DElem n as cs # sibs) = placed (DElem n as cs # st) cs @ placed st sibs"
| "placed st (DOther # sibs) = placed st sibs"

definition textContent :: "dnode list \<Rightarrow> string" where
  "textContent ns = map fst (placed [] ns)"

fun voids_empty :: "dnode list \<Rightarrow> bool" where
  "voids_empty [] = True"
| "voids_empty (DElem n as cs # sibs) =
     ((is_void (DElem n as cs) \<longrightarrow> cs = []) \<and> voids_empty cs \<and> voids_empty sibs)"
| "voids_empty (_ # sibs) = voids_empty sibs"

fun no_voids :: "dnode list \<Rightarrow> bool" where
  "no_voids [] = True"
| "no_voids (DElem n as cs # sibs) = (\<not> is_void (DElem n as cs) \<and> no_voids cs \<and> no_voids sibs)"
| "no_voids (_ # sibs) = no_voids sibs"

definition overlay :: "(char \<times> dnode list) list \<Rightarrow> (char \<times> dnode list) list \<Rightarrow> (char \<times> dnode list) list" where
  "overlay = map2 (\<lambda>(c, p) (d, q). (c, q @ p))"

subsection \<open>Event lists\<close>

definition step :: "hevent \<Rightarrow> dnode list \<Rightarrow> dnode list" where
  "step e st = (if event e = Start then (if is_void (node e) then st else node e # st) else tl st)"

fun walk :: "dnode list \<Rightarrow> hevent list \<Rightarrow> dnode list option" where
  "walk st [] = Some st"
| "walk st (e # es) =
     (if event e = Stop \<and> (st = [] \<or> hd st \<noteq> node e) then None else walk (step e st) es)"

fun stack_at :: "hevent list \<Rightarrow> dnode list \<Rightarrow> nat \<Rightarrow> dnode list" where
  "stack_at [] st i = st"
| "stack_at (e # es) st i = (if offset e \<le> i then stack_at es (step e st) i else st)"

lemma walk_append: "walk st (es @ fs) = Option.bind (walk st es) (\<lambda>st'. walk st' fs)"
  by (induction es arbitrary: st) auto

lemma stack_at_early: "\<forall>e\<in>set es. i < offset e \<Longrightarrow> stack_at es st i = st"
  by (cases es) auto

lemma upt_split_at: "[i..<i + (m + n)] = [i..<i + m] @ [i + m..<i + m + n]"
  by (metis add.assoc le_add1 upt_add_eq_append)

lemma stack_at_append_early:
  "\<forall>e\<in>set fs. i < offset e \<Longrightarrow> stack_at (es @ fs) st i = stack_at es st i"
  by (induction es arbitrary: st) (simp_all add: stack_at_early)

lemma stack_at_passed:
  "\<forall>e\<in>set es. offset e \<le> i \<Longrightarrow> walk st es = Some st' \<Longrightarrow>
    stack_at (es @ fs) st i = stack_at fs st' i"
proof (induction es arbitrary: st)
  case (Cons e es)
  then have "walk (step e st) es = Some st'" by (simp split: if_splits)
  with Cons show ?case by simp
qed simp

lemma placed_Cons: "placed st (n # sibs) = placed st [n] @ placed st sibs"
  by (cases n) auto

lemma map_fst_placed: "map fst (placed st ns) = map fst (placed st' ns)"
proof (induction st ns arbitrary: st' rule: placed.induct)
  case (3 st n as cs sibs)
  show ?case
    using 3(1) [of "DElem n as cs # st'"] 3(2) [of st'] by simp
qed (auto simp: inside_def comp_def)

lemma length_placed: "length (placed st ns) = length (textContent ns)"
  unfolding textContent_def using map_fst_placed [of st ns "[]"] by (metis length_map)

lemma textContent_simps [simp]:
  "textContent [] = []"
  "textContent (DText s # sibs) = s @ textContent sibs"
  "textContent (DElem n as cs # sibs) = textContent cs @ textContent sibs"
  "textContent (DOther # sibs) = textContent sibs"
  by (auto simp: textContent_def inside_def comp_def map_fst_placed [of "[DElem n as cs]" cs "[]"])

lemma nodeStream_from_end: "snd (nodeStream_from ns off) = off + length (textContent ns)"
  by (induction ns off rule: nodeStream_from.induct) (auto split: prod.splits)

lemma nodeStream_from_offsets:
  "e \<in> set (fst (nodeStream_from ns off)) \<Longrightarrow> off \<le> offset e \<and> offset e \<le> off + length (textContent ns)"
proof (induction ns off rule: nodeStream_from.induct)
  case (3 n as cs sibs off)
  have "snd (nodeStream_from cs off) = off + length (textContent cs)"
    by (rule nodeStream_from_end)
  with 3 show ?case
    by (fastforce split: prod.splits if_splits)
qed auto

lemma nodeStream_from_sorted: "sorted (map offset (fst (nodeStream_from ns off)))"
proof (induction ns off rule: nodeStream_from.induct)
  case (3 n as cs sibs off)
  obtain inner off1 where inner: "nodeStream_from cs off = (inner, off1)" by fastforce
  obtain later off2 where later: "nodeStream_from sibs off1 = (later, off2)" by fastforce
  have off1: "off1 = off + length (textContent cs)"
    using nodeStream_from_end [of cs off] inner by simp
  have "off \<le> offset e \<and> offset e \<le> off1" if "e \<in> set inner" for e
    using nodeStream_from_offsets [of e cs off] that inner off1 by simp
  moreover have "off1 \<le> offset e" if "e \<in> set later" for e
    using nodeStream_from_offsets [of e sibs off1] that later by simp
  moreover have "sorted (map offset inner)" "sorted (map offset later)"
    using 3 inner later by simp_all
  ultimately show ?case
    using inner later off1 by (fastforce simp: sorted_append)
qed auto

lemma nodeStream_from_walk: "voids_empty ns \<Longrightarrow> walk st (fst (nodeStream_from ns off)) = Some st"
proof (induction ns off arbitrary: st rule: nodeStream_from.induct)
  case (3 n as cs sibs off)
  obtain inner off1 where inner: "nodeStream_from cs off = (inner, off1)" by fastforce
  obtain later off2 where later: "nodeStream_from sibs off1 = (later, off2)" by fastforce
  have 1: "walk (DElem n as cs # st) inner = Some (DElem n as cs # st)" "walk st inner = Some st"
    using 3(1) 3(3) inner by simp_all
  have 2: "walk st later = Some st"
    using 3(2) [OF inner [symmetric] refl refl] 3(3) later by simp
  show ?case
    using 1 2 inner later 3(3) by (auto simp: walk_append step_def)
qed simp_all

text \<open>The stack of open elements at a position is the path of the character there.\<close>

lemma nodeStream_from_placed:
  "voids_empty ns \<Longrightarrow>
    map (stack_at (fst (nodeStream_from ns off)) st) [off..<off + length (textContent ns)] =
    map snd (placed st ns)"
proof (induction ns off arbitrary: st rule: nodeStream_from.induct)
  case (2 s sibs off)
  let ?es = "fst (nodeStream_from sibs (off + length s))"
  have early: "stack_at ?es st i = st" if "i < off + length s" for i
    using nodeStream_from_offsets [of _ sibs "off + length s"] that
    by (intro stack_at_early) (auto intro: less_le_trans)
  have "[off..<off + length (textContent (DText s # sibs))] =
      [off..<off + length s] @ [off + length s..<(off + length s) + length (textContent sibs)]"
    by (simp add: upt_split_at)
  moreover have "map (stack_at ?es st) [off..<off + length s] = map snd (inside st s)"
    using early by (intro nth_equalityI) (simp_all add: inside_def)
  ultimately show ?case
    using 2 by simp
next
  case (3 n as cs sibs off)
  let ?e = "DElem n as cs"
  obtain inner off1 where inner: "nodeStream_from cs off = (inner, off1)" by fastforce
  obtain later off2 where later: "nodeStream_from sibs off1 = (later, off2)" by fastforce
  define stop where "stop = (if is_void ?e then [] else [\<lparr>event = Stop, offset = off1, node = ?e\<rparr>])"
  define es where "es = \<lparr>event = Start, offset = off, node = ?e\<rparr> # inner @ stop @ later"
  have off1: "off1 = off + length (textContent cs)"
    using nodeStream_from_end [of cs off] inner by simp
  from 3(3) have empty: "is_void ?e \<longrightarrow> cs = []" and ve: "voids_empty cs" "voids_empty sibs"
    by simp_all
  have in1: "off \<le> offset e \<and> offset e \<le> off1" if "e \<in> set inner" for e
    using nodeStream_from_offsets [of e cs off] that inner off1 by simp
  have in2: "off1 \<le> offset e" if "e \<in> set (stop @ later)" for e
    using nodeStream_from_offsets [of e sibs off1] that later by (auto simp: stop_def split: if_splits)
  have first: "stack_at es st i = stack_at inner (?e # st) i" if "off \<le> i" "i < off1" for i
  proof -
    have "\<not> is_void ?e" using that off1 empty by auto
    then have "stack_at es st i = stack_at (inner @ stop @ later) (?e # st) i"
      using that by (simp add: es_def step_def)
    also have "\<dots> = stack_at inner (?e # st) i"
      using in2 that(2) by (intro stack_at_append_early) (auto intro: less_le_trans)
    finally show ?thesis .
  qed
  have second: "stack_at es st i = stack_at later st i" if "off1 \<le> i" for i
  proof -
    have "walk st (\<lparr>event = Start, offset = off, node = ?e\<rparr> # inner @ stop) = Some st"
      using nodeStream_from_walk [OF ve(1), of _ off] inner empty
      by (auto simp: walk_append step_def stop_def)
    moreover have "\<forall>e\<in>set (\<lparr>event = Start, offset = off, node = ?e\<rparr> # inner @ stop). offset e \<le> i"
      using in1 \<open>off1 \<le> i\<close> off1 by (force simp: stop_def split: if_splits)
    ultimately show ?thesis
      using stack_at_passed [of "\<lparr>event = Start, offset = off, node = ?e\<rparr> # inner @ stop" i st st later]
      by (simp add: es_def)
  qed
  have "map (stack_at es st) [off..<off1] = map (stack_at inner (?e # st)) [off..<off1]"
    using first by (intro map_cong) auto
  also have "\<dots> = map snd (placed (?e # st) cs)"
    using 3(1) [OF ve(1), of "?e # st"] inner off1 by simp
  finally have part1: "map (stack_at es st) [off..<off1] = map snd (placed (?e # st) cs)" .
  have "map (stack_at es st) [off1..<off1 + length (textContent sibs)] =
      map (stack_at later st) [off1..<off1 + length (textContent sibs)]"
    using second by (intro map_cong) auto
  also have "\<dots> = map snd (placed st sibs)"
    using 3(2) [OF inner [symmetric] refl refl ve(2), of st] later by simp
  finally have part2: "map (stack_at es st) [off1..<off1 + length (textContent sibs)] = map snd (placed st sibs)" .
  have "[off..<off + length (textContent (?e # sibs))] =
      [off..<off1] @ [off1..<off1 + length (textContent sibs)]"
    using off1 by (simp add: upt_split_at)
  moreover have "fst (nodeStream_from (?e # sibs) off) = es"
    using inner later by (simp add: es_def stop_def)
  ultimately show ?case
    by (simp add: part1 part2)
qed auto

subsection \<open>The merged pieces\<close>

lemma pieces_str_simps [simp]:
  "pieces_str [] = []"
  "pieces_str (p # ps) = piece_str p @ pieces_str ps"
  "pieces_str (ps @ qs) = pieces_str ps @ pieces_str qs"
  "pieces_str (map Close ns) = concat (map close_tag ns)"
  "pieces_str (map Open ns) = concat (map open_tag ns)"
  by (simp_all add: pieces_str_def comp_def)

lemma spread_append:
  "spread st ps = Some (cs, st') \<Longrightarrow> spread st (ps @ qs) = map_option (apfst ((@) cs)) (spread st' qs)"
proof (induction st ps arbitrary: cs rule: spread.induct)
  case (2 st s ps)
  then obtain ds where "spread st ps = Some (ds, st')" "cs = inside st s @ ds" by auto
  with 2 show ?case by (cases "spread st' qs") (auto simp: apfst_def)
next
  case (1 st)
  then show ?case by (cases "spread st qs") auto
qed (auto split: if_splits)

definition opens :: "piece list \<Rightarrow> dnode set" where
  "opens ps = {n. Open n \<in> set ps}"

lemma opens_simps [simp]:
  "opens [] = {}" "opens (Open n # ps) = insert n (opens ps)" "opens (Close n # ps) = opens ps"
  "opens (Chars s # ps) = opens ps" "opens (ps @ qs) = opens ps \<union> opens qs"
  "opens (map Close ns) = {}" "opens (map Open ns) = set ns"
  by (auto simp: opens_def)

definition event_piece :: "hevent \<Rightarrow> piece" where
  "event_piece e = (if event e = Start then Open (node e) else Close (node e))"

lemma piece_str_event [simp]: "piece_str (event_piece e) = render_event e"
  by (simp add: event_piece_def render_event_def)

lemma opens_event: "opens (event_piece e # ps) \<subseteq> insert (node e) (opens ps)"
  by (auto simp: event_piece_def)

lemma spread_event:
  "walk st (e # es) = Some st' \<Longrightarrow> spread st (event_piece e # ps) = spread (step e st) ps"
  by (cases "event e") (auto simp: event_piece_def step_def split: if_splits)

lemma walk_Cons: "walk st (e # es) = Some st' \<Longrightarrow> walk (step e st) es = Some st'"
  by (simp split: if_splits)

lemma spread_closes: "spread (ns @ st) (map Close ns @ ps) = spread st ps"
  by (induction ns) auto

lemma spread_opens:
  "\<forall>n\<in>set ns. \<not> is_void n \<Longrightarrow> spread st (map Open ns @ ps) = spread (rev ns @ st) ps"
  by (induction ns arbitrary: st) auto

text \<open>The original tags at one offset.\<close>

lemma render_originals_pieces:
  assumes "es \<noteq> []" "walk st es = Some st'" "offset (hd es) = at" "sorted (map offset es)"
  shows "\<exists>ps st1. fst (render_originals es hs at) = pieces_str ps \<and>
     (\<forall>qs. spread st (ps @ qs) = spread st1 qs) \<and>
     walk st1 (snd (render_originals es hs at)) = Some st' \<and>
     sorted (map offset (snd (render_originals es hs at))) \<and>
     set (snd (render_originals es hs at)) \<subseteq> set es \<and>
     (\<forall>i\<ge>at. stack_at es st i = stack_at (snd (render_originals es hs at)) st1 i) \<and>
     opens ps \<subseteq> node ` set es"
  using assms
proof (induction es hs at arbitrary: st rule: render_originals.induct)
  case (2 e original highlighted processed)
  note w = walk_Cons [OF 2(3)]
  show ?case
  proof (cases "selectStream original highlighted = Original \<and> original \<noteq> [] \<and> offset (hd original) = processed")
    case True
    obtain ps st1 where ps: "fst (render_originals original highlighted processed) = pieces_str ps"
      "\<forall>qs. spread (step e st) (ps @ qs) = spread st1 qs"
      "walk st1 (snd (render_originals original highlighted processed)) = Some st'"
      "sorted (map offset (snd (render_originals original highlighted processed)))"
      "set (snd (render_originals original highlighted processed)) \<subseteq> set original"
      "\<forall>i\<ge>processed. stack_at original (step e st) i =
         stack_at (snd (render_originals original highlighted processed)) st1 i"
      "opens ps \<subseteq> node ` set original"
      using 2(1) [OF True, of "step e st"] True w 2(5) by auto
    show ?thesis
      using ps 2(4) spread_event [OF 2(3)] True opens_event [of e ps]
      by (intro exI [of _ "event_piece e # ps"] exI [of _ st1]) (auto split: prod.splits)
  next
    case False
    then show ?thesis
      using w 2(4) 2(5) spread_event [OF 2(3)] opens_event [of e "[]"]
      by (intro exI [of _ "[event_piece e]"] exI [of _ "step e st"]) auto
  qed
qed simp

lemma selectStream_Original:
  "selectStream original highlighted = Original \<Longrightarrow> sorted (map offset original) \<Longrightarrow>
    sorted (map offset highlighted) \<Longrightarrow>
    original \<noteq> [] \<and> (\<forall>e\<in>set original \<union> set highlighted. offset (hd original) \<le> offset e)"
  by (cases original; cases highlighted) (auto simp: selectStream_def split: if_splits)

lemma selectStream_Highlighted:
  "selectStream original highlighted = Highlighted \<Longrightarrow> original \<noteq> [] \<or> highlighted \<noteq> [] \<Longrightarrow>
    sorted (map offset original) \<Longrightarrow> sorted (map offset highlighted) \<Longrightarrow>
    highlighted \<noteq> [] \<and> (\<forall>e\<in>set original \<union> set highlighted. offset (hd highlighted) \<le> offset e)"
  by (cases original; cases highlighted) (auto simp: selectStream_def split: if_splits)

lemma inside_substring:
  "i \<le> j \<Longrightarrow> j \<le> length s \<Longrightarrow> inside st (substring s i j) = map (\<lambda>k. (s ! k, st)) [i..<j]"
  by (intro nth_equalityI) (auto simp: inside_def substring_def)

lemma inside_drop: "inside st (drop i s) = map (\<lambda>k. (s ! k, st)) [i..<length s]"
  by (intro nth_equalityI) (auto simp: inside_def)

definition merged :: "hevent list \<Rightarrow> dnode list \<Rightarrow> hevent list \<Rightarrow> dnode list \<Rightarrow> string \<Rightarrow> nat \<Rightarrow> char \<times> dnode list" where
  "merged original os highlighted hs s i = (s ! i, stack_at highlighted hs i @ stack_at original os i)"

lemma merged_upto:
  assumes "i \<le> at" "at \<le> length s" "\<forall>e\<in>set original \<union> set highlighted. at \<le> offset e"
    and "\<forall>j\<ge>at. merged original os highlighted hs s j = merged original' os' highlighted' hs' s j"
  shows "map (merged original os highlighted hs s) [i..<length s] =
    inside (hs @ os) (substring s i at) @ map (merged original' os' highlighted' hs' s) [at..<length s]"
proof -
  have early: "stack_at original os j = os" "stack_at highlighted hs j = hs" if "j < at" for j
    using assms(3) that by (auto intro!: stack_at_early intro: less_le_trans)
  have "[i..<length s] = [i..<at] @ [at..<length s]"
    using assms(1,2) by (metis le_add_diff_inverse upt_add_eq_append)
  moreover have "map (merged original os highlighted hs s) [i..<at] = inside (hs @ os) (substring s i at)"
    using assms(1,2) early by (simp add: inside_substring merged_def)
  moreover have "map (merged original os highlighted hs s) [at..<length s] =
      map (merged original' os' highlighted' hs' s) [at..<length s]"
    using assms(4) by (intro map_cong) auto
  ultimately show ?thesis by simp
qed

definition merge_inv :: "hevent list \<Rightarrow> dnode list \<Rightarrow> hevent list \<Rightarrow> dnode list \<Rightarrow> string \<Rightarrow> nat \<Rightarrow> bool" where
  "merge_inv original os highlighted hs s i \<longleftrightarrow>
     walk os original = Some [] \<and> walk hs highlighted = Some [] \<and>
     sorted (map offset original) \<and> sorted (map offset highlighted) \<and>
     (\<forall>e\<in>set original \<union> set highlighted. i \<le> offset e \<and> offset e \<le> length s) \<and>
     (\<forall>e\<in>set highlighted. \<not> is_void (node e)) \<and> (\<forall>n\<in>set hs. \<not> is_void n)"

definition overlaid :: "hevent list \<Rightarrow> dnode list \<Rightarrow> hevent list \<Rightarrow> dnode list \<Rightarrow> string \<Rightarrow> nat \<Rightarrow> bool" where
  "overlaid original os highlighted nodeStack s i \<longleftrightarrow>
     (\<exists>ps. merge_loop original highlighted s i nodeStack = pieces_str ps \<and>
       spread (rev nodeStack @ os) ps =
         Some (map (merged original os highlighted (rev nodeStack) s) [i..<length s], []) \<and>
       opens ps \<subseteq> node ` (set original \<union> set highlighted) \<union> set nodeStack)"

lemma merge_inv_highlighted:
  assumes "merge_inv original os (e # es) hs s i" "\<forall>e'\<in>set original \<union> set es. offset e \<le> offset e'"
  shows "merge_inv original os es (step e hs) s (offset e)"
proof -
  have "walk (step e hs) es = Some []"
    using assms(1) walk_Cons unfolding merge_inv_def by blast
  moreover have "\<forall>n\<in>set (step e hs). \<not> is_void n"
    using assms(1) by (cases hs) (auto simp: merge_inv_def step_def split: if_splits)
  ultimately show ?thesis
    using assms by (auto simp: merge_inv_def)
qed

lemma overlaid_original:
  fixes original highlighted
  defines "at \<equiv> offset (hd original)"
  defines "original' \<equiv> snd (render_originals original highlighted at)"
  assumes sel: "selectStream original highlighted = Original"
    and inv: "merge_inv original os highlighted (rev nodeStack) s i"
    and IH: "\<And>os1. merge_inv original' os1 highlighted (rev nodeStack) s at \<Longrightarrow>
      overlaid original' os1 highlighted nodeStack s at"
  shows "overlaid original os highlighted nodeStack s i"
proof -
  note inv = inv [unfolded merge_inv_def]
  have least: "original \<noteq> []" "\<forall>e\<in>set original \<union> set highlighted. at \<le> offset e"
    using selectStream_Original [OF sel] inv unfolding at_def by blast+
  have bounds: "i \<le> at" "at \<le> length s"
    using inv least(1) unfolding at_def by auto
  obtain ps1 os1 where r: "fst (render_originals original highlighted at) = pieces_str ps1"
    "\<forall>qs. spread os (ps1 @ qs) = spread os1 qs" "walk os1 original' = Some []"
    "sorted (map offset original')" "set original' \<subseteq> set original"
    "\<forall>j\<ge>at. stack_at original os j = stack_at original' os1 j" "opens ps1 \<subseteq> node ` set original"
    using render_originals_pieces [of original os "[]" at highlighted] inv least(1)
    unfolding original'_def at_def by blast
  have "merge_inv original' os1 highlighted (rev nodeStack) s at"
    using inv r least(2) bounds unfolding merge_inv_def by blast
  then obtain ps2 where ps2: "merge_loop original' highlighted s at nodeStack = pieces_str ps2"
    "spread (rev nodeStack @ os1) ps2 =
      Some (map (merged original' os1 highlighted (rev nodeStack) s) [at..<length s], [])"
    "opens ps2 \<subseteq> node ` (set original' \<union> set highlighted) \<union> set nodeStack"
    using IH unfolding overlaid_def by blast
  let ?ps = "Chars (substring s i at) # map Close (rev nodeStack) @ ps1 @ map Open nodeStack @ ps2"
  have "merge_loop original highlighted s i nodeStack = pieces_str ?ps"
    using sel least(1) ps2(1) r(1) unfolding at_def original'_def
    by (subst merge_loop.simps) (simp add: Let_def split_beta)
  moreover have "spread (rev nodeStack @ os) ?ps =
      Some (map (merged original os highlighted (rev nodeStack) s) [i..<length s], [])"
    using merged_upto [OF bounds least(2), of os "rev nodeStack" original' os1 highlighted "rev nodeStack"]
      r(2,6) ps2(2) inv spread_closes [of "rev nodeStack" os "ps1 @ map Open nodeStack @ ps2"]
    by (simp add: spread_opens merged_def)
  moreover have "opens ?ps \<subseteq> node ` (set original \<union> set highlighted) \<union> set nodeStack"
    using r(5,7) ps2(3) by (fastforce simp del: set_map)
  ultimately show ?thesis
    unfolding overlaid_def by blast
qed

lemma overlaid_highlighted:
  fixes highlighted
  defines "e \<equiv> hd highlighted"
  defines "stack1 nodeStack \<equiv> if event e = Start then nodeStack @ [node e] else butlast nodeStack"
  assumes sel: "selectStream original highlighted = Highlighted" "original \<noteq> [] \<or> highlighted \<noteq> []"
    and inv: "merge_inv original os highlighted (rev nodeStack) s i"
    and IH: "merge_inv original os (tl highlighted) (rev (stack1 nodeStack)) s (offset e) \<Longrightarrow>
      overlaid original os (tl highlighted) (stack1 nodeStack) s (offset e)"
  shows "overlaid original os highlighted nodeStack s i"
proof -
  note inv' = inv [unfolded merge_inv_def]
  have least: "highlighted \<noteq> []" "\<forall>e'\<in>set original \<union> set highlighted. offset e \<le> offset e'"
    using selectStream_Highlighted [OF sel] inv' unfolding e_def by blast+
  then have hl: "highlighted = e # tl highlighted" by (simp add: e_def)
  have bounds: "i \<le> offset e" "offset e \<le> length s" and nv: "\<not> is_void (node e)"
    using inv' least(1) unfolding e_def by auto
  have stack1: "rev (stack1 nodeStack) = step e (rev nodeStack)"
    using nv by (cases "event e"; cases nodeStack rule: rev_cases) (auto simp: stack1_def step_def)
  have w: "walk (rev nodeStack) (e # tl highlighted) = Some []"
    using inv' hl by simp
  have "\<forall>e'\<in>set original \<union> set (tl highlighted). offset e \<le> offset e'"
    using least by (auto dest: list.set_sel(2))
  then obtain ps where ps: "merge_loop original (tl highlighted) s (offset e) (stack1 nodeStack) = pieces_str ps"
    "spread (rev (stack1 nodeStack) @ os) ps =
      Some (map (merged original os (tl highlighted) (rev (stack1 nodeStack)) s) [offset e..<length s], [])"
    "opens ps \<subseteq> node ` (set original \<union> set (tl highlighted)) \<union> set (stack1 nodeStack)"
    using IH merge_inv_highlighted [of original os e "tl highlighted"] inv hl stack1
    unfolding overlaid_def by metis
  let ?ps = "Chars (substring s i (offset e)) # event_piece e # ps"
  have "merge_loop original highlighted s i nodeStack = pieces_str ?ps"
    using sel ps(1) unfolding e_def stack1_def by (subst merge_loop.simps) (auto simp: Let_def)
  moreover have "spread (rev nodeStack @ os) (event_piece e # ps) = spread (rev (stack1 nodeStack) @ os) ps"
    using w nv stack1 by (cases "event e") (auto simp: event_piece_def step_def split: if_splits)
  moreover have "\<forall>j\<ge>offset e. stack_at highlighted (rev nodeStack) j =
      stack_at (tl highlighted) (rev (stack1 nodeStack)) j"
    using hl stack1 by (metis stack_at.simps(2))
  moreover have "opens ?ps \<subseteq> node ` (set original \<union> set highlighted) \<union> set nodeStack"
  proof -
    have "set (tl highlighted) \<subseteq> set highlighted" "e \<in> set highlighted"
      using hl by (metis set_subset_Cons, metis list.set_intros(1))
    moreover have "set (stack1 nodeStack) \<subseteq> insert (node e) (set nodeStack)"
      by (auto simp: stack1_def dest: in_set_butlastD)
    ultimately show ?thesis
      using ps(3) opens_event [of e ps] unfolding opens_simps by blast
  qed
  ultimately show ?thesis
    using merged_upto [OF bounds least(2), of os "rev nodeStack" original os "tl highlighted" "rev (stack1 nodeStack)"] ps(2)
    unfolding overlaid_def by (intro exI [of _ ?ps]) (simp add: merged_def)
qed

lemma merge_loop_overlay:
  "merge_inv original os highlighted (rev nodeStack) s i \<Longrightarrow> overlaid original os highlighted nodeStack s i"
proof (induction original highlighted s i nodeStack arbitrary: os rule: merge_loop.induct)
  case (1 original highlighted s i nodeStack)
  consider (ended) "original = []" "highlighted = []"
    | (orig) "selectStream original highlighted = Original" "original \<noteq> [] \<or> highlighted \<noteq> []"
    | (high) "selectStream original highlighted = Highlighted" "original \<noteq> [] \<or> highlighted \<noteq> []"
    by (metis which_stream.exhaust)
  then show ?case
  proof cases
    case ended
    then show ?thesis
      using 1(3) unfolding overlaid_def merge_inv_def
      by (intro exI [of _ "[Chars (drop i s)]"]) (simp add: merge_loop.simps inside_drop merged_def)
  next
    case orig
    let ?p = "render_originals original highlighted (offset (hd original))"
    have "overlaid (snd ?p) os1 highlighted nodeStack s (offset (hd original))"
      if "merge_inv (snd ?p) os1 highlighted (rev nodeStack) s (offset (hd original))" for os1
      using 1(1) [OF _ orig(1) refl refl refl prod.collapse [of ?p] refl, of os1] that orig(2) by simp
    with orig(1) 1(3) show ?thesis
      by (rule overlaid_original)
  next
    case high
    then show ?thesis
      using overlaid_highlighted [OF high 1(3) 1(2) [OF _ high(1) refl refl]] by simp
  qed
qed

text \<open>From the two DOM trees.\<close>

lemma no_voids_voids_empty: "no_voids ns \<Longrightarrow> voids_empty ns"
  by (induction ns rule: no_voids.induct) auto

lemma nodeStream_from_no_voids:
  "no_voids ns \<Longrightarrow> e \<in> set (fst (nodeStream_from ns off)) \<Longrightarrow> \<not> is_void (node e)"
  by (induction ns off rule: nodeStream_from.induct) (auto split: prod.splits if_splits)

lemma nodeStream_placed:
  assumes "voids_empty ns"
  shows "placed [] ns = map (\<lambda>i. (textContent ns ! i, stack_at (nodeStream ns) [] i)) [0..<length (textContent ns)]"
proof (rule nth_equalityI)
  fix i assume "i < length (placed [] ns)"
  then have i: "i < length (textContent ns)" by (simp add: length_placed)
  have "map snd (placed [] ns) ! i = stack_at (nodeStream ns) [] i"
    unfolding nodeStream_from_placed [OF assms, of 0 "[]", symmetric] using i by (simp add: nodeStream_def)
  then show "placed [] ns ! i = map (\<lambda>i. (textContent ns ! i, stack_at (nodeStream ns) [] i)) [0..<length (textContent ns)] ! i"
    using i by (simp add: textContent_def prod_eq_iff)
qed (simp add: length_placed)

lemma nodeStream_merge_inv:
  assumes "voids_empty original" "no_voids highlighted" "textContent highlighted = textContent original"
  shows "merge_inv (nodeStream original) [] (nodeStream highlighted) [] (textContent original) 0"
  using assms nodeStream_from_walk [OF assms(1), of "[]" 0]
    nodeStream_from_walk [OF no_voids_voids_empty [OF assms(2)], of "[]" 0]
    nodeStream_from_offsets [of _ original 0] nodeStream_from_offsets [of _ highlighted 0]
    nodeStream_from_no_voids [OF assms(2)]
  unfolding merge_inv_def nodeStream_def by (auto simp: nodeStream_from_sorted)

lemma overlay_placed:
  assumes "voids_empty original" "no_voids highlighted" "textContent highlighted = textContent original"
  shows "overlay (placed [] original) (placed [] highlighted) =
    map (merged (nodeStream original) [] (nodeStream highlighted) [] (textContent original))
      [0..<length (textContent original)]"
  using assms unfolding overlay_def
  by (intro nth_equalityI) (simp_all add: nodeStream_placed no_voids_voids_empty merged_def)

lemma mergeStreams_pieces:
  assumes "voids_empty original" "no_voids highlighted" "textContent highlighted = textContent original"
  shows "\<exists>ps. mergeStreams (nodeStream original) (nodeStream highlighted) (textContent original) = pieces_str ps \<and>
    spread [] ps = Some (overlay (placed [] original) (placed [] highlighted), []) \<and>
    opens ps \<subseteq> node ` (set (nodeStream original) \<union> set (nodeStream highlighted))"
  using merge_loop_overlay [of "nodeStream original" "[]" "nodeStream highlighted" "[]" "textContent original" 0]
    nodeStream_merge_inv [OF assms] overlay_placed [OF assms]
  by (simp add: mergeStreams_def overlaid_def)

subsection \<open>Properties\<close>

text \<open>
  C13. \<open>mergeStreams\<close> lays the highlighted markup over the original one. For a code block whose
  void elements have no children, and highlighted markup of the same text without void
  elements, the result is a sequence of tags and escaped text in which every end tag closes the
  innermost open element, no element is left open, and each character of the text, in order, stands inside exactly its
  elements of the original markup and, within these, exactly its elements of the highlighted one.
\<close>

theorem mergeStreams_overlay:
  assumes "voids_empty original" "no_voids highlighted" "textContent highlighted = textContent original"
  shows "\<exists>ps. mergeStreams (nodeStream original) (nodeStream highlighted) (textContent original) = pieces_str ps \<and>
    spread [] ps = Some (overlay (placed [] original) (placed [] highlighted), [])"
  using mergeStreams_pieces [OF assms] by blast

theorem mergeStreams_overlay_witness:
  "\<exists>ps. mergeStreams (nodeStream [DElem ''B'' [] [DText ''x'', DElem ''BR'' [] [], DText ''y''], DText ''<''])
      (nodeStream [DText ''x'', DElem ''SPAN'' [(''class'', ''hljs-number'')] [DText ''y<'']]) ''xy<'' = pieces_str ps \<and>
    spread [] ps = Some (overlay
      (placed [] [DElem ''B'' [] [DText ''x'', DElem ''BR'' [] [], DText ''y''], DText ''<''])
      (placed [] [DText ''x'', DElem ''SPAN'' [(''class'', ''hljs-number'')] [DText ''y<'']]), [])"
proof -
  have "voids_empty [DElem ''B'' [] [DText ''x'', DElem ''BR'' [] [], DText ''y''], DText ''<'']"
    "no_voids [DText ''x'', DElem ''SPAN'' [(''class'', ''hljs-number'')] [DText ''y<'']]"
    by code_simp+
  then show ?thesis
    using mergeStreams_overlay [of "[DElem ''B'' [] [DText ''x'', DElem ''BR'' [] [], DText ''y''], DText ''<'']"
      "[DText ''x'', DElem ''SPAN'' [(''class'', ''hljs-number'')] [DText ''y<'']]"] by simp
qed

text \<open>
  C38. The offsets \<open>nodeStream\<close> lists never decrease and stay within the text of the node, so
  every \<open>substring\<close> that \<open>mergeStreams\<close> takes between two of them is in range.
\<close>

theorem nodeStream_offsets_bounded:
  "sorted (map offset (nodeStream ns)) \<and> offset ` set (nodeStream ns) \<subseteq> {0..length (textContent ns)}"
  using nodeStream_from_offsets [of _ ns 0] by (auto simp: nodeStream_def nodeStream_from_sorted)

text \<open>The expression that recognises void elements is not anchored: any element whose name
  contains one of the names loses its end tag.\<close>

lemma abbr_left_open:
  "mergeStreams (nodeStream [DElem ''ABBR'' [] [DText ''x''], DText ''y'']) [] ''xy'' = ''<abbr>xy''"
  by code_simp

text \<open>Only the first quotation mark of an attribute is escaped.\<close>

lemma second_quote_unescaped:
  "attr_str (''title'', [CHR 0x22, CHR ''x'', CHR 0x22]) =
     '' title='' @ [CHR 0x22] @ ''&quot;x'' @ [CHR 0x22, CHR 0x22]"
  by code_simp

end
