(* ===== verification/Hljs_Modes.thy ===== *)
theory Hljs_Modes
  imports Hljs_Streams
begin

text \<open>
  Grammars of highlight.js and their compilation (\<^verbatim>\<open>remark.js\<close>, module 15: \<open>inherit\<close>,
  \<open>expand_mode\<close>, \<open>compileLanguage\<close> with \<open>reStr\<close>, \<open>langRe\<close>, \<open>joinRe\<close>, \<open>compileMode\<close>; the common
  expressions and modes).

  A mode is a JavaScript object that other modes refer to and that compilation changes in
  place, so modes live in a store: a list of records, an address being a position. A field is
  \<open>None\<close> when the property is absent. Expressions are kept as their sources, which is all that
  \<open>reStr\<close> reads of them; the empty source is falsy.

  Compilation can throw (a source that is not a regular expression) and follows references
  between modes, so it takes fuel: \<open>None\<close> means that the fuel did not suffice.
\<close>

subsection \<open>Modes\<close>

datatype kwords =
    KStr string
  | KObj "(string \<times> string) list"
  | KTable "(string \<times> string \<times> nat option) list"

datatype sub_language = SubName string | SubList "string list"

datatype contained = Self | Ref nat

record hmode =
  className :: "string option"
  m_begin :: "string option"
  m_end :: "string option"
  beginKeywords :: "string option"
  m_keywords :: "kwords option"
  lexemes :: "string option"
  illegal :: "string option"
  m_relevance :: "nat option"
  contains :: "contained list option"
  variants :: "nat list option"
  starts :: "nat option"
  subLanguage :: "sub_language option"
  endsWithParent :: "bool option"
  endsParent :: "bool option"
  endSameAsBegin :: "bool option"
  returnBegin :: "bool option"
  excludeBegin :: "bool option"
  returnEnd :: "bool option"
  excludeEnd :: "bool option"
  skip :: "bool option"
  case_insensitive :: "bool option"
  disableAutodetect :: "bool option"
  aliases :: "string list option"
  compiled :: "bool option"
  cached_variants :: "nat list option"
  lexemesRe :: "regexp option"
  beginRe :: "regexp option"
  endRe :: "regexp option"
  illegalRe :: "regexp option"
  terminator_end :: "string option"
  terminators :: "regexp option option"

type_synonym mstore = "hmode list"

definition no_mode :: hmode where
  "no_mode = \<lparr>className = None, m_begin = None, m_end = None, beginKeywords = None, m_keywords = None,
     lexemes = None, illegal = None, m_relevance = None, contains = None, variants = None, starts = None,
     subLanguage = None, endsWithParent = None, endsParent = None, endSameAsBegin = None,
     returnBegin = None, excludeBegin = None, returnEnd = None, excludeEnd = None, skip = None,
     case_insensitive = None, disableAutodetect = None, aliases = None, compiled = None,
     cached_variants = None, lexemesRe = None, beginRe = None, endRe = None, illegalRe = None,
     terminator_end = None, terminators = None\<rparr>"

definition mode_at :: "mstore \<Rightarrow> nat \<Rightarrow> hmode" where
  "mode_at h a = (if a < length h then h ! a else no_mode)"

definition on :: "bool option \<Rightarrow> bool" where
  "on b \<longleftrightarrow> b = Some True"

text \<open>\<open>a || b\<close> on sources: the empty string is falsy.\<close>

definition or_else :: "string option \<Rightarrow> string option \<Rightarrow> string option" where
  "or_else a b = (if truthy a then a else b)"

subsection \<open>inherit\<close>

definition over :: "'a option \<Rightarrow> 'a option \<Rightarrow> 'a option" where
  "over old new = (case new of None \<Rightarrow> old | Some v \<Rightarrow> Some v)"

definition override_mode :: "hmode \<Rightarrow> hmode \<Rightarrow> hmode" where
  "override_mode p m =
     \<lparr>className = over (className p) (className m), m_begin = over (m_begin p) (m_begin m),
      m_end = over (m_end p) (m_end m), beginKeywords = over (beginKeywords p) (beginKeywords m),
      m_keywords = over (m_keywords p) (m_keywords m), lexemes = over (lexemes p) (lexemes m),
      illegal = over (illegal p) (illegal m), m_relevance = over (m_relevance p) (m_relevance m),
      contains = over (contains p) (contains m), variants = over (variants p) (variants m),
      starts = over (starts p) (starts m), subLanguage = over (subLanguage p) (subLanguage m),
      endsWithParent = over (endsWithParent p) (endsWithParent m),
      endsParent = over (endsParent p) (endsParent m),
      endSameAsBegin = over (endSameAsBegin p) (endSameAsBegin m),
      returnBegin = over (returnBegin p) (returnBegin m),
      excludeBegin = over (excludeBegin p) (excludeBegin m),
      returnEnd = over (returnEnd p) (returnEnd m), excludeEnd = over (excludeEnd p) (excludeEnd m),
      skip = over (skip p) (skip m), case_insensitive = over (case_insensitive p) (case_insensitive m),
      disableAutodetect = over (disableAutodetect p) (disableAutodetect m),
      aliases = over (aliases p) (aliases m), compiled = over (compiled p) (compiled m),
      cached_variants = over (cached_variants p) (cached_variants m),
      lexemesRe = over (lexemesRe p) (lexemesRe m), beginRe = over (beginRe p) (beginRe m),
      endRe = over (endRe p) (endRe m), illegalRe = over (illegalRe p) (illegalRe m),
      terminator_end = over (terminator_end p) (terminator_end m),
      terminators = over (terminators p) (terminators m)\<rparr>"

definition inherit_mode :: "hmode \<Rightarrow> hmode list \<Rightarrow> hmode" where
  "inherit_mode p objects = fold (\<lambda>obj result. override_mode result obj) objects p"

subsection \<open>expand_mode\<close>

text \<open>New objects are put at the end of the store.\<close>

definition alloc_all :: "hmode list \<Rightarrow> mstore \<Rightarrow> nat list \<times> mstore" where
  "alloc_all ms h = ([length h..<length h + length ms], h @ ms)"

definition cache_variants :: "nat \<Rightarrow> mstore \<Rightarrow> mstore" where
  "cache_variants a h =
     (case (variants (mode_at h a), cached_variants (mode_at h a)) of
        (Some vs, None) \<Rightarrow>
          (let (new, h') = alloc_all (map (\<lambda>v. inherit_mode ((mode_at h a)\<lparr>variants := None\<rparr>) [mode_at h v]) vs) h
           in h'[a := (mode_at h' a)\<lparr>cached_variants := Some new\<rparr>])
      | _ \<Rightarrow> h)"

definition expand_mode :: "nat \<Rightarrow> mstore \<Rightarrow> nat list \<times> mstore" where
  "expand_mode a h =
     (let h' = cache_variants a h
      in case cached_variants (mode_at h' a) of
           Some vs \<Rightarrow> (vs, h')
         | None \<Rightarrow> if on (endsWithParent (mode_at h' a)) then alloc_all [inherit_mode (mode_at h' a) []] h'
                   else ([a], h'))"

fun expand_contained :: "nat \<Rightarrow> contained list \<Rightarrow> mstore \<Rightarrow> nat list \<times> mstore" where
  "expand_contained self [] h = ([], h)"
| "expand_contained self (c # cs) h =
     (let (as, h1) = expand_mode (case c of Self \<Rightarrow> self | Ref a \<Rightarrow> a) h;
          (as', h2) = expand_contained self cs h1
      in (as @ as', h2))"

subsection \<open>joinRe\<close>

definition backreferenceRe :: regexp where
  "backreferenceRe = re no_flags (bs ''%[(?:[^%%%]]|%%.)*%]|%(%??|%%([1-9][0-9]*)|%%.'')"

definition join_piece :: "nat \<Rightarrow> rx_match \<Rightarrow> string" where
  "join_piece base m =
     (if take 1 (cap0 m) = [BSL] \<and> truthy (cap m 1)
      then BSL # nat_str (digits_val 0 (cap_str m 1) + base) else cap0 m)"

lemma backreferenceRe_ast [code]:
  "backreferenceRe =
     \<lparr>pat = Alt (Seq (Cls False [CChar CHR ''['']) (Seq (Rep 0 None True (Alt (Cls True
     [CChar BSL, CChar CHR '']'']) (Seq (Cls False [CChar BSL]) (Cls True [CChar NL, CChar CR]))))
     (Cls False [CChar CHR '']'']))) (Alt (Seq (Cls False [CChar CHR ''('']) (Rep 0 (Some 1) True
     (Cls False [CChar CHR ''?'']))) (Alt (Seq (Cls False [CChar BSL]) (Group 1 (Seq (Cls False
     [CRange CHR ''1'' CHR ''9'']) (Rep 0 None True (Cls False [CRange CHR ''0'' CHR ''9''])))))
     (Seq (Cls False [CChar BSL]) (Cls True [CChar NL, CChar CR])))), ngroups = 1, flags =
     no_flags\<rparr>"
  by code_simp

lemma backreferenceRe_min: "0 < rx_min (pat backreferenceRe)"
  by code_simp

text \<open>The inner loop: the rewritten source and the number of groups it opens.\<close>

function join_source :: "nat \<Rightarrow> string \<Rightarrow> string \<times> nat" where
  "join_source base s =
     (if s = [] then ([], 0)
      else case exec backreferenceRe s of
          None \<Rightarrow> (s, 0)
        | Some m \<Rightarrow>
            (let (ret, n) = join_source base (drop (m_index m + length (cap0 m)) s)
             in (take (m_index m) s @ join_piece base m @ ret, if cap0 m = ''('' then Suc n else n)))"
  by pat_completeness auto
termination
  using backreferenceRe_min
  by (relation "measure (length \<circ> snd)") (auto dest!: exec_splits simp: match_splits_def)

declare join_source.simps [simp del]

fun joinRe_from :: "nat \<Rightarrow> string list \<Rightarrow> string list" where
  "joinRe_from numCaptures [] = []"
| "joinRe_from numCaptures (r # regexps) =
     (let (ret, n) = join_source numCaptures r in ret # joinRe_from (numCaptures + n) regexps)"

definition joinRe :: "string list \<Rightarrow> string \<Rightarrow> string" where
  "joinRe regexps separator = join separator (joinRe_from 0 regexps)"

subsection \<open>Errors\<close>

datatype herr =
    HSyntax string
  | HType string
  | HIllegal string
  | HUnknown string
  | HBuiltin string

text \<open>A computation returns or throws, and leaves a store in both cases.\<close>

type_synonym 'a hres = "((herr + 'a) \<times> mstore) option"

definition hret :: "'a \<Rightarrow> mstore \<Rightarrow> 'a hres" where
  "hret x h = Some (Inr x, h)"

definition hthrow :: "herr \<Rightarrow> mstore \<Rightarrow> 'a hres" where
  "hthrow e h = Some (Inl e, h)"

definition hbind :: "'a hres \<Rightarrow> ('a \<Rightarrow> mstore \<Rightarrow> 'b hres) \<Rightarrow> 'b hres" where
  "hbind r f =
     (case r of
        None \<Rightarrow> None
      | Some (Inl e, h) \<Rightarrow> Some (Inl e, h)
      | Some (Inr x, h) \<Rightarrow> f x h)"

fun each :: "('a \<Rightarrow> mstore \<Rightarrow> unit hres) \<Rightarrow> 'a list \<Rightarrow> mstore \<Rightarrow> unit hres" where
  "each f [] h = hret () h"
| "each f (x # xs) h = hbind (f x h) (\<lambda>_ h'. each f xs h')"

definition upd :: "nat \<Rightarrow> (hmode \<Rightarrow> hmode) \<Rightarrow> mstore \<Rightarrow> mstore" where
  "upd a f h = h[a := f (mode_at h a)]"

subsection \<open>Keywords\<close>

text \<open>\<open>Number(s)\<close> for the weights of keywords, which are decimal numerals; any other text is
  \<open>NaN\<close> here.\<close>

definition weight_of :: "string \<Rightarrow> nat option" where
  "weight_of s = (if list_all is_digit s then Some (digits_val 0 s) else None)"

text \<open>\<open>compiled_keywords[key] = value\<close>: assigning \<open>__proto__\<close> makes no own property. The newest entry
  comes first.\<close>

definition put_keyword :: "string \<Rightarrow> string \<Rightarrow> (string \<times> string \<times> nat option) list \<Rightarrow> (string \<times> string \<times> nat option) list" where
  "put_keyword cls kw tbl =
     (let pair = split_char (CHR ''|'') kw;
          weight = (if 1 < length pair \<and> pair ! 1 \<noteq> [] then weight_of (pair ! 1) else Some 1)
      in if hd pair = ''__proto__'' then tbl else (hd pair, cls, weight) # tbl)"

definition flatten :: "bool \<Rightarrow> string \<times> string \<Rightarrow> (string \<times> string \<times> nat option) list \<Rightarrow> (string \<times> string \<times> nat option) list" where
  "flatten ci p tbl =
     fold (put_keyword (fst p)) (split_char (CHR '' '') (if ci then toLowerCase (snd p) else snd p)) tbl"

definition raw_keywords :: "hmode \<Rightarrow> kwords option" where
  "raw_keywords m =
     (case m_keywords m of
        Some (KStr s) \<Rightarrow> if s \<noteq> [] then Some (KStr s) else map_option KStr (beginKeywords m)
      | Some k \<Rightarrow> Some k
      | None \<Rightarrow> map_option KStr (beginKeywords m))"

definition compile_keywords :: "bool \<Rightarrow> hmode \<Rightarrow> hmode" where
  "compile_keywords ci m =
     (case raw_keywords m of
        Some (KStr s) \<Rightarrow>
          if s \<noteq> [] then m\<lparr>m_keywords := Some (KTable (flatten ci (''keyword'', s) []))\<rparr>
          else m\<lparr>m_keywords := Some (KStr s)\<rparr>
      | Some (KObj ks) \<Rightarrow> m\<lparr>m_keywords := Some (KTable (fold (flatten ci) ks []))\<rparr>
      | k \<Rightarrow> m\<lparr>m_keywords := k\<rparr>)"

subsection \<open>compileMode\<close>

definition langRe :: "bool \<Rightarrow> string \<Rightarrow> regexp option" where
  "langRe ci source = RegExp source \<lparr>ignoreCase = ci, multiline = True\<rparr>"

definition set_re :: "bool \<Rightarrow> string option \<Rightarrow> (regexp \<Rightarrow> hmode \<Rightarrow> hmode) \<Rightarrow> nat \<Rightarrow> mstore \<Rightarrow> unit hres" where
  "set_re ci source f a h =
     (case source of
        None \<Rightarrow> hret () h
      | Some s \<Rightarrow>
          if s = [] then hret () h
          else (case langRe ci s of None \<Rightarrow> hthrow (HSyntax s) h | Some r \<Rightarrow> hret () (upd a (f r) h)))"

definition any_place :: string where
  "any_place = bs ''%B|%b''"

definition resolve_begin :: "hmode \<Rightarrow> hmode" where
  "resolve_begin m =
     (let m1 = (if truthy (beginKeywords m)
                then m\<lparr>m_begin := Some (bs ''%b('' @ join ''|'' (split_char (CHR '' '') (the (beginKeywords m))) @ bs '')%b'')\<rparr>
                else m)
      in if truthy (m_begin m1) then m1 else m1\<lparr>m_begin := Some any_place\<rparr>)"

definition resolve_end :: "hmode \<Rightarrow> hmode" where
  "resolve_end m =
     (let m1 = (if on (endSameAsBegin m) then m\<lparr>m_end := m_begin m\<rparr> else m)
      in if \<not> truthy (m_end m1) \<and> \<not> on (endsWithParent m1) then m1\<lparr>m_end := Some any_place\<rparr> else m1)"

definition resolve_terminator_end :: "hmode \<Rightarrow> hmode \<Rightarrow> hmode" where
  "resolve_terminator_end p m =
     (let own = (if truthy (m_end m) then the (m_end m) else [])
      in m\<lparr>terminator_end := Some
           (if on (endsWithParent m) \<and> truthy (terminator_end p)
            then own @ (if truthy (m_end m) then ''|'' else []) @ the (terminator_end p) else own)\<rparr>)"

text \<open>The part of \<open>compileMode\<close> that needs a parent.\<close>

definition compile_edges :: "bool \<Rightarrow> nat \<Rightarrow> nat \<Rightarrow> mstore \<Rightarrow> unit hres" where
  "compile_edges ci a p h =
     (let h1 = upd a resolve_begin h
      in hbind (set_re ci (m_begin (mode_at h1 a)) (\<lambda>r m. m\<lparr>beginRe := Some r\<rparr>) a h1) (\<lambda>_ h2.
         let h3 = upd a resolve_end h2
         in hbind (set_re ci (m_end (mode_at h3 a)) (\<lambda>r m. m\<lparr>endRe := Some r\<rparr>) a h3) (\<lambda>_ h4.
            hret () (upd a (resolve_terminator_end (mode_at h4 p)) h4))))"

definition compile_head :: "bool \<Rightarrow> nat \<Rightarrow> nat option \<Rightarrow> mstore \<Rightarrow> unit hres" where
  "compile_head ci a parent h =
     (let h1 = upd a (\<lambda>m. compile_keywords ci (m\<lparr>compiled := Some True\<rparr>)) h
      in hbind (set_re ci (or_else (lexemes (mode_at h1 a)) (Some (bs ''%w+''))) (\<lambda>r m. m\<lparr>lexemesRe := Some r\<rparr>) a h1) (\<lambda>_ h2.
         hbind (case parent of None \<Rightarrow> hret () h2 | Some p \<Rightarrow> compile_edges ci a p h2) (\<lambda>_ h3.
         hbind (set_re ci (illegal (mode_at h3 a)) (\<lambda>r m. m\<lparr>illegalRe := Some r\<rparr>) a h3) (\<lambda>_ h4.
         hret () (upd a (\<lambda>m. m\<lparr>m_relevance := over (Some 1) (m_relevance m),
                                contains := over (Some []) (contains m)\<rparr>) h4)))))"

definition begin_source :: "hmode \<Rightarrow> string option" where
  "begin_source c =
     (if truthy (beginKeywords c)
      then Some (bs ''%.?(?:'' @ (case m_begin c of None \<Rightarrow> ''undefined'' | Some s \<Rightarrow> s) @ bs '')%.?'')
      else m_begin c)"

fun refs :: "contained list option \<Rightarrow> nat list" where
  "refs None = []"
| "refs (Some []) = []"
| "refs (Some (Ref a # cs)) = a # refs (Some cs)"
| "refs (Some (Self # cs)) = refs (Some cs)"

definition compile_terminators :: "bool \<Rightarrow> nat \<Rightarrow> mstore \<Rightarrow> unit hres" where
  "compile_terminators ci a h =
     (let m = mode_at h a;
          sources = map the (filter truthy
            (map (\<lambda>c. begin_source (mode_at h c)) (refs (contains m)) @ [terminator_end m, illegal m]))
      in if sources = [] then hret () (upd a (\<lambda>m. m\<lparr>terminators := Some None\<rparr>) h)
         else set_re ci (Some (joinRe sources ''|'')) (\<lambda>r m. m\<lparr>terminators := Some (Some r)\<rparr>) a h)"

fun compileMode :: "nat \<Rightarrow> bool \<Rightarrow> nat \<Rightarrow> nat option \<Rightarrow> mstore \<Rightarrow> unit hres" where
  "compileMode 0 ci a parent h = None"
| "compileMode (Suc n) ci a parent h =
     (if on (compiled (mode_at h a)) then hret () h
      else hbind (compile_head ci a parent h) (\<lambda>_ h1.
        let (cs, h2) = expand_contained a (the (contains (mode_at h1 a))) h1;
            h3 = upd a (\<lambda>m. m\<lparr>contains := Some (map Ref cs)\<rparr>) h2
        in hbind (each (\<lambda>c. compileMode n ci c (Some a)) cs h3) (\<lambda>_ h4.
           hbind (case starts (mode_at h4 a) of None \<Rightarrow> hret () h4 | Some s \<Rightarrow> compileMode n ci s parent h4) (\<lambda>_ h5.
           compile_terminators ci a h5))))"

definition compileLanguage :: "nat \<Rightarrow> nat \<Rightarrow> mstore \<Rightarrow> unit hres" where
  "compileLanguage fuel language h =
     compileMode fuel (on (case_insensitive (mode_at h language))) language None h"

end
