(* ===== verification/Hljs_Highlight.thy ===== *)
theory Hljs_Highlight
  imports Hljs_Modes Remark_Slide
begin

text \<open>
  The highlighter (\<^verbatim>\<open>remark.js\<close>, module 15: \<open>highlight\<close>, \<open>highlightAuto\<close>, the registry of languages and
  the functions that prepare and finish a block).

  A frame is an object made by \<open>Object.create(mode, {parent})\<close>; it reads its properties through its mode,
  so the chain of frames is the list of the addresses of their modes, innermost first, and the last
  entry is the language itself. \<open>undefined\<close> is the empty chain.

  \<open>highlight\<close> calls itself for embedded languages and its main loop need not end for every grammar,
  so it takes fuel: \<open>None\<close> means that the fuel did not suffice.
\<close>

subsection \<open>Options and registry\<close>

record hoptions =
  classPrefix :: string
  tabReplace :: "string option"
  useBR :: bool
  opt_languages :: "string list option"

definition default_options :: hoptions where
  "default_options = \<lparr>classPrefix = ''hljs-'', tabReplace = None, useBR = False, opt_languages = None\<rparr>"

record registry =
  options :: hoptions
  languages :: "(string \<times> nat) list"
  alias_names :: "(string \<times> string) list"

datatype lang_ref = LangMode nat | LangBuiltin | NoLang

text \<open>\<open>languages[name]\<close>: the table is a plain object, so names of \<open>Object.prototype\<close> are found in it.\<close>

definition lang_lookup :: "registry \<Rightarrow> string \<Rightarrow> lang_ref" where
  "lang_lookup r name =
     (case map_of (languages r) name of
        Some a \<Rightarrow> LangMode a
      | None \<Rightarrow> if proto_member name \<noteq> None then LangBuiltin else NoLang)"

definition getLanguage :: "registry \<Rightarrow> string option \<Rightarrow> lang_ref" where
  "getLanguage r name =
     (let n = toLowerCase (case name of None \<Rightarrow> [] | Some s \<Rightarrow> s)
      in case lang_lookup r n of
           NoLang \<Rightarrow> lang_lookup r (case map_of (alias_names r) n of None \<Rightarrow> ''undefined'' | Some m \<Rightarrow> m)
         | l \<Rightarrow> l)"

definition autoDetection :: "registry \<Rightarrow> mstore \<Rightarrow> string \<Rightarrow> bool" where
  "autoDetection r h name =
     (case getLanguage r (Some name) of
        NoLang \<Rightarrow> False
      | LangBuiltin \<Rightarrow> True
      | LangMode a \<Rightarrow> \<not> on (disableAutodetect (mode_at h a)))"

text \<open>\<open>registerLanguage\<close>: the grammar function returns the address of the language in the store it
  extends. An assignment to a property that exists keeps its place among the keys.\<close>

definition registerLanguage :: "string \<Rightarrow> (mstore \<Rightarrow> nat \<times> mstore) \<Rightarrow> registry \<times> mstore \<Rightarrow> registry \<times> mstore" where
  "registerLanguage name language s =
     (let (r, h) = s; (a, h') = language h;
          names = (case aliases (mode_at h' a) of None \<Rightarrow> [] | Some as \<Rightarrow> as)
      in (r\<lparr>languages := dict_set name a (languages r),
            alias_names := fold (\<lambda>alias. dict_set alias name) names (alias_names r)\<rparr>, h'))"

definition listLanguages :: "registry \<Rightarrow> string list" where
  "listLanguages r = map fst (languages r)"

subsection \<open>Matching\<close>

definition testRe :: "regexp option \<Rightarrow> string \<Rightarrow> bool" where
  "testRe r lexeme =
     (case r of
        None \<Rightarrow> False
      | Some x \<Rightarrow> (case exec x lexeme of None \<Rightarrow> False | Some m \<Rightarrow> m_index m = 0))"

definition re_special :: "char list" where
  "re_special = bs ''-/%^$*+?.()|[]{}''"

definition escapeRe :: "string \<Rightarrow> regexp option" where
  "escapeRe s =
     RegExp (concat (map (\<lambda>c. if c \<in> set re_special then [BSL, c] else [c]) s)) \<lparr>ignoreCase = False, multiline = True\<rparr>"

fun first_mode :: "mstore \<Rightarrow> nat list \<Rightarrow> string \<Rightarrow> nat option" where
  "first_mode h [] lexeme = None"
| "first_mode h (c # cs) lexeme = (if testRe (beginRe (mode_at h c)) lexeme then Some c else first_mode h cs lexeme)"

definition subMode :: "string \<Rightarrow> nat \<Rightarrow> mstore \<Rightarrow> nat option hres" where
  "subMode lexeme a h =
     (case first_mode h (refs (contains (mode_at h a))) lexeme of
        None \<Rightarrow> hret None h
      | Some c \<Rightarrow>
          if on (endSameAsBegin (mode_at h c)) then
            (case exec (the (beginRe (mode_at h c))) lexeme of
               None \<Rightarrow> hret (Some c) h
             | Some m \<Rightarrow>
                 (case escapeRe (cap0 m) of
                    None \<Rightarrow> hthrow (HSyntax (cap0 m)) h
                  | Some r \<Rightarrow> hret (Some c) (upd c (\<lambda>x. x\<lparr>endRe := Some r\<rparr>) h)))
          else hret (Some c) h)"

text \<open>\<open>endOfMode\<close> gives the chain whose first frame is the mode that ends.\<close>

fun climb :: "mstore \<Rightarrow> nat list \<Rightarrow> nat list" where
  "climb h [] = []"
| "climb h (a # fs) = (if on (endsParent (mode_at h a)) \<and> fs \<noteq> [] then climb h fs else a # fs)"

fun endOfMode :: "mstore \<Rightarrow> nat list \<Rightarrow> string \<Rightarrow> herr + nat list option" where
  "endOfMode h [] lexeme = Inl (HType ''endRe of undefined'')"
| "endOfMode h (a # fs) lexeme =
     (if testRe (endRe (mode_at h a)) lexeme then Inr (Some (climb h (a # fs)))
      else if on (endsWithParent (mode_at h a)) then endOfMode h fs lexeme
      else Inr None)"

definition isIllegal :: "bool \<Rightarrow> string \<Rightarrow> hmode \<Rightarrow> bool" where
  "isIllegal ignore_illegals lexeme m \<longleftrightarrow> \<not> ignore_illegals \<and> testRe (illegalRe m) lexeme"

subsection \<open>Markup\<close>

definition spanEndTag :: string where
  "spanEndTag = ''</span>''"

definition buildSpan :: "hoptions \<Rightarrow> string option \<Rightarrow> string \<Rightarrow> bool \<Rightarrow> bool \<Rightarrow> string" where
  "buildSpan opts classname insideSpan leaveOpen noPrefix =
     (if \<not> truthy classname then insideSpan
      else ''<span class='' @ [CHR 0x22] @ (if noPrefix then [] else classPrefix opts) @ the classname @
        [CHR 0x22] @ ''>'' @ insideSpan @ (if leaveOpen then [] else spanEndTag))"

definition add_num :: "nat option \<Rightarrow> nat option \<Rightarrow> nat option" where
  "add_num a b = (case (a, b) of (Some x, Some y) \<Rightarrow> Some (x + y) | _ \<Rightarrow> None)"

definition num_gt :: "nat option \<Rightarrow> nat option \<Rightarrow> bool" where
  "num_gt a b \<longleftrightarrow> (case (a, b) of (Some x, Some y) \<Rightarrow> y < x | _ \<Rightarrow> False)"

record hrun =
  frames :: "nat list"
  continuations :: "(string \<times> nat list option) list"
  out :: string
  mode_buffer :: string
  run_relevance :: "nat option"

record houtput =
  o_relevance :: "nat option"
  o_value :: string
  o_language :: "string option"
  o_top :: "nat list option"
  o_second :: "(string option \<times> nat option) option"

text \<open>\<open>keywordMatch\<close>: a keyword called \<open>hasOwnProperty\<close> would hide the method.\<close>

definition keywordMatch :: "bool \<Rightarrow> (string \<times> string \<times> nat option) list \<Rightarrow> rx_match \<Rightarrow> herr + (string \<times> nat option) option" where
  "keywordMatch ci tbl m =
     (if map_of tbl ''hasOwnProperty'' \<noteq> None then Inl (HType ''hasOwnProperty is not a function'')
      else Inr (map_of tbl (if ci then toLowerCase (cap0 m) else cap0 m)))"

text \<open>The loop of \<open>processKeywords\<close>. An empty match leaves \<open>lastIndex\<close> where it is, so that the loop never ends:
  \<open>None\<close>.\<close>

function keyword_loop :: "hoptions \<Rightarrow> bool \<Rightarrow> (string \<times> string \<times> nat option) list \<Rightarrow> regexp \<Rightarrow> string \<Rightarrow> nat \<Rightarrow> string \<Rightarrow> nat option
    \<Rightarrow> (herr + (string \<times> nat option)) option" where
  "keyword_loop opts ci tbl r buf last_index acc rel =
     (case exec_at r buf last_index of
        None \<Rightarrow> Some (Inr (acc @ hl_escape (drop last_index buf), rel))
      | Some m \<Rightarrow>
          (case keywordMatch ci tbl m of
             Inl e \<Rightarrow> Some (Inl e)
           | Inr kw \<Rightarrow>
               if cap0 m = [] then None
               else (let acc1 = acc @ hl_escape (substring buf last_index (m_index m));
                         here = (case kw of
                             None \<Rightarrow> hl_escape (cap0 m)
                           | Some (cls, w) \<Rightarrow> buildSpan opts (Some cls) (hl_escape (cap0 m)) False False);
                         rel1 = (case kw of None \<Rightarrow> rel | Some (cls, w) \<Rightarrow> add_num rel w)
                     in keyword_loop opts ci tbl r buf (m_index m + length (cap0 m)) (acc1 @ here) rel1)))"
  by pat_completeness auto
termination
proof (relation "measure (\<lambda>(opts, ci, tbl, r, buf, i, acc, rel). Suc (length buf) - i)", goal_cases)
  case (2 opts ci tbl r buf last_index acc rel m kw)
  with next_index_progress [OF 2(1)] show ?case
    by (simp add: next_index_def)
qed simp

declare keyword_loop.simps [simp del]

definition processKeywords :: "hoptions \<Rightarrow> bool \<Rightarrow> hmode \<Rightarrow> hrun \<Rightarrow> (herr + (string \<times> nat option)) option" where
  "processKeywords opts ci m st =
     (case m_keywords m of
        Some (KTable tbl) \<Rightarrow>
          (case lexemesRe m of
             None \<Rightarrow> Some (Inl (HType ''lastIndex of undefined''))
           | Some r \<Rightarrow> keyword_loop opts ci tbl r (mode_buffer st) 0 [] (run_relevance st))
      | _ \<Rightarrow> Some (Inr (hl_escape (mode_buffer st), run_relevance st)))"

subsection \<open>Embedded languages\<close>

type_synonym highlighter = "string \<Rightarrow> string \<Rightarrow> bool \<Rightarrow> nat list option \<Rightarrow> mstore \<Rightarrow> houtput hres"

definition auto_step :: "highlighter \<Rightarrow> string \<Rightarrow> string \<Rightarrow> houtput \<times> houtput \<Rightarrow> mstore \<Rightarrow> (houtput \<times> houtput) hres" where
  "auto_step hl s name best h =
     hbind (hl name s False None h) (\<lambda>o1 h'.
       let current = o1\<lparr>o_language := Some name\<rparr>;
           second = (if num_gt (o_relevance current) (o_relevance (snd best)) then current else snd best)
       in hret (if num_gt (o_relevance current) (o_relevance (fst best)) then (current, fst best)
                else (fst best, second)) h')"

fun auto_loop :: "highlighter \<Rightarrow> string \<Rightarrow> string list \<Rightarrow> houtput \<times> houtput \<Rightarrow> mstore \<Rightarrow> (houtput \<times> houtput) hres" where
  "auto_loop hl s [] best h = hret best h"
| "auto_loop hl s (name # names) best h =
     hbind (auto_step hl s name best h) (\<lambda>best' h'. auto_loop hl s names best' h')"

definition highlightAuto :: "highlighter \<Rightarrow> registry \<Rightarrow> string \<Rightarrow> string list option \<Rightarrow> mstore \<Rightarrow> houtput hres" where
  "highlightAuto hl r s languageSubset h =
     (let subset = (case languageSubset of
            Some l \<Rightarrow> l
          | None \<Rightarrow> (case opt_languages (options r) of Some l \<Rightarrow> l | None \<Rightarrow> listLanguages r));
          names = filter (autoDetection r h) (filter (\<lambda>n. getLanguage r (Some n) \<noteq> NoLang) subset);
          none = \<lparr>o_relevance = Some 0, o_value = hl_escape s, o_language = None, o_top = None, o_second = None\<rparr>
      in hbind (auto_loop hl s names (none, none) h) (\<lambda>best h'.
           hret (if truthy (o_language (snd best))
                 then (fst best)\<lparr>o_second := Some (o_language (snd best), o_relevance (snd best))\<rparr>
                 else fst best) h'))"

definition processSubLanguage :: "highlighter \<Rightarrow> registry \<Rightarrow> sub_language \<Rightarrow> hmode \<Rightarrow> hrun \<Rightarrow> mstore \<Rightarrow> (string \<times> hrun) hres" where
  "processSubLanguage hl r sub m st h =
     (let counted = (\<lambda>o1 st. if num_gt (m_relevance m) (Some 0)
            then st\<lparr>run_relevance := add_num (run_relevance st) (o_relevance o1)\<rparr> else st)
      in case sub of
           SubName name \<Rightarrow>
             if lang_lookup r name = NoLang then hret (hl_escape (mode_buffer st), st) h
             else hbind (hl name (mode_buffer st) True (case map_of (continuations st) name of None \<Rightarrow> None | Some c \<Rightarrow> c) h) (\<lambda>o1 h'.
               hret (buildSpan (options r) (o_language o1) (o_value o1) False True,
                     (counted o1 st)\<lparr>continuations := dict_set name (o_top o1) (continuations st)\<rparr>) h')
         | SubList names \<Rightarrow>
             hbind (highlightAuto hl r (mode_buffer st) (if names = [] then None else Some names) h) (\<lambda>o1 h'.
               hret (buildSpan (options r) (o_language o1) (o_value o1) False True, counted o1 st) h'))"

definition processBuffer :: "highlighter \<Rightarrow> registry \<Rightarrow> bool \<Rightarrow> hrun \<Rightarrow> mstore \<Rightarrow> hrun hres" where
  "processBuffer hl r ci st h =
     (case frames st of
        [] \<Rightarrow> hthrow (HType ''subLanguage of undefined'') h
      | a # fs \<Rightarrow>
          (case subLanguage (mode_at h a) of
             Some sub \<Rightarrow>
               hbind (processSubLanguage hl r sub (mode_at h a) st h) (\<lambda>(s, st') h'.
                 hret (st'\<lparr>out := out st' @ s, mode_buffer := []\<rparr>) h')
           | None \<Rightarrow>
               (case processKeywords (options r) ci (mode_at h a) st of
                  None \<Rightarrow> None
                | Some (Inl e) \<Rightarrow> hthrow e h
                | Some (Inr (s, rel)) \<Rightarrow> hret (st\<lparr>out := out st @ s, mode_buffer := [], run_relevance := rel\<rparr>) h)))"

subsection \<open>processLexeme\<close>

definition startNewMode :: "hoptions \<Rightarrow> mstore \<Rightarrow> nat \<Rightarrow> hrun \<Rightarrow> hrun" where
  "startNewMode opts h a st =
     st\<lparr>out := out st @ buildSpan opts (className (mode_at h a)) [] True False, frames := a # frames st\<rparr>"

text \<open>The branch of a lexeme that begins a mode.\<close>

definition enter_mode :: "highlighter \<Rightarrow> registry \<Rightarrow> bool \<Rightarrow> nat \<Rightarrow> string \<Rightarrow> hrun \<Rightarrow> mstore \<Rightarrow> (nat \<times> hrun) hres" where
  "enter_mode hl r ci new lexeme st h =
     (let m = mode_at h new
      in hbind
        (if on (skip m) then hret (st\<lparr>mode_buffer := mode_buffer st @ lexeme\<rparr>) h
         else hbind (processBuffer hl r ci
                (if on (excludeBegin m) then st\<lparr>mode_buffer := mode_buffer st @ lexeme\<rparr> else st) h) (\<lambda>st1 h1.
              hret (if \<not> on (returnBegin m) \<and> \<not> on (excludeBegin m) then st1\<lparr>mode_buffer := lexeme\<rparr> else st1) h1))
        (\<lambda>st2 h2. hret (if on (returnBegin m) then 0 else length lexeme, startNewMode (options r) h2 new st2) h2))"

definition closing :: "mstore \<Rightarrow> nat \<Rightarrow> string" where
  "closing h a = (if truthy (className (mode_at h a)) then spanEndTag else [])"

definition end_relevance :: "hmode \<Rightarrow> nat option \<Rightarrow> nat option" where
  "end_relevance m rel =
     (if \<not> on (skip m) \<and> (subLanguage m = None \<or> subLanguage m = Some (SubName []))
      then add_num rel (m_relevance m) else rel)"

text \<open>The frames that end with a mode, up to and including it.\<close>

fun close_modes :: "mstore \<Rightarrow> nat list \<Rightarrow> nat list \<Rightarrow> hrun \<Rightarrow> hrun" where
  "close_modes h target [] st = st"
| "close_modes h target (a # fs) st =
     (let st1 = st\<lparr>out := out st @ closing h a,
                   run_relevance := end_relevance (mode_at h a) (run_relevance st), frames := fs\<rparr>
      in if fs = target then st1 else close_modes h target fs st1)"

definition leave_mode :: "highlighter \<Rightarrow> registry \<Rightarrow> bool \<Rightarrow> nat list \<Rightarrow> string \<Rightarrow> hrun \<Rightarrow> mstore \<Rightarrow> (nat \<times> hrun) hres" where
  "leave_mode hl r ci end_mode lexeme st h =
     (let origin = mode_at h (hd (frames st))
      in hbind
        (if on (skip origin) then hret (st\<lparr>mode_buffer := mode_buffer st @ lexeme\<rparr>) h
         else hbind (processBuffer hl r ci
                (if \<not> (on (returnEnd origin) \<or> on (excludeEnd origin))
                 then st\<lparr>mode_buffer := mode_buffer st @ lexeme\<rparr> else st) h) (\<lambda>st1 h1.
              hret (if on (excludeEnd origin) then st1\<lparr>mode_buffer := lexeme\<rparr> else st1) h1))
        (\<lambda>st2 h2.
          let st3 = close_modes h2 (tl end_mode) (frames st2) st2;
              e = mode_at h2 (hd end_mode);
              n = (if on (returnEnd origin) then 0 else length lexeme)
          in case starts e of
               None \<Rightarrow> hret (n, st3) h2
             | Some s \<Rightarrow>
                 (let h3 = (if on (endSameAsBegin e) then upd s (\<lambda>x. x\<lparr>endRe := endRe e\<rparr>) h2 else h2)
                  in hret (n, startNewMode (options r) h3 s st3) h3)))"

definition processLexeme :: "highlighter \<Rightarrow> registry \<Rightarrow> bool \<Rightarrow> bool \<Rightarrow> string \<Rightarrow> string \<Rightarrow> hrun \<Rightarrow> mstore \<Rightarrow> (nat \<times> hrun) hres" where
  "processLexeme hl r ci ignore_illegals buffer lexeme st0 h =
     (let st = st0\<lparr>mode_buffer := mode_buffer st0 @ buffer\<rparr>
      in case frames st of
           [] \<Rightarrow> hthrow (HType ''contains of undefined'') h
         | a # fs \<Rightarrow>
             hbind (subMode lexeme a h) (\<lambda>new_mode h1.
               case new_mode of
                 Some new \<Rightarrow> enter_mode hl r ci new lexeme st h1
               | None \<Rightarrow>
                   (case endOfMode h1 (frames st) lexeme of
                      Inl e \<Rightarrow> hthrow e h1
                    | Inr (Some end_mode) \<Rightarrow> leave_mode hl r ci end_mode lexeme st h1
                    | Inr None \<Rightarrow>
                        if isIllegal ignore_illegals lexeme (mode_at h1 a) then hthrow (HIllegal lexeme) h1
                        else hret (if lexeme = [] then 1 else length lexeme,
                                   st\<lparr>mode_buffer := mode_buffer st @ lexeme\<rparr>) h1)))"

subsection \<open>highlight\<close>

fun highlight_loop :: "nat \<Rightarrow> highlighter \<Rightarrow> registry \<Rightarrow> bool \<Rightarrow> bool \<Rightarrow> string \<Rightarrow> nat \<Rightarrow> hrun \<Rightarrow> mstore \<Rightarrow> (nat \<times> hrun) hres" where
  "highlight_loop 0 hl r ci ignore_illegals s index st h = None"
| "highlight_loop (Suc n) hl r ci ignore_illegals s index st h =
     (case frames st of
        [] \<Rightarrow> hthrow (HType ''terminators of undefined'') h
      | a # fs \<Rightarrow>
          (case terminators (mode_at h a) of
             None \<Rightarrow> hthrow (HType ''lastIndex of undefined'') h
           | Some t \<Rightarrow>
               (case Option.bind t (\<lambda>x. exec_at x s index) of
                  None \<Rightarrow> hret (index, st) h
                | Some m \<Rightarrow>
                    hbind (processLexeme hl r ci ignore_illegals (substring s index (m_index m)) (cap0 m) st h) (\<lambda>(count, st1) h1.
                      highlight_loop n hl r ci ignore_illegals s (m_index m + count) st1 h1))))"

text \<open>The spans of a continuation are opened again, the outermost first.\<close>

fun reopen :: "hoptions \<Rightarrow> mstore \<Rightarrow> nat \<Rightarrow> nat list \<Rightarrow> string \<Rightarrow> herr + string" where
  "reopen opts h language [] acc = Inl (HType ''className of undefined'')"
| "reopen opts h language (a # fs) acc =
     (if fs = [] \<and> a = language then Inr acc
      else reopen opts h language fs (buildSpan opts (className (mode_at h a)) [] True False @ acc))"

definition dangling :: "mstore \<Rightarrow> nat list \<Rightarrow> string" where
  "dangling h fs = concat (map (closing h) (butlast fs))"

definition highlight_run :: "nat \<Rightarrow> highlighter \<Rightarrow> registry \<Rightarrow> bool \<Rightarrow> string \<Rightarrow> string \<Rightarrow> bool \<Rightarrow> hrun \<Rightarrow> mstore \<Rightarrow> houtput hres" where
  "highlight_run n hl r ci name s ignore_illegals st h =
     hbind (highlight_loop n hl r ci ignore_illegals s 0 st h) (\<lambda>(index, st1) h1.
       hbind (processBuffer hl r ci (st1\<lparr>mode_buffer := mode_buffer st1 @ drop index s\<rparr>) h1) (\<lambda>st2 h2.
         hret \<lparr>o_relevance = run_relevance st2, o_value = out st2 @ dangling h2 (frames st2),
               o_language = Some name, o_top = Some (frames st2), o_second = None\<rparr> h2))"

text \<open>\<open>catch\<close>: only errors whose message holds the word Illegal.\<close>

definition is_illegal_error :: "herr \<Rightarrow> bool" where
  "is_illegal_error e =
     (case e of HIllegal l \<Rightarrow> True | HUnknown name \<Rightarrow> indexOf name ''Illegal'' \<noteq> None | _ \<Rightarrow> False)"

definition highlight_catch :: "string \<Rightarrow> houtput hres \<Rightarrow> houtput hres" where
  "highlight_catch s res =
     (case res of
        Some (Inl e, h) \<Rightarrow>
          if is_illegal_error e
          then hret \<lparr>o_relevance = Some 0, o_value = hl_escape s, o_language = None, o_top = None, o_second = None\<rparr> h
          else Some (Inl e, h)
      | other \<Rightarrow> other)"

definition highlight_with :: "nat \<Rightarrow> highlighter \<Rightarrow> registry \<Rightarrow> highlighter" where
  "highlight_with n hl r name s ignore_illegals continuation h =
     (case getLanguage r (Some name) of
        NoLang \<Rightarrow> hthrow (HUnknown name) h
      | LangBuiltin \<Rightarrow> hthrow (HBuiltin name) h
      | LangMode language \<Rightarrow>
          hbind (compileLanguage n language h) (\<lambda>_ h1.
            let fs = (case continuation of None \<Rightarrow> [language] | Some c \<Rightarrow> c);
                ci = on (case_insensitive (mode_at h1 language))
            in case reopen (options r) h1 language fs [] of
                 Inl e \<Rightarrow> hthrow e h1
               | Inr opened \<Rightarrow>
                   highlight_catch s (highlight_run n hl r ci name s ignore_illegals
                     \<lparr>frames = fs, continuations = [], out = opened, mode_buffer = [], run_relevance = Some 0\<rparr> h1)))"

primrec highlight :: "nat \<Rightarrow> registry \<Rightarrow> highlighter" where
  "highlight 0 r name s ignore_illegals continuation h = None"
| "highlight (Suc n) r name s ignore_illegals continuation h =
     highlight_with n (highlight n r) r name s ignore_illegals continuation h"

end
