(* ===== verification/Hljs_Grammars.thy ===== *)
theory Hljs_Grammars
  imports Hljs_Highlight
begin

text \<open>
  The expressions and modes every grammar of highlight.js can use (\<^verbatim>\<open>remark.js\<close>, module 15),
  and the grammar of JSON. The common modes are objects shared by all grammars: they lie at the start of the
  store, in the order of the source. A grammar is a function that adds its objects to the store.
\<close>

subsection \<open>Common expressions\<close>

definition IDENT_RE :: string where
  "IDENT_RE = bs ''[a-zA-Z]%w*''"

definition UNDERSCORE_IDENT_RE :: string where
  "UNDERSCORE_IDENT_RE = bs ''[a-zA-Z_]%w*''"

definition NUMBER_RE :: string where
  "NUMBER_RE = bs ''%b%d+(%.%d+)?''"

definition C_NUMBER_RE :: string where
  "C_NUMBER_RE = bs ''(-?)(%b0[xX][a-fA-F0-9]+|(%b%d+(%.%d*)?|%.%d+)([eE][-+]?%d+)?)''"

definition BINARY_NUMBER_RE :: string where
  "BINARY_NUMBER_RE = bs ''%b(0b[01]+)''"

definition RE_STARTERS_RE :: string where
  "RE_STARTERS_RE = ''!|!=|!==|%|%=|&|&&|&='' @
     bs ''|%*|%*=|%+|%+=|,|-|-=|/=|/|:|;|<<|<<=|<=|<|===|==|=|>>>=|>>=|>=|>>>|>>|>|%?|%[|%{|%(|%^|%^=|%||%|=|%|%||~''"

subsection \<open>Common modes\<close>

definition BACKSLASH_ESCAPE :: hmode where
  "BACKSLASH_ESCAPE = no_mode\<lparr>m_begin := Some (bs ''%%[%s%S]''), m_relevance := Some 0\<rparr>"

definition APOS_STRING_MODE :: hmode where
  "APOS_STRING_MODE = no_mode\<lparr>className := Some ''string'', m_begin := Some [CHR 0x27], m_end := Some [CHR 0x27],
     illegal := Some (bs ''%n''), contains := Some [Ref 0]\<rparr>"

definition QUOTE_STRING_MODE :: hmode where
  "QUOTE_STRING_MODE = no_mode\<lparr>className := Some ''string'', m_begin := Some [CHR 0x22], m_end := Some [CHR 0x22],
     illegal := Some (bs ''%n''), contains := Some [Ref 0]\<rparr>"

definition PHRASAL_WORDS_MODE :: hmode where
  "PHRASAL_WORDS_MODE = no_mode\<lparr>m_begin := Some (bs ''%b(a|an|the|are|I'' @ [CHR 0x27] @ ''m|isn'' @ [CHR 0x27] @ ''t|don'' @ [CHR 0x27] @
     ''t|doesn'' @ [CHR 0x27] @ ''t|won'' @ [CHR 0x27] @
     bs ''t|but|just|should|pretty|simply|enough|gonna|going|wtf|so|such|will|you|your|they|like|more)%b'')\<rparr>"

definition DOCTAG_MODE :: hmode where
  "DOCTAG_MODE = no_mode\<lparr>className := Some ''doctag'', m_begin := Some ''(?:TODO|FIXME|NOTE|BUG|XXX):'', m_relevance := Some 0\<rparr>"

text \<open>\<open>COMMENT(begin, end, inherits)\<close>: the mode and the object for its tags, put at the end of
  the store. \<open>PHRASAL_WORDS_MODE\<close> is at address 3.\<close>

definition COMMENT :: "string \<Rightarrow> string \<Rightarrow> hmode \<Rightarrow> mstore \<Rightarrow> nat \<times> mstore" where
  "COMMENT b e inherits h =
     (let mode = inherit_mode (no_mode\<lparr>className := Some ''comment'', m_begin := Some b, m_end := Some e, contains := Some []\<rparr>) [inherits]
      in (length h, h @ [mode\<lparr>contains := Some (the (contains mode) @ [Ref 3, Ref (Suc (length h))])\<rparr>, DOCTAG_MODE]))"

definition NUMBER_MODE :: hmode where
  "NUMBER_MODE = no_mode\<lparr>className := Some ''number'', m_begin := Some NUMBER_RE, m_relevance := Some 0\<rparr>"

definition C_NUMBER_MODE :: hmode where
  "C_NUMBER_MODE = no_mode\<lparr>className := Some ''number'', m_begin := Some C_NUMBER_RE, m_relevance := Some 0\<rparr>"

definition BINARY_NUMBER_MODE :: hmode where
  "BINARY_NUMBER_MODE = no_mode\<lparr>className := Some ''number'', m_begin := Some BINARY_NUMBER_RE, m_relevance := Some 0\<rparr>"

definition CSS_NUMBER_MODE :: hmode where
  "CSS_NUMBER_MODE = no_mode\<lparr>className := Some ''number'', m_begin := Some (NUMBER_RE @ ''('' @
     ''%|em|ex|ch|rem'' @ ''|vw|vh|vmin|vmax'' @ ''|cm|mm|in|pt|pc|px'' @ ''|deg|grad|rad|turn'' @ ''|s|ms'' @
     ''|Hz|kHz'' @ ''|dpi|dpcm|dppx'' @ '')?''), m_relevance := Some 0\<rparr>"

text \<open>\<open>REGEXP_MODE\<close> and the mode of the character classes in it.\<close>

definition REGEXP_MODE :: "nat \<Rightarrow> hmode list" where
  "REGEXP_MODE a = [no_mode\<lparr>className := Some ''regexp'', m_begin := Some (bs ''%/''), m_end := Some (bs ''%/[gimuy]*''),
       illegal := Some (bs ''%n''), contains := Some [Ref 0, Ref (Suc a)]\<rparr>,
     no_mode\<lparr>m_begin := Some (bs ''%[''), m_end := Some (bs ''%]''), m_relevance := Some 0, contains := Some [Ref 0]\<rparr>]"

definition TITLE_MODE :: hmode where
  "TITLE_MODE = no_mode\<lparr>className := Some ''title'', m_begin := Some IDENT_RE, m_relevance := Some 0\<rparr>"

definition UNDERSCORE_TITLE_MODE :: hmode where
  "UNDERSCORE_TITLE_MODE = no_mode\<lparr>className := Some ''title'', m_begin := Some UNDERSCORE_IDENT_RE, m_relevance := Some 0\<rparr>"

definition METHOD_GUARD :: hmode where
  "METHOD_GUARD = no_mode\<lparr>m_begin := Some (bs ''%.%s*'' @ UNDERSCORE_IDENT_RE), m_relevance := Some 0\<rparr>"

text \<open>The store after the common modes: \<open>C_LINE_COMMENT_MODE\<close> is at 4, \<open>C_BLOCK_COMMENT_MODE\<close> at 6,
  \<open>HASH_COMMENT_MODE\<close> at 8, \<open>NUMBER_MODE\<close> at 10, \<open>C_NUMBER_MODE\<close> at 11, \<open>REGEXP_MODE\<close> at 14.\<close>

definition common_modes :: mstore where
  "common_modes =
     (let h0 = [BACKSLASH_ESCAPE, APOS_STRING_MODE, QUOTE_STRING_MODE, PHRASAL_WORDS_MODE];
          h1 = snd (COMMENT ''//'' ''$'' no_mode h0);
          h2 = snd (COMMENT (bs ''/%*'') (bs ''%*/'') no_mode h1);
          h3 = snd (COMMENT ''#'' ''$'' no_mode h2)
      in h3 @ [NUMBER_MODE, C_NUMBER_MODE, BINARY_NUMBER_MODE, CSS_NUMBER_MODE] @ REGEXP_MODE 14 @
         [TITLE_MODE, UNDERSCORE_TITLE_MODE, METHOD_GUARD])"

text \<open>The addresses of the common modes.\<close>

abbreviation (input) hl_BACKSLASH_ESCAPE :: nat where "hl_BACKSLASH_ESCAPE \<equiv> 0"
abbreviation (input) hl_APOS_STRING_MODE :: nat where "hl_APOS_STRING_MODE \<equiv> 1"
abbreviation (input) hl_QUOTE_STRING_MODE :: nat where "hl_QUOTE_STRING_MODE \<equiv> 2"
abbreviation (input) hl_PHRASAL_WORDS_MODE :: nat where "hl_PHRASAL_WORDS_MODE \<equiv> 3"
abbreviation (input) hl_C_LINE_COMMENT_MODE :: nat where "hl_C_LINE_COMMENT_MODE \<equiv> 4"
abbreviation (input) hl_C_BLOCK_COMMENT_MODE :: nat where "hl_C_BLOCK_COMMENT_MODE \<equiv> 6"
abbreviation (input) hl_HASH_COMMENT_MODE :: nat where "hl_HASH_COMMENT_MODE \<equiv> 8"
abbreviation (input) hl_NUMBER_MODE :: nat where "hl_NUMBER_MODE \<equiv> 10"
abbreviation (input) hl_C_NUMBER_MODE :: nat where "hl_C_NUMBER_MODE \<equiv> 11"
abbreviation (input) hl_BINARY_NUMBER_MODE :: nat where "hl_BINARY_NUMBER_MODE \<equiv> 12"
abbreviation (input) hl_CSS_NUMBER_MODE :: nat where "hl_CSS_NUMBER_MODE \<equiv> 13"
abbreviation (input) hl_REGEXP_MODE :: nat where "hl_REGEXP_MODE \<equiv> 14"
abbreviation (input) hl_TITLE_MODE :: nat where "hl_TITLE_MODE \<equiv> 16"
abbreviation (input) hl_UNDERSCORE_TITLE_MODE :: nat where "hl_UNDERSCORE_TITLE_MODE \<equiv> 17"
abbreviation (input) hl_METHOD_GUARD :: nat where "hl_METHOD_GUARD \<equiv> 18"

text \<open>An object literal that is a mode is put at the end of the store.\<close>

definition new :: "hmode \<Rightarrow> mstore \<Rightarrow> nat \<times> mstore" where
  "new m h = (length h, h @ [m])"

subsection \<open>JSON\<close>

definition LITERALS :: kwords where
  "LITERALS = KObj [(''literal'', ''true false null'')]"

definition VALUE_CONTAINER :: "contained list \<Rightarrow> hmode" where
  "VALUE_CONTAINER TYPES = no_mode\<lparr>m_end := Some '','', endsWithParent := Some True, excludeEnd := Some True,
     contains := Some TYPES, m_keywords := Some LITERALS\<rparr>"

text \<open>\<open>TYPES\<close> is one array, to which the objects and arrays are added before any of its users is compiled.\<close>

definition json :: "mstore \<Rightarrow> nat \<times> mstore" where
  "json h =
     (let n = length h;
          TYPES = [Ref 2, Ref 11, Ref (n + 3), Ref (n + 5)];
          attr = no_mode\<lparr>className := Some ''attr'', m_begin := Some [CHR 0x22], m_end := Some [CHR 0x22],
                   contains := Some [Ref 0], illegal := Some (bs ''%n'')\<rparr>;
          OBJECT = no_mode\<lparr>m_begin := Some ''{'', m_end := Some ''}'', contains := Some [Ref (n + 1), Ref (n + 2)],
                     illegal := Some (bs ''%S'')\<rparr>;
          ARRAY = no_mode\<lparr>m_begin := Some (bs ''%[''), m_end := Some (bs ''%]''), contains := Some [Ref (n + 4)],
                    illegal := Some (bs ''%S'')\<rparr>;
          language = no_mode\<lparr>contains := Some TYPES, m_keywords := Some LITERALS, illegal := Some (bs ''%S'')\<rparr>
      in (n + 6, h @ [VALUE_CONTAINER TYPES, attr,
            inherit_mode (VALUE_CONTAINER TYPES) [no_mode\<lparr>m_begin := Some '':''\<rparr>], OBJECT,
            inherit_mode (VALUE_CONTAINER TYPES) [], ARRAY, language]))"

end
