(* ===== verification/Hljs_Highlight_Facts.thy ===== *)
theory Hljs_Highlight_Facts
  imports Hljs_Highlight
begin

text \<open>
  The highlighter keeps the text. A self-contained grammar (\<open>grammar\<close>: no embedded languages, no modes that give a lexeme
  back, and an empty lexeme always enters or leaves a mode) is one for which \<open>highlight\<close> returns on
  every input, within a number of steps linear in the length of the text, and its result is balanced
  markup of exactly that text (\<open>highlight_run_ok\<close>).
\<close>

subsection \<open>Markup with spans\<close>

datatype hpiece = HOpen string | HClose | HChars string

primrec hpiece_str :: "hpiece \<Rightarrow> string" where
  "hpiece_str (HOpen c) = ''<span class='' @ [CHR 0x22] @ c @ [CHR 0x22] @ ''>''"
| "hpiece_str HClose = ''</span>''"
| "hpiece_str (HChars s) = hl_escape s"

definition hpieces_str :: "hpiece list \<Rightarrow> string" where
  "hpieces_str ps = concat (map hpiece_str ps)"

fun htext :: "hpiece list \<Rightarrow> string" where
  "htext [] = []"
| "htext (HChars s # ps) = s @ htext ps"
| "htext (_ # ps) = htext ps"

text \<open>The number of open spans after some pieces; \<open>None\<close> when a span is closed that was not opened.\<close>

fun hdepth :: "nat \<Rightarrow> hpiece list \<Rightarrow> nat option" where
  "hdepth d [] = Some d"
| "hdepth d (HOpen c # ps) = hdepth (Suc d) ps"
| "hdepth d (HClose # ps) = (case d of 0 \<Rightarrow> None | Suc e \<Rightarrow> hdepth e ps)"
| "hdepth d (HChars s # ps) = hdepth d ps"

definition spans :: "hpiece list \<Rightarrow> string set" where
  "spans ps = {c. HOpen c \<in> set ps}"

lemma spans_simps [simp]:
  "spans [] = {}" "spans (HOpen c # ps) = insert c (spans ps)" "spans (HClose # ps) = spans ps"
  "spans (HChars s # ps) = spans ps" "spans (ps @ qs) = spans ps \<union> spans qs"
  by (auto simp: spans_def)

text \<open>Markup of the text \<open>t\<close> whose spans have classes in \<open>K\<close> and leave \<open>d\<close> of them open.\<close>

definition markup :: "string set \<Rightarrow> string \<Rightarrow> string \<Rightarrow> nat \<Rightarrow> bool" where
  "markup K s t d \<longleftrightarrow> (\<exists>ps. s = hpieces_str ps \<and> htext ps = t \<and> hdepth 0 ps = Some d \<and> spans ps \<subseteq> K)"

lemma htext_append [simp]: "htext (ps @ qs) = htext ps @ htext qs"
  by (induction ps rule: htext.induct) auto

lemma hdepth_append: "hdepth d (ps @ qs) = Option.bind (hdepth d ps) (\<lambda>e. hdepth e qs)"
  by (induction d ps rule: hdepth.induct) (auto split: nat.splits)

lemma hdepth_shift: "hdepth d ps = Some e \<Longrightarrow> hdepth (k + d) ps = Some (k + e)"
  by (induction d ps arbitrary: e rule: hdepth.induct) (auto split: nat.splits)

lemma hpieces_str_append [simp]: "hpieces_str (ps @ qs) = hpieces_str ps @ hpieces_str qs"
  by (simp add: hpieces_str_def)

lemma markup_Nil: "markup K [] [] 0"
  unfolding markup_def by (intro exI [of _ "[]"]) (simp add: hpieces_str_def)

lemma markup_append: "markup K s t d \<Longrightarrow> markup K s' t' 0 \<Longrightarrow> markup K (s @ s') (t @ t') d"
proof -
  assume "markup K s t d" "markup K s' t' 0"
  then obtain ps qs where "s = hpieces_str ps" "htext ps = t" "hdepth 0 ps = Some d" "spans ps \<subseteq> K"
    "s' = hpieces_str qs" "htext qs = t'" "hdepth 0 qs = Some 0" "spans qs \<subseteq> K"
    unfolding markup_def by blast
  with hdepth_shift [of 0 qs 0 d] show ?thesis
    unfolding markup_def by (intro exI [of _ "ps @ qs"]) (simp add: hdepth_append)
qed

lemma markup_snoc:
  "markup K s t d \<Longrightarrow> hdepth d [p] = Some e \<Longrightarrow> spans [p] \<subseteq> K \<Longrightarrow> markup K (s @ hpiece_str p) (t @ htext [p]) e"
proof -
  assume "markup K s t d" "hdepth d [p] = Some e" "spans [p] \<subseteq> K"
  then obtain ps where "s = hpieces_str ps" "htext ps = t" "hdepth 0 ps = Some d" "hdepth d [p] = Some e"
    "spans ps \<subseteq> K" "spans [p] \<subseteq> K"
    unfolding markup_def by blast
  then show ?thesis
    unfolding markup_def by (intro exI [of _ "ps @ [p]"]) (simp add: hdepth_append hpieces_str_def)
qed

lemma markup_chars: "markup K s t d \<Longrightarrow> markup K (s @ hl_escape u) (t @ u) d"
  using markup_snoc [of K s t d "HChars u" d] by simp

lemma markup_close: "markup K s t (Suc d) \<Longrightarrow> markup K (s @ spanEndTag) t d"
  using markup_snoc [of K s t "Suc d" HClose d] by (simp add: spanEndTag_def)

lemma buildSpan_pieces:
  "truthy c \<Longrightarrow> buildSpan opts c s leaveOpen np =
    hpiece_str (HOpen ((if np then [] else classPrefix opts) @ the c)) @ s @ (if leaveOpen then [] else spanEndTag)"
  "\<not> truthy c \<Longrightarrow> buildSpan opts c s leaveOpen np = s"
  by (simp_all add: buildSpan_def)

declare hpiece_str.simps(1) [simp del]

lemma markup_open:
  "markup K s t d \<Longrightarrow> (truthy c \<Longrightarrow> classPrefix opts @ the c \<in> K) \<Longrightarrow> markup K (s @ buildSpan opts c [] True False) t (if truthy c then Suc d else d)"
  using markup_snoc [of K s t d "HOpen (classPrefix opts @ the c)" "Suc d"] by (simp add: buildSpan_pieces)

lemma markup_span:
  assumes s: "markup K s t 0" and c: "truthy c \<Longrightarrow> (if np then [] else classPrefix opts) @ the c \<in> K"
  shows "markup K (buildSpan opts c s False np) t 0"
proof -
  have "markup K (hpiece_str (HOpen x)) [] 1" if "x \<in> K" for x
    using markup_snoc [OF markup_Nil, of "HOpen x" 1 K] that by simp
  then have "markup K (hpiece_str (HOpen x) @ s @ spanEndTag) t 0" if "x \<in> K" for x
    using markup_close [of K "hpiece_str (HOpen x) @ s" t 0] markup_append [OF _ s] that by fastforce
  with s c show ?thesis
    by (cases "truthy c") (simp_all add: buildSpan_pieces)
qed

subsection \<open>Self-contained grammars\<close>

definition solid :: "hmode \<Rightarrow> bool" where
  "solid m = (case terminators m of Some (Some r) \<Rightarrow> 0 < rx_min (pat r) | _ \<Rightarrow> True)"

definition calm :: "mstore \<Rightarrow> hmode \<Rightarrow> bool" where
  "calm h m =
     (solid m \<or>
      (case first_mode h (refs (contains m)) [] of
         Some c \<Rightarrow> solid (mode_at h c)
       | None \<Rightarrow> testRe (endRe m) [] \<and> (case starts m of None \<Rightarrow> True | Some s \<Rightarrow> solid (mode_at h s))))"

definition keywords_ok :: "hmode \<Rightarrow> bool" where
  "keywords_ok m =
     (case m_keywords m of
        Some (KTable tbl) \<Rightarrow> map_of tbl ''hasOwnProperty'' = None \<and>
          (case lexemesRe m of None \<Rightarrow> False | Some r \<Rightarrow> 0 < rx_min (pat r))
      | _ \<Rightarrow> True)"

definition self_contained :: "mstore \<Rightarrow> nat list \<Rightarrow> hmode \<Rightarrow> bool" where
  "self_contained h A m =
     (terminators m \<noteq> None \<and> subLanguage m = None \<and> \<not> on (endSameAsBegin m) \<and> \<not> on (endsParent m) \<and>
      \<not> on (returnBegin m) \<and> \<not> on (returnEnd m) \<and> keywords_ok m \<and> calm h m \<and>
      list_all (\<lambda>a. a \<in> set A) (refs (contains m)) \<and>
      (case starts m of None \<Rightarrow> True | Some s \<Rightarrow> s \<in> set A))"

definition grammar :: "mstore \<Rightarrow> nat \<Rightarrow> nat list \<Rightarrow> bool" where
  "grammar h root A =
     (root \<in> set A \<and> list_all (\<lambda>a. self_contained h A (mode_at h a)) A \<and>
      endRe (mode_at h root) = None \<and> \<not> on (endsWithParent (mode_at h root)))"

text \<open>The classes of the spans that the modes of a grammar produce.\<close>

definition class_names :: "hmode \<Rightarrow> string list" where
  "class_names m =
     (case className m of None \<Rightarrow> [] | Some c \<Rightarrow> [c]) @
     (case m_keywords m of Some (KTable tbl) \<Rightarrow> map (\<lambda>(word, cls, w). cls) tbl | _ \<Rightarrow> [])"

definition span_classes :: "hoptions \<Rightarrow> mstore \<Rightarrow> nat list \<Rightarrow> string set" where
  "span_classes opts h A = set (map ((@) (classPrefix opts)) (concat (map (\<lambda>a. class_names (mode_at h a)) A)))"

lemma span_classes_member:
  "a \<in> set A \<Longrightarrow> c \<in> set (class_names (mode_at h a)) \<Longrightarrow> classPrefix opts @ c \<in> span_classes opts h A"
  by (auto simp: span_classes_def)

lemma span_classes_mode:
  "a \<in> set A \<Longrightarrow> truthy (className (mode_at h a)) \<Longrightarrow> classPrefix opts @ the (className (mode_at h a)) \<in> span_classes opts h A"
  by (rule span_classes_member) (auto simp: class_names_def truthy_def split: option.splits)

lemma span_classes_keyword:
  "a \<in> set A \<Longrightarrow> m_keywords (mode_at h a) = Some (KTable tbl) \<Longrightarrow> map_of tbl k = Some (cls, w) \<Longrightarrow>
    classPrefix opts @ cls \<in> span_classes opts h A"
  by (rule span_classes_member) (force simp: class_names_def dest: map_of_SomeD)+

lemma grammar_mode:
  "grammar h root A \<Longrightarrow> a \<in> set A \<Longrightarrow> self_contained h A (mode_at h a)"
  by (simp add: grammar_def list_all_iff)

lemma hbind_simps [simp]:
  "hbind (hret x h) f = f x h" "hbind (hthrow e h) f = hthrow e h" "hbind None f = None"
  "hret x h = hret y h' \<longleftrightarrow> x = y \<and> h = h'"
  "(hthrow e h :: 'a hres) = hthrow e' h' \<longleftrightarrow> e = e' \<and> h = h'"
  by (simp_all add: hbind_def hret_def hthrow_def)

subsection \<open>The buffer\<close>

lemma take_substring:
  "i \<le> j \<Longrightarrow> take i s @ substring s i j = take j s"
  by (simp add: substring_def) (metis le_add_diff_inverse take_add)

lemma match_take:
  "match_splits r s m \<Longrightarrow> take (m_index m) s @ cap0 m = take (m_index m + length (cap0 m)) s"
  unfolding match_splits_def by (metis append_take_drop_id append_eq_append_conv append.assoc take_add)

lemma keyword_loop_ok:
  "map_of tbl ''hasOwnProperty'' = None \<Longrightarrow> 0 < rx_min (pat r) \<Longrightarrow> last_index \<le> length buf \<Longrightarrow>
    markup K acc (take last_index buf) 0 \<Longrightarrow>
    (\<And>k cls w. map_of tbl k = Some (cls, w) \<Longrightarrow> classPrefix opts @ cls \<in> K) \<Longrightarrow>
    \<exists>s rel'. keyword_loop opts ci tbl r buf last_index acc rel = Some (Inr (s, rel')) \<and> markup K s buf 0"
proof (induction opts ci tbl r buf last_index acc rel rule: keyword_loop.induct)
  case (1 opts ci tbl r buf last_index acc rel)
  show ?case
  proof (cases "exec_at r buf last_index")
    case None
    then show ?thesis
      using markup_chars [OF 1(5), of "drop last_index buf"] by (simp add: keyword_loop.simps)
  next
    case (Some m)
    let ?kw = "map_of tbl (if ci then toLowerCase (cap0 m) else cap0 m)"
    let ?acc = "acc @ hl_escape (substring buf last_index (m_index m))"
    let ?here = "case ?kw of None \<Rightarrow> hl_escape (cap0 m)
        | Some (cls, w) \<Rightarrow> buildSpan opts (Some cls) (hl_escape (cap0 m)) False False"
    have kw: "keywordMatch ci tbl m = Inr ?kw"
      using 1(2) by (simp add: keywordMatch_def)
    have m: "match_splits r buf m" "last_index \<le> m_index m"
      using exec_at_splits [OF Some] by auto
    then have ne: "cap0 m \<noteq> []" and bound: "m_index m + length (cap0 m) \<le> length buf"
      using 1(3) by (auto simp: match_splits_def)
    have acc: "markup K ?acc (take (m_index m) buf) 0"
      using markup_chars [OF 1(5), of "substring buf last_index (m_index m)"] take_substring [OF m(2), of buf] by simp
    have "markup K (hl_escape (cap0 m)) (cap0 m) 0"
      using markup_chars [OF markup_Nil] by simp
    then have "markup K ?here (cap0 m) 0"
      using 1(6) by (auto intro!: markup_span split: option.splits)
    from markup_append [OF acc this]
    have "markup K (?acc @ ?here) (take (m_index m + length (cap0 m)) buf) 0"
      using match_take [OF m(1)] by simp
    from 1(1) [OF Some kw ne refl refl refl 1(2,3) bound this 1(6)] show ?thesis
      using Some kw ne by (subst keyword_loop.simps) (simp add: Let_def)
  qed
qed

lemma processBuffer_ok:
  assumes "grammar h root A" "frames st = a # fs" "a \<in> set A" "span_classes (options r) h A \<subseteq> K"
  shows "\<exists>s rel. processBuffer hl r ci st h = hret (st\<lparr>out := out st @ s, mode_buffer := [], run_relevance := rel\<rparr>) h \<and>
    markup K s (mode_buffer st) 0"
proof -
  note m = grammar_mode [OF assms(1,3)]
  have plain: "markup K (hl_escape (mode_buffer st)) (mode_buffer st) 0"
    using markup_chars [OF markup_Nil] by simp
  have "\<exists>s rel. processKeywords (options r) ci (mode_at h a) st = Some (Inr (s, rel)) \<and> markup K s (mode_buffer st) 0"
  proof (cases "m_keywords (mode_at h a)")
    case None
    with plain show ?thesis by (simp add: processKeywords_def)
  next
    case (Some k)
    show ?thesis
    proof (cases k)
      case (KTable tbl)
      then obtain x where "lexemesRe (mode_at h a) = Some x" "0 < rx_min (pat x)" "map_of tbl ''hasOwnProperty'' = None"
        using m Some by (auto simp: self_contained_def keywords_ok_def split: option.splits)
      then show ?thesis
        using Some KTable keyword_loop_ok [of tbl x 0 "mode_buffer st" K "[]" "options r" ci "run_relevance st"] markup_Nil
          span_classes_keyword [OF assms(3), of h tbl] assms(4) by (fastforce simp: processKeywords_def)
    qed (use Some plain in \<open>simp_all add: processKeywords_def\<close>)
  qed
  then obtain s rel where "processKeywords (options r) ci (mode_at h a) st = Some (Inr (s, rel))"
    "markup K s (mode_buffer st) 0" by blast
  then show ?thesis
    using m assms(2) by (intro exI [of _ s] exI [of _ rel]) (simp add: processBuffer_def self_contained_def)
qed

subsection \<open>Frames\<close>

definition opened :: "mstore \<Rightarrow> nat list \<Rightarrow> nat" where
  "opened h fs = length (filter (\<lambda>a. truthy (className (mode_at h a))) (butlast fs))"

lemma markup_closings:
  "markup K s t (length (filter (\<lambda>a. truthy (className (mode_at h a))) xs) + d) \<Longrightarrow>
    markup K (s @ concat (map (closing h) xs)) t d"
proof (induction xs arbitrary: s)
  case (Cons a xs)
  then have "markup K (s @ closing h a) t (length (filter (\<lambda>a. truthy (className (mode_at h a))) xs) + d)"
    by (auto simp: closing_def intro: markup_close split: if_splits)
  from Cons.IH [OF this] show ?case by simp
qed simp

lemma close_modes_frames:
  "xs \<noteq> [] \<Longrightarrow> \<exists>rel. close_modes h target (xs @ target) st =
    st\<lparr>out := out st @ concat (map (closing h) xs), run_relevance := rel, frames := target\<rparr>"
proof (induction xs arbitrary: st)
  case (Cons a xs)
  show ?case
  proof (cases "xs = []")
    case True
    then show ?thesis by (auto simp: Let_def)
  next
    case False
    then have "xs @ target \<noteq> target" by simp
    let ?st = "st\<lparr>out := out st @ closing h a,
        run_relevance := end_relevance (mode_at h a) (run_relevance st), frames := xs @ target\<rparr>"
    obtain rel where "close_modes h target (xs @ target) ?st =
        ?st\<lparr>out := out ?st @ concat (map (closing h) xs), run_relevance := rel, frames := target\<rparr>"
      using Cons.IH [OF False] by blast
    with \<open>xs @ target \<noteq> target\<close> show ?thesis
      by (auto simp: Let_def)
  qed
qed simp

lemma endOfMode_ok:
  assumes g: "grammar h root A"
  shows "fs \<noteq> [] \<Longrightarrow> set fs \<subseteq> set A \<Longrightarrow> last fs = root \<Longrightarrow>
    endOfMode h fs lexeme = Inr None \<or>
    (\<exists>xs e target. fs = xs @ e # target \<and> target \<noteq> [] \<and> endOfMode h fs lexeme = Inr (Some (e # target)))"
proof (induction fs)
  case (Cons a fs)
  have no_climb: "climb h (a # fs) = a # fs"
    using grammar_mode [OF g, of a] Cons.prems by (simp add: self_contained_def)
  show ?case
  proof (cases "fs = []")
    case True
    with g Cons.prems show ?thesis by (simp add: grammar_def testRe_def)
  next
    case False
    show ?thesis
    proof (cases "testRe (endRe (mode_at h a)) lexeme")
      case True
      with no_climb False show ?thesis by (intro disjI2 exI [of _ "[]"]) auto
    next
      case not_end: False
      show ?thesis
      proof (cases "on (endsWithParent (mode_at h a))")
        case True
        with Cons False not_end have "endOfMode h fs lexeme = Inr None \<or>
          (\<exists>xs e target. fs = xs @ e # target \<and> target \<noteq> [] \<and> endOfMode h fs lexeme = Inr (Some (e # target)))"
          by simp
        with True not_end show ?thesis by (metis append_Cons endOfMode.simps(2))
      qed (use not_end in simp)
    qed
  qed
qed simp

subsection \<open>What the highlighter has read\<close>

definition holds :: "string set \<Rightarrow> mstore \<Rightarrow> string \<Rightarrow> hrun \<Rightarrow> bool" where
  "holds K h u st \<longleftrightarrow> (\<exists>t. markup K (out st) t (opened h (frames st)) \<and> t @ mode_buffer st = u)"

lemma holds_flush:
  assumes "grammar h root A" "frames st \<noteq> []" "set (frames st) \<subseteq> set A" "holds K h u st"
    and "span_classes (options r) h A \<subseteq> K"
  shows "\<exists>st'. processBuffer hl r ci st h = hret st' h \<and> holds K h u st' \<and> mode_buffer st' = [] \<and> frames st' = frames st"
proof -
  obtain a fs where fs: "frames st = a # fs" "a \<in> set A"
    using assms(2,3) by (cases "frames st") auto
  obtain s rel where s: "processBuffer hl r ci st h = hret (st\<lparr>out := out st @ s, mode_buffer := [], run_relevance := rel\<rparr>) h"
    "markup K s (mode_buffer st) 0"
    using processBuffer_ok [OF assms(1) fs assms(5)] by blast
  obtain t where "markup K (out st) t (opened h (frames st))" "t @ mode_buffer st = u"
    using assms(4) unfolding holds_def by blast
  with markup_append [OF _ s(2)] s(1) show ?thesis
    by (auto simp: holds_def)
qed

lemma holds_buffer: "holds K h u st \<Longrightarrow> holds K h (u @ x) (st\<lparr>mode_buffer := mode_buffer st @ x\<rparr>)"
  by (auto simp: holds_def)

lemma holds_fresh: "holds K h u st \<Longrightarrow> mode_buffer st = [] \<Longrightarrow> holds K h (u @ x) (st\<lparr>mode_buffer := x\<rparr>)"
  by (auto simp: holds_def)

lemma holds_start:
  "holds K h u st \<Longrightarrow> frames st \<noteq> [] \<Longrightarrow> a \<in> set A \<Longrightarrow> span_classes opts h A \<subseteq> K \<Longrightarrow> holds K h u (startNewMode opts h a st)"
  using markup_open [of K "out st" _ "opened h (frames st)" "className (mode_at h a)" opts] span_classes_mode [of a A h opts]
  by (fastforce simp: holds_def startNewMode_def opened_def split: if_splits)

lemma frames_startNewMode [simp]: "frames (startNewMode opts h a st) = a # frames st"
  by (simp add: startNewMode_def)

lemma holds_close:
  assumes "holds K h u st" "frames st = xs @ target" "xs \<noteq> []" "target \<noteq> []"
  shows "holds K h u (close_modes h target (frames st) st) \<and> frames (close_modes h target (frames st) st) = target"
proof -
  obtain t where t: "markup K (out st) t (opened h (frames st))" "t @ mode_buffer st = u"
    using assms(1) unfolding holds_def by blast
  have "opened h (frames st) = length (filter (\<lambda>a. truthy (className (mode_at h a))) xs) + opened h target"
    using assms(2,4) by (simp add: opened_def butlast_append)
  with t markup_closings [of K "out st" t h xs "opened h target"]
  have "markup K (out st @ concat (map (closing h) xs)) t (opened h target)" by simp
  with t close_modes_frames [OF assms(3), of h target st] show ?thesis
    unfolding assms(2) holds_def by auto
qed

lemma enter_mode_ok:
  assumes "grammar h root A" "frames st \<noteq> []" "set (frames st) \<subseteq> set A" "holds K h u st" "new \<in> set A"
    and K: "span_classes (options r) h A \<subseteq> K"
  shows "\<exists>st'. enter_mode hl r ci new lexeme st h = hret (length lexeme, st') h \<and>
    holds K h (u @ lexeme) st' \<and> frames st' = new # frames st"
proof -
  have nb: "\<not> on (returnBegin (mode_at h new))"
    using grammar_mode [OF assms(1,5)] by (simp add: self_contained_def)
  have start: "holds K h (u @ lexeme) (startNewMode (options r) h new st') \<and>
      frames (startNewMode (options r) h new st') = new # frames st"
    if "holds K h (u @ lexeme) st'" "frames st' = frames st" for st'
    using holds_start [OF that(1) _ assms(5) K] that(2) assms(2) by auto
  let ?st = "st\<lparr>mode_buffer := mode_buffer st @ lexeme\<rparr>"
  obtain st1 where st1: "processBuffer hl r ci st h = hret st1 h" "holds K h u st1" "mode_buffer st1 = []" "frames st1 = frames st"
    using holds_flush [OF assms(1-4) K] by blast
  obtain st2 where st2: "processBuffer hl r ci ?st h = hret st2 h" "holds K h (u @ lexeme) st2" "frames st2 = frames st"
    using holds_flush [OF assms(1) _ _ _ K, of ?st] assms(2,3) holds_buffer [OF assms(4)] by fastforce
  show ?thesis
    using nb st1 st2 start [of st2] start [OF holds_fresh [OF st1(2,3)]] start [OF holds_buffer [OF assms(4)]]
    by (cases "on (skip (mode_at h new))"; cases "on (excludeBegin (mode_at h new))") (simp_all add: enter_mode_def Let_def)
qed

lemma leave_mode_ok:
  assumes "grammar h root A" "set (frames st) \<subseteq> set A" "holds K h u st"
    and "frames st = xs @ e # target" "target \<noteq> []" and K: "span_classes (options r) h A \<subseteq> K"
  shows "\<exists>st'. leave_mode hl r ci (e # target) lexeme st h = hret (length lexeme, st') h \<and>
    holds K h (u @ lexeme) st' \<and>
    frames st' = (case starts (mode_at h e) of None \<Rightarrow> target | Some s \<Rightarrow> s # target)"
proof -
  let ?origin = "mode_at h (hd (frames st))"
  have ne: "frames st \<noteq> []" using assms(4) by simp
  have nb: "\<not> on (returnEnd ?origin)" "\<not> on (endSameAsBegin (mode_at h e))"
    using grammar_mode [OF assms(1), of "hd (frames st)"] grammar_mode [OF assms(1), of e]
      hd_in_set [OF ne] assms(2) unfolding assms(4) by (auto simp: self_contained_def)
  have started: "b \<in> set A" if "starts (mode_at h e) = Some b" for b
    using grammar_mode [OF assms(1), of e] assms(2) that unfolding assms(4) by (simp add: self_contained_def)
  have finish: "\<exists>st''. (case starts (mode_at h e) of None \<Rightarrow> hret (length lexeme, close_modes h target (frames st) st') h
        | Some s \<Rightarrow> hret (length lexeme, startNewMode (options r) h s (close_modes h target (frames st) st')) h) =
          hret (length lexeme, st'') h \<and> holds K h (u @ lexeme) st'' \<and>
        frames st'' = (case starts (mode_at h e) of None \<Rightarrow> target | Some s \<Rightarrow> s # target)"
    if "holds K h (u @ lexeme) st'" "frames st' = frames st" for st'
    using holds_close [OF that(1), of "xs @ [e]" target] that(2) assms(4,5) holds_start [OF _ _ _ K] started
    by (auto split: option.splits)
  let ?st = "st\<lparr>mode_buffer := mode_buffer st @ lexeme\<rparr>"
  obtain st1 where st1: "processBuffer hl r ci st h = hret st1 h" "holds K h u st1" "mode_buffer st1 = []" "frames st1 = frames st"
    using holds_flush [OF assms(1) ne assms(2,3) K] by blast
  obtain st2 where st2: "processBuffer hl r ci ?st h = hret st2 h" "holds K h (u @ lexeme) st2" "frames st2 = frames st"
    using holds_flush [OF assms(1) _ _ _ K, of ?st] ne assms(2) holds_buffer [OF assms(3)] by fastforce
  show ?thesis
    using nb st1 st2 finish [of st2] finish [OF holds_fresh [OF st1(2,3)]] finish [OF holds_buffer [OF assms(3)]]
    by (cases "on (skip ?origin)"; cases "on (excludeEnd ?origin)"; cases "starts (mode_at h e)")
      (simp_all add: leave_mode_def Let_def)
qed

subsection \<open>The main loop\<close>

definition run_inv :: "string set \<Rightarrow> mstore \<Rightarrow> nat \<Rightarrow> nat list \<Rightarrow> string \<Rightarrow> nat \<Rightarrow> hrun \<Rightarrow> bool" where
  "run_inv K h root A s index st \<longleftrightarrow>
     frames st \<noteq> [] \<and> set (frames st) \<subseteq> set A \<and> last (frames st) = root \<and>
     index \<le> length s \<and> holds K h (take index s) st"

definition unsettled :: "mstore \<Rightarrow> nat \<Rightarrow> nat" where
  "unsettled h a = (if solid (mode_at h a) then 0 else 2)"

text \<open>The steps that are left: a step that reads nothing goes up from a mode that is not solid to one
  that is, or down.\<close>

definition potential :: "mstore \<Rightarrow> string \<Rightarrow> nat \<Rightarrow> nat list \<Rightarrow> nat" where
  "potential h s index fs = 4 * (length s - index) + length fs + unsettled h (hd fs)"

definition advances_run :: "string set \<Rightarrow> mstore \<Rightarrow> nat \<Rightarrow> nat list \<Rightarrow> string \<Rightarrow> nat \<Rightarrow> nat list \<Rightarrow> nat \<Rightarrow> hrun \<Rightarrow> bool" where
  "advances_run K h root A s index fs index' st' \<longleftrightarrow>
     run_inv K h root A s index' st' \<and> potential h s index' (frames st') < potential h s index fs"

lemma unsettled_le: "unsettled h a \<le> 2"
  by (simp add: unsettled_def)

lemma potential_read:
  "index < index' \<Longrightarrow> index' \<le> length s \<Longrightarrow> length fs' \<le> Suc (length fs) \<Longrightarrow>
    potential h s index' fs' < potential h s index fs"
  using unsettled_le [of h "hd fs'"] by (simp add: potential_def)

lemma subMode_plain:
  assumes "grammar h root A" "a \<in> set A"
  shows "subMode lexeme a h = hret (first_mode h (refs (contains (mode_at h a))) lexeme) h"
    and "first_mode h (refs (contains (mode_at h a))) lexeme = Some c \<Longrightarrow> c \<in> set A"
proof -
  have "first_mode h cs lexeme = Some c \<Longrightarrow> c \<in> set cs" for cs c
    by (induction cs) (auto split: if_splits)
  then have in_A: "first_mode h (refs (contains (mode_at h a))) lexeme = Some c \<Longrightarrow> c \<in> set A" for c
    using grammar_mode [OF assms] by (auto simp: self_contained_def list_all_iff)
  then show "first_mode h (refs (contains (mode_at h a))) lexeme = Some c \<Longrightarrow> c \<in> set A" .
  show "subMode lexeme a h = hret (first_mode h (refs (contains (mode_at h a))) lexeme) h"
    using grammar_mode [OF assms(1) in_A] by (auto simp: subMode_def self_contained_def split: option.splits)
qed

lemma empty_lexeme:
  assumes "grammar h root A" "a \<in> set A" "terminators (mode_at h a) = Some (Some x)" "exec_at x s index = Some m" "cap0 m = []"
  shows "\<not> solid (mode_at h a)"
    and "first_mode h (refs (contains (mode_at h a))) [] = Some c \<Longrightarrow> solid (mode_at h c)"
    and "first_mode h (refs (contains (mode_at h a))) [] = None \<Longrightarrow> testRe (endRe (mode_at h a)) [] \<and>
      (\<forall>s. starts (mode_at h a) = Some s \<longrightarrow> solid (mode_at h s))"
proof -
  show ns: "\<not> solid (mode_at h a)"
    using exec_at_splits [OF assms(4)] assms(3,5) by (simp add: solid_def match_splits_def)
  then have "calm h (mode_at h a)" "\<not> solid (mode_at h a)"
    using grammar_mode [OF assms(1,2)] by (simp_all add: self_contained_def)
  then show "first_mode h (refs (contains (mode_at h a))) [] = Some c \<Longrightarrow> solid (mode_at h c)"
    and "first_mode h (refs (contains (mode_at h a))) [] = None \<Longrightarrow> testRe (endRe (mode_at h a)) [] \<and>
      (\<forall>s. starts (mode_at h a) = Some s \<longrightarrow> solid (mode_at h s))"
    by (simp_all add: calm_def split: option.splits)
qed

lemma advances_enter:
  assumes g: "grammar h root A" and inv: "run_inv K h root A s index st" and fs: "frames st = a # fs"
    and t: "terminators (mode_at h a) = Some (Some x)" and ex: "exec_at x s index = Some m"
    and new: "first_mode h (refs (contains (mode_at h a))) (cap0 m) = Some c"
    and st': "holds K h (take (m_index m + length (cap0 m)) s) st'" "frames st' = c # frames st"
  shows "advances_run K h root A s index (frames st) (m_index m + length (cap0 m)) st'"
proof -
  have a: "a \<in> set A" and m: "index \<le> m_index m" "m_index m + length (cap0 m) \<le> length s"
    using inv fs exec_at_splits [OF ex] by (auto simp: run_inv_def match_splits_def)
  have "run_inv K h root A s (m_index m + length (cap0 m)) st'"
    using inv st' m subMode_plain(2) [OF g a new] by (auto simp: run_inv_def)
  moreover have "potential h s (m_index m + length (cap0 m)) (frames st') < potential h s index (frames st)"
  proof (cases "cap0 m = []")
    case True
    then show ?thesis
      using empty_lexeme(1,2) [OF g a t ex True] new st'(2) fs m by (auto simp: potential_def unsettled_def)
  next
    case False
    then show ?thesis
      using m st'(2) by (intro potential_read) (cases "cap0 m", auto)
  qed
  ultimately show ?thesis by (simp add: advances_run_def)
qed

lemma advances_leave:
  assumes g: "grammar h root A" and inv: "run_inv K h root A s index st" and fs: "frames st = a # fs"
    and t: "terminators (mode_at h a) = Some (Some x)" and ex: "exec_at x s index = Some m"
    and new: "first_mode h (refs (contains (mode_at h a))) (cap0 m) = None"
    and e: "endOfMode h (frames st) (cap0 m) = Inr (Some (e # target))" "frames st = xs @ e # target" "target \<noteq> []"
    and st': "holds K h (take (m_index m + length (cap0 m)) s) st'"
      "frames st' = (case starts (mode_at h e) of None \<Rightarrow> target | Some s \<Rightarrow> s # target)"
  shows "advances_run K h root A s index (frames st) (m_index m + length (cap0 m)) st'"
proof -
  have a: "a \<in> set A" and m: "index \<le> m_index m" "m_index m + length (cap0 m) \<le> length s"
    using inv fs exec_at_splits [OF ex] by (auto simp: run_inv_def match_splits_def)
  have e_A: "e \<in> set A"
    using inv unfolding run_inv_def e(2) by simp
  have "starts (mode_at h e) = Some b \<Longrightarrow> b \<in> set A" for b
    using grammar_mode [OF g e_A] by (simp add: self_contained_def)
  then have "run_inv K h root A s (m_index m + length (cap0 m)) st'"
    using inv st' m e(2,3) by (auto simp: run_inv_def split: option.splits)
  moreover have "potential h s (m_index m + length (cap0 m)) (frames st') < potential h s index (frames st)"
  proof (cases "cap0 m = []")
    case True
    have "climb h (a # fs) = a # fs"
      using grammar_mode [OF g a] by (simp add: self_contained_def)
    then have "e = a" "target = fs"
      using e(1) fs True empty_lexeme(3) [OF g a t ex True] new by auto
    then show ?thesis
      using empty_lexeme(1,3) [OF g a t ex True] new st'(2) fs m True unsettled_le [of h "hd fs"]
      by (cases "starts (mode_at h a)") (auto simp: potential_def unsettled_def)
  next
    case False
    then show ?thesis
      using m st'(2) e(2) by (intro potential_read) (cases "cap0 m", auto split: option.splits)
  qed
  ultimately show ?thesis by (simp add: advances_run_def)
qed

lemma processLexeme_ok:
  assumes g: "grammar h root A" and inv: "run_inv K h root A s index st" and fs: "frames st = a # fs"
    and t: "terminators (mode_at h a) = Some (Some x)" and ex: "exec_at x s index = Some m"
    and K: "span_classes (options r) h A \<subseteq> K"
  shows "(\<exists>l. processLexeme hl r ci ign (substring s index (m_index m)) (cap0 m) st h = hthrow (HIllegal l) h) \<or>
    (\<exists>count st'. processLexeme hl r ci ign (substring s index (m_index m)) (cap0 m) st h = hret (count, st') h \<and>
      advances_run K h root A s index (frames st) (m_index m + count) st')"
proof -
  let ?st = "st\<lparr>mode_buffer := mode_buffer st @ substring s index (m_index m)\<rparr>"
  have m: "match_splits x s m" "index \<le> m_index m"
    using exec_at_splits [OF ex] by auto
  have a: "a \<in> set A" and A: "frames ?st \<noteq> []" "set (frames ?st) \<subseteq> set A" "last (frames ?st) = root"
    using inv fs by (auto simp: run_inv_def)
  have held: "holds K h (take (m_index m) s) ?st"
    using holds_buffer [of K h "take index s" st "substring s index (m_index m)"] inv take_substring [OF m(2), of s]
    by (simp add: run_inv_def)
  note sub = subMode_plain(1) [OF g a, of "cap0 m"]
  show ?thesis
  proof (cases "first_mode h (refs (contains (mode_at h a))) (cap0 m)")
    case (Some c)
    obtain st' where "enter_mode hl r ci c (cap0 m) ?st h = hret (length (cap0 m), st') h"
      "holds K h (take (m_index m + length (cap0 m)) s) st'" "frames st' = c # frames st"
      using enter_mode_ok [OF g A(1,2) held subMode_plain(2) [OF g a Some] K] match_take [OF m(1)] by fastforce
    with advances_enter [OF g inv fs t ex Some] Some sub fs show ?thesis
      by (simp add: processLexeme_def)
  next
    case None
    from endOfMode_ok [OF g A] consider "endOfMode h (frames st) (cap0 m) = Inr None"
      | xs e target where "frames st = xs @ e # target" "target \<noteq> []" "endOfMode h (frames st) (cap0 m) = Inr (Some (e # target))"
      by fastforce
    then show ?thesis
    proof cases
      case 1
      then have ne: "cap0 m \<noteq> []"
        using empty_lexeme(3) [OF g a t ex] None fs by auto
      then have "0 < length (cap0 m)" by simp
      then have "advances_run K h root A s index (frames st) (m_index m + length (cap0 m))
          (?st\<lparr>mode_buffer := mode_buffer ?st @ cap0 m\<rparr>)"
        using holds_buffer [OF held, of "cap0 m"] match_take [OF m(1)] inv m potential_read [of index "m_index m + length (cap0 m)" s "frames st" "frames st" h]
        by (auto simp: advances_run_def run_inv_def match_splits_def simp del: length_greater_0_conv)
      then show ?thesis
        using None 1 fs sub ne
        by (cases "isIllegal ign (cap0 m) (mode_at h a)") (simp_all add: processLexeme_def Let_def del: endOfMode.simps)
    next
      case 2
      obtain st' where leave: "leave_mode hl r ci (e # target) (cap0 m) ?st h = hret (length (cap0 m), st') h"
        and st': "holds K h (take (m_index m + length (cap0 m)) s) st'"
        "frames st' = (case starts (mode_at h e) of None \<Rightarrow> target | Some s \<Rightarrow> s # target)"
        using leave_mode_ok [OF g A(2) held _ _ K, of xs e target] 2 match_take [OF m(1)] by fastforce
      have "advances_run K h root A s index (frames st) (m_index m + length (cap0 m)) st'"
        by (rule advances_leave [OF g inv fs t ex None 2(3,1,2) st'])
      with None fs sub 2(3) leave show ?thesis
        by (simp add: processLexeme_def Let_def del: endOfMode.simps)
    qed
  qed
qed

lemma highlight_loop_ok:
  assumes g: "grammar h root A" and K: "span_classes (options r) h A \<subseteq> K"
  shows "run_inv K h root A s index st \<Longrightarrow> potential h s index (frames st) < n \<Longrightarrow>
    (\<exists>l. highlight_loop n hl r ci ign s index st h = hthrow (HIllegal l) h) \<or>
    (\<exists>index' st'. highlight_loop n hl r ci ign s index st h = hret (index', st') h \<and> run_inv K h root A s index' st')"
proof (induction n arbitrary: index st)
  case (Suc n)
  obtain a fs where fs: "frames st = a # fs" "a \<in> set A"
    using Suc.prems(1) by (cases "frames st") (auto simp: run_inv_def)
  obtain t where t: "terminators (mode_at h a) = Some t"
    using grammar_mode [OF g fs(2)] by (auto simp: self_contained_def)
  show ?case
  proof (cases "Option.bind t (\<lambda>x. exec_at x s index)")
    case None
    with fs t Suc.prems(1) show ?thesis by auto
  next
    case (Some m)
    then obtain x where x: "t = Some x" "exec_at x s index = Some m"
      by (cases t) auto
    from processLexeme_ok [OF g Suc.prems(1) fs(1) t [unfolded x(1)] x(2) K, of hl ci ign]
    show ?thesis
    proof (elim disjE exE conjE)
      fix l assume "processLexeme hl r ci ign (substring s index (m_index m)) (cap0 m) st h = hthrow (HIllegal l) h"
      then show ?thesis using fs t x by auto
    next
      fix count st'
      assume p: "processLexeme hl r ci ign (substring s index (m_index m)) (cap0 m) st h = hret (count, st') h"
        and "advances_run K h root A s index (frames st) (m_index m + count) st'"
      with Suc.prems(2) have "run_inv K h root A s (m_index m + count) st'"
        "potential h s (m_index m + count) (frames st') < n"
        by (auto simp: advances_run_def)
      from Suc.IH [OF this] show ?thesis using fs t x p by auto
    qed
  qed
qed simp

subsection \<open>highlight\<close>

lemma highlight_run_ok:
  assumes g: "grammar h root A" and n: "4 * length s + 3 < n"
  shows "\<exists>x. highlight_catch s (highlight_run n hl r ci name s ign
      \<lparr>frames = [root], continuations = [], out = [], mode_buffer = [], run_relevance = Some 0\<rparr> h) = hret x h \<and>
    markup (span_classes (options r) h A) (o_value x) s 0"
proof -
  let ?K = "span_classes (options r) h A"
  have K: "span_classes (options r) h A \<subseteq> ?K" by simp
  let ?st = "\<lparr>frames = [root], continuations = [], out = [], mode_buffer = [], run_relevance = Some 0\<rparr> :: hrun"
  have "run_inv ?K h root A s 0 ?st"
    using g markup_Nil by (simp add: run_inv_def grammar_def holds_def opened_def)
  moreover have "potential h s 0 (frames ?st) < n"
    using n unsettled_le [of h root] by (simp add: potential_def)
  ultimately consider l where "highlight_loop n hl r ci ign s 0 ?st h = hthrow (HIllegal l) h"
    | index st where "highlight_loop n hl r ci ign s 0 ?st h = hret (index, st) h" "run_inv ?K h root A s index st"
    using highlight_loop_ok [OF g K] by blast
  then show ?thesis
  proof cases
    case 1
    then show ?thesis
      using markup_chars [OF markup_Nil, of ?K s]
      by (simp add: highlight_run_def highlight_catch_def hthrow_def is_illegal_error_def hbind_def hret_def)
  next
    case 2
    let ?st1 = "st\<lparr>mode_buffer := mode_buffer st @ drop index s\<rparr>"
    have "holds ?K h s ?st1" "frames ?st1 \<noteq> []" "set (frames ?st1) \<subseteq> set A"
      using 2(2) holds_buffer [of ?K h "take index s" st "drop index s"] by (simp_all add: run_inv_def)
    from holds_flush [OF g this(2,3,1) K] obtain st2 where st2: "processBuffer hl r ci ?st1 h = hret st2 h"
      "holds ?K h s st2" "mode_buffer st2 = []" by blast
    then have "markup ?K (out st2 @ dangling h (frames st2)) s 0"
      using markup_closings [of ?K "out st2" s h "butlast (frames st2)" 0] by (auto simp: holds_def opened_def dangling_def)
    with 2(1) st2(1) show ?thesis
      by (simp add: highlight_run_def highlight_catch_def) (simp add: hret_def)
  qed
qed

end
