(* ===== verification/Hljs_Properties.thy ===== *)
theory Hljs_Properties
  imports Hljs_Grammars Hljs_Highlight_Facts
begin

text \<open>
  Properties of the highlighter: it returns and keeps the text for every self-contained grammar, that
  of JSON among them; and what its fallback for unexpected lexemes does.
\<close>

subsection \<open>More fuel does not change what compilation returns\<close>

lemma hbind_mono:
  "hbind x f = Some v \<Longrightarrow> (\<And>u. x = Some u \<Longrightarrow> x' = Some u) \<Longrightarrow>
    (\<And>y h w. f y h = Some w \<Longrightarrow> f' y h = Some w) \<Longrightarrow> hbind x' f' = Some v"
  by (cases x) (auto simp: hbind_def split: sum.splits prod.splits)

lemma each_mono:
  "each f xs h = Some v \<Longrightarrow> (\<And>x h w. f x h = Some w \<Longrightarrow> f' x h = Some w) \<Longrightarrow> each f' xs h = Some v"
proof (induction xs arbitrary: h v)
  case (Cons x xs)
  from Cons.prems(1) show ?case
    unfolding each.simps by (rule hbind_mono) (use Cons in blast)+
qed simp

lemma compileMode_Suc: "compileMode n ci a parent h = Some v \<Longrightarrow> compileMode (Suc n) ci a parent h = Some v"
proof (induction n arbitrary: a parent h v)
  case (Suc n)
  show ?case
  proof (cases "on (compiled (mode_at h a))")
    case True
    with Suc.prems show ?thesis by simp
  next
    case False
    obtain body where body: "\<And>m. compileMode (Suc m) ci a parent h =
        hbind (compile_head ci a parent h) (body (compileMode m ci))"
      and mono: "\<And>y h w. body (compileMode n ci) y h = Some w \<Longrightarrow> body (compileMode (Suc n) ci) y h = Some w"
    proof
      let ?body = "\<lambda>rec (_ :: unit) h1.
        let (cs, h2) = expand_contained a (the (contains (mode_at h1 a))) h1;
            h3 = upd a (\<lambda>m. m\<lparr>contains := Some (map Ref cs)\<rparr>) h2
        in hbind (each (\<lambda>c. rec c (Some a)) cs h3) (\<lambda>_ h4.
           hbind (case starts (mode_at h4 a) of None \<Rightarrow> hret () h4 | Some s \<Rightarrow> rec s parent h4) (\<lambda>_ h5.
           compile_terminators ci a h5))"
      show "compileMode (Suc m) ci a parent h = hbind (compile_head ci a parent h) (?body (compileMode m ci))" for m
        using False by simp
      fix y h w assume "?body (compileMode n ci) y h = Some w"
      then show "?body (compileMode (Suc n) ci) y h = Some w"
        by (auto simp: Let_def split_beta split: option.splits simp del: compileMode.simps
            elim!: hbind_mono each_mono intro: Suc.IH)
    qed
    from Suc.prems show ?thesis
      unfolding body by (rule hbind_mono) (use mono in auto)
  qed
qed simp

lemma compileMode_fuel: "compileMode n ci a parent h = Some v \<Longrightarrow> n \<le> n' \<Longrightarrow> compileMode n' ci a parent h = Some v"
proof (induction "n' - n" arbitrary: n)
  case (Suc k)
  from Suc(1) [of "Suc n"] Suc(2) compileMode_Suc [OF Suc(3)] show ?case by simp
qed simp

subsection \<open>JSON\<close>

definition no_languages :: registry where
  "no_languages = \<lparr>options = default_options, languages = [], alias_names = []\<rparr>"

definition with_json :: "registry \<times> mstore" where
  "with_json = registerLanguage ''json'' json (no_languages, common_modes)"

definition json_modes :: "nat list" where
  "json_modes = [0, 2, 11, 20, 22, 24, 25, 26, 27]"

definition json_spans :: "string set" where
  "json_spans = {''hljs-string'', ''hljs-number'', ''hljs-attr'', ''hljs-literal''}"

lemma json_grammar:
  "case compileLanguage 6 25 (snd with_json) of
     Some (Inr u, h) \<Rightarrow> grammar h 25 json_modes \<and> on (compiled (mode_at h 25)) \<and>
       span_classes default_options h json_modes \<subseteq> json_spans
   | _ \<Rightarrow> False"
  by code_simp

text \<open>The stores in which JSON is compiled, or can be.\<close>

definition json_store :: "mstore \<Rightarrow> mstore \<Rightarrow> bool" where
  "json_store h h1 \<longleftrightarrow> grammar h1 25 json_modes \<and> on (compiled (mode_at h1 25)) \<and>
     span_classes default_options h1 json_modes \<subseteq> json_spans \<and>
     (\<forall>n\<ge>6. compileLanguage n 25 h = hret () h1)"

lemma json_store_compiled: "json_store h h1 \<Longrightarrow> json_store h1 h1"
  unfolding json_store_def compileLanguage_def by (metis Suc_le_D compileMode.simps(2) numeral_eq_Suc)

lemma json_store_first: "\<exists>h1. json_store (snd with_json) h1"
proof -
  obtain x h where xh: "compileLanguage 6 25 (snd with_json) = Some (x, h)"
    using json_grammar by (cases "compileLanguage 6 25 (snd with_json)") auto
  with json_grammar have "x = Inr ()" "grammar h 25 json_modes" "on (compiled (mode_at h 25))"
    "span_classes default_options h json_modes \<subseteq> json_spans"
    by (cases x; simp)+
  moreover from xh have "compileLanguage n 25 (snd with_json) = Some (x, h)" if "6 \<le> n" for n
    using compileMode_fuel that unfolding compileLanguage_def by blast
  ultimately show ?thesis
    unfolding json_store_def hret_def by blast
qed

lemma json_language:
  "getLanguage (fst with_json) (Some ''json'') = LangMode 25" "options (fst with_json) = default_options"
  by code_simp+

lemma json_languages:
  "list_all (\<lambda>name. name = ''json'') (case None of Some l \<Rightarrow> l | None \<Rightarrow>
    (case opt_languages (options (fst with_json)) of Some l \<Rightarrow> l | None \<Rightarrow> listLanguages (fst with_json)))"
  by code_simp

lemma highlight_grammar:
  assumes "getLanguage r (Some name) = LangMode root" "compileLanguage n root h = hret () h1"
    and "grammar h1 root A" "4 * length s + 3 < n"
  shows "\<exists>x. highlight (Suc n) r name s ign None h = hret x h1 \<and> markup (span_classes (options r) h1 A) (o_value x) s 0"
  using highlight_run_ok [OF assms(3,4), of "highlight n r" r _ name ign] assms(1,2)
  by (simp add: highlight_with_def)

text \<open>
  C11. Highlighting with a self-contained grammar returns, whatever the text: either the lexemes all fit or an
  illegal lexeme makes it fall back to the escaped text, and no other error is thrown. The markup it
  returns is balanced, its text is exactly the text it was given, and each of its spans has a class that the
  grammar declares; four steps per character are enough.
\<close>

theorem highlight_keeps_text:
  assumes "getLanguage r (Some name) = LangMode root" "compileLanguage n root h = hret () h1"
    and "grammar h1 root A" "4 * length s + 3 < n"
  shows "\<exists>x. highlight (Suc n) r name s ignore_illegals None h = hret x h1 \<and>
    (\<exists>ps. o_value x = hpieces_str ps \<and> htext ps = s \<and> hdepth 0 ps = Some 0 \<and> spans ps \<subseteq> span_classes (options r) h1 A)"
  using highlight_grammar [OF assms, of ignore_illegals] by (simp add: markup_def)

theorem highlight_keeps_text_witness:
  "\<exists>x h1. highlight 100 (fst with_json) ''json'' ''[1, true]'' False None (snd with_json) = hret x h1 \<and>
    (\<exists>ps. o_value x = hpieces_str ps \<and> htext ps = ''[1, true]'' \<and> hdepth 0 ps = Some 0 \<and>
      spans ps \<subseteq> span_classes (options (fst with_json)) h1 json_modes)"
proof -
  obtain h where h: "compileLanguage 99 25 (snd with_json) = hret () h" "grammar h 25 json_modes"
    using json_store_first by (auto simp: json_store_def)
  have "Suc 99 = 100" by simp
  with highlight_keeps_text [OF json_language(1) h, of "''[1, true]''" False] show ?thesis
    by (simp del: highlight.simps) blast
qed

definition json_usable :: "mstore \<Rightarrow> bool" where
  "json_usable h \<longleftrightarrow> (\<exists>h1. json_store h h1)"

lemma json_highlight:
  assumes "json_usable h" "6 \<le> n" "4 * length s + 3 < n"
  shows "\<exists>x h'. highlight (Suc n) (fst with_json) ''json'' s ign None h = hret x h' \<and> json_usable h' \<and>
    markup json_spans (o_value x) s 0"
proof -
  obtain h1 where h1: "json_store h h1" using assms(1) by (auto simp: json_usable_def)
  then have "compileLanguage n 25 h = hret () h1" "grammar h1 25 json_modes"
    using assms(2) by (auto simp: json_store_def)
  from highlight_grammar [OF json_language(1) this assms(3), of ign] obtain x where
    "highlight (Suc n) (fst with_json) ''json'' s ign None h = hret x h1"
    "markup (span_classes default_options h1 json_modes) (o_value x) s 0"
    unfolding json_language(2) by blast
  moreover have "markup json_spans (o_value x) s 0" if "markup (span_classes default_options h1 json_modes) (o_value x) s 0"
    using that h1 unfolding markup_def json_store_def by blast
  ultimately show ?thesis
    using json_store_compiled [OF h1] unfolding json_usable_def by blast
qed

text \<open>
  C39. The JSON grammar of the bundle: on every text, with or without ignoring illegal lexemes, highlighting
  returns balanced markup of exactly that text, with spans for strings, numbers, attributes and literals only.
\<close>

theorem json_highlight_total:
  "\<exists>x h. highlight (4 * length s + 11) (fst with_json) ''json'' s ignore_illegals None (snd with_json) = hret x h \<and>
    (\<exists>ps. o_value x = hpieces_str ps \<and> htext ps = s \<and> hdepth 0 ps = Some 0 \<and> spans ps \<subseteq> json_spans)"
proof -
  have fuel: "Suc (4 * length s + 10) = 4 * length s + 11" by simp
  have "json_usable (snd with_json)"
    using json_store_first by (simp add: json_usable_def)
  from json_highlight [OF this, of "4 * length s + 10" s ignore_illegals] show ?thesis
    unfolding fuel markup_def by fastforce
qed

subsection \<open>Language detection\<close>

text \<open>What \<open>highlightAuto\<close> relies on: for the languages it tries, the highlighter returns markup of
  the text and leaves a store in which it can be called again.\<close>

locale text_keeping =
  fixes hl :: highlighter
    and good :: "string \<Rightarrow> bool"
    and fits :: "string \<Rightarrow> bool"
    and usable :: "mstore \<Rightarrow> bool"
    and K :: "string set"
  assumes hl_keeps: "good name \<Longrightarrow> fits s \<Longrightarrow> usable h \<Longrightarrow>
    \<exists>x h'. hl name s ign None h = hret x h' \<and> usable h' \<and> markup K (o_value x) s 0"
begin

lemma auto_loop_keeps:
  assumes "fits s"
  shows "list_all good names \<Longrightarrow> usable h \<Longrightarrow> markup K (o_value (fst best)) s 0 \<Longrightarrow>
    \<exists>best' h'. auto_loop hl s names best h = hret best' h' \<and> usable h' \<and> markup K (o_value (fst best')) s 0"
proof (induction names arbitrary: best h)
  case (Cons name names)
  obtain x h1 where x: "hl name s False None h = hret x h1" "usable h1" "markup K (o_value x) s 0"
    using hl_keeps [of name s h False] Cons.prems assms by auto
  obtain best1 where "auto_step hl s name best h = hret best1 h1" "markup K (o_value (fst best1)) s 0"
    using x Cons.prems(3) by (auto simp: auto_step_def Let_def)
  with Cons.IH [of h1 best1] Cons.prems(1) x(2) show ?case by auto
qed auto

lemma highlightAuto_keeps:
  assumes "list_all good (case ls of Some l \<Rightarrow> l | None \<Rightarrow> (case opt_languages (options r) of Some l \<Rightarrow> l | None \<Rightarrow> listLanguages r))"
    and "fits s" "usable h"
  shows "\<exists>x h'. highlightAuto hl r s ls h = hret x h' \<and> usable h' \<and> markup K (o_value x) s 0"
proof -
  let ?ls = "case ls of Some l \<Rightarrow> l | None \<Rightarrow> (case opt_languages (options r) of Some l \<Rightarrow> l | None \<Rightarrow> listLanguages r)"
  let ?names = "filter (autoDetection r h) (filter (\<lambda>n. getLanguage r (Some n) \<noteq> NoLang) ?ls)"
  let ?none = "\<lparr>o_relevance = Some 0, o_value = hl_escape s, o_language = None, o_top = None, o_second = None\<rparr> :: houtput"
  have "list_all good ?names" "markup K (o_value (fst (?none, ?none))) s 0"
    using assms(1) markup_chars [OF markup_Nil, of K s] by (auto simp: list_all_iff)
  from auto_loop_keeps [OF assms(2) this(1) assms(3) this(2)] show ?thesis
    unfolding highlightAuto_def Let_def by auto
qed

end

interpretation json: text_keeping "highlight (Suc n) (fst with_json)" "\<lambda>name. name = ''json''"
    "\<lambda>s. 6 \<le> n \<and> 4 * length s + 3 < n" json_usable json_spans for n
  by unfold_locales (use json_highlight in blast)

text \<open>
  Language detection where JSON is the language registered: \<open>highlightAuto\<close> returns, for every text, balanced
  markup of exactly that text, whether the text is JSON or not.
\<close>

lemma json_detection_total:
  "\<exists>x h. highlightAuto (highlight (4 * length s + 11) (fst with_json)) (fst with_json) s None (snd with_json) = hret x h \<and>
    (\<exists>ps. o_value x = hpieces_str ps \<and> htext ps = s \<and> hdepth 0 ps = Some 0 \<and> spans ps \<subseteq> json_spans)"
proof -
  have fuel: "Suc (4 * length s + 10) = 4 * length s + 11" by simp
  have "json_usable (snd with_json)"
    using json_store_first by (simp add: json_usable_def)
  from json.highlightAuto_keeps [OF json_languages _ this, of "4 * length s + 10" s] show ?thesis
    unfolding fuel markup_def by fastforce
qed

subsection \<open>The fallback of processLexeme\<close>

text \<open>A lexeme that is empty where it was found, but that no expression of the mode matches on its own
  (a lookahead does not), reaches the end of \<open>processLexeme\<close>. The index then moves on by one and
  the character there is lost: with the end \<open>(?=b)\<close> the text \<open>ab\<close> becomes \<open>a\<close>.\<close>

definition lookahead_modes :: mstore where
  "lookahead_modes = [no_mode\<lparr>m_begin := Some ''a'', m_end := Some ''(?=b)''\<rparr>, no_mode\<lparr>contains := Some [Ref 0]\<rparr>]"

lemma fallback_loses_character:
  "map_option (map_sum id o_value \<circ> fst)
     (highlight 20 (no_languages\<lparr>languages := [(''x'', 1)]\<rparr>) ''x'' ''ab'' True None lookahead_modes) = Some (Inr ''a'')"
  by code_simp

end
