(* ===== verification/Remark_Convert.thy ===== *)
theory Remark_Convert
  imports Remark_Slideshow Marked_Parser_Facts
begin

text \<open>
  The converter (\<^verbatim>\<open>remark.js\<close>, module 13), which turns the content of a slide into HTML with marked, and
  the functions of the API beside \<open>create\<close> (module 6).

  The browser's HTML parser is not part of the bundle. What the code does with it is a parameter: \<open>reread\<close>,
  the text read from \<open>innerHTML\<close> after a text was assigned to it, and \<open>sole_p\<close>, the inner
  HTML of the only element of such a text when it is a paragraph.
\<close>

declare rx_l.simps(5) [simp del]

record browser =
  reread :: "string \<Rightarrow> string"
  sole_p :: "string \<Rightarrow> string option"

subsection \<open>convertMarkdown\<close>

definition leading_space_re :: regexp where
  "leading_space_re = re no_flags (bs ''^%s+'')"

definition empty_p_re :: regexp where
  "empty_p_re = re no_flags (bs ''<p>%s*<%/p>'')"

definition last_break_re :: regexp where
  "last_break_re = re no_flags (bs ''%n%r?$'')"

text \<open>\<open>links[name]\<close> as the inline lexer reads it: an entry without an address counts as none.\<close>

definition slide_links :: "(string \<times> link) list \<Rightarrow> string \<Rightarrow> link_def option" where
  "slide_links ls name =
     (case dict_get ls name of
        None \<Rightarrow> None
      | Some l \<Rightarrow> (case l_href l of None \<Rightarrow> None | Some href \<Rightarrow> Some (href, l_title l)))"

text \<open>The state of marked between calls: the cache of base addresses and the random choices made.\<close>

type_synonym mstate = "url_cache \<times> nat"

definition compile_markdown ::
  "browser \<Rightarrow> (nat \<Rightarrow> bool) \<Rightarrow> (string \<times> link) list \<Rightarrow> bool \<Rightarrow> string \<Rightarrow> mstate \<Rightarrow> merr + string \<times> mstate" where
  "compile_markdown b choice ls insideContentClass markdown st =
     (case marked_lex remark_options (re_replace1 leading_space_re (\<lambda>_. []) markdown) of
        Inl e \<Rightarrow> Inl e
      | Inr lx \<Rightarrow>
          (case Parser_parse \<lparr>opts = remark_options, random = choice, elinks = slide_links ls\<rparr> (toks lx) (fst st) (snd st) of
             Inl e \<Rightarrow> Inl e
           | Inr (html, st') \<Rightarrow>
               Inr (if insideContentClass then (case sole_p b html of None \<Rightarrow> html | Some inner \<Rightarrow> inner) else html,
                    (baseUrls st', rnd st'))))"

fun gather_markdown ::
  "browser \<Rightarrow> (nat \<Rightarrow> bool) \<Rightarrow> (string \<times> link) list \<Rightarrow> content list \<Rightarrow> mstate \<Rightarrow> merr + string \<times> mstate" where
  "gather_markdown b choice ls [] st = Inr ([], st)"
| "gather_markdown b choice ls (CText s # cs) st =
     map_sum id (\<lambda>(md, st'). (s @ md, st')) (gather_markdown b choice ls cs st)"
| "gather_markdown b choice ls (CClass cls block inner # cs) st =
     (case gather_markdown b choice ls inner st of
        Inl e \<Rightarrow> Inl e
      | Inr (md, st1) \<Rightarrow>
          (case compile_markdown b choice ls (\<not> block) md st1 of
             Inl e \<Rightarrow> Inl e
           | Inr (html, st2) \<Rightarrow>
               (let tag = (if block then ''div'' else ''span'')
                in map_sum id
                     (\<lambda>(md', st'). (''<'' @ tag @ '' class='' @ [CHR 0x22] @ cls @ [CHR 0x22] @ ''>'' @ html @
                                     ''</'' @ tag @ ''>'' @ md', st'))
                     (gather_markdown b choice ls cs st2))))"

definition convertMarkdown ::
  "browser \<Rightarrow> (nat \<Rightarrow> bool) \<Rightarrow> (string \<times> link) list \<Rightarrow> bool \<Rightarrow> content list \<Rightarrow> mstate \<Rightarrow> merr + string \<times> mstate" where
  "convertMarkdown b choice ls insideContentClass cs st =
     (case gather_markdown b choice ls cs st of
        Inl e \<Rightarrow> Inl e
      | Inr (md, st') \<Rightarrow> compile_markdown b choice ls insideContentClass md st')"

definition converter_convertMarkdown ::
  "browser \<Rightarrow> (nat \<Rightarrow> bool) \<Rightarrow> (string \<times> link) list \<Rightarrow> bool \<Rightarrow> content list \<Rightarrow> mstate \<Rightarrow> merr + string \<times> mstate" where
  "converter_convertMarkdown b choice ls inl cs st =
     map_sum id
       (\<lambda>(html, st'). (re_replace1 last_break_re (\<lambda>_. [])
                         (reread b (re_replace empty_p_re (\<lambda>_. []) (reread b html))), st'))
       (convertMarkdown b choice ls inl cs st)"

subsection \<open>The API\<close>

definition api_convert ::
  "nat \<Rightarrow> (string \<Rightarrow> macro option) \<Rightarrow> browser \<Rightarrow> (nat \<Rightarrow> bool) \<Rightarrow> string option \<Rightarrow> mstate \<Rightarrow> (merr + string \<times> mstate) Remark_Parser.pres" where
  "api_convert fuel macros b choice markdown st =
     pbind (parse fuel macros False (case markdown of None \<Rightarrow> [] | Some s \<Rightarrow> s)) (\<lambda>slides.
       case slides of
         [] \<Rightarrow> Some (Inl (TypeErr ''content of undefined''))
       | s # _ \<Rightarrow> Some (Inr (converter_convertMarkdown b choice [] True (p_content s) st)))"

definition ltgt_re :: regexp where
  "ltgt_re = re no_flags ''&[l|g]t;''"

definition amp_re :: regexp where
  "amp_re = re no_flags ''&amp;''"

definition quot_re :: regexp where
  "quot_re = re no_flags ''&quot;''"

definition api_unescape :: "string \<Rightarrow> string" where
  "api_unescape source =
     re_replace quot_re (\<lambda>_. [CHR 0x22])
       (re_replace amp_re (\<lambda>_. ''&'')
         (re_replace ltgt_re (\<lambda>m. if cap0 m = ''&lt;'' then ''<'' else ''>'') source))"

record api_options =
  ao_has_source :: bool
  ao_source :: "string option"
  ao_container :: bool

record page =
  source_html :: "string option"
  source_hidden :: bool

text \<open>\<open>applyDefaults\<close>: whether \<open>container\<close> is an element, and the page after the call.\<close>

definition applyDefaults :: "page \<Rightarrow> api_options option \<Rightarrow> api_options \<times> page" where
  "applyDefaults pg given =
     (let o0 = (case given of None \<Rightarrow> \<lparr>ao_has_source = False, ao_source = None, ao_container = False\<rparr> | Some x \<Rightarrow> x);
          (o1, pg1) = (if ao_has_source o0 then (o0, pg)
            else (case source_html pg of
                None \<Rightarrow> (o0, pg)
              | Some html \<Rightarrow> (o0\<lparr>ao_has_source := True, ao_source := Some (api_unescape html)\<rparr>, pg\<lparr>source_hidden := True\<rparr>)))
      in (o1\<lparr>ao_container := True\<rparr>, pg1))"

subsection \<open>Converting always returns\<close>

lemma compile_markdown_returns: "\<exists>html st'. compile_markdown b choice ls inl md st = Inr (html, st')"
proof -
  obtain lx bl where "marked_lex remark_options (re_replace1 leading_space_re (\<lambda>_. []) md) = Inr lx"
    "toks lx = fringes bl" "list_all block_ok bl"
    using marked_lex_blocks by blast
  then show ?thesis
    by (auto simp: compile_markdown_def Parser_parse_fringes split: prod.splits)
qed

lemma gather_markdown_returns: "\<exists>md st'. gather_markdown b choice ls cs st = Inr (md, st')"
proof (induction b choice ls cs st rule: gather_markdown.induct)
  case (3 b choice ls cls block inner cs st)
  obtain md st1 where 1: "gather_markdown b choice ls inner st = Inr (md, st1)"
    using 3(1) by blast
  obtain html st2 where 2: "compile_markdown b choice ls (\<not> block) md st1 = Inr (html, st2)"
    using compile_markdown_returns by blast
  obtain md' st' where "gather_markdown b choice ls cs st2 = Inr (md', st')"
    using 3(2) [OF 1 refl 2 refl refl] by blast
  with 1 2 show ?case by simp
qed auto

text \<open>
  C37. Converting the content of a slide returns for every content, with content classes nested to any depth,
  every table of links and whatever the browser makes of the HTML: marked is called once for the
  content and once for every content class, and none of the calls throws.
\<close>

theorem convertMarkdown_returns: "\<exists>html st'. converter_convertMarkdown b choice ls inl cs st = Inr (html, st')"
proof -
  obtain md st1 where "gather_markdown b choice ls cs st = Inr (md, st1)"
    using gather_markdown_returns by blast
  moreover obtain html st2 where "compile_markdown b choice ls inl md st1 = Inr (html, st2)"
    using compile_markdown_returns by blast
  ultimately show ?thesis
    by (simp add: converter_convertMarkdown_def convertMarkdown_def)
qed

subsection \<open>Unescaping the source\<close>

text \<open>Text that shows an entity for a quotation mark loses it, and a bar counts as a letter.\<close>

lemma unescape_twice: "api_unescape ''&amp;quot;'' = [CHR 0x22]"
  by code_simp

lemma unescape_bar: "api_unescape ''&|t;'' = ''>''"
  by code_simp

end
