(* ===== verification/Hljs_Block.thy ===== *)
theory Hljs_Block
  imports Hljs_Highlight_Facts
begin

text \<open>
  The functions of highlight.js that work on a block of the page (\<^verbatim>\<open>remark.js\<close>, module 15: \<open>blockLanguage\<close>,
  \<open>fixMarkup\<close>, \<open>buildClassName\<close>, \<open>highlightBlock\<close>, \<open>configure\<close>, \<open>initHighlighting\<close>).

  The browser's HTML parser and serialiser are parameters: \<open>of_html\<close> gives the nodes that a text assigned to
  \<open>innerHTML\<close> becomes, \<open>to_html\<close> the text read from it.
\<close>

record html_dom =
  of_html :: "string \<Rightarrow> dnode list"
  to_html :: "dnode list \<Rightarrow> string"

subsection \<open>The language of a block\<close>

definition noHighlightRe :: regexp where
  "noHighlightRe = re \<lparr>ignoreCase = True, multiline = False\<rparr> ''^(no-?highlight|plain|text)$''"

definition languagePrefixRe :: regexp where
  "languagePrefixRe = re \<lparr>ignoreCase = True, multiline = False\<rparr> (bs ''%blang(?:uage)?-([%w-]+)%b'')"

definition white_re :: regexp where
  "white_re = re no_flags (bs ''%s+'')"

text \<open>\<open>test(undefined)\<close> tests the text \<open>undefined\<close>.\<close>

definition isNotHighlighted :: "string option \<Rightarrow> bool" where
  "isNotHighlighted language \<longleftrightarrow> test noHighlightRe (case language of None \<Rightarrow> ''undefined'' | Some l \<Rightarrow> l)"

record code_block =
  b_class :: string
  b_parent :: "string option"
  b_nodes :: "dnode list"
  b_result :: "(string option \<times> nat option) option"
  b_second :: "(string option \<times> nat option) option"

definition blockLanguage :: "registry \<Rightarrow> code_block \<Rightarrow> string option" where
  "blockLanguage r block =
     (let classes = b_class block @ '' '' @ (case b_parent block of None \<Rightarrow> [] | Some c \<Rightarrow> c)
      in case exec languagePrefixRe classes of
           Some m \<Rightarrow> Some (if getLanguage r (cap m 1) \<noteq> NoLang then cap_str m 1 else ''no-highlight'')
         | None \<Rightarrow> find (\<lambda>c. isNotHighlighted (Some c) \<or> getLanguage r (Some c) \<noteq> NoLang) (re_split white_re classes))"

subsection \<open>The markup of a block\<close>

definition fixMarkupRe :: regexp where
  "fixMarkupRe = re \<lparr>ignoreCase = False, multiline = True\<rparr> (bs ''((^(<[^>]+>|%t|)+|(?:%n)))'')"

definition fixMarkup :: "hoptions \<Rightarrow> string \<Rightarrow> string" where
  "fixMarkup opt s =
     (if \<not> (truthy (tabReplace opt) \<or> useBR opt) then s
      else re_replace fixMarkupRe (\<lambda>m.
        if useBR opt \<and> cap0 m = [NL] then ''<br>''
        else if truthy (tabReplace opt) then replace_all (CHR 0x09) (the (tabReplace opt)) (cap_str m 1)
        else []) s)"

definition hljs_word_re :: regexp where
  "hljs_word_re = re no_flags (bs ''%bhljs%b'')"

text \<open>An undefined language is looked for as the text \<open>undefined\<close>, and joined as the empty text.\<close>

definition buildClassName :: "registry \<Rightarrow> string \<Rightarrow> string option \<Rightarrow> string option \<Rightarrow> string" where
  "buildClassName r prevClassName currentLang resultLang =
     (let language = (if truthy currentLang then dict_get (alias_names r) (the currentLang) else resultLang);
          name = (case language of None \<Rightarrow> ''undefined'' | Some l \<Rightarrow> l);
          parts = [trim prevClassName] @
            (if test hljs_word_re prevClassName then [] else [''hljs'']) @
            (if indexOf prevClassName name = None then [case language of None \<Rightarrow> [] | Some l \<Rightarrow> l] else [])
      in trim (join '' '' parts))"

subsection \<open>highlightBlock\<close>

definition br_tag_re :: regexp where
  "br_tag_re = re no_flags (bs ''<br[ %/]*>'')"

definition block_source :: "html_dom \<Rightarrow> hoptions \<Rightarrow> code_block \<Rightarrow> dnode list" where
  "block_source d opt block =
     (if useBR opt
      then of_html d (re_replace br_tag_re (\<lambda>_. [NL]) (replace_all NL [] (to_html d (b_nodes block))))
      else b_nodes block)"

definition finish_block :: "html_dom \<Rightarrow> registry \<Rightarrow> string option \<Rightarrow> dnode list \<Rightarrow> code_block \<Rightarrow> houtput \<Rightarrow> code_block" where
  "finish_block d r language source block x =
     (let originalStream = nodeStream source;
          merged = (if originalStream \<noteq> []
            then mergeStreams originalStream (nodeStream (of_html d (o_value x))) (textContent source) else o_value x)
      in block\<lparr>b_nodes := of_html d (fixMarkup (options r) merged),
               b_class := buildClassName r (b_class block) language (o_language x),
               b_result := Some (o_language x, o_relevance x),
               b_second := (case o_second x of None \<Rightarrow> b_second block | s \<Rightarrow> s)\<rparr>)"

definition highlightBlock :: "nat \<Rightarrow> html_dom \<Rightarrow> registry \<Rightarrow> code_block \<Rightarrow> mstore \<Rightarrow> code_block hres" where
  "highlightBlock fuel d r block h =
     (let language = blockLanguage r block
      in if isNotHighlighted language then hret block h
         else
           (let source = block_source d (options r) block; s = textContent source
            in hbind (if truthy language then highlight fuel r (the language) s True None h
                      else highlightAuto (highlight fuel r) r s None h) (\<lambda>x h'.
                 hret (finish_block d r language source block x) h')))"

definition configure :: "(hoptions \<Rightarrow> hoptions) \<Rightarrow> registry \<Rightarrow> registry" where
  "configure user_options r = r\<lparr>options := user_options (options r)\<rparr>"

text \<open>\<open>initHighlighting\<close> runs once; the blocks are those the page holds.\<close>

fun highlight_blocks :: "nat \<Rightarrow> html_dom \<Rightarrow> registry \<Rightarrow> code_block list \<Rightarrow> mstore \<Rightarrow> code_block list hres" where
  "highlight_blocks fuel d r [] h = hret [] h"
| "highlight_blocks fuel d r (block # blocks) h =
     hbind (highlightBlock fuel d r block h) (\<lambda>b h1.
       hbind (highlight_blocks fuel d r blocks h1) (\<lambda>rest_done h2. hret (b # rest_done) h2))"

definition initHighlighting :: "nat \<Rightarrow> html_dom \<Rightarrow> registry \<Rightarrow> bool \<Rightarrow> code_block list \<Rightarrow> mstore \<Rightarrow> (bool \<times> code_block list) hres" where
  "initHighlighting fuel d r called blocks h =
     (if called then hret (True, blocks) h
      else hbind (highlight_blocks fuel d r blocks h) (\<lambda>highlighted h'. hret (True, highlighted) h'))"

subsection \<open>Facts\<close>

text \<open>A language named in the class of a block is the one used, an unknown one turns highlighting off.\<close>

lemma unknown_language_plain:
  assumes "exec languagePrefixRe (b_class block @ '' '' @ (case b_parent block of None \<Rightarrow> [] | Some c \<Rightarrow> c)) = Some m"
    and "getLanguage r (cap m 1) = NoLang"
  shows "highlightBlock fuel d r block h = hret block h"
proof -
  have "isNotHighlighted (Some ''no-highlight'')" by code_simp
  with assms show ?thesis by (simp add: highlightBlock_def blockLanguage_def)
qed

end
