(* ===== verification/Hljs_Html.thy ===== *)
theory Hljs_Html
  imports Hljs_Block
begin

text \<open>
  What highlighting a block relies on of the browser's HTML parser, which is a parameter of the model: \<open>reads_markup\<close>,
  for markup made of inline elements. Besides, a small reader of such markup, \<open>markup_reader\<close>, for which the law
  is proved.
\<close>

subsection \<open>What a parser of HTML does\<close>

text \<open>The name of an element in lower case and its attributes.\<close>

type_synonym elem_shape = "string \<times> (string \<times> string) list"

definition shape :: "dnode \<Rightarrow> elem_shape" where
  "shape n = (tag n, attributes n)"

definition shape_all :: "(char \<times> dnode list) list \<Rightarrow> (char \<times> (elem_shape) list) list" where
  "shape_all xs = map (apsnd (map shape)) xs"

definition inline_tags :: "string list" where
  "inline_tags = [''span'', ''b'', ''i'', ''em'', ''strong'', ''mark'', ''small'', ''code'', ''br'']"

definition plain_char :: "char \<Rightarrow> bool" where
  "plain_char c \<longleftrightarrow> c \<noteq> CHR 0x00 \<and> c \<noteq> CR"

definition letters :: string where
  "letters = ''abcdefghijklmnopqrstuvwxyz''"

definition tame_attr :: "string \<times> string \<Rightarrow> bool" where
  "tame_attr a \<longleftrightarrow> fst a \<noteq> [] \<and> set (fst a) \<subseteq> set letters \<and>
     list_all (\<lambda>c. plain_char c \<and> c \<noteq> CHR 0x22) (snd a)"

definition tame_shape :: "elem_shape \<Rightarrow> bool" where
  "tame_shape p \<longleftrightarrow> fst p \<in> set inline_tags \<and> list_all tame_attr (snd p) \<and> distinct (map fst (snd p))"

definition shapes :: "dnode list \<Rightarrow> (elem_shape) set" where
  "shapes ns = shape ` node ` set (nodeStream ns)"

definition shaped :: "dnode list \<Rightarrow> (char \<times> (elem_shape) list) list" where
  "shaped ns = shape_all (placed [] ns)"

definition reads_markup :: "html_dom \<Rightarrow> bool" where
  "reads_markup d \<longleftrightarrow>
     (\<forall>ps xs. spread [] ps = Some (xs, []) \<and> shape ` opens ps \<subseteq> Collect tame_shape \<and> list_all plain_char (map fst xs) \<longrightarrow>
        shaped (of_html d (pieces_str ps)) = shape_all xs \<and> shapes (of_html d (pieces_str ps)) \<subseteq> shape ` opens ps)"

lemma reads_markupD:
  assumes "reads_markup d" "spread [] ps = Some (xs, [])" "shape ` opens ps \<subseteq> Collect tame_shape" "list_all plain_char (map fst xs)"
  shows "shaped (of_html d (pieces_str ps)) = shape_all xs" "shapes (of_html d (pieces_str ps)) \<subseteq> shape ` opens ps"
  using assms unfolding reads_markup_def by blast+

lemma is_void_shape: "is_void n \<longleftrightarrow> test void_re (fst (shape n))"
  by (simp add: is_void_def shape_def)

lemma shape_all_text: "shape_all xs = shape_all ys \<Longrightarrow> map fst xs = map fst ys"
  unfolding shape_all_def by (drule arg_cong [where f = "map fst"]) (simp add: comp_def)

lemma shaped_text: "map fst (shaped ns) = textContent ns"
  by (simp add: shaped_def shape_all_def textContent_def comp_def)

lemma no_voids_stream:
  "\<forall>e\<in>set (fst (nodeStream_from ns off)). \<not> is_void (node e) \<Longrightarrow> no_voids ns"
  by (induction ns off rule: nodeStream_from.induct) (auto split: prod.splits if_splits)

lemma placed_no_tags:
  "nodeStream ns = [] \<Longrightarrow> placed [] ns = map (\<lambda>c. (c, [])) (textContent ns)"
proof -
  assume empty: "nodeStream ns = []"
  then have "voids_empty ns"
    using no_voids_stream [of ns 0] no_voids_voids_empty by (simp add: nodeStream_def)
  from nodeStream_placed [OF this] have "placed [] ns = map (\<lambda>i. (textContent ns ! i, [])) [0..<length (textContent ns)]"
    unfolding empty by simp
  then show ?thesis
    by (metis (no_types, lifting) map_map map_nth comp_apply map_cong)
qed

subsection \<open>A reader of markup\<close>

definition decode :: "string \<Rightarrow> char" where
  "decode name = (if name = ''amp'' then CHR ''&'' else if name = ''lt'' then CHR ''<'' else CHR ''>'')"

function unesc :: "string \<Rightarrow> string" where
  "unesc [] = []"
| "unesc (c # s) =
     (if c = CHR ''&'' then decode (takeWhile ((\<noteq>) CHR '';'') s) # unesc (tl (dropWhile ((\<noteq>) CHR '';'') s)) else c # unesc s)"
  by pat_completeness auto
termination
  by (relation "measure length") (auto simp: less_Suc_eq_le intro: le_trans [OF diff_le_self length_dropWhile_le])

function read_attrs :: "string \<Rightarrow> (string \<times> string) list" where
  "read_attrs [] = []"
| "read_attrs (c # s) =
     (let k = takeWhile ((\<noteq>) CHR ''='') s; r = drop (length k + 2) s; v = takeWhile ((\<noteq>) CHR 0x22) r
      in (k, unesc v) # read_attrs (drop (length v + 1) r))"
  by pat_completeness auto
termination
  by (relation "measure length") auto

definition read_tag :: "string \<Rightarrow> elem_shape" where
  "read_tag body = (let name = takeWhile ((\<noteq>) CHR '' '') body in (name, read_attrs (drop (length name) body)))"

function read_html :: "elem_shape list \<Rightarrow> string \<Rightarrow> (char \<times> elem_shape list) list" where
  "read_html st [] = []"
| "read_html st (c # s) =
     (if c = CHR ''<'' then
        (let body = takeWhile ((\<noteq>) CHR ''>'') s; later = tl (dropWhile ((\<noteq>) CHR ''>'') s)
         in if body \<noteq> [] \<and> hd body = CHR ''/'' then read_html (tl st) later
            else read_html (if test void_re (fst (read_tag body)) then st else read_tag body # st) later)
      else if c = CHR ''&'' then
        (decode (takeWhile ((\<noteq>) CHR '';'') s), st) # read_html st (tl (dropWhile ((\<noteq>) CHR '';'') s))
      else (c, st) # read_html st s)"
  by pat_completeness auto
termination
  by (relation "measure (length \<circ> snd)") (auto simp: less_Suc_eq_le intro: le_trans [OF diff_le_self length_dropWhile_le])

text \<open>Each character becomes a text node in elements of its own.\<close>

fun wrap :: "dnode \<Rightarrow> elem_shape list \<Rightarrow> dnode" where
  "wrap n [] = n"
| "wrap n (p # st) = wrap (DElem (fst p) (snd p) [n]) st"

definition markup_reader :: html_dom where
  "markup_reader = \<lparr>of_html = (\<lambda>s. map (\<lambda>x. wrap (DText [fst x]) (snd x)) (read_html [] s)), to_html = (\<lambda>ns. textContent ns)\<rparr>"

subsection \<open>Escaped text\<close>

definition esc_char :: "char \<Rightarrow> string" where
  "esc_char c = (if c = CHR ''&'' then ''&amp;'' else if c = CHR ''<'' then ''&lt;'' else if c = CHR ''>'' then ''&gt;'' else [c])"

lemma hl_escape_Nil [simp]: "hl_escape [] = []"
  by (simp add: hl_escape_def)

lemma hl_escape_Cons [simp]: "hl_escape (c # s) = esc_char c @ hl_escape s"
  by (simp add: hl_escape_def esc_char_def replace_all_Cons)

lemma hl_escape_closed: "CHR ''>'' \<notin> set (hl_escape s)"
  by (induction s) (simp_all add: esc_char_def)

lemma hl_escape_quote: "CHR 0x22 \<notin> set s \<Longrightarrow> CHR 0x22 \<notin> set (hl_escape s)"
  by (induction s) (simp_all add: esc_char_def)

lemma unesc_escape: "unesc (hl_escape v @ t) = v @ unesc t"
  by (induction v) (auto simp: esc_char_def decode_def)

lemma read_html_escape: "read_html st (hl_escape v @ t) = map (\<lambda>c. (c, st)) v @ read_html st t"
  by (induction v) (auto simp: esc_char_def decode_def)

subsection \<open>Tags\<close>

lemma inline_tag:
  assumes "t \<in> set inline_tags"
  shows "t \<noteq> []" "CHR ''>'' \<notin> set t" "CHR '' '' \<notin> set t" "hd t \<noteq> CHR ''/''" "toLowerCase t = t"
proof -
  have "list_all (\<lambda>t. t \<noteq> [] \<and> CHR ''>'' \<notin> set t \<and> CHR '' '' \<notin> set t \<and> hd t \<noteq> CHR ''/'' \<and> toLowerCase t = t) inline_tags"
    by code_simp
  with assms show "t \<noteq> []" "CHR ''>'' \<notin> set t" "CHR '' '' \<notin> set t" "hd t \<noteq> CHR ''/''" "toLowerCase t = t"
    by (simp_all add: list_all_iff)
qed

lemma tame_name:
  assumes "tame_attr a"
  shows "CHR ''='' \<notin> set (fst a)" "CHR ''>'' \<notin> set (fst a)"
proof -
  have "CHR ''='' \<notin> set letters" "CHR ''>'' \<notin> set letters"
    by (simp_all add: letters_def)
  with assms show "CHR ''='' \<notin> set (fst a)" "CHR ''>'' \<notin> set (fst a)"
    unfolding tame_attr_def by blast+
qed

lemma replace_first_absent: "c \<notin> set s \<Longrightarrow> replace_first [c] new s = s"
  using indexOf_Some [of s "[c]"] unfolding replace_first_def
  by (cases "indexOf s [c]") (auto, metis in_set_conv_decomp append_Cons)

lemma tame_attr_str:
  assumes "tame_attr a"
  shows "attr_str a = CHR '' '' # fst a @ CHR ''='' # CHR 0x22 # hl_escape (snd a) @ [CHR 0x22]"
    and "CHR ''>'' \<notin> set (attr_str a)" "CHR 0x22 \<notin> set (hl_escape (snd a))"
proof -
  have "CHR 0x22 \<notin> set (snd a)"
    using assms by (auto simp: tame_attr_def list_all_iff)
  then show q: "CHR 0x22 \<notin> set (hl_escape (snd a))" by (rule hl_escape_quote)
  then show str: "attr_str a = CHR '' '' # fst a @ CHR ''='' # CHR 0x22 # hl_escape (snd a) @ [CHR 0x22]"
    by (simp add: attr_str_def replace_first_absent)
  show "CHR ''>'' \<notin> set (attr_str a)"
    unfolding str using tame_name [OF assms] hl_escape_closed by simp
qed

lemma takeWhile_until: "c \<notin> set xs \<Longrightarrow> takeWhile ((\<noteq>) c) (xs @ c # ys) = xs"
  by (induction xs) auto

lemma dropWhile_until: "c \<notin> set xs \<Longrightarrow> dropWhile ((\<noteq>) c) (xs @ c # ys) = c # ys"
  by (induction xs) auto

lemma read_attrs_str:
  "list_all tame_attr as \<Longrightarrow> read_attrs (concat (map attr_str as)) = as"
proof (induction as)
  case (Cons a as)
  let ?t = "concat (map attr_str as)"
  have str: "concat (map attr_str (a # as)) = CHR '' '' # fst a @ CHR ''='' # CHR 0x22 # hl_escape (snd a) @ CHR 0x22 # ?t"
    using Cons.prems tame_attr_str(1) [of a] by simp
  have "takeWhile ((\<noteq>) CHR ''='') (fst a @ CHR ''='' # CHR 0x22 # hl_escape (snd a) @ CHR 0x22 # ?t) = fst a"
    "takeWhile ((\<noteq>) CHR 0x22) (hl_escape (snd a) @ CHR 0x22 # ?t) = hl_escape (snd a)"
    using Cons.prems tame_name(1) [of a] tame_attr_str(3) [of a] by (simp_all add: takeWhile_until)
  with Cons show ?case
    unfolding str using unesc_escape [of "snd a" "[]"] by (simp add: Let_def)
qed simp

lemma read_tag_open:
  assumes "tame_shape (shape n)"
  shows "read_tag (tag n @ concat (map attr_str (attributes n))) = shape n"
proof -
  have t: "CHR '' '' \<notin> set (tag n)" and a: "list_all tame_attr (attributes n)"
    using assms inline_tag(3) [of "tag n"] by (simp_all add: tame_shape_def shape_def)
  have "takeWhile ((\<noteq>) CHR '' '') (tag n @ concat (map attr_str (attributes n))) = tag n"
  proof (cases "attributes n")
    case Nil
    with t show ?thesis by (auto simp: takeWhile_eq_all_conv)
  next
    case (Cons b bs)
    then have "concat (map attr_str (attributes n)) = CHR '' '' # tl (concat (map attr_str (attributes n)))"
      using a tame_attr_str(1) [of b] by simp
    with t show ?thesis by (metis takeWhile_until)
  qed
  then show ?thesis
    using read_attrs_str [OF a] by (simp add: read_tag_def shape_def)
qed

lemma read_html_open:
  assumes "tame_shape (shape n)"
  shows "read_html st (open_tag n @ t) = read_html (if is_void n then st else shape n # st) t"
proof -
  let ?body = "tag n @ concat (map attr_str (attributes n))"
  have tag: "tag n \<in> set inline_tags" and a: "list_all tame_attr (attributes n)"
    using assms by (simp_all add: tame_shape_def shape_def)
  have "CHR ''>'' \<notin> set ?body"
    using inline_tag(2) [OF tag] a tame_attr_str(2) by (auto simp: list_all_iff)
  moreover have "?body \<noteq> []" "hd ?body \<noteq> CHR ''/''"
    using inline_tag(1,4) [OF tag] by simp_all
  ultimately show ?thesis
    using takeWhile_until [of "CHR ''>''" ?body t] dropWhile_until [of "CHR ''>''" ?body t] read_tag_open [OF assms]
    by (simp add: open_tag_def Let_def is_void_shape)
qed

lemma read_html_close:
  assumes "tame_shape (shape n)"
  shows "read_html (p # st) (close_tag n @ t) = read_html st t"
proof -
  have "CHR ''>'' \<notin> set (CHR ''/'' # tag n)"
    using assms inline_tag(2) by (simp add: tame_shape_def shape_def)
  then show ?thesis
    using takeWhile_until [of "CHR ''>''" "CHR ''/'' # tag n" t] dropWhile_until [of "CHR ''>''" "CHR ''/'' # tag n" t]
    by (simp add: close_tag_def Let_def)
qed

lemma read_html_pieces:
  "spread ns ps = Some (xs, []) \<Longrightarrow> shape ` (set ns \<union> opens ps) \<subseteq> Collect tame_shape \<Longrightarrow>
    read_html (map shape ns) (pieces_str ps) = shape_all xs"
proof (induction ns ps arbitrary: xs rule: spread.induct)
  case (2 st s ps)
  then show ?case
    by (auto simp: read_html_escape shape_all_def inside_def)
next
  case (3 st n ps)
  then show ?case
    by (auto simp: read_html_open split: if_splits)
next
  case (4 st n ps)
  then show ?case
    by (cases st) (auto simp: read_html_close split: if_splits)
qed (simp add: shape_all_def pieces_str_def)

subsection \<open>The law\<close>

fun elems :: "dnode list \<Rightarrow> elem_shape set" where
  "elems [] = {}"
| "elems (DElem t as cs # ns) = insert (toLowerCase t, as) (elems cs \<union> elems ns)"
| "elems (_ # ns) = elems ns"

lemma nodeStream_from_elems: "shape ` node ` set (fst (nodeStream_from ns off)) = elems ns"
proof (induction ns off rule: nodeStream_from.induct)
  case (3 n as cs sibs off)
  obtain inner off1 where inner: "nodeStream_from cs off = (inner, off1)" by fastforce
  obtain later off2 where later: "nodeStream_from sibs off1 = (later, off2)" by fastforce
  have "shape ` node ` set inner = elems cs" "shape ` node ` set later = elems sibs"
    using 3(1) 3(2) [OF inner [symmetric] refl refl] inner later by simp_all
  moreover have "shape (DElem n as cs) = (toLowerCase n, as)" by (simp add: shape_def)
  ultimately show ?case
    using inner later by (simp add: image_Un)
qed simp_all

lemma shapes_elems: "shapes ns = elems ns"
  by (simp add: shapes_def nodeStream_def nodeStream_from_elems)

lemma elems_Cons: "elems (n # ns) = elems [n] \<union> elems ns"
  by (cases n) auto

lemma placed_wrap:
  "fst ` set st \<subseteq> set inline_tags \<Longrightarrow> \<exists>ms. placed acc [wrap n st] = placed (ms @ acc) [n] \<and> map shape ms = st"
proof (induction st arbitrary: n)
  case (Cons p st)
  let ?e = "DElem (fst p) (snd p) [n]"
  from Cons.prems have tags: "fst ` set st \<subseteq> set inline_tags" "fst p \<in> set inline_tags" by simp_all
  from Cons.IH [OF tags(1), of ?e] obtain ms
    where "placed acc [wrap ?e st] = placed (ms @ acc) [?e]" "map shape ms = st" by blast
  moreover have "shape ?e = p"
    using inline_tag(5) [OF tags(2)] by (simp add: shape_def)
  ultimately show ?case
    by (intro exI [of _ "?e # ms"]) simp
qed simp

lemma shaped_wrapped:
  "\<forall>x\<in>set ys. fst ` set (snd x) \<subseteq> set inline_tags \<Longrightarrow>
    shaped (map (\<lambda>x. wrap (DText [fst x]) (snd x)) ys) = ys"
proof (induction ys)
  case (Cons y ys)
  then have "fst ` set (snd y) \<subseteq> set inline_tags" by simp
  from placed_wrap [OF this, of "[]" "DText [fst y]"] obtain ms
    where "placed [] [wrap (DText [fst y]) (snd y)] = [(fst y, ms)]" "map shape ms = snd y" by (auto simp: inside_def)
  moreover have "shaped (map (\<lambda>x. wrap (DText [fst x]) (snd x)) ys) = ys"
    using Cons by simp
  ultimately show ?case
    using placed_Cons [of "[]" "wrap (DText [fst y]) (snd y)" "map (\<lambda>x. wrap (DText [fst x]) (snd x)) ys"]
    unfolding shaped_def shape_all_def by (simp add: prod_eq_iff)
qed (simp add: shaped_def shape_all_def)

lemma elems_wrap:
  "fst ` set st \<subseteq> set inline_tags \<Longrightarrow> elems [wrap n st] \<subseteq> elems [n] \<union> set st"
proof (induction st arbitrary: n)
  case (Cons p st)
  let ?e = "DElem (fst p) (snd p) [n]"
  from Cons.prems have tags: "fst ` set st \<subseteq> set inline_tags" "toLowerCase (fst p) = fst p"
    by (simp_all add: inline_tag(5))
  from Cons.IH [OF tags(1), of ?e] show ?case
    using tags(2) by auto
qed simp

lemma elems_wrapped:
  "\<forall>x\<in>set ys. fst ` set (snd x) \<subseteq> set inline_tags \<Longrightarrow>
    elems (map (\<lambda>x. wrap (DText [fst x]) (snd x)) ys) \<subseteq> (\<Union>x\<in>set ys. set (snd x))"
proof (induction ys)
  case (Cons y ys)
  then have "elems [wrap (DText [fst y]) (snd y)] \<subseteq> set (snd y)"
    using elems_wrap [of "snd y" "DText [fst y]"] by simp
  with Cons show ?case
    using elems_Cons [of "wrap (DText [fst y]) (snd y)" "map (\<lambda>x. wrap (DText [fst x]) (snd x)) ys"] by auto
qed simp

lemma spread_elements:
  "spread st ps = Some (xs, st') \<Longrightarrow> x \<in> set xs \<Longrightarrow> set (snd x) \<subseteq> set st \<union> opens ps"
proof (induction st ps arbitrary: xs rule: spread.induct)
  case (2 st s ps)
  then obtain ys where ys: "spread st ps = Some (ys, st')" "xs = inside st s @ ys" by auto
  show ?case
  proof (cases "x \<in> set ys")
    case True
    with 2(1) ys(1) show ?thesis by auto
  next
    case False
    with 2(3) ys(2) show ?thesis by (auto simp: inside_def)
  qed
next
  case (4 st n ps)
  then show ?case by (cases st) (auto split: if_splits)
qed (auto split: if_splits)

lemma reads_markup_reader: "reads_markup markup_reader"
  unfolding reads_markup_def
proof (intro allI impI, elim conjE)
  fix ps xs
  assume ps: "spread [] ps = Some (xs, [])" "shape ` opens ps \<subseteq> Collect tame_shape"
  let ?ys = "shape_all xs"
  let ?ns = "map (\<lambda>x. wrap (DText [fst x]) (snd x)) ?ys"
  have ns: "of_html markup_reader (pieces_str ps) = ?ns"
    using read_html_pieces [OF ps(1)] ps(2) by (simp add: markup_reader_def)
  have el: "set (snd y) \<subseteq> shape ` opens ps" if y: "y \<in> set ?ys" for y
  proof -
    obtain x where "x \<in> set xs" "snd y = map shape (snd x)"
      using y by (auto simp: shape_all_def)
    with spread_elements [OF ps(1), of x] show ?thesis by auto
  qed
  then have "\<forall>y\<in>set ?ys. fst ` set (snd y) \<subseteq> set inline_tags"
    using ps(2) unfolding tame_shape_def by blast
  from shaped_wrapped [OF this] elems_wrapped [OF this] el
  show "shaped (of_html markup_reader (pieces_str ps)) = ?ys \<and> shapes (of_html markup_reader (pieces_str ps)) \<subseteq> shape ` opens ps"
    unfolding ns shapes_elems by blast
qed

end
