(* ===== verification/Hljs_Block_Facts.thy ===== *)
theory Hljs_Block_Facts
  imports Hljs_Html Hljs_Properties
begin

text \<open>
  Highlighting a block of the page: the composition of the highlighter, the merging of streams and the browser's
  HTML parser. The parser is a parameter; \<open>reads_markup\<close> states what the code relies on, for markup made of
  inline elements.
\<close>

subsection \<open>The markup of the highlighter\<close>

definition hl_span :: "string \<Rightarrow> dnode" where
  "hl_span c = DElem ''span'' [(''class'', c)] []"

definition span_shape :: "string \<Rightarrow> elem_shape" where
  "span_shape c = (''span'', [(''class'', c)])"

lemma shape_hl_span [simp]: "shape (hl_span c) = span_shape c"
  by (simp add: shape_def hl_span_def span_shape_def) code_simp

lemma span_not_void [simp]: "\<not> is_void (hl_span c)" "\<not> test void_re (fst (span_shape c))"
proof -
  have "\<not> test void_re ''span''" by code_simp
  then show "\<not> test void_re (fst (span_shape c))" by (simp add: span_shape_def)
  then show "\<not> is_void (hl_span c)" by (simp add: is_void_shape)
qed

definition spelled :: "string \<Rightarrow> bool" where
  "spelled c \<longleftrightarrow> open_tag (hl_span c) = hpiece_str (HOpen c) \<and> tame_shape (span_shape c)"

fun to_pieces :: "string list \<Rightarrow> hpiece list \<Rightarrow> piece list" where
  "to_pieces st [] = []"
| "to_pieces st (HOpen c # ps) = Open (hl_span c) # to_pieces (c # st) ps"
| "to_pieces st (HClose # ps) = Close (hl_span (hd st)) # to_pieces (tl st) ps"
| "to_pieces st (HChars s # ps) = Chars s # to_pieces st ps"

lemma close_hl_span: "close_tag (hl_span c) = ''</span>''"
  unfolding close_tag_def hl_span_def tag.simps by code_simp

lemma to_pieces_str:
  "\<forall>c\<in>spans ps. spelled c \<Longrightarrow> pieces_str (to_pieces st ps) = hpieces_str ps"
  by (induction st ps rule: to_pieces.induct)
    (auto simp: hpieces_str_def spelled_def close_hl_span)

lemma to_pieces_opens: "opens (to_pieces st ps) = hl_span ` spans ps"
  by (induction st ps rule: to_pieces.induct) auto

lemma to_pieces_spread:
  "hdepth (length st) ps = Some e \<Longrightarrow>
    \<exists>xs st'. spread (map hl_span st) (to_pieces st ps) = Some (xs, map hl_span st') \<and> length st' = e \<and>
      map fst xs = htext ps \<and> (\<forall>x\<in>set xs. set (snd x) \<subseteq> hl_span ` (set st \<union> spans ps))"
proof (induction st ps rule: to_pieces.induct)
  case (2 st c ps)
  then show ?case by fastforce
next
  case (3 st ps)
  then obtain b st1 where st: "st = b # st1"
    by (cases st) auto
  with 3 show ?case by fastforce
next
  case (4 st s ps)
  then obtain xs st' where "spread (map hl_span st) (to_pieces st ps) = Some (xs, map hl_span st')" "length st' = e"
    "map fst xs = htext ps" "\<forall>x\<in>set xs. set (snd x) \<subseteq> hl_span ` (set st \<union> spans ps)"
    by auto
  then show ?case
    by (intro exI [of _ "inside (map hl_span st) s @ xs"] exI [of _ st']) (auto simp: inside_def comp_def)
qed auto

lemma markup_pieces:
  assumes "markup K v s 0" "\<forall>c\<in>K. spelled c"
  shows "\<exists>ps xs. v = pieces_str ps \<and> spread [] ps = Some (xs, []) \<and> opens ps \<subseteq> hl_span ` K \<and> map fst xs = s \<and>
    (\<forall>x\<in>set xs. set (snd x) \<subseteq> hl_span ` K)"
proof -
  obtain ps where ps: "v = hpieces_str ps" "htext ps = s" "hdepth 0 ps = Some 0" "spans ps \<subseteq> K"
    using assms(1) by (auto simp: markup_def)
  with to_pieces_spread [of "[]" ps 0] obtain xs where
    "spread [] (to_pieces [] ps) = Some (xs, [])" "map fst xs = s" "\<forall>x\<in>set xs. set (snd x) \<subseteq> hl_span ` spans ps"
    by auto
  moreover have "\<forall>c\<in>spans ps. spelled c"
    using ps(4) assms(2) by blast
  then have "v = pieces_str (to_pieces [] ps)"
    using ps(1) by (simp add: to_pieces_str)
  ultimately show ?thesis
    using ps(4) to_pieces_opens [of "[]" ps] by blast
qed

subsection \<open>The highlighted block\<close>

text \<open>Each character stands where it stood, with nothing but spans of the given classes added directly around it.\<close>

definition keeps_elements :: "string set \<Rightarrow> dnode list \<Rightarrow> dnode list \<Rightarrow> bool" where
  "keeps_elements K before after \<longleftrightarrow>
     list_all2 (\<lambda>x y. fst y = fst x \<and> (\<exists>ss. snd y = ss @ snd x \<and> set ss \<subseteq> span_shape ` K)) (shaped before) (shaped after)"

lemma shape_all_spans:
  "\<forall>x\<in>set xs. set (snd x) \<subseteq> hl_span ` K \<Longrightarrow> x \<in> set (shape_all xs) \<Longrightarrow> set (snd x) \<subseteq> span_shape ` K"
  unfolding shape_all_def by fastforce

lemma keeps_elements_plain:
  assumes "nodeStream ns = []" "shaped after = shape_all xs" "map fst xs = textContent ns"
    and "\<forall>x\<in>set xs. set (snd x) \<subseteq> hl_span ` K"
  shows "keeps_elements K ns after"
proof -
  have "shaped ns = map (\<lambda>c. (c, [])) (map fst xs)"
    using placed_no_tags [OF assms(1)] assms(3) by (simp add: shaped_def shape_all_def)
  then show ?thesis
    using shape_all_spans [OF assms(4) nth_mem] unfolding keeps_elements_def assms(2)
    by (simp add: list_all2_conv_all_nth shape_all_def)
qed

lemma keeps_elements_overlay:
  assumes "shaped after = shape_all (overlay (placed [] ns) (placed [] hs))" "textContent hs = textContent ns"
    and "\<forall>x\<in>set (shaped hs). set (snd x) \<subseteq> span_shape ` K"
  shows "keeps_elements K ns after"
proof -
  have len: "length (placed [] hs) = length (placed [] ns)"
    using assms(2) by (simp add: length_placed)
  then have "snd (shaped after ! i) = snd (shaped hs ! i) @ snd (shaped ns ! i)" "fst (shaped after ! i) = fst (shaped ns ! i)"
    if "i < length (placed [] ns)" for i
    using that unfolding assms(1) by (simp_all add: shaped_def shape_all_def overlay_def split: prod.splits)
  moreover have "length (shaped after) = length (shaped ns)"
    using len unfolding assms(1) by (simp add: shaped_def shape_all_def overlay_def)
  ultimately show ?thesis
    using assms(3) len unfolding keeps_elements_def
    by (auto simp: list_all2_conv_all_nth shaped_def shape_all_def)
qed

lemma overlay_text: "textContent hs = textContent ns \<Longrightarrow> map fst (overlay (placed [] ns) (placed [] hs)) = textContent ns"
proof -
  assume "textContent hs = textContent ns"
  then have "length (placed [] hs) = length (placed [] ns)" by (simp add: length_placed)
  then show ?thesis
    by (intro nth_equalityI) (simp_all add: overlay_def textContent_def split_beta)
qed

lemma finish_block_keeps:
  assumes d: "reads_markup d" and x: "markup K (o_value x) (textContent ns) 0" and K: "\<forall>c\<in>K. spelled c"
    and ns: "shapes ns \<subseteq> Collect tame_shape" "voids_empty ns" "list_all plain_char (textContent ns)"
    and r: "options r = default_options"
  shows "keeps_elements K ns (b_nodes (finish_block d r language ns block x))"
proof -
  have fix_id: "fixMarkup (options r) t = t" for t
    by (simp add: r fixMarkup_def default_options_def truthy_def)
  obtain ps xs where ps: "o_value x = pieces_str ps" "spread [] ps = Some (xs, [])" "opens ps \<subseteq> hl_span ` K"
    "map fst xs = textContent ns" "\<forall>y\<in>set xs. set (snd y) \<subseteq> hl_span ` K"
    using markup_pieces [OF x K] by blast
  let ?hs = "of_html d (o_value x)"
  have tame: "shape ` opens ps \<subseteq> Collect tame_shape"
    using ps(3) K by (auto simp: spelled_def)
  then have hs: "shaped ?hs = shape_all xs" "shapes ?hs \<subseteq> shape ` opens ps"
    using reads_markupD [OF d ps(2) tame] ps(1,4) ns(3) by simp_all
  show ?thesis
  proof (cases "nodeStream ns = []")
    case True
    then show ?thesis
      using keeps_elements_plain [OF True hs(1) ps(4,5)] by (simp add: finish_block_def fix_id)
  next
    case False
    have same: "textContent ?hs = textContent ns"
      using hs(1) ps(4) by (metis shaped_text shape_all_text shaped_def textContent_def)
    have "\<not> is_void (node e)" if "e \<in> set (nodeStream ?hs)" for e
    proof -
      have "shape (node e) \<in> span_shape ` K"
        using hs(2) ps(3) that unfolding shapes_def by fastforce
      then show ?thesis by (auto simp: is_void_shape)
    qed
    then have nv: "no_voids ?hs"
      using no_voids_stream [of ?hs 0] by (simp add: nodeStream_def)
    obtain qs where qs: "mergeStreams (nodeStream ns) (nodeStream ?hs) (textContent ns) = pieces_str qs"
      "spread [] qs = Some (overlay (placed [] ns) (placed [] ?hs), [])"
      "opens qs \<subseteq> node ` (set (nodeStream ns) \<union> set (nodeStream ?hs))"
      using mergeStreams_pieces [OF ns(2) nv same] by blast
    have "shape ` opens qs \<subseteq> Collect tame_shape"
      using qs(3) ns(1) hs(2) tame unfolding shapes_def by blast
    moreover have "map fst (overlay (placed [] ns) (placed [] ?hs)) = textContent ns"
      by (rule overlay_text [OF same])
    ultimately have "shaped (of_html d (pieces_str qs)) = shape_all (overlay (placed [] ns) (placed [] ?hs))"
      using reads_markupD(1) [OF d qs(2)] ns(3) by simp
    from keeps_elements_overlay [OF this same] shape_all_spans [OF ps(5)] hs(1) have "keeps_elements K ns (of_html d (pieces_str qs))"
      by simp
    then show ?thesis
      using False qs(1) by (simp add: finish_block_def fix_id)
  qed
qed

lemma json_spans_spelled: "\<forall>c\<in>json_spans. spelled c"
proof -
  have "list_all spelled [''hljs-string'', ''hljs-number'', ''hljs-attr'', ''hljs-literal'']" by code_simp
  then show ?thesis by (simp add: json_spans_def)
qed

lemma json_or_detected:
  assumes "language \<in> {None, Some ''json''}"
  shows "\<exists>x h. (if truthy language then highlight (4 * length s + 11) (fst with_json) (the language) s True None (snd with_json)
      else highlightAuto (highlight (4 * length s + 11) (fst with_json)) (fst with_json) s None (snd with_json)) = hret x h \<and>
    markup json_spans (o_value x) s 0"
proof -
  have fuel: "Suc (4 * length s + 10) = 4 * length s + 11" by simp
  have u: "json_usable (snd with_json)"
    using json_store_first by (simp add: json_usable_def)
  from json_highlight [OF u, of "4 * length s + 10" s True] json.highlightAuto_keeps [OF json_languages _ u, of "4 * length s + 10" s]
  show ?thesis
    using assms unfolding fuel by (cases language) (auto simp: truthy_def simp del: highlight.simps)
qed

subsection \<open>Property\<close>

text \<open>
  C12. Highlighting a block of the page with JSON registered, named by its class or to be detected, returns and keeps the block's text and its
  markup: in the page that results each character, in order, stands inside exactly the elements it stood in before, and
  within them inside spans of the highlighter only. The block is made of inline elements, with void elements
  that are empty, and the browser reads markup of such elements as HTML is read.
\<close>

theorem highlightBlock_keeps_elements:
  assumes "reads_markup d" "blockLanguage (fst with_json) block \<in> {None, Some ''json''}"
    and "shapes (b_nodes block) \<subseteq> Collect tame_shape" "voids_empty (b_nodes block)"
    and "list_all plain_char (textContent (b_nodes block))"
  shows "\<exists>b h. highlightBlock (4 * length (textContent (b_nodes block)) + 11) d (fst with_json) block (snd with_json) = hret b h \<and>
    keeps_elements json_spans (b_nodes block) (b_nodes b)"
proof -
  let ?r = "fst with_json"
  let ?l = "blockLanguage ?r block"
  have lit: "\<not> isNotHighlighted None" "\<not> isNotHighlighted (Some ''json'')" by code_simp+
  then have l: "\<not> isNotHighlighted ?l" using assms(2) by auto
  have src: "block_source d (options ?r) block = b_nodes block"
    by (simp add: block_source_def json_language(2) default_options_def)
  obtain x h where x: "(if truthy ?l then highlight (4 * length (textContent (b_nodes block)) + 11) ?r (the ?l) (textContent (b_nodes block)) True None (snd with_json)
      else highlightAuto (highlight (4 * length (textContent (b_nodes block)) + 11) ?r) ?r (textContent (b_nodes block)) None (snd with_json)) = hret x h"
    "markup json_spans (o_value x) (textContent (b_nodes block)) 0"
    using json_or_detected [OF assms(2)] by blast
  have "keeps_elements json_spans (b_nodes block) (b_nodes (finish_block d ?r ?l (b_nodes block) block x))"
    by (rule finish_block_keeps [OF assms(1) x(2) json_spans_spelled assms(3-5) json_language(2)])
  then show ?thesis
    unfolding highlightBlock_def Let_def src x(1) using l by auto
qed

definition example_block :: code_block where
  "example_block = \<lparr>b_class = ''json'', b_parent = None,
     b_nodes = [DText ''[1, '', DElem ''B'' [(''class'', ''new'')] [DText ''true, '', DElem ''BR'' [] []], DText ''null]''],
     b_result = None, b_second = None\<rparr>"

theorem highlightBlock_keeps_elements_witness:
  "\<exists>b h. highlightBlock (4 * length (textContent (b_nodes example_block)) + 11) markup_reader (fst with_json) example_block (snd with_json) = hret b h \<and>
    keeps_elements json_spans (b_nodes example_block) (b_nodes b)"
proof (rule highlightBlock_keeps_elements [OF reads_markup_reader])
  show "blockLanguage (fst with_json) example_block \<in> {None, Some ''json''}" by code_simp
  show "shapes (b_nodes example_block) \<subseteq> Collect tame_shape"
  proof -
    have "list_all (\<lambda>e. tame_shape (shape (node e))) (nodeStream (b_nodes example_block))" by code_simp
    then show ?thesis by (auto simp: shapes_def list_all_iff)
  qed
  show "voids_empty (b_nodes example_block)" by code_simp
  show "list_all plain_char (textContent (b_nodes example_block))" by code_simp
qed

end
