(* ===== verification/Remark_SlideView.thy ===== *)
theory Remark_SlideView
  imports Hljs_Block Remark_Convert Remark_Utils
begin

text \<open>
  How a slide view builds its elements (\<^verbatim>\<open>remark.js\<close>, module 27): classes and styles from the properties of
  the slide, content and notes from the converter, and the treatment of code blocks; the slide
  number and the style sheet of the page (components/slide-number, components/styler).

  HTML is parsed and serialised by the browser (\<open>html_dom\<close>). The code blocks of an element are given in
  document order, each with the name of its parent element; blocks inside other blocks are not modelled.
\<close>

subsection \<open>Options\<close>

datatype spans_option = SpansOff | SpansTrue | SpansRegExp string rx_flags bool | SpansOther

record view_options =
  highlightStyle :: "string option"
  highlightLines :: bool
  highlightSpans :: spans_option
  highlightInlineCode :: bool
  highlightLanguage :: "string option"
  slideNumberFormat :: "string option"

text \<open>\<open>or_default\<close>: \<open>None\<close> is an option that is undefined.\<close>

definition or_default :: "'a option \<Rightarrow> 'a \<Rightarrow> 'a" where
  "or_default v d = (case v of None \<Rightarrow> d | Some x \<Rightarrow> x)"

subsection \<open>Classes and styles\<close>

definition createSlideElement :: "slide \<Rightarrow> string" where
  "createSlideElement s =
     (if obj_get (s_properties s) ''continued'' = Some ''true''
      then addClass ''remark-slide'' ''remark-slide-incremental'' else ''remark-slide'')"

definition class_split_re :: regexp where
  "class_split_re = re no_flags '',| ''"

definition setClassFromProperties :: "string \<Rightarrow> (string \<times> string) list \<Rightarrow> string" where
  "setClassFromProperties cls properties =
     fold (\<lambda>c e. addClass e c)
       (filter (\<lambda>s. s \<noteq> []) (re_split class_split_re (case obj_get properties ''class'' of None \<Rightarrow> [] | Some s \<Rightarrow> s)))
       (addClass cls ''remark-slide-content'')"

definition setHighlightStyleFromProperties :: "view_options \<Rightarrow> string \<Rightarrow> (string \<times> string) list \<Rightarrow> string" where
  "setHighlightStyleFromProperties vo cls properties =
     (let style = (if truthy (obj_get properties ''highlight-style'') then the (obj_get properties ''highlight-style'')
                   else or_default (highlightStyle vo) ''default'')
      in if style \<noteq> [] then addClass cls (''hljs-'' @ style) else cls)"

definition set_style :: "string \<Rightarrow> string option \<Rightarrow> (string \<times> string) list \<Rightarrow> (string \<times> string) list" where
  "set_style name v style = (if truthy v then dict_set name (the v) style else style)"

definition setBackgroundFromProperties :: "(string \<times> string) list \<Rightarrow> (string \<times> string) list \<Rightarrow> (string \<times> string) list" where
  "setBackgroundFromProperties style properties =
     set_style ''backgroundPosition'' (obj_get properties ''background-position'')
       (set_style ''backgroundSize'' (obj_get properties ''background-size'')
         (set_style ''backgroundColor'' (obj_get properties ''background-color'')
           (set_style ''backgroundImage'' (obj_get properties ''background-image'') style)))"

record element =
  e_id :: "string option"
  e_class :: string
  e_style :: "(string \<times> string) list"
  e_html :: string

definition styleContentElement :: "view_options \<Rightarrow> element \<Rightarrow> (string \<times> string) list \<Rightarrow> element" where
  "styleContentElement vo e properties =
     e\<lparr>e_class := setHighlightStyleFromProperties vo (setClassFromProperties [] properties) properties,
       e_style := setBackgroundFromProperties (e_style e) properties\<rparr>"

subsection \<open>Lines of code\<close>

definition line_break_re :: regexp where
  "line_break_re = re no_flags (bs ''%r?%n'')"

definition star_re :: regexp where
  "star_re = re no_flags (bs ''^%*( )?'')"

definition starred :: "string \<Rightarrow> bool" where
  "starred line \<longleftrightarrow> take 1 line = ''*''"

definition unstar :: "string \<Rightarrow> string" where
  "unstar line = (if starred line then re_replace1 star_re (\<lambda>m. cap_str m 1 @ cap_str m 1) line else line)"

text \<open>\<open>extractMetadata\<close> on the HTML of a block: its new HTML and the starred lines.\<close>

definition extractMetadata :: "string \<Rightarrow> string \<times> nat list" where
  "extractMetadata html =
     (let lines = re_split line_break_re html
      in (join [NL] (map unstar lines), filter (\<lambda>i. starred (lines ! i)) [0..<length lines]))"

definition code_line :: "string \<Rightarrow> string" where
  "code_line line = ''<div class='' @ [CHR 0x22] @ ''remark-code-line'' @ [CHR 0x22] @ ''>'' @ line @ ''</div>''"

definition code_lines :: "string \<Rightarrow> string list" where
  "code_lines html =
     (let lines = map code_line (re_split line_break_re html)
      in if lines \<noteq> [] \<and> indexOf (last lines) ''><'' \<noteq> None then butlast lines else lines)"

definition wrapLines :: "string \<Rightarrow> string" where
  "wrapLines html = concat (code_lines html)"

definition class_attr :: "(string \<times> string) list \<Rightarrow> string" where
  "class_attr as = (case dict_get as ''class'' of None \<Rightarrow> [] | Some c \<Rightarrow> c)"

fun add_node_class :: "dnode \<Rightarrow> string \<Rightarrow> herr + dnode" where
  "add_node_class (DElem n as cs) c = Inr (DElem n (dict_set ''class'' (addClass (class_attr as) c) as) cs)"
| "add_node_class _ c = Inl (HType ''split of undefined'')"

fun highlightBlockLines :: "dnode list \<Rightarrow> nat list \<Rightarrow> herr + dnode list" where
  "highlightBlockLines nodes [] = Inr nodes"
| "highlightBlockLines nodes (i # lines) =
     (if i < length nodes
      then (case add_node_class (nodes ! i) ''remark-code-line-highlighted'' of
          Inl e \<Rightarrow> Inl e
        | Inr n \<Rightarrow> highlightBlockLines (nodes[i := n]) lines)
      else Inl (HType ''cls of undefined''))"

subsection \<open>Spans of code\<close>

definition tick_re :: regexp where
  "tick_re = re no_flags ''([^`])`([^`]+?)`''"

definition span_pattern :: "spans_option \<Rightarrow> herr + regexp" where
  "span_pattern sp =
     (case sp of
        SpansTrue \<Rightarrow> Inr tick_re
      | SpansRegExp source f global \<Rightarrow>
          if \<not> global then Inl (HType ''The regular expression in `highlightSpans` must have flag /g'')
          else (case RegExp (''([^])'' @ source) f of None \<Rightarrow> Inl (HSyntax source) | Some r \<Rightarrow> Inr r)
      | _ \<Rightarrow> Inl (HIllegal ''Illegal value for `highlightSpans`''))"

text \<open>The third argument of the replacement function: the second group, or the offset of the match when the expression has
  only one group.\<close>

definition span_replacement :: "regexp \<Rightarrow> rx_match \<Rightarrow> string" where
  "span_replacement r m =
     (let e = cap_str m 1;
          c = (if 2 \<le> ngroups r then (case cap m 2 of None \<Rightarrow> ''undefined'' | Some w \<Rightarrow> w) else nat_str (m_index m))
      in if e = [BSL] then drop 1 (cap0 m)
         else e @ ''<span class='' @ [CHR 0x22] @ ''remark-code-span-highlighted'' @ [CHR 0x22] @ ''>'' @ c @ ''</span>'')"

fun mark_spans :: "html_dom \<Rightarrow> regexp \<Rightarrow> dnode list \<Rightarrow> herr + dnode list" where
  "mark_spans d r [] = Inr []"
| "mark_spans d r (DElem n as cs # ns) =
     map_sum id (\<lambda>ns'. DElem n as (of_html d (re_replace r (span_replacement r) (to_html d cs))) # ns') (mark_spans d r ns)"
| "mark_spans d r (_ # ns) = Inl (HType ''replace of undefined'')"

definition highlightBlockSpans :: "html_dom \<Rightarrow> spans_option \<Rightarrow> dnode list \<Rightarrow> herr + dnode list" where
  "highlightBlockSpans d sp nodes =
     (case span_pattern sp of Inl e \<Rightarrow> Inl e | Inr r \<Rightarrow> mark_spans d r nodes)"

subsection \<open>highlightCodeBlocks\<close>

definition lift_res :: "herr + 'a \<Rightarrow> mstore \<Rightarrow> 'a hres" where
  "lift_res x h = Some (x, h)"

text \<open>The callback for one block, after an empty class is replaced by the default language.\<close>

definition code_block_in_pre :: "nat \<Rightarrow> html_dom \<Rightarrow> registry \<Rightarrow> view_options \<Rightarrow> code_block \<Rightarrow> mstore \<Rightarrow> code_block hres" where
  "code_block_in_pre fuel d r vo block h =
     (let meta = extractMetadata (to_html d (b_nodes block));
          block1 = (if highlightLines vo then block\<lparr>b_nodes := of_html d (fst meta)\<rparr> else block)
      in hbind (if b_class block1 \<noteq> [] then highlightBlock fuel d r block1 h else hret block1 h) (\<lambda>block2 h2.
         let nodes = of_html d (wrapLines (to_html d (b_nodes block2)))
         in hbind (if highlightLines vo then lift_res (highlightBlockLines nodes (snd meta)) h2 else hret nodes h2) (\<lambda>nodes1 h3.
            hbind (if highlightSpans vo \<noteq> SpansOff then lift_res (highlightBlockSpans d (highlightSpans vo) nodes1) h3
                   else hret nodes1 h3) (\<lambda>nodes2 h4.
              hret (block2\<lparr>b_nodes := nodes2, b_class := addClass (b_class block2) ''remark-code''\<rparr>) h4))))"

definition highlight_code_block :: "nat \<Rightarrow> html_dom \<Rightarrow> registry \<Rightarrow> view_options \<Rightarrow> code_block \<times> string \<Rightarrow> mstore \<Rightarrow> code_block hres" where
  "highlight_code_block fuel d r vo entry h =
     (let block = (fst entry)\<lparr>b_class := (if b_class (fst entry) = [] then or_default (highlightLanguage vo) []
                                          else b_class (fst entry))\<rparr>
      in if snd entry \<noteq> ''PRE'' then
           (let inl = block\<lparr>b_class := addClass (b_class block) ''remark-inline-code''\<rparr>
            in if highlightInlineCode vo then highlightBlock fuel d r inl h else hret inl h)
         else code_block_in_pre fuel d r vo block h)"

fun highlightCodeBlocks :: "nat \<Rightarrow> html_dom \<Rightarrow> registry \<Rightarrow> view_options \<Rightarrow> (code_block \<times> string) list \<Rightarrow> mstore \<Rightarrow> code_block list hres" where
  "highlightCodeBlocks fuel d r vo [] h = hret [] h"
| "highlightCodeBlocks fuel d r vo (entry # blocks) h =
     hbind (highlight_code_block fuel d r vo entry h) (\<lambda>block h1.
       hbind (highlightCodeBlocks fuel d r vo blocks h1) (\<lambda>later h2. hret (block # later) h2))"

subsection \<open>Content and notes\<close>

definition createContentElement ::
  "browser \<Rightarrow> (nat \<Rightarrow> bool) \<Rightarrow> view_options \<Rightarrow> (string \<times> link) list \<Rightarrow> slide \<Rightarrow> mstate \<Rightarrow> merr + element \<times> mstate" where
  "createContentElement b choice vo ls s st =
     (let name = obj_get (s_properties s) ''name'';
          e = styleContentElement vo
            \<lparr>e_id = (if truthy name then Some (''slide-'' @ the name) else None), e_class = [], e_style = [], e_html = []\<rparr>
            (s_properties s)
      in map_sum id (\<lambda>(html, st'). (e\<lparr>e_html := reread b html\<rparr>, st'))
           (converter_convertMarkdown b choice ls False (s_content s) st))"

definition createNotesElement ::
  "browser \<Rightarrow> (nat \<Rightarrow> bool) \<Rightarrow> (string \<times> link) list \<Rightarrow> content list \<Rightarrow> mstate \<Rightarrow> merr + element \<times> mstate" where
  "createNotesElement b choice ls notes_content st =
     map_sum id (\<lambda>(html, st'). (\<lparr>e_id = None, e_class = ''remark-slide-notes'', e_style = [], e_html = reread b html\<rparr>, st'))
       (converter_convertMarkdown b choice ls False notes_content st)"

subsection \<open>Slide numbers\<close>

text \<open>A format that is a function is not modelled; the replacement texts are numerals.\<close>

definition formatSlideNumber :: "view_options \<Rightarrow> slide \<Rightarrow> slide list \<Rightarrow> herr + string" where
  "formatSlideNumber vo s slides =
     (if slides = [] then Inl (HType ''getSlideNumber of undefined'')
      else Inr (replace_first ''%total%'' (nat_str (s_number (last slides)))
        (replace_first ''%current%'' (nat_str (s_number s)) (or_default (slideNumberFormat vo) ''%current% / %total%''))))"

subsection \<open>The style sheet\<close>

record stylesheet =
  sh_title :: string
  sh_html :: string
  sh_rules :: "string option list"

text \<open>A page rule is \<open>Some size\<close>, any other rule \<open>None\<close>. The rules of the new sheet are what the browser reads from its text.\<close>

definition getRemarkStylesheet :: "stylesheet list \<Rightarrow> nat option" where
  "getRemarkStylesheet sheets = find (\<lambda>i. sh_title (sheets ! i) = ''remark'') [0..<length sheets]"

definition getPageRule :: "stylesheet \<Rightarrow> nat option" where
  "getPageRule sheet = find (\<lambda>i. sh_rules sheet ! i \<noteq> None) [0..<length (sh_rules sheet)]"

definition styleDocument :: "(string \<Rightarrow> string option list) \<Rightarrow> string \<Rightarrow> string list \<Rightarrow> stylesheet list \<Rightarrow> stylesheet list" where
  "styleDocument rules documentStyles styles sheets =
     (if getRemarkStylesheet sheets \<noteq> None then sheets
      else (let html = documentStyles @ concat styles
            in \<lparr>sh_title = ''remark'', sh_html = html, sh_rules = rules html\<rparr> # sheets))"

definition setPageSize :: "string \<Rightarrow> stylesheet list \<Rightarrow> herr + stylesheet list" where
  "setPageSize page_size sheets =
     (case getRemarkStylesheet sheets of
        None \<Rightarrow> Inl (HType ''cssRules of undefined'')
      | Some i \<Rightarrow>
          (case getPageRule (sheets ! i) of
             None \<Rightarrow> Inl (HType ''style of undefined'')
           | Some j \<Rightarrow> Inr (sheets[i := (sheets ! i)\<lparr>sh_rules := (sh_rules (sheets ! i))[j := Some page_size]\<rparr>])))"

subsection \<open>Facts\<close>

lemma getRemarkStylesheet_head: "getRemarkStylesheet (\<lparr>sh_title = ''remark'', sh_html = x, sh_rules = rs\<rparr> # sheets) = Some 0"
  by (simp add: getRemarkStylesheet_def upt_conv_Cons del: upt_Suc)

text \<open>The page is styled once.\<close>

lemma styleDocument_once:
  "styleDocument rules ds ss (styleDocument rules ds ss sheets) = styleDocument rules ds ss sheets"
  by (simp add: styleDocument_def getRemarkStylesheet_head Let_def)

text \<open>Numerals hold no percent sign, so the two placeholders do not disturb one another.\<close>

lemma nat_str_no_percent: "CHR ''%'' \<notin> set (nat_str n)"
  using nat_str_digits [of "CHR ''%''" n] by (auto simp: is_digit_def in_range_def)

lemma indexOf_skip:
  "c \<notin> set u \<Longrightarrow> indexOf (u @ c # v) (c # w) = map_option ((+) (length u)) (indexOf (c # v) (c # w))"
proof (induction u)
  case Nil
  then show ?case by (simp add: option.map_id0 [unfolded id_def])
next
  case (Cons x u)
  then show ?case by (cases "indexOf (c # v) (c # w)") (auto simp: option.map_comp comp_def)
qed

lemma default_slide_number:
  assumes "slideNumberFormat vo = None" "slides \<noteq> []"
  shows "formatSlideNumber vo s slides = Inr (nat_str (s_number s) @ '' / '' @ nat_str (s_number (last slides)))"
proof -
  let ?n = "nat_str (s_number s)"
  have "replace_first ''%current%'' ?n ''%current% / %total%'' = (?n @ '' / '') @ ''%total%''"
    by (simp add: replace_first_def)
  moreover have "indexOf ((?n @ '' / '') @ ''%total%'') ''%total%'' = Some (length ?n + 3)"
    using indexOf_skip [of "CHR ''%''" "?n @ '' / ''" "''total%''" "''total%''"] nat_str_no_percent [of "s_number s"] by simp
  ultimately show ?thesis
    using assms by (simp add: formatSlideNumber_def or_default_def replace_first_def)
qed

text \<open>The last line of a block is taken for empty when its HTML holds two tags in a row, and is dropped.\<close>

lemma tagged_line_dropped: "wrapLines ''<b>x</b><i>y</i>'' = []"
  by code_simp

lemma starred_lines_bounded:
  "set (snd (extractMetadata html)) \<subseteq> {..<length (re_split line_break_re html)} \<and> sorted (snd (extractMetadata html))"
  by (auto simp: extractMetadata_def Let_def intro: sorted_wrt_filter)

end
