(* ===== verification/Hljs_Store.thy ===== *)
theory Hljs_Store
  imports Hljs_Grammars
begin

text \<open>
  The store of modes is closed when every address that occurs in a mode (contained modes, variants, the mode that is started)
  is the address of an object. This is the invariant that stands for the types of the JavaScript program: a mode that
  is followed is a mode. Here: the rules by which a function that makes a grammar is seen to keep it
  (collection \<open>builds\<close>).
\<close>

definition targets :: "hmode \<Rightarrow> nat list" where
  "targets m = refs (contains m) @ (case variants m of None \<Rightarrow> [] | Some vs \<Rightarrow> vs) @
     (case starts m of None \<Rightarrow> [] | Some s \<Rightarrow> [s]) @ (case cached_variants m of None \<Rightarrow> [] | Some vs \<Rightarrow> vs)"

definition points_below :: "nat \<Rightarrow> hmode \<Rightarrow> bool" where
  "points_below n m \<longleftrightarrow> list_all (\<lambda>a. a < n) (targets m)"

definition closed :: "mstore \<Rightarrow> bool" where
  "closed h \<longleftrightarrow> list_all (points_below (length h)) h"

definition makes_grammar :: "(mstore \<Rightarrow> nat \<times> mstore) \<Rightarrow> bool" where
  "makes_grammar g \<longleftrightarrow>
     (\<forall>h. closed h \<longrightarrow> 19 \<le> length h \<longrightarrow> closed (snd (g h)) \<and> fst (g h) < length (snd (g h)) \<and> length h \<le> length (snd (g h)))"

subsection \<open>Closed stores\<close>

lemma points_below_mono: "points_below n m \<Longrightarrow> n \<le> n' \<Longrightarrow> points_below n' m"
  by (auto simp: points_below_def list_all_iff)

lemma points_below_no_mode [simp]: "points_below n no_mode"
  by (simp add: points_below_def targets_def no_mode_def)

lemma points_below_links:
  "points_below n m \<Longrightarrow> list_all (\<lambda>a. a < n) (refs cs) \<Longrightarrow> points_below n (m\<lparr>contains := cs\<rparr>)"
  "points_below n m \<Longrightarrow> list_all (\<lambda>a. a < n) vs \<Longrightarrow> points_below n (m\<lparr>variants := Some vs\<rparr>)"
  "points_below n m \<Longrightarrow> s < n \<Longrightarrow> points_below n (m\<lparr>starts := Some s\<rparr>)"
  by (simp_all add: points_below_def targets_def)

lemma points_below_contains: "points_below n m \<Longrightarrow> list_all (\<lambda>a. a < n) (refs (contains m))"
  by (simp add: points_below_def targets_def)

lemma closed_mode_at: "closed h \<Longrightarrow> points_below (length h) (mode_at h a)"
  by (simp add: closed_def mode_at_def list_all_length)

lemma closed_snoc: "closed h \<Longrightarrow> points_below (Suc (length h)) m \<Longrightarrow> closed (h @ [m])"
  using points_below_mono [of "length h" _ "Suc (length h)"] by (auto simp: closed_def list_all_iff)

lemma closed_upd: "closed h \<Longrightarrow> points_below (length h) (f (mode_at h a)) \<Longrightarrow> closed (upd a f h)"
  by (cases "a < length h") (auto simp: closed_def upd_def list_all_length nth_list_update)

lemma length_upd [simp]: "length (upd a f h) = length h"
  by (simp add: upd_def)

lemma points_below_inherit:
  assumes "points_below n p" "list_all (points_below n) ms"
  shows "points_below n (inherit_mode p ms)"
proof -
  have "points_below n (override_mode q m)" if "points_below n q" "points_below n m" for q m
    using that by (auto simp: points_below_def targets_def override_mode_def over_def list_all_iff split: option.splits)
  then have "list_all (points_below n) ms \<Longrightarrow> points_below n q \<Longrightarrow> points_below n (fold (\<lambda>obj result. override_mode result obj) ms q)" for q
    by (induction ms arbitrary: q) auto
  with assms show ?thesis by (simp add: inherit_mode_def)
qed

subsection \<open>Building a grammar\<close>

definition closed_at :: "nat \<Rightarrow> mstore \<Rightarrow> bool" where
  "closed_at n h \<longleftrightarrow> closed h \<and> length h = n"

definition mode_below :: "nat \<Rightarrow> (mstore \<Rightarrow> hmode) \<Rightarrow> bool" where
  "mode_below n M \<longleftrightarrow> (\<forall>h. closed_at n h \<longrightarrow> points_below n (M h))"

definition modes_below :: "nat \<Rightarrow> (mstore \<Rightarrow> hmode list) \<Rightarrow> bool" where
  "modes_below n M \<longleftrightarrow> (\<forall>h. closed_at n h \<longrightarrow> list_all (points_below n) (M h))"

definition builds :: "nat \<Rightarrow> (mstore \<Rightarrow> nat \<times> mstore) \<Rightarrow> bool" where
  "builds n F \<longleftrightarrow> (\<forall>h. closed_at n h \<longrightarrow> closed (snd (F h)) \<and> fst (F h) < length (snd (F h)) \<and> n \<le> length (snd (F h)))"

lemma makes_grammarI: "(\<And>k. builds (k + 19) g) \<Longrightarrow> makes_grammar g"
  unfolding makes_grammar_def builds_def closed_at_def by (metis le_add_diff_inverse2)

named_theorems builds_rules and builds_grammars

lemma builds_mono: "builds m F \<Longrightarrow> n \<le> m \<Longrightarrow> closed_at m h \<Longrightarrow>
    closed (snd (F h)) \<and> fst (F h) < length (snd (F h)) \<and> n \<le> length (snd (F h))"
  by (auto simp: builds_def)

lemma builds_return [builds_rules]: "a < n \<Longrightarrow> builds n (\<lambda>h. (a, h))"
  by (simp add: builds_def closed_at_def)

lemma builds_new [builds_rules]:
  assumes "mode_below n M" "builds (Suc n) (G n)"
  shows "builds n (\<lambda>h. let (a, h') = new (M h) h in G a h')"
  unfolding builds_def
proof (intro allI impI)
  fix h assume h: "closed_at n h"
  then have "closed_at (Suc n) (h @ [M h])"
    using assms(1) points_below_mono [of n "M h" "Suc n"] closed_snoc [of h "M h"]
    by (auto simp: mode_below_def closed_at_def)
  from builds_mono [OF assms(2) _ this, of n] h
  show "closed (snd (let (a, h') = new (M h) h in G a h')) \<and>
      fst (let (a, h') = new (M h) h in G a h') < length (snd (let (a, h') = new (M h) h in G a h')) \<and>
      n \<le> length (snd (let (a, h') = new (M h) h in G a h'))"
    by (simp add: new_def closed_at_def)
qed

lemma refs_append: "refs (Some (cs @ ds)) = refs (Some cs) @ refs (Some ds)"
proof (induction cs)
  case (Cons c cs)
  then show ?case by (cases c) auto
qed simp

lemma points_below_comment:
  assumes "points_below n m" "n = length h" "3 < n"
  shows "closed h \<Longrightarrow> closed (snd (COMMENT b e m h))" and "fst (COMMENT b e m h) = n" "length (snd (COMMENT b e m h)) = Suc (Suc n)"
proof -
  let ?p = "inherit_mode (no_mode\<lparr>className := Some ''comment'', m_begin := Some b, m_end := Some e, contains := Some []\<rparr>) [m]"
  have p: "points_below n ?p"
    using assms(1) by (intro points_below_inherit) (simp_all add: points_below_def targets_def no_mode_def)
  have q: "contains ?p \<noteq> None"
    by (simp add: inherit_mode_def override_mode_def over_def split: option.splits)
  then obtain cs where cs: "contains ?p = Some cs" by blast
  have p': "points_below (Suc (Suc n)) ?p"
    using p by (rule points_below_mono) simp
  have "points_below (Suc (Suc n)) (?p\<lparr>contains := Some (the (contains ?p) @ [Ref 3, Ref (Suc n)])\<rparr>)"
    using points_below_contains [OF p'] assms(3) cs by (intro points_below_links(1) p') (simp add: refs_append)
  moreover have "points_below (Suc (Suc n)) DOCTAG_MODE"
    by (simp add: points_below_def targets_def DOCTAG_MODE_def no_mode_def)
  ultimately show "closed h \<Longrightarrow> closed (snd (COMMENT b e m h))"
    using assms(2) points_below_mono [of n _ "Suc (Suc n)"] by (auto simp: COMMENT_def Let_def closed_def list_all_iff)
  show "fst (COMMENT b e m h) = n" "length (snd (COMMENT b e m h)) = Suc (Suc n)"
    using assms(2) by (simp_all add: COMMENT_def Let_def)
qed

lemma builds_comment [builds_rules]:
  assumes "3 < n" "mode_below n M" "builds (Suc (Suc n)) (G n)"
  shows "builds n (\<lambda>h. let (a, h') = COMMENT b e (M h) h in G a h')"
  unfolding builds_def
proof (intro allI impI)
  fix h assume h: "closed_at n h"
  then have m: "points_below n (M h)" "n = length h" "closed h"
    using assms(2) by (auto simp: mode_below_def closed_at_def)
  note c = points_below_comment [OF m(1,2) assms(1), of b e]
  have "closed_at (Suc (Suc n)) (snd (COMMENT b e (M h) h))"
    using c(1,3) m(3) by (simp add: closed_at_def)
  from builds_mono [OF assms(3) _ this, of n]
  show "closed (snd (let (a, h') = COMMENT b e (M h) h in G a h')) \<and>
      fst (let (a, h') = COMMENT b e (M h) h in G a h') < length (snd (let (a, h') = COMMENT b e (M h) h in G a h')) \<and>
      n \<le> length (snd (let (a, h') = COMMENT b e (M h) h in G a h'))"
    using c(2) by (simp add: split_beta)
qed

lemma builds_upd [builds_rules]:
  assumes "mode_below n (\<lambda>h. f (mode_at h a))" "builds n G"
  shows "builds n (\<lambda>h. let h' = upd a f h in G h')"
  using assms closed_upd unfolding builds_def mode_below_def closed_at_def by (metis (no_types, lifting) length_upd)

text \<open>Texts and keywords hold no addresses, so that what they are is of no account.\<close>

lemma builds_text [builds_rules]: "(\<And>x :: string. builds n (G x)) \<Longrightarrow> builds n (\<lambda>h. let x = t in G x h)"
  by simp

lemma builds_keywords [builds_rules]: "(\<And>x :: kwords. builds n (G x)) \<Longrightarrow> builds n (\<lambda>h. let x = t in G x h)"
  by simp

lemma builds_contained [builds_rules]:
  "builds n (G cs) \<Longrightarrow> builds n (\<lambda>h. let x = (cs :: contained list) in G x h)"
  by simp

subsection \<open>Object literals\<close>

lemma mode_below_fields [builds_rules]:
  "mode_below n M \<Longrightarrow> mode_below n (\<lambda>h. (M h)\<lparr>className := x0\<rparr>)"
  "mode_below n M \<Longrightarrow> mode_below n (\<lambda>h. (M h)\<lparr>m_begin := x1\<rparr>)"
  "mode_below n M \<Longrightarrow> mode_below n (\<lambda>h. (M h)\<lparr>m_end := x2\<rparr>)"
  "mode_below n M \<Longrightarrow> mode_below n (\<lambda>h. (M h)\<lparr>beginKeywords := x3\<rparr>)"
  "mode_below n M \<Longrightarrow> mode_below n (\<lambda>h. (M h)\<lparr>m_keywords := x4\<rparr>)"
  "mode_below n M \<Longrightarrow> mode_below n (\<lambda>h. (M h)\<lparr>lexemes := x5\<rparr>)"
  "mode_below n M \<Longrightarrow> mode_below n (\<lambda>h. (M h)\<lparr>illegal := x6\<rparr>)"
  "mode_below n M \<Longrightarrow> mode_below n (\<lambda>h. (M h)\<lparr>m_relevance := x7\<rparr>)"
  "mode_below n M \<Longrightarrow> mode_below n (\<lambda>h. (M h)\<lparr>subLanguage := x8\<rparr>)"
  "mode_below n M \<Longrightarrow> mode_below n (\<lambda>h. (M h)\<lparr>endsWithParent := x9\<rparr>)"
  "mode_below n M \<Longrightarrow> mode_below n (\<lambda>h. (M h)\<lparr>endsParent := x10\<rparr>)"
  "mode_below n M \<Longrightarrow> mode_below n (\<lambda>h. (M h)\<lparr>endSameAsBegin := x11\<rparr>)"
  "mode_below n M \<Longrightarrow> mode_below n (\<lambda>h. (M h)\<lparr>returnBegin := x12\<rparr>)"
  "mode_below n M \<Longrightarrow> mode_below n (\<lambda>h. (M h)\<lparr>excludeBegin := x13\<rparr>)"
  "mode_below n M \<Longrightarrow> mode_below n (\<lambda>h. (M h)\<lparr>returnEnd := x14\<rparr>)"
  "mode_below n M \<Longrightarrow> mode_below n (\<lambda>h. (M h)\<lparr>excludeEnd := x15\<rparr>)"
  "mode_below n M \<Longrightarrow> mode_below n (\<lambda>h. (M h)\<lparr>skip := x16\<rparr>)"
  "mode_below n M \<Longrightarrow> mode_below n (\<lambda>h. (M h)\<lparr>case_insensitive := x17\<rparr>)"
  "mode_below n M \<Longrightarrow> mode_below n (\<lambda>h. (M h)\<lparr>disableAutodetect := x18\<rparr>)"
  "mode_below n M \<Longrightarrow> mode_below n (\<lambda>h. (M h)\<lparr>aliases := x19\<rparr>)"
  by (auto simp: mode_below_def points_below_def targets_def)

lemma mode_below_links [builds_rules]:
  "list_all (\<lambda>a. a < n) (refs (Some cs)) \<Longrightarrow> mode_below n M \<Longrightarrow> mode_below n (\<lambda>h. (M h)\<lparr>contains := Some cs\<rparr>)"
  "list_all (\<lambda>a. a < n) vs \<Longrightarrow> mode_below n M \<Longrightarrow> mode_below n (\<lambda>h. (M h)\<lparr>variants := Some vs\<rparr>)"
  "s < n \<Longrightarrow> mode_below n M \<Longrightarrow> mode_below n (\<lambda>h. (M h)\<lparr>starts := Some s\<rparr>)"
  by (simp_all add: mode_below_def points_below_links)

lemma mode_below_base [builds_rules]:
  "mode_below n (\<lambda>h. no_mode)" "mode_below n (\<lambda>h. mode_at h a)"
  "mode_below n P \<Longrightarrow> modes_below n Ms \<Longrightarrow> mode_below n (\<lambda>h. inherit_mode (P h) (Ms h))"
  "modes_below n (\<lambda>h. [])"
  "mode_below n M \<Longrightarrow> modes_below n Ms \<Longrightarrow> modes_below n (\<lambda>h. M h # Ms h)"
  by (auto simp: mode_below_def modes_below_def closed_at_def closed_mode_at intro: points_below_inherit)

end
