(* ===== verification/Hljs_Closed.thy ===== *)
theory Hljs_Closed
  imports Hljs_Store
begin

text \<open>
  Every operation of the highlighter keeps the store of modes closed: compiling a grammar, which copies modes and fills in
  their expressions, and highlighting, with embedded languages and continuations. The modes it has open, and those
  it returns for a later continuation, are modes of the store.
\<close>

subsection \<open>Results in a closed store\<close>

definition sound :: "mstore \<Rightarrow> 'a hres \<Rightarrow> ('a \<Rightarrow> mstore \<Rightarrow> bool) \<Rightarrow> bool" where
  "sound h r Q \<longleftrightarrow>
     (\<forall>x h'. r = Some (x, h') \<longrightarrow> closed h' \<and> length h \<le> length h' \<and> (\<forall>v. x = Inr v \<longrightarrow> Q v h'))"

named_theorems sound_rules

lemma sound_ret [sound_rules]: "closed h \<Longrightarrow> Q x h \<Longrightarrow> sound h (hret x h) Q"
  by (simp add: sound_def hret_def)

lemma sound_throw [sound_rules]: "closed h \<Longrightarrow> sound h (hthrow e h) Q"
  by (simp add: sound_def hthrow_def)

lemma sound_None [simp]: "sound h None Q"
  by (simp add: sound_def)

lemma sound_bind:
  assumes "sound h r Q" "\<And>x h1. closed h1 \<Longrightarrow> length h \<le> length h1 \<Longrightarrow> Q x h1 \<Longrightarrow> sound h1 (f x h1) R"
  shows "sound h (hbind r f) R"
proof -
  consider "r = None" | e h1 where "r = Some (Inl e, h1)" | x h1 where "r = Some (Inr x, h1)"
    by (metis old.prod.exhaust option.exhaust sum.exhaust_sel)
  then show ?thesis
  proof cases
    case 3
    then have "closed h1" "length h \<le> length h1" "Q x h1"
      using assms(1) by (simp_all add: sound_def)
    from assms(2) [OF this] this(2) 3 show ?thesis
      by (fastforce simp: sound_def hbind_def)
  qed (use assms(1) in \<open>simp_all add: sound_def hbind_def\<close>)
qed

lemma sound_from: "sound h1 r Q \<Longrightarrow> length h \<le> length h1 \<Longrightarrow> sound h r Q"
  by (fastforce simp: sound_def)

lemma sound_weaken: "sound h r Q \<Longrightarrow> (\<And>x h'. length h \<le> length h' \<Longrightarrow> Q x h' \<Longrightarrow> R x h') \<Longrightarrow> sound h r R"
  by (fastforce simp: sound_def)

subsection \<open>Compilation\<close>

lemma closed_same_links:
  "closed h \<Longrightarrow> targets (f (mode_at h a)) = targets (mode_at h a) \<Longrightarrow> closed (upd a f h)"
  using closed_mode_at [of h a] by (intro closed_upd) (simp_all add: points_below_def)

lemma sound_set_re:
  assumes "closed h" "\<And>r m. targets (f r m) = targets m"
  shows "sound h (set_re ci source f a h) (\<lambda>_ h'. length h' = length h)"
  using assms closed_same_links [OF assms(1), of "f _" a]
  by (auto simp: set_re_def intro!: sound_rules split: option.splits) (simp_all add: sound_def hret_def)

lemma targets_compile:
  "targets (compile_keywords ci m) = targets m" "targets (resolve_begin m) = targets m"
  "targets (resolve_end m) = targets m" "targets (resolve_terminator_end p m) = targets m"
  by (auto simp: targets_def compile_keywords_def resolve_begin_def resolve_end_def resolve_terminator_end_def Let_def
      split: option.splits kwords.splits)

lemma sound_upd:
  "closed h \<Longrightarrow> (\<And>m. targets (f m) = targets m) \<Longrightarrow> sound h (hret x (upd a f h)) (\<lambda>_ h'. length h' = length h)"
  using closed_same_links [of h f a] by (simp add: sound_def hret_def)

lemma compile_edges_sound: "closed h \<Longrightarrow> sound h (compile_edges ci a p h) (\<lambda>_ _. True)"
  unfolding compile_edges_def Let_def
proof (rule sound_bind [THEN sound_from])
  assume h: "closed h"
  show "sound (upd a resolve_begin h) (set_re ci (m_begin (mode_at (upd a resolve_begin h) a)) (\<lambda>r m. m\<lparr>beginRe := Some r\<rparr>) a (upd a resolve_begin h))
      (\<lambda>_ h'. length h' = length (upd a resolve_begin h))"
    by (rule sound_set_re) (simp_all add: closed_same_links h targets_compile, simp add: targets_def)
  fix x :: unit and h2 :: mstore
  assume h2: "closed h2"
  show "sound h2 (hbind (set_re ci (m_end (mode_at (upd a resolve_end h2) a)) (\<lambda>r m. m\<lparr>endRe := Some r\<rparr>) a (upd a resolve_end h2))
      (\<lambda>_ h4. hret () (upd a (resolve_terminator_end (mode_at h4 p)) h4))) (\<lambda>_ _. True)"
  proof (rule sound_bind [THEN sound_from])
    show "sound (upd a resolve_end h2) (set_re ci (m_end (mode_at (upd a resolve_end h2) a)) (\<lambda>r m. m\<lparr>endRe := Some r\<rparr>) a (upd a resolve_end h2))
        (\<lambda>_ h'. length h' = length (upd a resolve_end h2))"
      by (rule sound_set_re) (simp_all add: closed_same_links h2 targets_compile, simp add: targets_def)
    show "sound h4 (hret () (upd a (resolve_terminator_end (mode_at h4 p)) h4)) (\<lambda>_ _. True)" if "closed h4" for h4
      using sound_upd [OF that targets_compile(4)] by (rule sound_weaken) simp
  qed simp
qed simp

lemma compile_head_sound:
  assumes h: "closed h" and a: "a < length h"
  shows "sound h (compile_head ci a parent h) (\<lambda>_ h'. contains (mode_at h' a) \<noteq> None)"
proof -
  let ?h1 = "upd a (\<lambda>m. compile_keywords ci (m\<lparr>compiled := Some True\<rparr>)) h"
  let ?last = "\<lambda>m. m\<lparr>m_relevance := over (Some 1) (m_relevance m), contains := over (Some []) (contains m)\<rparr>"
  let ?Q = "\<lambda>(_ :: unit) h'. contains (mode_at h' a) \<noteq> None"
  have flds: "targets (m\<lparr>compiled := Some True\<rparr>) = targets m" "targets (m\<lparr>lexemesRe := x\<rparr>) = targets m"
    "targets (m\<lparr>illegalRe := x\<rparr>) = targets m" for m x
    by (simp_all add: targets_def)
  have last_step: "sound h4 (hret () (upd a ?last h4)) ?Q" if "closed h4" "length h \<le> length h4" for h4
  proof -
    have "targets (?last m) = targets m" for m
      by (cases "contains m") (simp_all add: targets_def over_def)
    with that(1) have "closed (upd a ?last h4)"
      by (intro closed_same_links) simp_all
    with that(2) a show ?thesis
      by (auto simp: sound_def hret_def mode_at_def upd_def over_def split: option.splits)
  qed
  have h1: "closed ?h1"
    by (rule closed_same_links [OF h]) (simp add: targets_compile flds)
  show ?thesis
    unfolding compile_head_def Let_def
  proof (rule sound_from [OF sound_bind [OF sound_set_re [OF h1]]])
    fix h2 :: mstore assume h2: "closed h2" "length ?h1 \<le> length h2"
    show "sound h2 (hbind (case parent of None \<Rightarrow> hret () h2 | Some p \<Rightarrow> compile_edges ci a p h2) (\<lambda>_ h3.
        hbind (set_re ci (illegal (mode_at h3 a)) (\<lambda>r m. m\<lparr>illegalRe := Some r\<rparr>) a h3) (\<lambda>_ h4. hret () (upd a ?last h4)))) ?Q"
    proof (rule sound_bind)
      show "sound h2 (case parent of None \<Rightarrow> hret () h2 | Some p \<Rightarrow> compile_edges ci a p h2) (\<lambda>_ _. True)"
        using h2 compile_edges_sound by (cases parent) (auto intro: sound_rules)
      fix h3 :: mstore assume h3: "closed h3" "length h2 \<le> length h3"
      show "sound h3 (hbind (set_re ci (illegal (mode_at h3 a)) (\<lambda>r m. m\<lparr>illegalRe := Some r\<rparr>) a h3) (\<lambda>_ h4. hret () (upd a ?last h4))) ?Q"
      proof (rule sound_bind [OF sound_set_re [OF h3(1)]])
        show "sound h4 (hret () (upd a ?last h4)) ?Q" if "closed h4" "length h3 \<le> length h4" for h4
          using last_step [OF that(1)] that(2) h3(2) h2(2) by simp
      qed (simp add: flds)
    qed
  qed (simp_all add: flds)
qed

subsection \<open>Copies\<close>

definition grows :: "mstore \<Rightarrow> nat list \<times> mstore \<Rightarrow> bool" where
  "grows h p \<longleftrightarrow> closed (snd p) \<and> length h \<le> length (snd p) \<and> list_all (\<lambda>a. a < length (snd p)) (fst p)"

lemma closed_append:
  "closed h \<Longrightarrow> list_all (points_below (length h)) ms \<Longrightarrow> closed (h @ ms)"
  using points_below_mono [of "length h" _ "length h + length ms"] by (auto simp: closed_def list_all_iff)

lemma grows_alloc: "closed h \<Longrightarrow> list_all (points_below (length h)) ms \<Longrightarrow> grows h (alloc_all ms h)"
  using closed_append [of h ms] by (simp add: grows_def alloc_all_def list_all_iff)

lemma closed_cache_variants:
  assumes h: "closed h"
  shows "closed (cache_variants a h)" "length h \<le> length (cache_variants a h)"
proof -
  have "closed (cache_variants a h) \<and> length h \<le> length (cache_variants a h)"
  proof (cases "variants (mode_at h a)")
    case None
    with h show ?thesis by (simp add: cache_variants_def)
  next
    case (Some vs)
    let ?ms = "map (\<lambda>v. inherit_mode ((mode_at h a)\<lparr>variants := None\<rparr>) [mode_at h v]) vs"
    have "points_below (length h) ((mode_at h a)\<lparr>variants := None\<rparr>)"
      using closed_mode_at [OF h, of a] by (simp add: points_below_def targets_def)
    then have "grows h (alloc_all ?ms h)"
      using closed_mode_at [OF h] by (intro grows_alloc h) (auto simp: list_all_iff intro: points_below_inherit)
    then have g: "closed (h @ ?ms)" "list_all (\<lambda>b. b < length (h @ ?ms)) [length h..<length h + length vs]"
      by (simp_all add: grows_def alloc_all_def)
    have "points_below (length (h @ ?ms)) ((mode_at (h @ ?ms) a)\<lparr>cached_variants := Some [length h..<length h + length vs]\<rparr>)"
      using closed_mode_at [OF g(1), of a] g(2) by (simp add: points_below_def targets_def)
    then have "closed (upd a (\<lambda>m. m\<lparr>cached_variants := Some [length h..<length h + length vs]\<rparr>) (h @ ?ms))"
      by (rule closed_upd [OF g(1)])
    with Some h show ?thesis
      by (cases "cached_variants (mode_at h a)") (simp_all add: cache_variants_def alloc_all_def upd_def)
  qed
  then show "closed (cache_variants a h)" "length h \<le> length (cache_variants a h)" by simp_all
qed

lemma expand_mode_grows:
  assumes h: "closed h" and a: "a < length h"
  shows "grows h (expand_mode a h)"
proof -
  let ?h = "cache_variants a h"
  note c = closed_cache_variants [OF h, of a]
  note m = closed_mode_at [OF c(1), of a]
  show ?thesis
  proof (cases "cached_variants (mode_at ?h a)")
    case (Some vs)
    then have "list_all (\<lambda>b. b < length ?h) vs"
      using m by (simp add: points_below_def targets_def)
    with Some c show ?thesis by (simp add: expand_mode_def grows_def)
  next
    case None
    have "grows ?h (alloc_all [inherit_mode (mode_at ?h a) []] ?h)"
      using m by (intro grows_alloc c(1)) (simp add: inherit_mode_def)
    with None c a show ?thesis
      by (cases "on (endsWithParent (mode_at ?h a))") (simp_all add: expand_mode_def grows_def Let_def)
  qed
qed

lemma expand_contained_grows:
  "closed h \<Longrightarrow> self < length h \<Longrightarrow> list_all (\<lambda>a. a < length h) (refs (Some cs)) \<Longrightarrow> grows h (expand_contained self cs h)"
proof (induction self cs h rule: expand_contained.induct)
  case (2 self c cs h)
  let ?a = "case c of Self \<Rightarrow> self | Ref a \<Rightarrow> a"
  obtain as h1 where e: "expand_mode ?a h = (as, h1)" by fastforce
  have "?a < length h" "list_all (\<lambda>a. a < length h) (refs (Some cs))"
    using 2(3,4) by (cases c; simp)+
  with e expand_mode_grows [OF 2(2)] have g1: "closed h1" "length h \<le> length h1" "list_all (\<lambda>a. a < length h1) as"
    unfolding grows_def by (metis fst_conv snd_conv)+
  obtain as' h2 where e2: "expand_contained self cs h1 = (as', h2)" by fastforce
  have "list_all (\<lambda>a. a < length h1) (refs (Some cs))"
    using \<open>list_all (\<lambda>a. a < length h) (refs (Some cs))\<close> g1(2) by (auto simp: list_all_iff intro: less_le_trans)
  then have "grows h1 (expand_contained self cs h1)"
    using 2(1) [OF e [symmetric] refl] g1 2(3) by simp
  with e e2 g1 show ?case
    by (auto simp: grows_def list_all_iff)
qed (simp add: grows_def)

lemma refs_map_Ref [simp]: "refs (Some (map Ref cs)) = cs"
  by (induction cs) auto

lemma compile_terminators_sound: "closed h \<Longrightarrow> sound h (compile_terminators ci a h) (\<lambda>_ _. True)"
  unfolding compile_terminators_def Let_def
  by (auto intro!: sound_weaken [OF sound_set_re] sound_weaken [OF sound_upd] simp: targets_def)

lemma each_sound:
  assumes "\<And>x h. x \<in> set xs \<Longrightarrow> closed h \<Longrightarrow> n \<le> length h \<Longrightarrow> sound h (f x h) (\<lambda>_ _. True)"
  shows "closed h \<Longrightarrow> n \<le> length h \<Longrightarrow> sound h (each f xs h) (\<lambda>_ _. True)"
  using assms
proof (induction xs arbitrary: h)
  case (Cons x xs)
  have "sound h (hbind (f x h) (\<lambda>_ h'. each f xs h')) (\<lambda>_ _. True)"
  proof (rule sound_bind)
    show "sound h (f x h) (\<lambda>_ _. True)"
      using Cons.prems by simp
    fix y :: unit and h1 :: mstore assume "closed h1" "length h \<le> length h1"
    then show "sound h1 (each f xs h1) (\<lambda>_ _. True)"
      using Cons.prems(2,3) by (intro Cons.IH) auto
  qed
  then show ?case by simp
qed (simp add: sound_ret)

lemma compileMode_sound:
  "closed h \<Longrightarrow> a < length h \<Longrightarrow> sound h (compileMode fuel ci a parent h) (\<lambda>_ _. True)"
proof (induction fuel arbitrary: a parent h)
  case (Suc n)
  show ?case
  proof (cases "on (compiled (mode_at h a))")
    case True
    with Suc.prems show ?thesis by (simp add: sound_ret)
  next
    case False
    let ?rest = "\<lambda>(_ :: unit) h1. let (cs, h2) = expand_contained a (the (contains (mode_at h1 a))) h1;
          h3 = upd a (\<lambda>m. m\<lparr>contains := Some (map Ref cs)\<rparr>) h2
        in hbind (each (\<lambda>c. compileMode n ci c (Some a)) cs h3) (\<lambda>_ h4.
           hbind (case starts (mode_at h4 a) of None \<Rightarrow> hret () h4 | Some s \<Rightarrow> compileMode n ci s parent h4) (\<lambda>_ h5.
           compile_terminators ci a h5))"
    have "sound h1 (?rest u h1) (\<lambda>_ _. True)"
      if h1: "closed h1" "length h \<le> length h1" "contains (mode_at h1 a) \<noteq> None" for u h1
    proof -
      obtain cs h2 where e: "expand_contained a (the (contains (mode_at h1 a))) h1 = (cs, h2)" by fastforce
      have "list_all (\<lambda>b. b < length h1) (refs (Some (the (contains (mode_at h1 a)))))"
        using points_below_contains [OF closed_mode_at [OF h1(1), of a]] h1(3) by simp
      with expand_contained_grows [OF h1(1)] e Suc.prems(2) h1(2)
      have h2: "closed h2" "length h1 \<le> length h2" "list_all (\<lambda>b. b < length h2) cs"
        unfolding grows_def by (metis fst_conv snd_conv less_le_trans)+
      let ?h3 = "upd a (\<lambda>m. m\<lparr>contains := Some (map Ref cs)\<rparr>) h2"
      have h3: "closed ?h3"
        using h2(3) by (intro closed_upd h2(1) points_below_links(1) closed_mode_at) simp_all
      have "sound ?h3 (each (\<lambda>c. compileMode n ci c (Some a)) cs ?h3) (\<lambda>_ _. True)"
        using h2(3) by (intro each_sound [of cs "length h2"] Suc.IH h3) (auto simp: list_all_iff)
      then have "sound ?h3 (hbind (each (\<lambda>c. compileMode n ci c (Some a)) cs ?h3) (\<lambda>_ h4.
           hbind (case starts (mode_at h4 a) of None \<Rightarrow> hret () h4 | Some s \<Rightarrow> compileMode n ci s parent h4) (\<lambda>_ h5.
           compile_terminators ci a h5))) (\<lambda>_ _. True)"
      proof (rule sound_bind)
        fix h4 :: mstore assume h4: "closed h4"
        have "sound h4 (case starts (mode_at h4 a) of None \<Rightarrow> hret () h4 | Some s \<Rightarrow> compileMode n ci s parent h4) (\<lambda>_ _. True)"
          using Suc.IH [OF h4] closed_mode_at [OF h4, of a] h4
          by (auto simp: points_below_def targets_def sound_ret split: option.splits)
        then show "sound h4 (hbind (case starts (mode_at h4 a) of None \<Rightarrow> hret () h4 | Some s \<Rightarrow> compileMode n ci s parent h4) (\<lambda>_ h5.
           compile_terminators ci a h5)) (\<lambda>_ _. True)"
          by (rule sound_bind) (rule compile_terminators_sound)
      qed
      then show ?thesis
        using h2(2) by (auto simp: e intro: sound_from)
    qed
    then have "sound h (hbind (compile_head ci a parent h) ?rest) (\<lambda>_ _. True)"
      by (rule sound_bind [OF compile_head_sound [OF Suc.prems]])
    with False show ?thesis by simp
  qed
qed simp

subsection \<open>Highlighting\<close>

definition frames_below :: "nat \<Rightarrow> nat list option \<Rightarrow> bool" where
  "frames_below n c \<longleftrightarrow> (case c of None \<Rightarrow> True | Some fs \<Rightarrow> list_all (\<lambda>a. a < n) fs)"

definition run_below :: "nat \<Rightarrow> hrun \<Rightarrow> bool" where
  "run_below n st \<longleftrightarrow> list_all (\<lambda>a. a < n) (frames st) \<and> list_all (\<lambda>p. frames_below n (snd p)) (continuations st)"

definition registry_below :: "nat \<Rightarrow> registry \<Rightarrow> bool" where
  "registry_below n r \<longleftrightarrow> list_all (\<lambda>p. snd p < n) (languages r)"

definition highlighter_sound :: "registry \<Rightarrow> highlighter \<Rightarrow> bool" where
  "highlighter_sound r hl \<longleftrightarrow>
     (\<forall>name s ign c h. closed h \<longrightarrow> registry_below (length h) r \<longrightarrow> frames_below (length h) c \<longrightarrow>
        sound h (hl name s ign c h) (\<lambda>x h'. frames_below (length h') (o_top x)))"

lemma list_below_mono: "list_all (\<lambda>a. a < n) xs \<Longrightarrow> n \<le> n' \<Longrightarrow> list_all (\<lambda>a. a < (n' :: nat)) xs"
  by (auto simp: list_all_iff)

lemma frames_below_mono: "frames_below n c \<Longrightarrow> n \<le> n' \<Longrightarrow> frames_below n' c"
  by (auto simp: frames_below_def intro: list_below_mono split: option.splits)

lemma run_below_mono: "run_below n st \<Longrightarrow> n \<le> n' \<Longrightarrow> run_below n' st"
  by (auto simp: run_below_def list_all_iff intro: frames_below_mono)

lemma registry_below_mono: "registry_below n r \<Longrightarrow> n \<le> n' \<Longrightarrow> registry_below n' r"
  by (auto simp: registry_below_def list_all_iff)

lemma run_below_update [simp]:
  "run_below n (st\<lparr>mode_buffer := b\<rparr>) = run_below n st" "run_below n (st\<lparr>out := x\<rparr>) = run_below n st"
  "run_below n (st\<lparr>run_relevance := z\<rparr>) = run_below n st"
  "run_below n (st\<lparr>frames := fs\<rparr>) \<longleftrightarrow> list_all (\<lambda>a. a < n) fs \<and> list_all (\<lambda>p. frames_below n (snd p)) (continuations st)"
  by (simp_all add: run_below_def)

lemma subMode_sound:
  assumes h: "closed h"
  shows "sound h (subMode lexeme a h) (\<lambda>c h'. case c of None \<Rightarrow> True | Some b \<Rightarrow> b < length h')"
proof -
  have mem: "first_mode h cs lexeme = Some b \<Longrightarrow> b \<in> set cs" for cs b
    by (induction cs) (auto split: if_splits)
  have below: "b < length h" if "first_mode h (refs (contains (mode_at h a))) lexeme = Some b" for b
    using points_below_contains [OF closed_mode_at [OF h, of a]] mem [OF that] by (simp add: list_all_iff)
  have "closed (upd b (\<lambda>x. x\<lparr>endRe := r\<rparr>) h)" for b r
    by (rule closed_same_links [OF h]) (simp add: targets_def)
  then show ?thesis
    using h below unfolding subMode_def
    by (auto simp: sound_def hret_def hthrow_def split: option.splits if_splits)
qed

lemma auto_loop_sound:
  assumes hl: "highlighter_sound r hl"
  shows "closed h \<Longrightarrow> registry_below (length h) r \<Longrightarrow> frames_below (length h) (o_top (fst best)) \<Longrightarrow> frames_below (length h) (o_top (snd best)) \<Longrightarrow>
    sound h (auto_loop hl s names best h) (\<lambda>b h'. frames_below (length h') (o_top (fst b)))"
proof (induction names arbitrary: best h)
  case (Cons name names)
  have "sound h (auto_step hl s name best h) (\<lambda>b h'. frames_below (length h') (o_top (fst b)) \<and> frames_below (length h') (o_top (snd b)))"
    unfolding auto_step_def Let_def
  proof (rule sound_bind)
    show "sound h (hl name s False None h) (\<lambda>x h'. frames_below (length h') (o_top x))"
      using hl Cons.prems by (auto simp: highlighter_sound_def frames_below_def)
    fix x :: houtput and h1 :: mstore
    assume "closed h1" "length h \<le> length h1" "frames_below (length h1) (o_top x)"
    then show "sound h1 (hret (if num_gt (o_relevance (x\<lparr>o_language := Some name\<rparr>)) (o_relevance (fst best)) then (x\<lparr>o_language := Some name\<rparr>, fst best)
         else (fst best, if num_gt (o_relevance (x\<lparr>o_language := Some name\<rparr>)) (o_relevance (snd best)) then x\<lparr>o_language := Some name\<rparr> else snd best)) h1)
       (\<lambda>b h'. frames_below (length h') (o_top (fst b)) \<and> frames_below (length h') (o_top (snd b)))"
      using Cons.prems(3,4) by (intro sound_ret) (auto intro: frames_below_mono)
  qed
  then have "sound h (hbind (auto_step hl s name best h) (\<lambda>best' h'. auto_loop hl s names best' h')) (\<lambda>b h'. frames_below (length h') (o_top (fst b)))"
    by (rule sound_bind) (use Cons.IH registry_below_mono Cons.prems(2) in blast)
  then show ?case by simp
qed (simp add: sound_ret)

lemma highlightAuto_sound:
  assumes "highlighter_sound r hl" "closed h" "registry_below (length h) r"
  shows "sound h (highlightAuto hl r s ls h) (\<lambda>x h'. frames_below (length h') (o_top x))"
  unfolding highlightAuto_def Let_def
  by (rule sound_bind [OF auto_loop_sound [OF assms]]) (auto simp: frames_below_def intro!: sound_ret)

lemma continuations_below:
  "run_below n st \<Longrightarrow> frames_below n (case map_of (continuations st) name of None \<Rightarrow> None | Some c \<Rightarrow> c)"
  by (auto simp: run_below_def list_all_iff frames_below_def split: option.splits dest!: map_of_SomeD)

lemma dict_set_below:
  "list_all (\<lambda>p. frames_below n (snd p)) d \<Longrightarrow> frames_below n c \<Longrightarrow> list_all (\<lambda>p. frames_below n (snd p)) (dict_set k c d)"
  by (induction d) auto

lemma processSubLanguage_sound:
  assumes hl: "highlighter_sound r hl" and h: "closed h" "registry_below (length h) r" and st: "run_below (length h) st"
  shows "sound h (processSubLanguage hl r sub m st h) (\<lambda>p h'. run_below (length h') (snd p))"
proof (cases sub)
  case (SubName name)
  have call: "sound h (hl name (mode_buffer st) True (case map_of (continuations st) name of None \<Rightarrow> None | Some c \<Rightarrow> c) h)
      (\<lambda>x h'. frames_below (length h') (o_top x))"
    using hl h continuations_below [OF st, of name] by (simp add: highlighter_sound_def)
  have "run_below n (st\<lparr>continuations := dict_set name c (continuations st)\<rparr>)" if "length h \<le> n" "frames_below n c" for n c
    using run_below_mono [OF st that(1)] that(2) by (simp add: run_below_def dict_set_below)
  then show ?thesis
    using SubName h st unfolding processSubLanguage_def Let_def
    by (auto intro!: sound_bind [OF call] sound_ret simp: run_below_def)
next
  case (SubList names)
  then show ?thesis
    using st run_below_mono unfolding processSubLanguage_def Let_def
    by (auto intro!: sound_bind [OF highlightAuto_sound [OF hl h]] sound_ret)
qed

lemma processBuffer_sound:
  assumes hl: "highlighter_sound r hl" and h: "closed h" "registry_below (length h) r" and st: "run_below (length h) st"
  shows "sound h (processBuffer hl r ci st h) (\<lambda>st' h'. run_below (length h') st')"
  using h st unfolding processBuffer_def
  by (auto intro!: sound_rules sound_bind [OF processSubLanguage_sound [OF hl h st]] split: list.splits option.splits sum.splits)

lemma startNewMode_below: "run_below n st \<Longrightarrow> a < n \<Longrightarrow> run_below n (startNewMode opts h a st)"
  by (simp add: startNewMode_def run_below_def)

lemma close_modes_below:
  "list_all (\<lambda>a. a < n) fs \<Longrightarrow> run_below n st \<Longrightarrow> run_below n (close_modes h target fs st)"
  by (induction fs arbitrary: st) (auto simp: Let_def run_below_def)

lemma enter_mode_sound:
  assumes hl: "highlighter_sound r hl" and h: "closed h" "registry_below (length h) r" and st: "run_below (length h) st" and b: "b < length h"
  shows "sound h (enter_mode hl r ci b lexeme st h) (\<lambda>p h'. run_below (length h') (snd p))"
proof -
  let ?flush = "\<lambda>st'. hbind (processBuffer hl r ci st' h) (\<lambda>st1 h1.
      hret (if \<not> on (returnBegin (mode_at h b)) \<and> \<not> on (excludeBegin (mode_at h b)) then st1\<lparr>mode_buffer := lexeme\<rparr> else st1) h1)"
  have flush: "sound h (?flush st') (\<lambda>st2 h2. run_below (length h2) st2)" if "run_below (length h) st'" for st'
    by (rule sound_bind [OF processBuffer_sound [OF hl h that]]) (auto intro!: sound_ret)
  show ?thesis
    unfolding enter_mode_def Let_def
  proof (rule sound_bind)
    show "sound h (if on (skip (mode_at h b)) then hret (st\<lparr>mode_buffer := mode_buffer st @ lexeme\<rparr>) h
        else ?flush (if on (excludeBegin (mode_at h b)) then st\<lparr>mode_buffer := mode_buffer st @ lexeme\<rparr> else st)) (\<lambda>st2 h2. run_below (length h2) st2)"
      using st h(1) flush by (auto intro: sound_ret)
  qed (use b startNewMode_below in \<open>auto intro!: sound_ret\<close>)
qed

lemma leave_mode_sound:
  assumes hl: "highlighter_sound r hl" and h: "closed h" "registry_below (length h) r" and st: "run_below (length h) st"
  shows "sound h (leave_mode hl r ci e lexeme st h) (\<lambda>p h'. run_below (length h') (snd p))"
proof -
  let ?o = "mode_at h (hd (frames st))"
  let ?flush = "\<lambda>st'. hbind (processBuffer hl r ci st' h) (\<lambda>st1 h1. hret (if on (excludeEnd ?o) then st1\<lparr>mode_buffer := lexeme\<rparr> else st1) h1)"
  have flush: "sound h (?flush st') (\<lambda>st2 h2. run_below (length h2) st2)" if "run_below (length h) st'" for st'
    by (rule sound_bind [OF processBuffer_sound [OF hl h that]]) (auto intro!: sound_ret)
  have first: "sound h (if on (skip ?o) then hret (st\<lparr>mode_buffer := mode_buffer st @ lexeme\<rparr>) h
      else ?flush (if \<not> (on (returnEnd ?o) \<or> on (excludeEnd ?o)) then st\<lparr>mode_buffer := mode_buffer st @ lexeme\<rparr> else st)) (\<lambda>st2 h2. run_below (length h2) st2)"
    using st h(1) flush by (auto intro: sound_ret)
  show ?thesis
    unfolding leave_mode_def Let_def
  proof (rule sound_bind [OF first])
    fix st2 h2 assume h2: "closed h2" "run_below (length h2) st2"
    let ?st3 = "close_modes h2 (tl e) (frames st2) st2"
    let ?m = "mode_at h2 (hd e)"
    let ?n = "if on (returnEnd ?o) then 0 else length lexeme"
    have st3: "run_below (length h2) ?st3"
      using h2(2) by (intro close_modes_below) (simp_all add: run_below_def)
    show "sound h2 (case starts ?m of None \<Rightarrow> hret (?n, ?st3) h2
        | Some s \<Rightarrow> hret (?n, startNewMode (options r) (if on (endSameAsBegin ?m) then upd s (\<lambda>x. x\<lparr>endRe := endRe ?m\<rparr>) h2 else h2) s ?st3)
            (if on (endSameAsBegin ?m) then upd s (\<lambda>x. x\<lparr>endRe := endRe ?m\<rparr>) h2 else h2)) (\<lambda>p h'. run_below (length h') (snd p))"
    proof (cases "starts ?m")
      case None
      with h2 st3 show ?thesis by (simp add: sound_ret)
    next
      case (Some b)
      then have b: "b < length h2"
        using closed_mode_at [OF h2(1), of "hd e"] by (simp add: points_below_def targets_def)
      have "closed (upd b (\<lambda>x. x\<lparr>endRe := endRe ?m\<rparr>) h2)"
        by (rule closed_same_links [OF h2(1)]) (simp add: targets_def)
      with Some b h2(1) startNewMode_below [OF st3 b] show ?thesis
        by (simp add: sound_def hret_def)
    qed
  qed
qed

lemma processLexeme_sound:
  assumes hl: "highlighter_sound r hl" and h: "closed h" "registry_below (length h) r" and st: "run_below (length h) st"
  shows "sound h (processLexeme hl r ci ign buffer lexeme st h) (\<lambda>p h'. run_below (length h') (snd p))"
proof (cases "frames st")
  case Nil
  with h show ?thesis by (simp add: processLexeme_def sound_throw)
next
  case (Cons a fs)
  let ?st = "st\<lparr>mode_buffer := mode_buffer st @ buffer\<rparr>"
  let ?rest = "\<lambda>new_mode h1. case new_mode of
      Some b \<Rightarrow> enter_mode hl r ci b lexeme ?st h1
    | None \<Rightarrow> (case endOfMode h1 (frames ?st) lexeme of
        Inl e \<Rightarrow> hthrow e h1
      | Inr (Some end_mode) \<Rightarrow> leave_mode hl r ci end_mode lexeme ?st h1
      | Inr None \<Rightarrow> if isIllegal ign lexeme (mode_at h1 a) then hthrow (HIllegal lexeme) h1
          else hret (if lexeme = [] then 1 else length lexeme, ?st\<lparr>mode_buffer := mode_buffer ?st @ lexeme\<rparr>) h1)"
  have "sound h (hbind (subMode lexeme a h) ?rest) (\<lambda>p h'. run_below (length h') (snd p))"
  proof (rule sound_bind [OF subMode_sound [OF h(1)]])
    fix c h1
    assume h1: "closed h1" "length h \<le> length h1" "case c of None \<Rightarrow> True | Some b \<Rightarrow> b < length h1"
    then have r1: "registry_below (length h1) r" and st1: "run_below (length h1) ?st"
      using registry_below_mono h(2) run_below_mono st by auto
    show "sound h1 (?rest c h1) (\<lambda>p h'. run_below (length h') (snd p))"
    proof (cases c)
      case None
      with h1(1) st1 leave_mode_sound [OF hl h1(1) r1 st1] show ?thesis
        by (auto intro!: sound_rules split: sum.splits option.splits)
    next
      case (Some b)
      with enter_mode_sound [OF hl h1(1) r1 st1] h1(3) show ?thesis by simp
    qed
  qed
  with Cons show ?thesis by (simp add: processLexeme_def Let_def)
qed

lemma highlight_loop_sound:
  assumes hl: "highlighter_sound r hl"
  shows "closed h \<Longrightarrow> registry_below (length h) r \<Longrightarrow> run_below (length h) st \<Longrightarrow>
    sound h (highlight_loop n hl r ci ign s index st h) (\<lambda>p h'. run_below (length h') (snd p))"
proof (induction n arbitrary: index st h)
  case (Suc n)
  have step: "sound h (hbind (processLexeme hl r ci ign b l st h) (\<lambda>(count, st1) h1.
      highlight_loop n hl r ci ign s (i + count) st1 h1)) (\<lambda>p h'. run_below (length h') (snd p))" for b l i
    by (rule sound_bind [OF processLexeme_sound [OF hl Suc.prems]])
      (auto intro: Suc.IH registry_below_mono [OF Suc.prems(2)])
  show ?case
    using Suc.prems step by (auto intro!: sound_rules split: list.splits option.splits)
qed simp

lemma highlight_run_sound:
  assumes hl: "highlighter_sound r hl" and h: "closed h" "registry_below (length h) r" "run_below (length h) st"
  shows "sound h (highlight_catch s (highlight_run n hl r ci name s ign st h)) (\<lambda>x h'. frames_below (length h') (o_top x))"
proof -
  have "sound h (highlight_run n hl r ci name s ign st h) (\<lambda>x h'. frames_below (length h') (o_top x))"
    unfolding highlight_run_def
  proof (rule sound_bind [OF highlight_loop_sound [OF hl h]])
    fix p :: "nat \<times> hrun" and h1
    assume h1: "closed h1" "length h \<le> length h1" "run_below (length h1) (snd p)"
    obtain i st1 where p: "p = (i, st1)" by (cases p)
    have "sound h1 (hbind (processBuffer hl r ci (st1\<lparr>mode_buffer := mode_buffer st1 @ drop i s\<rparr>) h1) (\<lambda>st2 h2.
        hret \<lparr>o_relevance = run_relevance st2, o_value = out st2 @ dangling h2 (frames st2),
          o_language = Some name, o_top = Some (frames st2), o_second = None\<rparr> h2)) (\<lambda>x h'. frames_below (length h') (o_top x))"
      using h1 p registry_below_mono [OF h(2)]
      by (intro sound_bind [OF processBuffer_sound [OF hl]]) (auto intro!: sound_ret simp: run_below_def frames_below_def)
    with p show "sound h1 ((\<lambda>(index, st1) h1. hbind (processBuffer hl r ci (st1\<lparr>mode_buffer := mode_buffer st1 @ drop index s\<rparr>) h1) (\<lambda>st2 h2.
        hret \<lparr>o_relevance = run_relevance st2, o_value = out st2 @ dangling h2 (frames st2),
          o_language = Some name, o_top = Some (frames st2), o_second = None\<rparr> h2)) p h1) (\<lambda>x h'. frames_below (length h') (o_top x))"
      by simp
  qed
  then show ?thesis
    by (auto simp: sound_def highlight_catch_def hret_def frames_below_def split: option.splits sum.splits prod.splits if_splits)
qed

lemma getLanguage_below: "registry_below n r \<Longrightarrow> getLanguage r name = LangMode a \<Longrightarrow> a < n"
  by (auto simp: getLanguage_def lang_lookup_def registry_below_def list_all_iff Let_def
      dest!: map_of_SomeD split: option.splits lang_ref.splits if_splits)

lemma highlight_with_sound:
  assumes hl: "highlighter_sound r hl"
  shows "highlighter_sound r (highlight_with n hl r)"
  unfolding highlighter_sound_def
proof (intro allI impI)
  fix name s ign c h
  assume h: "closed h" "registry_below (length h) r" "frames_below (length h) c"
  show "sound h (highlight_with n hl r name s ign c h) (\<lambda>x h'. frames_below (length h') (o_top x))"
  proof (cases "getLanguage r (Some name)")
    case (LangMode a)
    let ?fs = "case c of None \<Rightarrow> [a] | Some c \<Rightarrow> c"
    have a: "a < length h" by (rule getLanguage_below [OF h(2) LangMode])
    show ?thesis
      unfolding highlight_with_def LangMode lang_ref.simps compileLanguage_def Let_def
    proof (rule sound_bind [OF compileMode_sound [OF h(1) a]])
      fix h1 :: mstore assume h1: "closed h1" "length h \<le> length h1"
      then have "run_below (length h1) \<lparr>frames = ?fs, continuations = [], out = x, mode_buffer = [], run_relevance = Some 0\<rparr>" for x
        using a h(3) by (auto simp: run_below_def frames_below_def intro: list_below_mono split: option.splits)
      from highlight_run_sound [OF hl h1(1) registry_below_mono [OF h(2) h1(2)] this] h1(1)
      show "sound h1 (case reopen (options r) h1 a ?fs [] of Inl e \<Rightarrow> hthrow e h1
          | Inr opened \<Rightarrow> highlight_catch s (highlight_run n hl r (on (case_insensitive (mode_at h1 a))) name s ign
              \<lparr>frames = ?fs, continuations = [], out = opened, mode_buffer = [], run_relevance = Some 0\<rparr> h1))
        (\<lambda>x h'. frames_below (length h') (o_top x))"
        by (auto intro!: sound_throw split: sum.splits)
    qed
  qed (use h in \<open>simp_all add: highlight_with_def sound_throw\<close>)
qed

lemma highlight_sound: "highlighter_sound r (highlight n r)"
proof (induction n)
  case 0
  show ?case by (simp add: highlighter_sound_def)
next
  case (Suc n)
  from highlight_with_sound [OF this, of n] show ?case by (simp add: highlighter_sound_def)
qed

end
