(* ===== verification/Hljs_Languages_1.thy ===== *)
theory Hljs_Languages_1
  imports Hljs_Store
begin

text \<open>
  Grammars of highlight.js (\<^verbatim>\<open>remark.js\<close>, module 15), in the order of the source, from \<open>cpp\<close> to \<open>coffeescript\<close>. Each keeps the store
  closed.
\<close>

definition lang_cpp :: "mstore \<Rightarrow> nat \<times> mstore" where
  "lang_cpp h =
     (let (CPP_PRIMITIVE_TYPES, h) = new (no_mode\<lparr>className := Some ''keyword'',
              m_begin := Some (bs ''%b[a-z%d_]*_t%b'')\<rparr>) h;
          (m1, h) = new (no_mode\<lparr>m_begin := Some (''(u8?|U|L)?'' @ [CHR 0x22]), m_end := Some [CHR 0x22],
              illegal := Some (bs ''%n''), contains := Some [Ref hl_BACKSLASH_ESCAPE]\<rparr>) h;
          (m2, h) = new (no_mode\<lparr>m_begin := Some (''(?:u8?|U|L)?R'' @ [CHR 0x22] @
              bs ''([^()%% ]{0,16})%((?:.|%n)*?%)%1'' @ [CHR 0x22])\<rparr>) h;
          (m3, h) = new (no_mode\<lparr>m_begin := Some ([CHR 0x27] @ bs ''%%?.''), m_end := Some [CHR 0x27],
              illegal := Some ''.''\<rparr>) h;
          (STRINGS, h) = new (no_mode\<lparr>className := Some ''string'', variants := Some [m1, m2, m3]\<rparr>) h;
          (m4, h) = new (no_mode\<lparr>m_begin := Some (bs ''%b(0b[01'' @ [CHR 0x27] @ '']+)'')\<rparr>) h;
          (m5, h) = new (no_mode\<lparr>m_begin := Some (bs ''(-?)%b([%d'' @ [CHR 0x27] @ bs '']+(%.[%d'' @ [CHR 0x27] @
              '']*'' @ bs '')?|%.[%d'' @ [CHR 0x27] @ '']+)(u|U|l|L|ul|UL|f|F|b|B)'')\<rparr>) h;
          (m6, h) = new (no_mode\<lparr>m_begin := Some (bs ''(-?)(%b0[xX][a-fA-F0-9'' @ [CHR 0x27] @ bs '']+|(%b[%d'' @
              [CHR 0x27] @ bs '']+(%.[%d'' @ [CHR 0x27] @ '']*'' @ bs '')?|%.[%d'' @ [CHR 0x27] @
              bs '']+)([eE][-+]?[%d'' @ [CHR 0x27] @ '']+)?)'')\<rparr>) h;
          (NUMBERS, h) = new (no_mode\<lparr>className := Some ''number'', variants := Some [m4, m5, m6],
              m_relevance := Some 0\<rparr>) h;
          (m7, h) = new (no_mode\<lparr>m_begin := Some (bs ''%%%n''), m_relevance := Some 0\<rparr>) h;
          (m8, h) = new (inherit_mode (mode_at h STRINGS) [(no_mode\<lparr>className := Some ''meta-string''\<rparr>)]) h;
          (m9, h) = new (no_mode\<lparr>className := Some ''meta-string'', m_begin := Some (bs ''<[^%n>]*>''),
              m_end := Some ''$'', illegal := Some (bs ''%n'')\<rparr>) h;
          (PREPROCESSOR, h) = new (no_mode\<lparr>className := Some ''meta'', m_begin := Some (bs ''#%s*[a-z]+%b''),
              m_end := Some ''$'', m_keywords := Some (KObj [(''meta-keyword'',
              ''if else elif endif define undef warning error line '' @ ''pragma ifdef ifndef include'')]),
              contains := Some [Ref m7, Ref m8, Ref m9, Ref hl_C_LINE_COMMENT_MODE,
              Ref hl_C_BLOCK_COMMENT_MODE]\<rparr>) h;
          FUNCTION_TITLE = IDENT_RE @ bs ''%s*%('';
          EXPRESSION_CONTAINS = [Ref CPP_PRIMITIVE_TYPES, Ref hl_C_LINE_COMMENT_MODE, Ref hl_C_BLOCK_COMMENT_MODE, Ref NUMBERS,
              Ref STRINGS];
          CPP_KEYWORDS = KObj [(''keyword'',
              ''int float while private char catch import module export virtual operator sizeof '' @
              ''dynamic_cast|10 typedef const_cast|10 const for static_cast|10 union namespace '' @
              ''unsigned long volatile static protected bool template mutable if public friend '' @
              ''do goto auto void enum else break extern using asm case typeid '' @
              ''short reinterpret_cast|10 default double register explicit signed typename try this '' @
              ''switch continue inline delete alignof constexpr decltype '' @
              ''noexcept static_assert thread_local restrict _Bool complex _Complex _Imaginary '' @
              ''atomic_bool atomic_char atomic_schar '' @
              ''atomic_uchar atomic_short atomic_ushort atomic_int atomic_uint atomic_long atomic_ulong atomic_llong '' @
              ''atomic_ullong new throw return '' @ ''and or not''), (''built_in'',
              ''std string cin cout cerr clog stdin stdout stderr stringstream istringstream ostringstream '' @
              ''auto_ptr deque list queue stack vector map set bitset multiset multimap unordered_set '' @
              ''unordered_map unordered_multiset unordered_multimap array shared_ptr abort abs acos '' @
              ''asin atan2 atan calloc ceil cosh cos exit exp fabs floor fmod fprintf fputs free frexp '' @
              ''fscanf isalnum isalpha iscntrl isdigit isgraph islower isprint ispunct isspace isupper '' @
              ''isxdigit tolower toupper labs ldexp log10 log malloc realloc memchr memcmp memcpy memset modf pow '' @
              ''printf putchar puts scanf sinh sin snprintf sprintf sqrt sscanf strcat strchr strcmp '' @
              ''strcpy strcspn strlen strncat strncmp strncpy strpbrk strrchr strspn strstr tanh tan '' @
              ''vfprintf vprintf vsprintf endl initializer_list unique_ptr''), (''literal'',
              ''true false nullptr NULL'')];
          (m10,
              h) = new (no_mode\<lparr>m_begin := Some (bs ''%b(deque|list|queue|stack|vector|map|set|bitset|multiset|multimap|unordered_map|unordered_set|unorder'' @
              bs ''ed_multiset|unordered_multimap|array)%s*<''), m_end := Some ''>'',
              m_keywords := Some CPP_KEYWORDS, contains := Some [Self, Ref CPP_PRIMITIVE_TYPES]\<rparr>) h;
          (m11, h) = new (no_mode\<lparr>m_begin := Some (IDENT_RE @ ''::''), m_keywords := Some CPP_KEYWORDS\<rparr>) h;
          (m12, h) = new (no_mode\<lparr>m_begin := Some ''='', m_end := Some '';''\<rparr>) h;
          (m13, h) = new (no_mode\<lparr>m_begin := Some (bs ''%(''), m_end := Some (bs ''%)'')\<rparr>) h;
          (m14, h) = new (no_mode\<lparr>beginKeywords := Some ''new throw return else'', m_end := Some '';''\<rparr>) h;
          (m15, h) = new (no_mode\<lparr>m_begin := Some (bs ''%(''), m_end := Some (bs ''%)''),
              m_keywords := Some CPP_KEYWORDS, contains := Some (EXPRESSION_CONTAINS @ [Self]),
              m_relevance := Some 0\<rparr>) h;
          (m16, h) = new (no_mode\<lparr>variants := Some [m12, m13, m14], m_keywords := Some CPP_KEYWORDS,
              contains := Some (EXPRESSION_CONTAINS @ [Ref m15]), m_relevance := Some 0\<rparr>) h;
          (m17, h) = new (no_mode\<lparr>m_begin := Some FUNCTION_TITLE, returnBegin := Some True,
              contains := Some [Ref hl_TITLE_MODE], m_relevance := Some 0\<rparr>) h;
          (m18, h) = new (no_mode\<lparr>m_begin := Some (bs ''%(''), m_end := Some (bs ''%)''),
              m_keywords := Some CPP_KEYWORDS, m_relevance := Some 0, contains := Some [Self,
              Ref hl_C_LINE_COMMENT_MODE, Ref hl_C_BLOCK_COMMENT_MODE, Ref STRINGS, Ref NUMBERS,
              Ref CPP_PRIMITIVE_TYPES]\<rparr>) h;
          (m19, h) = new (no_mode\<lparr>className := Some ''params'', m_begin := Some (bs ''%(''), m_end := Some (bs ''%)''),
              m_keywords := Some CPP_KEYWORDS, m_relevance := Some 0, contains := Some [Ref hl_C_LINE_COMMENT_MODE,
              Ref hl_C_BLOCK_COMMENT_MODE, Ref STRINGS, Ref NUMBERS, Ref CPP_PRIMITIVE_TYPES, Ref m18]\<rparr>) h;
          (m20, h) = new (no_mode\<lparr>className := Some ''function'', m_begin := Some (''('' @ IDENT_RE @
              bs ''[%*&%s]+)+'' @ FUNCTION_TITLE), returnBegin := Some True, m_end := Some ''[{;=]'',
              excludeEnd := Some True, m_keywords := Some CPP_KEYWORDS, illegal := Some (bs ''[^%w%s%*&]''),
              contains := Some [Ref m17, Ref m19, Ref hl_C_LINE_COMMENT_MODE, Ref hl_C_BLOCK_COMMENT_MODE,
              Ref PREPROCESSOR]\<rparr>) h;
          (m21, h) = new (no_mode\<lparr>m_begin := Some ''<'', m_end := Some ''>'', contains := Some [Self]\<rparr>) h;
          (m22, h) = new (no_mode\<lparr>className := Some ''class'', beginKeywords := Some ''class struct'',
              m_end := Some ''[{;:]'', contains := Some [Ref m21, Ref hl_TITLE_MODE]\<rparr>) h;
          (language, h) = new (no_mode\<lparr>aliases := Some [''c'', ''cc'', ''h'', ''c++'', ''h++'', ''hpp'', ''hh'',
              ''hxx'', ''cxx''], m_keywords := Some CPP_KEYWORDS, illegal := Some ''</'',
              contains := Some (EXPRESSION_CONTAINS @ [Ref PREPROCESSOR, Ref m10, Ref m11, Ref m16, Ref m20,
              Ref m22])\<rparr>) h
      in (language, h))"

definition lang_abnf :: "mstore \<Rightarrow> nat \<times> mstore" where
  "lang_abnf h =
     (let (commentMode, h) = COMMENT '';'' ''$'' no_mode h;
          (terminalBinaryMode, h) = new (no_mode\<lparr>className := Some ''symbol'', m_begin := Some (''%'' @
              bs ''b[0-1]+(-[0-1]+|(%.[0-1]+)+){0,1}'')\<rparr>) h;
          (terminalDecimalMode, h) = new (no_mode\<lparr>className := Some ''symbol'', m_begin := Some (''%'' @
              bs ''d[0-9]+(-[0-9]+|(%.[0-9]+)+){0,1}'')\<rparr>) h;
          (terminalHexadecimalMode, h) = new (no_mode\<lparr>className := Some ''symbol'', m_begin := Some (''%'' @
              bs ''x[0-9A-F]+(-[0-9A-F]+|(%.[0-9A-F]+)+){0,1}'')\<rparr>) h;
          (caseSensitivityIndicatorMode, h) = new (no_mode\<lparr>className := Some ''symbol'',
              m_begin := Some ''%[si]''\<rparr>) h;
          (m1, h) = new (no_mode\<lparr>className := Some ''attribute'', m_begin := Some ''^[a-zA-Z][a-zA-Z0-9-]*''\<rparr>) h;
          (ruleDeclarationMode, h) = new (no_mode\<lparr>m_begin := Some (''^[a-zA-Z][a-zA-Z0-9-]*'' @ bs ''%s*=''),
              returnBegin := Some True, m_end := Some ''='', m_relevance := Some 0,
              contains := Some [Ref m1]\<rparr>) h;
          (language, h) = new (no_mode\<lparr>illegal := Some (''[!@#$^&'' @ [CHR 0x27] @ '',?+~'' @ [CHR 0x60] @ ''|:]''),
              m_keywords := Some (KStr (join '' '' [''ALPHA'', ''BIT'', ''CHAR'', ''CR'', ''CRLF'', ''CTL'',
              ''DIGIT'', ''DQUOTE'', ''HEXDIG'', ''HTAB'', ''LF'', ''LWSP'', ''OCTET'', ''SP'', ''VCHAR'',
              ''WSP''])), contains := Some [Ref ruleDeclarationMode, Ref commentMode, Ref terminalBinaryMode,
              Ref terminalDecimalMode, Ref terminalHexadecimalMode, Ref caseSensitivityIndicatorMode,
              Ref hl_QUOTE_STRING_MODE, Ref hl_NUMBER_MODE]\<rparr>) h
      in (language, h))"

definition lang_accesslog :: "mstore \<Rightarrow> nat \<times> mstore" where
  "lang_accesslog h =
     (let (m1, h) = new (no_mode\<lparr>className := Some ''number'',
              m_begin := Some (bs ''%b%d{1,3}%.%d{1,3}%.%d{1,3}%.%d{1,3}(:%d{1,5})?%b'')\<rparr>) h;
          (m2, h) = new (no_mode\<lparr>className := Some ''number'', m_begin := Some (bs ''%b%d+%b''),
              m_relevance := Some 0\<rparr>) h;
          (m3, h) = new (no_mode\<lparr>className := Some ''string'', m_begin := Some ([CHR 0x22] @
              ''(GET|POST|HEAD|PUT|DELETE|CONNECT|OPTIONS|PATCH|TRACE)''), m_end := Some [CHR 0x22],
              m_keywords := Some (KStr ''GET POST HEAD PUT DELETE CONNECT OPTIONS PATCH TRACE''),
              illegal := Some (bs ''%n''), m_relevance := Some 10\<rparr>) h;
          (m4, h) = new (no_mode\<lparr>className := Some ''string'', m_begin := Some (bs ''%[''), m_end := Some (bs ''%]''),
              illegal := Some (bs ''%n'')\<rparr>) h;
          (m5, h) = new (no_mode\<lparr>className := Some ''string'', m_begin := Some [CHR 0x22], m_end := Some [CHR 0x22],
              illegal := Some (bs ''%n'')\<rparr>) h;
          (language, h) = new (no_mode\<lparr>contains := Some [Ref m1, Ref m2, Ref m3, Ref m4, Ref m5]\<rparr>) h
      in (language, h))"

definition lang_actionscript :: "mstore \<Rightarrow> nat \<times> mstore" where
  "lang_actionscript h =
     (let IDENT_RE' = ''[a-zA-Z_$][a-zA-Z0-9_$]*'';
          IDENT_FUNC_RETURN_TYPE_RE = ''([*]|[a-zA-Z_$][a-zA-Z0-9_$]*'' @ '')'';
          (AS3_REST_ARG_MODE, h) = new (no_mode\<lparr>className := Some ''rest_arg'', m_begin := Some ''[.]{3}'',
              m_end := Some (IDENT_RE'), m_relevance := Some 10\<rparr>) h;
          (m1, h) = new (no_mode\<lparr>className := Some ''class'', beginKeywords := Some ''package'', m_end := Some ''{'',
              contains := Some [Ref hl_TITLE_MODE]\<rparr>) h;
          (m2, h) = new (no_mode\<lparr>beginKeywords := Some ''extends implements''\<rparr>) h;
          (m3, h) = new (no_mode\<lparr>className := Some ''class'', beginKeywords := Some ''class interface'',
              m_end := Some ''{'', excludeEnd := Some True, contains := Some [Ref m2, Ref hl_TITLE_MODE]\<rparr>) h;
          (m4, h) = new (no_mode\<lparr>className := Some ''meta'', beginKeywords := Some ''import include'',
              m_end := Some '';'', m_keywords := Some (KObj [(''meta-keyword'', ''import include'')])\<rparr>) h;
          (m5, h) = new (no_mode\<lparr>className := Some ''params'', m_begin := Some (bs ''%(''), m_end := Some (bs ''%)''),
              contains := Some [Ref hl_APOS_STRING_MODE, Ref hl_QUOTE_STRING_MODE, Ref hl_C_LINE_COMMENT_MODE,
              Ref hl_C_BLOCK_COMMENT_MODE, Ref AS3_REST_ARG_MODE]\<rparr>) h;
          (m6, h) = new (no_mode\<lparr>m_begin := Some (bs '':%s*'' @ IDENT_FUNC_RETURN_TYPE_RE)\<rparr>) h;
          (m7, h) = new (no_mode\<lparr>className := Some ''function'', beginKeywords := Some ''function'',
              m_end := Some ''[{;]'', excludeEnd := Some True, illegal := Some (bs ''%S''),
              contains := Some [Ref hl_TITLE_MODE, Ref m5, Ref m6]\<rparr>) h;
          (language, h) = new (no_mode\<lparr>aliases := Some [''as''], m_keywords := Some (KObj [(''keyword'',
              ''as break case catch class const continue default delete do dynamic each '' @
              ''else extends final finally for function get if implements import in include '' @
              ''instanceof interface internal is namespace native new override package private '' @
              ''protected public return set static super switch this throw try typeof use var void '' @
              ''while with''), (''literal'', ''true false null undefined'')]),
              contains := Some [Ref hl_APOS_STRING_MODE, Ref hl_QUOTE_STRING_MODE, Ref hl_C_LINE_COMMENT_MODE,
              Ref hl_C_BLOCK_COMMENT_MODE, Ref hl_C_NUMBER_MODE, Ref m1, Ref m3, Ref m4, Ref m7,
              Ref hl_METHOD_GUARD], illegal := Some ''#''\<rparr>) h
      in (language, h))"

definition lang_ada :: "mstore \<Rightarrow> nat \<times> mstore" where
  "lang_ada h =
     (let INTEGER_RE = bs ''%d(_|%d)*'';
          EXPONENT_RE = ''[eE][-+]?'' @ INTEGER_RE;
          DECIMAL_LITERAL_RE = INTEGER_RE @ bs ''(%.'' @ INTEGER_RE @ '')?'' @ ''('' @ EXPONENT_RE @ '')?'';
          BASED_INTEGER_RE = bs ''%w+'';
          BASED_LITERAL_RE = INTEGER_RE @ ''#'' @ BASED_INTEGER_RE @ bs ''(%.'' @ BASED_INTEGER_RE @ '')?'' @ ''#'' @ ''('' @
              EXPONENT_RE @ '')?'';
          NUMBER_RE' = bs ''%b('' @ BASED_LITERAL_RE @ ''|'' @ DECIMAL_LITERAL_RE @ '')'';
          ID_REGEX = ''[A-Za-z](_?[A-Za-z0-9.])*'';
          BAD_CHARS = ''[]{}%#'' @ [CHR 0x27, CHR 0x22];
          (COMMENTS, h) = COMMENT ''--'' ''$'' no_mode h;
          (m1, h) = new (no_mode\<lparr>beginKeywords := Some ''loop for declare others'', endsParent := Some True\<rparr>) h;
          (m2, h) = new (no_mode\<lparr>className := Some ''keyword'',
              beginKeywords := Some ''not null constant access function procedure in out aliased exception''\<rparr>) h;
          (m3, h) = new (no_mode\<lparr>className := Some ''type'', m_begin := Some ID_REGEX, endsParent := Some True,
              m_relevance := Some 0\<rparr>) h;
          (VAR_DECLS, h) = new (no_mode\<lparr>m_begin := Some (bs ''%s+:%s+''), m_end := Some (bs ''%s*(:=|;|%)|=>|$)''),
              illegal := Some BAD_CHARS, contains := Some [Ref m1, Ref m2, Ref m3]\<rparr>) h;
          (m4, h) = new (no_mode\<lparr>m_begin := Some [CHR 0x22, CHR 0x22], m_relevance := Some 0\<rparr>) h;
          (m5, h) = new (no_mode\<lparr>className := Some ''string'', m_begin := Some [CHR 0x22], m_end := Some [CHR 0x22],
              contains := Some [Ref m4]\<rparr>) h;
          (m6, h) = new (no_mode\<lparr>className := Some ''string'', m_begin := Some ([CHR 0x27] @ ''.'' @ [CHR 0x27])\<rparr>) h;
          (m7, h) = new (no_mode\<lparr>className := Some ''number'', m_begin := Some (NUMBER_RE'),
              m_relevance := Some 0\<rparr>) h;
          (m8, h) = new (no_mode\<lparr>className := Some ''symbol'', m_begin := Some ([CHR 0x27] @ ID_REGEX)\<rparr>) h;
          (m9, h) = new (no_mode\<lparr>className := Some ''title'',
              m_begin := Some (bs ''(%bwith%s+)?(%bprivate%s+)?%bpackage%s+(%bbody%s+)?''), m_end := Some ''(is|$)'',
              m_keywords := Some (KStr ''package body''), excludeBegin := Some True, excludeEnd := Some True,
              illegal := Some BAD_CHARS\<rparr>) h;
          (m10, h) = new (no_mode\<lparr>className := Some ''title'',
              m_begin := Some (bs ''(%bwith%s+)?%b(function|procedure)%s+''), m_end := Some (bs ''(%(|%s+|$)''),
              excludeBegin := Some True, excludeEnd := Some True, illegal := Some BAD_CHARS\<rparr>) h;
          (m11, h) = new (no_mode\<lparr>className := Some ''type'', m_begin := Some (bs ''%breturn%s+''),
              m_end := Some (bs ''(%s+|;|$)''), m_keywords := Some (KStr ''return''), excludeBegin := Some True,
              excludeEnd := Some True, endsParent := Some True, illegal := Some BAD_CHARS\<rparr>) h;
          (m12, h) = new (no_mode\<lparr>m_begin := Some (bs ''(%b(with|overriding)%s+)?%b(function|procedure)%s+''),
              m_end := Some (bs ''(%bis|%bwith|%brenames|%)%s*;)''),
              m_keywords := Some (KStr ''overriding function procedure with is renames return''),
              returnBegin := Some True, contains := Some [Ref COMMENTS, Ref m10, Ref VAR_DECLS, Ref m11]\<rparr>) h;
          (m13, h) = new (no_mode\<lparr>className := Some ''type'', m_begin := Some (bs ''%b(sub)?type%s+''),
              m_end := Some (bs ''%s+''), m_keywords := Some (KStr ''type''), excludeBegin := Some True,
              illegal := Some BAD_CHARS\<rparr>) h;
          (language, h) = new (no_mode\<lparr>case_insensitive := Some True, m_keywords := Some (KObj [(''keyword'',
              ''abort else new return abs elsif not reverse abstract end '' @
              ''accept entry select access exception of separate aliased exit or some '' @
              ''all others subtype and for out synchronized array function overriding '' @
              ''at tagged generic package task begin goto pragma terminate '' @
              ''body private then if procedure type case in protected constant interface '' @
              ''is raise use declare range delay limited record when delta loop rem while '' @
              ''digits renames with do mod requeue xor''), (''literal'', ''True False'')]),
              contains := Some [Ref COMMENTS, Ref m5, Ref m6, Ref m7, Ref m8, Ref m9, Ref m12, Ref m13,
              Ref VAR_DECLS]\<rparr>) h
      in (language, h))"

definition lang_angelscript :: "mstore \<Rightarrow> nat \<times> mstore" where
  "lang_angelscript h =
     (let (builtInTypeMode, h) = new (no_mode\<lparr>className := Some ''built_in'',
              m_begin := Some (bs ''%b(void|bool|int|int8|int16|int32|int64|uint|uint8|uint16|uint32|uint64|string|ref|array|double|float'' @
              ''|auto|dictionary)'')\<rparr>) h;
          (objectHandleMode, h) = new (no_mode\<lparr>className := Some ''symbol'', m_begin := Some ''[a-zA-Z0-9_]+@''\<rparr>) h;
          (genericMode, h) = new (no_mode\<lparr>className := Some ''keyword'', m_begin := Some ''<'', m_end := Some ''>'',
              contains := Some [Ref builtInTypeMode, Ref objectHandleMode]\<rparr>) h;
          h = upd builtInTypeMode (\<lambda>m. m\<lparr>contains := Some [Ref genericMode]\<rparr>) h;
          h = upd objectHandleMode (\<lambda>m. m\<lparr>contains := Some [Ref genericMode]\<rparr>) h;
          (m1, h) = new (no_mode\<lparr>className := Some ''string'', m_begin := Some [CHR 0x27], m_end := Some [CHR 0x27],
              illegal := Some (bs ''%n''), contains := Some [Ref hl_BACKSLASH_ESCAPE],
              m_relevance := Some 0\<rparr>) h;
          (m2, h) = new (no_mode\<lparr>className := Some ''string'', m_begin := Some [CHR 0x22], m_end := Some [CHR 0x22],
              illegal := Some (bs ''%n''), contains := Some [Ref hl_BACKSLASH_ESCAPE],
              m_relevance := Some 0\<rparr>) h;
          (m3, h) = new (no_mode\<lparr>className := Some ''string'', m_begin := Some [CHR 0x22, CHR 0x22, CHR 0x22],
              m_end := Some [CHR 0x22, CHR 0x22, CHR 0x22]\<rparr>) h;
          (m4, h) = new (no_mode\<lparr>className := Some ''symbol'', m_begin := Some ''[a-zA-Z0-9_]+''\<rparr>) h;
          (m5, h) = new (no_mode\<lparr>beginKeywords := Some ''interface namespace'', m_end := Some ''{'',
              illegal := Some (bs ''[;.%-]''), contains := Some [Ref m4]\<rparr>) h;
          (m6, h) = new (no_mode\<lparr>className := Some ''symbol'', m_begin := Some ''[a-zA-Z0-9_]+''\<rparr>) h;
          (m7, h) = new (no_mode\<lparr>m_begin := Some (bs ''[:,]%s*''), contains := Some [Ref m6]\<rparr>) h;
          (m8, h) = new (no_mode\<lparr>className := Some ''symbol'', m_begin := Some ''[a-zA-Z0-9_]+'',
              contains := Some [Ref m7]\<rparr>) h;
          (m9, h) = new (no_mode\<lparr>beginKeywords := Some ''class'', m_end := Some ''{'', illegal := Some (bs ''[;.%-]''),
              contains := Some [Ref m8]\<rparr>) h;
          (m10, h) = new (no_mode\<lparr>className := Some ''literal'', m_begin := Some (bs ''%b(null|true|false)'')\<rparr>) h;
          (m11, h) = new (no_mode\<lparr>className := Some ''number'',
              m_begin := Some (bs ''(-?)(%b0[xX][a-fA-F0-9]+|(%b%d+(%.%d*'' @
              bs '')?f?|%.%d+f?)([eE][-+]?%d+f?)?)'')\<rparr>) h;
          (language, h) = new (no_mode\<lparr>aliases := Some [''asc''],
              m_keywords := Some (KStr (''for in|0 break continue while do|0 return if else case switch namespace is cast '' @
              ''or and xor not get|0 in inout|10 out override set|0 private public const default|0 '' @
              ''final shared external mixin|10 enum typedef funcdef this super import from interface '' @
              ''abstract|0 try catch protected explicit'')),
              illegal := Some (bs ''(^using%s+[A-Za-z0-9_%.]+;$|%bfunctions*[^%(])''), contains := Some [Ref m1,
              Ref m2, Ref m3, Ref hl_C_LINE_COMMENT_MODE, Ref hl_C_BLOCK_COMMENT_MODE, Ref m5, Ref m9,
              Ref builtInTypeMode, Ref objectHandleMode, Ref m10, Ref m11]\<rparr>) h
      in (language, h))"

definition lang_apache :: "mstore \<Rightarrow> nat \<times> mstore" where
  "lang_apache h =
     (let (NUMBER, h) = new (no_mode\<lparr>className := Some ''number'', m_begin := Some (bs ''[%$'' @ ''%'' @
              bs '']%d+'')\<rparr>) h;
          (m1, h) = new (no_mode\<lparr>className := Some ''section'', m_begin := Some ''</?'', m_end := Some ''>''\<rparr>) h;
          (m2, h) = new (no_mode\<lparr>className := Some ''meta'', m_begin := Some (bs ''%s%[''),
              m_end := Some (bs ''%]$'')\<rparr>) h;
          (m3, h) = new (no_mode\<lparr>className := Some ''variable'', m_begin := Some (bs ''[%$'' @ ''%'' @ bs '']%{''),
              m_end := Some (bs ''%}''), contains := Some [Self, Ref NUMBER]\<rparr>) h;
          (m4, h) = new (no_mode\<lparr>m_end := Some ''$'', m_relevance := Some 0, m_keywords := Some (KObj [(''literal'',
              ''on off all'')]), contains := Some [Ref m2, Ref m3, Ref NUMBER, Ref hl_QUOTE_STRING_MODE]\<rparr>) h;
          (m5, h) = new (no_mode\<lparr>className := Some ''attribute'', m_begin := Some (bs ''%w+''), m_relevance := Some 0,
              m_keywords := Some (KObj [(''nomarkup'',
              ''order deny allow setenv rewriterule rewriteengine rewritecond documentroot '' @
              ''sethandler errordocument loadmodule options header listen serverroot '' @ ''servername'')]),
              starts := Some m4\<rparr>) h;
          (language, h) = new (no_mode\<lparr>aliases := Some [''apacheconf''], case_insensitive := Some True,
              contains := Some [Ref hl_HASH_COMMENT_MODE, Ref m1, Ref m5], illegal := Some (bs ''%S'')\<rparr>) h
      in (language, h))"

definition lang_applescript :: "mstore \<Rightarrow> nat \<times> mstore" where
  "lang_applescript h =
     (let (STRING, h) = new (inherit_mode (mode_at h hl_QUOTE_STRING_MODE) [(no_mode\<lparr>illegal := Some []\<rparr>)]) h;
          (PARAMS, h) = new (no_mode\<lparr>className := Some ''params'', m_begin := Some (bs ''%(''),
              m_end := Some (bs ''%)''), contains := Some [Self, Ref hl_C_NUMBER_MODE, Ref STRING]\<rparr>) h;
          (COMMENT_MODE_1, h) = COMMENT ''--'' ''$'' no_mode h;
          (COMMENT_MODE_2, h) = COMMENT (bs ''%(%*'') (bs ''%*%)'') (no_mode\<lparr>contains := Some [Self,
              Ref COMMENT_MODE_1]\<rparr>) h;
          COMMENTS = [Ref COMMENT_MODE_1, Ref COMMENT_MODE_2, Ref hl_HASH_COMMENT_MODE];
          (m1, h) = new (no_mode\<lparr>className := Some ''built_in'',
              m_begin := Some (bs ''%b(clipboard info|the clipboard|info for|list (disks|folder)|'' @
              ''mount volume|path to|(close|open for) access|(get|set) eof|'' @
              ''current date|do shell script|get volume settings|random number|'' @
              ''set volume|system attribute|system info|time to GMT|'' @
              ''(load|run|store) script|scripting components|'' @ ''ASCII (character|number)|localized string|'' @
              ''choose (application|color|file|file name|'' @ ''folder|from list|remote application|URL)|'' @
              bs ''display (alert|dialog))%b|^%s*return%b'')\<rparr>) h;
          (m2, h) = new (no_mode\<lparr>className := Some ''literal'',
              m_begin := Some (bs ''%b(text item delimiters|current application|missing value)%b'')\<rparr>) h;
          (m3, h) = new (no_mode\<lparr>className := Some ''keyword'',
              m_begin := Some (bs ''%b(apart from|aside from|instead of|out of|greater than|'' @ ''isn'' @
              [CHR 0x27] @ ''t|(doesn'' @ [CHR 0x27] @ ''t|does not) (equal|come before|come after|contain)|'' @
              ''(greater|less) than( or equal)?|(starts?|ends|begins?) with|'' @
              ''contained by|comes (before|after)|a (ref|reference)|POSIX file|'' @
              bs ''POSIX path|(date|time) string|quoted form)%b'')\<rparr>) h;
          (m4, h) = new (no_mode\<lparr>beginKeywords := Some ''on'', illegal := Some (bs ''[${=;%n]''),
              contains := Some [Ref hl_UNDERSCORE_TITLE_MODE, Ref PARAMS]\<rparr>) h;
          (language, h) = new (no_mode\<lparr>aliases := Some [''osascript''], m_keywords := Some (KObj [(''keyword'',
              ''about above after against and around as at back before beginning '' @
              ''behind below beneath beside between but by considering '' @
              ''contain contains continue copy div does eighth else end equal '' @
              ''equals error every exit fifth first for fourth from front '' @
              ''get given global if ignoring in into is it its last local me '' @
              ''middle mod my ninth not of on onto or over prop property put ref '' @
              ''reference repeat returning script second set seventh since '' @
              ''sixth some tell tenth that the|0 then third through thru '' @
              ''timeout times to transaction try until where while whose with '' @ ''without''), (''literal'',
              ''AppleScript false linefeed return pi quote result space tab true''), (''built_in'',
              ''alias application boolean class constant date file integer list '' @
              ''number real record string text '' @ ''activate beep count delay launch log offset read round '' @
              ''run say summarize write '' @ ''character characters contents day frontmost id item length '' @
              ''month name paragraph paragraphs rest reverse running time version '' @
              ''weekday word words year'')]), contains := Some ([Ref STRING, Ref hl_C_NUMBER_MODE, Ref m1, Ref m2,
              Ref m3, Ref m4] @ COMMENTS), illegal := Some (bs ''//|->|=>|%[%['')\<rparr>) h
      in (language, h))"

definition lang_arcade :: "mstore \<Rightarrow> nat \<times> mstore" where
  "lang_arcade h =
     (let IDENT_RE' = ''[A-Za-z_][0-9A-Za-z_]*'';
          (SYMBOL, h) = new (no_mode\<lparr>className := Some ''symbol'',
              m_begin := Some (bs ''%$[feature|layer|map|value|view]+'')\<rparr>) h;
          (m1, h) = new (no_mode\<lparr>m_begin := Some (bs ''%b(0[bB][01]+)'')\<rparr>) h;
          (m2, h) = new (no_mode\<lparr>m_begin := Some (bs ''%b(0[oO][0-7]+)'')\<rparr>) h;
          (m3, h) = new (no_mode\<lparr>m_begin := Some C_NUMBER_RE\<rparr>) h;
          (NUMBER, h) = new (no_mode\<lparr>className := Some ''number'', variants := Some [m1, m2, m3],
              m_relevance := Some 0\<rparr>) h;
          KEYWORDS = KObj [(''keyword'', ''if for while var new function do return void else break''), (''literal'',
              ''true false null undefined NaN Infinity PI BackSlash DoubleQuote ForwardSlash NewLine SingleQuote Tab''),
              (''built_in'', ''Abs Acos Area AreaGeodetic Asin Atan Atan2 Average Boolean Buffer BufferGeodetic '' @
              ''Ceil Centroid Clip Console Constrain Contains Cos Count Crosses Cut Date DateAdd '' @
              ''DateDiff Day Decode DefaultValue Dictionary Difference Disjoint Distance Distinct '' @
              ''DomainCode DomainName Equals Exp Extent Feature FeatureSet FeatureSetById FeatureSetByTitle '' @
              ''FeatureSetByUrl Filter First Floor Geometry Guid HasKey Hour IIf IndexOf Intersection '' @
              ''Intersects IsEmpty Length LengthGeodetic Log Max Mean Millisecond Min Minute Month '' @
              ''MultiPartToSinglePart Multipoint NextSequenceValue Now Number OrderBy Overlaps Point Polygon '' @
              ''Polyline Pow Random Relate Reverse Round Second SetGeometry Sin Sort Sqrt Stdev Sum '' @
              ''SymmetricDifference Tan Text Timestamp Today ToLocal Top Touches ToUTC TypeOf Union Variance '' @
              ''Weekday When Within Year '')];
          (SUBST, h) = new (no_mode\<lparr>className := Some ''subst'', m_begin := Some (bs ''%$%{''),
              m_end := Some (bs ''%}''), m_keywords := Some KEYWORDS, contains := Some []\<rparr>) h;
          (TEMPLATE_STRING, h) = new (no_mode\<lparr>className := Some ''string'', m_begin := Some [CHR 0x60],
              m_end := Some [CHR 0x60], contains := Some [Ref hl_BACKSLASH_ESCAPE, Ref SUBST]\<rparr>) h;
          h = upd SUBST (\<lambda>m. m\<lparr>contains := Some [Ref hl_APOS_STRING_MODE, Ref hl_QUOTE_STRING_MODE,
              Ref TEMPLATE_STRING, Ref NUMBER, Ref hl_REGEXP_MODE]\<rparr>) h;
          PARAMS_CONTAINS = [Ref hl_APOS_STRING_MODE, Ref hl_QUOTE_STRING_MODE, Ref TEMPLATE_STRING, Ref NUMBER,
              Ref hl_REGEXP_MODE, Ref hl_C_BLOCK_COMMENT_MODE, Ref hl_C_LINE_COMMENT_MODE];
          (m4, h) = new (no_mode\<lparr>className := Some ''attr'', m_begin := Some (IDENT_RE'), m_relevance := Some 0\<rparr>) h;
          (m5, h) = new (no_mode\<lparr>m_begin := Some (IDENT_RE' @ bs ''%s*:''), returnBegin := Some True,
              m_relevance := Some 0, contains := Some [Ref m4]\<rparr>) h;
          (m6, h) = new (no_mode\<lparr>m_begin := Some (bs ''[{,]%s*''), m_relevance := Some 0,
              contains := Some [Ref m5]\<rparr>) h;
          (m7, h) = new (no_mode\<lparr>m_begin := Some (IDENT_RE')\<rparr>) h;
          (m8, h) = new (no_mode\<lparr>m_begin := Some (bs ''%(%s*%)'')\<rparr>) h;
          (m9, h) = new (no_mode\<lparr>m_begin := Some (bs ''%(''), m_end := Some (bs ''%)''), excludeBegin := Some True,
              excludeEnd := Some True, m_keywords := Some KEYWORDS, contains := Some PARAMS_CONTAINS\<rparr>) h;
          (m10, h) = new (no_mode\<lparr>className := Some ''params'', variants := Some [m7, m8, m9]\<rparr>) h;
          (m11, h) = new (no_mode\<lparr>className := Some ''function'', m_begin := Some (bs ''(%(.*?%)|'' @ IDENT_RE' @
              bs '')%s*=>''), returnBegin := Some True, m_end := Some (bs ''%s*=>''),
              contains := Some [Ref m10]\<rparr>) h;
          (m12, h) = new (no_mode\<lparr>m_begin := Some (''('' @ RE_STARTERS_RE @ bs ''|%b(return)%b)%s*''),
              m_keywords := Some (KStr ''return''), contains := Some [Ref hl_C_LINE_COMMENT_MODE,
              Ref hl_C_BLOCK_COMMENT_MODE, Ref hl_REGEXP_MODE, Ref m11], m_relevance := Some 0\<rparr>) h;
          (m13, h) = new (inherit_mode (mode_at h hl_TITLE_MODE) [(no_mode\<lparr>m_begin := Some (IDENT_RE')\<rparr>)]) h;
          (m14, h) = new (no_mode\<lparr>className := Some ''params'', m_begin := Some (bs ''%(''), m_end := Some (bs ''%)''),
              excludeBegin := Some True, excludeEnd := Some True, contains := Some PARAMS_CONTAINS\<rparr>) h;
          (m15, h) = new (no_mode\<lparr>className := Some ''function'', beginKeywords := Some ''function'',
              m_end := Some (bs ''%{''), excludeEnd := Some True, contains := Some [Ref m13, Ref m14],
              illegal := Some (bs ''%[|'' @ ''%'')\<rparr>) h;
          (m16, h) = new (no_mode\<lparr>m_begin := Some (bs ''%$[(.]'')\<rparr>) h;
          (language, h) = new (no_mode\<lparr>aliases := Some [''arcade''], m_keywords := Some KEYWORDS,
              contains := Some [Ref hl_APOS_STRING_MODE, Ref hl_QUOTE_STRING_MODE, Ref TEMPLATE_STRING,
              Ref hl_C_LINE_COMMENT_MODE, Ref hl_C_BLOCK_COMMENT_MODE, Ref SYMBOL, Ref NUMBER, Ref m6, Ref m12,
              Ref m15, Ref m16], illegal := Some ''#(?!!)''\<rparr>) h
      in (language, h))"

definition lang_armasm :: "mstore \<Rightarrow> nat \<times> mstore" where
  "lang_armasm h =
     (let (m1, h) = new (no_mode\<lparr>className := Some ''keyword'', m_begin := Some (bs ''%b('' @ ''adc|'' @
              ''(qd?|sh?|u[qh]?)?add(8|16)?|usada?8|(q|sh?|u[qh]?)?(as|sa)x|'' @
              ''and|adrl?|sbc|rs[bc]|asr|b[lx]?|blx|bxj|cbn?z|tb[bh]|bic|'' @
              ''bfc|bfi|[su]bfx|bkpt|cdp2?|clz|clrex|cmp|cmn|cpsi[ed]|cps|'' @
              ''setend|dbg|dmb|dsb|eor|isb|it[te]{0,3}|lsl|lsr|ror|rrx|'' @
              ''ldm(([id][ab])|f[ds])?|ldr((s|ex)?[bhd])?|movt?|mvn|mra|mar|'' @
              ''mul|[us]mull|smul[bwt][bt]|smu[as]d|smmul|smmla|'' @
              ''mla|umlaal|smlal?([wbt][bt]|d)|mls|smlsl?[ds]|smc|svc|sev|'' @
              ''mia([bt]{2}|ph)?|mrr?c2?|mcrr2?|mrs|msr|orr|orn|pkh(tb|bt)|rbit|'' @
              ''rev(16|sh)?|sel|[su]sat(16)?|nop|pop|push|rfe([id][ab])?|'' @
              ''stm([id][ab])?|str(ex)?[bhd]?|(qd?)?sub|(sh?|q|u[qh]?)?sub(8|16)|'' @
              ''[su]xt(a?h|a?b(16)?)|srs([id][ab])?|swpb?|swi|smi|tst|teq|'' @ ''wfe|wfi|yield'' @ '')'' @
              ''(eq|ne|cs|cc|mi|pl|vs|vc|hi|ls|ge|lt|gt|le|al|hs|lo)?'' @ ''[sptrx]?''),
              m_end := Some (bs ''%s'')\<rparr>) h;
          (m2, h) = COMMENT ''[;@]'' ''$'' (no_mode\<lparr>m_relevance := Some 0\<rparr>) h;
          (m3, h) = new (no_mode\<lparr>className := Some ''string'', m_begin := Some [CHR 0x27], m_end := Some (bs ''[^%%]'' @
              [CHR 0x27]), m_relevance := Some 0\<rparr>) h;
          (m4, h) = new (no_mode\<lparr>className := Some ''title'', m_begin := Some (bs ''%|''), m_end := Some (bs ''%|''),
              illegal := Some (bs ''%n''), m_relevance := Some 0\<rparr>) h;
          (m5, h) = new (no_mode\<lparr>m_begin := Some ''[#$=]?0x[0-9a-f]+''\<rparr>) h;
          (m6, h) = new (no_mode\<lparr>m_begin := Some ''[#$=]?0b[01]+''\<rparr>) h;
          (m7, h) = new (no_mode\<lparr>m_begin := Some (bs ''[#$=]%d+'')\<rparr>) h;
          (m8, h) = new (no_mode\<lparr>m_begin := Some (bs ''%b%d+'')\<rparr>) h;
          (m9, h) = new (no_mode\<lparr>className := Some ''number'', variants := Some [m5, m6, m7, m8],
              m_relevance := Some 0\<rparr>) h;
          (m10, h) = new (no_mode\<lparr>m_begin := Some (bs ''^[a-z_%.%$][a-z0-9_%.%$]+'')\<rparr>) h;
          (m11, h) = new (no_mode\<lparr>m_begin := Some (bs ''^%s*[a-z_%.%$][a-z0-9_%.%$]+:'')\<rparr>) h;
          (m12, h) = new (no_mode\<lparr>m_begin := Some (bs ''[=#]%w+'')\<rparr>) h;
          (m13, h) = new (no_mode\<lparr>className := Some ''symbol'', variants := Some [m10, m11, m12],
              m_relevance := Some 0\<rparr>) h;
          (language, h) = new (no_mode\<lparr>case_insensitive := Some True, aliases := Some [''arm''],
              lexemes := Some (bs ''%.?'' @ IDENT_RE), m_keywords := Some (KObj [(''meta'',
              ''.2byte .4byte .align .ascii .asciz .balign .byte .code .data .else .end .endif .endm .endr .equ '' @
              ''.err .exitm .extern .global .hword .if .ifdef .ifndef .include .irp .long .macro .rept .req '' @
              ''.section .set .skip .space .text .word .arm .thumb .code16 .code32 .force_thumb .thumb_func .ltorg '' @
              ''ALIAS ALIGN ARM AREA ASSERT ATTR CN CODE CODE16 CODE32 COMMON CP DATA DCB DCD DCDU DCDO DCFD DCFDU '' @
              ''DCI DCQ DCQU DCW DCWU DN ELIF ELSE END ENDFUNC ENDIF ENDP ENTRY EQU EXPORT EXPORTAS EXTERN FIELD '' @
              ''FILL FUNCTION GBLA GBLL GBLS GET GLOBAL IF IMPORT INCBIN INCLUDE INFO KEEP LCLA LCLL LCLS LTORG '' @
              ''MACRO MAP MEND MEXIT NOFP OPT PRESERVE8 PROC QN READONLY RELOC REQUIRE REQUIRE8 RLIST FN ROUT SETA '' @
              ''SETL SETS SN SPACE SUBT THUMB THUMBX TTL WHILE WEND ''), (''built_in'',
              ''r0 r1 r2 r3 r4 r5 r6 r7 r8 r9 r10 r11 r12 r13 r14 r15 '' @ ''pc lr sp ip sl sb fp '' @
              ''a1 a2 a3 a4 v1 v2 v3 v4 v5 v6 v7 v8 f0 f1 f2 f3 f4 f5 f6 f7 '' @
              ''p0 p1 p2 p3 p4 p5 p6 p7 p8 p9 p10 p11 p12 p13 p14 p15 '' @
              ''c0 c1 c2 c3 c4 c5 c6 c7 c8 c9 c10 c11 c12 c13 c14 c15 '' @
              ''q0 q1 q2 q3 q4 q5 q6 q7 q8 q9 q10 q11 q12 q13 q14 q15 '' @
              ''cpsr_c cpsr_x cpsr_s cpsr_f cpsr_cx cpsr_cxs cpsr_xs cpsr_xsf cpsr_sf cpsr_cxsf '' @
              ''spsr_c spsr_x spsr_s spsr_f spsr_cx spsr_cxs spsr_xs spsr_xsf spsr_sf spsr_cxsf '' @
              ''s0 s1 s2 s3 s4 s5 s6 s7 s8 s9 s10 s11 s12 s13 s14 s15 '' @
              ''s16 s17 s18 s19 s20 s21 s22 s23 s24 s25 s26 s27 s28 s29 s30 s31 '' @
              ''d0 d1 d2 d3 d4 d5 d6 d7 d8 d9 d10 d11 d12 d13 d14 d15 '' @
              ''d16 d17 d18 d19 d20 d21 d22 d23 d24 d25 d26 d27 d28 d29 d30 d31 '' @
              ''{PC} {VAR} {TRUE} {FALSE} {OPT} {CONFIG} {ENDIAN} {CODESIZE} {CPU} {FPU} {ARCHITECTURE} '' @
              ''{PCSTOREOFFSET} {ARMASM_VERSION} {INTER} {ROPI} {RWPI} {SWST} {NOSWST} . @'')]),
              contains := Some [Ref m1, Ref m2, Ref hl_C_BLOCK_COMMENT_MODE, Ref hl_QUOTE_STRING_MODE, Ref m3,
              Ref m4, Ref m9, Ref m13]\<rparr>) h
      in (language, h))"

definition lang_asciidoc :: "mstore \<Rightarrow> nat \<times> mstore" where
  "lang_asciidoc h =
     (let (m1, h) = COMMENT (bs ''^/{4,}%n'') (bs ''%n/{4,}$'') (no_mode\<lparr>m_relevance := Some 10\<rparr>) h;
          (m2, h) = COMMENT ''^//'' ''$'' (no_mode\<lparr>m_relevance := Some 0\<rparr>) h;
          (m3, h) = new (no_mode\<lparr>className := Some ''title'', m_begin := Some (bs ''^%.%w.*$'')\<rparr>) h;
          (m4, h) = new (no_mode\<lparr>m_begin := Some (bs ''^[=%*]{4,}%n''), m_end := Some (bs ''%n^[=%*]{4,}$''),
              m_relevance := Some 10\<rparr>) h;
          (m5, h) = new (no_mode\<lparr>m_begin := Some (bs ''^(={1,5}) .+?( %1)?$'')\<rparr>) h;
          (m6, h) = new (no_mode\<lparr>m_begin := Some (bs ''^[^%[%]%n]+?%n[=%-~%^%+]{2,}$'')\<rparr>) h;
          (m7, h) = new (no_mode\<lparr>className := Some ''section'', m_relevance := Some 10, variants := Some [m5,
              m6]\<rparr>) h;
          (m8, h) = new (no_mode\<lparr>className := Some ''meta'', m_begin := Some ''^:.+?:'', m_end := Some (bs ''%s''),
              excludeEnd := Some True, m_relevance := Some 10\<rparr>) h;
          (m9, h) = new (no_mode\<lparr>className := Some ''meta'', m_begin := Some (bs ''^%[.+?%]$''),
              m_relevance := Some 0\<rparr>) h;
          (m10, h) = new (no_mode\<lparr>className := Some ''quote'', m_begin := Some (bs ''^_{4,}%n''),
              m_end := Some (bs ''%n_{4,}$''), m_relevance := Some 10\<rparr>) h;
          (m11, h) = new (no_mode\<lparr>className := Some ''code'', m_begin := Some (bs ''^[%-%.]{4,}%n''),
              m_end := Some (bs ''%n[%-%.]{4,}$''), m_relevance := Some 10\<rparr>) h;
          (m12, h) = new (no_mode\<lparr>m_begin := Some ''<'', m_end := Some ''>'', subLanguage := Some (SubName ''xml''),
              m_relevance := Some 0\<rparr>) h;
          (m13, h) = new (no_mode\<lparr>m_begin := Some (bs ''^%+{4,}%n''), m_end := Some (bs ''%n%+{4,}$''),
              contains := Some [Ref m12], m_relevance := Some 10\<rparr>) h;
          (m14, h) = new (no_mode\<lparr>className := Some ''bullet'',
              m_begin := Some (bs ''^(%*+|%-+|%.+|[^%n]+?::)%s+'')\<rparr>) h;
          (m15, h) = new (no_mode\<lparr>className := Some ''symbol'',
              m_begin := Some (bs ''^(NOTE|TIP|IMPORTANT|WARNING|CAUTION):%s+''), m_relevance := Some 10\<rparr>) h;
          (m16, h) = new (no_mode\<lparr>m_begin := Some (bs ''%%*%w''), m_relevance := Some 0\<rparr>) h;
          (m17, h) = new (no_mode\<lparr>className := Some ''strong'', m_begin := Some (bs ''%B%*(?![%*%s])''),
              m_end := Some (bs ''(%n{2}|%*'' @ '')''), contains := Some [Ref m16]\<rparr>) h;
          (m18, h) = new (no_mode\<lparr>m_begin := Some (bs ''%%'' @ [CHR 0x27] @ bs ''%w''), m_relevance := Some 0\<rparr>) h;
          (m19, h) = new (no_mode\<lparr>className := Some ''emphasis'', m_begin := Some (bs ''%B'' @ [CHR 0x27] @ ''(?!['' @
              [CHR 0x27] @ bs ''%s])''), m_end := Some (bs ''(%n{2}|'' @ [CHR 0x27] @ '')''),
              contains := Some [Ref m18], m_relevance := Some 0\<rparr>) h;
          (m20, h) = new (no_mode\<lparr>className := Some ''emphasis'', m_begin := Some (bs ''_(?![_%s])''),
              m_end := Some (bs ''(%n{2}|_)''), m_relevance := Some 0\<rparr>) h;
          (m21, h) = new (no_mode\<lparr>m_begin := Some ([CHR 0x60, CHR 0x60] @ ''.+?'' @ [CHR 0x27, CHR 0x27])\<rparr>) h;
          (m22, h) = new (no_mode\<lparr>m_begin := Some ([CHR 0x60] @ ''.+?'' @ [CHR 0x27])\<rparr>) h;
          (m23, h) = new (no_mode\<lparr>className := Some ''string'', variants := Some [m21, m22]\<rparr>) h;
          (m24, h) = new (no_mode\<lparr>className := Some ''code'', m_begin := Some (''('' @ [CHR 0x60] @ ''.+?'' @
              [CHR 0x60] @ bs ''|%+.+?%+)''), m_relevance := Some 0\<rparr>) h;
          (m25, h) = new (no_mode\<lparr>className := Some ''code'', m_begin := Some (bs ''^[ %t]''), m_end := Some ''$'',
              m_relevance := Some 0\<rparr>) h;
          (m26, h) = new (no_mode\<lparr>m_begin := Some (''^'' @ [CHR 0x27] @ bs ''{3,}[ %t]*$''),
              m_relevance := Some 10\<rparr>) h;
          (m27, h) = new (no_mode\<lparr>m_begin := Some ''(link|image:?):'', m_relevance := Some 0\<rparr>) h;
          (m28, h) = new (no_mode\<lparr>className := Some ''link'', m_begin := Some (bs ''%w''),
              m_end := Some (bs ''[^%[]+''), m_relevance := Some 0\<rparr>) h;
          (m29, h) = new (no_mode\<lparr>className := Some ''string'', m_begin := Some (bs ''%[''), m_end := Some (bs ''%]''),
              excludeBegin := Some True, excludeEnd := Some True, m_relevance := Some 0\<rparr>) h;
          (m30, h) = new (no_mode\<lparr>m_begin := Some (bs ''(link:)?(http|https|ftp|file|irc|image:?):%S+%[.*?%]''),
              returnBegin := Some True, contains := Some [Ref m27, Ref m28, Ref m29],
              m_relevance := Some 10\<rparr>) h;
          (language, h) = new (no_mode\<lparr>aliases := Some [''adoc''], contains := Some [Ref m1, Ref m2, Ref m3, Ref m4,
              Ref m7, Ref m8, Ref m9, Ref m10, Ref m11, Ref m13, Ref m14, Ref m15, Ref m17, Ref m19, Ref m20,
              Ref m23, Ref m24, Ref m25, Ref m26, Ref m30]\<rparr>) h
      in (language, h))"

definition lang_aspectj :: "mstore \<Rightarrow> nat \<times> mstore" where
  "lang_aspectj h =
     (let KEYWORDS = ''false synchronized int abstract float private char boolean static null if const '' @
              ''for true while long throw strictfp finally protected import native final return void '' @
              ''enum else extends implements break transient new catch instanceof byte super volatile case '' @
              ''assert short package default double public try this switch continue throws privileged '' @
              ''aspectOf adviceexecution proceed cflowbelow cflow initialization preinitialization '' @
              ''staticinitialization withincode target within execution getWithinTypeName handler '' @
              ''thisJoinPoint thisJoinPointStaticPart thisEnclosingJoinPointStaticPart declare parents '' @
              ''warning error soft precedence thisAspectInstance'';
          SHORTKEYS = ''get set args call'';
          (m1, h) = new (no_mode\<lparr>m_begin := Some (bs ''%w+@''), m_relevance := Some 0\<rparr>) h;
          (m2, h) = new (no_mode\<lparr>className := Some ''doctag'', m_begin := Some ''@[A-Za-z]+''\<rparr>) h;
          (m3, h) = COMMENT (bs ''/%*%*'') (bs ''%*/'') (no_mode\<lparr>m_relevance := Some 0, contains := Some [Ref m1,
              Ref m2]\<rparr>) h;
          (m4,
              h) = new (no_mode\<lparr>beginKeywords := Some ''extends implements pertypewithin perthis pertarget percflowbelow percflow issingleton''\<rparr>) h;
          (m5, h) = new (no_mode\<lparr>m_begin := Some (bs ''%([^%)]*''), m_end := Some ''[)]+'',
              m_keywords := Some (KStr (KEYWORDS @ '' '' @ SHORTKEYS)), excludeEnd := Some False\<rparr>) h;
          (m6, h) = new (no_mode\<lparr>className := Some ''class'', beginKeywords := Some ''aspect'', m_end := Some ''[{;=]'',
              excludeEnd := Some True, illegal := Some (''[:;'' @ [CHR 0x22] @ bs ''%[%]'' @ '']''),
              contains := Some [Ref m4, Ref hl_UNDERSCORE_TITLE_MODE, Ref m5]\<rparr>) h;
          (m7, h) = new (no_mode\<lparr>beginKeywords := Some ''extends implements''\<rparr>) h;
          (m8, h) = new (no_mode\<lparr>className := Some ''class'', beginKeywords := Some ''class interface'',
              m_end := Some ''[{;=]'', excludeEnd := Some True, m_relevance := Some 0,
              m_keywords := Some (KStr ''class interface''), illegal := Some (''[:'' @ [CHR 0x22] @ bs ''%[%]'' @
              '']''), contains := Some [Ref m7, Ref hl_UNDERSCORE_TITLE_MODE]\<rparr>) h;
          (m9, h) = new (no_mode\<lparr>m_begin := Some (UNDERSCORE_IDENT_RE @ bs ''%s*%(''), returnBegin := Some True,
              contains := Some [Ref hl_UNDERSCORE_TITLE_MODE]\<rparr>) h;
          (m10, h) = new (no_mode\<lparr>beginKeywords := Some ''pointcut after before around throwing returning'',
              m_end := Some ''[)]'', excludeEnd := Some False, illegal := Some (''['' @ [CHR 0x22] @ bs ''%[%]'' @
              '']''), contains := Some [Ref m9]\<rparr>) h;
          (m11, h) = new (no_mode\<lparr>m_begin := Some (UNDERSCORE_IDENT_RE @ bs ''%s*%(''),
              m_keywords := Some (KStr (KEYWORDS @ '' '' @ SHORTKEYS)), m_relevance := Some 0\<rparr>) h;
          (m12, h) = new (no_mode\<lparr>m_begin := Some ''[:]'', returnBegin := Some True, m_end := Some ''[{;]'',
              m_relevance := Some 0, excludeEnd := Some False, m_keywords := Some (KStr KEYWORDS),
              illegal := Some (''['' @ [CHR 0x22] @ bs ''%[%]'' @ '']''), contains := Some [Ref m11,
              Ref hl_QUOTE_STRING_MODE]\<rparr>) h;
          (m13, h) = new (no_mode\<lparr>beginKeywords := Some ''new throw'', m_relevance := Some 0\<rparr>) h;
          (m14, h) = new (no_mode\<lparr>m_begin := Some (UNDERSCORE_IDENT_RE @ bs ''%s*%(''), returnBegin := Some True,
              m_relevance := Some 0, contains := Some [Ref hl_UNDERSCORE_TITLE_MODE]\<rparr>) h;
          (m15, h) = new (no_mode\<lparr>className := Some ''params'', m_begin := Some (bs ''%(''), m_end := Some (bs ''%)''),
              m_relevance := Some 0, m_keywords := Some (KStr KEYWORDS), contains := Some [Ref hl_APOS_STRING_MODE,
              Ref hl_QUOTE_STRING_MODE, Ref hl_C_NUMBER_MODE, Ref hl_C_BLOCK_COMMENT_MODE]\<rparr>) h;
          (m16, h) = new (no_mode\<lparr>className := Some ''function'',
              m_begin := Some (bs ''%w+ +%w+(%.)?%w+%s*%([^%)]*%)%s*((throws)[%w%s,]+)?[%{;]''),
              returnBegin := Some True, m_end := Some ''[{;=]'', m_keywords := Some (KStr KEYWORDS),
              excludeEnd := Some True, contains := Some [Ref m14, Ref m15, Ref hl_C_LINE_COMMENT_MODE,
              Ref hl_C_BLOCK_COMMENT_MODE]\<rparr>) h;
          (m17, h) = new (no_mode\<lparr>className := Some ''meta'', m_begin := Some ''@[A-Za-z]+''\<rparr>) h;
          (language, h) = new (no_mode\<lparr>m_keywords := Some (KStr KEYWORDS), illegal := Some (bs ''<%/|#''),
              contains := Some [Ref m3, Ref hl_C_LINE_COMMENT_MODE, Ref hl_C_BLOCK_COMMENT_MODE,
              Ref hl_APOS_STRING_MODE, Ref hl_QUOTE_STRING_MODE, Ref m6, Ref m8, Ref m10, Ref m12, Ref m13, Ref m16,
              Ref hl_C_NUMBER_MODE, Ref m17]\<rparr>) h
      in (language, h))"

definition lang_autohotkey :: "mstore \<Rightarrow> nat \<times> mstore" where
  "lang_autohotkey h =
     (let (BACKTICK_ESCAPE, h) = new (no_mode\<lparr>m_begin := Some ([CHR 0x60] @ bs ''[%s%S]'')\<rparr>) h;
          (m1,
              h) = new (inherit_mode (mode_at h hl_QUOTE_STRING_MODE) [(no_mode\<lparr>contains := Some [Ref BACKTICK_ESCAPE]\<rparr>)]) h;
          (m2, h) = COMMENT '';'' ''$'' (no_mode\<lparr>m_relevance := Some 0\<rparr>) h;
          (m3, h) = new (no_mode\<lparr>className := Some ''number'', m_begin := Some NUMBER_RE, m_relevance := Some 0\<rparr>) h;
          (m4, h) = new (no_mode\<lparr>className := Some ''variable'', m_begin := Some ''%[a-zA-Z0-9#_$@]+%''\<rparr>) h;
          (m5, h) = new (no_mode\<lparr>className := Some ''built_in'', m_begin := Some (bs ''^%s*%w+%s*(,|'' @ ''%'' @
              '')'')\<rparr>) h;
          (m6, h) = new (no_mode\<lparr>m_begin := Some (bs ''^[^%n'' @ [CHR 0x22] @ '';]+::(?!=)'')\<rparr>) h;
          (m7, h) = new (no_mode\<lparr>m_begin := Some (bs ''^[^%n'' @ [CHR 0x22] @ '';]+:(?!=)''),
              m_relevance := Some 0\<rparr>) h;
          (m8, h) = new (no_mode\<lparr>className := Some ''title'', variants := Some [m6, m7]\<rparr>) h;
          (m9, h) = new (no_mode\<lparr>className := Some ''meta'', m_begin := Some (bs ''^%s*#%w+''), m_end := Some ''$'',
              m_relevance := Some 0\<rparr>) h;
          (m10, h) = new (no_mode\<lparr>className := Some ''built_in'', m_begin := Some ''A_[a-zA-Z0-9]+''\<rparr>) h;
          (m11, h) = new (no_mode\<lparr>m_begin := Some (bs '',%s*,'')\<rparr>) h;
          (language, h) = new (no_mode\<lparr>case_insensitive := Some True, aliases := Some [''ahk''],
              m_keywords := Some (KObj [(''keyword'',
              ''Break Continue Critical Exit ExitApp Gosub Goto New OnExit Pause return SetBatchLines SetTimer '' @
              ''Suspend Thread Throw Until ahk_id ahk_class ahk_pid ahk_exe ahk_group''), (''literal'',
              ''true false NOT AND OR''), (''built_in'', ''ComSpec Clipboard ClipboardAll ErrorLevel'')]),
              contains := Some [Ref BACKTICK_ESCAPE, Ref m1, Ref m2, Ref hl_C_BLOCK_COMMENT_MODE, Ref m3, Ref m4,
              Ref m5, Ref m8, Ref m9, Ref m10, Ref m11]\<rparr>) h
      in (language, h))"

definition lang_autoit :: "mstore \<Rightarrow> nat \<times> mstore" where
  "lang_autoit h =
     (let KEYWORDS = ''ByRef Case Const ContinueCase ContinueLoop '' @
              ''Default Dim Do Else ElseIf EndFunc EndIf EndSelect '' @
              ''EndSwitch EndWith Enum Exit ExitLoop For Func '' @
              ''Global If In Local Next ReDim Return Select Static '' @
              ''Step Switch Then To Until Volatile WEnd While With'';
          LITERAL = ''True False And Null Not Or'';
          BUILT_IN = ''Abs ACos AdlibRegister AdlibUnRegister Asc AscW ASin Assign ATan AutoItSetOption AutoItWinGetTitle '' @
              ''AutoItWinSetTitle Beep Binary BinaryLen BinaryMid BinaryToString BitAND BitNOT BitOR BitRotate '' @
              ''BitShift BitXOR BlockInput Break Call CDTray Ceiling Chr ChrW ClipGet ClipPut ConsoleRead '' @
              ''ConsoleWrite ConsoleWriteError ControlClick ControlCommand ControlDisable ControlEnable '' @
              ''ControlFocus ControlGetFocus ControlGetHandle ControlGetPos ControlGetText ControlHide '' @
              ''ControlListView ControlMove ControlSend ControlSetText ControlShow ControlTreeView Cos Dec DirCopy '' @
              ''DirCreate DirGetSize DirMove DirRemove DllCall DllCallAddress DllCallbackFree DllCallbackGetPtr '' @
              ''DllCallbackRegister DllClose DllOpen DllStructCreate DllStructGetData DllStructGetPtr '' @
              ''DllStructGetSize DllStructSetData DriveGetDrive DriveGetFileSystem DriveGetLabel DriveGetSerial '' @
              ''DriveGetType DriveMapAdd DriveMapDel DriveMapGet DriveSetLabel DriveSpaceFree DriveSpaceTotal '' @
              ''DriveStatus EnvGet EnvSet EnvUpdate Eval Execute Exp FileChangeDir FileClose FileCopy '' @
              ''FileCreateNTFSLink FileCreateShortcut FileDelete FileExists FileFindFirstFile FileFindNextFile '' @
              ''FileFlush FileGetAttrib FileGetEncoding FileGetLongName FileGetPos FileGetShortcut FileGetShortName '' @
              ''FileGetSize FileGetTime FileGetVersion FileInstall FileMove FileOpen FileOpenDialog FileRead '' @
              ''FileReadLine FileReadToArray FileRecycle FileRecycleEmpty FileSaveDialog FileSelectFolder '' @
              ''FileSetAttrib FileSetEnd FileSetPos FileSetTime FileWrite FileWriteLine Floor FtpSetProxy FuncName '' @
              ''GUICreate GUICtrlCreateAvi GUICtrlCreateButton GUICtrlCreateCheckbox GUICtrlCreateCombo '' @
              ''GUICtrlCreateContextMenu GUICtrlCreateDate GUICtrlCreateDummy GUICtrlCreateEdit '' @
              ''GUICtrlCreateGraphic GUICtrlCreateGroup GUICtrlCreateIcon GUICtrlCreateInput GUICtrlCreateLabel '' @
              ''GUICtrlCreateList GUICtrlCreateListView GUICtrlCreateListViewItem GUICtrlCreateMenu '' @
              ''GUICtrlCreateMenuItem GUICtrlCreateMonthCal GUICtrlCreateObj GUICtrlCreatePic GUICtrlCreateProgress '' @
              ''GUICtrlCreateRadio GUICtrlCreateSlider GUICtrlCreateTab GUICtrlCreateTabItem GUICtrlCreateTreeView '' @
              ''GUICtrlCreateTreeViewItem GUICtrlCreateUpdown GUICtrlDelete GUICtrlGetHandle GUICtrlGetState '' @
              ''GUICtrlRead GUICtrlRecvMsg GUICtrlRegisterListViewSort GUICtrlSendMsg GUICtrlSendToDummy '' @
              ''GUICtrlSetBkColor GUICtrlSetColor GUICtrlSetCursor GUICtrlSetData GUICtrlSetDefBkColor '' @
              ''GUICtrlSetDefColor GUICtrlSetFont GUICtrlSetGraphic GUICtrlSetImage GUICtrlSetLimit '' @
              ''GUICtrlSetOnEvent GUICtrlSetPos GUICtrlSetResizing GUICtrlSetState GUICtrlSetStyle GUICtrlSetTip '' @
              ''GUIDelete GUIGetCursorInfo GUIGetMsg GUIGetStyle GUIRegisterMsg GUISetAccelerators GUISetBkColor '' @
              ''GUISetCoord GUISetCursor GUISetFont GUISetHelp GUISetIcon GUISetOnEvent GUISetState GUISetStyle '' @
              ''GUIStartGroup GUISwitch Hex HotKeySet HttpSetProxy HttpSetUserAgent HWnd InetClose InetGet '' @
              ''InetGetInfo InetGetSize InetRead IniDelete IniRead IniReadSection IniReadSectionNames '' @
              ''IniRenameSection IniWrite IniWriteSection InputBox Int IsAdmin IsArray IsBinary IsBool IsDeclared '' @
              ''IsDllStruct IsFloat IsFunc IsHWnd IsInt IsKeyword IsNumber IsObj IsPtr IsString Log MemGetStats Mod '' @
              ''MouseClick MouseClickDrag MouseDown MouseGetCursor MouseGetPos MouseMove MouseUp MouseWheel MsgBox '' @
              ''Number ObjCreate ObjCreateInterface ObjEvent ObjGet ObjName OnAutoItExitRegister '' @
              ''OnAutoItExitUnRegister Ping PixelChecksum PixelGetColor PixelSearch ProcessClose ProcessExists '' @
              ''ProcessGetStats ProcessList ProcessSetPriority ProcessWait ProcessWaitClose ProgressOff ProgressOn '' @
              ''ProgressSet Ptr Random RegDelete RegEnumKey RegEnumVal RegRead RegWrite Round Run RunAs RunAsWait '' @
              ''RunWait Send SendKeepActive SetError SetExtended ShellExecute ShellExecuteWait Shutdown Sin Sleep '' @
              ''SoundPlay SoundSetWaveVolume SplashImageOn SplashOff SplashTextOn Sqrt SRandom StatusbarGetText '' @
              ''StderrRead StdinWrite StdioClose StdoutRead String StringAddCR StringCompare StringFormat '' @
              ''StringFromASCIIArray StringInStr StringIsAlNum StringIsAlpha StringIsASCII StringIsDigit '' @
              ''StringIsFloat StringIsInt StringIsLower StringIsSpace StringIsUpper StringIsXDigit StringLeft '' @
              ''StringLen StringLower StringMid StringRegExp StringRegExpReplace StringReplace StringReverse '' @
              ''StringRight StringSplit StringStripCR StringStripWS StringToASCIIArray StringToBinary '' @
              ''StringTrimLeft StringTrimRight StringUpper Tan TCPAccept TCPCloseSocket TCPConnect TCPListen '' @
              ''TCPNameToIP TCPRecv TCPSend TCPShutdown, UDPShutdown TCPStartup, UDPStartup TimerDiff TimerInit '' @
              ''ToolTip TrayCreateItem TrayCreateMenu TrayGetMsg TrayItemDelete TrayItemGetHandle TrayItemGetState '' @
              ''TrayItemGetText TrayItemSetOnEvent TrayItemSetState TrayItemSetText TraySetClick TraySetIcon '' @
              ''TraySetOnEvent TraySetPauseIcon TraySetState TraySetToolTip TrayTip UBound UDPBind UDPCloseSocket '' @
              ''UDPOpen UDPRecv UDPSend VarGetType WinActivate WinActive WinClose WinExists WinFlash WinGetCaretPos '' @
              ''WinGetClassList WinGetClientSize WinGetHandle WinGetPos WinGetProcess WinGetState WinGetText '' @
              ''WinGetTitle WinKill WinList WinMenuSelectItem WinMinimizeAll WinMinimizeAllUndo WinMove WinSetOnTop '' @
              ''WinSetState WinSetTitle WinSetTrans WinWait'';
          (m1, h) = COMMENT '';'' ''$'' (no_mode\<lparr>m_relevance := Some 0\<rparr>) h;
          (m2, h) = COMMENT ''#cs'' ''#ce'' no_mode h;
          (m3, h) = COMMENT ''#comments-start'' ''#comments-end'' no_mode h;
          (COMMENT', h) = new (no_mode\<lparr>variants := Some [m1, m2, m3]\<rparr>) h;
          (VARIABLE, h) = new (no_mode\<lparr>m_begin := Some (bs ''%$[A-z0-9_]+'')\<rparr>) h;
          (m4, h) = new (no_mode\<lparr>m_begin := Some [CHR 0x22, CHR 0x22], m_relevance := Some 0\<rparr>) h;
          (m5, h) = new (no_mode\<lparr>m_begin := Some [CHR 0x22], m_end := Some [CHR 0x22], contains := Some [Ref m4]\<rparr>) h;
          (m6, h) = new (no_mode\<lparr>m_begin := Some [CHR 0x27, CHR 0x27], m_relevance := Some 0\<rparr>) h;
          (m7, h) = new (no_mode\<lparr>m_begin := Some [CHR 0x27], m_end := Some [CHR 0x27], contains := Some [Ref m6]\<rparr>) h;
          (STRING, h) = new (no_mode\<lparr>className := Some ''string'', variants := Some [m5, m7]\<rparr>) h;
          (NUMBER, h) = new (no_mode\<lparr>variants := Some [hl_BINARY_NUMBER_MODE, hl_C_NUMBER_MODE]\<rparr>) h;
          (m8, h) = new (no_mode\<lparr>m_begin := Some (bs ''%%%n''), m_relevance := Some 0\<rparr>) h;
          (m9, h) = new (no_mode\<lparr>m_begin := Some ''<'', m_end := Some ''>''\<rparr>) h;
          (m10, h) = new (no_mode\<lparr>m_begin := Some [CHR 0x22, CHR 0x22], m_relevance := Some 0\<rparr>) h;
          (m11, h) = new (no_mode\<lparr>m_begin := Some [CHR 0x22], m_end := Some [CHR 0x22],
              contains := Some [Ref m10]\<rparr>) h;
          (m12, h) = new (no_mode\<lparr>m_begin := Some [CHR 0x27, CHR 0x27], m_relevance := Some 0\<rparr>) h;
          (m13, h) = new (no_mode\<lparr>m_begin := Some [CHR 0x27], m_end := Some [CHR 0x27],
              contains := Some [Ref m12]\<rparr>) h;
          (m14, h) = new (no_mode\<lparr>className := Some ''meta-string'', variants := Some [m9, m11, m13]\<rparr>) h;
          (m15, h) = new (no_mode\<lparr>beginKeywords := Some ''include'', m_keywords := Some (KObj [(''meta-keyword'',
              ''include'')]), m_end := Some ''$'', contains := Some [Ref STRING, Ref m14]\<rparr>) h;
          (PREPROCESSOR, h) = new (no_mode\<lparr>className := Some ''meta'', m_begin := Some ''#'', m_end := Some ''$'',
              m_keywords := Some (KObj [(''meta-keyword'',
              ''comments include include-once NoTrayIcon OnAutoItStartRegister pragma compile RequireAdmin'')]),
              contains := Some [Ref m8, Ref m15, Ref STRING, Ref COMMENT']\<rparr>) h;
          (CONSTANT, h) = new (no_mode\<lparr>className := Some ''symbol'', m_begin := Some ''@[A-z0-9_]+''\<rparr>) h;
          (m16, h) = new (no_mode\<lparr>className := Some ''params'', m_begin := Some (bs ''%(''), m_end := Some (bs ''%)''),
              contains := Some [Ref VARIABLE, Ref STRING, Ref NUMBER]\<rparr>) h;
          (FUNCTION, h) = new (no_mode\<lparr>className := Some ''function'', beginKeywords := Some ''Func'',
              m_end := Some ''$'', illegal := Some (bs ''%$|%[|'' @ ''%''),
              contains := Some [Ref hl_UNDERSCORE_TITLE_MODE, Ref m16]\<rparr>) h;
          (language, h) = new (no_mode\<lparr>case_insensitive := Some True, illegal := Some (bs ''%/%*''),
              m_keywords := Some (KObj [(''keyword'', KEYWORDS), (''built_in'', BUILT_IN), (''literal'', LITERAL)]),
              contains := Some [Ref COMMENT', Ref VARIABLE, Ref STRING, Ref NUMBER, Ref PREPROCESSOR, Ref CONSTANT,
              Ref FUNCTION]\<rparr>) h
      in (language, h))"

definition lang_avrasm :: "mstore \<Rightarrow> nat \<times> mstore" where
  "lang_avrasm h =
     (let (m1, h) = COMMENT '';'' ''$'' (no_mode\<lparr>m_relevance := Some 0\<rparr>) h;
          (m2, h) = new (no_mode\<lparr>className := Some ''number'',
              m_begin := Some (bs ''%b(%$[a-zA-Z0-9]+|0o[0-7]+)'')\<rparr>) h;
          (m3, h) = new (no_mode\<lparr>className := Some ''string'', m_begin := Some [CHR 0x27], m_end := Some (bs ''[^%%]'' @
              [CHR 0x27]), illegal := Some (bs ''[^%%][^'' @ [CHR 0x27] @ '']'')\<rparr>) h;
          (m4, h) = new (no_mode\<lparr>className := Some ''symbol'', m_begin := Some ''^[A-Za-z0-9_.$]+:''\<rparr>) h;
          (m5, h) = new (no_mode\<lparr>className := Some ''meta'', m_begin := Some ''#'', m_end := Some ''$''\<rparr>) h;
          (m6, h) = new (no_mode\<lparr>className := Some ''subst'', m_begin := Some ''@[0-9]+''\<rparr>) h;
          (language, h) = new (no_mode\<lparr>case_insensitive := Some True, lexemes := Some (bs ''%.?'' @ IDENT_RE),
              m_keywords := Some (KObj [(''keyword'',
              ''adc add adiw and andi asr bclr bld brbc brbs brcc brcs break breq brge brhc brhs '' @
              ''brid brie brlo brlt brmi brne brpl brsh brtc brts brvc brvs bset bst call cbi cbr '' @
              ''clc clh cli cln clr cls clt clv clz com cp cpc cpi cpse dec eicall eijmp elpm eor '' @
              ''fmul fmuls fmulsu icall ijmp in inc jmp ld ldd ldi lds lpm lsl lsr mov movw mul '' @
              ''muls mulsu neg nop or ori out pop push rcall ret reti rjmp rol ror sbc sbr sbrc sbrs '' @
              ''sec seh sbi sbci sbic sbis sbiw sei sen ser ses set sev sez sleep spm st std sts sub '' @
              ''subi swap tst wdr''), (''built_in'',
              ''r0 r1 r2 r3 r4 r5 r6 r7 r8 r9 r10 r11 r12 r13 r14 r15 r16 r17 r18 r19 r20 r21 r22 '' @
              ''r23 r24 r25 r26 r27 r28 r29 r30 r31 x|0 xh xl y|0 yh yl z|0 zh zl '' @
              ''ucsr1c udr1 ucsr1a ucsr1b ubrr1l ubrr1h ucsr0c ubrr0h tccr3c tccr3a tccr3b tcnt3h '' @
              ''tcnt3l ocr3ah ocr3al ocr3bh ocr3bl ocr3ch ocr3cl icr3h icr3l etimsk etifr tccr1c '' @
              ''ocr1ch ocr1cl twcr twdr twar twsr twbr osccal xmcra xmcrb eicra spmcsr spmcr portg '' @
              ''ddrg ping portf ddrf sreg sph spl xdiv rampz eicrb eimsk gimsk gicr eifr gifr timsk '' @
              ''tifr mcucr mcucsr tccr0 tcnt0 ocr0 assr tccr1a tccr1b tcnt1h tcnt1l ocr1ah ocr1al '' @
              ''ocr1bh ocr1bl icr1h icr1l tccr2 tcnt2 ocr2 ocdr wdtcr sfior eearh eearl eedr eecr '' @
              ''porta ddra pina portb ddrb pinb portc ddrc pinc portd ddrd pind spdr spsr spcr udr0 '' @
              ''ucsr0a ucsr0b ubrr0l acsr admux adcsr adch adcl porte ddre pine pinf''), (''meta'',
              ''.byte .cseg .db .def .device .dseg .dw .endmacro .equ .eseg .exit .include .list '' @
              ''.listmac .macro .nolist .org .set'')]), contains := Some [Ref hl_C_BLOCK_COMMENT_MODE, Ref m1,
              Ref hl_C_NUMBER_MODE, Ref hl_BINARY_NUMBER_MODE, Ref m2, Ref hl_QUOTE_STRING_MODE, Ref m3, Ref m4,
              Ref m5, Ref m6]\<rparr>) h
      in (language, h))"

definition lang_awk :: "mstore \<Rightarrow> nat \<times> mstore" where
  "lang_awk h =
     (let (m1, h) = new (no_mode\<lparr>m_begin := Some (bs ''%$[%w%d#@][%w%d_]*'')\<rparr>) h;
          (m2, h) = new (no_mode\<lparr>m_begin := Some (bs ''%$%{(.*?)}'')\<rparr>) h;
          (VARIABLE, h) = new (no_mode\<lparr>className := Some ''variable'', variants := Some [m1, m2]\<rparr>) h;
          KEYWORDS = ''BEGIN END if else while do for in break continue delete next nextfile function func exit|10'';
          (m3, h) = new (no_mode\<lparr>m_begin := Some (''(u|b)?r?'' @ [CHR 0x27, CHR 0x27, CHR 0x27]),
              m_end := Some [CHR 0x27, CHR 0x27, CHR 0x27], m_relevance := Some 10\<rparr>) h;
          (m4, h) = new (no_mode\<lparr>m_begin := Some (''(u|b)?r?'' @ [CHR 0x22, CHR 0x22, CHR 0x22]),
              m_end := Some [CHR 0x22, CHR 0x22, CHR 0x22], m_relevance := Some 10\<rparr>) h;
          (m5, h) = new (no_mode\<lparr>m_begin := Some (''(u|r|ur)'' @ [CHR 0x27]), m_end := Some [CHR 0x27],
              m_relevance := Some 10\<rparr>) h;
          (m6, h) = new (no_mode\<lparr>m_begin := Some (''(u|r|ur)'' @ [CHR 0x22]), m_end := Some [CHR 0x22],
              m_relevance := Some 10\<rparr>) h;
          (m7, h) = new (no_mode\<lparr>m_begin := Some (''(b|br)'' @ [CHR 0x27]), m_end := Some [CHR 0x27]\<rparr>) h;
          (m8, h) = new (no_mode\<lparr>m_begin := Some (''(b|br)'' @ [CHR 0x22]), m_end := Some [CHR 0x22]\<rparr>) h;
          (STRING, h) = new (no_mode\<lparr>className := Some ''string'', contains := Some [Ref hl_BACKSLASH_ESCAPE],
              variants := Some [m3, m4, m5, m6, m7, m8, hl_APOS_STRING_MODE, hl_QUOTE_STRING_MODE]\<rparr>) h;
          (language, h) = new (no_mode\<lparr>m_keywords := Some (KObj [(''keyword'', KEYWORDS)]),
              contains := Some [Ref VARIABLE, Ref STRING, Ref hl_REGEXP_MODE, Ref hl_HASH_COMMENT_MODE,
              Ref hl_NUMBER_MODE]\<rparr>) h
      in (language, h))"

definition lang_axapta :: "mstore \<Rightarrow> nat \<times> mstore" where
  "lang_axapta h =
     (let (m1, h) = new (no_mode\<lparr>className := Some ''meta'', m_begin := Some ''#'', m_end := Some ''$''\<rparr>) h;
          (m2, h) = new (no_mode\<lparr>beginKeywords := Some ''extends implements''\<rparr>) h;
          (m3, h) = new (no_mode\<lparr>className := Some ''class'', beginKeywords := Some ''class interface'',
              m_end := Some ''{'', excludeEnd := Some True, illegal := Some '':'', contains := Some [Ref m2,
              Ref hl_UNDERSCORE_TITLE_MODE]\<rparr>) h;
          (language,
              h) = new (no_mode\<lparr>m_keywords := Some (KStr (''false int abstract private char boolean static null if for true '' @
              ''while long throw finally protected final return void enum else '' @
              ''break new catch byte super case short default double public try this switch '' @
              ''continue reverse firstfast firstonly forupdate nofetch sum avg minof maxof count '' @
              ''order group by asc desc index hint like dispaly edit client server ttsbegin '' @
              ''ttscommit str real date container anytype common div mod'')),
              contains := Some [Ref hl_C_LINE_COMMENT_MODE, Ref hl_C_BLOCK_COMMENT_MODE, Ref hl_APOS_STRING_MODE,
              Ref hl_QUOTE_STRING_MODE, Ref hl_C_NUMBER_MODE, Ref m1, Ref m3]\<rparr>) h
      in (language, h))"

definition lang_bash :: "mstore \<Rightarrow> nat \<times> mstore" where
  "lang_bash h =
     (let (m1, h) = new (no_mode\<lparr>m_begin := Some (bs ''%$[%w%d#@][%w%d_]*'')\<rparr>) h;
          (m2, h) = new (no_mode\<lparr>m_begin := Some (bs ''%$%{(.*?)}'')\<rparr>) h;
          (VAR, h) = new (no_mode\<lparr>className := Some ''variable'', variants := Some [m1, m2]\<rparr>) h;
          (m3, h) = new (no_mode\<lparr>className := Some ''variable'', m_begin := Some (bs ''%$%(''),
              m_end := Some (bs ''%)''), contains := Some [Ref hl_BACKSLASH_ESCAPE]\<rparr>) h;
          (QUOTE_STRING, h) = new (no_mode\<lparr>className := Some ''string'', m_begin := Some [CHR 0x22],
              m_end := Some [CHR 0x22], contains := Some [Ref hl_BACKSLASH_ESCAPE, Ref VAR, Ref m3]\<rparr>) h;
          (ESCAPED_QUOTE, h) = new (no_mode\<lparr>className := Some [], m_begin := Some (bs ''%%'' @ [CHR 0x22])\<rparr>) h;
          (APOS_STRING, h) = new (no_mode\<lparr>className := Some ''string'', m_begin := Some [CHR 0x27],
              m_end := Some [CHR 0x27]\<rparr>) h;
          (m4, h) = new (no_mode\<lparr>className := Some ''meta'', m_begin := Some (bs ''^#![^%n]+sh%s*$''),
              m_relevance := Some 10\<rparr>) h;
          (m5, h) = new (inherit_mode (mode_at h hl_TITLE_MODE) [(no_mode\<lparr>m_begin := Some (bs ''%w[%w%d_]*'')\<rparr>)]) h;
          (m6, h) = new (no_mode\<lparr>className := Some ''function'', m_begin := Some (bs ''%w[%w%d_]*%s*%(%s*%)%s*%{''),
              returnBegin := Some True, contains := Some [Ref m5], m_relevance := Some 0\<rparr>) h;
          (language, h) = new (no_mode\<lparr>aliases := Some [''sh'', ''zsh''], lexemes := Some (bs ''%b-?[a-z%._]+%b''),
              m_keywords := Some (KObj [(''keyword'',
              ''if then else elif fi for while in do done case esac function''), (''literal'', ''true false''),
              (''built_in'',
              ''break cd continue eval exec exit export getopts hash pwd readonly return shift test times '' @
              ''trap umask unset '' @
              ''alias bind builtin caller command declare echo enable help let local logout mapfile printf '' @
              ''read readarray source type typeset ulimit unalias '' @ ''set shopt '' @
              ''autoload bg bindkey bye cap chdir clone comparguments compcall compctl compdescribe compfiles '' @
              ''compgroups compquote comptags comptry compvalues dirs disable disown echotc echoti emulate '' @
              ''fc fg float functions getcap getln history integer jobs kill limit log noglob popd print '' @
              ''pushd pushln rehash sched setcap setopt stat suspend ttyctl unfunction unhash unlimit '' @
              ''unsetopt vared wait whence where which zcompile zformat zftp zle zmodload zparseopts zprof '' @
              ''zpty zregexparse zsocket zstyle ztcp''), (''_'', ''-ne -eq -lt -gt -f -d -e -s -l -a'')]),
              contains := Some [Ref m4, Ref m6, Ref hl_HASH_COMMENT_MODE, Ref QUOTE_STRING, Ref ESCAPED_QUOTE,
              Ref APOS_STRING, Ref VAR]\<rparr>) h
      in (language, h))"

definition lang_basic :: "mstore \<Rightarrow> nat \<times> mstore" where
  "lang_basic h =
     (let (m1, h) = COMMENT ''REM'' ''$'' (no_mode\<lparr>m_relevance := Some 10\<rparr>) h;
          (m2, h) = COMMENT [CHR 0x27] ''$'' (no_mode\<lparr>m_relevance := Some 0\<rparr>) h;
          (m3, h) = new (no_mode\<lparr>className := Some ''symbol'', m_begin := Some ''^[0-9]+ '',
              m_relevance := Some 10\<rparr>) h;
          (m4, h) = new (no_mode\<lparr>className := Some ''number'', m_begin := Some (bs ''%b([0-9]+[0-9edED.]*[#!]?)''),
              m_relevance := Some 0\<rparr>) h;
          (m5, h) = new (no_mode\<lparr>className := Some ''number'', m_begin := Some ''(&[hH][0-9a-fA-F]{1,4})''\<rparr>) h;
          (m6, h) = new (no_mode\<lparr>className := Some ''number'', m_begin := Some ''(&[oO][0-7]{1,6})''\<rparr>) h;
          (language, h) = new (no_mode\<lparr>case_insensitive := Some True, illegal := Some ''^.'',
              lexemes := Some ''[a-zA-Z][a-zA-Z0-9_$%!#]*'', m_keywords := Some (KObj [(''keyword'',
              ''ABS ASC AND ATN AUTO|0 BEEP BLOAD|10 BSAVE|10 CALL CALLS CDBL CHAIN CHDIR CHR$|10 CINT CIRCLE '' @
              ''CLEAR CLOSE CLS COLOR COM COMMON CONT COS CSNG CSRLIN CVD CVI CVS DATA DATE$ '' @
              ''DEFDBL DEFINT DEFSNG DEFSTR DEF|0 SEG USR DELETE DIM DRAW EDIT END ENVIRON ENVIRON$ '' @
              ''EOF EQV ERASE ERDEV ERDEV$ ERL ERR ERROR EXP FIELD FILES FIX FOR|0 FRE GET GOSUB|10 GOTO '' @
              ''HEX$ IF|0 THEN ELSE|0 INKEY$ INP INPUT INPUT# INPUT$ INSTR IMP INT IOCTL IOCTL$ KEY ON '' @
              ''OFF LIST KILL LEFT$ LEN LET LINE LLIST LOAD LOC LOCATE LOF LOG LPRINT USING LSET '' @
              ''MERGE MID$ MKDIR MKD$ MKI$ MKS$ MOD NAME NEW NEXT NOISE NOT OCT$ ON OR PEN PLAY STRIG OPEN OPTION '' @
              ''BASE OUT PAINT PALETTE PCOPY PEEK PMAP POINT POKE POS PRINT PRINT] PSET PRESET '' @
              ''PUT RANDOMIZE READ REM RENUM RESET|0 RESTORE RESUME RETURN|0 RIGHT$ RMDIR RND RSET '' @
              ''RUN SAVE SCREEN SGN SHELL SIN SOUND SPACE$ SPC SQR STEP STICK STOP STR$ STRING$ SWAP '' @
              ''SYSTEM TAB TAN TIME$ TIMER TROFF TRON TO USR VAL VARPTR VARPTR$ VIEW WAIT WHILE '' @
              ''WEND WIDTH WINDOW WRITE XOR'')]), contains := Some [Ref hl_QUOTE_STRING_MODE, Ref m1, Ref m2, Ref m3,
              Ref m4, Ref m5, Ref m6]\<rparr>) h
      in (language, h))"

definition lang_bnf :: "mstore \<Rightarrow> nat \<times> mstore" where
  "lang_bnf h =
     (let (m1, h) = new (no_mode\<lparr>className := Some ''attribute'', m_begin := Some ''<'', m_end := Some ''>''\<rparr>) h;
          (m2, h) = new (no_mode\<lparr>m_begin := Some ''<'', m_end := Some ''>''\<rparr>) h;
          (m3, h) = new (no_mode\<lparr>m_end := Some ''$'', contains := Some [Ref m2, Ref hl_C_LINE_COMMENT_MODE,
              Ref hl_C_BLOCK_COMMENT_MODE, Ref hl_APOS_STRING_MODE, Ref hl_QUOTE_STRING_MODE]\<rparr>) h;
          (m4, h) = new (no_mode\<lparr>m_begin := Some ''::='', starts := Some m3\<rparr>) h;
          (language, h) = new (no_mode\<lparr>contains := Some [Ref m1, Ref m4]\<rparr>) h
      in (language, h))"

definition lang_brainfuck :: "mstore \<Rightarrow> nat \<times> mstore" where
  "lang_brainfuck h =
     (let (LITERAL, h) = new (no_mode\<lparr>className := Some ''literal'', m_begin := Some (bs ''[%+%-]''),
              m_relevance := Some 0\<rparr>) h;
          (m1, h) = COMMENT (bs ''[^%[%]%.,%+%-<> '' @ [CHR 0x0D, CHR 0x0A] @ '']'') (bs ''[%[%]%.,%+%-<> '' @ [CHR 0x0D,
              CHR 0x0A] @ '']'') (no_mode\<lparr>returnEnd := Some True, m_relevance := Some 0\<rparr>) h;
          (m2, h) = new (no_mode\<lparr>className := Some ''title'', m_begin := Some (bs ''[%[%]'' @ '']''),
              m_relevance := Some 0\<rparr>) h;
          (m3, h) = new (no_mode\<lparr>className := Some ''string'', m_begin := Some (bs ''[%.,]''),
              m_relevance := Some 0\<rparr>) h;
          (m4, h) = new (no_mode\<lparr>m_begin := Some (bs ''%+%+|%-%-''), returnBegin := Some True,
              contains := Some [Ref LITERAL]\<rparr>) h;
          (language, h) = new (no_mode\<lparr>aliases := Some [''bf''], contains := Some [Ref m1, Ref m2, Ref m3, Ref m4,
              Ref LITERAL]\<rparr>) h
      in (language, h))"

definition lang_cal :: "mstore \<Rightarrow> nat \<times> mstore" where
  "lang_cal h =
     (let KEYWORDS = ''div mod in and or not xor asserterror begin case do downto else end exit for if of repeat then to '' @
              ''until while with var'';
          LITERALS' = ''false true'';
          (m1, h) = COMMENT (bs ''%{'') (bs ''%}'') (no_mode\<lparr>m_relevance := Some 0\<rparr>) h;
          (m2, h) = COMMENT (bs ''%(%*'') (bs ''%*%)'') (no_mode\<lparr>m_relevance := Some 10\<rparr>) h;
          COMMENT_MODES = [Ref hl_C_LINE_COMMENT_MODE, Ref m1, Ref m2];
          (m3, h) = new (no_mode\<lparr>m_begin := Some [CHR 0x27, CHR 0x27]\<rparr>) h;
          (STRING, h) = new (no_mode\<lparr>className := Some ''string'', m_begin := Some [CHR 0x27], m_end := Some [CHR 0x27],
              contains := Some [Ref m3]\<rparr>) h;
          (CHAR_STRING, h) = new (no_mode\<lparr>className := Some ''string'', m_begin := Some (bs ''(#%d+)+'')\<rparr>) h;
          (DATE, h) = new (no_mode\<lparr>className := Some ''number'', m_begin := Some (bs ''%b%d+(%.%d+)?(DT|D|T)''),
              m_relevance := Some 0\<rparr>) h;
          (DBL_QUOTED_VARIABLE, h) = new (no_mode\<lparr>className := Some ''string'', m_begin := Some [CHR 0x22],
              m_end := Some [CHR 0x22]\<rparr>) h;
          (m4, h) = new (no_mode\<lparr>className := Some ''params'', m_begin := Some (bs ''%(''), m_end := Some (bs ''%)''),
              m_keywords := Some (KStr KEYWORDS), contains := Some [Ref STRING, Ref CHAR_STRING]\<rparr>) h;
          (PROCEDURE, h) = new (no_mode\<lparr>className := Some ''function'', beginKeywords := Some ''procedure'',
              m_end := Some ''[:;]'', m_keywords := Some (KStr ''procedure|10''),
              contains := Some ([Ref hl_TITLE_MODE, Ref m4] @ COMMENT_MODES)\<rparr>) h;
          (OBJECT, h) = new (no_mode\<lparr>className := Some ''class'',
              m_begin := Some (bs ''OBJECT (Table|Form|Report|Dataport|Codeunit|XMLport|MenuSuite|Page|Query) (%d+) ([^%r%n]+)''),
              returnBegin := Some True, contains := Some [Ref hl_TITLE_MODE, Ref PROCEDURE]\<rparr>) h;
          (language, h) = new (no_mode\<lparr>case_insensitive := Some True, m_keywords := Some (KObj [(''keyword'', KEYWORDS),
              (''literal'', LITERALS')]), illegal := Some (bs ''%/%*''), contains := Some [Ref STRING,
              Ref CHAR_STRING, Ref DATE, Ref DBL_QUOTED_VARIABLE, Ref hl_NUMBER_MODE, Ref OBJECT,
              Ref PROCEDURE]\<rparr>) h
      in (language, h))"

definition lang_capnproto :: "mstore \<Rightarrow> nat \<times> mstore" where
  "lang_capnproto h =
     (let (m1, h) = new (no_mode\<lparr>endsWithParent := Some True, excludeEnd := Some True\<rparr>) h;
          (m2, h) = new (no_mode\<lparr>endsWithParent := Some True, excludeEnd := Some True\<rparr>) h;
          (m3, h) = new (no_mode\<lparr>className := Some ''meta'', m_begin := Some (bs ''@0x[%w%d]{16};''),
              illegal := Some (bs ''%n'')\<rparr>) h;
          (m4, h) = new (no_mode\<lparr>className := Some ''symbol'', m_begin := Some (bs ''@%d+%b'')\<rparr>) h;
          (m5, h) = new (inherit_mode (mode_at h hl_TITLE_MODE) [(no_mode\<lparr>starts := Some m1\<rparr>)]) h;
          (m6, h) = new (no_mode\<lparr>className := Some ''class'', beginKeywords := Some ''struct enum'',
              m_end := Some (bs ''%{''), illegal := Some (bs ''%n''), contains := Some [Ref m5]\<rparr>) h;
          (m7, h) = new (inherit_mode (mode_at h hl_TITLE_MODE) [(no_mode\<lparr>starts := Some m2\<rparr>)]) h;
          (m8, h) = new (no_mode\<lparr>className := Some ''class'', beginKeywords := Some ''interface'',
              m_end := Some (bs ''%{''), illegal := Some (bs ''%n''), contains := Some [Ref m7]\<rparr>) h;
          (language, h) = new (no_mode\<lparr>aliases := Some [''capnp''], m_keywords := Some (KObj [(''keyword'',
              ''struct enum interface union group import using const annotation extends in of on as with from fixed''),
              (''built_in'', ''Void Bool Int8 Int16 Int32 Int64 UInt8 UInt16 UInt32 UInt64 Float32 Float64 '' @
              ''Text Data AnyPointer AnyStruct Capability List''), (''literal'', ''true false'')]),
              contains := Some [Ref hl_QUOTE_STRING_MODE, Ref hl_NUMBER_MODE, Ref hl_HASH_COMMENT_MODE, Ref m3,
              Ref m4, Ref m6, Ref m8]\<rparr>) h
      in (language, h))"

definition lang_ceylon :: "mstore \<Rightarrow> nat \<times> mstore" where
  "lang_ceylon h =
     (let KEYWORDS = ''assembly module package import alias class interface object given value '' @
              ''assign void function new of extends satisfies abstracts in out return '' @
              ''break continue throw assert dynamic if else switch case for while try '' @
              ''catch finally then let this outer super is exists nonempty'';
          DECLARATION_MODIFIERS = ''shared abstract formal default actual variable late native deprecated'' @
              ''final sealed annotation suppressWarnings small'';
          DOCUMENTATION = ''doc by license see throws tagged'';
          (SUBST, h) = new (no_mode\<lparr>className := Some ''subst'', excludeBegin := Some True, excludeEnd := Some True,
              m_begin := Some [CHR 0x60, CHR 0x60], m_end := Some [CHR 0x60, CHR 0x60],
              m_keywords := Some (KStr KEYWORDS), m_relevance := Some 10\<rparr>) h;
          (m1, h) = new (no_mode\<lparr>className := Some ''string'', m_begin := Some [CHR 0x22, CHR 0x22, CHR 0x22],
              m_end := Some [CHR 0x22, CHR 0x22, CHR 0x22], m_relevance := Some 10\<rparr>) h;
          (m2, h) = new (no_mode\<lparr>className := Some ''string'', m_begin := Some [CHR 0x22], m_end := Some [CHR 0x22],
              contains := Some [Ref SUBST]\<rparr>) h;
          (m3, h) = new (no_mode\<lparr>className := Some ''string'', m_begin := Some [CHR 0x27],
              m_end := Some [CHR 0x27]\<rparr>) h;
          (m4, h) = new (no_mode\<lparr>className := Some ''number'',
              m_begin := Some (bs ''#[0-9a-fA-F_]+|%$[01_]+|[0-9_]+(?:%.[0-9_](?:[eE][+-]?%d+)?)?[kMGTPmunpf]?''),
              m_relevance := Some 0\<rparr>) h;
          EXPRESSIONS = [Ref m1, Ref m2, Ref m3, Ref m4];
          h = upd SUBST (\<lambda>m. m\<lparr>contains := Some EXPRESSIONS\<rparr>) h;
          (m5, h) = COMMENT (bs ''/%*'') (bs ''%*/'') (no_mode\<lparr>contains := Some [Self]\<rparr>) h;
          (m6, h) = new (no_mode\<lparr>className := Some ''meta'', m_begin := Some (bs ''@[a-z]%w*(?:%:'' @ [CHR 0x22] @
              ''[^'' @ [CHR 0x22] @ '']*'' @ [CHR 0x22] @ '')?'')\<rparr>) h;
          (language, h) = new (no_mode\<lparr>m_keywords := Some (KObj [(''keyword'', KEYWORDS @ '' '' @
              DECLARATION_MODIFIERS), (''meta'', DOCUMENTATION)]), illegal := Some (bs ''%$[^01]|#[^0-9a-fA-F]''),
              contains := Some ([Ref hl_C_LINE_COMMENT_MODE, Ref m5, Ref m6] @ EXPRESSIONS)\<rparr>) h
      in (language, h))"

definition lang_clean :: "mstore \<Rightarrow> nat \<times> mstore" where
  "lang_clean h =
     (let (m1, h) = new (no_mode\<lparr>m_begin := Some (bs ''->|<-[|:]?|#!?|>>=|%{%||%|%}|:==|=:|<>'')\<rparr>) h;
          (language, h) = new (no_mode\<lparr>aliases := Some [''clean'', ''icl'', ''dcl''],
              m_keywords := Some (KObj [(''keyword'', ''if let in with where case of class instance otherwise '' @
              ''implementation definition system module from import qualified as '' @
              ''special code inline foreign export ccall stdcall generic derive '' @ ''i'' @ ''nfix i'' @
              ''nfixl i'' @ ''nfixr''), (''built_in'', ''Int Real Char Bool''), (''literal'', ''True False'')]),
              contains := Some [Ref hl_C_LINE_COMMENT_MODE, Ref hl_C_BLOCK_COMMENT_MODE, Ref hl_APOS_STRING_MODE,
              Ref hl_QUOTE_STRING_MODE, Ref hl_C_NUMBER_MODE, Ref m1]\<rparr>) h
      in (language, h))"

definition lang_clojure_repl :: "mstore \<Rightarrow> nat \<times> mstore" where
  "lang_clojure_repl h =
     (let (m1, h) = new (no_mode\<lparr>m_end := Some ''$'', subLanguage := Some (SubName ''clojure'')\<rparr>) h;
          (m2, h) = new (no_mode\<lparr>className := Some ''meta'', m_begin := Some (bs ''^([%w.-]+|%s*#_)?=>''),
              starts := Some m1\<rparr>) h;
          (language, h) = new (no_mode\<lparr>contains := Some [Ref m2]\<rparr>) h
      in (language, h))"

definition lang_clojure :: "mstore \<Rightarrow> nat \<times> mstore" where
  "lang_clojure h =
     (let SYMBOLSTART = bs ''a-zA-Z_%-!.?+*=<>&#'' @ [CHR 0x27];
          SYMBOL_RE = ''['' @ SYMBOLSTART @ '']['' @ SYMBOLSTART @ ''0-9/;:]*'';
          SIMPLE_NUMBER_RE = bs ''[-+]?%d+(%.%d+)?'';
          (SYMBOL, h) = new (no_mode\<lparr>m_begin := Some SYMBOL_RE, m_relevance := Some 0\<rparr>) h;
          (NUMBER, h) = new (no_mode\<lparr>className := Some ''number'', m_begin := Some SIMPLE_NUMBER_RE,
              m_relevance := Some 0\<rparr>) h;
          (STRING, h) = new (inherit_mode (mode_at h hl_QUOTE_STRING_MODE) [(no_mode\<lparr>illegal := Some []\<rparr>)]) h;
          (COMMENT', h) = COMMENT '';'' ''$'' (no_mode\<lparr>m_relevance := Some 0\<rparr>) h;
          (LITERAL, h) = new (no_mode\<lparr>className := Some ''literal'',
              m_begin := Some (bs ''%b(true|false|nil)%b'')\<rparr>) h;
          (COLLECTION, h) = new (no_mode\<lparr>m_begin := Some (bs ''[%[%{]''), m_end := Some (bs ''[%]%}]'')\<rparr>) h;
          (HINT, h) = new (no_mode\<lparr>className := Some ''comment'', m_begin := Some (bs ''%^'' @ SYMBOL_RE)\<rparr>) h;
          (HINT_COL, h) = COMMENT (bs ''%^%{'') (bs ''%}'') no_mode h;
          (KEY, h) = new (no_mode\<lparr>className := Some ''symbol'', m_begin := Some (''[:]{1,2}'' @ SYMBOL_RE)\<rparr>) h;
          (LIST, h) = new (no_mode\<lparr>m_begin := Some (bs ''%(''), m_end := Some (bs ''%)'')\<rparr>) h;
          (BODY, h) = new (no_mode\<lparr>endsWithParent := Some True, m_relevance := Some 0\<rparr>) h;
          keywords = KObj [(''builtin-name'',
              ''def defonce cond apply if-not if-let if not not= = < > <= >= == + / * - rem '' @
              ''quot neg? pos? delay? symbol? keyword? true? false? integer? empty? coll? list? '' @
              ''set? ifn? fn? associative? sequential? sorted? counted? reversible? number? decimal? '' @
              ''class? distinct? isa? float? rational? reduced? ratio? odd? even? char? seq? vector? '' @
              ''string? map? nil? contains? zero? instance? not-every? not-any? libspec? -> ->> .. . '' @
              ''inc compare do dotimes mapcat take remove take-while drop letfn drop-last take-last '' @
              ''drop-while while intern condp case reduced cycle split-at split-with repeat replicate '' @
              ''iterate range merge zipmap declare line-seq sort comparator sort-by dorun doall nthnext '' @
              ''nthrest partition eval doseq await await-for let agent atom send send-off release-pending-sends '' @
              ''add-watch mapv filterv remove-watch agent-error restart-agent set-error-handler error-handler '' @
              ''set-error-mode! error-mode shutdown-agents quote var fn loop recur throw try monitor-enter '' @
              ''monitor-exit defmacro defn defn- macroexpand macroexpand-1 for dosync and or '' @
              ''when when-not when-let comp juxt partial sequence memoize constantly complement identity assert '' @
              ''peek pop doto proxy defstruct first rest cons defprotocol cast coll deftype defrecord last butlast '' @
              ''sigs reify second ffirst fnext nfirst nnext defmulti defmethod meta with-meta ns in-ns create-ns import '' @
              ''refer keys select-keys vals key val rseq name namespace promise into transient persistent! conj! '' @
              ''assoc! dissoc! pop! disj! use class type num float double short byte boolean bigint biginteger '' @
              ''bigdec print-method print-dup throw-if printf format load compile get-in update-in pr pr-on newline '' @
              ''flush read slurp read-line subvec with-open memfn time re-find re-groups rand-int rand mod locking '' @
              ''assert-valid-fdecl alias resolve ref deref refset swap! reset! set-validator! compare-and-set! alter-meta! '' @
              ''reset-meta! commute get-validator alter ref-set ref-history-count ref-min-history ref-max-history '' @
              ''ensure sync io! '' @
              ''new next conj set! to-array future future-call into-array aset gen-class reduce map filter find empty '' @
              ''hash-map hash-set sorted-map sorted-map-by sorted-set sorted-set-by vec vector seq flatten reverse '' @
              ''assoc dissoc list '' @
              ''disj get union difference intersection extend extend-type extend-protocol int nth delay count '' @
              ''concat chunk chunk-buffer '' @
              ''chunk-append chunk-first chunk-rest max min dec unchecked-inc-int unchecked-inc unchecked-dec-inc '' @
              ''unchecked-dec unchecked-negate '' @
              ''unchecked-add-int unchecked-add unchecked-subtract-int unchecked-subtract chunk-next chunk-cons '' @
              ''chunked-seq? prn vary-meta '' @
              ''lazy-seq spread list* str find-keyword keyword symbol gensym force rationalize'')];
          (NAME, h) = new (no_mode\<lparr>m_keywords := Some keywords, lexemes := Some SYMBOL_RE, className := Some ''name'',
              m_begin := Some SYMBOL_RE, starts := Some BODY\<rparr>) h;
          DEFAULT_CONTAINS = [Ref LIST, Ref STRING, Ref HINT, Ref HINT_COL, Ref COMMENT', Ref KEY, Ref COLLECTION, Ref NUMBER,
              Ref LITERAL, Ref SYMBOL];
          (m1, h) = COMMENT ''comment'' [] no_mode h;
          h = upd LIST (\<lambda>m. m\<lparr>contains := Some [Ref m1, Ref NAME, Ref BODY]\<rparr>) h;
          h = upd BODY (\<lambda>m. m\<lparr>contains := Some DEFAULT_CONTAINS\<rparr>) h;
          h = upd COLLECTION (\<lambda>m. m\<lparr>contains := Some DEFAULT_CONTAINS\<rparr>) h;
          h = upd HINT_COL (\<lambda>m. m\<lparr>contains := Some [Ref COLLECTION]\<rparr>) h;
          (language, h) = new (no_mode\<lparr>aliases := Some [''clj''], illegal := Some (bs ''%S''),
              contains := Some [Ref LIST, Ref STRING, Ref HINT, Ref HINT_COL, Ref COMMENT', Ref KEY, Ref COLLECTION,
              Ref NUMBER, Ref LITERAL]\<rparr>) h
      in (language, h))"

definition lang_cmake :: "mstore \<Rightarrow> nat \<times> mstore" where
  "lang_cmake h =
     (let (m1, h) = new (no_mode\<lparr>className := Some ''variable'', m_begin := Some (bs ''%${''),
              m_end := Some ''}''\<rparr>) h;
          (language, h) = new (no_mode\<lparr>aliases := Some [''cmake.in''], case_insensitive := Some True,
              m_keywords := Some (KObj [(''keyword'',
              ''break cmake_host_system_information cmake_minimum_required cmake_parse_arguments '' @
              ''cmake_policy configure_file continue elseif else endforeach endfunction endif endmacro '' @
              ''endwhile execute_process file find_file find_library find_package find_path '' @
              ''find_program foreach function get_cmake_property get_directory_property '' @
              ''get_filename_component get_property if include include_guard list macro '' @
              ''mark_as_advanced math message option return separate_arguments '' @
              ''set_directory_properties set_property set site_name string unset variable_watch while '' @
              ''add_compile_definitions add_compile_options add_custom_command add_custom_target '' @
              ''add_definitions add_dependencies add_executable add_library add_link_options '' @
              ''add_subdirectory add_test aux_source_directory build_command create_test_sourcelist '' @
              ''define_property enable_language enable_testing export fltk_wrap_ui '' @
              ''get_source_file_property get_target_property get_test_property include_directories '' @
              ''include_external_msproject include_regular_expression install link_directories '' @
              ''link_libraries load_cache project qt_wrap_cpp qt_wrap_ui remove_definitions '' @
              ''set_source_files_properties set_target_properties set_tests_properties source_group '' @
              ''target_compile_definitions target_compile_features target_compile_options '' @
              ''target_include_directories target_link_directories target_link_libraries '' @
              ''target_link_options target_sources try_compile try_run '' @
              ''ctest_build ctest_configure ctest_coverage ctest_empty_binary_directory ctest_memcheck '' @
              ''ctest_read_custom_files ctest_run_script ctest_sleep ctest_start ctest_submit '' @
              ''ctest_test ctest_update ctest_upload '' @
              ''build_name exec_program export_library_dependencies install_files install_programs '' @
              ''install_targets load_command make_directory output_required_files remove '' @
              ''subdir_depends subdirs use_mangled_mesa utility_source variable_requires write_file '' @
              ''qt5_use_modules qt5_use_package qt5_wrap_cpp '' @
              ''on off true false and or not command policy target test exists is_newer_than '' @
              ''is_directory is_symlink is_absolute matches less greater equal less_equal '' @
              ''greater_equal strless strgreater strequal strless_equal strgreater_equal version_less '' @
              ''version_greater version_equal version_less_equal version_greater_equal in_list defined'')]),
              contains := Some [Ref m1, Ref hl_HASH_COMMENT_MODE, Ref hl_QUOTE_STRING_MODE,
              Ref hl_NUMBER_MODE]\<rparr>) h
      in (language, h))"

definition lang_coffeescript :: "mstore \<Rightarrow> nat \<times> mstore" where
  "lang_coffeescript h =
     (let JS_IDENT_RE = ''[A-Za-z$_][0-9A-Za-z$_]*'';
          KEYWORDS = KObj [(''keyword'',
              ''in if for while finally new do return else break catch instanceof throw try this '' @
              ''switch continue typeof delete debugger super yield import export from as default await '' @
              ''then unless until loop of by when and or is isnt not''), (''literal'',
              ''true false null undefined '' @ ''yes no on off''), (''built_in'',
              ''npm require console print module global window document'')];
          (SUBST, h) = new (no_mode\<lparr>className := Some ''subst'', m_begin := Some (bs ''#%{''), m_end := Some ''}'',
              m_keywords := Some KEYWORDS\<rparr>) h;
          (m1, h) = new (no_mode\<lparr>m_end := Some (bs ''(%s*/)?''), m_relevance := Some 0\<rparr>) h;
          (m2, h) = new (inherit_mode (mode_at h hl_C_NUMBER_MODE) [(no_mode\<lparr>starts := Some m1\<rparr>)]) h;
          (m3, h) = new (no_mode\<lparr>m_begin := Some [CHR 0x27, CHR 0x27, CHR 0x27], m_end := Some [CHR 0x27, CHR 0x27,
              CHR 0x27], contains := Some [Ref hl_BACKSLASH_ESCAPE]\<rparr>) h;
          (m4, h) = new (no_mode\<lparr>m_begin := Some [CHR 0x27], m_end := Some [CHR 0x27],
              contains := Some [Ref hl_BACKSLASH_ESCAPE]\<rparr>) h;
          (m5, h) = new (no_mode\<lparr>m_begin := Some [CHR 0x22, CHR 0x22, CHR 0x22], m_end := Some [CHR 0x22, CHR 0x22,
              CHR 0x22], contains := Some [Ref hl_BACKSLASH_ESCAPE, Ref SUBST]\<rparr>) h;
          (m6, h) = new (no_mode\<lparr>m_begin := Some [CHR 0x22], m_end := Some [CHR 0x22],
              contains := Some [Ref hl_BACKSLASH_ESCAPE, Ref SUBST]\<rparr>) h;
          (m7, h) = new (no_mode\<lparr>className := Some ''string'', variants := Some [m3, m4, m5, m6]\<rparr>) h;
          (m8, h) = new (no_mode\<lparr>m_begin := Some ''///'', m_end := Some ''///'', contains := Some [Ref SUBST,
              Ref hl_HASH_COMMENT_MODE]\<rparr>) h;
          (m9, h) = new (no_mode\<lparr>m_begin := Some ''//[gim]*'', m_relevance := Some 0\<rparr>) h;
          (m10, h) = new (no_mode\<lparr>m_begin := Some (bs ''%/(?![ *])(%%%/|.)*?%/[gim]*(?=%W|$)'')\<rparr>) h;
          (m11, h) = new (no_mode\<lparr>className := Some ''regexp'', variants := Some [m8, m9, m10]\<rparr>) h;
          (m12, h) = new (no_mode\<lparr>m_begin := Some (''@'' @ JS_IDENT_RE)\<rparr>) h;
          (m13, h) = new (no_mode\<lparr>m_begin := Some [CHR 0x60, CHR 0x60, CHR 0x60], m_end := Some [CHR 0x60, CHR 0x60,
              CHR 0x60]\<rparr>) h;
          (m14, h) = new (no_mode\<lparr>m_begin := Some [CHR 0x60], m_end := Some [CHR 0x60]\<rparr>) h;
          (m15, h) = new (no_mode\<lparr>subLanguage := Some (SubName ''javascript''), excludeBegin := Some True,
              excludeEnd := Some True, variants := Some [m13, m14]\<rparr>) h;
          EXPRESSIONS = [Ref hl_BINARY_NUMBER_MODE, Ref m2, Ref m7, Ref m11, Ref m12, Ref m15];
          h = upd SUBST (\<lambda>m. m\<lparr>contains := Some EXPRESSIONS\<rparr>) h;
          (TITLE, h) = new (inherit_mode (mode_at h hl_TITLE_MODE) [(no_mode\<lparr>m_begin := Some JS_IDENT_RE\<rparr>)]) h;
          PARAMS_RE = bs ''(%(.*%))?%s*%B[-=]>'';
          (m16, h) = new (no_mode\<lparr>m_begin := Some (bs ''%(''), m_end := Some (bs ''%)''), m_keywords := Some KEYWORDS,
              contains := Some ([Self] @ EXPRESSIONS)\<rparr>) h;
          (PARAMS, h) = new (no_mode\<lparr>className := Some ''params'', m_begin := Some (bs ''%([^%(]''),
              returnBegin := Some True, contains := Some [Ref m16]\<rparr>) h;
          (m17, h) = COMMENT ''###'' ''###'' no_mode h;
          (m18, h) = new (no_mode\<lparr>className := Some ''function'', m_begin := Some (bs ''^%s*'' @ JS_IDENT_RE @
              bs ''%s*=%s*'' @ PARAMS_RE), m_end := Some ''[-=]>'', returnBegin := Some True,
              contains := Some [Ref TITLE, Ref PARAMS]\<rparr>) h;
          (m19, h) = new (no_mode\<lparr>className := Some ''function'', m_begin := Some PARAMS_RE, m_end := Some ''[-=]>'',
              returnBegin := Some True, contains := Some [Ref PARAMS]\<rparr>) h;
          (m20, h) = new (no_mode\<lparr>m_begin := Some (bs ''[:%(,=]%s*''), m_relevance := Some 0,
              contains := Some [Ref m19]\<rparr>) h;
          (m21, h) = new (no_mode\<lparr>beginKeywords := Some ''extends'', endsWithParent := Some True,
              illegal := Some (''[:='' @ [CHR 0x22] @ bs ''%[%]'' @ '']''), contains := Some [Ref TITLE]\<rparr>) h;
          (m22, h) = new (no_mode\<lparr>className := Some ''class'', beginKeywords := Some ''class'', m_end := Some ''$'',
              illegal := Some (''[:='' @ [CHR 0x22] @ bs ''%[%]'' @ '']''), contains := Some [Ref m21,
              Ref TITLE]\<rparr>) h;
          (m23, h) = new (no_mode\<lparr>m_begin := Some (JS_IDENT_RE @ '':''), m_end := Some '':'', returnBegin := Some True,
              returnEnd := Some True, m_relevance := Some 0\<rparr>) h;
          (language, h) = new (no_mode\<lparr>aliases := Some [''coffee'', ''cson'', ''iced''], m_keywords := Some KEYWORDS,
              illegal := Some (bs ''%/%*''), contains := Some (EXPRESSIONS @ [Ref m17, Ref hl_HASH_COMMENT_MODE,
              Ref m18, Ref m20, Ref m22, Ref m23])\<rparr>) h
      in (language, h))"

subsection \<open>The stores they make\<close>

lemma lang_cpp_makes [builds_grammars]: "makes_grammar lang_cpp"
  unfolding lang_cpp_def by (intro makes_grammarI builds_rules) (simp_all add: refs_append)

lemma lang_abnf_makes [builds_grammars]: "makes_grammar lang_abnf"
  unfolding lang_abnf_def by (intro makes_grammarI builds_rules) (simp_all add: refs_append)

lemma lang_accesslog_makes [builds_grammars]: "makes_grammar lang_accesslog"
  unfolding lang_accesslog_def by (intro makes_grammarI builds_rules) (simp_all add: refs_append)

lemma lang_actionscript_makes [builds_grammars]: "makes_grammar lang_actionscript"
  unfolding lang_actionscript_def by (intro makes_grammarI builds_rules) (simp_all add: refs_append)

lemma lang_ada_makes [builds_grammars]: "makes_grammar lang_ada"
  unfolding lang_ada_def by (intro makes_grammarI builds_rules) (simp_all add: refs_append)

lemma lang_angelscript_makes [builds_grammars]: "makes_grammar lang_angelscript"
  unfolding lang_angelscript_def by (intro makes_grammarI builds_rules) (simp_all add: refs_append)

lemma lang_apache_makes [builds_grammars]: "makes_grammar lang_apache"
  unfolding lang_apache_def by (intro makes_grammarI builds_rules) (simp_all add: refs_append)

lemma lang_applescript_makes [builds_grammars]: "makes_grammar lang_applescript"
  unfolding lang_applescript_def by (intro makes_grammarI builds_rules) (simp_all add: refs_append)

lemma lang_arcade_makes [builds_grammars]: "makes_grammar lang_arcade"
  unfolding lang_arcade_def by (intro makes_grammarI builds_rules) (simp_all add: refs_append)

lemma lang_armasm_makes [builds_grammars]: "makes_grammar lang_armasm"
  unfolding lang_armasm_def by (intro makes_grammarI builds_rules) (simp_all add: refs_append)

lemma lang_asciidoc_makes [builds_grammars]: "makes_grammar lang_asciidoc"
  unfolding lang_asciidoc_def by (intro makes_grammarI builds_rules) (simp_all add: refs_append)

lemma lang_aspectj_makes [builds_grammars]: "makes_grammar lang_aspectj"
  unfolding lang_aspectj_def by (intro makes_grammarI builds_rules) (simp_all add: refs_append)

lemma lang_autohotkey_makes [builds_grammars]: "makes_grammar lang_autohotkey"
  unfolding lang_autohotkey_def by (intro makes_grammarI builds_rules) (simp_all add: refs_append)

lemma lang_autoit_makes [builds_grammars]: "makes_grammar lang_autoit"
  unfolding lang_autoit_def by (intro makes_grammarI builds_rules) (simp_all add: refs_append)

lemma lang_avrasm_makes [builds_grammars]: "makes_grammar lang_avrasm"
  unfolding lang_avrasm_def by (intro makes_grammarI builds_rules) (simp_all add: refs_append)

lemma lang_awk_makes [builds_grammars]: "makes_grammar lang_awk"
  unfolding lang_awk_def by (intro makes_grammarI builds_rules) (simp_all add: refs_append)

lemma lang_axapta_makes [builds_grammars]: "makes_grammar lang_axapta"
  unfolding lang_axapta_def by (intro makes_grammarI builds_rules) (simp_all add: refs_append)

lemma lang_bash_makes [builds_grammars]: "makes_grammar lang_bash"
  unfolding lang_bash_def by (intro makes_grammarI builds_rules) (simp_all add: refs_append)

lemma lang_basic_makes [builds_grammars]: "makes_grammar lang_basic"
  unfolding lang_basic_def by (intro makes_grammarI builds_rules) (simp_all add: refs_append)

lemma lang_bnf_makes [builds_grammars]: "makes_grammar lang_bnf"
  unfolding lang_bnf_def by (intro makes_grammarI builds_rules) (simp_all add: refs_append)

lemma lang_brainfuck_makes [builds_grammars]: "makes_grammar lang_brainfuck"
  unfolding lang_brainfuck_def by (intro makes_grammarI builds_rules) (simp_all add: refs_append)

lemma lang_cal_makes [builds_grammars]: "makes_grammar lang_cal"
  unfolding lang_cal_def by (intro makes_grammarI builds_rules) (simp_all add: refs_append)

lemma lang_capnproto_makes [builds_grammars]: "makes_grammar lang_capnproto"
  unfolding lang_capnproto_def by (intro makes_grammarI builds_rules) (simp_all add: refs_append)

lemma lang_ceylon_makes [builds_grammars]: "makes_grammar lang_ceylon"
  unfolding lang_ceylon_def by (intro makes_grammarI builds_rules) (simp_all add: refs_append)

lemma lang_clean_makes [builds_grammars]: "makes_grammar lang_clean"
  unfolding lang_clean_def by (intro makes_grammarI builds_rules) (simp_all add: refs_append)

lemma lang_clojure_repl_makes [builds_grammars]: "makes_grammar lang_clojure_repl"
  unfolding lang_clojure_repl_def by (intro makes_grammarI builds_rules) (simp_all add: refs_append)

lemma lang_clojure_makes [builds_grammars]: "makes_grammar lang_clojure"
  unfolding lang_clojure_def by (intro makes_grammarI builds_rules) (simp_all add: refs_append)

lemma lang_cmake_makes [builds_grammars]: "makes_grammar lang_cmake"
  unfolding lang_cmake_def by (intro makes_grammarI builds_rules) (simp_all add: refs_append)

lemma lang_coffeescript_makes [builds_grammars]: "makes_grammar lang_coffeescript"
  unfolding lang_coffeescript_def by (intro makes_grammarI builds_rules) (simp_all add: refs_append)

end
