(* ===== verification/Hljs_Languages_2.thy ===== *)
theory Hljs_Languages_2
  imports Hljs_Store
begin

text \<open>
  Grammars of highlight.js (\<^verbatim>\<open>remark.js\<close>, module 15), in the order of the source, from \<open>coq\<close> to \<open>gherkin\<close>. Each keeps the store
  closed.
\<close>

definition lang_coq :: "mstore \<Rightarrow> nat \<times> mstore" where
  "lang_coq h =
     (let (m1, h) = COMMENT (bs ''%(%*'') (bs ''%*%)'') no_mode h;
          (m2, h) = new (no_mode\<lparr>className := Some ''type'', excludeBegin := Some True, m_begin := Some (bs ''%|%s*''),
              m_end := Some (bs ''%w+'')\<rparr>) h;
          (m3, h) = new (no_mode\<lparr>m_begin := Some ''[-=]>''\<rparr>) h;
          (language, h) = new (no_mode\<lparr>m_keywords := Some (KObj [(''keyword'',
              ''_ as at cofix else end exists exists2 fix for forall fun if IF in let '' @
              ''match mod Prop return Set then Type using where with '' @
              ''Abort About Add Admit Admitted All Arguments Assumptions Axiom Back BackTo '' @
              ''Backtrack Bind Blacklist Canonical Cd Check Class Classes Close Coercion '' @
              ''Coercions CoFixpoint CoInductive Collection Combined Compute Conjecture '' @
              ''Conjectures Constant constr Constraint Constructors Context Corollary '' @
              ''CreateHintDb Cut Declare Defined Definition Delimit Dependencies Dependent'' @
              ''Derive Drop eauto End Equality Eval Example Existential Existentials '' @
              ''Existing Export exporting Extern Extract Extraction Fact Field Fields File '' @
              ''Fixpoint Focus for From Function Functional Generalizable Global Goal Grab '' @
              ''Grammar Graph Guarded Heap Hint HintDb Hints Hypotheses Hypothesis ident '' @
              ''Identity If Immediate Implicit Import Include Inductive Infix Info Initial '' @
              ''Inline Inspect Instance Instances Intro Intros Inversion Inversion_clear '' @
              ''Language Left Lemma Let Libraries Library Load LoadPath Local Locate Ltac M'' @ ''L '' @
              ''Mode Module Modules Monomorphic Morphism Next NoInline Notation Obligation '' @
              ''Obligations Opaque Open Optimize Options Parameter Parameters Parametric '' @
              ''Path Paths pattern Polymorphic Preterm Print Printing Program Projections '' @
              ''Proof Proposition Pwd Qed Quit Rec Record Recursive Redirect Relation Remark '' @
              ''Remove Require Reserved Reset Resolve Restart Rewrite Right Ring Rings Save '' @
              ''Scheme Scope Scopes Script Search SearchAbout SearchHead SearchPattern '' @
              ''SearchRewrite Section Separate Set Setoid Show Solve Sorted Step Strategies '' @
              ''Strategy Structure SubClass Table Tables Tactic Term Test Theorem Time '' @
              ''Timeout Transparent Type Typeclasses Types Undelimit Undo Unfocus Unfocused '' @
              ''Unfold Universe Universes Unset Unshelve using Variable Variables Variant '' @
              ''Verbose Visibility where with''), (''built_in'',
              ''abstract absurd admit after apply as assert assumption at auto autorewrite '' @
              ''autounfold before bottom btauto by case case_eq cbn cbv change '' @
              ''classical_left classical_right clear clearbody cofix compare compute '' @
              ''congruence constr_eq constructor contradict contradiction cut cutrewrite '' @
              ''cycle decide decompose dependent destruct destruction dintuition '' @
              ''discriminate discrR do double dtauto eapply eassumption eauto ecase '' @
              ''econstructor edestruct ediscriminate eelim eexact eexists einduction '' @
              ''einjection eleft elim elimtype enough equality erewrite eright '' @
              ''esimplify_eq esplit evar exact exactly_once exfalso exists f_equal fail '' @
              ''field field_simplify field_simplify_eq first firstorder fix fold fourier '' @
              ''functional generalize generalizing gfail give_up has_evar hnf idtac in '' @
              ''induction injection instantiate intro intro_pattern intros intuition '' @
              ''inversion inversion_clear is_evar is_var lapply lazy left lia lra move '' @
              ''native_compute nia nsatz omega once pattern pose progress proof psatz quote '' @
              ''record red refine reflexivity remember rename repeat replace revert '' @
              ''revgoals rewrite rewrite_strat right ring ring_simplify rtauto set '' @
              ''setoid_reflexivity setoid_replace setoid_rewrite setoid_symmetry '' @
              ''setoid_transitivity shelve shelve_unifiable simpl simple simplify_eq solve '' @
              ''specialize split split_Rabs split_Rmult stepl stepr subst sum swap '' @ ''symmetry t'' @
              ''actic tauto time timeout top transitivity trivial try tryif '' @
              ''unfold unify until using vm_compute with'')]), contains := Some [Ref hl_QUOTE_STRING_MODE, Ref m1,
              Ref hl_C_NUMBER_MODE, Ref m2, Ref m3]\<rparr>) h
      in (language, h))"

definition lang_cos :: "mstore \<Rightarrow> nat \<times> mstore" where
  "lang_cos h =
     (let (m1, h) = new (no_mode\<lparr>m_begin := Some [CHR 0x22, CHR 0x22], m_relevance := Some 0\<rparr>) h;
          (m2, h) = new (no_mode\<lparr>m_begin := Some [CHR 0x22], m_end := Some [CHR 0x22], contains := Some [Ref m1]\<rparr>) h;
          (STRINGS, h) = new (no_mode\<lparr>className := Some ''string'', variants := Some [m2]\<rparr>) h;
          (NUMBERS, h) = new (no_mode\<lparr>className := Some ''number'', m_begin := Some (bs ''%b(%d+(%.%d*'' @
              bs '')?|%.%d+)''), m_relevance := Some 0\<rparr>) h;
          COS_KEYWORDS = ''property parameter class classmethod clientmethod extends as break '' @
              ''catch close continue do d|0 else elseif for goto halt hang h|0 if job '' @
              ''j|0 kill k|0 lock l|0 merge new open quit q|0 read r|0 return set s|0 '' @
              ''tcommit throw trollback try tstart use view while write w|0 xecute x|0 '' @
              ''zkill znspace zn ztrap zwrite zw zzdump zzwrite print zbreak zinsert '' @
              ''zload zprint zremove zsave zzprint mv mvcall mvcrt mvdim mvprint zquit '' @ ''zsync ascii'';
          (m3, h) = new (no_mode\<lparr>className := Some ''comment'', m_begin := Some '';'', m_end := Some ''$'',
              m_relevance := Some 0\<rparr>) h;
          (m4, h) = new (no_mode\<lparr>className := Some ''built_in'',
              m_begin := Some (bs ''(?:%$%$?|%.%.)%^?[a-zA-Z]+'')\<rparr>) h;
          (m5, h) = new (no_mode\<lparr>className := Some ''built_in'', m_begin := Some (bs ''%$%$%$[a-zA-Z]+'')\<rparr>) h;
          (m6, h) = new (no_mode\<lparr>className := Some ''built_in'', m_begin := Some (''%'' @
              bs ''[a-z]+(?:%.[a-z]+)*'')\<rparr>) h;
          (m7, h) = new (no_mode\<lparr>className := Some ''symbol'', m_begin := Some (bs ''%^'' @ ''%'' @
              bs ''?[a-zA-Z][%w]*'')\<rparr>) h;
          (m8, h) = new (no_mode\<lparr>className := Some ''keyword'', m_begin := Some ''##class|##super|#define|#dim''\<rparr>) h;
          (m9, h) = new (no_mode\<lparr>m_begin := Some (bs ''&sql%(''), m_end := Some (bs ''%)''), excludeBegin := Some True,
              excludeEnd := Some True, subLanguage := Some (SubName ''sql'')\<rparr>) h;
          (m10, h) = new (no_mode\<lparr>m_begin := Some ''&(js|jscript|javascript)<'', m_end := Some ''>'',
              excludeBegin := Some True, excludeEnd := Some True,
              subLanguage := Some (SubName ''javascript'')\<rparr>) h;
          (m11, h) = new (no_mode\<lparr>m_begin := Some (bs ''&html<%s*<''), m_end := Some (bs ''>%s*>''),
              subLanguage := Some (SubName ''xml'')\<rparr>) h;
          (language, h) = new (no_mode\<lparr>case_insensitive := Some True, aliases := Some [''cos'', ''cls''],
              m_keywords := Some (KStr COS_KEYWORDS), contains := Some [Ref NUMBERS, Ref STRINGS,
              Ref hl_C_LINE_COMMENT_MODE, Ref hl_C_BLOCK_COMMENT_MODE, Ref m3, Ref m4, Ref m5, Ref m6, Ref m7,
              Ref m8, Ref m9, Ref m10, Ref m11]\<rparr>) h
      in (language, h))"

definition lang_crmsh :: "mstore \<Rightarrow> nat \<times> mstore" where
  "lang_crmsh h =
     (let RESOURCES = ''primitive rsc_template'';
          COMMANDS = ''group clone ms master location colocation order fencing_topology '' @
              ''rsc_ticket acl_target acl_group user role '' @ ''tag xml'';
          PROPERTY_SETS = ''property rsc_defaults op_defaults'';
          KEYWORDS = ''params meta operations op rule attributes utilization'';
          OPERATORS = ''read write deny defined not_defined in_range date spec in '' @
              ''ref reference attribute type xpath version and or lt gt tag '' @ bs ''lte gte eq ne %'';
          TYPES = ''number string'';
          LITERALS' = ''Master Started Slave Stopped start promote demote stop monitor true false'';
          (m1, h) = new (no_mode\<lparr>className := Some ''title'', m_end := Some (bs ''%s*[%$%w_][%w_-]*'')\<rparr>) h;
          (m2, h) = new (no_mode\<lparr>m_end := Some (bs ''%s*([%w_-]+:)?''), starts := Some m1\<rparr>) h;
          (m3, h) = new (no_mode\<lparr>beginKeywords := Some ''node'', starts := Some m2\<rparr>) h;
          (m4, h) = new (no_mode\<lparr>m_end := Some (bs ''%s*@?[%w_][%w_%.:-]*'')\<rparr>) h;
          (m5, h) = new (no_mode\<lparr>className := Some ''title'', m_end := Some (bs ''%s*[%$%w_][%w_-]*''),
              starts := Some m4\<rparr>) h;
          (m6, h) = new (no_mode\<lparr>beginKeywords := Some RESOURCES, starts := Some m5\<rparr>) h;
          (m7, h) = new (no_mode\<lparr>className := Some ''title'', m_end := Some (bs ''[%$%w_][%w_-]*'')\<rparr>) h;
          (m8, h) = new (no_mode\<lparr>m_begin := Some (bs ''%b('' @ join ''|'' (split_char (CHR 0x20) COMMANDS) @
              bs '')%s+''), m_keywords := Some (KStr COMMANDS), starts := Some m7\<rparr>) h;
          (m9, h) = new (no_mode\<lparr>className := Some ''title'', m_end := Some (bs ''%s*([%w_-]+:)?'')\<rparr>) h;
          (m10, h) = new (no_mode\<lparr>beginKeywords := Some PROPERTY_SETS, starts := Some m9\<rparr>) h;
          (m11, h) = new (no_mode\<lparr>className := Some ''meta'',
              m_begin := Some (bs ''(ocf|systemd|service|lsb):[%w_:-]+''), m_relevance := Some 0\<rparr>) h;
          (m12, h) = new (no_mode\<lparr>className := Some ''number'', m_begin := Some (bs ''%b%d+(%.%d+)?(ms|s|h|m)?''),
              m_relevance := Some 0\<rparr>) h;
          (m13, h) = new (no_mode\<lparr>className := Some ''literal'', m_begin := Some ''[-]?(infinity|inf)'',
              m_relevance := Some 0\<rparr>) h;
          (m14, h) = new (no_mode\<lparr>className := Some ''attr'', m_begin := Some (bs ''([A-Za-z%$_%#][%w_-]+)=''),
              m_relevance := Some 0\<rparr>) h;
          (m15, h) = new (no_mode\<lparr>className := Some ''tag'', m_begin := Some ''</?'', m_end := Some ''/?>'',
              m_relevance := Some 0\<rparr>) h;
          (language, h) = new (no_mode\<lparr>aliases := Some [''crm'', ''pcmk''], case_insensitive := Some True,
              m_keywords := Some (KObj [(''keyword'', KEYWORDS @ '' '' @ OPERATORS @ '' '' @ TYPES), (''literal'',
              LITERALS')]), contains := Some [Ref hl_HASH_COMMENT_MODE, Ref m3, Ref m6, Ref m8, Ref m10,
              Ref hl_QUOTE_STRING_MODE, Ref m11, Ref m12, Ref m13, Ref m14, Ref m15]\<rparr>) h
      in (language, h))"

definition lang_cs :: "mstore \<Rightarrow> nat \<times> mstore" where
  "lang_cs h =
     (let (m1, h) = new (no_mode\<lparr>m_begin := Some (bs ''%b(0b[01'' @ [CHR 0x27] @ '']+)'')\<rparr>) h;
          (m2, h) = new (no_mode\<lparr>m_begin := Some (bs ''(-?)%b([%d'' @ [CHR 0x27] @ bs '']+(%.[%d'' @ [CHR 0x27] @
              '']*'' @ bs '')?|%.[%d'' @ [CHR 0x27] @ '']+)(u|U|l|L|ul|UL|f|F|b|B)'')\<rparr>) h;
          (m3, h) = new (no_mode\<lparr>m_begin := Some (bs ''(-?)(%b0[xX][a-fA-F0-9'' @ [CHR 0x27] @ bs '']+|(%b[%d'' @
              [CHR 0x27] @ bs '']+(%.[%d'' @ [CHR 0x27] @ '']*'' @ bs '')?|%.[%d'' @ [CHR 0x27] @
              bs '']+)([eE][-+]?[%d'' @ [CHR 0x27] @ '']+)?)'')\<rparr>) h;
          (NUMBERS, h) = new (no_mode\<lparr>className := Some ''number'', variants := Some [m1, m2, m3],
              m_relevance := Some 0\<rparr>) h;
          (m4, h) = new (no_mode\<lparr>m_begin := Some [CHR 0x22, CHR 0x22]\<rparr>) h;
          (VERBATIM_STRING, h) = new (no_mode\<lparr>className := Some ''string'', m_begin := Some (''@'' @ [CHR 0x22]),
              m_end := Some [CHR 0x22], contains := Some [Ref m4]\<rparr>) h;
          (VERBATIM_STRING_NO_LF,
              h) = new (inherit_mode (mode_at h VERBATIM_STRING) [(no_mode\<lparr>illegal := Some (bs ''%n'')\<rparr>)]) h;
          KEYWORDS = KObj [(''keyword'', ''abstract as base bool break byte case catch char checked const continue decimal '' @
              ''default delegate do double enum event explicit extern finally fixed float '' @
              ''for foreach goto if implicit in int interface internal is lock long nameof '' @
              ''object operator out override params private protected public readonly ref sbyte '' @
              ''sealed short sizeof stackalloc static string struct switch this try typeof '' @
              ''uint ulong unchecked unsafe ushort using virtual void volatile while '' @
              ''add alias ascending async await by descending dynamic equals from get global group into join '' @
              ''let on orderby partial remove select set value var where yield''), (''literal'', ''null false true'')];
          (SUBST, h) = new (no_mode\<lparr>className := Some ''subst'', m_begin := Some ''{'', m_end := Some ''}'',
              m_keywords := Some KEYWORDS\<rparr>) h;
          (SUBST_NO_LF, h) = new (inherit_mode (mode_at h SUBST) [(no_mode\<lparr>illegal := Some (bs ''%n'')\<rparr>)]) h;
          (m5, h) = new (no_mode\<lparr>m_begin := Some ''{{''\<rparr>) h;
          (m6, h) = new (no_mode\<lparr>m_begin := Some ''}}''\<rparr>) h;
          (INTERPOLATED_STRING, h) = new (no_mode\<lparr>className := Some ''string'', m_begin := Some (bs ''%$'' @
              [CHR 0x22]), m_end := Some [CHR 0x22], illegal := Some (bs ''%n''), contains := Some [Ref m5, Ref m6,
              Ref hl_BACKSLASH_ESCAPE, Ref SUBST_NO_LF]\<rparr>) h;
          (m7, h) = new (no_mode\<lparr>m_begin := Some ''{{''\<rparr>) h;
          (m8, h) = new (no_mode\<lparr>m_begin := Some ''}}''\<rparr>) h;
          (m9, h) = new (no_mode\<lparr>m_begin := Some [CHR 0x22, CHR 0x22]\<rparr>) h;
          (INTERPOLATED_VERBATIM_STRING, h) = new (no_mode\<lparr>className := Some ''string'', m_begin := Some (bs ''%$@'' @
              [CHR 0x22]), m_end := Some [CHR 0x22], contains := Some [Ref m7, Ref m8, Ref m9, Ref SUBST]\<rparr>) h;
          (m10, h) = new (no_mode\<lparr>m_begin := Some ''{{''\<rparr>) h;
          (m11, h) = new (no_mode\<lparr>m_begin := Some ''}}''\<rparr>) h;
          (m12, h) = new (no_mode\<lparr>m_begin := Some [CHR 0x22, CHR 0x22]\<rparr>) h;
          (INTERPOLATED_VERBATIM_STRING_NO_LF,
              h) = new (inherit_mode (mode_at h INTERPOLATED_VERBATIM_STRING) [(no_mode\<lparr>illegal := Some (bs ''%n''),
              contains := Some [Ref m10, Ref m11, Ref m12, Ref SUBST_NO_LF]\<rparr>)]) h;
          h = upd SUBST (\<lambda>m. m\<lparr>contains := Some [Ref INTERPOLATED_VERBATIM_STRING, Ref INTERPOLATED_STRING,
              Ref VERBATIM_STRING, Ref hl_APOS_STRING_MODE, Ref hl_QUOTE_STRING_MODE, Ref NUMBERS,
              Ref hl_C_BLOCK_COMMENT_MODE]\<rparr>) h;
          (m13,
              h) = new (inherit_mode (mode_at h hl_C_BLOCK_COMMENT_MODE) [(no_mode\<lparr>illegal := Some (bs ''%n'')\<rparr>)]) h;
          h = upd SUBST_NO_LF (\<lambda>m. m\<lparr>contains := Some [Ref INTERPOLATED_VERBATIM_STRING_NO_LF,
              Ref INTERPOLATED_STRING, Ref VERBATIM_STRING_NO_LF, Ref hl_APOS_STRING_MODE, Ref hl_QUOTE_STRING_MODE,
              Ref NUMBERS, Ref m13]\<rparr>) h;
          (STRING, h) = new (no_mode\<lparr>variants := Some [INTERPOLATED_VERBATIM_STRING, INTERPOLATED_STRING,
              VERBATIM_STRING, hl_APOS_STRING_MODE, hl_QUOTE_STRING_MODE]\<rparr>) h;
          TYPE_IDENT_RE = IDENT_RE @ ''(<'' @ IDENT_RE @ bs ''(%s*,%s*'' @ IDENT_RE @ bs '')*>)?(%[%])?'';
          (m14, h) = new (no_mode\<lparr>m_begin := Some ''///'', m_relevance := Some 0\<rparr>) h;
          (m15, h) = new (no_mode\<lparr>m_begin := Some ''<!--|-->''\<rparr>) h;
          (m16, h) = new (no_mode\<lparr>m_begin := Some ''</?'', m_end := Some ''>''\<rparr>) h;
          (m17, h) = new (no_mode\<lparr>className := Some ''doctag'', variants := Some [m14, m15, m16]\<rparr>) h;
          (m18, h) = COMMENT ''///'' ''$'' (no_mode\<lparr>returnBegin := Some True, contains := Some [Ref m17]\<rparr>) h;
          (m19, h) = new (no_mode\<lparr>className := Some ''meta'', m_begin := Some ''#'', m_end := Some ''$'',
              m_keywords := Some (KObj [(''meta-keyword'',
              ''if else elif endif define undef warning error line region endregion pragma checksum'')])\<rparr>) h;
          (m20, h) = new (no_mode\<lparr>beginKeywords := Some ''class interface'', m_end := Some ''[{;=]'',
              illegal := Some (bs ''[^%s:,]''), contains := Some [Ref hl_TITLE_MODE, Ref hl_C_LINE_COMMENT_MODE,
              Ref hl_C_BLOCK_COMMENT_MODE]\<rparr>) h;
          (m21,
              h) = new (inherit_mode (mode_at h hl_TITLE_MODE) [(no_mode\<lparr>m_begin := Some (bs ''[a-zA-Z](%.?%w)*'')\<rparr>)]) h;
          (m22, h) = new (no_mode\<lparr>beginKeywords := Some ''namespace'', m_end := Some ''[{;=]'',
              illegal := Some (bs ''[^%s:]''), contains := Some [Ref m21, Ref hl_C_LINE_COMMENT_MODE,
              Ref hl_C_BLOCK_COMMENT_MODE]\<rparr>) h;
          (m23, h) = new (no_mode\<lparr>className := Some ''meta-string'', m_begin := Some [CHR 0x22],
              m_end := Some [CHR 0x22]\<rparr>) h;
          (m24, h) = new (no_mode\<lparr>className := Some ''meta'', m_begin := Some (bs ''^%s*%[''),
              excludeBegin := Some True, m_end := Some (bs ''%]''), excludeEnd := Some True,
              contains := Some [Ref m23]\<rparr>) h;
          (m25, h) = new (no_mode\<lparr>beginKeywords := Some ''new return throw await else'', m_relevance := Some 0\<rparr>) h;
          (m26, h) = new (no_mode\<lparr>m_begin := Some (IDENT_RE @ bs ''%s*%(''), returnBegin := Some True,
              contains := Some [Ref hl_TITLE_MODE], m_relevance := Some 0\<rparr>) h;
          (m27, h) = new (no_mode\<lparr>className := Some ''params'', m_begin := Some (bs ''%(''), m_end := Some (bs ''%)''),
              excludeBegin := Some True, excludeEnd := Some True, m_keywords := Some KEYWORDS, m_relevance := Some 0,
              contains := Some [Ref STRING, Ref NUMBERS, Ref hl_C_BLOCK_COMMENT_MODE]\<rparr>) h;
          (m28, h) = new (no_mode\<lparr>className := Some ''function'', m_begin := Some (''('' @ TYPE_IDENT_RE @
              bs ''%s+)+'' @ IDENT_RE @ bs ''%s*%(''), returnBegin := Some True, m_end := Some (bs ''%s*[{;=]''),
              excludeEnd := Some True, m_keywords := Some KEYWORDS, contains := Some [Ref m26, Ref m27,
              Ref hl_C_LINE_COMMENT_MODE, Ref hl_C_BLOCK_COMMENT_MODE]\<rparr>) h;
          (language, h) = new (no_mode\<lparr>aliases := Some [''csharp'', ''c#''], m_keywords := Some KEYWORDS,
              illegal := Some ''::'', contains := Some [Ref m18, Ref hl_C_LINE_COMMENT_MODE,
              Ref hl_C_BLOCK_COMMENT_MODE, Ref m19, Ref STRING, Ref NUMBERS, Ref m20, Ref m22, Ref m24, Ref m25,
              Ref m28]\<rparr>) h
      in (language, h))"

definition lang_csp :: "mstore \<Rightarrow> nat \<times> mstore" where
  "lang_csp h =
     (let (m1, h) = new (no_mode\<lparr>className := Some ''string'', m_begin := Some [CHR 0x27],
              m_end := Some [CHR 0x27]\<rparr>) h;
          (m2, h) = new (no_mode\<lparr>className := Some ''attribute'', m_begin := Some ''^Content'', m_end := Some '':'',
              excludeEnd := Some True\<rparr>) h;
          (language, h) = new (no_mode\<lparr>case_insensitive := Some False, lexemes := Some ''[a-zA-Z][a-zA-Z0-9_-]*'',
              m_keywords := Some (KObj [(''keyword'',
              ''base-uri child-src connect-src default-src font-src form-action'' @
              '' frame-ancestors frame-src img-src media-src object-src plugin-types'' @
              '' report-uri sandbox script-src style-src'')]), contains := Some [Ref m1, Ref m2]\<rparr>) h
      in (language, h))"

definition lang_css :: "mstore \<Rightarrow> nat \<times> mstore" where
  "lang_css h =
     (let IDENT_RE' = ''[a-zA-Z-][a-zA-Z0-9_-]*'';
          (m1, h) = new (no_mode\<lparr>className := Some ''built_in'', m_begin := Some (bs ''[%w-]+'')\<rparr>) h;
          (m2, h) = new (no_mode\<lparr>m_begin := Some (bs ''%(''), m_end := Some (bs ''%)''),
              contains := Some [Ref hl_APOS_STRING_MODE, Ref hl_QUOTE_STRING_MODE]\<rparr>) h;
          (m3, h) = new (no_mode\<lparr>m_begin := Some (bs ''[%w-]+%(''), returnBegin := Some True, contains := Some [Ref m1,
              Ref m2]\<rparr>) h;
          (m4, h) = new (no_mode\<lparr>className := Some ''number'', m_begin := Some ''#[0-9A-Fa-f]+''\<rparr>) h;
          (m5, h) = new (no_mode\<lparr>className := Some ''meta'', m_begin := Some ''!important''\<rparr>) h;
          (m6, h) = new (no_mode\<lparr>endsWithParent := Some True, excludeEnd := Some True, contains := Some [Ref m3,
              Ref hl_CSS_NUMBER_MODE, Ref hl_QUOTE_STRING_MODE, Ref hl_APOS_STRING_MODE, Ref hl_C_BLOCK_COMMENT_MODE,
              Ref m4, Ref m5]\<rparr>) h;
          (m7, h) = new (no_mode\<lparr>className := Some ''attribute'', m_begin := Some (bs ''%S''), m_end := Some '':'',
              excludeEnd := Some True, starts := Some m6\<rparr>) h;
          (RULE, h) = new (no_mode\<lparr>m_begin := Some (bs ''(?:[A-Z%_%.%-]+|--[a-zA-Z0-9_-]+)%s*:''),
              returnBegin := Some True, m_end := Some '';'', endsWithParent := Some True,
              contains := Some [Ref m7]\<rparr>) h;
          (m8, h) = new (no_mode\<lparr>className := Some ''selector-id'', m_begin := Some ''#[A-Za-z0-9_-]+''\<rparr>) h;
          (m9, h) = new (no_mode\<lparr>className := Some ''selector-class'', m_begin := Some (bs ''%.[A-Za-z0-9_-]+'')\<rparr>) h;
          (m10, h) = new (no_mode\<lparr>className := Some ''selector-attr'', m_begin := Some (bs ''%[''),
              m_end := Some (bs ''%]''), illegal := Some ''$''\<rparr>) h;
          (m11, h) = new (no_mode\<lparr>className := Some ''selector-pseudo'',
              m_begin := Some (bs '':(:)?[a-zA-Z0-9%_%-%+%(%)'' @ [CHR 0x22, CHR 0x27] @ ''.]+'')\<rparr>) h;
          (m12, h) = new (no_mode\<lparr>m_begin := Some ''@(font-face|page)'', lexemes := Some ''[a-z-]+'',
              m_keywords := Some (KStr ''font-face page'')\<rparr>) h;
          (m13, h) = new (no_mode\<lparr>className := Some ''keyword'', m_begin := Some (bs ''%w+'')\<rparr>) h;
          (m14, h) = new (no_mode\<lparr>m_begin := Some (bs ''%s''), endsWithParent := Some True, excludeEnd := Some True,
              m_relevance := Some 0, contains := Some [Ref hl_APOS_STRING_MODE, Ref hl_QUOTE_STRING_MODE,
              Ref hl_CSS_NUMBER_MODE]\<rparr>) h;
          (m15, h) = new (no_mode\<lparr>m_begin := Some ''@'', m_end := Some ''[{;]'', illegal := Some '':'',
              contains := Some [Ref m13, Ref m14]\<rparr>) h;
          (m16, h) = new (no_mode\<lparr>className := Some ''selector-tag'', m_begin := Some (IDENT_RE'),
              m_relevance := Some 0\<rparr>) h;
          (m17, h) = new (no_mode\<lparr>m_begin := Some ''{'', m_end := Some ''}'', illegal := Some (bs ''%S''),
              contains := Some [Ref hl_C_BLOCK_COMMENT_MODE, Ref RULE]\<rparr>) h;
          (language, h) = new (no_mode\<lparr>case_insensitive := Some True, illegal := Some (bs ''[=%/|'' @ [CHR 0x27] @
              bs ''%$]''), contains := Some [Ref hl_C_BLOCK_COMMENT_MODE, Ref m8, Ref m9, Ref m10, Ref m11, Ref m12,
              Ref m15, Ref m16, Ref m17]\<rparr>) h
      in (language, h))"

definition lang_d :: "mstore \<Rightarrow> nat \<times> mstore" where
  "lang_d h =
     (let decimal_integer_re = bs ''(0|[1-9][%d_]*'' @ '')'';
          decimal_integer_nosus_re = bs ''(0|[1-9][%d_]*|%d[%d_]*|[%d_]+?%d)'';
          binary_integer_re = ''0[bB][01_]+'';
          hexadecimal_digits_re = bs ''([%da-fA-F][%da-fA-F_]*|_[%da-fA-F][%da-fA-F_]*'' @ '')'';
          hexadecimal_integer_re = ''0[xX]'' @ hexadecimal_digits_re;
          decimal_exponent_re = ''([eE][+-]?'' @ decimal_integer_nosus_re @ '')'';
          decimal_float_re = ''('' @ decimal_integer_nosus_re @ bs ''(%.%d*|'' @ decimal_exponent_re @ '')|'' @ bs ''%d+%.'' @
              decimal_integer_nosus_re @ decimal_integer_nosus_re @ ''|'' @ bs ''%.'' @ decimal_integer_re @
              decimal_exponent_re @ ''?'' @ '')'';
          hexadecimal_float_re = ''(0[xX]('' @ hexadecimal_digits_re @ bs ''%.'' @ hexadecimal_digits_re @ ''|'' @ bs ''%.?'' @
              hexadecimal_digits_re @ '')[pP][+-]?'' @ decimal_integer_nosus_re @ '')'';
          integer_re = ''('' @ decimal_integer_re @ ''|'' @ binary_integer_re @ ''|'' @ hexadecimal_integer_re @ '')'';
          float_re = ''('' @ hexadecimal_float_re @ ''|'' @ decimal_float_re @ '')'';
          escape_sequence_re = bs ''%%('' @ ''['' @ [CHR 0x27, CHR 0x22] @ bs ''%?%%abfnrtv]|'' @ bs ''u[%dA-Fa-f]{4}|'' @
              ''[0-7]{1,3}|'' @ bs ''x[%dA-Fa-f]{2}|'' @ bs ''U[%dA-Fa-f]{8}'' @ '')|'' @ bs ''&[a-zA-Z%d]{2,};'';
          (D_INTEGER_MODE, h) = new (no_mode\<lparr>className := Some ''number'', m_begin := Some (bs ''%b'' @ integer_re @
              ''(L|u|U|Lu|LU|uL|UL)?''), m_relevance := Some 0\<rparr>) h;
          (D_FLOAT_MODE, h) = new (no_mode\<lparr>className := Some ''number'', m_begin := Some (bs ''%b('' @ float_re @
              ''([fF]|L|i|[fF]i|Li)?|'' @ integer_re @ ''(i|[fF]i|Li)'' @ '')''), m_relevance := Some 0\<rparr>) h;
          (D_CHARACTER_MODE, h) = new (no_mode\<lparr>className := Some ''string'', m_begin := Some ([CHR 0x27] @ ''('' @
              escape_sequence_re @ ''|.)''), m_end := Some [CHR 0x27], illegal := Some ''.''\<rparr>) h;
          (D_ESCAPE_SEQUENCE, h) = new (no_mode\<lparr>m_begin := Some escape_sequence_re, m_relevance := Some 0\<rparr>) h;
          (D_STRING_MODE, h) = new (no_mode\<lparr>className := Some ''string'', m_begin := Some [CHR 0x22],
              contains := Some [Ref D_ESCAPE_SEQUENCE], m_end := Some ([CHR 0x22] @ ''[cwd]?'')\<rparr>) h;
          (D_WYSIWYG_DELIMITED_STRING_MODE, h) = new (no_mode\<lparr>className := Some ''string'', m_begin := Some (''[rq]'' @
              [CHR 0x22]), m_end := Some ([CHR 0x22] @ ''[cwd]?''), m_relevance := Some 5\<rparr>) h;
          (D_ALTERNATE_WYSIWYG_STRING_MODE, h) = new (no_mode\<lparr>className := Some ''string'', m_begin := Some [CHR 0x60],
              m_end := Some ([CHR 0x60] @ ''[cwd]?'')\<rparr>) h;
          (D_HEX_STRING_MODE, h) = new (no_mode\<lparr>className := Some ''string'', m_begin := Some (''x'' @ [CHR 0x22] @
              bs ''[%da-fA-F%s%n%r]*'' @ [CHR 0x22] @ ''[cwd]?''), m_relevance := Some 10\<rparr>) h;
          (D_TOKEN_STRING_MODE, h) = new (no_mode\<lparr>className := Some ''string'', m_begin := Some (''q'' @ [CHR 0x22] @
              bs ''%{''), m_end := Some (bs ''%}'' @ [CHR 0x22])\<rparr>) h;
          (D_HASHBANG_MODE, h) = new (no_mode\<lparr>className := Some ''meta'', m_begin := Some ''^#!'', m_end := Some ''$'',
              m_relevance := Some 5\<rparr>) h;
          (D_SPECIAL_TOKEN_SEQUENCE_MODE, h) = new (no_mode\<lparr>className := Some ''meta'', m_begin := Some ''#(line)'',
              m_end := Some ''$'', m_relevance := Some 5\<rparr>) h;
          (D_ATTRIBUTE_MODE, h) = new (no_mode\<lparr>className := Some ''keyword'',
              m_begin := Some (bs ''@[a-zA-Z_][a-zA-Z_%d]*'')\<rparr>) h;
          (D_NESTING_COMMENT_MODE, h) = COMMENT (bs ''%/%+'') (bs ''%+%/'') (no_mode\<lparr>contains := Some [Self],
              m_relevance := Some 10\<rparr>) h;
          D_KEYWORDS = KObj [(''keyword'', ''abstract alias align asm assert auto body break byte case cast catch class '' @
              ''const continue debug default delete deprecated do else enum export extern final '' @
              ''finally for foreach foreach_reverse|10 goto if immutable import in inout int '' @
              ''interface invariant is lazy macro mixin module new nothrow out override package '' @
              ''pragma private protected public pure ref return scope shared static struct '' @
              ''super switch synchronized template this throw try typedef typeid typeof union '' @
              ''unittest version void volatile while with __FILE__ __LINE__ __gshared|10 '' @
              ''__thread __traits __DATE__ __EOF__ __TIME__ __TIMESTAMP__ __VENDOR__ __VERSION__''), (''built_in'',
              ''bool cdouble cent cfloat char creal dchar delegate double dstring float function '' @
              ''idouble ifloat ireal long real short string ubyte ucent uint ulong ushort wchar '' @ ''wstring''),
              (''literal'', ''false null true'')];
          (language, h) = new (no_mode\<lparr>lexemes := Some UNDERSCORE_IDENT_RE, m_keywords := Some D_KEYWORDS,
              contains := Some [Ref hl_C_LINE_COMMENT_MODE, Ref hl_C_BLOCK_COMMENT_MODE, Ref D_NESTING_COMMENT_MODE,
              Ref D_HEX_STRING_MODE, Ref D_STRING_MODE, Ref D_WYSIWYG_DELIMITED_STRING_MODE,
              Ref D_ALTERNATE_WYSIWYG_STRING_MODE, Ref D_TOKEN_STRING_MODE, Ref D_FLOAT_MODE, Ref D_INTEGER_MODE,
              Ref D_CHARACTER_MODE, Ref D_HASHBANG_MODE, Ref D_SPECIAL_TOKEN_SEQUENCE_MODE,
              Ref D_ATTRIBUTE_MODE]\<rparr>) h
      in (language, h))"

definition lang_dart :: "mstore \<Rightarrow> nat \<times> mstore" where
  "lang_dart h =
     (let (m1, h) = new (no_mode\<lparr>m_begin := Some (bs ''%$[A-Za-z0-9_]+'')\<rparr>) h;
          (SUBST, h) = new (no_mode\<lparr>className := Some ''subst'', variants := Some [m1]\<rparr>) h;
          (m2, h) = new (no_mode\<lparr>m_begin := Some (bs ''%${''), m_end := Some ''}''\<rparr>) h;
          (BRACED_SUBST, h) = new (no_mode\<lparr>className := Some ''subst'', variants := Some [m2],
              m_keywords := Some (KStr ''true false null this is new super'')\<rparr>) h;
          (m3, h) = new (no_mode\<lparr>m_begin := Some (''r'' @ [CHR 0x27, CHR 0x27, CHR 0x27]), m_end := Some [CHR 0x27,
              CHR 0x27, CHR 0x27]\<rparr>) h;
          (m4, h) = new (no_mode\<lparr>m_begin := Some (''r'' @ [CHR 0x22, CHR 0x22, CHR 0x22]), m_end := Some [CHR 0x22,
              CHR 0x22, CHR 0x22]\<rparr>) h;
          (m5, h) = new (no_mode\<lparr>m_begin := Some (''r'' @ [CHR 0x27]), m_end := Some [CHR 0x27],
              illegal := Some (bs ''%n'')\<rparr>) h;
          (m6, h) = new (no_mode\<lparr>m_begin := Some (''r'' @ [CHR 0x22]), m_end := Some [CHR 0x22],
              illegal := Some (bs ''%n'')\<rparr>) h;
          (m7, h) = new (no_mode\<lparr>m_begin := Some [CHR 0x27, CHR 0x27, CHR 0x27], m_end := Some [CHR 0x27, CHR 0x27,
              CHR 0x27], contains := Some [Ref hl_BACKSLASH_ESCAPE, Ref SUBST, Ref BRACED_SUBST]\<rparr>) h;
          (m8, h) = new (no_mode\<lparr>m_begin := Some [CHR 0x22, CHR 0x22, CHR 0x22], m_end := Some [CHR 0x22, CHR 0x22,
              CHR 0x22], contains := Some [Ref hl_BACKSLASH_ESCAPE, Ref SUBST, Ref BRACED_SUBST]\<rparr>) h;
          (m9, h) = new (no_mode\<lparr>m_begin := Some [CHR 0x27], m_end := Some [CHR 0x27], illegal := Some (bs ''%n''),
              contains := Some [Ref hl_BACKSLASH_ESCAPE, Ref SUBST, Ref BRACED_SUBST]\<rparr>) h;
          (m10, h) = new (no_mode\<lparr>m_begin := Some [CHR 0x22], m_end := Some [CHR 0x22], illegal := Some (bs ''%n''),
              contains := Some [Ref hl_BACKSLASH_ESCAPE, Ref SUBST, Ref BRACED_SUBST]\<rparr>) h;
          (STRING, h) = new (no_mode\<lparr>className := Some ''string'', variants := Some [m3, m4, m5, m6, m7, m8, m9,
              m10]\<rparr>) h;
          h = upd BRACED_SUBST (\<lambda>m. m\<lparr>contains := Some [Ref hl_C_NUMBER_MODE, Ref STRING]\<rparr>) h;
          KEYWORDS = KObj [(''keyword'',
              ''assert async await break case catch class const continue default do else enum extends false final '' @
              ''finally for if in is new null rethrow return super switch sync this throw true try var void while with yield '' @
              ''abstract as dynamic export external factory get implements import library operator part set static typedef''),
              (''built_in'',
              ''print Comparable DateTime Duration Function Iterable Iterator List Map Match Null Object Pattern RegExp Set '' @
              ''Stopwatch String StringBuffer StringSink Symbol Type Uri bool double int num '' @
              ''document window querySelector querySelectorAll Element ElementList'')];
          (m11, h) = COMMENT (bs ''/%*%*'') (bs ''%*/'') (no_mode\<lparr>subLanguage := Some (SubName ''markdown'')\<rparr>) h;
          (m12, h) = COMMENT ''///'' ''$'' (no_mode\<lparr>subLanguage := Some (SubName ''markdown'')\<rparr>) h;
          (m13, h) = new (no_mode\<lparr>beginKeywords := Some ''extends implements''\<rparr>) h;
          (m14, h) = new (no_mode\<lparr>className := Some ''class'', beginKeywords := Some ''class interface'',
              m_end := Some ''{'', excludeEnd := Some True, contains := Some [Ref m13,
              Ref hl_UNDERSCORE_TITLE_MODE]\<rparr>) h;
          (m15, h) = new (no_mode\<lparr>className := Some ''meta'', m_begin := Some ''@[A-Za-z]+''\<rparr>) h;
          (m16, h) = new (no_mode\<lparr>m_begin := Some ''=>''\<rparr>) h;
          (language, h) = new (no_mode\<lparr>m_keywords := Some KEYWORDS, contains := Some [Ref STRING, Ref m11, Ref m12,
              Ref hl_C_LINE_COMMENT_MODE, Ref hl_C_BLOCK_COMMENT_MODE, Ref m14, Ref hl_C_NUMBER_MODE, Ref m15,
              Ref m16]\<rparr>) h
      in (language, h))"

definition lang_delphi :: "mstore \<Rightarrow> nat \<times> mstore" where
  "lang_delphi h =
     (let KEYWORDS = ''exports register file shl array record property for mod while set ally label uses raise not '' @
              ''stored class safecall var interface or private static exit index inherited to else stdcall '' @
              ''override shr asm far resourcestring finalization packed virtual out and protected library do '' @
              ''xorwrite goto near function end div overload object unit begin string on inline repeat until '' @
              ''destructor write message program with read initialization except default nil if case cdecl in '' @
              ''downto threadvar of try pascal const external constructor type public then implementation '' @
              ''finally published procedure absolute reintroduce operator as is abstract alias assembler '' @
              ''bitpacked break continue cppdecl cvar enumerator experimental platform deprecated '' @
              ''unimplemented dynamic export far16 forward generic helper implements interrupt iochecks '' @
              ''local name nodefault noreturn nostackframe oldfpccall otherwise saveregisters softfloat '' @
              ''specialize strict unaligned varargs '';
          (m1, h) = COMMENT (bs ''%{'') (bs ''%}'') (no_mode\<lparr>m_relevance := Some 0\<rparr>) h;
          (m2, h) = COMMENT (bs ''%(%*'') (bs ''%*%)'') (no_mode\<lparr>m_relevance := Some 10\<rparr>) h;
          COMMENT_MODES = [Ref hl_C_LINE_COMMENT_MODE, Ref m1, Ref m2];
          (m3, h) = new (no_mode\<lparr>m_begin := Some (bs ''%{%$''), m_end := Some (bs ''%}'')\<rparr>) h;
          (m4, h) = new (no_mode\<lparr>m_begin := Some (bs ''%(%*%$''), m_end := Some (bs ''%*%)'')\<rparr>) h;
          (DIRECTIVE, h) = new (no_mode\<lparr>className := Some ''meta'', variants := Some [m3, m4]\<rparr>) h;
          (m5, h) = new (no_mode\<lparr>m_begin := Some [CHR 0x27, CHR 0x27]\<rparr>) h;
          (STRING, h) = new (no_mode\<lparr>className := Some ''string'', m_begin := Some [CHR 0x27], m_end := Some [CHR 0x27],
              contains := Some [Ref m5]\<rparr>) h;
          (CHAR_STRING, h) = new (no_mode\<lparr>className := Some ''string'', m_begin := Some (bs ''(#%d+)+'')\<rparr>) h;
          (CLASS, h) = new (no_mode\<lparr>m_begin := Some (IDENT_RE @ bs ''%s*=%s*class%s*%(''), returnBegin := Some True,
              contains := Some [Ref hl_TITLE_MODE]\<rparr>) h;
          (m6, h) = new (no_mode\<lparr>className := Some ''params'', m_begin := Some (bs ''%(''), m_end := Some (bs ''%)''),
              m_keywords := Some (KStr KEYWORDS), contains := Some ([Ref STRING, Ref CHAR_STRING, Ref DIRECTIVE] @
              COMMENT_MODES)\<rparr>) h;
          (FUNCTION, h) = new (no_mode\<lparr>className := Some ''function'',
              beginKeywords := Some ''function constructor destructor procedure'', m_end := Some ''[:;]'',
              m_keywords := Some (KStr ''function constructor|10 destructor|10 procedure|10''),
              contains := Some ([Ref hl_TITLE_MODE, Ref m6, Ref DIRECTIVE] @ COMMENT_MODES)\<rparr>) h;
          (language, h) = new (no_mode\<lparr>aliases := Some [''dpr'', ''dfm'', ''pas'', ''pascal'', ''freepascal'',
              ''lazarus'', ''lpr'', ''lfm''], case_insensitive := Some True, m_keywords := Some (KStr KEYWORDS),
              illegal := Some ([CHR 0x22] @ bs ''|%$[G-Zg-z]|%/%*|<%/|%|''), contains := Some ([Ref STRING,
              Ref CHAR_STRING, Ref hl_NUMBER_MODE, Ref CLASS, Ref FUNCTION, Ref DIRECTIVE] @ COMMENT_MODES)\<rparr>) h
      in (language, h))"

definition lang_diff :: "mstore \<Rightarrow> nat \<times> mstore" where
  "lang_diff h =
     (let (m1, h) = new (no_mode\<lparr>m_begin := Some (bs ''^@@ +%-%d+,%d+ +%+%d+,%d+ +@@$'')\<rparr>) h;
          (m2, h) = new (no_mode\<lparr>m_begin := Some (bs ''^%*%*%* +%d+,%d+ +%*%*%*%*$'')\<rparr>) h;
          (m3, h) = new (no_mode\<lparr>m_begin := Some (bs ''^%-%-%- +%d+,%d+ +%-%-%-%-$'')\<rparr>) h;
          (m4, h) = new (no_mode\<lparr>className := Some ''meta'', m_relevance := Some 10, variants := Some [m1, m2,
              m3]\<rparr>) h;
          (m5, h) = new (no_mode\<lparr>m_begin := Some ''Index: '', m_end := Some ''$''\<rparr>) h;
          (m6, h) = new (no_mode\<lparr>m_begin := Some ''={3,}'', m_end := Some ''$''\<rparr>) h;
          (m7, h) = new (no_mode\<lparr>m_begin := Some (bs ''^%-{3}''), m_end := Some ''$''\<rparr>) h;
          (m8, h) = new (no_mode\<lparr>m_begin := Some (bs ''^%*{3} ''), m_end := Some ''$''\<rparr>) h;
          (m9, h) = new (no_mode\<lparr>m_begin := Some (bs ''^%+{3}''), m_end := Some ''$''\<rparr>) h;
          (m10, h) = new (no_mode\<lparr>m_begin := Some (bs ''%*{5}''), m_end := Some (bs ''%*{5}$'')\<rparr>) h;
          (m11, h) = new (no_mode\<lparr>className := Some ''comment'', variants := Some [m5, m6, m7, m8, m9, m10]\<rparr>) h;
          (m12, h) = new (no_mode\<lparr>className := Some ''addition'', m_begin := Some (bs ''^%+''),
              m_end := Some ''$''\<rparr>) h;
          (m13, h) = new (no_mode\<lparr>className := Some ''deletion'', m_begin := Some (bs ''^%-''),
              m_end := Some ''$''\<rparr>) h;
          (m14, h) = new (no_mode\<lparr>className := Some ''addition'', m_begin := Some (bs ''^%!''),
              m_end := Some ''$''\<rparr>) h;
          (language, h) = new (no_mode\<lparr>aliases := Some [''patch''], contains := Some [Ref m4, Ref m11, Ref m12, Ref m13,
              Ref m14]\<rparr>) h
      in (language, h))"

definition lang_django :: "mstore \<Rightarrow> nat \<times> mstore" where
  "lang_django h =
     (let (FILTER, h) = new (no_mode\<lparr>m_begin := Some (bs ''%|[A-Za-z]+:?''), m_keywords := Some (KObj [(''name'',
              ''truncatewords removetags linebreaksbr yesno get_digit timesince random striptags '' @
              ''filesizeformat escape linebreaks length_is ljust rjust cut urlize fix_ampersands '' @
              ''title floatformat capfirst pprint divisibleby add make_list unordered_list urlencode '' @
              ''timeuntil urlizetrunc wordcount stringformat linenumbers slice date dictsort '' @
              ''dictsortreversed default_if_none pluralize lower join center default '' @
              ''truncatewords_html upper length phone2numeric wordwrap time addslashes slugify first '' @
              ''escapejs force_escape iriencode last safe safeseq truncatechars localize unlocalize '' @
              ''localtime utc timezone'')]), contains := Some [Ref hl_QUOTE_STRING_MODE,
              Ref hl_APOS_STRING_MODE]\<rparr>) h;
          (m1, h) = COMMENT (bs ''%{'' @ ''%'' @ bs ''%s*comment%s*'' @ ''%'' @ ''}'') (bs ''%{'' @ ''%'' @
              bs ''%s*endcomment%s*'' @ ''%'' @ ''}'') no_mode h;
          (m2, h) = COMMENT (bs ''%{#'') ''#}'' no_mode h;
          (m3, h) = new (no_mode\<lparr>endsWithParent := Some True, m_keywords := Some (KStr ''in by as''),
              contains := Some [Ref FILTER], m_relevance := Some 0\<rparr>) h;
          (m4, h) = new (no_mode\<lparr>className := Some ''name'', m_begin := Some (bs ''%w+''),
              m_keywords := Some (KObj [(''name'',
              ''comment endcomment load templatetag ifchanged endifchanged if endif firstof for '' @
              ''endfor ifnotequal endifnotequal widthratio extends include spaceless '' @
              ''endspaceless regroup ifequal endifequal ssi now with cycle url filter '' @
              ''endfilter debug block endblock else autoescape endautoescape csrf_token empty elif '' @
              ''endwith static trans blocktrans endblocktrans get_static_prefix get_media_prefix '' @
              ''plural get_current_language language get_available_languages '' @
              ''get_current_language_bidi get_language_info get_language_info_list localize '' @
              ''endlocalize localtime endlocaltime timezone endtimezone get_current_timezone '' @ ''verbatim'')]),
              starts := Some m3\<rparr>) h;
          (m5, h) = new (no_mode\<lparr>className := Some ''template-tag'', m_begin := Some (bs ''%{'' @ ''%''),
              m_end := Some ''%}'', contains := Some [Ref m4]\<rparr>) h;
          (m6, h) = new (no_mode\<lparr>className := Some ''template-variable'', m_begin := Some (bs ''%{%{''),
              m_end := Some ''}}'', contains := Some [Ref FILTER]\<rparr>) h;
          (language, h) = new (no_mode\<lparr>aliases := Some [''jinja''], case_insensitive := Some True,
              subLanguage := Some (SubName ''xml''), contains := Some [Ref m1, Ref m2, Ref m5, Ref m6]\<rparr>) h
      in (language, h))"

definition lang_dns :: "mstore \<Rightarrow> nat \<times> mstore" where
  "lang_dns h =
     (let (m1, h) = COMMENT '';'' ''$'' (no_mode\<lparr>m_relevance := Some 0\<rparr>) h;
          (m2, h) = new (no_mode\<lparr>className := Some ''meta'',
              m_begin := Some (bs ''^%$(TTL|GENERATE|INCLUDE|ORIGIN)%b'')\<rparr>) h;
          (m3, h) = new (no_mode\<lparr>className := Some ''number'',
              m_begin := Some (''((([0-9A-Fa-f]{1,4}:){7}([0-9A-Fa-f]{1,4}|:))|(([0-9A-Fa-f]{1,4}:){6}(:[0-9A-Fa-f]{1,4}|((25[0-5]|2[0'' @
              bs ''-4]%d|1%d%d|[1-9]?%d)(%.(25[0-5]|2[0-4]%d|1%d%d|[1-9]?%d)){3})|:))|(([0-9A-Fa-f]{1,4}:){5}(((:[0-9A-F'' @
              bs ''a-f]{1,4}){1,2})|:((25[0-5]|2[0-4]%d|1%d%d|[1-9]?%d)(%.(25[0-5]|2[0-4]%d|1%d%d|[1-9]?%d)){3})|:))|((['' @
              bs ''0-9A-Fa-f]{1,4}:){4}(((:[0-9A-Fa-f]{1,4}){1,3})|((:[0-9A-Fa-f]{1,4})?:((25[0-5]|2[0-4]%d|1%d%d|[1-9]?'' @
              bs ''%d)(%.(25[0-5]|2[0-4]%d|1%d%d|[1-9]?%d)){3}))|:))|(([0-9A-Fa-f]{1,4}:){3}(((:[0-9A-Fa-f]{1,4}){1,4})|'' @
              bs ''((:[0-9A-Fa-f]{1,4}){0,2}:((25[0-5]|2[0-4]%d|1%d%d|[1-9]?%d)(%.(25[0-5]|2[0-4]%d|1%d%d|[1-9]?%d)){3})'' @
              bs '')|:))|(([0-9A-Fa-f]{1,4}:){2}(((:[0-9A-Fa-f]{1,4}){1,5})|((:[0-9A-Fa-f]{1,4}){0,3}:((25[0-5]|2[0-4]%d'' @
              bs ''|1%d%d|[1-9]?%d)(%.(25[0-5]|2[0-4]%d|1%d%d|[1-9]?%d)){3}))|:))|(([0-9A-Fa-f]{1,4}:){1}(((:[0-9A-Fa-f]'' @
              bs ''{1,4}){1,6})|((:[0-9A-Fa-f]{1,4}){0,4}:((25[0-5]|2[0-4]%d|1%d%d|[1-9]?%d)(%.(25[0-5]|2[0-4]%d|1%d%d|['' @
              bs ''1-9]?%d)){3}))|:))|(:(((:[0-9A-Fa-f]{1,4}){1,7})|((:[0-9A-Fa-f]{1,4}){0,5}:((25[0-5]|2[0-4]%d|1%d%d|['' @
              bs ''1-9]?%d)(%.(25[0-5]|2[0-4]%d|1%d%d|[1-9]?%d)){3}))|:)))%b'')\<rparr>) h;
          (m4, h) = new (no_mode\<lparr>className := Some ''number'',
              m_begin := Some (bs ''((25[0-5]|(2[0-4]|1{0,1}[0-9]){0,1}[0-9]).){3,3}(25[0-5]|(2[0-4]|1{0,1}[0-9]){0,1}[0-9])%b'')\<rparr>) h;
          (m5,
              h) = new (inherit_mode (mode_at h hl_NUMBER_MODE) [(no_mode\<lparr>m_begin := Some (bs ''%b%d+[dhwm]?'')\<rparr>)]) h;
          (language, h) = new (no_mode\<lparr>aliases := Some [''bind'', ''zone''], m_keywords := Some (KObj [(''keyword'',
              ''IN A AAAA AFSDB APL CAA CDNSKEY CDS CERT CNAME DHCID DLV DNAME DNSKEY DS HIP IPSECKEY KEY KX '' @
              ''LOC MX NAPTR NS NSEC NSEC3 NSEC3PARAM PTR RRSIG RP SIG SOA SRV SSHFP TA TKEY TLSA TSIG TXT'')]),
              contains := Some [Ref m1, Ref m2, Ref m3, Ref m4, Ref m5]\<rparr>) h
      in (language, h))"

definition lang_dockerfile :: "mstore \<Rightarrow> nat \<times> mstore" where
  "lang_dockerfile h =
     (let (m1, h) = new (no_mode\<lparr>m_end := Some (bs ''[^%%]$''), subLanguage := Some (SubName ''bash'')\<rparr>) h;
          (m2,
              h) = new (no_mode\<lparr>beginKeywords := Some ''run cmd entrypoint volume add copy workdir label healthcheck shell'',
              starts := Some m1\<rparr>) h;
          (language, h) = new (no_mode\<lparr>aliases := Some [''docker''], case_insensitive := Some True,
              m_keywords := Some (KStr ''from maintainer expose env arg user onbuild stopsignal''),
              contains := Some [Ref hl_HASH_COMMENT_MODE, Ref hl_APOS_STRING_MODE, Ref hl_QUOTE_STRING_MODE,
              Ref hl_NUMBER_MODE, Ref m2], illegal := Some ''</''\<rparr>) h
      in (language, h))"

definition lang_dos :: "mstore \<Rightarrow> nat \<times> mstore" where
  "lang_dos h =
     (let (COMMENT', h) = COMMENT (bs ''^%s*@?rem%b'') ''$'' (no_mode\<lparr>m_relevance := Some 10\<rparr>) h;
          (LABEL, h) = new (no_mode\<lparr>className := Some ''symbol'',
              m_begin := Some (bs ''^%s*[A-Za-z._?][A-Za-z0-9_$#@~.?]*(:|%s+label)''),
              m_relevance := Some 0\<rparr>) h;
          (m1, h) = new (no_mode\<lparr>className := Some ''variable'', m_begin := Some ''%%[^ ]|%[^ ]+?%|![^ ]+?!''\<rparr>) h;
          (m2,
              h) = new (inherit_mode (mode_at h hl_TITLE_MODE) [(no_mode\<lparr>m_begin := Some (bs ''([_a-zA-Z]%w*%.)*([_a-zA-Z]%w*:)?[_a-zA-Z]%w*'')\<rparr>)]) h;
          (m3, h) = new (no_mode\<lparr>className := Some ''function'',
              m_begin := Some (bs ''^%s*[A-Za-z._?][A-Za-z0-9_$#@~.?]*(:|%s+label)''), m_end := Some ''goto:eof'',
              contains := Some [Ref m2, Ref COMMENT']\<rparr>) h;
          (m4, h) = new (no_mode\<lparr>className := Some ''number'', m_begin := Some (bs ''%b%d+''),
              m_relevance := Some 0\<rparr>) h;
          (language, h) = new (no_mode\<lparr>aliases := Some [''bat'', ''cmd''], case_insensitive := Some True,
              illegal := Some (bs ''%/%*''), m_keywords := Some (KObj [(''keyword'',
              ''if else goto for in do call exit not exist errorlevel defined '' @ ''equ neq lss leq gtr geq''),
              (''built_in'', ''prn nul lpt3 lpt2 lpt1 con com4 com3 com2 com1 aux '' @
              ''shift cd dir echo setlocal endlocal set pause copy '' @
              ''append assoc at attrib break cacls cd chcp chdir chkdsk chkntfs cls cmd color '' @
              ''comp compact convert date dir diskcomp diskcopy doskey erase fs '' @
              ''find findstr format ftype graftabl help keyb label md mkdir mode more move path '' @
              ''pause print popd pushd promt rd recover rem rename replace restore rmdir shift'' @
              ''sort start subst time title tree type ver verify vol '' @
              ''ping net ipconfig taskkill xcopy ren del'')]), contains := Some [Ref m1, Ref m3, Ref m4,
              Ref COMMENT']\<rparr>) h
      in (language, h))"

definition lang_dsconfig :: "mstore \<Rightarrow> nat \<times> mstore" where
  "lang_dsconfig h =
     (let (QUOTED_PROPERTY, h) = new (no_mode\<lparr>className := Some ''string'', m_begin := Some [CHR 0x22],
              m_end := Some [CHR 0x22]\<rparr>) h;
          (APOS_PROPERTY, h) = new (no_mode\<lparr>className := Some ''string'', m_begin := Some [CHR 0x27],
              m_end := Some [CHR 0x27]\<rparr>) h;
          (UNQUOTED_PROPERTY, h) = new (no_mode\<lparr>className := Some ''string'', m_begin := Some (bs ''[%w-?]+:%w+''),
              m_end := Some (bs ''%W''), m_relevance := Some 0\<rparr>) h;
          (VALUELESS_PROPERTY, h) = new (no_mode\<lparr>className := Some ''string'', m_begin := Some (bs ''%w+-?%w+''),
              m_end := Some (bs ''%W''), m_relevance := Some 0\<rparr>) h;
          (m1, h) = new (no_mode\<lparr>className := Some ''keyword'', m_begin := Some ''^dsconfig'',
              m_end := Some (bs ''%s''), excludeEnd := Some True, m_relevance := Some 10\<rparr>) h;
          (m2, h) = new (no_mode\<lparr>className := Some ''built_in'',
              m_begin := Some (bs ''(list|create|get|set|delete)-(%w+)''), m_end := Some (bs ''%s''),
              excludeEnd := Some True, illegal := Some ''!@#$%^&*()'', m_relevance := Some 10\<rparr>) h;
          (m3, h) = new (no_mode\<lparr>className := Some ''built_in'', m_begin := Some (bs ''--(%w+)''),
              m_end := Some (bs ''%s''), excludeEnd := Some True\<rparr>) h;
          (language, h) = new (no_mode\<lparr>m_keywords := Some (KStr ''dsconfig''), contains := Some [Ref m1, Ref m2, Ref m3,
              Ref QUOTED_PROPERTY, Ref APOS_PROPERTY, Ref UNQUOTED_PROPERTY, Ref VALUELESS_PROPERTY,
              Ref hl_HASH_COMMENT_MODE]\<rparr>) h
      in (language, h))"

definition lang_dts :: "mstore \<Rightarrow> nat \<times> mstore" where
  "lang_dts h =
     (let (m1, h) = new (inherit_mode (mode_at h hl_QUOTE_STRING_MODE) [(no_mode\<lparr>m_begin := Some (''((u8?|U)|L)?'' @
              [CHR 0x22])\<rparr>)]) h;
          (m2, h) = new (no_mode\<lparr>m_begin := Some (''(u8?|U)?R'' @ [CHR 0x22]), m_end := Some [CHR 0x22],
              contains := Some [Ref hl_BACKSLASH_ESCAPE]\<rparr>) h;
          (m3, h) = new (no_mode\<lparr>m_begin := Some ([CHR 0x27] @ bs ''%%?.''), m_end := Some [CHR 0x27],
              illegal := Some ''.''\<rparr>) h;
          (STRINGS, h) = new (no_mode\<lparr>className := Some ''string'', variants := Some [m1, m2, m3]\<rparr>) h;
          (m4, h) = new (no_mode\<lparr>m_begin := Some (bs ''%b(%d+(%.%d*'' @ bs '')?|%.%d+)(u|U|l|L|ul|UL|f|F)'')\<rparr>) h;
          (m5, h) = new (no_mode\<lparr>m_begin := Some C_NUMBER_RE\<rparr>) h;
          (NUMBERS, h) = new (no_mode\<lparr>className := Some ''number'', variants := Some [m4, m5],
              m_relevance := Some 0\<rparr>) h;
          (m6, h) = new (no_mode\<lparr>m_begin := Some (bs ''%%%n''), m_relevance := Some 0\<rparr>) h;
          (m7, h) = new (inherit_mode (mode_at h STRINGS) [(no_mode\<lparr>className := Some ''meta-string''\<rparr>)]) h;
          (m8, h) = new (no_mode\<lparr>className := Some ''meta-string'', m_begin := Some ''<'', m_end := Some ''>'',
              illegal := Some (bs ''%n'')\<rparr>) h;
          (m9, h) = new (no_mode\<lparr>beginKeywords := Some ''include'', m_end := Some ''$'',
              m_keywords := Some (KObj [(''meta-keyword'', ''include'')]), contains := Some [Ref m7,
              Ref m8]\<rparr>) h;
          (PREPROCESSOR, h) = new (no_mode\<lparr>className := Some ''meta'', m_begin := Some ''#'', m_end := Some ''$'',
              m_keywords := Some (KObj [(''meta-keyword'', ''if else elif endif define undef ifdef ifndef'')]),
              contains := Some [Ref m6, Ref m9, Ref STRINGS, Ref hl_C_LINE_COMMENT_MODE,
              Ref hl_C_BLOCK_COMMENT_MODE]\<rparr>) h;
          (DTS_REFERENCE, h) = new (no_mode\<lparr>className := Some ''variable'',
              m_begin := Some (bs ''%&[a-z%d_]*%b'')\<rparr>) h;
          (DTS_KEYWORD, h) = new (no_mode\<lparr>className := Some ''meta-keyword'',
              m_begin := Some (bs ''/[a-z][a-z%d-]*/'')\<rparr>) h;
          (DTS_LABEL, h) = new (no_mode\<lparr>className := Some ''symbol'',
              m_begin := Some (bs ''^%s*[a-zA-Z_][a-zA-Z%d_]*:'')\<rparr>) h;
          (DTS_CELL_PROPERTY, h) = new (no_mode\<lparr>className := Some ''params'', m_begin := Some ''<'',
              m_end := Some ''>'', contains := Some [Ref NUMBERS, Ref DTS_REFERENCE]\<rparr>) h;
          (DTS_NODE, h) = new (no_mode\<lparr>className := Some ''class'', m_begin := Some (bs ''[a-zA-Z_][a-zA-Z%d_@]*%s{''),
              m_end := Some ''[{;=]'', returnBegin := Some True, excludeEnd := Some True\<rparr>) h;
          (DTS_ROOT_NODE, h) = new (no_mode\<lparr>className := Some ''class'', m_begin := Some (bs ''/%s*{''),
              m_end := Some ''};'', m_relevance := Some 10, contains := Some [Ref DTS_REFERENCE, Ref DTS_KEYWORD,
              Ref DTS_LABEL, Ref DTS_NODE, Ref DTS_CELL_PROPERTY, Ref hl_C_LINE_COMMENT_MODE,
              Ref hl_C_BLOCK_COMMENT_MODE, Ref NUMBERS, Ref STRINGS]\<rparr>) h;
          (m10, h) = new (no_mode\<lparr>m_begin := Some (IDENT_RE @ ''::''), m_keywords := Some (KStr [])\<rparr>) h;
          (language, h) = new (no_mode\<lparr>m_keywords := Some (KStr []), contains := Some [Ref DTS_ROOT_NODE,
              Ref DTS_REFERENCE, Ref DTS_KEYWORD, Ref DTS_LABEL, Ref DTS_NODE, Ref DTS_CELL_PROPERTY,
              Ref hl_C_LINE_COMMENT_MODE, Ref hl_C_BLOCK_COMMENT_MODE, Ref NUMBERS, Ref STRINGS, Ref PREPROCESSOR,
              Ref m10]\<rparr>) h
      in (language, h))"

definition lang_dust :: "mstore \<Rightarrow> nat \<times> mstore" where
  "lang_dust h =
     (let EXPRESSION_KEYWORDS = ''if eq ne lt lte gt gte select default math sep'';
          (m1, h) = new (no_mode\<lparr>endsWithParent := Some True, m_relevance := Some 0,
              contains := Some [Ref hl_QUOTE_STRING_MODE]\<rparr>) h;
          (m2, h) = new (no_mode\<lparr>className := Some ''name'', m_begin := Some (bs ''[a-zA-Z%.-]+''),
              starts := Some m1\<rparr>) h;
          (m3, h) = new (no_mode\<lparr>className := Some ''template-tag'', m_begin := Some (bs ''%{[#%/]''),
              m_end := Some (bs ''%}''), illegal := Some '';'', contains := Some [Ref m2]\<rparr>) h;
          (m4, h) = new (no_mode\<lparr>className := Some ''template-variable'', m_begin := Some (bs ''%{''),
              m_end := Some (bs ''%}''), illegal := Some '';'',
              m_keywords := Some (KStr EXPRESSION_KEYWORDS)\<rparr>) h;
          (language, h) = new (no_mode\<lparr>aliases := Some [''dst''], case_insensitive := Some True,
              subLanguage := Some (SubName ''xml''), contains := Some [Ref m3, Ref m4]\<rparr>) h
      in (language, h))"

definition lang_ebnf :: "mstore \<Rightarrow> nat \<times> mstore" where
  "lang_ebnf h =
     (let (commentMode, h) = COMMENT (bs ''%(%*'') (bs ''%*%)'') no_mode h;
          (nonTerminalMode, h) = new (no_mode\<lparr>className := Some ''attribute'',
              m_begin := Some (bs ''^[ ]*[a-zA-Z][a-zA-Z-]*([%s-]+[a-zA-Z][a-zA-Z]*'' @ '')*'')\<rparr>) h;
          (specialSequenceMode, h) = new (no_mode\<lparr>className := Some ''meta'', m_begin := Some (bs ''%?.*%?'')\<rparr>) h;
          (ruleBodyMode, h) = new (no_mode\<lparr>m_begin := Some ''='', m_end := Some '';'',
              contains := Some [Ref commentMode, Ref specialSequenceMode, Ref hl_APOS_STRING_MODE,
              Ref hl_QUOTE_STRING_MODE]\<rparr>) h;
          (language, h) = new (no_mode\<lparr>illegal := Some (bs ''%S''), contains := Some [Ref commentMode,
              Ref nonTerminalMode, Ref ruleBodyMode]\<rparr>) h
      in (language, h))"

definition lang_elixir :: "mstore \<Rightarrow> nat \<times> mstore" where
  "lang_elixir h =
     (let ELIXIR_IDENT_RE = bs ''[a-zA-Z_][a-zA-Z0-9_.]*(%!|%?)?'';
          ELIXIR_METHOD_RE = bs ''[a-zA-Z_]%w*[!?=]?|[-+~]%@|<<|>>|=~|===?|<=>|[<>]=?|%*%*|[-/+'' @ ''%'' @ ''^&*~'' @
              [CHR 0x60] @ bs ''|]|%[%]=?'';
          ELIXIR_KEYWORDS = ''and false then defined module in return redo retry end for true self when '' @
              ''next until do begin unless nil break not case cond alias while ensure or '' @
              ''include use alias fn quote require import with|0'';
          (SUBST, h) = new (no_mode\<lparr>className := Some ''subst'', m_begin := Some (bs ''#%{''), m_end := Some ''}'',
              lexemes := Some ELIXIR_IDENT_RE, m_keywords := Some (KStr ELIXIR_KEYWORDS)\<rparr>) h;
          (m1, h) = new (no_mode\<lparr>m_begin := Some [CHR 0x27], m_end := Some [CHR 0x27]\<rparr>) h;
          (m2, h) = new (no_mode\<lparr>m_begin := Some [CHR 0x22], m_end := Some [CHR 0x22]\<rparr>) h;
          (STRING, h) = new (no_mode\<lparr>className := Some ''string'', contains := Some [Ref hl_BACKSLASH_ESCAPE,
              Ref SUBST], variants := Some [m1, m2]\<rparr>) h;
          (m3, h) = new (inherit_mode (mode_at h hl_TITLE_MODE) [(no_mode\<lparr>m_begin := Some ELIXIR_IDENT_RE,
              endsParent := Some True\<rparr>)]) h;
          (FUNCTION, h) = new (no_mode\<lparr>className := Some ''function'', beginKeywords := Some ''def defp defmacro'',
              m_end := Some (bs ''%B%b''), contains := Some [Ref m3]\<rparr>) h;
          (CLASS, h) = new (inherit_mode (mode_at h FUNCTION) [(no_mode\<lparr>className := Some ''class'',
              beginKeywords := Some ''defimpl defmodule defprotocol defrecord'',
              m_end := Some (bs ''%bdo%b|$|;'')\<rparr>)]) h;
          (m4, h) = new (no_mode\<lparr>m_begin := Some ''::''\<rparr>) h;
          (m5, h) = new (no_mode\<lparr>m_begin := Some ELIXIR_METHOD_RE\<rparr>) h;
          (m6, h) = new (no_mode\<lparr>className := Some ''symbol'', m_begin := Some (bs '':(?![%s:])''),
              contains := Some [Ref STRING, Ref m5], m_relevance := Some 0\<rparr>) h;
          (m7, h) = new (no_mode\<lparr>className := Some ''symbol'', m_begin := Some (ELIXIR_IDENT_RE @ '':(?!:)''),
              m_relevance := Some 0\<rparr>) h;
          (m8, h) = new (no_mode\<lparr>className := Some ''number'',
              m_begin := Some (bs ''(%b0[0-7_]+)|(%b0x[0-9a-fA-F_]+)|(%b[1-9][0-9_]*(%.[0-9_]+)?)|[0_]%b''),
              m_relevance := Some 0\<rparr>) h;
          (m9, h) = new (no_mode\<lparr>className := Some ''variable'',
              m_begin := Some (bs ''(%$%W)|((%$|%@%@?)(%w+))'')\<rparr>) h;
          (m10, h) = new (no_mode\<lparr>m_begin := Some ''->''\<rparr>) h;
          (m11, h) = new (no_mode\<lparr>m_begin := Some ''/'', m_end := Some ''/[a-z]*''\<rparr>) h;
          (m12, h) = new (no_mode\<lparr>m_begin := Some (''%'' @ bs ''r%[''), m_end := Some (bs ''%][a-z]*'')\<rparr>) h;
          (m13, h) = new (no_mode\<lparr>className := Some ''regexp'', illegal := Some (bs ''%n''),
              contains := Some [Ref hl_BACKSLASH_ESCAPE, Ref SUBST], variants := Some [m11, m12]\<rparr>) h;
          (m14, h) = new (no_mode\<lparr>m_begin := Some (''('' @ RE_STARTERS_RE @ bs '')%s*''),
              contains := Some [Ref hl_HASH_COMMENT_MODE, Ref m13], m_relevance := Some 0\<rparr>) h;
          ELIXIR_DEFAULT_CONTAINS = [Ref STRING, Ref hl_HASH_COMMENT_MODE, Ref CLASS, Ref FUNCTION, Ref m4, Ref m6, Ref m7,
              Ref m8, Ref m9, Ref m10, Ref m14];
          h = upd SUBST (\<lambda>m. m\<lparr>contains := Some ELIXIR_DEFAULT_CONTAINS\<rparr>) h;
          (language, h) = new (no_mode\<lparr>lexemes := Some ELIXIR_IDENT_RE, m_keywords := Some (KStr ELIXIR_KEYWORDS),
              contains := Some ELIXIR_DEFAULT_CONTAINS\<rparr>) h
      in (language, h))"

definition lang_elm :: "mstore \<Rightarrow> nat \<times> mstore" where
  "lang_elm h =
     (let (m1, h) = COMMENT ''--'' ''$'' no_mode h;
          (m2, h) = COMMENT ''{-'' ''-}'' (no_mode\<lparr>contains := Some [Self]\<rparr>) h;
          (COMMENT', h) = new (no_mode\<lparr>variants := Some [m1, m2]\<rparr>) h;
          (CONSTRUCTOR, h) = new (no_mode\<lparr>className := Some ''type'', m_begin := Some (bs ''%b[A-Z][%w'' @ [CHR 0x27] @
              '']*''), m_relevance := Some 0\<rparr>) h;
          (m3, h) = new (no_mode\<lparr>className := Some ''type'',
              m_begin := Some (bs ''%b[A-Z][%w]*(%((%.%.|,|%w+)%))?'')\<rparr>) h;
          (LIST, h) = new (no_mode\<lparr>m_begin := Some (bs ''%(''), m_end := Some (bs ''%)''), illegal := Some [CHR 0x22],
              contains := Some [Ref m3, Ref COMMENT']\<rparr>) h;
          (RECORD, h) = new (no_mode\<lparr>m_begin := Some ''{'', m_end := Some ''}'', contains := Some [Ref m3,
              Ref COMMENT']\<rparr>) h;
          (CHARACTER, h) = new (no_mode\<lparr>className := Some ''string'', m_begin := Some ([CHR 0x27] @ bs ''%%?.''),
              m_end := Some [CHR 0x27], illegal := Some ''.''\<rparr>) h;
          (m4, h) = new (no_mode\<lparr>beginKeywords := Some ''port effect module'', m_end := Some ''exposing'',
              m_keywords := Some (KStr ''port effect module where command subscription exposing''),
              contains := Some [Ref LIST, Ref COMMENT'], illegal := Some (bs ''%W%.|;'')\<rparr>) h;
          (m5, h) = new (no_mode\<lparr>m_begin := Some ''import'', m_end := Some ''$'',
              m_keywords := Some (KStr ''import as exposing''), contains := Some [Ref LIST, Ref COMMENT'],
              illegal := Some (bs ''%W%.|;'')\<rparr>) h;
          (m6, h) = new (no_mode\<lparr>m_begin := Some ''type'', m_end := Some ''$'',
              m_keywords := Some (KStr ''type alias''), contains := Some [Ref CONSTRUCTOR, Ref LIST, Ref RECORD,
              Ref COMMENT']\<rparr>) h;
          (m7, h) = new (no_mode\<lparr>beginKeywords := Some (''i'' @ ''nfix i'' @ ''nfixl i'' @ ''nfixr''),
              m_end := Some ''$'', contains := Some [Ref hl_C_NUMBER_MODE, Ref COMMENT']\<rparr>) h;
          (m8, h) = new (no_mode\<lparr>m_begin := Some ''port'', m_end := Some ''$'', m_keywords := Some (KStr ''port''),
              contains := Some [Ref COMMENT']\<rparr>) h;
          (m9, h) = new (inherit_mode (mode_at h hl_TITLE_MODE) [(no_mode\<lparr>m_begin := Some (bs ''^[_a-z][%w'' @
              [CHR 0x27] @ '']*'')\<rparr>)]) h;
          (m10, h) = new (no_mode\<lparr>m_begin := Some ''->|<-''\<rparr>) h;
          (language,
              h) = new (no_mode\<lparr>m_keywords := Some (KStr (''let in if then else case of where module import exposing '' @
              ''type alias as i'' @ ''nfix i'' @ ''nfixl i'' @ ''nfixr port effect command subscription'')),
              contains := Some [Ref m4, Ref m5, Ref m6, Ref m7, Ref m8, Ref CHARACTER, Ref hl_QUOTE_STRING_MODE,
              Ref hl_C_NUMBER_MODE, Ref CONSTRUCTOR, Ref m9, Ref COMMENT', Ref m10], illegal := Some '';''\<rparr>) h
      in (language, h))"

definition lang_erb :: "mstore \<Rightarrow> nat \<times> mstore" where
  "lang_erb h =
     (let (m1, h) = COMMENT ''<%#'' ''%>'' no_mode h;
          (m2, h) = new (no_mode\<lparr>m_begin := Some ''<%[%=-]?'', m_end := Some ''[%-]?%>'',
              subLanguage := Some (SubName ''ruby''), excludeBegin := Some True, excludeEnd := Some True\<rparr>) h;
          (language, h) = new (no_mode\<lparr>subLanguage := Some (SubName ''xml''), contains := Some [Ref m1, Ref m2]\<rparr>) h
      in (language, h))"

definition lang_erlang_repl :: "mstore \<Rightarrow> nat \<times> mstore" where
  "lang_erlang_repl h =
     (let (m1, h) = new (no_mode\<lparr>className := Some ''meta'', m_begin := Some ''^[0-9]+> '',
              m_relevance := Some 10\<rparr>) h;
          (m2, h) = COMMENT ''%'' ''$'' no_mode h;
          (m3, h) = new (no_mode\<lparr>className := Some ''number'',
              m_begin := Some (bs ''%b(%d+#[a-fA-F0-9]+|%d+(%.%d+)?([eE][-+]?%d+)?)''),
              m_relevance := Some 0\<rparr>) h;
          (m4, h) = new (no_mode\<lparr>m_begin := Some (bs ''%?(::)?([A-Z]%w*(::)?)+'')\<rparr>) h;
          (m5, h) = new (no_mode\<lparr>m_begin := Some ''->''\<rparr>) h;
          (m6, h) = new (no_mode\<lparr>m_begin := Some ''ok''\<rparr>) h;
          (m7, h) = new (no_mode\<lparr>m_begin := Some ''!''\<rparr>) h;
          (m8, h) = new (no_mode\<lparr>m_begin := Some (bs ''(%b[a-z'' @ [CHR 0x27] @ ''][a-zA-Z0-9_'' @ [CHR 0x27] @
              '']*:[a-z'' @ [CHR 0x27] @ ''][a-zA-Z0-9_'' @ [CHR 0x27] @ '']*'' @ bs '')|(%b[a-z'' @ [CHR 0x27] @
              ''][a-zA-Z0-9_'' @ [CHR 0x27] @ '']*'' @ '')''), m_relevance := Some 0\<rparr>) h;
          (m9, h) = new (no_mode\<lparr>m_begin := Some (''[A-Z][a-zA-Z0-9_'' @ [CHR 0x27] @ '']*''),
              m_relevance := Some 0\<rparr>) h;
          (language, h) = new (no_mode\<lparr>m_keywords := Some (KObj [(''built_in'', ''spawn spawn_link self''),
              (''keyword'',
              ''after and andalso|10 band begin bnot bor bsl bsr bxor case catch cond div end fun if '' @
              ''let not of or orelse|10 query receive rem try when xor'')]), contains := Some [Ref m1, Ref m2,
              Ref m3, Ref hl_APOS_STRING_MODE, Ref hl_QUOTE_STRING_MODE, Ref m4, Ref m5, Ref m6, Ref m7, Ref m8,
              Ref m9]\<rparr>) h
      in (language, h))"

definition lang_excel :: "mstore \<Rightarrow> nat \<times> mstore" where
  "lang_excel h =
     (let (m1, h) = new (no_mode\<lparr>m_begin := Some ''^='', m_end := Some ''[^=]'', returnEnd := Some True,
              illegal := Some ''='', m_relevance := Some 10\<rparr>) h;
          (m2, h) = new (no_mode\<lparr>className := Some ''symbol'', m_begin := Some (bs ''%b[A-Z]{1,2}%d+%b''),
              m_end := Some (bs ''[^%d]''), excludeEnd := Some True, m_relevance := Some 0\<rparr>) h;
          (m3, h) = new (no_mode\<lparr>className := Some ''symbol'', m_begin := Some (bs ''[A-Z]{0,2}%d*:[A-Z]{0,2}%d*''),
              m_relevance := Some 0\<rparr>) h;
          (m4, h) = new (no_mode\<lparr>className := Some ''number'', m_begin := Some (NUMBER_RE @ ''(%)?''),
              m_relevance := Some 0\<rparr>) h;
          (m5, h) = COMMENT (bs ''%bN%('') (bs ''%)'') (no_mode\<lparr>excludeBegin := Some True, excludeEnd := Some True,
              illegal := Some (bs ''%n'')\<rparr>) h;
          (language, h) = new (no_mode\<lparr>aliases := Some [''xlsx'', ''xls''], case_insensitive := Some True,
              lexemes := Some (bs ''[a-zA-Z][%w%.]*''), m_keywords := Some (KObj [(''built_in'',
              ''ABS ACCRINT ACCRINTM ACOS ACOSH ACOT ACOTH AGGREGATE ADDRESS AMORDEGRC AMORLINC AND ARABIC AREAS '' @
              ''ASC ASIN ASINH ATAN ATAN2 ATANH AVEDEV AVERAGE AVERAGEA AVERAGEIF AVERAGEIFS BAHTTEXT BASE BESSELI '' @
              ''BESSELJ BESSELK BESSELY BETADIST BETA.DIST BETAINV BETA.INV BIN2DEC BIN2HEX BIN2OCT BINOMDIST '' @
              ''BINOM.DIST BINOM.DIST.RANGE BINOM.INV BITAND BITLSHIFT BITOR BITRSHIFT BITXOR CALL CEILING '' @
              ''CEILING.MATH CEILING.PRECISE CELL CHAR CHIDIST CHIINV CHITEST CHISQ.DIST CHISQ.DIST.RT CHISQ.INV '' @
              ''CHISQ.INV.RT CHISQ.TEST CHOOSE CLEAN CODE COLUMN COLUMNS COMBIN COMBINA COMPLEX CONCAT CONCATENATE '' @
              ''CONFIDENCE CONFIDENCE.NORM CONFIDENCE.T CONVERT CORREL COS COSH COT COTH COUNT COUNTA COUNTBLANK '' @
              ''COUNTIF COUNTIFS COUPDAYBS COUPDAYS COUPDAYSNC COUPNCD COUPNUM COUPPCD COVAR COVARIANCE.P '' @
              ''COVARIANCE.S CRITBINOM CSC CSCH CUBEKPIMEMBER CUBEMEMBER CUBEMEMBERPROPERTY CUBERANKEDMEMBER '' @
              ''CUBESET CUBESETCOUNT CUBEVALUE CUMIPMT CUMPRINC DATE DATEDIF DATEVALUE DAVERAGE DAY DAYS DAYS360 DB '' @
              ''DBCS DCOUNT DCOUNTA DDB DEC2BIN DEC2HEX DEC2OCT DECIMAL DEGREES DELTA DEVSQ DGET DISC DMAX DMIN '' @
              ''DOLLAR DOLLARDE DOLLARFR DPRODUCT DSTDEV DSTDEVP DSUM DURATION DVAR DVARP EDATE EFFECT ENCODEURL '' @
              ''EOMONTH ERF ERF.PRECISE ERFC ERFC.PRECISE ERROR.TYPE EUROCONVERT EVEN EXACT EXP EXPON.DIST '' @
              ''EXPONDIST FACT FACTDOUBLE FALSE|0 F.DIST FDIST F.DIST.RT FILTERXML FIND FINDB F.INV F.INV.RT FINV '' @
              ''FISHER FISHERINV FIXED FLOOR FLOOR.MATH FLOOR.PRECISE FORECAST FORECAST.ETS FORECAST.ETS.CONFINT '' @
              ''FORECAST.ETS.SEASONALITY FORECAST.ETS.STAT FORECAST.LINEAR FORMULATEXT FREQUENCY F.TEST FTEST FV '' @
              ''FVSCHEDULE GAMMA GAMMA.DIST GAMMADIST GAMMA.INV GAMMAINV GAMMALN GAMMALN.PRECISE GAUSS GCD GEOMEAN '' @
              ''GESTEP GETPIVOTDATA GROWTH HARMEAN HEX2BIN HEX2DEC HEX2OCT HLOOKUP HOUR HYPERLINK HYPGEOM.DIST '' @
              ''HYPGEOMDIST IF|0 IFERROR IFNA IFS IMABS IMAGINARY IMARGUMENT IMCONJUGATE IMCOS IMCOSH IMCOT IMCSC '' @
              ''IMCSCH IMDIV IMEXP IMLN IMLOG10 IMLOG2 IMPOWER IMPRODUCT IMREAL IMSEC IMSECH IMSIN IMSINH IMSQRT '' @
              ''IMSUB IMSUM IMTAN INDEX INDIRECT INFO INT INTERCEPT INTRATE IPMT IRR ISBLANK ISERR ISERROR ISEVEN '' @
              ''ISFORMULA ISLOGICAL ISNA ISNONTEXT ISNUMBER ISODD ISREF ISTEXT ISO.CEILING ISOWEEKNUM ISPMT JIS '' @
              ''KURT LARGE LCM LEFT LEFTB LEN LENB LINEST LN LOG LOG10 LOGEST LOGINV LOGNORM.DIST LOGNORMDIST '' @
              ''LOGNORM.INV LOOKUP LOWER MATCH MAX MAXA MAXIFS MDETERM MDURATION MEDIAN MID MIDBs MIN MINIFS MINA '' @
              ''MINUTE MINVERSE MIRR MMULT MOD MODE MODE.MULT MODE.SNGL MONTH MROUND MULTINOMIAL MUNIT N NA '' @
              ''NEGBINOM.DIST NEGBINOMDIST NETWORKDAYS NETWORKDAYS.INTL NOMINAL NORM.DIST NORMDIST NORMINV NORM.INV '' @
              ''NORM.S.DIST NORMSDIST NORM.S.INV NORMSINV NOT NOW NPER NPV NUMBERVALUE OCT2BIN OCT2DEC OCT2HEX ODD '' @
              ''ODDFPRICE ODDFYIELD ODDLPRICE ODDLYIELD OFFSET OR PDURATION PEARSON PERCENTILE.EXC PERCENTILE.INC '' @
              ''PERCENTILE PERCENTRANK.EXC PERCENTRANK.INC PERCENTRANK PERMUT PERMUTATIONA PHI PHONETIC PI PMT '' @
              ''POISSON.DIST POISSON POWER PPMT PRICE PRICEDISC PRICEMAT PROB PRODUCT PROPER PV QUARTILE '' @
              ''QUARTILE.EXC QUARTILE.INC QUOTIENT RADIANS RAND RANDBETWEEN RANK.AVG RANK.EQ RANK RATE RECEIVED '' @
              ''REGISTER.ID REPLACE REPLACEB REPT RIGHT RIGHTB ROMAN ROUND ROUNDDOWN ROUNDUP ROW ROWS RRI RSQ RTD '' @
              ''SEARCH SEARCHB SEC SECH SECOND SERIESSUM SHEET SHEETS SIGN SIN SINH SKEW SKEW.P SLN SLOPE SMALL '' @
              ''SQL.REQUEST SQRT SQRTPI STANDARDIZE STDEV STDEV.P STDEV.S STDEVA STDEVP STDEVPA STEYX SUBSTITUTE '' @
              ''SUBTOTAL SUM SUMIF SUMIFS SUMPRODUCT SUMSQ SUMX2MY2 SUMX2PY2 SUMXMY2 SWITCH SYD T TAN TANH TBILLEQ '' @
              ''TBILLPRICE TBILLYIELD T.DIST T.DIST.2T T.DIST.RT TDIST TEXT TEXTJOIN TIME TIMEVALUE T.INV T.INV.2T '' @
              ''TINV TODAY TRANSPOSE TREND TRIM TRIMMEAN TRUE|0 TRUNC T.TEST TTEST TYPE UNICHAR UNICODE UPPER VALUE '' @
              ''VAR VAR.P VAR.S VARA VARP VARPA VDB VLOOKUP WEBSERVICE WEEKDAY WEEKNUM WEIBULL WEIBULL.DIST WORKDAY '' @
              ''WORKDAY.INTL XIRR XNPV XOR YEAR YEARFRAC YIELD YIELDDISC YIELDMAT Z.TEST ZTEST'')]),
              contains := Some [Ref m1, Ref m2, Ref m3, Ref hl_BACKSLASH_ESCAPE, Ref hl_QUOTE_STRING_MODE, Ref m4,
              Ref m5]\<rparr>) h
      in (language, h))"

definition lang_fix :: "mstore \<Rightarrow> nat \<times> mstore" where
  "lang_fix h =
     (let (m1, h) = new (no_mode\<lparr>m_begin := Some (bs ''([^%u2401%u0001=]+)''),
              m_end := Some (bs ''=([^%u2401%u0001=]+)''), returnEnd := Some True, returnBegin := Some False,
              className := Some ''attr''\<rparr>) h;
          (m2, h) = new (no_mode\<lparr>m_begin := Some ''='', m_end := Some (bs ''([%u2401%u0001])''),
              excludeEnd := Some True, excludeBegin := Some True, className := Some ''string''\<rparr>) h;
          (m3, h) = new (no_mode\<lparr>m_begin := Some (bs ''[^%u2401%u0001]+''), m_end := Some (bs ''[%u2401%u0001]''),
              excludeEnd := Some True, returnBegin := Some True, returnEnd := Some False, contains := Some [Ref m1,
              Ref m2]\<rparr>) h;
          (language, h) = new (no_mode\<lparr>contains := Some [Ref m3], case_insensitive := Some True\<rparr>) h
      in (language, h))"

definition lang_flix :: "mstore \<Rightarrow> nat \<times> mstore" where
  "lang_flix h =
     (let (v_CHAR, h) = new (no_mode\<lparr>className := Some ''string'', m_begin := Some ([CHR 0x27] @
              bs ''(.|%%[xXuU][a-zA-Z0-9]+)'' @ [CHR 0x27])\<rparr>) h;
          (m1, h) = new (no_mode\<lparr>m_begin := Some [CHR 0x22], m_end := Some [CHR 0x22]\<rparr>) h;
          (STRING, h) = new (no_mode\<lparr>className := Some ''string'', variants := Some [m1]\<rparr>) h;
          (NAME, h) = new (no_mode\<lparr>className := Some ''title'', m_begin := Some (bs ''[^0-9%n%t '' @ [CHR 0x22,
              CHR 0x27] @ ''(),.'' @ [CHR 0x60] @ bs ''{}%[%]:;][^%n%t '' @ [CHR 0x22, CHR 0x27] @ ''(),.'' @
              [CHR 0x60] @ bs ''{}%[%]:;]+|[^0-9%n%t '' @ [CHR 0x22, CHR 0x27] @ ''(),.'' @ [CHR 0x60] @
              bs ''{}%[%]:;=]'')\<rparr>) h;
          (METHOD, h) = new (no_mode\<lparr>className := Some ''function'', beginKeywords := Some ''def'',
              m_end := Some (bs ''[:={%[(%n;]''), excludeEnd := Some True, contains := Some [Ref NAME]\<rparr>) h;
          (language, h) = new (no_mode\<lparr>m_keywords := Some (KObj [(''literal'', ''true false''), (''keyword'',
              ''case class def else enum if impl import in lat rel index let match namespace switch type yield with'')]),
              contains := Some [Ref hl_C_LINE_COMMENT_MODE, Ref hl_C_BLOCK_COMMENT_MODE, Ref v_CHAR, Ref STRING,
              Ref METHOD, Ref hl_C_NUMBER_MODE]\<rparr>) h
      in (language, h))"

definition lang_fortran :: "mstore \<Rightarrow> nat \<times> mstore" where
  "lang_fortran h =
     (let (PARAMS, h) = new (no_mode\<lparr>className := Some ''params'', m_begin := Some (bs ''%(''),
              m_end := Some (bs ''%)'')\<rparr>) h;
          F_KEYWORDS = KObj [(''literal'', ''.False. .True.''), (''keyword'',
              ''kind do while private call intrinsic where elsewhere '' @
              ''type endtype endmodule endselect endinterface end enddo endif if forall endforall only contains '' @
              ''default return stop then '' @
              ''public subroutine|10 function program .and. .or. .not. .le. .eq. .ge. .gt. .lt. '' @
              ''goto save else use module select case '' @
              ''access blank direct exist file fmt form formatted iostat name named nextrec number opened rec recl '' @
              ''sequential status unformatted unit '' @ ''continue format pause cycle exit '' @
              ''c_null_char c_alert c_backspace c_form_feed flush wait decimal round iomsg '' @
              ''synchronous nopass non_overridable pass protected volatile abstract extends import '' @
              ''non_intrinsic value deferred generic final enumerator class associate bind enum '' @
              ''c_int c_short c_long c_long_long c_signed_char c_size_t c_int8_t c_int16_t c_int32_t c_int64_t '' @
              ''c_int_least8_t c_int_least16_t '' @
              ''c_int_least32_t c_int_least64_t c_int_fast8_t c_int_fast16_t c_int_fast32_t c_int_fast64_t '' @
              ''c_intmax_t C_intptr_t c_float c_double '' @
              ''c_long_double c_float_complex c_double_complex c_long_double_complex c_bool c_char c_null_ptr c_null_funptr '' @
              ''c_new_line c_carriage_return c_horizontal_tab c_vertical_tab iso_c_binding c_loc c_funloc '' @
              ''c_associated  c_f_pointer '' @
              ''c_ptr c_funptr iso_fortran_env character_storage_size error_unit file_storage_size input_unit '' @
              ''iostat_end iostat_eor '' @
              ''numeric_storage_size output_unit c_f_procpointer ieee_arithmetic ieee_support_underflow_control '' @
              ''ieee_get_underflow_mode ieee_set_underflow_mode newunit contiguous recursive '' @
              ''pad position action delim readwrite eor advance nml interface procedure namelist include sequence '' @
              ''elemental pure '' @ ''integer real character complex logical dimension allocatable|10 parameter '' @
              ''external implicit|10 none double precision assign intent optional pointer '' @
              ''target in out common equivalence data''), (''built_in'',
              ''alog alog10 amax0 amax1 amin0 amin1 amod cabs ccos cexp clog csin csqrt dabs dacos dasin datan '' @
              ''datan2 dcos dcosh ddim dexp dint '' @
              ''dlog dlog10 dmax1 dmin1 dmod dnint dsign dsin dsinh dsqrt dtan dtanh float iabs idim idint idnint '' @
              ''ifix isign max0 max1 min0 min1 sngl '' @
              ''algama cdabs cdcos cdexp cdlog cdsin cdsqrt cqabs cqcos cqexp cqlog cqsin cqsqrt dcmplx dconjg derf '' @
              ''derfc dfloat dgamma dimag dlgama '' @
              ''iqint qabs qacos qasin qatan qatan2 qcmplx qconjg qcos qcosh qdim qerf qerfc qexp qgamma qimag '' @
              ''qlgama qlog qlog10 qmax1 qmin1 qmod '' @
              ''qnint qsign qsin qsinh qsqrt qtan qtanh abs acos aimag aint anint asin atan atan2 char cmplx conjg '' @
              ''cos cosh exp ichar index int log '' @
              ''log10 max min nint sign sin sinh sqrt tan tanh print write dim lge lgt lle llt mod nullify allocate '' @
              ''deallocate '' @
              ''adjustl adjustr all allocated any associated bit_size btest ceiling count cshift date_and_time '' @
              ''digits dot_product '' @
              ''eoshift epsilon exponent floor fraction huge iand ibclr ibits ibset ieor ior ishft ishftc lbound '' @
              ''len_trim matmul '' @
              ''maxexponent maxloc maxval merge minexponent minloc minval modulo mvbits nearest pack present product '' @
              ''radix random_number random_seed range repeat reshape rrspacing scale scan selected_int_kind '' @
              ''selected_real_kind '' @
              ''set_exponent shape size spacing spread sum system_clock tiny transpose trim ubound unpack verify '' @
              ''achar iachar transfer '' @
              ''dble entry dprod cpu_time command_argument_count get_command get_command_argument '' @
              ''get_environment_variable is_iostat_end '' @
              ''ieee_arithmetic ieee_support_underflow_control ieee_get_underflow_mode ieee_set_underflow_mode '' @
              ''is_iostat_eor move_alloc new_line selected_char_kind same_type_as extends_type_of'' @
              ''acosh asinh atanh bessel_j0 bessel_j1 bessel_jn bessel_y0 bessel_y1 bessel_yn erf erfc erfc_scaled '' @
              ''gamma log_gamma hypot norm2 '' @
              ''atomic_define atomic_ref execute_command_line leadz trailz storage_size merge_bits '' @
              ''bge bgt ble blt dshiftl dshiftr findloc iall iany iparity image_index lcobound ucobound maskl maskr '' @
              ''num_images parity popcnt poppar shifta shiftl shiftr this_image'')];
          (m1, h) = new (inherit_mode (mode_at h hl_APOS_STRING_MODE) [(no_mode\<lparr>className := Some ''string'',
              m_relevance := Some 0\<rparr>)]) h;
          (m2, h) = new (inherit_mode (mode_at h hl_QUOTE_STRING_MODE) [(no_mode\<lparr>className := Some ''string'',
              m_relevance := Some 0\<rparr>)]) h;
          (m3, h) = new (no_mode\<lparr>className := Some ''function'', beginKeywords := Some ''subroutine function program'',
              illegal := Some (bs ''[${=%n]''), contains := Some [Ref hl_UNDERSCORE_TITLE_MODE, Ref PARAMS]\<rparr>) h;
          (m4, h) = COMMENT ''!'' ''$'' (no_mode\<lparr>m_relevance := Some 0\<rparr>) h;
          (m5, h) = new (no_mode\<lparr>className := Some ''number'',
              m_begin := Some (bs ''(?=%b|%+|%-|%.)(?=%.%d|%d)(?:%d+)?(?:%.?%d*'' @ bs '')(?:[de][+-]?%d+)?%b%.?''),
              m_relevance := Some 0\<rparr>) h;
          (language, h) = new (no_mode\<lparr>case_insensitive := Some True, aliases := Some [''f90'', ''f95''],
              m_keywords := Some F_KEYWORDS, illegal := Some (bs ''%/%*''), contains := Some [Ref m1, Ref m2, Ref m3,
              Ref m4, Ref m5]\<rparr>) h
      in (language, h))"

definition lang_fsharp :: "mstore \<Rightarrow> nat \<times> mstore" where
  "lang_fsharp h =
     (let (m1, h) = new (inherit_mode (mode_at h hl_TITLE_MODE) [(no_mode\<lparr>m_begin := Some ([CHR 0x27] @
              ''[a-zA-Z0-9_]+'')\<rparr>)]) h;
          (TYPEPARAM, h) = new (no_mode\<lparr>m_begin := Some ''<'', m_end := Some ''>'', contains := Some [Ref m1]\<rparr>) h;
          (m2, h) = new (no_mode\<lparr>className := Some ''keyword'',
              m_begin := Some (bs ''%b(yield|return|let|do)!'')\<rparr>) h;
          (m3, h) = new (no_mode\<lparr>m_begin := Some [CHR 0x22, CHR 0x22]\<rparr>) h;
          (m4, h) = new (no_mode\<lparr>className := Some ''string'', m_begin := Some (''@'' @ [CHR 0x22]),
              m_end := Some [CHR 0x22], contains := Some [Ref m3]\<rparr>) h;
          (m5, h) = new (no_mode\<lparr>className := Some ''string'', m_begin := Some [CHR 0x22, CHR 0x22, CHR 0x22],
              m_end := Some [CHR 0x22, CHR 0x22, CHR 0x22]\<rparr>) h;
          (m6, h) = COMMENT (bs ''%(%*'') (bs ''%*%)'') no_mode h;
          (m7, h) = new (no_mode\<lparr>className := Some ''class'', beginKeywords := Some ''type'',
              m_end := Some (bs ''%(|=|$''), excludeEnd := Some True, contains := Some [Ref hl_UNDERSCORE_TITLE_MODE,
              Ref TYPEPARAM]\<rparr>) h;
          (m8, h) = new (no_mode\<lparr>className := Some ''meta'', m_begin := Some (bs ''%[<''), m_end := Some (bs ''>%]''),
              m_relevance := Some 10\<rparr>) h;
          (m9, h) = new (no_mode\<lparr>className := Some ''symbol'', m_begin := Some (bs ''%B('' @ [CHR 0x27] @
              bs ''[A-Za-z])%b''), contains := Some [Ref hl_BACKSLASH_ESCAPE]\<rparr>) h;
          (m10, h) = new (inherit_mode (mode_at h hl_QUOTE_STRING_MODE) [(no_mode\<lparr>illegal := Some []\<rparr>)]) h;
          (language, h) = new (no_mode\<lparr>aliases := Some [''fs''],
              m_keywords := Some (KStr (''abstract and as assert base begin class default delegate do done '' @
              ''downcast downto elif else end exception extern false finally for '' @
              ''fun function global if in inherit inline interface internal lazy let '' @
              ''match member module mutable namespace new null of open or '' @
              ''override private public rec return sig static struct then to '' @
              ''true try type upcast use val void when while with yield'')), illegal := Some (bs ''%/%*''),
              contains := Some [Ref m2, Ref m4, Ref m5, Ref m6, Ref m7, Ref m8, Ref m9, Ref hl_C_LINE_COMMENT_MODE,
              Ref m10, Ref hl_C_NUMBER_MODE]\<rparr>) h
      in (language, h))"

definition lang_gams :: "mstore \<Rightarrow> nat \<times> mstore" where
  "lang_gams h =
     (let (PARAMS, h) = new (no_mode\<lparr>className := Some ''params'', m_begin := Some (bs ''%(''),
              m_end := Some (bs ''%)''), excludeBegin := Some True, excludeEnd := Some True\<rparr>) h;
          (m1, h) = new (no_mode\<lparr>m_begin := Some (bs ''%=[lgenxc]='')\<rparr>) h;
          (m2, h) = new (no_mode\<lparr>m_begin := Some (bs ''%$'')\<rparr>) h;
          (SYMBOLS, h) = new (no_mode\<lparr>className := Some ''symbol'', variants := Some [m1, m2]\<rparr>) h;
          (m3, h) = new (no_mode\<lparr>m_begin := Some [CHR 0x27], m_end := Some [CHR 0x27]\<rparr>) h;
          (m4, h) = new (no_mode\<lparr>m_begin := Some [CHR 0x22], m_end := Some [CHR 0x22]\<rparr>) h;
          (QSTR, h) = new (no_mode\<lparr>className := Some ''comment'', variants := Some [m3, m4],
              illegal := Some (bs ''%n''), contains := Some [Ref hl_BACKSLASH_ESCAPE]\<rparr>) h;
          KEYWORDS = KObj [(''keyword'', ''abort acronym acronyms alias all and assign binary card diag display '' @
              ''else eq file files for free ge gt if integer le loop lt maximizing '' @
              ''minimizing model models ne negative no not option options or ord '' @
              ''positive prod put putpage puttl repeat sameas semicont semiint smax '' @
              ''smin solve sos1 sos2 sum system table then until using while xor yes''), (''literal'',
              ''eps inf na''), (''built-in'',
              ''abs arccos arcsin arctan arctan2 Beta betaReg binomial ceil centropy '' @
              ''cos cosh cvPower div div0 eDist entropy errorf execSeed exp fact '' @
              ''floor frac gamma gammaReg log logBeta logGamma log10 log2 mapVal max '' @
              ''min mod ncpCM ncpF ncpVUpow ncpVUsin normal pi poly power '' @
              ''randBinomial randLinear randTriangle round rPower sigmoid sign '' @
              ''signPower sin sinh slexp sllog10 slrec sqexp sqlog10 sqr sqrec sqrt '' @
              ''tan tanh trunc uniform uniformInt vcPower bool_and bool_eqv bool_imp '' @
              ''bool_not bool_or bool_xor ifThen rel_eq rel_ge rel_gt rel_le rel_lt '' @
              ''rel_ne gday gdow ghour gleap gmillisec gminute gmonth gsecond gyear '' @
              ''jdate jnow jstart jtime errorLevel execError gamsRelease gamsVersion '' @
              ''handleCollect handleDelete handleStatus handleSubmit heapFree '' @
              ''heapLimit heapSize jobHandle jobKill jobStatus jobTerminate '' @
              ''licenseLevel licenseStatus maxExecError sleep timeClose timeComp '' @
              ''timeElapsed timeExec timeStart'')];
          (ASSIGNMENT, h) = new (no_mode\<lparr>m_begin := Some ''/'', m_end := Some ''/'', m_keywords := Some KEYWORDS,
              contains := Some [Ref QSTR, Ref hl_C_LINE_COMMENT_MODE, Ref hl_C_BLOCK_COMMENT_MODE,
              Ref hl_QUOTE_STRING_MODE, Ref hl_APOS_STRING_MODE, Ref hl_C_NUMBER_MODE]\<rparr>) h;
          (m5, h) = new (no_mode\<lparr>className := Some ''comment'', m_begin := Some (bs ''([ ]*[a-z0-9&#*=?@>%%'' @
              bs ''<:%-,()$%[%]_.{}!+'' @ ''%'' @ ''^]+)+''), m_relevance := Some 0\<rparr>) h;
          (DESCTEXT, h) = new (no_mode\<lparr>m_begin := Some (bs ''[a-z][a-z0-9_]*(%([a-z0-9_, ]*%))?[ %t]+''),
              excludeBegin := Some True, m_end := Some ''$'', endsWithParent := Some True,
              contains := Some [Ref QSTR, Ref ASSIGNMENT, Ref m5]\<rparr>) h;
          (m6, h) = COMMENT (bs ''^%$ontext'') (bs ''^%$offtext'') no_mode h;
          (m7, h) = new (no_mode\<lparr>className := Some ''meta-keyword'', m_begin := Some (bs ''^%$[a-z0-9]+'')\<rparr>) h;
          (m8, h) = new (no_mode\<lparr>className := Some ''meta'', m_begin := Some (bs ''^%$[a-z0-9]+''), m_end := Some ''$'',
              returnBegin := Some True, contains := Some [Ref m7]\<rparr>) h;
          (m9, h) = COMMENT (bs ''^%*'') ''$'' no_mode h;
          (m10, h) = COMMENT (bs ''^%*'') ''$'' no_mode h;
          (m11, h) = new (no_mode\<lparr>beginKeywords := Some (''set sets parameter parameters variable variables '' @
              ''scalar scalars equation equations''), m_end := Some '';'', contains := Some [Ref m10,
              Ref hl_C_LINE_COMMENT_MODE, Ref hl_C_BLOCK_COMMENT_MODE, Ref hl_QUOTE_STRING_MODE,
              Ref hl_APOS_STRING_MODE, Ref ASSIGNMENT, Ref DESCTEXT]\<rparr>) h;
          (m12, h) = new (no_mode\<lparr>beginKeywords := Some ''table'', m_end := Some ''$'',
              contains := Some [Ref DESCTEXT]\<rparr>) h;
          (m13, h) = COMMENT (bs ''^%*'') ''$'' no_mode h;
          (m14, h) = new (no_mode\<lparr>beginKeywords := Some ''table'', m_end := Some '';'', returnBegin := Some True,
              contains := Some [Ref m12, Ref m13, Ref hl_C_LINE_COMMENT_MODE, Ref hl_C_BLOCK_COMMENT_MODE,
              Ref hl_QUOTE_STRING_MODE, Ref hl_APOS_STRING_MODE, Ref hl_C_NUMBER_MODE]\<rparr>) h;
          (m15, h) = new (no_mode\<lparr>className := Some ''title'', m_begin := Some ''^[a-z0-9_]+''\<rparr>) h;
          (m16, h) = new (no_mode\<lparr>className := Some ''function'', m_begin := Some (bs ''^[a-z][a-z0-9_,%-+'' @
              [CHR 0x27] @ bs '' ()$]+%.{2}''), returnBegin := Some True, contains := Some [Ref m15, Ref PARAMS,
              Ref SYMBOLS]\<rparr>) h;
          (language, h) = new (no_mode\<lparr>aliases := Some [''gms''], case_insensitive := Some True,
              m_keywords := Some KEYWORDS, contains := Some [Ref m6, Ref m8, Ref m9, Ref hl_C_LINE_COMMENT_MODE,
              Ref hl_C_BLOCK_COMMENT_MODE, Ref hl_QUOTE_STRING_MODE, Ref hl_APOS_STRING_MODE, Ref m11, Ref m14,
              Ref m16, Ref hl_C_NUMBER_MODE, Ref SYMBOLS]\<rparr>) h
      in (language, h))"

definition lang_gcode :: "mstore \<Rightarrow> nat \<times> mstore" where
  "lang_gcode h =
     (let GCODE_IDENT_RE = ''[A-Z_][A-Z0-9_.]*'';
          GCODE_CLOSE_RE = bs ''%'' @ ''%'';
          GCODE_KEYWORDS = ''IF DO WHILE ENDWHILE CALL ENDIF SUB ENDSUB GOTO REPEAT ENDREPEAT '' @ ''EQ LT GT NE GE LE OR XOR'';
          (GCODE_START, h) = new (no_mode\<lparr>className := Some ''meta'', m_begin := Some ''([O])([0-9]+)''\<rparr>) h;
          (m1, h) = COMMENT (bs ''%('') (bs ''%)'') no_mode h;
          (m2,
              h) = new (inherit_mode (mode_at h hl_C_NUMBER_MODE) [(no_mode\<lparr>m_begin := Some (bs ''([-+]?([0-9]*%.?[0-9]+%.?))|'' @
              C_NUMBER_RE)\<rparr>)]) h;
          (m3, h) = new (inherit_mode (mode_at h hl_APOS_STRING_MODE) [(no_mode\<lparr>illegal := Some []\<rparr>)]) h;
          (m4, h) = new (inherit_mode (mode_at h hl_QUOTE_STRING_MODE) [(no_mode\<lparr>illegal := Some []\<rparr>)]) h;
          (m5, h) = new (no_mode\<lparr>className := Some ''name'', m_begin := Some (bs ''([G])([0-9]+%.?[0-9]?)'')\<rparr>) h;
          (m6, h) = new (no_mode\<lparr>className := Some ''name'', m_begin := Some (bs ''([M])([0-9]+%.?[0-9]?)'')\<rparr>) h;
          (m7, h) = new (no_mode\<lparr>className := Some ''attr'', m_begin := Some ''(VC|VS|#)'',
              m_end := Some (bs ''(%d+)'')\<rparr>) h;
          (m8, h) = new (no_mode\<lparr>className := Some ''attr'', m_begin := Some ''(VZOFX|VZOFY|VZOFZ)''\<rparr>) h;
          (m9, h) = new (no_mode\<lparr>className := Some ''built_in'',
              m_begin := Some (bs ''(ATAN|ABS|ACOS|ASIN|SIN|COS|EXP|FIX|FUP|ROUND|LN|TAN)(%[)''),
              m_end := Some (bs ''([-+]?([0-9]*%.?[0-9]+%.?))(%])'')\<rparr>) h;
          (m10, h) = new (no_mode\<lparr>m_begin := Some ''N'', m_end := Some (bs ''%d+''), illegal := Some (bs ''%W'')\<rparr>) h;
          (m11, h) = new (no_mode\<lparr>className := Some ''symbol'', variants := Some [m10]\<rparr>) h;
          GCODE_CODE = [Ref hl_C_LINE_COMMENT_MODE, Ref hl_C_BLOCK_COMMENT_MODE, Ref m1, Ref m2, Ref m3, Ref m4, Ref m5,
              Ref m6, Ref m7, Ref m8, Ref m9, Ref m11];
          (m12, h) = new (no_mode\<lparr>className := Some ''meta'', m_begin := Some GCODE_CLOSE_RE\<rparr>) h;
          (language, h) = new (no_mode\<lparr>aliases := Some [''nc''], case_insensitive := Some True,
              lexemes := Some GCODE_IDENT_RE, m_keywords := Some (KStr GCODE_KEYWORDS), contains := Some ([Ref m12,
              Ref GCODE_START] @ GCODE_CODE)\<rparr>) h
      in (language, h))"

definition lang_gherkin :: "mstore \<Rightarrow> nat \<times> mstore" where
  "lang_gherkin h =
     (let (m1, h) = new (no_mode\<lparr>className := Some ''symbol'', m_begin := Some (bs ''%*''),
              m_relevance := Some 0\<rparr>) h;
          (m2, h) = new (no_mode\<lparr>className := Some ''meta'', m_begin := Some (bs ''@[^@%s]+'')\<rparr>) h;
          (m3, h) = new (no_mode\<lparr>className := Some ''string'', m_begin := Some ''[^|]+''\<rparr>) h;
          (m4, h) = new (no_mode\<lparr>m_begin := Some (bs ''%|''), m_end := Some (bs ''%|%w*$''),
              contains := Some [Ref m3]\<rparr>) h;
          (m5, h) = new (no_mode\<lparr>className := Some ''variable'', m_begin := Some ''<'', m_end := Some ''>''\<rparr>) h;
          (m6, h) = new (no_mode\<lparr>className := Some ''string'', m_begin := Some [CHR 0x22, CHR 0x22, CHR 0x22],
              m_end := Some [CHR 0x22, CHR 0x22, CHR 0x22]\<rparr>) h;
          (language, h) = new (no_mode\<lparr>aliases := Some [''feature''],
              m_keywords := Some (KStr (''Feature Background Ability Business Need Scenario Scenarios Scenario Outline Scenario Template '' @
              ''Examples Given And Then But When'')), contains := Some [Ref m1, Ref m2, Ref m4, Ref m5,
              Ref hl_HASH_COMMENT_MODE, Ref m6, Ref hl_QUOTE_STRING_MODE]\<rparr>) h
      in (language, h))"

subsection \<open>The stores they make\<close>

lemma lang_coq_makes [builds_grammars]: "makes_grammar lang_coq"
  unfolding lang_coq_def by (intro makes_grammarI builds_rules) (simp_all add: refs_append)

lemma lang_cos_makes [builds_grammars]: "makes_grammar lang_cos"
  unfolding lang_cos_def by (intro makes_grammarI builds_rules) (simp_all add: refs_append)

lemma lang_crmsh_makes [builds_grammars]: "makes_grammar lang_crmsh"
  unfolding lang_crmsh_def by (intro makes_grammarI builds_rules) (simp_all add: refs_append)

lemma lang_cs_makes [builds_grammars]: "makes_grammar lang_cs"
  unfolding lang_cs_def by (intro makes_grammarI builds_rules) (simp_all add: refs_append)

lemma lang_csp_makes [builds_grammars]: "makes_grammar lang_csp"
  unfolding lang_csp_def by (intro makes_grammarI builds_rules) (simp_all add: refs_append)

lemma lang_css_makes [builds_grammars]: "makes_grammar lang_css"
  unfolding lang_css_def by (intro makes_grammarI builds_rules) (simp_all add: refs_append)

lemma lang_d_makes [builds_grammars]: "makes_grammar lang_d"
  unfolding lang_d_def by (intro makes_grammarI builds_rules) (simp_all add: refs_append)

lemma lang_dart_makes [builds_grammars]: "makes_grammar lang_dart"
  unfolding lang_dart_def by (intro makes_grammarI builds_rules) (simp_all add: refs_append)

lemma lang_delphi_makes [builds_grammars]: "makes_grammar lang_delphi"
  unfolding lang_delphi_def by (intro makes_grammarI builds_rules) (simp_all add: refs_append)

lemma lang_diff_makes [builds_grammars]: "makes_grammar lang_diff"
  unfolding lang_diff_def by (intro makes_grammarI builds_rules) (simp_all add: refs_append)

lemma lang_django_makes [builds_grammars]: "makes_grammar lang_django"
  unfolding lang_django_def by (intro makes_grammarI builds_rules) (simp_all add: refs_append)

lemma lang_dns_makes [builds_grammars]: "makes_grammar lang_dns"
  unfolding lang_dns_def by (intro makes_grammarI builds_rules) (simp_all add: refs_append)

lemma lang_dockerfile_makes [builds_grammars]: "makes_grammar lang_dockerfile"
  unfolding lang_dockerfile_def by (intro makes_grammarI builds_rules) (simp_all add: refs_append)

lemma lang_dos_makes [builds_grammars]: "makes_grammar lang_dos"
  unfolding lang_dos_def by (intro makes_grammarI builds_rules) (simp_all add: refs_append)

lemma lang_dsconfig_makes [builds_grammars]: "makes_grammar lang_dsconfig"
  unfolding lang_dsconfig_def by (intro makes_grammarI builds_rules) (simp_all add: refs_append)

lemma lang_dts_makes [builds_grammars]: "makes_grammar lang_dts"
  unfolding lang_dts_def by (intro makes_grammarI builds_rules) (simp_all add: refs_append)

lemma lang_dust_makes [builds_grammars]: "makes_grammar lang_dust"
  unfolding lang_dust_def by (intro makes_grammarI builds_rules) (simp_all add: refs_append)

lemma lang_ebnf_makes [builds_grammars]: "makes_grammar lang_ebnf"
  unfolding lang_ebnf_def by (intro makes_grammarI builds_rules) (simp_all add: refs_append)

lemma lang_elixir_makes [builds_grammars]: "makes_grammar lang_elixir"
  unfolding lang_elixir_def by (intro makes_grammarI builds_rules) (simp_all add: refs_append)

lemma lang_elm_makes [builds_grammars]: "makes_grammar lang_elm"
  unfolding lang_elm_def by (intro makes_grammarI builds_rules) (simp_all add: refs_append)

lemma lang_erb_makes [builds_grammars]: "makes_grammar lang_erb"
  unfolding lang_erb_def by (intro makes_grammarI builds_rules) (simp_all add: refs_append)

lemma lang_erlang_repl_makes [builds_grammars]: "makes_grammar lang_erlang_repl"
  unfolding lang_erlang_repl_def by (intro makes_grammarI builds_rules) (simp_all add: refs_append)

lemma lang_excel_makes [builds_grammars]: "makes_grammar lang_excel"
  unfolding lang_excel_def by (intro makes_grammarI builds_rules) (simp_all add: refs_append)

lemma lang_fix_makes [builds_grammars]: "makes_grammar lang_fix"
  unfolding lang_fix_def by (intro makes_grammarI builds_rules) (simp_all add: refs_append)

lemma lang_flix_makes [builds_grammars]: "makes_grammar lang_flix"
  unfolding lang_flix_def by (intro makes_grammarI builds_rules) (simp_all add: refs_append)

lemma lang_fortran_makes [builds_grammars]: "makes_grammar lang_fortran"
  unfolding lang_fortran_def by (intro makes_grammarI builds_rules) (simp_all add: refs_append)

lemma lang_fsharp_makes [builds_grammars]: "makes_grammar lang_fsharp"
  unfolding lang_fsharp_def by (intro makes_grammarI builds_rules) (simp_all add: refs_append)

lemma lang_gams_makes [builds_grammars]: "makes_grammar lang_gams"
  unfolding lang_gams_def by (intro makes_grammarI builds_rules) (simp_all add: refs_append)

lemma lang_gcode_makes [builds_grammars]: "makes_grammar lang_gcode"
  unfolding lang_gcode_def by (intro makes_grammarI builds_rules) (simp_all add: refs_append)

lemma lang_gherkin_makes [builds_grammars]: "makes_grammar lang_gherkin"
  unfolding lang_gherkin_def by (intro makes_grammarI builds_rules) (simp_all add: refs_append)

end
