(* ===== verification/Hljs_Languages_4.thy ===== *)
theory Hljs_Languages_4
  imports Hljs_Store
begin

text \<open>
  Grammars of highlight.js (\<^verbatim>\<open>remark.js\<close>, module 15), in the order of the source, from \<open>haxe\<close> to \<open>makefile\<close>. Each keeps the store
  closed.
\<close>

definition lang_haxe :: "mstore \<Rightarrow> nat \<times> mstore" where
  "lang_haxe h =
     (let IDENT_RE' = ''[a-zA-Z_$][a-zA-Z0-9_$]*'';
          IDENT_FUNC_RETURN_TYPE_RE = ''([*]|[a-zA-Z_$][a-zA-Z0-9_$]*'' @ '')'';
          HAXE_BASIC_TYPES = ''Int Float String Bool Dynamic Void Array '';
          (m1, h) = new (no_mode\<lparr>className := Some ''subst'', m_begin := Some (bs ''%$%{''),
              m_end := Some (bs ''%}'')\<rparr>) h;
          (m2, h) = new (no_mode\<lparr>className := Some ''subst'', m_begin := Some (bs ''%$''),
              m_end := Some (bs ''%W}'')\<rparr>) h;
          (m3, h) = new (no_mode\<lparr>className := Some ''string'', m_begin := Some [CHR 0x27], m_end := Some [CHR 0x27],
              contains := Some [Ref hl_BACKSLASH_ESCAPE, Ref m1, Ref m2]\<rparr>) h;
          (m4, h) = new (no_mode\<lparr>className := Some ''meta'', m_begin := Some ''@:'', m_end := Some ''$''\<rparr>) h;
          (m5, h) = new (no_mode\<lparr>className := Some ''meta'', m_begin := Some ''#'', m_end := Some ''$'',
              m_keywords := Some (KObj [(''meta-keyword'', ''if else elseif end error'')])\<rparr>) h;
          (m6, h) = new (no_mode\<lparr>className := Some ''type'', m_begin := Some ('':[ '' @ [CHR 0x09] @ '']*''),
              m_end := Some (''[^A-Za-z0-9_ '' @ [CHR 0x09] @ bs ''%->]''), excludeBegin := Some True,
              excludeEnd := Some True, m_relevance := Some 0\<rparr>) h;
          (m7, h) = new (no_mode\<lparr>className := Some ''type'', m_begin := Some ('':[ '' @ [CHR 0x09] @ '']*''),
              m_end := Some (bs ''%W''), excludeBegin := Some True, excludeEnd := Some True\<rparr>) h;
          (m8, h) = new (no_mode\<lparr>className := Some ''type'', m_begin := Some ''new *'', m_end := Some (bs ''%W''),
              excludeBegin := Some True, excludeEnd := Some True\<rparr>) h;
          (m9, h) = new (no_mode\<lparr>className := Some ''class'', beginKeywords := Some ''enum'', m_end := Some (bs ''%{''),
              contains := Some [Ref hl_TITLE_MODE]\<rparr>) h;
          (m10, h) = new (no_mode\<lparr>className := Some ''type'', m_begin := Some (bs ''%(''), m_end := Some (bs ''%)''),
              excludeBegin := Some True, excludeEnd := Some True\<rparr>) h;
          (m11, h) = new (no_mode\<lparr>className := Some ''type'', m_begin := Some ''from +'', m_end := Some (bs ''%W''),
              excludeBegin := Some True, excludeEnd := Some True\<rparr>) h;
          (m12, h) = new (no_mode\<lparr>className := Some ''type'', m_begin := Some ''to +'', m_end := Some (bs ''%W''),
              excludeBegin := Some True, excludeEnd := Some True\<rparr>) h;
          (m13, h) = new (no_mode\<lparr>className := Some ''class'', beginKeywords := Some ''abstract'',
              m_end := Some (bs ''[%{$]''), contains := Some [Ref m10, Ref m11, Ref m12, Ref hl_TITLE_MODE],
              m_keywords := Some (KObj [(''keyword'', ''abstract from to'')])\<rparr>) h;
          (m14, h) = new (no_mode\<lparr>className := Some ''type'', m_begin := Some IDENT_RE, m_relevance := Some 0\<rparr>) h;
          (m15, h) = new (no_mode\<lparr>className := Some ''keyword'', m_begin := Some (bs ''%b(extends|implements) +''),
              m_keywords := Some (KStr ''extends implements''), contains := Some [Ref m14]\<rparr>) h;
          (m16, h) = new (no_mode\<lparr>className := Some ''class'', m_begin := Some (bs ''%b(class|interface) +''),
              m_end := Some (bs ''[%{$]''), excludeEnd := Some True, m_keywords := Some (KStr ''class interface''),
              contains := Some [Ref m15, Ref hl_TITLE_MODE]\<rparr>) h;
          (m17, h) = new (no_mode\<lparr>className := Some ''function'', beginKeywords := Some ''function'',
              m_end := Some (bs ''%(''), excludeEnd := Some True, illegal := Some (bs ''%S''),
              contains := Some [Ref hl_TITLE_MODE]\<rparr>) h;
          (language, h) = new (no_mode\<lparr>aliases := Some [''hx''], m_keywords := Some (KObj [(''keyword'',
              ''break case cast catch continue default do dynamic else enum extern '' @
              ''for function here if import in inline never new override package private get set '' @
              ''public return static super switch this throw trace try typedef untyped using var while '' @
              HAXE_BASIC_TYPES), (''built_in'', ''trace this''), (''literal'', ''true false null _'')]),
              contains := Some [Ref m3, Ref hl_QUOTE_STRING_MODE, Ref hl_C_LINE_COMMENT_MODE,
              Ref hl_C_BLOCK_COMMENT_MODE, Ref hl_C_NUMBER_MODE, Ref m4, Ref m5, Ref m6, Ref m7, Ref m8, Ref m9,
              Ref m13, Ref m16, Ref m17], illegal := Some (bs ''<%/'')\<rparr>) h
      in (language, h))"

definition lang_hsp :: "mstore \<Rightarrow> nat \<times> mstore" where
  "lang_hsp h =
     (let (m1, h) = new (no_mode\<lparr>className := Some ''string'', m_begin := Some (''{'' @ [CHR 0x22]),
              m_end := Some ([CHR 0x22] @ ''}''), contains := Some [Ref hl_BACKSLASH_ESCAPE]\<rparr>) h;
          (m2, h) = COMMENT '';'' ''$'' (no_mode\<lparr>m_relevance := Some 0\<rparr>) h;
          (m3,
              h) = new (inherit_mode (mode_at h hl_QUOTE_STRING_MODE) [(no_mode\<lparr>className := Some ''meta-string''\<rparr>)]) h;
          (m4, h) = new (no_mode\<lparr>className := Some ''meta'', m_begin := Some ''#'', m_end := Some ''$'',
              m_keywords := Some (KObj [(''meta-keyword'',
              ''addion cfunc cmd cmpopt comfunc const defcfunc deffunc define else endif enum epack func global if '' @
              ''ifdef ifndef include modcfunc modfunc modinit modterm module pack packopt regcmd runtime undef usecom uselib'')]),
              contains := Some [Ref m3, Ref hl_NUMBER_MODE, Ref hl_C_NUMBER_MODE, Ref hl_C_LINE_COMMENT_MODE,
              Ref hl_C_BLOCK_COMMENT_MODE]\<rparr>) h;
          (m5, h) = new (no_mode\<lparr>className := Some ''symbol'', m_begin := Some (bs ''^%*(%w+|@)'')\<rparr>) h;
          (language, h) = new (no_mode\<lparr>case_insensitive := Some True, lexemes := Some (bs ''[%w%._]+''),
              m_keywords := Some (KStr (''goto gosub return break repeat loop continue wait await dim sdim foreach dimtype dup dupptr end '' @
              ''stop newmod delmod mref run exgoto on mcall assert logmes newlab resume yield onexit onerror onkey '' @
              ''onclick oncmd exist delete mkdir chdir dirlist bload bsave bcopy memfile if else poke wpoke lpoke '' @
              ''getstr chdpm memexpand memcpy memset notesel noteadd notedel noteload notesave randomize noteunsel '' @
              ''noteget split strrep setease button chgdisp exec dialog mmload mmplay mmstop mci pset pget syscolor '' @
              ''mes print title pos circle cls font sysfont objsize picload color palcolor palette redraw width '' @
              ''gsel gcopy gzoom gmode bmpsave hsvcolor getkey listbox chkbox combox input mesbox buffer screen '' @
              ''bgscr mouse objsel groll line clrobj boxf objprm objmode stick grect grotate gsquare gradf objimage '' @
              ''objskip objenable celload celdiv celput newcom querycom delcom cnvstow comres axobj winobj sendmsg '' @
              ''comevent comevarg sarrayconv callfunc cnvwtos comevdisp libptr system hspstat hspver stat cnt err '' @
              ''strsize looplev sublev iparam wparam lparam refstr refdval int rnd strlen length length2 length3 '' @
              ''length4 vartype gettime peek wpeek lpeek varptr varuse noteinfo instr abs limit getease str strmid '' @
              ''strf getpath strtrim sin cos tan atan sqrt double absf expf logf limitf powf geteasef mousex mousey '' @
              ''mousew hwnd hinstance hdc ginfo objinfo dirinfo sysinfo thismod __hspver__ __hsp30__ __date__ '' @
              ''__time__ __line__ __file__ _debug __hspdef__ and or xor not screen_normal screen_palette '' @
              ''screen_hide screen_fixedsize screen_tool screen_frame gmode_gdi gmode_mem gmode_rgb0 gmode_alpha '' @
              ''gmode_rgb0alpha gmode_add gmode_sub gmode_pixela ginfo_mx ginfo_my ginfo_act ginfo_sel ginfo_wx1 '' @
              ''ginfo_wy1 ginfo_wx2 ginfo_wy2 ginfo_vx ginfo_vy ginfo_sizex ginfo_sizey ginfo_winx ginfo_winy '' @
              ''ginfo_mesx ginfo_mesy ginfo_r ginfo_g ginfo_b ginfo_paluse ginfo_dispx ginfo_dispy ginfo_cx '' @
              ''ginfo_cy ginfo_intid ginfo_newid ginfo_sx ginfo_sy objinfo_mode objinfo_bmscr objinfo_hwnd notemax '' @
              ''notesize dir_cur dir_exe dir_win dir_sys dir_cmdline dir_desktop dir_mydoc dir_tv font_normal '' @
              ''font_bold font_italic font_underline font_strikeout font_antialias objmode_normal objmode_guifont '' @
              ''objmode_usefont gsquare_grad msgothic msmincho do until while wend for next _break _continue switch '' @
              ''case default swbreak swend ddim ldim alloc m_pi rad2deg deg2rad ease_linear ease_quad_in '' @
              ''ease_quad_out ease_quad_inout ease_cubic_in ease_cubic_out ease_cubic_inout ease_quartic_in '' @
              ''ease_quartic_out ease_quartic_inout ease_bounce_in ease_bounce_out ease_bounce_inout ease_shake_in '' @
              ''ease_shake_out ease_shake_inout ease_loop'')), contains := Some [Ref hl_C_LINE_COMMENT_MODE,
              Ref hl_C_BLOCK_COMMENT_MODE, Ref hl_QUOTE_STRING_MODE, Ref hl_APOS_STRING_MODE, Ref m1, Ref m2, Ref m4,
              Ref m5, Ref hl_NUMBER_MODE, Ref hl_C_NUMBER_MODE]\<rparr>) h
      in (language, h))"

definition lang_htmlbars :: "mstore \<Rightarrow> nat \<times> mstore" where
  "lang_htmlbars h =
     (let BUILT_INS = ''action collection component concat debugger each each-in else get hash if input link-to loc log mut '' @
              ''outlet partial query-params render textarea unbound unless with yield view'';
          (m1, h) = new (no_mode\<lparr>className := Some ''attr'', m_begin := Some ''[a-zA-Z0-9_]+''\<rparr>) h;
          (ATTR_ASSIGNMENT, h) = new (no_mode\<lparr>illegal := Some (bs ''%}%}''), m_begin := Some ''[a-zA-Z0-9_]+='',
              returnBegin := Some True, m_relevance := Some 0, contains := Some [Ref m1]\<rparr>) h;
          (m2, h) = new (no_mode\<lparr>endsWithParent := Some True, m_relevance := Some 0,
              contains := Some [Ref hl_QUOTE_STRING_MODE]\<rparr>) h;
          (m3, h) = new (no_mode\<lparr>m_begin := Some (bs ''[a-zA-Z%.%-]+''), m_keywords := Some (KObj [(''built_in'',
              BUILT_INS)]), starts := Some m2\<rparr>) h;
          (SUB_EXPR, h) = new (no_mode\<lparr>illegal := Some (bs ''%}%}''), m_begin := Some (bs ''%)''),
              m_end := Some (bs ''%)''), contains := Some [Ref m3]\<rparr>) h;
          (TAG_INNARDS, h) = new (no_mode\<lparr>endsWithParent := Some True, m_relevance := Some 0,
              m_keywords := Some (KObj [(''keyword'', ''as''), (''built_in'', BUILT_INS)]),
              contains := Some [Ref hl_QUOTE_STRING_MODE, Ref ATTR_ASSIGNMENT, Ref hl_NUMBER_MODE]\<rparr>) h;
          (m4, h) = COMMENT ''{{!(--)?'' ''(--)?}}'' no_mode h;
          (m5, h) = new (no_mode\<lparr>className := Some ''name'', m_begin := Some (bs ''[a-zA-Z%.%-]+''),
              m_keywords := Some (KObj [(''builtin-name'', BUILT_INS)]), starts := Some TAG_INNARDS\<rparr>) h;
          (m6, h) = new (no_mode\<lparr>className := Some ''template-tag'', m_begin := Some (bs ''%{%{[#%/]''),
              m_end := Some (bs ''%}%}''), contains := Some [Ref m5]\<rparr>) h;
          (m7, h) = new (no_mode\<lparr>className := Some ''template-variable'',
              m_begin := Some (bs ''%{%{[a-zA-Z][a-zA-Z%-]+''), m_end := Some (bs ''%}%}''),
              m_keywords := Some (KObj [(''keyword'', ''as''), (''built_in'', BUILT_INS)]),
              contains := Some [Ref hl_QUOTE_STRING_MODE]\<rparr>) h;
          (language, h) = new (no_mode\<lparr>case_insensitive := Some True, subLanguage := Some (SubName ''xml''),
              contains := Some [Ref m4, Ref m6, Ref m7]\<rparr>) h
      in (language, h))"

definition lang_http :: "mstore \<Rightarrow> nat \<times> mstore" where
  "lang_http h =
     (let VERSION = bs ''HTTP/[0-9%.]+'';
          (m1, h) = new (no_mode\<lparr>className := Some ''number'', m_begin := Some (bs ''%b%d{3}%b'')\<rparr>) h;
          (m2, h) = new (no_mode\<lparr>m_begin := Some (''^'' @ VERSION), m_end := Some ''$'',
              contains := Some [Ref m1]\<rparr>) h;
          (m3, h) = new (no_mode\<lparr>className := Some ''string'', m_begin := Some '' '', m_end := Some '' '',
              excludeBegin := Some True, excludeEnd := Some True\<rparr>) h;
          (m4, h) = new (no_mode\<lparr>m_begin := Some VERSION\<rparr>) h;
          (m5, h) = new (no_mode\<lparr>className := Some ''keyword'', m_begin := Some ''[A-Z]+''\<rparr>) h;
          (m6, h) = new (no_mode\<lparr>m_begin := Some (''^[A-Z]+ (.*?) '' @ VERSION @ ''$''), returnBegin := Some True,
              m_end := Some ''$'', contains := Some [Ref m3, Ref m4, Ref m5]\<rparr>) h;
          (m7, h) = new (no_mode\<lparr>m_end := Some ''$'', m_relevance := Some 0\<rparr>) h;
          (m8, h) = new (no_mode\<lparr>className := Some ''attribute'', m_begin := Some (bs ''^%w''), m_end := Some '': '',
              excludeEnd := Some True, illegal := Some (bs ''%n|%s|=''), starts := Some m7\<rparr>) h;
          (m9, h) = new (no_mode\<lparr>subLanguage := Some (SubList []), endsWithParent := Some True\<rparr>) h;
          (m10, h) = new (no_mode\<lparr>m_begin := Some (bs ''%n%n''), starts := Some m9\<rparr>) h;
          (language, h) = new (no_mode\<lparr>aliases := Some [''https''], illegal := Some (bs ''%S''),
              contains := Some [Ref m2, Ref m6, Ref m8, Ref m10]\<rparr>) h
      in (language, h))"

definition lang_hy :: "mstore \<Rightarrow> nat \<times> mstore" where
  "lang_hy h =
     (let SYMBOLSTART = bs ''a-zA-Z_%-!.?+*=<>&#'' @ [CHR 0x27];
          SYMBOL_RE = ''['' @ SYMBOLSTART @ '']['' @ SYMBOLSTART @ ''0-9/;:]*'';
          SIMPLE_NUMBER_RE = bs ''[-+]?%d+(%.%d+)?'';
          (SHEBANG, h) = new (no_mode\<lparr>className := Some ''meta'', m_begin := Some ''^#!'', m_end := Some ''$''\<rparr>) h;
          (SYMBOL, h) = new (no_mode\<lparr>m_begin := Some SYMBOL_RE, m_relevance := Some 0\<rparr>) h;
          (NUMBER, h) = new (no_mode\<lparr>className := Some ''number'', m_begin := Some SIMPLE_NUMBER_RE,
              m_relevance := Some 0\<rparr>) h;
          (STRING, h) = new (inherit_mode (mode_at h hl_QUOTE_STRING_MODE) [(no_mode\<lparr>illegal := Some []\<rparr>)]) h;
          (COMMENT', h) = COMMENT '';'' ''$'' (no_mode\<lparr>m_relevance := Some 0\<rparr>) h;
          (LITERAL, h) = new (no_mode\<lparr>className := Some ''literal'',
              m_begin := Some (bs ''%b([Tt]rue|[Ff]alse|nil|None)%b'')\<rparr>) h;
          (COLLECTION, h) = new (no_mode\<lparr>m_begin := Some (bs ''[%[%{]''), m_end := Some (bs ''[%]%}]'')\<rparr>) h;
          (HINT, h) = new (no_mode\<lparr>className := Some ''comment'', m_begin := Some (bs ''%^'' @ SYMBOL_RE)\<rparr>) h;
          (HINT_COL, h) = COMMENT (bs ''%^%{'') (bs ''%}'') no_mode h;
          (KEY, h) = new (no_mode\<lparr>className := Some ''symbol'', m_begin := Some (''[:]{1,2}'' @ SYMBOL_RE)\<rparr>) h;
          (LIST, h) = new (no_mode\<lparr>m_begin := Some (bs ''%(''), m_end := Some (bs ''%)'')\<rparr>) h;
          (BODY, h) = new (no_mode\<lparr>endsWithParent := Some True, m_relevance := Some 0\<rparr>) h;
          keywords = KObj [(''builtin-name'', ''!= % %= & &= * ** **= *= *map '' @ ''+ += ,
              --build-class-- --import-- -= . / // //= '' @ ''/= < << <<= <= = > >= >> >>= '' @
              ''@ @= ^ ^= abs accumulate all and any ap-compose '' @
              ''ap-dotimes ap-each ap-each-while ap-filter ap-first ap-if ap-last ap-map ap-map-when ap-pipe '' @
              ''ap-reduce ap-reject apply as-> ascii assert assoc bin break butlast '' @
              ''callable calling-module-name car case cdr chain chr coll? combinations compile '' @
              ''compress cond cons cons? continue count curry cut cycle dec '' @
              ''def default-method defclass defmacro defmacro-alias defmacro/g! defmain defmethod defmulti defn '' @
              ''defn-alias defnc defnr defreader defseq del delattr delete-route dict-comp dir '' @
              ''disassemble dispatch-reader-macro distinct divmod do doto drop drop-last drop-while empty? '' @
              ''end-sequence eval eval-and-compile eval-when-compile even? every? except exec filter first '' @
              ''flatten float? fn fnc fnr for for* format fraction genexpr '' @
              ''gensym get getattr global globals group-by hasattr hash hex id '' @
              ''identity if if* if-not if-python2 import in inc input instance? '' @
              ''integer integer-char? integer? interleave interpose is is-coll is-cons is-empty is-even '' @
              ''is-every is-float is-instance is-integer is-integer-char is-iterable is-iterator is-keyword is-neg is-none '' @
              ''is-not is-numeric is-odd is-pos is-string is-symbol is-zero isinstance islice issubclass '' @
              ''iter iterable? iterate iterator? keyword keyword? lambda last len let '' @
              ''lif lif-not list* list-comp locals loop macro-error macroexpand macroexpand-1 macroexpand-all '' @
              ''map max merge-with method-decorator min multi-decorator multicombinations name neg? next '' @
              ''none? nonlocal not not-in not? nth numeric? oct odd? open '' @
              ''or ord partition permutations pos? post-route postwalk pow prewalk print '' @
              ''product profile/calls profile/cpu put-route quasiquote quote raise range read read-str '' @
              ''recursive-replace reduce remove repeat repeatedly repr require rest round route '' @
              ''route-with-methods rwm second seq set-comp setattr setv some sorted string '' @
              ''string? sum switch symbol? take take-nth take-while tee try unless '' @
              ''unquote unquote-splicing vars walk when while with with* with-decorator with-gensyms '' @
              ''xi xor yield yield-from zero? zip zip-longest | |= ~'')];
          (NAME, h) = new (no_mode\<lparr>m_keywords := Some keywords, lexemes := Some SYMBOL_RE, className := Some ''name'',
              m_begin := Some SYMBOL_RE, starts := Some BODY\<rparr>) h;
          DEFAULT_CONTAINS = [Ref LIST, Ref STRING, Ref HINT, Ref HINT_COL, Ref COMMENT', Ref KEY, Ref COLLECTION, Ref NUMBER,
              Ref LITERAL, Ref SYMBOL];
          (m1, h) = COMMENT ''comment'' [] no_mode h;
          h = upd LIST (\<lambda>m. m\<lparr>contains := Some [Ref m1, Ref NAME, Ref BODY]\<rparr>) h;
          h = upd BODY (\<lambda>m. m\<lparr>contains := Some DEFAULT_CONTAINS\<rparr>) h;
          h = upd COLLECTION (\<lambda>m. m\<lparr>contains := Some DEFAULT_CONTAINS\<rparr>) h;
          (language, h) = new (no_mode\<lparr>aliases := Some [''hylang''], illegal := Some (bs ''%S''),
              contains := Some [Ref SHEBANG, Ref LIST, Ref STRING, Ref HINT, Ref HINT_COL, Ref COMMENT', Ref KEY,
              Ref COLLECTION, Ref NUMBER, Ref LITERAL]\<rparr>) h
      in (language, h))"

definition lang_inform7 :: "mstore \<Rightarrow> nat \<times> mstore" where
  "lang_inform7 h =
     (let START_BRACKET = bs ''%['';
          END_BRACKET = bs ''%]'';
          (m1, h) = new (no_mode\<lparr>className := Some ''subst'', m_begin := Some START_BRACKET,
              m_end := Some END_BRACKET\<rparr>) h;
          (m2, h) = new (no_mode\<lparr>className := Some ''string'', m_begin := Some [CHR 0x22], m_end := Some [CHR 0x22],
              m_relevance := Some 0, contains := Some [Ref m1]\<rparr>) h;
          (m3, h) = new (no_mode\<lparr>className := Some ''section'',
              m_begin := Some (bs ''^(Volume|Book|Part|Chapter|Section|Table)%b''), m_end := Some ''$''\<rparr>) h;
          (m4, h) = new (no_mode\<lparr>m_begin := Some (bs ''%(This''), m_end := Some (bs ''%)'')\<rparr>) h;
          (m5,
              h) = new (no_mode\<lparr>m_begin := Some (bs ''^(Check|Carry out|Report|Instead of|To|Rule|When|Before|After)%b''),
              m_end := Some '':'', contains := Some [Ref m4]\<rparr>) h;
          (m6, h) = new (no_mode\<lparr>className := Some ''comment'', m_begin := Some START_BRACKET,
              m_end := Some END_BRACKET, contains := Some [Self]\<rparr>) h;
          (language, h) = new (no_mode\<lparr>aliases := Some [''i7''], case_insensitive := Some True,
              m_keywords := Some (KObj [(''keyword'', ''thing room person man woman animal container '' @
              ''supporter backdrop door '' @ ''scenery open closed locked inside gender '' @
              ''is are say understand '' @ ''kind of rule'')]), contains := Some [Ref m2, Ref m3, Ref m5,
              Ref m6]\<rparr>) h
      in (language, h))"

definition lang_ini :: "mstore \<Rightarrow> nat \<times> mstore" where
  "lang_ini h =
     (let (m1, h) = new (no_mode\<lparr>m_begin := Some [CHR 0x27, CHR 0x27, CHR 0x27], m_end := Some [CHR 0x27, CHR 0x27,
              CHR 0x27], m_relevance := Some 10\<rparr>) h;
          (m2, h) = new (no_mode\<lparr>m_begin := Some [CHR 0x22, CHR 0x22, CHR 0x22], m_end := Some [CHR 0x22, CHR 0x22,
              CHR 0x22], m_relevance := Some 10\<rparr>) h;
          (m3, h) = new (no_mode\<lparr>m_begin := Some [CHR 0x22], m_end := Some [CHR 0x22]\<rparr>) h;
          (m4, h) = new (no_mode\<lparr>m_begin := Some [CHR 0x27], m_end := Some [CHR 0x27]\<rparr>) h;
          (STRING, h) = new (no_mode\<lparr>className := Some ''string'', contains := Some [Ref hl_BACKSLASH_ESCAPE],
              variants := Some [m1, m2, m3, m4]\<rparr>) h;
          (m5, h) = COMMENT '';'' ''$'' no_mode h;
          (m6, h) = new (no_mode\<lparr>className := Some ''section'', m_begin := Some (bs ''^%s*%[+''),
              m_end := Some (bs ''%]+'')\<rparr>) h;
          (m7, h) = new (no_mode\<lparr>className := Some ''attr'', m_begin := Some (bs ''[a-z0-9%[%]_%.-]+'')\<rparr>) h;
          (m8, h) = COMMENT '';'' ''$'' no_mode h;
          (m9, h) = new (no_mode\<lparr>className := Some ''literal'',
              m_begin := Some (bs ''%bon|off|true|false|yes|no%b'')\<rparr>) h;
          (m10, h) = new (no_mode\<lparr>m_begin := Some (bs ''%$[%w%d'' @ [CHR 0x22] @ bs ''][%w%d_]*'')\<rparr>) h;
          (m11, h) = new (no_mode\<lparr>m_begin := Some (bs ''%$%{(.*?)}'')\<rparr>) h;
          (m12, h) = new (no_mode\<lparr>className := Some ''variable'', variants := Some [m10, m11]\<rparr>) h;
          (m13, h) = new (no_mode\<lparr>className := Some ''number'', m_begin := Some (bs ''([%+%-]+)?[%d]+_[%d_]+'')\<rparr>) h;
          (m14, h) = new (no_mode\<lparr>m_begin := Some ''='', endsWithParent := Some True, m_relevance := Some 0,
              contains := Some [Ref m8, Ref hl_HASH_COMMENT_MODE, Ref m9, Ref m12, Ref STRING, Ref m13,
              Ref hl_NUMBER_MODE]\<rparr>) h;
          (m15, h) = new (no_mode\<lparr>m_begin := Some (bs ''^[a-z0-9%[%]_%.-]+%s*=%s*''), m_end := Some ''$'',
              returnBegin := Some True, contains := Some [Ref m7, Ref m14]\<rparr>) h;
          (language, h) = new (no_mode\<lparr>aliases := Some [''toml''], case_insensitive := Some True,
              illegal := Some (bs ''%S''), contains := Some [Ref m5, Ref hl_HASH_COMMENT_MODE, Ref m6,
              Ref m15]\<rparr>) h
      in (language, h))"

definition lang_irpf90 :: "mstore \<Rightarrow> nat \<times> mstore" where
  "lang_irpf90 h =
     (let (PARAMS, h) = new (no_mode\<lparr>className := Some ''params'', m_begin := Some (bs ''%(''),
              m_end := Some (bs ''%)'')\<rparr>) h;
          F_KEYWORDS = KObj [(''literal'', ''.False. .True.''), (''keyword'',
              ''kind do while private call intrinsic where elsewhere '' @
              ''type endtype endmodule endselect endinterface end enddo endif if forall endforall only contains '' @
              ''default return stop then '' @
              ''public subroutine|10 function program .and. .or. .not. .le. .eq. .ge. .gt. .lt. '' @
              ''goto save else use module select case '' @
              ''access blank direct exist file fmt form formatted iostat name named nextrec number opened rec recl '' @
              ''sequential status unformatted unit '' @ ''continue format pause cycle exit '' @
              ''c_null_char c_alert c_backspace c_form_feed flush wait decimal round iomsg '' @
              ''synchronous nopass non_overridable pass protected volatile abstract extends import '' @
              ''non_intrinsic value deferred generic final enumerator class associate bind enum '' @
              ''c_int c_short c_long c_long_long c_signed_char c_size_t c_int8_t c_int16_t c_int32_t c_int64_t '' @
              ''c_int_least8_t c_int_least16_t '' @
              ''c_int_least32_t c_int_least64_t c_int_fast8_t c_int_fast16_t c_int_fast32_t c_int_fast64_t '' @
              ''c_intmax_t C_intptr_t c_float c_double '' @
              ''c_long_double c_float_complex c_double_complex c_long_double_complex c_bool c_char c_null_ptr c_null_funptr '' @
              ''c_new_line c_carriage_return c_horizontal_tab c_vertical_tab iso_c_binding c_loc c_funloc '' @
              ''c_associated  c_f_pointer '' @
              ''c_ptr c_funptr iso_fortran_env character_storage_size error_unit file_storage_size input_unit '' @
              ''iostat_end iostat_eor '' @
              ''numeric_storage_size output_unit c_f_procpointer ieee_arithmetic ieee_support_underflow_control '' @
              ''ieee_get_underflow_mode ieee_set_underflow_mode newunit contiguous recursive '' @
              ''pad position action delim readwrite eor advance nml interface procedure namelist include sequence '' @
              ''elemental pure '' @ ''integer real character complex logical dimension allocatable|10 parameter '' @
              ''external implicit|10 none double precision assign intent optional pointer '' @
              ''target in out common equivalence data '' @
              ''begin_provider &begin_provider end_provider begin_shell end_shell begin_template end_template subst '' @
              ''assert touch '' @ ''soft_touch provide no_dep free irp_if irp_else irp_endif irp_write irp_read''),
              (''built_in'',
              ''alog alog10 amax0 amax1 amin0 amin1 amod cabs ccos cexp clog csin csqrt dabs dacos dasin datan '' @
              ''datan2 dcos dcosh ddim dexp dint '' @
              ''dlog dlog10 dmax1 dmin1 dmod dnint dsign dsin dsinh dsqrt dtan dtanh float iabs idim idint idnint '' @
              ''ifix isign max0 max1 min0 min1 sngl '' @
              ''algama cdabs cdcos cdexp cdlog cdsin cdsqrt cqabs cqcos cqexp cqlog cqsin cqsqrt dcmplx dconjg derf '' @
              ''derfc dfloat dgamma dimag dlgama '' @
              ''iqint qabs qacos qasin qatan qatan2 qcmplx qconjg qcos qcosh qdim qerf qerfc qexp qgamma qimag '' @
              ''qlgama qlog qlog10 qmax1 qmin1 qmod '' @
              ''qnint qsign qsin qsinh qsqrt qtan qtanh abs acos aimag aint anint asin atan atan2 char cmplx conjg '' @
              ''cos cosh exp ichar index int log '' @
              ''log10 max min nint sign sin sinh sqrt tan tanh print write dim lge lgt lle llt mod nullify allocate '' @
              ''deallocate '' @
              ''adjustl adjustr all allocated any associated bit_size btest ceiling count cshift date_and_time '' @
              ''digits dot_product '' @
              ''eoshift epsilon exponent floor fraction huge iand ibclr ibits ibset ieor ior ishft ishftc lbound '' @
              ''len_trim matmul '' @
              ''maxexponent maxloc maxval merge minexponent minloc minval modulo mvbits nearest pack present product '' @
              ''radix random_number random_seed range repeat reshape rrspacing scale scan selected_int_kind '' @
              ''selected_real_kind '' @
              ''set_exponent shape size spacing spread sum system_clock tiny transpose trim ubound unpack verify '' @
              ''achar iachar transfer '' @
              ''dble entry dprod cpu_time command_argument_count get_command get_command_argument '' @
              ''get_environment_variable is_iostat_end '' @
              ''ieee_arithmetic ieee_support_underflow_control ieee_get_underflow_mode ieee_set_underflow_mode '' @
              ''is_iostat_eor move_alloc new_line selected_char_kind same_type_as extends_type_of'' @
              ''acosh asinh atanh bessel_j0 bessel_j1 bessel_jn bessel_y0 bessel_y1 bessel_yn erf erfc erfc_scaled '' @
              ''gamma log_gamma hypot norm2 '' @
              ''atomic_define atomic_ref execute_command_line leadz trailz storage_size merge_bits '' @
              ''bge bgt ble blt dshiftl dshiftr findloc iall iany iparity image_index lcobound ucobound maskl maskr '' @
              ''num_images parity popcnt poppar shifta shiftl shiftr this_image '' @ ''IRP_ALIGN irp_here'')];
          (m1, h) = new (inherit_mode (mode_at h hl_APOS_STRING_MODE) [(no_mode\<lparr>className := Some ''string'',
              m_relevance := Some 0\<rparr>)]) h;
          (m2, h) = new (inherit_mode (mode_at h hl_QUOTE_STRING_MODE) [(no_mode\<lparr>className := Some ''string'',
              m_relevance := Some 0\<rparr>)]) h;
          (m3, h) = new (no_mode\<lparr>className := Some ''function'', beginKeywords := Some ''subroutine function program'',
              illegal := Some (bs ''[${=%n]''), contains := Some [Ref hl_UNDERSCORE_TITLE_MODE, Ref PARAMS]\<rparr>) h;
          (m4, h) = COMMENT ''!'' ''$'' (no_mode\<lparr>m_relevance := Some 0\<rparr>) h;
          (m5, h) = COMMENT ''begin_doc'' ''end_doc'' (no_mode\<lparr>m_relevance := Some 10\<rparr>) h;
          (m6, h) = new (no_mode\<lparr>className := Some ''number'',
              m_begin := Some (bs ''(?=%b|%+|%-|%.)(?=%.%d|%d)(?:%d+)?(?:%.?%d*'' @ bs '')(?:[de][+-]?%d+)?%b%.?''),
              m_relevance := Some 0\<rparr>) h;
          (language, h) = new (no_mode\<lparr>case_insensitive := Some True, m_keywords := Some F_KEYWORDS,
              illegal := Some (bs ''%/%*''), contains := Some [Ref m1, Ref m2, Ref m3, Ref m4, Ref m5,
              Ref m6]\<rparr>) h
      in (language, h))"

definition lang_javascript :: "mstore \<Rightarrow> nat \<times> mstore" where
  "lang_javascript h =
     (let IDENT_RE' = ''[A-Za-z$_][0-9A-Za-z$_]*'';
          (m1, h) = new (no_mode\<lparr>m_begin := Some (bs ''%b(0[bB][01]+)'')\<rparr>) h;
          (m2, h) = new (no_mode\<lparr>m_begin := Some (bs ''%b(0[oO][0-7]+)'')\<rparr>) h;
          (m3, h) = new (no_mode\<lparr>m_begin := Some C_NUMBER_RE\<rparr>) h;
          (NUMBER, h) = new (no_mode\<lparr>className := Some ''number'', variants := Some [m1, m2, m3],
              m_relevance := Some 0\<rparr>) h;
          KEYWORDS = KObj [(''keyword'', ''in of if for while finally var new function do return void else break catch '' @
              ''instanceof with throw case default try this switch continue typeof delete '' @
              ''let yield const export super debugger as async await static '' @ ''import from as''), (''literal'',
              ''true false null undefined NaN Infinity''), (''built_in'',
              ''eval isFinite isNaN parseFloat parseInt decodeURI decodeURIComponent '' @
              ''encodeURI encodeURIComponent escape unescape Object Function Boolean Error '' @
              ''EvalError InternalError RangeError ReferenceError StopIteration SyntaxError '' @
              ''TypeError URIError Number Math Date String RegExp Array Float32Array '' @
              ''Float64Array Int16Array Int32Array Int8Array Uint16Array Uint32Array '' @
              ''Uint8Array Uint8ClampedArray ArrayBuffer DataView JSON Intl arguments require '' @
              ''module console window document Symbol Set Map WeakSet WeakMap Proxy Reflect '' @ ''Promise'')];
          (SUBST, h) = new (no_mode\<lparr>className := Some ''subst'', m_begin := Some (bs ''%$%{''),
              m_end := Some (bs ''%}''), m_keywords := Some KEYWORDS, contains := Some []\<rparr>) h;
          (m4, h) = new (no_mode\<lparr>m_end := Some [CHR 0x60], returnEnd := Some False,
              contains := Some [Ref hl_BACKSLASH_ESCAPE, Ref SUBST], subLanguage := Some (SubName ''xml'')\<rparr>) h;
          (HTML_TEMPLATE, h) = new (no_mode\<lparr>m_begin := Some (''html'' @ [CHR 0x60]), m_end := Some [],
              starts := Some m4\<rparr>) h;
          (m5, h) = new (no_mode\<lparr>m_end := Some [CHR 0x60], returnEnd := Some False,
              contains := Some [Ref hl_BACKSLASH_ESCAPE, Ref SUBST], subLanguage := Some (SubName ''css'')\<rparr>) h;
          (CSS_TEMPLATE, h) = new (no_mode\<lparr>m_begin := Some (''css'' @ [CHR 0x60]), m_end := Some [],
              starts := Some m5\<rparr>) h;
          (TEMPLATE_STRING, h) = new (no_mode\<lparr>className := Some ''string'', m_begin := Some [CHR 0x60],
              m_end := Some [CHR 0x60], contains := Some [Ref hl_BACKSLASH_ESCAPE, Ref SUBST]\<rparr>) h;
          h = upd SUBST (\<lambda>m. m\<lparr>contains := Some [Ref hl_APOS_STRING_MODE, Ref hl_QUOTE_STRING_MODE,
              Ref HTML_TEMPLATE, Ref CSS_TEMPLATE, Ref TEMPLATE_STRING, Ref NUMBER, Ref hl_REGEXP_MODE]\<rparr>) h;
          PARAMS_CONTAINS = [Ref hl_APOS_STRING_MODE, Ref hl_QUOTE_STRING_MODE, Ref HTML_TEMPLATE, Ref CSS_TEMPLATE,
              Ref TEMPLATE_STRING, Ref NUMBER, Ref hl_REGEXP_MODE, Ref hl_C_BLOCK_COMMENT_MODE,
              Ref hl_C_LINE_COMMENT_MODE];
          (m6, h) = new (no_mode\<lparr>className := Some ''meta'', m_relevance := Some 10, m_begin := Some (bs ''^%s*['' @
              [CHR 0x27, CHR 0x22] @ '']use (strict|asm)['' @ [CHR 0x27, CHR 0x22] @ '']'')\<rparr>) h;
          (m7, h) = new (no_mode\<lparr>className := Some ''meta'', m_begin := Some ''^#!'', m_end := Some ''$''\<rparr>) h;
          (m8, h) = new (no_mode\<lparr>className := Some ''attr'', m_begin := Some (IDENT_RE'), m_relevance := Some 0\<rparr>) h;
          (m9, h) = new (no_mode\<lparr>m_begin := Some (IDENT_RE' @ bs ''%s*:''), returnBegin := Some True,
              m_relevance := Some 0, contains := Some [Ref m8]\<rparr>) h;
          (m10, h) = new (no_mode\<lparr>m_begin := Some (bs ''[{,]%s*''), m_relevance := Some 0,
              contains := Some [Ref m9]\<rparr>) h;
          (m11, h) = new (no_mode\<lparr>m_begin := Some (IDENT_RE')\<rparr>) h;
          (m12, h) = new (no_mode\<lparr>m_begin := Some (bs ''%(%s*%)'')\<rparr>) h;
          (m13, h) = new (no_mode\<lparr>m_begin := Some (bs ''%(''), m_end := Some (bs ''%)''), excludeBegin := Some True,
              excludeEnd := Some True, m_keywords := Some KEYWORDS, contains := Some PARAMS_CONTAINS\<rparr>) h;
          (m14, h) = new (no_mode\<lparr>className := Some ''params'', variants := Some [m11, m12, m13]\<rparr>) h;
          (m15, h) = new (no_mode\<lparr>className := Some ''function'', m_begin := Some (bs ''(%(.*?%)|'' @ IDENT_RE' @
              bs '')%s*=>''), returnBegin := Some True, m_end := Some (bs ''%s*=>''),
              contains := Some [Ref m14]\<rparr>) h;
          (m16, h) = new (no_mode\<lparr>className := Some [], m_begin := Some (bs ''%s''), m_end := Some (bs ''%s*''),
              skip := Some True\<rparr>) h;
          (m17, h) = new (no_mode\<lparr>m_begin := Some (bs ''<[A-Za-z0-9%%._:-]+%s*%/>''), skip := Some True\<rparr>) h;
          (m18, h) = new (no_mode\<lparr>m_begin := Some (bs ''<[A-Za-z0-9%%._:-]+%s*%/>''), skip := Some True\<rparr>) h;
          (m19, h) = new (no_mode\<lparr>m_begin := Some (bs ''<[A-Za-z0-9%%._:-]+''),
              m_end := Some (bs ''(%/[A-Za-z0-9%%._:-]+|[A-Za-z0-9%%._:-]+%/)>''), skip := Some True,
              contains := Some [Ref m18, Self]\<rparr>) h;
          (m20, h) = new (no_mode\<lparr>m_begin := Some ''<'',
              m_end := Some (bs ''(%/[A-Za-z0-9%%._:-]+|[A-Za-z0-9%%._:-]+%/)>''),
              subLanguage := Some (SubName ''xml''), contains := Some [Ref m17, Ref m19]\<rparr>) h;
          (m21, h) = new (no_mode\<lparr>m_begin := Some (''('' @ RE_STARTERS_RE @ bs ''|%b(case|return|throw)%b)%s*''),
              m_keywords := Some (KStr ''return throw case''), contains := Some [Ref hl_C_LINE_COMMENT_MODE,
              Ref hl_C_BLOCK_COMMENT_MODE, Ref hl_REGEXP_MODE, Ref m15, Ref m16, Ref m20],
              m_relevance := Some 0\<rparr>) h;
          (m22, h) = new (inherit_mode (mode_at h hl_TITLE_MODE) [(no_mode\<lparr>m_begin := Some (IDENT_RE')\<rparr>)]) h;
          (m23, h) = new (no_mode\<lparr>className := Some ''params'', m_begin := Some (bs ''%(''), m_end := Some (bs ''%)''),
              excludeBegin := Some True, excludeEnd := Some True, contains := Some PARAMS_CONTAINS\<rparr>) h;
          (m24, h) = new (no_mode\<lparr>className := Some ''function'', beginKeywords := Some ''function'',
              m_end := Some (bs ''%{''), excludeEnd := Some True, contains := Some [Ref m22, Ref m23],
              illegal := Some (bs ''%[|'' @ ''%'')\<rparr>) h;
          (m25, h) = new (no_mode\<lparr>m_begin := Some (bs ''%$[(.]'')\<rparr>) h;
          (m26, h) = new (no_mode\<lparr>beginKeywords := Some ''extends''\<rparr>) h;
          (m27, h) = new (no_mode\<lparr>className := Some ''class'', beginKeywords := Some ''class'', m_end := Some ''[{;=]'',
              excludeEnd := Some True, illegal := Some (''[:'' @ [CHR 0x22] @ bs ''%[%]'' @ '']''),
              contains := Some [Ref m26, Ref hl_UNDERSCORE_TITLE_MODE]\<rparr>) h;
          (m28, h) = new (no_mode\<lparr>beginKeywords := Some ''constructor get set'', m_end := Some (bs ''%{''),
              excludeEnd := Some True\<rparr>) h;
          (language, h) = new (no_mode\<lparr>aliases := Some [''js'', ''jsx''], m_keywords := Some KEYWORDS,
              contains := Some [Ref m6, Ref m7, Ref hl_APOS_STRING_MODE, Ref hl_QUOTE_STRING_MODE, Ref HTML_TEMPLATE,
              Ref CSS_TEMPLATE, Ref TEMPLATE_STRING, Ref hl_C_LINE_COMMENT_MODE, Ref hl_C_BLOCK_COMMENT_MODE,
              Ref NUMBER, Ref m10, Ref m21, Ref m24, Ref m25, Ref hl_METHOD_GUARD, Ref m27, Ref m28],
              illegal := Some ''#(?!!)''\<rparr>) h
      in (language, h))"

definition lang_jboss_cli :: "mstore \<Rightarrow> nat \<times> mstore" where
  "lang_jboss_cli h =
     (let (m1, h) = new (no_mode\<lparr>className := Some ''attr'', m_begin := Some (bs ''[%w-]+'')\<rparr>) h;
          (PARAM, h) = new (no_mode\<lparr>m_begin := Some (bs ''[%w-]+ *=''), returnBegin := Some True, m_relevance := Some 0,
              contains := Some [Ref m1]\<rparr>) h;
          (PARAMSBLOCK, h) = new (no_mode\<lparr>className := Some ''params'', m_begin := Some (bs ''%(''),
              m_end := Some (bs ''%)''), contains := Some [Ref PARAM], m_relevance := Some 0\<rparr>) h;
          (OPERATION, h) = new (no_mode\<lparr>className := Some ''function'', m_begin := Some (bs '':[%w%-.]+''),
              m_relevance := Some 0\<rparr>) h;
          (PATH, h) = new (no_mode\<lparr>className := Some ''string'',
              m_begin := Some (bs ''%B(([%/.])[%w%-.%/=]+)+'')\<rparr>) h;
          (COMMAND_PARAMS, h) = new (no_mode\<lparr>className := Some ''params'', m_begin := Some (bs ''--[%w%-=%/]+'')\<rparr>) h;
          (language, h) = new (no_mode\<lparr>aliases := Some [''wildfly-cli''], lexemes := Some ''[a-z-]+'',
              m_keywords := Some (KObj [(''keyword'',
              ''alias batch cd clear command connect connection-factory connection-info data-source deploy '' @
              ''deployment-info deployment-overlay echo echo-dmr help history if jdbc-driver-info jms-queue|20 '' @
              ''jms-topic|20 ls '' @
              ''patch pwd quit read-attribute read-operation reload rollout-plan run-batch set shutdown try unalias '' @
              ''undeploy unset version xa-data-source''), (''literal'', ''true false'')]),
              contains := Some [Ref hl_HASH_COMMENT_MODE, Ref hl_QUOTE_STRING_MODE, Ref COMMAND_PARAMS,
              Ref OPERATION, Ref PATH, Ref PARAMSBLOCK]\<rparr>) h
      in (language, h))"

definition lang_julia_repl :: "mstore \<Rightarrow> nat \<times> mstore" where
  "lang_julia_repl h =
     (let (m1, h) = new (no_mode\<lparr>m_end := Some ''^(?![ ]{6})'', subLanguage := Some (SubName ''julia'')\<rparr>) h;
          (m2, h) = new (no_mode\<lparr>className := Some ''meta'', m_begin := Some ''^julia>'', m_relevance := Some 10,
              starts := Some m1, aliases := Some [''jldoctest'']\<rparr>) h;
          (language, h) = new (no_mode\<lparr>contains := Some [Ref m2]\<rparr>) h
      in (language, h))"

definition lang_lasso :: "mstore \<Rightarrow> nat \<times> mstore" where
  "lang_lasso h =
     (let LASSO_IDENT_RE = bs ''[a-zA-Z_][%w.]*'';
          LASSO_ANGLE_RE = bs ''<%?(lasso(script)?|=)'';
          LASSO_CLOSE_RE = bs ''%]|%?>'';
          (HTML_COMMENT, h) = COMMENT ''<!--'' ''-->'' (no_mode\<lparr>m_relevance := Some 0\<rparr>) h;
          (m1, h) = new (no_mode\<lparr>m_end := Some (bs ''%[/noprocess%]''), returnEnd := Some True,
              contains := Some [Ref HTML_COMMENT]\<rparr>) h;
          (LASSO_NOPROCESS, h) = new (no_mode\<lparr>className := Some ''meta'', m_begin := Some (bs ''%[noprocess%]''),
              starts := Some m1\<rparr>) h;
          (LASSO_START, h) = new (no_mode\<lparr>className := Some ''meta'', m_begin := Some (bs ''%[/noprocess|'' @
              LASSO_ANGLE_RE)\<rparr>) h;
          (LASSO_DATAMEMBER, h) = new (no_mode\<lparr>className := Some ''symbol'', m_begin := Some ([CHR 0x27] @
              LASSO_IDENT_RE @ [CHR 0x27])\<rparr>) h;
          (m2, h) = new (inherit_mode (mode_at h hl_C_NUMBER_MODE) [(no_mode\<lparr>m_begin := Some (C_NUMBER_RE @
              bs ''|(-?infinity|NaN)%b'')\<rparr>)]) h;
          (m3, h) = new (inherit_mode (mode_at h hl_APOS_STRING_MODE) [(no_mode\<lparr>illegal := Some []\<rparr>)]) h;
          (m4, h) = new (inherit_mode (mode_at h hl_QUOTE_STRING_MODE) [(no_mode\<lparr>illegal := Some []\<rparr>)]) h;
          (m5, h) = new (no_mode\<lparr>className := Some ''string'', m_begin := Some [CHR 0x60],
              m_end := Some [CHR 0x60]\<rparr>) h;
          (m6, h) = new (no_mode\<lparr>m_begin := Some (''[#$]'' @ LASSO_IDENT_RE)\<rparr>) h;
          (m7, h) = new (no_mode\<lparr>m_begin := Some ''#'', m_end := Some (bs ''%d+''), illegal := Some (bs ''%W'')\<rparr>) h;
          (m8, h) = new (no_mode\<lparr>variants := Some [m6, m7]\<rparr>) h;
          (m9, h) = new (no_mode\<lparr>className := Some ''type'', m_begin := Some (bs ''::%s*''),
              m_end := Some LASSO_IDENT_RE, illegal := Some (bs ''%W'')\<rparr>) h;
          (m10, h) = new (no_mode\<lparr>m_begin := Some (''-(?!infinity)'' @ LASSO_IDENT_RE), m_relevance := Some 0\<rparr>) h;
          (m11, h) = new (no_mode\<lparr>m_begin := Some (bs ''(%.%.%.)'')\<rparr>) h;
          (m12, h) = new (no_mode\<lparr>className := Some ''params'', variants := Some [m10, m11]\<rparr>) h;
          (m13, h) = new (no_mode\<lparr>m_begin := Some (bs ''(->|%.)%s*''), m_relevance := Some 0,
              contains := Some [Ref LASSO_DATAMEMBER]\<rparr>) h;
          (m14, h) = new (inherit_mode (mode_at h hl_TITLE_MODE) [(no_mode\<lparr>m_begin := Some (LASSO_IDENT_RE @
              ''(=(?!>))?|[-+*/%](?!>)'')\<rparr>)]) h;
          (m15, h) = new (no_mode\<lparr>className := Some ''class'', beginKeywords := Some ''define'', returnEnd := Some True,
              m_end := Some (bs ''%(|=>''), contains := Some [Ref m14]\<rparr>) h;
          LASSO_CODE = [Ref hl_C_LINE_COMMENT_MODE, Ref hl_C_BLOCK_COMMENT_MODE, Ref m2, Ref m3, Ref m4, Ref m5, Ref m8,
              Ref m9, Ref m12, Ref m13, Ref m15];
          LASSO_KEYWORDS = KObj [(''literal'', ''true false none minimal full all void and or not '' @
              ''bw nbw ew new cn ncn lt lte gt gte eq neq rx nrx ft''), (''built_in'',
              ''array date decimal duration integer map pair string tag xml null '' @
              ''boolean bytes keyword list locale queue set stack staticarray '' @
              ''local var variable global data self inherited currentcapture givenblock''), (''keyword'',
              ''cache database_names database_schemanames database_tablenames '' @
              ''define_tag define_type email_batch encode_set html_comment handle '' @
              ''handle_error header if inline iterate ljax_target link '' @
              ''link_currentaction link_currentgroup link_currentrecord link_detail '' @
              ''link_firstgroup link_firstrecord link_lastgroup link_lastrecord '' @
              ''link_nextgroup link_nextrecord link_prevgroup link_prevrecord log '' @
              ''loop namespace_using output_none portal private protect records '' @
              ''referer referrer repeating resultset rows search_args '' @
              ''search_arguments select sort_args sort_arguments thread_atomic '' @
              ''value_list while abort case else fail_if fail_ifnot fail if_empty '' @
              ''if_false if_null if_true loop_abort loop_continue loop_count params '' @
              ''params_up return return_value run_children soap_definetag '' @
              ''soap_lastrequest soap_lastresponse tag_name ascending average by '' @
              ''define descending do equals frozen group handle_failure import in '' @
              ''into join let match max min on order parent protected provide public '' @
              ''require returnhome skip split_thread sum take thread to trait type '' @
              ''where with yield yieldhome'')];
          (m16, h) = new (no_mode\<lparr>m_end := Some (bs ''%[|'' @ LASSO_ANGLE_RE), returnEnd := Some True,
              m_relevance := Some 0, contains := Some [Ref HTML_COMMENT]\<rparr>) h;
          (m17, h) = new (no_mode\<lparr>className := Some ''meta'', m_begin := Some LASSO_CLOSE_RE, m_relevance := Some 0,
              starts := Some m16\<rparr>) h;
          (m18, h) = new (no_mode\<lparr>m_end := Some (bs ''%[noprocess%]|'' @ LASSO_ANGLE_RE), returnEnd := Some True,
              contains := Some [Ref HTML_COMMENT]\<rparr>) h;
          (m19, h) = new (no_mode\<lparr>className := Some ''meta'', m_begin := Some LASSO_CLOSE_RE, m_relevance := Some 0,
              starts := Some m18\<rparr>) h;
          (m20, h) = new (no_mode\<lparr>m_end := Some (bs ''%[/no_square_brackets%]''), lexemes := Some (LASSO_IDENT_RE @
              ''|&[lg]t;''), m_keywords := Some LASSO_KEYWORDS, contains := Some ([Ref m19, Ref LASSO_NOPROCESS,
              Ref LASSO_START] @ LASSO_CODE)\<rparr>) h;
          (m21, h) = new (no_mode\<lparr>className := Some ''meta'', m_begin := Some (bs ''%[no_square_brackets''),
              starts := Some m20\<rparr>) h;
          (m22, h) = new (no_mode\<lparr>className := Some ''meta'', m_begin := Some (bs ''%[''), m_relevance := Some 0\<rparr>) h;
          (m23, h) = new (no_mode\<lparr>className := Some ''meta'', m_begin := Some ''^#!'', m_end := Some ''lasso9$'',
              m_relevance := Some 10\<rparr>) h;
          (language, h) = new (no_mode\<lparr>aliases := Some [''ls'', ''lassoscript''], case_insensitive := Some True,
              lexemes := Some (LASSO_IDENT_RE @ ''|&[lg]t;''), m_keywords := Some LASSO_KEYWORDS,
              contains := Some ([Ref m17, Ref LASSO_NOPROCESS, Ref LASSO_START, Ref m21, Ref m22, Ref m23] @
              LASSO_CODE)\<rparr>) h
      in (language, h))"

definition lang_ldif :: "mstore \<Rightarrow> nat \<times> mstore" where
  "lang_ldif h =
     (let (m1, h) = new (no_mode\<lparr>m_end := Some ''$'', m_relevance := Some 0\<rparr>) h;
          (m2, h) = new (no_mode\<lparr>className := Some ''attribute'', m_begin := Some ''^dn'', m_end := Some '': '',
              excludeEnd := Some True, starts := Some m1, m_relevance := Some 10\<rparr>) h;
          (m3, h) = new (no_mode\<lparr>m_end := Some ''$'', m_relevance := Some 0\<rparr>) h;
          (m4, h) = new (no_mode\<lparr>className := Some ''attribute'', m_begin := Some (bs ''^%w''), m_end := Some '': '',
              excludeEnd := Some True, starts := Some m3\<rparr>) h;
          (m5, h) = new (no_mode\<lparr>className := Some ''literal'', m_begin := Some ''^-'', m_end := Some ''$''\<rparr>) h;
          (language, h) = new (no_mode\<lparr>contains := Some [Ref m2, Ref m4, Ref m5, Ref hl_HASH_COMMENT_MODE]\<rparr>) h
      in (language, h))"

definition lang_leaf :: "mstore \<Rightarrow> nat \<times> mstore" where
  "lang_leaf h =
     (let (m1, h) = new (no_mode\<lparr>className := Some ''keyword'', m_begin := Some ''#+''\<rparr>) h;
          (m2, h) = new (no_mode\<lparr>className := Some ''title'', m_begin := Some ''[A-Za-z_][A-Za-z_0-9]*''\<rparr>) h;
          (m3, h) = new (no_mode\<lparr>className := Some ''string'', m_begin := Some [CHR 0x22],
              m_end := Some [CHR 0x22]\<rparr>) h;
          (m4, h) = new (no_mode\<lparr>className := Some ''variable'', m_begin := Some ''[A-Za-z_][A-Za-z_0-9]*''\<rparr>) h;
          (m5, h) = new (no_mode\<lparr>className := Some ''params'', m_begin := Some (bs ''%(''), m_end := Some (bs ''%)''),
              endsParent := Some True, contains := Some [Ref m3, Ref m4]\<rparr>) h;
          (m6, h) = new (no_mode\<lparr>className := Some ''function'', m_begin := Some (''#+'' @ ''[A-Za-z_0-9]*'' @
              bs ''%(''), m_end := Some '' {'', returnBegin := Some True, excludeEnd := Some True,
              contains := Some [Ref m1, Ref m2, Ref m5]\<rparr>) h;
          (language, h) = new (no_mode\<lparr>contains := Some [Ref m6]\<rparr>) h
      in (language, h))"

definition lang_lisp :: "mstore \<Rightarrow> nat \<times> mstore" where
  "lang_lisp h =
     (let LISP_IDENT_RE = bs ''[a-zA-Z_%-%+%*%/%'' @ bs ''<%=%>%&%#][a-zA-Z0-9_%-%+%*%/%'' @ bs ''<%=%>%&%#!]*'';
          MEC_RE = bs ''%|[^]*?%|'';
          LISP_SIMPLE_NUMBER_RE = bs ''(%-|%+)?%d+(%.%d+|%/%d+)?((d|e|f|l|s|D|E|F|L|S)(%+|%-)?%d+)?'';
          (SHEBANG, h) = new (no_mode\<lparr>className := Some ''meta'', m_begin := Some ''^#!'', m_end := Some ''$''\<rparr>) h;
          (LITERAL, h) = new (no_mode\<lparr>className := Some ''literal'', m_begin := Some (bs ''%b(t{1}|nil)%b'')\<rparr>) h;
          (m1, h) = new (no_mode\<lparr>m_begin := Some LISP_SIMPLE_NUMBER_RE, m_relevance := Some 0\<rparr>) h;
          (m2, h) = new (no_mode\<lparr>m_begin := Some ''#(b|B)[0-1]+(/[0-1]+)?''\<rparr>) h;
          (m3, h) = new (no_mode\<lparr>m_begin := Some ''#(o|O)[0-7]+(/[0-7]+)?''\<rparr>) h;
          (m4, h) = new (no_mode\<lparr>m_begin := Some ''#(x|X)[0-9a-fA-F]+(/[0-9a-fA-F]+)?''\<rparr>) h;
          (m5, h) = new (no_mode\<lparr>m_begin := Some (bs ''#(c|C)%('' @ LISP_SIMPLE_NUMBER_RE @ '' +'' @
              LISP_SIMPLE_NUMBER_RE), m_end := Some (bs ''%)'')\<rparr>) h;
          (NUMBER, h) = new (no_mode\<lparr>className := Some ''number'', variants := Some [m1, m2, m3, m4, m5]\<rparr>) h;
          (STRING, h) = new (inherit_mode (mode_at h hl_QUOTE_STRING_MODE) [(no_mode\<lparr>illegal := Some []\<rparr>)]) h;
          (COMMENT', h) = COMMENT '';'' ''$'' (no_mode\<lparr>m_relevance := Some 0\<rparr>) h;
          (VARIABLE, h) = new (no_mode\<lparr>m_begin := Some (bs ''%*''), m_end := Some (bs ''%*'')\<rparr>) h;
          (KEYWORD, h) = new (no_mode\<lparr>className := Some ''symbol'', m_begin := Some (''[:&]'' @ LISP_IDENT_RE)\<rparr>) h;
          (IDENT, h) = new (no_mode\<lparr>m_begin := Some LISP_IDENT_RE, m_relevance := Some 0\<rparr>) h;
          (MEC, h) = new (no_mode\<lparr>m_begin := Some MEC_RE\<rparr>) h;
          (QUOTED_LIST, h) = new (no_mode\<lparr>m_begin := Some (bs ''%(''), m_end := Some (bs ''%)''),
              contains := Some [Self, Ref LITERAL, Ref STRING, Ref NUMBER, Ref IDENT]\<rparr>) h;
          (m6, h) = new (no_mode\<lparr>m_begin := Some (''['' @ [CHR 0x27, CHR 0x60] @ bs '']%(''),
              m_end := Some (bs ''%)'')\<rparr>) h;
          (m7, h) = new (no_mode\<lparr>m_begin := Some (bs ''%(quote ''), m_end := Some (bs ''%)''),
              m_keywords := Some (KObj [(''name'', ''quote'')])\<rparr>) h;
          (m8, h) = new (no_mode\<lparr>m_begin := Some ([CHR 0x27] @ MEC_RE)\<rparr>) h;
          (QUOTED, h) = new (no_mode\<lparr>contains := Some [Ref NUMBER, Ref STRING, Ref VARIABLE, Ref KEYWORD,
              Ref QUOTED_LIST, Ref IDENT], variants := Some [m6, m7, m8]\<rparr>) h;
          (m9, h) = new (no_mode\<lparr>m_begin := Some ([CHR 0x27] @ LISP_IDENT_RE)\<rparr>) h;
          (m10, h) = new (no_mode\<lparr>m_begin := Some (''#'' @ [CHR 0x27] @ LISP_IDENT_RE @ ''(::'' @ LISP_IDENT_RE @
              '')*'')\<rparr>) h;
          (QUOTED_ATOM, h) = new (no_mode\<lparr>variants := Some [m9, m10]\<rparr>) h;
          (LIST, h) = new (no_mode\<lparr>m_begin := Some (bs ''%(%s*''), m_end := Some (bs ''%)'')\<rparr>) h;
          (BODY, h) = new (no_mode\<lparr>endsWithParent := Some True, m_relevance := Some 0\<rparr>) h;
          (m11, h) = new (no_mode\<lparr>m_begin := Some LISP_IDENT_RE\<rparr>) h;
          (m12, h) = new (no_mode\<lparr>m_begin := Some MEC_RE\<rparr>) h;
          (m13, h) = new (no_mode\<lparr>className := Some ''name'', variants := Some [m11, m12]\<rparr>) h;
          h = upd LIST (\<lambda>m. m\<lparr>contains := Some [Ref m13, Ref BODY]\<rparr>) h;
          h = upd BODY (\<lambda>m. m\<lparr>contains := Some [Ref QUOTED, Ref QUOTED_ATOM, Ref LIST, Ref LITERAL, Ref NUMBER,
              Ref STRING, Ref COMMENT', Ref VARIABLE, Ref KEYWORD, Ref MEC, Ref IDENT]\<rparr>) h;
          (language, h) = new (no_mode\<lparr>illegal := Some (bs ''%S''), contains := Some [Ref NUMBER, Ref SHEBANG,
              Ref LITERAL, Ref STRING, Ref COMMENT', Ref QUOTED, Ref QUOTED_ATOM, Ref LIST, Ref IDENT]\<rparr>) h
      in (language, h))"

definition lang_livecodeserver :: "mstore \<Rightarrow> nat \<times> mstore" where
  "lang_livecodeserver h =
     (let (m1, h) = new (no_mode\<lparr>m_begin := Some (bs ''%b([gtps][A-Z]{1}[a-zA-Z0-9]*'' @
              bs '')(%[.+%])?(?:%s*?)'')\<rparr>) h;
          (m2, h) = new (no_mode\<lparr>m_begin := Some (bs ''%$_[A-Z]+'')\<rparr>) h;
          (VARIABLE, h) = new (no_mode\<lparr>className := Some ''variable'', variants := Some [m1, m2],
              m_relevance := Some 0\<rparr>) h;
          (m3, h) = COMMENT ''--'' ''$'' no_mode h;
          (m4, h) = COMMENT ''[^:]//'' ''$'' no_mode h;
          COMMENT_MODES = [Ref hl_C_BLOCK_COMMENT_MODE, Ref hl_HASH_COMMENT_MODE, Ref m3, Ref m4];
          (m5, h) = new (no_mode\<lparr>m_begin := Some (bs ''%b_*rig[A-Z]+[A-Za-z0-9_%-]*'')\<rparr>) h;
          (m6, h) = new (no_mode\<lparr>m_begin := Some (bs ''%b_[a-z0-9%-]+'')\<rparr>) h;
          (TITLE1, h) = new (inherit_mode (mode_at h hl_TITLE_MODE) [(no_mode\<lparr>variants := Some [m5, m6]\<rparr>)]) h;
          (TITLE2,
              h) = new (inherit_mode (mode_at h hl_TITLE_MODE) [(no_mode\<lparr>m_begin := Some (bs ''%b([A-Za-z0-9_%-]+)%b'')\<rparr>)]) h;
          (m7, h) = new (no_mode\<lparr>className := Some ''keyword'', m_begin := Some (bs ''%bend%sif%b'')\<rparr>) h;
          (m8, h) = new (no_mode\<lparr>className := Some ''function'', beginKeywords := Some ''function'',
              m_end := Some ''$'', contains := Some [Ref VARIABLE, Ref TITLE2, Ref hl_APOS_STRING_MODE,
              Ref hl_QUOTE_STRING_MODE, Ref hl_BINARY_NUMBER_MODE, Ref hl_C_NUMBER_MODE, Ref TITLE1]\<rparr>) h;
          (m9, h) = new (no_mode\<lparr>className := Some ''function'', m_begin := Some (bs ''%bend%s+''), m_end := Some ''$'',
              m_keywords := Some (KStr ''end''), contains := Some [Ref TITLE2, Ref TITLE1],
              m_relevance := Some 0\<rparr>) h;
          (m10, h) = new (no_mode\<lparr>beginKeywords := Some ''command on'', m_end := Some ''$'',
              contains := Some [Ref VARIABLE, Ref TITLE2, Ref hl_APOS_STRING_MODE, Ref hl_QUOTE_STRING_MODE,
              Ref hl_BINARY_NUMBER_MODE, Ref hl_C_NUMBER_MODE, Ref TITLE1]\<rparr>) h;
          (m11, h) = new (no_mode\<lparr>m_begin := Some (bs ''<%?(rev|lc|livecode)''), m_relevance := Some 10\<rparr>) h;
          (m12, h) = new (no_mode\<lparr>m_begin := Some (bs ''<%?'')\<rparr>) h;
          (m13, h) = new (no_mode\<lparr>m_begin := Some (bs ''%?>'')\<rparr>) h;
          (m14, h) = new (no_mode\<lparr>className := Some ''meta'', variants := Some [m11, m12, m13]\<rparr>) h;
          (language, h) = new (no_mode\<lparr>case_insensitive := Some False, m_keywords := Some (KObj [(''keyword'',
              ''$_COOKIE $_FILES $_GET $_GET_BINARY $_GET_RAW $_POST $_POST_BINARY $_POST_RAW $_SESSION $_SERVER '' @
              ''codepoint codepoints segment segments codeunit codeunits sentence sentences trueWord trueWords paragraph '' @
              ''after byte bytes english the until http forever descending using line real8 with seventh '' @
              ''for stdout finally element word words fourth before black ninth sixth characters chars stderr '' @
              ''uInt1 uInt1s uInt2 uInt2s stdin string lines relative rel any fifth items from middle mid '' @
              ''at else of catch then third it file milliseconds seconds second secs sec int1 int1s int4 '' @
              ''int4s internet int2 int2s normal text item last long detailed effective uInt4 uInt4s repeat '' @
              ''end repeat URL in try into switch to words https token binfile each tenth as ticks tick '' @
              ''system real4 by dateItems without char character ascending eighth whole dateTime numeric short '' @
              ''first ftp integer abbreviated abbr abbrev private case while if '' @
              ''div mod wrap and or bitAnd bitNot bitOr bitXor among not in a an within '' @
              ''contains ends with begins the keys of keys''), (''literal'',
              ''SIX TEN FORMFEED NINE ZERO NONE SPACE FOUR FALSE COLON CRLF PI COMMA ENDOFFILE EOF EIGHT FIVE '' @
              ''QUOTE EMPTY ONE TRUE RETURN CR LINEFEED RIGHT BACKSLASH NULL SEVEN TAB THREE TWO '' @
              ''six ten formfeed nine zero none space four false colon crlf pi comma endoffile eof eight five '' @
              ''quote empty one true return cr linefeed right backslash null seven tab three two '' @
              ''RIVERSION RISTATE FILE_READ_MODE FILE_WRITE_MODE FILE_WRITE_MODE DIR_WRITE_MODE FILE_READ_UMASK '' @
              ''FILE_WRITE_UMASK DIR_READ_UMASK DIR_WRITE_UMASK''), (''built_in'',
              ''put abs acos aliasReference annuity arrayDecode arrayEncode asin atan atan2 average avg avgDev base64Decode '' @
              ''base64Encode baseConvert binaryDecode binaryEncode byteOffset byteToNum cachedURL cachedURLs charToNum '' @
              ''cipherNames codepointOffset codepointProperty codepointToNum codeunitOffset commandNames compound compress '' @
              ''constantNames cos date dateFormat decompress difference directories '' @
              ''diskSpace DNSServers exp exp1 exp2 exp10 extents files flushEvents folders format functionNames '' @
              ''geometricMean global '' @
              ''globals hasMemory harmonicMean hostAddress hostAddressToName hostName hostNameToAddress isNumber '' @
              ''ISOToMac itemOffset '' @
              ''keys len length libURLErrorData libUrlFormData libURLftpCommand libURLLastHTTPHeaders libURLLastRHHeaders '' @
              ''libUrlMultipartFormAddPart libUrlMultipartFormData libURLVersion lineOffset ln ln1 localNames log log2 log10 '' @
              ''longFilePath lower macToISO matchChunk matchText matrixMultiply max md5Digest median merge '' @
              ''messageAuthenticationCode messageDigest millisec '' @
              ''millisecs millisecond milliseconds min monthNames nativeCharToNum normalizeText num number '' @
              ''numToByte numToChar '' @
              ''numToCodepoint numToNativeChar offset open openfiles openProcesses openProcessIDs openSockets '' @
              ''paragraphOffset paramCount param params peerAddress pendingMessages platform popStdDev '' @
              ''populationStandardDeviation '' @
              ''populationVariance popVariance processID random randomBytes replaceText result revCreateXMLTree '' @
              ''revCreateXMLTreeFromFile '' @
              ''revCurrentRecord revCurrentRecordIsFirst revCurrentRecordIsLast revDatabaseColumnCount '' @
              ''revDatabaseColumnIsNull '' @
              ''revDatabaseColumnLengths revDatabaseColumnNames revDatabaseColumnNamed revDatabaseColumnNumbered '' @
              ''revDatabaseColumnTypes revDatabaseConnectResult revDatabaseCursors revDatabaseID revDatabaseTableNames '' @
              ''revDatabaseType revDataFromQuery revdb_closeCursor revdb_columnbynumber revdb_columncount revdb_columnisnull '' @
              ''revdb_columnlengths revdb_columnnames revdb_columntypes revdb_commit revdb_connect revdb_connections '' @
              ''revdb_connectionerr revdb_currentrecord revdb_cursorconnection revdb_cursorerr revdb_cursors revdb_dbtype '' @
              ''revdb_disconnect revdb_execute revdb_iseof revdb_isbof revdb_movefirst revdb_movelast revdb_movenext '' @
              ''revdb_moveprev revdb_query revdb_querylist revdb_recordcount revdb_rollback revdb_tablenames '' @
              ''revGetDatabaseDriverPath revNumberOfRecords revOpenDatabase revOpenDatabases revQueryDatabase '' @
              ''revQueryDatabaseBlob revQueryResult revQueryIsAtStart revQueryIsAtEnd revUnixFromMacPath revXMLAttribute '' @
              ''revXMLAttributes revXMLAttributeValues revXMLChildContents revXMLChildNames '' @
              ''revXMLCreateTreeFromFileWithNamespaces '' @
              ''revXMLCreateTreeWithNamespaces revXMLDataFromXPathQuery revXMLEvaluateXPath revXMLFirstChild '' @
              ''revXMLMatchingNode '' @
              ''revXMLNextSibling revXMLNodeContents revXMLNumberOfChildren revXMLParent revXMLPreviousSibling '' @
              ''revXMLRootNode revXMLRPC_CreateRequest revXMLRPC_Documents revXMLRPC_Error '' @
              ''revXMLRPC_GetHost revXMLRPC_GetMethod revXMLRPC_GetParam revXMLText revXMLRPC_Execute '' @
              ''revXMLRPC_GetParamCount revXMLRPC_GetParamNode revXMLRPC_GetParamType revXMLRPC_GetPath revXMLRPC_GetPort '' @
              ''revXMLRPC_GetProtocol revXMLRPC_GetRequest revXMLRPC_GetResponse revXMLRPC_GetSocket revXMLTree '' @
              ''revXMLTrees revXMLValidateDTD revZipDescribeItem revZipEnumerateItems revZipOpenArchives round sampVariance '' @
              ''sec secs seconds sentenceOffset sha1Digest shell shortFilePath sin specialFolderPath sqrt '' @
              ''standardDeviation statRound '' @
              ''stdDev sum sysError systemVersion tan tempName textDecode textEncode tick ticks time to tokenOffset '' @
              ''toLower toUpper '' @
              ''transpose truewordOffset trunc uniDecode uniEncode upper URLDecode URLEncode URLStatus uuid value '' @
              ''variableNames '' @
              ''variance version waitDepth weekdayNames wordOffset xsltApplyStylesheet xsltApplyStylesheetFromFile '' @
              ''xsltLoadStylesheet '' @
              ''xsltLoadStylesheetFromFile add breakpoint cancel clear local variable file word line folder '' @
              ''directory URL close socket process '' @
              ''combine constant convert create new alias folder directory decrypt delete variable word line folder '' @
              ''directory URL dispatch divide do encrypt filter get include intersect kill libURLDownloadToFile '' @
              ''libURLFollowHttpRedirects libURLftpUpload libURLftpUploadFile libURLresetAll libUrlSetAuthCallback '' @
              ''libURLSetDriver '' @
              ''libURLSetCustomHTTPHeaders libUrlSetExpect100 libURLSetFTPListCommand libURLSetFTPMode libURLSetFTPStopTime '' @
              ''libURLSetStatusCallback load extension loadedExtensions multiply socket prepare process post seek '' @
              ''rel relative read from process rename '' @
              ''replace require resetAll resolve revAddXMLNode revAppendXML revCloseCursor revCloseDatabase revCommitDatabase '' @
              ''revCopyFile revCopyFolder revCopyXMLNode revDeleteFolder revDeleteXMLNode revDeleteAllXMLTrees '' @
              ''revDeleteXMLTree revExecuteSQL revGoURL revInsertXMLNode revMoveFolder revMoveToFirstRecord '' @
              ''revMoveToLastRecord '' @
              ''revMoveToNextRecord revMoveToPreviousRecord revMoveToRecord revMoveXMLNode revPutIntoXMLNode '' @
              ''revRollBackDatabase '' @
              ''revSetDatabaseDriverPath revSetXMLAttribute revXMLRPC_AddParam revXMLRPC_DeleteAllDocuments revXMLAddDTD '' @
              ''revXMLRPC_Free revXMLRPC_FreeAll revXMLRPC_DeleteDocument revXMLRPC_DeleteParam revXMLRPC_SetHost '' @
              ''revXMLRPC_SetMethod revXMLRPC_SetPort revXMLRPC_SetProtocol revXMLRPC_SetSocket revZipAddItemWithData '' @
              ''revZipAddItemWithFile revZipAddUncompressedItemWithData revZipAddUncompressedItemWithFile revZipCancel '' @
              ''revZipCloseArchive revZipDeleteItem revZipExtractItemToFile revZipExtractItemToVariable '' @
              ''revZipSetProgressCallback '' @
              ''revZipRenameItem revZipReplaceItemWithData revZipReplaceItemWithFile revZipOpenArchive send set '' @
              ''sort split start stop '' @ ''subtract symmetric union unload vectorDotProduct wait write'')]),
              contains := Some ([Ref VARIABLE, Ref m7, Ref m8, Ref m9, Ref m10, Ref m14, Ref hl_APOS_STRING_MODE,
              Ref hl_QUOTE_STRING_MODE, Ref hl_BINARY_NUMBER_MODE, Ref hl_C_NUMBER_MODE, Ref TITLE1] @
              COMMENT_MODES), illegal := Some (bs '';$|^%[|^=|&|{'')\<rparr>) h
      in (language, h))"

definition lang_livescript :: "mstore \<Rightarrow> nat \<times> mstore" where
  "lang_livescript h =
     (let JS_IDENT_RE = ''[A-Za-z$_](?:-[0-9A-Za-z$_]|[0-9A-Za-z$_])*'';
          (TITLE, h) = new (inherit_mode (mode_at h hl_TITLE_MODE) [(no_mode\<lparr>m_begin := Some JS_IDENT_RE\<rparr>)]) h;
          KEYWORDS = KObj [(''keyword'',
              ''in if for while finally new do return else break catch instanceof throw try this '' @
              ''switch continue typeof delete debugger case default function var with '' @
              ''then unless until loop of by when and or is isnt not it that otherwise from to til fallthrough super '' @
              ''case default function var void const let enum export import native '' @
              ''__hasProp __extends __slice __bind __indexOf''), (''literal'', ''true false null undefined '' @
              ''yes no on off it that void''), (''built_in'',
              ''npm require console print module global window document'')];
          (SUBST, h) = new (no_mode\<lparr>className := Some ''subst'', m_begin := Some (bs ''#%{''), m_end := Some ''}'',
              m_keywords := Some KEYWORDS\<rparr>) h;
          (SUBST_SIMPLE, h) = new (no_mode\<lparr>className := Some ''subst'', m_begin := Some ''#[A-Za-z$_]'',
              m_end := Some (bs ''(?:%-[0-9A-Za-z$_]|[0-9A-Za-z$_])*''), m_keywords := Some KEYWORDS\<rparr>) h;
          (m1, h) = new (no_mode\<lparr>m_end := Some (bs ''(%s*/)?''), m_relevance := Some 0\<rparr>) h;
          (m2, h) = new (no_mode\<lparr>className := Some ''number'',
              m_begin := Some (bs ''(%b0[xX][a-fA-F0-9_]+)|(%b%d(%d|_%d)*(%.(%d(%d|_%d)*'' @
              bs '')?)?(_*[eE]([-+]%d(_%d|%d)*'' @ '')?)?[_a-z]*'' @ '')''), m_relevance := Some 0,
              starts := Some m1\<rparr>) h;
          (m3, h) = new (no_mode\<lparr>m_begin := Some [CHR 0x27, CHR 0x27, CHR 0x27], m_end := Some [CHR 0x27, CHR 0x27,
              CHR 0x27], contains := Some [Ref hl_BACKSLASH_ESCAPE]\<rparr>) h;
          (m4, h) = new (no_mode\<lparr>m_begin := Some [CHR 0x27], m_end := Some [CHR 0x27],
              contains := Some [Ref hl_BACKSLASH_ESCAPE]\<rparr>) h;
          (m5, h) = new (no_mode\<lparr>m_begin := Some [CHR 0x22, CHR 0x22, CHR 0x22], m_end := Some [CHR 0x22, CHR 0x22,
              CHR 0x22], contains := Some [Ref hl_BACKSLASH_ESCAPE, Ref SUBST, Ref SUBST_SIMPLE]\<rparr>) h;
          (m6, h) = new (no_mode\<lparr>m_begin := Some [CHR 0x22], m_end := Some [CHR 0x22],
              contains := Some [Ref hl_BACKSLASH_ESCAPE, Ref SUBST, Ref SUBST_SIMPLE]\<rparr>) h;
          (m7, h) = new (no_mode\<lparr>m_begin := Some (bs ''%%''), m_end := Some (bs ''(%s|$)''),
              excludeEnd := Some True\<rparr>) h;
          (m8, h) = new (no_mode\<lparr>className := Some ''string'', variants := Some [m3, m4, m5, m6, m7]\<rparr>) h;
          (m9, h) = new (no_mode\<lparr>m_begin := Some ''//'', m_end := Some ''//[gim]*'', contains := Some [Ref SUBST,
              Ref hl_HASH_COMMENT_MODE]\<rparr>) h;
          (m10, h) = new (no_mode\<lparr>m_begin := Some (bs ''%/(?![ *])(%%%/|.)*?%/[gim]*(?=%W|$)'')\<rparr>) h;
          (m11, h) = new (no_mode\<lparr>className := Some ''regexp'', variants := Some [m9, m10]\<rparr>) h;
          (m12, h) = new (no_mode\<lparr>m_begin := Some (''@'' @ JS_IDENT_RE)\<rparr>) h;
          (m13, h) = new (no_mode\<lparr>m_begin := Some [CHR 0x60, CHR 0x60], m_end := Some [CHR 0x60, CHR 0x60],
              excludeBegin := Some True, excludeEnd := Some True,
              subLanguage := Some (SubName ''javascript'')\<rparr>) h;
          EXPRESSIONS = [Ref hl_BINARY_NUMBER_MODE, Ref m2, Ref m8, Ref m11, Ref m12, Ref m13];
          h = upd SUBST (\<lambda>m. m\<lparr>contains := Some EXPRESSIONS\<rparr>) h;
          (m14, h) = new (no_mode\<lparr>m_begin := Some (bs ''%(''), m_end := Some (bs ''%)''), m_keywords := Some KEYWORDS,
              contains := Some ([Self] @ EXPRESSIONS)\<rparr>) h;
          (PARAMS, h) = new (no_mode\<lparr>className := Some ''params'', m_begin := Some (bs ''%(''),
              returnBegin := Some True, contains := Some [Ref m14]\<rparr>) h;
          (m15, h) = COMMENT (bs ''%/%*'') (bs ''%*%/'') no_mode h;
          (m16, h) = new (no_mode\<lparr>m_begin := Some (''('' @ JS_IDENT_RE @ bs ''%s*(?:=|:=)%s*'' @
              bs '')?(%(.*%))?%s*%B%->%*?''), m_end := Some (bs ''%->%*?'')\<rparr>) h;
          (m17, h) = new (no_mode\<lparr>m_begin := Some (''('' @ JS_IDENT_RE @ bs ''%s*(?:=|:=)%s*'' @
              bs '')?!?(%(.*%))?%s*%B[-~]{1,2}>%*?''), m_end := Some (bs ''[-~]{1,2}>%*?'')\<rparr>) h;
          (m18, h) = new (no_mode\<lparr>m_begin := Some (''('' @ JS_IDENT_RE @ bs ''%s*(?:=|:=)%s*'' @
              bs '')?(%(.*%))?%s*%B!?[-~]{1,2}>%*?''), m_end := Some (bs ''!?[-~]{1,2}>%*?'')\<rparr>) h;
          (m19, h) = new (no_mode\<lparr>className := Some ''function'', contains := Some [Ref TITLE, Ref PARAMS],
              returnBegin := Some True, variants := Some [m16, m17, m18]\<rparr>) h;
          (m20, h) = new (no_mode\<lparr>beginKeywords := Some ''extends'', endsWithParent := Some True,
              illegal := Some (''[:='' @ [CHR 0x22] @ bs ''%[%]'' @ '']''), contains := Some [Ref TITLE]\<rparr>) h;
          (m21, h) = new (no_mode\<lparr>className := Some ''class'', beginKeywords := Some ''class'', m_end := Some ''$'',
              illegal := Some (''[:='' @ [CHR 0x22] @ bs ''%[%]'' @ '']''), contains := Some [Ref m20,
              Ref TITLE]\<rparr>) h;
          (m22, h) = new (no_mode\<lparr>m_begin := Some (JS_IDENT_RE @ '':''), m_end := Some '':'', returnBegin := Some True,
              returnEnd := Some True, m_relevance := Some 0\<rparr>) h;
          (language, h) = new (no_mode\<lparr>aliases := Some [''ls''], m_keywords := Some KEYWORDS,
              illegal := Some (bs ''%/%*''), contains := Some (EXPRESSIONS @ [Ref m15, Ref hl_HASH_COMMENT_MODE,
              Ref m19, Ref m21, Ref m22])\<rparr>) h
      in (language, h))"

definition lang_llvm :: "mstore \<Rightarrow> nat \<times> mstore" where
  "lang_llvm h =
     (let identifier = bs ''([-a-zA-Z$._][%w%-$.]*'' @ '')'';
          (m1, h) = new (no_mode\<lparr>className := Some ''keyword'', m_begin := Some (bs ''i%d+'')\<rparr>) h;
          (m2, h) = COMMENT '';'' (bs ''%n'') (no_mode\<lparr>m_relevance := Some 0\<rparr>) h;
          (m3, h) = new (no_mode\<lparr>m_begin := Some [CHR 0x22], m_end := Some (bs ''[^%%]'' @ [CHR 0x22])\<rparr>) h;
          (m4, h) = new (no_mode\<lparr>className := Some ''string'', variants := Some [m3], m_relevance := Some 0\<rparr>) h;
          (m5, h) = new (no_mode\<lparr>m_begin := Some (''@'' @ identifier)\<rparr>) h;
          (m6, h) = new (no_mode\<lparr>m_begin := Some (bs ''@%d+'')\<rparr>) h;
          (m7, h) = new (no_mode\<lparr>m_begin := Some (''!'' @ identifier)\<rparr>) h;
          (m8, h) = new (no_mode\<lparr>m_begin := Some (bs ''!%d+'' @ identifier)\<rparr>) h;
          (m9, h) = new (no_mode\<lparr>className := Some ''title'', variants := Some [m5, m6, m7, m8]\<rparr>) h;
          (m10, h) = new (no_mode\<lparr>m_begin := Some (''%'' @ identifier)\<rparr>) h;
          (m11, h) = new (no_mode\<lparr>m_begin := Some (''%'' @ bs ''%d+'')\<rparr>) h;
          (m12, h) = new (no_mode\<lparr>m_begin := Some (bs ''#%d+'')\<rparr>) h;
          (m13, h) = new (no_mode\<lparr>className := Some ''symbol'', variants := Some [m10, m11, m12]\<rparr>) h;
          (m14, h) = new (no_mode\<lparr>m_begin := Some ''0[xX][a-fA-F0-9]+''\<rparr>) h;
          (m15, h) = new (no_mode\<lparr>m_begin := Some (bs ''-?%d+(?:[.]%d+)?(?:[eE][-+]?%d+(?:[.]%d+)?)?'')\<rparr>) h;
          (m16, h) = new (no_mode\<lparr>className := Some ''number'', variants := Some [m14, m15],
              m_relevance := Some 0\<rparr>) h;
          (language, h) = new (no_mode\<lparr>m_keywords := Some (KStr (''begin end true false declare define global '' @
              ''constant private linker_private internal '' @ ''available_externally linkonce linkonce_odr weak '' @
              ''weak_odr appending dllimport dllexport common '' @
              ''default hidden protected extern_weak external '' @
              ''thread_local zeroinitializer undef null to tail '' @
              ''target triple datalayout volatile nuw nsw nnan '' @ ''ninf nsz arcp fast exact inbounds align '' @
              ''addrspace section alias module asm sideeffect '' @
              ''gc dbg linker_private_weak attributes blockaddress '' @
              ''initialexec localdynamic localexec prefix unnamed_addr '' @
              ''ccc fastcc coldcc x86_stdcallcc x86_fastcallcc '' @
              ''arm_apcscc arm_aapcscc arm_aapcs_vfpcc ptx_device '' @
              ''ptx_kernel intel_ocl_bicc msp430_intrcc spir_func '' @
              ''spir_kernel x86_64_sysvcc x86_64_win64cc x86_thiscallcc '' @
              ''cc c signext zeroext inreg sret nounwind '' @ ''noreturn noalias nocapture byval nest readnone '' @
              ''readonly inlinehint noinline alwaysinline optsize ssp '' @
              ''sspreq noredzone noimplicitfloat naked builtin cold '' @
              ''nobuiltin noduplicate nonlazybind optnone returns_twice '' @
              ''sanitize_address sanitize_memory sanitize_thread sspstrong '' @
              ''uwtable returned type opaque eq ne slt sgt '' @ ''sle sge ult ugt ule uge oeq one olt ogt '' @
              ''ole oge ord uno ueq une x acq_rel acquire '' @
              ''alignstack atomic catch cleanup filter inteldialect '' @
              ''max min monotonic nand personality release seq_cst '' @
              ''singlethread umax umin unordered xchg add fadd '' @ ''sub fsub mul fmul udiv sdiv fdiv urem srem '' @
              ''frem shl lshr ashr and or xor icmp fcmp '' @ ''phi call trunc zext sext fptrunc fpext uitofp '' @
              ''sitofp fptoui fptosi inttoptr ptrtoint bitcast '' @
              ''addrspacecast select va_arg ret br switch invoke '' @
              ''unwind unreachable indirectbr landingpad resume '' @
              ''malloc alloca free load store getelementptr '' @
              ''extractelement insertelement shufflevector getresult '' @
              ''extractvalue insertvalue atomicrmw cmpxchg fence '' @ ''argmemonly double'')),
              contains := Some [Ref m1, Ref m2, Ref hl_QUOTE_STRING_MODE, Ref m4, Ref m9, Ref m13, Ref m16]\<rparr>) h
      in (language, h))"

definition lang_lsl :: "mstore \<Rightarrow> nat \<times> mstore" where
  "lang_lsl h =
     (let (LSL_STRING_ESCAPE_CHARS, h) = new (no_mode\<lparr>className := Some ''subst'', m_begin := Some (bs ''%%[tn'' @
              [CHR 0x22] @ bs ''%%]'')\<rparr>) h;
          (LSL_STRINGS, h) = new (no_mode\<lparr>className := Some ''string'', m_begin := Some [CHR 0x22],
              m_end := Some [CHR 0x22], contains := Some [Ref LSL_STRING_ESCAPE_CHARS]\<rparr>) h;
          (LSL_NUMBERS, h) = new (no_mode\<lparr>className := Some ''number'', m_begin := Some C_NUMBER_RE\<rparr>) h;
          (m1,
              h) = new (no_mode\<lparr>m_begin := Some (bs ''%b(?:PI|TWO_PI|PI_BY_TWO|DEG_TO_RAD|RAD_TO_DEG|SQRT2)%b'')\<rparr>) h;
          (m2,
              h) = new (no_mode\<lparr>m_begin := Some (bs ''%b(?:XP_ERROR_(?:EXPERIENCES_DISABLED|EXPERIENCE_(?:DISABLED|SUSPENDED)|INVALID_(?:EXPERIENCE|PARAMET'' @
              ''ERS)|KEY_NOT_FOUND|MATURITY_EXCEEDED|NONE|NOT_(?:FOUND|PERMITTED(?:_LAND)?)|NO_EXPERIENCE|QUOTA_EXCEE'' @
              ''DED|RETRY_UPDATE|STORAGE_EXCEPTION|STORE_DISABLED|THROTTLED|UNKNOWN_ERROR)|JSON_APPEND|STATUS_(?:PHYS'' @
              ''ICS|ROTATE_[XYZ]|PHANTOM|SANDBOX|BLOCK_GRAB(?:_OBJECT)?|(?:DIE|RETURN)_AT_EDGE|CAST_SHADOWS|OK|MALFOR'' @
              ''MED_PARAMS|TYPE_MISMATCH|BOUNDS_ERROR|NOT_(?:FOUND|SUPPORTED)|INTERNAL_ERROR|WHITELIST_FAILED)|AGENT('' @
              ''?:_(?:BY_(?:LEGACY_|USER)NAME|FLYING|ATTACHMENTS|SCRIPTED|MOUSELOOK|SITTING|ON_OBJECT|AWAY|WALKING|IN'' @
              ''_AIR|TYPING|CROUCHING|BUSY|ALWAYS_RUN|AUTOPILOT|LIST_(?:PARCEL(?:_OWNER)?|REGION)))?|CAMERA_(?:PITCH|'' @
              ''DISTANCE|BEHINDNESS_(?:ANGLE|LAG)|(?:FOCUS|POSITION)(?:_(?:THRESHOLD|LOCKED|LAG))?|FOCUS_OFFSET|ACTIV'' @
              ''E)|ANIM_ON|LOOP|REVERSE|PING_PONG|SMOOTH|ROTATE|SCALE|ALL_SIDES|LINK_(?:ROOT|SET|ALL_(?:OTHERS|CHILDR'' @
              ''EN)|THIS)|ACTIVE|PASS(?:IVE|_(?:ALWAYS|IF_NOT_HANDLED|NEVER))|SCRIPTED|CONTROL_(?:FWD|BACK|(?:ROT_)?('' @
              ''?:LEFT|RIGHT)|UP|DOWN|(?:ML_)?LBUTTON)|PERMISSION_(?:RETURN_OBJECTS|DEBIT|OVERRIDE_ANIMATIONS|SILENT_'' @
              ''ESTATE_MANAGEMENT|TAKE_CONTROLS|TRIGGER_ANIMATION|ATTACH|CHANGE_LINKS|(?:CONTROL|TRACK)_CAMERA|TELEPO'' @
              ''RT)|INVENTORY_(?:TEXTURE|SOUND|OBJECT|SCRIPT|LANDMARK|CLOTHING|NOTECARD|BODYPART|ANIMATION|GESTURE|AL'' @
              ''L|NONE)|CHANGED_(?:INVENTORY|COLOR|SHAPE|SCALE|TEXTURE|LINK|ALLOWED_DROP|OWNER|REGION(?:_START)?|TELE'' @
              ''PORT|MEDIA)|OBJECT_(?:CLICK_ACTION|HOVER_HEIGHT|LAST_OWNER_ID|(?:PHYSICS|SERVER|STREAMING)_COST|UNKNO'' @
              ''WN_DETAIL|CHARACTER_TIME|PHANTOM|PHYSICS|TEMP_ON_REZ|NAME|DESC|POS|PRIM_(?:COUNT|EQUIVALENCE)|RETURN_'' @
              ''(?:PARCEL(?:_OWNER)?|REGION)|REZZER_KEY|ROO?T|VELOCITY|OMEGA|OWNER|GROUP|CREATOR|ATTACHED_POINT|RENDE'' @
              ''R_WEIGHT|(?:BODY_SHAPE|PATHFINDING)_TYPE|(?:RUNNING|TOTAL)_SCRIPT_COUNT|TOTAL_INVENTORY_COUNT|SCRIPT_'' @
              ''(?:MEMORY|TIME))|TYPE_(?:INTEGER|FLOAT|STRING|KEY|VECTOR|ROTATION|INVALID)|(?:DEBUG|PUBLIC)_CHANNEL|A'' @
              ''TTACH_(?:AVATAR_CENTER|CHEST|HEAD|BACK|PELVIS|MOUTH|CHIN|NECK|NOSE|BELLY|[LR](?:SHOULDER|HAND|FOOT|EA'' @
              ''R|EYE|[UL](?:ARM|LEG)|HIP)|(?:LEFT|RIGHT)_PEC|HUD_(?:CENTER_[12]|TOP_(?:RIGHT|CENTER|LEFT)|BOTTOM(?:_'' @
              ''(?:RIGHT|LEFT))?)|[LR]HAND_RING1|TAIL_(?:BASE|TIP)|[LR]WING|FACE_(?:JAW|[LR]EAR|[LR]EYE|TOUNGE)|GROIN'' @
              ''|HIND_[LR]FOOT)|LAND_(?:LEVEL|RAISE|LOWER|SMOOTH|NOISE|REVERT)|DATA_(?:ONLINE|NAME|BORN|SIM_(?:POS|ST'' @
              ''ATUS|RATING)|PAYINFO)|PAYMENT_INFO_(?:ON_FILE|USED)|REMOTE_DATA_(?:CHANNEL|REQUEST|REPLY)|PSYS_(?:PAR'' @
              ''T_(?:BF_(?:ZERO|ONE(?:_MINUS_(?:DEST_COLOR|SOURCE_(ALPHA|COLOR)))?|DEST_COLOR|SOURCE_(ALPHA|COLOR))|B'' @
              ''LEND_FUNC_(DEST|SOURCE)|FLAGS|(?:START|END)_(?:COLOR|ALPHA|SCALE|GLOW)|MAX_AGE|(?:RIBBON|WIND|INTERP_'' @
              ''(?:COLOR|SCALE)|BOUNCE|FOLLOW_(?:SRC|VELOCITY)|TARGET_(?:POS|LINEAR)|EMISSIVE)_MASK)|SRC_(?:MAX_AGE|P'' @
              ''ATTERN|ANGLE_(?:BEGIN|END)|BURST_(?:RATE|PART_COUNT|RADIUS|SPEED_(?:MIN|MAX))|ACCEL|TEXTURE|TARGET_KE'' @
              ''Y|OMEGA|PATTERN_(?:DROP|EXPLODE|ANGLE(?:_CONE(?:_EMPTY)?)?)))|VEHICLE_(?:REFERENCE_FRAME|TYPE_(?:NONE'' @
              ''|SLED|CAR|BOAT|AIRPLANE|BALLOON)|(?:LINEAR|ANGULAR)_(?:FRICTION_TIMESCALE|MOTOR_DIRECTION)|LINEAR_MOT'' @
              ''OR_OFFSET|HOVER_(?:HEIGHT|EFFICIENCY|TIMESCALE)|BUOYANCY|(?:LINEAR|ANGULAR)_(?:DEFLECTION_(?:EFFICIEN'' @
              ''CY|TIMESCALE)|MOTOR_(?:DECAY_)?TIMESCALE)|VERTICAL_ATTRACTION_(?:EFFICIENCY|TIMESCALE)|BANKING_(?:EFF'' @
              ''ICIENCY|MIX|TIMESCALE)|FLAG_(?:NO_DEFLECTION_UP|LIMIT_(?:ROLL_ONLY|MOTOR_UP)|HOVER_(?:(?:WATER|TERRAI'' @
              ''N|UP)_ONLY|GLOBAL_HEIGHT)|MOUSELOOK_(?:STEER|BANK)|CAMERA_DECOUPLED))|PRIM_(?:ALPHA_MODE(?:_(?:BLEND|'' @
              ''EMISSIVE|MASK|NONE))?|NORMAL|SPECULAR|TYPE(?:_(?:BOX|CYLINDER|PRISM|SPHERE|TORUS|TUBE|RING|SCULPT))?|'' @
              ''HOLE_(?:DEFAULT|CIRCLE|SQUARE|TRIANGLE)|MATERIAL(?:_(?:STONE|METAL|GLASS|WOOD|FLESH|PLASTIC|RUBBER))?'' @
              ''|SHINY_(?:NONE|LOW|MEDIUM|HIGH)|BUMP_(?:NONE|BRIGHT|DARK|WOOD|BARK|BRICKS|CHECKER|CONCRETE|TILE|STONE'' @
              ''|DISKS|GRAVEL|BLOBS|SIDING|LARGETILE|STUCCO|SUCTION|WEAVE)|TEXGEN_(?:DEFAULT|PLANAR)|SCULPT_(?:TYPE_('' @
              ''?:SPHERE|TORUS|PLANE|CYLINDER|MASK)|FLAG_(?:MIRROR|INVERT))|PHYSICS(?:_(?:SHAPE_(?:CONVEX|NONE|PRIM|T'' @
              ''YPE)))?|(?:POS|ROT)_LOCAL|SLICE|TEXT|FLEXIBLE|POINT_LIGHT|TEMP_ON_REZ|PHANTOM|POSITION|SIZE|ROTATION|'' @
              ''TEXTURE|NAME|OMEGA|DESC|LINK_TARGET|COLOR|BUMP_SHINY|FULLBRIGHT|TEXGEN|GLOW|MEDIA_(?:ALT_IMAGE_ENABLE'' @
              ''|CONTROLS|(?:CURRENT|HOME)_URL|AUTO_(?:LOOP|PLAY|SCALE|ZOOM)|FIRST_CLICK_INTERACT|(?:WIDTH|HEIGHT)_PI'' @
              ''XELS|WHITELIST(?:_ENABLE)?|PERMS_(?:INTERACT|CONTROL)|PARAM_MAX|CONTROLS_(?:STANDARD|MINI)|PERM_(?:NO'' @
              ''NE|OWNER|GROUP|ANYONE)|MAX_(?:URL_LENGTH|WHITELIST_(?:SIZE|COUNT)|(?:WIDTH|HEIGHT)_PIXELS)))|MASK_(?:'' @
              ''BASE|OWNER|GROUP|EVERYONE|NEXT)|PERM_(?:TRANSFER|MODIFY|COPY|MOVE|ALL)|PARCEL_(?:MEDIA_COMMAND_(?:STO'' @
              ''P|PAUSE|PLAY|LOOP|TEXTURE|URL|TIME|AGENT|UNLOAD|AUTO_ALIGN|TYPE|SIZE|DESC|LOOP_SET)|FLAG_(?:ALLOW_(?:'' @
              ''FLY|(?:GROUP_)?SCRIPTS|LANDMARK|TERRAFORM|DAMAGE|CREATE_(?:GROUP_)?OBJECTS)|USE_(?:ACCESS_(?:GROUP|LI'' @
              ''ST)|BAN_LIST|LAND_PASS_LIST)|LOCAL_SOUND_ONLY|RESTRICT_PUSHOBJECT|ALLOW_(?:GROUP|ALL)_OBJECT_ENTRY)|C'' @
              ''OUNT_(?:TOTAL|OWNER|GROUP|OTHER|SELECTED|TEMP)|DETAILS_(?:NAME|DESC|OWNER|GROUP|AREA|ID|SEE_AVATARS))'' @
              ''|LIST_STAT_(?:MAX|MIN|MEAN|MEDIAN|STD_DEV|SUM(?:_SQUARES)?|NUM_COUNT|GEOMETRIC_MEAN|RANGE)|PAY_(?:HID'' @
              ''E|DEFAULT)|REGION_FLAG_(?:ALLOW_DAMAGE|FIXED_SUN|BLOCK_TERRAFORM|SANDBOX|DISABLE_(?:COLLISIONS|PHYSIC'' @
              ''S)|BLOCK_FLY|ALLOW_DIRECT_TELEPORT|RESTRICT_PUSHOBJECT)|HTTP_(?:METHOD|MIMETYPE|BODY_(?:MAXLENGTH|TRU'' @
              ''NCATED)|CUSTOM_HEADER|PRAGMA_NO_CACHE|VERBOSE_THROTTLE|VERIFY_CERT)|STRING_(?:TRIM(?:_(?:HEAD|TAIL))?'' @
              '')|CLICK_ACTION_(?:NONE|TOUCH|SIT|BUY|PAY|OPEN(?:_MEDIA)?|PLAY|ZOOM)|TOUCH_INVALID_FACE|PROFILE_(?:NON'' @
              ''E|SCRIPT_MEMORY)|RC_(?:DATA_FLAGS|DETECT_PHANTOM|GET_(?:LINK_NUM|NORMAL|ROOT_KEY)|MAX_HITS|REJECT_(?:'' @
              ''TYPES|AGENTS|(?:NON)?PHYSICAL|LAND))|RCERR_(?:CAST_TIME_EXCEEDED|SIM_PERF_LOW|UNKNOWN)|ESTATE_ACCESS_'' @
              ''(?:ALLOWED_(?:AGENT|GROUP)_(?:ADD|REMOVE)|BANNED_AGENT_(?:ADD|REMOVE))|DENSITY|FRICTION|RESTITUTION|G'' @
              ''RAVITY_MULTIPLIER|KFM_(?:COMMAND|CMD_(?:PLAY|STOP|PAUSE)|MODE|FORWARD|LOOP|PING_PONG|REVERSE|DATA|ROT'' @
              ''ATION|TRANSLATION)|ERR_(?:GENERIC|PARCEL_PERMISSIONS|MALFORMED_PARAMS|RUNTIME_PERMISSIONS|THROTTLED)|'' @
              ''CHARACTER_(?:CMD_(?:(?:SMOOTH_)?STOP|JUMP)|DESIRED_(?:TURN_)?SPEED|RADIUS|STAY_WITHIN_PARCEL|LENGTH|O'' @
              ''RIENTATION|ACCOUNT_FOR_SKIPPED_FRAMES|AVOIDANCE_MODE|TYPE(?:_(?:[ABCD]|NONE))?|MAX_(?:DECEL|TURN_RADI'' @
              ''US|(?:ACCEL|SPEED)))|PURSUIT_(?:OFFSET|FUZZ_FACTOR|GOAL_TOLERANCE|INTERCEPT)|REQUIRE_LINE_OF_SIGHT|FO'' @
              ''RCE_DIRECT_PATH|VERTICAL|HORIZONTAL|AVOID_(?:CHARACTERS|DYNAMIC_OBSTACLES|NONE)|PU_(?:EVADE_(?:HIDDEN'' @
              ''|SPOTTED)|FAILURE_(?:DYNAMIC_PATHFINDING_DISABLED|INVALID_(?:GOAL|START)|NO_(?:NAVMESH|VALID_DESTINAT'' @
              ''ION)|OTHER|TARGET_GONE|(?:PARCEL_)?UNREACHABLE)|(?:GOAL|SLOWDOWN_DISTANCE)_REACHED)|TRAVERSAL_TYPE(?:'' @
              ''_(?:FAST|NONE|SLOW))?|CONTENT_TYPE_(?:ATOM|FORM|HTML|JSON|LLSD|RSS|TEXT|XHTML|XML)|GCNP_(?:RADIUS|STA'' @
              ''TIC)|(?:PATROL|WANDER)_PAUSE_AT_WAYPOINTS|OPT_(?:AVATAR|CHARACTER|EXCLUSION_VOLUME|LEGACY_LINKSET|MAT'' @
              bs ''ERIAL_VOLUME|OTHER|STATIC_OBSTACLE|WALKABLE)|SIM_STAT_PCT_CHARS_STEPPED)%b'')\<rparr>) h;
          (m3, h) = new (no_mode\<lparr>m_begin := Some (bs ''%b(?:FALSE|TRUE)%b'')\<rparr>) h;
          (m4, h) = new (no_mode\<lparr>m_begin := Some (bs ''%b(?:ZERO_ROTATION)%b'')\<rparr>) h;
          (m5,
              h) = new (no_mode\<lparr>m_begin := Some (bs ''%b(?:EOF|JSON_(?:ARRAY|DELETE|FALSE|INVALID|NULL|NUMBER|OBJECT|STRING|TRUE)|NULL_KEY|TEXTURE_(?:BLANK'' @
              bs ''|DEFAULT|MEDIA|PLYWOOD|TRANSPARENT)|URL_REQUEST_(?:GRANTED|DENIED))%b'')\<rparr>) h;
          (m6, h) = new (no_mode\<lparr>m_begin := Some (bs ''%b(?:ZERO_VECTOR|TOUCH_INVALID_(?:TEXCOORD|VECTOR))%b'')\<rparr>) h;
          (LSL_CONSTANTS, h) = new (no_mode\<lparr>className := Some ''literal'', variants := Some [m1, m2, m3, m4, m5,
              m6]\<rparr>) h;
          (LSL_FUNCTIONS, h) = new (no_mode\<lparr>className := Some ''built_in'',
              m_begin := Some (bs ''%b(?:ll(?:AgentInExperience|(?:Create|DataSize|Delete|KeyCount|Keys|Read|Update)KeyValue|GetExperienc'' @
              ''e(?:Details|ErrorMessage)|ReturnObjectsBy(?:ID|Owner)|Json(?:2List|[GS]etValue|ValueType)|Sin|Cos|Tan'' @
              ''|Atan2|Sqrt|Pow|Abs|Fabs|Frand|Floor|Ceil|Round|Vec(?:Mag|Norm|Dist)|Rot(?:Between|2(?:Euler|Fwd|Left'' @
              ''|Up))|(?:Euler|Axes)2Rot|Whisper|(?:Region|Owner)?Say|Shout|Listen(?:Control|Remove)?|Sensor(?:Repeat'' @
              ''|Remove)?|Detected(?:Name|Key|Owner|Type|Pos|Vel|Grab|Rot|Group|LinkNumber)|Die|Ground|Wind|(?:[GS]et'' @
              '')(?:AnimationOverride|MemoryLimit|PrimMediaParams|ParcelMusicURL|Object(?:Desc|Name)|PhysicsMaterial|'' @
              ''Status|Scale|Color|Alpha|Texture|Pos|Rot|Force|Torque)|ResetAnimationOverride|(?:Scale|Offset|Rotate)'' @
              ''Texture|(?:Rot)?Target(?:Remove)?|(?:Stop)?MoveToTarget|Apply(?:Rotational)?Impulse|Set(?:KeyframedMo'' @
              ''tion|ContentType|RegionPos|(?:Angular)?Velocity|Buoyancy|HoverHeight|ForceAndTorque|TimerEvent|Script'' @
              ''State|Damage|TextureAnim|Sound(?:Queueing|Radius)|Vehicle(?:Type|(?:Float|Vector|Rotation)Param)|(?:T'' @
              ''ouch|Sit)?Text|Camera(?:Eye|At)Offset|PrimitiveParams|ClickAction|Link(?:Alpha|Color|PrimitiveParams('' @
              ''?:Fast)?|Texture(?:Anim)?|Camera|Media)|RemoteScriptAccessPin|PayPrice|LocalRot)|ScaleByFactor|Get(?:'' @
              ''(?:Max|Min)ScaleFactor|ClosestNavPoint|StaticPath|SimStats|Env|PrimitiveParams|Link(?:PrimitiveParams'' @
              ''|Number(?:OfSides)?|Key|Name|Media)|HTTPHeader|FreeURLs|Object(?:Details|PermMask|PrimCount)|Parcel(?'' @
              '':MaxPrims|Details|Prim(?:Count|Owners))|Attached(?:List)?|(?:SPMax|Free|Used)Memory|Region(?:Name|Tim'' @
              ''eDilation|FPS|Corner|AgentCount)|Root(?:Position|Rotation)|UnixTime|(?:Parcel|Region)Flags|(?:Wall|GM'' @
              ''T)clock|SimulatorHostname|BoundingBox|GeometricCenter|Creator|NumberOf(?:Prims|NotecardLines|Sides)|A'' @
              ''nimation(?:List)?|(?:Camera|Local)(?:Pos|Rot)|Vel|Accel|Omega|Time(?:stamp|OfDay)|(?:Object|CenterOf)'' @
              ''?Mass|MassMKS|Energy|Owner|(?:Owner)?Key|SunDirection|Texture(?:Offset|Scale|Rot)|Inventory(?:Number|'' @
              ''Name|Key|Type|Creator|PermMask)|Permissions(?:Key)?|StartParameter|List(?:Length|EntryType)|Date|Agen'' @
              ''t(?:Size|Info|Language|List)|LandOwnerAt|NotecardLine|Script(?:Name|State))|(?:Get|Reset|GetAndReset)'' @
              ''Time|PlaySound(?:Slave)?|LoopSound(?:Master|Slave)?|(?:Trigger|Stop|Preload)Sound|(?:(?:Get|Delete)Su'' @
              ''b|Insert)String|To(?:Upper|Lower)|Give(?:InventoryList|Money)|RezObject|(?:Stop)?LookAt|Sleep|Collisi'' @
              ''onFilter|(?:Take|Release)Controls|DetachFromAvatar|AttachToAvatar(?:Temp)?|InstantMessage|(?:GetNext)'' @
              ''?Email|StopHover|MinEventDelay|RotLookAt|String(?:Length|Trim)|(?:Start|Stop)Animation|TargetOmega|Re'' @
              ''quest(?:Experience)?Permissions|(?:Create|Break)Link|BreakAllLinks|(?:Give|Remove)Inventory|Water|Pas'' @
              ''sTouches|Request(?:Agent|Inventory)Data|TeleportAgent(?:Home|GlobalCoords)?|ModifyLand|CollisionSound'' @
              ''|ResetScript|MessageLinked|PushObject|PassCollisions|AxisAngle2Rot|Rot2(?:Axis|Angle)|A(?:cos|sin)|An'' @
              ''gleBetween|AllowInventoryDrop|SubStringIndex|List2(?:CSV|Integer|Json|Float|String|Key|Vector|Rot|Lis'' @
              ''t(?:Strided)?)|DeleteSubList|List(?:Statistics|Sort|Randomize|(?:Insert|Find|Replace)List)|EdgeOfWorl'' @
              ''d|AdjustSoundVolume|Key2Name|TriggerSoundLimited|EjectFromLand|(?:CSV|ParseString)2List|OverMyLand|Sa'' @
              ''meGroup|UnSit|Ground(?:Slope|Normal|Contour)|GroundRepel|(?:Set|Remove)VehicleFlags|(?:AvatarOn)?(?:L'' @
              ''ink)?SitTarget|Script(?:Danger|Profiler)|Dialog|VolumeDetect|ResetOtherScript|RemoteLoadScriptPin|(?:'' @
              ''Open|Close)RemoteDataChannel|SendRemoteData|RemoteDataReply|(?:Integer|String)ToBase64|XorBase64|Log('' @
              ''?:10)?|Base64To(?:String|Integer)|ParseStringKeepNulls|RezAtRoot|RequestSimulatorData|ForceMouselook|'' @
              ''(?:Load|Release|(?:E|Une)scape)URL|ParcelMedia(?:CommandList|Query)|ModPow|MapDestination|(?:RemoveFr'' @
              ''om|AddTo|Reset)Land(?:Pass|Ban)List|(?:Set|Clear)CameraParams|HTTP(?:Request|Response)|TextBox|Detect'' @
              ''edTouch(?:UV|Face|Pos|(?:N|Bin)ormal|ST)|(?:MD5|SHA1|DumpList2)String|Request(?:Secure)?URL|Clear(?:P'' @
              ''rim|Link)Media|(?:Link)?ParticleSystem|(?:Get|Request)(?:Username|DisplayName)|RegionSayTo|CastRay|Ge'' @
              ''nerateKey|TransferLindenDollars|ManageEstateAccess|(?:Create|Delete)Character|ExecCharacterCmd|Evade|'' @
              bs ''FleeFrom|NavigateTo|PatrolPoints|Pursue|UpdateCharacter|WanderWithin))%b'')\<rparr>) h;
          (m7, h) = COMMENT ''//'' ''$'' no_mode h;
          (m8, h) = COMMENT (bs ''/%*'') (bs ''%*/'') no_mode h;
          (m9, h) = new (no_mode\<lparr>className := Some ''comment'', variants := Some [m7, m8]\<rparr>) h;
          (m10, h) = new (no_mode\<lparr>m_begin := Some (bs ''%b(?:state|default)%b'')\<rparr>) h;
          (m11,
              h) = new (no_mode\<lparr>m_begin := Some (bs ''%b(?:state_(?:entry|exit)|touch(?:_(?:start|end))?|(?:land_)?collision(?:_(?:start|end))?|timer|liste'' @
              ''n|(?:no_)?sensor|control|(?:not_)?at_(?:rot_)?target|money|email|experience_permissions(?:_denied)?|r'' @
              ''un_time_permissions|changed|attach|dataserver|moving_(?:start|end)|link_message|(?:on|object)_rez|rem'' @
              bs ''ote_data|http_re(?:sponse|quest)|path_update|transaction_result)%b'')\<rparr>) h;
          (m12, h) = new (no_mode\<lparr>className := Some ''section'', variants := Some [m10, m11]\<rparr>) h;
          (m13, h) = new (no_mode\<lparr>className := Some ''type'',
              m_begin := Some (bs ''%b(?:integer|float|string|key|vector|quaternion|rotation|list)%b'')\<rparr>) h;
          (language, h) = new (no_mode\<lparr>illegal := Some '':'', contains := Some [Ref LSL_STRINGS, Ref m9,
              Ref LSL_NUMBERS, Ref m12, Ref LSL_FUNCTIONS, Ref LSL_CONSTANTS, Ref m13]\<rparr>) h
      in (language, h))"

definition lang_lua :: "mstore \<Rightarrow> nat \<times> mstore" where
  "lang_lua h =
     (let OPENING_LONG_BRACKET = bs ''%[=*%['';
          CLOSING_LONG_BRACKET = bs ''%]=*%]'';
          (LONG_BRACKETS, h) = new (no_mode\<lparr>m_begin := Some OPENING_LONG_BRACKET, m_end := Some CLOSING_LONG_BRACKET,
              contains := Some [Self]\<rparr>) h;
          (m1, h) = COMMENT (''--(?!'' @ OPENING_LONG_BRACKET @ '')'') ''$'' no_mode h;
          (m2, h) = COMMENT (''--'' @
              OPENING_LONG_BRACKET) CLOSING_LONG_BRACKET (no_mode\<lparr>contains := Some [Ref LONG_BRACKETS],
              m_relevance := Some 10\<rparr>) h;
          COMMENTS = [Ref m1, Ref m2];
          (m3,
              h) = new (inherit_mode (mode_at h hl_TITLE_MODE) [(no_mode\<lparr>m_begin := Some (bs ''([_a-zA-Z]%w*%.)*([_a-zA-Z]%w*:)?[_a-zA-Z]%w*'')\<rparr>)]) h;
          (m4, h) = new (no_mode\<lparr>className := Some ''params'', m_begin := Some (bs ''%(''), endsWithParent := Some True,
              contains := Some COMMENTS\<rparr>) h;
          (m5, h) = new (no_mode\<lparr>className := Some ''function'', beginKeywords := Some ''function'',
              m_end := Some (bs ''%)''), contains := Some ([Ref m3, Ref m4] @ COMMENTS)\<rparr>) h;
          (m6, h) = new (no_mode\<lparr>className := Some ''string'', m_begin := Some OPENING_LONG_BRACKET,
              m_end := Some CLOSING_LONG_BRACKET, contains := Some [Ref LONG_BRACKETS],
              m_relevance := Some 5\<rparr>) h;
          (language, h) = new (no_mode\<lparr>lexemes := Some UNDERSCORE_IDENT_RE, m_keywords := Some (KObj [(''literal'',
              ''true false nil''), (''keyword'',
              ''and break do else elseif end for goto if in local not or repeat return then until while''),
              (''built_in'', ''_G _ENV _VERSION __index __newindex __mode __call __metatable __tostring __len '' @
              ''__gc __add __sub __mul __div __mod __pow __concat __unm __eq __lt __le assert '' @
              ''collectgarbage dofile error getfenv getmetatable ipairs load loadfile loadstring'' @
              ''module next pairs pcall print rawequal rawget rawset require select setfenv'' @
              ''setmetatable tonumber tostring type unpack xpcall arg self'' @
              ''coroutine resume yield status wrap create running debug getupvalue '' @
              ''debug sethook getmetatable gethook setmetatable setlocal traceback setfenv getinfo setupvalue '' @
              ''getlocal getregistry getfenv '' @
              ''io lines write close flush open output type read stderr stdin input stdout popen tmpfile '' @
              ''math log max acos huge ldexp pi cos tanh pow deg tan cosh sinh random randomseed frexp ceil floor '' @
              ''rad abs sqrt modf asin min mod fmod log10 atan2 exp sin atan '' @
              ''os exit setlocale date getenv difftime remove time clock tmpname rename execute package preload '' @
              ''loadlib loaded loaders cpath config path seeall '' @
              ''string sub upper len gfind rep find match char dump gmatch reverse byte format gsub lower '' @
              ''table setn insert getn foreachi maxn foreach concat sort remove'')]), contains := Some (COMMENTS @
              [Ref m5, Ref hl_C_NUMBER_MODE, Ref hl_APOS_STRING_MODE, Ref hl_QUOTE_STRING_MODE, Ref m6])\<rparr>) h
      in (language, h))"

definition lang_makefile :: "mstore \<Rightarrow> nat \<times> mstore" where
  "lang_makefile h =
     (let (m1, h) = new (no_mode\<lparr>m_begin := Some (bs ''%$%('' @ UNDERSCORE_IDENT_RE @ bs ''%)''),
              contains := Some [Ref hl_BACKSLASH_ESCAPE]\<rparr>) h;
          (m2, h) = new (no_mode\<lparr>m_begin := Some (bs ''%$[@'' @ ''%'' @ bs ''<?%^%+%*]'')\<rparr>) h;
          (VARIABLE, h) = new (no_mode\<lparr>className := Some ''variable'', variants := Some [m1, m2]\<rparr>) h;
          (QUOTE_STRING, h) = new (no_mode\<lparr>className := Some ''string'', m_begin := Some [CHR 0x22],
              m_end := Some [CHR 0x22], contains := Some [Ref hl_BACKSLASH_ESCAPE, Ref VARIABLE]\<rparr>) h;
          (FUNC, h) = new (no_mode\<lparr>className := Some ''variable'', m_begin := Some (bs ''%$%([%w-]+%s''),
              m_end := Some (bs ''%)''), m_keywords := Some (KObj [(''built_in'',
              ''subst patsubst strip findstring filter filter-out sort '' @
              ''word wordlist firstword lastword dir notdir suffix basename '' @
              ''addsuffix addprefix join wildcard realpath abspath error warning '' @
              ''shell origin flavor foreach if or and call eval file value'')]),
              contains := Some [Ref VARIABLE]\<rparr>) h;
          (m3, h) = new (no_mode\<lparr>m_begin := Some (''^'' @ UNDERSCORE_IDENT_RE), m_end := Some ''[:+?]?='',
              excludeEnd := Some True\<rparr>) h;
          (VAR_ASSIG, h) = new (no_mode\<lparr>m_begin := Some (''^'' @ UNDERSCORE_IDENT_RE @ bs ''%s*[:+?]?=''),
              illegal := Some (bs ''%n''), returnBegin := Some True, contains := Some [Ref m3]\<rparr>) h;
          (META, h) = new (no_mode\<lparr>className := Some ''meta'', m_begin := Some (bs ''^%.PHONY:''), m_end := Some ''$'',
              m_keywords := Some (KObj [(''meta-keyword'', ''.PHONY'')]), lexemes := Some (bs ''[%.%w]+'')\<rparr>) h;
          (TARGET, h) = new (no_mode\<lparr>className := Some ''section'', m_begin := Some (bs ''^[^%s]+:''),
              m_end := Some ''$'', contains := Some [Ref VARIABLE]\<rparr>) h;
          (language, h) = new (no_mode\<lparr>aliases := Some [''mk'', ''mak''],
              m_keywords := Some (KStr (''define endef undefine ifdef ifndef ifeq ifneq else endif '' @
              ''include -include sinclude override export unexport private vpath'')),
              lexemes := Some (bs ''[%w-]+''), contains := Some [Ref hl_HASH_COMMENT_MODE, Ref VARIABLE,
              Ref QUOTE_STRING, Ref FUNC, Ref VAR_ASSIG, Ref META, Ref TARGET]\<rparr>) h
      in (language, h))"

subsection \<open>The stores they make\<close>

lemma lang_haxe_makes [builds_grammars]: "makes_grammar lang_haxe"
  unfolding lang_haxe_def by (intro makes_grammarI builds_rules) (simp_all add: refs_append)

lemma lang_hsp_makes [builds_grammars]: "makes_grammar lang_hsp"
  unfolding lang_hsp_def by (intro makes_grammarI builds_rules) (simp_all add: refs_append)

lemma lang_htmlbars_makes [builds_grammars]: "makes_grammar lang_htmlbars"
  unfolding lang_htmlbars_def by (intro makes_grammarI builds_rules) (simp_all add: refs_append)

lemma lang_http_makes [builds_grammars]: "makes_grammar lang_http"
  unfolding lang_http_def by (intro makes_grammarI builds_rules) (simp_all add: refs_append)

lemma lang_hy_makes [builds_grammars]: "makes_grammar lang_hy"
  unfolding lang_hy_def by (intro makes_grammarI builds_rules) (simp_all add: refs_append)

lemma lang_inform7_makes [builds_grammars]: "makes_grammar lang_inform7"
  unfolding lang_inform7_def by (intro makes_grammarI builds_rules) (simp_all add: refs_append)

lemma lang_ini_makes [builds_grammars]: "makes_grammar lang_ini"
  unfolding lang_ini_def by (intro makes_grammarI builds_rules) (simp_all add: refs_append)

lemma lang_irpf90_makes [builds_grammars]: "makes_grammar lang_irpf90"
  unfolding lang_irpf90_def by (intro makes_grammarI builds_rules) (simp_all add: refs_append)

lemma lang_javascript_makes [builds_grammars]: "makes_grammar lang_javascript"
  unfolding lang_javascript_def by (intro makes_grammarI builds_rules) (simp_all add: refs_append)

lemma lang_jboss_cli_makes [builds_grammars]: "makes_grammar lang_jboss_cli"
  unfolding lang_jboss_cli_def by (intro makes_grammarI builds_rules) (simp_all add: refs_append)

lemma lang_julia_repl_makes [builds_grammars]: "makes_grammar lang_julia_repl"
  unfolding lang_julia_repl_def by (intro makes_grammarI builds_rules) (simp_all add: refs_append)

lemma lang_lasso_makes [builds_grammars]: "makes_grammar lang_lasso"
  unfolding lang_lasso_def by (intro makes_grammarI builds_rules) (simp_all add: refs_append)

lemma lang_ldif_makes [builds_grammars]: "makes_grammar lang_ldif"
  unfolding lang_ldif_def by (intro makes_grammarI builds_rules) (simp_all add: refs_append)

lemma lang_leaf_makes [builds_grammars]: "makes_grammar lang_leaf"
  unfolding lang_leaf_def by (intro makes_grammarI builds_rules) (simp_all add: refs_append)

lemma lang_lisp_makes [builds_grammars]: "makes_grammar lang_lisp"
  unfolding lang_lisp_def by (intro makes_grammarI builds_rules) (simp_all add: refs_append)

lemma lang_livecodeserver_makes [builds_grammars]: "makes_grammar lang_livecodeserver"
  unfolding lang_livecodeserver_def by (intro makes_grammarI builds_rules) (simp_all add: refs_append)

lemma lang_livescript_makes [builds_grammars]: "makes_grammar lang_livescript"
  unfolding lang_livescript_def by (intro makes_grammarI builds_rules) (simp_all add: refs_append)

lemma lang_llvm_makes [builds_grammars]: "makes_grammar lang_llvm"
  unfolding lang_llvm_def by (intro makes_grammarI builds_rules) (simp_all add: refs_append)

lemma lang_lsl_makes [builds_grammars]: "makes_grammar lang_lsl"
  unfolding lang_lsl_def by (intro makes_grammarI builds_rules) (simp_all add: refs_append)

lemma lang_lua_makes [builds_grammars]: "makes_grammar lang_lua"
  unfolding lang_lua_def by (intro makes_grammarI builds_rules) (simp_all add: refs_append)

lemma lang_makefile_makes [builds_grammars]: "makes_grammar lang_makefile"
  unfolding lang_makefile_def by (intro makes_grammarI builds_rules) (simp_all add: refs_append)

end
