(* ===== verification/Hljs_Languages_6.thy ===== *)
theory Hljs_Languages_6
  imports Hljs_Store
begin

text \<open>
  Grammars of highlight.js (\<^verbatim>\<open>remark.js\<close>, module 15), in the order of the source, from \<open>objectivec\<close> to \<open>q\<close>. Each keeps the store
  closed.
\<close>

definition lang_objectivec :: "mstore \<Rightarrow> nat \<times> mstore" where
  "lang_objectivec h =
     (let (API_CLASS, h) = new (no_mode\<lparr>className := Some ''built_in'',
              m_begin := Some (bs ''%b(AV|CA|CF|CG|CI|CL|CM|CN|CT|MK|MP|MTK|MTL|NS|SCN|SK|UI|WK|XC)%w+'')\<rparr>) h;
          LEXEMES = ''[a-zA-Z@][a-zA-Z0-9_]*'';
          CLASS_KEYWORDS = ''@interface @class @protocol @implementation'';
          OBJC_KEYWORDS = KObj [(''keyword'', ''int float while char export sizeof typedef const struct for union '' @
              ''unsigned long volatile static bool mutable if do return goto void '' @
              ''enum else break extern asm case short default double register explicit '' @
              ''signed typename this switch continue wchar_t inline readonly assign '' @
              ''readwrite self @synchronized id typeof '' @
              ''nonatomic super unichar IBOutlet IBAction strong weak copy '' @
              ''in out inout bycopy byref oneway __strong __weak __block __autoreleasing '' @
              ''@private @protected @public @try @property @end @throw @catch @finally '' @
              ''@autoreleasepool @synthesize @dynamic @selector @optional @required '' @
              ''@encode @package @import @defs @compatibility_alias '' @
              ''__bridge __bridge_transfer __bridge_retained __bridge_retain '' @
              ''__covariant __contravariant __kindof '' @ ''_Nonnull _Nullable _Null_unspecified '' @
              ''__FUNCTION__ __PRETTY_FUNCTION__ __attribute__ '' @ ''getter setter retain unsafe_unretained '' @
              ''nonnull nullable null_unspecified null_resettable class instancetype '' @
              ''NS_DESIGNATED_INITIALIZER NS_UNAVAILABLE NS_REQUIRES_SUPER '' @
              ''NS_RETURNS_INNER_POINTER NS_INLINE NS_AVAILABLE NS_DEPRECATED '' @
              ''NS_ENUM NS_OPTIONS NS_SWIFT_UNAVAILABLE '' @ ''NS_ASSUME_NONNULL_BEGIN NS_ASSUME_NONNULL_END '' @
              ''NS_REFINED_FOR_SWIFT NS_SWIFT_NAME NS_SWIFT_NOTHROW '' @
              ''NS_DURING NS_HANDLER NS_ENDHANDLER NS_VALUERETURN NS_VOIDRETURN''), (''literal'',
              ''false true FALSE TRUE nil YES NO NULL''), (''built_in'',
              ''BOOL dispatch_once_t dispatch_queue_t dispatch_sync dispatch_async dispatch_once'')];
          (m1, h) = new (no_mode\<lparr>m_begin := Some (''@'' @ [CHR 0x22]), m_end := Some [CHR 0x22],
              illegal := Some (bs ''%n''), contains := Some [Ref hl_BACKSLASH_ESCAPE]\<rparr>) h;
          (m2, h) = new (no_mode\<lparr>m_begin := Some [CHR 0x27], m_end := Some (bs ''[^%%]'' @ [CHR 0x27]),
              illegal := Some (bs ''[^%%][^'' @ [CHR 0x27] @ '']'')\<rparr>) h;
          (m3, h) = new (no_mode\<lparr>className := Some ''string'', variants := Some [m1, m2]\<rparr>) h;
          (m4, h) = new (no_mode\<lparr>m_begin := Some [CHR 0x22], m_end := Some [CHR 0x22]\<rparr>) h;
          (m5, h) = new (no_mode\<lparr>m_begin := Some ''<'', m_end := Some ''>''\<rparr>) h;
          (m6, h) = new (no_mode\<lparr>className := Some ''meta-string'', variants := Some [m4, m5]\<rparr>) h;
          (m7, h) = new (no_mode\<lparr>className := Some ''meta'', m_begin := Some ''#'', m_end := Some ''$'',
              contains := Some [Ref m6]\<rparr>) h;
          (m8, h) = new (no_mode\<lparr>className := Some ''class'', m_begin := Some (''('' @
              join ''|'' (split_char (CHR 0x20) CLASS_KEYWORDS) @ bs '')%b''), m_end := Some ''({|$)'',
              excludeEnd := Some True, m_keywords := Some (KStr CLASS_KEYWORDS), lexemes := Some LEXEMES,
              contains := Some [Ref hl_UNDERSCORE_TITLE_MODE]\<rparr>) h;
          (m9, h) = new (no_mode\<lparr>m_begin := Some (bs ''%.'' @ UNDERSCORE_IDENT_RE), m_relevance := Some 0\<rparr>) h;
          (language, h) = new (no_mode\<lparr>aliases := Some [''mm'', ''objc'', ''obj-c''], m_keywords := Some OBJC_KEYWORDS,
              lexemes := Some LEXEMES, illegal := Some ''</'', contains := Some [Ref API_CLASS,
              Ref hl_C_LINE_COMMENT_MODE, Ref hl_C_BLOCK_COMMENT_MODE, Ref hl_C_NUMBER_MODE,
              Ref hl_QUOTE_STRING_MODE, Ref m3, Ref m7, Ref m8, Ref m9]\<rparr>) h
      in (language, h))"

definition lang_ocaml :: "mstore \<Rightarrow> nat \<times> mstore" where
  "lang_ocaml h =
     (let (m1, h) = new (no_mode\<lparr>className := Some ''literal'', m_begin := Some (bs ''%[(%|%|)?%]|%(%)''),
              m_relevance := Some 0\<rparr>) h;
          (m2, h) = COMMENT (bs ''%(%*'') (bs ''%*%)'') (no_mode\<lparr>contains := Some [Self]\<rparr>) h;
          (m3, h) = new (no_mode\<lparr>className := Some ''symbol'', m_begin := Some ([CHR 0x27] @ ''[A-Za-z_](?!'' @
              [CHR 0x27] @ bs '')[%w'' @ [CHR 0x27] @ '']*'')\<rparr>) h;
          (m4, h) = new (no_mode\<lparr>className := Some ''type'', m_begin := Some ([CHR 0x60] @ bs ''[A-Z][%w'' @
              [CHR 0x27] @ '']*'')\<rparr>) h;
          (m5, h) = new (no_mode\<lparr>className := Some ''type'', m_begin := Some (bs ''%b[A-Z][%w'' @ [CHR 0x27] @ '']*''),
              m_relevance := Some 0\<rparr>) h;
          (m6, h) = new (no_mode\<lparr>m_begin := Some (bs ''[a-z_]%w*'' @ [CHR 0x27] @ bs ''[%w'' @ [CHR 0x27] @ '']*''),
              m_relevance := Some 0\<rparr>) h;
          (m7, h) = new (inherit_mode (mode_at h hl_APOS_STRING_MODE) [(no_mode\<lparr>className := Some ''string'',
              m_relevance := Some 0\<rparr>)]) h;
          (m8, h) = new (inherit_mode (mode_at h hl_QUOTE_STRING_MODE) [(no_mode\<lparr>illegal := Some []\<rparr>)]) h;
          (m9, h) = new (no_mode\<lparr>className := Some ''number'', m_begin := Some (bs ''%b(0[xX][a-fA-F0-9_]+[Lln]?|'' @
              ''0[oO][0-7_]+[Lln]?|'' @ ''0[bB][01_]+[Lln]?|'' @ bs ''[0-9][0-9_]*([Lln]|(%.[0-9_]*'' @
              '')?([eE][-+]?[0-9_]+)?)?)''), m_relevance := Some 0\<rparr>) h;
          (m10, h) = new (no_mode\<lparr>m_begin := Some ''[-=]>''\<rparr>) h;
          (language, h) = new (no_mode\<lparr>aliases := Some [''ml''], m_keywords := Some (KObj [(''keyword'',
              ''and as assert asr begin class constraint do done downto else end '' @
              ''exception external for fun function functor if in include '' @
              ''inherit! inherit initializer land lazy let lor lsl lsr lxor match method!|10 method '' @
              ''mod module mutable new object of open! open or private rec sig struct '' @
              ''then to try type val! val virtual when while with '' @ ''parser value''), (''built_in'',
              ''array bool bytes char exn|5 float int int32 int64 list lazy_t|5 nativeint|5 string unit '' @
              ''in_channel out_channel ref''), (''literal'', ''true false'')]), illegal := Some (bs ''%/%/|>>''),
              lexemes := Some (bs ''[a-z_]%w*!?''), contains := Some [Ref m1, Ref m2, Ref m3, Ref m4, Ref m5, Ref m6,
              Ref m7, Ref m8, Ref m9, Ref m10]\<rparr>) h
      in (language, h))"

definition lang_openscad :: "mstore \<Rightarrow> nat \<times> mstore" where
  "lang_openscad h =
     (let (SPECIAL_VARS, h) = new (no_mode\<lparr>className := Some ''keyword'',
              m_begin := Some (bs ''%$(f[asn]|t|vp[rtd]|children)'')\<rparr>) h;
          (LITERALS', h) = new (no_mode\<lparr>className := Some ''literal'', m_begin := Some ''false|true|PI|undef''\<rparr>) h;
          (NUMBERS, h) = new (no_mode\<lparr>className := Some ''number'', m_begin := Some (bs ''%b%d+(%.%d+)?(e-?%d+)?''),
              m_relevance := Some 0\<rparr>) h;
          (STRING, h) = new (inherit_mode (mode_at h hl_QUOTE_STRING_MODE) [(no_mode\<lparr>illegal := Some []\<rparr>)]) h;
          (PREPRO, h) = new (no_mode\<lparr>className := Some ''meta'', m_keywords := Some (KObj [(''meta-keyword'',
              ''include use'')]), m_begin := Some ''include|use <'', m_end := Some ''>''\<rparr>) h;
          (PARAMS, h) = new (no_mode\<lparr>className := Some ''params'', m_begin := Some (bs ''%(''),
              m_end := Some (bs ''%)''), contains := Some [Self, Ref NUMBERS, Ref STRING, Ref SPECIAL_VARS,
              Ref LITERALS']\<rparr>) h;
          (MODIFIERS, h) = new (no_mode\<lparr>m_begin := Some ''[*!#%]'', m_relevance := Some 0\<rparr>) h;
          (FUNCTIONS, h) = new (no_mode\<lparr>className := Some ''function'', beginKeywords := Some ''module function'',
              m_end := Some (bs ''%=|%{''), contains := Some [Ref PARAMS, Ref hl_UNDERSCORE_TITLE_MODE]\<rparr>) h;
          (language, h) = new (no_mode\<lparr>aliases := Some [''scad''], m_keywords := Some (KObj [(''keyword'',
              bs ''function module include use for intersection_for if else %'' @ ''%''), (''literal'',
              ''false true PI undef''), (''built_in'',
              ''circle square polygon text sphere cube cylinder polyhedron translate rotate scale resize mirror '' @
              ''multmatrix color offset hull minkowski union difference intersection abs sign sin cos tan acos asin '' @
              ''atan atan2 floor round ceil ln log pow sqrt exp rands min max concat lookup str chr search version '' @
              ''version_num norm cross parent_module echo import import_dxf dxf_linear_extrude linear_extrude '' @
              ''rotate_extrude surface projection render children dxf_cross dxf_dim let assign'')]),
              contains := Some [Ref hl_C_LINE_COMMENT_MODE, Ref hl_C_BLOCK_COMMENT_MODE, Ref NUMBERS, Ref PREPRO,
              Ref STRING, Ref SPECIAL_VARS, Ref MODIFIERS, Ref FUNCTIONS]\<rparr>) h
      in (language, h))"

definition lang_oxygene :: "mstore \<Rightarrow> nat \<times> mstore" where
  "lang_oxygene h =
     (let OXYGENE_KEYWORDS = ''abstract add and array as asc aspect assembly async begin break block by case class concat const '' @
              ''copy constructor continue '' @
              ''create default delegate desc distinct div do downto dynamic each else empty end ensure enum equals '' @
              ''event except exit extension external false '' @
              ''final finalize finalizer finally flags for forward from function future global group has if '' @
              ''implementation implements implies in index inherited '' @
              ''inline interface into invariants is iterator join locked locking loop matching method mod module '' @
              ''namespace nested new nil not notify nullable of '' @
              ''old on operator or order out override parallel params partial pinned private procedure property '' @
              ''protected public queryable raise read readonly '' @
              ''record reintroduce remove repeat require result reverse sealed select self sequence set shl shr '' @
              ''skip static step soft take then to true try tuple '' @
              ''type union unit unsafe until uses using var virtual raises volatile where while with write xor '' @
              ''yield await mapped deprecated stdcall cdecl pascal '' @
              ''register safecall overload library platform reference packed strict published autoreleasepool '' @
              ''selector strong weak unretained'';
          (CURLY_COMMENT, h) = COMMENT ''{'' ''}'' (no_mode\<lparr>m_relevance := Some 0\<rparr>) h;
          (PAREN_COMMENT, h) = COMMENT (bs ''%(%*'') (bs ''%*%)'') (no_mode\<lparr>m_relevance := Some 10\<rparr>) h;
          (m1, h) = new (no_mode\<lparr>m_begin := Some [CHR 0x27, CHR 0x27]\<rparr>) h;
          (STRING, h) = new (no_mode\<lparr>className := Some ''string'', m_begin := Some [CHR 0x27], m_end := Some [CHR 0x27],
              contains := Some [Ref m1]\<rparr>) h;
          (CHAR_STRING, h) = new (no_mode\<lparr>className := Some ''string'', m_begin := Some (bs ''(#%d+)+'')\<rparr>) h;
          (m2, h) = new (no_mode\<lparr>className := Some ''params'', m_begin := Some (bs ''%(''), m_end := Some (bs ''%)''),
              m_keywords := Some (KStr OXYGENE_KEYWORDS), contains := Some [Ref STRING, Ref CHAR_STRING]\<rparr>) h;
          (FUNCTION, h) = new (no_mode\<lparr>className := Some ''function'',
              beginKeywords := Some ''function constructor destructor procedure method'', m_end := Some ''[:;]'',
              m_keywords := Some (KStr ''function constructor|10 destructor|10 procedure|10 method|10''),
              contains := Some [Ref hl_TITLE_MODE, Ref m2, Ref CURLY_COMMENT, Ref PAREN_COMMENT]\<rparr>) h;
          (m3, h) = new (no_mode\<lparr>className := Some ''class'', m_begin := Some (bs ''=%bclass%b''),
              m_end := Some ''end;'', m_keywords := Some (KStr OXYGENE_KEYWORDS), contains := Some [Ref STRING,
              Ref CHAR_STRING, Ref CURLY_COMMENT, Ref PAREN_COMMENT, Ref hl_C_LINE_COMMENT_MODE,
              Ref FUNCTION]\<rparr>) h;
          (language, h) = new (no_mode\<lparr>case_insensitive := Some True, lexemes := Some (bs ''%.?%w+''),
              m_keywords := Some (KStr OXYGENE_KEYWORDS), illegal := Some (''('' @ [CHR 0x22] @
              bs ''|%$[G-Zg-z]|%/%*|</|=>|->)''), contains := Some [Ref CURLY_COMMENT, Ref PAREN_COMMENT,
              Ref hl_C_LINE_COMMENT_MODE, Ref STRING, Ref CHAR_STRING, Ref hl_NUMBER_MODE, Ref FUNCTION,
              Ref m3]\<rparr>) h
      in (language, h))"

definition lang_parser3 :: "mstore \<Rightarrow> nat \<times> mstore" where
  "lang_parser3 h =
     (let (CURLY_SUBCOMMENT, h) = COMMENT ''{'' ''}'' (no_mode\<lparr>contains := Some [Self]\<rparr>) h;
          (m1, h) = COMMENT ''^#'' ''$'' no_mode h;
          (m2, h) = COMMENT (bs ''%^rem{'') ''}'' (no_mode\<lparr>m_relevance := Some 10,
              contains := Some [Ref CURLY_SUBCOMMENT]\<rparr>) h;
          (m3, h) = new (no_mode\<lparr>className := Some ''meta'', m_begin := Some ''^@(?:BASE|USE|CLASS|OPTIONS)$'',
              m_relevance := Some 10\<rparr>) h;
          (m4, h) = new (no_mode\<lparr>className := Some ''title'', m_begin := Some (bs ''@[%w%-]+%['' @
              bs ''[%w^;%-]*%](?:%['' @ bs ''[%w^;%-]*%])?(?:.*'' @ '')$'')\<rparr>) h;
          (m5, h) = new (no_mode\<lparr>className := Some ''variable'', m_begin := Some (bs ''%$%{?[%w%-%.%:]+%}?'')\<rparr>) h;
          (m6, h) = new (no_mode\<lparr>className := Some ''keyword'', m_begin := Some (bs ''%^[%w%-%.%:]+'')\<rparr>) h;
          (m7, h) = new (no_mode\<lparr>className := Some ''number'', m_begin := Some (bs ''%^#[0-9a-fA-F]+'')\<rparr>) h;
          (language, h) = new (no_mode\<lparr>subLanguage := Some (SubName ''xml''), m_relevance := Some 0,
              contains := Some [Ref m1, Ref m2, Ref m3, Ref m4, Ref m5, Ref m6, Ref m7,
              Ref hl_C_NUMBER_MODE]\<rparr>) h
      in (language, h))"

definition lang_perl :: "mstore \<Rightarrow> nat \<times> mstore" where
  "lang_perl h =
     (let PERL_KEYWORDS = ''getpwent getservent quotemeta msgrcv scalar kill dbmclose undef lc '' @
              ''ma syswrite tr send umask sysopen shmwrite vec qx utime local oct semctl localtime '' @
              ''readpipe do return format read sprintf dbmopen pop getpgrp not getpwnam rewinddir qq'' @
              ''fileno qw endprotoent wait sethostent bless s|0 opendir continue each sleep endgrent '' @
              ''shutdown dump chomp connect getsockname die socketpair close flock exists index shmget'' @
              ''sub for endpwent redo lstat msgctl setpgrp abs exit select print ref gethostbyaddr '' @
              ''unshift fcntl syscall goto getnetbyaddr join gmtime symlink semget splice x|0 '' @
              ''getpeername recv log setsockopt cos last reverse gethostbyname getgrnam study formline '' @
              ''endhostent times chop length gethostent getnetent pack getprotoent getservbyname rand '' @
              ''mkdir pos chmod y|0 substr endnetent printf next open msgsnd readdir use unlink '' @
              ''getsockopt getpriority rindex wantarray hex system getservbyport endservent int chr '' @
              ''untie rmdir prototype tell listen fork shmread ucfirst setprotoent else sysseek link '' @
              ''getgrgid shmctl waitpid unpack getnetbyname reset chdir grep split require caller '' @
              ''lcfirst until warn while values shift telldir getpwuid my getprotobynumber delete and '' @
              ''sort uc defined srand accept package seekdir getprotobyname semop our rename seek if q|0 '' @
              ''chroot sysread setpwent no crypt getc chown sqrt write setnetent setpriority foreach '' @
              ''tie sin msgget map stat getlogin unless elsif truncate exec keys glob tied closedir'' @
              ''ioctl socket readlink eval xor readline binmode setservent eof ord bind alarm pipe '' @
              ''atan2 getgrent exp time push setgrent gt lt or ne m|0 break given say state when'';
          (SUBST, h) = new (no_mode\<lparr>className := Some ''subst'', m_begin := Some (bs ''[$@]%{''),
              m_end := Some (bs ''%}''), m_keywords := Some (KStr PERL_KEYWORDS)\<rparr>) h;
          (METHOD, h) = new (no_mode\<lparr>m_begin := Some ''->{'', m_end := Some ''}''\<rparr>) h;
          (m1, h) = new (no_mode\<lparr>m_begin := Some (bs ''%$%d'')\<rparr>) h;
          (m2, h) = new (no_mode\<lparr>m_begin := Some (bs ''[%$'' @ ''%'' @ bs ''@](%^%w%b|#%w+(::%w+)*|{%w+}|%w+(::%w*'' @
              '')*'' @ '')'')\<rparr>) h;
          (m3, h) = new (no_mode\<lparr>m_begin := Some (bs ''[%$'' @ ''%'' @ bs ''@][^%s%w{]''), m_relevance := Some 0\<rparr>) h;
          (VAR, h) = new (no_mode\<lparr>variants := Some [m1, m2, m3]\<rparr>) h;
          STRING_CONTAINS = [Ref hl_BACKSLASH_ESCAPE, Ref SUBST, Ref VAR];
          (m4, h) = COMMENT (bs ''^%=%w'') (bs ''%=cut'') (no_mode\<lparr>endsWithParent := Some True\<rparr>) h;
          (m5, h) = new (no_mode\<lparr>m_begin := Some (bs ''q[qwxr]?%s*%(''), m_end := Some (bs ''%)''),
              m_relevance := Some 5\<rparr>) h;
          (m6, h) = new (no_mode\<lparr>m_begin := Some (bs ''q[qwxr]?%s*%[''), m_end := Some (bs ''%]''),
              m_relevance := Some 5\<rparr>) h;
          (m7, h) = new (no_mode\<lparr>m_begin := Some (bs ''q[qwxr]?%s*%{''), m_end := Some (bs ''%}''),
              m_relevance := Some 5\<rparr>) h;
          (m8, h) = new (no_mode\<lparr>m_begin := Some (bs ''q[qwxr]?%s*%|''), m_end := Some (bs ''%|''),
              m_relevance := Some 5\<rparr>) h;
          (m9, h) = new (no_mode\<lparr>m_begin := Some (bs ''q[qwxr]?%s*%'' @ ''<''), m_end := Some (bs ''%>''),
              m_relevance := Some 5\<rparr>) h;
          (m10, h) = new (no_mode\<lparr>m_begin := Some (bs ''qw%s+q''), m_end := Some ''q'', m_relevance := Some 5\<rparr>) h;
          (m11, h) = new (no_mode\<lparr>m_begin := Some [CHR 0x27], m_end := Some [CHR 0x27],
              contains := Some [Ref hl_BACKSLASH_ESCAPE]\<rparr>) h;
          (m12, h) = new (no_mode\<lparr>m_begin := Some [CHR 0x22], m_end := Some [CHR 0x22]\<rparr>) h;
          (m13, h) = new (no_mode\<lparr>m_begin := Some [CHR 0x60], m_end := Some [CHR 0x60],
              contains := Some [Ref hl_BACKSLASH_ESCAPE]\<rparr>) h;
          (m14, h) = new (no_mode\<lparr>m_begin := Some (bs ''{%w+}''), contains := Some [], m_relevance := Some 0\<rparr>) h;
          (m15, h) = new (no_mode\<lparr>m_begin := Some (bs ''-?%w+%s*%=%>''), contains := Some [],
              m_relevance := Some 0\<rparr>) h;
          (m16, h) = new (no_mode\<lparr>className := Some ''string'', contains := Some STRING_CONTAINS, variants := Some [m5,
              m6, m7, m8, m9, m10, m11, m12, m13, m14, m15]\<rparr>) h;
          (m17, h) = new (no_mode\<lparr>className := Some ''number'',
              m_begin := Some (bs ''(%b0[0-7_]+)|(%b0x[0-9a-fA-F_]+)|(%b[1-9][0-9_]*(%.[0-9_]+)?)|[0_]%b''),
              m_relevance := Some 0\<rparr>) h;
          (m18, h) = new (no_mode\<lparr>className := Some ''regexp'',
              m_begin := Some (bs ''(s|tr|y)/(%%.|[^/])*/(%%.|[^/])*/[a-z]*''), m_relevance := Some 10\<rparr>) h;
          (m19, h) = new (no_mode\<lparr>className := Some ''regexp'', m_begin := Some ''(m|qr)?/'', m_end := Some ''/[a-z]*'',
              contains := Some [Ref hl_BACKSLASH_ESCAPE], m_relevance := Some 0\<rparr>) h;
          (m20, h) = new (no_mode\<lparr>m_begin := Some (bs ''(%/%/|'' @ RE_STARTERS_RE @
              bs ''|%b(split|return|print|reverse|grep)%b)%s*''),
              m_keywords := Some (KStr ''split return print reverse grep''), m_relevance := Some 0,
              contains := Some [Ref hl_HASH_COMMENT_MODE, Ref m18, Ref m19]\<rparr>) h;
          (m21, h) = new (no_mode\<lparr>className := Some ''function'', beginKeywords := Some ''sub'',
              m_end := Some (bs ''(%s*%(.*?%))?[;{]''), excludeEnd := Some True, m_relevance := Some 5,
              contains := Some [Ref hl_TITLE_MODE]\<rparr>) h;
          (m22, h) = new (no_mode\<lparr>m_begin := Some (bs ''-%w%b''), m_relevance := Some 0\<rparr>) h;
          (m23, h) = new (no_mode\<lparr>m_begin := Some ''^@@.*'', m_end := Some ''$'', className := Some ''comment''\<rparr>) h;
          (m24, h) = new (no_mode\<lparr>m_begin := Some ''^__DATA__$'', m_end := Some ''^__END__$'',
              subLanguage := Some (SubName ''mojolicious''), contains := Some [Ref m23]\<rparr>) h;
          PERL_DEFAULT_CONTAINS = [Ref VAR, Ref hl_HASH_COMMENT_MODE, Ref m4, Ref METHOD, Ref m16, Ref m17, Ref m20, Ref m21,
              Ref m22, Ref m24];
          h = upd SUBST (\<lambda>m. m\<lparr>contains := Some PERL_DEFAULT_CONTAINS\<rparr>) h;
          h = upd METHOD (\<lambda>m. m\<lparr>contains := Some PERL_DEFAULT_CONTAINS\<rparr>) h;
          (language, h) = new (no_mode\<lparr>aliases := Some [''pl'', ''pm''], lexemes := Some (bs ''[%w%.]+''),
              m_keywords := Some (KStr PERL_KEYWORDS), contains := Some PERL_DEFAULT_CONTAINS\<rparr>) h
      in (language, h))"

definition lang_pf :: "mstore \<Rightarrow> nat \<times> mstore" where
  "lang_pf h =
     (let (MACRO, h) = new (no_mode\<lparr>className := Some ''variable'', m_begin := Some (bs ''%$[%w%d#@][%w%d_]*'')\<rparr>) h;
          (TABLE, h) = new (no_mode\<lparr>className := Some ''variable'', m_begin := Some (bs ''<(?!%/)''),
              m_end := Some ''>''\<rparr>) h;
          (QUOTE_STRING, h) = new (no_mode\<lparr>className := Some ''string'', m_begin := Some [CHR 0x22],
              m_end := Some [CHR 0x22]\<rparr>) h;
          (language, h) = new (no_mode\<lparr>aliases := Some [''pf.conf''], lexemes := Some ''[a-z0-9_<>-]+'',
              m_keywords := Some (KObj [(''built_in'', ''block match pass load anchor|5 antispoof|10 set table''),
              (''keyword'', ''in out log quick on rdomain inet inet6 proto from port os to route'' @
              ''allow-opts divert-packet divert-reply divert-to flags group icmp-type'' @
              ''icmp6-type label once probability recieved-on rtable prio queue'' @
              ''tos tag tagged user keep fragment for os drop'' @
              ''af-to|10 binat-to|10 nat-to|10 rdr-to|10 bitmask least-stats random round-robin'' @
              ''source-hash static-port'' @ ''dup-to reply-to route-to'' @
              ''parent bandwidth default min max qlimit'' @
              ''block-policy debug fingerprints hostid limit loginterface optimization'' @
              ''reassemble ruleset-optimization basic none profile skip state-defaults'' @ ''state-policy timeout'' @
              ''const counters persist'' @
              ''no modulate synproxy state|5 floating if-bound no-sync pflow|10 sloppy'' @
              ''source-track global rule max-src-nodes max-src-states max-src-conn'' @
              ''max-src-conn-rate overload flush'' @ ''scrub|5 max-mss min-ttl no-df|10 random-id''), (''literal'',
              ''all any no-route self urpf-failed egress|5 unknown'')]), contains := Some [Ref hl_HASH_COMMENT_MODE,
              Ref hl_NUMBER_MODE, Ref hl_QUOTE_STRING_MODE, Ref MACRO, Ref TABLE]\<rparr>) h
      in (language, h))"

definition lang_php :: "mstore \<Rightarrow> nat \<times> mstore" where
  "lang_php h =
     (let (VARIABLE, h) = new (no_mode\<lparr>m_begin := Some (bs ''%$+[a-zA-Z_'' @ [CHR 0x7F] @ ''-'' @ [CHR 0xFF] @
              ''][a-zA-Z0-9_'' @ [CHR 0x7F] @ ''-'' @ [CHR 0xFF] @ '']*'')\<rparr>) h;
          (PREPROCESSOR, h) = new (no_mode\<lparr>className := Some ''meta'', m_begin := Some (bs ''<%?(php)?|%?>'')\<rparr>) h;
          (m1, h) = new (no_mode\<lparr>m_begin := Some (''b'' @ [CHR 0x22]), m_end := Some [CHR 0x22]\<rparr>) h;
          (m2, h) = new (no_mode\<lparr>m_begin := Some (''b'' @ [CHR 0x27]), m_end := Some [CHR 0x27]\<rparr>) h;
          (m3, h) = new (inherit_mode (mode_at h hl_APOS_STRING_MODE) [(no_mode\<lparr>illegal := Some []\<rparr>)]) h;
          (m4, h) = new (inherit_mode (mode_at h hl_QUOTE_STRING_MODE) [(no_mode\<lparr>illegal := Some []\<rparr>)]) h;
          (STRING, h) = new (no_mode\<lparr>className := Some ''string'', contains := Some [Ref hl_BACKSLASH_ESCAPE,
              Ref PREPROCESSOR], variants := Some [m1, m2, m3, m4]\<rparr>) h;
          (NUMBER, h) = new (no_mode\<lparr>variants := Some [hl_BINARY_NUMBER_MODE, hl_C_NUMBER_MODE]\<rparr>) h;
          (m5, h) = new (no_mode\<lparr>className := Some ''doctag'', m_begin := Some ''@[A-Za-z]+''\<rparr>) h;
          (m6, h) = COMMENT ''//'' ''$'' (no_mode\<lparr>contains := Some [Ref PREPROCESSOR]\<rparr>) h;
          (m7, h) = COMMENT (bs ''/%*'') (bs ''%*/'') (no_mode\<lparr>contains := Some [Ref m5]\<rparr>) h;
          (m8, h) = COMMENT ''__halt_compiler.+?;'' [] (no_mode\<lparr>endsWithParent := Some True,
              m_keywords := Some (KStr ''__halt_compiler''), lexemes := Some UNDERSCORE_IDENT_RE\<rparr>) h;
          (m9, h) = new (no_mode\<lparr>m_begin := Some (bs ''%$%w+'')\<rparr>) h;
          (m10, h) = new (no_mode\<lparr>m_begin := Some (bs ''%{%$''), m_end := Some (bs ''%}'')\<rparr>) h;
          (m11, h) = new (no_mode\<lparr>className := Some ''subst'', variants := Some [m9, m10]\<rparr>) h;
          (m12, h) = new (no_mode\<lparr>className := Some ''string'', m_begin := Some (''<<<['' @ [CHR 0x27, CHR 0x22] @
              bs '']?%w+['' @ [CHR 0x27, CHR 0x22] @ '']?$''), m_end := Some (bs ''^%w+;?$''),
              contains := Some [Ref hl_BACKSLASH_ESCAPE, Ref m11]\<rparr>) h;
          (m13, h) = new (no_mode\<lparr>className := Some ''keyword'', m_begin := Some (bs ''%$this%b'')\<rparr>) h;
          (m14, h) = new (no_mode\<lparr>m_begin := Some (bs ''(::|->)+[a-zA-Z_%x7f-%xff][a-zA-Z0-9_%x7f-%xff]*'')\<rparr>) h;
          (m15, h) = new (no_mode\<lparr>className := Some ''params'', m_begin := Some (bs ''%(''), m_end := Some (bs ''%)''),
              contains := Some [Self, Ref VARIABLE, Ref hl_C_BLOCK_COMMENT_MODE, Ref STRING, Ref NUMBER]\<rparr>) h;
          (m16, h) = new (no_mode\<lparr>className := Some ''function'', beginKeywords := Some ''function'',
              m_end := Some ''[;{]'', excludeEnd := Some True, illegal := Some (bs ''%$|%[|'' @ ''%''),
              contains := Some [Ref hl_UNDERSCORE_TITLE_MODE, Ref m15]\<rparr>) h;
          (m17, h) = new (no_mode\<lparr>beginKeywords := Some ''extends implements''\<rparr>) h;
          (m18, h) = new (no_mode\<lparr>className := Some ''class'', beginKeywords := Some ''class interface'',
              m_end := Some ''{'', excludeEnd := Some True, illegal := Some (bs ''[:%(%$'' @ [CHR 0x22] @ '']''),
              contains := Some [Ref m17, Ref hl_UNDERSCORE_TITLE_MODE]\<rparr>) h;
          (m19, h) = new (no_mode\<lparr>beginKeywords := Some ''namespace'', m_end := Some '';'',
              illegal := Some (bs ''[%.'' @ [CHR 0x27] @ '']''),
              contains := Some [Ref hl_UNDERSCORE_TITLE_MODE]\<rparr>) h;
          (m20, h) = new (no_mode\<lparr>beginKeywords := Some ''use'', m_end := Some '';'',
              contains := Some [Ref hl_UNDERSCORE_TITLE_MODE]\<rparr>) h;
          (m21, h) = new (no_mode\<lparr>m_begin := Some ''=>''\<rparr>) h;
          (language, h) = new (no_mode\<lparr>aliases := Some [''php'', ''php3'', ''php4'', ''php5'', ''php6'', ''php7''],
              case_insensitive := Some True,
              m_keywords := Some (KStr (''and include_once list abstract global private echo interface as static endswitch '' @
              ''array null if endwhile or const for endforeach self var while isset public '' @
              ''protected exit foreach throw elseif include __FILE__ empty require_once do xor '' @
              ''return parent clone use __CLASS__ __LINE__ else break print eval new '' @
              ''catch __METHOD__ case exception default die require __FUNCTION__ '' @
              ''enddeclare final try switch continue endfor endif declare unset true false '' @
              ''trait goto instanceof insteadof __DIR__ __NAMESPACE__ '' @ ''yield finally'')),
              contains := Some [Ref hl_HASH_COMMENT_MODE, Ref m6, Ref m7, Ref m8, Ref m12, Ref PREPROCESSOR, Ref m13,
              Ref VARIABLE, Ref m14, Ref m16, Ref m18, Ref m19, Ref m20, Ref m21, Ref STRING, Ref NUMBER]\<rparr>) h
      in (language, h))"

definition lang_plaintext :: "mstore \<Rightarrow> nat \<times> mstore" where
  "lang_plaintext h =
     (let (language, h) = new (no_mode\<lparr>disableAutodetect := Some True\<rparr>) h
      in (language, h))"

definition lang_pony :: "mstore \<Rightarrow> nat \<times> mstore" where
  "lang_pony h =
     (let (TRIPLE_QUOTE_STRING_MODE, h) = new (no_mode\<lparr>className := Some ''string'', m_begin := Some [CHR 0x22,
              CHR 0x22, CHR 0x22], m_end := Some [CHR 0x22, CHR 0x22, CHR 0x22], m_relevance := Some 10\<rparr>) h;
          (QUOTE_STRING_MODE', h) = new (no_mode\<lparr>className := Some ''string'', m_begin := Some [CHR 0x22],
              m_end := Some [CHR 0x22], contains := Some [Ref hl_BACKSLASH_ESCAPE]\<rparr>) h;
          (SINGLE_QUOTE_CHAR_MODE, h) = new (no_mode\<lparr>className := Some ''string'', m_begin := Some [CHR 0x27],
              m_end := Some [CHR 0x27], contains := Some [Ref hl_BACKSLASH_ESCAPE], m_relevance := Some 0\<rparr>) h;
          (TYPE_NAME, h) = new (no_mode\<lparr>className := Some ''type'', m_begin := Some (bs ''%b_?[A-Z][%w]*''),
              m_relevance := Some 0\<rparr>) h;
          (PRIMED_NAME, h) = new (no_mode\<lparr>m_begin := Some (IDENT_RE @ [CHR 0x27]), m_relevance := Some 0\<rparr>) h;
          KEYWORDS = KObj [(''keyword'', ''actor addressof and as be break class compile_error compile_intrinsic '' @
              ''consume continue delegate digestof do else elseif embed end error '' @
              ''for fun if ifdef in interface is isnt lambda let match new not object '' @
              ''or primitive recover repeat return struct then trait try type until '' @
              ''use var where while with xor''), (''meta'', ''iso val tag trn box ref''), (''literal'',
              ''this false true'')];
          (language, h) = new (no_mode\<lparr>m_keywords := Some KEYWORDS, contains := Some [Ref TYPE_NAME,
              Ref TRIPLE_QUOTE_STRING_MODE, Ref QUOTE_STRING_MODE', Ref SINGLE_QUOTE_CHAR_MODE, Ref PRIMED_NAME,
              Ref hl_C_NUMBER_MODE, Ref hl_C_LINE_COMMENT_MODE, Ref hl_C_BLOCK_COMMENT_MODE]\<rparr>) h
      in (language, h))"

definition lang_powershell :: "mstore \<Rightarrow> nat \<times> mstore" where
  "lang_powershell h =
     (let (BACKTICK_ESCAPE, h) = new (no_mode\<lparr>m_begin := Some ([CHR 0x60] @ bs ''[%s%S]''),
              m_relevance := Some 0\<rparr>) h;
          (m1, h) = new (no_mode\<lparr>m_begin := Some (bs ''%$[%w%d][%w%d_:]*'')\<rparr>) h;
          (VAR, h) = new (no_mode\<lparr>className := Some ''variable'', variants := Some [m1]\<rparr>) h;
          (LITERAL, h) = new (no_mode\<lparr>className := Some ''literal'',
              m_begin := Some (bs ''%$(null|true|false)%b'')\<rparr>) h;
          (m2, h) = new (no_mode\<lparr>m_begin := Some [CHR 0x22], m_end := Some [CHR 0x22]\<rparr>) h;
          (m3, h) = new (no_mode\<lparr>m_begin := Some (''@'' @ [CHR 0x22]), m_end := Some (''^'' @ [CHR 0x22] @
              ''@'')\<rparr>) h;
          (m4, h) = new (no_mode\<lparr>className := Some ''variable'', m_begin := Some (bs ''%$[A-z]''),
              m_end := Some ''[^A-z]''\<rparr>) h;
          (QUOTE_STRING, h) = new (no_mode\<lparr>className := Some ''string'', variants := Some [m2, m3],
              contains := Some [Ref BACKTICK_ESCAPE, Ref VAR, Ref m4]\<rparr>) h;
          (m5, h) = new (no_mode\<lparr>m_begin := Some [CHR 0x27], m_end := Some [CHR 0x27]\<rparr>) h;
          (m6, h) = new (no_mode\<lparr>m_begin := Some (''@'' @ [CHR 0x27]), m_end := Some (''^'' @ [CHR 0x27] @
              ''@'')\<rparr>) h;
          (APOS_STRING, h) = new (no_mode\<lparr>className := Some ''string'', variants := Some [m5, m6]\<rparr>) h;
          (m7,
              h) = new (no_mode\<lparr>m_begin := Some (bs ''%.(synopsis|description|example|inputs|outputs|notes|link|component|role|functionality)'')\<rparr>) h;
          (m8,
              h) = new (no_mode\<lparr>m_begin := Some (bs ''%.(parameter|forwardhelptargetname|forwardhelpcategory|remotehelprunspace|externalhelp)%s+%S+'')\<rparr>) h;
          (PS_HELPTAGS, h) = new (no_mode\<lparr>className := Some ''doctag'', variants := Some [m7, m8]\<rparr>) h;
          (m9, h) = new (no_mode\<lparr>m_begin := Some ''#'', m_end := Some ''$''\<rparr>) h;
          (m10, h) = new (no_mode\<lparr>m_begin := Some ''<#'', m_end := Some ''#>''\<rparr>) h;
          (m11, h) = COMMENT [] [] no_mode h;
          (PS_COMMENT, h) = new (inherit_mode (mode_at h m11) [(no_mode\<lparr>variants := Some [m9, m10],
              contains := Some [Ref PS_HELPTAGS]\<rparr>)]) h;
          (language, h) = new (no_mode\<lparr>aliases := Some [''ps''], lexemes := Some (bs ''-?[A-z%.%-]+''),
              case_insensitive := Some True, m_keywords := Some (KObj [(''keyword'',
              ''if else foreach return function do while until elseif begin for trap data dynamicparam end break '' @
              ''throw param continue finally in switch exit filter try process catch'' @
              ''ValidateNoCircleInNodeResources ValidateNodeExclusiveResources ValidateNodeManager '' @
              ''ValidateNodeResources ValidateNodeResourceSource ValidateNoNameNodeResources ThrowError IsHiddenResource'' @
              ''IsPatternMatched ''), (''built_in'',
              ''Add-Computer Add-Content Add-History Add-JobTrigger Add-Member Add-PSSnapin Add-Type '' @
              ''Checkpoint-Computer Clear-Content '' @
              ''Clear-EventLog Clear-History Clear-Host Clear-Item Clear-ItemProperty Clear-Variable Compare-Object '' @
              ''Complete-Transaction Connect-PSSession '' @
              ''Connect-WSMan Convert-Path ConvertFrom-Csv ConvertFrom-Json ConvertFrom-SecureString '' @
              ''ConvertFrom-StringData ConvertTo-Csv ConvertTo-Html '' @
              ''ConvertTo-Json ConvertTo-SecureString ConvertTo-Xml Copy-Item Copy-ItemProperty Debug-Process '' @
              ''Disable-ComputerRestore Disable-JobTrigger '' @
              ''Disable-PSBreakpoint Disable-PSRemoting Disable-PSSessionConfiguration Disable-WSManCredSSP '' @
              ''Disconnect-PSSession Disconnect-WSMan '' @
              ''Disable-ScheduledJob Enable-ComputerRestore Enable-JobTrigger Enable-PSBreakpoint Enable-PSRemoting '' @
              ''Enable-PSSessionConfiguration '' @
              ''Enable-ScheduledJob Enable-WSManCredSSP Enter-PSSession Exit-PSSession Export-Alias Export-Clixml '' @
              ''Export-Console Export-Counter Export-Csv '' @
              ''Export-FormatData Export-ModuleMember Export-PSSession ForEach-Object Format-Custom Format-List '' @
              ''Format-Table Format-Wide Get-Acl Get-Alias '' @
              ''Get-AuthenticodeSignature Get-ChildItem Get-Command Get-ComputerRestorePoint Get-Content '' @
              ''Get-ControlPanelItem Get-Counter Get-Credential '' @
              ''Get-Culture Get-Date Get-Event Get-EventLog Get-EventSubscriber Get-ExecutionPolicy Get-FormatData '' @
              ''Get-Host Get-HotFix Get-Help Get-History '' @
              ''Get-IseSnippet Get-Item Get-ItemProperty Get-Job Get-JobTrigger Get-Location Get-Member Get-Module '' @
              ''Get-PfxCertificate Get-Process '' @
              ''Get-PSBreakpoint Get-PSCallStack Get-PSDrive Get-PSProvider Get-PSSession '' @
              ''Get-PSSessionConfiguration Get-PSSnapin Get-Random Get-ScheduledJob '' @
              ''Get-ScheduledJobOption Get-Service Get-TraceSource Get-Transaction Get-TypeData Get-UICulture '' @
              ''Get-Unique Get-Variable Get-Verb Get-WinEvent '' @
              ''Get-WmiObject Get-WSManCredSSP Get-WSManInstance Group-Object Import-Alias Import-Clixml '' @
              ''Import-Counter Import-Csv Import-IseSnippet '' @
              ''Import-LocalizedData Import-PSSession Import-Module Invoke-AsWorkflow Invoke-Command '' @
              ''Invoke-Expression Invoke-History Invoke-Item '' @
              ''Invoke-RestMethod Invoke-WebRequest Invoke-WmiMethod Invoke-WSManAction Join-Path Limit-EventLog '' @
              ''Measure-Command Measure-Object Move-Item '' @
              ''Move-ItemProperty New-Alias New-Event New-EventLog New-IseSnippet New-Item New-ItemProperty '' @
              ''New-JobTrigger New-Object New-Module '' @
              ''New-ModuleManifest New-PSDrive New-PSSession New-PSSessionConfigurationFile New-PSSessionOption '' @
              ''New-PSTransportOption '' @
              ''New-PSWorkflowExecutionOption New-PSWorkflowSession New-ScheduledJobOption New-Service New-TimeSpan '' @
              ''New-Variable New-WebServiceProxy '' @
              ''New-WinEvent New-WSManInstance New-WSManSessionOption Out-Default Out-File Out-GridView Out-Host '' @
              ''Out-Null Out-Printer Out-String Pop-Location '' @
              ''Push-Location Read-Host Receive-Job Register-EngineEvent Register-ObjectEvent '' @
              ''Register-PSSessionConfiguration Register-ScheduledJob '' @
              ''Register-WmiEvent Remove-Computer Remove-Event Remove-EventLog Remove-Item Remove-ItemProperty '' @
              ''Remove-Job Remove-JobTrigger Remove-Module '' @
              ''Remove-PSBreakpoint Remove-PSDrive Remove-PSSession Remove-PSSnapin Remove-TypeData Remove-Variable '' @
              ''Remove-WmiObject Remove-WSManInstance '' @
              ''Rename-Computer Rename-Item Rename-ItemProperty Reset-ComputerMachinePassword Resolve-Path '' @
              ''Restart-Computer Restart-Service Restore-Computer '' @
              ''Resume-Job Resume-Service Save-Help Select-Object Select-String Select-Xml Send-MailMessage Set-Acl '' @
              ''Set-Alias Set-AuthenticodeSignature '' @
              ''Set-Content Set-Date Set-ExecutionPolicy Set-Item Set-ItemProperty Set-JobTrigger Set-Location '' @
              ''Set-PSBreakpoint Set-PSDebug '' @
              ''Set-PSSessionConfiguration Set-ScheduledJob Set-ScheduledJobOption Set-Service Set-StrictMode '' @
              ''Set-TraceSource Set-Variable Set-WmiInstance '' @
              ''Set-WSManInstance Set-WSManQuickConfig Show-Command Show-ControlPanelItem Show-EventLog Sort-Object '' @
              ''Split-Path Start-Job Start-Process '' @
              ''Start-Service Start-Sleep Start-Transaction Start-Transcript Stop-Computer Stop-Job Stop-Process '' @
              ''Stop-Service Stop-Transcript Suspend-Job '' @
              ''Suspend-Service Tee-Object Test-ComputerSecureChannel Test-Connection Test-ModuleManifest Test-Path '' @
              ''Test-PSSessionConfigurationFile '' @
              ''Trace-Command Unblock-File Undo-Transaction Unregister-Event Unregister-PSSessionConfiguration '' @
              ''Unregister-ScheduledJob Update-FormatData '' @
              ''Update-Help Update-List Update-TypeData Use-Transaction Wait-Event Wait-Job Wait-Process '' @
              ''Where-Object Write-Debug Write-Error Write-EventLog '' @
              ''Write-Host Write-Output Write-Progress Write-Verbose Write-Warning Add-MDTPersistentDrive '' @
              ''Disable-MDTMonitorService Enable-MDTMonitorService '' @
              ''Get-MDTDeploymentShareStatistics Get-MDTMonitorData Get-MDTOperatingSystemCatalog '' @
              ''Get-MDTPersistentDrive Import-MDTApplication '' @
              ''Import-MDTDriver Import-MDTOperatingSystem Import-MDTPackage Import-MDTTaskSequence New-MDTDatabase '' @
              ''Remove-MDTMonitorData '' @
              ''Remove-MDTPersistentDrive Restore-MDTPersistentDrive Set-MDTMonitorData Test-MDTDeploymentShare '' @
              ''Test-MDTMonitorData Update-MDTDatabaseSchema '' @
              ''Update-MDTDeploymentShare Update-MDTLinkedDS Update-MDTMedia Add-VamtProductKey Export-VamtData '' @
              ''Find-VamtManagedMachine '' @
              ''Get-VamtConfirmationId Get-VamtProduct Get-VamtProductKey Import-VamtData Initialize-VamtData '' @
              ''Install-VamtConfirmationId '' @
              ''Install-VamtProductActivation Install-VamtProductKey Update-VamtProduct Add-CIDatastore '' @
              ''Add-KeyManagementServer Add-NodeKeys '' @
              ''Add-NsxDynamicCriteria Add-NsxDynamicMemberSet Add-NsxEdgeInterfaceAddress '' @
              ''Add-NsxFirewallExclusionListMember Add-NsxFirewallRuleMember '' @
              ''Add-NsxIpSetMember Add-NsxLicense Add-NsxLoadBalancerPoolMember Add-NsxLoadBalancerVip '' @
              ''Add-NsxSecondaryManager Add-NsxSecurityGroupMember '' @
              ''Add-NsxSecurityPolicyRule Add-NsxSecurityPolicyRuleGroup Add-NsxSecurityPolicyRuleService '' @
              ''Add-NsxServiceGroupMember '' @
              ''Add-NsxTransportZoneMember Add-PassthroughDevice Add-VDSwitchPhysicalNetworkAdapter '' @
              ''Add-VDSwitchVMHost Add-VMHost Add-VMHostNtpServer '' @
              ''Add-VirtualSwitchPhysicalNetworkAdapter Add-XmlElement Add-vRACustomForm '' @
              ''Add-vRAPrincipalToTenantRole Add-vRAReservationNetwork '' @
              ''Add-vRAReservationStorage Clear-NsxEdgeInterface Clear-NsxManagerTimeSettings Compress-Archive '' @
              ''Connect-CIServer Connect-CisServer '' @
              ''Connect-HCXServer Connect-NIServer Connect-NsxLogicalSwitch Connect-NsxServer Connect-NsxtServer '' @
              ''Connect-SrmServer Connect-VIServer '' @
              ''Connect-Vmc Connect-vRAServer Connect-vRNIServer ConvertFrom-Markdown ConvertTo-MOFInstance '' @
              ''Copy-DatastoreItem Copy-HardDisk Copy-NsxEdge '' @
              ''Copy-VDisk Copy-VMGuestFile Debug-Runspace Disable-NsxEdgeSsh Disable-RunspaceDebug '' @
              ''Disable-vRNIDataSource Disconnect-CIServer '' @
              ''Disconnect-CisServer Disconnect-HCXServer Disconnect-NsxLogicalSwitch Disconnect-NsxServer '' @
              ''Disconnect-NsxtServer Disconnect-SrmServer '' @
              ''Disconnect-VIServer Disconnect-Vmc Disconnect-vRAServer Disconnect-vRNIServer Dismount-Tools '' @
              ''Enable-NsxEdgeSsh Enable-RunspaceDebug '' @
              ''Enable-vRNIDataSource Expand-Archive Export-NsxObject Export-SpbmStoragePolicy Export-VApp '' @
              ''Export-VDPortGroup Export-VDSwitch '' @
              ''Export-VMHostProfile Export-vRAIcon Export-vRAPackage Find-Command Find-DscResource Find-Module '' @
              ''Find-NsxWhereVMUsed Find-Package '' @
              ''Find-PackageProvider Find-RoleCapability Find-Script Format-Hex Format-VMHostDiskPartition '' @
              ''Format-XML Generate-VersionInfo '' @
              ''Get-AdvancedSetting Get-AlarmAction Get-AlarmActionTrigger Get-AlarmDefinition Get-Annotation '' @
              ''Get-CDDrive Get-CIAccessControlRule '' @
              ''Get-CIDatastore Get-CINetworkAdapter Get-CIRole Get-CIUser Get-CIVApp Get-CIVAppNetwork '' @
              ''Get-CIVAppStartRule Get-CIVAppTemplate Get-CIVM '' @
              ''Get-CIVMTemplate Get-CIView Get-Catalog Get-CisCommand Get-CisService Get-CloudCommand Get-Cluster '' @
              ''Get-CompatibleVersionAddtionaPropertiesStr '' @
              ''Get-ComplexResourceQualifier Get-ConfigurationErrorCount Get-ContentLibraryItem Get-CustomAttribute '' @
              ''Get-DSCResourceModules Get-Datacenter '' @
              ''Get-Datastore Get-DatastoreCluster Get-DrsClusterGroup Get-DrsRecommendation Get-DrsRule '' @
              ''Get-DrsVMHostRule Get-DscResource Get-EdgeGateway '' @
              ''Get-EncryptedPassword Get-ErrorReport Get-EsxCli Get-EsxTop Get-ExternalNetwork Get-FileHash '' @
              ''Get-FloppyDrive Get-Folder Get-HAPrimaryVMHost '' @
              ''Get-HCXAppliance Get-HCXApplianceCompute Get-HCXApplianceDVS Get-HCXApplianceDatastore '' @
              ''Get-HCXApplianceNetwork Get-HCXContainer '' @
              ''Get-HCXDatastore Get-HCXGateway Get-HCXInterconnectStatus Get-HCXJob Get-HCXMigration '' @
              ''Get-HCXNetwork Get-HCXNetworkExtension '' @
              ''Get-HCXReplication Get-HCXReplicationSnapshot Get-HCXService Get-HCXSite Get-HCXSitePairing '' @
              ''Get-HCXVM Get-HardDisk Get-IScsiHbaTarget '' @
              ''Get-InnerMostErrorRecord Get-InstallPath Get-InstalledModule Get-InstalledScript Get-Inventory '' @
              ''Get-ItemPropertyValue Get-KeyManagementServer '' @
              ''Get-KmipClientCertificate Get-KmsCluster Get-Log Get-LogType Get-MarkdownOption Get-Media '' @
              ''Get-MofInstanceName Get-MofInstanceText Get-NetworkAdapter Get-NetworkPool '' @
              ''Get-NfsUser Get-NicTeamingPolicy Get-NsxApplicableMember Get-NsxApplicableSecurityAction '' @
              ''Get-NsxBackingDVSwitch Get-NsxBackingPortGroup Get-NsxCliDfwAddrSet '' @
              ''Get-NsxCliDfwFilter Get-NsxCliDfwRule Get-NsxClusterStatus Get-NsxController Get-NsxDynamicCriteria '' @
              ''Get-NsxDynamicMemberSet Get-NsxEdge Get-NsxEdgeBgp '' @
              ''Get-NsxEdgeBgpNeighbour Get-NsxEdgeCertificate Get-NsxEdgeCsr Get-NsxEdgeFirewall '' @
              ''Get-NsxEdgeFirewallRule Get-NsxEdgeInterface Get-NsxEdgeInterfaceAddress '' @
              ''Get-NsxEdgeNat Get-NsxEdgeNatRule Get-NsxEdgeOspf Get-NsxEdgeOspfArea Get-NsxEdgeOspfInterface '' @
              ''Get-NsxEdgePrefix Get-NsxEdgeRedistributionRule Get-NsxEdgeRouting '' @
              ''Get-NsxEdgeStaticRoute Get-NsxEdgeSubInterface Get-NsxFirewallExclusionListMember '' @
              ''Get-NsxFirewallGlobalConfiguration Get-NsxFirewallPublishStatus Get-NsxFirewallRule '' @
              ''Get-NsxFirewallRuleMember Get-NsxFirewallSavedConfiguration Get-NsxFirewallSection '' @
              ''Get-NsxFirewallThreshold Get-NsxIpPool Get-NsxIpSet Get-NsxLicense Get-NsxLoadBalancer '' @
              ''Get-NsxLoadBalancerApplicationProfile Get-NsxLoadBalancerApplicationRule Get-NsxLoadBalancerMonitor '' @
              ''Get-NsxLoadBalancerPool Get-NsxLoadBalancerPoolMember Get-NsxLoadBalancerStats '' @
              ''Get-NsxLoadBalancerVip Get-NsxLogicalRouter Get-NsxLogicalRouterBgp '' @
              ''Get-NsxLogicalRouterBgpNeighbour Get-NsxLogicalRouterBridge Get-NsxLogicalRouterBridging '' @
              ''Get-NsxLogicalRouterInterface Get-NsxLogicalRouterOspf Get-NsxLogicalRouterOspfArea '' @
              ''Get-NsxLogicalRouterOspfInterface Get-NsxLogicalRouterPrefix '' @
              ''Get-NsxLogicalRouterRedistributionRule Get-NsxLogicalRouterRouting Get-NsxLogicalRouterStaticRoute '' @
              ''Get-NsxLogicalSwitch Get-NsxMacSet Get-NsxManagerBackup '' @
              ''Get-NsxManagerCertificate Get-NsxManagerComponentSummary Get-NsxManagerNetwork Get-NsxManagerRole '' @
              ''Get-NsxManagerSsoConfig Get-NsxManagerSyncStatus Get-NsxManagerSyslogServer '' @
              ''Get-NsxManagerSystemSummary Get-NsxManagerTimeSettings Get-NsxManagerVcenterConfig '' @
              ''Get-NsxSecondaryManager Get-NsxSecurityGroup Get-NsxSecurityGroupEffectiveIpAddress '' @
              ''Get-NsxSecurityGroupEffectiveMacAddress Get-NsxSecurityGroupEffectiveMember '' @
              ''Get-NsxSecurityGroupEffectiveVirtualMachine Get-NsxSecurityGroupEffectiveVnic '' @
              ''Get-NsxSecurityGroupMemberTypes Get-NsxSecurityPolicy Get-NsxSecurityPolicyHighestUsedPrecedence '' @
              ''Get-NsxSecurityPolicyRule Get-NsxSecurityTag Get-NsxSecurityTagAssignment '' @
              ''Get-NsxSegmentIdRange Get-NsxService Get-NsxServiceDefinition Get-NsxServiceGroup '' @
              ''Get-NsxServiceGroupMember Get-NsxServiceProfile Get-NsxSpoofguardNic Get-NsxSpoofguardPolicy '' @
              ''Get-NsxSslVpn Get-NsxSslVpnAuthServer Get-NsxSslVpnClientInstallationPackage Get-NsxSslVpnIpPool '' @
              ''Get-NsxSslVpnPrivateNetwork Get-NsxSslVpnUser Get-NsxTransportZone '' @
              ''Get-NsxUserRole Get-NsxVdsContext Get-NsxtPolicyService Get-NsxtService '' @
              ''Get-OSCustomizationNicMapping Get-OSCustomizationSpec Get-Org Get-OrgNetwork Get-OrgVdc '' @
              ''Get-OrgVdcNetwork Get-OvfConfiguration Get-PSCurrentConfigurationNode '' @
              ''Get-PSDefaultConfigurationDocument Get-PSMetaConfigDocumentInstVersionInfo Get-PSMetaConfigurationProcessed '' @
              ''Get-PSReadLineKeyHandler Get-PSReadLineOption Get-PSRepository Get-PSTopConfigurationName '' @
              ''Get-PSVersion Get-Package Get-PackageProvider Get-PackageSource Get-PassthroughDevice '' @
              ''Get-PositionInfo Get-PowerCLICommunity Get-PowerCLIConfiguration Get-PowerCLIHelp '' @
              ''Get-PowerCLIVersion Get-PowerNsxVersion Get-ProviderVdc Get-PublicKeyFromFile '' @
              ''Get-PublicKeyFromStore Get-ResourcePool Get-Runspace Get-RunspaceDebug Get-ScsiController '' @
              ''Get-ScsiLun Get-ScsiLunPath Get-SecurityInfo Get-SecurityPolicy Get-Snapshot '' @
              ''Get-SpbmCapability Get-SpbmCompatibleStorage Get-SpbmEntityConfiguration Get-SpbmFaultDomain '' @
              ''Get-SpbmPointInTimeReplica Get-SpbmReplicationGroup Get-SpbmReplicationPair '' @
              ''Get-SpbmStoragePolicy Get-Stat Get-StatInterval Get-StatType Get-Tag Get-TagAssignment '' @
              ''Get-TagCategory Get-Task Get-Template Get-TimeZone Get-Uptime Get-UsbDevice Get-VAIOFilter '' @
              ''Get-VApp Get-VDBlockedPolicy Get-VDPort Get-VDPortgroup Get-VDPortgroupOverridePolicy '' @
              ''Get-VDSecurityPolicy Get-VDSwitch Get-VDSwitchPrivateVlan Get-VDTrafficShapingPolicy '' @
              ''Get-VDUplinkLacpPolicy Get-VDUplinkTeamingPolicy Get-VDisk Get-VIAccount Get-VICommand '' @
              ''Get-VICredentialStoreItem Get-VIEvent Get-VIObjectByVIView Get-VIPermission Get-VIPrivilege '' @
              ''Get-VIProperty Get-VIRole Get-VM Get-VMGuest Get-VMHost Get-VMHostAccount '' @
              ''Get-VMHostAdvancedConfiguration Get-VMHostAuthentication Get-VMHostAvailableTimeZone '' @
              ''Get-VMHostDiagnosticPartition Get-VMHostDisk Get-VMHostDiskPartition '' @
              ''Get-VMHostFirewallDefaultPolicy Get-VMHostFirewallException Get-VMHostFirmware Get-VMHostHardware '' @
              ''Get-VMHostHba Get-VMHostModule Get-VMHostNetwork Get-VMHostNetworkAdapter Get-VMHostNtpServer '' @
              ''Get-VMHostPatch Get-VMHostPciDevice Get-VMHostProfile '' @
              ''Get-VMHostProfileImageCacheConfiguration Get-VMHostProfileRequiredInput '' @
              ''Get-VMHostProfileStorageDeviceConfiguration Get-VMHostProfileUserConfiguration '' @
              ''Get-VMHostProfileVmPortGroupConfiguration Get-VMHostRoute Get-VMHostService Get-VMHostSnmp '' @
              ''Get-VMHostStartPolicy Get-VMHostStorage Get-VMHostSysLogServer Get-VMQuestion '' @
              ''Get-VMResourceConfiguration Get-VMStartPolicy Get-VTpm Get-VTpmCSR Get-VTpmCertificate '' @
              ''Get-VasaProvider Get-VasaStorageArray Get-View Get-VirtualPortGroup Get-VirtualSwitch '' @
              ''Get-VmcSddcNetworkService Get-VmcService Get-VsanClusterConfiguration Get-VsanComponent '' @
              ''Get-VsanDisk Get-VsanDiskGroup Get-VsanEvacuationPlan Get-VsanFaultDomain '' @
              ''Get-VsanIscsiInitiatorGroup Get-VsanIscsiInitiatorGroupTargetAssociation Get-VsanIscsiLun '' @
              ''Get-VsanIscsiTarget Get-VsanObject Get-VsanResyncingComponent Get-VsanRuntimeInfo '' @
              ''Get-VsanSpaceUsage Get-VsanStat Get-VsanView Get-vRAApplianceServiceStatus Get-vRAAuthorizationRole '' @
              ''Get-vRABlueprint Get-vRABusinessGroup Get-vRACatalogItem '' @
              ''Get-vRACatalogItemRequestTemplate Get-vRACatalogPrincipal Get-vRAComponentRegistryService '' @
              ''Get-vRAComponentRegistryServiceEndpoint Get-vRAComponentRegistryServiceStatus '' @
              ''Get-vRAContent Get-vRAContentData Get-vRAContentType Get-vRACustomForm Get-vRAEntitledCatalogItem '' @
              ''Get-vRAEntitledService Get-vRAEntitlement Get-vRAExternalNetworkProfile '' @
              ''Get-vRAGroupPrincipal Get-vRAIcon Get-vRANATNetworkProfile Get-vRANetworkProfileIPAddressList '' @
              ''Get-vRANetworkProfileIPRangeSummary Get-vRAPackage Get-vRAPackageContent '' @
              ''Get-vRAPropertyDefinition Get-vRAPropertyGroup Get-vRARequest Get-vRARequestDetail '' @
              ''Get-vRAReservation Get-vRAReservationComputeResource Get-vRAReservationComputeResourceMemory '' @
              ''Get-vRAReservationComputeResourceNetwork Get-vRAReservationComputeResourceResourcePool '' @
              ''Get-vRAReservationComputeResourceStorage Get-vRAReservationPolicy '' @
              ''Get-vRAReservationTemplate Get-vRAReservationType Get-vRAResource Get-vRAResourceAction '' @
              ''Get-vRAResourceActionRequestTemplate Get-vRAResourceMetric Get-vRAResourceOperation '' @
              ''Get-vRAResourceType Get-vRARoutedNetworkProfile Get-vRAService Get-vRAServiceBlueprint '' @
              ''Get-vRASourceMachine Get-vRAStorageReservationPolicy Get-vRATenant Get-vRATenantDirectory '' @
              ''Get-vRATenantDirectoryStatus Get-vRATenantRole Get-vRAUserPrincipal '' @
              ''Get-vRAUserPrincipalGroupMembership Get-vRAVersion Get-vRNIAPIVersion Get-vRNIApplication '' @
              ''Get-vRNIApplicationTier Get-vRNIDataSource Get-vRNIDataSourceSNMPConfig Get-vRNIDatastore '' @
              ''Get-vRNIDistributedSwitch Get-vRNIDistributedSwitchPortGroup Get-vRNIEntity '' @
              ''Get-vRNIEntityName Get-vRNIFirewallRule Get-vRNIFlow Get-vRNIHost Get-vRNIHostVMKNic Get-vRNIIPSet '' @
              ''Get-vRNIL2Network Get-vRNINSXManager Get-vRNINodes Get-vRNIProblem '' @
              ''Get-vRNIRecommendedRules Get-vRNIRecommendedRulesNsxBundle Get-vRNISecurityGroup '' @
              ''Get-vRNISecurityTag Get-vRNIService Get-vRNIServiceGroup Get-vRNIVM Get-vRNIVMvNIC '' @
              ''Get-vRNIvCenter Get-vRNIvCenterCluster Get-vRNIvCenterDatacenter Get-vRNIvCenterFolder '' @
              ''Grant-NsxSpoofguardNicApproval Import-CIVApp Import-CIVAppTemplate Import-NsxObject '' @
              ''Import-PackageProvider Import-PowerShellDataFile Import-SpbmStoragePolicy Import-VApp '' @
              ''Import-VMHostProfile Import-vRAContentData Import-vRAIcon Import-vRAPackage '' @
              ''Initialize-ConfigurationRuntimeState Install-Module Install-NsxCluster Install-Package '' @
              ''Install-PackageProvider Install-Script Install-VMHostPatch Invoke-DrsRecommendation '' @
              ''Invoke-NsxCli Invoke-NsxClusterResolveAll Invoke-NsxManagerSync Invoke-NsxRestMethod '' @
              ''Invoke-NsxWebRequest Invoke-VMHostProfile Invoke-VMScript Invoke-XpathQuery '' @
              ''Invoke-vRADataCollection Invoke-vRARestMethod Invoke-vRATenantDirectorySync Invoke-vRNIRestMethod '' @
              ''Join-String Mount-Tools Move-Cluster Move-Datacenter Move-Datastore Move-Folder '' @
              ''Move-HardDisk Move-Inventory Move-NsxSecurityPolicyRule Move-ResourcePool Move-Template Move-VApp '' @
              ''Move-VDisk Move-VM Move-VMHost New-AdvancedSetting New-AlarmAction '' @
              ''New-AlarmActionTrigger New-CDDrive New-CIAccessControlRule New-CIVApp New-CIVAppNetwork '' @
              ''New-CIVAppTemplate New-CIVM New-Cluster New-CustomAttribute New-Datacenter New-Datastore '' @
              ''New-DatastoreCluster New-DatastoreDrive New-DrsClusterGroup New-DrsRule New-DrsVMHostRule '' @
              ''New-DscChecksum New-FloppyDrive New-Folder New-Guid New-HCXAppliance New-HCXMigration '' @
              ''New-HCXNetworkExtension New-HCXNetworkMapping New-HCXReplication New-HCXSitePairing '' @
              ''New-HCXStaticRoute New-HardDisk New-IScsiHbaTarget New-KmipClientCertificate '' @
              ''New-NetworkAdapter New-NfsUser New-NsxAddressSpec New-NsxClusterVxlanConfig New-NsxController '' @
              ''New-NsxDynamicCriteriaSpec New-NsxEdge New-NsxEdgeBgpNeighbour New-NsxEdgeCsr '' @
              ''New-NsxEdgeFirewallRule New-NsxEdgeInterfaceSpec New-NsxEdgeNatRule New-NsxEdgeOspfArea '' @
              ''New-NsxEdgeOspfInterface New-NsxEdgePrefix New-NsxEdgeRedistributionRule '' @
              ''New-NsxEdgeSelfSignedCertificate New-NsxEdgeStaticRoute New-NsxEdgeSubInterface '' @
              ''New-NsxEdgeSubInterfaceSpec New-NsxFirewallRule New-NsxFirewallSavedConfiguration '' @
              ''New-NsxFirewallSection New-NsxIpPool New-NsxIpSet New-NsxLoadBalancerApplicationProfile '' @
              ''New-NsxLoadBalancerApplicationRule New-NsxLoadBalancerMemberSpec '' @
              ''New-NsxLoadBalancerMonitor New-NsxLoadBalancerPool New-NsxLogicalRouter '' @
              ''New-NsxLogicalRouterBgpNeighbour New-NsxLogicalRouterBridge New-NsxLogicalRouterInterface '' @
              ''New-NsxLogicalRouterInterfaceSpec New-NsxLogicalRouterOspfArea New-NsxLogicalRouterOspfInterface '' @
              ''New-NsxLogicalRouterPrefix New-NsxLogicalRouterRedistributionRule '' @
              ''New-NsxLogicalRouterStaticRoute New-NsxLogicalSwitch New-NsxMacSet New-NsxManager '' @
              ''New-NsxSecurityGroup New-NsxSecurityPolicy New-NsxSecurityPolicyAssignment '' @
              ''New-NsxSecurityPolicyFirewallRuleSpec New-NsxSecurityPolicyGuestIntrospectionSpec '' @
              ''New-NsxSecurityPolicyNetworkIntrospectionSpec New-NsxSecurityTag New-NsxSecurityTagAssignment '' @
              ''New-NsxSegmentIdRange New-NsxService New-NsxServiceGroup New-NsxSpoofguardPolicy '' @
              ''New-NsxSslVpnAuthServer New-NsxSslVpnClientInstallationPackage New-NsxSslVpnIpPool '' @
              ''New-NsxSslVpnPrivateNetwork New-NsxSslVpnUser New-NsxTransportZone New-NsxVdsContext '' @
              ''New-OSCustomizationNicMapping New-OSCustomizationSpec New-Org New-OrgNetwork New-OrgVdc '' @
              ''New-OrgVdcNetwork New-ResourcePool New-ScriptFileInfo New-ScsiController New-Snapshot New-SpbmRule '' @
              ''New-SpbmRuleSet New-SpbmStoragePolicy New-StatInterval New-Tag '' @
              ''New-TagAssignment New-TagCategory New-Template New-TemporaryFile New-VAIOFilter New-VApp '' @
              ''New-VDPortgroup New-VDSwitch New-VDSwitchPrivateVlan New-VDisk '' @
              ''New-VICredentialStoreItem New-VIInventoryDrive New-VIPermission New-VIProperty New-VIRole '' @
              ''New-VISamlSecurityContext New-VM New-VMHostAccount New-VMHostNetworkAdapter '' @
              ''New-VMHostProfile New-VMHostProfileVmPortGroupConfiguration New-VMHostRoute New-VTpm '' @
              ''New-VasaProvider New-VcsOAuthSecurityContext New-VirtualPortGroup New-VirtualSwitch '' @
              ''New-VsanDisk New-VsanDiskGroup New-VsanFaultDomain New-VsanIscsiInitiatorGroup '' @
              ''New-VsanIscsiInitiatorGroupTargetAssociation New-VsanIscsiLun New-VsanIscsiTarget '' @
              ''New-vRABusinessGroup New-vRAEntitlement New-vRAExternalNetworkProfile New-vRAGroupPrincipal '' @
              ''New-vRANATNetworkProfile New-vRANetworkProfileIPRangeDefinition New-vRAPackage '' @
              ''New-vRAPropertyDefinition New-vRAPropertyGroup New-vRAReservation '' @
              ''New-vRAReservationNetworkDefinition New-vRAReservationPolicy New-vRAReservationStorageDefinition '' @
              ''New-vRARoutedNetworkProfile New-vRAService New-vRAStorageReservationPolicy New-vRATenant '' @
              ''New-vRATenantDirectory New-vRAUserPrincipal New-vRNIApplication New-vRNIApplicationTier '' @
              ''New-vRNIDataSource Open-VMConsoleWindow Publish-Module Publish-NsxSpoofguardPolicy Publish-Script '' @
              ''Register-PSRepository Register-PackageSource Remove-AdvancedSetting '' @
              ''Remove-AlarmAction Remove-AlarmActionTrigger Remove-Alias Remove-CDDrive Remove-CIAccessControlRule '' @
              ''Remove-CIVApp Remove-CIVAppNetwork Remove-CIVAppTemplate Remove-Cluster '' @
              ''Remove-CustomAttribute Remove-Datacenter Remove-Datastore Remove-DatastoreCluster '' @
              ''Remove-DrsClusterGroup Remove-DrsRule Remove-DrsVMHostRule Remove-FloppyDrive Remove-Folder '' @
              ''Remove-HCXAppliance Remove-HCXNetworkExtension Remove-HCXReplication Remove-HCXSitePairing '' @
              ''Remove-HardDisk Remove-IScsiHbaTarget Remove-Inventory Remove-KeyManagementServer '' @
              ''Remove-NetworkAdapter Remove-NfsUser Remove-NsxCluster Remove-NsxClusterVxlanConfig '' @
              ''Remove-NsxController Remove-NsxDynamicCriteria Remove-NsxDynamicMemberSet Remove-NsxEdge '' @
              ''Remove-NsxEdgeBgpNeighbour Remove-NsxEdgeCertificate Remove-NsxEdgeCsr Remove-NsxEdgeFirewallRule '' @
              ''Remove-NsxEdgeInterfaceAddress Remove-NsxEdgeNatRule Remove-NsxEdgeOspfArea '' @
              ''Remove-NsxEdgeOspfInterface Remove-NsxEdgePrefix Remove-NsxEdgeRedistributionRule '' @
              ''Remove-NsxEdgeStaticRoute Remove-NsxEdgeSubInterface Remove-NsxFirewallExclusionListMember '' @
              ''Remove-NsxFirewallRule Remove-NsxFirewallRuleMember Remove-NsxFirewallSavedConfiguration '' @
              ''Remove-NsxFirewallSection Remove-NsxIpPool Remove-NsxIpSet Remove-NsxIpSetMember '' @
              ''Remove-NsxLoadBalancerApplicationProfile Remove-NsxLoadBalancerMonitor Remove-NsxLoadBalancerPool '' @
              ''Remove-NsxLoadBalancerPoolMember Remove-NsxLoadBalancerVip '' @
              ''Remove-NsxLogicalRouter Remove-NsxLogicalRouterBgpNeighbour Remove-NsxLogicalRouterBridge '' @
              ''Remove-NsxLogicalRouterInterface Remove-NsxLogicalRouterOspfArea '' @
              ''Remove-NsxLogicalRouterOspfInterface Remove-NsxLogicalRouterPrefix '' @
              ''Remove-NsxLogicalRouterRedistributionRule Remove-NsxLogicalRouterStaticRoute Remove-NsxLogicalSwitch '' @
              ''Remove-NsxMacSet Remove-NsxSecondaryManager Remove-NsxSecurityGroup Remove-NsxSecurityGroupMember '' @
              ''Remove-NsxSecurityPolicy Remove-NsxSecurityPolicyAssignment '' @
              ''Remove-NsxSecurityPolicyRule Remove-NsxSecurityPolicyRuleGroup Remove-NsxSecurityPolicyRuleService '' @
              ''Remove-NsxSecurityTag Remove-NsxSecurityTagAssignment '' @
              ''Remove-NsxSegmentIdRange Remove-NsxService Remove-NsxServiceGroup Remove-NsxSpoofguardPolicy '' @
              ''Remove-NsxSslVpnClientInstallationPackage Remove-NsxSslVpnIpPool '' @
              ''Remove-NsxSslVpnPrivateNetwork Remove-NsxSslVpnUser Remove-NsxTransportZone '' @
              ''Remove-NsxTransportZoneMember Remove-NsxVdsContext Remove-OSCustomizationNicMapping '' @
              ''Remove-OSCustomizationSpec Remove-Org Remove-OrgNetwork Remove-OrgVdc Remove-OrgVdcNetwork '' @
              ''Remove-PSReadLineKeyHandler Remove-PassthroughDevice Remove-ResourcePool '' @
              ''Remove-Snapshot Remove-SpbmStoragePolicy Remove-StatInterval Remove-Tag Remove-TagAssignment '' @
              ''Remove-TagCategory Remove-Template Remove-UsbDevice Remove-VAIOFilter Remove-VApp '' @
              ''Remove-VDPortGroup Remove-VDSwitch Remove-VDSwitchPhysicalNetworkAdapter Remove-VDSwitchPrivateVlan '' @
              ''Remove-VDSwitchVMHost Remove-VDisk Remove-VICredentialStoreItem '' @
              ''Remove-VIPermission Remove-VIProperty Remove-VIRole Remove-VM Remove-VMHost Remove-VMHostAccount '' @
              ''Remove-VMHostNetworkAdapter Remove-VMHostNtpServer Remove-VMHostProfile '' @
              ''Remove-VMHostProfileVmPortGroupConfiguration Remove-VMHostRoute Remove-VTpm Remove-VasaProvider '' @
              ''Remove-VirtualPortGroup Remove-VirtualSwitch '' @
              ''Remove-VirtualSwitchPhysicalNetworkAdapter Remove-VsanDisk Remove-VsanDiskGroup '' @
              ''Remove-VsanFaultDomain Remove-VsanIscsiInitiatorGroup '' @
              ''Remove-VsanIscsiInitiatorGroupTargetAssociation Remove-VsanIscsiLun Remove-VsanIscsiTarget '' @
              ''Remove-vRABusinessGroup Remove-vRACustomForm Remove-vRAExternalNetworkProfile '' @
              ''Remove-vRAGroupPrincipal Remove-vRAIcon Remove-vRANATNetworkProfile Remove-vRAPackage '' @
              ''Remove-vRAPrincipalFromTenantRole Remove-vRAPropertyDefinition Remove-vRAPropertyGroup '' @
              ''Remove-vRAReservation Remove-vRAReservationNetwork Remove-vRAReservationPolicy '' @
              ''Remove-vRAReservationStorage Remove-vRARoutedNetworkProfile Remove-vRAService '' @
              ''Remove-vRAStorageReservationPolicy Remove-vRATenant Remove-vRATenantDirectory '' @
              ''Remove-vRAUserPrincipal Remove-vRNIApplication Remove-vRNIApplicationTier Remove-vRNIDataSource '' @
              ''Repair-NsxEdge Repair-VsanObject Request-vRACatalogItem Request-vRAResourceAction Restart-CIVApp '' @
              ''Restart-CIVAppGuest Restart-CIVM Restart-CIVMGuest Restart-VM Restart-VMGuest '' @
              ''Restart-VMHost Restart-VMHostService Resume-HCXReplication Revoke-NsxSpoofguardNicApproval '' @
              ''Save-Module Save-Package Save-Script Search-Cloud Set-AdvancedSetting '' @
              ''Set-AlarmDefinition Set-Annotation Set-CDDrive Set-CIAccessControlRule Set-CINetworkAdapter '' @
              ''Set-CIVApp Set-CIVAppNetwork Set-CIVAppStartRule Set-CIVAppTemplate Set-Cluster '' @
              ''Set-CustomAttribute Set-Datacenter Set-Datastore Set-DatastoreCluster Set-DrsClusterGroup '' @
              ''Set-DrsRule Set-DrsVMHostRule Set-FloppyDrive Set-Folder Set-HCXAppliance '' @
              ''Set-HCXMigration Set-HCXReplication Set-HardDisk Set-IScsiHbaTarget Set-KeyManagementServer '' @
              ''Set-KmsCluster Set-MarkdownOption Set-NetworkAdapter Set-NfsUser Set-NicTeamingPolicy '' @
              ''Set-NodeExclusiveResources Set-NodeManager Set-NodeResourceSource Set-NodeResources Set-NsxEdge '' @
              ''Set-NsxEdgeBgp Set-NsxEdgeFirewall Set-NsxEdgeInterface Set-NsxEdgeNat '' @
              ''Set-NsxEdgeOspf Set-NsxEdgeRouting Set-NsxFirewallGlobalConfiguration Set-NsxFirewallRule '' @
              ''Set-NsxFirewallSavedConfiguration Set-NsxFirewallThreshold Set-NsxLoadBalancer '' @
              ''Set-NsxLoadBalancerPoolMember Set-NsxLogicalRouter Set-NsxLogicalRouterBgp '' @
              ''Set-NsxLogicalRouterBridging Set-NsxLogicalRouterInterface Set-NsxLogicalRouterOspf '' @
              ''Set-NsxLogicalRouterRouting Set-NsxManager Set-NsxManagerRole Set-NsxManagerTimeSettings '' @
              ''Set-NsxSecurityPolicy Set-NsxSecurityPolicyFirewallRule Set-NsxSslVpn '' @
              ''Set-OSCustomizationNicMapping Set-OSCustomizationSpec Set-Org Set-OrgNetwork Set-OrgVdc '' @
              ''Set-OrgVdcNetwork Set-PSCurrentConfigurationNode Set-PSDefaultConfigurationDocument '' @
              ''Set-PSMetaConfigDocInsProcessedBeforeMeta Set-PSMetaConfigVersionInfoV2 Set-PSReadLineKeyHandler '' @
              ''Set-PSReadLineOption Set-PSRepository Set-PSTopConfigurationName '' @
              ''Set-PackageSource Set-PowerCLIConfiguration Set-ResourcePool Set-ScsiController Set-ScsiLun '' @
              ''Set-ScsiLunPath Set-SecurityPolicy Set-Snapshot Set-SpbmEntityConfiguration '' @
              ''Set-SpbmStoragePolicy Set-StatInterval Set-Tag Set-TagCategory Set-Template Set-VAIOFilter Set-VApp '' @
              ''Set-VDBlockedPolicy Set-VDPort Set-VDPortgroup Set-VDPortgroupOverridePolicy '' @
              ''Set-VDSecurityPolicy Set-VDSwitch Set-VDTrafficShapingPolicy Set-VDUplinkLacpPolicy '' @
              ''Set-VDUplinkTeamingPolicy Set-VDVlanConfiguration Set-VDisk Set-VIPermission Set-VIRole Set-VM '' @
              ''Set-VMHost Set-VMHostAccount Set-VMHostAdvancedConfiguration Set-VMHostAuthentication '' @
              ''Set-VMHostDiagnosticPartition Set-VMHostFirewallDefaultPolicy Set-VMHostFirewallException '' @
              ''Set-VMHostFirmware Set-VMHostHba Set-VMHostModule Set-VMHostNetwork Set-VMHostNetworkAdapter '' @
              ''Set-VMHostProfile Set-VMHostProfileImageCacheConfiguration '' @
              ''Set-VMHostProfileStorageDeviceConfiguration Set-VMHostProfileUserConfiguration '' @
              ''Set-VMHostProfileVmPortGroupConfiguration Set-VMHostRoute Set-VMHostService Set-VMHostSnmp '' @
              ''Set-VMHostStartPolicy Set-VMHostStorage Set-VMHostSysLogServer Set-VMQuestion '' @
              ''Set-VMResourceConfiguration Set-VMStartPolicy Set-VTpm Set-VirtualPortGroup Set-VirtualSwitch '' @
              ''Set-VsanClusterConfiguration Set-VsanFaultDomain Set-VsanIscsiInitiatorGroup Set-VsanIscsiLun '' @
              ''Set-VsanIscsiTarget Set-vRABusinessGroup Set-vRACatalogItem Set-vRACustomForm '' @
              ''Set-vRAEntitlement Set-vRAExternalNetworkProfile Set-vRANATNetworkProfile Set-vRAReservation '' @
              ''Set-vRAReservationNetwork Set-vRAReservationPolicy Set-vRAReservationStorage '' @
              ''Set-vRARoutedNetworkProfile Set-vRAService Set-vRAStorageReservationPolicy Set-vRATenant '' @
              ''Set-vRATenantDirectory Set-vRAUserPrincipal Set-vRNIDataSourceSNMPConfig Show-Markdown '' @
              ''Start-CIVApp Start-CIVM Start-HCXMigration Start-HCXReplication Start-SpbmReplicationFailover '' @
              ''Start-SpbmReplicationPrepareFailover Start-SpbmReplicationPromote '' @
              ''Start-SpbmReplicationReverse Start-SpbmReplicationTestFailover Start-ThreadJob Start-VApp Start-VM '' @
              ''Start-VMHost Start-VMHostService Start-VsanClusterDiskUpdate '' @
              ''Start-VsanClusterRebalance Start-VsanEncryptionConfiguration Stop-CIVApp Stop-CIVAppGuest Stop-CIVM '' @
              ''Stop-CIVMGuest Stop-SpbmReplicationTestFailover Stop-Task Stop-VApp Stop-VM '' @
              ''Stop-VMGuest Stop-VMHost Stop-VMHostService Stop-VsanClusterRebalance Suspend-CIVApp Suspend-CIVM '' @
              ''Suspend-HCXReplication Suspend-VM Suspend-VMGuest Suspend-VMHost '' @
              ''Sync-SpbmReplicationGroup Test-ConflictingResources Test-HCXMigration Test-HCXReplication Test-Json '' @
              ''Test-ModuleReloadRequired Test-MofInstanceText Test-NodeManager '' @
              ''Test-NodeResourceSource Test-NodeResources Test-ScriptFileInfo Test-VMHostProfileCompliance '' @
              ''Test-VMHostSnmp Test-VsanClusterHealth Test-VsanNetworkPerformance '' @
              ''Test-VsanStoragePerformance Test-VsanVMCreation Test-vRAPackage Uninstall-Module Uninstall-Package '' @
              ''Uninstall-Script Unlock-VM Unregister-PSRepository Unregister-PackageSource '' @
              ''Update-ConfigurationDocumentRef Update-ConfigurationErrorCount Update-DependsOn '' @
              ''Update-LocalConfigManager Update-Module Update-ModuleManifest Update-ModuleVersion Update-PowerNsx '' @
              ''Update-Script Update-ScriptFileInfo Update-Tools Update-VsanHclDatabase '' @
              ''ValidateUpdate-ConfigurationData Wait-Debugger Wait-NsxControllerJob Wait-NsxGenericJob Wait-NsxJob '' @
              ''Wait-Task Wait-Tools Write-Information Write-Log Write-MetaConfigFile Write-NodeMOFFile''),
              (''nomarkup'',
              ''-ne -eq -lt -gt -ge -le -not -like -notlike -match -notmatch -contains -notcontains -in -notin -replace'')]),
              contains := Some [Ref BACKTICK_ESCAPE, Ref hl_NUMBER_MODE, Ref QUOTE_STRING, Ref APOS_STRING,
              Ref LITERAL, Ref VAR, Ref PS_COMMENT]\<rparr>) h
      in (language, h))"

definition lang_processing :: "mstore \<Rightarrow> nat \<times> mstore" where
  "lang_processing h =
     (let (language, h) = new (no_mode\<lparr>m_keywords := Some (KObj [(''keyword'',
              ''BufferedReader PVector PFont PImage PGraphics HashMap boolean byte char color '' @
              ''double float int long String Array FloatDict FloatList IntDict IntList JSONArray JSONObject '' @
              ''Object StringDict StringList Table TableRow XML '' @
              ''false synchronized int abstract float private char boolean static null if const '' @
              ''for true while long throw strictfp finally protected import native final return void '' @
              ''enum else break transient new catch instanceof byte super volatile case assert short '' @
              ''package default double public try this switch continue throws protected public private''),
              (''literal'', ''P2D P3D HALF_PI PI QUARTER_PI TAU TWO_PI''), (''title'', ''setup draw''),
              (''built_in'', ''displayHeight displayWidth mouseY mouseX mousePressed pmouseX pmouseY key '' @
              ''keyCode pixels focused frameCount frameRate height width '' @
              ''size createGraphics beginDraw createShape loadShape PShape arc ellipse line point '' @
              ''quad rect triangle bezier bezierDetail bezierPoint bezierTangent curve curveDetail curvePoint '' @
              ''curveTangent curveTightness shape shapeMode beginContour beginShape bezierVertex curveVertex '' @
              ''endContour endShape quadraticVertex vertex ellipseMode noSmooth rectMode smooth strokeCap '' @
              ''strokeJoin strokeWeight mouseClicked mouseDragged mouseMoved mousePressed mouseReleased '' @
              ''mouseWheel keyPressed keyPressedkeyReleased keyTyped print println save saveFrame day hour '' @
              ''millis minute month second year background clear colorMode fill noFill noStroke stroke alpha '' @
              ''blue brightness color green hue lerpColor red saturation modelX modelY modelZ screenX screenY '' @
              ''screenZ ambient emissive shininess specular add createImage beginCamera camera endCamera frustum '' @
              ''ortho perspective printCamera printProjection cursor frameRate noCursor exit loop noLoop popStyle '' @
              ''pushStyle redraw binary boolean byte char float hex int str unbinary unhex join match matchAll nf '' @
              ''nfc nfp nfs split splitTokens trim append arrayCopy concat expand reverse shorten sort splice subset '' @
              ''box sphere sphereDetail createInput createReader loadBytes loadJSONArray loadJSONObject loadStrings '' @
              ''loadTable loadXML open parseXML saveTable selectFolder selectInput beginRaw beginRecord createOutput '' @
              ''createWriter endRaw endRecord PrintWritersaveBytes saveJSONArray saveJSONObject saveStream saveStrings '' @
              ''saveXML selectOutput popMatrix printMatrix pushMatrix resetMatrix rotate rotateX rotateY rotateZ scale '' @
              ''shearX shearY translate ambientLight directionalLight lightFalloff lights lightSpecular noLights normal '' @
              ''pointLight spotLight image imageMode loadImage noTint requestImage tint texture textureMode textureWrap '' @
              ''blend copy filter get loadPixels set updatePixels blendMode loadShader PShaderresetShader shader createFont '' @
              ''loadFont text textFont textAlign textLeading textMode textSize textWidth textAscent textDescent abs ceil '' @
              ''constrain dist exp floor lerp log mag map max min norm pow round sq sqrt acos asin atan atan2 cos degrees '' @
              ''radians sin tan noise noiseDetail noiseSeed random randomGaussian randomSeed'')]),
              contains := Some [Ref hl_C_LINE_COMMENT_MODE, Ref hl_C_BLOCK_COMMENT_MODE, Ref hl_APOS_STRING_MODE,
              Ref hl_QUOTE_STRING_MODE, Ref hl_C_NUMBER_MODE]\<rparr>) h
      in (language, h))"

definition lang_profile :: "mstore \<Rightarrow> nat \<times> mstore" where
  "lang_profile h =
     (let (m1, h) = new (no_mode\<lparr>m_begin := Some (bs ''[a-zA-Z_][%da-zA-Z_]+%.[%da-zA-Z_]{1,3}''), m_end := Some '':'',
              excludeEnd := Some True\<rparr>) h;
          (m2, h) = new (no_mode\<lparr>m_begin := Some ''(ncalls|tottime|cumtime)'', m_end := Some ''$'',
              m_keywords := Some (KStr ''ncalls tottime|10 cumtime|10 filename''), m_relevance := Some 10\<rparr>) h;
          (m3, h) = new (no_mode\<lparr>m_begin := Some ''function calls'', m_end := Some ''$'',
              contains := Some [Ref hl_C_NUMBER_MODE], m_relevance := Some 10\<rparr>) h;
          (m4, h) = new (no_mode\<lparr>className := Some ''string'', m_begin := Some (bs ''%(''), m_end := Some (bs ''%)$''),
              excludeBegin := Some True, excludeEnd := Some True, m_relevance := Some 0\<rparr>) h;
          (language, h) = new (no_mode\<lparr>contains := Some [Ref hl_C_NUMBER_MODE, Ref m1, Ref m2, Ref m3,
              Ref hl_APOS_STRING_MODE, Ref hl_QUOTE_STRING_MODE, Ref m4]\<rparr>) h
      in (language, h))"

definition lang_prolog :: "mstore \<Rightarrow> nat \<times> mstore" where
  "lang_prolog h =
     (let (ATOM, h) = new (no_mode\<lparr>m_begin := Some ''[a-z][A-Za-z0-9_]*'', m_relevance := Some 0\<rparr>) h;
          (m1, h) = new (no_mode\<lparr>m_begin := Some ''[A-Z][a-zA-Z0-9_]*''\<rparr>) h;
          (m2, h) = new (no_mode\<lparr>m_begin := Some ''_[A-Za-z0-9_]*''\<rparr>) h;
          (VAR, h) = new (no_mode\<lparr>className := Some ''symbol'', variants := Some [m1, m2], m_relevance := Some 0\<rparr>) h;
          (PARENTED, h) = new (no_mode\<lparr>m_begin := Some (bs ''%(''), m_end := Some (bs ''%)''),
              m_relevance := Some 0\<rparr>) h;
          (LIST, h) = new (no_mode\<lparr>m_begin := Some (bs ''%[''), m_end := Some (bs ''%]'')\<rparr>) h;
          (LINE_COMMENT, h) = new (no_mode\<lparr>className := Some ''comment'', m_begin := Some ''%'', m_end := Some ''$'',
              contains := Some [Ref hl_PHRASAL_WORDS_MODE]\<rparr>) h;
          (BACKTICK_STRING, h) = new (no_mode\<lparr>className := Some ''string'', m_begin := Some [CHR 0x60],
              m_end := Some [CHR 0x60], contains := Some [Ref hl_BACKSLASH_ESCAPE]\<rparr>) h;
          (CHAR_CODE, h) = new (no_mode\<lparr>className := Some ''string'', m_begin := Some (bs ''0%'' @ [CHR 0x27] @
              bs ''(%%%'' @ [CHR 0x27] @ ''|.)'')\<rparr>) h;
          (SPACE_CODE, h) = new (no_mode\<lparr>className := Some ''string'', m_begin := Some (bs ''0%'' @ [CHR 0x27] @
              bs ''%%s'')\<rparr>) h;
          (PRED_OP, h) = new (no_mode\<lparr>m_begin := Some '':-''\<rparr>) h;
          inner' = [Ref ATOM, Ref VAR, Ref PARENTED, Ref PRED_OP, Ref LIST, Ref LINE_COMMENT, Ref hl_C_BLOCK_COMMENT_MODE,
              Ref hl_QUOTE_STRING_MODE, Ref hl_APOS_STRING_MODE, Ref BACKTICK_STRING, Ref CHAR_CODE, Ref SPACE_CODE,
              Ref hl_C_NUMBER_MODE];
          h = upd PARENTED (\<lambda>m. m\<lparr>contains := Some (inner')\<rparr>) h;
          h = upd LIST (\<lambda>m. m\<lparr>contains := Some (inner')\<rparr>) h;
          (m3, h) = new (no_mode\<lparr>m_begin := Some (bs ''%.$'')\<rparr>) h;
          (language, h) = new (no_mode\<lparr>contains := Some (inner' @ [Ref m3])\<rparr>) h
      in (language, h))"

definition lang_properties :: "mstore \<Rightarrow> nat \<times> mstore" where
  "lang_properties h =
     (let WS0 = bs ''[ %t%f]*'';
          WS1 = bs ''[ %t%f]+'';
          DELIM = ''('' @ WS0 @ ''[:=]'' @ WS0 @ ''|'' @ WS1 @ '')'';
          KEY_ALPHANUM = bs ''([^%%%W:= %t%f%n]|%%.)+'';
          KEY_OTHER = bs ''([^%%:= %t%f%n]|%%.)+'';
          (m1, h) = new (no_mode\<lparr>m_begin := Some (bs ''%%%n'')\<rparr>) h;
          (m2, h) = new (no_mode\<lparr>className := Some ''string'', m_end := Some ''$'', m_relevance := Some 0,
              contains := Some [Ref m1]\<rparr>) h;
          (DELIM_AND_VALUE, h) = new (no_mode\<lparr>m_end := Some DELIM, m_relevance := Some 0, starts := Some m2\<rparr>) h;
          (m3, h) = COMMENT (bs ''^%s*[!#]'') ''$'' no_mode h;
          (m4, h) = new (no_mode\<lparr>className := Some ''attr'', m_begin := Some KEY_ALPHANUM, endsParent := Some True,
              m_relevance := Some 0\<rparr>) h;
          (m5, h) = new (no_mode\<lparr>m_begin := Some (KEY_ALPHANUM @ DELIM), returnBegin := Some True,
              contains := Some [Ref m4], starts := Some DELIM_AND_VALUE\<rparr>) h;
          (m6, h) = new (no_mode\<lparr>className := Some ''meta'', m_begin := Some KEY_OTHER, endsParent := Some True,
              m_relevance := Some 0\<rparr>) h;
          (m7, h) = new (no_mode\<lparr>m_begin := Some (KEY_OTHER @ DELIM), returnBegin := Some True, m_relevance := Some 0,
              contains := Some [Ref m6], starts := Some DELIM_AND_VALUE\<rparr>) h;
          (m8, h) = new (no_mode\<lparr>className := Some ''attr'', m_relevance := Some 0, m_begin := Some (KEY_OTHER @ WS0 @
              ''$'')\<rparr>) h;
          (language, h) = new (no_mode\<lparr>case_insensitive := Some True, illegal := Some (bs ''%S''),
              contains := Some [Ref m3, Ref m5, Ref m7, Ref m8]\<rparr>) h
      in (language, h))"

definition lang_protobuf :: "mstore \<Rightarrow> nat \<times> mstore" where
  "lang_protobuf h =
     (let (m1, h) = new (no_mode\<lparr>endsWithParent := Some True, excludeEnd := Some True\<rparr>) h;
          (m2, h) = new (inherit_mode (mode_at h hl_TITLE_MODE) [(no_mode\<lparr>starts := Some m1\<rparr>)]) h;
          (m3, h) = new (no_mode\<lparr>className := Some ''class'', beginKeywords := Some ''message enum service'',
              m_end := Some (bs ''%{''), illegal := Some (bs ''%n''), contains := Some [Ref m2]\<rparr>) h;
          (m4, h) = new (no_mode\<lparr>className := Some ''function'', beginKeywords := Some ''rpc'', m_end := Some '';'',
              excludeEnd := Some True, m_keywords := Some (KStr ''rpc returns'')\<rparr>) h;
          (m5, h) = new (no_mode\<lparr>m_begin := Some (bs ''^%s*[A-Z_]+''), m_end := Some (bs ''%s*=''),
              excludeEnd := Some True\<rparr>) h;
          (language, h) = new (no_mode\<lparr>m_keywords := Some (KObj [(''keyword'',
              ''package import option optional required repeated group oneof''), (''built_in'',
              ''double float int32 int64 uint32 uint64 sint32 sint64 '' @
              ''fixed32 fixed64 sfixed32 sfixed64 bool string bytes''), (''literal'', ''true false'')]),
              contains := Some [Ref hl_QUOTE_STRING_MODE, Ref hl_NUMBER_MODE, Ref hl_C_LINE_COMMENT_MODE, Ref m3,
              Ref m4, Ref m5]\<rparr>) h
      in (language, h))"

definition lang_puppet :: "mstore \<Rightarrow> nat \<times> mstore" where
  "lang_puppet h =
     (let (COMMENT', h) = COMMENT ''#'' ''$'' no_mode h;
          IDENT_RE' = bs ''([A-Za-z_]|::)(%w|::)*'';
          (TITLE, h) = new (inherit_mode (mode_at h hl_TITLE_MODE) [(no_mode\<lparr>m_begin := Some (IDENT_RE')\<rparr>)]) h;
          (VARIABLE, h) = new (no_mode\<lparr>className := Some ''variable'', m_begin := Some (bs ''%$'' @ IDENT_RE')\<rparr>) h;
          (m1, h) = new (no_mode\<lparr>m_begin := Some [CHR 0x27], m_end := Some [CHR 0x27]\<rparr>) h;
          (m2, h) = new (no_mode\<lparr>m_begin := Some [CHR 0x22], m_end := Some [CHR 0x22]\<rparr>) h;
          (STRING, h) = new (no_mode\<lparr>className := Some ''string'', contains := Some [Ref hl_BACKSLASH_ESCAPE,
              Ref VARIABLE], variants := Some [m1, m2]\<rparr>) h;
          (m3, h) = new (no_mode\<lparr>beginKeywords := Some ''class'', m_end := Some (bs ''%{|;''), illegal := Some ''='',
              contains := Some [Ref TITLE, Ref COMMENT']\<rparr>) h;
          (m4, h) = new (no_mode\<lparr>className := Some ''section'', m_begin := Some IDENT_RE,
              endsParent := Some True\<rparr>) h;
          (m5, h) = new (no_mode\<lparr>beginKeywords := Some ''define'', m_end := Some (bs ''%{''),
              contains := Some [Ref m4]\<rparr>) h;
          (m6, h) = new (no_mode\<lparr>className := Some ''keyword'', m_begin := Some IDENT_RE\<rparr>) h;
          PUPPET_KEYWORDS = KObj [(''keyword'',
              ''and case default else elsif false if in import enherits node or true undef unless main settings $string ''),
              (''literal'', ''alias audit before loglevel noop require subscribe tag '' @
              ''owner ensure group mode name|0 changes context force incl lens load_path onlyif provider returns '' @
              ''root show_diff type_check '' @
              ''en_address ip_address realname command environment hour monute month monthday special target weekday '' @
              ''creates cwd ogoutput refresh refreshonly tries try_sleep umask backup checksum content ctime force ignore '' @
              ''links mtime purge recurse recurselimit replace selinux_ignore_defaults selrange selrole seltype '' @
              ''seluser source '' @
              ''souirce_permissions sourceselect validate_cmd validate_replacement allowdupe attribute_membership '' @
              ''auth_membership forcelocal gid '' @
              ''ia_load_module members system host_aliases ip allowed_trunk_vlans description device_url duplex '' @
              ''encapsulation etherchannel '' @
              ''native_vlan speed principals allow_root auth_class auth_type authenticate_user k_of_n mechanisms '' @
              ''rule session_owner shared options '' @
              ''device fstype enable hasrestart directory present absent link atboot blockdevice device dump pass '' @
              ''remounts poller_tag use '' @
              ''message withpath adminfile allow_virtual allowcdrom category configfiles flavor install_options '' @
              ''instance package_settings platform '' @
              ''responsefile status uninstall_options vendor unless_system_user unless_uid binary control flags '' @
              ''hasstatus manifest pattern restart running '' @
              ''start stop allowdupe auths expiry gid groups home iterations key_membership keys managehome '' @
              ''membership password password_max_age '' @
              ''password_min_age profile_membership profiles project purge_ssh_keys role_membership roles salt '' @
              ''shell uid baseurl cost descr enabled '' @
              ''enablegroups exclude failovermethod gpgcheck gpgkey http_caching include includepkgs keepalive '' @
              ''metadata_expire metalink mirrorlist '' @
              ''priority protect proxy proxy_password proxy_username repo_gpgcheck s3_enabled skip_if_unavailable '' @
              ''sslcacert sslclientcert sslclientkey '' @ ''sslverify mounted''), (''built_in'',
              ''architecture augeasversion blockdevices boardmanufacturer boardproductname boardserialnumber cfkey '' @
              ''dhcp_servers '' @
              ''domain ec2_ ec2_userdata facterversion filesystems ldom fqdn gid hardwareisa hardwaremodel hostname '' @
              ''id|0 interfaces '' @
              ''ipaddress ipaddress_ ipaddress6 ipaddress6_ iphostnumber is_virtual kernel kernelmajversion '' @
              ''kernelrelease kernelversion '' @
              ''kernelrelease kernelversion lsbdistcodename lsbdistdescription lsbdistid lsbdistrelease '' @
              ''lsbmajdistrelease lsbminordistrelease '' @
              ''lsbrelease macaddress macaddress_ macosx_buildversion macosx_productname macosx_productversion '' @
              ''macosx_productverson_major '' @
              ''macosx_productversion_minor manufacturer memoryfree memorysize netmask metmask_ network_ '' @
              ''operatingsystem operatingsystemmajrelease '' @
              ''operatingsystemrelease osfamily partitions path physicalprocessorcount processor processorcount '' @
              ''productname ps puppetversion '' @
              ''rubysitedir rubyversion selinux selinux_config_mode selinux_config_policy selinux_current_mode '' @
              ''selinux_current_mode selinux_enforced '' @
              ''selinux_policyversion serialnumber sp_ sshdsakey sshecdsakey sshrsakey swapencrypted swapfree '' @
              ''swapsize timezone type uniqueid uptime '' @
              ''uptime_days uptime_hours uptime_seconds uuid virtual vlans xendomains zfs_version zonenae zones zpool_version'')];
          (m7, h) = new (no_mode\<lparr>className := Some ''attr'', m_begin := Some IDENT_RE\<rparr>) h;
          (m8, h) = new (no_mode\<lparr>m_begin := Some (bs ''[a-zA-Z_]+%s*=>''), returnBegin := Some True,
              m_end := Some ''=>'', contains := Some [Ref m7]\<rparr>) h;
          (m9, h) = new (no_mode\<lparr>className := Some ''number'',
              m_begin := Some (bs ''(%b0[0-7_]+)|(%b0x[0-9a-fA-F_]+)|(%b[1-9][0-9_]*(%.[0-9_]+)?)|[0_]%b''),
              m_relevance := Some 0\<rparr>) h;
          (m10, h) = new (no_mode\<lparr>m_begin := Some (bs ''%{''), m_end := Some (bs ''%}''),
              m_keywords := Some PUPPET_KEYWORDS, m_relevance := Some 0, contains := Some [Ref STRING, Ref COMMENT',
              Ref m8, Ref m9, Ref VARIABLE]\<rparr>) h;
          (m11, h) = new (no_mode\<lparr>m_begin := Some (IDENT_RE @ bs ''%s+%{''), returnBegin := Some True,
              m_end := Some (bs ''%S''), contains := Some [Ref m6, Ref m10], m_relevance := Some 0\<rparr>) h;
          (language, h) = new (no_mode\<lparr>aliases := Some [''pp''], contains := Some [Ref COMMENT', Ref VARIABLE,
              Ref STRING, Ref m3, Ref m5, Ref m11]\<rparr>) h
      in (language, h))"

definition lang_purebasic :: "mstore \<Rightarrow> nat \<times> mstore" where
  "lang_purebasic h =
     (let (STRINGS, h) = new (no_mode\<lparr>className := Some ''string'', m_begin := Some (''(~)?'' @ [CHR 0x22]),
              m_end := Some [CHR 0x22], illegal := Some (bs ''%n'')\<rparr>) h;
          (CONSTANTS, h) = new (no_mode\<lparr>className := Some ''symbol'', m_begin := Some (bs ''#[a-zA-Z_]%w*%$?'')\<rparr>) h;
          (m1, h) = COMMENT '';'' ''$'' (no_mode\<lparr>m_relevance := Some 0\<rparr>) h;
          (m2, h) = new (no_mode\<lparr>className := Some ''keyword'', m_begin := Some ''(Procedure|Declare)(C|CDLL|DLL)?'',
              excludeEnd := Some True\<rparr>) h;
          (m3, h) = new (no_mode\<lparr>className := Some ''type'', m_begin := Some (bs ''%.%w*'')\<rparr>) h;
          (m4, h) = new (no_mode\<lparr>className := Some ''function'',
              m_begin := Some (bs ''%b(Procedure|Declare)(C|CDLL|DLL)?%b''), m_end := Some (bs ''%(''),
              excludeEnd := Some True, returnBegin := Some True, contains := Some [Ref m2, Ref m3,
              Ref hl_UNDERSCORE_TITLE_MODE]\<rparr>) h;
          (language, h) = new (no_mode\<lparr>aliases := Some [''pb'', ''pbi''],
              m_keywords := Some (KStr (''Align And Array As Break CallDebugger Case CompilerCase CompilerDefault '' @
              ''CompilerElse CompilerElseIf CompilerEndIf CompilerEndSelect CompilerError '' @
              ''CompilerIf CompilerSelect CompilerWarning Continue Data DataSection Debug '' @
              ''DebugLevel Declare DeclareC DeclareCDLL DeclareDLL DeclareModule Default '' @
              ''Define Dim DisableASM DisableDebugger DisableExplicit Else ElseIf EnableASM '' @
              ''EnableDebugger EnableExplicit End EndDataSection EndDeclareModule EndEnumeration '' @
              ''EndIf EndImport EndInterface EndMacro EndModule EndProcedure EndSelect '' @
              ''EndStructure EndStructureUnion EndWith Enumeration EnumerationBinary Extends '' @
              ''FakeReturn For ForEach ForEver Global Gosub Goto If Import ImportC '' @
              ''IncludeBinary IncludeFile IncludePath Interface List Macro MacroExpandedCount '' @
              ''Map Module NewList NewMap Next Not Or Procedure ProcedureC '' @
              ''ProcedureCDLL ProcedureDLL ProcedureReturn Protected Prototype PrototypeC ReDim '' @
              ''Read Repeat Restore Return Runtime Select Shared Static Step Structure '' @
              ''StructureUnion Swap Threaded To UndefineMacro Until Until  UnuseModule '' @
              ''UseModule Wend While With XIncludeFile XOr'')), contains := Some [Ref m1, Ref m4, Ref STRINGS,
              Ref CONSTANTS]\<rparr>) h
      in (language, h))"

definition lang_python :: "mstore \<Rightarrow> nat \<times> mstore" where
  "lang_python h =
     (let (PROMPT, h) = new (no_mode\<lparr>className := Some ''meta'', m_begin := Some (bs ''^(>>>|%.%.%.) '')\<rparr>) h;
          KEYWORDS = KObj [(''keyword'',
              ''and elif is global as in if from raise for except finally print import pass return '' @
              ''exec else break not with class assert yield try while continue del or def lambda '' @
              ''async await nonlocal|10''), (''built_in'', ''Ellipsis NotImplemented''), (''literal'',
              ''False None True'')];
          (SUBST, h) = new (no_mode\<lparr>className := Some ''subst'', m_begin := Some (bs ''%{''), m_end := Some (bs ''%}''),
              m_keywords := Some KEYWORDS, illegal := Some ''#''\<rparr>) h;
          (m1, h) = new (no_mode\<lparr>m_begin := Some (''(u|b)?r?'' @ [CHR 0x27, CHR 0x27, CHR 0x27]),
              m_end := Some [CHR 0x27, CHR 0x27, CHR 0x27], contains := Some [Ref hl_BACKSLASH_ESCAPE, Ref PROMPT],
              m_relevance := Some 10\<rparr>) h;
          (m2, h) = new (no_mode\<lparr>m_begin := Some (''(u|b)?r?'' @ [CHR 0x22, CHR 0x22, CHR 0x22]),
              m_end := Some [CHR 0x22, CHR 0x22, CHR 0x22], contains := Some [Ref hl_BACKSLASH_ESCAPE, Ref PROMPT],
              m_relevance := Some 10\<rparr>) h;
          (m3, h) = new (no_mode\<lparr>m_begin := Some (''(fr|rf|f)'' @ [CHR 0x27, CHR 0x27, CHR 0x27]),
              m_end := Some [CHR 0x27, CHR 0x27, CHR 0x27], contains := Some [Ref hl_BACKSLASH_ESCAPE, Ref PROMPT,
              Ref SUBST]\<rparr>) h;
          (m4, h) = new (no_mode\<lparr>m_begin := Some (''(fr|rf|f)'' @ [CHR 0x22, CHR 0x22, CHR 0x22]),
              m_end := Some [CHR 0x22, CHR 0x22, CHR 0x22], contains := Some [Ref hl_BACKSLASH_ESCAPE, Ref PROMPT,
              Ref SUBST]\<rparr>) h;
          (m5, h) = new (no_mode\<lparr>m_begin := Some (''(u|r|ur)'' @ [CHR 0x27]), m_end := Some [CHR 0x27],
              m_relevance := Some 10\<rparr>) h;
          (m6, h) = new (no_mode\<lparr>m_begin := Some (''(u|r|ur)'' @ [CHR 0x22]), m_end := Some [CHR 0x22],
              m_relevance := Some 10\<rparr>) h;
          (m7, h) = new (no_mode\<lparr>m_begin := Some (''(b|br)'' @ [CHR 0x27]), m_end := Some [CHR 0x27]\<rparr>) h;
          (m8, h) = new (no_mode\<lparr>m_begin := Some (''(b|br)'' @ [CHR 0x22]), m_end := Some [CHR 0x22]\<rparr>) h;
          (m9, h) = new (no_mode\<lparr>m_begin := Some (''(fr|rf|f)'' @ [CHR 0x27]), m_end := Some [CHR 0x27],
              contains := Some [Ref hl_BACKSLASH_ESCAPE, Ref SUBST]\<rparr>) h;
          (m10, h) = new (no_mode\<lparr>m_begin := Some (''(fr|rf|f)'' @ [CHR 0x22]), m_end := Some [CHR 0x22],
              contains := Some [Ref hl_BACKSLASH_ESCAPE, Ref SUBST]\<rparr>) h;
          (STRING, h) = new (no_mode\<lparr>className := Some ''string'', contains := Some [Ref hl_BACKSLASH_ESCAPE],
              variants := Some [m1, m2, m3, m4, m5, m6, m7, m8, m9, m10, hl_APOS_STRING_MODE,
              hl_QUOTE_STRING_MODE]\<rparr>) h;
          (m11, h) = new (no_mode\<lparr>m_begin := Some (BINARY_NUMBER_RE @ ''[lLjJ]?'')\<rparr>) h;
          (m12, h) = new (no_mode\<lparr>m_begin := Some (bs ''%b(0o[0-7]+)[lLjJ]?'')\<rparr>) h;
          (m13, h) = new (no_mode\<lparr>m_begin := Some (C_NUMBER_RE @ ''[lLjJ]?'')\<rparr>) h;
          (NUMBER, h) = new (no_mode\<lparr>className := Some ''number'', m_relevance := Some 0, variants := Some [m11, m12,
              m13]\<rparr>) h;
          (PARAMS, h) = new (no_mode\<lparr>className := Some ''params'', m_begin := Some (bs ''%(''),
              m_end := Some (bs ''%)''), contains := Some [Self, Ref PROMPT, Ref NUMBER, Ref STRING]\<rparr>) h;
          h = upd SUBST (\<lambda>m. m\<lparr>contains := Some [Ref STRING, Ref NUMBER, Ref PROMPT]\<rparr>) h;
          (m14, h) = new (no_mode\<lparr>className := Some ''function'', beginKeywords := Some ''def''\<rparr>) h;
          (m15, h) = new (no_mode\<lparr>className := Some ''class'', beginKeywords := Some ''class''\<rparr>) h;
          (m16, h) = new (no_mode\<lparr>m_begin := Some ''->'', endsWithParent := Some True,
              m_keywords := Some (KStr ''None'')\<rparr>) h;
          (m17, h) = new (no_mode\<lparr>variants := Some [m14, m15], m_end := Some '':'', illegal := Some (bs ''[${=;%n,]''),
              contains := Some [Ref hl_UNDERSCORE_TITLE_MODE, Ref PARAMS, Ref m16]\<rparr>) h;
          (m18, h) = new (no_mode\<lparr>className := Some ''meta'', m_begin := Some (bs ''^[%t ]*@''),
              m_end := Some ''$''\<rparr>) h;
          (m19, h) = new (no_mode\<lparr>m_begin := Some (bs ''%b(print|exec)%('')\<rparr>) h;
          (language, h) = new (no_mode\<lparr>aliases := Some [''py'', ''gyp'', ''ipython''], m_keywords := Some KEYWORDS,
              illegal := Some (bs ''(<%/|->|%?)|=>''), contains := Some [Ref PROMPT, Ref NUMBER, Ref STRING,
              Ref hl_HASH_COMMENT_MODE, Ref m17, Ref m18, Ref m19]\<rparr>) h
      in (language, h))"

definition lang_q :: "mstore \<Rightarrow> nat \<times> mstore" where
  "lang_q h =
     (let Q_KEYWORDS = KObj [(''keyword'', ''do while select delete by update from''), (''literal'', ''0b 1b''), (''built_in'',
              ''neg not null string reciprocal floor ceiling signum mod xbar xlog and or each scan over prior mmu '' @
              ''lsq inv md5 ltime gtime count first var dev med cov cor all any rand sums prds mins maxs fills '' @
              ''deltas ratios avgs differ prev next rank reverse iasc idesc asc desc msum mcount mavg mdev xrank '' @
              ''mmin mmax xprev rotate distinct group where flip type key til get value attr cut set upsert raze '' @
              ''union inter except cross sv vs sublist enlist read0 read1 hopen hclose hdel hsym hcount peach '' @
              ''system ltrim rtrim trim lower upper ssr view tables views cols xcols keys xkey xcol xasc xdesc '' @
              ''fkeys meta lj aj aj0 ij pj asof uj ww wj wj1 fby xgroup ungroup ej save load rsave rload show csv '' @
              ''parse eval min max avg wavg wsum sin cos tan sum''), (''type'', [CHR 0x60] @ ''float '' @
              [CHR 0x60] @ ''double int '' @ [CHR 0x60] @ ''timestamp '' @ [CHR 0x60] @ ''timespan '' @ [CHR 0x60] @
              ''datetime '' @ [CHR 0x60] @ ''time '' @ [CHR 0x60] @ ''boolean '' @ [CHR 0x60] @ ''symbol '' @
              [CHR 0x60] @ ''char '' @ [CHR 0x60] @ ''byte '' @ [CHR 0x60] @ ''short '' @ [CHR 0x60] @ ''long '' @
              [CHR 0x60] @ ''real '' @ [CHR 0x60] @ ''month '' @ [CHR 0x60] @ ''date '' @ [CHR 0x60] @ ''minute '' @
              [CHR 0x60] @ ''second '' @ [CHR 0x60] @ ''guid'')];
          (language, h) = new (no_mode\<lparr>aliases := Some [''k'', ''kdb''], m_keywords := Some Q_KEYWORDS,
              lexemes := Some (''('' @ [CHR 0x60] @ bs ''?)[A-Za-z0-9_]+%b''),
              contains := Some [Ref hl_C_LINE_COMMENT_MODE, Ref hl_QUOTE_STRING_MODE, Ref hl_C_NUMBER_MODE]\<rparr>) h
      in (language, h))"

subsection \<open>The stores they make\<close>

lemma lang_objectivec_makes [builds_grammars]: "makes_grammar lang_objectivec"
  unfolding lang_objectivec_def by (intro makes_grammarI builds_rules) (simp_all add: refs_append)

lemma lang_ocaml_makes [builds_grammars]: "makes_grammar lang_ocaml"
  unfolding lang_ocaml_def by (intro makes_grammarI builds_rules) (simp_all add: refs_append)

lemma lang_openscad_makes [builds_grammars]: "makes_grammar lang_openscad"
  unfolding lang_openscad_def by (intro makes_grammarI builds_rules) (simp_all add: refs_append)

lemma lang_oxygene_makes [builds_grammars]: "makes_grammar lang_oxygene"
  unfolding lang_oxygene_def by (intro makes_grammarI builds_rules) (simp_all add: refs_append)

lemma lang_parser3_makes [builds_grammars]: "makes_grammar lang_parser3"
  unfolding lang_parser3_def by (intro makes_grammarI builds_rules) (simp_all add: refs_append)

lemma lang_perl_makes [builds_grammars]: "makes_grammar lang_perl"
  unfolding lang_perl_def by (intro makes_grammarI builds_rules) (simp_all add: refs_append)

lemma lang_pf_makes [builds_grammars]: "makes_grammar lang_pf"
  unfolding lang_pf_def by (intro makes_grammarI builds_rules) (simp_all add: refs_append)

lemma lang_php_makes [builds_grammars]: "makes_grammar lang_php"
  unfolding lang_php_def by (intro makes_grammarI builds_rules) (simp_all add: refs_append)

lemma lang_plaintext_makes [builds_grammars]: "makes_grammar lang_plaintext"
  unfolding lang_plaintext_def by (intro makes_grammarI builds_rules) (simp_all add: refs_append)

lemma lang_pony_makes [builds_grammars]: "makes_grammar lang_pony"
  unfolding lang_pony_def by (intro makes_grammarI builds_rules) (simp_all add: refs_append)

lemma lang_powershell_makes [builds_grammars]: "makes_grammar lang_powershell"
  unfolding lang_powershell_def by (intro makes_grammarI builds_rules) (simp_all add: refs_append)

lemma lang_processing_makes [builds_grammars]: "makes_grammar lang_processing"
  unfolding lang_processing_def by (intro makes_grammarI builds_rules) (simp_all add: refs_append)

lemma lang_profile_makes [builds_grammars]: "makes_grammar lang_profile"
  unfolding lang_profile_def by (intro makes_grammarI builds_rules) (simp_all add: refs_append)

lemma lang_prolog_makes [builds_grammars]: "makes_grammar lang_prolog"
  unfolding lang_prolog_def by (intro makes_grammarI builds_rules) (simp_all add: refs_append)

lemma lang_properties_makes [builds_grammars]: "makes_grammar lang_properties"
  unfolding lang_properties_def by (intro makes_grammarI builds_rules) (simp_all add: refs_append)

lemma lang_protobuf_makes [builds_grammars]: "makes_grammar lang_protobuf"
  unfolding lang_protobuf_def by (intro makes_grammarI builds_rules) (simp_all add: refs_append)

lemma lang_puppet_makes [builds_grammars]: "makes_grammar lang_puppet"
  unfolding lang_puppet_def by (intro makes_grammarI builds_rules) (simp_all add: refs_append)

lemma lang_purebasic_makes [builds_grammars]: "makes_grammar lang_purebasic"
  unfolding lang_purebasic_def by (intro makes_grammarI builds_rules) (simp_all add: refs_append)

lemma lang_python_makes [builds_grammars]: "makes_grammar lang_python"
  unfolding lang_python_def by (intro makes_grammarI builds_rules) (simp_all add: refs_append)

lemma lang_q_makes [builds_grammars]: "makes_grammar lang_q"
  unfolding lang_q_def by (intro makes_grammarI builds_rules) (simp_all add: refs_append)

end
