(* ===== verification/Hljs_Languages_7.thy ===== *)
theory Hljs_Languages_7
  imports Hljs_Store
begin

text \<open>
  Grammars of highlight.js (\<^verbatim>\<open>remark.js\<close>, module 15), in the order of the source, from \<open>qml\<close> to \<open>stan\<close>. Each keeps the store
  closed.
\<close>

definition lang_qml :: "mstore \<Rightarrow> nat \<times> mstore" where
  "lang_qml h =
     (let QML_IDENT_RE = bs ''[a-zA-Z_][a-zA-Z0-9%._]*'';
          (m1, h) = new (no_mode\<lparr>className := Some ''string'', m_end := Some (bs ''(:|=|;|,|//|/%*|$)''),
              returnEnd := Some True\<rparr>) h;
          (PROPERTY, h) = new (no_mode\<lparr>className := Some ''keyword'', m_begin := Some (bs ''%bproperty%b''),
              starts := Some m1\<rparr>) h;
          (m2, h) = new (no_mode\<lparr>className := Some ''string'', m_end := Some (bs ''(%(|:|=|;|,|//|/%*|$)''),
              returnEnd := Some True\<rparr>) h;
          (SIGNAL, h) = new (no_mode\<lparr>className := Some ''keyword'', m_begin := Some (bs ''%bsignal%b''),
              starts := Some m2\<rparr>) h;
          (m3, h) = new (no_mode\<lparr>className := Some ''string'', m_end := Some QML_IDENT_RE,
              returnEnd := Some False\<rparr>) h;
          (ID_ID, h) = new (no_mode\<lparr>className := Some ''attribute'', m_begin := Some (bs ''%bid%s*:''),
              starts := Some m3\<rparr>) h;
          (m4, h) = new (no_mode\<lparr>className := Some ''attribute'', m_begin := Some QML_IDENT_RE,
              m_end := Some (bs ''%s*:''), excludeEnd := Some True, m_relevance := Some 0\<rparr>) h;
          (QML_ATTRIBUTE, h) = new (no_mode\<lparr>m_begin := Some (QML_IDENT_RE @ bs ''%s*:''), returnBegin := Some True,
              contains := Some [Ref m4], m_relevance := Some 0\<rparr>) h;
          (m5, h) = new (inherit_mode (mode_at h hl_TITLE_MODE) [(no_mode\<lparr>m_begin := Some QML_IDENT_RE\<rparr>)]) h;
          (QML_OBJECT, h) = new (no_mode\<lparr>m_begin := Some (QML_IDENT_RE @ bs ''%s*{''), m_end := Some ''{'',
              returnBegin := Some True, m_relevance := Some 0, contains := Some [Ref m5]\<rparr>) h;
          KEYWORDS = KObj [(''keyword'', ''in of on if for while finally var new function do return void else break catch '' @
              ''instanceof with throw case default try this switch continue typeof delete '' @
              ''let yield const export super debugger as async await import''), (''literal'',
              ''true false null undefined NaN Infinity''), (''built_in'',
              ''eval isFinite isNaN parseFloat parseInt decodeURI decodeURIComponent '' @
              ''encodeURI encodeURIComponent escape unescape Object Function Boolean Error '' @
              ''EvalError InternalError RangeError ReferenceError StopIteration SyntaxError '' @
              ''TypeError URIError Number Math Date String RegExp Array Float32Array '' @
              ''Float64Array Int16Array Int32Array Int8Array Uint16Array Uint32Array '' @
              ''Uint8Array Uint8ClampedArray ArrayBuffer DataView JSON Intl arguments require '' @
              ''module console window document Symbol Set Map WeakSet WeakMap Proxy Reflect '' @
              ''Behavior bool color coordinate date double enumeration font geocircle georectangle '' @
              ''geoshape int list matrix4x4 parent point quaternion real rect '' @
              ''size string url variant vector2d vector3d vector4d'' @ ''Promise'')];
          (m6, h) = new (no_mode\<lparr>className := Some ''meta'', m_begin := Some (bs ''^%s*['' @ [CHR 0x27, CHR 0x22] @
              '']use (strict|asm)['' @ [CHR 0x27, CHR 0x22] @ '']'')\<rparr>) h;
          (m7, h) = new (no_mode\<lparr>className := Some ''subst'', m_begin := Some (bs ''%$%{''),
              m_end := Some (bs ''%}'')\<rparr>) h;
          (m8, h) = new (no_mode\<lparr>className := Some ''string'', m_begin := Some [CHR 0x60], m_end := Some [CHR 0x60],
              contains := Some [Ref hl_BACKSLASH_ESCAPE, Ref m7]\<rparr>) h;
          (m9, h) = new (no_mode\<lparr>m_begin := Some (bs ''%b(0[bB][01]+)'')\<rparr>) h;
          (m10, h) = new (no_mode\<lparr>m_begin := Some (bs ''%b(0[oO][0-7]+)'')\<rparr>) h;
          (m11, h) = new (no_mode\<lparr>m_begin := Some C_NUMBER_RE\<rparr>) h;
          (m12, h) = new (no_mode\<lparr>className := Some ''number'', variants := Some [m9, m10, m11],
              m_relevance := Some 0\<rparr>) h;
          (m13, h) = new (no_mode\<lparr>m_begin := Some ''<'', m_end := Some (bs ''>%s*[);%]'' @ '']''),
              m_relevance := Some 0, subLanguage := Some (SubName ''xml'')\<rparr>) h;
          (m14, h) = new (no_mode\<lparr>m_begin := Some (''('' @ RE_STARTERS_RE @ bs ''|%b(case|return|throw)%b)%s*''),
              m_keywords := Some (KStr ''return throw case''), contains := Some [Ref hl_C_LINE_COMMENT_MODE,
              Ref hl_C_BLOCK_COMMENT_MODE, Ref hl_REGEXP_MODE, Ref m13], m_relevance := Some 0\<rparr>) h;
          (m15,
              h) = new (inherit_mode (mode_at h hl_TITLE_MODE) [(no_mode\<lparr>m_begin := Some ''[A-Za-z$_][0-9A-Za-z$_]*''\<rparr>)]) h;
          (m16, h) = new (no_mode\<lparr>className := Some ''params'', m_begin := Some (bs ''%(''), m_end := Some (bs ''%)''),
              excludeBegin := Some True, excludeEnd := Some True, contains := Some [Ref hl_C_LINE_COMMENT_MODE,
              Ref hl_C_BLOCK_COMMENT_MODE]\<rparr>) h;
          (m17, h) = new (no_mode\<lparr>className := Some ''function'', beginKeywords := Some ''function'',
              m_end := Some (bs ''%{''), excludeEnd := Some True, contains := Some [Ref m15, Ref m16],
              illegal := Some (bs ''%[|'' @ ''%'')\<rparr>) h;
          (m18, h) = new (no_mode\<lparr>m_begin := Some (bs ''%.'' @ IDENT_RE), m_relevance := Some 0\<rparr>) h;
          (language, h) = new (no_mode\<lparr>aliases := Some [''qt''], case_insensitive := Some False,
              m_keywords := Some KEYWORDS, contains := Some [Ref m6, Ref hl_APOS_STRING_MODE,
              Ref hl_QUOTE_STRING_MODE, Ref m8, Ref hl_C_LINE_COMMENT_MODE, Ref hl_C_BLOCK_COMMENT_MODE, Ref m12,
              Ref m14, Ref SIGNAL, Ref PROPERTY, Ref m17, Ref m18, Ref ID_ID, Ref QML_ATTRIBUTE, Ref QML_OBJECT],
              illegal := Some ''#''\<rparr>) h
      in (language, h))"

definition lang_r :: "mstore \<Rightarrow> nat \<times> mstore" where
  "lang_r h =
     (let IDENT_RE' = bs ''([a-zA-Z]|%.[a-zA-Z.])[a-zA-Z0-9._]*'';
          (m1, h) = new (no_mode\<lparr>m_begin := Some (IDENT_RE'), lexemes := Some (IDENT_RE'),
              m_keywords := Some (KObj [(''keyword'',
              ''function if in break next repeat else for return switch while try tryCatch '' @
              ''stop warning require library attach detach source setMethod setGeneric '' @
              ''setGroupGeneric setClass ...''), (''literal'',
              ''NULL NA TRUE FALSE T F Inf NaN NA_integer_|10 NA_real_|10 NA_character_|10 '' @
              ''NA_complex_|10'')]), m_relevance := Some 0\<rparr>) h;
          (m2, h) = new (no_mode\<lparr>className := Some ''number'', m_begin := Some (bs ''0[xX][0-9a-fA-F]+[Li]?%b''),
              m_relevance := Some 0\<rparr>) h;
          (m3, h) = new (no_mode\<lparr>className := Some ''number'', m_begin := Some (bs ''%d+(?:[eE][+%-]?%d*'' @
              bs '')?L%b''), m_relevance := Some 0\<rparr>) h;
          (m4, h) = new (no_mode\<lparr>className := Some ''number'', m_begin := Some (bs ''%d+%.(?!%d)(?:i%b)?''),
              m_relevance := Some 0\<rparr>) h;
          (m5, h) = new (no_mode\<lparr>className := Some ''number'', m_begin := Some (bs ''%d+(?:%.%d*'' @
              bs '')?(?:[eE][+%-]?%d*'' @ bs '')?i?%b''), m_relevance := Some 0\<rparr>) h;
          (m6, h) = new (no_mode\<lparr>className := Some ''number'', m_begin := Some (bs ''%.%d+(?:[eE][+%-]?%d*'' @
              bs '')?i?%b''), m_relevance := Some 0\<rparr>) h;
          (m7, h) = new (no_mode\<lparr>m_begin := Some [CHR 0x60], m_end := Some [CHR 0x60], m_relevance := Some 0\<rparr>) h;
          (m8, h) = new (no_mode\<lparr>m_begin := Some [CHR 0x22], m_end := Some [CHR 0x22]\<rparr>) h;
          (m9, h) = new (no_mode\<lparr>m_begin := Some [CHR 0x27], m_end := Some [CHR 0x27]\<rparr>) h;
          (m10, h) = new (no_mode\<lparr>className := Some ''string'', contains := Some [Ref hl_BACKSLASH_ESCAPE],
              variants := Some [m8, m9]\<rparr>) h;
          (language, h) = new (no_mode\<lparr>contains := Some [Ref hl_HASH_COMMENT_MODE, Ref m1, Ref m2, Ref m3, Ref m4,
              Ref m5, Ref m6, Ref m7, Ref m10]\<rparr>) h
      in (language, h))"

definition lang_rib :: "mstore \<Rightarrow> nat \<times> mstore" where
  "lang_rib h =
     (let (language,
              h) = new (no_mode\<lparr>m_keywords := Some (KStr (''ArchiveRecord AreaLightSource Atmosphere Attribute AttributeBegin AttributeEnd Basis '' @
              ''Begin Blobby Bound Clipping ClippingPlane Color ColorSamples ConcatTransform Cone '' @
              ''CoordinateSystem CoordSysTransform CropWindow Curves Cylinder DepthOfField Detail '' @
              ''DetailRange Disk Displacement Display End ErrorHandler Exposure Exterior Format '' @
              ''FrameAspectRatio FrameBegin FrameEnd GeneralPolygon GeometricApproximation Geometry '' @
              ''Hider Hyperboloid Identity Illuminate Imager Interior LightSource '' @
              ''MakeCubeFaceEnvironment MakeLatLongEnvironment MakeShadow MakeTexture Matte '' @
              ''MotionBegin MotionEnd NuPatch ObjectBegin ObjectEnd ObjectInstance Opacity Option '' @
              ''Orientation Paraboloid Patch PatchMesh Perspective PixelFilter PixelSamples '' @
              ''PixelVariance Points PointsGeneralPolygons PointsPolygons Polygon Procedural Projection '' @
              ''Quantize ReadArchive RelativeDetail ReverseOrientation Rotate Scale ScreenWindow '' @
              ''ShadingInterpolation ShadingRate Shutter Sides Skew SolidBegin SolidEnd Sphere '' @
              ''SubdivisionMesh Surface TextureCoordinates Torus Transform TransformBegin TransformEnd '' @
              ''TransformPoints Translate TrimCurve WorldBegin WorldEnd'')), illegal := Some ''</'',
              contains := Some [Ref hl_HASH_COMMENT_MODE, Ref hl_C_NUMBER_MODE, Ref hl_APOS_STRING_MODE,
              Ref hl_QUOTE_STRING_MODE]\<rparr>) h
      in (language, h))"

definition lang_roboconf :: "mstore \<Rightarrow> nat \<times> mstore" where
  "lang_roboconf h =
     (let IDENTIFIER = bs ''[a-zA-Z-_][^%n{]+%{'';
          (m1, h) = new (no_mode\<lparr>className := Some ''variable'', m_begin := Some (bs ''%.[a-zA-Z-_]+'')\<rparr>) h;
          (m2, h) = new (no_mode\<lparr>className := Some ''keyword'', m_begin := Some (bs ''%(optional%)'')\<rparr>) h;
          (m3, h) = new (no_mode\<lparr>m_end := Some '';'', m_relevance := Some 0, contains := Some [Ref m1, Ref m2]\<rparr>) h;
          (PROPERTY, h) = new (no_mode\<lparr>className := Some ''attribute'', m_begin := Some ''[a-zA-Z-_]+'',
              m_end := Some (bs ''%s*:''), excludeEnd := Some True, starts := Some m3\<rparr>) h;
          (m4, h) = new (no_mode\<lparr>m_begin := Some (''^facet '' @ IDENTIFIER), m_end := Some ''}'',
              m_keywords := Some (KStr ''facet''), contains := Some [Ref PROPERTY,
              Ref hl_HASH_COMMENT_MODE]\<rparr>) h;
          (m5, h) = new (no_mode\<lparr>m_begin := Some (bs ''^%s*instance of '' @ IDENTIFIER), m_end := Some ''}'',
              m_keywords := Some (KStr ''name count channels instance-data instance-state instance of''),
              illegal := Some (bs ''%S''), contains := Some [Self, Ref PROPERTY, Ref hl_HASH_COMMENT_MODE]\<rparr>) h;
          (m6, h) = new (no_mode\<lparr>m_begin := Some (''^'' @ IDENTIFIER), m_end := Some ''}'',
              contains := Some [Ref PROPERTY, Ref hl_HASH_COMMENT_MODE]\<rparr>) h;
          (language, h) = new (no_mode\<lparr>aliases := Some [''graph'', ''instances''], case_insensitive := Some True,
              m_keywords := Some (KStr ''import''), contains := Some [Ref m4, Ref m5, Ref m6,
              Ref hl_HASH_COMMENT_MODE]\<rparr>) h
      in (language, h))"

definition lang_routeros :: "mstore \<Rightarrow> nat \<times> mstore" where
  "lang_routeros h =
     (let STATEMENTS = ''foreach do while for if from to step else on-error and or not in'';
          GLOBAL_COMMANDS = ''global local beep delay put len typeof pick log time set find environment terminal error execute '' @
              ''parse resolve toarray tobool toid toip toip6 tonum tostr totime'';
          COMMON_COMMANDS = ''add remove enable disable set get print export edit find run debug error info warning'';
          LITERALS' = ''true false yes no nothing nil null'';
          OBJECTS = ''traffic-flow traffic-generator firewall scheduler aaa accounting address-list address align area '' @
              ''bandwidth-server bfd bgp bridge client clock community config connection console customer default '' @
              ''dhcp-client dhcp-server discovery dns e-mail ethernet filter firewall firmware gps graphing group '' @
              ''hardware health hotspot identity igmp-proxy incoming instance interface ip ipsec ipv6 irq '' @
              ''l2tp-server lcd ldp logging mac-server mac-winbox mangle manual mirror mme mpls nat nd neighbor '' @
              ''network note ntp ospf ospf-v3 ovpn-server page peer pim ping policy pool port ppp pppoe-client '' @
              ''pptp-server prefix profile proposal proxy queue radius resource rip ripng route routing screen '' @
              ''script security-profiles server service service-port settings shares smb sms sniffer snmp snooper '' @
              ''socks sstp-server system tool tracking type upgrade upnp user-manager users user vlan secret vrrp '' @
              ''watchdog web-access wireless pptp pppoe lan wan layer7-protocol lease simple raw'';
          VAR_PREFIX = ''global local set for foreach'';
          (m1, h) = new (no_mode\<lparr>m_begin := Some (bs ''%$[%w%d#@][%w%d_]*'')\<rparr>) h;
          (m2, h) = new (no_mode\<lparr>m_begin := Some (bs ''%$%{(.*?)}'')\<rparr>) h;
          (VAR, h) = new (no_mode\<lparr>className := Some ''variable'', variants := Some [m1, m2]\<rparr>) h;
          (m3, h) = new (no_mode\<lparr>className := Some ''variable'', m_begin := Some (bs ''%$%(''),
              m_end := Some (bs ''%)''), contains := Some [Ref hl_BACKSLASH_ESCAPE]\<rparr>) h;
          (QUOTE_STRING, h) = new (no_mode\<lparr>className := Some ''string'', m_begin := Some [CHR 0x22],
              m_end := Some [CHR 0x22], contains := Some [Ref hl_BACKSLASH_ESCAPE, Ref VAR, Ref m3]\<rparr>) h;
          (APOS_STRING, h) = new (no_mode\<lparr>className := Some ''string'', m_begin := Some [CHR 0x27],
              m_end := Some [CHR 0x27]\<rparr>) h;
          IPADDR = bs ''((25[0-5]|(2[0-4]|1{0,1}[0-9]){0,1}[0-9]).){3}(25[0-5]|(2[0-4]|1{0,1}[0-9]){0,1}[0-9])%b'';
          IPADDR_wBITMASK = IPADDR @ bs ''/(3[0-2]|[1-2][0-9]|%d)'';
          (m4, h) = new (no_mode\<lparr>m_begin := Some ''^@'', m_end := Some ''$''\<rparr>) h;
          (m5, h) = new (no_mode\<lparr>m_begin := Some (bs ''%/%*''), m_end := Some (bs ''%*%/'')\<rparr>) h;
          (m6, h) = new (no_mode\<lparr>m_begin := Some ''%%'', m_end := Some ''$''\<rparr>) h;
          (m7, h) = new (no_mode\<lparr>m_begin := Some (''^'' @ [CHR 0x27]), m_end := Some ''$''\<rparr>) h;
          (m8, h) = new (no_mode\<lparr>m_begin := Some (bs ''^%s*%/[%w-]+=''), m_end := Some ''$''\<rparr>) h;
          (m9, h) = new (no_mode\<lparr>m_begin := Some (bs ''%/%/''), m_end := Some ''$''\<rparr>) h;
          (m10, h) = new (no_mode\<lparr>m_begin := Some (bs ''^%[%'' @ ''<''), m_end := Some (bs ''%>%]$'')\<rparr>) h;
          (m11, h) = new (no_mode\<lparr>m_begin := Some (bs ''<%/''), m_end := Some ''>''\<rparr>) h;
          (m12, h) = new (no_mode\<lparr>m_begin := Some ''^facet '', m_end := Some (bs ''%}'')\<rparr>) h;
          (m13, h) = new (no_mode\<lparr>m_begin := Some (bs ''^1%.%.(%d+)$''), m_end := Some ''$''\<rparr>) h;
          (m14, h) = new (no_mode\<lparr>variants := Some [m4, m5, m6, m7, m8, m9, m10, m11, m12, m13],
              illegal := Some ''.''\<rparr>) h;
          (m15, h) = COMMENT ''^#'' ''$'' no_mode h;
          (m16, h) = new (no_mode\<lparr>className := Some ''attribute'', m_begin := Some ''[^=]+''\<rparr>) h;
          (m17, h) = new (no_mode\<lparr>className := Some ''literal'', m_begin := Some (bs ''%b('' @
              join ''|'' (split_char (CHR 0x20) (LITERALS')) @ bs '')%b'')\<rparr>) h;
          (m18, h) = new (no_mode\<lparr>m_begin := Some (''('' @ [CHR 0x22] @ ''[^'' @ [CHR 0x22] @ '']*'' @ [CHR 0x22] @
              bs ''|[^%s%{%}%[%]'' @ '']+)'')\<rparr>) h;
          (m19, h) = new (no_mode\<lparr>m_begin := Some ''='', endsWithParent := Some True, m_relevance := Some 0,
              contains := Some [Ref QUOTE_STRING, Ref APOS_STRING, Ref VAR, Ref m17, Ref m18]\<rparr>) h;
          (m20, h) = new (no_mode\<lparr>m_begin := Some (bs ''[%w-]+%=([^%s%{%}%[%]%(%)]+)''), m_relevance := Some 0,
              returnBegin := Some True, contains := Some [Ref m16, Ref m19]\<rparr>) h;
          (m21, h) = new (no_mode\<lparr>className := Some ''number'', m_begin := Some (bs ''%*[0-9a-fA-F]+'')\<rparr>) h;
          (m22, h) = new (no_mode\<lparr>className := Some ''builtin-name'', m_begin := Some (bs ''%w+'')\<rparr>) h;
          (m23, h) = new (no_mode\<lparr>m_begin := Some (bs ''%b('' @ join ''|'' (split_char (CHR 0x20) COMMON_COMMANDS) @
              bs '')([%s[(]|])''), returnBegin := Some True, contains := Some [Ref m22]\<rparr>) h;
          (m24, h) = new (no_mode\<lparr>m_begin := Some (bs ''(%.%./|/|%s)(('' @ join ''|'' (split_char (CHR 0x20) OBJECTS) @
              bs '');?%s)+''), m_relevance := Some 10\<rparr>) h;
          (m25, h) = new (no_mode\<lparr>m_begin := Some (bs ''%.%.'')\<rparr>) h;
          (m26, h) = new (no_mode\<lparr>className := Some ''built_in'', variants := Some [m24, m25]\<rparr>) h;
          (language, h) = new (no_mode\<lparr>aliases := Some [''routeros'', ''mikrotik''], case_insensitive := Some True,
              lexemes := Some (bs '':?[%w-]+''), m_keywords := Some (KObj [(''literal'', LITERALS'), (''keyword'',
              STATEMENTS @ '' :'' @ join '' :'' (split_char (CHR 0x20) STATEMENTS) @ '' :'' @
              join '' :'' (split_char (CHR 0x20) GLOBAL_COMMANDS))]), contains := Some [Ref m14, Ref m15,
              Ref QUOTE_STRING, Ref APOS_STRING, Ref VAR, Ref m20, Ref m21, Ref m23, Ref m26]\<rparr>) h
      in (language, h))"

definition lang_rsl :: "mstore \<Rightarrow> nat \<times> mstore" where
  "lang_rsl h =
     (let (m1, h) = new (no_mode\<lparr>className := Some ''meta'', m_begin := Some ''#'', m_end := Some ''$''\<rparr>) h;
          (m2, h) = new (no_mode\<lparr>className := Some ''class'',
              beginKeywords := Some ''surface displacement light volume imager'', m_end := Some (bs ''%('')\<rparr>) h;
          (m3, h) = new (no_mode\<lparr>beginKeywords := Some ''illuminate illuminance gather'',
              m_end := Some (bs ''%('')\<rparr>) h;
          (language, h) = new (no_mode\<lparr>m_keywords := Some (KObj [(''keyword'',
              ''float color point normal vector matrix while for if do return else break extern continue''),
              (''built_in'',
              ''abs acos ambient area asin atan atmosphere attribute calculatenormal ceil cellnoise '' @
              ''clamp comp concat cos degrees depth Deriv diffuse distance Du Dv environment exp '' @
              ''faceforward filterstep floor format fresnel incident length lightsource log match '' @
              ''max min mod noise normalize ntransform opposite option phong pnoise pow printf '' @
              ''ptlined radians random reflect refract renderinfo round setcomp setxcomp setycomp '' @
              ''setzcomp shadow sign sin smoothstep specular specularbrdf spline sqrt step tan '' @
              ''texture textureinfo trace transform vtransform xcomp ycomp zcomp'')]), illegal := Some ''</'',
              contains := Some [Ref hl_C_LINE_COMMENT_MODE, Ref hl_C_BLOCK_COMMENT_MODE, Ref hl_QUOTE_STRING_MODE,
              Ref hl_APOS_STRING_MODE, Ref hl_C_NUMBER_MODE, Ref m1, Ref m2, Ref m3]\<rparr>) h
      in (language, h))"

definition lang_ruby :: "mstore \<Rightarrow> nat \<times> mstore" where
  "lang_ruby h =
     (let RUBY_METHOD_RE = bs ''[a-zA-Z_]%w*[!?=]?|[-+~]%@|<<|>>|=~|===?|<=>|[<>]=?|%*%*|[-/+'' @ ''%'' @ ''^&*~'' @
              [CHR 0x60] @ bs ''|]|%[%]=?'';
          (YARDOCTAG, h) = new (no_mode\<lparr>className := Some ''doctag'', m_begin := Some ''@[A-Za-z]+''\<rparr>) h;
          (IRB_OBJECT, h) = new (no_mode\<lparr>m_begin := Some ''#<'', m_end := Some ''>''\<rparr>) h;
          (m1, h) = COMMENT ''#'' ''$'' (no_mode\<lparr>contains := Some [Ref YARDOCTAG]\<rparr>) h;
          (m2, h) = COMMENT (bs ''^%=begin'') (bs ''^%=end'') (no_mode\<lparr>contains := Some [Ref YARDOCTAG],
              m_relevance := Some 10\<rparr>) h;
          (m3, h) = COMMENT ''^__END__'' (bs ''%n$'') no_mode h;
          COMMENT_MODES = [Ref m1, Ref m2, Ref m3];
          RUBY_KEYWORDS = KObj [(''keyword'', ''and then defined module in return redo if BEGIN retry end for self when '' @
              ''next until do begin unless END rescue else break undef not super class case '' @
              ''require yield alias while ensure elsif or include attr_reader attr_writer attr_accessor''),
              (''literal'', ''true false nil'')];
          (SUBST, h) = new (no_mode\<lparr>className := Some ''subst'', m_begin := Some (bs ''#%{''), m_end := Some ''}'',
              m_keywords := Some RUBY_KEYWORDS\<rparr>) h;
          (m4, h) = new (no_mode\<lparr>m_begin := Some [CHR 0x27], m_end := Some [CHR 0x27]\<rparr>) h;
          (m5, h) = new (no_mode\<lparr>m_begin := Some [CHR 0x22], m_end := Some [CHR 0x22]\<rparr>) h;
          (m6, h) = new (no_mode\<lparr>m_begin := Some [CHR 0x60], m_end := Some [CHR 0x60]\<rparr>) h;
          (m7, h) = new (no_mode\<lparr>m_begin := Some (''%'' @ bs ''[qQwWx]?%(''), m_end := Some (bs ''%)'')\<rparr>) h;
          (m8, h) = new (no_mode\<lparr>m_begin := Some (''%'' @ bs ''[qQwWx]?%[''), m_end := Some (bs ''%]'')\<rparr>) h;
          (m9, h) = new (no_mode\<lparr>m_begin := Some ''%[qQwWx]?{'', m_end := Some ''}''\<rparr>) h;
          (m10, h) = new (no_mode\<lparr>m_begin := Some ''%[qQwWx]?<'', m_end := Some ''>''\<rparr>) h;
          (m11, h) = new (no_mode\<lparr>m_begin := Some ''%[qQwWx]?/'', m_end := Some ''/''\<rparr>) h;
          (m12, h) = new (no_mode\<lparr>m_begin := Some ''%[qQwWx]?%'', m_end := Some ''%''\<rparr>) h;
          (m13, h) = new (no_mode\<lparr>m_begin := Some ''%[qQwWx]?-'', m_end := Some ''-''\<rparr>) h;
          (m14, h) = new (no_mode\<lparr>m_begin := Some (''%'' @ bs ''[qQwWx]?%|''), m_end := Some (bs ''%|'')\<rparr>) h;
          (m15,
              h) = new (no_mode\<lparr>m_begin := Some (bs ''%B%?(%%%d{1,3}|%%x[A-Fa-f0-9]{1,2}|%%u[A-Fa-f0-9]{4}|%%?%S)%b'')\<rparr>) h;
          (m16, h) = new (no_mode\<lparr>m_begin := Some (''<<[-~]?'' @ [CHR 0x27] @ ''?'')\<rparr>) h;
          (m17, h) = new (no_mode\<lparr>m_begin := Some (bs ''%w+''), endSameAsBegin := Some True,
              contains := Some [Ref hl_BACKSLASH_ESCAPE, Ref SUBST]\<rparr>) h;
          (m18, h) = new (no_mode\<lparr>m_begin := Some (''<<[-~]?'' @ [CHR 0x27] @ bs ''?(%w+)(?:.|%n)*?%n%s*%1%b''),
              returnBegin := Some True, contains := Some [Ref m16, Ref m17]\<rparr>) h;
          (STRING, h) = new (no_mode\<lparr>className := Some ''string'', contains := Some [Ref hl_BACKSLASH_ESCAPE,
              Ref SUBST], variants := Some [m4, m5, m6, m7, m8, m9, m10, m11, m12, m13, m14, m15, m18]\<rparr>) h;
          (PARAMS, h) = new (no_mode\<lparr>className := Some ''params'', m_begin := Some (bs ''%(''),
              m_end := Some (bs ''%)''), endsParent := Some True, m_keywords := Some RUBY_KEYWORDS\<rparr>) h;
          (m19,
              h) = new (inherit_mode (mode_at h hl_TITLE_MODE) [(no_mode\<lparr>m_begin := Some (bs ''[A-Za-z_]%w*(::%w+)*(%?|%!)?'')\<rparr>)]) h;
          (m20, h) = new (no_mode\<lparr>m_begin := Some (''('' @ IDENT_RE @ ''::)?'' @ IDENT_RE)\<rparr>) h;
          (m21, h) = new (no_mode\<lparr>m_begin := Some (bs ''<%s*''), contains := Some [Ref m20]\<rparr>) h;
          (m22, h) = new (no_mode\<lparr>className := Some ''class'', beginKeywords := Some ''class module'',
              m_end := Some ''$|;'', illegal := Some ''='', contains := Some ([Ref m19, Ref m21] @
              COMMENT_MODES)\<rparr>) h;
          (m23, h) = new (inherit_mode (mode_at h hl_TITLE_MODE) [(no_mode\<lparr>m_begin := Some RUBY_METHOD_RE\<rparr>)]) h;
          (m24, h) = new (no_mode\<lparr>className := Some ''function'', beginKeywords := Some ''def'', m_end := Some ''$|;'',
              contains := Some ([Ref m23, Ref PARAMS] @ COMMENT_MODES)\<rparr>) h;
          (m25, h) = new (no_mode\<lparr>m_begin := Some (IDENT_RE @ ''::'')\<rparr>) h;
          (m26, h) = new (no_mode\<lparr>className := Some ''symbol'', m_begin := Some (UNDERSCORE_IDENT_RE @
              bs ''(%!|%?)?:''), m_relevance := Some 0\<rparr>) h;
          (m27, h) = new (no_mode\<lparr>m_begin := Some RUBY_METHOD_RE\<rparr>) h;
          (m28, h) = new (no_mode\<lparr>className := Some ''symbol'', m_begin := Some (bs '':(?!%s)''),
              contains := Some [Ref STRING, Ref m27], m_relevance := Some 0\<rparr>) h;
          (m29, h) = new (no_mode\<lparr>className := Some ''number'',
              m_begin := Some (bs ''(%b0[0-7_]+)|(%b0x[0-9a-fA-F_]+)|(%b[1-9][0-9_]*(%.[0-9_]+)?)|[0_]%b''),
              m_relevance := Some 0\<rparr>) h;
          (m30, h) = new (no_mode\<lparr>m_begin := Some (bs ''(%$%W)|((%$|%@%@?)(%w+))'')\<rparr>) h;
          (m31, h) = new (no_mode\<lparr>className := Some ''params'', m_begin := Some (bs ''%|''), m_end := Some (bs ''%|''),
              m_keywords := Some RUBY_KEYWORDS\<rparr>) h;
          (m32, h) = new (no_mode\<lparr>m_begin := Some ''/'', m_end := Some ''/[a-z]*''\<rparr>) h;
          (m33, h) = new (no_mode\<lparr>m_begin := Some ''%r{'', m_end := Some ''}[a-z]*''\<rparr>) h;
          (m34, h) = new (no_mode\<lparr>m_begin := Some (''%'' @ bs ''r%(''), m_end := Some (bs ''%)[a-z]*'')\<rparr>) h;
          (m35, h) = new (no_mode\<lparr>m_begin := Some ''%r!'', m_end := Some ''![a-z]*''\<rparr>) h;
          (m36, h) = new (no_mode\<lparr>m_begin := Some (''%'' @ bs ''r%[''), m_end := Some (bs ''%][a-z]*'')\<rparr>) h;
          (m37, h) = new (no_mode\<lparr>className := Some ''regexp'', contains := Some [Ref hl_BACKSLASH_ESCAPE, Ref SUBST],
              illegal := Some (bs ''%n''), variants := Some [m32, m33, m34, m35, m36]\<rparr>) h;
          (m38, h) = new (no_mode\<lparr>m_begin := Some (''('' @ RE_STARTERS_RE @ bs ''|unless)%s*''),
              m_keywords := Some (KStr ''unless''), contains := Some ([Ref IRB_OBJECT, Ref m37] @ COMMENT_MODES),
              m_relevance := Some 0\<rparr>) h;
          RUBY_DEFAULT_CONTAINS = [Ref STRING, Ref IRB_OBJECT, Ref m22, Ref m24, Ref m25, Ref m26, Ref m28, Ref m29, Ref m30,
              Ref m31, Ref m38] @ COMMENT_MODES;
          h = upd SUBST (\<lambda>m. m\<lparr>contains := Some RUBY_DEFAULT_CONTAINS\<rparr>) h;
          h = upd PARAMS (\<lambda>m. m\<lparr>contains := Some RUBY_DEFAULT_CONTAINS\<rparr>) h;
          SIMPLE_PROMPT = ''[>?]>'';
          DEFAULT_PROMPT = bs ''[%w#]+%(%w+%):%d+:%d+>'';
          RVM_PROMPT = bs ''(%w+-)?%d+%.%d+%.%d(p%d+)?[^>]+>'';
          (m39, h) = new (no_mode\<lparr>m_end := Some ''$'', contains := Some RUBY_DEFAULT_CONTAINS\<rparr>) h;
          (m40, h) = new (no_mode\<lparr>m_begin := Some (bs ''^%s*=>''), starts := Some m39\<rparr>) h;
          (m41, h) = new (no_mode\<lparr>m_end := Some ''$'', contains := Some RUBY_DEFAULT_CONTAINS\<rparr>) h;
          (m42, h) = new (no_mode\<lparr>className := Some ''meta'', m_begin := Some (''^('' @ SIMPLE_PROMPT @ ''|'' @
              DEFAULT_PROMPT @ ''|'' @ RVM_PROMPT @ '')''), starts := Some m41\<rparr>) h;
          IRB_DEFAULT = [Ref m40, Ref m42];
          (language, h) = new (no_mode\<lparr>aliases := Some [''rb'', ''gemspec'', ''podspec'', ''thor'', ''irb''],
              m_keywords := Some RUBY_KEYWORDS, illegal := Some (bs ''%/%*''), contains := Some (COMMENT_MODES @
              IRB_DEFAULT @ RUBY_DEFAULT_CONTAINS)\<rparr>) h
      in (language, h))"

definition lang_ruleslanguage :: "mstore \<Rightarrow> nat \<times> mstore" where
  "lang_ruleslanguage h =
     (let (m1, h) = new (no_mode\<lparr>m_begin := Some (bs ''#%s+[a-zA-Z% %.]*''), m_relevance := Some 0\<rparr>) h;
          (m2, h) = new (no_mode\<lparr>m_begin := Some (bs ''#[a-zA-Z% %.]+'')\<rparr>) h;
          (m3, h) = new (no_mode\<lparr>className := Some ''literal'', variants := Some [m1, m2]\<rparr>) h;
          (language, h) = new (no_mode\<lparr>m_keywords := Some (KObj [(''keyword'',
              ''BILL_PERIOD BILL_START BILL_STOP RS_EFFECTIVE_START RS_EFFECTIVE_STOP RS_JURIS_CODE RS_OPCO_CODE '' @
              ''INTDADDATTRIBUTE|5 INTDADDVMSG|5 INTDBLOCKOP|5 INTDBLOCKOPNA|5 INTDCLOSE|5 INTDCOUNT|5 '' @
              ''INTDCOUNTSTATUSCODE|5 INTDCREATEMASK|5 INTDCREATEDAYMASK|5 INTDCREATEFACTORMASK|5 '' @
              ''INTDCREATEHANDLE|5 INTDCREATEOVERRIDEDAYMASK|5 INTDCREATEOVERRIDEMASK|5 '' @
              ''INTDCREATESTATUSCODEMASK|5 INTDCREATETOUPERIOD|5 INTDDELETE|5 INTDDIPTEST|5 INTDEXPORT|5 '' @
              ''INTDGETERRORCODE|5 INTDGETERRORMESSAGE|5 INTDISEQUAL|5 INTDJOIN|5 INTDLOAD|5 INTDLOADACTUALCUT|5 '' @
              ''INTDLOADDATES|5 INTDLOADHIST|5 INTDLOADLIST|5 INTDLOADLISTDATES|5 INTDLOADLISTENERGY|5 '' @
              ''INTDLOADLISTHIST|5 INTDLOADRELATEDCHANNEL|5 INTDLOADSP|5 INTDLOADSTAGING|5 INTDLOADUOM|5 '' @
              ''INTDLOADUOMDATES|5 INTDLOADUOMHIST|5 INTDLOADVERSION|5 INTDOPEN|5 INTDREADFIRST|5 INTDREADNEXT|5 '' @
              ''INTDRECCOUNT|5 INTDRELEASE|5 INTDREPLACE|5 INTDROLLAVG|5 INTDROLLPEAK|5 INTDSCALAROP|5 INTDSCALE|5 '' @
              ''INTDSETATTRIBUTE|5 INTDSETDSTPARTICIPANT|5 INTDSETSTRING|5 INTDSETVALUE|5 INTDSETVALUESTATUS|5 '' @
              ''INTDSHIFTSTARTTIME|5 INTDSMOOTH|5 INTDSORT|5 INTDSPIKETEST|5 INTDSUBSET|5 INTDTOU|5 '' @
              ''INTDTOURELEASE|5 INTDTOUVALUE|5 INTDUPDATESTATS|5 INTDVALUE|5 STDEV INTDDELETEEX|5 '' @
              ''INTDLOADEXACTUAL|5 INTDLOADEXCUT|5 INTDLOADEXDATES|5 INTDLOADEX|5 INTDLOADEXRELATEDCHANNEL|5 '' @
              ''INTDSAVEEX|5 MVLOAD|5 MVLOADACCT|5 MVLOADACCTDATES|5 MVLOADACCTHIST|5 MVLOADDATES|5 MVLOADHIST|5 '' @
              ''MVLOADLIST|5 MVLOADLISTDATES|5 MVLOADLISTHIST|5 IF FOR NEXT DONE SELECT END CALL ABORT CLEAR '' @
              ''CHANNEL FACTOR LIST NUMBER '' @
              ''OVERRIDE SET WEEK DISTRIBUTIONNODE ELSE WHEN THEN OTHERWISE IENUM CSV INCLUDE LEAVE RIDER SAVE DELETE '' @
              ''NOVALUE SECTION WARN SAVE_UPDATE DETERMINANT LABEL REPORT REVENUE EACH '' @
              ''IN FROM TOTAL CHARGE BLOCK AND OR CSV_FILE RATE_CODE AUXILIARY_DEMAND '' @
              ''UIDACCOUNT RS BILL_PERIOD_SELECT HOURS_PER_MONTH INTD_ERROR_STOP SEASON_SCHEDULE_NAME '' @
              ''ACCOUNTFACTOR ARRAYUPPERBOUND CALLSTOREDPROC GETADOCONNECTION GETCONNECT GETDATASOURCE '' @
              ''GETQUALIFIER GETUSERID HASVALUE LISTCOUNT LISTOP LISTUPDATE LISTVALUE PRORATEFACTOR RSPRORATE '' @
              ''SETBINPATH SETDBMONITOR WQ_OPEN BILLINGHOURS DATE DATEFROMFLOAT DATETIMEFROMSTRING '' @
              ''DATETIMETOSTRING DATETOFLOAT DAY DAYDIFF DAYNAME DBDATETIME HOUR MINUTE MONTH MONTHDIFF '' @
              ''MONTHHOURS MONTHNAME ROUNDDATE SAMEWEEKDAYLASTYEAR SECOND WEEKDAY WEEKDIFF YEAR YEARDAY '' @
              ''YEARSTR COMPSUM HISTCOUNT HISTMAX HISTMIN HISTMINNZ HISTVALUE MAXNRANGE MAXRANGE MINRANGE '' @
              ''COMPIKVA COMPKVA COMPKVARFROMKQKW COMPLF IDATTR FLAG LF2KW LF2KWH MAXKW POWERFACTOR '' @
              ''READING2USAGE AVGSEASON MAXSEASON MONTHLYMERGE SEASONVALUE SUMSEASON ACCTREADDATES '' @
              ''ACCTTABLELOAD CONFIGADD CONFIGGET CREATEOBJECT CREATEREPORT EMAILCLIENT EXPBLKMDMUSAGE '' @
              ''EXPMDMUSAGE EXPORT_USAGE FACTORINEFFECT GETUSERSPECIFIEDSTOP INEFFECT ISHOLIDAY RUNRATE '' @
              ''SAVE_PROFILE SETREPORTTITLE USEREXIT WATFORRUNRATE TO TABLE ACOS ASIN ATAN ATAN2 BITAND CEIL '' @
              ''COS COSECANT COSH COTANGENT DIVQUOT DIVREM EXP FABS FLOOR FMOD FREPM FREXPN LOG LOG10 MAX MAXN '' @
              ''MIN MINNZ MODF POW ROUND ROUND2VALUE ROUNDINT SECANT SIN SINH SQROOT TAN TANH FLOAT2STRING '' @
              ''FLOAT2STRINGNC INSTR LEFT LEN LTRIM MID RIGHT RTRIM STRING STRINGNC TOLOWER TOUPPER TRIM '' @
              ''NUMDAYS READ_DATE STAGING''), (''built_in'',
              ''IDENTIFIER OPTIONS XML_ELEMENT XML_OP XML_ELEMENT_OF DOMDOCCREATE DOMDOCLOADFILE DOMDOCLOADXML '' @
              ''DOMDOCSAVEFILE DOMDOCGETROOT DOMDOCADDPI DOMNODEGETNAME DOMNODEGETTYPE DOMNODEGETVALUE DOMNODEGETCHILDCT '' @
              ''DOMNODEGETFIRSTCHILD DOMNODEGETSIBLING DOMNODECREATECHILDELEMENT DOMNODESETATTRIBUTE '' @
              ''DOMNODEGETCHILDELEMENTCT DOMNODEGETFIRSTCHILDELEMENT DOMNODEGETSIBLINGELEMENT DOMNODEGETATTRIBUTECT '' @
              ''DOMNODEGETATTRIBUTEI DOMNODEGETATTRIBUTEBYNAME DOMNODEGETBYNAME'')]),
              contains := Some [Ref hl_C_LINE_COMMENT_MODE, Ref hl_C_BLOCK_COMMENT_MODE, Ref hl_APOS_STRING_MODE,
              Ref hl_QUOTE_STRING_MODE, Ref hl_C_NUMBER_MODE, Ref m3]\<rparr>) h
      in (language, h))"

definition lang_rust :: "mstore \<Rightarrow> nat \<times> mstore" where
  "lang_rust h =
     (let NUM_SUFFIX = ''([ui](8|16|32|64|128|size)|f(32|64))?'';
          KEYWORDS = ''abstract as async await become box break const continue crate do dyn '' @
              ''else enum extern false final fn for if impl in let loop macro match mod '' @
              ''move mut override priv pub ref return self Self static struct super '' @
              ''trait true try type typeof unsafe unsized use virtual where while yield'';
          BUILTINS = ''drop '' @ ''i8 i16 i32 i64 i128 isize '' @ ''u8 u16 u32 u64 u128 usize '' @ ''f32 f64 '' @
              ''str char bool '' @ ''Box Option Result String Vec '' @
              ''Copy Send Sized Sync Drop Fn FnMut FnOnce ToOwned Clone Debug '' @
              ''PartialEq PartialOrd Eq Ord AsRef AsMut Into From Default Iterator '' @
              ''Extend IntoIterator DoubleEndedIterator ExactSizeIterator '' @ ''SliceConcatExt ToString '' @
              ''assert! assert_eq! bitflags! bytes! cfg! col! concat! concat_idents! '' @
              ''debug_assert! debug_assert_eq! env! panic! file! format! format_args! '' @
              ''include_bin! include_str! line! local_data_key! module_path! '' @
              ''option_env! print! println! select! stringify! try! unimplemented! '' @
              ''unreachable! vec! write! writeln! macro_rules! assert_ne! debug_assert_ne!'';
          (m1, h) = COMMENT (bs ''/%*'') (bs ''%*/'') (no_mode\<lparr>contains := Some [Self]\<rparr>) h;
          (m2, h) = new (inherit_mode (mode_at h hl_QUOTE_STRING_MODE) [(no_mode\<lparr>m_begin := Some (''b?'' @ [CHR 0x22]),
              illegal := Some []\<rparr>)]) h;
          (m3, h) = new (no_mode\<lparr>m_begin := Some (''r(#*'' @ '')'' @ [CHR 0x22] @ bs ''(.|%n)*?'' @ [CHR 0x22] @
              bs ''%1(?!#)'')\<rparr>) h;
          (m4, h) = new (no_mode\<lparr>m_begin := Some (''b?'' @ [CHR 0x27] @ bs ''%%?(x%w{2}|u%w{4}|U%w{8}|.)'' @
              [CHR 0x27])\<rparr>) h;
          (m5, h) = new (no_mode\<lparr>className := Some ''string'', variants := Some [m3, m4]\<rparr>) h;
          (m6, h) = new (no_mode\<lparr>className := Some ''symbol'', m_begin := Some ([CHR 0x27] @
              ''[a-zA-Z_][a-zA-Z0-9_]*'')\<rparr>) h;
          (m7, h) = new (no_mode\<lparr>m_begin := Some (bs ''%b0b([01_]+)'' @ NUM_SUFFIX)\<rparr>) h;
          (m8, h) = new (no_mode\<lparr>m_begin := Some (bs ''%b0o([0-7_]+)'' @ NUM_SUFFIX)\<rparr>) h;
          (m9, h) = new (no_mode\<lparr>m_begin := Some (bs ''%b0x([A-Fa-f0-9_]+)'' @ NUM_SUFFIX)\<rparr>) h;
          (m10, h) = new (no_mode\<lparr>m_begin := Some (bs ''%b(%d[%d_]*(%.[0-9_]+)?([eE][+-]?[0-9_]+)?)'' @
              NUM_SUFFIX)\<rparr>) h;
          (m11, h) = new (no_mode\<lparr>className := Some ''number'', variants := Some [m7, m8, m9, m10],
              m_relevance := Some 0\<rparr>) h;
          (m12, h) = new (no_mode\<lparr>className := Some ''function'', beginKeywords := Some ''fn'',
              m_end := Some (bs ''(%(|<)''), excludeEnd := Some True,
              contains := Some [Ref hl_UNDERSCORE_TITLE_MODE]\<rparr>) h;
          (m13, h) = new (no_mode\<lparr>className := Some ''meta-string'', m_begin := Some [CHR 0x22],
              m_end := Some [CHR 0x22]\<rparr>) h;
          (m14, h) = new (no_mode\<lparr>className := Some ''meta'', m_begin := Some (bs ''#%!?%[''),
              m_end := Some (bs ''%]''), contains := Some [Ref m13]\<rparr>) h;
          (m15, h) = new (inherit_mode (mode_at h hl_UNDERSCORE_TITLE_MODE) [(no_mode\<lparr>endsParent := Some True\<rparr>)]) h;
          (m16, h) = new (no_mode\<lparr>className := Some ''class'', beginKeywords := Some ''type'', m_end := Some '';'',
              contains := Some [Ref m15], illegal := Some (bs ''%S'')\<rparr>) h;
          (m17, h) = new (inherit_mode (mode_at h hl_UNDERSCORE_TITLE_MODE) [(no_mode\<lparr>endsParent := Some True\<rparr>)]) h;
          (m18, h) = new (no_mode\<lparr>className := Some ''class'', beginKeywords := Some ''trait enum struct union'',
              m_end := Some ''{'', contains := Some [Ref m17], illegal := Some (bs ''[%w%d]'')\<rparr>) h;
          (m19, h) = new (no_mode\<lparr>m_begin := Some (IDENT_RE @ ''::''), m_keywords := Some (KObj [(''built_in'',
              BUILTINS)])\<rparr>) h;
          (m20, h) = new (no_mode\<lparr>m_begin := Some ''->''\<rparr>) h;
          (language, h) = new (no_mode\<lparr>aliases := Some [''rs''], m_keywords := Some (KObj [(''keyword'', KEYWORDS),
              (''literal'', ''true false Some None Ok Err''), (''built_in'', BUILTINS)]), lexemes := Some (IDENT_RE @
              ''!?''), illegal := Some ''</'', contains := Some [Ref hl_C_LINE_COMMENT_MODE, Ref m1, Ref m2, Ref m5,
              Ref m6, Ref m11, Ref m12, Ref m14, Ref m16, Ref m18, Ref m19, Ref m20]\<rparr>) h
      in (language, h))"

definition lang_sas :: "mstore \<Rightarrow> nat \<times> mstore" where
  "lang_sas h =
     (let SAS_KEYWORDS = [] @ ''do if then else end until while '' @ [] @
              ''abort array attrib by call cards cards4 catname continue '' @
              ''datalines datalines4 delete delim delimiter display dm drop '' @
              ''endsas error file filename footnote format goto in infile '' @
              ''informat input keep label leave length libname link list '' @
              ''lostcard merge missing modify options output out page put '' @
              ''redirect remove rename replace retain return select set skip '' @
              ''startsas stop title update waitsas where window x systask '' @ [] @
              ''add and alter as cascade check create delete describe '' @
              ''distinct drop foreign from group having index insert into in '' @
              ''key like message modify msgtype not null on or order primary '' @
              ''references reset restrict select set table unique update '' @ ''validate view where'';
          SAS_FUN = [] @ ''abs|addr|airy|arcos|arsin|atan|attrc|attrn|band|'' @
              ''betainv|blshift|bnot|bor|brshift|bxor|byte|cdf|ceil|'' @
              ''cexist|cinv|close|cnonct|collate|compbl|compound|'' @
              ''compress|cos|cosh|css|curobs|cv|daccdb|daccdbsl|'' @
              ''daccsl|daccsyd|dacctab|dairy|date|datejul|datepart|'' @
              ''datetime|day|dclose|depdb|depdbsl|depdbsl|depsl|'' @
              ''depsl|depsyd|depsyd|deptab|deptab|dequote|dhms|dif|'' @
              ''digamma|dim|dinfo|dnum|dopen|doptname|doptnum|dread|'' @
              ''dropnote|dsname|erf|erfc|exist|exp|fappend|fclose|'' @
              ''fcol|fdelete|fetch|fetchobs|fexist|fget|fileexist|'' @
              ''filename|fileref|finfo|finv|fipname|fipnamel|'' @
              ''fipstate|floor|fnonct|fnote|fopen|foptname|foptnum|'' @
              ''fpoint|fpos|fput|fread|frewind|frlen|fsep|fuzz|'' @
              ''fwrite|gaminv|gamma|getoption|getvarc|getvarn|hbound|'' @
              ''hms|hosthelp|hour|ibessel|index|indexc|indexw|input|'' @
              ''inputc|inputn|int|intck|intnx|intrr|irr|jbessel|'' @
              ''juldate|kurtosis|lag|lbound|left|length|lgamma|'' @
              ''libname|libref|log|log10|log2|logpdf|logpmf|logsdf|'' @
              ''lowcase|max|mdy|mean|min|minute|mod|month|mopen|'' @
              ''mort|n|netpv|nmiss|normal|note|npv|open|ordinal|'' @
              ''pathname|pdf|peek|peekc|pmf|point|poisson|poke|'' @
              ''probbeta|probbnml|probchi|probf|probgam|probhypr|'' @
              ''probit|probnegb|probnorm|probt|put|putc|putn|qtr|'' @
              ''quote|ranbin|rancau|ranexp|rangam|range|rank|rannor|'' @
              ''ranpoi|rantbl|rantri|ranuni|repeat|resolve|reverse|'' @
              ''rewind|right|round|saving|scan|sdf|second|sign|'' @
              ''sin|sinh|skewness|soundex|spedis|sqrt|std|stderr|'' @
              ''stfips|stname|stnamel|substr|sum|symget|sysget|'' @
              ''sysmsg|sysprod|sysrc|system|tan|tanh|time|timepart|'' @
              ''tinv|tnonct|today|translate|tranwrd|trigamma|'' @
              ''trim|trimn|trunc|uniform|upcase|uss|var|varfmt|'' @
              ''varinfmt|varlabel|varlen|varname|varnum|varray|'' @
              ''varrayx|vartype|verify|vformat|vformatd|vformatdx|'' @
              ''vformatn|vformatnx|vformatw|vformatwx|vformatx|'' @
              ''vinarray|vinarrayx|vinformat|vinformatd|vinformatdx|'' @
              ''vinformatn|vinformatnx|vinformatw|vinformatwx|'' @
              ''vinformatx|vlabel|vlabelx|vlength|vlengthx|vname|'' @
              ''vnamex|vtype|vtypex|weekday|year|yyq|zipfips|zipname|'' @ ''zipnamel|zipstate'';
          SAS_MACRO_FUN = ''bquote|nrbquote|cmpres|qcmpres|compstor|'' @ ''datatyp|display|do|else|end|eval|global|goto|'' @
              ''if|index|input|keydef|label|left|length|let|'' @ ''local|lowcase|macro|mend|nrbquote|nrquote|'' @
              ''nrstr|put|qcmpres|qleft|qlowcase|qscan|'' @ ''qsubstr|qsysfunc|qtrim|quote|qupcase|scan|str|'' @
              ''substr|superq|syscall|sysevalf|sysexec|sysfunc|'' @
              ''sysget|syslput|sysprod|sysrc|sysrput|then|to|'' @ ''trim|unquote|until|upcase|verify|while|window'';
          (m1, h) = new (no_mode\<lparr>className := Some ''keyword'',
              m_begin := Some (bs ''^%s*(proc [%w%d_]+|data|run|quit)[%s%;]'')\<rparr>) h;
          (m2, h) = new (no_mode\<lparr>className := Some ''variable'',
              m_begin := Some (bs ''%&[a-zA-Z_%&][a-zA-Z0-9_]*%.?'')\<rparr>) h;
          (m3, h) = new (no_mode\<lparr>className := Some ''emphasis'', m_begin := Some (bs ''^%s*datalines|cards.*;''),
              m_end := Some (bs ''^%s*;%s*$'')\<rparr>) h;
          (m4, h) = new (no_mode\<lparr>className := Some ''built_in'', m_begin := Some (''%('' @ SAS_MACRO_FUN @
              '')'')\<rparr>) h;
          (m5, h) = new (no_mode\<lparr>className := Some ''name'', m_begin := Some ''%[a-zA-Z_][a-zA-Z_0-9]*''\<rparr>) h;
          (m6, h) = new (no_mode\<lparr>className := Some ''meta'', m_begin := Some (''[^%]('' @ SAS_FUN @ '')[(]'')\<rparr>) h;
          (m7, h) = new (no_mode\<lparr>className := Some ''string'', variants := Some [hl_APOS_STRING_MODE,
              hl_QUOTE_STRING_MODE]\<rparr>) h;
          (m8, h) = COMMENT (bs ''%*'') '';'' no_mode h;
          (language, h) = new (no_mode\<lparr>aliases := Some [''sas'', ''SAS''], case_insensitive := Some True,
              m_keywords := Some (KObj [(''literal'', ''null missing _all_ _automatic_ _character_ _infile_ '' @
              ''_n_ _name_ _null_ _numeric_ _user_ _webout_''), (''meta'', SAS_KEYWORDS)]), contains := Some [Ref m1,
              Ref m2, Ref m3, Ref m4, Ref m5, Ref m6, Ref m7, Ref m8, Ref hl_C_BLOCK_COMMENT_MODE]\<rparr>) h
      in (language, h))"

definition lang_scala :: "mstore \<Rightarrow> nat \<times> mstore" where
  "lang_scala h =
     (let (ANNOTATION, h) = new (no_mode\<lparr>className := Some ''meta'', m_begin := Some ''@[A-Za-z]+''\<rparr>) h;
          (m1, h) = new (no_mode\<lparr>m_begin := Some (bs ''%$[A-Za-z0-9_]+'')\<rparr>) h;
          (m2, h) = new (no_mode\<lparr>m_begin := Some (bs ''%${''), m_end := Some ''}''\<rparr>) h;
          (SUBST, h) = new (no_mode\<lparr>className := Some ''subst'', variants := Some [m1, m2]\<rparr>) h;
          (m3, h) = new (no_mode\<lparr>m_begin := Some [CHR 0x22], m_end := Some [CHR 0x22], illegal := Some (bs ''%n''),
              contains := Some [Ref hl_BACKSLASH_ESCAPE]\<rparr>) h;
          (m4, h) = new (no_mode\<lparr>m_begin := Some [CHR 0x22, CHR 0x22, CHR 0x22], m_end := Some [CHR 0x22, CHR 0x22,
              CHR 0x22], m_relevance := Some 10\<rparr>) h;
          (m5, h) = new (no_mode\<lparr>m_begin := Some (''[a-z]+'' @ [CHR 0x22]), m_end := Some [CHR 0x22],
              illegal := Some (bs ''%n''), contains := Some [Ref hl_BACKSLASH_ESCAPE, Ref SUBST]\<rparr>) h;
          (m6, h) = new (no_mode\<lparr>className := Some ''string'', m_begin := Some (''[a-z]+'' @ [CHR 0x22, CHR 0x22,
              CHR 0x22]), m_end := Some [CHR 0x22, CHR 0x22, CHR 0x22], contains := Some [Ref SUBST],
              m_relevance := Some 10\<rparr>) h;
          (STRING, h) = new (no_mode\<lparr>className := Some ''string'', variants := Some [m3, m4, m5, m6]\<rparr>) h;
          (SYMBOL, h) = new (no_mode\<lparr>className := Some ''symbol'', m_begin := Some ([CHR 0x27] @ bs ''%w[%w%d_]*(?!'' @
              [CHR 0x27] @ '')'')\<rparr>) h;
          (v_TYPE, h) = new (no_mode\<lparr>className := Some ''type'', m_begin := Some (bs ''%b[A-Z][A-Za-z0-9_]*''),
              m_relevance := Some 0\<rparr>) h;
          (NAME, h) = new (no_mode\<lparr>className := Some ''title'', m_begin := Some (bs ''[^0-9%n%t '' @ [CHR 0x22,
              CHR 0x27] @ ''(),.'' @ [CHR 0x60] @ bs ''{}%[%]:;][^%n%t '' @ [CHR 0x22, CHR 0x27] @ ''(),.'' @
              [CHR 0x60] @ bs ''{}%[%]:;]+|[^0-9%n%t '' @ [CHR 0x22, CHR 0x27] @ ''(),.'' @ [CHR 0x60] @
              bs ''{}%[%]:;=]''), m_relevance := Some 0\<rparr>) h;
          (m7, h) = new (no_mode\<lparr>beginKeywords := Some ''extends with'', m_relevance := Some 10\<rparr>) h;
          (m8, h) = new (no_mode\<lparr>m_begin := Some (bs ''%[''), m_end := Some (bs ''%]''), excludeBegin := Some True,
              excludeEnd := Some True, m_relevance := Some 0, contains := Some [Ref v_TYPE]\<rparr>) h;
          (m9, h) = new (no_mode\<lparr>className := Some ''params'', m_begin := Some (bs ''%(''), m_end := Some (bs ''%)''),
              excludeBegin := Some True, excludeEnd := Some True, m_relevance := Some 0,
              contains := Some [Ref v_TYPE]\<rparr>) h;
          (CLASS, h) = new (no_mode\<lparr>className := Some ''class'', beginKeywords := Some ''class object trait type'',
              m_end := Some (bs ''[:={%[%n;]''), excludeEnd := Some True, contains := Some [Ref m7, Ref m8, Ref m9,
              Ref NAME]\<rparr>) h;
          (METHOD, h) = new (no_mode\<lparr>className := Some ''function'', beginKeywords := Some ''def'',
              m_end := Some (bs ''[:={%[(%n;]''), excludeEnd := Some True, contains := Some [Ref NAME]\<rparr>) h;
          (language, h) = new (no_mode\<lparr>m_keywords := Some (KObj [(''literal'', ''true false null''), (''keyword'',
              ''type yield lazy override def with val var sealed abstract private trait object if forSome for while '' @
              ''throw finally protected extends import final return else break new catch super class case package '' @
              ''default try this match continue throws implicit'')]), contains := Some [Ref hl_C_LINE_COMMENT_MODE,
              Ref hl_C_BLOCK_COMMENT_MODE, Ref STRING, Ref SYMBOL, Ref v_TYPE, Ref METHOD, Ref CLASS,
              Ref hl_C_NUMBER_MODE, Ref ANNOTATION]\<rparr>) h
      in (language, h))"

definition lang_scheme :: "mstore \<Rightarrow> nat \<times> mstore" where
  "lang_scheme h =
     (let SCHEME_IDENT_RE = bs ''[^%(%)%[%]%{%}'' @ [CHR 0x22] @ '','' @ [CHR 0x27, CHR 0x60] @ bs '';#|%%%s]+'';
          SCHEME_SIMPLE_NUMBER_RE = bs ''(%-|%+)?%d+([./]%d+)?'';
          SCHEME_COMPLEX_NUMBER_RE = SCHEME_SIMPLE_NUMBER_RE @ bs ''[+%-]'' @ SCHEME_SIMPLE_NUMBER_RE @ ''i'';
          (SHEBANG, h) = new (no_mode\<lparr>className := Some ''meta'', m_begin := Some ''^#!'', m_end := Some ''$''\<rparr>) h;
          (LITERAL, h) = new (no_mode\<lparr>className := Some ''literal'', m_begin := Some (bs ''(#t|#f|#%%'' @
              SCHEME_IDENT_RE @ bs ''|#%%.)'')\<rparr>) h;
          (m1, h) = new (no_mode\<lparr>m_begin := Some SCHEME_SIMPLE_NUMBER_RE, m_relevance := Some 0\<rparr>) h;
          (m2, h) = new (no_mode\<lparr>m_begin := Some SCHEME_COMPLEX_NUMBER_RE, m_relevance := Some 0\<rparr>) h;
          (m3, h) = new (no_mode\<lparr>m_begin := Some ''#b[0-1]+(/[0-1]+)?''\<rparr>) h;
          (m4, h) = new (no_mode\<lparr>m_begin := Some ''#o[0-7]+(/[0-7]+)?''\<rparr>) h;
          (m5, h) = new (no_mode\<lparr>m_begin := Some ''#x[0-9a-f]+(/[0-9a-f]+)?''\<rparr>) h;
          (NUMBER, h) = new (no_mode\<lparr>className := Some ''number'', variants := Some [m1, m2, m3, m4, m5]\<rparr>) h;
          (REGULAR_EXPRESSION, h) = new (no_mode\<lparr>className := Some ''regexp'', m_begin := Some (''#[pr]x'' @
              [CHR 0x22]), m_end := Some (bs ''[^%%]'' @ [CHR 0x22])\<rparr>) h;
          (m6, h) = COMMENT '';'' ''$'' (no_mode\<lparr>m_relevance := Some 0\<rparr>) h;
          (m7, h) = COMMENT (bs ''#%|'') (bs ''%|#'') no_mode h;
          COMMENT_MODES = [Ref m6, Ref m7];
          (IDENT, h) = new (no_mode\<lparr>m_begin := Some SCHEME_IDENT_RE, m_relevance := Some 0\<rparr>) h;
          (QUOTED_IDENT, h) = new (no_mode\<lparr>className := Some ''symbol'', m_begin := Some ([CHR 0x27] @
              SCHEME_IDENT_RE)\<rparr>) h;
          (BODY, h) = new (no_mode\<lparr>endsWithParent := Some True, m_relevance := Some 0\<rparr>) h;
          (m8, h) = new (no_mode\<lparr>m_begin := Some [CHR 0x27]\<rparr>) h;
          (m9, h) = new (no_mode\<lparr>m_begin := Some [CHR 0x60]\<rparr>) h;
          (m10, h) = new (no_mode\<lparr>m_begin := Some (bs ''%(''), m_end := Some (bs ''%)''), contains := Some [Self,
              Ref LITERAL, Ref hl_QUOTE_STRING_MODE, Ref NUMBER, Ref IDENT, Ref QUOTED_IDENT]\<rparr>) h;
          (QUOTED_LIST, h) = new (no_mode\<lparr>variants := Some [m8, m9], contains := Some [Ref m10]\<rparr>) h;
          BUILTINS = KObj [(''builtin-name'', ''case-lambda call/cc class define-class exit-handler field import '' @
              ''inherit init-field interface let*-values let-values let/ec mixin '' @
              ''opt-lambda override protect provide public rename require '' @
              ''require-for-syntax syntax syntax-case syntax-error unit/sig unless '' @
              ''when with-syntax and begin call-with-current-continuation '' @
              ''call-with-input-file call-with-output-file case cond define '' @
              ''define-syntax delay do dynamic-wind else for-each if lambda let let* '' @
              ''let-syntax letrec letrec-syntax map or syntax-rules '' @ [CHR 0x27] @ '' * + , ,@ - ... / '' @
              ''; < <= = => > >= '' @ [CHR 0x60] @ '' abs acos angle append apply asin assoc assq assv atan '' @
              ''boolean? caar cadr call-with-input-file call-with-output-file '' @
              ''call-with-values car cdddar cddddr cdr ceiling char->integer '' @
              ''char-alphabetic? char-ci<=? char-ci<? char-ci=? char-ci>=? char-ci>? '' @
              ''char-downcase char-lower-case? char-numeric? char-ready? char-upcase '' @
              ''char-upper-case? char-whitespace? char<=? char<? char=? char>=? char>? '' @
              ''char? close-input-port close-output-port complex? cons cos '' @
              ''current-input-port current-output-port denominator display eof-object? '' @
              ''eq? equal? eqv? eval even? exact->inexact exact? exp expt floor '' @
              ''force gcd imag-part inexact->exact inexact? input-port? integer->char '' @
              ''integer? interaction-environment lcm length list list->string '' @
              ''list->vector list-ref list-tail list? load log magnitude make-polar '' @
              ''make-rectangular make-string make-vector max member memq memv min '' @
              ''modulo negative? newline not null-environment null? number->string '' @
              ''number? numerator odd? open-input-file open-output-file output-port? '' @
              ''pair? peek-char port? positive? procedure? quasiquote quote quotient '' @
              ''rational? rationalize read read-char real-part real? remainder reverse '' @
              ''round scheme-report-environment set! set-car! set-cdr! sin sqrt string '' @
              ''string->list string->number string->symbol string-append string-ci<=? '' @
              ''string-ci<? string-ci=? string-ci>=? string-ci>? string-copy '' @
              ''string-fill! string-length string-ref string-set! string<=? string<? '' @
              ''string=? string>=? string>? string? substring symbol->string symbol? '' @
              ''tan transcript-off transcript-on truncate values vector '' @
              ''vector->list vector-fill! vector-length vector-ref vector-set! '' @
              ''with-input-from-file with-output-to-file write write-char zero?'')];
          (NAME, h) = new (no_mode\<lparr>className := Some ''name'', m_begin := Some SCHEME_IDENT_RE,
              lexemes := Some SCHEME_IDENT_RE, m_keywords := Some BUILTINS\<rparr>) h;
          (m11, h) = new (no_mode\<lparr>m_begin := Some (bs ''%(''), m_end := Some (bs ''%)''), endsParent := Some True,
              contains := Some [Ref IDENT]\<rparr>) h;
          (LAMBDA, h) = new (no_mode\<lparr>m_begin := Some ''lambda'', endsWithParent := Some True, returnBegin := Some True,
              contains := Some [Ref NAME, Ref m11]\<rparr>) h;
          (m12, h) = new (no_mode\<lparr>m_begin := Some (bs ''%(''), m_end := Some (bs ''%)'')\<rparr>) h;
          (m13, h) = new (no_mode\<lparr>m_begin := Some (bs ''%[''), m_end := Some (bs ''%]'')\<rparr>) h;
          (LIST, h) = new (no_mode\<lparr>variants := Some [m12, m13], contains := Some [Ref LAMBDA, Ref NAME,
              Ref BODY]\<rparr>) h;
          h = upd BODY (\<lambda>m. m\<lparr>contains := Some ([Ref LITERAL, Ref NUMBER, Ref hl_QUOTE_STRING_MODE, Ref IDENT,
              Ref QUOTED_IDENT, Ref QUOTED_LIST, Ref LIST] @ COMMENT_MODES)\<rparr>) h;
          (language, h) = new (no_mode\<lparr>illegal := Some (bs ''%S''), contains := Some ([Ref SHEBANG, Ref NUMBER,
              Ref hl_QUOTE_STRING_MODE, Ref QUOTED_IDENT, Ref QUOTED_LIST, Ref LIST] @ COMMENT_MODES)\<rparr>) h
      in (language, h))"

definition lang_scilab :: "mstore \<Rightarrow> nat \<times> mstore" where
  "lang_scilab h =
     (let (m1, h) = new (no_mode\<lparr>m_begin := Some [CHR 0x27, CHR 0x27]\<rparr>) h;
          (m2, h) = new (no_mode\<lparr>className := Some ''string'', m_begin := Some ([CHR 0x27] @ ''|'' @ [CHR 0x22]),
              m_end := Some ([CHR 0x27] @ ''|'' @ [CHR 0x22]), contains := Some [Ref hl_BACKSLASH_ESCAPE,
              Ref m1]\<rparr>) h;
          COMMON_CONTAINS = [Ref hl_C_NUMBER_MODE, Ref m2];
          (m3, h) = new (no_mode\<lparr>className := Some ''params'', m_begin := Some (bs ''%(''),
              m_end := Some (bs ''%)'')\<rparr>) h;
          (m4, h) = new (no_mode\<lparr>className := Some ''function'', beginKeywords := Some ''function'',
              m_end := Some ''$'', contains := Some [Ref hl_UNDERSCORE_TITLE_MODE, Ref m3]\<rparr>) h;
          (m5, h) = new (no_mode\<lparr>m_begin := Some (''[a-zA-Z_][a-zA-Z_0-9]*('' @ [CHR 0x27] @ bs ''+[%.'' @ [CHR 0x27] @
              bs '']*|[%.'' @ [CHR 0x27] @ '']+)''), m_end := Some [], m_relevance := Some 0\<rparr>) h;
          (m6, h) = new (no_mode\<lparr>m_begin := Some (bs ''%[''), m_end := Some (bs ''%]'' @ [CHR 0x27] @ bs ''*[%.'' @
              [CHR 0x27] @ '']*''), m_relevance := Some 0, contains := Some COMMON_CONTAINS\<rparr>) h;
          (m7, h) = COMMENT ''//'' ''$'' no_mode h;
          (language, h) = new (no_mode\<lparr>aliases := Some [''sci''], lexemes := Some (''%'' @ bs ''?%w+''),
              m_keywords := Some (KObj [(''keyword'',
              ''abort break case clear catch continue do elseif else endfunction end for function '' @
              ''global if pause return resume select try then while''), (''literal'',
              ''%f %F %t %T %pi %eps %inf %nan %e %i %z %s''), (''built_in'',
              ''abs and acos asin atan ceil cd chdir clearglobal cosh cos cumprod deff disp error '' @
              ''exec execstr exists exp eye gettext floor fprintf fread fsolve imag isdef isempty '' @
              ''isinfisnan isvector lasterror length load linspace list listfiles log10 log2 log '' @
              ''max min msprintf mclose mopen ones or pathconvert poly printf prod pwd rand real '' @
              ''round sinh sin size gsort sprintf sqrt strcat strcmps tring sum system tanh tan '' @
              ''type typename warning zeros matrix'')]), illegal := Some (''('' @ [CHR 0x22] @
              bs ''|#|/%*|%s+/%w+)''), contains := Some ([Ref m4, Ref m5, Ref m6, Ref m7] @
              COMMON_CONTAINS)\<rparr>) h
      in (language, h))"

definition lang_scss :: "mstore \<Rightarrow> nat \<times> mstore" where
  "lang_scss h =
     (let IDENT_RE' = ''[a-zA-Z-][a-zA-Z0-9_-]*'';
          (VARIABLE, h) = new (no_mode\<lparr>className := Some ''variable'', m_begin := Some (bs ''(%$'' @ IDENT_RE' @
              bs '')%b'')\<rparr>) h;
          (HEXCOLOR, h) = new (no_mode\<lparr>className := Some ''number'', m_begin := Some ''#[0-9A-Fa-f]+''\<rparr>) h;
          (m1, h) = new (no_mode\<lparr>className := Some ''meta'', m_begin := Some ''!important''\<rparr>) h;
          (m2, h) = new (no_mode\<lparr>endsWithParent := Some True, excludeEnd := Some True, contains := Some [Ref HEXCOLOR,
              Ref hl_CSS_NUMBER_MODE, Ref hl_QUOTE_STRING_MODE, Ref hl_APOS_STRING_MODE, Ref hl_C_BLOCK_COMMENT_MODE,
              Ref m1]\<rparr>) h;
          (DEF_INTERNALS, h) = new (no_mode\<lparr>className := Some ''attribute'', m_begin := Some (bs ''[A-Z%_%.%-]+''),
              m_end := Some '':'', excludeEnd := Some True, illegal := Some (bs ''[^%s]''),
              starts := Some m2\<rparr>) h;
          (m3, h) = new (no_mode\<lparr>className := Some ''selector-id'', m_begin := Some (bs ''%#[A-Za-z0-9_-]+''),
              m_relevance := Some 0\<rparr>) h;
          (m4, h) = new (no_mode\<lparr>className := Some ''selector-class'', m_begin := Some (bs ''%.[A-Za-z0-9_-]+''),
              m_relevance := Some 0\<rparr>) h;
          (m5, h) = new (no_mode\<lparr>className := Some ''selector-attr'', m_begin := Some (bs ''%[''),
              m_end := Some (bs ''%]''), illegal := Some ''$''\<rparr>) h;
          (m6, h) = new (no_mode\<lparr>className := Some ''selector-tag'',
              m_begin := Some (bs ''%b(a|abbr|acronym|address|area|article|aside|audio|b|base|big|blockquote|body|br|button|canvas|captio'' @
              ''n|cite|code|col|colgroup|command|datalist|dd|del|details|dfn|div|dl|dt|em|embed|fieldset|figcaption|f'' @
              ''igure|footer|form|frame|frameset|(h[1-6])|head|header|hgroup|hr|html|i|iframe|img|input|ins|kbd|keyge'' @
              ''n|label|legend|li|link|map|mark|meta|meter|nav|noframes|noscript|object|ol|optgroup|option|output|p|p'' @
              ''aram|pre|progress|q|rp|rt|ruby|samp|script|section|select|small|span|strike|strong|style|sub|sup|tabl'' @
              bs ''e|tbody|td|textarea|tfoot|th|thead|time|title|tr|tt|ul|var|video)%b''),
              m_relevance := Some 0\<rparr>) h;
          (m7,
              h) = new (no_mode\<lparr>m_begin := Some ('':(visited|valid|root|right|required|read-write|read-only|out-range|optional|only-of-type|only-child|n'' @
              ''th-of-type|nth-last-of-type|nth-last-child|nth-child|not|link|left|last-of-type|last-child|lang|inval'' @
              ''id|indeterminate|in-range|hover|focus|first-of-type|first-line|first-letter|first-child|first|enabled'' @
              ''|empty|disabled|default|checked|before|after|active)'')\<rparr>) h;
          (m8,
              h) = new (no_mode\<lparr>m_begin := Some ''::(after|before|choices|first-letter|first-line|repeat-index|repeat-item|selection|value)''\<rparr>) h;
          (m9, h) = new (no_mode\<lparr>className := Some ''attribute'',
              m_begin := Some (bs ''%b(z-index|word-wrap|word-spacing|word-break|width|widows|white-space|visibility|vertical-align|unico'' @
              ''de-bidi|transition-timing-function|transition-property|transition-duration|transition-delay|transitio'' @
              ''n|transform-style|transform-origin|transform|top|text-underline-position|text-transform|text-shadow|t'' @
              ''ext-rendering|text-overflow|text-indent|text-decoration-style|text-decoration-line|text-decoration-co'' @
              ''lor|text-decoration|text-align-last|text-align|tab-size|table-layout|right|resize|quotes|position|poi'' @
              ''nter-events|perspective-origin|perspective|page-break-inside|page-break-before|page-break-after|paddi'' @
              ''ng-top|padding-right|padding-left|padding-bottom|padding|overflow-y|overflow-x|overflow-wrap|overflow'' @
              ''|outline-width|outline-style|outline-offset|outline-color|outline|orphans|order|opacity|object-positi'' @
              ''on|object-fit|normal|none|nav-up|nav-right|nav-left|nav-index|nav-down|min-width|min-height|max-width'' @
              ''|max-height|mask|marks|margin-top|margin-right|margin-left|margin-bottom|margin|list-style-type|list-'' @
              ''style-position|list-style-image|list-style|line-height|letter-spacing|left|justify-content|initial|in'' @
              ''herit|ime-mode|image-orientation|image-resolution|image-rendering|icon|hyphens|height|font-weight|fon'' @
              ''t-variant-ligatures|font-variant|font-style|font-stretch|font-size-adjust|font-size|font-language-ove'' @
              ''rride|font-kerning|font-feature-settings|font-family|font|float|flex-wrap|flex-shrink|flex-grow|flex-'' @
              ''flow|flex-direction|flex-basis|flex|filter|empty-cells|display|direction|cursor|counter-reset|counter'' @
              ''-increment|content|column-width|column-span|column-rule-width|column-rule-style|column-rule-color|col'' @
              ''umn-rule|column-gap|column-fill|column-count|columns|color|clip-path|clip|clear|caption-side|break-in'' @
              ''side|break-before|break-after|box-sizing|box-shadow|box-decoration-break|bottom|border-width|border-t'' @
              ''op-width|border-top-style|border-top-right-radius|border-top-left-radius|border-top-color|border-top|'' @
              ''border-style|border-spacing|border-right-width|border-right-style|border-right-color|border-right|bor'' @
              ''der-radius|border-left-width|border-left-style|border-left-color|border-left|border-image-width|borde'' @
              ''r-image-source|border-image-slice|border-image-repeat|border-image-outset|border-image|border-color|b'' @
              ''order-collapse|border-bottom-width|border-bottom-style|border-bottom-right-radius|border-bottom-left-'' @
              ''radius|border-bottom-color|border-bottom|border|background-size|background-repeat|background-position'' @
              ''|background-origin|background-image|background-color|background-clip|background-attachment|background'' @
              ''-blend-mode|background|backface-visibility|auto|animation-timing-function|animation-play-state|animat'' @
              ''ion-name|animation-iteration-count|animation-fill-mode|animation-duration|animation-direction|animati'' @
              bs ''on-delay|animation|align-self|align-items|align-content)%b''),
              illegal := Some (bs ''[^%s]'')\<rparr>) h;
          (m10,
              h) = new (no_mode\<lparr>m_begin := Some (bs ''%b(whitespace|wait|w-resize|visible|vertical-text|vertical-ideographic|uppercase|upper-roman|upper-al'' @
              ''pha|underline|transparent|top|thin|thick|text|text-top|text-bottom|tb-rl|table-header-group|table-foo'' @
              ''ter-group|sw-resize|super|strict|static|square|solid|small-caps|separate|se-resize|scroll|s-resize|rt'' @
              ''l|row-resize|ridge|right|repeat|repeat-y|repeat-x|relative|progress|pointer|overline|outside|outset|o'' @
              ''blique|nowrap|not-allowed|normal|none|nw-resize|no-repeat|no-drop|newspaper|ne-resize|n-resize|move|m'' @
              ''iddle|medium|ltr|lr-tb|lowercase|lower-roman|lower-alpha|loose|list-item|line|line-through|line-edge|'' @
              ''lighter|left|keep-all|justify|italic|inter-word|inter-ideograph|inside|inset|inline|inline-block|inhe'' @
              ''rit|inactive|ideograph-space|ideograph-parenthesis|ideograph-numeric|ideograph-alpha|horizontal|hidde'' @
              ''n|help|hand|groove|fixed|ellipsis|e-resize|double|dotted|distribute|distribute-space|distribute-lette'' @
              ''r|distribute-all-lines|disc|disabled|default|decimal|dashed|crosshair|collapse|col-resize|circle|char'' @
              ''|center|capitalize|break-word|break-all|bottom|both|bolder|bold|block|bidi-override|below|baseline|au'' @
              bs ''to|always|all-scroll|absolute|table|table-cell)%b'')\<rparr>) h;
          (m11, h) = new (no_mode\<lparr>className := Some ''meta'', m_begin := Some ''!important''\<rparr>) h;
          (m12, h) = new (no_mode\<lparr>m_begin := Some '':'', m_end := Some '';'', contains := Some [Ref VARIABLE,
              Ref HEXCOLOR, Ref hl_CSS_NUMBER_MODE, Ref hl_QUOTE_STRING_MODE, Ref hl_APOS_STRING_MODE,
              Ref m11]\<rparr>) h;
          (m13, h) = new (no_mode\<lparr>m_begin := Some (bs ''%s[A-Za-z0-9_.-]+''), m_relevance := Some 0\<rparr>) h;
          (m14, h) = new (no_mode\<lparr>m_begin := Some ''@'', m_end := Some ''[{;]'',
              m_keywords := Some (KStr ''mixin include extend for if else each while charset import debug media page content font-face namespace warn''),
              contains := Some [Ref VARIABLE, Ref hl_QUOTE_STRING_MODE, Ref hl_APOS_STRING_MODE, Ref HEXCOLOR,
              Ref hl_CSS_NUMBER_MODE, Ref m13]\<rparr>) h;
          (language, h) = new (no_mode\<lparr>case_insensitive := Some True, illegal := Some (''[=/|'' @ [CHR 0x27] @ '']''),
              contains := Some [Ref hl_C_LINE_COMMENT_MODE, Ref hl_C_BLOCK_COMMENT_MODE, Ref m3, Ref m4, Ref m5,
              Ref m6, Ref m7, Ref m8, Ref VARIABLE, Ref m9, Ref m10, Ref m12, Ref m14]\<rparr>) h
      in (language, h))"

definition lang_shell :: "mstore \<Rightarrow> nat \<times> mstore" where
  "lang_shell h =
     (let (m1, h) = new (no_mode\<lparr>m_end := Some ''$'', subLanguage := Some (SubName ''bash'')\<rparr>) h;
          (m2, h) = new (no_mode\<lparr>className := Some ''meta'', m_begin := Some (bs ''^%s{0,3}[%w%d%[%]()@-]*[>'' @ ''%'' @
              ''$#]''), starts := Some m1\<rparr>) h;
          (language, h) = new (no_mode\<lparr>aliases := Some [''console''], contains := Some [Ref m2]\<rparr>) h
      in (language, h))"

definition lang_smali :: "mstore \<Rightarrow> nat \<times> mstore" where
  "lang_smali h =
     (let (m1, h) = new (no_mode\<lparr>className := Some ''string'', m_begin := Some [CHR 0x22], m_end := Some [CHR 0x22],
              m_relevance := Some 0\<rparr>) h;
          (m2, h) = COMMENT ''#'' ''$'' (no_mode\<lparr>m_relevance := Some 0\<rparr>) h;
          (m3, h) = new (no_mode\<lparr>m_begin := Some (bs ''%s*%.end%s[a-zA-Z0-9]*'')\<rparr>) h;
          (m4, h) = new (no_mode\<lparr>m_begin := Some (bs ''^[ ]*%.[a-zA-Z]*''), m_relevance := Some 0\<rparr>) h;
          (m5, h) = new (no_mode\<lparr>m_begin := Some (bs ''%s:[a-zA-Z_0-9]*''), m_relevance := Some 0\<rparr>) h;
          (m6, h) = new (no_mode\<lparr>m_begin := Some (bs ''%s('' @ join ''|'' [''transient'', ''constructor'', ''abstract'',
              ''final'', ''synthetic'', ''public'', ''private'', ''protected'', ''static'', ''bridge'', ''system''] @
              '')'')\<rparr>) h;
          (m7, h) = new (no_mode\<lparr>className := Some ''keyword'', variants := Some [m3, m4, m5, m6]\<rparr>) h;
          (m8, h) = new (no_mode\<lparr>m_begin := Some (bs ''%s('' @ join ''|'' [''add'', ''and'', ''cmp'', ''cmpg'',
              ''cmpl'', ''const'', ''div'', ''double'', ''float'', ''goto'', ''if'', ''int'', ''long'', ''move'',
              ''mul'', ''neg'', ''new'', ''nop'', ''not'', ''or'', ''rem'', ''return'', ''shl'', ''shr'', ''sput'',
              ''sub'', ''throw'', ''ushr'', ''xor''] @ bs '')%s'')\<rparr>) h;
          (m9, h) = new (no_mode\<lparr>m_begin := Some (bs ''%s('' @ join ''|'' [''add'', ''and'', ''cmp'', ''cmpg'',
              ''cmpl'', ''const'', ''div'', ''double'', ''float'', ''goto'', ''if'', ''int'', ''long'', ''move'',
              ''mul'', ''neg'', ''new'', ''nop'', ''not'', ''or'', ''rem'', ''return'', ''shl'', ''shr'', ''sput'',
              ''sub'', ''throw'', ''ushr'', ''xor''] @ bs '')((%-|/)[a-zA-Z0-9]+)+%s''),
              m_relevance := Some 10\<rparr>) h;
          (m10, h) = new (no_mode\<lparr>m_begin := Some (bs ''%s('' @ join ''|'' [''aget'', ''aput'', ''array'', ''check'',
              ''execute'', ''fill'', ''filled'', ''goto/16'', ''goto/32'', ''iget'', ''instance'', ''invoke'',
              ''iput'', ''monitor'', ''packed'', ''sget'', ''sparse''] @ bs '')((%-|/)[a-zA-Z0-9]+)*%s''),
              m_relevance := Some 10\<rparr>) h;
          (m11, h) = new (no_mode\<lparr>className := Some ''built_in'', variants := Some [m8, m9, m10]\<rparr>) h;
          (m12, h) = new (no_mode\<lparr>className := Some ''class'', m_begin := Some (''L[^(;:'' @ [CHR 0x0A] @ '']*;''),
              m_relevance := Some 0\<rparr>) h;
          (m13, h) = new (no_mode\<lparr>m_begin := Some ''[vp][0-9]+''\<rparr>) h;
          (language, h) = new (no_mode\<lparr>aliases := Some [''smali''], contains := Some [Ref m1, Ref m2, Ref m7, Ref m11,
              Ref m12, Ref m13]\<rparr>) h
      in (language, h))"

definition lang_smalltalk :: "mstore \<Rightarrow> nat \<times> mstore" where
  "lang_smalltalk h =
     (let VAR_IDENT_RE = ''[a-z][a-zA-Z0-9_]*'';
          (v_CHAR, h) = new (no_mode\<lparr>className := Some ''string'', m_begin := Some (bs ''%$.{1}'')\<rparr>) h;
          (SYMBOL, h) = new (no_mode\<lparr>className := Some ''symbol'', m_begin := Some (''#'' @ UNDERSCORE_IDENT_RE)\<rparr>) h;
          (m1, h) = COMMENT [CHR 0x22] [CHR 0x22] no_mode h;
          (m2, h) = new (no_mode\<lparr>className := Some ''type'', m_begin := Some (bs ''%b[A-Z][A-Za-z0-9_]*''),
              m_relevance := Some 0\<rparr>) h;
          (m3, h) = new (no_mode\<lparr>m_begin := Some (VAR_IDENT_RE @ '':''), m_relevance := Some 0\<rparr>) h;
          (m4, h) = new (no_mode\<lparr>m_begin := Some (bs ''(%|[ ]*'' @ '')?'' @ VAR_IDENT_RE)\<rparr>) h;
          (m5, h) = new (no_mode\<lparr>m_begin := Some (bs ''%|[ ]*'' @ VAR_IDENT_RE @ ''([ ]+'' @ VAR_IDENT_RE @
              bs '')*[ ]*%|''), returnBegin := Some True, m_end := Some (bs ''%|''), illegal := Some (bs ''%S''),
              contains := Some [Ref m4]\<rparr>) h;
          (m6, h) = new (no_mode\<lparr>m_begin := Some (bs ''%#%(''), m_end := Some (bs ''%)''),
              contains := Some [Ref hl_APOS_STRING_MODE, Ref v_CHAR, Ref hl_C_NUMBER_MODE, Ref SYMBOL]\<rparr>) h;
          (language, h) = new (no_mode\<lparr>aliases := Some [''st''],
              m_keywords := Some (KStr ''self super nil true false thisContext''), contains := Some [Ref m1,
              Ref hl_APOS_STRING_MODE, Ref m2, Ref m3, Ref hl_C_NUMBER_MODE, Ref SYMBOL, Ref v_CHAR, Ref m5,
              Ref m6]\<rparr>) h
      in (language, h))"

definition lang_sml :: "mstore \<Rightarrow> nat \<times> mstore" where
  "lang_sml h =
     (let (m1, h) = new (no_mode\<lparr>className := Some ''literal'', m_begin := Some (bs ''%[(%|%|)?%]|%(%)''),
              m_relevance := Some 0\<rparr>) h;
          (m2, h) = COMMENT (bs ''%(%*'') (bs ''%*%)'') (no_mode\<lparr>contains := Some [Self]\<rparr>) h;
          (m3, h) = new (no_mode\<lparr>className := Some ''symbol'', m_begin := Some ([CHR 0x27] @ ''[A-Za-z_](?!'' @
              [CHR 0x27] @ bs '')[%w'' @ [CHR 0x27] @ '']*'')\<rparr>) h;
          (m4, h) = new (no_mode\<lparr>className := Some ''type'', m_begin := Some ([CHR 0x60] @ bs ''[A-Z][%w'' @
              [CHR 0x27] @ '']*'')\<rparr>) h;
          (m5, h) = new (no_mode\<lparr>className := Some ''type'', m_begin := Some (bs ''%b[A-Z][%w'' @ [CHR 0x27] @ '']*''),
              m_relevance := Some 0\<rparr>) h;
          (m6, h) = new (no_mode\<lparr>m_begin := Some (bs ''[a-z_]%w*'' @ [CHR 0x27] @ bs ''[%w'' @ [CHR 0x27] @
              '']*'')\<rparr>) h;
          (m7, h) = new (inherit_mode (mode_at h hl_APOS_STRING_MODE) [(no_mode\<lparr>className := Some ''string'',
              m_relevance := Some 0\<rparr>)]) h;
          (m8, h) = new (inherit_mode (mode_at h hl_QUOTE_STRING_MODE) [(no_mode\<lparr>illegal := Some []\<rparr>)]) h;
          (m9, h) = new (no_mode\<lparr>className := Some ''number'', m_begin := Some (bs ''%b(0[xX][a-fA-F0-9_]+[Lln]?|'' @
              ''0[oO][0-7_]+[Lln]?|'' @ ''0[bB][01_]+[Lln]?|'' @ bs ''[0-9][0-9_]*([Lln]|(%.[0-9_]*'' @
              '')?([eE][-+]?[0-9_]+)?)?)''), m_relevance := Some 0\<rparr>) h;
          (m10, h) = new (no_mode\<lparr>m_begin := Some ''[-=]>''\<rparr>) h;
          (language, h) = new (no_mode\<lparr>aliases := Some [''ml''], m_keywords := Some (KObj [(''keyword'',
              ''abstype and andalso as case datatype do else end eqtype '' @
              ''exception fn fun functor handle if in include i'' @ ''nfix i'' @ ''nfixr '' @
              ''let local nonfix of op open orelse raise rec sharing sig '' @
              ''signature struct structure then type val with withtype where while''), (''built_in'',
              ''array bool char exn int list option order real ref string substring vector unit word''),
              (''literal'', ''true false NONE SOME LESS EQUAL GREATER nil'')]), illegal := Some (bs ''%/%/|>>''),
              lexemes := Some (bs ''[a-z_]%w*!?''), contains := Some [Ref m1, Ref m2, Ref m3, Ref m4, Ref m5, Ref m6,
              Ref m7, Ref m8, Ref m9, Ref m10]\<rparr>) h
      in (language, h))"

definition lang_sql :: "mstore \<Rightarrow> nat \<times> mstore" where
  "lang_sql h =
     (let (COMMENT_MODE, h) = COMMENT ''--'' ''$'' no_mode h;
          (m1, h) = new (no_mode\<lparr>m_begin := Some [CHR 0x27, CHR 0x27]\<rparr>) h;
          (m2, h) = new (no_mode\<lparr>className := Some ''string'', m_begin := Some [CHR 0x27], m_end := Some [CHR 0x27],
              contains := Some [Ref hl_BACKSLASH_ESCAPE, Ref m1]\<rparr>) h;
          (m3, h) = new (no_mode\<lparr>m_begin := Some [CHR 0x22, CHR 0x22]\<rparr>) h;
          (m4, h) = new (no_mode\<lparr>className := Some ''string'', m_begin := Some [CHR 0x22], m_end := Some [CHR 0x22],
              contains := Some [Ref hl_BACKSLASH_ESCAPE, Ref m3]\<rparr>) h;
          (m5, h) = new (no_mode\<lparr>className := Some ''string'', m_begin := Some [CHR 0x60], m_end := Some [CHR 0x60],
              contains := Some [Ref hl_BACKSLASH_ESCAPE]\<rparr>) h;
          (m6,
              h) = new (no_mode\<lparr>beginKeywords := Some (''begin end start commit rollback savepoint lock alter create drop rename call '' @
              ''delete do handler insert load replace select truncate update set show pragma grant '' @
              ''merge describe use explain help declare prepare execute deallocate release '' @
              ''unlock purge reset change stop analyze cache flush optimize repair kill '' @
              ''install uninstall checksum restore check backup revoke comment values with''), m_end := Some '';'',
              endsWithParent := Some True, lexemes := Some (bs ''[%w%.]+''), m_keywords := Some (KObj [(''keyword'',
              ''as abort abs absolute acc acce accep accept access accessed accessible account acos action activate add '' @
              ''addtime admin administer advanced advise aes_decrypt aes_encrypt after agent aggregate ali alia alias '' @
              ''all allocate allow alter always analyze ancillary and anti any anydata anydataset anyschema anytype apply '' @
              ''archive archived archivelog are as asc ascii asin assembly assertion associate asynchronous at atan '' @
              ''atn2 attr attri attrib attribu attribut attribute attributes audit authenticated authentication authid '' @
              ''authors auto autoallocate autodblink autoextend automatic availability avg backup badfile basicfile '' @
              ''before begin beginning benchmark between bfile bfile_base big bigfile bin binary_double binary_float '' @
              ''binlog bit_and bit_count bit_length bit_or bit_xor bitmap blob_base block blocksize body both bound '' @
              ''bucket buffer_cache buffer_pool build bulk by byte byteordermark bytes cache caching call calling cancel '' @
              ''capacity cascade cascaded case cast catalog category ceil ceiling chain change changed char_base '' @
              ''char_length character_length characters characterset charindex charset charsetform charsetid check '' @
              ''checksum checksum_agg child choose chr chunk class cleanup clear client clob clob_base clone close '' @
              ''cluster_id cluster_probability cluster_set clustering coalesce coercibility col collate collation '' @
              ''collect colu colum column column_value columns columns_updated comment commit compact compatibility '' @
              ''compiled complete composite_limit compound compress compute concat concat_ws concurrent confirm conn '' @
              ''connec connect connect_by_iscycle connect_by_isleaf connect_by_root connect_time connection '' @
              ''consider consistent constant constraint constraints constructor container content contents context '' @
              ''contributors controlfile conv convert convert_tz corr corr_k corr_s corresponding corruption cos cost '' @
              ''count count_big counted covar_pop covar_samp cpu_per_call cpu_per_session crc32 create creation '' @
              ''critical cross cube cume_dist curdate current current_date current_time current_timestamp current_user '' @
              ''cursor curtime customdatum cycle data database databases datafile datafiles datalength date_add '' @
              ''date_cache date_format date_sub dateadd datediff datefromparts datename datepart datetime2fromparts '' @
              ''day day_to_second dayname dayofmonth dayofweek dayofyear days db_role_change dbtimezone ddl deallocate '' @
              ''declare decode decompose decrement decrypt deduplicate def defa defau defaul default defaults '' @
              ''deferred defi defin define degrees delayed delegate delete delete_all delimited demand dense_rank '' @
              ''depth dequeue des_decrypt des_encrypt des_key_file desc descr descri describ describe descriptor '' @
              ''deterministic diagnostics difference dimension direct_load directory disable disable_all '' @
              ''disallow disassociate discardfile disconnect diskgroup distinct distinctrow distribute distributed div '' @
              ''do document domain dotnet double downgrade drop dumpfile duplicate duration each edition editionable '' @
              ''editions element ellipsis else elsif elt empty enable enable_all enclosed encode encoding encrypt '' @
              ''end end-exec endian enforced engine engines enqueue enterprise entityescaping eomonth error errors '' @
              ''escaped evalname evaluate event eventdata events except exception exceptions exchange exclude excluding '' @
              ''execu execut execute exempt exists exit exp expire explain explode export export_set extended extent external '' @
              ''external_1 external_2 externally extract failed failed_login_attempts failover failure far fast '' @
              ''feature_set feature_value fetch field fields file file_name_convert filesystem_like_logging final '' @
              ''finish first first_value fixed flash_cache flashback floor flush following follows for forall force foreign '' @
              ''form forma format found found_rows freelist freelists freepools fresh from from_base64 from_days '' @
              ''ftp full function general generated get get_format get_lock getdate getutcdate global global_name '' @
              ''globally go goto grant grants greatest group group_concat group_id grouping grouping_id groups '' @
              ''gtid_subtract guarantee guard handler hash hashkeys having hea head headi headin heading heap help hex '' @
              ''hierarchy high high_priority hosts hour hours http id ident_current ident_incr ident_seed identified '' @
              ''identity idle_time if ifnull ignore iif ilike ilm immediate import in include including increment '' @
              ''index indexes indexing indextype indicator indices inet6_aton inet6_ntoa inet_aton inet_ntoa infile '' @
              ''initial initialized initially initrans inmemory inner innodb input insert install instance instantiable '' @
              ''instr interface interleaved intersect into invalidate invisible is is_free_lock is_ipv4 is_ipv4_compat '' @
              ''is_not is_not_null is_used_lock isdate isnull isolation iterate java join json json_exists '' @
              ''keep keep_duplicates key keys kill language large last last_day last_insert_id last_value lateral lax lcase '' @
              ''lead leading least leaves left len lenght length less level levels library like like2 like4 likec limit '' @
              ''lines link list listagg little ln load load_file lob lobs local localtime localtimestamp locate '' @
              ''locator lock locked log log10 log2 logfile logfiles logging logical logical_reads_per_call '' @
              ''logoff logon logs long loop low low_priority lower lpad lrtrim ltrim main make_set makedate maketime '' @
              ''managed management manual map mapping mask master master_pos_wait match matched materialized max '' @
              ''maxextents maximize maxinstances maxlen maxlogfiles maxloghistory maxlogmembers maxsize maxtrans '' @
              ''md5 measures median medium member memcompress memory merge microsecond mid migration min minextents '' @
              ''minimum mining minus minute minutes minvalue missing mod mode model modification modify module '' @
              ''monitoring month '' @
              ''months mount move movement multiset mutex name name_const names nan national native natural nav nchar '' @
              ''nclob nested never new newline next nextval no no_write_to_binlog noarchivelog noaudit nobadfile '' @
              ''nocheck nocompress nocopy nocycle nodelay nodiscardfile noentityescaping noguarantee nokeep nologfile '' @
              ''nomapping nomaxvalue nominimize nominvalue nomonitoring none noneditionable nonschema noorder '' @
              ''nopr nopro noprom nopromp noprompt norely noresetlogs noreverse normal norowdependencies noschemacheck '' @
              ''noswitch not nothing notice notnull notrim novalidate now nowait nth_value nullif nulls num numb numbe '' @
              ''nvarchar nvarchar2 object ocicoll ocidate ocidatetime ociduration ociinterval ociloblocator ocinumber '' @
              ''ociref ocirefcursor ocirowid ocistring ocitype oct octet_length of off offline offset oid oidindex old '' @
              ''on online only opaque open operations operator optimal optimize option optionally or oracle oracle_date '' @
              ''oradata ord ordaudio orddicom orddoc order ordimage ordinality ordvideo organization orlany orlvary '' @
              ''out outer outfile outline output over overflow overriding package pad parallel parallel_enable '' @
              ''parameters parent parse partial partition partitions pascal passing password password_grace_time '' @
              ''password_lock_time password_reuse_max password_reuse_time password_verify_function patch path patindex '' @
              ''pctincrease pctthreshold pctused pctversion percent percent_rank percentile_cont percentile_disc '' @
              ''performance period period_add period_diff permanent physical pi pipe pipelined pivot pluggable plugin '' @
              ''policy position post_transaction pow power pragma prebuilt precedes preceding precision prediction '' @
              ''prediction_cost prediction_details prediction_probability prediction_set prepare present preserve '' @
              ''prior priority private private_sga privileges procedural procedure procedure_analyze processlist '' @
              ''profiles project prompt protection public publishingservername purge quarter query quick quiesce quota '' @
              ''quotename radians raise rand range rank raw read reads readsize rebuild record records '' @
              ''recover recovery recursive recycle redo reduced ref reference referenced references referencing refresh '' @
              ''regexp_like register regr_avgx regr_avgy regr_count regr_intercept regr_r2 regr_slope regr_sxx regr_sxy '' @
              ''reject rekey relational relative relaylog release release_lock relies_on relocate rely rem remainder rename '' @
              ''repair repeat replace replicate replication required reset resetlogs resize resource respect restore '' @
              ''restricted result result_cache resumable resume retention return returning returns reuse reverse revoke '' @
              ''right rlike role roles rollback rolling rollup round row row_count rowdependencies rowid rownum rows '' @
              ''rtrim rules safe salt sample save savepoint sb1 sb2 sb4 scan schema schemacheck scn scope scroll '' @
              ''sdo_georaster sdo_topo_geometry search sec_to_time second seconds section securefile security seed '' @
              ''segment select '' @
              ''self semi sequence sequential serializable server servererror session session_user sessions_per_user set '' @
              ''sets settings sha sha1 sha2 share shared shared_pool short show shrink shutdown si_averagecolor '' @
              ''si_colorhistogram si_featurelist si_positionalcolor si_stillimage si_texture siblings sid sign sin '' @
              ''size size_t sizes skip slave sleep smalldatetimefromparts smallfile snapshot some soname sort soundex '' @
              ''source space sparse spfile split sql sql_big_result sql_buffer_result sql_cache sql_calc_found_rows '' @
              ''sql_small_result sql_variant_property sqlcode sqldata sqlerror sqlname sqlstate sqrt square standalone '' @
              ''standby start starting startup statement static statistics stats_binomial_test stats_crosstab '' @
              ''stats_ks_test stats_mode stats_mw_test stats_one_way_anova stats_t_test_ stats_t_test_indep '' @
              ''stats_t_test_one stats_t_test_paired stats_wsr_test status std stddev stddev_pop stddev_samp stdev '' @
              ''stop storage store stored str str_to_date straight_join strcmp strict string struct stuff style subdate '' @
              ''subpartition subpartitions substitutable substr substring subtime subtring_index subtype success sum '' @
              ''suspend switch switchoffset switchover sync synchronous synonym sys sys_xmlagg sysasm sysaux sysdate '' @
              ''sysdatetimeoffset sysdba sysoper system system_user sysutcdatetime table tables tablespace '' @
              ''tablesample tan tdo '' @
              ''template temporary terminated tertiary_weights test than then thread through tier ties time time_format '' @
              ''time_zone timediff timefromparts timeout timestamp timestampadd timestampdiff timezone_abbr '' @
              ''timezone_minute timezone_region to to_base64 to_date to_days to_seconds todatetimeoffset trace tracking '' @
              ''transaction transactional translate translation treat trigger trigger_nestlevel triggers trim truncate '' @
              ''try_cast try_convert try_parse type ub1 ub2 ub4 ucase unarchived unbounded uncompress '' @
              ''under undo unhex unicode uniform uninstall union unique unix_timestamp unknown unlimited unlock '' @
              ''unnest unpivot '' @
              ''unrecoverable unsafe unsigned until untrusted unusable unused update updated upgrade upped upper upsert '' @
              ''url urowid usable usage use use_stored_outlines user user_data user_resources users using utc_date '' @
              ''utc_timestamp uuid uuid_short validate validate_password_strength validation valist value values var '' @
              ''var_samp varcharc vari varia variab variabl variable variables variance varp varraw varrawc varray '' @
              ''verify version versions view virtual visible void wait wallet warning warnings week weekday weekofyear '' @
              ''wellformed when whene whenev wheneve whenever where while whitespace window with within without work wrapped '' @
              ''xdb xml xmlagg xmlattributes xmlcast xmlcolattval xmlelement xmlexists xmlforest xmlindex xmlnamespaces '' @
              ''xmlpi xmlquery xmlroot xmlschema xmlserialize xmltable xmltype xor year year_to_month years yearweek''),
              (''literal'', ''true false null unknown''), (''built_in'',
              ''array bigint binary bit blob bool boolean char character date dec decimal float int int8 integer '' @
              ''interval number '' @
              ''numeric real record serial serial8 smallint text time timestamp tinyint varchar varying void'')]),
              contains := Some [Ref m2, Ref m4, Ref m5, Ref hl_C_NUMBER_MODE, Ref hl_C_BLOCK_COMMENT_MODE,
              Ref COMMENT_MODE, Ref hl_HASH_COMMENT_MODE]\<rparr>) h;
          (language, h) = new (no_mode\<lparr>case_insensitive := Some True, illegal := Some ''[<>{}*]'',
              contains := Some [Ref m6, Ref hl_C_BLOCK_COMMENT_MODE, Ref COMMENT_MODE,
              Ref hl_HASH_COMMENT_MODE]\<rparr>) h
      in (language, h))"

definition lang_stan :: "mstore \<Rightarrow> nat \<times> mstore" where
  "lang_stan h =
     (let (m1, h) = new (no_mode\<lparr>m_begin := Some UNDERSCORE_IDENT_RE, lexemes := Some UNDERSCORE_IDENT_RE,
              m_keywords := Some (KObj [(''name'', ''for in while repeat until if then else''), (''symbol'',
              ''bernoulli bernoulli_logit binomial binomial_logit '' @
              ''beta_binomial hypergeometric categorical categorical_logit '' @
              ''ordered_logistic neg_binomial neg_binomial_2 '' @
              ''neg_binomial_2_log poisson poisson_log multinomial normal '' @
              ''exp_mod_normal skew_normal student_t cauchy double_exponential '' @
              ''logistic gumbel lognormal chi_square inv_chi_square '' @
              ''scaled_inv_chi_square exponential inv_gamma weibull frechet '' @
              ''rayleigh wiener pareto pareto_type_2 von_mises uniform '' @
              ''multi_normal multi_normal_prec multi_normal_cholesky multi_gp '' @
              ''multi_gp_cholesky multi_student_t gaussian_dlm_obs dirichlet '' @
              ''lkj_corr lkj_corr_cholesky wishart inv_wishart''), (''selector-tag'',
              ''int real vector simplex unit_vector ordered positive_ordered '' @
              ''row_vector matrix cholesky_factor_corr cholesky_factor_cov '' @ ''corr_matrix cov_matrix''),
              (''title'', ''functions model data parameters quantities transformed '' @ ''generated''), (''literal'',
              ''true false'')]), m_relevance := Some 0\<rparr>) h;
          (m2, h) = new (no_mode\<lparr>className := Some ''number'', m_begin := Some (bs ''0[xX][0-9a-fA-F]+[Li]?%b''),
              m_relevance := Some 0\<rparr>) h;
          (m3, h) = new (no_mode\<lparr>className := Some ''number'', m_begin := Some (bs ''0[xX][0-9a-fA-F]+[Li]?%b''),
              m_relevance := Some 0\<rparr>) h;
          (m4, h) = new (no_mode\<lparr>className := Some ''number'', m_begin := Some (bs ''%d+(?:[eE][+%-]?%d*'' @
              bs '')?L%b''), m_relevance := Some 0\<rparr>) h;
          (m5, h) = new (no_mode\<lparr>className := Some ''number'', m_begin := Some (bs ''%d+%.(?!%d)(?:i%b)?''),
              m_relevance := Some 0\<rparr>) h;
          (m6, h) = new (no_mode\<lparr>className := Some ''number'', m_begin := Some (bs ''%d+(?:%.%d*'' @
              bs '')?(?:[eE][+%-]?%d*'' @ bs '')?i?%b''), m_relevance := Some 0\<rparr>) h;
          (m7, h) = new (no_mode\<lparr>className := Some ''number'', m_begin := Some (bs ''%.%d+(?:[eE][+%-]?%d*'' @
              bs '')?i?%b''), m_relevance := Some 0\<rparr>) h;
          (language, h) = new (no_mode\<lparr>contains := Some [Ref hl_HASH_COMMENT_MODE, Ref hl_C_LINE_COMMENT_MODE,
              Ref hl_C_BLOCK_COMMENT_MODE, Ref m1, Ref m2, Ref m3, Ref m4, Ref m5, Ref m6, Ref m7]\<rparr>) h
      in (language, h))"

subsection \<open>The stores they make\<close>

lemma lang_qml_makes [builds_grammars]: "makes_grammar lang_qml"
  unfolding lang_qml_def by (intro makes_grammarI builds_rules) (simp_all add: refs_append)

lemma lang_r_makes [builds_grammars]: "makes_grammar lang_r"
  unfolding lang_r_def by (intro makes_grammarI builds_rules) (simp_all add: refs_append)

lemma lang_rib_makes [builds_grammars]: "makes_grammar lang_rib"
  unfolding lang_rib_def by (intro makes_grammarI builds_rules) (simp_all add: refs_append)

lemma lang_roboconf_makes [builds_grammars]: "makes_grammar lang_roboconf"
  unfolding lang_roboconf_def by (intro makes_grammarI builds_rules) (simp_all add: refs_append)

lemma lang_routeros_makes [builds_grammars]: "makes_grammar lang_routeros"
  unfolding lang_routeros_def by (intro makes_grammarI builds_rules) (simp_all add: refs_append)

lemma lang_rsl_makes [builds_grammars]: "makes_grammar lang_rsl"
  unfolding lang_rsl_def by (intro makes_grammarI builds_rules) (simp_all add: refs_append)

lemma lang_ruby_makes [builds_grammars]: "makes_grammar lang_ruby"
  unfolding lang_ruby_def by (intro makes_grammarI builds_rules) (simp_all add: refs_append)

lemma lang_ruleslanguage_makes [builds_grammars]: "makes_grammar lang_ruleslanguage"
  unfolding lang_ruleslanguage_def by (intro makes_grammarI builds_rules) (simp_all add: refs_append)

lemma lang_rust_makes [builds_grammars]: "makes_grammar lang_rust"
  unfolding lang_rust_def by (intro makes_grammarI builds_rules) (simp_all add: refs_append)

lemma lang_sas_makes [builds_grammars]: "makes_grammar lang_sas"
  unfolding lang_sas_def by (intro makes_grammarI builds_rules) (simp_all add: refs_append)

lemma lang_scala_makes [builds_grammars]: "makes_grammar lang_scala"
  unfolding lang_scala_def by (intro makes_grammarI builds_rules) (simp_all add: refs_append)

lemma lang_scheme_makes [builds_grammars]: "makes_grammar lang_scheme"
  unfolding lang_scheme_def by (intro makes_grammarI builds_rules) (simp_all add: refs_append)

lemma lang_scilab_makes [builds_grammars]: "makes_grammar lang_scilab"
  unfolding lang_scilab_def by (intro makes_grammarI builds_rules) (simp_all add: refs_append)

lemma lang_scss_makes [builds_grammars]: "makes_grammar lang_scss"
  unfolding lang_scss_def by (intro makes_grammarI builds_rules) (simp_all add: refs_append)

lemma lang_shell_makes [builds_grammars]: "makes_grammar lang_shell"
  unfolding lang_shell_def by (intro makes_grammarI builds_rules) (simp_all add: refs_append)

lemma lang_smali_makes [builds_grammars]: "makes_grammar lang_smali"
  unfolding lang_smali_def by (intro makes_grammarI builds_rules) (simp_all add: refs_append)

lemma lang_smalltalk_makes [builds_grammars]: "makes_grammar lang_smalltalk"
  unfolding lang_smalltalk_def by (intro makes_grammarI builds_rules) (simp_all add: refs_append)

lemma lang_sml_makes [builds_grammars]: "makes_grammar lang_sml"
  unfolding lang_sml_def by (intro makes_grammarI builds_rules) (simp_all add: refs_append)

lemma lang_sql_makes [builds_grammars]: "makes_grammar lang_sql"
  unfolding lang_sql_def by (intro makes_grammarI builds_rules) (simp_all add: refs_append)

lemma lang_stan_makes [builds_grammars]: "makes_grammar lang_stan"
  unfolding lang_stan_def by (intro makes_grammarI builds_rules) (simp_all add: refs_append)

end
