(* ===== verification/Hljs_Languages_8.thy ===== *)
theory Hljs_Languages_8
  imports Hljs_Store
begin

text \<open>
  Grammars of highlight.js (\<^verbatim>\<open>remark.js\<close>, module 15), in the order of the source, from \<open>stata\<close> to \<open>x86asm\<close>. Each keeps the store
  closed.
\<close>

definition lang_stata :: "mstore \<Rightarrow> nat \<times> mstore" where
  "lang_stata h =
     (let (m1, h) = new (no_mode\<lparr>className := Some ''symbol'', m_begin := Some ([CHR 0x60] @ ''[a-zA-Z0-9_]+'' @
              [CHR 0x27])\<rparr>) h;
          (m2, h) = new (no_mode\<lparr>className := Some ''variable'', m_begin := Some (bs ''%$%{?[a-zA-Z0-9_]+%}?'')\<rparr>) h;
          (m3, h) = new (no_mode\<lparr>m_begin := Some ([CHR 0x60, CHR 0x22] @ ''[^'' @ [CHR 0x0D, CHR 0x0A] @ '']*?'' @
              [CHR 0x22, CHR 0x27])\<rparr>) h;
          (m4, h) = new (no_mode\<lparr>m_begin := Some ([CHR 0x22] @ ''[^'' @ [CHR 0x0D, CHR 0x0A, CHR 0x22] @ '']*'' @
              [CHR 0x22])\<rparr>) h;
          (m5, h) = new (no_mode\<lparr>className := Some ''string'', variants := Some [m3, m4]\<rparr>) h;
          (m6,
              h) = new (no_mode\<lparr>m_begin := Some (bs ''%b(abs|acos|asin|atan|atan2|atanh|ceil|cloglog|comb|cos|digamma|exp|floor|invcloglog|invlogit|ln|lnfa'' @
              ''ct|lnfactorial|lngamma|log|log10|max|min|mod|reldif|round|sign|sin|sqrt|sum|tan|tanh|trigamma|trunc|b'' @
              ''etaden|Binomial|binorm|binormal|chi2|chi2tail|dgammapda|dgammapdada|dgammapdadx|dgammapdx|dgammapdxdx'' @
              ''|F|Fden|Ftail|gammaden|gammap|ibeta|invbinomial|invchi2|invchi2tail|invF|invFtail|invgammap|invibeta|'' @
              ''invnchi2|invnFtail|invnibeta|invnorm|invnormal|invttail|nbetaden|nchi2|nFden|nFtail|nibeta|norm|norma'' @
              ''l|normalden|normd|npnchi2|tden|ttail|uniform|abbrev|char|index|indexnot|length|lower|ltrim|match|plur'' @
              ''al|proper|real|regexm|regexr|regexs|reverse|rtrim|string|strlen|strlower|strltrim|strmatch|strofreal|'' @
              ''strpos|strproper|strreverse|strrtrim|strtrim|strupper|subinstr|subinword|substr|trim|upper|word|wordc'' @
              ''ount|_caller|autocode|byteorder|chop|clip|cond|e|epsdouble|epsfloat|group|inlist|inrange|irecode|matr'' @
              ''ix|maxbyte|maxdouble|maxfloat|maxint|maxlong|mi|minbyte|mindouble|minfloat|minint|minlong|missing|r|r'' @
              ''ecode|replay|return|s|scalar|d|date|day|dow|doy|halfyear|mdy|month|quarter|week|year|d|daily|dofd|dof'' @
              ''h|dofm|dofq|dofw|dofy|h|halfyearly|hofd|m|mofd|monthly|q|qofd|quarterly|tin|twithin|w|weekly|wofd|y|y'' @
              ''early|yh|ym|yofd|yq|yw|cholesky|colnumb|colsof|corr|det|diag|diag0cnt|el|get|hadamard|I|inv|invsym|is'' @
              bs ''sym|issymmetric|J|matmissing|matuniform|mreldif|nullmat|rownumb|rowsof|sweep|syminv|trace|vec|vecdiag)(?=%(|$)'')\<rparr>) h;
          (m7, h) = new (no_mode\<lparr>className := Some ''built_in'', variants := Some [m6]\<rparr>) h;
          (m8, h) = COMMENT (''^[ '' @ [CHR 0x09] @ bs '']*%*.*$'') [] no_mode h;
          (language, h) = new (no_mode\<lparr>aliases := Some [''do'', ''ado''], case_insensitive := Some True,
              m_keywords := Some (KStr (''if else in foreach for forv forva forval forvalu forvalue forvalues by bys bysort xi quietly qui '' @
              ''capture about ac ac_7 acprplot acprplot_7 adjust ado adopath adoupdate alpha ameans an ano anov '' @
              ''anova anova_estat anova_terms anovadef aorder ap app appe appen append arch arch_dr arch_estat '' @
              ''arch_p archlm areg areg_p args arima arima_dr arima_estat arima_p as asmprobit asmprobit_estat '' @
              ''asmprobit_lf asmprobit_mfx__dlg asmprobit_p ass asse asser assert avplot avplot_7 avplots avplots_7 '' @
              ''bcskew0 bgodfrey bias binreg bip0_lf biplot bipp_lf bipr_lf bipr_p biprobit bitest bitesti bitowt '' @
              ''blogit bmemsize boot bootsamp bootstrap bootstrap_8 boxco_l boxco_p boxcox boxcox_6 boxcox_p '' @
              ''bprobit br break brier bro brow brows browse brr brrstat bs bs_7 bsampl_w bsample bsample_7 bsqreg '' @
              ''bstat bstat_7 bstat_8 bstrap bstrap_7 bubble bubbleplot ca ca_estat ca_p cabiplot camat canon '' @
              ''canon_8 canon_8_p canon_estat canon_p cap caprojection capt captu captur capture cat cc cchart '' @
              ''cchart_7 cci cd censobs_table centile cf char chdir checkdlgfiles checkestimationsample '' @
              ''checkhlpfiles checksum chelp ci cii cl class classutil clear cli clis clist clo clog clog_lf clog_p '' @
              ''clogi clogi_sw clogit clogit_lf clogit_p clogitp clogl_sw cloglog clonevar clslistarray cluster '' @
              ''cluster_measures cluster_stop cluster_tree cluster_tree_8 clustermat cmdlog cnr cnre cnreg cnreg_p '' @
              ''cnreg_sw cnsreg codebook collaps4 collapse colormult_nb colormult_nw compare compress conf confi '' @
              ''confir confirm conren cons const constr constra constrai constrain constraint continue contract '' @
              ''copy copyright copysource cor corc corr corr2data corr_anti corr_kmo corr_smc corre correl correla '' @
              ''correlat correlate corrgram cou coun count cox cox_p cox_sw coxbase coxhaz coxvar cprplot cprplot_7 '' @
              ''crc cret cretu cretur creturn cross cs cscript cscript_log csi ct ct_is ctset ctst_5 ctst_st cttost '' @
              ''cumsp cumsp_7 cumul cusum cusum_7 cutil d|0 datasig datasign datasigna datasignat datasignatu '' @
              ''datasignatur datasignature datetof db dbeta de dec deco decod decode deff des desc descr descri '' @
              ''describ describe destring dfbeta dfgls dfuller di di_g dir dirstats dis discard disp disp_res '' @
              ''disp_s displ displa display distinct do doe doed doedi doedit dotplot dotplot_7 dprobit drawnorm '' @
              ''drop ds ds_util dstdize duplicates durbina dwstat dydx e|0 ed edi edit egen eivreg emdef en enc '' @
              ''enco encod encode eq erase ereg ereg_lf ereg_p ereg_sw ereghet ereghet_glf ereghet_glf_sh '' @
              ''ereghet_gp ereghet_ilf ereghet_ilf_sh ereghet_ip eret eretu eretur ereturn err erro error esize est '' @
              ''est_cfexist est_cfname est_clickable est_expand est_hold est_table est_unhold est_unholdok estat '' @
              ''estat_default estat_summ estat_vce_only esti estimates etodow etof etomdy ex exi exit expand '' @
              ''expandcl fac fact facto factor factor_estat factor_p factor_pca_rotated factor_rotate factormat '' @
              ''fcast fcast_compute fcast_graph fdades fdadesc fdadescr fdadescri fdadescrib fdadescribe fdasav '' @
              ''fdasave fdause fh_st file open file read file close file filefilter fillin find_hlp_file findfile '' @
              ''findit findit_7 fit fl fli flis flist for5_0 forest forestplot form forma format fpredict frac_154 '' @
              ''frac_adj frac_chk frac_cox frac_ddp frac_dis frac_dv frac_in frac_mun frac_pp frac_pq frac_pv '' @
              ''frac_wgt frac_xo fracgen fracplot fracplot_7 fracpoly fracpred fron_ex fron_hn fron_p fron_tn '' @
              ''fron_tn2 frontier ftodate ftoe ftomdy ftowdate funnel funnelplot g|0 gamhet_glf gamhet_gp '' @
              ''gamhet_ilf gamhet_ip gamma gamma_d2 gamma_p gamma_sw gammahet gdi_hexagon gdi_spokes ge gen gene '' @
              ''gener genera generat generate genrank genstd genvmean gettoken gl gladder gladder_7 glim_l01 '' @
              ''glim_l02 glim_l03 glim_l04 glim_l05 glim_l06 glim_l07 glim_l08 glim_l09 glim_l10 glim_l11 glim_l12 '' @
              ''glim_lf glim_mu glim_nw1 glim_nw2 glim_nw3 glim_p glim_v1 glim_v2 glim_v3 glim_v4 glim_v5 glim_v6 '' @
              ''glim_v7 glm glm_6 glm_p glm_sw glmpred glo glob globa global glogit glogit_8 glogit_p gmeans '' @
              ''gnbre_lf gnbreg gnbreg_5 gnbreg_p gomp_lf gompe_sw gomper_p gompertz gompertzhet gomphet_glf '' @
              ''gomphet_glf_sh gomphet_gp gomphet_ilf gomphet_ilf_sh gomphet_ip gphdot gphpen gphprint gprefs '' @
              ''gprobi_p gprobit gprobit_8 gr gr7 gr_copy gr_current gr_db gr_describe gr_dir gr_draw '' @
              ''gr_draw_replay gr_drop gr_edit gr_editviewopts gr_example gr_example2 gr_export gr_print gr_qscheme '' @
              ''gr_query gr_read gr_rename gr_replay gr_save gr_set gr_setscheme gr_table gr_undo gr_use graph '' @
              ''graph7 grebar greigen greigen_7 greigen_8 grmeanby grmeanby_7 gs_fileinfo gs_filetype gs_graphinfo '' @
              ''gs_stat gsort gwood h|0 hadimvo hareg hausman haver he heck_d2 heckma_p heckman heckp_lf heckpr_p '' @
              ''heckprob hel help hereg hetpr_lf hetpr_p hetprob hettest hexdump hilite hist hist_7 histogram '' @
              ''hlogit hlu hmeans hotel hotelling hprobit hreg hsearch icd9 icd9_ff icd9p iis impute imtest inbase '' @
              ''include inf infi infil infile i'' @
              ''nfix inp inpu input ins insheet insp inspe inspec inspect integ inten intreg intreg_7 intreg_p '' @
              ''intrg2_ll intrg_ll intrg_ll2 ipolate iqreg ir irf irf_create irfm iri is_svy is_svysum isid istdize '' @
              ''ivprob_1_lf ivprob_lf ivprobit ivprobit_p ivreg ivreg_footnote ivtob_1_lf ivtob_lf ivtobit '' @
              ''ivtobit_p jackknife jacknife jknife jknife_6 jknife_8 jkstat joinby kalarma1 kap kap_3 kapmeier '' @
              ''kappa kapwgt kdensity kdensity_7 keep ksm ksmirnov ktau kwallis l|0 la lab labbe labbeplot labe '' @
              ''label labelbook ladder levels levelsof leverage lfit lfit_p li lincom line linktest lis list '' @
              ''lloghet_glf lloghet_glf_sh lloghet_gp lloghet_ilf lloghet_ilf_sh lloghet_ip llogi_sw llogis_p '' @
              ''llogist llogistic llogistichet lnorm_lf lnorm_sw lnorma_p lnormal lnormalhet lnormhet_glf '' @
              ''lnormhet_glf_sh lnormhet_gp lnormhet_ilf lnormhet_ilf_sh lnormhet_ip lnskew0 loadingplot loc loca '' @
              ''local log logi logis_lf logistic logistic_p logit logit_estat logit_p loglogs logrank loneway '' @
              ''lookfor lookup lowess lowess_7 lpredict lrecomp lroc lroc_7 lrtest ls lsens lsens_7 lsens_x lstat '' @
              ''ltable ltable_7 ltriang lv lvr2plot lvr2plot_7 m|0 ma mac macr macro makecns man manova '' @
              ''manova_estat manova_p manovatest mantel mark markin markout marksample mat mat_capp mat_order '' @
              ''mat_put_rr mat_rapp mata mata_clear mata_describe mata_drop mata_matdescribe mata_matsave '' @
              ''mata_matuse mata_memory mata_mlib mata_mosave mata_rename mata_which matalabel matcproc matlist '' @
              ''matname matr matri matrix matrix_input__dlg matstrik mcc mcci md0_ md1_ md1debug_ md2_ md2debug_ '' @
              ''mds mds_estat mds_p mdsconfig mdslong mdsmat mdsshepard mdytoe mdytof me_derd mean means median '' @
              ''memory memsize menl meqparse mer merg merge meta mfp mfx mhelp mhodds minbound mixed_ll '' @
              ''mixed_ll_reparm mkassert mkdir mkmat mkspline ml ml_5 ml_adjs ml_bhhhs ml_c_d ml_check ml_clear '' @
              ''ml_cnt ml_debug ml_defd ml_e0 ml_e0_bfgs ml_e0_cycle ml_e0_dfp ml_e0i ml_e1 ml_e1_bfgs ml_e1_bhhh '' @
              ''ml_e1_cycle ml_e1_dfp ml_e2 ml_e2_cycle ml_ebfg0 ml_ebfr0 ml_ebfr1 ml_ebh0q ml_ebhh0 ml_ebhr0 '' @
              ''ml_ebr0i ml_ecr0i ml_edfp0 ml_edfr0 ml_edfr1 ml_edr0i ml_eds ml_eer0i ml_egr0i ml_elf ml_elf_bfgs '' @
              ''ml_elf_bhhh ml_elf_cycle ml_elf_dfp ml_elfi ml_elfs ml_enr0i ml_enrr0 ml_erdu0 ml_erdu0_bfgs '' @
              ''ml_erdu0_bhhh ml_erdu0_bhhhq ml_erdu0_cycle ml_erdu0_dfp ml_erdu0_nrbfgs ml_exde ml_footnote '' @
              ''ml_geqnr ml_grad0 ml_graph ml_hbhhh ml_hd0 ml_hold ml_init ml_inv ml_log ml_max ml_mlout ml_mlout_8 '' @
              ''ml_model ml_nb0 ml_opt ml_p ml_plot ml_query ml_rdgrd ml_repor ml_s_e ml_score ml_searc '' @
              ''ml_technique ml_unhold mleval mlf_ mlmatbysum mlmatsum mlog mlogi mlogit mlogit_footnote mlogit_p '' @
              ''mlopts mlsum mlvecsum mnl0_ mor more mov move mprobit mprobit_lf mprobit_p mrdu0_ mrdu1_ mvdecode '' @
              ''mvencode mvreg mvreg_estat n|0 nbreg nbreg_al nbreg_lf nbreg_p nbreg_sw nestreg net newey newey_7 '' @
              ''newey_p news nl nl_7 nl_9 nl_9_p nl_p nl_p_7 nlcom nlcom_p nlexp2 nlexp2_7 nlexp2a nlexp2a_7 nlexp3 '' @
              ''nlexp3_7 nlgom3 nlgom3_7 nlgom4 nlgom4_7 nlinit nllog3 nllog3_7 nllog4 nllog4_7 nlog_rd nlogit '' @
              ''nlogit_p nlogitgen nlogittree nlpred no nobreak noi nois noisi noisil noisily note notes notes_dlg '' @
              ''nptrend numlabel numlist odbc old_ver olo olog ologi ologi_sw ologit ologit_p ologitp on one onew '' @
              ''onewa oneway op_colnm op_comp op_diff op_inv op_str opr opro oprob oprob_sw oprobi oprobi_p oprobit '' @
              ''oprobitp opts_exclusive order orthog orthpoly ou out outf outfi outfil outfile outs outsh outshe '' @
              ''outshee outsheet ovtest pac pac_7 palette parse parse_dissim pause pca pca_8 pca_display pca_estat '' @
              ''pca_p pca_rotate pcamat pchart pchart_7 pchi pchi_7 pcorr pctile pentium pergram pergram_7 permute '' @
              ''permute_8 personal peto_st pkcollapse pkcross pkequiv pkexamine pkexamine_7 pkshape pksumm pksumm_7 '' @
              ''pl plo plot plugin pnorm pnorm_7 poisgof poiss_lf poiss_sw poisso_p poisson poisson_estat post '' @
              ''postclose postfile postutil pperron pr prais prais_e prais_e2 prais_p predict predictnl preserve '' @
              ''print pro prob probi probit probit_estat probit_p proc_time procoverlay procrustes procrustes_estat '' @
              bs ''procrustes_p profiler prog progr progra program prop proportion prtest prtesti pwcorr pwd q%s qby '' @
              ''qbys qchi qchi_7 qladder qladder_7 qnorm qnorm_7 qqplot qqplot_7 qreg qreg_c qreg_p qreg_sw qu '' @
              ''quadchk quantile quantile_7 que quer query range ranksum ratio rchart rchart_7 rcof recast reclink '' @
              ''recode reg reg3 reg3_p regdw regr regre regre_p2 regres regres_p regress regress_estat regriv_p '' @
              ''remap ren rena renam rename renpfix repeat replace report reshape restore ret retu retur return rm '' @
              ''rmdir robvar roccomp roccomp_7 roccomp_8 rocf_lf rocfit rocfit_8 rocgold rocplot rocplot_7 roctab '' @
              ''roctab_7 rolling rologit rologit_p rot rota rotat rotate rotatemat rreg rreg_p ru run runtest '' @
              ''rvfplot rvfplot_7 rvpplot rvpplot_7 sa safesum sample sampsi sav save savedresults saveold sc sca '' @
              ''scal scala scalar scatter scm_mine sco scob_lf scob_p scobi_sw scobit scor score scoreplot '' @
              ''scoreplot_help scree screeplot screeplot_help sdtest sdtesti se search separate seperate serrbar '' @
              ''serrbar_7 serset set set_defaults sfrancia sh she shel shell shewhart shewhart_7 '' @
              ''signestimationsample signrank signtest simul simul_7 simulate simulate_8 sktest sleep slogit '' @
              ''slogit_d2 slogit_p smooth snapspan so sor sort spearman spikeplot spikeplot_7 spikeplt spline_x '' @
              ''split sqreg sqreg_p sret sretu sretur sreturn ssc st st_ct st_hc st_hcd st_hcd_sh st_is st_issys '' @
              ''st_note st_promo st_set st_show st_smpl st_subid stack statsby statsby_8 stbase stci stci_7 stcox '' @
              ''stcox_estat stcox_fr stcox_fr_ll stcox_p stcox_sw stcoxkm stcoxkm_7 stcstat stcurv stcurve '' @
              ''stcurve_7 stdes stem stepwise stereg stfill stgen stir stjoin stmc stmh stphplot stphplot_7 '' @
              ''stphtest stphtest_7 stptime strate strate_7 streg streg_sw streset sts sts_7 stset stsplit stsum '' @
              ''sttocc sttoct stvary stweib su suest suest_8 sum summ summa summar summari summariz summarize '' @
              ''sunflower sureg survcurv survsum svar svar_p svmat svy svy_disp svy_dreg svy_est svy_est_7 '' @
              ''svy_estat svy_get svy_gnbreg_p svy_head svy_header svy_heckman_p svy_heckprob_p svy_intreg_p '' @
              ''svy_ivreg_p svy_logistic_p svy_logit_p svy_mlogit_p svy_nbreg_p svy_ologit_p svy_oprobit_p '' @
              ''svy_poisson_p svy_probit_p svy_regress_p svy_sub svy_sub_7 svy_x svy_x_7 svy_x_p svydes svydes_8 '' @
              ''svygen svygnbreg svyheckman svyheckprob svyintreg svyintreg_7 svyintrg svyivreg svylc svylog_p '' @
              ''svylogit svymarkout svymarkout_8 svymean svymlog svymlogit svynbreg svyolog svyologit svyoprob '' @
              ''svyoprobit svyopts svypois svypois_7 svypoisson svyprobit svyprobt svyprop svyprop_7 svyratio '' @
              ''svyreg svyreg_p svyregress svyset svyset_7 svyset_8 svytab svytab_7 svytest svytotal sw sw_8 '' @
              ''swcnreg swcox swereg swilk swlogis swlogit swologit swoprbt swpois swprobit swqreg swtobit swweib '' @
              ''symmetry symmi symplot symplot_7 syntax sysdescribe sysdir sysuse szroeter ta tab tab1 tab2 tab_or '' @
              ''tabd tabdi tabdis tabdisp tabi table tabodds tabodds_7 tabstat tabu tabul tabula tabulat tabulate '' @
              ''te tempfile tempname tempvar tes test testnl testparm teststd tetrachoric time_it timer tis tob '' @
              ''tobi tobit tobit_p tobit_sw token tokeni tokeniz tokenize tostring total translate translator '' @
              ''transmap treat_ll treatr_p treatreg trim trimfill trnb_cons trnb_mean trpoiss_d2 trunc_ll truncr_p '' @
              ''truncreg tsappend tset tsfill tsline tsline_ex tsreport tsrevar tsrline tsset tssmooth tsunab ttest '' @
              ''ttesti tut_chk tut_wait tutorial tw tware_st two twoway twoway__fpfit_serset twoway__function_gen '' @
              ''twoway__histogram_gen twoway__ipoint_serset twoway__ipoints_serset twoway__kdensity_gen '' @
              ''twoway__lfit_serset twoway__normgen_gen twoway__pci_serset twoway__qfit_serset '' @
              ''twoway__scatteri_serset twoway__sunflower_gen twoway_ksm_serset ty typ type typeof u|0 unab '' @
              ''unabbrev unabcmd update us use uselabel var var_mkcompanion var_p varbasic varfcast vargranger '' @
              ''varirf varirf_add varirf_cgraph varirf_create varirf_ctable varirf_describe varirf_dir varirf_drop '' @
              ''varirf_erase varirf_graph varirf_ograph varirf_rename varirf_set varirf_table varlist varlmar '' @
              ''varnorm varsoc varstable varstable_w varstable_w2 varwle vce vec vec_fevd vec_mkphi vec_p vec_p_w '' @
              ''vecirf_create veclmar veclmar_w vecnorm vecnorm_w vecrank vecstable verinst vers versi versio '' @
              ''version view viewsource vif vwls wdatetof webdescribe webseek webuse weib1_lf weib2_lf weib_lf '' @
              ''weib_lf0 weibhet_glf weibhet_glf_sh weibhet_glfa weibhet_glfa_sh weibhet_gp weibhet_ilf '' @
              ''weibhet_ilf_sh weibhet_ilfa weibhet_ilfa_sh weibhet_ip weibu_sw weibul_p weibull weibull_c '' @
              ''weibull_s weibullhet wh whelp whi which whil while wilc_st wilcoxon win wind windo window winexec '' @
              ''wntestb wntestb_7 wntestq xchart xchart_7 xcorr xcorr_7 xi xi_6 xmlsav xmlsave xmluse xpose xsh '' @
              ''xshe xshel xshell xt_iis xt_tis xtab_p xtabond xtbin_p xtclog xtcloglog xtcloglog_8 xtcloglog_d2 '' @
              ''xtcloglog_pa_p xtcloglog_re_p xtcnt_p xtcorr xtdata xtdes xtfront_p xtfrontier xtgee xtgee_elink '' @
              ''xtgee_estat xtgee_makeivar xtgee_p xtgee_plink xtgls xtgls_p xthaus xthausman xtht_p xthtaylor '' @
              ''xtile xtint_p xtintreg xtintreg_8 xtintreg_d2 xtintreg_p xtivp_1 xtivp_2 xtivreg xtline xtline_ex '' @
              ''xtlogit xtlogit_8 xtlogit_d2 xtlogit_fe_p xtlogit_pa_p xtlogit_re_p xtmixed xtmixed_estat xtmixed_p '' @
              ''xtnb_fe xtnb_lf xtnbreg xtnbreg_pa_p xtnbreg_refe_p xtpcse xtpcse_p xtpois xtpoisson xtpoisson_d2 '' @
              ''xtpoisson_pa_p xtpoisson_refe_p xtpred xtprobit xtprobit_8 xtprobit_d2 xtprobit_re_p xtps_fe '' @
              ''xtps_lf xtps_ren xtps_ren_8 xtrar_p xtrc xtrc_p xtrchh xtrefe_p xtreg xtreg_be xtreg_fe xtreg_ml '' @
              ''xtreg_pa_p xtreg_re xtregar xtrere_p xtset xtsf_ll xtsf_llti xtsum xttab xttest0 xttobit xttobit_8 '' @
              ''xttobit_p xttrans yx yxview__barlike_draw yxview_area_draw yxview_bar_draw yxview_dot_draw '' @
              ''yxview_dropline_draw yxview_function_draw yxview_iarrow_draw yxview_ilabels_draw yxview_normal_draw '' @
              ''yxview_pcarrow_draw yxview_pcbarrow_draw yxview_pccapsym_draw yxview_pcscatter_draw '' @
              ''yxview_pcspike_draw yxview_rarea_draw yxview_rbar_draw yxview_rbarm_draw yxview_rcap_draw '' @
              ''yxview_rcapsym_draw yxview_rconnected_draw yxview_rline_draw yxview_rscatter_draw '' @
              ''yxview_rspike_draw yxview_spike_draw yxview_sunflower_draw zap_s zinb zinb_llf zinb_plf zip zip_llf '' @
              ''zip_p zip_plf zt_ct_5 zt_hc_5 zt_hcd_5 zt_is_5 zt_iss_5 zt_sho_5 zt_smp_5 ztbase_5 ztcox_5 ztdes_5 '' @
              ''ztereg_5 ztfill_5 ztgen_5 ztir_5 ztjoin_5 ztnb ztnb_p ztp ztp_p zts_5 ztset_5 ztspli_5 ztsum_5 '' @
              ''zttoct_5 ztvary_5 ztweib_5'')), contains := Some [Ref m1, Ref m2, Ref m5, Ref m7, Ref m8,
              Ref hl_C_LINE_COMMENT_MODE, Ref hl_C_BLOCK_COMMENT_MODE]\<rparr>) h
      in (language, h))"

definition lang_step21 :: "mstore \<Rightarrow> nat \<times> mstore" where
  "lang_step21 h =
     (let STEP21_IDENT_RE = ''[A-Z_][A-Z0-9_.]*'';
          (STEP21_START, h) = new (no_mode\<lparr>className := Some ''meta'', m_begin := Some ''ISO-10303-21;'',
              m_relevance := Some 10\<rparr>) h;
          (STEP21_CLOSE, h) = new (no_mode\<lparr>className := Some ''meta'', m_begin := Some ''END-ISO-10303-21;'',
              m_relevance := Some 10\<rparr>) h;
          STEP21_KEYWORDS = KObj [(''keyword'', ''HEADER ENDSEC DATA'')];
          (m1, h) = COMMENT (bs ''/%*%*!'') (bs ''%*/'') no_mode h;
          (m2, h) = new (inherit_mode (mode_at h hl_APOS_STRING_MODE) [(no_mode\<lparr>illegal := Some []\<rparr>)]) h;
          (m3, h) = new (inherit_mode (mode_at h hl_QUOTE_STRING_MODE) [(no_mode\<lparr>illegal := Some []\<rparr>)]) h;
          (m4, h) = new (no_mode\<lparr>className := Some ''string'', m_begin := Some [CHR 0x27],
              m_end := Some [CHR 0x27]\<rparr>) h;
          (m5, h) = new (no_mode\<lparr>m_begin := Some ''#'', m_end := Some (bs ''%d+''), illegal := Some (bs ''%W'')\<rparr>) h;
          (m6, h) = new (no_mode\<lparr>className := Some ''symbol'', variants := Some [m5]\<rparr>) h;
          (language, h) = new (no_mode\<lparr>aliases := Some [''p21'', ''step'', ''stp''], case_insensitive := Some True,
              lexemes := Some STEP21_IDENT_RE, m_keywords := Some STEP21_KEYWORDS,
              contains := Some [Ref STEP21_START, Ref STEP21_CLOSE, Ref hl_C_LINE_COMMENT_MODE,
              Ref hl_C_BLOCK_COMMENT_MODE, Ref m1, Ref hl_C_NUMBER_MODE, Ref m2, Ref m3, Ref m4, Ref m6]\<rparr>) h
      in (language, h))"

definition lang_subunit :: "mstore \<Rightarrow> nat \<times> mstore" where
  "lang_subunit h =
     (let (DETAILS, h) = new (no_mode\<lparr>className := Some ''string'', m_begin := Some (bs ''%['' @ [CHR 0x0A] @
              ''(multipart)?''), m_end := Some (bs ''%]'' @ [CHR 0x0A])\<rparr>) h;
          (TIME, h) = new (no_mode\<lparr>className := Some ''string'',
              m_begin := Some (bs ''%d{4}-%d{2}-%d{2}(%s+)%d{2}:%d{2}:%d{2}.%d+Z'')\<rparr>) h;
          (PROGRESSVALUE, h) = new (no_mode\<lparr>className := Some ''string'', m_begin := Some (bs ''(%+|-)%d+'')\<rparr>) h;
          (m1,
              h) = new (no_mode\<lparr>m_begin := Some (bs ''^(test|testing|success|successful|failure|error|skip|xfail|uxsuccess)(:?)%s+(test)?'')\<rparr>) h;
          (m2, h) = new (no_mode\<lparr>m_begin := Some (bs ''^progress(:?)(%s+)?(pop|push)?'')\<rparr>) h;
          (m3, h) = new (no_mode\<lparr>m_begin := Some ''^tags:''\<rparr>) h;
          (m4, h) = new (no_mode\<lparr>m_begin := Some ''^time:''\<rparr>) h;
          (KEYWORDS, h) = new (no_mode\<lparr>className := Some ''keyword'', m_relevance := Some 10, variants := Some [m1, m2,
              m3, m4]\<rparr>) h;
          (language, h) = new (no_mode\<lparr>case_insensitive := Some True, contains := Some [Ref DETAILS, Ref TIME,
              Ref PROGRESSVALUE, Ref KEYWORDS]\<rparr>) h
      in (language, h))"

definition lang_taggerscript :: "mstore \<Rightarrow> nat \<times> mstore" where
  "lang_taggerscript h =
     (let (m1, h) = new (no_mode\<lparr>m_begin := Some (bs ''%%.'')\<rparr>) h;
          (m2, h) = new (no_mode\<lparr>m_begin := Some (bs ''%(''), m_end := Some (bs ''%)''), contains := Some [Self,
              Ref m1]\<rparr>) h;
          (COMMENT', h) = new (no_mode\<lparr>className := Some ''comment'', m_begin := Some (bs ''%$noop%(''),
              m_end := Some (bs ''%)''), contains := Some [Ref m2], m_relevance := Some 10\<rparr>) h;
          (FUNCTION, h) = new (no_mode\<lparr>className := Some ''keyword'',
              m_begin := Some (bs ''%$(?!noop)[a-zA-Z][_a-zA-Z0-9]*''), m_end := Some (bs ''%(''),
              excludeEnd := Some True\<rparr>) h;
          (VARIABLE, h) = new (no_mode\<lparr>className := Some ''variable'', m_begin := Some ''%[_a-zA-Z0-9:]*'',
              m_end := Some ''%''\<rparr>) h;
          (ESCAPE_SEQUENCE, h) = new (no_mode\<lparr>className := Some ''symbol'', m_begin := Some (bs ''%%.'')\<rparr>) h;
          (language, h) = new (no_mode\<lparr>contains := Some [Ref COMMENT', Ref FUNCTION, Ref VARIABLE,
              Ref ESCAPE_SEQUENCE]\<rparr>) h
      in (language, h))"

definition lang_tap :: "mstore \<Rightarrow> nat \<times> mstore" where
  "lang_tap h =
     (let (m1, h) = new (no_mode\<lparr>m_begin := Some (bs ''^TAP version (%d+)$'')\<rparr>) h;
          (m2, h) = new (no_mode\<lparr>m_begin := Some (bs ''^1%.%.(%d+)$'')\<rparr>) h;
          (m3, h) = new (no_mode\<lparr>className := Some ''meta'', variants := Some [m1, m2]\<rparr>) h;
          (m4, h) = new (no_mode\<lparr>m_begin := Some ''(s+)?---$'', m_end := Some (bs ''%.%.%.$''),
              subLanguage := Some (SubName ''yaml''), m_relevance := Some 0\<rparr>) h;
          (m5, h) = new (no_mode\<lparr>className := Some ''number'', m_begin := Some (bs '' (%d+) '')\<rparr>) h;
          (m6, h) = new (no_mode\<lparr>m_begin := Some ''^ok''\<rparr>) h;
          (m7, h) = new (no_mode\<lparr>m_begin := Some ''^not ok''\<rparr>) h;
          (m8, h) = new (no_mode\<lparr>className := Some ''symbol'', variants := Some [m6, m7]\<rparr>) h;
          (language, h) = new (no_mode\<lparr>case_insensitive := Some True, contains := Some [Ref hl_HASH_COMMENT_MODE,
              Ref m3, Ref m4, Ref m5, Ref m8]\<rparr>) h
      in (language, h))"

definition lang_tcl :: "mstore \<Rightarrow> nat \<times> mstore" where
  "lang_tcl h =
     (let (m1, h) = COMMENT (bs '';[ %t]*#'') ''$'' no_mode h;
          (m2, h) = COMMENT (bs ''^[ %t]*#'') ''$'' no_mode h;
          (m3, h) = new (no_mode\<lparr>className := Some ''title'',
              m_begin := Some (bs ''[ %t%n%r]+(::)?[a-zA-Z_]((::)?[a-zA-Z0-9_])*''),
              m_end := Some (bs ''[ %t%n%r]''), endsWithParent := Some True, excludeEnd := Some True\<rparr>) h;
          (m4, h) = new (no_mode\<lparr>beginKeywords := Some ''proc'', m_end := Some (bs ''[%{]''), excludeEnd := Some True,
              contains := Some [Ref m3]\<rparr>) h;
          (m5, h) = new (no_mode\<lparr>m_begin := Some (bs ''%$(%{)?(::)?[a-zA-Z_]((::)?[a-zA-Z0-9_])*%(([a-zA-Z0-9_])*%)''),
              m_end := Some (bs ''[^a-zA-Z0-9_%}%$]'')\<rparr>) h;
          (m6, h) = new (no_mode\<lparr>m_begin := Some (bs ''%$(%{)?(::)?[a-zA-Z_]((::)?[a-zA-Z0-9_])*''),
              m_end := Some (bs ''(%))?[^a-zA-Z0-9_%}%$]'')\<rparr>) h;
          (m7, h) = new (no_mode\<lparr>excludeEnd := Some True, variants := Some [m5, m6]\<rparr>) h;
          (m8, h) = new (inherit_mode (mode_at h hl_QUOTE_STRING_MODE) [(no_mode\<lparr>illegal := Some []\<rparr>)]) h;
          (m9, h) = new (no_mode\<lparr>className := Some ''string'', contains := Some [Ref hl_BACKSLASH_ESCAPE],
              variants := Some [m8]\<rparr>) h;
          (m10, h) = new (no_mode\<lparr>className := Some ''number'', variants := Some [hl_BINARY_NUMBER_MODE,
              hl_C_NUMBER_MODE]\<rparr>) h;
          (language, h) = new (no_mode\<lparr>aliases := Some [''tk''],
              m_keywords := Some (KStr (''after append apply array auto_execok auto_import auto_load auto_mkindex '' @
              ''auto_mkindex_old auto_qualify auto_reset bgerror binary break catch cd chan clock '' @
              ''close concat continue dde dict encoding eof error eval exec exit expr fblocked '' @
              ''fconfigure fcopy file fileevent filename flush for foreach format gets glob global '' @
              ''history http if incr info interp join lappend|10 lassign|10 lindex|10 linsert|10 list '' @
              ''llength|10 load lrange|10 lrepeat|10 lreplace|10 lreverse|10 lsearch|10 lset|10 lsort|10 '' @
              ''mathfunc mathop memory msgcat namespace open package parray pid pkg::create pkg_mkIndex '' @
              ''platform platform::shell proc puts pwd read refchan regexp registry regsub|10 rename '' @
              ''return safe scan seek set socket source split string subst switch tcl_endOfWord '' @
              ''tcl_findLibrary tcl_startOfNextWord tcl_startOfPreviousWord tcl_wordBreakAfter '' @
              ''tcl_wordBreakBefore tcltest tclvars tell time tm trace unknown unload unset update '' @
              ''uplevel upvar variable vwait while'')), contains := Some [Ref m1, Ref m2, Ref m4, Ref m7, Ref m9,
              Ref m10]\<rparr>) h
      in (language, h))"

definition lang_tex :: "mstore \<Rightarrow> nat \<times> mstore" where
  "lang_tex h =
     (let (m1, h) = new (no_mode\<lparr>m_begin := Some (bs ''[a-zA-Z%u0430-%u044f%u0410-%u042f]+[*]?'')\<rparr>) h;
          (m2, h) = new (no_mode\<lparr>m_begin := Some (bs ''[^a-zA-Z%u0430-%u044f%u0410-%u042f0-9]'')\<rparr>) h;
          (m3, h) = new (no_mode\<lparr>m_begin := Some (bs ''%[''), m_end := Some (bs ''%]'')\<rparr>) h;
          (m4, h) = new (no_mode\<lparr>m_begin := Some (bs ''%{''), m_end := Some (bs ''%}'')\<rparr>) h;
          (m5, h) = new (no_mode\<lparr>className := Some ''string'', variants := Some [m3, m4]\<rparr>) h;
          (m6, h) = new (no_mode\<lparr>className := Some ''number'',
              m_begin := Some (bs ''-?%d*%.?%d+(pt|pc|mm|cm|in|dd|cc|ex|em)?'')\<rparr>) h;
          (m7, h) = new (no_mode\<lparr>m_begin := Some (bs ''%s*=%s*''), endsWithParent := Some True, m_relevance := Some 0,
              contains := Some [Ref m6]\<rparr>) h;
          (m8, h) = new (no_mode\<lparr>endsWithParent := Some True, m_relevance := Some 0, contains := Some [Ref m5,
              Ref m7]\<rparr>) h;
          (m9, h) = new (no_mode\<lparr>className := Some ''name'', variants := Some [m1, m2], starts := Some m8\<rparr>) h;
          (COMMAND, h) = new (no_mode\<lparr>className := Some ''tag'', m_begin := Some (bs ''%%''), m_relevance := Some 0,
              contains := Some [Ref m9]\<rparr>) h;
          (m10, h) = new (no_mode\<lparr>m_begin := Some (bs ''%$%$''), m_end := Some (bs ''%$%$'')\<rparr>) h;
          (m11, h) = new (no_mode\<lparr>m_begin := Some (bs ''%$''), m_end := Some (bs ''%$'')\<rparr>) h;
          (m12, h) = new (no_mode\<lparr>className := Some ''formula'', contains := Some [Ref COMMAND], m_relevance := Some 0,
              variants := Some [m10, m11]\<rparr>) h;
          (m13, h) = COMMENT ''%'' ''$'' (no_mode\<lparr>m_relevance := Some 0\<rparr>) h;
          (language, h) = new (no_mode\<lparr>contains := Some [Ref COMMAND, Ref m12, Ref m13]\<rparr>) h
      in (language, h))"

definition lang_thrift :: "mstore \<Rightarrow> nat \<times> mstore" where
  "lang_thrift h =
     (let BUILT_IN_TYPES = ''bool byte i16 i32 i64 double string binary'';
          (m1, h) = new (no_mode\<lparr>endsWithParent := Some True, excludeEnd := Some True\<rparr>) h;
          (m2, h) = new (inherit_mode (mode_at h hl_TITLE_MODE) [(no_mode\<lparr>starts := Some m1\<rparr>)]) h;
          (m3, h) = new (no_mode\<lparr>className := Some ''class'', beginKeywords := Some ''struct enum service exception'',
              m_end := Some (bs ''%{''), illegal := Some (bs ''%n''), contains := Some [Ref m2]\<rparr>) h;
          (m4, h) = new (no_mode\<lparr>m_begin := Some (bs ''%b(set|list|map)%s*<''), m_end := Some ''>'',
              m_keywords := Some (KStr BUILT_IN_TYPES), contains := Some [Self]\<rparr>) h;
          (language, h) = new (no_mode\<lparr>m_keywords := Some (KObj [(''keyword'',
              ''namespace const typedef struct enum service exception void oneway set list map required optional''),
              (''built_in'', BUILT_IN_TYPES), (''literal'', ''true false'')]),
              contains := Some [Ref hl_QUOTE_STRING_MODE, Ref hl_NUMBER_MODE, Ref hl_C_LINE_COMMENT_MODE,
              Ref hl_C_BLOCK_COMMENT_MODE, Ref m3, Ref m4]\<rparr>) h
      in (language, h))"

definition lang_tp :: "mstore \<Rightarrow> nat \<times> mstore" where
  "lang_tp h =
     (let (TPID, h) = new (no_mode\<lparr>className := Some ''number'', m_begin := Some ''[1-9][0-9]*'',
              m_relevance := Some 0\<rparr>) h;
          (TPLABEL, h) = new (no_mode\<lparr>className := Some ''symbol'', m_begin := Some (bs '':[^%]'' @ '']+'')\<rparr>) h;
          (TPDATA, h) = new (no_mode\<lparr>className := Some ''built_in'',
              m_begin := Some (''(AR|P|PAYLOAD|PR|R|SR|RSR|LBL|VR|UALM|MESSAGE|UTOOL|UFRAME|TIMER|'' @
              bs ''TIMER_OVERFLOW|JOINT_MAX_SPEED|RESUME_PROG|DIAG_REC)%[''), m_end := Some (bs ''%]''),
              contains := Some [Self, Ref TPID, Ref TPLABEL]\<rparr>) h;
          (TPIO, h) = new (no_mode\<lparr>className := Some ''built_in'',
              m_begin := Some (bs ''(AI|AO|DI|DO|F|RI|RO|UI|UO|GI|GO|SI|SO)%[''), m_end := Some (bs ''%]''),
              contains := Some [Self, Ref TPID, Ref hl_QUOTE_STRING_MODE, Ref TPLABEL]\<rparr>) h;
          (m1, h) = new (no_mode\<lparr>className := Some ''keyword'',
              m_begin := Some (bs ''/(PROG|ATTR|MN|POS|END)%b'')\<rparr>) h;
          (m2, h) = new (no_mode\<lparr>className := Some ''keyword'',
              m_begin := Some (bs ''(CALL|RUN|POINT_LOGIC|LBL)%b'')\<rparr>) h;
          (m3, h) = new (no_mode\<lparr>className := Some ''keyword'',
              m_begin := Some (bs ''%b(ACC|CNT|Skip|Offset|PSPD|RT_LD|AP_LD|Tool_Offset)'')\<rparr>) h;
          (m4, h) = new (no_mode\<lparr>className := Some ''number'',
              m_begin := Some (bs ''%d+(sec|msec|mm/sec|cm/min|inch/min|deg/sec|mm|in|cm)?%b''),
              m_relevance := Some 0\<rparr>) h;
          (m5, h) = COMMENT ''//'' ''[;$]'' no_mode h;
          (m6, h) = COMMENT ''!'' ''[;$]'' no_mode h;
          (m7, h) = COMMENT ''--eg:'' ''$'' no_mode h;
          (m8, h) = new (no_mode\<lparr>className := Some ''string'', m_begin := Some [CHR 0x27],
              m_end := Some [CHR 0x27]\<rparr>) h;
          (m9, h) = new (no_mode\<lparr>className := Some ''variable'', m_begin := Some (bs ''%$[A-Za-z0-9_]+'')\<rparr>) h;
          (language, h) = new (no_mode\<lparr>m_keywords := Some (KObj [(''keyword'',
              ''ABORT ACC ADJUST AND AP_LD BREAK CALL CNT COL CONDITION CONFIG DA DB '' @
              ''DIV DETECT ELSE END ENDFOR ERR_NUM ERROR_PROG FINE FOR GP GUARD INC '' @
              ''IF JMP LINEAR_MAX_SPEED LOCK MOD MONITOR OFFSET Offset OR OVERRIDE '' @
              ''PAUSE PREG PTH RT_LD RUN SELECT SKIP Skip TA TB TO TOOL_OFFSET '' @
              ''Tool_Offset UF UT UFRAME_NUM UTOOL_NUM UNLOCK WAIT X Y Z W P R STRLEN '' @
              ''SUBSTR FINDSTR VOFFSET PROG ATTR MN POS''), (''literal'',
              ''ON OFF max_speed LPOS JPOS ENABLE DISABLE START STOP RESET'')]), contains := Some [Ref TPDATA,
              Ref TPIO, Ref m1, Ref m2, Ref m3, Ref m4, Ref m5, Ref m6, Ref m7, Ref hl_QUOTE_STRING_MODE, Ref m8,
              Ref hl_C_NUMBER_MODE, Ref m9]\<rparr>) h
      in (language, h))"

definition lang_typescript :: "mstore \<Rightarrow> nat \<times> mstore" where
  "lang_typescript h =
     (let JS_IDENT_RE = ''[A-Za-z$_][0-9A-Za-z$_]*'';
          (DECORATOR, h) = new (no_mode\<lparr>className := Some ''meta'', m_begin := Some (''@'' @ JS_IDENT_RE)\<rparr>) h;
          KEYWORDS = KObj [(''keyword'', ''in if for while finally var new function do return void else break catch '' @
              ''instanceof with throw case default try this switch continue typeof delete '' @
              ''let yield const class public private protected get set super '' @
              ''static implements enum export import declare type namespace abstract '' @
              ''as from extends async await''), (''literal'', ''true false null undefined NaN Infinity''),
              (''built_in'', ''eval isFinite isNaN parseFloat parseInt decodeURI decodeURIComponent '' @
              ''encodeURI encodeURIComponent escape unescape Object Function Boolean Error '' @
              ''EvalError InternalError RangeError ReferenceError StopIteration SyntaxError '' @
              ''TypeError URIError Number Math Date String RegExp Array Float32Array '' @
              ''Float64Array Int16Array Int32Array Int8Array Uint16Array Uint32Array '' @
              ''Uint8Array Uint8ClampedArray ArrayBuffer DataView JSON Intl arguments require '' @
              ''module console window document any number boolean string void Promise'')];
          (ARGS, h) = new (no_mode\<lparr>m_begin := Some (bs ''%(''), m_end := Some (bs ''%)''), m_keywords := Some KEYWORDS,
              contains := Some [Self, Ref hl_QUOTE_STRING_MODE, Ref hl_APOS_STRING_MODE,
              Ref hl_NUMBER_MODE]\<rparr>) h;
          (PARAMS, h) = new (no_mode\<lparr>className := Some ''params'', m_begin := Some (bs ''%(''),
              m_end := Some (bs ''%)''), excludeBegin := Some True, excludeEnd := Some True,
              m_keywords := Some KEYWORDS, contains := Some [Ref hl_C_LINE_COMMENT_MODE, Ref hl_C_BLOCK_COMMENT_MODE,
              Ref DECORATOR, Ref ARGS]\<rparr>) h;
          (m1, h) = new (no_mode\<lparr>m_begin := Some (bs ''%b(0[bB][01]+)'')\<rparr>) h;
          (m2, h) = new (no_mode\<lparr>m_begin := Some (bs ''%b(0[oO][0-7]+)'')\<rparr>) h;
          (m3, h) = new (no_mode\<lparr>m_begin := Some C_NUMBER_RE\<rparr>) h;
          (NUMBER, h) = new (no_mode\<lparr>className := Some ''number'', variants := Some [m1, m2, m3],
              m_relevance := Some 0\<rparr>) h;
          (SUBST, h) = new (no_mode\<lparr>className := Some ''subst'', m_begin := Some (bs ''%$%{''),
              m_end := Some (bs ''%}''), m_keywords := Some KEYWORDS, contains := Some []\<rparr>) h;
          (m4, h) = new (no_mode\<lparr>m_end := Some [CHR 0x60], returnEnd := Some False,
              contains := Some [Ref hl_BACKSLASH_ESCAPE, Ref SUBST], subLanguage := Some (SubName ''xml'')\<rparr>) h;
          (HTML_TEMPLATE, h) = new (no_mode\<lparr>m_begin := Some (''html'' @ [CHR 0x60]), m_end := Some [],
              starts := Some m4\<rparr>) h;
          (m5, h) = new (no_mode\<lparr>m_end := Some [CHR 0x60], returnEnd := Some False,
              contains := Some [Ref hl_BACKSLASH_ESCAPE, Ref SUBST], subLanguage := Some (SubName ''css'')\<rparr>) h;
          (CSS_TEMPLATE, h) = new (no_mode\<lparr>m_begin := Some (''css'' @ [CHR 0x60]), m_end := Some [],
              starts := Some m5\<rparr>) h;
          (TEMPLATE_STRING, h) = new (no_mode\<lparr>className := Some ''string'', m_begin := Some [CHR 0x60],
              m_end := Some [CHR 0x60], contains := Some [Ref hl_BACKSLASH_ESCAPE, Ref SUBST]\<rparr>) h;
          h = upd SUBST (\<lambda>m. m\<lparr>contains := Some [Ref hl_APOS_STRING_MODE, Ref hl_QUOTE_STRING_MODE,
              Ref HTML_TEMPLATE, Ref CSS_TEMPLATE, Ref TEMPLATE_STRING, Ref NUMBER, Ref hl_REGEXP_MODE]\<rparr>) h;
          (m6, h) = new (no_mode\<lparr>className := Some ''meta'', m_begin := Some (bs ''^%s*['' @ [CHR 0x27, CHR 0x22] @
              '']use strict['' @ [CHR 0x27, CHR 0x22] @ '']'')\<rparr>) h;
          (m7, h) = new (no_mode\<lparr>m_begin := Some IDENT_RE\<rparr>) h;
          (m8, h) = new (no_mode\<lparr>m_begin := Some (bs ''%(%s*%)'')\<rparr>) h;
          (m9, h) = new (no_mode\<lparr>m_begin := Some (bs ''%(''), m_end := Some (bs ''%)''), excludeBegin := Some True,
              excludeEnd := Some True, m_keywords := Some KEYWORDS, contains := Some [Self,
              Ref hl_C_LINE_COMMENT_MODE, Ref hl_C_BLOCK_COMMENT_MODE]\<rparr>) h;
          (m10, h) = new (no_mode\<lparr>className := Some ''params'', variants := Some [m7, m8, m9]\<rparr>) h;
          (m11, h) = new (no_mode\<lparr>className := Some ''function'', m_begin := Some (bs ''(%(.*?%)|'' @ IDENT_RE @
              bs '')%s*=>''), returnBegin := Some True, m_end := Some (bs ''%s*=>''),
              contains := Some [Ref m10]\<rparr>) h;
          (m12, h) = new (no_mode\<lparr>m_begin := Some (''('' @ RE_STARTERS_RE @ bs ''|%b(case|return|throw)%b)%s*''),
              m_keywords := Some (KStr ''return throw case''), contains := Some [Ref hl_C_LINE_COMMENT_MODE,
              Ref hl_C_BLOCK_COMMENT_MODE, Ref hl_REGEXP_MODE, Ref m11], m_relevance := Some 0\<rparr>) h;
          (m13, h) = new (inherit_mode (mode_at h hl_TITLE_MODE) [(no_mode\<lparr>m_begin := Some JS_IDENT_RE\<rparr>)]) h;
          (m14, h) = new (no_mode\<lparr>className := Some ''function'', m_begin := Some ''function'',
              m_end := Some (bs ''[%{;]''), excludeEnd := Some True, m_keywords := Some KEYWORDS,
              contains := Some [Self, Ref m13, Ref PARAMS], illegal := Some ''%'', m_relevance := Some 0\<rparr>) h;
          (m15, h) = new (no_mode\<lparr>beginKeywords := Some ''constructor'', m_end := Some (bs ''%{''),
              excludeEnd := Some True, contains := Some [Self, Ref PARAMS]\<rparr>) h;
          (m16, h) = new (no_mode\<lparr>m_begin := Some (bs ''module%.''), m_keywords := Some (KObj [(''built_in'',
              ''module'')]), m_relevance := Some 0\<rparr>) h;
          (m17, h) = new (no_mode\<lparr>beginKeywords := Some ''module'', m_end := Some (bs ''%{''),
              excludeEnd := Some True\<rparr>) h;
          (m18, h) = new (no_mode\<lparr>beginKeywords := Some ''interface'', m_end := Some (bs ''%{''),
              excludeEnd := Some True, m_keywords := Some (KStr ''interface extends'')\<rparr>) h;
          (m19, h) = new (no_mode\<lparr>m_begin := Some (bs ''%$[(.]'')\<rparr>) h;
          (m20, h) = new (no_mode\<lparr>m_begin := Some (bs ''%.'' @ IDENT_RE), m_relevance := Some 0\<rparr>) h;
          (language, h) = new (no_mode\<lparr>aliases := Some [''ts''], m_keywords := Some KEYWORDS, contains := Some [Ref m6,
              Ref hl_APOS_STRING_MODE, Ref hl_QUOTE_STRING_MODE, Ref HTML_TEMPLATE, Ref CSS_TEMPLATE,
              Ref TEMPLATE_STRING, Ref hl_C_LINE_COMMENT_MODE, Ref hl_C_BLOCK_COMMENT_MODE, Ref NUMBER, Ref m12,
              Ref m14, Ref m15, Ref m16, Ref m17, Ref m18, Ref m19, Ref m20, Ref DECORATOR, Ref ARGS]\<rparr>) h
      in (language, h))"

definition lang_vala :: "mstore \<Rightarrow> nat \<times> mstore" where
  "lang_vala h =
     (let (m1, h) = new (no_mode\<lparr>className := Some ''class'', beginKeywords := Some ''class interface namespace'',
              m_end := Some ''{'', excludeEnd := Some True, illegal := Some (bs ''[^,:%n%s%.]''),
              contains := Some [Ref hl_UNDERSCORE_TITLE_MODE]\<rparr>) h;
          (m2, h) = new (no_mode\<lparr>className := Some ''string'', m_begin := Some [CHR 0x22, CHR 0x22, CHR 0x22],
              m_end := Some [CHR 0x22, CHR 0x22, CHR 0x22], m_relevance := Some 5\<rparr>) h;
          (m3, h) = new (no_mode\<lparr>className := Some ''meta'', m_begin := Some ''^#'', m_end := Some ''$'',
              m_relevance := Some 2\<rparr>) h;
          (language, h) = new (no_mode\<lparr>m_keywords := Some (KObj [(''keyword'',
              ''char uchar unichar int uint long ulong short ushort int8 int16 int32 int64 uint8 '' @
              ''uint16 uint32 uint64 float double bool struct enum string void '' @ ''weak unowned owned '' @
              ''async signal static abstract interface override virtual delegate '' @
              ''if while do for foreach else switch case break default return try catch '' @
              ''public private protected internal '' @ ''using new this get set const stdout stdin stderr var''),
              (''built_in'', ''DBus GLib CCode Gee Object Gtk Posix''), (''literal'', ''false true null'')]),
              contains := Some [Ref m1, Ref hl_C_LINE_COMMENT_MODE, Ref hl_C_BLOCK_COMMENT_MODE, Ref m2,
              Ref hl_APOS_STRING_MODE, Ref hl_QUOTE_STRING_MODE, Ref hl_C_NUMBER_MODE, Ref m3]\<rparr>) h
      in (language, h))"

definition lang_vbnet :: "mstore \<Rightarrow> nat \<times> mstore" where
  "lang_vbnet h =
     (let (m1, h) = new (no_mode\<lparr>m_begin := Some [CHR 0x22, CHR 0x22]\<rparr>) h;
          (m2, h) = new (no_mode\<lparr>className := Some ''doctag'', m_begin := Some ([CHR 0x27, CHR 0x27, CHR 0x27] @
              ''|<!--|-->''), contains := Some [Ref hl_PHRASAL_WORDS_MODE]\<rparr>) h;
          (m3, h) = new (no_mode\<lparr>className := Some ''doctag'', m_begin := Some ''</?'', m_end := Some ''>'',
              contains := Some [Ref hl_PHRASAL_WORDS_MODE]\<rparr>) h;
          (m4, h) = new (inherit_mode (mode_at h hl_QUOTE_STRING_MODE) [(no_mode\<lparr>contains := Some [Ref m1]\<rparr>)]) h;
          (m5, h) = COMMENT [CHR 0x27] ''$'' (no_mode\<lparr>returnBegin := Some True, contains := Some [Ref m2,
              Ref m3]\<rparr>) h;
          (m6, h) = new (no_mode\<lparr>className := Some ''meta'', m_begin := Some ''#'', m_end := Some ''$'',
              m_keywords := Some (KObj [(''meta-keyword'', ''if else elseif end region externalsource'')])\<rparr>) h;
          (language, h) = new (no_mode\<lparr>aliases := Some [''vb''], case_insensitive := Some True,
              m_keywords := Some (KObj [(''keyword'',
              ''addhandler addressof alias and andalso aggregate ansi as assembly auto binary by byref byval '' @
              ''call case catch class compare const continue custom declare default delegate dim distinct do '' @
              ''each equals else elseif end enum erase error event exit explicit finally for friend from function '' @
              ''get global goto group handles if implements imports in inherits interface into is isfalse isnot istrue '' @
              ''join key let lib like loop me mid mod module mustinherit mustoverride mybase myclass '' @
              ''namespace narrowing new next not notinheritable notoverridable '' @
              ''of off on operator option optional or order orelse overloads overridable overrides '' @
              ''paramarray partial preserve private property protected public '' @
              ''raiseevent readonly redim rem removehandler resume return '' @
              ''select set shadows shared skip static step stop structure strict sub synclock '' @
              ''take text then throw to try unicode until using when where while widening with withevents writeonly xor''),
              (''built_in'',
              ''boolean byte cbool cbyte cchar cdate cdec cdbl char cint clng cobj csbyte cshort csng cstr ctype '' @
              ''date decimal directcast double gettype getxmlnamespace iif integer long object '' @
              ''sbyte short single string trycast typeof uinteger ulong ushort''), (''literal'',
              ''true false nothing'')]), illegal := Some (bs ''//|{|}|endif|gosub|variant|wend|^%$ ''),
              contains := Some [Ref m4, Ref m5, Ref hl_C_NUMBER_MODE, Ref m6]\<rparr>) h
      in (language, h))"

definition lang_vbscript_html :: "mstore \<Rightarrow> nat \<times> mstore" where
  "lang_vbscript_html h =
     (let (m1, h) = new (no_mode\<lparr>m_begin := Some ''<%'', m_end := Some ''%>'',
              subLanguage := Some (SubName ''vbscript'')\<rparr>) h;
          (language, h) = new (no_mode\<lparr>subLanguage := Some (SubName ''xml''), contains := Some [Ref m1]\<rparr>) h
      in (language, h))"

definition lang_vbscript :: "mstore \<Rightarrow> nat \<times> mstore" where
  "lang_vbscript h =
     (let (m1, h) = new (no_mode\<lparr>m_begin := Some [CHR 0x22, CHR 0x22]\<rparr>) h;
          (m2, h) = new (inherit_mode (mode_at h hl_QUOTE_STRING_MODE) [(no_mode\<lparr>contains := Some [Ref m1]\<rparr>)]) h;
          (m3, h) = COMMENT [CHR 0x27] ''$'' (no_mode\<lparr>m_relevance := Some 0\<rparr>) h;
          (language, h) = new (no_mode\<lparr>aliases := Some [''vbs''], case_insensitive := Some True,
              m_keywords := Some (KObj [(''keyword'',
              ''call class const dim do loop erase execute executeglobal exit for each next function '' @
              ''if then else on error option explicit new private property let get public randomize '' @
              ''redim rem select case set stop sub while wend with end to elseif is or xor and not '' @
              ''class_initialize class_terminate default preserve in me byval byref step resume goto''),
              (''built_in'', ''lcase month vartype instrrev ubound setlocale getobject rgb getref string '' @
              ''weekdayname rnd dateadd monthname now day minute isarray cbool round formatcurrency '' @
              ''conversions csng timevalue second year space abs clng timeserial fixs len asc '' @
              ''isempty maths dateserial atn timer isobject filter weekday datevalue ccur isdate '' @
              ''instr datediff formatdatetime replace isnull right sgn array snumeric log cdbl hex '' @
              ''chr lbound msgbox ucase getlocale cos cdate cbyte rtrim join hour oct typename trim '' @
              ''strcomp int createobject loadpicture tan formatnumber mid scriptenginebuildversion '' @
              ''scriptengine split scriptengineminorversion cint sin datepart ltrim sqr '' @
              ''scriptenginemajorversion time derived eval date formatpercent exp inputbox left ascw '' @
              ''chrw regexp server response request cstr err''), (''literal'', ''true false null nothing empty'')]),
              illegal := Some ''//'', contains := Some [Ref m2, Ref m3, Ref hl_C_NUMBER_MODE]\<rparr>) h
      in (language, h))"

definition lang_verilog :: "mstore \<Rightarrow> nat \<times> mstore" where
  "lang_verilog h =
     (let SV_KEYWORDS = KObj [(''keyword'', ''accept_on alias always always_comb always_ff always_latch and assert assign '' @
              ''assume automatic before begin bind bins binsof bit break buf|0 bufif0 bufif1 '' @
              ''byte case casex casez cell chandle checker class clocking cmos config const '' @
              ''constraint context continue cover covergroup coverpoint cross deassign default '' @
              ''defparam design disable dist do edge else end endcase endchecker endclass '' @
              ''endclocking endconfig endfunction endgenerate endgroup endinterface endmodule '' @
              ''endpackage endprimitive endprogram endproperty endspecify endsequence endtable '' @
              ''endtask enum event eventually expect export extends extern final first_match for '' @
              ''force foreach forever fork forkjoin function generate|5 genvar global highz0 highz1 '' @
              ''if iff ifnone ignore_bins illegal_bins implements implies import incdir include '' @
              ''initial inout input inside instance int integer interconnect interface intersect '' @
              ''join join_any join_none large let liblist library local localparam logic longint '' @
              ''macromodule matches medium modport module nand negedge nettype new nexttime nmos '' @
              ''nor noshowcancelled not notif0 notif1 or output package packed parameter pmos '' @
              ''posedge primitive priority program property protected pull0 pull1 pulldown pullup '' @
              ''pulsestyle_ondetect pulsestyle_onevent pure rand randc randcase randsequence rcmos '' @
              ''real realtime ref reg reject_on release repeat restrict return rnmos rpmos rtran '' @
              ''rtranif0 rtranif1 s_always s_eventually s_nexttime s_until s_until_with scalared '' @
              ''sequence shortint shortreal showcancelled signed small soft solve specify specparam '' @
              ''static string strong strong0 strong1 struct super supply0 supply1 sync_accept_on '' @
              ''sync_reject_on table tagged task this throughout time timeprecision timeunit tran '' @
              ''tranif0 tranif1 tri tri0 tri1 triand trior trireg type typedef union unique unique0 '' @
              ''unsigned until until_with untyped use uwire var vectored virtual void wait wait_order '' @
              ''wand weak weak0 weak1 while wildcard wire with within wor xnor xor''), (''literal'', ''null''),
              (''built_in'', ''$finish $stop $exit $fatal $error $warning $info $realtime $time $printtimescale '' @
              ''$bitstoreal $bitstoshortreal $itor $signed $cast $bits $stime $timeformat '' @
              ''$realtobits $shortrealtobits $rtoi $unsigned $asserton $assertkill $assertpasson '' @
              ''$assertfailon $assertnonvacuouson $assertoff $assertcontrol $assertpassoff '' @
              ''$assertfailoff $assertvacuousoff $isunbounded $sampled $fell $changed $past_gclk '' @
              ''$fell_gclk $changed_gclk $rising_gclk $steady_gclk $coverage_control '' @
              ''$coverage_get $coverage_save $set_coverage_db_name $rose $stable $past '' @
              ''$rose_gclk $stable_gclk $future_gclk $falling_gclk $changing_gclk $display '' @
              ''$coverage_get_max $coverage_merge $get_coverage $load_coverage_db $typename '' @
              ''$unpacked_dimensions $left $low $increment $clog2 $ln $log10 $exp $sqrt $pow '' @
              ''$floor $ceil $sin $cos $tan $countbits $onehot $isunknown $fatal $warning '' @
              ''$dimensions $right $high $size $asin $acos $atan $atan2 $hypot $sinh $cosh '' @
              ''$tanh $asinh $acosh $atanh $countones $onehot0 $error $info $random '' @
              ''$dist_chi_square $dist_erlang $dist_exponential $dist_normal $dist_poisson '' @
              ''$dist_t $dist_uniform $q_initialize $q_remove $q_exam $async$and$array '' @
              ''$async$nand$array $async$or$array $async$nor$array $sync$and$array '' @
              ''$sync$nand$array $sync$or$array $sync$nor$array $q_add $q_full $psprintf '' @
              ''$async$and$plane $async$nand$plane $async$or$plane $async$nor$plane '' @
              ''$sync$and$plane $sync$nand$plane $sync$or$plane $sync$nor$plane $system '' @
              ''$display $displayb $displayh $displayo $strobe $strobeb $strobeh $strobeo '' @
              ''$write $readmemb $readmemh $writememh $value$plusargs '' @
              ''$dumpvars $dumpon $dumplimit $dumpports $dumpportson $dumpportslimit '' @
              ''$writeb $writeh $writeo $monitor $monitorb $monitorh $monitoro $writememb '' @
              ''$dumpfile $dumpoff $dumpall $dumpflush $dumpportsoff $dumpportsall '' @
              ''$dumpportsflush $fclose $fdisplay $fdisplayb $fdisplayh $fdisplayo '' @
              ''$fstrobe $fstrobeb $fstrobeh $fstrobeo $swrite $swriteb $swriteh '' @
              ''$swriteo $fscanf $fread $fseek $fflush $feof $fopen $fwrite $fwriteb '' @
              ''$fwriteh $fwriteo $fmonitor $fmonitorb $fmonitorh $fmonitoro $sformat '' @
              ''$sformatf $fgetc $ungetc $fgets $sscanf $rewind $ftell $ferror'')];
          (m1, h) = new (no_mode\<lparr>m_begin := Some (bs ''%b((%d+'' @ [CHR 0x27] @
              ''(b|h|o|d|B|H|O|D))[0-9xzXZa-fA-F_]+)'')\<rparr>) h;
          (m2, h) = new (no_mode\<lparr>m_begin := Some (bs ''%B(('' @ [CHR 0x27] @
              ''(b|h|o|d|B|H|O|D))[0-9xzXZa-fA-F_]+)'')\<rparr>) h;
          (m3, h) = new (no_mode\<lparr>m_begin := Some (bs ''%b([0-9_])+''), m_relevance := Some 0\<rparr>) h;
          (m4, h) = new (no_mode\<lparr>className := Some ''number'', contains := Some [Ref hl_BACKSLASH_ESCAPE],
              variants := Some [m1, m2, m3]\<rparr>) h;
          (m5, h) = new (no_mode\<lparr>m_begin := Some (bs ''#%((?!parameter).+%)'')\<rparr>) h;
          (m6, h) = new (no_mode\<lparr>m_begin := Some (bs ''%.%w+''), m_relevance := Some 0\<rparr>) h;
          (m7, h) = new (no_mode\<lparr>className := Some ''variable'', variants := Some [m5, m6]\<rparr>) h;
          (m8, h) = new (no_mode\<lparr>className := Some ''meta'', m_begin := Some [CHR 0x60], m_end := Some ''$'',
              m_keywords := Some (KObj [(''meta-keyword'', ''define __FILE__ '' @
              ''__LINE__ begin_keywords celldefine default_nettype define '' @
              ''else elsif end_keywords endcelldefine endif ifdef ifndef '' @
              ''include line nounconnected_drive pragma resetall timescale '' @
              ''unconnected_drive undef undefineall'')]), m_relevance := Some 0\<rparr>) h;
          (language, h) = new (no_mode\<lparr>aliases := Some [''v'', ''sv'', ''svh''], case_insensitive := Some False,
              m_keywords := Some SV_KEYWORDS, lexemes := Some (bs ''[%w%$]+''),
              contains := Some [Ref hl_C_BLOCK_COMMENT_MODE, Ref hl_C_LINE_COMMENT_MODE, Ref hl_QUOTE_STRING_MODE,
              Ref m4, Ref m7, Ref m8]\<rparr>) h
      in (language, h))"

definition lang_vhdl :: "mstore \<Rightarrow> nat \<times> mstore" where
  "lang_vhdl h =
     (let INTEGER_RE = bs ''%d(_|%d)*'';
          EXPONENT_RE = ''[eE][-+]?'' @ INTEGER_RE;
          DECIMAL_LITERAL_RE = INTEGER_RE @ bs ''(%.'' @ INTEGER_RE @ '')?'' @ ''('' @ EXPONENT_RE @ '')?'';
          BASED_INTEGER_RE = bs ''%w+'';
          BASED_LITERAL_RE = INTEGER_RE @ ''#'' @ BASED_INTEGER_RE @ bs ''(%.'' @ BASED_INTEGER_RE @ '')?'' @ ''#'' @ ''('' @
              EXPONENT_RE @ '')?'';
          NUMBER_RE' = bs ''%b('' @ BASED_LITERAL_RE @ ''|'' @ DECIMAL_LITERAL_RE @ '')'';
          (m1, h) = COMMENT ''--'' ''$'' no_mode h;
          (m2, h) = new (no_mode\<lparr>className := Some ''number'', m_begin := Some (NUMBER_RE'),
              m_relevance := Some 0\<rparr>) h;
          (m3, h) = new (no_mode\<lparr>className := Some ''string'', m_begin := Some ([CHR 0x27] @ ''(U|X|0|1|Z|W|L|H|-)'' @
              [CHR 0x27]), contains := Some [Ref hl_BACKSLASH_ESCAPE]\<rparr>) h;
          (m4, h) = new (no_mode\<lparr>className := Some ''symbol'', m_begin := Some ([CHR 0x27] @
              ''[A-Za-z](_?[A-Za-z0-9])*''), contains := Some [Ref hl_BACKSLASH_ESCAPE]\<rparr>) h;
          (language, h) = new (no_mode\<lparr>case_insensitive := Some True, m_keywords := Some (KObj [(''keyword'',
              ''abs access after alias all and architecture array assert assume assume_guarantee attribute '' @
              ''begin block body buffer bus case component configuration constant context cover disconnect '' @
              ''downto default else elsif end entity exit fairness file for force function generate '' @
              ''generic group guarded if impure in inertial inout is label library linkage literal '' @
              ''loop map mod nand new next nor not null of on open or others out package parameter port '' @
              ''postponed procedure process property protected pure range record register reject '' @
              ''release rem report restrict restrict_guarantee return rol ror select sequence '' @
              ''severity shared signal sla sll sra srl strong subtype then to transport type '' @
              ''unaffected units until use variable view vmode vprop vunit wait when while with xnor xor''),
              (''built_in'', ''boolean bit character '' @ ''integer time delay_length natural positive '' @
              ''string bit_vector file_open_kind file_open_status '' @
              ''std_logic std_logic_vector unsigned signed boolean_vector integer_vector '' @
              ''std_ulogic std_ulogic_vector unresolved_unsigned u_unsigned unresolved_signed u_signed '' @
              ''real_vector time_vector''), (''literal'', ''false true note warning error failure '' @
              ''line text side width'')]), illegal := Some ''{'', contains := Some [Ref hl_C_BLOCK_COMMENT_MODE,
              Ref m1, Ref hl_QUOTE_STRING_MODE, Ref m2, Ref m3, Ref m4]\<rparr>) h
      in (language, h))"

definition lang_vim :: "mstore \<Rightarrow> nat \<times> mstore" where
  "lang_vim h =
     (let (m1, h) = new (no_mode\<lparr>className := Some ''string'', m_begin := Some [CHR 0x27], m_end := Some [CHR 0x27],
              illegal := Some (bs ''%n'')\<rparr>) h;
          (m2, h) = new (no_mode\<lparr>className := Some ''string'', m_begin := Some ([CHR 0x22] @ bs ''(%%'' @ [CHR 0x22] @
              bs ''|%n%%|[^'' @ [CHR 0x22] @ bs ''%n])*'' @ [CHR 0x22])\<rparr>) h;
          (m3, h) = COMMENT [CHR 0x22] ''$'' no_mode h;
          (m4, h) = new (no_mode\<lparr>className := Some ''variable'', m_begin := Some (bs ''[bwtglsav]:[%w%d_]*'')\<rparr>) h;
          (m5, h) = new (no_mode\<lparr>className := Some ''params'', m_begin := Some (bs ''%(''),
              m_end := Some (bs ''%)'')\<rparr>) h;
          (m6, h) = new (no_mode\<lparr>className := Some ''function'', beginKeywords := Some ''function function!'',
              m_end := Some ''$'', m_relevance := Some 0, contains := Some [Ref hl_TITLE_MODE, Ref m5]\<rparr>) h;
          (m7, h) = new (no_mode\<lparr>className := Some ''symbol'', m_begin := Some (bs ''<[%w-]+>'')\<rparr>) h;
          (language, h) = new (no_mode\<lparr>lexemes := Some (bs ''[!#@%w]+''), m_keywords := Some (KObj [(''keyword'',
              ''N|0 P|0 X|0 a|0 ab abc abo al am an|0 ar arga argd arge argdo argg argl argu as au aug aun b|0 bN '' @
              ''ba bad bd be bel bf bl bm bn bo bp br brea breaka breakd breakl bro bufdo buffers bun bw c|0 cN cNf '' @
              ''ca cabc caddb cad caddf cal cat cb cc ccl cd ce cex cf cfir cgetb cgete cg changes chd che checkt '' @
              ''cl cla clo cm cmapc cme cn cnew cnf cno cnorea cnoreme co col colo com comc comp con conf cope '' @
              ''cp cpf cq cr cs cst cu cuna cunme cw delm deb debugg delc delf dif diffg diffo diffp diffpu diffs '' @
              ''diffthis dig di dl dell dj dli do doautoa dp dr ds dsp e|0 ea ec echoe echoh echom echon el elsei '' @
              ''em en endfo endf endt endw ene ex exe exi exu f|0 files filet fin fina fini fir fix fo foldc foldd '' @
              ''folddoc foldo for fu go gr grepa gu gv ha helpf helpg helpt hi hid his ia iabc if ij il im imapc '' @
              ''ime ino inorea inoreme int is isp iu iuna iunme j|0 ju k|0 keepa kee keepj lN lNf l|0 lad laddb '' @
              ''laddf la lan lat lb lc lch lcl lcs le lefta let lex lf lfir lgetb lgete lg lgr lgrepa lh ll lla lli '' @
              ''lmak lm lmapc lne lnew lnf ln loadk lo loc lockv lol lope lp lpf lr ls lt lu lua luad luaf lv '' @
              ''lvimgrepa lw m|0 ma mak map mapc marks mat me menut mes mk mks mksp mkv mkvie mod mz mzf nbc nb nbs '' @
              ''new nm nmapc nme nn nnoreme noa no noh norea noreme norm nu nun nunme ol o|0 om omapc ome on ono '' @
              ''onoreme opt ou ounme ow p|0 '' @
              ''profd prof pro promptr pc ped pe perld po popu pp pre prev ps pt ptN ptf ptj ptl ptn ptp ptr pts pu '' @
              ''pw py3 python3 py3d py3f py pyd pyf quita qa rec red redi redr redraws reg res ret retu rew ri '' @
              ''rightb rub rubyd rubyf rund ru rv sN san sa sal sav sb sbN sba sbf sbl sbm sbn sbp sbr scrip '' @
              ''scripte scs se setf setg setl sf sfir sh sim sig sil sl sla sm smap smapc sme sn sni sno snor snoreme sor '' @
              ''so spelld spe spelli spellr spellu spellw sp spr sre st sta startg startr star stopi stj sts sun '' @
              ''sunm sunme sus sv sw sy synti sync tN tabN tabc tabdo tabe tabf tabfir tabl tabm tabnew '' @
              ''tabn tabo tabp tabr tabs tab ta tags tc tcld tclf te tf th tj tl tm tn to tp tr try ts tu u|0 undoj '' @
              ''undol una unh unl unlo unm unme uns up ve verb vert vim vimgrepa vi viu vie vm vmapc vme vne vn '' @
              ''vnoreme vs vu vunme windo w|0 wN wa wh wi winc winp wn wp wq wqa ws wu wv x|0 xa xmapc xm xme xn '' @
              ''xnoreme xu xunme y|0 z|0 ~ '' @
              ''Next Print append abbreviate abclear aboveleft all amenu anoremenu args argadd argdelete argedit '' @
              ''argglobal arglocal argument ascii autocmd augroup aunmenu buffer bNext ball badd bdelete behave '' @
              ''belowright bfirst blast bmodified bnext botright bprevious brewind break breakadd breakdel '' @
              ''breaklist browse bunload '' @
              ''bwipeout change cNext cNfile cabbrev cabclear caddbuffer caddexpr caddfile call catch cbuffer '' @
              ''cclose center cexpr cfile cfirst cgetbuffer cgetexpr cgetfile chdir checkpath checktime clist clast '' @
              ''close cmap cmapclear cmenu cnext cnewer cnfile cnoremap cnoreabbrev cnoremenu copy colder '' @
              ''colorscheme command comclear compiler continue confirm copen cprevious cpfile cquit crewind cscope '' @
              ''cstag cunmap '' @
              ''cunabbrev cunmenu cwindow delete delmarks debug debuggreedy delcommand delfunction diffupdate '' @
              ''diffget diffoff diffpatch diffput diffsplit digraphs display deletel djump dlist doautocmd '' @
              ''doautoall deletep drop dsearch dsplit edit earlier echo echoerr echohl echomsg else elseif emenu endif endfor '' @
              ''endfunction endtry endwhile enew execute exit exusage file filetype find finally finish first '' @
              ''fixdel fold foldclose folddoopen folddoclosed foldopen function global goto grep grepadd gui gvim '' @
              ''hardcopy help helpfind helpgrep helptags highlight hide history insert iabbrev iabclear ijump ilist imap '' @
              ''imapclear imenu inoremap inoreabbrev inoremenu intro isearch isplit iunmap iunabbrev iunmenu join '' @
              ''jumps keepalt keepmarks keepjumps lNext lNfile list laddexpr laddbuffer laddfile last language '' @
              ''later lbuffer lcd lchdir lclose lcscope left leftabove lexpr lfile lfirst lgetbuffer lgetexpr '' @
              ''lgetfile lgrep lgrepadd lhelpgrep llast llist lmake lmap lmapclear lnext lnewer lnfile lnoremap '' @
              ''loadkeymap loadview '' @
              ''lockmarks lockvar lolder lopen lprevious lpfile lrewind ltag lunmap luado luafile lvimgrep '' @
              ''lvimgrepadd lwindow move mark make mapclear match menu menutranslate messages mkexrc mksession '' @
              ''mkspell mkvimrc mkview mode mzscheme mzfile nbclose nbkey nbsart next nmap nmapclear nmenu nnoremap '' @
              ''nnoremenu noautocmd noremap nohlsearch noreabbrev noremenu normal number nunmap nunmenu oldfiles '' @
              ''open omap omapclear omenu only onoremap onoremenu options ounmap ounmenu ownsyntax print profdel '' @
              ''profile promptfind promptrepl pclose pedit perl perldo pop popup ppop preserve previous psearch ptag ptNext '' @
              ''ptfirst ptjump ptlast ptnext ptprevious ptrewind ptselect put pwd py3do py3file python pydo pyfile '' @
              ''quit quitall qall read recover redo redir redraw redrawstatus registers resize retab return rewind '' @
              ''right rightbelow ruby rubydo rubyfile rundo runtime rviminfo substitute sNext sandbox sargument '' @
              ''sall saveas sbuffer sbNext sball sbfirst sblast sbmodified sbnext sbprevious sbrewind scriptnames '' @
              ''scriptencoding '' @
              ''scscope set setfiletype setglobal setlocal sfind sfirst shell simalt sign silent sleep slast smagic '' @
              ''smapclear smenu snext sniff snomagic snoremap snoremenu sort source spelldump spellgood spellinfo '' @
              ''spellrepall spellundo spellwrong split sprevious srewind stop stag startgreplace startreplace '' @
              ''startinsert stopinsert stjump stselect sunhide sunmap sunmenu suspend sview swapname syntax syntime '' @
              ''syncbind tNext tabNext tabclose tabedit tabfind tabfirst tablast tabmove tabnext tabonly '' @
              ''tabprevious tabrewind tag tcl tcldo tclfile tearoff tfirst throw tjump tlast tmenu tnext topleft tprevious '' @
              ''trewind tselect tunmenu undo undojoin undolist unabbreviate unhide unlet unlockvar unmap unmenu '' @
              ''unsilent update vglobal version verbose vertical vimgrep vimgrepadd visual viusage view vmap '' @
              ''vmapclear vmenu vnew '' @
              ''vnoremap vnoremenu vsplit vunmap vunmenu write wNext wall while winsize wincmd winpos wnext '' @
              ''wprevious wqall wsverb wundo wviminfo xit xall xmapclear xmap xmenu xnoremap xnoremenu xunmap xunmenu yank''),
              (''built_in'', ''synIDtrans atan2 range matcharg did_filetype asin feedkeys xor argv '' @
              ''complete_check add getwinposx getqflist getwinposy screencol '' @
              ''clearmatches empty extend getcmdpos mzeval garbagecollect setreg '' @
              ''ceil sqrt diff_hlID inputsecret get getfperm getpid filewritable '' @
              ''shiftwidth max sinh isdirectory synID system inputrestore winline '' @
              ''atan visualmode inputlist tabpagewinnr round getregtype mapcheck '' @
              ''hasmapto histdel argidx findfile sha256 exists toupper getcmdline '' @
              ''taglist string getmatches bufnr strftime winwidth bufexists '' @
              ''strtrans tabpagebuflist setcmdpos remote_read printf setloclist '' @
              ''getpos getline bufwinnr float2nr len getcmdtype diff_filler luaeval '' @
              ''resolve libcallnr foldclosedend reverse filter has_key bufname '' @
              ''str2float strlen setline getcharmod setbufvar index searchpos '' @
              ''shellescape undofile foldclosed setqflist buflisted strchars str2nr '' @
              ''virtcol floor remove undotree remote_expr winheight gettabwinvar '' @
              ''reltime cursor tabpagenr finddir localtime acos getloclist search '' @
              ''tanh matchend rename gettabvar strdisplaywidth type abs py3eval '' @
              ''setwinvar tolower wildmenumode log10 spellsuggest bufloaded '' @
              ''synconcealed nextnonblank server2client complete settabwinvar '' @
              ''executable input wincol setmatches getftype hlID inputsave '' @
              ''searchpair or screenrow line settabvar histadd deepcopy strpart '' @
              ''remote_peek and eval getftime submatch screenchar winsaveview '' @
              ''matchadd mkdir screenattr getfontname libcall reltimestr getfsize '' @
              ''winnr invert pow getbufline byte2line soundfold repeat fnameescape '' @
              ''tagfiles sin strwidth spellbadword trunc maparg log lispindent '' @
              ''hostname setpos globpath remote_foreground getchar synIDattr '' @
              ''fnamemodify cscope_connection stridx winbufnr indent min '' @
              ''complete_add nr2char searchpairpos inputdialog values matchlist '' @
              ''items hlexists strridx browsedir expand fmod pathshorten line2byte '' @
              ''argc count getwinvar glob foldtextresult getreg foreground cosh '' @
              ''matchdelete has char2nr simplify histget searchdecl iconv '' @
              ''winrestcmd pumvisible writefile foldlevel haslocaldir keys cos '' @
              ''matchstr foldtext histnr tan tempname getcwd byteidx getbufvar '' @
              ''islocked escape eventhandler remote_send serverlist winrestview '' @
              ''synstack pyeval prevnonblank readfile cindent filereadable changenr '' @ ''exp'')]),
              illegal := Some '';'', contains := Some [Ref hl_NUMBER_MODE, Ref m1, Ref m2, Ref m3, Ref m4, Ref m6,
              Ref m7]\<rparr>) h
      in (language, h))"

definition lang_x86asm :: "mstore \<Rightarrow> nat \<times> mstore" where
  "lang_x86asm h =
     (let (m1, h) = COMMENT '';'' ''$'' (no_mode\<lparr>m_relevance := Some 0\<rparr>) h;
          (m2, h) = new (no_mode\<lparr>m_begin := Some (bs ''%b(?:([0-9][0-9_]*'' @ bs '')?%.[0-9_]*(?:[eE][+-]?[0-9_]+)?|'' @
              bs ''(0[Xx])?[0-9][0-9_]*%.?[0-9_]*(?:[pP](?:[+-]?[0-9_]+)?)?)%b''), m_relevance := Some 0\<rparr>) h;
          (m3, h) = new (no_mode\<lparr>m_begin := Some (bs ''%$[0-9][0-9A-Fa-f]*''), m_relevance := Some 0\<rparr>) h;
          (m4,
              h) = new (no_mode\<lparr>m_begin := Some (bs ''%b(?:[0-9A-Fa-f][0-9A-Fa-f_]*[Hh]|[0-9][0-9_]*[DdTt]?|[0-7][0-7_]*[QqOo]|[0-1][0-1_]*[BbYy])%b'')\<rparr>) h;
          (m5,
              h) = new (no_mode\<lparr>m_begin := Some (bs ''%b(?:0[Xx][0-9A-Fa-f_]+|0[DdTt][0-9_]+|0[QqOo][0-7_]+|0[BbYy][0-1_]+)%b'')\<rparr>) h;
          (m6, h) = new (no_mode\<lparr>className := Some ''number'', variants := Some [m2, m3, m4, m5]\<rparr>) h;
          (m7, h) = new (no_mode\<lparr>m_begin := Some [CHR 0x27], m_end := Some (bs ''[^%%]'' @ [CHR 0x27])\<rparr>) h;
          (m8, h) = new (no_mode\<lparr>m_begin := Some [CHR 0x60], m_end := Some (bs ''[^%%]'' @ [CHR 0x60])\<rparr>) h;
          (m9, h) = new (no_mode\<lparr>className := Some ''string'', variants := Some [m7, m8], m_relevance := Some 0\<rparr>) h;
          (m10, h) = new (no_mode\<lparr>m_begin := Some (bs ''^%s*[A-Za-z._?][A-Za-z0-9_$#@~.?]*(:|%s+label)'')\<rparr>) h;
          (m11, h) = new (no_mode\<lparr>m_begin := Some (bs ''^%s*'' @ ''%%'' @ ''[A-Za-z0-9_$#@~.?]*:'')\<rparr>) h;
          (m12, h) = new (no_mode\<lparr>className := Some ''symbol'', variants := Some [m10, m11],
              m_relevance := Some 0\<rparr>) h;
          (m13, h) = new (no_mode\<lparr>className := Some ''subst'', m_begin := Some ''%[0-9]+'',
              m_relevance := Some 0\<rparr>) h;
          (m14, h) = new (no_mode\<lparr>className := Some ''subst'', m_begin := Some ''%!S+'', m_relevance := Some 0\<rparr>) h;
          (m15, h) = new (no_mode\<lparr>className := Some ''meta'', m_begin := Some (bs ''^%s*%.[%w_-]+'')\<rparr>) h;
          (language, h) = new (no_mode\<lparr>case_insensitive := Some True, lexemes := Some (''[.%]?'' @ IDENT_RE),
              m_keywords := Some (KObj [(''keyword'',
              ''lock rep repe repz repne repnz xaquire xrelease bnd nobnd '' @
              ''aaa aad aam aas adc add and arpl bb0_reset bb1_reset bound bsf bsr bswap bt btc btr bts call cbw '' @
              ''cdq cdqe clc cld cli clts cmc cmp cmpsb cmpsd cmpsq cmpsw cmpxchg cmpxchg486 cmpxchg8b cmpxchg16b '' @
              ''cpuid cpu_read cpu_write cqo cwd cwde daa das dec div dmint emms enter equ f2xm1 fabs fadd faddp '' @
              ''fbld fbstp fchs fclex fcmovb fcmovbe fcmove fcmovnb fcmovnbe fcmovne fcmovnu fcmovu fcom fcomi '' @
              ''fcomip fcomp fcompp fcos fdecstp fdisi fdiv fdivp fdivr fdivrp femms feni ffree ffreep fiadd ficom '' @
              ''ficomp fidiv fidivr fild fimul fincstp finit fist fistp fisttp fisub fisubr fld fld1 fldcw fldenv '' @
              ''fldl2e fldl2t fldlg2 fldln2 fldpi fldz fmul fmulp fnclex fndisi fneni fninit fnop fnsave fnstcw '' @
              ''fnstenv fnstsw fpatan fprem fprem1 fptan frndint frstor fsave fscale fsetpm fsin fsincos fsqrt fst '' @
              ''fstcw fstenv fstp fstsw fsub fsubp fsubr fsubrp ftst fucom fucomi fucomip fucomp fucompp fxam fxch '' @
              ''fxtract fyl2x fyl2xp1 hlt ibts icebp idiv imul in inc incbin insb insd insw int int01 int1 int03 '' @
              ''int3 into invd invpcid invlpg invlpga iret iretd iretq iretw jcxz jecxz jrcxz jmp jmpe lahf lar lds '' @
              ''lea leave les lfence lfs lgdt lgs lidt lldt lmsw loadall loadall286 lodsb lodsd lodsq lodsw loop '' @
              ''loope loopne loopnz loopz lsl lss ltr mfence monitor mov movd movq movsb movsd movsq movsw movsx '' @
              ''movsxd movzx mul mwait neg nop not or out outsb outsd outsw packssdw packsswb packuswb paddb paddd '' @
              ''paddsb paddsiw paddsw paddusb paddusw paddw pand pandn pause paveb pavgusb pcmpeqb pcmpeqd pcmpeqw '' @
              ''pcmpgtb pcmpgtd pcmpgtw pdistib pf2id pfacc pfadd pfcmpeq pfcmpge pfcmpgt pfmax pfmin pfmul pfrcp '' @
              ''pfrcpit1 pfrcpit2 pfrsqit1 pfrsqrt pfsub pfsubr pi2fd pmachriw pmaddwd pmagw pmulhriw pmulhrwa '' @
              ''pmulhrwc pmulhw pmullw pmvgezb pmvlzb pmvnzb pmvzb pop popa popad popaw popf popfd popfq popfw por '' @
              ''prefetch prefetchw pslld psllq psllw psrad psraw psrld psrlq psrlw psubb psubd psubsb psubsiw '' @
              ''psubsw psubusb psubusw psubw punpckhbw punpckhdq punpckhwd punpcklbw punpckldq punpcklwd push pusha '' @
              ''pushad pushaw pushf pushfd pushfq pushfw pxor rcl rcr rdshr rdmsr rdpmc rdtsc rdtscp ret retf retn '' @
              ''rol ror rdm rsdc rsldt rsm rsts sahf sal salc sar sbb scasb scasd scasq scasw sfence sgdt shl shld '' @
              ''shr shrd sidt sldt skinit smi smint smintold smsw stc std sti stosb stosd stosq stosw str sub svdc '' @
              ''svldt svts swapgs syscall sysenter sysexit sysret test ud0 ud1 ud2b ud2 ud2a umov verr verw fwait '' @
              ''wbinvd wrshr wrmsr xadd xbts xchg xlatb xlat xor cmove cmovz cmovne cmovnz cmova cmovnbe cmovae '' @
              ''cmovnb cmovb cmovnae cmovbe cmovna cmovg cmovnle cmovge cmovnl cmovl cmovnge cmovle cmovng cmovc '' @
              ''cmovnc cmovo cmovno cmovs cmovns cmovp cmovpe cmovnp cmovpo je jz jne jnz ja jnbe jae jnb jb jnae '' @
              ''jbe jna jg jnle jge jnl jl jnge jle jng jc jnc jo jno js jns jpo jnp jpe jp sete setz setne setnz '' @
              ''seta setnbe setae setnb setnc setb setnae setcset setbe setna setg setnle setge setnl setl setnge '' @
              ''setle setng sets setns seto setno setpe setp setpo setnp addps addss andnps andps cmpeqps cmpeqss '' @
              ''cmpleps cmpless cmpltps cmpltss cmpneqps cmpneqss cmpnleps cmpnless cmpnltps cmpnltss cmpordps '' @
              ''cmpordss cmpunordps cmpunordss cmpps cmpss comiss cvtpi2ps cvtps2pi cvtsi2ss cvtss2si cvttps2pi '' @
              ''cvttss2si divps divss ldmxcsr maxps maxss minps minss movaps movhps movlhps movlps movhlps movmskps '' @
              ''movntps movss movups mulps mulss orps rcpps rcpss rsqrtps rsqrtss shufps sqrtps sqrtss stmxcsr '' @
              ''subps subss ucomiss unpckhps unpcklps xorps fxrstor fxrstor64 fxsave fxsave64 xgetbv xsetbv xsave '' @
              ''xsave64 xsaveopt xsaveopt64 xrstor xrstor64 prefetchnta prefetcht0 prefetcht1 prefetcht2 maskmovq '' @
              ''movntq pavgb pavgw pextrw pinsrw pmaxsw pmaxub pminsw pminub pmovmskb pmulhuw psadbw pshufw pf2iw '' @
              ''pfnacc pfpnacc pi2fw pswapd maskmovdqu clflush movntdq movnti movntpd movdqa movdqu movdq2q movq2dq '' @
              ''paddq pmuludq pshufd pshufhw pshuflw pslldq psrldq psubq punpckhqdq punpcklqdq addpd addsd andnpd '' @
              ''andpd cmpeqpd cmpeqsd cmplepd cmplesd cmpltpd cmpltsd cmpneqpd cmpneqsd cmpnlepd cmpnlesd cmpnltpd '' @
              ''cmpnltsd cmpordpd cmpordsd cmpunordpd cmpunordsd cmppd comisd cvtdq2pd cvtdq2ps cvtpd2dq cvtpd2pi '' @
              ''cvtpd2ps cvtpi2pd cvtps2dq cvtps2pd cvtsd2si cvtsd2ss cvtsi2sd cvtss2sd cvttpd2pi cvttpd2dq '' @
              ''cvttps2dq cvttsd2si divpd divsd maxpd maxsd minpd minsd movapd movhpd movlpd movmskpd movupd mulpd '' @
              ''mulsd orpd shufpd sqrtpd sqrtsd subpd subsd ucomisd unpckhpd unpcklpd xorpd addsubpd addsubps '' @
              ''haddpd haddps hsubpd hsubps lddqu movddup movshdup movsldup clgi stgi vmcall vmclear vmfunc '' @
              ''vmlaunch vmload vmmcall vmptrld vmptrst vmread vmresume vmrun vmsave vmwrite vmxoff vmxon invept '' @
              ''invvpid pabsb pabsw pabsd palignr phaddw phaddd phaddsw phsubw phsubd phsubsw pmaddubsw pmulhrsw '' @
              ''pshufb psignb psignw psignd extrq insertq movntsd movntss lzcnt blendpd blendps blendvpd blendvps '' @
              ''dppd dpps extractps insertps movntdqa mpsadbw packusdw pblendvb pblendw pcmpeqq pextrb pextrd '' @
              ''pextrq phminposuw pinsrb pinsrd pinsrq pmaxsb pmaxsd pmaxud pmaxuw pminsb pminsd pminud pminuw '' @
              ''pmovsxbw pmovsxbd pmovsxbq pmovsxwd pmovsxwq pmovsxdq pmovzxbw pmovzxbd pmovzxbq pmovzxwd pmovzxwq '' @
              ''pmovzxdq pmuldq pmulld ptest roundpd roundps roundsd roundss crc32 pcmpestri pcmpestrm pcmpistri '' @
              ''pcmpistrm pcmpgtq popcnt getsec pfrcpv pfrsqrtv movbe aesenc aesenclast aesdec aesdeclast aesimc '' @
              ''aeskeygenassist vaesenc vaesenclast vaesdec vaesdeclast vaesimc vaeskeygenassist vaddpd vaddps '' @
              ''vaddsd vaddss vaddsubpd vaddsubps vandpd vandps vandnpd vandnps vblendpd vblendps vblendvpd '' @
              ''vblendvps vbroadcastss vbroadcastsd vbroadcastf128 vcmpeq_ospd vcmpeqpd vcmplt_ospd vcmpltpd '' @
              ''vcmple_ospd vcmplepd vcmpunord_qpd vcmpunordpd vcmpneq_uqpd vcmpneqpd vcmpnlt_uspd vcmpnltpd '' @
              ''vcmpnle_uspd vcmpnlepd vcmpord_qpd vcmpordpd vcmpeq_uqpd vcmpnge_uspd vcmpngepd vcmpngt_uspd '' @
              ''vcmpngtpd vcmpfalse_oqpd vcmpfalsepd vcmpneq_oqpd vcmpge_ospd vcmpgepd vcmpgt_ospd vcmpgtpd '' @
              ''vcmptrue_uqpd vcmptruepd vcmplt_oqpd vcmple_oqpd vcmpunord_spd vcmpneq_uspd vcmpnlt_uqpd '' @
              ''vcmpnle_uqpd vcmpord_spd vcmpeq_uspd vcmpnge_uqpd vcmpngt_uqpd vcmpfalse_ospd vcmpneq_ospd '' @
              ''vcmpge_oqpd vcmpgt_oqpd vcmptrue_uspd vcmppd vcmpeq_osps vcmpeqps vcmplt_osps vcmpltps vcmple_osps '' @
              ''vcmpleps vcmpunord_qps vcmpunordps vcmpneq_uqps vcmpneqps vcmpnlt_usps vcmpnltps vcmpnle_usps '' @
              ''vcmpnleps vcmpord_qps vcmpordps vcmpeq_uqps vcmpnge_usps vcmpngeps vcmpngt_usps vcmpngtps '' @
              ''vcmpfalse_oqps vcmpfalseps vcmpneq_oqps vcmpge_osps vcmpgeps vcmpgt_osps vcmpgtps vcmptrue_uqps '' @
              ''vcmptrueps vcmplt_oqps vcmple_oqps vcmpunord_sps vcmpneq_usps vcmpnlt_uqps vcmpnle_uqps vcmpord_sps '' @
              ''vcmpeq_usps vcmpnge_uqps vcmpngt_uqps vcmpfalse_osps vcmpneq_osps vcmpge_oqps vcmpgt_oqps '' @
              ''vcmptrue_usps vcmpps vcmpeq_ossd vcmpeqsd vcmplt_ossd vcmpltsd vcmple_ossd vcmplesd vcmpunord_qsd '' @
              ''vcmpunordsd vcmpneq_uqsd vcmpneqsd vcmpnlt_ussd vcmpnltsd vcmpnle_ussd vcmpnlesd vcmpord_qsd '' @
              ''vcmpordsd vcmpeq_uqsd vcmpnge_ussd vcmpngesd vcmpngt_ussd vcmpngtsd vcmpfalse_oqsd vcmpfalsesd '' @
              ''vcmpneq_oqsd vcmpge_ossd vcmpgesd vcmpgt_ossd vcmpgtsd vcmptrue_uqsd vcmptruesd vcmplt_oqsd '' @
              ''vcmple_oqsd vcmpunord_ssd vcmpneq_ussd vcmpnlt_uqsd vcmpnle_uqsd vcmpord_ssd vcmpeq_ussd '' @
              ''vcmpnge_uqsd vcmpngt_uqsd vcmpfalse_ossd vcmpneq_ossd vcmpge_oqsd vcmpgt_oqsd vcmptrue_ussd vcmpsd '' @
              ''vcmpeq_osss vcmpeqss vcmplt_osss vcmpltss vcmple_osss vcmpless vcmpunord_qss vcmpunordss '' @
              ''vcmpneq_uqss vcmpneqss vcmpnlt_usss vcmpnltss vcmpnle_usss vcmpnless vcmpord_qss vcmpordss '' @
              ''vcmpeq_uqss vcmpnge_usss vcmpngess vcmpngt_usss vcmpngtss vcmpfalse_oqss vcmpfalsess vcmpneq_oqss '' @
              ''vcmpge_osss vcmpgess vcmpgt_osss vcmpgtss vcmptrue_uqss vcmptruess vcmplt_oqss vcmple_oqss '' @
              ''vcmpunord_sss vcmpneq_usss vcmpnlt_uqss vcmpnle_uqss vcmpord_sss vcmpeq_usss vcmpnge_uqss '' @
              ''vcmpngt_uqss vcmpfalse_osss vcmpneq_osss vcmpge_oqss vcmpgt_oqss vcmptrue_usss vcmpss vcomisd '' @
              ''vcomiss vcvtdq2pd vcvtdq2ps vcvtpd2dq vcvtpd2ps vcvtps2dq vcvtps2pd vcvtsd2si vcvtsd2ss vcvtsi2sd '' @
              ''vcvtsi2ss vcvtss2sd vcvtss2si vcvttpd2dq vcvttps2dq vcvttsd2si vcvttss2si vdivpd vdivps vdivsd '' @
              ''vdivss vdppd vdpps vextractf128 vextractps vhaddpd vhaddps vhsubpd vhsubps vinsertf128 vinsertps '' @
              ''vlddqu vldqqu vldmxcsr vmaskmovdqu vmaskmovps vmaskmovpd vmaxpd vmaxps vmaxsd vmaxss vminpd vminps '' @
              ''vminsd vminss vmovapd vmovaps vmovd vmovq vmovddup vmovdqa vmovqqa vmovdqu vmovqqu vmovhlps vmovhpd '' @
              ''vmovhps vmovlhps vmovlpd vmovlps vmovmskpd vmovmskps vmovntdq vmovntqq vmovntdqa vmovntpd vmovntps '' @
              ''vmovsd vmovshdup vmovsldup vmovss vmovupd vmovups vmpsadbw vmulpd vmulps vmulsd vmulss vorpd vorps '' @
              ''vpabsb vpabsw vpabsd vpacksswb vpackssdw vpackuswb vpackusdw vpaddb vpaddw vpaddd vpaddq vpaddsb '' @
              ''vpaddsw vpaddusb vpaddusw vpalignr vpand vpandn vpavgb vpavgw vpblendvb vpblendw vpcmpestri '' @
              ''vpcmpestrm vpcmpistri vpcmpistrm vpcmpeqb vpcmpeqw vpcmpeqd vpcmpeqq vpcmpgtb vpcmpgtw vpcmpgtd '' @
              ''vpcmpgtq vpermilpd vpermilps vperm2f128 vpextrb vpextrw vpextrd vpextrq vphaddw vphaddd vphaddsw '' @
              ''vphminposuw vphsubw vphsubd vphsubsw vpinsrb vpinsrw vpinsrd vpinsrq vpmaddwd vpmaddubsw vpmaxsb '' @
              ''vpmaxsw vpmaxsd vpmaxub vpmaxuw vpmaxud vpminsb vpminsw vpminsd vpminub vpminuw vpminud vpmovmskb '' @
              ''vpmovsxbw vpmovsxbd vpmovsxbq vpmovsxwd vpmovsxwq vpmovsxdq vpmovzxbw vpmovzxbd vpmovzxbq vpmovzxwd '' @
              ''vpmovzxwq vpmovzxdq vpmulhuw vpmulhrsw vpmulhw vpmullw vpmulld vpmuludq vpmuldq vpor vpsadbw '' @
              ''vpshufb vpshufd vpshufhw vpshuflw vpsignb vpsignw vpsignd vpslldq vpsrldq vpsllw vpslld vpsllq '' @
              ''vpsraw vpsrad vpsrlw vpsrld vpsrlq vptest vpsubb vpsubw vpsubd vpsubq vpsubsb vpsubsw vpsubusb '' @
              ''vpsubusw vpunpckhbw vpunpckhwd vpunpckhdq vpunpckhqdq vpunpcklbw vpunpcklwd vpunpckldq vpunpcklqdq '' @
              ''vpxor vrcpps vrcpss vrsqrtps vrsqrtss vroundpd vroundps vroundsd vroundss vshufpd vshufps vsqrtpd '' @
              ''vsqrtps vsqrtsd vsqrtss vstmxcsr vsubpd vsubps vsubsd vsubss vtestps vtestpd vucomisd vucomiss '' @
              ''vunpckhpd vunpckhps vunpcklpd vunpcklps vxorpd vxorps vzeroall vzeroupper pclmullqlqdq pclmulhqlqdq '' @
              ''pclmullqhqdq pclmulhqhqdq pclmulqdq vpclmullqlqdq vpclmulhqlqdq vpclmullqhqdq vpclmulhqhqdq '' @
              ''vpclmulqdq vfmadd132ps vfmadd132pd vfmadd312ps vfmadd312pd vfmadd213ps vfmadd213pd vfmadd123ps '' @
              ''vfmadd123pd vfmadd231ps vfmadd231pd vfmadd321ps vfmadd321pd vfmaddsub132ps vfmaddsub132pd '' @
              ''vfmaddsub312ps vfmaddsub312pd vfmaddsub213ps vfmaddsub213pd vfmaddsub123ps vfmaddsub123pd '' @
              ''vfmaddsub231ps vfmaddsub231pd vfmaddsub321ps vfmaddsub321pd vfmsub132ps vfmsub132pd vfmsub312ps '' @
              ''vfmsub312pd vfmsub213ps vfmsub213pd vfmsub123ps vfmsub123pd vfmsub231ps vfmsub231pd vfmsub321ps '' @
              ''vfmsub321pd vfmsubadd132ps vfmsubadd132pd vfmsubadd312ps vfmsubadd312pd vfmsubadd213ps '' @
              ''vfmsubadd213pd vfmsubadd123ps vfmsubadd123pd vfmsubadd231ps vfmsubadd231pd vfmsubadd321ps '' @
              ''vfmsubadd321pd vfnmadd132ps vfnmadd132pd vfnmadd312ps vfnmadd312pd vfnmadd213ps vfnmadd213pd '' @
              ''vfnmadd123ps vfnmadd123pd vfnmadd231ps vfnmadd231pd vfnmadd321ps vfnmadd321pd vfnmsub132ps '' @
              ''vfnmsub132pd vfnmsub312ps vfnmsub312pd vfnmsub213ps vfnmsub213pd vfnmsub123ps vfnmsub123pd '' @
              ''vfnmsub231ps vfnmsub231pd vfnmsub321ps vfnmsub321pd vfmadd132ss vfmadd132sd vfmadd312ss vfmadd312sd '' @
              ''vfmadd213ss vfmadd213sd vfmadd123ss vfmadd123sd vfmadd231ss vfmadd231sd vfmadd321ss vfmadd321sd '' @
              ''vfmsub132ss vfmsub132sd vfmsub312ss vfmsub312sd vfmsub213ss vfmsub213sd vfmsub123ss vfmsub123sd '' @
              ''vfmsub231ss vfmsub231sd vfmsub321ss vfmsub321sd vfnmadd132ss vfnmadd132sd vfnmadd312ss vfnmadd312sd '' @
              ''vfnmadd213ss vfnmadd213sd vfnmadd123ss vfnmadd123sd vfnmadd231ss vfnmadd231sd vfnmadd321ss '' @
              ''vfnmadd321sd vfnmsub132ss vfnmsub132sd vfnmsub312ss vfnmsub312sd vfnmsub213ss vfnmsub213sd '' @
              ''vfnmsub123ss vfnmsub123sd vfnmsub231ss vfnmsub231sd vfnmsub321ss vfnmsub321sd rdfsbase rdgsbase '' @
              ''rdrand wrfsbase wrgsbase vcvtph2ps vcvtps2ph adcx adox rdseed clac stac xstore xcryptecb xcryptcbc '' @
              ''xcryptctr xcryptcfb xcryptofb montmul xsha1 xsha256 llwpcb slwpcb lwpval lwpins vfmaddpd vfmaddps '' @
              ''vfmaddsd vfmaddss vfmaddsubpd vfmaddsubps vfmsubaddpd vfmsubaddps vfmsubpd vfmsubps vfmsubsd '' @
              ''vfmsubss vfnmaddpd vfnmaddps vfnmaddsd vfnmaddss vfnmsubpd vfnmsubps vfnmsubsd vfnmsubss vfrczpd '' @
              ''vfrczps vfrczsd vfrczss vpcmov vpcomb vpcomd vpcomq vpcomub vpcomud vpcomuq vpcomuw vpcomw vphaddbd '' @
              ''vphaddbq vphaddbw vphadddq vphaddubd vphaddubq vphaddubw vphaddudq vphadduwd vphadduwq vphaddwd '' @
              ''vphaddwq vphsubbw vphsubdq vphsubwd vpmacsdd vpmacsdqh vpmacsdql vpmacssdd vpmacssdqh vpmacssdql '' @
              ''vpmacsswd vpmacssww vpmacswd vpmacsww vpmadcsswd vpmadcswd vpperm vprotb vprotd vprotq vprotw '' @
              ''vpshab vpshad vpshaq vpshaw vpshlb vpshld vpshlq vpshlw vbroadcasti128 vpblendd vpbroadcastb '' @
              ''vpbroadcastw vpbroadcastd vpbroadcastq vpermd vpermpd vpermps vpermq vperm2i128 vextracti128 '' @
              ''vinserti128 vpmaskmovd vpmaskmovq vpsllvd vpsllvq vpsravd vpsrlvd vpsrlvq vgatherdpd vgatherqpd '' @
              ''vgatherdps vgatherqps vpgatherdd vpgatherqd vpgatherdq vpgatherqq xabort xbegin xend xtest andn '' @
              ''bextr blci blcic blsi blsic blcfill blsfill blcmsk blsmsk blsr blcs bzhi mulx pdep pext rorx sarx '' @
              ''shlx shrx tzcnt tzmsk t1mskc valignd valignq vblendmpd vblendmps vbroadcastf32x4 vbroadcastf64x4 '' @
              ''vbroadcasti32x4 vbroadcasti64x4 vcompresspd vcompressps vcvtpd2udq vcvtps2udq vcvtsd2usi vcvtss2usi '' @
              ''vcvttpd2udq vcvttps2udq vcvttsd2usi vcvttss2usi vcvtudq2pd vcvtudq2ps vcvtusi2sd vcvtusi2ss '' @
              ''vexpandpd vexpandps vextractf32x4 vextractf64x4 vextracti32x4 vextracti64x4 vfixupimmpd vfixupimmps '' @
              ''vfixupimmsd vfixupimmss vgetexppd vgetexpps vgetexpsd vgetexpss vgetmantpd vgetmantps vgetmantsd '' @
              ''vgetmantss vinsertf32x4 vinsertf64x4 vinserti32x4 vinserti64x4 vmovdqa32 vmovdqa64 vmovdqu32 '' @
              ''vmovdqu64 vpabsq vpandd vpandnd vpandnq vpandq vpblendmd vpblendmq vpcmpltd vpcmpled vpcmpneqd '' @
              ''vpcmpnltd vpcmpnled vpcmpd vpcmpltq vpcmpleq vpcmpneqq vpcmpnltq vpcmpnleq vpcmpq vpcmpequd '' @
              ''vpcmpltud vpcmpleud vpcmpnequd vpcmpnltud vpcmpnleud vpcmpud vpcmpequq vpcmpltuq vpcmpleuq '' @
              ''vpcmpnequq vpcmpnltuq vpcmpnleuq vpcmpuq vpcompressd vpcompressq vpermi2d vpermi2pd vpermi2ps '' @
              ''vpermi2q vpermt2d vpermt2pd vpermt2ps vpermt2q vpexpandd vpexpandq vpmaxsq vpmaxuq vpminsq vpminuq '' @
              ''vpmovdb vpmovdw vpmovqb vpmovqd vpmovqw vpmovsdb vpmovsdw vpmovsqb vpmovsqd vpmovsqw vpmovusdb '' @
              ''vpmovusdw vpmovusqb vpmovusqd vpmovusqw vpord vporq vprold vprolq vprolvd vprolvq vprord vprorq '' @
              ''vprorvd vprorvq vpscatterdd vpscatterdq vpscatterqd vpscatterqq vpsraq vpsravq vpternlogd '' @
              ''vpternlogq vptestmd vptestmq vptestnmd vptestnmq vpxord vpxorq vrcp14pd vrcp14ps vrcp14sd vrcp14ss '' @
              ''vrndscalepd vrndscaleps vrndscalesd vrndscaless vrsqrt14pd vrsqrt14ps vrsqrt14sd vrsqrt14ss '' @
              ''vscalefpd vscalefps vscalefsd vscalefss vscatterdpd vscatterdps vscatterqpd vscatterqps vshuff32x4 '' @
              ''vshuff64x2 vshufi32x4 vshufi64x2 kandnw kandw kmovw knotw kortestw korw kshiftlw kshiftrw kunpckbw '' @
              ''kxnorw kxorw vpbroadcastmb2q vpbroadcastmw2d vpconflictd vpconflictq vplzcntd vplzcntq vexp2pd '' @
              ''vexp2ps vrcp28pd vrcp28ps vrcp28sd vrcp28ss vrsqrt28pd vrsqrt28ps vrsqrt28sd vrsqrt28ss '' @
              ''vgatherpf0dpd vgatherpf0dps vgatherpf0qpd vgatherpf0qps vgatherpf1dpd vgatherpf1dps vgatherpf1qpd '' @
              ''vgatherpf1qps vscatterpf0dpd vscatterpf0dps vscatterpf0qpd vscatterpf0qps vscatterpf1dpd '' @
              ''vscatterpf1dps vscatterpf1qpd vscatterpf1qps prefetchwt1 bndmk bndcl bndcu bndcn bndmov bndldx '' @
              ''bndstx sha1rnds4 sha1nexte sha1msg1 sha1msg2 sha256rnds2 sha256msg1 sha256msg2 hint_nop0 hint_nop1 '' @
              ''hint_nop2 hint_nop3 hint_nop4 hint_nop5 hint_nop6 hint_nop7 hint_nop8 hint_nop9 hint_nop10 '' @
              ''hint_nop11 hint_nop12 hint_nop13 hint_nop14 hint_nop15 hint_nop16 hint_nop17 hint_nop18 hint_nop19 '' @
              ''hint_nop20 hint_nop21 hint_nop22 hint_nop23 hint_nop24 hint_nop25 hint_nop26 hint_nop27 hint_nop28 '' @
              ''hint_nop29 hint_nop30 hint_nop31 hint_nop32 hint_nop33 hint_nop34 hint_nop35 hint_nop36 hint_nop37 '' @
              ''hint_nop38 hint_nop39 hint_nop40 hint_nop41 hint_nop42 hint_nop43 hint_nop44 hint_nop45 hint_nop46 '' @
              ''hint_nop47 hint_nop48 hint_nop49 hint_nop50 hint_nop51 hint_nop52 hint_nop53 hint_nop54 hint_nop55 '' @
              ''hint_nop56 hint_nop57 hint_nop58 hint_nop59 hint_nop60 hint_nop61 hint_nop62 hint_nop63''),
              (''built_in'', ''ip eip rip '' @
              ''al ah bl bh cl ch dl dh sil dil bpl spl r8b r9b r10b r11b r12b r13b r14b r15b '' @
              ''ax bx cx dx si di bp sp r8w r9w r10w r11w r12w r13w r14w r15w '' @
              ''eax ebx ecx edx esi edi ebp esp eip r8d r9d r10d r11d r12d r13d r14d r15d '' @
              ''rax rbx rcx rdx rsi rdi rbp rsp r8 r9 r10 r11 r12 r13 r14 r15 '' @ ''cs ds es fs gs ss '' @
              ''st st0 st1 st2 st3 st4 st5 st6 st7 '' @ ''mm0 mm1 mm2 mm3 mm4 mm5 mm6 mm7 '' @
              ''xmm0  xmm1  xmm2  xmm3  xmm4  xmm5  xmm6  xmm7  xmm8  xmm9 xmm10  xmm11 xmm12 xmm13 xmm14 xmm15 '' @
              ''xmm16 xmm17 xmm18 xmm19 xmm20 xmm21 xmm22 xmm23 xmm24 xmm25 xmm26 xmm27 xmm28 xmm29 xmm30 xmm31 '' @
              ''ymm0  ymm1  ymm2  ymm3  ymm4  ymm5  ymm6  ymm7  ymm8  ymm9 ymm10  ymm11 ymm12 ymm13 ymm14 ymm15 '' @
              ''ymm16 ymm17 ymm18 ymm19 ymm20 ymm21 ymm22 ymm23 ymm24 ymm25 ymm26 ymm27 ymm28 ymm29 ymm30 ymm31 '' @
              ''zmm0  zmm1  zmm2  zmm3  zmm4  zmm5  zmm6  zmm7  zmm8  zmm9 zmm10  zmm11 zmm12 zmm13 zmm14 zmm15 '' @
              ''zmm16 zmm17 zmm18 zmm19 zmm20 zmm21 zmm22 zmm23 zmm24 zmm25 zmm26 zmm27 zmm28 zmm29 zmm30 zmm31 '' @
              ''k0 k1 k2 k3 k4 k5 k6 k7 '' @ ''bnd0 bnd1 bnd2 bnd3 '' @
              ''cr0 cr1 cr2 cr3 cr4 cr8 dr0 dr1 dr2 dr3 dr8 tr3 tr4 tr5 tr6 tr7 '' @
              ''r0 r1 r2 r3 r4 r5 r6 r7 r0b r1b r2b r3b r4b r5b r6b r7b '' @
              ''r0w r1w r2w r3w r4w r5w r6w r7w r0d r1d r2d r3d r4d r5d r6d r7d '' @ ''r0h r1h r2h r3h '' @
              ''r0l r1l r2l r3l r4l r5l r6l r7l r8l r9l r10l r11l r12l r13l r14l r15l '' @
              ''db dw dd dq dt ddq do dy dz '' @ ''resb resw resd resq rest resdq reso resy resz '' @
              ''incbin equ times '' @ ''byte word dword qword nosplit rel abs seg wrt strict near far a32 ptr''),
              (''meta'',
              ''%define %xdefine %+ %undef %defstr %deftok %assign %strcat %strlen %substr %rotate %elif %else %endif '' @
              ''%if %ifmacro %ifctx %ifidn %ifidni %ifid %ifnum %ifstr %iftoken %ifempty %ifenv %error %warning %fatal %rep '' @
              ''%endrep %include %push %pop %repl %pathsearch %depend %use %arg %stacksize %local %line %comment %endcomment '' @
              ''.nolist '' @
              ''__FILE__ __LINE__ __SECT__  __BITS__ __OUTPUT_FORMAT__ __DATE__ __TIME__ __DATE_NUM__ __TIME_NUM__ '' @
              ''__UTC_DATE__ __UTC_TIME__ __UTC_DATE_NUM__ __UTC_TIME_NUM__  __PASS__ struc endstruc istruc at iend '' @
              ''align alignb sectalign daz nodaz up down zero default option assume public '' @
              ''bits use16 use32 use64 default section segment absolute extern global common cpu float '' @
              ''__utf16__ __utf16le__ __utf16be__ __utf32__ __utf32le__ __utf32be__ '' @
              ''__float8__ __float16__ __float32__ __float64__ __float80m__ __float80e__ __float128l__ __float128h__ '' @
              ''__Infinity__ __QNaN__ __SNaN__ Inf NaN QNaN SNaN float8 float16 float32 float64 float80m float80e '' @
              ''float128l float128h __FLOAT_DAZ__ __FLOAT_ROUND__ __FLOAT__'')]), contains := Some [Ref m1, Ref m6,
              Ref hl_QUOTE_STRING_MODE, Ref m9, Ref m12, Ref m13, Ref m14, Ref m15]\<rparr>) h
      in (language, h))"

subsection \<open>The stores they make\<close>

lemma lang_stata_makes [builds_grammars]: "makes_grammar lang_stata"
  unfolding lang_stata_def by (intro makes_grammarI builds_rules) (simp_all add: refs_append)

lemma lang_step21_makes [builds_grammars]: "makes_grammar lang_step21"
  unfolding lang_step21_def by (intro makes_grammarI builds_rules) (simp_all add: refs_append)

lemma lang_subunit_makes [builds_grammars]: "makes_grammar lang_subunit"
  unfolding lang_subunit_def by (intro makes_grammarI builds_rules) (simp_all add: refs_append)

lemma lang_taggerscript_makes [builds_grammars]: "makes_grammar lang_taggerscript"
  unfolding lang_taggerscript_def by (intro makes_grammarI builds_rules) (simp_all add: refs_append)

lemma lang_tap_makes [builds_grammars]: "makes_grammar lang_tap"
  unfolding lang_tap_def by (intro makes_grammarI builds_rules) (simp_all add: refs_append)

lemma lang_tcl_makes [builds_grammars]: "makes_grammar lang_tcl"
  unfolding lang_tcl_def by (intro makes_grammarI builds_rules) (simp_all add: refs_append)

lemma lang_tex_makes [builds_grammars]: "makes_grammar lang_tex"
  unfolding lang_tex_def by (intro makes_grammarI builds_rules) (simp_all add: refs_append)

lemma lang_thrift_makes [builds_grammars]: "makes_grammar lang_thrift"
  unfolding lang_thrift_def by (intro makes_grammarI builds_rules) (simp_all add: refs_append)

lemma lang_tp_makes [builds_grammars]: "makes_grammar lang_tp"
  unfolding lang_tp_def by (intro makes_grammarI builds_rules) (simp_all add: refs_append)

lemma lang_typescript_makes [builds_grammars]: "makes_grammar lang_typescript"
  unfolding lang_typescript_def by (intro makes_grammarI builds_rules) (simp_all add: refs_append)

lemma lang_vala_makes [builds_grammars]: "makes_grammar lang_vala"
  unfolding lang_vala_def by (intro makes_grammarI builds_rules) (simp_all add: refs_append)

lemma lang_vbnet_makes [builds_grammars]: "makes_grammar lang_vbnet"
  unfolding lang_vbnet_def by (intro makes_grammarI builds_rules) (simp_all add: refs_append)

lemma lang_vbscript_html_makes [builds_grammars]: "makes_grammar lang_vbscript_html"
  unfolding lang_vbscript_html_def by (intro makes_grammarI builds_rules) (simp_all add: refs_append)

lemma lang_vbscript_makes [builds_grammars]: "makes_grammar lang_vbscript"
  unfolding lang_vbscript_def by (intro makes_grammarI builds_rules) (simp_all add: refs_append)

lemma lang_verilog_makes [builds_grammars]: "makes_grammar lang_verilog"
  unfolding lang_verilog_def by (intro makes_grammarI builds_rules) (simp_all add: refs_append)

lemma lang_vhdl_makes [builds_grammars]: "makes_grammar lang_vhdl"
  unfolding lang_vhdl_def by (intro makes_grammarI builds_rules) (simp_all add: refs_append)

lemma lang_vim_makes [builds_grammars]: "makes_grammar lang_vim"
  unfolding lang_vim_def by (intro makes_grammarI builds_rules) (simp_all add: refs_append)

lemma lang_x86asm_makes [builds_grammars]: "makes_grammar lang_x86asm"
  unfolding lang_x86asm_def by (intro makes_grammarI builds_rules) (simp_all add: refs_append)

end
