(* ===== verification/Hljs_Languages_9.thy ===== *)
theory Hljs_Languages_9
  imports Hljs_Store
begin

text \<open>
  Grammars of highlight.js (\<^verbatim>\<open>remark.js\<close>, module 15), in the order of the source, from \<open>xl\<close> to \<open>zephir\<close>. Each keeps the store
  closed.
\<close>

definition lang_xl :: "mstore \<Rightarrow> nat \<times> mstore" where
  "lang_xl h =
     (let BUILTIN_MODULES = ''ObjectLoader Animate MovieCredits Slides Filters Shading Materials LensFlare Mapping VLCAudioVideo '' @
              ''StereoDecoder PointCloud NetworkAccess RemoteControl RegExp ChromaKey Snowfall NodeJS Speech Charts'';
          (DOUBLE_QUOTE_TEXT, h) = new (no_mode\<lparr>className := Some ''string'', m_begin := Some [CHR 0x22],
              m_end := Some [CHR 0x22], illegal := Some (bs ''%n'')\<rparr>) h;
          (SINGLE_QUOTE_TEXT, h) = new (no_mode\<lparr>className := Some ''string'', m_begin := Some [CHR 0x27],
              m_end := Some [CHR 0x27], illegal := Some (bs ''%n'')\<rparr>) h;
          (LONG_TEXT, h) = new (no_mode\<lparr>className := Some ''string'', m_begin := Some ''<<'',
              m_end := Some ''>>''\<rparr>) h;
          (BASED_NUMBER, h) = new (no_mode\<lparr>className := Some ''number'',
              m_begin := Some (bs ''[0-9]+#[0-9A-Z_]+(%.[0-9-A-Z_]+)?#?([Ee][+-]?[0-9]+)?'')\<rparr>) h;
          XL_KEYWORDS = KObj [(''keyword'',
              ''if then else do while until for loop import with is as where when by data constant '' @
              ''integer real text name boolean symbol i'' @ ''nfix prefix postfix block tree''), (''literal'',
              ''true false nil''), (''built_in'',
              ''in mod rem and or xor not abs sign floor ceil sqrt sin cos tan asin '' @
              ''acos atan exp expm1 log log2 log10 log1p pi at text_length text_range '' @
              ''text_find text_replace contains page slide basic_slide title_slide '' @
              ''title subtitle fade_in fade_out fade_at clear_color color line_color '' @
              ''line_width texture_wrap texture_transform texture scale_?x scale_?y '' @
              ''scale_?z? translate_?x translate_?y translate_?z? rotate_?x rotate_?y '' @
              ''rotate_?z? rectangle circle ellipse sphere path line_to move_to '' @
              ''quad_to curve_to theme background contents locally time mouse_?x '' @ ''mouse_?y mouse_buttons '' @
              BUILTIN_MODULES)];
          (IMPORT, h) = new (no_mode\<lparr>beginKeywords := Some ''import'', m_end := Some ''$'',
              m_keywords := Some XL_KEYWORDS, contains := Some [Ref DOUBLE_QUOTE_TEXT]\<rparr>) h;
          (m1, h) = new (no_mode\<lparr>endsWithParent := Some True, m_keywords := Some XL_KEYWORDS\<rparr>) h;
          (m2, h) = new (inherit_mode (mode_at h hl_TITLE_MODE) [(no_mode\<lparr>starts := Some m1\<rparr>)]) h;
          (FUNCTION_DEFINITION, h) = new (no_mode\<lparr>className := Some ''function'',
              m_begin := Some (bs ''[a-z][^%n]*->''), returnBegin := Some True, m_end := Some ''->'',
              contains := Some [Ref m2]\<rparr>) h;
          (language, h) = new (no_mode\<lparr>aliases := Some [''tao''], lexemes := Some ''[a-zA-Z][a-zA-Z0-9_?]*'',
              m_keywords := Some XL_KEYWORDS, contains := Some [Ref hl_C_LINE_COMMENT_MODE,
              Ref hl_C_BLOCK_COMMENT_MODE, Ref DOUBLE_QUOTE_TEXT, Ref SINGLE_QUOTE_TEXT, Ref LONG_TEXT,
              Ref FUNCTION_DEFINITION, Ref IMPORT, Ref BASED_NUMBER, Ref hl_NUMBER_MODE]\<rparr>) h
      in (language, h))"

definition lang_xml :: "mstore \<Rightarrow> nat \<times> mstore" where
  "lang_xml h =
     (let XML_IDENT_RE = bs ''[A-Za-z0-9%._:-]+'';
          (m1, h) = new (no_mode\<lparr>className := Some ''attr'', m_begin := Some XML_IDENT_RE, m_relevance := Some 0\<rparr>) h;
          (m2, h) = new (no_mode\<lparr>m_begin := Some [CHR 0x22], m_end := Some [CHR 0x22]\<rparr>) h;
          (m3, h) = new (no_mode\<lparr>m_begin := Some [CHR 0x27], m_end := Some [CHR 0x27]\<rparr>) h;
          (m4, h) = new (no_mode\<lparr>m_begin := Some (bs ''[^%s'' @ [CHR 0x22, CHR 0x27] @ ''=<>'' @ [CHR 0x60] @
              '']+'')\<rparr>) h;
          (m5, h) = new (no_mode\<lparr>className := Some ''string'', endsParent := Some True, variants := Some [m2, m3,
              m4]\<rparr>) h;
          (m6, h) = new (no_mode\<lparr>m_begin := Some (bs ''=%s*''), m_relevance := Some 0, contains := Some [Ref m5]\<rparr>) h;
          (TAG_INTERNALS, h) = new (no_mode\<lparr>endsWithParent := Some True, illegal := Some ''<'', m_relevance := Some 0,
              contains := Some [Ref m1, Ref m6]\<rparr>) h;
          (m7, h) = new (no_mode\<lparr>m_begin := Some (bs ''%[''), m_end := Some (bs ''%]'')\<rparr>) h;
          (m8, h) = new (no_mode\<lparr>className := Some ''meta'', m_begin := Some ''<!DOCTYPE'', m_end := Some ''>'',
              m_relevance := Some 10, contains := Some [Ref m7]\<rparr>) h;
          (m9, h) = COMMENT ''<!--'' ''-->'' (no_mode\<lparr>m_relevance := Some 10\<rparr>) h;
          (m10, h) = new (no_mode\<lparr>m_begin := Some (bs ''<%!%[CDATA%[''), m_end := Some (bs ''%]%]>''),
              m_relevance := Some 10\<rparr>) h;
          (m11, h) = new (no_mode\<lparr>className := Some ''meta'', m_begin := Some (bs ''<%?xml''),
              m_end := Some (bs ''%?>''), m_relevance := Some 10\<rparr>) h;
          (m12, h) = new (no_mode\<lparr>m_begin := Some (bs ''/%*''), m_end := Some (bs ''%*/''), skip := Some True\<rparr>) h;
          (m13, h) = new (no_mode\<lparr>m_begin := Some (''b'' @ [CHR 0x22]), m_end := Some [CHR 0x22],
              skip := Some True\<rparr>) h;
          (m14, h) = new (no_mode\<lparr>m_begin := Some (''b'' @ [CHR 0x27]), m_end := Some [CHR 0x27],
              skip := Some True\<rparr>) h;
          (m15, h) = new (inherit_mode (mode_at h hl_APOS_STRING_MODE) [(no_mode\<lparr>illegal := Some [],
              className := Some [], contains := Some [], skip := Some True\<rparr>)]) h;
          (m16, h) = new (inherit_mode (mode_at h hl_QUOTE_STRING_MODE) [(no_mode\<lparr>illegal := Some [],
              className := Some [], contains := Some [], skip := Some True\<rparr>)]) h;
          (m17, h) = new (no_mode\<lparr>m_begin := Some (bs ''<%?(php)?''), m_end := Some (bs ''%?>''),
              subLanguage := Some (SubName ''php''), contains := Some [Ref m12, Ref m13, Ref m14, Ref m15,
              Ref m16]\<rparr>) h;
          (m18, h) = new (no_mode\<lparr>m_end := Some ''</style>'', returnEnd := Some True,
              subLanguage := Some (SubList [''css'', ''xml''])\<rparr>) h;
          (m19, h) = new (no_mode\<lparr>className := Some ''tag'', m_begin := Some (bs ''<style(?=%s|>|$)''),
              m_end := Some ''>'', m_keywords := Some (KObj [(''name'', ''style'')]),
              contains := Some [Ref TAG_INTERNALS], starts := Some m18\<rparr>) h;
          (m20, h) = new (no_mode\<lparr>m_end := Some ''</script>'', returnEnd := Some True,
              subLanguage := Some (SubList [''actionscript'', ''javascript'', ''handlebars'', ''xml'',
              ''vbscript''])\<rparr>) h;
          (m21, h) = new (no_mode\<lparr>className := Some ''tag'', m_begin := Some (bs ''<script(?=%s|>|$)''),
              m_end := Some ''>'', m_keywords := Some (KObj [(''name'', ''script'')]),
              contains := Some [Ref TAG_INTERNALS], starts := Some m20\<rparr>) h;
          (m22, h) = new (no_mode\<lparr>className := Some ''name'', m_begin := Some (bs ''[^%/><%s]+''),
              m_relevance := Some 0\<rparr>) h;
          (m23, h) = new (no_mode\<lparr>className := Some ''tag'', m_begin := Some ''</?'', m_end := Some ''/?>'',
              contains := Some [Ref m22, Ref TAG_INTERNALS]\<rparr>) h;
          (language, h) = new (no_mode\<lparr>aliases := Some [''html'', ''xhtml'', ''rss'', ''atom'', ''xjb'', ''xsd'',
              ''xsl'', ''plist'', ''wsf''], case_insensitive := Some True, contains := Some [Ref m8, Ref m9, Ref m10,
              Ref m11, Ref m17, Ref m19, Ref m21, Ref m23]\<rparr>) h
      in (language, h))"

definition lang_xquery :: "mstore \<Rightarrow> nat \<times> mstore" where
  "lang_xquery h =
     (let KEYWORDS = ''module schema namespace boundary-space preserve no-preserve strip default collation base-uri '' @
              ''ordering context decimal-format decimal-separator copy-namespaces empty-sequence except '' @
              ''exponent-separator external grouping-separator inherit no-inherit lax minus-sign per-mille percent '' @
              ''schema-attribute schema-element strict unordered zero-digit '' @
              ''declare import option function validate variable '' @
              ''for at in let where order group by return if then else '' @
              ''tumbling sliding window start when only end previous next stable '' @
              ''ascending descending allowing empty greatest least some every satisfies switch case typeswitch try catch '' @
              ''and or to union intersect instance of treat as castable cast map array '' @
              ''delete insert into replace value rename copy modify update'';
          v_TYPE = ''item document-node node attribute document element comment namespace namespace-node '' @
              ''processing-instruction text construction '' @
              ''xs:anyAtomicType xs:untypedAtomic xs:duration xs:time xs:decimal xs:float xs:double xs:gYearMonth '' @
              ''xs:gYear xs:gMonthDay xs:gMonth xs:gDay xs:boolean xs:base64Binary xs:hexBinary xs:anyURI xs:QName '' @
              ''xs:NOTATION xs:dateTime xs:dateTimeStamp xs:date xs:string xs:normalizedString xs:token xs:language '' @
              ''xs:NMTOKEN xs:Name xs:NCName xs:ID xs:IDREF xs:ENTITY xs:integer xs:nonPositiveInteger '' @
              ''xs:negativeInteger xs:long xs:int xs:short xs:byte xs:nonNegativeInteger xs:unisignedLong '' @
              ''xs:unsignedInt xs:unsignedShort xs:unsignedByte xs:positiveInteger xs:yearMonthDuration xs:dayTimeDuration'';
          LITERAL = ''eq ne lt le gt ge is '' @
              ''self:: child:: descendant:: descendant-or-self:: attribute:: following:: following-sibling:: '' @
              ''parent:: ancestor:: ancestor-or-self:: preceding:: preceding-sibling:: '' @ ''NaN'';
          (m1, h) = new (no_mode\<lparr>m_begin := Some (bs ''%barray%:''),
              m_end := Some (bs ''(?:append|filter|flatten|fold%-(?:left|right)|for-each(?:%-pair)?|get|head|insert%-before|join|put|re'' @
              bs ''move|reverse|size|sort|subarray|tail)%b'')\<rparr>) h;
          (m2, h) = new (no_mode\<lparr>m_begin := Some (bs ''%bmap%:''),
              m_end := Some (bs ''(?:contains|entry|find|for%-each|get|keys|merge|put|remove|size)%b'')\<rparr>) h;
          (m3, h) = new (no_mode\<lparr>m_begin := Some (bs ''%bmath%:''),
              m_end := Some (bs ''(?:a(?:cos|sin|tan[2]?)|cos|exp(?:10)?|log(?:10)?|pi|pow|sin|sqrt|tan)%b'')\<rparr>) h;
          (m4, h) = new (no_mode\<lparr>m_begin := Some (bs ''%bop%:''), m_end := Some (bs ''%(''),
              excludeEnd := Some True\<rparr>) h;
          (m5, h) = new (no_mode\<lparr>m_begin := Some (bs ''%bfn%:''), m_end := Some (bs ''%(''),
              excludeEnd := Some True\<rparr>) h;
          (m6, h) = new (no_mode\<lparr>m_begin := Some (bs ''[^<%/%$%:'' @ [CHR 0x27, CHR 0x22] @
              bs ''-]%b(?:abs|accumulator%-(?:after|before)|adjust%-(?:date(?:Time)?|time)%-to%-timezone|analyze%-string'' @
              bs ''|apply|available%-(?:environment%-variables|system%-properties)|avg|base%-uri|boolean|ceiling|codepoi'' @
              bs ''nts?%-(?:equal|to%-string)|collation%-key|collection|compare|concat|contains(?:%-token)?|copy%-of|cou'' @
              bs ''nt|current(?:%-)?(?:date(?:Time)?|time|group(?:ing%-key)?|output%-uri|merge%-(?:group|key))?data|date'' @
              bs ''Time|days?%-from%-(?:date(?:Time)?|duration)|deep%-equal|default%-(?:collation|language)|distinct%-va'' @
              bs ''lues|document(?:%-uri)?|doc(?:%-available)?|element%-(?:available|with%-id)|empty|encode%-for%-uri|en'' @
              bs ''ds%-with|environment%-variable|error|escape%-html%-uri|exactly%-one|exists|false|filter|floor|fold%-('' @
              bs ''?:left|right)|for%-each(?:%-pair)?|format%-(?:date(?:Time)?|time|integer|number)|function%-(?:arity|a'' @
              bs ''vailable|lookup|name)|generate%-id|has%-children|head|hours%-from%-(?:dateTime|duration|time)|id(?:re'' @
              bs ''f)?|implicit%-timezone|in%-scope%-prefixes|index%-of|innermost|insert%-before|iri%-to%-uri|json%-(?:d'' @
              bs ''oc|to%-xml)|key|lang|last|load%-xquery%-module|local%-name(?:%-from%-QName)?|(?:lower|upper)%-case|ma'' @
              bs ''tches|max|minutes%-from%-(?:dateTime|duration|time)|min|months?%-from%-(?:date(?:Time)?|duration)|nam'' @
              bs ''e(?:space%-uri%-?(?:for%-prefix|from%-QName)?)?|nilled|node%-name|normalize%-(?:space|unicode)|not|nu'' @
              bs ''mber|one%-or%-more|outermost|parse%-(?:ietf%-date|json)|path|position|(?:prefix%-from%-)?QName|random'' @
              bs ''%-number%-generator|regex%-group|remove|replace|resolve%-(?:QName|uri)|reverse|root|round(?:%-half%-t'' @
              bs ''o%-even)?|seconds%-from%-(?:dateTime|duration|time)|snapshot|sort|starts%-with|static%-base%-uri|stre'' @
              bs ''am%-available|string%-?(?:join|length|to%-codepoints)?|subsequence|substring%-?(?:after|before)?|sum|'' @
              bs ''system%-property|tail|timezone%-from%-(?:date(?:Time)?|time)|tokenize|trace|trans(?:form|late)|true|t'' @
              bs ''ype%-available|unordered|unparsed%-(?:entity|text)?%-?(?:public%-id|uri|available|lines)?|uri%-collec'' @
              bs ''tion|xml%-to%-json|years?%-from%-(?:date(?:Time)?|duration)|zero%-or%-one)%b'')\<rparr>) h;
          (m7, h) = new (no_mode\<lparr>m_begin := Some (bs ''%blocal%:''), m_end := Some (bs ''%(''),
              excludeEnd := Some True\<rparr>) h;
          (m8, h) = new (no_mode\<lparr>m_begin := Some (bs ''%bzip%:''),
              m_end := Some (bs ''(?:zip%-file|(?:xml|html|text|binary)%-entry| (?:update%-)?entries)%b'')\<rparr>) h;
          (m9, h) = new (no_mode\<lparr>m_begin := Some (bs ''%b(?:util|db|functx|app|xdmp|xmldb)%:''),
              m_end := Some (bs ''%(''), excludeEnd := Some True\<rparr>) h;
          (BUILT_IN, h) = new (no_mode\<lparr>className := Some ''built_in'', variants := Some [m1, m2, m3, m4, m5, m6, m7, m8,
              m9]\<rparr>) h;
          (TITLE, h) = new (no_mode\<lparr>className := Some ''title'', m_begin := Some (bs ''%bxquery version '' @
              [CHR 0x22] @ bs ''[13]%.[01]'' @ [CHR 0x22] @ bs ''%s?(?:encoding '' @ [CHR 0x22] @ ''.+'' @
              [CHR 0x22] @ '')?''), m_end := Some '';''\<rparr>) h;
          (VAR, h) = new (no_mode\<lparr>className := Some ''variable'', m_begin := Some (bs ''[%$][%w-:]+'')\<rparr>) h;
          (NUMBER, h) = new (no_mode\<lparr>className := Some ''number'',
              m_begin := Some (bs ''(%b0[0-7_]+)|(%b0x[0-9a-fA-F_]+)|(%b[1-9][0-9_]*(%.[0-9_]+)?)|[0_]%b''),
              m_relevance := Some 0\<rparr>) h;
          (m10, h) = new (no_mode\<lparr>m_begin := Some [CHR 0x22, CHR 0x22], m_relevance := Some 0\<rparr>) h;
          (m11, h) = new (no_mode\<lparr>m_begin := Some [CHR 0x22], m_end := Some [CHR 0x22],
              contains := Some [Ref m10]\<rparr>) h;
          (m12, h) = new (no_mode\<lparr>m_begin := Some [CHR 0x27, CHR 0x27], m_relevance := Some 0\<rparr>) h;
          (m13, h) = new (no_mode\<lparr>m_begin := Some [CHR 0x27], m_end := Some [CHR 0x27],
              contains := Some [Ref m12]\<rparr>) h;
          (STRING, h) = new (no_mode\<lparr>className := Some ''string'', variants := Some [m11, m13]\<rparr>) h;
          (ANNOTATION, h) = new (no_mode\<lparr>className := Some ''meta'', m_begin := Some (''%'' @ bs ''[%w-:]+'')\<rparr>) h;
          (m14, h) = new (no_mode\<lparr>className := Some ''doctag'', m_begin := Some (bs ''@%w+'')\<rparr>) h;
          (COMMENT', h) = new (no_mode\<lparr>className := Some ''comment'', m_begin := Some (bs ''%(:''),
              m_end := Some (bs '':%)''), m_relevance := Some 10, contains := Some [Ref m14]\<rparr>) h;
          (COMPUTED,
              h) = new (no_mode\<lparr>beginKeywords := Some ''element attribute comment document processing-instruction'',
              m_end := Some ''{'', excludeEnd := Some True\<rparr>) h;
          (m15, h) = new (no_mode\<lparr>m_begin := Some ''{'', m_end := Some ''}'',
              subLanguage := Some (SubName ''xquery'')\<rparr>) h;
          (DIRECT, h) = new (no_mode\<lparr>m_begin := Some (bs ''<([%w%._:%-]+)((%s*.*'' @ '')=('' @ [CHR 0x27] @ ''|'' @
              [CHR 0x22] @ '').*('' @ [CHR 0x27] @ ''|'' @ [CHR 0x22] @ ''))?>''),
              m_end := Some (bs ''(%/[%w%._:%-]+>)''), subLanguage := Some (SubName ''xml''),
              contains := Some [Ref m15, Self]\<rparr>) h;
          CONTAINS = [Ref VAR, Ref BUILT_IN, Ref STRING, Ref NUMBER, Ref COMMENT', Ref ANNOTATION, Ref TITLE, Ref COMPUTED,
              Ref DIRECT];
          (METHOD, h) = new (no_mode\<lparr>m_begin := Some ''{'', m_end := Some ''}'', contains := Some CONTAINS\<rparr>) h;
          (language, h) = new (no_mode\<lparr>aliases := Some [''xpath'', ''xq''], case_insensitive := Some False,
              lexemes := Some (bs ''[a-zA-Z%$][a-zA-Z0-9_:%-]*''),
              illegal := Some ''(proc)|(abstract)|(extends)|(until)|(#)'', m_keywords := Some (KObj [(''keyword'',
              KEYWORDS), (''type'', v_TYPE), (''literal'', LITERAL)]), contains := Some CONTAINS\<rparr>) h
      in (language, h))"

definition lang_zephir :: "mstore \<Rightarrow> nat \<times> mstore" where
  "lang_zephir h =
     (let (m1, h) = new (no_mode\<lparr>m_begin := Some (''b'' @ [CHR 0x22]), m_end := Some [CHR 0x22]\<rparr>) h;
          (m2, h) = new (no_mode\<lparr>m_begin := Some (''b'' @ [CHR 0x27]), m_end := Some [CHR 0x27]\<rparr>) h;
          (m3, h) = new (inherit_mode (mode_at h hl_APOS_STRING_MODE) [(no_mode\<lparr>illegal := Some []\<rparr>)]) h;
          (m4, h) = new (inherit_mode (mode_at h hl_QUOTE_STRING_MODE) [(no_mode\<lparr>illegal := Some []\<rparr>)]) h;
          (STRING, h) = new (no_mode\<lparr>className := Some ''string'', contains := Some [Ref hl_BACKSLASH_ESCAPE],
              variants := Some [m1, m2, m3, m4]\<rparr>) h;
          (NUMBER, h) = new (no_mode\<lparr>variants := Some [hl_BINARY_NUMBER_MODE, hl_C_NUMBER_MODE]\<rparr>) h;
          (m5, h) = new (no_mode\<lparr>className := Some ''doctag'', m_begin := Some ''@[A-Za-z]+''\<rparr>) h;
          (m6, h) = COMMENT (bs ''/%*'') (bs ''%*/'') (no_mode\<lparr>contains := Some [Ref m5]\<rparr>) h;
          (m7, h) = COMMENT ''__halt_compiler.+?;'' [] (no_mode\<lparr>endsWithParent := Some True,
              m_keywords := Some (KStr ''__halt_compiler''), lexemes := Some UNDERSCORE_IDENT_RE\<rparr>) h;
          (m8, h) = new (no_mode\<lparr>className := Some ''string'', m_begin := Some (''<<<['' @ [CHR 0x27, CHR 0x22] @
              bs '']?%w+['' @ [CHR 0x27, CHR 0x22] @ '']?$''), m_end := Some (bs ''^%w+;''),
              contains := Some [Ref hl_BACKSLASH_ESCAPE]\<rparr>) h;
          (m9, h) = new (no_mode\<lparr>m_begin := Some (bs ''(::|->)+[a-zA-Z_%x7f-%xff][a-zA-Z0-9_%x7f-%xff]*'')\<rparr>) h;
          (m10, h) = new (no_mode\<lparr>className := Some ''params'', m_begin := Some (bs ''%(''), m_end := Some (bs ''%)''),
              contains := Some [Self, Ref hl_C_BLOCK_COMMENT_MODE, Ref STRING, Ref NUMBER]\<rparr>) h;
          (m11, h) = new (no_mode\<lparr>className := Some ''function'', beginKeywords := Some ''function'',
              m_end := Some ''[;{]'', excludeEnd := Some True, illegal := Some (bs ''%$|%[|'' @ ''%''),
              contains := Some [Ref hl_UNDERSCORE_TITLE_MODE, Ref m10]\<rparr>) h;
          (m12, h) = new (no_mode\<lparr>beginKeywords := Some ''extends implements''\<rparr>) h;
          (m13, h) = new (no_mode\<lparr>className := Some ''class'', beginKeywords := Some ''class interface'',
              m_end := Some ''{'', excludeEnd := Some True, illegal := Some (bs ''[:%(%$'' @ [CHR 0x22] @ '']''),
              contains := Some [Ref m12, Ref hl_UNDERSCORE_TITLE_MODE]\<rparr>) h;
          (m14, h) = new (no_mode\<lparr>beginKeywords := Some ''namespace'', m_end := Some '';'',
              illegal := Some (bs ''[%.'' @ [CHR 0x27] @ '']''),
              contains := Some [Ref hl_UNDERSCORE_TITLE_MODE]\<rparr>) h;
          (m15, h) = new (no_mode\<lparr>beginKeywords := Some ''use'', m_end := Some '';'',
              contains := Some [Ref hl_UNDERSCORE_TITLE_MODE]\<rparr>) h;
          (m16, h) = new (no_mode\<lparr>m_begin := Some ''=>''\<rparr>) h;
          (language, h) = new (no_mode\<lparr>aliases := Some [''zep''], case_insensitive := Some True,
              m_keywords := Some (KStr (''and include_once list abstract global private echo interface as static endswitch '' @
              ''array null if endwhile or const for endforeach self var let while isset public '' @
              ''protected exit foreach throw elseif include __FILE__ empty require_once do xor '' @
              ''return parent clone use __CLASS__ __LINE__ else break print eval new '' @
              ''catch __METHOD__ case exception default die require __FUNCTION__ '' @
              ''enddeclare final try switch continue endfor endif declare unset true false '' @
              ''trait goto instanceof insteadof __DIR__ __NAMESPACE__ '' @
              ''yield finally int uint long ulong char uchar double float bool boolean string'' @
              ''likely unlikely'')), contains := Some [Ref hl_C_LINE_COMMENT_MODE, Ref hl_HASH_COMMENT_MODE, Ref m6,
              Ref m7, Ref m8, Ref m9, Ref m11, Ref m13, Ref m14, Ref m15, Ref m16, Ref STRING, Ref NUMBER]\<rparr>) h
      in (language, h))"

subsection \<open>The stores they make\<close>

lemma lang_xl_makes [builds_grammars]: "makes_grammar lang_xl"
  unfolding lang_xl_def by (intro makes_grammarI builds_rules) (simp_all add: refs_append)

lemma lang_xml_makes [builds_grammars]: "makes_grammar lang_xml"
  unfolding lang_xml_def by (intro makes_grammarI builds_rules) (simp_all add: refs_append)

lemma lang_xquery_makes [builds_grammars]: "makes_grammar lang_xquery"
  unfolding lang_xquery_def by (intro makes_grammarI builds_rules) (simp_all add: refs_append)

lemma lang_zephir_makes [builds_grammars]: "makes_grammar lang_zephir"
  unfolding lang_zephir_def by (intro makes_grammarI builds_rules) (simp_all add: refs_append)

end
