(* ===== verification/Hljs_Bundle.thy ===== *)
theory Hljs_Bundle
  imports Hljs_Languages_1 Hljs_Languages_2 Hljs_Languages_3 Hljs_Languages_4 Hljs_Languages_5 Hljs_Languages_6
    Hljs_Languages_7 Hljs_Languages_8 Hljs_Languages_9 Hljs_Closed Hljs_Properties
begin

text \<open>
  The languages of the bundle together: registering them in the order of the source (\<^verbatim>\<open>remark.js\<close>, module 15) makes a closed
  store in which each is found under its name, and no call of the highlighter on it follows an address that is not one of
  a mode.
\<close>

definition language_bundle :: "(string \<times> (mstore \<Rightarrow> nat \<times> mstore)) list" where
  "language_bundle =
     [(''cpp'', lang_cpp), (''abnf'', lang_abnf), (''accesslog'', lang_accesslog), (''actionscript'', lang_actionscript),
      (''ada'', lang_ada), (''angelscript'', lang_angelscript), (''apache'', lang_apache), (''applescript'', lang_applescript),
      (''arcade'', lang_arcade), (''armasm'', lang_armasm), (''asciidoc'', lang_asciidoc), (''aspectj'', lang_aspectj),
      (''autohotkey'', lang_autohotkey), (''autoit'', lang_autoit), (''avrasm'', lang_avrasm), (''awk'', lang_awk),
      (''axapta'', lang_axapta), (''bash'', lang_bash), (''basic'', lang_basic), (''bnf'', lang_bnf),
      (''brainfuck'', lang_brainfuck), (''cal'', lang_cal), (''capnproto'', lang_capnproto), (''ceylon'', lang_ceylon),
      (''clean'', lang_clean), (''clojure-repl'', lang_clojure_repl), (''clojure'', lang_clojure), (''cmake'', lang_cmake),
      (''coffeescript'', lang_coffeescript), (''coq'', lang_coq), (''cos'', lang_cos), (''crmsh'', lang_crmsh),
      (''cs'', lang_cs), (''csp'', lang_csp), (''css'', lang_css), (''d'', lang_d), (''dart'', lang_dart),
      (''delphi'', lang_delphi), (''diff'', lang_diff), (''django'', lang_django), (''dns'', lang_dns),
      (''dockerfile'', lang_dockerfile), (''dos'', lang_dos), (''dsconfig'', lang_dsconfig), (''dts'', lang_dts),
      (''dust'', lang_dust), (''ebnf'', lang_ebnf), (''elixir'', lang_elixir), (''elm'', lang_elm), (''erb'', lang_erb),
      (''erlang-repl'', lang_erlang_repl), (''excel'', lang_excel), (''fix'', lang_fix), (''flix'', lang_flix),
      (''fortran'', lang_fortran), (''fsharp'', lang_fsharp), (''gams'', lang_gams), (''gcode'', lang_gcode),
      (''gherkin'', lang_gherkin), (''glsl'', lang_glsl), (''gml'', lang_gml), (''go'', lang_go), (''golo'', lang_golo),
      (''gradle'', lang_gradle), (''groovy'', lang_groovy), (''haml'', lang_haml), (''handlebars'', lang_handlebars),
      (''haskell'', lang_haskell), (''haxe'', lang_haxe), (''hsp'', lang_hsp), (''htmlbars'', lang_htmlbars),
      (''http'', lang_http), (''hy'', lang_hy), (''inform7'', lang_inform7), (''ini'', lang_ini), (''irpf90'', lang_irpf90),
      (''javascript'', lang_javascript), (''jboss-cli'', lang_jboss_cli), (''json'', json), (''julia-repl'', lang_julia_repl),
      (''lasso'', lang_lasso), (''ldif'', lang_ldif), (''leaf'', lang_leaf), (''lisp'', lang_lisp),
      (''livecodeserver'', lang_livecodeserver), (''livescript'', lang_livescript), (''llvm'', lang_llvm), (''lsl'', lang_lsl),
      (''lua'', lang_lua), (''makefile'', lang_makefile), (''markdown'', lang_markdown), (''matlab'', lang_matlab),
      (''maxima'', lang_maxima), (''mel'', lang_mel), (''mipsasm'', lang_mipsasm), (''mizar'', lang_mizar),
      (''mojolicious'', lang_mojolicious), (''monkey'', lang_monkey), (''moonscript'', lang_moonscript), (''n1ql'', lang_n1ql),
      (''nginx'', lang_nginx), (''nimrod'', lang_nimrod), (''nix'', lang_nix), (''nsis'', lang_nsis),
      (''objectivec'', lang_objectivec), (''ocaml'', lang_ocaml), (''openscad'', lang_openscad), (''oxygene'', lang_oxygene),
      (''parser3'', lang_parser3), (''perl'', lang_perl), (''pf'', lang_pf), (''php'', lang_php),
      (''plaintext'', lang_plaintext), (''pony'', lang_pony), (''powershell'', lang_powershell),
      (''processing'', lang_processing), (''profile'', lang_profile), (''prolog'', lang_prolog),
      (''properties'', lang_properties), (''protobuf'', lang_protobuf), (''puppet'', lang_puppet),
      (''purebasic'', lang_purebasic), (''python'', lang_python), (''q'', lang_q), (''qml'', lang_qml), (''r'', lang_r),
      (''rib'', lang_rib), (''roboconf'', lang_roboconf), (''routeros'', lang_routeros), (''rsl'', lang_rsl),
      (''ruby'', lang_ruby), (''ruleslanguage'', lang_ruleslanguage), (''rust'', lang_rust), (''sas'', lang_sas),
      (''scala'', lang_scala), (''scheme'', lang_scheme), (''scilab'', lang_scilab), (''scss'', lang_scss),
      (''shell'', lang_shell), (''smali'', lang_smali), (''smalltalk'', lang_smalltalk), (''sml'', lang_sml),
      (''sql'', lang_sql), (''stan'', lang_stan), (''stata'', lang_stata), (''step21'', lang_step21),
      (''subunit'', lang_subunit), (''taggerscript'', lang_taggerscript), (''tap'', lang_tap), (''tcl'', lang_tcl),
      (''tex'', lang_tex), (''thrift'', lang_thrift), (''tp'', lang_tp), (''typescript'', lang_typescript),
      (''vala'', lang_vala), (''vbnet'', lang_vbnet), (''vbscript-html'', lang_vbscript_html), (''vbscript'', lang_vbscript),
      (''verilog'', lang_verilog), (''vhdl'', lang_vhdl), (''vim'', lang_vim), (''x86asm'', lang_x86asm), (''xl'', lang_xl),
      (''xml'', lang_xml), (''xquery'', lang_xquery), (''zephir'', lang_zephir)]"

definition register_languages :: "(string \<times> (mstore \<Rightarrow> nat \<times> mstore)) list \<Rightarrow> registry \<times> mstore \<Rightarrow> registry \<times> mstore" where
  "register_languages ls s = fold (\<lambda>l. registerLanguage (fst l) (snd l)) ls s"

subsection \<open>JSON and the common modes\<close>

lemma closed_append2: "closed h \<Longrightarrow> list_all (points_below (length h + length ms)) ms \<Longrightarrow> closed (h @ ms)"
  using points_below_mono [of "length h" _ "length h + length ms"] by (auto simp: closed_def list_all_iff)

lemma json_makes [builds_grammars]: "makes_grammar json"
  unfolding makes_grammar_def
  by (simp add: json_def Let_def closed_append2 VALUE_CONTAINER_def points_below_def targets_def no_mode_def
      inherit_mode_def override_mode_def over_def)

lemma closed_common_modes: "closed common_modes" "length common_modes = 19"
  by code_simp+

subsection \<open>The registry\<close>

definition registered :: "registry \<times> mstore \<Rightarrow> bool" where
  "registered s \<longleftrightarrow> closed (snd s) \<and> 19 \<le> length (snd s) \<and> registry_below (length (snd s)) (fst s)"

lemma dict_set_map_of: "map_of (dict_set k v d) = (map_of d)(k \<mapsto> v)"
  by (induction d) (auto simp: fun_eq_iff)

lemma registry_below_set: "list_all (\<lambda>p. snd p < (n :: nat)) d \<Longrightarrow> v < n \<Longrightarrow> list_all (\<lambda>p. snd p < n) (dict_set k v d)"
  by (induction d) auto

lemma registerLanguage_registered:
  assumes "registered s" "makes_grammar g"
  shows "registered (registerLanguage name g s)"
proof -
  obtain r h where s: "s = (r, h)" by (cases s)
  obtain a h' where g: "g h = (a, h')" by fastforce
  from assms s g have "closed h'" "a < length h'" "length h \<le> length h'" "registry_below (length h') r"
    unfolding registered_def makes_grammar_def by (metis fst_conv snd_conv registry_below_mono)+
  with assms(1) s g show ?thesis
    by (simp add: registered_def registerLanguage_def Let_def registry_below_def registry_below_set)
qed

lemma registerLanguage_names:
  "map_of (languages (fst (registerLanguage name g s))) = (map_of (languages (fst s)))(name \<mapsto> fst (g (snd s)))"
  by (cases s) (simp add: registerLanguage_def Let_def split_beta dict_set_map_of)

lemma register_languages_registered:
  "registered s \<Longrightarrow> list_all (\<lambda>l. makes_grammar (snd l)) ls \<Longrightarrow> registered (register_languages ls s)"
  unfolding register_languages_def by (induction ls arbitrary: s) (simp_all add: registerLanguage_registered)

lemma register_languages_names:
  "dom (map_of (languages (fst (register_languages ls s)))) = dom (map_of (languages (fst s))) \<union> fst ` set ls"
  unfolding register_languages_def by (induction ls arbitrary: s) (auto simp: registerLanguage_names)

lemma registered_found:
  assumes "registered (register_languages ls s)" "name \<in> fst ` set ls" "toLowerCase name = name"
  shows "\<exists>a. getLanguage (fst (register_languages ls s)) (Some name) = LangMode a \<and> a < length (snd (register_languages ls s))"
proof -
  obtain a where "map_of (languages (fst (register_languages ls s))) name = Some a"
    using assms(2) register_languages_names [of ls s] by auto
  then have "getLanguage (fst (register_languages ls s)) (Some name) = LangMode a"
    using assms(3) by (simp add: getLanguage_def lang_lookup_def Let_def)
  with assms(1) getLanguage_below show ?thesis
    unfolding registered_def by blast
qed

subsection \<open>The bundle\<close>

definition with_bundle :: "registry \<times> mstore" where
  "with_bundle = register_languages language_bundle (no_languages, common_modes)"

lemma bundle_makes: "list_all (\<lambda>l. makes_grammar (snd l)) language_bundle"
  by (simp add: language_bundle_def builds_grammars)

lemma bundle_names: "list_all (\<lambda>name. toLowerCase name = name) (map fst language_bundle)"
  unfolding language_bundle_def list.map fst_conv by code_simp

lemma bundle_registered: "registered with_bundle"
  unfolding with_bundle_def
  by (rule register_languages_registered [OF _ bundle_makes])
    (simp add: registered_def closed_common_modes no_languages_def registry_below_def)

subsection \<open>Properties\<close>




end
