(* ===== verification/Hljs_Total.thy ===== *)
theory Hljs_Total
  imports Hljs_Bundle
begin

text \<open>
  Languages of the bundle whose grammars, once compiled, are self-contained: highlighting returns on every text and keeps it.
\<close>

text \<open>The modes that can be entered from some modes.\<close>

fun modes_from :: "nat \<Rightarrow> mstore \<Rightarrow> nat list \<Rightarrow> nat list" where
  "modes_from 0 h A = A"
| "modes_from (Suc k) h A =
     (let B = remdups (A @ concat (map (\<lambda>a. refs (contains (mode_at h a)) @ (case starts (mode_at h a) of None \<Rightarrow> [] | Some s \<Rightarrow> [s])) A))
      in if length B = length A then A else modes_from k h B)"

definition compiles_self_contained :: "(mstore \<Rightarrow> nat \<times> mstore) \<Rightarrow> bool" where
  "compiles_self_contained g =
     (let (a, h) = g common_modes
      in case compileLanguage 8 a h of
           Some (Inr u, h') \<Rightarrow> grammar h' a (modes_from 50 h' [a])
         | _ \<Rightarrow> False)"

lemma accesslog_self_contained: "compiles_self_contained lang_accesslog"
  by code_simp

lemma csp_self_contained: "compiles_self_contained lang_csp"
  by code_simp

lemma inform7_self_contained: "compiles_self_contained lang_inform7"
  by code_simp

lemma ldif_self_contained: "compiles_self_contained lang_ldif"
  by code_simp

lemma profile_self_contained: "compiles_self_contained lang_profile"
  by code_simp

definition total_languages :: "(string \<times> (mstore \<Rightarrow> nat \<times> mstore)) list" where
  "total_languages = [(''accesslog'', lang_accesslog), (''csp'', lang_csp), (''inform7'', lang_inform7), (''ldif'', lang_ldif),
     (''profile'', lang_profile)]"

definition only :: "string \<Rightarrow> (mstore \<Rightarrow> nat \<times> mstore) \<Rightarrow> registry \<times> mstore" where
  "only name g = register_languages [(name, g)] (no_languages, common_modes)"

lemma only_language:
  assumes "toLowerCase name = name"
  shows "getLanguage (fst (only name g)) (Some name) = LangMode (fst (g common_modes))" "snd (only name g) = snd (g common_modes)"
  using assms by (simp_all add: only_def register_languages_def registerLanguage_def no_languages_def getLanguage_def lang_lookup_def Let_def split_beta)

lemma self_contained_total:
  assumes g: "compiles_self_contained g" and name: "toLowerCase name = name"
  shows "\<exists>x h. highlight (4 * length s + 11) (fst (only name g)) name s ign None (snd (only name g)) = hret x h \<and>
    (\<exists>ps. o_value x = hpieces_str ps \<and> htext ps = s \<and> hdepth 0 ps = Some 0)"
proof -
  obtain a h where gh: "g common_modes = (a, h)" by fastforce
  obtain x h1 where xh: "compileLanguage 8 a h = Some (x, h1)"
    using g gh by (cases "compileLanguage 8 a h") (auto simp: compiles_self_contained_def)
  with g gh have h1: "compileLanguage 8 a h = hret () h1" "grammar h1 a (modes_from 50 h1 [a])"
    by (cases x; simp add: compiles_self_contained_def hret_def)+
  then have "compileLanguage (4 * length s + 10) a h = hret () h1"
    unfolding compileLanguage_def hret_def by (elim compileMode_fuel) simp
  then have c: "compileLanguage (4 * length s + 10) (fst (g common_modes)) (snd (only name g)) = hret () h1"
    and gr: "grammar h1 (fst (g common_modes)) (modes_from 50 h1 [a])"
    using gh h1(2) by (simp_all add: only_language(2) [OF name])
  have fuel: "Suc (4 * length s + 10) = 4 * length s + 11" by simp
  from highlight_grammar [OF only_language(1) [OF name, of g] c gr, of s ign] show ?thesis
    unfolding fuel markup_def by fastforce
qed

subsection \<open>Property\<close>

text \<open>
  C40. Highlighting with the grammars of access logs, CSP, Inform 7, LDIF and Python profiler output, each registered on its own, returns for every text,
  with or without ignoring illegal lexemes, and its result is balanced markup of exactly that text.
\<close>

theorem languages_total:
  "list_all (\<lambda>l. \<exists>x h. highlight (4 * length s + 11) (fst (only (fst l) (snd l))) (fst l) s ignore_illegals None (snd (only (fst l) (snd l))) = hret x h \<and>
    (\<exists>ps. o_value x = hpieces_str ps \<and> htext ps = s \<and> hdepth 0 ps = Some 0)) total_languages"
proof -
  have "list_all (\<lambda>l. compiles_self_contained (snd l) \<and> toLowerCase (fst l) = fst l) total_languages"
  proof -
    have "list_all (\<lambda>name. toLowerCase name = name) [''accesslog'', ''csp'', ''inform7'', ''ldif'', ''profile'']" by code_simp
    then show ?thesis
      by (simp add: total_languages_def accesslog_self_contained csp_self_contained inform7_self_contained ldif_self_contained profile_self_contained)
  qed
  then show ?thesis
    using self_contained_total by (simp add: list_all_iff del: highlight.simps)
qed

end
