(* ===== verification/Theme.thy ===== *)
theory Theme
  imports Main
begin

text \<open>
  The script of the Icecast documentation pages (\<^verbatim>\<open>src/Icecast-Server-master/doc/js/theme.js\<close>): which parts of the
  navigation are shifted, keyboard navigation, the sticky side bar and scrolling to the current entry.

  Lengths in pixels are integers. The elements the handlers select are those the page has, so the state is what the handlers set.
\<close>

subsection \<open>The menu\<close>

record menu =
  nav_shift :: bool
  versions_shift :: bool
  versions_shift_up :: bool

definition click_nav_top :: "menu \<Rightarrow> menu" where
  "click_nav_top m = m\<lparr>nav_shift := \<not> nav_shift m, versions_shift := \<not> versions_shift m\<rparr>"

definition click_current_link :: "menu \<Rightarrow> menu" where
  "click_current_link m = m\<lparr>nav_shift := False, versions_shift := \<not> versions_shift m\<rparr>"

definition click_current_version :: "menu \<Rightarrow> menu" where
  "click_current_version m = m\<lparr>versions_shift_up := \<not> versions_shift_up m\<rparr>"

subsection \<open>Keyboard navigation\<close>

text \<open>A number that is 0 is falsy; \<open>event_key\<close> is the key code of \<open>window.event\<close>, if there is such an event.\<close>

record theme_key =
  on_input :: bool
  which_code :: int
  keyCode :: int
  event_key :: "int option"

record pages =
  next_href :: "string option"
  previous_href :: "string option"

definition pressed :: "theme_key \<Rightarrow> int option" where
  "pressed e = (if which_code e \<noteq> 0 then Some (which_code e) else if keyCode e \<noteq> 0 then Some (keyCode e) else event_key e)"

definition theme_keydown :: "pages \<Rightarrow> theme_key \<Rightarrow> string \<Rightarrow> string" where
  "theme_keydown p e location =
     (if on_input e then location
      else (let target = (if pressed e = Some 39 then next_href p else if pressed e = Some 37 then previous_href p else None)
            in case target of None \<Rightarrow> location | Some href \<Rightarrow> if href = [] then location else href))"

subsection \<open>Side bar\<close>

definition applyStickNav :: "int \<Rightarrow> int \<Rightarrow> bool" where
  "applyStickNav navBar_height win_height \<longleftrightarrow> navBar_height \<le> win_height"

definition isFullyWithinViewport :: "int \<Rightarrow> int \<Rightarrow> int \<Rightarrow> int \<Rightarrow> bool" where
  "isFullyWithinViewport scroll_top win_height element_top element_height =
     (let viewport_bottom = scroll_top + win_height; bounds_bottom = element_top + element_height
      in \<not> (element_top \<le> scroll_top \<or> bounds_bottom \<ge> viewport_bottom))"

text \<open>The current entry, if there is one: its top and height. The result is the new scroll position of the side bar.\<close>

definition scroll_to_current :: "int \<Rightarrow> int \<Rightarrow> (int \<times> int) option \<Rightarrow> int \<Rightarrow> int \<Rightarrow> int" where
  "scroll_to_current scroll_top win_height current nav_top position =
     (case current of
        None \<Rightarrow> position
      | Some (element_top, element_height) \<Rightarrow>
          if isFullyWithinViewport scroll_top win_height element_top element_height then position
          else element_top - nav_top - 60)"

subsection \<open>Facts\<close>

text \<open>The button keeps both parts of the menu in step; a link does not: it closes one and toggles the other.\<close>

lemma nav_top_in_step: "nav_shift (click_nav_top m) = versions_shift (click_nav_top m) \<longleftrightarrow> nav_shift m = versions_shift m"
  by (auto simp: click_nav_top_def)

lemma link_out_of_step: "\<exists>m. nav_shift m = versions_shift m \<and> nav_shift (click_current_link m) \<noteq> versions_shift (click_current_link m)"
  by (intro exI [of _ "\<lparr>nav_shift = False, versions_shift = False, versions_shift_up = False\<rparr>"]) (simp add: click_current_link_def)

lemma typing_never_leaves: "on_input e \<Longrightarrow> theme_keydown p e location = location"
  by (simp add: theme_keydown_def)

lemma in_view_bounds:
  "isFullyWithinViewport s w t h \<Longrightarrow> 0 \<le> h \<Longrightarrow> s < t \<and> t + h < s + w"
  by (simp add: isFullyWithinViewport_def Let_def)

end
