(* ===== verification/Spec2Isabelle.thy ===== *)
theory Spec2Isabelle
  imports Js_Prelude Js_Regex Js_RegExp_Syntax Remark_Lexer Remark_Parser Remark_Slide Remark_Slideshow
    Remark_Utils Remark_Timer Event_Emitter Remark_World Remark_Invariants Remark_Reach
    Remark_Navigation Js_Regex_Facts Marked_Grammar Marked_Lexer Marked_Lexer_Facts Marked_Inline
    Marked_InlineLexer Marked_Parser Marked_Parser_Facts Marked_Properties Hljs_Streams Hljs_Modes
    Hljs_Highlight Hljs_Grammars Hljs_Highlight_Facts Hljs_Properties Remark_Convert Hljs_Block_Facts
    Remark_SlideView Hljs_Store Hljs_Closed Hljs_Bundle Hljs_Total Theme
begin

text \<open>
  \<^bold>\<open>Verification of the JavaScript of this repository\<close>

  The program is remark, the slideshow software that the liquidsoap documentation ships as
  \<^verbatim>\<open>src/liquidsoap-master/doc/orig/fosdem2020/remark.js\<close>: one bundle of remark itself, the Markdown
  compiler marked and the highlighter highlight.js. Beside it stands the script of the Icecast
  documentation pages, \<^verbatim>\<open>src/Icecast-Server-master/doc/js/theme.js\<close>.

  \<^bold>\<open>How the parts work together.\<close> \<open>remark.create\<close> reads a text (\<open>applyDefaults\<close>, \<open>unescape\<close>), which the lexer
  (module 16) cuts into tokens and the parser (22) into slides with properties, notes and content
  classes, calling macros (17). The slideshow model (19) makes slides of them (18), with templates,
  names and numbers; navigation (21) keeps the current slide. The views (26 to 28) show slides: a slide's
  content goes through the converter (13) to marked (3), and its code blocks to highlight.js (15).
  All parts are connected by one event emitter (1); keyboard, mouse, touch, address and messages of other windows
  (7 to 12) turn what happens outside into events.

  \<^bold>\<open>JavaScript.\<close> \<open>Js_Prelude\<close>: strings (lists of the code units 0 to 255), numbers as texts. \<open>Js_Regex\<close>: regular
  expressions with the backtracking matcher of the language standard, and the string methods that
  take one; \<open>Js_RegExp_Syntax\<close>: the constructor \<open>RegExp\<close>, from sources, because the programs build expressions by
  editing sources. \<open>Js_Regex_Facts\<close>: the matcher refines a list of all matches in priority order, what a
  pattern can match, how long matches and captures are.

  \<^bold>\<open>Text to slides.\<close> \<open>Remark_Lexer\<close> (\<open>Lexer.prototype.lex\<close>; its tokens are well nested and hold no two adjacent texts),
  \<open>Remark_Parser\<close> (\<open>Parser.prototype.parse\<close>; the stack of content classes never underflows, no text is
  lost, one slide more than separators, parsing returns), \<open>Remark_Slide\<close> (inheritance from templates, variables),
  \<open>Remark_Slideshow\<close> (\<open>createSlides\<close>, lookups; indices are positions, numbers and names find their slides),
  \<open>Remark_Utils\<close> (class names; locale \<open>class_list\<close>, interpreted by the string functions), \<open>Remark_Timer\<close> (refinement
  to the total of the running intervals).

  \<^bold>\<open>The running slideshow.\<close> \<open>Event_Emitter\<close> (module 1 on an explicit store of listener arrays, because \<open>emit\<close> runs a copy
  and other calls share the array; locale \<open>listener_registry\<close>). \<open>Remark_World\<close>: the state of all
  parts in one record, the registered functions as the datatype \<open>handler\<close>, and \<open>handle\<close> with the body of each.
  \<open>Remark_Invariants\<close>: the invariant of this state (current slide in range, at most one fading slide,
  consistent mode classes) and that every handler keeps it, by a rank of events that bounds nested emissions; locale
  \<open>world_invariant\<close>. \<open>Remark_Reach\<close>: the reachable states as an inductive predicate. \<open>Remark_Navigation\<close>: what
  \<open>create\<close>, \<open>gotoSlide\<close>, loading, presenter mode, pause and resume do.

  \<^bold>\<open>marked.\<close> \<open>Marked_Grammar\<close> (all expressions, composed by the model of \<open>replace\<close>), \<open>Marked_Lexer\<close> (block lexer), \<open>Marked_Inline\<close>
  (\<open>escape\<close>, \<open>unescape\<close>, \<open>resolveUrl\<close>, the renderer), \<open>Marked_InlineLexer\<close>, \<open>Marked_Parser\<close>. \<open>Marked_Lexer_Facts\<close>: both lexers
  return on every source; the tokens are the fringe of a forest of blocks. \<open>Marked_Parser_Facts\<close>: the parser
  computes the compositional rendering of that forest. \<open>Marked_Properties\<close>: the properties of the compiler.

  \<^bold>\<open>highlight.js.\<close> \<open>Hljs_Streams\<close> (\<open>nodeStream\<close>, \<open>mergeStreams\<close>; the merged markup is well nested and each character has
  exactly the elements of both markups around it), \<open>Hljs_Modes\<close> (grammars as a store of mode objects, \<open>compileLanguage\<close>,
  \<open>joinRe\<close>), \<open>Hljs_Highlight\<close> (\<open>highlight\<close> with embedded languages, \<open>highlightAuto\<close>, the registry), \<open>Hljs_Grammars\<close> (the common modes and
  JSON), \<open>Hljs_Languages_1\<close> to \<open>Hljs_Languages_9\<close> (165 further grammars of the bundle in the order of the source, one definition per
  exported function: each object literal is allocated by \<open>new\<close>, a literal that refers to itself gets its address first, a source that is
  \<open>null\<close> or \<open>false\<close> is the empty text, and the property \<open>exports\<close>, which no modelled function reads, is left out), \<open>Hljs_Block\<close> (\<open>highlightBlock\<close> and its helpers). \<open>Hljs_Highlight_Facts\<close> and \<open>Hljs_Properties\<close>: with a
  self-contained grammar highlighting returns balanced markup of exactly its text, whose spans have classes of the grammar; JSON is
  such a grammar, and language detection keeps the text too (locale \<open>text_keeping\<close>). \<open>Hljs_Html\<close>: what is
  relied on of the browser's HTML parser. \<open>Hljs_Block_Facts\<close>: the composition of all these, \<open>highlightBlock\<close> keeps the text
  and the elements of a block. \<open>Hljs_Store\<close>: a store of modes is closed when every mode refers to modes in it, and each grammar function
  extends a closed store to a closed store. \<open>Hljs_Closed\<close>: compiling a language and highlighting, embedded languages
  included, keep the store closed, so that no dangling reference is ever read. \<open>Hljs_Bundle\<close>: the registration of the bundle makes such a store, in
  which every registered name is found. \<open>Hljs_Total\<close>: five further grammars are self-contained, so that
  highlighting with them returns for every text.

  \<^bold>\<open>Views.\<close> \<open>Remark_Convert\<close> (\<open>convertMarkdown\<close>, which always returns, and the rest of the API), \<open>Remark_SlideView\<close> (classes, styles,
  lines and spans of code blocks, slide numbers, the style sheet). \<open>Theme\<close>: the handlers of \<^verbatim>\<open>theme.js\<close>.

  \<^bold>\<open>Errors and fuel.\<close> Code that throws returns a sum, with the error on the left; lookups in plain objects find the members of
  \<open>Object.prototype\<close>. Fuel bounds what is not structurally recursive: nested emissions (four are enough,
  \<open>dispatch_terminates\<close>), macros that return text to parse (two levels are enough for macros that do not call macros,
  \<open>parse_returns\<close>), the loops of marked (the fuel is computed from the source and always enough, \<open>marked_renders_blocks\<close>), the loop of
  \<open>highlight\<close> (four steps per character for a self-contained grammar, \<open>highlight_keeps_text\<close>). Running out of fuel is
  a value of its own, never a result.

  \<^bold>\<open>Outside the model.\<close> The browser: its HTML parser and serialiser are parameters (\<open>browser\<close>, \<open>html_dom\<close>), the random choices of
  \<open>mangle\<close> are a sequence. Code units above 255, hence \<open>smartypants\<close>, which writes such units. The scaling of slides and of
  background images and the font size of notes, which compute with floating point numbers (modules 24, 26, 27). The asynchronous
  callback of \<open>marked\<close>, which remark does not use. Nineteen grammars of highlight.js: five whose expressions hold
  code units beyond Latin-1 (1c, isbl, java, julia, swift), two that read the exports of another (arduino, sqf), eleven that build their modes with
  functions, indexing or mutation (crystal, erlang, gauss, kotlin, less, mercury, pgsql, reasonml, stylus, twig, yaml) and mathematica. The polyfills, the copying helper \<open>extend\<close>, the texts of resources and styles, the module
  loader. Third-party minified scripts; the C and OCaml programs of the repository.
\<close>

end
